(* ===== verification/Go_Prelude.thy ===== *)
theory Go_Prelude
  imports Main "HOL-Library.AList" "HOL-Library.Multiset"
begin

text \<open>
  Shared vocabulary of the development: how Go's errors, identifiers, clock readings and maps
  are represented, and the generic lemmas about them that the component theories use.

  \<^item> A \<^verbatim>\<open>uuid.UUID\<close> is identified with its canonical text, the 36 bytes \<^verbatim>\<open>String()\<close> returns.
    \<^verbatim>\<open>uuid.New()\<close> is an argument of the operation that calls it.
  \<^item> A \<^verbatim>\<open>time.Time\<close> is the number of nanoseconds since Go's zero time (so \<^verbatim>\<open>IsZero\<close> is \<open>= 0\<close>), a
    \<^verbatim>\<open>time.Duration\<close> a number of nanoseconds. \<^verbatim>\<open>time.Now()\<close> is an argument of the operation.
  \<^item> A Go map is an association list with distinct keys. Go leaves the iteration order of a map
    open; here it is the order of the list, and lemmas about iteration speak about sets,
    multisets or counts, which do not depend on it.
  \<^item> A call that can fail returns \<open>go_error + 'a\<close>, \<open>Inl\<close> being the error.
\<close>

named_theorems gomap_simps \<open>lookups in updated Go maps\<close>

section \<open>Identifiers, time, errors\<close>

type_synonym uuid = string
type_synonym go_time = int
type_synonym duration = int

definition uuid_Nil :: uuid where
  "uuid_Nil = ''00000000-0000-0000-0000-000000000000''"

abbreviation second :: duration where
  "second \<equiv> 1000000000"

abbreviation minute :: duration where
  "minute \<equiv> 60 * second"

text \<open>
  An error is a package-level sentinel (\<^verbatim>\<open>errors.New\<close> in a \<^verbatim>\<open>var\<close>), a fresh message, or a message
  that wraps another error with \<^verbatim>\<open>%w\<close>, with the text before and after it.
\<close>

datatype go_error =
    ErrVar string
  | ErrMsg string
  | ErrWrap string go_error string

type_synonym 'a result = "go_error + 'a"

text \<open>\<^verbatim>\<open>err.Error()\<close> and \<^verbatim>\<open>errors.Is(err, target)\<close> for a sentinel target.\<close>

fun error_text :: "go_error \<Rightarrow> string" where
  "error_text (ErrVar s) = s"
| "error_text (ErrMsg s) = s"
| "error_text (ErrWrap p e q) = p @ error_text e @ q"

fun errors_is :: "go_error \<Rightarrow> go_error \<Rightarrow> bool" where
  "errors_is (ErrWrap p e q) t = errors_is e t"
| "errors_is (ErrVar s) t = (t = ErrVar s)"
| "errors_is (ErrMsg s) t = False"

text \<open>The two results of a call that changes state: \<open>ok\<close> holds of a call that returned no error.\<close>

definition ok :: "'a result \<times> 's \<Rightarrow> bool" where
  "ok r \<longleftrightarrow> (case fst r of Inl _ \<Rightarrow> False | Inr _ \<Rightarrow> True)"

lemma ok_simps [simp]: "ok (Inr v, s)" "\<not> ok (Inl e, s)"
  by (simp_all add: ok_def)

lemma ok_iff: "ok r \<longleftrightarrow> (\<exists>v. fst r = Inr v)"
  by (auto simp: ok_def split: sum.splits)

section \<open>64-bit integers\<close>

text \<open>Go's \<^verbatim>\<open>int\<close> and \<^verbatim>\<open>int64\<close> arithmetic wraps at 64 bits; division truncates towards zero.\<close>

definition wrap64 :: "int \<Rightarrow> int" where
  "wrap64 x = (x + 2 ^ 63) mod 2 ^ 64 - 2 ^ 63"

definition go_div :: "int \<Rightarrow> int \<Rightarrow> int" where
  "go_div a b = sgn a * sgn b * (\<bar>a\<bar> div \<bar>b\<bar>)"

definition go_mod :: "int \<Rightarrow> int \<Rightarrow> int" where
  "go_mod a b = a - b * go_div a b"

lemma wrap64_id: "- (2 ^ 63) \<le> x \<Longrightarrow> x < 2 ^ 63 \<Longrightarrow> wrap64 x = x"
  by (simp add: wrap64_def)

lemma wrap64_over: "2 ^ 63 \<le> x \<Longrightarrow> x < 2 ^ 64 + 2 ^ 63 \<Longrightarrow> wrap64 x = x - 2 ^ 64"
  using mod_add_self2 [of "x - 2 ^ 63" "2 ^ 64 :: int"] by (simp add: wrap64_def algebra_simps)

lemma wrap64_bounds: "- (2 ^ 63) \<le> wrap64 x" "wrap64 x < 2 ^ 63"
proof -
  have "0 \<le> (x + 2 ^ 63) mod 2 ^ 64" and "(x + 2 ^ 63) mod 2 ^ 64 < (2 ^ 63 + 2 ^ 63 :: int)"
    by simp_all
  then show "- (2 ^ 63) \<le> wrap64 x" "wrap64 x < 2 ^ 63"
    unfolding wrap64_def by linarith+
qed

lemma go_div_nonneg: "0 \<le> a \<Longrightarrow> 0 < b \<Longrightarrow> go_div a b = a div b"
  by (cases "a = 0") (simp_all add: go_div_def)

lemma go_mod_nonneg: "0 \<le> a \<Longrightarrow> 0 < b \<Longrightarrow> go_mod a b = a mod b"
  by (simp add: go_mod_def go_div_nonneg minus_mult_div_eq_mod)

section \<open>Go maps\<close>

type_synonym ('k, 'v) gomap = "('k \<times> 'v) list"

definition gm_get :: "('k, 'v) gomap \<Rightarrow> 'k \<Rightarrow> 'v option" where
  "gm_get m k = map_of m k"

definition gm_put :: "'k \<Rightarrow> 'v \<Rightarrow> ('k, 'v) gomap \<Rightarrow> ('k, 'v) gomap" where
  "gm_put k v m = AList.update k v m"

definition gm_del :: "'k \<Rightarrow> ('k, 'v) gomap \<Rightarrow> ('k, 'v) gomap" where
  "gm_del k m = AList.delete k m"

definition gm_vals :: "('k, 'v) gomap \<Rightarrow> 'v list" where
  "gm_vals m = map snd m"

definition gm_ok :: "('k, 'v) gomap \<Rightarrow> bool" where
  "gm_ok m \<longleftrightarrow> distinct (map fst m)"

text \<open>Reading a missing key yields the zero value of the value type.\<close>

definition gm_get_or :: "'v \<Rightarrow> ('k, 'v) gomap \<Rightarrow> 'k \<Rightarrow> 'v" where
  "gm_get_or z m k = (case gm_get m k of None \<Rightarrow> z | Some v \<Rightarrow> v)"

lemma gm_get_empty [simp, gomap_simps]: "gm_get [] k = None"
  by (simp add: gm_get_def)

lemma gm_get_put [simp, gomap_simps]:
  "gm_get (gm_put k v m) k' = (if k' = k then Some v else gm_get m k')"
  by (simp add: gm_get_def gm_put_def update_conv)

lemma gm_get_del [simp, gomap_simps]:
  "gm_get (gm_del k m) k' = (if k' = k then None else gm_get m k')"
  by (simp add: gm_get_def gm_del_def delete_conv)

lemma gm_get_or_put [simp, gomap_simps]:
  "gm_get_or z (gm_put k v m) k' = (if k' = k then v else gm_get_or z m k')"
  by (simp add: gm_get_or_def)

lemma gm_ok_empty [simp]: "gm_ok []"
  by (simp add: gm_ok_def)

lemma gm_ok_put [simp]: "gm_ok m \<Longrightarrow> gm_ok (gm_put k v m)"
  by (simp add: gm_ok_def gm_put_def distinct_update)

lemma gm_ok_del [simp]: "gm_ok m \<Longrightarrow> gm_ok (gm_del k m)"
  by (simp add: gm_ok_def gm_del_def distinct_delete)

lemma gm_get_in: "gm_get m k = Some v \<Longrightarrow> (k, v) \<in> set m"
  by (simp add: gm_get_def map_of_SomeD)

lemma gm_in_get: "gm_ok m \<Longrightarrow> (k, v) \<in> set m \<Longrightarrow> gm_get m k = Some v"
  by (simp add: gm_get_def gm_ok_def)

lemma gm_in_iff: "gm_ok m \<Longrightarrow> (k, v) \<in> set m \<longleftrightarrow> gm_get m k = Some v"
  by (blast intro: gm_get_in gm_in_get)

lemma gm_vals_iff: "gm_ok m \<Longrightarrow> v \<in> set (gm_vals m) \<longleftrightarrow> (\<exists>k. gm_get m k = Some v)"
  by (force simp: gm_vals_def gm_in_iff [symmetric])

lemma gm_get_None_iff: "gm_get m k = None \<longleftrightarrow> k \<notin> fst ` set m"
  by (simp add: gm_get_def map_of_eq_None_iff)

subsection \<open>Iterating over a map with updates\<close>

text \<open>
  \<open>for k, v := range m { if P(k, v) { m[k] = f(v) } }\<close>: every entry is visited once and only the
  visited key is written, so the loop is a pointwise change of the values.
\<close>

definition gm_map :: "('k \<Rightarrow> 'v \<Rightarrow> 'v) \<Rightarrow> ('k, 'v) gomap \<Rightarrow> ('k, 'v) gomap" where
  "gm_map f m = map (\<lambda>(k, v). (k, f k v)) m"

text \<open>\<open>for k, v := range m { if P(k, v) { delete(m, k) } }\<close> keeps the entries that fail \<open>P\<close>.\<close>

definition gm_remove :: "('k \<Rightarrow> 'v \<Rightarrow> bool) \<Rightarrow> ('k, 'v) gomap \<Rightarrow> ('k, 'v) gomap" where
  "gm_remove P m = filter (\<lambda>(k, v). \<not> P k v) m"

lemma gm_get_map [simp, gomap_simps]: "gm_get (gm_map f m) k = map_option (f k) (gm_get m k)"
  by (induction m) (auto simp: gm_map_def gm_get_def)

lemma fst_gm_map: "map fst (gm_map f m) = map fst m"
  by (induction m) (auto simp: gm_map_def)

lemma gm_ok_map [simp]: "gm_ok (gm_map f m) \<longleftrightarrow> gm_ok m"
  by (simp add: gm_ok_def fst_gm_map)

lemma gm_get_remove [gomap_simps]:
  "gm_ok m \<Longrightarrow>
   gm_get (gm_remove P m) k =
     (case gm_get m k of None \<Rightarrow> None | Some v \<Rightarrow> if P k v then None else Some v)"
proof (induction m)
  case Nil
  then show ?case by (simp add: gm_remove_def)
next
  case (Cons a m)
  obtain k' v' where a: "a = (k', v')" by (cases a)
  from Cons.prems a have ok: "gm_ok m" and notin: "k' \<notin> fst ` set m"
    by (auto simp: gm_ok_def)
  have none: "gm_get m k' = None" using notin by (simp add: gm_get_None_iff)
  show ?case
    using Cons.IH [OF ok] a none
    by (auto simp: gm_remove_def gm_get_def split: option.splits)
qed

lemma gm_ok_remove [simp]: "gm_ok m \<Longrightarrow> gm_ok (gm_remove P m)"
  unfolding gm_ok_def gm_remove_def by (rule distinct_map_filter)

subsection \<open>Counting the values of a map\<close>

definition gm_count :: "('v \<Rightarrow> bool) \<Rightarrow> ('k, 'v) gomap \<Rightarrow> nat" where
  "gm_count P m = length (filter P (gm_vals m))"

lemma gm_count_empty [simp]: "gm_count P [] = 0"
  by (simp add: gm_count_def gm_vals_def)

lemma gm_count_Cons [simp]: "gm_count P ((k, v) # m) = of_bool (P v) + gm_count P m"
  by (simp add: gm_count_def gm_vals_def)

lemma gm_count_put:
  assumes "gm_ok m"
  shows "gm_count P (gm_put k v m) + (case gm_get m k of None \<Rightarrow> 0 | Some w \<Rightarrow> of_bool (P w))
         = gm_count P m + of_bool (P v)"
  using assms
proof (induction m)
  case Nil
  then show ?case by (simp add: gm_put_def)
next
  case (Cons a m)
  obtain k' v' where a: "a = (k', v')" by (cases a)
  from Cons.prems have "gm_ok m" by (simp add: gm_ok_def)
  note IH = Cons.IH [OF this]
  show ?case
    using IH a by (cases "k' = k") (auto simp: gm_put_def gm_get_def)
qed

lemma gm_count_put_new:
  "gm_ok m \<Longrightarrow> gm_get m k = None \<Longrightarrow> gm_count P (gm_put k v m) = gm_count P m + of_bool (P v)"
  using gm_count_put [of m P k v] by simp

lemma gm_count_put_old:
  "gm_ok m \<Longrightarrow> gm_get m k = Some w \<Longrightarrow>
   gm_count P (gm_put k v m) + of_bool (P w) = gm_count P m + of_bool (P v)"
  using gm_count_put [of m P k v] by simp

lemma gm_count_put_same:
  assumes "gm_ok m" and "gm_get m k = Some w" and "P v \<longleftrightarrow> P w"
  shows "gm_count P (gm_put k v m) = gm_count P m"
  using gm_count_put_old [OF assms(1,2), of P v] assms(3) by simp

lemma gm_count_pos: "gm_count P m > 0 \<longleftrightarrow> (\<exists>v\<in>set (gm_vals m). P v)"
  by (auto simp: gm_count_def filter_empty_conv length_greater_0_conv)

lemma gm_count_zero: "gm_count P m = 0 \<longleftrightarrow> (\<forall>v\<in>set (gm_vals m). \<not> P v)"
  using gm_count_pos [of P m] by auto

lemma gm_count_get:
  "gm_ok m \<Longrightarrow> gm_get m k = Some v \<Longrightarrow> P v \<Longrightarrow> gm_count P m > 0"
  using gm_vals_iff [of m v] by (auto simp: gm_count_pos)

lemma gm_count_remove:
  assumes "\<And>k v. Q k v \<Longrightarrow> \<not> P v"
  shows "gm_count P (gm_remove Q m) = gm_count P m"
  using assms by (induction m) (auto simp: gm_remove_def)

lemma gm_count_map_zero:
  assumes "\<And>k v. \<not> P (f k v)"
  shows "gm_count P (gm_map f m) = 0"
  using assms by (induction m) (auto simp: gm_map_def)

lemma gm_count_map_same:
  assumes "\<And>k v. P (f k v) \<longleftrightarrow> P v"
  shows "gm_count P (gm_map f m) = gm_count P m"
  using assms by (induction m) (auto simp: gm_map_def)

text \<open>Counting does not depend on the order in which the entries are visited.\<close>

lemma gm_count_perm: "mset m = mset m' \<Longrightarrow> gm_count P m = gm_count P m'"
proof -
  assume "mset m = mset m'"
  then have "mset (map snd m) = mset (map snd m')" by simp
  then have "size (filter_mset P (mset (map snd m))) = size (filter_mset P (mset (map snd m')))"
    by simp
  then show ?thesis
    unfolding gm_count_def gm_vals_def by (simp only: mset_filter [symmetric] size_mset)
qed

section \<open>Lists\<close>

lemma find_snoc:
  "find P (xs @ [x]) =
     (case find P xs of None \<Rightarrow> if P x then Some x else None | Some y \<Rightarrow> Some y)"
  by (induction xs) auto

text \<open>The first element of a list sorted by \<open>f\<close> has the least \<open>f\<close>.\<close>

lemma hd_sort_key_le: "y \<in> set xs \<Longrightarrow> f (hd (sort_key f xs)) \<le> f y"
proof -
  assume y: "y \<in> set xs"
  then have ne: "sort_key f xs \<noteq> []" by (metis empty_iff empty_set set_sort)
  have s: "sorted (map f (sort_key f xs))" by simp
  from y have "y \<in> set (sort_key f xs)" by simp
  with s ne show ?thesis
    by (cases "sort_key f xs") auto
qed

lemma hd_sort_key_in: "xs \<noteq> [] \<Longrightarrow> hd (sort_key f xs) \<in> set xs"
proof -
  assume "xs \<noteq> []"
  then have "sort_key f xs \<noteq> []" by (metis set_empty set_sort)
  then have "hd (sort_key f xs) \<in> set (sort_key f xs)" by (rule hd_in_set)
  then show ?thesis by (simp only: set_sort)
qed

end
