(* ===== verification/Statemachine.thy ===== *)
theory Statemachine
  imports Go_Prelude
begin

text \<open>
  The generic transition engine of \<^verbatim>\<open>src/platform/statemachine/statemachine.go\<close>: the machine with
  its transition table, the \<^verbatim>\<open>Transition\<close> operation over an abstract \<^verbatim>\<open>Store\<close>, and the in-memory
  store. A Go interface value is a record of functions over the store's state, and the promises of
  the interface are the locale \<open>sm_store_spec\<close>, interpreted on \<open>MemoryStore\<close>.

  \<^verbatim>\<open>%v\<close> formatting of states, events and payload values is a parameter, \<open>fmtv\<close>. Subscribers are
  identified by the values of a type \<open>'sub\<close>; a transition returns the calls it makes to them.
\<close>

section \<open>Data\<close>

definition ErrNoTransition :: go_error where
  "ErrNoTransition = ErrVar ''statemachine: no transition for current state + event''"

definition ErrGuardRejected :: go_error where
  "ErrGuardRejected = ErrVar ''statemachine: guard rejected transition''"

definition ErrInstanceNotFound :: go_error where
  "ErrInstanceNotFound = ErrVar ''statemachine: instance not found''"

text \<open>The dynamic type of a payload of Go type \<^verbatim>\<open>any\<close>, as far as \<^verbatim>\<open>coerceStringMap\<close> distinguishes it.\<close>

datatype 'v payload =
    PNil
  | PStringMap "(string, string) gomap"
  | PAnyMap "(string, 'v) gomap"
  | POther 'v

record ('s, 'e, 'v) transition =
  tr_From :: 's
  tr_Event :: 'e
  tr_To :: 's
  tr_Guard :: "('v payload \<Rightarrow> go_error option) option"

record ('s, 'e) history_entry =
  he_InstanceID :: string
  he_From :: 's
  he_To :: 's
  he_Event :: 'e
  he_Timestamp :: go_time
  he_Reason :: string
  he_Payload :: "(string, string) gomap option"

record ('s, 'e, 'v, 'sub) machine =
  m_initial :: 's
  m_transitions :: "('s \<times> 'e, ('s, 'e, 'v) transition) gomap"
  m_subscribers :: "'sub list"

text \<open>The \<^verbatim>\<open>Store\<close> interface: its three methods over a store state \<open>'st\<close>.\<close>

record ('st, 's, 'e) sm_store =
  st_Get :: "'st \<Rightarrow> string \<Rightarrow> ('s \<times> ('s, 'e) history_entry list) result"
  st_Save :: "'st \<Rightarrow> string \<Rightarrow> 's \<Rightarrow> ('s, 'e) history_entry \<Rightarrow> go_error option \<times> 'st"
  st_History :: "'st \<Rightarrow> string \<Rightarrow> ('s, 'e) history_entry list result"

record ('s, 'e, 'v) fmtv =
  fmt_state :: "'s \<Rightarrow> string"
  fmt_event :: "'e \<Rightarrow> string"
  fmt_any :: "'v \<Rightarrow> string"

section \<open>Operations\<close>

definition Machine_New :: "'s \<Rightarrow> ('s, 'e, 'v) transition list \<Rightarrow> ('s, 'e, 'v, 'sub) machine" where
  "Machine_New initial transitions =
     \<lparr>m_initial = initial,
      m_transitions = fold (\<lambda>t tm. gm_put (tr_From t, tr_Event t) t tm) transitions [],
      m_subscribers = []\<rparr>"

definition Machine_Subscribe ::
  "('s, 'e, 'v, 'sub) machine \<Rightarrow> 'sub option \<Rightarrow> ('s, 'e, 'v, 'sub) machine" where
  "Machine_Subscribe m fn =
     (case fn of None \<Rightarrow> m | Some f \<Rightarrow> m\<lparr>m_subscribers := m_subscribers m @ [f]\<rparr>)"

definition Machine_notify ::
  "('s, 'e, 'v, 'sub) machine \<Rightarrow> ('s, 'e) history_entry \<Rightarrow> ('sub \<times> ('s, 'e) history_entry) list" where
  "Machine_notify m entry = map (\<lambda>sub. (sub, entry)) (m_subscribers m)"

definition coerceStringMap ::
  "('v \<Rightarrow> string) \<Rightarrow> 'v payload \<Rightarrow> (string, string) gomap option" where
  "coerceStringMap sprint p =
     (case p of
        PNil \<Rightarrow> None
      | PStringMap m \<Rightarrow> Some (map (\<lambda>(k, v). (k, v)) m)
      | PAnyMap m \<Rightarrow> Some (map (\<lambda>(k, v). (k, sprint v)) m)
      | POther v \<Rightarrow> Some [(''payload'', sprint v)])"

text \<open>
  \<open>Transition\<close> returns the pair Go returns (the state, and the error if any), the store after the
  call and the notifications sent. \<open>zero\<close> is the zero value of the state type.
\<close>

definition Machine_Transition ::
  "('s, 'e, 'v) fmtv \<Rightarrow> 's \<Rightarrow> ('s, 'e, 'v, 'sub) machine \<Rightarrow> ('st, 's, 'e) sm_store \<Rightarrow> go_time \<Rightarrow> 'st
   \<Rightarrow> string \<Rightarrow> 'e \<Rightarrow> 'v payload
   \<Rightarrow> ('s \<times> go_error option) \<times> 'st \<times> ('sub \<times> ('s, 'e) history_entry) list" where
  "Machine_Transition fm zero m store now st instanceID event payload =
     (let got = (case st_Get store st instanceID of
                   Inr (s, _) \<Rightarrow> Inr s
                 | Inl err \<Rightarrow>
                     if \<not> errors_is err ErrInstanceNotFound then Inl err else Inr (m_initial m))
      in case got of
           Inl err \<Rightarrow> ((zero, Some err), st, [])
         | Inr cur \<Rightarrow>
             (case gm_get (m_transitions m) (cur, event) of
                None \<Rightarrow>
                  ((cur, Some (ErrWrap [] ErrNoTransition
                     ('': state='' @ fmt_state fm cur @ '' event='' @ fmt_event fm event))), st, [])
              | Some t \<Rightarrow>
                  (case (case tr_Guard t of None \<Rightarrow> None | Some g \<Rightarrow> g payload) of
                     Some guardErr \<Rightarrow>
                       ((cur, Some (ErrWrap [] ErrGuardRejected ('': '' @ error_text guardErr))), st, [])
                   | None \<Rightarrow>
                       let entry = \<lparr>he_InstanceID = instanceID, he_From = cur, he_To = tr_To t,
                                    he_Event = event, he_Timestamp = now, he_Reason = [],
                                    he_Payload = coerceStringMap (fmt_any fm) payload\<rparr>
                       in (case st_Save store st instanceID (tr_To t) entry of
                             (Some err, st') \<Rightarrow>
                               ((cur, Some (ErrWrap ''statemachine: save: '' err [])), st', [])
                           | (None, st') \<Rightarrow>
                               ((tr_To t, None), st', Machine_notify m entry)))))"

section \<open>The in-memory store\<close>

record ('s, 'e) sm_memory =
  ms_states :: "(string, 's) gomap"
  ms_histories :: "(string, ('s, 'e) history_entry list) gomap"

definition sm_NewMemoryStore :: "('s, 'e) sm_memory" where
  "sm_NewMemoryStore = \<lparr>ms_states = [], ms_histories = []\<rparr>"

definition sm_MemoryStore_Get ::
  "('s, 'e) sm_memory \<Rightarrow> string \<Rightarrow> ('s \<times> ('s, 'e) history_entry list) result" where
  "sm_MemoryStore_Get s i =
     (case gm_get (ms_states s) i of
        None \<Rightarrow> Inl ErrInstanceNotFound
      | Some state \<Rightarrow> Inr (state, gm_get_or [] (ms_histories s) i))"

definition sm_MemoryStore_Save ::
  "('s, 'e) sm_memory \<Rightarrow> string \<Rightarrow> 's \<Rightarrow> ('s, 'e) history_entry \<Rightarrow> go_error option \<times> ('s, 'e) sm_memory" where
  "sm_MemoryStore_Save s i state entry =
     (None,
      s\<lparr>ms_states := gm_put i state (ms_states s),
        ms_histories := gm_put i (gm_get_or [] (ms_histories s) i @ [entry]) (ms_histories s)\<rparr>)"

definition sm_MemoryStore_History ::
  "('s, 'e) sm_memory \<Rightarrow> string \<Rightarrow> ('s, 'e) history_entry list result" where
  "sm_MemoryStore_History s i = Inr (gm_get_or [] (ms_histories s) i)"

definition sm_MemoryStore :: "(('s, 'e) sm_memory, 's, 'e) sm_store" where
  "sm_MemoryStore =
     \<lparr>st_Get = sm_MemoryStore_Get, st_Save = sm_MemoryStore_Save, st_History = sm_MemoryStore_History\<rparr>"

section \<open>What a history must look like\<close>

text \<open>
  \<open>chain s hs t\<close>: the entries of \<open>hs\<close> lead from state \<open>s\<close> to state \<open>t\<close>, each starting where the one
  before it ended. \<open>legal_entry\<close>: an entry is a row of the transition table.
\<close>

fun chain :: "'s \<Rightarrow> ('s, 'e) history_entry list \<Rightarrow> 's \<Rightarrow> bool" where
  "chain s [] t \<longleftrightarrow> s = t"
| "chain s (h # hs) t \<longleftrightarrow> he_From h = s \<and> chain (he_To h) hs t"

definition legal_entry :: "('s, 'e, 'v, 'sub) machine \<Rightarrow> ('s, 'e) history_entry \<Rightarrow> bool" where
  "legal_entry m h \<longleftrightarrow>
     (case gm_get (m_transitions m) (he_From h, he_Event h) of
        None \<Rightarrow> False
      | Some t \<Rightarrow> he_To h = tr_To t)"

definition replays ::
  "('s, 'e, 'v, 'sub) machine \<Rightarrow> string \<Rightarrow> 's option \<Rightarrow> ('s, 'e) history_entry list \<Rightarrow> bool" where
  "replays m i cur hs \<longleftrightarrow>
     chain (m_initial m) hs (case cur of None \<Rightarrow> m_initial m | Some s \<Rightarrow> s) \<and>
     (\<forall>h\<in>set hs. legal_entry m h \<and> he_InstanceID h = i) \<and>
     (cur = None \<longrightarrow> hs = [])"

lemma chain_append: "chain s (hs @ hs') t \<longleftrightarrow> (\<exists>u. chain s hs u \<and> chain u hs' t)"
  by (induction hs arbitrary: s) auto

lemma replays_snoc:
  assumes "replays m i cur hs"
    and "gm_get (m_transitions m) (case cur of None \<Rightarrow> m_initial m | Some s \<Rightarrow> s, he_Event h) = Some t"
    and "he_From h = (case cur of None \<Rightarrow> m_initial m | Some s \<Rightarrow> s)"
    and "he_To h = tr_To t" and "he_InstanceID h = i"
  shows "replays m i (Some (tr_To t)) (hs @ [h])"
  using assms by (auto simp: replays_def chain_append legal_entry_def)

section \<open>The interface of a store\<close>

text \<open>
  What the machine relies on: \<open>cur\<close> and \<open>hist\<close> abstract the store to the current state and the history
  of every instance; a missing instance is reported with \<open>ErrInstanceNotFound\<close>; a save that reports no
  error replaces the state and appends the entry, one that reports an error changes nothing.
\<close>

locale sm_store_spec =
  fixes S :: "('st, 's, 'e) sm_store"
    and inv :: "'st \<Rightarrow> bool"
    and cur :: "'st \<Rightarrow> string \<Rightarrow> 's option"
    and hist :: "'st \<Rightarrow> string \<Rightarrow> ('s, 'e) history_entry list"
  assumes get_spec: "inv st \<Longrightarrow> st_Get S st i =
      (case cur st i of None \<Rightarrow> Inl ErrInstanceNotFound | Some s \<Rightarrow> Inr (s, hist st i))"
    and save_ok: "inv st \<Longrightarrow> st_Save S st i s h = (None, st') \<Longrightarrow>
      inv st' \<and> cur st' = (cur st)(i \<mapsto> s) \<and> hist st' = (hist st)(i := hist st i @ [h])"
    and save_err: "inv st \<Longrightarrow> st_Save S st i s h = (Some e, st') \<Longrightarrow> st' = st"
    and history_spec: "inv st \<Longrightarrow> st_History S st i = Inr (hist st i)"
begin

text \<open>The state an instance is in: its stored state, or the initial state of the machine.\<close>

definition state_of :: "('s, 'e, 'v, 'sub) machine \<Rightarrow> 'st \<Rightarrow> string \<Rightarrow> 's" where
  "state_of m st i = (case cur st i of None \<Rightarrow> m_initial m | Some s \<Rightarrow> s)"

lemma get_state:
  assumes "inv st"
  shows "(case st_Get S st i of
            Inr (s, _) \<Rightarrow> Inr s
          | Inl err \<Rightarrow> if \<not> errors_is err ErrInstanceNotFound then Inl err else Inr (m_initial m))
         = Inr (state_of m st i)"
  using assms by (auto simp: get_spec state_of_def ErrInstanceNotFound_def split: option.splits)

lemma transition_cases:
  assumes "inv st" and "Machine_Transition fm z m S now st i ev p = ((s, err), st', ns)"
  obtains (no_transition) "gm_get (m_transitions m) (state_of m st i, ev) = None"
      "s = state_of m st i" "st' = st" "ns = []" "\<exists>e. err = Some e \<and> errors_is e ErrNoTransition"
  | (guard) t g ge where "gm_get (m_transitions m) (state_of m st i, ev) = Some t"
      "tr_Guard t = Some g" "g p = Some ge" "s = state_of m st i" "st' = st" "ns = []"
      "\<exists>e. err = Some e \<and> errors_is e ErrGuardRejected"
  | (save_failed) e where "s = state_of m st i" "st' = st" "ns = []" "err = Some e"
  | (moved) t h where "gm_get (m_transitions m) (state_of m st i, ev) = Some t"
      "\<forall>g. tr_Guard t = Some g \<longrightarrow> g p = None"
      "s = tr_To t" "err = None" "inv st'" "cur st' = (cur st)(i \<mapsto> tr_To t)"
      "hist st' = (hist st)(i := hist st i @ [h])" "ns = map (\<lambda>sub. (sub, h)) (m_subscribers m)"
      "he_From h = state_of m st i" "he_To h = tr_To t" "he_Event h = ev"
      "he_InstanceID h = i" "he_Timestamp h = now"
proof (cases "gm_get (m_transitions m) (state_of m st i, ev)")
  case None
  then show ?thesis
    using assms(2) by (intro no_transition)
      (auto simp: Machine_Transition_def get_state [OF assms(1)] ErrNoTransition_def)
next
  case (Some t)
  show ?thesis
  proof (cases "case tr_Guard t of None \<Rightarrow> None | Some g \<Rightarrow> g p")
    case (Some ge)
    then obtain g where "tr_Guard t = Some g" "g p = Some ge" by (auto split: option.splits)
    with \<open>gm_get _ _ = Some t\<close> show ?thesis
      using assms(2) by (intro guard [of t g ge])
        (auto simp: Machine_Transition_def get_state [OF assms(1)] ErrGuardRejected_def)
  next
    case None
    define h where "h = \<lparr>he_InstanceID = i, he_From = state_of m st i, he_To = tr_To t,
      he_Event = ev, he_Timestamp = now, he_Reason = [], he_Payload = coerceStringMap (fmt_any fm) p\<rparr>"
    have eq: "Machine_Transition fm z m S now st i ev p =
      (case st_Save S st i (tr_To t) h of
         (Some e, st') \<Rightarrow> ((state_of m st i, Some (ErrWrap ''statemachine: save: '' e [])), st', [])
       | (None, st') \<Rightarrow> ((tr_To t, None), st', Machine_notify m h))"
      unfolding h_def using Some None
      by (simp add: Machine_Transition_def get_state [OF assms(1)] Let_def)
    obtain r st2 where save: "st_Save S st i (tr_To t) h = (r, st2)" by force
    show ?thesis
    proof (cases r)
      case (Some e)
      with save have "st2 = st" using assms(1) save_err by blast
      with Some save eq assms(2) show ?thesis by (intro save_failed) auto
    next
      case None
      with save have "inv st2 \<and> cur st2 = (cur st)(i \<mapsto> tr_To t) \<and>
          hist st2 = (hist st)(i := hist st i @ [h])"
        using assms(1) save_ok by blast
      with None save eq assms(2) \<open>gm_get _ _ = Some t\<close>
        \<open>(case tr_Guard t of None \<Rightarrow> None | Some g \<Rightarrow> g p) = None\<close> show ?thesis
        by (intro moved [of t h]) (auto simp: Machine_notify_def h_def split: option.splits)
    qed
  qed
qed

text \<open>A failing transition changes neither the store nor tells anyone.\<close>

lemma transition_error_no_effect:
  assumes "inv st" and "Machine_Transition fm z m S now st i ev p = ((s, Some e), st', ns)"
  shows "st' = st \<and> ns = [] \<and> s = state_of m st i"
  using assms by (cases rule: transition_cases) auto

lemma transition_inv:
  assumes "inv st" and "Machine_Transition fm z m S now st i ev p = ((s, err), st', ns)"
  shows "inv st'"
  using assms by (cases rule: transition_cases) (auto simp: assms)

text \<open>Every instance's history replays to its state, whichever instance moves.\<close>

lemma transition_replays:
  assumes "inv st" and "\<forall>j. replays m j (cur st j) (hist st j)"
    and "Machine_Transition fm z m S now st i ev p = ((s, err), st', ns)"
  shows "\<forall>j. replays m j (cur st' j) (hist st' j)"
  using assms(1,3)
proof (cases rule: transition_cases)
  case (moved t h)
  have "replays m i (Some (tr_To t)) (hist st i @ [h])"
    using assms(2) moved by (intro replays_snoc) (auto simp: state_of_def)
  with moved assms(2) show ?thesis by simp
qed (use assms(2) in simp_all)

end

section \<open>The in-memory store keeps the promises\<close>

definition sm_mem_cur :: "('s, 'e) sm_memory \<Rightarrow> string \<Rightarrow> 's option" where
  "sm_mem_cur s = gm_get (ms_states s)"

definition sm_mem_hist :: "('s, 'e) sm_memory \<Rightarrow> string \<Rightarrow> ('s, 'e) history_entry list" where
  "sm_mem_hist s = gm_get_or [] (ms_histories s)"

lemmas sm_mem_defs = sm_MemoryStore_def sm_MemoryStore_Get_def sm_MemoryStore_Save_def
  sm_MemoryStore_History_def sm_mem_cur_def sm_mem_hist_def

interpretation mem: sm_store_spec sm_MemoryStore "\<lambda>_. True" sm_mem_cur sm_mem_hist
  by unfold_locales (auto simp: sm_mem_defs fun_eq_iff split: option.splits)

text \<open>
  A store that several callers drive: each step is one call of \<open>Transition\<close>, on any instance, with any
  event, payload, formatting and clock reading.
\<close>

inductive sm_reachable :: "('s, 'e, 'v, 'sub) machine \<Rightarrow> ('s, 'e) sm_memory \<Rightarrow> bool"
  for m :: "('s, 'e, 'v, 'sub) machine" where
  sm_start: "sm_reachable m sm_NewMemoryStore"
| sm_step: "sm_reachable m st \<Longrightarrow>
     sm_reachable m (fst (snd (Machine_Transition fm z m sm_MemoryStore now st i ev p)))"

lemma sm_reachable_replays: "sm_reachable m st \<Longrightarrow> \<forall>j. replays m j (sm_mem_cur st j) (sm_mem_hist st j)"
proof (induction rule: sm_reachable.induct)
  case sm_start
  show ?case
    by (simp add: sm_NewMemoryStore_def sm_mem_cur_def sm_mem_hist_def gm_get_or_def replays_def)
next
  case (sm_step st fm z now i ev p)
  obtain s err st' ns where
    eq: "Machine_Transition fm z m sm_MemoryStore now st i ev p = ((s, err), st', ns)"
    by (metis prod.collapse)
  show ?case
    using mem.transition_replays [OF TrueI sm_step.IH eq] eq by simp
qed

text \<open>The transition table keeps, for each state and event, the transition listed last.\<close>

lemma fold_put_last:
  "gm_get (fold (\<lambda>t tm. gm_put (f t) t tm) ts acc) k =
     (case find (\<lambda>t. f t = k) (rev ts) of None \<Rightarrow> gm_get acc k | Some t \<Rightarrow> Some t)"
proof (induction ts arbitrary: acc)
  case Nil
  then show ?case by simp
next
  case (Cons t ts)
  show ?case
    using Cons.IH [of "gm_put (f t) t acc"] by (auto simp: find_snoc split: option.splits)
qed

section \<open>Properties\<close>


text \<open>A two-state door for the witnesses.\<close>

definition door :: "(bool, string, nat, nat) machine" where
  "door = Machine_Subscribe (Machine_New False
     [\<lparr>tr_From = False, tr_Event = ''open'', tr_To = True, tr_Guard = None\<rparr>,
      \<lparr>tr_From = True, tr_Event = ''close'', tr_To = False,
       tr_Guard = Some (\<lambda>p. case p of POther n \<Rightarrow> (if n = 0 then None else Some (ErrMsg ''locked'')) | _ \<Rightarrow> None)\<rparr>])
     (Some 7)"

definition door_fmt :: "(bool, string, nat) fmtv" where
  "door_fmt = \<lparr>fmt_state = (\<lambda>b. if b then ''open'' else ''shut''), fmt_event = id, fmt_any = (\<lambda>_. ''n'')\<rparr>"

definition door_opened :: "(bool, string) sm_memory" where
  "door_opened = fst (snd (Machine_Transition door_fmt False door sm_MemoryStore 5 sm_NewMemoryStore ''d'' ''open'' PNil))"

lemma door_opened_reachable: "sm_reachable door door_opened"
  unfolding door_opened_def by (rule sm_reachable.sm_step [OF sm_reachable.sm_start])

lemmas door_eval = door_opened_def door_def door_fmt_def Machine_New_def Machine_Subscribe_def
  Machine_Transition_def sm_mem_defs sm_NewMemoryStore_def Machine_notify_def coerceStringMap_def
  gm_get_or_def gm_get_def gm_put_def ErrInstanceNotFound_def Let_def


text \<open>
  A call of \<open>Transition\<close> that reports an error, because no transition matches, because the guard
  rejects or for any other reason, leaves the store exactly as it was and notifies no subscriber; the
  state it returns is the instance's unchanged state.
\<close>

lemma sm_failed_transition_no_effect:
  assumes "Machine_Transition fm z m sm_MemoryStore now st i ev p = ((s, Some e), st', ns)"
  shows "st' = st \<and> ns = [] \<and>
         s = (case gm_get (ms_states st) i of None \<Rightarrow> m_initial m | Some c \<Rightarrow> c)"
  using mem.transition_error_no_effect [OF TrueI assms] by (simp add: mem.state_of_def sm_mem_cur_def)

theorem sm_failed_transition_no_effect_witness:
  "\<exists>e. Machine_Transition door_fmt False door sm_MemoryStore 6 door_opened ''d'' ''close'' (POther 1)
         = ((True, Some e), door_opened, [])"
proof -
  obtain s e st' ns where eq:
    "Machine_Transition door_fmt False door sm_MemoryStore 6 door_opened ''d'' ''close'' (POther 1)
       = ((s, Some e), st', ns)"
    by (simp add: door_eval)
  have "gm_get (ms_states door_opened) ''d'' = Some True" by (simp add: door_eval)
  with sm_failed_transition_no_effect [OF eq] eq show ?thesis by simp
qed

text \<open>
  A transition whose guard accepts (or that has none) succeeds: the instance moves to the target
  state, its history grows by exactly one entry that records the move and the clock reading, every
  subscriber is told once with that entry, in subscription order, and no other instance changes.
\<close>

lemma sm_successful_transition:
  assumes "gm_get (m_transitions m) (case gm_get (ms_states st) i of None \<Rightarrow> m_initial m | Some c \<Rightarrow> c, ev) = Some t"
    and "\<And>g. tr_Guard t = Some g \<Longrightarrow> g p = None"
  shows "\<exists>h st'. Machine_Transition fm z m sm_MemoryStore now st i ev p
           = ((tr_To t, None), st', map (\<lambda>sub. (sub, h)) (m_subscribers m)) \<and>
         he_InstanceID h = i \<and> he_Event h = ev \<and> he_To h = tr_To t \<and> he_Timestamp h = now \<and>
         gm_get (ms_states st') i = Some (tr_To t) \<and>
         gm_get_or [] (ms_histories st') i = gm_get_or [] (ms_histories st) i @ [h] \<and>
         (\<forall>j. j \<noteq> i \<longrightarrow> gm_get (ms_states st') j = gm_get (ms_states st) j \<and>
                        gm_get_or [] (ms_histories st') j = gm_get_or [] (ms_histories st) j)"
proof -
  obtain s err st' ns where eq: "Machine_Transition fm z m sm_MemoryStore now st i ev p = ((s, err), st', ns)"
    by (metis prod.collapse)
  have sv: "mem.state_of m st i = (case gm_get (ms_states st) i of None \<Rightarrow> m_initial m | Some c \<Rightarrow> c)"
    by (simp add: mem.state_of_def sm_mem_cur_def)
  have no_err: "err = None"
    using eq assms unfolding Machine_Transition_def mem.get_state [OF TrueI] sv
    by (auto simp: sm_mem_defs Let_def split: option.splits)
  from TrueI eq show ?thesis
  proof (cases rule: mem.transition_cases)
    case (moved t' h)
    with assms(1) sv have "t' = t" by simp
    with moved eq show ?thesis
      by (intro exI [of _ h] exI [of _ st']) (auto simp: sm_mem_cur_def sm_mem_hist_def fun_eq_iff)
  qed (use no_err in auto)
qed

theorem sm_successful_transition_witness:
  "\<exists>h st'. Machine_Transition door_fmt False door sm_MemoryStore 6 door_opened ''d'' ''close'' (POther 0)
      = ((False, None), st', [(7, h)]) \<and> he_Timestamp h = 6"
proof -
  define t where "t = \<lparr>tr_From = True, tr_Event = ''close'', tr_To = False,
       tr_Guard = Some (\<lambda>p. case p of POther n \<Rightarrow> (if n = (0::nat) then None else Some (ErrMsg ''locked'')) | _ \<Rightarrow> None)\<rparr>"
  have 1: "gm_get (m_transitions door)
      (case gm_get (ms_states door_opened) ''d'' of None \<Rightarrow> m_initial door | Some c \<Rightarrow> c, ''close'') = Some t"
    by (simp add: door_eval t_def)
  have 2: "g (POther 0) = None" if "tr_Guard t = Some g" for g
    using that by (auto simp: t_def)
  have 3: "m_subscribers door = [7]" "tr_To t = False" by (simp_all add: door_eval t_def)
  show ?thesis
    using sm_successful_transition [OF 1 2, where fm = door_fmt and z = False and now = 6] 3 by force
qed

text \<open>
  When \<open>New\<close> is given several transitions for the same state and event, the table holds the one that
  comes last in the list, and nothing for a pair no transition names.
\<close>

lemma sm_new_last_transition_wins:
  "gm_get (m_transitions (Machine_New s0 ts)) (s, ev) =
     find (\<lambda>t. tr_From t = s \<and> tr_Event t = ev) (rev ts)"
  using fold_put_last [of "\<lambda>t. (tr_From t, tr_Event t)" ts "[]" "(s, ev)"]
  by (auto simp: Machine_New_def split: option.splits)

end
