(* ===== verification/Jobs.thy ===== *)
theory Jobs
  imports Go_Prelude "HOL-Library.Product_Lexorder"
begin

text \<open>
  The background-job queue of \<^verbatim>\<open>src/platform/jobs\<close>: the producer \<^verbatim>\<open>Queue\<close> (\<^verbatim>\<open>jobs.go\<close>), the in-memory
  store (\<^verbatim>\<open>memory_store.go\<close>) and the worker (\<^verbatim>\<open>worker.go\<close>). The \<^verbatim>\<open>Store\<close> interface is a record of
  functions; what the worker needs of it is the locale \<open>jobs_store_spec\<close>. Concurrent workers are the
  step relation \<open>jobs_step\<close>: a state is the store together with the jobs that goroutines are executing.

  Payloads are their JSON text; \<^verbatim>\<open>json.Marshal\<close> of a payload is the parameter \<open>marshal\<close>. A handler is a
  function from the payload to an outcome (no error, an error, a panic).
\<close>

section \<open>Data\<close>

definition StatusPending :: string where "StatusPending = ''pending''"
definition StatusRunning :: string where "StatusRunning = ''running''"
definition StatusCompleted :: string where "StatusCompleted = ''completed''"
definition StatusFailed :: string where "StatusFailed = ''failed''"
definition StatusDead :: string where "StatusDead = ''dead''"

lemmas status_defs = StatusPending_def StatusRunning_def StatusCompleted_def StatusFailed_def StatusDead_def

definition PriorityNormal :: int where "PriorityNormal = 0"
definition PriorityHigh :: int where "PriorityHigh = 1"
definition DefaultMaxRetries :: int where "DefaultMaxRetries = 3"

record job =
  j_ID :: string
  j_Type :: string
  j_Payload :: string
  j_Priority :: int
  j_MaxRetries :: int
  j_Attempts :: int
  j_Status :: string
  j_Error :: string
  j_LockedBy :: string
  j_LockedAt :: "go_time option"
  j_ScheduledAt :: "go_time option"
  j_CompletedAt :: "go_time option"
  j_CreatedAt :: go_time

text \<open>The \<^verbatim>\<open>Store\<close> interface; methods that read the clock take the reading as an argument.\<close>

record 'st jobs_store =
  js_Enqueue :: "'st \<Rightarrow> job \<Rightarrow> go_error option \<times> 'st"
  js_Dequeue :: "'st \<Rightarrow> go_time \<Rightarrow> string list \<Rightarrow> string \<Rightarrow> job option result \<times> 'st"
  js_Complete :: "'st \<Rightarrow> go_time \<Rightarrow> string \<Rightarrow> go_error option \<times> 'st"
  js_Fail :: "'st \<Rightarrow> string \<Rightarrow> string \<Rightarrow> go_error option \<times> 'st"
  js_Retry :: "'st \<Rightarrow> string \<Rightarrow> go_time \<Rightarrow> go_error option \<times> 'st"
  js_MarkDead :: "'st \<Rightarrow> string \<Rightarrow> string \<Rightarrow> go_error option \<times> 'st"
  js_Heartbeat :: "'st \<Rightarrow> go_time \<Rightarrow> string \<Rightarrow> string \<Rightarrow> go_error option \<times> 'st"
  js_ListJobs :: "'st \<Rightarrow> string \<Rightarrow> int \<Rightarrow> job list result"

section \<open>The producer\<close>

definition Queue_enqueue ::
  "('p \<Rightarrow> string result) \<Rightarrow> 'st jobs_store \<Rightarrow> uuid \<Rightarrow> go_time \<Rightarrow> 'st \<Rightarrow> string \<Rightarrow> 'p \<Rightarrow> int
   \<Rightarrow> go_time option \<Rightarrow> go_error option \<times> 'st" where
  "Queue_enqueue marshal store newid now st jobType payload priority scheduledAt =
     (case marshal payload of
        Inl err \<Rightarrow> (Some (ErrWrap ''jobs: marshal payload: '' err []), st)
      | Inr raw \<Rightarrow>
          let job = \<lparr>j_ID = newid, j_Type = jobType, j_Payload = raw, j_Priority = priority,
                     j_MaxRetries = DefaultMaxRetries, j_Attempts = 0, j_Status = StatusPending,
                     j_Error = [], j_LockedBy = [], j_LockedAt = None, j_ScheduledAt = scheduledAt,
                     j_CompletedAt = None, j_CreatedAt = now\<rparr>
          in (case js_Enqueue store st job of
                (Some err, st') \<Rightarrow> (Some (ErrWrap (''jobs: enqueue '' @ jobType @ '': '') err []), st')
              | (None, st') \<Rightarrow> (None, st')))"

definition Queue_Enqueue where
  "Queue_Enqueue marshal store newid now st jobType payload =
     Queue_enqueue marshal store newid now st jobType payload PriorityNormal None"

definition Queue_EnqueueHigh where
  "Queue_EnqueueHigh marshal store newid now st jobType payload =
     Queue_enqueue marshal store newid now st jobType payload PriorityHigh None"

definition Queue_EnqueueDelayed where
  "Queue_EnqueueDelayed marshal store newid now1 now2 st jobType payload delay =
     (let at = now1 + delay
      in Queue_enqueue marshal store newid now2 st jobType payload PriorityNormal (Some at))"

definition Queue_EnqueueAt where
  "Queue_EnqueueAt marshal store newid now st jobType payload at =
     Queue_enqueue marshal store newid now st jobType payload PriorityNormal (Some at)"

section \<open>The in-memory store\<close>

type_synonym job_memory = "(string, job) gomap"

definition job_NewMemoryStore :: job_memory where
  "job_NewMemoryStore = []"

definition job_MemoryStore_Enqueue :: "job_memory \<Rightarrow> job \<Rightarrow> go_error option \<times> job_memory" where
  "job_MemoryStore_Enqueue m job = (None, gm_put (j_ID job) job m)"

text \<open>The eligibility test of the loop in \<^verbatim>\<open>Dequeue\<close>, and the sort key of its comparison function.\<close>

definition dequeue_eligible :: "go_time \<Rightarrow> string list \<Rightarrow> job \<Rightarrow> bool" where
  "dequeue_eligible now jobTypes j \<longleftrightarrow>
     j_Status j = StatusPending \<and> j_Type j \<in> set jobTypes \<and>
     \<not> (case j_ScheduledAt j of None \<Rightarrow> False | Some t \<Rightarrow> t > now)"

definition dequeue_key :: "string \<times> job \<Rightarrow> int \<times> int" where
  "dequeue_key e = (- j_Priority (snd e), j_CreatedAt (snd e))"

definition job_MemoryStore_Dequeue ::
  "job_memory \<Rightarrow> go_time \<Rightarrow> string list \<Rightarrow> string \<Rightarrow> job option result \<times> job_memory" where
  "job_MemoryStore_Dequeue m now jobTypes lockedBy =
     (let candidates = filter (\<lambda>e. dequeue_eligible now jobTypes (snd e)) m
      in if candidates = [] then (Inr None, m)
         else
           let (k, j) = hd (sort_key dequeue_key candidates);
               chosen = j\<lparr>j_Status := StatusRunning, j_LockedBy := lockedBy,
                          j_LockedAt := Some now, j_Attempts := j_Attempts j + 1\<rparr>
           in (Inr (Some chosen), gm_put k chosen m))"

text \<open>The shape of the four status updates: an unknown id is silently ignored.\<close>

definition job_update :: "string \<Rightarrow> (job \<Rightarrow> job) \<Rightarrow> job_memory \<Rightarrow> go_error option \<times> job_memory" where
  "job_update jobID f m =
     (case gm_get m jobID of None \<Rightarrow> (None, m) | Some j \<Rightarrow> (None, gm_put jobID (f j) m))"

definition job_MemoryStore_Complete where
  "job_MemoryStore_Complete m now jobID =
     job_update jobID (\<lambda>j. j\<lparr>j_Status := StatusCompleted, j_CompletedAt := Some now,
                             j_LockedBy := [], j_LockedAt := None\<rparr>) m"

definition job_MemoryStore_Fail where
  "job_MemoryStore_Fail m jobID errMsg =
     job_update jobID (\<lambda>j. j\<lparr>j_Status := StatusFailed, j_Error := errMsg,
                             j_LockedBy := [], j_LockedAt := None\<rparr>) m"

definition job_MemoryStore_Retry where
  "job_MemoryStore_Retry m jobID scheduledAt =
     job_update jobID (\<lambda>j. j\<lparr>j_Status := StatusPending, j_ScheduledAt := Some scheduledAt,
                             j_LockedBy := [], j_LockedAt := None\<rparr>) m"

definition job_MemoryStore_MarkDead where
  "job_MemoryStore_MarkDead m jobID errMsg =
     job_update jobID (\<lambda>j. j\<lparr>j_Status := StatusDead, j_Error := errMsg,
                             j_LockedBy := [], j_LockedAt := None\<rparr>) m"

definition job_MemoryStore_Heartbeat :: "job_memory \<Rightarrow> go_time \<Rightarrow> string \<Rightarrow> string \<Rightarrow> go_error option \<times> job_memory" where
  "job_MemoryStore_Heartbeat m now jobID lockedBy =
     (case gm_get m jobID of
        None \<Rightarrow> (None, m)
      | Some j \<Rightarrow> if j_LockedBy j \<noteq> lockedBy then (None, m)
                  else (None, gm_put jobID (j\<lparr>j_LockedAt := Some now\<rparr>) m))"

definition job_MemoryStore_ListJobs :: "job_memory \<Rightarrow> string \<Rightarrow> int \<Rightarrow> job list result" where
  "job_MemoryStore_ListJobs m status limit =
     (let out = sort_key (\<lambda>j. - j_CreatedAt j) (filter (\<lambda>j. j_Status j = status) (gm_vals m))
      in Inr (if limit > 0 \<and> int (length out) > limit then take (nat limit) out else out))"

definition job_MemoryStore :: "job_memory jobs_store" where
  "job_MemoryStore =
     \<lparr>js_Enqueue = job_MemoryStore_Enqueue, js_Dequeue = job_MemoryStore_Dequeue,
      js_Complete = job_MemoryStore_Complete, js_Fail = job_MemoryStore_Fail,
      js_Retry = job_MemoryStore_Retry, js_MarkDead = job_MemoryStore_MarkDead,
      js_Heartbeat = job_MemoryStore_Heartbeat, js_ListJobs = job_MemoryStore_ListJobs\<rparr>"

section \<open>The worker\<close>

definition ErrNoHandlers :: go_error where
  "ErrNoHandlers = ErrVar ''jobs: worker has no registered handlers''"

datatype handler_outcome = HandlerOk | HandlerErr go_error | HandlerPanic string string

type_synonym handler = "string \<Rightarrow> handler_outcome"

text \<open>The calls a worker makes to its observer, in order.\<close>

datatype observation =
    OnDequeue job
  | OnComplete job duration
  | OnFail job go_error bool
  | OnDead job go_error

record worker =
  w_handlers :: "(string, handler) gomap"
  w_concurrency :: int
  w_workerID :: string
  w_pollInterval :: duration
  w_jobTimeout :: duration
  w_observed :: bool
  w_backoff :: "int \<Rightarrow> duration"

text \<open>\<^verbatim>\<open>n*n*10\<close> seconds in 64-bit arithmetic.\<close>

definition defaultBackoff :: "int \<Rightarrow> duration" where
  "defaultBackoff attempts = wrap64 (wrap64 (wrap64 (attempts * attempts) * 10) * second)"

definition NewWorker :: "uuid \<Rightarrow> int \<Rightarrow> worker" where
  "NewWorker newid concurrency =
     \<lparr>w_handlers = [], w_concurrency = (if concurrency < 1 then 1 else concurrency),
      w_workerID = take 8 newid, w_pollInterval = second, w_jobTimeout = 5 * minute,
      w_observed = False, w_backoff = defaultBackoff\<rparr>"

definition Worker_Register :: "worker \<Rightarrow> string \<Rightarrow> handler \<Rightarrow> worker" where
  "Worker_Register w jobType h = w\<lparr>w_handlers := gm_put jobType h (w_handlers w)\<rparr>"

definition Worker_WithObserver :: "worker \<Rightarrow> bool \<Rightarrow> worker" where
  "Worker_WithObserver w given = (if given then w\<lparr>w_observed := True\<rparr> else w)"

definition Worker_WithPollInterval :: "worker \<Rightarrow> duration \<Rightarrow> worker" where
  "Worker_WithPollInterval w d = (if d > 0 then w\<lparr>w_pollInterval := d\<rparr> else w)"

definition Worker_WithJobTimeout :: "worker \<Rightarrow> duration \<Rightarrow> worker" where
  "Worker_WithJobTimeout w d = (if d > 0 then w\<lparr>w_jobTimeout := d\<rparr> else w)"

definition Worker_WithBackoff :: "worker \<Rightarrow> (int \<Rightarrow> duration) option \<Rightarrow> worker" where
  "Worker_WithBackoff w fn = (case fn of None \<Rightarrow> w | Some f \<Rightarrow> w\<lparr>w_backoff := f\<rparr>)"

definition Worker_RegisteredTypes :: "worker \<Rightarrow> string list" where
  "Worker_RegisteredTypes w = map fst (w_handlers w)"

text \<open>\<^verbatim>\<open>Start\<close> returns at once without handlers; otherwise it runs the goroutines until cancelled.\<close>

definition Worker_Start_check :: "worker \<Rightarrow> go_error option" where
  "Worker_Start_check w = (if Worker_RegisteredTypes w = [] then Some ErrNoHandlers else None)"

definition safeExecute :: "handler \<Rightarrow> string \<Rightarrow> go_error option" where
  "safeExecute h payload =
     (case h payload of
        HandlerOk \<Rightarrow> None
      | HandlerErr e \<Rightarrow> Some e
      | HandlerPanic r stack \<Rightarrow> Some (ErrMsg (''panic: '' @ r @ [CHR 0x0A] @ stack)))"

definition Worker_handleFailure ::
  "worker \<Rightarrow> 'st jobs_store \<Rightarrow> go_time \<Rightarrow> 'st \<Rightarrow> job \<Rightarrow> go_error \<Rightarrow> 'st \<times> observation list" where
  "Worker_handleFailure w store now st job jobErr =
     (if j_Attempts job \<ge> j_MaxRetries job
      then (snd (js_MarkDead store st (j_ID job) (error_text jobErr)), [OnDead job jobErr])
      else let at = now + w_backoff w (j_Attempts job)
           in (snd (js_Retry store st (j_ID job) at), [OnFail job jobErr True]))"

text \<open>
  \<open>start\<close> and \<open>stop\<close> are the clock readings around the handler, \<open>now\<close> the one the store takes when the
  job is marked complete, and the one \<^verbatim>\<open>handleFailure\<close> takes.
\<close>

definition Worker_processJob ::
  "worker \<Rightarrow> 'st jobs_store \<Rightarrow> go_time \<Rightarrow> go_time \<Rightarrow> go_time \<Rightarrow> 'st \<Rightarrow> job \<Rightarrow> 'st \<times> observation list" where
  "Worker_processJob w store start stop now st job =
     (case gm_get (w_handlers w) (j_Type job) of
        None \<Rightarrow>
          let errMsg = ''no handler for job type: '' @ j_Type job
          in (snd (js_Fail store st (j_ID job) errMsg), [OnFail job (ErrMsg errMsg) False])
      | Some handler \<Rightarrow>
          (case safeExecute handler (j_Payload job) of
             Some err \<Rightarrow> Worker_handleFailure w store now st job err
           | None \<Rightarrow>
               (case js_Complete store st now (j_ID job) of
                  (Some err, st') \<Rightarrow> (st', [])
                | (None, st') \<Rightarrow> (st', [OnComplete job (stop - start)]))))"

text \<open>One pass of the loop of \<^verbatim>\<open>processLoop\<close>: nothing is processed when no job is due.\<close>

definition Worker_processOne ::
  "worker \<Rightarrow> 'st jobs_store \<Rightarrow> string \<Rightarrow> go_time \<Rightarrow> go_time \<Rightarrow> go_time \<Rightarrow> go_time \<Rightarrow> 'st
   \<Rightarrow> 'st \<times> observation list" where
  "Worker_processOne w store lockedBy now start stop now' st =
     (case js_Dequeue store st now (Worker_RegisteredTypes w) lockedBy of
        (Inl err, st') \<Rightarrow> (st', [])
      | (Inr None, st') \<Rightarrow> (st', [])
      | (Inr (Some job), st') \<Rightarrow>
          let (st'', obs) = Worker_processJob w store start stop now' st' job
          in (st'', OnDequeue job # obs))"

section \<open>The interface of a job store\<close>

text \<open>What each call does to a stored job.\<close>

definition job_claimed :: "go_time \<Rightarrow> string \<Rightarrow> job \<Rightarrow> job" where
  "job_claimed now lockedBy j = j\<lparr>j_Status := StatusRunning, j_LockedBy := lockedBy,
     j_LockedAt := Some now, j_Attempts := j_Attempts j + 1\<rparr>"

definition job_completed :: "go_time \<Rightarrow> job \<Rightarrow> job" where
  "job_completed now j = j\<lparr>j_Status := StatusCompleted, j_CompletedAt := Some now,
     j_LockedBy := [], j_LockedAt := None\<rparr>"

definition job_failed :: "string \<Rightarrow> job \<Rightarrow> job" where
  "job_failed msg j = j\<lparr>j_Status := StatusFailed, j_Error := msg, j_LockedBy := [], j_LockedAt := None\<rparr>"

definition job_retried :: "go_time \<Rightarrow> job \<Rightarrow> job" where
  "job_retried at j = j\<lparr>j_Status := StatusPending, j_ScheduledAt := Some at, j_LockedBy := [], j_LockedAt := None\<rparr>"

definition job_dead :: "string \<Rightarrow> job \<Rightarrow> job" where
  "job_dead msg j = j\<lparr>j_Status := StatusDead, j_Error := msg, j_LockedBy := [], j_LockedAt := None\<rparr>"

lemmas job_change_defs = job_claimed_def job_completed_def job_failed_def job_retried_def job_dead_def

text \<open>The order in which jobs are served: higher priority first, then the older job.\<close>

definition served_before :: "job \<Rightarrow> job \<Rightarrow> bool" where
  "served_before a b \<longleftrightarrow>
     j_Priority a > j_Priority b \<or> (j_Priority a = j_Priority b \<and> j_CreatedAt a \<le> j_CreatedAt b)"

text \<open>What the worker does with a job it has claimed, as a function of the job.\<close>

definition settle :: "worker \<Rightarrow> go_time \<Rightarrow> job \<Rightarrow> job" where
  "settle w now j =
     (case gm_get (w_handlers w) (j_Type j) of
        None \<Rightarrow> job_failed (''no handler for job type: '' @ j_Type j) j
      | Some h \<Rightarrow>
          (case safeExecute h (j_Payload j) of
             None \<Rightarrow> job_completed now j
           | Some e \<Rightarrow> if j_Attempts j \<ge> j_MaxRetries j then job_dead (error_text e) j
                       else job_retried (now + w_backoff w (j_Attempts j)) j))"

locale jobs_store_spec =
  fixes S :: "'st jobs_store"
    and inv :: "'st \<Rightarrow> bool"
    and view :: "'st \<Rightarrow> string \<Rightarrow> job option"
  assumes enqueue_spec: "inv st \<Longrightarrow> js_Enqueue S st j = (r, st') \<Longrightarrow>
      r = None \<and> inv st' \<and> view st' = (view st)(j_ID j \<mapsto> j)"
    and dequeue_none: "inv st \<Longrightarrow> js_Dequeue S st now ts l = (Inr None, st') \<Longrightarrow>
      st' = st \<and> (\<forall>i j. view st i = Some j \<longrightarrow> \<not> dequeue_eligible now ts j)"
    and dequeue_some: "inv st \<Longrightarrow> js_Dequeue S st now ts l = (Inr (Some j), st') \<Longrightarrow>
      inv st' \<and> view st' = (view st)(j_ID j \<mapsto> j) \<and>
      (\<exists>j0. view st (j_ID j) = Some j0 \<and> dequeue_eligible now ts j0 \<and> j = job_claimed now l j0 \<and>
        (\<forall>i j'. view st i = Some j' \<longrightarrow> dequeue_eligible now ts j' \<longrightarrow> served_before j0 j'))"
    and complete_spec: "inv st \<Longrightarrow> js_Complete S st now i = (r, st') \<Longrightarrow>
      r = None \<and> inv st' \<and> view st' = (view st)(i := map_option (job_completed now) (view st i))"
    and fail_spec: "inv st \<Longrightarrow> js_Fail S st i msg = (r, st') \<Longrightarrow>
      r = None \<and> inv st' \<and> view st' = (view st)(i := map_option (job_failed msg) (view st i))"
    and retry_spec: "inv st \<Longrightarrow> js_Retry S st i at = (r, st') \<Longrightarrow>
      r = None \<and> inv st' \<and> view st' = (view st)(i := map_option (job_retried at) (view st i))"
    and dead_spec: "inv st \<Longrightarrow> js_MarkDead S st i msg = (r, st') \<Longrightarrow>
      r = None \<and> inv st' \<and> view st' = (view st)(i := map_option (job_dead msg) (view st i))"
    and view_id: "inv st \<Longrightarrow> view st i = Some j \<Longrightarrow> j_ID j = i"
begin

text \<open>Executing a claimed job settles exactly that job.\<close>

lemma processJob_settles:
  assumes "inv st" and "view st (j_ID j) = Some j"
    and "Worker_processJob w S t1 t2 now st j = (st', obs)"
  shows "inv st' \<and> view st' = (view st)(j_ID j \<mapsto> settle w now j)"
proof (cases "gm_get (w_handlers w) (j_Type j)")
  case None
  obtain r s where "js_Fail S st (j_ID j) (''no handler for job type: '' @ j_Type j) = (r, s)" by force
  with fail_spec [OF assms(1) this] None assms show ?thesis
    by (auto simp: Worker_processJob_def settle_def fun_eq_iff)
next
  case (Some h)
  show ?thesis
  proof (cases "safeExecute h (j_Payload j)")
    case None
    obtain r s where "js_Complete S st now (j_ID j) = (r, s)" by force
    with complete_spec [OF assms(1) this] None Some assms show ?thesis
      by (auto simp: Worker_processJob_def settle_def fun_eq_iff)
  next
    case (Some e)
    note h = \<open>gm_get (w_handlers w) (j_Type j) = Some h\<close>
    show ?thesis
    proof (cases "j_Attempts j \<ge> j_MaxRetries j")
      case True
      obtain r s where "js_MarkDead S st (j_ID j) (error_text e) = (r, s)" by force
      with dead_spec [OF assms(1) this] True Some h assms show ?thesis
        by (auto simp: Worker_processJob_def Worker_handleFailure_def settle_def fun_eq_iff)
    next
      case False
      obtain r s where "js_Retry S st (j_ID j) (now + w_backoff w (j_Attempts j)) = (r, s)" by force
      with retry_spec [OF assms(1) this] False Some h assms show ?thesis
        by (auto simp: Worker_processJob_def Worker_handleFailure_def settle_def fun_eq_iff)
    qed
  qed
qed

text \<open>One pass of a worker either finds nothing due and changes nothing, or settles the best due job.\<close>

lemma processOne_cases:
  assumes "inv st" and "Worker_processOne w S l now t1 t2 now' st = (st', obs)"
    and no_err: "\<And>e s. js_Dequeue S st now (Worker_RegisteredTypes w) l \<noteq> (Inl e, s)"
  obtains (idle) "st' = st" "obs = []"
      "\<forall>i j. view st i = Some j \<longrightarrow> \<not> dequeue_eligible now (Worker_RegisteredTypes w) j"
  | (ran) j0 where "view st (j_ID j0) = Some j0" "dequeue_eligible now (Worker_RegisteredTypes w) j0"
      "inv st'" "view st' = (view st)(j_ID j0 \<mapsto> settle w now' (job_claimed now l j0))"
      "\<forall>i j'. view st i = Some j' \<longrightarrow> dequeue_eligible now (Worker_RegisteredTypes w) j' \<longrightarrow> served_before j0 j'"
proof -
  obtain r s where deq: "js_Dequeue S st now (Worker_RegisteredTypes w) l = (r, s)" by force
  show ?thesis
  proof (cases r)
    case (Inl e)
    with deq no_err show ?thesis by blast
  next
    case (Inr jo)
    show ?thesis
    proof (cases jo)
      case None
      with Inr deq have "js_Dequeue S st now (Worker_RegisteredTypes w) l = (Inr None, s)" by simp
      from dequeue_none [OF assms(1) this] show ?thesis
        using Inr None deq assms(2) by (intro idle) (auto simp: Worker_processOne_def)
    next
      case (Some j)
      with Inr deq have "js_Dequeue S st now (Worker_RegisteredTypes w) l = (Inr (Some j), s)" by simp
      from dequeue_some [OF assms(1) this] obtain j0 where
        s: "inv s" "view s = (view st)(j_ID j \<mapsto> j)" and j0: "view st (j_ID j) = Some j0"
          "dequeue_eligible now (Worker_RegisteredTypes w) j0" "j = job_claimed now l j0"
          "\<forall>i j'. view st i = Some j' \<longrightarrow> dequeue_eligible now (Worker_RegisteredTypes w) j' \<longrightarrow> served_before j0 j'"
        by blast
      have id: "j_ID j = j_ID j0" using j0(3) by (simp add: job_claimed_def)
      obtain st2 obs2 where pj: "Worker_processJob w S t1 t2 now' s j = (st2, obs2)" by force
      have "st2 = st'"
        using assms(2) deq Inr Some pj by (simp add: Worker_processOne_def)
      with processJob_settles [OF s(1) _ pj] s have
        "inv st'" "view st' = (view st)(j_ID j \<mapsto> settle w now' j)" by auto
      with j0 id show ?thesis by (intro ran [of j0]) auto
    qed
  qed
qed

end

section \<open>The in-memory store keeps the promises\<close>

definition job_mem_inv :: "job_memory \<Rightarrow> bool" where
  "job_mem_inv m \<longleftrightarrow> gm_ok m \<and> (\<forall>k j. gm_get m k = Some j \<longrightarrow> j_ID j = k)"

lemma dequeue_key_le: "dequeue_key a \<le> dequeue_key b \<longleftrightarrow> served_before (snd a) (snd b)"
  by (auto simp: dequeue_key_def served_before_def less_eq_prod_def)

lemma job_dequeue_none:
  assumes "job_mem_inv m" and "job_MemoryStore_Dequeue m now ts l = (Inr None, m')"
  shows "m' = m \<and> (\<forall>i j. gm_get m i = Some j \<longrightarrow> \<not> dequeue_eligible now ts j)"
proof -
  let ?c = "filter (\<lambda>e. dequeue_eligible now ts (snd e)) m"
  have "?c = [] \<and> m' = m"
    using assms(2) by (auto simp: job_MemoryStore_Dequeue_def Let_def split: if_splits prod.splits)
  then show ?thesis by (force simp: filter_empty_conv dest!: gm_get_in)
qed

lemma job_dequeue_some:
  assumes "job_mem_inv m" and "job_MemoryStore_Dequeue m now ts l = (Inr (Some j), m')"
  shows "job_mem_inv m' \<and> m' = gm_put (j_ID j) j m \<and>
    (\<exists>j0. gm_get m (j_ID j) = Some j0 \<and> dequeue_eligible now ts j0 \<and> j = job_claimed now l j0 \<and>
      (\<forall>i j'. gm_get m i = Some j' \<longrightarrow> dequeue_eligible now ts j' \<longrightarrow> served_before j0 j'))"
proof -
  let ?c = "filter (\<lambda>e. dequeue_eligible now ts (snd e)) m"
  obtain k j0 where hd: "hd (sort_key dequeue_key ?c) = (k, j0)" by force
  have ne: "?c \<noteq> []" and j: "j = job_claimed now l j0" and m': "m' = gm_put k j m"
    using assms(2) hd by (auto simp: job_MemoryStore_Dequeue_def Let_def job_claimed_def split: if_splits)
  have "(k, j0) \<in> set ?c" using hd_sort_key_in [OF ne, of dequeue_key] hd by simp
  then have el: "dequeue_eligible now ts j0" and "(k, j0) \<in> set m" by auto
  with assms(1) have get: "gm_get m k = Some j0" and id: "j_ID j0 = k"
    by (auto simp: job_mem_inv_def gm_in_iff)
  have best: "served_before j0 j'" if "gm_get m i = Some j'" "dequeue_eligible now ts j'" for i j'
  proof -
    from that have "(i, j') \<in> set ?c" by (auto dest: gm_get_in)
    from hd_sort_key_le [OF this, of dequeue_key] show ?thesis by (simp add: hd dequeue_key_le)
  qed
  have idj: "j_ID j = k" using id j by (simp add: job_claimed_def)
  have "job_mem_inv m'" using assms(1) m' idj by (auto simp: job_mem_inv_def)
  with idj m' get el j best show ?thesis by metis
qed

lemma job_update_spec:
  assumes "job_mem_inv m" and "\<And>j. j_ID (f j) = j_ID j" and "job_update i f m = (r, m')"
  shows "r = None \<and> job_mem_inv m' \<and> gm_get m' = (gm_get m)(i := map_option f (gm_get m i))"
  using assms by (auto simp: job_update_def job_mem_inv_def fun_eq_iff split: option.splits if_splits)

interpretation jobmem: jobs_store_spec job_MemoryStore job_mem_inv gm_get
proof
  fix st j r st' assume "job_mem_inv st" "js_Enqueue job_MemoryStore st j = (r, st')"
  then show "r = None \<and> job_mem_inv st' \<and> gm_get st' = (gm_get st)(j_ID j \<mapsto> j)"
    by (auto simp: job_MemoryStore_def job_MemoryStore_Enqueue_def job_mem_inv_def fun_eq_iff
        split: if_splits)
next
  fix st now ts l st' assume "job_mem_inv st" "js_Dequeue job_MemoryStore st now ts l = (Inr None, st')"
  then show "st' = st \<and> (\<forall>i j. gm_get st i = Some j \<longrightarrow> \<not> dequeue_eligible now ts j)"
    using job_dequeue_none by (simp add: job_MemoryStore_def)
next
  fix st now ts l j st'
  assume inv: "job_mem_inv st" and "js_Dequeue job_MemoryStore st now ts l = (Inr (Some j), st')"
  then have "job_MemoryStore_Dequeue st now ts l = (Inr (Some j), st')" by (simp add: job_MemoryStore_def)
  from job_dequeue_some [OF inv this]
  show "job_mem_inv st' \<and> gm_get st' = (gm_get st)(j_ID j \<mapsto> j) \<and>
      (\<exists>j0. gm_get st (j_ID j) = Some j0 \<and> dequeue_eligible now ts j0 \<and> j = job_claimed now l j0 \<and>
        (\<forall>i j'. gm_get st i = Some j' \<longrightarrow> dequeue_eligible now ts j' \<longrightarrow> served_before j0 j'))"
    by (auto simp: fun_eq_iff)
next
  fix st i j assume "job_mem_inv st" "gm_get st i = Some j"
  then show "j_ID j = i" by (simp add: job_mem_inv_def)
qed (auto simp: job_MemoryStore_def job_MemoryStore_Complete_def job_MemoryStore_Fail_def
    job_MemoryStore_Retry_def job_MemoryStore_MarkDead_def job_change_defs [abs_def]
    dest!: job_update_spec [rotated 2])

section \<open>Several workers at once\<close>

text \<open>
  The store and the jobs being executed: \<open>(l, j)\<close> is a goroutine with lock name \<open>l\<close> that received the
  copy \<open>j\<close> from \<^verbatim>\<open>Dequeue\<close> and has not yet reported back. Every operation of the store runs under its
  mutex, so an execution is an interleaving of these steps.
\<close>

record jobs_sys =
  sys_store :: job_memory
  sys_inflight :: "(string \<times> job) list"

inductive jobs_step :: "jobs_sys \<Rightarrow> jobs_sys \<Rightarrow> bool" where
  submit: "gm_get (sys_store s) newid = None \<Longrightarrow>
     Queue_enqueue (marshal :: string \<Rightarrow> string result) job_MemoryStore newid now (sys_store s)
       ty payload prio at = (r, st') \<Longrightarrow>
     jobs_step s (s\<lparr>sys_store := st'\<rparr>)"
| claim: "job_MemoryStore_Dequeue (sys_store s) now ts l = (Inr (Some j), st') \<Longrightarrow>
     jobs_step s \<lparr>sys_store = st', sys_inflight = sys_inflight s @ [(l, j)]\<rparr>"
| report: "sys_inflight s = xs @ (l, j) # ys \<Longrightarrow>
     Worker_processJob w job_MemoryStore t1 t2 now (sys_store s) j = (st', obs) \<Longrightarrow>
     jobs_step s \<lparr>sys_store = st', sys_inflight = xs @ ys\<rparr>"
definition jobs_init :: jobs_sys where
  "jobs_init = \<lparr>sys_store = job_NewMemoryStore, sys_inflight = []\<rparr>"

inductive jobs_reachable :: "jobs_sys \<Rightarrow> bool" where
  jobs_start: "jobs_reachable jobs_init"
| jobs_next: "jobs_reachable s \<Longrightarrow> jobs_step s t \<Longrightarrow> jobs_reachable t"

text \<open>What the store says about a job's attempts, by status.\<close>

definition attempts_ok :: "job \<Rightarrow> bool" where
  "attempts_ok j \<longleftrightarrow>
     j_MaxRetries j = DefaultMaxRetries \<and> 0 \<le> j_Attempts j \<and> j_Attempts j \<le> j_MaxRetries j \<and>
     (j_Status j = StatusPending \<longrightarrow> j_Attempts j < j_MaxRetries j) \<and>
     (j_Status j = StatusDead \<longrightarrow> j_Attempts j = j_MaxRetries j)"

definition jobs_inv :: "jobs_sys \<Rightarrow> bool" where
  "jobs_inv s \<longleftrightarrow>
     job_mem_inv (sys_store s) \<and>
     distinct (map (\<lambda>e. j_ID (snd e)) (sys_inflight s)) \<and>
     (\<forall>l j. (l, j) \<in> set (sys_inflight s) \<longrightarrow>
        gm_get (sys_store s) (j_ID j) = Some j \<and> j_Status j = StatusRunning \<and> j_LockedBy j = l) \<and>
     (\<forall>k j. gm_get (sys_store s) k = Some j \<longrightarrow> attempts_ok j \<and>
        (j_Status j = StatusRunning \<longrightarrow> (\<exists>l. (l, j) \<in> set (sys_inflight s))))"

lemma jobs_invI:
  assumes "job_mem_inv (sys_store s)"
    and "distinct (map (\<lambda>e. j_ID (snd e)) (sys_inflight s))"
    and "\<And>l j. (l, j) \<in> set (sys_inflight s) \<Longrightarrow>
      gm_get (sys_store s) (j_ID j) = Some j \<and> j_Status j = StatusRunning \<and> j_LockedBy j = l"
    and "\<And>k j. gm_get (sys_store s) k = Some j \<Longrightarrow> attempts_ok j"
    and "\<And>k j. gm_get (sys_store s) k = Some j \<Longrightarrow> j_Status j = StatusRunning \<Longrightarrow>
      \<exists>l. (l, j) \<in> set (sys_inflight s)"
  shows "jobs_inv s"
  using assms by (simp add: jobs_inv_def)

lemma jobs_invD:
  assumes "jobs_inv s"
  shows "job_mem_inv (sys_store s)"
    and "distinct (map (\<lambda>e. j_ID (snd e)) (sys_inflight s))"
    and "(l, j) \<in> set (sys_inflight s) \<Longrightarrow>
      gm_get (sys_store s) (j_ID j) = Some j \<and> j_Status j = StatusRunning \<and> j_LockedBy j = l"
    and "gm_get (sys_store s) k = Some j \<Longrightarrow> attempts_ok j"
    and "gm_get (sys_store s) k = Some j \<Longrightarrow> j_Status j = StatusRunning \<Longrightarrow>
      \<exists>l. (l, j) \<in> set (sys_inflight s)"
  using assms by (simp_all add: jobs_inv_def)

lemma jobs_inv_init: "jobs_inv jobs_init"
  by (simp add: jobs_inv_def jobs_init_def job_NewMemoryStore_def job_mem_inv_def)

lemma attempts_ok_claimed:
  "attempts_ok j \<Longrightarrow> dequeue_eligible now ts j \<Longrightarrow> attempts_ok (job_claimed now' l j)"
  by (auto simp: attempts_ok_def dequeue_eligible_def job_claimed_def status_defs)

lemma settle_ok:
  assumes "attempts_ok j" and "j_Status j = StatusRunning"
  shows "attempts_ok (settle w now j) \<and> j_Status (settle w now j) \<noteq> StatusRunning \<and>
         j_ID (settle w now j) = j_ID j"
  using assms
  by (auto simp: settle_def attempts_ok_def job_change_defs status_defs split: option.splits)

lemma jobs_inv_submit:
  assumes "jobs_inv s" and "gm_get (sys_store s) newid = None"
    and "Queue_enqueue marshal job_MemoryStore newid now (sys_store s) ty payload prio at = (r, st')"
  shows "jobs_inv (s\<lparr>sys_store := st'\<rparr>)"
proof (cases "marshal payload")
  case (Inl e)
  with assms show ?thesis by (auto simp: Queue_enqueue_def)
next
  case (Inr raw)
  let ?j = "\<lparr>j_ID = newid, j_Type = ty, j_Payload = raw, j_Priority = prio,
     j_MaxRetries = DefaultMaxRetries, j_Attempts = 0, j_Status = StatusPending, j_Error = [],
     j_LockedBy = [], j_LockedAt = None, j_ScheduledAt = at, j_CompletedAt = None, j_CreatedAt = now\<rparr>"
  have st': "st' = gm_put newid ?j (sys_store s)"
    using assms(3) Inr by (simp add: Queue_enqueue_def job_MemoryStore_def job_MemoryStore_Enqueue_def)
  have "attempts_ok ?j" by (simp add: attempts_ok_def DefaultMaxRetries_def status_defs)
  with assms(1,2) show ?thesis
    by (auto simp: jobs_inv_def st' job_mem_inv_def status_defs)
qed

lemma jobs_inv_claim:
  assumes "jobs_inv s" and "job_MemoryStore_Dequeue (sys_store s) now ts l = (Inr (Some j), st')"
  shows "jobs_inv \<lparr>sys_store = st', sys_inflight = sys_inflight s @ [(l, j)]\<rparr>"
proof -
  from assms(1) have "job_mem_inv (sys_store s)" by (simp add: jobs_inv_def)
  from job_dequeue_some [OF this assms(2)] obtain j0 where
    inv: "job_mem_inv st'" and st': "st' = gm_put (j_ID j) j (sys_store s)" and
    j0: "gm_get (sys_store s) (j_ID j) = Some j0" "dequeue_eligible now ts j0" "j = job_claimed now l j0"
    by blast
  have run: "j_Status j = StatusRunning" "j_LockedBy j = l" using j0(3) by (simp_all add: job_claimed_def)
  note inv0 = jobs_invD [OF assms(1)]
  have att: "attempts_ok j" using inv0(4) j0 attempts_ok_claimed by auto
  have fresh: "j_ID j \<noteq> j_ID j'" if "(l', j') \<in> set (sys_inflight s)" for l' j'
  proof
    assume "j_ID j = j_ID j'"
    with inv0(3) [OF that] have "gm_get (sys_store s) (j_ID j) = Some j'" "j_Status j' = StatusRunning"
      by simp_all
    with j0 show False by (simp add: dequeue_eligible_def status_defs)
  qed
  show ?thesis
  proof (rule jobs_invI, goal_cases)
    case 2
    show ?case using inv0(2) by (auto dest: fresh)
  next
    case (3 l' j')
    then show ?case using inv0(3) run by (auto simp: st' dest: fresh)
  next
    case (4 k j')
    then show ?case using inv0(4) att by (auto simp: st' split: if_splits)
  next
    case (5 k j')
    then show ?case using inv0(5) by (fastforce simp: st' split: if_splits)
  qed (use inv in simp)
qed

lemma jobs_inv_report:
  assumes "jobs_inv s" and fl: "sys_inflight s = xs @ (l, j) # ys"
    and "Worker_processJob w job_MemoryStore t1 t2 now (sys_store s) j = (st', obs)"
  shows "jobs_inv \<lparr>sys_store = st', sys_inflight = xs @ ys\<rparr>"
proof -
  note inv0 = jobs_invD [OF assms(1)]
  have inv: "job_mem_inv (sys_store s)" and get: "gm_get (sys_store s) (j_ID j) = Some j"
    and run: "j_Status j = StatusRunning" and att: "attempts_ok j"
    using inv0(1) inv0(3) [of l j] inv0(4) [of "j_ID j" j] fl by auto
  from jobmem.processJob_settles [OF inv get assms(3)]
  have inv': "job_mem_inv st'" and get': "gm_get st' = (gm_get (sys_store s))(j_ID j \<mapsto> settle w now j)"
    by auto
  note settle = settle_ok [OF att run, of w now]
  have other: "j_ID j' \<noteq> j_ID j" if "(l', j') \<in> set xs \<union> set ys" for l' j'
    using inv0(2) that unfolding fl by (auto simp: image_iff)
  show ?thesis
  proof (rule jobs_invI, goal_cases)
    case 2
    show ?case using inv0(2) fl by auto
  next
    case (3 l' j')
    then show ?case using inv0(3) [of l' j'] other [of l' j'] fl by (auto simp: get')
  next
    case (4 k j')
    then show ?case using inv0(4) settle by (auto simp: get' split: if_splits)
  next
    case (5 k j')
    then have k: "k \<noteq> j_ID j" "gm_get (sys_store s) k = Some j'"
      using settle by (auto simp: get' split: if_splits)
    then have "j_ID j' = k" using inv by (simp add: job_mem_inv_def)
    with inv0(5) [OF k(2) 5(2)] k fl show ?case by auto
  qed (use inv' in simp)
qed

lemma jobs_reachable_inv: "jobs_reachable s \<Longrightarrow> jobs_inv s"
proof (induction rule: jobs_reachable.induct)
  case jobs_start
  show ?case by (rule jobs_inv_init)
next
  case (jobs_next s t)
  from jobs_next.hyps(2) jobs_next.IH show ?case
    by (cases rule: jobs_step.cases) (blast intro: jobs_inv_submit jobs_inv_claim jobs_inv_report)+
qed

section \<open>A job whose handler keeps failing\<close>

text \<open>\<open>n\<close> passes of one worker, the \<open>k\<close>-th at clock reading \<open>t k\<close>.\<close>

fun Worker_passes :: "worker \<Rightarrow> string \<Rightarrow> (nat \<Rightarrow> go_time) \<Rightarrow> nat \<Rightarrow> job_memory \<Rightarrow> job_memory" where
  "Worker_passes w l t 0 m = m"
| "Worker_passes w l t (Suc n) m =
     fst (Worker_processOne w job_MemoryStore l (t n) (t n) (t n) (t n) (Worker_passes w l t n m))"

lemma processOne_single:
  assumes "dequeue_eligible now (Worker_RegisteredTypes w) j"
  shows "gm_get (fst (Worker_processOne w job_MemoryStore l now t1 t2 now' [(j_ID j, j)])) (j_ID j) =
           Some (settle w now' (job_claimed now l j)) \<and>
         fst (Worker_processOne w job_MemoryStore l now t1 t2 now' [(j_ID j, j)]) =
           [(j_ID j, settle w now' (job_claimed now l j))]"
  using assms
  by (auto simp: Worker_processOne_def Worker_processJob_def Worker_handleFailure_def settle_def
      job_MemoryStore_def job_MemoryStore_Dequeue_def job_MemoryStore_Complete_def
      job_MemoryStore_Fail_def job_MemoryStore_Retry_def job_MemoryStore_MarkDead_def
      job_update_def job_change_defs gm_get_def gm_put_def Let_def split: option.splits)

lemma passes_failing:
  assumes "j_Status j = StatusPending" and "j_Attempts j = 0" and "j_ScheduledAt j = None"
    and "gm_get (w_handlers w) (j_Type j) = Some h" and "safeExecute h (j_Payload j) = Some e"
    and "\<And>k. t (Suc k) \<ge> t k + w_backoff w (int k + 1)"
    and "int n < j_MaxRetries j"
  shows "\<exists>j'. Worker_passes w l t n [(j_ID j, j)] = [(j_ID j, j')] \<and>
      j_Status j' = StatusPending \<and> j_Attempts j' = int n \<and>
      j_ID j' = j_ID j \<and> j_Type j' = j_Type j \<and> j_Payload j' = j_Payload j \<and>
      j_MaxRetries j' = j_MaxRetries j \<and>
      (case j_ScheduledAt j' of None \<Rightarrow> True | Some at \<Rightarrow> at \<le> t n)"
  using assms(7)
proof (induction n)
  case 0
  with assms(1-3) show ?case by simp
next
  case (Suc n)
  then obtain j' where j': "Worker_passes w l t n [(j_ID j, j)] = [(j_ID j, j')]"
    "j_Status j' = StatusPending" "j_Attempts j' = int n" "j_ID j' = j_ID j" "j_Type j' = j_Type j"
    "j_Payload j' = j_Payload j" "j_MaxRetries j' = j_MaxRetries j"
    "case j_ScheduledAt j' of None \<Rightarrow> True | Some at \<Rightarrow> at \<le> t n"
    by auto
  have "j_Type j \<in> set (Worker_RegisteredTypes w)"
    using assms(4) by (force simp: Worker_RegisteredTypes_def dest: gm_get_in)
  with j' have "dequeue_eligible (t n) (Worker_RegisteredTypes w) j'"
    by (auto simp: dequeue_eligible_def split: option.splits)
  from processOne_single [OF this, of l "t n" "t n" "t n"] j'
  have "Worker_passes w l t (Suc n) [(j_ID j, j)] = [(j_ID j, settle w (t n) (job_claimed (t n) l j'))]"
    by simp
  moreover have "settle w (t n) (job_claimed (t n) l j') =
      job_retried (t n + w_backoff w (int n + 1)) (job_claimed (t n) l j')"
    using j' assms(4,5) Suc.prems by (simp add: settle_def job_claimed_def)
  ultimately show ?case
    using j' assms(6) [of n] by (auto simp: job_change_defs)
qed

section \<open>Properties\<close>

text \<open>
  C2: with any number of workers, enqueuers and goroutines interleaved in any way, no job is ever being
  executed twice at the same time: the executing copies have distinct ids, each is the stored job, which
  is marked running and locked by that goroutine, and every job marked running has its goroutine. No
  job is ever attempted more than \<open>DefaultMaxRetries\<close> times, and a dead job has used all its attempts.
\<close>

theorem jobs_exclusive_execution:
  assumes "jobs_reachable s"
  shows "distinct (map (\<lambda>e. j_ID (snd e)) (sys_inflight s)) \<and>
    (\<forall>l j. (l, j) \<in> set (sys_inflight s) \<longrightarrow>
       gm_get (sys_store s) (j_ID j) = Some j \<and> j_Status j = StatusRunning \<and> j_LockedBy j = l) \<and>
    (\<forall>k j. gm_get (sys_store s) k = Some j \<longrightarrow>
       (j_Status j = StatusRunning \<longrightarrow> (\<exists>l. (l, j) \<in> set (sys_inflight s))) \<and>
       0 \<le> j_Attempts j \<and> j_Attempts j \<le> DefaultMaxRetries \<and>
       (j_Status j = StatusDead \<longrightarrow> j_Attempts j = DefaultMaxRetries))"
proof -
  note inv = jobs_invD [OF jobs_reachable_inv [OF assms]]
  have "j_Attempts j \<le> DefaultMaxRetries \<and> 0 \<le> j_Attempts j \<and>
      (j_Status j = StatusDead \<longrightarrow> j_Attempts j = DefaultMaxRetries)"
    if "gm_get (sys_store s) k = Some j" for k j
    using inv(4) [OF that] by (simp add: attempts_ok_def)
  with inv(2,3,5) show ?thesis by blast
qed

text \<open>One job enqueued and claimed, for the witnesses.\<close>

definition demo_job :: job where
  "demo_job = \<lparr>j_ID = ''a'', j_Type = ''mail'', j_Payload = ''{}'', j_Priority = 0,
     j_MaxRetries = DefaultMaxRetries, j_Attempts = 0, j_Status = StatusPending, j_Error = [],
     j_LockedBy = [], j_LockedAt = None, j_ScheduledAt = None, j_CompletedAt = None, j_CreatedAt = 1\<rparr>"

definition demo_claimed :: jobs_sys where
  "demo_claimed = \<lparr>sys_store = [(''a'', job_claimed 2 ''w-0'' demo_job)],
                   sys_inflight = [(''w-0'', job_claimed 2 ''w-0'' demo_job)]\<rparr>"

lemma demo_reachable: "jobs_reachable demo_claimed"
proof -
  have 1: "jobs_step jobs_init (jobs_init\<lparr>sys_store := [(''a'', demo_job)]\<rparr>)"
    by (rule jobs_step.submit [of _ "''a''" "\<lambda>p. Inr p" 1 "''mail''" "''{}''" 0 None])
      (simp_all add: jobs_init_def job_NewMemoryStore_def Queue_enqueue_def job_MemoryStore_def
        job_MemoryStore_Enqueue_def demo_job_def gm_put_def)
  have "job_MemoryStore_Dequeue [(''a'', demo_job)] 2 [''mail''] ''w-0'' =
      (Inr (Some (job_claimed 2 ''w-0'' demo_job)), [(''a'', job_claimed 2 ''w-0'' demo_job)])"
    by (simp add: job_MemoryStore_Dequeue_def dequeue_eligible_def demo_job_def job_claimed_def gm_put_def Let_def)
  then have 2: "jobs_step (jobs_init\<lparr>sys_store := [(''a'', demo_job)]\<rparr>) demo_claimed"
    using jobs_step.claim [of "jobs_init\<lparr>sys_store := [(''a'', demo_job)]\<rparr>"]
    by (simp add: demo_claimed_def jobs_init_def)
  from jobs_reachable.jobs_start 1 2 show ?thesis by (blast intro: jobs_reachable.jobs_next)
qed

theorem jobs_exclusive_execution_witness:
  "jobs_reachable demo_claimed \<and> length (sys_inflight demo_claimed) = 1 \<and>
   distinct (map (\<lambda>e. j_ID (snd e)) (sys_inflight demo_claimed)) \<and>
   gm_get (sys_store demo_claimed) ''a'' = Some (job_claimed 2 ''w-0'' demo_job)"
  using jobs_exclusive_execution [OF demo_reachable] demo_reachable
  by (simp add: demo_claimed_def gm_get_def)

text \<open>
  C21: \<open>Dequeue\<close> on a well-formed in-memory store returns no job exactly when none is due for the given
  types; otherwise it returns a due job that no other due job must precede (higher priority, then older),
  with its attempt counted, marked running, locked by the caller, and it changes nothing but that job.
\<close>

lemma dequeue_serves_best:
  assumes "gm_ok m" and "\<And>k j. gm_get m k = Some j \<Longrightarrow> j_ID j = k"
  shows "case job_MemoryStore_Dequeue m now ts l of
      (Inl e, m') \<Rightarrow> False
    | (Inr None, m') \<Rightarrow> m' = m \<and> (\<forall>k j. gm_get m k = Some j \<longrightarrow> \<not> dequeue_eligible now ts j)
    | (Inr (Some j), m') \<Rightarrow>
        (\<exists>j0. gm_get m (j_ID j) = Some j0 \<and> dequeue_eligible now ts j0 \<and>
          j_Status j = StatusRunning \<and> j_LockedBy j = l \<and> j_LockedAt j = Some now \<and>
          j_Attempts j = j_Attempts j0 + 1 \<and>
          (\<forall>k j'. gm_get m k = Some j' \<longrightarrow> dequeue_eligible now ts j' \<longrightarrow> served_before j0 j')) \<and>
        (\<forall>k. gm_get m' k = (if k = j_ID j then Some j else gm_get m k))"
proof -
  have inv: "job_mem_inv m" using assms by (simp add: job_mem_inv_def)
  obtain r m' where deq: "job_MemoryStore_Dequeue m now ts l = (r, m')" by force
  then obtain jo where r: "r = Inr jo"
    by (auto simp: job_MemoryStore_Dequeue_def Let_def split: if_splits prod.splits)
  show ?thesis
  proof (cases jo)
    case None
    with deq r job_dequeue_none [OF inv, of now ts l m'] show ?thesis by simp
  next
    case (Some j)
    with deq r job_dequeue_some [OF inv, of now ts l j m'] obtain j0 where
      "m' = gm_put (j_ID j) j m" "gm_get m (j_ID j) = Some j0" "dequeue_eligible now ts j0"
      "j = job_claimed now l j0"
      "\<forall>i j'. gm_get m i = Some j' \<longrightarrow> dequeue_eligible now ts j' \<longrightarrow> served_before j0 j'"
      by auto
    with deq r Some show ?thesis by (auto simp: job_claimed_def intro!: exI [of _ j0])
  qed
qed

theorem dequeue_serves_best_witness:
  "gm_ok [(''a'', demo_job)] \<and>
   (\<exists>j. fst (job_MemoryStore_Dequeue [(''a'', demo_job)] 2 [''mail''] ''w'') = Inr (Some j) \<and>
      j_Status j = StatusRunning \<and> j_Attempts j = 1)"
proof -
  have 1: "gm_ok [(''a'', demo_job)]" by (simp add: gm_ok_def)
  have 2: "j_ID j = k" if "gm_get [(''a'', demo_job)] k = Some j" for k j
    using that by (auto simp: gm_get_def demo_job_def split: if_splits)
  have 3: "dequeue_eligible 2 [''mail''] demo_job" by (simp add: dequeue_eligible_def demo_job_def)
  have att: "j_Attempts demo_job = 0" by (simp add: demo_job_def)
  have 4: "gm_get [(''a'', demo_job)] k = Some j \<longleftrightarrow> k = ''a'' \<and> j = demo_job" for k j
    by (auto simp: gm_get_def split: if_splits)
  show ?thesis
    using dequeue_serves_best [OF 1 2, of 2 "[''mail'']" "''w''"] 1 3 att
    by (auto simp: 4 split: prod.splits sum.splits option.splits)
qed


definition demo_worker :: worker where
  "demo_worker = Worker_WithBackoff (Worker_Register
     (NewWorker ''01234567-0000-0000-0000-000000000000'' 1) ''mail'' (\<lambda>_. HandlerErr (ErrMsg ''no''))) (Some (\<lambda>_. 1))"


text \<open>
  The default backoff after \<open>n\<close> attempts is \<open>10 n\<^sup>2\<close> seconds, positive and strictly growing, for every
  attempt number up to 30000: within that range the 64-bit nanosecond arithmetic does not wrap. (The
  default of three retries is far inside it.)
\<close>

lemma defaultBackoff_quadratic:
  assumes "1 \<le> n" and "n \<le> 30000"
  shows "defaultBackoff n = 10 * n\<^sup>2 * second \<and> defaultBackoff n > 0 \<and>
         (n < 30000 \<longrightarrow> defaultBackoff n < defaultBackoff (n + 1))"
proof -
  have eq: "defaultBackoff k = 10 * k\<^sup>2 * second" if "1 \<le> k" "k \<le> 30000" for k :: int
  proof -
    obtain m where m: "m = k * k" by blast
    have "0 \<le> m" "m \<le> 900000000"
      using that mult_mono [of k 30000 k 30000] by (simp_all add: m)
    then have "wrap64 m = m" "wrap64 (m * 10) = m * 10" "wrap64 (m * 10 * second) = m * 10 * second"
      by (auto intro!: wrap64_id)
    then show ?thesis
      by (simp only: defaultBackoff_def m [symmetric] power2_eq_square mult_ac)
  qed
  have "n\<^sup>2 > 0" using assms by simp
  moreover have "n\<^sup>2 < (n + 1)\<^sup>2" using assms by (simp add: power2_eq_square algebra_simps)
  ultimately show ?thesis using eq [of n] eq [of "n + 1"] assms by auto
qed

lemma defaultBackoff_quadratic_witness:
  "defaultBackoff 1 = 10 * second \<and> defaultBackoff 2 = 40 * second \<and> defaultBackoff 3 = 90 * second"
  using defaultBackoff_quadratic [of 1] defaultBackoff_quadratic [of 2] defaultBackoff_quadratic [of 3]
  by simp

end
