(* ===== verification/Go_Strings.thy ===== *)
theory Go_Strings
  imports Go_Prelude "HOL-Library.Char_ord"
begin

text \<open>
  The functions of Go's \<^verbatim>\<open>strings\<close> and \<^verbatim>\<open>strconv\<close> packages that the modelled code calls, on byte
  strings. White space and letter case are those of ASCII: on a string with bytes above 127 Go also
  treats some multi-byte sequences as space or as upper case, which the model leaves alone.
\<close>

definition is_space :: "char \<Rightarrow> bool" where
  "is_space c \<longleftrightarrow> c \<in> {CHR 0x09, CHR 0x0A, CHR 0x0B, CHR 0x0C, CHR 0x0D, CHR '' ''}"

definition TrimSpace :: "string \<Rightarrow> string" where
  "TrimSpace s = rev (dropWhile is_space (rev (dropWhile is_space s)))"

definition lower_char :: "char \<Rightarrow> char" where
  "lower_char c = (if CHR ''A'' \<le> c \<and> c \<le> CHR ''Z'' then char_of (of_char c + 32 :: nat) else c)"

definition ToLower :: "string \<Rightarrow> string" where
  "ToLower s = map lower_char s"

definition HasPrefix :: "string \<Rightarrow> string \<Rightarrow> bool" where
  "HasPrefix s p \<longleftrightarrow> take (length p) s = p"

definition HasSuffix :: "string \<Rightarrow> string \<Rightarrow> bool" where
  "HasSuffix s p \<longleftrightarrow> length p \<le> length s \<and> drop (length s - length p) s = p"

definition TrimPrefix :: "string \<Rightarrow> string \<Rightarrow> string" where
  "TrimPrefix s p = (if HasPrefix s p then drop (length p) s else s)"

definition TrimSuffix :: "string \<Rightarrow> string \<Rightarrow> string" where
  "TrimSuffix s p = (if HasSuffix s p then take (length s - length p) s else s)"

fun Contains :: "string \<Rightarrow> string \<Rightarrow> bool" where
  "Contains [] p \<longleftrightarrow> p = []"
| "Contains (c # s) p \<longleftrightarrow> HasPrefix (c # s) p \<or> Contains s p"

text \<open>\<^verbatim>\<open>strings.Split\<close> at a one-byte separator, and \<^verbatim>\<open>strings.Fields\<close>.\<close>

fun Split :: "string \<Rightarrow> char \<Rightarrow> string list" where
  "Split [] d = [[]]"
| "Split (c # s) d =
     (if c = d then [] # Split s d
      else (case Split s d of [] \<Rightarrow> [[c]] | w # ws \<Rightarrow> (c # w) # ws))"

fun Fields_acc :: "string \<Rightarrow> string \<Rightarrow> string list" where
  "Fields_acc [] w = (if w = [] then [] else [rev w])"
| "Fields_acc (c # s) w =
     (if is_space c then (if w = [] then Fields_acc s [] else rev w # Fields_acc s [])
      else Fields_acc s (c # w))"

definition Fields :: "string \<Rightarrow> string list" where
  "Fields s = Fields_acc s []"

text \<open>\<^verbatim>\<open>strings.Index\<close> of a one-byte substring: \<open>None\<close> is -1.\<close>

fun Index :: "string \<Rightarrow> char \<Rightarrow> nat option" where
  "Index [] d = None"
| "Index (c # s) d = (if c = d then Some 0 else map_option Suc (Index s d))"

text \<open>\<^verbatim>\<open>strconv.Atoi\<close>: an optional sign, at least one decimal digit, a value that fits 64 bits.\<close>

definition digit_val :: "char \<Rightarrow> int option" where
  "digit_val c = (if CHR ''0'' \<le> c \<and> c \<le> CHR ''9'' then Some (of_char c - 48) else None)"

fun digits_val :: "string \<Rightarrow> int \<Rightarrow> int option" where
  "digits_val [] acc = Some acc"
| "digits_val (c # s) acc =
     (case digit_val c of None \<Rightarrow> None | Some d \<Rightarrow> digits_val s (10 * acc + d))"

definition in_range64 :: "int \<Rightarrow> int option" where
  "in_range64 n = (if - (2 ^ 63) \<le> n \<and> n < 2 ^ 63 then Some n else None)"

definition Atoi :: "string \<Rightarrow> int option" where
  "Atoi s =
     (case s of
        [] \<Rightarrow> None
      | c # r \<Rightarrow>
          if c = CHR ''-'' \<or> c = CHR ''+'' then
            (if r = [] then None
             else (case digits_val r 0 of
                     None \<Rightarrow> None
                   | Some n \<Rightarrow> in_range64 (if c = CHR ''-'' then - n else n)))
          else (case digits_val s 0 of None \<Rightarrow> None | Some n \<Rightarrow> in_range64 n))"

section \<open>Facts\<close>


lemma TrimSpace_hd: "TrimSpace s \<noteq> [] \<Longrightarrow> \<not> is_space (hd (TrimSpace s))"
proof -
  assume ne: "TrimSpace s \<noteq> []"
  define t where "t = dropWhile is_space s"
  obtain u where u: "t = TrimSpace s @ u"
    unfolding TrimSpace_def t_def
    by (metis rev_append rev_rev_ident takeWhile_dropWhile_id)
  with ne have "t \<noteq> []" and "hd t = hd (TrimSpace s)" by (auto simp: hd_append)
  with hd_dropWhile [of is_space s] show ?thesis by (simp add: t_def)
qed

lemma TrimSpace_last: "TrimSpace s \<noteq> [] \<Longrightarrow> \<not> is_space (last (TrimSpace s))"
  unfolding TrimSpace_def using hd_dropWhile [of is_space "rev (dropWhile is_space s)"]
  by (simp add: last_rev)

lemma dropWhile_hd_id: "s = [] \<or> \<not> P (hd s) \<Longrightarrow> dropWhile P s = s"
  by (cases s) auto

lemma TrimSpace_id: "s = [] \<or> (\<not> is_space (hd s) \<and> \<not> is_space (last s)) \<Longrightarrow> TrimSpace s = s"
  by (auto simp: TrimSpace_def dropWhile_hd_id hd_rev)

lemma TrimSpace_idem [simp]: "TrimSpace (TrimSpace s) = TrimSpace s"
  by (rule TrimSpace_id) (use TrimSpace_hd TrimSpace_last in blast)

lemma of_char_le_iff: "(c \<le> d) = ((of_char c :: nat) \<le> of_char d)"
  by (simp add: less_eq_char_def)

lemma lower_char_not_upper: "\<not> (CHR ''A'' \<le> lower_char c \<and> lower_char c \<le> CHR ''Z'')"
proof (cases "CHR ''A'' \<le> c \<and> c \<le> CHR ''Z''")
  case True
  then have b: "65 \<le> (of_char c :: nat)" "(of_char c :: nat) \<le> 90"
    by (simp_all add: of_char_le_iff)
  then have "(of_char (char_of (of_char c + 32 :: nat)) :: nat) = of_char c + 32" by simp
  with True b show ?thesis by (simp add: lower_char_def of_char_le_iff)
qed (auto simp: lower_char_def)

lemma lower_char_idem [simp]: "lower_char (lower_char c) = lower_char c"
  using lower_char_not_upper [of c] by (auto simp: lower_char_def [of "lower_char c"])

lemma ToLower_idem [simp]: "ToLower (ToLower s) = ToLower s"
  by (simp add: ToLower_def)

lemma is_space_lower [simp]: "is_space (lower_char c) = is_space c"
proof (cases "CHR ''A'' \<le> c \<and> c \<le> CHR ''Z''")
  case True
  then have b: "65 \<le> (of_char c :: nat)" "(of_char c :: nat) \<le> 90"
    by (simp_all add: of_char_le_iff)
  have sp: "is_space d \<Longrightarrow> (of_char d :: nat) \<le> 32" for d
    by (auto simp: is_space_def)
  have "(of_char (lower_char c) :: nat) = of_char c + 32" using True b by (simp add: lower_char_def)
  then have "\<not> is_space (lower_char c)" "\<not> is_space c"
    using sp [of "lower_char c"] sp [of c] b by linarith+
  then show ?thesis by simp
qed (auto simp: lower_char_def)

lemma TrimSpace_ToLower: "TrimSpace (ToLower s) = ToLower (TrimSpace s)"
  by (simp add: TrimSpace_def ToLower_def dropWhile_map comp_def rev_map)

text \<open>The normal form of an e-mail address is stable.\<close>

lemma normalise_idem [simp]: "ToLower (TrimSpace (ToLower (TrimSpace s))) = ToLower (TrimSpace s)"
  by (simp add: TrimSpace_ToLower)

lemma TrimSpace_normalised [simp]: "TrimSpace (ToLower (TrimSpace s)) = ToLower (TrimSpace s)"
  by (simp add: TrimSpace_ToLower)

lemma Split_ne [simp]: "Split s d \<noteq> []"
  by (induction s) (auto split: list.splits)

lemma Atoi_range: "Atoi s = Some n \<Longrightarrow> - (2 ^ 63) \<le> n \<and> n < 2 ^ 63"
  by (auto simp: Atoi_def in_range64_def split: list.splits option.splits if_splits)

section \<open>Decimal formatting\<close>

fun show_nat :: "nat \<Rightarrow> string" where
  "show_nat n = (if n < 10 then [char_of (48 + n)] else show_nat (n div 10) @ [char_of (48 + n mod 10)])"

declare show_nat.simps [simp del]

lemma show_nat_ne [simp]: "show_nat n \<noteq> []"
  by (subst show_nat.simps) simp

definition show_int :: "int \<Rightarrow> string" where
  "show_int i = (if i < 0 then CHR ''-'' # show_nat (nat (- i)) else show_nat (nat i))"

text \<open>\<^verbatim>\<open>%q\<close> of a string without characters that it escapes.\<close>

definition quoted :: "string \<Rightarrow> string" where
  "quoted s = [CHR 0x22] @ s @ [CHR 0x22]"

text \<open>\<^verbatim>\<open>hex.EncodeToString\<close>.\<close>

definition hex_digit :: "nat \<Rightarrow> char" where
  "hex_digit n = (if n < 10 then char_of (48 + n) else char_of (87 + n))"

definition hex_encode :: "string \<Rightarrow> string" where
  "hex_encode bs = concat (map (\<lambda>b. [hex_digit (of_char b div 16), hex_digit (of_char b mod 16)]) bs)"

lemma hex_digit_val: "k < 16 \<Longrightarrow> (of_char (hex_digit k) :: nat) = (if k < 10 then 48 + k else 87 + k)"
  by (cases "k < 10") (simp_all add: hex_digit_def mod_less)

lemma hex_digit_inj: "m < 16 \<Longrightarrow> n < 16 \<Longrightarrow> hex_digit m = hex_digit n \<longleftrightarrow> m = n"
proof
  assume lt: "m < 16" "n < 16" and "hex_digit m = hex_digit n"
  then have "(if m < 10 then 48 + m else 87 + m) = (if n < 10 then 48 + n else 87 + n)"
    using hex_digit_val [of m] hex_digit_val [of n] by metis
  then show "m = n" using lt by (auto split: if_splits)
qed simp

lemma high_nibble: "(of_char (c :: char) :: nat) div 16 < 16"
proof -
  have "(of_char c :: nat) < 256" by (cases c) (auto simp: of_char_def horner_sum_simps)
  then show ?thesis by (rule less_mult_imp_div_less [of _ 16 16, simplified])
qed

lemma hex_encode_Cons:
  "hex_encode (b # bs) = hex_digit (of_char b div 16) # hex_digit (of_char b mod 16) # hex_encode bs"
  by (simp add: hex_encode_def)

lemma hex_encode_inj: "hex_encode xs = hex_encode ys \<longleftrightarrow> xs = ys"
proof (induction xs arbitrary: ys)
  case Nil
  then show ?case by (cases ys) (simp_all add: hex_encode_Cons, simp add: hex_encode_def)
next
  case (Cons x xs)
  show ?case
  proof (cases ys)
    case Nil
    then show ?thesis by (simp add: hex_encode_def)
  next
    case (Cons y zs)
    have "(of_char x :: nat) div 16 = of_char y div 16 \<and> (of_char x :: nat) mod 16 = of_char y mod 16 \<longleftrightarrow> x = y"
      by (metis div_mult_mod_eq of_char_eq_iff)
    then show ?thesis
      using Cons Cons.IH [of zs] high_nibble by (auto simp: hex_encode_Cons hex_digit_inj)
  qed
qed

lemma show_nat_digits: "c \<in> set (show_nat n) \<Longrightarrow> 48 \<le> (of_char c :: nat) \<and> (of_char c :: nat) < 58"
proof (induction n rule: show_nat.induct)
  case (1 n)
  have d: "48 \<le> (of_char (char_of (48 + k) :: char) :: nat) \<and> (of_char (char_of (48 + k) :: char) :: nat) < 58"
    if "k < 10" for k :: nat
    using that by simp
  show ?case
  proof (cases "n < 10")
    case True
    then have "c = char_of (48 + n)" using 1(2) by (simp add: show_nat.simps [of n])
    with d [OF True] show ?thesis by simp
  next
    case False
    then have "c \<in> set (show_nat (n div 10)) \<or> c = char_of (48 + n mod 10)"
      using 1(2) by (simp add: show_nat.simps [of n] disj_commute)
    with 1(1) [OF False] d [of "n mod 10"] show ?thesis by auto
  qed
qed

lemma Split_no_sep: "d \<notin> set s \<Longrightarrow> Split s d = [s]"
  by (induction s) auto

section \<open>Printing and reading numbers\<close>

lemma digit_val_char: "d < 10 \<Longrightarrow> digit_val (char_of (48 + d)) = Some (int d)"
  for d :: nat
proof -
  assume d: "d < 10"
  have "(of_char (char_of (48 + d) :: char) :: nat) = 48 + d" using d by simp
  then have "CHR ''0'' \<le> char_of (48 + d)" "char_of (48 + d) \<le> CHR ''9''"
    "(of_char (char_of (48 + d) :: char) :: int) = 48 + int d"
    using d by (simp_all add: of_char_le_iff del: of_char_of)
     (metis of_nat_add of_nat_numeral of_nat_of_char)
  then show ?thesis by (simp add: digit_val_def del: of_char_of)
qed

lemma digits_val_append:
  "digits_val (xs @ ys) acc = (case digits_val xs acc of None \<Rightarrow> None | Some n \<Rightarrow> digits_val ys n)"
  by (induction xs arbitrary: acc) (auto split: option.splits)

lemma digits_val_show: "digits_val (show_nat n) 0 = Some (int n)"
proof (induction n rule: show_nat.induct)
  case (1 n)
  show ?case
  proof (cases "n < 10")
    case True
    then show ?thesis by (subst show_nat.simps) (simp add: digit_val_char)
  next
    case False
    have "digit_val (char_of (48 + n mod 10)) = Some (int (n mod 10))" by (rule digit_val_char) simp
    moreover have "10 * int (n div 10) + int (n mod 10) = int n"
      by (metis mult_div_mod_eq of_nat_add of_nat_mult of_nat_numeral)
    ultimately show ?thesis
      using 1 False by (subst show_nat.simps) (simp add: digits_val_append del: of_nat_mod)
  qed
qed

lemma show_nat_digit: "c \<in> set (show_nat n) \<Longrightarrow> digit_val c \<noteq> None"
  using show_nat_digits [of c n] by (auto simp: digit_val_def of_char_le_iff)

lemma show_int_chars: "c \<in> set (show_int i) \<Longrightarrow> c \<noteq> CHR ''.'' \<and> \<not> is_space c"
proof -
  assume "c \<in> set (show_int i)"
  then have "c = CHR ''-'' \<or> digit_val c \<noteq> None"
    using show_nat_digit by (auto simp: show_int_def split: if_splits)
  then show ?thesis by (auto simp: digit_val_def is_space_def split: if_splits)
qed

lemma show_int_ne [simp]: "show_int i \<noteq> []"
  by (simp add: show_int_def)

lemma show_nat_no_sign: "show_nat n = c # r \<Longrightarrow> c \<noteq> CHR ''-'' \<and> c \<noteq> CHR ''+''"
  using show_nat_digit [of c n] by (auto simp: digit_val_def split: if_splits)

lemma Atoi_show_int:
  assumes "- (2 ^ 63) \<le> i" and "i < 2 ^ 63"
  shows "Atoi (show_int i) = Some i"
proof (cases "i < 0")
  case True
  then show ?thesis using assms digits_val_show [of "nat (- i)"] by (simp add: Atoi_def show_int_def in_range64_def)
next
  case False
  obtain c r where cr: "show_nat (nat i) = c # r" by (cases "show_nat (nat i)") auto
  with False show ?thesis
    using assms digits_val_show [of "nat i"] show_nat_no_sign [OF cr]
    by (simp add: Atoi_def show_int_def in_range64_def)
qed

lemma TrimSpace_show_int [simp]: "TrimSpace (show_int i) = show_int i"
  by (rule TrimSpace_id) (use show_int_chars [of _ i] hd_in_set last_in_set show_int_ne in blast)

section \<open>Splitting and joining\<close>

text \<open>
  \<^verbatim>\<open>strings.SplitN\<close> at a one-byte separator for a positive limit, \<^verbatim>\<open>strings.Join\<close>, \<^verbatim>\<open>strings.EqualFold\<close> and
  \<^verbatim>\<open>strings.TrimRight\<close> of one byte.
\<close>

fun SplitN :: "string \<Rightarrow> char \<Rightarrow> nat \<Rightarrow> string list" where
  "SplitN s d 0 = []"
| "SplitN s d (Suc 0) = [s]"
| "SplitN s d (Suc (Suc n)) =
     (if d \<in> set s then takeWhile (\<lambda>c. c \<noteq> d) s # SplitN (tl (dropWhile (\<lambda>c. c \<noteq> d) s)) d (Suc n) else [s])"

fun Join :: "string list \<Rightarrow> string \<Rightarrow> string" where
  "Join [] sep = []"
| "Join [w] sep = w"
| "Join (w # v # ws) sep = w @ sep @ Join (v # ws) sep"

definition EqualFold :: "string \<Rightarrow> string \<Rightarrow> bool" where
  "EqualFold s t \<longleftrightarrow> ToLower s = ToLower t"

definition TrimRight :: "string \<Rightarrow> char \<Rightarrow> string" where
  "TrimRight s d = rev (dropWhile (\<lambda>c. c = d) (rev s))"

lemma takeWhile_sep: "d \<notin> set w \<Longrightarrow> takeWhile (\<lambda>c. c \<noteq> d) (w @ d # r) = w"
  by (induction w) auto

lemma dropWhile_sep: "d \<notin> set w \<Longrightarrow> dropWhile (\<lambda>c. c \<noteq> d) (w @ d # r) = d # r"
  by (induction w) auto

lemma SplitN_sep: "d \<notin> set w \<Longrightarrow> SplitN (w @ d # r) d (Suc (Suc n)) = w # SplitN r d (Suc n)"
  by (simp add: takeWhile_sep dropWhile_sep)

lemma Split_sep: "d \<notin> set w \<Longrightarrow> Split (w @ d # r) d = w # Split r d"
  by (induction w) auto

lemma Split_Join: "Join (Split s d) [d] = s"
proof (induction s)
  case Nil
  show ?case by simp
next
  case (Cons c s)
  obtain w ws where sp: "Split s d = w # ws" by (cases "Split s d") auto
  then show ?case using Cons by (cases ws) auto
qed

section \<open>Big-endian integers\<close>

text \<open>\<^verbatim>\<open>binary.BigEndian.PutUint32\<close> and \<^verbatim>\<open>binary.BigEndian.Uint32\<close>.\<close>

definition PutUint32 :: "nat \<Rightarrow> string" where
  "PutUint32 n = [char_of (n div 2 ^ 24), char_of (n div 2 ^ 16 mod 2 ^ 8), char_of (n div 2 ^ 8 mod 2 ^ 8), char_of (n mod 2 ^ 8)]"

definition GetUint32 :: "string \<Rightarrow> nat" where
  "GetUint32 bs = foldl (\<lambda>n b. n * 2 ^ 8 + of_char b) 0 bs"

lemma length_PutUint32 [simp]: "length (PutUint32 n) = 4"
  by (simp add: PutUint32_def)

lemma GetUint32_PutUint32: "n < 2 ^ 32 \<Longrightarrow> GetUint32 (PutUint32 n) = n"
proof -
  assume n: "n < 2 ^ 32"
  then have "n div 2 ^ 24 < 256" by (simp add: div_less_iff_less_mult)
  moreover have "((n div 2 ^ 24 * 2 ^ 8 + n div 2 ^ 16 mod 2 ^ 8) * 2 ^ 8 + n div 2 ^ 8 mod 2 ^ 8) * 2 ^ 8 + n mod 2 ^ 8 = n"
  proof -
    have "n div 2 ^ 24 * 2 ^ 8 + n div 2 ^ 16 mod 2 ^ 8 = n div 2 ^ 16"
      using div_mult_mod_eq [of "n div 2 ^ 16" "2 ^ 8"] by (simp add: div_mult2_eq [symmetric])
    moreover have "n div 2 ^ 16 * 2 ^ 8 + n div 2 ^ 8 mod 2 ^ 8 = n div 2 ^ 8"
      using div_mult_mod_eq [of "n div 2 ^ 8" "2 ^ 8"] by (simp add: div_mult2_eq [symmetric])
    ultimately show ?thesis by simp
  qed
  ultimately show ?thesis by (simp add: GetUint32_def PutUint32_def)
qed

lemma PutUint32_inj: "m < 2 ^ 32 \<Longrightarrow> n < 2 ^ 32 \<Longrightarrow> PutUint32 m = PutUint32 n \<Longrightarrow> m = n"
  by (metis GetUint32_PutUint32)

end
