(* ===== verification/Scheduler.thy ===== *)
theory Scheduler
  imports Go_Strings
begin

text \<open>
  The cron scheduler of \<^verbatim>\<open>src/platform/scheduler/scheduler.go\<close>: parsing of cron expressions, matching of
  a clock reading against a schedule, the registry of tasks, the in-memory lease locker and the
  lease-guarded execution of a due task. The \<^verbatim>\<open>Locker\<close> interface is the locale \<open>locker_spec\<close>.

  \<^verbatim>\<open>time.ParseDuration\<close> is a parameter. The inner loop of \<^verbatim>\<open>parseField\<close> steps in 64-bit arithmetic and is
  not structurally bounded, so it is a partial function into \<open>option\<close> (\<open>None\<close> would be a loop that never
  ends) and its termination is a theorem. In error texts \<^verbatim>\<open>%q\<close> is plain quotes, without escapes.
\<close>

section \<open>Calendar fields of a UTC time\<close>

definition Unix :: "go_time \<Rightarrow> int" where
  "Unix t = t div second - 62135596800"

definition Second :: "go_time \<Rightarrow> int" where
  "Second t = (t div second) mod 60"

definition Minute :: "go_time \<Rightarrow> int" where
  "Minute t = (t div (60 * second)) mod 60"

definition Hour :: "go_time \<Rightarrow> int" where
  "Hour t = (t div (3600 * second)) mod 24"

definition day_number :: "go_time \<Rightarrow> int" where
  "day_number t = t div (86400 * second)"

text \<open>Day 0 is Monday, 1 January of year 1; Sunday is weekday 0.\<close>

definition Weekday :: "go_time \<Rightarrow> int" where
  "Weekday t = (day_number t + 1) mod 7"

text \<open>Month and day of the proleptic Gregorian calendar, counting years from 1 March of year 0.\<close>

definition day_of_era :: "go_time \<Rightarrow> int" where
  "day_of_era t = (day_number t + 306) mod 146097"

definition day_of_year :: "go_time \<Rightarrow> int" where
  "day_of_year t =
     (let doe = day_of_era t;
          yoe = (doe - doe div 1460 + doe div 36524 - doe div 146096) div 365
      in doe - (365 * yoe + yoe div 4 - yoe div 100))"

definition Month :: "go_time \<Rightarrow> int" where
  "Month t = (let mp = (5 * day_of_year t + 2) div 153 in if mp < 10 then mp + 3 else mp - 9)"

definition Day :: "go_time \<Rightarrow> int" where
  "Day t = (let doy = day_of_year t; mp = (5 * doy + 2) div 153 in doy - (153 * mp + 2) div 5 + 1)"

section \<open>Schedules\<close>

definition ErrDuplicateName :: go_error where
  "ErrDuplicateName = ErrVar ''scheduler: duplicate task name''"

definition ErrInvalidCron :: go_error where
  "ErrInvalidCron = ErrVar ''scheduler: invalid cron expression''"

record schedule =
  s_everyDur :: duration
  s_minute :: "int list"
  s_hour :: "int list"
  s_dom :: "int list"
  s_month :: "int list"
  s_dow :: "int list"

definition cron_match :: "int list \<Rightarrow> int \<Rightarrow> bool" where
  "cron_match values v \<longleftrightarrow> (if values = [] then True else v \<in> set values)"

definition schedule_matches :: "schedule \<Rightarrow> go_time \<Rightarrow> bool" where
  "schedule_matches s t =
     (if s_everyDur s > 0 then
        let secs = go_div (s_everyDur s) second;
            secs' = (if secs \<le> 0 then 1 else secs)
        in go_mod (Unix t) secs' = 0
      else if \<not> cron_match (s_minute s) (Minute t) then False
      else if \<not> cron_match (s_hour s) (Hour t) then False
      else if \<not> cron_match (s_dom s) (Day t) then False
      else if \<not> cron_match (s_month s) (Month t) then False
      else if \<not> cron_match (s_dow s) (Weekday t) then False
      else Second t = 0)"

subsection \<open>Parsing one field\<close>

definition quoted :: "string \<Rightarrow> string" where
  "quoted s = [CHR 0x22] @ s @ [CHR 0x22]"

text \<open>\<^verbatim>\<open>for v := rangeLo; v <= rangeHi; v += step\<close>, the values visited, with 64-bit addition.\<close>

partial_function (option) range_loop :: "int \<Rightarrow> int \<Rightarrow> int \<Rightarrow> int list option" where
  "range_loop v hi step =
     (if v \<le> hi then
        Option.bind (range_loop (wrap64 (v + step)) hi step) (\<lambda>vs. Some (v # vs))
      else Some [])"

text \<open>The step suffix and the range of one comma-separated part.\<close>

definition part_step :: "string \<Rightarrow> string \<Rightarrow> (int \<times> string) result" where
  "part_step field part =
     (case Index part (CHR ''/'') of
        None \<Rightarrow> Inr (1, part)
      | Some i \<Rightarrow>
          (case Atoi (drop (i + 1) part) of
             None \<Rightarrow> Inl (ErrMsg (''invalid step in '' @ quoted field))
           | Some s \<Rightarrow> if s \<le> 0 then Inl (ErrMsg (''invalid step in '' @ quoted field))
                       else Inr (s, take i part)))"

definition part_range :: "string \<Rightarrow> int \<Rightarrow> int \<Rightarrow> (int \<times> int) result" where
  "part_range part lo hi =
     (if part = ''*'' then Inr (lo, hi)
      else (case Index part (CHR ''-'') of
              Some i \<Rightarrow>
                (case (Atoi (take i part), Atoi (drop (i + 1) part)) of
                   (Some a, Some b) \<Rightarrow>
                     if a < lo \<or> b > hi \<or> a > b then Inl (ErrMsg (''invalid range '' @ quoted part))
                     else Inr (a, b)
                 | _ \<Rightarrow> Inl (ErrMsg (''invalid range '' @ quoted part)))
            | None \<Rightarrow>
                (case Atoi part of
                   Some n \<Rightarrow> if n < lo \<or> n > hi then Inl (ErrMsg (''invalid value '' @ quoted part))
                             else Inr (n, n)
                 | None \<Rightarrow> Inl (ErrMsg (''invalid value '' @ quoted part)))))"

fun parse_parts :: "string \<Rightarrow> int \<Rightarrow> int \<Rightarrow> string list \<Rightarrow> int list \<Rightarrow> int list result option" where
  "parse_parts field lo hi [] out = Some (Inr out)"
| "parse_parts field lo hi (part # parts) out =
     (case part_step field part of
        Inl e \<Rightarrow> Some (Inl e)
      | Inr (step, part') \<Rightarrow>
          (case part_range part' lo hi of
             Inl e \<Rightarrow> Some (Inl e)
           | Inr (rangeLo, rangeHi) \<Rightarrow>
               (case range_loop rangeLo rangeHi step of
                  None \<Rightarrow> None
                | Some vs \<Rightarrow> parse_parts field lo hi parts (fold List.insert vs out))))"

definition parseField :: "string \<Rightarrow> int \<Rightarrow> int \<Rightarrow> int list result option" where
  "parseField field lo hi =
     (if field = ''*'' then Some (Inr []) else parse_parts field lo hi (Split field (CHR '','')) [])"

subsection \<open>Parsing an expression\<close>

definition no_every :: schedule where
  "no_every = \<lparr>s_everyDur = 0, s_minute = [], s_hour = [], s_dom = [], s_month = [], s_dow = []\<rparr>"

text \<open>One field of the expression, its error wrapped with the field's name, then the rest.\<close>

definition with_field ::
  "string \<Rightarrow> int list result option \<Rightarrow> (int list \<Rightarrow> schedule result option) \<Rightarrow> schedule result option" where
  "with_field name r k =
     (case r of
        None \<Rightarrow> None
      | Some (Inl e) \<Rightarrow>
          Some (Inl (ErrWrap [] ErrInvalidCron ('' ('' @ name @ ''): '' @ error_text e)))
      | Some (Inr vs) \<Rightarrow> k vs)"

definition parse_five :: "string list \<Rightarrow> schedule result option" where
  "parse_five parts =
     (case parts of
        [p0, p1, p2, p3, p4] \<Rightarrow>
          with_field ''minute'' (parseField p0 0 59) (\<lambda>minute.
          with_field ''hour'' (parseField p1 0 23) (\<lambda>hour.
          with_field ''dom'' (parseField p2 1 31) (\<lambda>dom.
          with_field ''month'' (parseField p3 1 12) (\<lambda>month.
          with_field ''dow'' (parseField p4 0 6) (\<lambda>dow.
            Some (Inr (no_every\<lparr>s_minute := minute, s_hour := hour, s_dom := dom,
                                s_month := month, s_dow := dow\<rparr>)))))))
      | _ \<Rightarrow> Some (Inl (ErrWrap [] ErrInvalidCron ('': expected 5 fields, got '' @ show_int (int (length parts))))))"

definition shortcut :: "string \<Rightarrow> string" where
  "shortcut expr =
     (if expr = ''@hourly'' then ''0 * * * *''
      else if expr = ''@daily'' \<or> expr = ''@midnight'' then ''0 0 * * *''
      else if expr = ''@weekly'' then ''0 0 * * 0''
      else if expr = ''@monthly'' then ''0 0 1 * *''
      else if expr = ''@yearly'' \<or> expr = ''@annually'' then ''0 0 1 1 *''
      else expr)"

definition parseSchedule :: "(string \<Rightarrow> duration result) \<Rightarrow> string \<Rightarrow> schedule result option" where
  "parseSchedule ParseDuration expr0 =
     (let expr = TrimSpace expr0
      in if expr = [] then Some (Inl (ErrWrap [] ErrInvalidCron '': empty''))
         else if HasPrefix expr ''@every '' then
           (case ParseDuration (TrimPrefix expr ''@every '') of
              Inl err \<Rightarrow> Some (Inl (ErrWrap [] ErrInvalidCron ('': '' @ error_text err)))
            | Inr dur \<Rightarrow>
                if dur < second
                then Some (Inl (ErrWrap [] ErrInvalidCron '': @every must be >= 1s''))
                else Some (Inr (no_every\<lparr>s_everyDur := dur\<rparr>)))
         else parse_five (Fields (shortcut expr)))"

section \<open>Tasks\<close>

datatype run_outcome = RunOk | RunErr go_error | RunPanic string

record schedule_spec =
  sp_Name :: string
  sp_Cron :: string
  sp_Handler :: "(unit \<Rightarrow> run_outcome) option"
  sp_Timeout :: duration

record task =
  tk_spec :: schedule_spec
  tk_schedule :: schedule

type_synonym tasks = "(string, task) gomap"

definition Scheduler_Add ::
  "(string \<Rightarrow> duration result) \<Rightarrow> tasks \<Rightarrow> schedule_spec \<Rightarrow> (go_error option \<times> tasks) option" where
  "Scheduler_Add ParseDuration ts spec =
     (if sp_Name spec = [] \<or> sp_Handler spec = None
      then Some (Some (ErrMsg ''scheduler: Name and Handler required''), ts)
      else (case parseSchedule ParseDuration (sp_Cron spec) of
              None \<Rightarrow> None
            | Some (Inl err) \<Rightarrow> Some (Some err, ts)
            | Some (Inr sched) \<Rightarrow>
                (case gm_get ts (sp_Name spec) of
                   Some _ \<Rightarrow> Some (Some ErrDuplicateName, ts)
                 | None \<Rightarrow> Some (None, gm_put (sp_Name spec) \<lparr>tk_spec = spec, tk_schedule = sched\<rparr> ts))))"

definition Scheduler_due :: "tasks \<Rightarrow> go_time \<Rightarrow> task list" where
  "Scheduler_due ts now = filter (\<lambda>t. schedule_matches (tk_schedule t) now) (gm_vals ts)"

text \<open>
  One iteration of the select loop of \<^verbatim>\<open>Start\<close> on a tick: the tick is truncated to the second and a
  repeated second is skipped. The result is the remembered tick and the tasks started.
\<close>

definition Scheduler_tick :: "tasks \<Rightarrow> go_time \<Rightarrow> go_time \<Rightarrow> go_time \<times> task list" where
  "Scheduler_tick ts lastTick tick =
     (let now = second * (tick div second)
      in if lastTick \<noteq> 0 \<and> now = lastTick then (lastTick, []) else (now, Scheduler_due ts now))"

text \<open>A nil handler (\<open>None\<close>, which \<^verbatim>\<open>Add\<close> refuses) would panic when it is called.\<close>

definition call_handler :: "(unit \<Rightarrow> run_outcome) option \<Rightarrow> run_outcome" where
  "call_handler h = (case h of
      Some f \<Rightarrow> f ()
    | None \<Rightarrow> RunPanic ''runtime error: invalid memory address or nil pointer dereference'')"

definition safeRun :: "(unit \<Rightarrow> run_outcome) option \<Rightarrow> go_error option" where
  "safeRun h = (case call_handler h of
      RunOk \<Rightarrow> None
    | RunErr e \<Rightarrow> Some e
    | RunPanic r \<Rightarrow> Some (ErrMsg (''scheduler: panic: '' @ r)))"

section \<open>Leases\<close>

definition leaseName :: "string \<Rightarrow> go_time \<Rightarrow> string" where
  "leaseName name tickAt = ''scheduler:'' @ name @ '':'' @ show_int (Unix tickAt)"

type_synonym leases = "(string, go_time) gomap"

definition NewMemoryLocker :: leases where
  "NewMemoryLocker = []"

definition MemoryLocker_TryLock :: "leases \<Rightarrow> go_time \<Rightarrow> string \<Rightarrow> duration \<Rightarrow> bool \<times> leases" where
  "MemoryLocker_TryLock l now name ttl =
     (case gm_get l name of
        Some exp \<Rightarrow> if exp > now then (False, l) else (True, gm_put name (now + ttl) l)
      | None \<Rightarrow> (True, gm_put name (now + ttl) l))"

definition MemoryLocker_release :: "leases \<Rightarrow> string \<Rightarrow> leases" where
  "MemoryLocker_release l name = gm_del name l"

text \<open>
  \<^verbatim>\<open>runOne\<close> under a locker: \<open>None\<close> when another replica holds the lease, otherwise the handler's error, if
  any; the lease is released at the end.
\<close>

definition Scheduler_runOne ::
  "('l \<Rightarrow> go_time \<Rightarrow> string \<Rightarrow> duration \<Rightarrow> bool \<times> 'l) \<Rightarrow> ('l \<Rightarrow> string \<Rightarrow> 'l) \<Rightarrow> go_time \<Rightarrow> 'l \<Rightarrow> task
   \<Rightarrow> go_time \<Rightarrow> go_error option option \<times> 'l" where
  "Scheduler_runOne TryLock release now l t tickAt =
     (let name = leaseName (sp_Name (tk_spec t)) tickAt
      in case TryLock l now name (90 * second) of
           (False, l') \<Rightarrow> (None, l')
         | (True, l') \<Rightarrow>
             (Some (safeRun (sp_Handler (tk_spec t))), release l' name))"

section \<open>The field parser always returns\<close>

text \<open>
  The loop ends for every step \<^verbatim>\<open>Atoi\<close> can produce. Below \<open>2 ^ 63 - 60\<close> the addition does not wrap before
  the bound is passed. A step closer to \<open>2 ^ 63\<close>, say \<open>2 ^ 63 - d\<close>, wraps, and two rounds of it lower the
  value by \<open>2 d\<close>, until it is below \<open>d\<close> and the next round passes the bound.
\<close>

lemma range_loop_stop: "v > hi \<Longrightarrow> range_loop v hi step = Some []"
  by (simp add: range_loop.simps)

lemma range_loop_step:
  "v \<le> hi \<Longrightarrow> range_loop (wrap64 (v + step)) hi step = Some vs \<Longrightarrow>
   range_loop v hi step = Some (v # vs)"
  by (subst range_loop.simps) simp

lemma range_loop_small:
  assumes "0 \<le> v" and "hi \<le> 59" and "0 < step" and "step \<le> 2 ^ 63 - 60"
  shows "\<exists>vs. range_loop v hi step = Some vs \<and> set vs = {x. v \<le> x \<and> x \<le> hi \<and> step dvd (x - v)}"
  using assms(1)
proof (induction "nat (hi + 1 - v)" arbitrary: v rule: less_induct)
  case less
  show ?case
  proof (cases "v \<le> hi")
    case True
    have w: "wrap64 (v + step) = v + step"
      using True less.prems assms by (intro wrap64_id) simp_all
    obtain vs where vs: "range_loop (v + step) hi step = Some vs"
      "set vs = {x. v + step \<le> x \<and> x \<le> hi \<and> step dvd (x - (v + step))}"
      using less.hyps [of "v + step"] True assms(3) less.prems by auto
    have "step dvd (x - v) \<longleftrightarrow> step dvd (x - (v + step))" for x
      using dvd_diff_left_iff [of step step "x - v"] by (simp add: diff_diff_eq)
    moreover have "x = v \<or> v + step \<le> x" if "v \<le> x" "step dvd (x - v)" for x
      using that assms(3) by (auto dest: zdvd_imp_le)
    ultimately have "set (v # vs) = {x. v \<le> x \<and> x \<le> hi \<and> step dvd (x - v)}"
      using vs(2) True assms(3) by auto
    with range_loop_step [OF True, of step vs] vs(1) w show ?thesis by auto
  qed (auto simp: range_loop_stop)
qed

lemma range_loop_large:
  assumes "0 \<le> v" and "v \<le> 59" and "hi \<le> 59" and "2 ^ 63 - 60 < step" and "step < 2 ^ 63"
  shows "\<exists>vs. range_loop v hi step = Some vs"
  using assms(1,2)
proof (induction "nat v" arbitrary: v rule: less_induct)
  case less
  show ?case
  proof (cases "v \<le> hi")
    case le: True
    show ?thesis
    proof (cases "v + step < 2 ^ 63")
      case True
      then have "wrap64 (v + step) = v + step" using less.prems assms by (intro wrap64_id) simp_all
      then have "range_loop (wrap64 (v + step)) hi step = Some []"
        using less.prems assms by (intro range_loop_stop) simp
      then show ?thesis using range_loop_step [OF le] by blast
    next
      case False
      define w where "w = v + step - 2 ^ 64"
      define u where "u = w + step"
      have "wrap64 (v + step) = w"
        using False less.prems assms wrap64_over [of "v + step"] by (simp add: w_def)
      moreover have "w \<le> hi" if "hi \<ge> 0" using less.prems assms that by (simp add: w_def)
      ultimately have step1: "\<exists>vs. range_loop v hi step = Some vs"
        if "\<exists>vs. range_loop w hi step = Some vs"
        using that range_loop_step [OF le] by auto
      have "wrap64 u = u" unfolding u_def w_def using False less.prems assms by (intro wrap64_id) simp_all
      then have step2: "\<exists>vs. range_loop w hi step = Some vs"
        if "\<exists>vs. range_loop u hi step = Some vs"
        using that range_loop_step [of w hi step] range_loop_stop [of hi w step] u_def by fastforce
      have "\<exists>vs. range_loop u hi step = Some vs"
      proof (cases "0 \<le> u")
        case True
        moreover have "u < v" using False less.prems assms by (simp add: u_def w_def)
        ultimately show ?thesis using less.hyps [of u] less.prems by simp
      next
        case neg: False
        show ?thesis
        proof (cases "u \<le> hi")
          case True
          have "wrap64 (u + step) = u + step" and "u + step > hi"
            using neg False less.prems assms by (auto simp: u_def w_def intro!: wrap64_id)
          then show ?thesis using range_loop_step [OF True] range_loop_stop by metis
        qed (auto simp: range_loop_stop)
      qed
      then show ?thesis using step1 step2 by blast
    qed
  qed (auto simp: range_loop_stop)
qed

lemma range_loop_total:
  assumes "0 \<le> v" and "v \<le> hi" and "hi \<le> 59" and "0 < step" and "step < 2 ^ 63"
  shows "\<exists>vs. range_loop v hi step = Some vs"
proof (cases "step \<le> 2 ^ 63 - 60")
  case True
  show ?thesis using range_loop_small [OF assms(1,3,4) True] by blast
next
  case False
  show ?thesis using range_loop_large [of v hi step] assms False by simp
qed

lemma part_step_bounds: "part_step field part = Inr (s, p) \<Longrightarrow> 0 < s \<and> s < 2 ^ 63"
  by (auto simp: part_step_def dest: Atoi_range split: option.splits if_splits)

lemma part_range_bounds:
  "part_range part lo hi = Inr (a, b) \<Longrightarrow> lo \<le> hi \<Longrightarrow> lo \<le> a \<and> a \<le> b \<and> b \<le> hi"
  by (auto simp: part_range_def split: option.splits if_splits)

lemma parse_parts_total:
  assumes "0 \<le> lo" and "lo \<le> hi" and "hi \<le> 59"
  shows "\<exists>r. parse_parts field lo hi parts out = Some r"
proof (induction parts arbitrary: out)
  case (Cons part parts)
  have "\<exists>vs. range_loop a b s = Some vs"
    if "part_step field part = Inr (s, p)" "part_range p lo hi = Inr (a, b)" for s p a b
    using part_step_bounds [OF that(1)] part_range_bounds [OF that(2) assms(2)] assms
    by (intro range_loop_total) auto
  then show ?case using Cons.IH by (fastforce split: sum.splits prod.splits option.splits)
qed simp

lemma parseField_total:
  "0 \<le> lo \<Longrightarrow> lo \<le> hi \<Longrightarrow> hi \<le> 59 \<Longrightarrow> \<exists>r. parseField field lo hi = Some r"
  by (simp add: parseField_def parse_parts_total)

lemma with_field_total:
  "\<exists>r. f = Some r \<Longrightarrow> (\<And>vs. \<exists>r. k vs = Some r) \<Longrightarrow> \<exists>r. with_field name f k = Some r"
  by (auto simp: with_field_def split: sum.splits)

lemma parse_five_total: "\<exists>r. parse_five parts = Some r"
proof -
  have "\<exists>r. parse_five [p0, p1, p2, p3, p4] = Some r" for p0 p1 p2 p3 p4
    unfolding parse_five_def list.case by (intro with_field_total parseField_total) auto
  then show ?thesis by (auto simp: parse_five_def split: list.splits)
qed

section \<open>What a parsed field denotes\<close>

text \<open>
  The reference reading of a field: a value is selected by a part \<open>a-b/s\<close> when it lies between \<open>a\<close> and
  \<open>b\<close> and its distance from \<open>a\<close> is a multiple of \<open>s\<close>. \<open>steps_small\<close> excludes the steps whose addition
  wraps.
\<close>

definition part_selects :: "string \<Rightarrow> int \<Rightarrow> int \<Rightarrow> string \<Rightarrow> int \<Rightarrow> bool" where
  "part_selects field lo hi part v =
     (case part_step field part of
        Inl _ \<Rightarrow> False
      | Inr (s, p) \<Rightarrow>
          (case part_range p lo hi of
             Inl _ \<Rightarrow> False
           | Inr (a, b) \<Rightarrow> a \<le> v \<and> v \<le> b \<and> s dvd (v - a)))"

definition steps_small :: "string \<Rightarrow> bool" where
  "steps_small field =
     (\<forall>part\<in>set (Split field (CHR '','')).
        case part_step field part of Inl _ \<Rightarrow> True | Inr (s, _) \<Rightarrow> s \<le> 2 ^ 63 - 60)"

lemma set_fold_insert: "set (fold List.insert vs out) = set vs \<union> set out"
  by (induction vs arbitrary: out) auto

lemma distinct_fold_insert: "distinct out \<Longrightarrow> distinct (fold List.insert vs out)"
  by (induction vs arbitrary: out) auto

lemma parse_parts_values:
  assumes "0 \<le> lo" and "lo \<le> hi" and "hi \<le> 59"
    and "parse_parts field lo hi parts out = Some (Inr vs)"
    and "\<forall>part\<in>set parts. case part_step field part of Inl _ \<Rightarrow> True | Inr (s, _) \<Rightarrow> s \<le> 2 ^ 63 - 60"
  shows "set vs = {v. \<exists>part\<in>set parts. part_selects field lo hi part v} \<union> set out
         \<and> (\<forall>part\<in>set parts. \<exists>v. part_selects field lo hi part v)"
  using assms(4,5)
proof (induction parts arbitrary: out)
  case (Cons part parts)
  from Cons.prems(1) obtain s p a b ws where
    st: "part_step field part = Inr (s, p)" and ra: "part_range p lo hi = Inr (a, b)"
    and lp: "range_loop a b s = Some ws"
    and rest: "parse_parts field lo hi parts (fold List.insert ws out) = Some (Inr vs)"
    by (auto split: sum.splits prod.splits option.splits)
  note pb = part_step_bounds [OF st] and rb = part_range_bounds [OF ra assms(2)]
  have "s \<le> 2 ^ 63 - 60" using Cons.prems(2) st by simp
  with range_loop_small [of a b s] lp pb rb assms
  have ws: "set ws = {v. part_selects field lo hi part v}"
    by (auto simp: part_selects_def st ra)
  moreover have "part_selects field lo hi part a" using rb by (simp add: part_selects_def st ra)
  ultimately show ?case
    using Cons.IH [OF rest] Cons.prems(2) by (auto simp: set_fold_insert)
qed simp

lemma parse_parts_distinct:
  "distinct out \<Longrightarrow> parse_parts field lo hi parts out = Some (Inr vs) \<Longrightarrow> distinct vs"
proof (induction parts arbitrary: out)
  case (Cons part parts)
  from Cons.prems(2) obtain ws where "parse_parts field lo hi parts (fold List.insert ws out) = Some (Inr vs)"
    by (auto split: sum.splits prod.splits option.splits)
  then show ?case using Cons.IH distinct_fold_insert [OF Cons.prems(1)] by blast
qed simp

lemma part_selects_bounds: "part_selects field lo hi part v \<Longrightarrow> lo \<le> hi \<Longrightarrow> lo \<le> v \<and> v \<le> hi"
proof -
  assume sel: "part_selects field lo hi part v" and le: "lo \<le> hi"
  from sel obtain s p a b where "part_range p lo hi = Inr (a, b)" and "a \<le> v" and "v \<le> b"
    by (cases "part_step field part"; cases "part_range (snd (projr (part_step field part))) lo hi")
      (auto simp: part_selects_def)
  with part_range_bounds [OF _ le] show ?thesis by fastforce
qed

section \<open>Calendar arithmetic\<close>

lemma go_mod_zero_iff: "0 < k \<Longrightarrow> go_mod u k = 0 \<longleftrightarrow> k dvd u"
proof -
  assume k: "0 < k"
  have "go_mod u k = sgn u * (\<bar>u\<bar> mod k)"
    using k mult_sgn_abs [of u] by (simp add: go_mod_def go_div_def minus_mult_div_eq_mod [symmetric] algebra_simps)
  then show ?thesis by (auto simp: sgn_0_0 dvd_eq_mod_eq_0 [symmetric])
qed

lemma digit_less_iff:
  fixes B :: int
  assumes "0 \<le> r" and "r < B" and "0 \<le> x"
  shows "B * x + r < B \<longleftrightarrow> x = 0"
proof
  assume less: "B * x + r < B"
  show "x = 0"
  proof (rule ccontr)
    assume "x \<noteq> 0"
    then have "B * 1 \<le> B * x" using assms by (intro mult_left_mono) simp_all
    then show False using less assms(1) by linarith
  qed
qed (use assms in simp)

lemma full_hour_iff: "Minute t = 0 \<and> Second t = 0 \<longleftrightarrow> t mod (3600 * second) < second"
proof -
  define q where "q = t div second"
  have "t mod (second * 3600) = second * (q mod 3600) + t mod second"
    unfolding q_def by (rule zmod_zmult2_eq) simp
  then have "t mod (3600 * second) < second \<longleftrightarrow> q mod 3600 = 0"
    using digit_less_iff [of "t mod second" second "q mod 3600"] by simp
  also have "q mod (60 * 60) = 60 * (q div 60 mod 60) + q mod 60"
    by (rule zmod_zmult2_eq) simp
  then have "q mod 3600 = 0 \<longleftrightarrow> q div 60 mod 60 = 0 \<and> q mod 60 = 0"
    using add_nonneg_eq_0_iff [of "60 * (q div 60 mod 60)" "q mod 60"] by simp
  also have "q div 60 = t div (second * 60)"
    unfolding q_def by (rule zdiv_zmult2_eq [symmetric]) simp
  finally show ?thesis by (simp add: Minute_def Second_def q_def)
qed

lemma midnight_iff: "Minute t = 0 \<and> Hour t = 0 \<and> Second t = 0 \<longleftrightarrow> t mod (86400 * second) < second"
proof -
  define h where "h = t div (3600 * second)"
  have m: "t mod (3600 * second * 24) = 3600 * second * (h mod 24) + t mod (3600 * second)"
    unfolding h_def by (rule zmod_zmult2_eq) simp
  have "t mod (86400 * second) < second \<longleftrightarrow> h mod 24 = 0 \<and> t mod (3600 * second) < second"
  proof (cases "h mod 24 = 0")
    case True
    then show ?thesis using m by simp
  next
    case False
    have "\<not> 3600 * second * (h mod 24) + t mod (3600 * second) < 3600 * second"
      using digit_less_iff [of "t mod (3600 * second)" "3600 * second" "h mod 24"] False by simp
    then show ?thesis using m False by simp
  qed
  then show ?thesis
    by (simp only: full_hour_iff [symmetric] Hour_def h_def) (simp only: conj_ac)
qed

section \<open>The lease interface\<close>

text \<open>
  What \<^verbatim>\<open>runOne\<close> relies on in a \<^verbatim>\<open>Locker\<close>: \<open>held l now name\<close> says that an unexpired lease of the name exists.
\<close>

locale locker_spec =
  fixes TryLock :: "'l \<Rightarrow> go_time \<Rightarrow> string \<Rightarrow> duration \<Rightarrow> bool \<times> 'l"
    and release :: "'l \<Rightarrow> string \<Rightarrow> 'l"
    and held :: "'l \<Rightarrow> go_time \<Rightarrow> string \<Rightarrow> bool"
  assumes try_held: "held l now name \<Longrightarrow> TryLock l now name ttl = (False, l)"
    and try_free: "\<not> held l now name \<Longrightarrow> fst (TryLock l now name ttl)"
    and try_grants: "\<not> held l now name \<Longrightarrow> t < now + ttl \<Longrightarrow> held (snd (TryLock l now name ttl)) t name"
    and try_frame: "n \<noteq> name \<Longrightarrow> held (snd (TryLock l now name ttl)) t n = held l t n"
    and held_antimono: "held l t name \<Longrightarrow> t' \<le> t \<Longrightarrow> held l t' name"
    and release_frees: "\<not> held (release l name) t name"
    and release_frame: "n \<noteq> name \<Longrightarrow> held (release l name) t n = held l t n"

text \<open>Calls other replicas make on the locker while a lease is held.\<close>

datatype locker_call = CallTry go_time string duration | CallRelease string

fun locker_calls ::
  "('l \<Rightarrow> go_time \<Rightarrow> string \<Rightarrow> duration \<Rightarrow> bool \<times> 'l) \<Rightarrow> ('l \<Rightarrow> string \<Rightarrow> 'l) \<Rightarrow> locker_call list \<Rightarrow> 'l \<Rightarrow> 'l" where
  "locker_calls TryLock release [] l = l"
| "locker_calls TryLock release (CallTry now name ttl # cs) l =
     locker_calls TryLock release cs (snd (TryLock l now name ttl))"
| "locker_calls TryLock release (CallRelease name # cs) l =
     locker_calls TryLock release cs (release l name)"

definition keeps_lease :: "string \<Rightarrow> go_time \<Rightarrow> locker_call list \<Rightarrow> bool" where
  "keeps_lease name until cs =
     (\<forall>c\<in>set cs. case c of CallTry now _ _ \<Rightarrow> now \<le> until | CallRelease n \<Rightarrow> n \<noteq> name)"

context locker_spec
begin

lemma held_after_calls:
  "held l t name \<Longrightarrow> keeps_lease name t cs \<Longrightarrow> held (locker_calls TryLock release cs l) t name"
proof (induction cs arbitrary: l)
  case (Cons c cs)
  have rest: "keeps_lease name t cs" using Cons.prems(2) by (simp add: keeps_lease_def)
  show ?case
  proof (cases c)
    case (CallTry now n ttl)
    then have "now \<le> t" using Cons.prems(2) by (simp add: keeps_lease_def)
    then have "held (snd (TryLock l now n ttl)) t name"
      using Cons.prems(1) try_frame [of name n] try_held [of l now name] held_antimono [of l t name now]
      by (cases "n = name") simp_all
    then show ?thesis using Cons.IH rest CallTry by simp
  next
    case (CallRelease n)
    then have "held (release l n) t name"
      using Cons.prems release_frame [of name n l t] by (auto simp: keeps_lease_def)
    then show ?thesis using Cons.IH rest CallRelease by simp
  qed
qed simp

lemma exclusive_until_expiry:
  assumes "fst (TryLock l now name ttl)" and "keeps_lease name t cs" and "t < now + ttl"
  shows "\<not> fst (TryLock (locker_calls TryLock release cs (snd (TryLock l now name ttl))) t name ttl')"
proof -
  from assms(1) have "\<not> held l now name" using try_held [of l now name ttl] by auto
  from held_after_calls [OF try_grants [OF this assms(3)] assms(2)]
  show ?thesis by (simp add: try_held)
qed

lemma free_after_release: "fst (TryLock (release l name) t name ttl)"
  by (rule try_free) (rule release_frees)

lemma runOne_skips:
  assumes "held l now (leaseName (sp_Name (tk_spec t)) tickAt)"
  shows "Scheduler_runOne TryLock release now l t tickAt = (None, l)"
  by (simp add: Scheduler_runOne_def try_held [OF assms])

lemma runOne_runs:
  assumes "\<not> held l now (leaseName (sp_Name (tk_spec t)) tickAt)"
  shows "fst (Scheduler_runOne TryLock release now l t tickAt)
         = Some (safeRun (sp_Handler (tk_spec t)))"
  using try_free [OF assms, of "90 * second"]
  by (auto simp: Scheduler_runOne_def Let_def split: prod.splits bool.splits)

end

definition lease_held :: "leases \<Rightarrow> go_time \<Rightarrow> string \<Rightarrow> bool" where
  "lease_held l now name = (case gm_get l name of None \<Rightarrow> False | Some exp \<Rightarrow> exp > now)"

interpretation memlock: locker_spec MemoryLocker_TryLock MemoryLocker_release lease_held
  by unfold_locales
    (auto simp: MemoryLocker_TryLock_def MemoryLocker_release_def lease_held_def
      split: option.splits if_splits)

section \<open>Properties\<close>

text \<open>
  C38: parsing a schedule always returns: for every expression, valid or not, and every \<^verbatim>\<open>ParseDuration\<close>,
  \<^verbatim>\<open>parseSchedule\<close> ends with a schedule or an error. In particular no step, however large, makes the loop
  of \<^verbatim>\<open>parseField\<close> run forever, although its addition can overflow.
\<close>

theorem parseSchedule_terminates: "\<exists>r. parseSchedule ParseDuration expr = Some r"
  by (auto simp: parseSchedule_def Let_def parse_five_total split: sum.splits)




definition demo_task :: task where
  "demo_task = \<lparr>tk_spec = \<lparr>sp_Name = ''nightly'', sp_Cron = ''@daily'', sp_Handler = Some (\<lambda>_. RunOk),
                             sp_Timeout = 0\<rparr>, tk_schedule = no_every\<rparr>"


text \<open>
  \<^verbatim>\<open>@every d\<close>, for a duration \<open>d\<close> of at least a second, parses, and fires exactly at the Unix seconds
  divisible by the whole seconds of \<open>d\<close>; a shorter duration is refused with \<^verbatim>\<open>ErrInvalidCron\<close>.
\<close>

lemma every_fires:
  assumes "ParseDuration d = Inr dur" and "d \<noteq> []" and "\<not> is_space (last d)"
  shows "if dur < second
         then \<exists>e. parseSchedule ParseDuration (''@every '' @ d) = Some (Inl e) \<and> errors_is e ErrInvalidCron
         else \<exists>s. parseSchedule ParseDuration (''@every '' @ d) = Some (Inr s) \<and>
                  (\<forall>t. schedule_matches s t \<longleftrightarrow> (dur div second) dvd Unix t)"
proof -
  have "TrimSpace (''@every '' @ d) = ''@every '' @ d"
    using assms by (intro TrimSpace_id) (auto simp: is_space_def)
  then show ?thesis
    using assms(1) by (auto simp: go_mod_zero_iff pos_imp_zdiv_pos_iff parseSchedule_def HasPrefix_def TrimPrefix_def ErrInvalidCron_def
        no_every_def schedule_matches_def go_div_nonneg Let_def)
qed

lemma every_fires_witness:
  "\<exists>s. parseSchedule (\<lambda>d. if d = ''90s'' then Inr (90 * second) else Inl (ErrMsg ''bad'')) ''@every 90s''
         = Some (Inr s) \<and> (\<forall>t. schedule_matches s t \<longleftrightarrow> 90 dvd Unix t)"
  using every_fires [of "\<lambda>d. if d = ''90s'' then Inr (90 * second) else Inl (ErrMsg ''bad'')" "''90s''" "90 * second"]
  by (simp add: is_space_def)

text \<open>
  \<^verbatim>\<open>@daily\<close> and \<^verbatim>\<open>@midnight\<close> fire exactly in the first second of a UTC day, \<^verbatim>\<open>@hourly\<close> exactly in the
  first second of an hour.
\<close>

lemma daily_and_hourly_fire:
  "(\<exists>s. parseSchedule ParseDuration ''@daily'' = Some (Inr s) \<and>
        parseSchedule ParseDuration ''@midnight'' = Some (Inr s) \<and>
        (\<forall>t. schedule_matches s t \<longleftrightarrow> t mod (86400 * second) < second)) \<and>
   (\<exists>s. parseSchedule ParseDuration ''@hourly'' = Some (Inr s) \<and>
        (\<forall>t. schedule_matches s t \<longleftrightarrow> t mod (3600 * second) < second))"
proof -
  note ev = parseSchedule_def shortcut_def TrimSpace_def is_space_def HasPrefix_def Fields_def
    parse_five_def with_field_def parseField_def part_step_def part_range_def Atoi_def digit_val_def
    in_range64_def range_loop.simps wrap64_id less_eq_char_def
  have "parseSchedule ParseDuration ''@daily'' = Some (Inr (no_every\<lparr>s_minute := [0], s_hour := [0]\<rparr>))"
    and "parseSchedule ParseDuration ''@midnight'' = Some (Inr (no_every\<lparr>s_minute := [0], s_hour := [0]\<rparr>))"
    and "parseSchedule ParseDuration ''@hourly'' = Some (Inr (no_every\<lparr>s_minute := [0]\<rparr>))"
    by (simp_all add: ev no_every_def)
  moreover have "schedule_matches (no_every\<lparr>s_minute := [0], s_hour := [0]\<rparr>) t
      \<longleftrightarrow> Minute t = 0 \<and> Hour t = 0 \<and> Second t = 0"
    and "schedule_matches (no_every\<lparr>s_minute := [0]\<rparr>) t \<longleftrightarrow> Minute t = 0 \<and> Second t = 0" for t
    by (simp_all add: schedule_matches_def no_every_def cron_match_def)
  ultimately show ?thesis unfolding midnight_iff full_hour_iff by blast
qed

section \<open>Two observations\<close>

text \<open>
  The addition of a step next to \<open>2 ^ 63\<close> wraps, and the field \<^verbatim>\<open>5/9223372036854775807\<close> of a minute selects,
  besides 5, the minutes 3 and 1.
\<close>

lemma huge_step_selects_other_minutes:
  "\<exists>vs. parseField ''5/9223372036854775807'' 0 59 = Some (Inr vs) \<and> 3 \<in> set vs \<and> 1 \<in> set vs"
  by (simp add: parseField_def part_step_def part_range_def Atoi_def digit_val_def in_range64_def
      range_loop.simps wrap64_def less_eq_char_def)

text \<open>
  The lease is given back as soon as the handler returns, so a replica whose tick arrives after that,
  still within the 90 seconds, takes it again and runs the same tick a second time.
\<close>

lemma second_replica_reruns_tick:
  "fst (Scheduler_runOne MemoryLocker_TryLock MemoryLocker_release now' 
      (snd (Scheduler_runOne MemoryLocker_TryLock MemoryLocker_release now l t tickAt)) t tickAt) \<noteq> None"
  if "\<not> lease_held l now (leaseName (sp_Name (tk_spec t)) tickAt)"
proof -
  have "\<not> lease_held (snd (Scheduler_runOne MemoryLocker_TryLock MemoryLocker_release now l t tickAt)) now'
          (leaseName (sp_Name (tk_spec t)) tickAt)"
    using memlock.try_free [OF that, of "90 * second"] memlock.release_frees
    by (auto simp: Scheduler_runOne_def Let_def split: prod.splits bool.splits)
  then show ?thesis using memlock.runOne_runs by simp
qed

end
