(* ===== verification/Audit_Log.thy ===== *)
theory Audit_Log
  imports Go_Strings
begin

text \<open>
  The audit trail: the event type and the buffered logger of \<^verbatim>\<open>src/platform/audit/logger.go\<close>, its store
  interface (\<^verbatim>\<open>src/platform/audit/store.go\<close>) and the in-memory implementation of it with its paginated
  query, \<^verbatim>\<open>src/platform/devstore/audit_store.go\<close>.

  The logger's goroutine is a step relation over the buffered channel, the current batch, the store and
  the phase of the loop; the select statement may take any ready branch. \<^verbatim>\<open>json.Marshal\<close>, \<^verbatim>\<open>uuid.Parse\<close>
  and \<^verbatim>\<open>Format(time.RFC3339)\<close> are parameters.
\<close>

section \<open>Events\<close>

text \<open>The dynamic values the platform puts into \<^verbatim>\<open>Details map[string]any\<close>.\<close>

datatype detail = DStr string | DBool bool | DInt int

type_synonym details = "(string \<times> detail) list"

record mfa_attestation =
  mfa_Presented :: "string list"
  mfa_Verified :: "string list"
  mfa_StepUpSatisfied :: bool
  mfa_AALAchieved :: string

record federation_link =
  fed_IDP :: string
  fed_Level :: string
  fed_TrustLink :: string

record risk_signal =
  rsk_Signal :: string
  rsk_Weight :: int

record risk_attestation =
  rsk_Score :: int
  rsk_Signals :: "risk_signal list"

record audit_event =
  ev_CompanyID :: string
  ev_ActorID :: string
  ev_Action :: string
  ev_Resource :: string
  ev_ResourceID :: string
  ev_Details :: details
  ev_IPAddress :: string
  ev_Decision :: string
  ev_ActorKind :: string
  ev_SubjectID :: string
  ev_SubjectKind :: string
  ev_MFA :: "mfa_attestation option"
  ev_Federation :: "federation_link list"
  ev_Risk :: "risk_attestation option"

text \<open>An event with the optional fields left at their zero values.\<close>

definition basic_event ::
  "string \<Rightarrow> string \<Rightarrow> string \<Rightarrow> string \<Rightarrow> string \<Rightarrow> details \<Rightarrow> string \<Rightarrow> audit_event" where
  "basic_event company actor action resource resourceID details ip =
     \<lparr>ev_CompanyID = company, ev_ActorID = actor, ev_Action = action, ev_Resource = resource,
      ev_ResourceID = resourceID, ev_Details = details, ev_IPAddress = ip, ev_Decision = [],
      ev_ActorKind = [], ev_SubjectID = [], ev_SubjectKind = [], ev_MFA = None, ev_Federation = [],
      ev_Risk = None\<rparr>"

section \<open>The logger\<close>

text \<open>\<^verbatim>\<open>CreateAuditLog(companyID, actorID, action, resource, resourceID, ipAddress, details)\<close>.\<close>

type_synonym 's create_audit_log =
  "uuid \<Rightarrow> uuid \<Rightarrow> string \<Rightarrow> string \<Rightarrow> string \<Rightarrow> string \<Rightarrow> string \<Rightarrow> 's \<Rightarrow> go_error option \<times> 's"

datatype logger_phase = Running | Draining | Stopped

record 's logger =
  lg_events :: "audit_event list"
  lg_batch :: "audit_event list"
  lg_store :: 's
  lg_done :: bool
  lg_phase :: logger_phase

definition channel_cap :: nat where
  "channel_cap = 10000"

definition NewLogger :: "'s \<Rightarrow> 's logger" where
  "NewLogger s = \<lparr>lg_events = [], lg_batch = [], lg_store = s, lg_done = False, lg_phase = Running\<rparr>"

text \<open>\<^verbatim>\<open>Log\<close>: the event enters the channel, or is dropped when the channel is full.\<close>

definition Logger_Log :: "audit_event \<Rightarrow> 's logger \<Rightarrow> bool \<times> 's logger" where
  "Logger_Log e l =
     (if length (lg_events l) < channel_cap then (True, l\<lparr>lg_events := lg_events l @ [e]\<rparr>) else (False, l))"

text \<open>One event of a batch: an event whose ids do not parse is skipped, a failed insert is ignored.\<close>

definition write_event ::
  "(details \<Rightarrow> string option) \<Rightarrow> (string \<Rightarrow> uuid option) \<Rightarrow> 's create_audit_log \<Rightarrow> audit_event \<Rightarrow> 's \<Rightarrow> 's" where
  "write_event marshal parse create e s =
     (let detailsJSON = (case marshal (ev_Details e) of None \<Rightarrow> ''{}'' | Some j \<Rightarrow> j)
      in case parse (ev_CompanyID e) of
           None \<Rightarrow> s
         | Some companyID \<Rightarrow>
             (case parse (ev_ActorID e) of
                None \<Rightarrow> s
              | Some actorID \<Rightarrow>
                  snd (create companyID actorID (ev_Action e) (ev_Resource e) (ev_ResourceID e)
                         (ev_IPAddress e) detailsJSON s)))"

text \<open>\<^verbatim>\<open>flush\<close>, for a logger with a store (\<open>Some create\<close>) or without one.\<close>

definition Logger_flush ::
  "(details \<Rightarrow> string option) \<Rightarrow> (string \<Rightarrow> uuid option) \<Rightarrow> 's create_audit_log option \<Rightarrow> 's logger \<Rightarrow> 's logger" where
  "Logger_flush marshal parse store l =
     (case store of
        None \<Rightarrow> l\<lparr>lg_batch := []\<rparr>
      | Some create \<Rightarrow>
          l\<lparr>lg_batch := [], lg_store := fold (write_event marshal parse create) (lg_batch l) (lg_store l)\<rparr>)"

text \<open>The ready branches of the loop of \<^verbatim>\<open>run\<close>; \<open>None\<close> is a branch that is not ready.\<close>

definition run_receive ::
  "(details \<Rightarrow> string option) \<Rightarrow> (string \<Rightarrow> uuid option) \<Rightarrow> 's create_audit_log option \<Rightarrow> 's logger \<Rightarrow> 's logger option" where
  "run_receive marshal parse store l =
     (if lg_phase l = Running then
        (case lg_events l of
           [] \<Rightarrow> None
         | e # es \<Rightarrow>
             let l' = l\<lparr>lg_events := es, lg_batch := lg_batch l @ [e]\<rparr>
             in Some (if length (lg_batch l') \<ge> 50 then Logger_flush marshal parse store l' else l'))
      else None)"

definition run_tick ::
  "(details \<Rightarrow> string option) \<Rightarrow> (string \<Rightarrow> uuid option) \<Rightarrow> 's create_audit_log option \<Rightarrow> 's logger \<Rightarrow> 's logger option" where
  "run_tick marshal parse store l =
     (if lg_phase l = Running then Some (Logger_flush marshal parse store l) else None)"

definition run_done :: "'s logger \<Rightarrow> 's logger option" where
  "run_done l = (if lg_phase l = Running \<and> lg_done l then Some (l\<lparr>lg_phase := Draining\<rparr>) else None)"

definition run_drain ::
  "(details \<Rightarrow> string option) \<Rightarrow> (string \<Rightarrow> uuid option) \<Rightarrow> 's create_audit_log option \<Rightarrow> 's logger \<Rightarrow> 's logger option" where
  "run_drain marshal parse store l =
     (if lg_phase l = Draining then
        (case lg_events l of
           e # es \<Rightarrow> Some (l\<lparr>lg_events := es, lg_batch := lg_batch l @ [e]\<rparr>)
         | [] \<Rightarrow> Some ((Logger_flush marshal parse store l)\<lparr>lg_phase := Stopped\<rparr>))
      else None)"

definition Logger_Stop :: "'s logger \<Rightarrow> 's logger" where
  "Logger_Stop l = l\<lparr>lg_done := True\<rparr>"

text \<open>
  The states a logger reaches from an initial store, with the events \<^verbatim>\<open>Log\<close> has accepted and those it
  has dropped so far.
\<close>

inductive logger_reach ::
  "(details \<Rightarrow> string option) \<Rightarrow> (string \<Rightarrow> uuid option) \<Rightarrow> 's create_audit_log option \<Rightarrow> 's \<Rightarrow>
   audit_event list \<Rightarrow> audit_event list \<Rightarrow> 's logger \<Rightarrow> bool"
  for marshal :: "details \<Rightarrow> string option" and parse :: "string \<Rightarrow> uuid option"
    and store :: "'s create_audit_log option" and s0 :: 's where
  init: "logger_reach marshal parse store s0 [] [] (NewLogger s0)"
| log: "logger_reach marshal parse store s0 acc drp l \<Longrightarrow> Logger_Log e l = (b, l') \<Longrightarrow>
   logger_reach marshal parse store s0 (if b then acc @ [e] else acc) (if b then drp else drp @ [e]) l'"
| receive: "logger_reach marshal parse store s0 acc drp l \<Longrightarrow> run_receive marshal parse store l = Some l' \<Longrightarrow>
   logger_reach marshal parse store s0 acc drp l'"
| tick: "logger_reach marshal parse store s0 acc drp l \<Longrightarrow> run_tick marshal parse store l = Some l' \<Longrightarrow>
   logger_reach marshal parse store s0 acc drp l'"
| stop: "logger_reach marshal parse store s0 acc drp l \<Longrightarrow> \<not> lg_done l \<Longrightarrow>
   logger_reach marshal parse store s0 acc drp (Logger_Stop l)"
| done_seen: "logger_reach marshal parse store s0 acc drp l \<Longrightarrow> run_done l = Some l' \<Longrightarrow>
   logger_reach marshal parse store s0 acc drp l'"
| drain: "logger_reach marshal parse store s0 acc drp l \<Longrightarrow> run_drain marshal parse store l = Some l' \<Longrightarrow>
   logger_reach marshal parse store s0 acc drp l'"

section \<open>The in-memory audit store\<close>

record audit_log_entry =
  al_ID :: uuid
  al_CompanyID :: uuid
  al_ActorID :: uuid
  al_Action :: string
  al_Resource :: string
  al_ResourceID :: string
  al_Details :: string
  al_IPAddress :: string
  al_CreatedAt :: go_time

definition AuditStore_CreateAuditLog ::
  "uuid \<Rightarrow> go_time \<Rightarrow> audit_log_entry list create_audit_log" where
  "AuditStore_CreateAuditLog newid now companyID actorID action resource resourceID ip details logs =
     (None, logs @ [\<lparr>al_ID = newid, al_CompanyID = companyID, al_ActorID = actorID, al_Action = action,
        al_Resource = resource, al_ResourceID = resourceID, al_Details = details, al_IPAddress = ip,
        al_CreatedAt = now\<rparr>])"

text \<open>The filter of \<^verbatim>\<open>QueryAuditLogs\<close>: a nil pointer (\<open>None\<close>) does not restrict.\<close>

definition audit_matches :: "uuid \<Rightarrow> uuid option \<Rightarrow> string option \<Rightarrow> string option \<Rightarrow> audit_log_entry \<Rightarrow> bool" where
  "audit_matches companyID actorID action resource e =
     (if al_CompanyID e \<noteq> companyID then False
      else if (case actorID of None \<Rightarrow> False | Some a \<Rightarrow> al_ActorID e \<noteq> a) then False
      else if (case action of None \<Rightarrow> False | Some a \<Rightarrow> al_Action e \<noteq> a) then False
      else if (case resource of None \<Rightarrow> False | Some r \<Rightarrow> al_Resource e \<noteq> r) then False
      else True)"

record audit_log_proto =
  ap_Id :: string
  ap_CompanyId :: string
  ap_ActorId :: string
  ap_Action :: string
  ap_Resource :: string
  ap_ResourceId :: string
  ap_DetailsJson :: string
  ap_IpAddress :: string
  ap_CreatedAt :: string

definition audit_to_proto :: "(go_time \<Rightarrow> string) \<Rightarrow> audit_log_entry \<Rightarrow> audit_log_proto" where
  "audit_to_proto rfc3339 e =
     \<lparr>ap_Id = al_ID e, ap_CompanyId = al_CompanyID e, ap_ActorId = al_ActorID e, ap_Action = al_Action e,
      ap_Resource = al_Resource e, ap_ResourceId = al_ResourceID e, ap_DetailsJson = al_Details e,
      ap_IpAddress = al_IPAddress e, ap_CreatedAt = rfc3339 (al_CreatedAt e)\<rparr>"

text \<open>
  \<^verbatim>\<open>sort.Slice\<close> does not promise to keep the order of entries with equal timestamps; the model keeps it.
  The inner \<open>None\<close> is the slice-bounds panic of a negative offset.
\<close>

definition AuditStore_QueryAuditLogs ::
  "(go_time \<Rightarrow> string) \<Rightarrow> audit_log_entry list \<Rightarrow> uuid \<Rightarrow> int \<Rightarrow> int \<Rightarrow> uuid option \<Rightarrow> string option \<Rightarrow>
   string option \<Rightarrow> (audit_log_proto list \<times> nat) option" where
  "AuditStore_QueryAuditLogs rfc3339 logs companyID limit offset actorID action resource =
     (let filtered = filter (audit_matches companyID actorID action resource) logs;
          sorted = sort_key (\<lambda>e. - al_CreatedAt e) filtered;
          total = length sorted
      in if offset \<ge> int (length sorted) then Some ([], total)
         else if offset < 0 then None
         else let page = drop (nat offset) sorted;
                  page' = (if limit > 0 \<and> limit < int (length page) then take (nat limit) page else page)
              in Some (map (audit_to_proto rfc3339) page', total))"

section \<open>The store interface\<close>

type_synonym audit_row = "uuid \<times> uuid \<times> string \<times> string \<times> string \<times> string \<times> string"

text \<open>The row an event is written as, \<open>None\<close> for an event the logger skips.\<close>

definition event_row ::
  "(details \<Rightarrow> string option) \<Rightarrow> (string \<Rightarrow> uuid option) \<Rightarrow> audit_event \<Rightarrow> audit_row option" where
  "event_row marshal parse e =
     (case (parse (ev_CompanyID e), parse (ev_ActorID e)) of
        (Some c, Some a) \<Rightarrow>
          Some (c, a, ev_Action e, ev_Resource e, ev_ResourceID e, ev_IPAddress e,
                case marshal (ev_Details e) of None \<Rightarrow> ''{}'' | Some j \<Rightarrow> j)
      | _ \<Rightarrow> None)"

text \<open>What the logger needs of a store: a successful or failed insert appends its row, and only it.\<close>

locale audit_store_spec =
  fixes create :: "'s create_audit_log"
    and rows :: "'s \<Rightarrow> audit_row list"
  assumes create_appends:
    "rows (snd (create c a action resource rid ip d s)) = rows s @ [(c, a, action, resource, rid, ip, d)]"
begin

lemma rows_write_event:
  "rows (write_event marshal parse create e s)
   = rows s @ List.map_filter (event_row marshal parse) [e]"
  by (simp add: write_event_def event_row_def create_appends map_filter_simps Let_def split: option.splits)

lemma rows_write_events:
  "rows (fold (write_event marshal parse create) es s)
   = rows s @ List.map_filter (event_row marshal parse) es"
proof (induction es arbitrary: s)
  case (Cons e es)
  then show ?case
    using rows_write_event [of marshal parse e s] by (simp add: map_filter_simps split: option.splits)
qed (simp add: map_filter_simps)

end

section \<open>No accepted event is lost, duplicated or reordered\<close>

definition logger_inv ::
  "(details \<Rightarrow> string option) \<Rightarrow> (string \<Rightarrow> uuid option) \<Rightarrow> 's create_audit_log \<Rightarrow> 's \<Rightarrow> audit_event list \<Rightarrow>
   audit_event list \<Rightarrow> 's logger \<Rightarrow> bool" where
  "logger_inv marshal parse create s0 acc written l \<longleftrightarrow>
     acc = written @ lg_batch l @ lg_events l \<and>
     lg_store l = fold (write_event marshal parse create) written s0 \<and>
     length (lg_events l) \<le> channel_cap \<and>
     (lg_phase l = Running \<longrightarrow> length (lg_batch l) < 50) \<and>
     (lg_phase l = Stopped \<longrightarrow> lg_batch l = [])"

lemmas logger_steps = Logger_Log_def run_receive_def run_tick_def run_done_def run_drain_def
  Logger_Stop_def Logger_flush_def

lemma flush_inv:
  assumes "logger_inv marshal parse create s0 acc w l"
  shows "logger_inv marshal parse create s0 acc (w @ lg_batch l) (Logger_flush marshal parse (Some create) l)"
  using assms by (simp add: logger_inv_def Logger_flush_def)

lemma receive_inv:
  assumes inv: "logger_inv marshal parse create s0 acc w l"
    and st: "run_receive marshal parse (Some create) l = Some l'"
  shows "\<exists>w'. logger_inv marshal parse create s0 acc w' l'"
proof -
  from st obtain e es where ev: "lg_phase l = Running" "lg_events l = e # es"
    and l': "l' = (let l' = l\<lparr>lg_events := es, lg_batch := lg_batch l @ [e]\<rparr>
             in if length (lg_batch l') \<ge> 50 then Logger_flush marshal parse (Some create) l' else l')"
    by (auto simp: run_receive_def Let_def split: if_splits list.splits)
  show ?thesis
  proof (cases "length (lg_batch l @ [e]) \<ge> 50")
    case True
    then have "logger_inv marshal parse create s0 acc (w @ lg_batch l @ [e]) l'"
      using inv ev l' by (simp add: logger_inv_def Logger_flush_def)
    then show ?thesis by blast
  next
    case False
    then have "logger_inv marshal parse create s0 acc w l'"
      using inv ev l' by (simp add: logger_inv_def)
    then show ?thesis by blast
  qed
qed

lemma drain_inv:
  assumes "logger_inv marshal parse create s0 acc w l"
    and "run_drain marshal parse (Some create) l = Some l'"
  shows "\<exists>w'. logger_inv marshal parse create s0 acc w' l'
           \<and> (lg_phase l' = Stopped \<longrightarrow> w' = acc)"
proof (cases "lg_events l")
  case Nil
  with assms have "logger_inv marshal parse create s0 acc (w @ lg_batch l) l' \<and> w @ lg_batch l = acc"
    by (auto simp: logger_inv_def run_drain_def Logger_flush_def split: if_splits)
  then show ?thesis by blast
next
  case (Cons e es)
  with assms have "logger_inv marshal parse create s0 acc w l' \<and> lg_phase l' = Draining"
    by (auto simp: logger_inv_def run_drain_def split: if_splits)
  then show ?thesis by auto
qed

lemma logger_reach_inv:
  assumes "logger_reach marshal parse (Some create) s0 acc drp l"
  shows "\<exists>w. logger_inv marshal parse create s0 acc w l"
  using assms
proof (induction rule: logger_reach.induct)
  case init
  show ?case by (rule exI [of _ "[]"]) (simp add: logger_inv_def NewLogger_def)
next
  case (log acc drp l e b l')
  then show ?case by (auto simp: logger_inv_def Logger_Log_def split: if_splits)
next
  case (receive acc drp l l')
  then show ?case by (metis receive_inv)
next
  case (tick acc drp l l')
  then show ?case using flush_inv by (fastforce simp: run_tick_def split: if_splits)
next
  case (stop acc drp l)
  then show ?case by (auto simp: logger_inv_def Logger_Stop_def)
next
  case (done_seen acc drp l l')
  then show ?case by (auto simp: logger_inv_def run_done_def split: if_splits)
next
  case (drain acc drp l l')
  then show ?case by (metis drain_inv)
qed

section \<open>The in-memory store as the logger's store\<close>

text \<open>The insert that finds \<open>n\<close> entries gets the identifier \<open>ids n\<close> and the clock reading \<open>clk n\<close>.\<close>

definition dev_create :: "(nat \<Rightarrow> uuid) \<Rightarrow> (nat \<Rightarrow> go_time) \<Rightarrow> audit_log_entry list create_audit_log" where
  "dev_create ids clk c a action resource rid ip d logs =
     AuditStore_CreateAuditLog (ids (length logs)) (clk (length logs)) c a action resource rid ip d logs"

definition entry_row :: "audit_log_entry \<Rightarrow> audit_row" where
  "entry_row e = (al_CompanyID e, al_ActorID e, al_Action e, al_Resource e, al_ResourceID e, al_IPAddress e,
                  al_Details e)"

interpretation devaudit: audit_store_spec "dev_create ids clk" "map entry_row" for ids clk
  by unfold_locales (simp add: dev_create_def AuditStore_CreateAuditLog_def entry_row_def)

section \<open>Pages of a query\<close>

lemma concat_pages: "concat (map (\<lambda>i. take n (drop (i * n) xs)) [0..<k]) = take (k * n) xs"
proof (induction k)
  case (Suc k)
  have "take (k * n) xs @ take n (drop (k * n) xs) = take (k * n + n) xs"
    by (simp add: take_add)
  with Suc show ?case by (simp add: add.commute)
qed simp

text \<open>All matching entries, newest first.\<close>

definition audit_full :: "audit_log_entry list \<Rightarrow> uuid \<Rightarrow> uuid option \<Rightarrow> string option \<Rightarrow> string option \<Rightarrow> audit_log_entry list" where
  "audit_full logs c actor action resource =
     sort_key (\<lambda>e. - al_CreatedAt e) (filter (audit_matches c actor action resource) logs)"

lemma query_page:
  assumes "0 < n"
  shows "AuditStore_QueryAuditLogs rfc3339 logs c (int n) (int m) actor action resource
         = Some (map (audit_to_proto rfc3339) (take n (drop m (audit_full logs c actor action resource))),
                 length (audit_full logs c actor action resource))"
  using assms by (auto simp: AuditStore_QueryAuditLogs_def audit_full_def Let_def)

section \<open>Properties\<close>

text \<open>
  C3: however calls to \<^verbatim>\<open>Log\<close>, batch flushes, ticks and shutdown interleave, the store holds the rows of a
  prefix of the accepted events, in the order they were logged and each once, less those whose company or
  actor id does not parse; the accepted events still missing are those of the batch (fewer than 50 while
  the logger runs) and of the channel (at most 10000). When the drain loop of \<^verbatim>\<open>Stop\<close> ends, nothing is
  missing.
\<close>

theorem audit_log_complete:
  assumes "logger_reach marshal parse (Some (dev_create ids clk)) s0 acc drp l"
  shows "(\<exists>k \<le> length acc.
            map entry_row (lg_store l)
              = map entry_row s0 @ List.map_filter (event_row marshal parse) (take k acc) \<and>
            drop k acc = lg_batch l @ lg_events l) \<and>
         length (lg_events l) \<le> channel_cap \<and>
         (lg_phase l = Running \<longrightarrow> length (lg_batch l) < 50) \<and>
         (\<forall>l'. run_drain marshal parse (Some (dev_create ids clk)) l = Some l' \<and> lg_phase l' = Stopped \<longrightarrow>
            map entry_row (lg_store l') = map entry_row s0 @ List.map_filter (event_row marshal parse) acc)"
proof -
  obtain w where w: "logger_inv marshal parse (dev_create ids clk) s0 acc w l"
    using logger_reach_inv [OF assms] by blast
  have "map entry_row (lg_store l') = map entry_row s0 @ List.map_filter (event_row marshal parse) acc"
    if st: "run_drain marshal parse (Some (dev_create ids clk)) l = Some l'" "lg_phase l' = Stopped" for l'
  proof -
    have "logger_inv marshal parse (dev_create ids clk) s0 acc acc l'"
      using drain_inv [OF w st(1)] st(2) by auto
    then show ?thesis by (simp add: logger_inv_def devaudit.rows_write_events)
  qed
  moreover have "\<exists>k \<le> length acc. map entry_row (lg_store l)
      = map entry_row s0 @ List.map_filter (event_row marshal parse) (take k acc) \<and>
      drop k acc = lg_batch l @ lg_events l"
    using w by (intro exI [of _ "length w"]) (simp add: logger_inv_def devaudit.rows_write_events)
  ultimately show ?thesis using w by (auto simp: logger_inv_def)
qed

definition demo_event :: audit_event where
  "demo_event = basic_event ''c'' ''a'' ''login'' ''user'' ''7'' [] ''::1''"

theorem audit_log_complete_witness:
  "\<exists>l. logger_reach (\<lambda>_. None) Some (Some (dev_create (\<lambda>_. ''id'') (\<lambda>_. 0))) [] [demo_event] [] l \<and>
       length (lg_events l) \<le> channel_cap"
proof -
  have "Logger_Log demo_event (NewLogger []) = (True, snd (Logger_Log demo_event (NewLogger [])))"
    by (simp add: Logger_Log_def NewLogger_def channel_cap_def)
  from logger_reach.log [OF logger_reach.init this]
  have "logger_reach (\<lambda>_. None) Some (Some (dev_create (\<lambda>_. ''id'') (\<lambda>_. 0))) [] [demo_event] []
      (snd (Logger_Log demo_event (NewLogger [])))"
    by simp
  then show ?thesis using audit_log_complete by blast
qed

text \<open>
  Pages partition a query. Reading consecutive pages of a positive size until the reported total is
  covered yields every matching entry exactly once, newest first, and entries of another company never
  appear.
\<close>

lemma audit_pages_partition:
  assumes "0 < n" and "length (audit_full logs c actor action resource) \<le> k * n"
  shows "concat (map (\<lambda>i. fst (the (AuditStore_QueryAuditLogs rfc3339 logs c (int n) (int (i * n)) actor action resource)))
           [0..<k]) = map (audit_to_proto rfc3339) (audit_full logs c actor action resource) \<and>
         mset (audit_full logs c actor action resource)
           = filter_mset (audit_matches c actor action resource) (mset logs) \<and>
         sorted_wrt (\<lambda>x y. al_CreatedAt x \<ge> al_CreatedAt y) (audit_full logs c actor action resource) \<and>
         (\<forall>e\<in>set (audit_full logs c actor action resource). al_CompanyID e = c)"
proof -
  let ?xs = "audit_full logs c actor action resource"
  have "concat (map (\<lambda>i. fst (the (AuditStore_QueryAuditLogs rfc3339 logs c (int n) (int (i * n)) actor action resource))) [0..<k])
      = concat (map (\<lambda>i. map (audit_to_proto rfc3339) (take n (drop (i * n) ?xs))) [0..<k])"
    by (simp only: query_page [OF assms(1)] option.sel fst_conv)
  also have "\<dots> = map (audit_to_proto rfc3339) (concat (map (\<lambda>i. take n (drop (i * n) ?xs)) [0..<k]))"
    by (simp add: map_concat comp_def)
  finally have "concat (map (\<lambda>i. fst (the (AuditStore_QueryAuditLogs rfc3339 logs c (int n) (int (i * n)) actor action resource))) [0..<k])
      = map (audit_to_proto rfc3339) ?xs"
    using assms(2) by (simp add: concat_pages)
  moreover have "sorted (map (\<lambda>e. - al_CreatedAt e) ?xs)" by (simp add: audit_full_def)
  then have "sorted_wrt (\<lambda>x y. al_CreatedAt x \<ge> al_CreatedAt y) ?xs"
    by (simp add: sorted_map)
  moreover have "mset ?xs = filter_mset (audit_matches c actor action resource) (mset logs)"
    by (simp add: audit_full_def)
  moreover have "\<forall>e\<in>set ?xs. al_CompanyID e = c"
    by (auto simp: audit_full_def audit_matches_def split: if_splits)
  ultimately show ?thesis by simp
qed

definition demo_logs :: "audit_log_entry list" where
  "demo_logs = snd (dev_create (\<lambda>n. show_nat n) (\<lambda>n. int n) ''c'' ''a'' ''x'' ''r'' ''1'' ''ip'' ''{}''
                (snd (dev_create (\<lambda>n. show_nat n) (\<lambda>n. int n) ''c'' ''a'' ''y'' ''r'' ''2'' ''ip'' ''{}'' [])))"

theorem audit_pages_partition_witness:
  "concat (map (\<lambda>i. fst (the (AuditStore_QueryAuditLogs (\<lambda>_. []) demo_logs ''c'' 1 (int (i * 1)) None None None))) [0..<2])
   = map (audit_to_proto (\<lambda>_. [])) (audit_full demo_logs ''c'' None None None)"
proof -
  have "length (audit_full demo_logs ''c'' None None None) \<le> 2 * 1"
    by (simp add: audit_full_def demo_logs_def dev_create_def AuditStore_CreateAuditLog_def audit_matches_def)
  then show ?thesis
    using audit_pages_partition [of 1 demo_logs "''c''" None None None 2 "\<lambda>_. []"] by simp
qed

end
