(* ===== verification/Household.thy ===== *)
theory Household
  imports Audit_Log
begin

text \<open>
  The family model: \<^verbatim>\<open>src/platform/household\<close> (types, store interface, service) and the in-memory store
  \<^verbatim>\<open>src/internal/aoid/composition/inmem_household.go\<close>.

  The service works on any store, a record of operations; the contract it relies on is the locale
  \<open>household_store_spec\<close>, and the in-memory store is interpreted in it. Audit emission appends to a list
  of events. A \<^verbatim>\<open>json.RawMessage\<close> is \<open>string option\<close>, \<open>None\<close> being nil.
\<close>

section \<open>Types\<close>

type_synonym hh_role = string
type_synonym hh_status = string

definition RoleGuardian :: hh_role where "RoleGuardian = ''guardian''"
definition RoleAdult :: hh_role where "RoleAdult = ''adult''"
definition RoleChild :: hh_role where "RoleChild = ''child''"

definition Role_Valid :: "hh_role \<Rightarrow> bool" where
  "Role_Valid r \<longleftrightarrow> r = RoleGuardian \<or> r = RoleAdult \<or> r = RoleChild"

definition Role_IsChild :: "hh_role \<Rightarrow> bool" where "Role_IsChild r \<longleftrightarrow> r = RoleChild"
definition Role_CanGrantConsent :: "hh_role \<Rightarrow> bool" where "Role_CanGrantConsent r \<longleftrightarrow> r = RoleGuardian"
definition Role_CanBeAccountOwner :: "hh_role \<Rightarrow> bool" where "Role_CanBeAccountOwner r \<longleftrightarrow> r \<noteq> RoleChild"
definition Role_CanBeManager :: "hh_role \<Rightarrow> bool" where "Role_CanBeManager r \<longleftrightarrow> r \<noteq> RoleChild"

definition hhStatusPending :: hh_status where "hhStatusPending = ''pending''"
definition hhStatusActive :: hh_status where "hhStatusActive = ''active''"
definition hhStatusRemoved :: hh_status where "hhStatusRemoved = ''removed''"

definition Status_Valid :: "hh_status \<Rightarrow> bool" where
  "Status_Valid s \<longleftrightarrow> s = hhStatusPending \<or> s = hhStatusActive \<or> s = hhStatusRemoved"

lemmas hh_consts = RoleGuardian_def RoleAdult_def RoleChild_def hhStatusPending_def hhStatusActive_def
  hhStatusRemoved_def

record household =
  hh_ID :: uuid
  hh_PrimaryContactIdentityID :: uuid
  hh_DisplayName :: string
  hh_Metadata :: "string option"
  hh_CreatedAt :: go_time
  hh_UpdatedAt :: go_time

record hh_member =
  hm_ID :: uuid
  hm_HouseholdID :: uuid
  hm_IdentityID :: uuid
  hm_Role :: hh_role
  hm_Status :: hh_status
  hm_IsManager :: bool
  hm_IsAccountOwner :: bool
  hm_Birthdate :: "go_time option"
  hm_Capabilities :: "string option"
  hm_AddedAt :: go_time
  hm_RemovedAt :: "go_time option"

record parent_of_record =
  por_ID :: uuid
  por_ChildMemberID :: uuid
  por_ParentMemberID :: uuid
  por_EstablishedAt :: go_time
  por_RevokedAt :: "go_time option"

definition hhErrNotFound :: go_error where "hhErrNotFound = ErrVar ''household: not found''"
definition ErrAccountOwnerExists :: go_error where
  "ErrAccountOwnerExists = ErrVar ''household: an account_owner already exists for this household''"
definition ErrInvalidRole :: go_error where "ErrInvalidRole = ErrVar ''household: invalid role''"
definition ErrInvalidStatus :: go_error where "ErrInvalidStatus = ErrVar ''household: invalid status''"
definition ErrChildBirthdateRequired :: go_error where
  "ErrChildBirthdateRequired = ErrVar ''household: birthdate required for child member''"
definition ErrChildCannotHoldCapability :: go_error where
  "ErrChildCannotHoldCapability = ErrVar ''household: a child cannot be a manager or account_owner''"
definition ErrAccountOwnerMustBeAdult :: go_error where
  "ErrAccountOwnerMustBeAdult = ErrVar ''household: the account_owner must be an adult''"
definition ErrLastManager :: go_error where
  "ErrLastManager = ErrVar ''household: cannot remove the last manager''"
definition ErrCannotRemoveAccountOwner :: go_error where
  "ErrCannotRemoveAccountOwner = ErrVar ''household: cannot remove the account_owner; transfer it first''"
definition ErrParentNotEligible :: go_error where
  "ErrParentNotEligible = ErrVar ''household: proposed parent is not eligible (must be a guardian)''"

section \<open>The store interface\<close>

text \<open>
  Operations that create rows take the fresh identifiers and the clock reading they use. Reads do not
  change the store.
\<close>

record 's household_store =
  hs_CreateHousehold :: "uuid \<Rightarrow> go_time \<Rightarrow> household \<Rightarrow> 's \<Rightarrow> household result \<times> 's"
  hs_CreateHouseholdWithOwner ::
    "uuid \<Rightarrow> uuid \<Rightarrow> go_time \<Rightarrow> household \<Rightarrow> hh_member \<Rightarrow> 's \<Rightarrow> (household \<times> hh_member) result \<times> 's"
  hs_GetHouseholdByID :: "uuid \<Rightarrow> 's \<Rightarrow> household result"
  hs_UpdateHousehold :: "go_time \<Rightarrow> household \<Rightarrow> 's \<Rightarrow> household result \<times> 's"
  hs_DeleteHousehold :: "uuid \<Rightarrow> 's \<Rightarrow> unit result \<times> 's"
  hs_AddMember :: "uuid \<Rightarrow> go_time \<Rightarrow> hh_member \<Rightarrow> 's \<Rightarrow> hh_member result \<times> 's"
  hs_GetMember :: "uuid \<Rightarrow> 's \<Rightarrow> hh_member result"
  hs_GetMemberByIdentity :: "uuid \<Rightarrow> uuid \<Rightarrow> 's \<Rightarrow> hh_member result"
  hs_UpdateMemberRole ::
    "uuid \<Rightarrow> hh_role \<Rightarrow> bool \<Rightarrow> bool \<Rightarrow> string option \<Rightarrow> 's \<Rightarrow> hh_member result \<times> 's"
  hs_RemoveMember :: "go_time \<Rightarrow> uuid \<Rightarrow> 's \<Rightarrow> unit result \<times> 's"
  hs_ListMembers :: "uuid \<Rightarrow> 's \<Rightarrow> hh_member list result"
  hs_CountManagers :: "uuid \<Rightarrow> 's \<Rightarrow> int result"
  hs_GetHouseholdForIdentity :: "uuid \<Rightarrow> 's \<Rightarrow> (household \<times> hh_member) result"
  hs_ListHouseholdsForIdentity :: "uuid \<Rightarrow> 's \<Rightarrow> household list result"
  hs_SetAccountOwner :: "uuid \<Rightarrow> uuid \<Rightarrow> 's \<Rightarrow> hh_member result \<times> 's"
  hs_EstablishParentOfRecord ::
    "uuid \<Rightarrow> go_time \<Rightarrow> uuid \<Rightarrow> uuid \<Rightarrow> 's \<Rightarrow> parent_of_record result \<times> 's"
  hs_RevokeParentOfRecord :: "go_time \<Rightarrow> uuid \<Rightarrow> 's \<Rightarrow> unit result \<times> 's"
  hs_ListParentsOfRecord :: "uuid \<Rightarrow> 's \<Rightarrow> parent_of_record list result"
  hs_ListChildrenForParent :: "uuid \<Rightarrow> 's \<Rightarrow> parent_of_record list result"

section \<open>The service\<close>

record audit_context =
  ac_CompanyID :: uuid
  ac_ActorID :: uuid
  ac_IPAddress :: string

text \<open>The state the service works on: the store and the audit events emitted so far.\<close>

record 's hh_world =
  hw_store :: 's
  hw_events :: "audit_event list"

definition hh_emit ::
  "audit_context \<Rightarrow> string \<Rightarrow> uuid \<Rightarrow> details \<Rightarrow> 's hh_world \<Rightarrow> 's hh_world" where
  "hh_emit ac action resourceID details w =
     (let resID = (if resourceID \<noteq> uuid_Nil then resourceID else [])
      in w\<lparr>hw_events := hw_events w @
             [basic_event (ac_CompanyID ac) (ac_ActorID ac) action ''household'' resID details
                (ac_IPAddress ac)]\<rparr>)"

definition validateCapabilities :: "hh_role \<Rightarrow> bool \<Rightarrow> bool \<Rightarrow> go_error option" where
  "validateCapabilities role isManager isAccountOwner =
     (if Role_IsChild role \<and> (isManager \<or> isAccountOwner) then Some ErrChildCannotHoldCapability
      else if isAccountOwner \<and> \<not> Role_CanBeAccountOwner role then Some ErrAccountOwnerMustBeAdult
      else None)"

definition member_details :: "hh_member \<Rightarrow> details" where
  "member_details m =
     [(''member_id'', DStr (hm_ID m)), (''identity_id'', DStr (hm_IdentityID m)),
      (''role'', DStr (hm_Role m)), (''is_manager'', DBool (hm_IsManager m)),
      (''is_account_owner'', DBool (hm_IsAccountOwner m))]"

definition quoted_err :: "go_error \<Rightarrow> string \<Rightarrow> go_error" where
  "quoted_err e s = ErrWrap [] e ('': '' @ [CHR 0x22] @ s @ [CHR 0x22])"

definition json_default :: "string option \<Rightarrow> string option" where
  "json_default j = (case j of None \<Rightarrow> Some ''{}'' | Some s \<Rightarrow> Some s)"

text \<open>A zero \<^verbatim>\<open>Household\<close> and \<^verbatim>\<open>Member\<close>, to be filled in by the literals of the source.\<close>

definition zero_household :: household where
  "zero_household = \<lparr>hh_ID = uuid_Nil, hh_PrimaryContactIdentityID = uuid_Nil, hh_DisplayName = [],
     hh_Metadata = None, hh_CreatedAt = 0, hh_UpdatedAt = 0\<rparr>"

definition zero_member :: hh_member where
  "zero_member = \<lparr>hm_ID = uuid_Nil, hm_HouseholdID = uuid_Nil, hm_IdentityID = uuid_Nil, hm_Role = [],
     hm_Status = [], hm_IsManager = False, hm_IsAccountOwner = False, hm_Birthdate = None,
     hm_Capabilities = None, hm_AddedAt = 0, hm_RemovedAt = None\<rparr>"

definition HouseholdService_CreateHousehold ::
  "'s household_store \<Rightarrow> uuid \<Rightarrow> go_time \<Rightarrow> audit_context \<Rightarrow> string \<Rightarrow> string option \<Rightarrow> 's hh_world \<Rightarrow>
   household result \<times> 's hh_world" where
  "HouseholdService_CreateHousehold H newid now ac displayName metadata w =
     (case hs_CreateHousehold H newid now
             (zero_household\<lparr>hh_PrimaryContactIdentityID := ac_ActorID ac, hh_DisplayName := displayName,
                             hh_Metadata := json_default metadata\<rparr>) (hw_store w) of
        (Inl err, s) \<Rightarrow> (Inl (ErrWrap ''create household: '' err []), w\<lparr>hw_store := s\<rparr>)
      | (Inr h, s) \<Rightarrow>
          (Inr h, hh_emit ac ''household.created'' (hh_ID h) [(''display_name'', DStr displayName)]
                    (w\<lparr>hw_store := s\<rparr>)))"

record owner_input =
  oi_IdentityID :: uuid
  oi_Role :: hh_role
  oi_Birthdate :: "go_time option"

definition HouseholdService_CreateHouseholdWithOwner ::
  "'s household_store \<Rightarrow> uuid \<Rightarrow> uuid \<Rightarrow> go_time \<Rightarrow> audit_context \<Rightarrow> string \<Rightarrow> owner_input \<Rightarrow> string option \<Rightarrow>
   's hh_world \<Rightarrow> (household \<times> hh_member) result \<times> 's hh_world" where
  "HouseholdService_CreateHouseholdWithOwner H hid mid now ac displayName owner metadata w =
     (if \<not> Role_Valid (oi_Role owner) then (Inl (quoted_err ErrInvalidRole (oi_Role owner)), w)
      else (case validateCapabilities (oi_Role owner) True True of
              Some err \<Rightarrow> (Inl err, w)
            | None \<Rightarrow>
                let h = zero_household\<lparr>hh_PrimaryContactIdentityID := oi_IdentityID owner,
                          hh_DisplayName := displayName, hh_Metadata := json_default metadata\<rparr>;
                    m = zero_member\<lparr>hm_IdentityID := oi_IdentityID owner, hm_Role := oi_Role owner,
                          hm_Status := hhStatusActive, hm_IsManager := True, hm_IsAccountOwner := True,
                          hm_Birthdate := oi_Birthdate owner\<rparr>
                in (case hs_CreateHouseholdWithOwner H hid mid now h m (hw_store w) of
                      (Inl err, s) \<Rightarrow> (Inl (ErrWrap ''create household with owner: '' err []), w\<lparr>hw_store := s\<rparr>)
                    | (Inr (createdHH, createdMember), s) \<Rightarrow>
                        (Inr (createdHH, createdMember),
                         hh_emit ac ''household.member_added'' (hh_ID createdHH) (member_details createdMember)
                           (hh_emit ac ''household.created'' (hh_ID createdHH)
                              [(''display_name'', DStr displayName)] (w\<lparr>hw_store := s\<rparr>))))))"

definition HouseholdService_GetHouseholdByID :: "'s household_store \<Rightarrow> uuid \<Rightarrow> 's hh_world \<Rightarrow> household result" where
  "HouseholdService_GetHouseholdByID H hid w = hs_GetHouseholdByID H hid (hw_store w)"

definition HouseholdService_GetHouseholdForIdentity ::
  "'s household_store \<Rightarrow> uuid \<Rightarrow> 's hh_world \<Rightarrow> (household \<times> hh_member) result" where
  "HouseholdService_GetHouseholdForIdentity H identityID w = hs_GetHouseholdForIdentity H identityID (hw_store w)"

definition HouseholdService_ListHouseholdsForIdentity ::
  "'s household_store \<Rightarrow> uuid \<Rightarrow> 's hh_world \<Rightarrow> household list result" where
  "HouseholdService_ListHouseholdsForIdentity H identityID w = hs_ListHouseholdsForIdentity H identityID (hw_store w)"

definition HouseholdService_UpdateHousehold ::
  "'s household_store \<Rightarrow> go_time \<Rightarrow> audit_context \<Rightarrow> household \<Rightarrow> 's hh_world \<Rightarrow> household result \<times> 's hh_world" where
  "HouseholdService_UpdateHousehold H now ac h w =
     (case hs_UpdateHousehold H now h (hw_store w) of
        (Inl err, s) \<Rightarrow> (Inl (ErrWrap ''update household: '' err []), w\<lparr>hw_store := s\<rparr>)
      | (Inr updated, s) \<Rightarrow>
          (Inr updated,
           hh_emit ac ''household.updated'' (hh_ID updated) [(''display_name'', DStr (hh_DisplayName updated))]
             (w\<lparr>hw_store := s\<rparr>)))"

definition HouseholdService_DeleteHousehold ::
  "'s household_store \<Rightarrow> audit_context \<Rightarrow> uuid \<Rightarrow> 's hh_world \<Rightarrow> unit result \<times> 's hh_world" where
  "HouseholdService_DeleteHousehold H ac hid w =
     (case hs_DeleteHousehold H hid (hw_store w) of
        (Inl err, s) \<Rightarrow> (Inl (ErrWrap ''delete household: '' err []), w\<lparr>hw_store := s\<rparr>)
      | (Inr _, s) \<Rightarrow> (Inr (), hh_emit ac ''household.deleted'' hid [] (w\<lparr>hw_store := s\<rparr>)))"

definition HouseholdService_AddMember ::
  "'s household_store \<Rightarrow> uuid \<Rightarrow> go_time \<Rightarrow> audit_context \<Rightarrow> hh_member \<Rightarrow> 's hh_world \<Rightarrow>
   hh_member result \<times> 's hh_world" where
  "HouseholdService_AddMember H newid now ac m0 w =
     (if \<not> Role_Valid (hm_Role m0) then (Inl (quoted_err ErrInvalidRole (hm_Role m0)), w)
      else if hm_Role m0 = RoleChild \<and> hm_Birthdate m0 = None then (Inl ErrChildBirthdateRequired, w)
      else let m = (if hm_Status m0 = [] then m0\<lparr>hm_Status := hhStatusActive\<rparr> else m0)
           in if \<not> Status_Valid (hm_Status m) then (Inl (quoted_err ErrInvalidStatus (hm_Status m)), w)
              else (case validateCapabilities (hm_Role m) (hm_IsManager m) (hm_IsAccountOwner m) of
                      Some err \<Rightarrow> (Inl err, w)
                    | None \<Rightarrow>
                        (case hs_AddMember H newid now m (hw_store w) of
                           (Inl err, s) \<Rightarrow> (Inl (ErrWrap ''add member: '' err []), w\<lparr>hw_store := s\<rparr>)
                         | (Inr added, s) \<Rightarrow>
                             (Inr added,
                              hh_emit ac ''household.member_added'' (hm_HouseholdID added) (member_details added)
                                (w\<lparr>hw_store := s\<rparr>)))))"

text \<open>The guard on giving up the manager capability, shared by role change and removal.\<close>

definition last_manager_check ::
  "'s household_store \<Rightarrow> uuid \<Rightarrow> 's \<Rightarrow> go_error option" where
  "last_manager_check H householdID s =
     (case hs_CountManagers H householdID s of
        Inl err \<Rightarrow> Some (ErrWrap ''count managers: '' err [])
      | Inr n \<Rightarrow> if n \<le> 1 then Some ErrLastManager else None)"

definition HouseholdService_UpdateMemberRole ::
  "'s household_store \<Rightarrow> audit_context \<Rightarrow> uuid \<Rightarrow> hh_role \<Rightarrow> bool \<Rightarrow> bool \<Rightarrow> string option \<Rightarrow> 's hh_world \<Rightarrow>
   hh_member result \<times> 's hh_world" where
  "HouseholdService_UpdateMemberRole H ac memberID role isManager isAccountOwner caps w =
     (if \<not> Role_Valid role then (Inl (quoted_err ErrInvalidRole role), w)
      else case validateCapabilities role isManager isAccountOwner of
        Some err \<Rightarrow> (Inl err, w)
      | None \<Rightarrow>
          (case hs_GetMember H memberID (hw_store w) of
             Inl err \<Rightarrow> (Inl (ErrWrap ''get member for role update: '' err []), w)
           | Inr current \<Rightarrow>
               if hm_Status current = hhStatusRemoved
               then (Inl (ErrWrap [] hhErrNotFound '': member is removed''), w)
               else if role = RoleChild \<and> hm_Birthdate current = None then (Inl ErrChildBirthdateRequired, w)
               else if hm_IsAccountOwner current \<and> \<not> isAccountOwner
               then (Inl ErrCannotRemoveAccountOwner, w)
               else (case (if hm_IsManager current \<and> \<not> isManager
                           then last_manager_check H (hm_HouseholdID current) (hw_store w) else None) of
                       Some err \<Rightarrow> (Inl err, w)
                     | None \<Rightarrow>
                         let caps' = (if caps = None \<or> caps = Some [] then Some ''{}'' else caps)
                         in (case hs_UpdateMemberRole H memberID role isManager isAccountOwner caps' (hw_store w) of
                               (Inl err, s) \<Rightarrow> (Inl (ErrWrap ''update member role: '' err []), w\<lparr>hw_store := s\<rparr>)
                             | (Inr updated, s) \<Rightarrow>
                                 (Inr updated,
                                  hh_emit ac ''household.member_role_changed'' (hm_HouseholdID updated)
                                    [(''member_id'', DStr (hm_ID updated)), (''role'', DStr (hm_Role updated))]
                                    (w\<lparr>hw_store := s\<rparr>))))))"

definition HouseholdService_SetAccountOwner ::
  "'s household_store \<Rightarrow> audit_context \<Rightarrow> uuid \<Rightarrow> uuid \<Rightarrow> 's hh_world \<Rightarrow> hh_member result \<times> 's hh_world" where
  "HouseholdService_SetAccountOwner H ac householdID newOwnerMemberID w =
     (case hs_GetMember H newOwnerMemberID (hw_store w) of
        Inl err \<Rightarrow> (Inl (ErrWrap ''get new owner: '' err []), w)
      | Inr target \<Rightarrow>
          if hm_HouseholdID target \<noteq> householdID then (Inl hhErrNotFound, w)
          else if hm_Status target = hhStatusRemoved
          then (Inl (ErrWrap [] hhErrNotFound '': member is removed''), w)
          else if \<not> Role_CanBeAccountOwner (hm_Role target) then (Inl ErrAccountOwnerMustBeAdult, w)
          else (case hs_SetAccountOwner H householdID newOwnerMemberID (hw_store w) of
                  (Inl err, s) \<Rightarrow> (Inl (ErrWrap ''set account owner: '' err []), w\<lparr>hw_store := s\<rparr>)
                | (Inr owner, s) \<Rightarrow>
                    (Inr owner,
                     hh_emit ac ''household.account_owner_transferred'' householdID
                       [(''new_owner_member_id'', DStr newOwnerMemberID)] (w\<lparr>hw_store := s\<rparr>))))"

definition HouseholdService_RemoveMember ::
  "'s household_store \<Rightarrow> go_time \<Rightarrow> audit_context \<Rightarrow> uuid \<Rightarrow> 's hh_world \<Rightarrow> unit result \<times> 's hh_world" where
  "HouseholdService_RemoveMember H now ac memberID w =
     (case hs_GetMember H memberID (hw_store w) of
        Inl err \<Rightarrow> (Inl (ErrWrap ''get member for removal: '' err []), w)
      | Inr m \<Rightarrow>
          if hm_IsAccountOwner m then (Inl ErrCannotRemoveAccountOwner, w)
          else (case (if hm_IsManager m then last_manager_check H (hm_HouseholdID m) (hw_store w) else None) of
                  Some err \<Rightarrow> (Inl err, w)
                | None \<Rightarrow>
                    (case hs_RemoveMember H now memberID (hw_store w) of
                       (Inl err, s) \<Rightarrow> (Inl (ErrWrap ''remove member: '' err []), w\<lparr>hw_store := s\<rparr>)
                     | (Inr _, s) \<Rightarrow>
                         (Inr (),
                          hh_emit ac ''household.member_removed'' (hm_HouseholdID m)
                            [(''member_id'', DStr memberID), (''identity_id'', DStr (hm_IdentityID m))]
                            (w\<lparr>hw_store := s\<rparr>)))))"

definition HouseholdService_ListMembers :: "'s household_store \<Rightarrow> uuid \<Rightarrow> 's hh_world \<Rightarrow> hh_member list result" where
  "HouseholdService_ListMembers H householdID w = hs_ListMembers H householdID (hw_store w)"

definition HouseholdService_EstablishParentOfRecord ::
  "'s household_store \<Rightarrow> uuid \<Rightarrow> go_time \<Rightarrow> audit_context \<Rightarrow> uuid \<Rightarrow> uuid \<Rightarrow> 's hh_world \<Rightarrow>
   parent_of_record result \<times> 's hh_world" where
  "HouseholdService_EstablishParentOfRecord H newid now ac childMemberID parentMemberID w =
     (case hs_GetMember H parentMemberID (hw_store w) of
        Inl err \<Rightarrow> (Inl (ErrWrap ''get proposed parent: '' err []), w)
      | Inr parent \<Rightarrow>
          if \<not> Role_CanGrantConsent (hm_Role parent)
          then (Inl (ErrWrap [] ErrParentNotEligible ('': role='' @ hm_Role parent)), w)
          else (case hs_GetMember H childMemberID (hw_store w) of
                  Inl err \<Rightarrow> (Inl (ErrWrap ''get child member: '' err []), w)
                | Inr child \<Rightarrow>
                    (case hs_EstablishParentOfRecord H newid now childMemberID parentMemberID (hw_store w) of
                       (Inl err, s) \<Rightarrow>
                         (Inl (ErrWrap ''establish parent_of_record: '' err []), w\<lparr>hw_store := s\<rparr>)
                     | (Inr por, s) \<Rightarrow>
                         (Inr por,
                          hh_emit ac ''household.parent_of_record_established'' (hm_HouseholdID child)
                            [(''child_member_id'', DStr childMemberID),
                             (''parent_member_id'', DStr parentMemberID),
                             (''parent_of_record_id'', DStr (por_ID por))]
                            (w\<lparr>hw_store := s\<rparr>)))))"

definition HouseholdService_RevokeParentOfRecord ::
  "'s household_store \<Rightarrow> go_time \<Rightarrow> audit_context \<Rightarrow> uuid \<Rightarrow> 's hh_world \<Rightarrow> unit result \<times> 's hh_world" where
  "HouseholdService_RevokeParentOfRecord H now ac porID w =
     (case hs_RevokeParentOfRecord H now porID (hw_store w) of
        (Inl err, s) \<Rightarrow> (Inl (ErrWrap ''revoke parent_of_record: '' err []), w\<lparr>hw_store := s\<rparr>)
      | (Inr _, s) \<Rightarrow>
          (Inr (), hh_emit ac ''household.parent_of_record_revoked'' uuid_Nil
                     [(''parent_of_record_id'', DStr porID)] (w\<lparr>hw_store := s\<rparr>)))"

definition HouseholdService_ListParentsOfRecord ::
  "'s household_store \<Rightarrow> uuid \<Rightarrow> 's hh_world \<Rightarrow> parent_of_record list result" where
  "HouseholdService_ListParentsOfRecord H childMemberID w = hs_ListParentsOfRecord H childMemberID (hw_store w)"

definition HouseholdService_ListChildrenForParent ::
  "'s household_store \<Rightarrow> uuid \<Rightarrow> 's hh_world \<Rightarrow> parent_of_record list result" where
  "HouseholdService_ListChildrenForParent H parentMemberID w = hs_ListChildrenForParent H parentMemberID (hw_store w)"

section \<open>The in-memory store\<close>

record hh_memory =
  im_households :: "(uuid, household) gomap"
  im_members :: "(uuid, hh_member) gomap"
  im_parentLinks :: "(uuid, parent_of_record) gomap"

definition newInMemoryHouseholdStore :: hh_memory where
  "newInMemoryHouseholdStore = \<lparr>im_households = [], im_members = [], im_parentLinks = []\<rparr>"

text \<open>A row that counts as the account owner, or as a manager, of a household.\<close>

definition is_owner_of :: "uuid \<Rightarrow> hh_member \<Rightarrow> bool" where
  "is_owner_of hid e \<longleftrightarrow> hm_HouseholdID e = hid \<and> hm_IsAccountOwner e \<and> hm_Status e \<noteq> hhStatusRemoved"

definition is_manager_of :: "uuid \<Rightarrow> hh_member \<Rightarrow> bool" where
  "is_manager_of hid e \<longleftrightarrow> hm_HouseholdID e = hid \<and> hm_IsManager e \<and> hm_Status e \<noteq> hhStatusRemoved"

definition caps_default :: "hh_member \<Rightarrow> hh_member" where
  "caps_default m =
     (if hm_Capabilities m = None \<or> hm_Capabilities m = Some [] then m\<lparr>hm_Capabilities := Some ''{}''\<rparr> else m)"

definition im_CreateHousehold ::
  "uuid \<Rightarrow> go_time \<Rightarrow> household \<Rightarrow> hh_memory \<Rightarrow> household result \<times> hh_memory" where
  "im_CreateHousehold newid now h s =
     (let h' = h\<lparr>hh_ID := newid, hh_CreatedAt := now, hh_UpdatedAt := now\<rparr>
      in (Inr h', s\<lparr>im_households := gm_put newid h' (im_households s)\<rparr>))"

definition im_CreateHouseholdWithOwner ::
  "uuid \<Rightarrow> uuid \<Rightarrow> go_time \<Rightarrow> household \<Rightarrow> hh_member \<Rightarrow> hh_memory \<Rightarrow> (household \<times> hh_member) result \<times> hh_memory" where
  "im_CreateHouseholdWithOwner hid mid now h owner s =
     (let h' = h\<lparr>hh_ID := hid, hh_CreatedAt := now, hh_UpdatedAt := now\<rparr>;
          o1 = owner\<lparr>hm_ID := mid, hm_HouseholdID := hid, hm_AddedAt := now\<rparr>;
          o2 = (if hm_Status o1 = [] then o1\<lparr>hm_Status := hhStatusActive\<rparr> else o1);
          o3 = caps_default o2
      in if hm_IsAccountOwner o3 \<and> (\<exists>e\<in>set (gm_vals (im_members s)). is_owner_of hid e)
         then (Inl ErrAccountOwnerExists, s)
         else (Inr (h', o3), s\<lparr>im_households := gm_put hid h' (im_households s),
                                im_members := gm_put mid o3 (im_members s)\<rparr>))"

definition im_GetHouseholdByID :: "uuid \<Rightarrow> hh_memory \<Rightarrow> household result" where
  "im_GetHouseholdByID hid s =
     (case gm_get (im_households s) hid of None \<Rightarrow> Inl hhErrNotFound | Some h \<Rightarrow> Inr h)"

definition im_UpdateHousehold ::
  "go_time \<Rightarrow> household \<Rightarrow> hh_memory \<Rightarrow> household result \<times> hh_memory" where
  "im_UpdateHousehold now h s =
     (case gm_get (im_households s) (hh_ID h) of
        None \<Rightarrow> (Inl hhErrNotFound, s)
      | Some existing \<Rightarrow>
          let e' = existing\<lparr>hh_DisplayName := hh_DisplayName h, hh_Metadata := hh_Metadata h, hh_UpdatedAt := now\<rparr>
          in (Inr e', s\<lparr>im_households := gm_put (hh_ID h) e' (im_households s)\<rparr>))"

definition im_DeleteHousehold :: "uuid \<Rightarrow> hh_memory \<Rightarrow> unit result \<times> hh_memory" where
  "im_DeleteHousehold hid s =
     (Inr (), s\<lparr>im_households := gm_del hid (im_households s),
                im_members := gm_remove (\<lambda>_ m. hm_HouseholdID m = hid) (im_members s)\<rparr>)"

definition im_AddMember ::
  "uuid \<Rightarrow> go_time \<Rightarrow> hh_member \<Rightarrow> hh_memory \<Rightarrow> hh_member result \<times> hh_memory" where
  "im_AddMember newid now m s =
     (if hm_IsAccountOwner m \<and> (\<exists>e\<in>set (gm_vals (im_members s)). is_owner_of (hm_HouseholdID m) e)
      then (Inl ErrAccountOwnerExists, s)
      else let m' = caps_default (m\<lparr>hm_ID := newid, hm_AddedAt := now\<rparr>)
           in (Inr m', s\<lparr>im_members := gm_put newid m' (im_members s)\<rparr>))"

definition im_GetMember :: "uuid \<Rightarrow> hh_memory \<Rightarrow> hh_member result" where
  "im_GetMember mid s = (case gm_get (im_members s) mid of None \<Rightarrow> Inl hhErrNotFound | Some m \<Rightarrow> Inr m)"

definition im_GetMemberByIdentity :: "uuid \<Rightarrow> uuid \<Rightarrow> hh_memory \<Rightarrow> hh_member result" where
  "im_GetMemberByIdentity householdID identityID s =
     (case find (\<lambda>m. hm_HouseholdID m = householdID \<and> hm_IdentityID m = identityID \<and> hm_Status m \<noteq> hhStatusRemoved)
             (gm_vals (im_members s)) of
        None \<Rightarrow> Inl hhErrNotFound | Some m \<Rightarrow> Inr m)"

definition im_UpdateMemberRole ::
  "uuid \<Rightarrow> hh_role \<Rightarrow> bool \<Rightarrow> bool \<Rightarrow> string option \<Rightarrow> hh_memory \<Rightarrow> hh_member result \<times> hh_memory" where
  "im_UpdateMemberRole memberID role isManager isAccountOwner caps s =
     (case gm_get (im_members s) memberID of
        None \<Rightarrow> (Inl hhErrNotFound, s)
      | Some m \<Rightarrow>
          if isAccountOwner \<and> \<not> hm_IsAccountOwner m \<and>
             (\<exists>(mid, e)\<in>set (im_members s). mid \<noteq> memberID \<and> is_owner_of (hm_HouseholdID m) e)
          then (Inl ErrAccountOwnerExists, s)
          else let m1 = m\<lparr>hm_Role := role, hm_IsManager := isManager, hm_IsAccountOwner := isAccountOwner\<rparr>;
                   m2 = (if caps = None \<or> caps = Some [] then m1 else m1\<lparr>hm_Capabilities := caps\<rparr>)
               in (Inr m2, s\<lparr>im_members := gm_put memberID m2 (im_members s)\<rparr>))"

definition im_RemoveMember :: "go_time \<Rightarrow> uuid \<Rightarrow> hh_memory \<Rightarrow> unit result \<times> hh_memory" where
  "im_RemoveMember now memberID s =
     (case gm_get (im_members s) memberID of
        None \<Rightarrow> (Inl hhErrNotFound, s)
      | Some m \<Rightarrow>
          (Inr (), s\<lparr>im_members := gm_put memberID (m\<lparr>hm_Status := hhStatusRemoved, hm_RemovedAt := Some now\<rparr>)
                       (im_members s)\<rparr>))"

definition im_ListMembers :: "uuid \<Rightarrow> hh_memory \<Rightarrow> hh_member list result" where
  "im_ListMembers householdID s =
     Inr (sort_key hm_AddedAt
           (filter (\<lambda>m. hm_HouseholdID m = householdID \<and> hm_Status m \<noteq> hhStatusRemoved) (gm_vals (im_members s))))"

definition im_CountManagers :: "uuid \<Rightarrow> hh_memory \<Rightarrow> int result" where
  "im_CountManagers householdID s = Inr (int (gm_count (is_manager_of householdID) (im_members s)))"

fun oldest_membership :: "uuid \<Rightarrow> hh_member list \<Rightarrow> hh_member option \<Rightarrow> hh_member option" where
  "oldest_membership identityID [] found = found"
| "oldest_membership identityID (mm # ms) found =
     oldest_membership identityID ms
       (if hm_IdentityID mm = identityID \<and> hm_Status mm \<noteq> hhStatusRemoved then
          (case found of
             None \<Rightarrow> Some mm
           | Some f \<Rightarrow> if hm_AddedAt mm < hm_AddedAt f then Some mm else found)
        else found)"

definition im_GetHouseholdForIdentity :: "uuid \<Rightarrow> hh_memory \<Rightarrow> (household \<times> hh_member) result" where
  "im_GetHouseholdForIdentity identityID s =
     (case oldest_membership identityID (gm_vals (im_members s)) None of
        None \<Rightarrow> Inl hhErrNotFound
      | Some m \<Rightarrow>
          (case gm_get (im_households s) (hm_HouseholdID m) of
             None \<Rightarrow> Inl hhErrNotFound
           | Some h \<Rightarrow> Inr (h, m)))"

fun households_of :: "(uuid, household) gomap \<Rightarrow> uuid \<Rightarrow> hh_member list \<Rightarrow> uuid list \<Rightarrow> household list" where
  "households_of hs identityID [] seen = []"
| "households_of hs identityID (m # ms) seen =
     (if hm_IdentityID m = identityID \<and> hm_Status m \<noteq> hhStatusRemoved \<and> hm_HouseholdID m \<notin> set seen then
        (case gm_get hs (hm_HouseholdID m) of
           Some h \<Rightarrow> h # households_of hs identityID ms (hm_HouseholdID m # seen)
         | None \<Rightarrow> households_of hs identityID ms seen)
      else households_of hs identityID ms seen)"

definition im_ListHouseholdsForIdentity :: "uuid \<Rightarrow> hh_memory \<Rightarrow> household list result" where
  "im_ListHouseholdsForIdentity identityID s =
     Inr (households_of (im_households s) identityID (gm_vals (im_members s)) [])"

definition im_SetAccountOwner :: "uuid \<Rightarrow> uuid \<Rightarrow> hh_memory \<Rightarrow> hh_member result \<times> hh_memory" where
  "im_SetAccountOwner householdID newOwnerMemberID s =
     (case gm_get (im_members s) newOwnerMemberID of
        None \<Rightarrow> (Inl hhErrNotFound, s)
      | Some target \<Rightarrow>
          if hm_HouseholdID target \<noteq> householdID \<or> hm_Status target = hhStatusRemoved
          then (Inl hhErrNotFound, s)
          else let demoted = gm_map (\<lambda>_ m. if hm_HouseholdID m = householdID \<and> hm_IsAccountOwner m
                                            then m\<lparr>hm_IsAccountOwner := False\<rparr> else m) (im_members s);
                   target' = target\<lparr>hm_IsAccountOwner := True\<rparr>
               in (Inr target', s\<lparr>im_members := gm_put newOwnerMemberID target' demoted\<rparr>))"

definition im_EstablishParentOfRecord ::
  "uuid \<Rightarrow> go_time \<Rightarrow> uuid \<Rightarrow> uuid \<Rightarrow> hh_memory \<Rightarrow> parent_of_record result \<times> hh_memory" where
  "im_EstablishParentOfRecord newid now childMemberID parentMemberID s =
     (let por = \<lparr>por_ID = newid, por_ChildMemberID = childMemberID, por_ParentMemberID = parentMemberID,
                 por_EstablishedAt = now, por_RevokedAt = None\<rparr>
      in (Inr por, s\<lparr>im_parentLinks := gm_put newid por (im_parentLinks s)\<rparr>))"

definition im_RevokeParentOfRecord :: "go_time \<Rightarrow> uuid \<Rightarrow> hh_memory \<Rightarrow> unit result \<times> hh_memory" where
  "im_RevokeParentOfRecord now pid s =
     (case gm_get (im_parentLinks s) pid of
        None \<Rightarrow> (Inl hhErrNotFound, s)
      | Some por \<Rightarrow>
          (Inr (), s\<lparr>im_parentLinks := gm_put pid (por\<lparr>por_RevokedAt := Some now\<rparr>) (im_parentLinks s)\<rparr>))"

definition im_ListParentsOfRecord :: "uuid \<Rightarrow> hh_memory \<Rightarrow> parent_of_record list result" where
  "im_ListParentsOfRecord childMemberID s =
     Inr (filter (\<lambda>p. por_ChildMemberID p = childMemberID \<and> por_RevokedAt p = None) (gm_vals (im_parentLinks s)))"

definition im_ListChildrenForParent :: "uuid \<Rightarrow> hh_memory \<Rightarrow> parent_of_record list result" where
  "im_ListChildrenForParent parentMemberID s =
     Inr (filter (\<lambda>p. por_ParentMemberID p = parentMemberID \<and> por_RevokedAt p = None) (gm_vals (im_parentLinks s)))"

definition inMemoryHouseholdStore :: "hh_memory household_store" where
  "inMemoryHouseholdStore =
     \<lparr>hs_CreateHousehold = im_CreateHousehold, hs_CreateHouseholdWithOwner = im_CreateHouseholdWithOwner,
      hs_GetHouseholdByID = im_GetHouseholdByID, hs_UpdateHousehold = im_UpdateHousehold,
      hs_DeleteHousehold = im_DeleteHousehold, hs_AddMember = im_AddMember, hs_GetMember = im_GetMember,
      hs_GetMemberByIdentity = im_GetMemberByIdentity, hs_UpdateMemberRole = im_UpdateMemberRole,
      hs_RemoveMember = im_RemoveMember, hs_ListMembers = im_ListMembers, hs_CountManagers = im_CountManagers,
      hs_GetHouseholdForIdentity = im_GetHouseholdForIdentity,
      hs_ListHouseholdsForIdentity = im_ListHouseholdsForIdentity, hs_SetAccountOwner = im_SetAccountOwner,
      hs_EstablishParentOfRecord = im_EstablishParentOfRecord,
      hs_RevokeParentOfRecord = im_RevokeParentOfRecord, hs_ListParentsOfRecord = im_ListParentsOfRecord,
      hs_ListChildrenForParent = im_ListChildrenForParent\<rparr>"

section \<open>The contract of a store\<close>

text \<open>
  \<open>members s\<close> is the table of member rows. A call that fails changes nothing; each law below says what a
  successful call does to the table. \<open>fin\<close> is the representation invariant of the store.
\<close>

definition same_person :: "hh_member \<Rightarrow> hh_member \<Rightarrow> bool" where
  "same_person m m' \<longleftrightarrow>
     hm_HouseholdID m' = hm_HouseholdID m \<and> hm_Status m' = hm_Status m \<and> hm_Birthdate m' = hm_Birthdate m"

definition same_powers :: "hh_member \<Rightarrow> hh_member \<Rightarrow> bool" where
  "same_powers m m' \<longleftrightarrow>
     hm_Role m' = hm_Role m \<and> hm_IsManager m' = hm_IsManager m \<and> hm_IsAccountOwner m' = hm_IsAccountOwner m"

definition demote :: "uuid \<Rightarrow> hh_member \<Rightarrow> hh_member" where
  "demote hid m = (if hm_HouseholdID m = hid \<and> hm_IsAccountOwner m then m\<lparr>hm_IsAccountOwner := False\<rparr> else m)"

locale household_store_spec =
  fixes H :: "'s household_store"
    and members :: "'s \<Rightarrow> uuid \<rightharpoonup> hh_member"
    and fin :: "'s \<Rightarrow> bool"
  assumes finite_members: "fin s \<Longrightarrow> finite (dom (members s))"
    and failed:
      "hs_CreateHousehold H nid now h s = (Inl e, s') \<Longrightarrow> s' = s"
      "hs_CreateHouseholdWithOwner H nid mid now h m s = (Inl e, s') \<Longrightarrow> s' = s"
      "hs_UpdateHousehold H now h s = (Inl e, s') \<Longrightarrow> s' = s"
      "hs_DeleteHousehold H hid s = (Inl e, s') \<Longrightarrow> s' = s"
      "hs_AddMember H nid now m s = (Inl e, s') \<Longrightarrow> s' = s"
      "hs_UpdateMemberRole H mid role mg ow caps s = (Inl e, s') \<Longrightarrow> s' = s"
      "hs_RemoveMember H now mid s = (Inl e, s') \<Longrightarrow> s' = s"
      "hs_SetAccountOwner H hid mid s = (Inl e, s') \<Longrightarrow> s' = s"
      "hs_EstablishParentOfRecord H nid now c p s = (Inl e, s') \<Longrightarrow> s' = s"
      "hs_RevokeParentOfRecord H now nid s = (Inl e, s') \<Longrightarrow> s' = s"
    and keeps_fin:
      "fin s \<Longrightarrow> hs_CreateHousehold H nid now h s = (Inr h', s') \<Longrightarrow> fin s'"
      "fin s \<Longrightarrow> hs_CreateHouseholdWithOwner H nid mid now h m s = (Inr hm, s') \<Longrightarrow> fin s'"
      "fin s \<Longrightarrow> hs_UpdateHousehold H now h s = (Inr h', s') \<Longrightarrow> fin s'"
      "fin s \<Longrightarrow> hs_DeleteHousehold H hid s = (Inr u, s') \<Longrightarrow> fin s'"
      "fin s \<Longrightarrow> hs_AddMember H nid now m s = (Inr m', s') \<Longrightarrow> fin s'"
      "fin s \<Longrightarrow> hs_UpdateMemberRole H mid role mg ow caps s = (Inr m', s') \<Longrightarrow> fin s'"
      "fin s \<Longrightarrow> hs_RemoveMember H now mid s = (Inr u, s') \<Longrightarrow> fin s'"
      "fin s \<Longrightarrow> hs_SetAccountOwner H hid mid s = (Inr m', s') \<Longrightarrow> fin s'"
      "fin s \<Longrightarrow> hs_EstablishParentOfRecord H nid now c p s = (Inr q, s') \<Longrightarrow> fin s'"
      "fin s \<Longrightarrow> hs_RevokeParentOfRecord H now nid s = (Inr u, s') \<Longrightarrow> fin s'"
    and same_members:
      "hs_CreateHousehold H nid now h s = (Inr h', s') \<Longrightarrow> members s' = members s"
      "hs_UpdateHousehold H now h s = (Inr h', s') \<Longrightarrow> members s' = members s"
      "hs_EstablishParentOfRecord H nid now c p s = (Inr q, s') \<Longrightarrow> members s' = members s"
      "hs_RevokeParentOfRecord H now nid s = (Inr u, s') \<Longrightarrow> members s' = members s"
    and get_member: "hs_GetMember H mid s = Inr m \<longleftrightarrow> members s mid = Some m"
    and count_managers:
      "fin s \<Longrightarrow> hs_CountManagers H hid s = Inr n \<Longrightarrow>
       n = int (card {mid. \<exists>m. members s mid = Some m \<and> is_manager_of hid m})"
    and create_with_owner:
      "hs_CreateHouseholdWithOwner H nid mid now h m s = (Inr (h', m'), s') \<Longrightarrow>
       members s' = (members s)(mid \<mapsto> m') \<and> hm_HouseholdID m' = nid \<and> same_powers m m' \<and>
       hm_Birthdate m' = hm_Birthdate m \<and> (hm_Status m \<noteq> [] \<longrightarrow> hm_Status m' = hm_Status m)"
    and delete_household:
      "fin s \<Longrightarrow> hs_DeleteHousehold H hid s = (Inr u, s') \<Longrightarrow>
       members s' mid = (case members s mid of None \<Rightarrow> None | Some m \<Rightarrow>
                           if hm_HouseholdID m = hid then None else Some m)"
    and add_member:
      "fin s \<Longrightarrow> hs_AddMember H nid now m s = (Inr m', s') \<Longrightarrow>
       members s' = (members s)(nid \<mapsto> m') \<and> same_person m m' \<and> same_powers m m' \<and>
       (hm_IsAccountOwner m \<longrightarrow> (\<forall>k e. members s k = Some e \<longrightarrow> \<not> is_owner_of (hm_HouseholdID m) e))"
    and update_role:
      "fin s \<Longrightarrow> hs_UpdateMemberRole H mid role mg ow caps s = (Inr m', s') \<Longrightarrow>
       \<exists>m. members s mid = Some m \<and> members s' = (members s)(mid \<mapsto> m') \<and> same_person m m' \<and>
           hm_Role m' = role \<and> hm_IsManager m' = mg \<and> hm_IsAccountOwner m' = ow \<and>
           (ow \<and> \<not> hm_IsAccountOwner m \<longrightarrow>
              (\<forall>k e. members s k = Some e \<and> k \<noteq> mid \<longrightarrow> \<not> is_owner_of (hm_HouseholdID m) e))"
    and remove_member:
      "hs_RemoveMember H now mid s = (Inr u, s') \<Longrightarrow>
       \<exists>m. members s mid = Some m \<and>
           members s' = (members s)(mid \<mapsto> m\<lparr>hm_Status := hhStatusRemoved, hm_RemovedAt := Some now\<rparr>)"
    and set_account_owner:
      "hs_SetAccountOwner H hid mid s = (Inr m', s') \<Longrightarrow>
       \<exists>t. members s mid = Some t \<and> hm_HouseholdID t = hid \<and> hm_Status t \<noteq> hhStatusRemoved \<and>
           members s' = (\<lambda>k. map_option (demote hid) (members s k))(mid \<mapsto> t\<lparr>hm_IsAccountOwner := True\<rparr>)"

definition im_fin :: "hh_memory \<Rightarrow> bool" where
  "im_fin s \<longleftrightarrow> gm_ok (im_members s)"

lemma card_managers:
  "gm_ok m \<Longrightarrow> card {k. \<exists>v. gm_get m k = Some v \<and> P v} = gm_count P m"
proof (induction m)
  case (Cons a m)
  obtain k v where a: "a = (k, v)" by (cases a)
  have ok: "gm_ok m" and new: "gm_get m k = None"
    using Cons.prems a by (auto simp: gm_ok_def gm_get_def map_of_eq_None_iff)
  have "{k'. \<exists>w. gm_get (a # m) k' = Some w \<and> P w}
      = {k'. \<exists>w. gm_get m k' = Some w \<and> P w} \<union> (if P v then {k} else {})"
    using a new by (auto simp: gm_get_def)
  moreover have "finite {k'. \<exists>w. gm_get m k' = Some w \<and> P w}"
    by (rule finite_subset [of _ "dom (map_of m)"]) (auto simp: gm_get_def finite_dom_map_of)
  moreover have "k \<notin> {k'. \<exists>w. gm_get m k' = Some w \<and> P w}" using new by simp
  ultimately show ?case using Cons.IH [OF ok] a by simp
qed simp

lemma members_exist: "gm_ok m \<Longrightarrow> (\<exists>e\<in>set (gm_vals m). P e) \<longleftrightarrow> (\<exists>k e. gm_get m k = Some e \<and> P e)"
  using gm_vals_iff [of m] by blast

lemma same_caps_default [simp]: "same_person m (caps_default m)" "same_powers m (caps_default m)"
  "hm_Status (caps_default m) = hm_Status m" "hm_Birthdate (caps_default m) = hm_Birthdate m"
  "hm_HouseholdID (caps_default m) = hm_HouseholdID m" "hm_Role (caps_default m) = hm_Role m"
  "hm_IsAccountOwner (caps_default m) = hm_IsAccountOwner m" "hm_IsManager (caps_default m) = hm_IsManager m"
  by (simp_all add: caps_default_def same_person_def same_powers_def)

lemmas im_defs = im_CreateHousehold_def im_CreateHouseholdWithOwner_def im_UpdateHousehold_def
  im_DeleteHousehold_def im_AddMember_def im_GetMember_def im_UpdateMemberRole_def im_RemoveMember_def
  im_CountManagers_def im_SetAccountOwner_def im_EstablishParentOfRecord_def im_RevokeParentOfRecord_def
  inMemoryHouseholdStore_def

text \<open>The laws of the operations that change member rows.\<close>

lemma im_add_law:
  assumes "im_fin s" and "im_AddMember nid now m s = (Inr m', s')"
  shows "gm_get (im_members s') = (gm_get (im_members s))(nid \<mapsto> m') \<and> same_person m m' \<and> same_powers m m' \<and>
    (hm_IsAccountOwner m \<longrightarrow> (\<forall>k e. gm_get (im_members s) k = Some e \<longrightarrow> \<not> is_owner_of (hm_HouseholdID m) e))"
  using assms
  by (auto simp: im_AddMember_def im_fin_def members_exist Let_def fun_eq_iff same_person_def same_powers_def
      split: if_splits)

lemma im_update_role_law:
  assumes "im_fin s" and "im_UpdateMemberRole mid role mg ow caps s = (Inr m', s')"
  shows "\<exists>m. gm_get (im_members s) mid = Some m \<and> gm_get (im_members s') = (gm_get (im_members s))(mid \<mapsto> m') \<and>
    same_person m m' \<and> hm_Role m' = role \<and> hm_IsManager m' = mg \<and> hm_IsAccountOwner m' = ow \<and>
    (ow \<and> \<not> hm_IsAccountOwner m \<longrightarrow>
       (\<forall>k e. gm_get (im_members s) k = Some e \<and> k \<noteq> mid \<longrightarrow> \<not> is_owner_of (hm_HouseholdID m) e))"
proof -
  from assms(2) obtain m where m: "gm_get (im_members s) mid = Some m"
    by (auto simp: im_UpdateMemberRole_def split: option.splits)
  have free: "\<not> is_owner_of (hm_HouseholdID m) e"
    if "ow" "\<not> hm_IsAccountOwner m" "gm_get (im_members s) k = Some e" "k \<noteq> mid" for k e
    using assms(2) m that gm_get_in [OF that(3)] by (auto simp: im_UpdateMemberRole_def split: if_splits)
  have "gm_get (im_members s') = (gm_get (im_members s))(mid \<mapsto> m') \<and> same_person m m' \<and> hm_Role m' = role \<and>
      hm_IsManager m' = mg \<and> hm_IsAccountOwner m' = ow"
    using assms(2) m
    by (auto simp: im_UpdateMemberRole_def Let_def fun_eq_iff same_person_def split: if_splits)
  with m free show ?thesis by blast
qed

lemma im_set_owner_law:
  assumes "im_SetAccountOwner hid mid s = (Inr m', s')"
  shows "\<exists>t. gm_get (im_members s) mid = Some t \<and> hm_HouseholdID t = hid \<and> hm_Status t \<noteq> hhStatusRemoved \<and>
    gm_get (im_members s')
      = (\<lambda>k. map_option (demote hid) (gm_get (im_members s) k))(mid \<mapsto> t\<lparr>hm_IsAccountOwner := True\<rparr>)"
  using assms
  by (auto simp: im_SetAccountOwner_def Let_def fun_eq_iff demote_def [abs_def] split: option.splits if_splits)

lemma im_create_with_owner_law:
  assumes "im_CreateHouseholdWithOwner nid mid now h m s = (Inr (h', m'), s')"
  shows "gm_get (im_members s') = (gm_get (im_members s))(mid \<mapsto> m') \<and> hm_HouseholdID m' = nid \<and>
    same_powers m m' \<and> hm_Birthdate m' = hm_Birthdate m \<and> (hm_Status m \<noteq> [] \<longrightarrow> hm_Status m' = hm_Status m)"
  using assms
  by (auto simp: im_CreateHouseholdWithOwner_def Let_def fun_eq_iff same_powers_def split: if_splits)

lemma im_remove_law:
  assumes "im_RemoveMember now mid s = (Inr u, s')"
  shows "\<exists>m. gm_get (im_members s) mid = Some m \<and> gm_get (im_members s')
    = (gm_get (im_members s))(mid \<mapsto> m\<lparr>hm_Status := hhStatusRemoved, hm_RemovedAt := Some now\<rparr>)"
  using assms by (auto simp: im_RemoveMember_def fun_eq_iff split: option.splits)

lemma im_delete_law:
  assumes "im_fin s" and "im_DeleteHousehold hid s = (Inr u, s')"
  shows "gm_get (im_members s') mid = (case gm_get (im_members s) mid of None \<Rightarrow> None | Some m \<Rightarrow>
           if hm_HouseholdID m = hid then None else Some m)"
  using assms by (auto simp: im_DeleteHousehold_def im_fin_def gm_get_remove)

lemma im_count_law:
  assumes "im_fin s" and "im_CountManagers hid s = Inr n"
  shows "n = int (card {mid. \<exists>m. gm_get (im_members s) mid = Some m \<and> is_manager_of hid m})"
  using assms by (simp add: im_CountManagers_def im_fin_def card_managers)

lemmas im_laws = im_add_law im_update_role_law im_set_owner_law im_create_with_owner_law im_remove_law
  im_delete_law im_count_law

interpretation inmem: household_store_spec inMemoryHouseholdStore "\<lambda>s. gm_get (im_members s)" im_fin
proof
  show "finite (dom (gm_get (im_members s)))" for s
    by (simp add: gm_get_def [abs_def] finite_dom_map_of)
qed (auto simp: inMemoryHouseholdStore_def dest: im_laws;
     auto simp: im_defs im_fin_def Let_def split: option.splits if_splits)+

section \<open>The family invariants\<close>

text \<open>
  A provisioned household has exactly one account owner and at least one manager among its non-removed
  members. Every member row has a known role and status, and a child row has a birthdate and no
  capability.
\<close>

definition sound_household :: "(uuid \<rightharpoonup> hh_member) \<Rightarrow> uuid \<Rightarrow> bool" where
  "sound_household M hid \<longleftrightarrow>
     (\<exists>!k. \<exists>m. M k = Some m \<and> is_owner_of hid m) \<and> (\<exists>k m. M k = Some m \<and> is_manager_of hid m)"

definition sound_member :: "hh_member \<Rightarrow> bool" where
  "sound_member m \<longleftrightarrow> Role_Valid (hm_Role m) \<and> Status_Valid (hm_Status m) \<and>
     (hm_Role m = RoleChild \<longrightarrow> hm_Birthdate m \<noteq> None \<and> \<not> hm_IsManager m \<and> \<not> hm_IsAccountOwner m)"

definition sound_members :: "(uuid \<rightharpoonup> hh_member) \<Rightarrow> bool" where
  "sound_members M \<longleftrightarrow> (\<forall>k m. M k = Some m \<longrightarrow> sound_member m)"

text \<open>The mutating calls a client can make, with the identifiers and clock readings they consume.\<close>

datatype hh_call =
    CallCreate uuid go_time audit_context string "string option"
  | CallProvision uuid uuid go_time audit_context string owner_input "string option"
  | CallUpdate go_time audit_context household
  | CallDelete audit_context uuid
  | CallAdd uuid go_time audit_context hh_member
  | CallRole audit_context uuid hh_role bool bool "string option"
  | CallOwner audit_context uuid uuid
  | CallRemove go_time audit_context uuid
  | CallParent uuid go_time audit_context uuid uuid
  | CallUnparent go_time audit_context uuid

fun hh_exec :: "'s household_store \<Rightarrow> hh_call \<Rightarrow> 's hh_world \<Rightarrow> bool \<times> 's hh_world" where
  "hh_exec H (CallCreate nid now ac dn md) w =
     (let r = HouseholdService_CreateHousehold H nid now ac dn md w in (ok r, snd r))"
| "hh_exec H (CallProvision hid mid now ac dn oi md) w =
     (let r = HouseholdService_CreateHouseholdWithOwner H hid mid now ac dn oi md w in (ok r, snd r))"
| "hh_exec H (CallUpdate now ac h) w = (let r = HouseholdService_UpdateHousehold H now ac h w in (ok r, snd r))"
| "hh_exec H (CallDelete ac hid) w = (let r = HouseholdService_DeleteHousehold H ac hid w in (ok r, snd r))"
| "hh_exec H (CallAdd nid now ac m) w = (let r = HouseholdService_AddMember H nid now ac m w in (ok r, snd r))"
| "hh_exec H (CallRole ac mid r mg ow caps) w =
     (let q = HouseholdService_UpdateMemberRole H ac mid r mg ow caps w in (ok q, snd q))"
| "hh_exec H (CallOwner ac hid mid) w = (let r = HouseholdService_SetAccountOwner H ac hid mid w in (ok r, snd r))"
| "hh_exec H (CallRemove now ac mid) w = (let r = HouseholdService_RemoveMember H now ac mid w in (ok r, snd r))"
| "hh_exec H (CallParent nid now ac c p) w =
     (let r = HouseholdService_EstablishParentOfRecord H nid now ac c p w in (ok r, snd r))"
| "hh_exec H (CallUnparent now ac pid) w =
     (let r = HouseholdService_RevokeParentOfRecord H now ac pid w in (ok r, snd r))"

text \<open>What \<^verbatim>\<open>uuid.New()\<close> gives: an identifier that no row uses.\<close>

fun call_fresh :: "(uuid \<rightharpoonup> hh_member) \<Rightarrow> hh_call \<Rightarrow> bool" where
  "call_fresh M (CallProvision hid mid _ _ _ _ _) \<longleftrightarrow>
     M mid = None \<and> (\<forall>k m. M k = Some m \<longrightarrow> hm_HouseholdID m \<noteq> hid)"
| "call_fresh M (CallAdd nid _ _ _) \<longleftrightarrow> M nid = None"
| "call_fresh M _ \<longleftrightarrow> True"

text \<open>The households provisioned with an owner and not deleted since.\<close>

fun provisioned_after :: "hh_call \<Rightarrow> bool \<Rightarrow> uuid set \<Rightarrow> uuid set" where
  "provisioned_after (CallProvision hid _ _ _ _ _ _) b P = (if b then insert hid P else P)"
| "provisioned_after (CallDelete _ hid) b P = (if b then P - {hid} else P)"
| "provisioned_after _ b P = P"

inductive hh_reach ::
  "'s household_store \<Rightarrow> ('s \<Rightarrow> uuid \<rightharpoonup> hh_member) \<Rightarrow> 's hh_world \<Rightarrow> uuid set \<Rightarrow> 's hh_world \<Rightarrow> bool"
  for H :: "'s household_store" and members :: "'s \<Rightarrow> uuid \<rightharpoonup> hh_member" and w0 :: "'s hh_world" where
  start: "hh_reach H members w0 {} w0"
| call: "hh_reach H members w0 P w \<Longrightarrow> call_fresh (members (hw_store w)) c \<Longrightarrow> hh_exec H c w = (b, w') \<Longrightarrow>
   hh_reach H members w0 (provisioned_after c b P) w'"

subsection \<open>How single row changes affect the invariants\<close>

lemma sound_put_plain:
  assumes "sound_household M hid"
    and "\<forall>m0. M k = Some m0 \<longrightarrow> \<not> is_owner_of hid m0 \<and> \<not> is_manager_of hid m0"
    and "\<not> is_owner_of hid m"
  shows "sound_household (M(k \<mapsto> m)) hid"
proof -
  have "(\<exists>mx. (M(k \<mapsto> m)) x = Some mx \<and> is_owner_of hid mx) \<longleftrightarrow> (\<exists>mx. M x = Some mx \<and> is_owner_of hid mx)" for x
    using assms(2,3) by (cases "x = k") auto
  moreover obtain b mb where b: "M b = Some mb" "is_manager_of hid mb"
    using assms(1) unfolding sound_household_def by blast
  then have "\<exists>x mx. (M(k \<mapsto> m)) x = Some mx \<and> is_manager_of hid mx"
    using assms(2) by (intro exI [of _ b] exI [of _ mb]) auto
  ultimately show ?thesis using assms(1) unfolding sound_household_def by simp
qed

lemma sound_put_same_owner:
  assumes "sound_household M hid" and "M k = Some m0" and "is_owner_of hid m \<longleftrightarrow> is_owner_of hid m0"
    and "is_manager_of hid m \<or> (\<exists>j mj. j \<noteq> k \<and> M j = Some mj \<and> is_manager_of hid mj)"
  shows "sound_household (M(k \<mapsto> m)) hid"
proof -
  have "(\<exists>mx. (M(k \<mapsto> m)) x = Some mx \<and> is_owner_of hid mx) \<longleftrightarrow> (\<exists>mx. M x = Some mx \<and> is_owner_of hid mx)" for x
    using assms(2,3) by (cases "x = k") simp_all
  moreover have "\<exists>x mx. (M(k \<mapsto> m)) x = Some mx \<and> is_manager_of hid mx"
  proof (cases "is_manager_of hid m")
    case True
    then show ?thesis by (intro exI [of _ k] exI [of _ m]) simp
  next
    case False
    with assms(4) obtain j mj where "j \<noteq> k" "M j = Some mj" "is_manager_of hid mj" by blast
    then show ?thesis by (intro exI [of _ j] exI [of _ mj]) simp
  qed
  ultimately show ?thesis using assms(1) unfolding sound_household_def by simp
qed

lemma another_manager:
  assumes "finite (dom M)" and "card {k. \<exists>m. M k = Some m \<and> is_manager_of hid m} > 1"
  shows "\<exists>j mj. j \<noteq> k \<and> M j = Some mj \<and> is_manager_of hid mj"
proof (rule ccontr)
  assume "\<not> ?thesis"
  then have "{k. \<exists>m. M k = Some m \<and> is_manager_of hid m} \<subseteq> {k}" by blast
  then have "card {k. \<exists>m. M k = Some m \<and> is_manager_of hid m} \<le> card {k}" by (intro card_mono) simp_all
  with assms(2) show False by simp
qed

lemma sound_members_put: "sound_members M \<Longrightarrow> sound_member m \<Longrightarrow> sound_members (M(k \<mapsto> m))"
  by (simp add: sound_members_def)

lemma validateCapabilities_None:
  "validateCapabilities r mg ow = None \<longleftrightarrow> (r = RoleChild \<longrightarrow> \<not> mg \<and> \<not> ow)"
  by (auto simp: validateCapabilities_def Role_IsChild_def Role_CanBeAccountOwner_def)

lemma hw_store_emit [simp]: "hw_store (hh_emit ac a r d w) = hw_store w"
  by (simp add: hh_emit_def Let_def)

lemma is_owner_demote [simp]: "is_owner_of hid (demote hid m) = False"
  by (auto simp: demote_def is_owner_of_def)

lemma is_owner_demote_other: "hid' \<noteq> hid \<Longrightarrow> is_owner_of hid' (demote hid m) = is_owner_of hid' m"
  by (auto simp: demote_def is_owner_of_def)

lemma is_manager_demote [simp]: "is_manager_of hid' (demote hid m) = is_manager_of hid' m"
  by (simp add: demote_def is_manager_of_def)

lemma sound_member_demote: "sound_member m \<Longrightarrow> sound_member (demote hid m)"
  by (simp add: sound_member_def demote_def)

subsection \<open>Every service call keeps the invariants\<close>

lemma exec_result: "(let r = x in (ok r, snd r)) = (b, w') \<Longrightarrow> \<exists>q. x = (q, w') \<and> b = ok (q, w')"
  by (cases x) (simp add: Let_def)

text \<open>
  \<open>preserves M M' P\<close>: the member table may change from \<open>M\<close> to \<open>M'\<close> while the households of \<open>P\<close> stay sound.
\<close>

definition preserves :: "(uuid \<rightharpoonup> hh_member) \<Rightarrow> (uuid \<rightharpoonup> hh_member) \<Rightarrow> uuid set \<Rightarrow> bool" where
  "preserves M M' P \<longleftrightarrow>
     (sound_members M \<longrightarrow> sound_members M') \<and> (\<forall>hid\<in>P. sound_household M hid \<longrightarrow> sound_household M' hid)"

lemma preserves_refl [simp]: "preserves M M P"
  by (simp add: preserves_def)

context household_store_spec
begin

lemma last_manager_check_None:
  assumes "fin s" and "last_manager_check H hid s = None"
  shows "\<exists>j mj. j \<noteq> k \<and> members s j = Some mj \<and> is_manager_of hid mj"
proof -
  from assms(2) obtain n where n: "hs_CountManagers H hid s = Inr n" "n > 1"
    by (auto simp: last_manager_check_def split: sum.splits if_splits)
  from count_managers [OF assms(1) n(1)] n(2)
  have "card {k. \<exists>m. members s k = Some m \<and> is_manager_of hid m} > 1" by simp
  from another_manager [OF finite_members [OF assms(1)] this] show ?thesis .
qed

lemma add_member_preserves:
  assumes "fin (hw_store w)" and "members (hw_store w) nid = None"
    and "HouseholdService_AddMember H nid now ac m0 w = (r, w')"
  shows "fin (hw_store w') \<and> preserves (members (hw_store w)) (members (hw_store w')) P
         \<and> (\<not> ok (r, w') \<longrightarrow> w' = w)"
proof (cases r)
  case (Inl e)
  then show ?thesis using assms failed(5)
    by (fastforce simp: HouseholdService_AddMember_def Let_def
        split: if_splits option.splits prod.splits sum.splits)
next
  case (Inr m')
  define m where "m = (if hm_Status m0 = [] then m0\<lparr>hm_Status := hhStatusActive\<rparr> else m0)"
  from assms(3) Inr obtain s' where add: "hs_AddMember H nid now m (hw_store w) = (Inr m', s')"
    and w': "hw_store w' = s'" and v: "Role_Valid (hm_Role m)" "Status_Valid (hm_Status m)"
      "hm_Role m = RoleChild \<Longrightarrow> hm_Birthdate m \<noteq> None"
      "validateCapabilities (hm_Role m) (hm_IsManager m) (hm_IsAccountOwner m) = None"
    by (auto simp: HouseholdService_AddMember_def Let_def m_def
        split: if_splits option.splits prod.splits sum.splits)
  note law = add_member [OF assms(1) add]
  have "sound_member m'"
    using law v unfolding validateCapabilities_None sound_member_def same_person_def same_powers_def by simp
  moreover have "sound_household (members s') hid" if snd: "sound_household (members (hw_store w)) hid" for hid
  proof -
    have "\<not> is_owner_of hid m'"
    proof
      assume o: "is_owner_of hid m'"
      then have "hm_IsAccountOwner m" "hm_HouseholdID m = hid"
        using law by (auto simp: is_owner_of_def same_person_def same_powers_def)
      with law snd show False unfolding sound_household_def by blast
    qed
    then show ?thesis using sound_put_plain [OF snd, of nid m'] law assms(2) by simp
  qed
  ultimately show ?thesis
    using law w' keeps_fin(5) [OF assms(1) add] Inr by (auto simp: preserves_def intro: sound_members_put)
qed

lemma remove_member_preserves:
  assumes "fin (hw_store w)" and "HouseholdService_RemoveMember H now ac mid w = (r, w')"
  shows "fin (hw_store w') \<and> preserves (members (hw_store w)) (members (hw_store w')) P
         \<and> (\<not> ok (r, w') \<longrightarrow> w' = w)"
proof (cases r)
  case (Inl e)
  then show ?thesis using assms failed(7)
    by (fastforce simp: HouseholdService_RemoveMember_def
        split: if_splits option.splits prod.splits sum.splits)
next
  case (Inr u)
  from assms(2) Inr obtain m s' where g: "hs_GetMember H mid (hw_store w) = Inr m"
    and no: "\<not> hm_IsAccountOwner m"
    and lm: "hm_IsManager m \<Longrightarrow> last_manager_check H (hm_HouseholdID m) (hw_store w) = None"
    and rm: "hs_RemoveMember H now mid (hw_store w) = (Inr u, s')" and w': "hw_store w' = s'"
    by (auto simp: HouseholdService_RemoveMember_def split: if_splits option.splits prod.splits sum.splits)
  let ?M = "members (hw_store w)" and ?m' = "m\<lparr>hm_Status := hhStatusRemoved, hm_RemovedAt := Some now\<rparr>"
  have m: "?M mid = Some m" using g get_member by simp
  have M': "members s' = ?M(mid \<mapsto> ?m')" using remove_member [OF rm] m by auto
  have "sound_household (members s') hid" if snd: "sound_household ?M hid" for hid
  proof (cases "is_manager_of hid m")
    case True
    then have "hm_IsManager m" "hm_HouseholdID m = hid" by (simp_all add: is_manager_of_def)
    from last_manager_check_None [OF assms(1) lm [OF this(1)], of mid] this(2) show ?thesis
      unfolding M' using no by (intro sound_put_same_owner [OF snd m]) (auto simp: is_owner_of_def)
  next
    case False
    then show ?thesis
      unfolding M' using no m by (intro sound_put_plain [OF snd]) (auto simp: is_owner_of_def)
  qed
  moreover have "sound_members ?M \<Longrightarrow> sound_member ?m'"
    using m by (auto simp: sound_members_def sound_member_def Status_Valid_def)
  ultimately show ?thesis
    using M' w' keeps_fin(7) [OF assms(1) rm] Inr by (auto simp: preserves_def intro: sound_members_put)
qed

lemma update_role_preserves:
  assumes "fin (hw_store w)" and "HouseholdService_UpdateMemberRole H ac mid role mg ow caps w = (r, w')"
  shows "fin (hw_store w') \<and> preserves (members (hw_store w)) (members (hw_store w')) P
         \<and> (\<not> ok (r, w') \<longrightarrow> w' = w)"
proof (cases r)
  case (Inl e)
  then show ?thesis using assms failed(6)
    by (fastforce simp: HouseholdService_UpdateMemberRole_def Let_def
        split: if_splits option.splits prod.splits sum.splits)
next
  case (Inr m')
  from assms(2) Inr obtain m caps' s' where g: "hs_GetMember H mid (hw_store w) = Inr m"
    and v: "Role_Valid role" "validateCapabilities role mg ow = None" "hm_Status m \<noteq> hhStatusRemoved"
      "role = RoleChild \<Longrightarrow> hm_Birthdate m \<noteq> None" "hm_IsAccountOwner m \<Longrightarrow> ow"
    and lm: "hm_IsManager m \<Longrightarrow> \<not> mg \<Longrightarrow> last_manager_check H (hm_HouseholdID m) (hw_store w) = None"
    and up: "hs_UpdateMemberRole H mid role mg ow caps' (hw_store w) = (Inr m', s')" and w': "hw_store w' = s'"
    by (auto simp: HouseholdService_UpdateMemberRole_def Let_def
        split: if_splits option.splits prod.splits sum.splits)
  let ?M = "members (hw_store w)"
  have m: "?M mid = Some m" using g get_member by simp
  from update_role [OF assms(1) up] m have M': "members s' = ?M(mid \<mapsto> m')" and sp: "same_person m m'"
    and f: "hm_Role m' = role" "hm_IsManager m' = mg" "hm_IsAccountOwner m' = ow"
    and free: "ow \<Longrightarrow> \<not> hm_IsAccountOwner m \<Longrightarrow> ?M k = Some e \<Longrightarrow> k \<noteq> mid \<Longrightarrow>
               \<not> is_owner_of (hm_HouseholdID m) e" for k e
    by auto
  have "sound_household (members s') hid" if snd: "sound_household ?M hid" for hid
  proof -
    have o: "is_owner_of hid m' \<longleftrightarrow> is_owner_of hid m"
    proof
      assume o': "is_owner_of hid m'"
      show "is_owner_of hid m"
      proof (rule ccontr)
        assume no: "\<not> is_owner_of hid m"
        from o' have "hm_HouseholdID m = hid" "ow" using sp f by (auto simp: is_owner_of_def same_person_def)
        moreover from this have "\<not> hm_IsAccountOwner m" using no v(3) by (simp add: is_owner_of_def)
        ultimately have "\<not> is_owner_of hid e" if "?M k = Some e" for k e
          using free [of k e] m that no by (cases "k = mid") auto
        with snd show False unfolding sound_household_def by blast
      qed
    qed (use sp f v in \<open>auto simp: is_owner_of_def same_person_def\<close>)
    show ?thesis
    proof (cases "is_manager_of hid m \<and> \<not> mg")
      case True
      then have "hm_IsManager m" "\<not> mg" "hm_HouseholdID m = hid" by (simp_all add: is_manager_of_def)
      from last_manager_check_None [OF assms(1) lm [OF this(1,2)], of mid] this(3) show ?thesis
        unfolding M' by (intro sound_put_same_owner [OF snd m o]) auto
    next
      case False
      obtain b mb where b: "?M b = Some mb" "is_manager_of hid mb"
        using snd unfolding sound_household_def by blast
      have "is_manager_of hid m' \<or> (\<exists>j mj. j \<noteq> mid \<and> ?M j = Some mj \<and> is_manager_of hid mj)"
        using False b m sp f by (cases "b = mid") (auto simp: is_manager_of_def same_person_def)
      then show ?thesis unfolding M' by (rule sound_put_same_owner [OF snd m o])
    qed
  qed
  moreover have "sound_members ?M \<Longrightarrow> sound_member m'"
    using m sp f v unfolding validateCapabilities_None sound_members_def sound_member_def same_person_def by auto
  ultimately show ?thesis
    using M' w' keeps_fin(6) [OF assms(1) up] Inr by (auto simp: preserves_def intro: sound_members_put)
qed

lemma provision_preserves:
  assumes "fin (hw_store w)" and "members (hw_store w) mid = None"
    and "\<And>k m. members (hw_store w) k = Some m \<Longrightarrow> hm_HouseholdID m \<noteq> nid"
    and "HouseholdService_CreateHouseholdWithOwner H nid mid now ac dn oi md w = (r, w')"
  shows "fin (hw_store w') \<and> preserves (members (hw_store w)) (members (hw_store w')) P
         \<and> (ok (r, w') \<longrightarrow> sound_household (members (hw_store w')) nid) \<and> (\<not> ok (r, w') \<longrightarrow> w' = w)"
proof (cases r)
  case (Inl e)
  then show ?thesis using assms failed(2)
    by (fastforce simp: HouseholdService_CreateHouseholdWithOwner_def Let_def
        split: if_splits option.splits prod.splits sum.splits)
next
  case (Inr hm)
  from assms(4) Inr obtain h m h' m' s' where v: "Role_Valid (oi_Role oi)"
      "validateCapabilities (oi_Role oi) True True = None"
    and m: "m = zero_member\<lparr>hm_IdentityID := oi_IdentityID oi, hm_Role := oi_Role oi,
                          hm_Status := hhStatusActive, hm_IsManager := True, hm_IsAccountOwner := True,
                          hm_Birthdate := oi_Birthdate oi\<rparr>"
    and cr: "hs_CreateHouseholdWithOwner H nid mid now h m (hw_store w) = (Inr (h', m'), s')"
    and w': "hw_store w' = s'"
    by (auto simp: HouseholdService_CreateHouseholdWithOwner_def Let_def
        split: if_splits option.splits prod.splits sum.splits)
  let ?M = "members (hw_store w)"
  from create_with_owner [OF cr] have M': "members s' = ?M(mid \<mapsto> m')" and own: "is_owner_of nid m'" "is_manager_of nid m'"
    and sm: "sound_member m'"
    using v by (auto simp: m is_owner_of_def is_manager_of_def same_powers_def sound_member_def Status_Valid_def
        validateCapabilities_None hh_consts)
  have none: "\<not> is_owner_of nid e" if "?M k = Some e" for k e
    using assms(3) [OF that] by (simp add: is_owner_of_def)
  have "\<exists>mx. (?M(mid \<mapsto> m')) x = Some mx \<and> is_owner_of nid mx \<longleftrightarrow> x = mid" for x
    using own none by (cases "x = mid") auto
  then have new: "sound_household (members s') nid"
    unfolding M' sound_household_def using own none by (auto split: if_splits)
  have "sound_household (members s') hid" if "sound_household ?M hid" for hid
  proof (cases "hid = nid")
    case False
    then have "\<not> is_owner_of hid m'" using own by (auto simp: is_owner_of_def)
    then show ?thesis unfolding M' using assms(2) by (intro sound_put_plain [OF that]) auto
  qed (use new in simp)
  then show ?thesis
    using new sm M' w' keeps_fin(2) [OF assms(1) cr] Inr by (auto simp: preserves_def intro: sound_members_put)
qed

lemma set_owner_preserves:
  assumes "fin (hw_store w)" and "HouseholdService_SetAccountOwner H ac hid mid w = (r, w')"
  shows "fin (hw_store w') \<and> preserves (members (hw_store w)) (members (hw_store w')) P
         \<and> (\<not> ok (r, w') \<longrightarrow> w' = w)"
proof (cases r)
  case (Inl e)
  then show ?thesis using assms failed(8)
    by (fastforce simp: HouseholdService_SetAccountOwner_def
        split: if_splits option.splits prod.splits sum.splits)
next
  case (Inr m')
  from assms(2) Inr obtain t s' where g: "hs_GetMember H mid (hw_store w) = Inr t"
    and role: "hm_Role t \<noteq> RoleChild"
    and st: "hs_SetAccountOwner H hid mid (hw_store w) = (Inr m', s')" and w': "hw_store w' = s'"
    by (auto simp: HouseholdService_SetAccountOwner_def Role_CanBeAccountOwner_def
        split: if_splits option.splits prod.splits sum.splits)
  let ?M = "members (hw_store w)" and ?t = "t\<lparr>hm_IsAccountOwner := True\<rparr>"
  have t: "?M mid = Some t" using g get_member by simp
  from set_account_owner [OF st] t have tf: "hm_HouseholdID t = hid" "hm_Status t \<noteq> hhStatusRemoved"
    and M': "members s' = (\<lambda>k. map_option (demote hid) (?M k))(mid \<mapsto> ?t)" by auto
  have own: "is_owner_of hid ?t" using tf by (simp add: is_owner_of_def)
  have mg: "\<exists>k m. members s' k = Some m \<and> is_manager_of h m" if "sound_household ?M h" for h
  proof -
    obtain b mb where b: "?M b = Some mb" "is_manager_of h mb"
      using \<open>sound_household ?M h\<close> unfolding sound_household_def by blast
    show ?thesis
    proof (cases "b = mid")
      case True
      then have "members s' mid = Some ?t \<and> is_manager_of h ?t" using b t by (simp add: M' is_manager_of_def)
      then show ?thesis by blast
    next
      case False
      then have "members s' b = Some (demote hid mb) \<and> is_manager_of h (demote hid mb)" using b by (simp add: M')
      then show ?thesis by blast
    qed
  qed
  have "\<exists>!k. \<exists>m. members s' k = Some m \<and> is_owner_of h m" if snd: "sound_household ?M h" for h
  proof (cases "h = hid")
    case True
    show ?thesis unfolding M' True using own by (auto intro!: ex1I [of _ mid] split: if_splits)
  next
    case False
    then have "\<not> is_owner_of h t" "\<not> is_owner_of h ?t" using tf by (auto simp: is_owner_of_def)
    then have "(\<exists>m. members s' k = Some m \<and> is_owner_of h m) \<longleftrightarrow> (\<exists>m. ?M k = Some m \<and> is_owner_of h m)" for k
      using t by (cases "k = mid") (auto simp: M' is_owner_demote_other [OF False])
    then show ?thesis using snd unfolding sound_household_def by simp
  qed
  moreover have "sound_members (members s')" if "sound_members ?M"
    using that t role by (auto simp: M' sound_members_def sound_member_demote) (auto simp: sound_member_def)
  ultimately show ?thesis
    using w' mg keeps_fin(8) [OF assms(1) st] Inr by (auto simp: preserves_def sound_household_def)
qed

lemma delete_preserves:
  assumes "fin (hw_store w)" and "HouseholdService_DeleteHousehold H ac hid w = (r, w')"
  shows "fin (hw_store w') \<and> preserves (members (hw_store w)) (members (hw_store w')) (if ok (r, w') then P - {hid} else P)
         \<and> (\<not> ok (r, w') \<longrightarrow> w' = w)"
proof (cases r)
  case (Inl e)
  then show ?thesis using assms failed(4)
    by (fastforce simp: HouseholdService_DeleteHousehold_def split: prod.splits sum.splits)
next
  case (Inr u)
  from assms(2) Inr obtain s' where dl: "hs_DeleteHousehold H hid (hw_store w) = (Inr u, s')"
    and w': "hw_store w' = s'"
    by (auto simp: HouseholdService_DeleteHousehold_def split: prod.splits sum.splits)
  note law = delete_household [OF assms(1) dl]
  have iff: "members s' k = Some m \<longleftrightarrow> members (hw_store w) k = Some m \<and> hm_HouseholdID m \<noteq> hid" for k m
    by (auto simp: law split: option.splits)
  have "sound_household (members s') h" if "sound_household (members (hw_store w)) h" "h \<noteq> hid" for h
  proof -
    have "(members s' k = Some m \<and> is_owner_of h m) \<longleftrightarrow> (members (hw_store w) k = Some m \<and> is_owner_of h m)"
      "(members s' k = Some m \<and> is_manager_of h m) \<longleftrightarrow> (members (hw_store w) k = Some m \<and> is_manager_of h m)" for k m
      using that(2) by (auto simp: iff is_owner_of_def is_manager_of_def)
    then show ?thesis using that(1) by (simp add: sound_household_def)
  qed
  then show ?thesis
    using w' keeps_fin(4) [OF assms(1) dl] Inr iff by (auto simp: preserves_def sound_members_def)
qed

lemma plain_create:
  assumes "fin (hw_store w)" and "HouseholdService_CreateHousehold H nid now ac dn md w = (r, w')"
  shows "fin (hw_store w') \<and> preserves (members (hw_store w)) (members (hw_store w')) P \<and> (\<not> ok (r, w') \<longrightarrow> w' = w)"
proof (cases r)
  case (Inl e)
  have "w\<lparr>hw_store := s'\<rparr> = w" if "hs_CreateHousehold H nid now h (hw_store w) = (Inl e', s')" for e' s' h
    using failed(1) [OF that] by simp
  then show ?thesis using assms Inl by (auto simp: HouseholdService_CreateHousehold_def split: prod.splits sum.splits)
next
  case (Inr x)
  with assms(2) obtain s' h where "hs_CreateHousehold H nid now h (hw_store w) = (Inr x, s')" and "hw_store w' = s'"
    by (auto simp: HouseholdService_CreateHousehold_def split: prod.splits sum.splits)
  then show ?thesis using keeps_fin(1) [OF assms(1)] same_members(1) Inr by (metis ok_simps(1) preserves_refl)
qed

lemma plain_update:
  assumes "fin (hw_store w)" and "HouseholdService_UpdateHousehold H now ac h w = (r, w')"
  shows "fin (hw_store w') \<and> preserves (members (hw_store w)) (members (hw_store w')) P \<and> (\<not> ok (r, w') \<longrightarrow> w' = w)"
proof (cases r)
  case (Inl e)
  have "w\<lparr>hw_store := s'\<rparr> = w" if "hs_UpdateHousehold H now h (hw_store w) = (Inl e', s')" for e' s'
    using failed(3) [OF that] by simp
  then show ?thesis using assms Inl by (auto simp: HouseholdService_UpdateHousehold_def split: prod.splits sum.splits)
next
  case (Inr x)
  with assms(2) obtain s' where "hs_UpdateHousehold H now h (hw_store w) = (Inr x, s')" and "hw_store w' = s'"
    by (auto simp: HouseholdService_UpdateHousehold_def split: prod.splits sum.splits)
  then show ?thesis using keeps_fin(3) [OF assms(1)] same_members(2) Inr by (metis ok_simps(1) preserves_refl)
qed

lemma plain_parent:
  assumes "fin (hw_store w)" and "HouseholdService_EstablishParentOfRecord H nid now ac c p w = (r, w')"
  shows "fin (hw_store w') \<and> preserves (members (hw_store w)) (members (hw_store w')) P \<and> (\<not> ok (r, w') \<longrightarrow> w' = w)"
proof (cases r)
  case (Inl e)
  have "w\<lparr>hw_store := s'\<rparr> = w" if "hs_EstablishParentOfRecord H nid now c p (hw_store w) = (Inl e', s')" for e' s'
    using failed(9) [OF that] by simp
  then show ?thesis using assms Inl by (auto simp: HouseholdService_EstablishParentOfRecord_def split: if_splits prod.splits sum.splits)
next
  case (Inr x)
  with assms(2) obtain s' where "hs_EstablishParentOfRecord H nid now c p (hw_store w) = (Inr x, s')" and "hw_store w' = s'"
    by (auto simp: HouseholdService_EstablishParentOfRecord_def split: if_splits prod.splits sum.splits)
  then show ?thesis using keeps_fin(9) [OF assms(1)] same_members(3) Inr by (metis ok_simps(1) preserves_refl)
qed

lemma plain_unparent:
  assumes "fin (hw_store w)" and "HouseholdService_RevokeParentOfRecord H now ac nid w = (r, w')"
  shows "fin (hw_store w') \<and> preserves (members (hw_store w)) (members (hw_store w')) P \<and> (\<not> ok (r, w') \<longrightarrow> w' = w)"
proof (cases r)
  case (Inl e)
  have "w\<lparr>hw_store := s'\<rparr> = w" if "hs_RevokeParentOfRecord H now nid (hw_store w) = (Inl e', s')" for e' s'
    using failed(10) [OF that] by simp
  then show ?thesis using assms Inl by (auto simp: HouseholdService_RevokeParentOfRecord_def split: prod.splits sum.splits)
next
  case (Inr x)
  with assms(2) obtain s' where "hs_RevokeParentOfRecord H now nid (hw_store w) = (Inr x, s')" and "hw_store w' = s'"
    by (auto simp: HouseholdService_RevokeParentOfRecord_def split: prod.splits sum.splits)
  then show ?thesis using keeps_fin(10) [OF assms(1)] same_members(4) Inr by (metis ok_simps(1) preserves_refl)
qed

lemma exec_preserves:
  assumes "fin (hw_store w)" and "call_fresh (members (hw_store w)) c" and "hh_exec H c w = (b, w')"
  shows "fin (hw_store w') \<and> preserves (members (hw_store w)) (members (hw_store w')) (P \<inter> provisioned_after c b P) \<and>
         (\<forall>hid\<in>provisioned_after c b P - P. sound_household (members (hw_store w')) hid) \<and> (\<not> b \<longrightarrow> w' = w)"
proof (cases c)
  case (CallCreate nid now ac dn md)
  with assms(3) obtain r where "HouseholdService_CreateHousehold H nid now ac dn md w = (r, w')" "b = ok (r, w')"
    by (auto dest: exec_result)
  with plain_create [OF assms(1)] CallCreate show ?thesis by simp
next
  case (CallProvision hid mid now ac dn oi md)
  with assms(3) obtain r where r: "HouseholdService_CreateHouseholdWithOwner H hid mid now ac dn oi md w = (r, w')"
    "b = ok (r, w')" by (auto dest: exec_result)
  from provision_preserves [OF assms(1) _ _ r(1)] assms(2) CallProvision r(2) show ?thesis by auto
next
  case (CallUpdate now ac h)
  with assms(3) obtain r where "HouseholdService_UpdateHousehold H now ac h w = (r, w')" "b = ok (r, w')"
    by (auto dest: exec_result)
  with plain_update [OF assms(1)] CallUpdate show ?thesis by simp
next
  case (CallDelete ac hid)
  with assms(3) obtain r where r: "HouseholdService_DeleteHousehold H ac hid w = (r, w')" "b = ok (r, w')"
    by (auto dest: exec_result)
  with delete_preserves [OF assms(1) r(1)] CallDelete show ?thesis by (auto simp: Int_absorb1 Diff_subset)
next
  case (CallAdd nid now ac m)
  with assms(3) obtain r where r: "HouseholdService_AddMember H nid now ac m w = (r, w')" "b = ok (r, w')"
    by (auto dest: exec_result)
  from add_member_preserves [OF assms(1) _ r(1)] assms(2) CallAdd r(2) show ?thesis by simp
next
  case (CallRole ac mid role mg ow caps)
  with assms(3) obtain r where "HouseholdService_UpdateMemberRole H ac mid role mg ow caps w = (r, w')" "b = ok (r, w')"
    by (auto dest: exec_result)
  with update_role_preserves [OF assms(1)] CallRole show ?thesis by simp
next
  case (CallOwner ac hid mid)
  with assms(3) obtain r where "HouseholdService_SetAccountOwner H ac hid mid w = (r, w')" "b = ok (r, w')"
    by (auto dest: exec_result)
  with set_owner_preserves [OF assms(1)] CallOwner show ?thesis by simp
next
  case (CallRemove now ac mid)
  with assms(3) obtain r where "HouseholdService_RemoveMember H now ac mid w = (r, w')" "b = ok (r, w')"
    by (auto dest: exec_result)
  with remove_member_preserves [OF assms(1)] CallRemove show ?thesis by simp
next
  case (CallParent nid now ac ch p)
  with assms(3) obtain r where "HouseholdService_EstablishParentOfRecord H nid now ac ch p w = (r, w')" "b = ok (r, w')"
    by (auto dest: exec_result)
  with plain_parent [OF assms(1)] CallParent show ?thesis by simp
next
  case (CallUnparent now ac pid)
  with assms(3) obtain r where "HouseholdService_RevokeParentOfRecord H now ac pid w = (r, w')" "b = ok (r, w')"
    by (auto dest: exec_result)
  with plain_unparent [OF assms(1)] CallUnparent show ?thesis by simp
qed

lemma reach_sound:
  assumes "hh_reach H members w0 P w" and "fin (hw_store w0)" and "sound_members (members (hw_store w0))"
  shows "fin (hw_store w) \<and> sound_members (members (hw_store w)) \<and>
         (\<forall>hid\<in>P. sound_household (members (hw_store w)) hid)"
  using assms(1)
proof (induction rule: hh_reach.induct)
  case start
  then show ?case using assms(2,3) by simp
next
  case (call P w c b w')
  then have "fin (hw_store w)" by simp
  from exec_preserves [OF this call.hyps(2,3), of P] call.IH show ?case
    unfolding preserves_def by blast
qed

end

section \<open>Properties\<close>

text \<open>
  C4: the family invariants. After any sequence of service calls over the in-memory store, successful or
  refused, every household that was provisioned with an owner and not deleted has exactly one account
  owner and at least one manager among its non-removed members, every member row has a known role and
  status, and every child has a birthdate and neither capability.
\<close>

theorem household_invariants:
  assumes "hh_reach inMemoryHouseholdStore (\<lambda>s. gm_get (im_members s))
             \<lparr>hw_store = newInMemoryHouseholdStore, hw_events = []\<rparr> P w"
  shows "sound_members (gm_get (im_members (hw_store w))) \<and>
         (\<forall>hid\<in>P. sound_household (gm_get (im_members (hw_store w))) hid)"
  using inmem.reach_sound [OF assms]
  by (simp add: newInMemoryHouseholdStore_def im_fin_def sound_members_def)

definition demo_ac :: audit_context where
  "demo_ac = \<lparr>ac_CompanyID = ''c'', ac_ActorID = ''a'', ac_IPAddress = []\<rparr>"

definition demo_world :: "hh_memory hh_world" where
  "demo_world = snd (hh_exec inMemoryHouseholdStore
     (CallProvision ''h'' ''m'' 1 demo_ac ''Doe'' \<lparr>oi_IdentityID = ''i'', oi_Role = ''adult'', oi_Birthdate = None\<rparr> None)
     \<lparr>hw_store = newInMemoryHouseholdStore, hw_events = []\<rparr>)"

lemmas hh_eval = HouseholdService_CreateHouseholdWithOwner_def HouseholdService_AddMember_def
  HouseholdService_RemoveMember_def HouseholdService_UpdateMemberRole_def HouseholdService_SetAccountOwner_def
  last_manager_check_def inMemoryHouseholdStore_def im_CreateHouseholdWithOwner_def im_AddMember_def
  im_RemoveMember_def im_UpdateMemberRole_def im_SetAccountOwner_def im_GetMember_def im_CountManagers_def
  newInMemoryHouseholdStore_def zero_household_def zero_member_def caps_default_def Role_Valid_def
  Status_Valid_def validateCapabilities_def Role_IsChild_def Role_CanBeAccountOwner_def hh_consts
  is_owner_of_def is_manager_of_def gm_vals_def gm_put_def gm_get_def hh_emit_def json_default_def

theorem household_invariants_witness:
  "hh_reach inMemoryHouseholdStore (\<lambda>s. gm_get (im_members s))
     \<lparr>hw_store = newInMemoryHouseholdStore, hw_events = []\<rparr> {''h''} demo_world \<and>
   sound_household (gm_get (im_members (hw_store demo_world))) ''h''"
proof -
  let ?w = "\<lparr>hw_store = newInMemoryHouseholdStore, hw_events = []\<rparr>"
  let ?c = "CallProvision ''h'' ''m'' 1 demo_ac ''Doe'' \<lparr>oi_IdentityID = ''i'', oi_Role = ''adult'', oi_Birthdate = None\<rparr> None"
  have "hh_exec inMemoryHouseholdStore ?c ?w = (True, demo_world)"
    unfolding demo_world_def by (simp add: Let_def hh_eval ok_def)
  moreover have "call_fresh (gm_get (im_members (hw_store ?w))) ?c"
    by (simp add: newInMemoryHouseholdStore_def)
  ultimately have r: "hh_reach inMemoryHouseholdStore (\<lambda>s. gm_get (im_members s)) ?w {''h''} demo_world"
    using hh_reach.call [OF hh_reach.start] by fastforce
  then show ?thesis using household_invariants [OF r] by simp
qed

text \<open>
  A refused call has no effect: when a service call over the in-memory store returns an error, neither
  the store nor the list of emitted audit events has changed.
\<close>

lemma household_refused_call_no_effect:
  assumes "im_fin (hw_store w)" and "call_fresh (gm_get (im_members (hw_store w))) c"
    and "hh_exec inMemoryHouseholdStore c w = (False, w')"
  shows "w' = w"
  using inmem.exec_preserves [OF assms(1,2,3)] by blast

theorem household_refused_call_no_effect_witness:
  "snd (hh_exec inMemoryHouseholdStore (CallRemove 5 demo_ac ''m'') demo_world) = demo_world"
proof -
  let ?c = "CallRemove 5 demo_ac ''m''"
  have e: "\<not> fst (hh_exec inMemoryHouseholdStore ?c demo_world)"
    unfolding demo_world_def by (simp add: Let_def hh_eval ok_def)
  have f: "im_fin (hw_store demo_world)"
    unfolding demo_world_def by (simp add: Let_def hh_eval im_fin_def gm_ok_def)
  show ?thesis
    by (rule household_refused_call_no_effect [OF f, of ?c])
      (use e in \<open>auto simp: prod_eq_iff\<close>)
qed

section \<open>Observations\<close>

text \<open>
  The service reads the manager count and removes the member in two store calls. Two removals whose reads
  come before both writes pass the check and together remove the last two managers.
\<close>

definition two_managers :: hh_memory where
  "two_managers = newInMemoryHouseholdStore\<lparr>im_members :=
     [(''o'', zero_member\<lparr>hm_ID := ''o'', hm_HouseholdID := ''h'', hm_Role := RoleAdult, hm_Status := hhStatusActive, hm_IsAccountOwner := True\<rparr>),
      (''a'', zero_member\<lparr>hm_ID := ''a'', hm_HouseholdID := ''h'', hm_Role := RoleAdult, hm_Status := hhStatusActive, hm_IsManager := True\<rparr>),
      (''b'', zero_member\<lparr>hm_ID := ''b'', hm_HouseholdID := ''h'', hm_Role := RoleAdult, hm_Status := hhStatusActive, hm_IsManager := True\<rparr>)]\<rparr>"

lemma concurrent_removals_leave_no_manager:
  "sound_household (gm_get (im_members two_managers)) ''h'' \<and>
   last_manager_check inMemoryHouseholdStore ''h'' two_managers = None \<and>
   (let s1 = snd (im_RemoveMember 1 ''a'' two_managers); s2 = snd (im_RemoveMember 2 ''b'' s1)
    in \<not> sound_household (gm_get (im_members s2)) ''h'')"
proof -
  have "gm_get (im_members two_managers) k = Some m \<and> is_owner_of ''h'' m \<Longrightarrow> k = ''o''" for k m
    by (auto simp: two_managers_def newInMemoryHouseholdStore_def zero_member_def gm_get_def is_owner_of_def
        hh_consts split: if_splits)
  moreover have "\<exists>m. gm_get (im_members two_managers) ''o'' = Some m \<and> is_owner_of ''h'' m"
    "\<exists>m. gm_get (im_members two_managers) ''a'' = Some m \<and> is_manager_of ''h'' m"
    by (simp_all add: two_managers_def newInMemoryHouseholdStore_def zero_member_def gm_get_def is_owner_of_def
        is_manager_of_def hh_consts)
  ultimately have "sound_household (gm_get (im_members two_managers)) ''h''"
    unfolding sound_household_def by blast
  moreover have "last_manager_check inMemoryHouseholdStore ''h'' two_managers = None"
    by (simp add: two_managers_def hh_eval)
  moreover have "\<not> is_manager_of ''h'' m"
    if "gm_get (im_members (snd (im_RemoveMember 2 ''b'' (snd (im_RemoveMember 1 ''a'' two_managers))))) k = Some m" for k m
    using that
    by (auto simp: two_managers_def newInMemoryHouseholdStore_def zero_member_def im_RemoveMember_def gm_get_def
        gm_put_def is_manager_of_def hh_consts split: if_splits)
  ultimately show ?thesis unfolding Let_def sound_household_def by blast
qed

text \<open>The new account owner may be a member who has not accepted the invitation yet.\<close>

definition one_pending :: hh_memory where
  "one_pending = two_managers\<lparr>im_members := gm_put ''p''
     (zero_member\<lparr>hm_ID := ''p'', hm_HouseholdID := ''h'', hm_Role := RoleAdult, hm_Status := hhStatusPending\<rparr>)
     (im_members two_managers)\<rparr>"

lemma pending_member_becomes_owner:
  "ok (HouseholdService_SetAccountOwner inMemoryHouseholdStore demo_ac ''h'' ''p''
         \<lparr>hw_store = one_pending, hw_events = []\<rparr>)"
  by (simp add: one_pending_def two_managers_def hh_eval ok_def Let_def gm_map_def)

text \<open>
  The parent-of-record check looks only at the parent's role: a removed guardian is accepted as the parent
  of an adult.
\<close>

definition removed_guardian :: hh_memory where
  "removed_guardian = two_managers\<lparr>im_members := gm_put ''g''
     (zero_member\<lparr>hm_ID := ''g'', hm_HouseholdID := ''h2'', hm_Role := RoleGuardian, hm_Status := hhStatusRemoved\<rparr>)
     (im_members two_managers)\<rparr>"

lemma removed_guardian_of_an_adult:
  "ok (HouseholdService_EstablishParentOfRecord inMemoryHouseholdStore ''x'' 1 demo_ac ''a'' ''g''
         \<lparr>hw_store = removed_guardian, hw_events = []\<rparr>)"
  by (simp add: removed_guardian_def two_managers_def hh_eval ok_def Let_def
      HouseholdService_EstablishParentOfRecord_def Role_CanGrantConsent_def im_EstablishParentOfRecord_def)

text \<open>Deleting a household in memory leaves its parent-of-record links behind.\<close>

lemma delete_keeps_parent_links:
  "im_parentLinks (snd (im_DeleteHousehold hid s)) = im_parentLinks s"
  by (simp add: im_DeleteHousehold_def)

end
