(* ===== verification/Consent.thy ===== *)
theory Consent
  imports Audit_Log
begin

text \<open>
  The append-only consent ledger: \<^verbatim>\<open>src/platform/consent\<close> (types, store interface, service) and the
  in-memory store \<^verbatim>\<open>src/internal/aoid/composition/inmem_consent.go\<close>. The contract of a store is the locale
  \<open>consent_store_spec\<close>. JSON values are byte strings, the empty one standing for nil as well, since the
  code only looks at their length. \<^verbatim>\<open>Format(time.RFC3339)\<close> is a parameter.
\<close>

section \<open>Types\<close>

type_synonym purpose = string

record consent_entry =
  ce_ID :: uuid
  ce_HouseholdID :: uuid
  ce_PrincipalMemberID :: uuid
  ce_ConsenterMemberID :: uuid
  ce_Purpose :: purpose
  ce_Scope :: string
  ce_ConsentTextVersion :: string
  ce_Evidence :: string
  ce_GrantedAt :: go_time
  ce_RevokesID :: "uuid option"
  ce_CreatedAt :: go_time

definition IsRevocation :: "consent_entry \<Rightarrow> bool" where
  "IsRevocation e \<longleftrightarrow> ce_RevokesID e \<noteq> None"

record validity =
  vd_Valid :: bool
  vd_LatestEntry :: "consent_entry option"

record grant_request =
  gr_HouseholdID :: uuid
  gr_PrincipalMemberID :: uuid
  gr_ConsenterMemberID :: uuid
  gr_Purpose :: purpose
  gr_Scope :: string
  gr_ConsentTextVersion :: string
  gr_Evidence :: string

definition consentErrNotFound :: go_error where "consentErrNotFound = ErrVar ''consent: not found''"
definition ErrEmptyPurpose :: go_error where "ErrEmptyPurpose = ErrVar ''consent: purpose is required''"
definition ErrAlreadyRevoked :: go_error where "ErrAlreadyRevoked = ErrVar ''consent: entry already revoked''"

section \<open>The store interface\<close>

text \<open>A listing is \<open>None\<close> when the call panics.\<close>

record 's consent_store =
  cs_InsertEntry :: "uuid \<Rightarrow> go_time \<Rightarrow> consent_entry \<Rightarrow> 's \<Rightarrow> consent_entry result \<times> 's"
  cs_GetEntry :: "uuid \<Rightarrow> 's \<Rightarrow> consent_entry result"
  cs_LatestForPurpose :: "uuid \<Rightarrow> purpose \<Rightarrow> 's \<Rightarrow> consent_entry result"
  cs_ListForPrincipal :: "uuid \<Rightarrow> int \<Rightarrow> int \<Rightarrow> 's \<Rightarrow> consent_entry list result option"
  cs_ListByPurpose :: "purpose \<Rightarrow> int \<Rightarrow> int \<Rightarrow> 's \<Rightarrow> consent_entry list result option"
  cs_ListForHousehold :: "uuid \<Rightarrow> int \<Rightarrow> int \<Rightarrow> 's \<Rightarrow> consent_entry list result option"

section \<open>The service\<close>

record consent_context =
  cc_CompanyID :: uuid
  cc_ActorID :: uuid
  cc_IPAddress :: string

record 's consent_world =
  cw_store :: 's
  cw_events :: "audit_event list"

definition consent_emit ::
  "consent_context \<Rightarrow> string \<Rightarrow> uuid \<Rightarrow> details \<Rightarrow> 's consent_world \<Rightarrow> 's consent_world" where
  "consent_emit ac action resourceID details w =
     (let resID = (if resourceID \<noteq> uuid_Nil then resourceID else [])
      in w\<lparr>cw_events := cw_events w @
             [basic_event (cc_CompanyID ac) (cc_ActorID ac) action ''consent'' resID details (cc_IPAddress ac)]\<rparr>)"

definition or_empty_object :: "string \<Rightarrow> string" where
  "or_empty_object j = (if j = [] then ''{}'' else j)"

text \<open>The rows the two mutating calls insert.\<close>

definition grant_entry :: "grant_request \<Rightarrow> consent_entry" where
  "grant_entry req =
     \<lparr>ce_ID = uuid_Nil, ce_HouseholdID = gr_HouseholdID req, ce_PrincipalMemberID = gr_PrincipalMemberID req,
      ce_ConsenterMemberID = gr_ConsenterMemberID req, ce_Purpose = gr_Purpose req,
      ce_Scope = or_empty_object (gr_Scope req), ce_ConsentTextVersion = gr_ConsentTextVersion req,
      ce_Evidence = or_empty_object (gr_Evidence req), ce_GrantedAt = 0, ce_RevokesID = None,
      ce_CreatedAt = 0\<rparr>"

definition revocation_entry :: "consent_entry \<Rightarrow> uuid \<Rightarrow> uuid \<Rightarrow> string \<Rightarrow> consent_entry" where
  "revocation_entry original originalID revokerMemberID evidence =
     \<lparr>ce_ID = uuid_Nil, ce_HouseholdID = ce_HouseholdID original,
      ce_PrincipalMemberID = ce_PrincipalMemberID original, ce_ConsenterMemberID = revokerMemberID,
      ce_Purpose = ce_Purpose original, ce_Scope = ce_Scope original,
      ce_ConsentTextVersion = ce_ConsentTextVersion original, ce_Evidence = or_empty_object evidence,
      ce_GrantedAt = 0, ce_RevokesID = Some originalID, ce_CreatedAt = 0\<rparr>"

definition ConsentService_Grant ::
  "'s consent_store \<Rightarrow> uuid \<Rightarrow> go_time \<Rightarrow> consent_context \<Rightarrow> grant_request \<Rightarrow> 's consent_world \<Rightarrow>
   consent_entry result \<times> 's consent_world" where
  "ConsentService_Grant C newid now ac req w =
     (if gr_Purpose req = [] then (Inl ErrEmptyPurpose, w)
      else let e = grant_entry req
           in (case cs_InsertEntry C newid now e (cw_store w) of
                 (Inl err, s) \<Rightarrow> (Inl (ErrWrap ''insert consent grant: '' err []), w\<lparr>cw_store := s\<rparr>)
               | (Inr stored, s) \<Rightarrow>
                   (Inr stored,
                    consent_emit ac ''consent.granted'' (ce_ID stored)
                      [(''principal_member_id'', DStr (ce_PrincipalMemberID stored)),
                       (''consenter_member_id'', DStr (ce_ConsenterMemberID stored)),
                       (''purpose'', DStr (ce_Purpose stored)),
                       (''consent_text_version'', DStr (ce_ConsentTextVersion stored))]
                      (w\<lparr>cw_store := s\<rparr>))))"

text \<open>
  \<^verbatim>\<open>Revoke\<close> returns the latest entry together with the error when the grant was already revoked: an error
  carries the entry returned with it, if it is not the zero one.
\<close>

definition ConsentService_Revoke ::
  "'s consent_store \<Rightarrow> uuid \<Rightarrow> go_time \<Rightarrow> consent_context \<Rightarrow> uuid \<Rightarrow> uuid \<Rightarrow> string \<Rightarrow> 's consent_world \<Rightarrow>
   ((go_error \<times> consent_entry option) + consent_entry) \<times> 's consent_world" where
  "ConsentService_Revoke C newid now ac originalID revokerMemberID evidence w =
     (case cs_GetEntry C originalID (cw_store w) of
        Inl err \<Rightarrow> (Inl (ErrWrap ''get original entry: '' err [], None), w)
      | Inr original \<Rightarrow>
          if IsRevocation original then (Inl (ErrMsg ''consent: cannot revoke a revocation entry'', None), w)
          else let latest = cs_LatestForPurpose C (ce_PrincipalMemberID original) (ce_Purpose original) (cw_store w)
          in (case (case latest of
                      Inl err \<Rightarrow> if errors_is err consentErrNotFound then None
                                 else Some (ErrWrap ''check latest entry: '' err [], None)
                    | Inr l \<Rightarrow> if IsRevocation l \<and> ce_RevokesID l = Some originalID
                               then Some (ErrAlreadyRevoked, Some l) else None) of
                Some err \<Rightarrow> (Inl err, w)
              | None \<Rightarrow>
                  let rev = revocation_entry original originalID revokerMemberID evidence
                  in (case cs_InsertEntry C newid now rev (cw_store w) of
                        (Inl err, s) \<Rightarrow> (Inl (ErrWrap ''insert revocation: '' err [], None), w\<lparr>cw_store := s\<rparr>)
                      | (Inr stored, s) \<Rightarrow>
                          (Inr stored,
                           consent_emit ac ''consent.revoked'' (ce_ID stored)
                             [(''original_entry_id'', DStr originalID),
                              (''principal_member_id'', DStr (ce_PrincipalMemberID stored)),
                              (''revoker_member_id'', DStr revokerMemberID),
                              (''purpose'', DStr (ce_Purpose stored))]
                             (w\<lparr>cw_store := s\<rparr>)))))"

definition ConsentService_IsValid ::
  "(go_time \<Rightarrow> string) \<Rightarrow> 's consent_store \<Rightarrow> consent_context \<Rightarrow> uuid \<Rightarrow> purpose \<Rightarrow> go_time \<Rightarrow> 's consent_world \<Rightarrow>
   validity result \<times> 's consent_world" where
  "ConsentService_IsValid rfc3339 C ac who purpose at w =
     (if purpose = [] then (Inl ErrEmptyPurpose, w)
      else let latest = cs_LatestForPurpose C who purpose (cw_store w);
               w' = consent_emit ac ''consent.read'' who
                      [(''principal_member_id'', DStr who), (''purpose'', DStr purpose),
                       (''as_of'', DStr (rfc3339 at))] w
           in (case latest of
                 Inl err \<Rightarrow>
                   if errors_is err consentErrNotFound
                   then (Inr \<lparr>vd_Valid = False, vd_LatestEntry = None\<rparr>, w')
                   else (Inl (ErrWrap ''latest for purpose: '' err []), w')
               | Inr l \<Rightarrow>
                   if ce_GrantedAt l > at then (Inr \<lparr>vd_Valid = False, vd_LatestEntry = Some l\<rparr>, w')
                   else (Inr \<lparr>vd_Valid = (\<not> IsRevocation l), vd_LatestEntry = Some l\<rparr>, w')))"

definition ConsentService_ListForPrincipal ::
  "'s consent_store \<Rightarrow> consent_context \<Rightarrow> uuid \<Rightarrow> int \<Rightarrow> int \<Rightarrow> 's consent_world \<Rightarrow>
   (consent_entry list result \<times> 's consent_world) option" where
  "ConsentService_ListForPrincipal C ac who limit offset w =
     (case cs_ListForPrincipal C who limit offset (cw_store w) of
        None \<Rightarrow> None
      | Some r \<Rightarrow>
          let w' = consent_emit ac ''consent.read'' who
                     [(''principal_member_id'', DStr who), (''operation'', DStr ''list''),
                      (''limit'', DInt limit), (''offset'', DInt offset)] w
          in Some (case r of Inl err \<Rightarrow> (Inl (ErrWrap ''list for principal: '' err []), w')
                           | Inr entries \<Rightarrow> (Inr entries, w')))"

definition ConsentService_GetEntry ::
  "'s consent_store \<Rightarrow> consent_context \<Rightarrow> uuid \<Rightarrow> 's consent_world \<Rightarrow> consent_entry result \<times> 's consent_world" where
  "ConsentService_GetEntry C ac eid w =
     (cs_GetEntry C eid (cw_store w),
      consent_emit ac ''consent.read'' eid [(''entry_id'', DStr eid), (''operation'', DStr ''get'')] w)"

section \<open>The in-memory store\<close>

type_synonym consent_memory = "(uuid, consent_entry) gomap"

definition newInMemoryConsentStore :: consent_memory where
  "newInMemoryConsentStore = []"

definition cm_InsertEntry ::
  "uuid \<Rightarrow> go_time \<Rightarrow> consent_entry \<Rightarrow> consent_memory \<Rightarrow> consent_entry result \<times> consent_memory" where
  "cm_InsertEntry newid now e s =
     (let e1 = e\<lparr>ce_ID := newid\<rparr>;
          e2 = (if ce_GrantedAt e1 = 0 then e1\<lparr>ce_GrantedAt := now\<rparr> else e1);
          e3 = e2\<lparr>ce_CreatedAt := now\<rparr>
      in (Inr e3, gm_put newid e3 s))"

definition cm_GetEntry :: "uuid \<Rightarrow> consent_memory \<Rightarrow> consent_entry result" where
  "cm_GetEntry eid s = (case gm_get s eid of None \<Rightarrow> Inl consentErrNotFound | Some e \<Rightarrow> Inr e)"

definition newer :: "consent_entry \<Rightarrow> consent_entry \<Rightarrow> bool" where
  "newer e best \<longleftrightarrow> ce_GrantedAt e > ce_GrantedAt best \<or>
     (ce_GrantedAt e = ce_GrantedAt best \<and> ce_CreatedAt e > ce_CreatedAt best)"

fun latest_loop :: "uuid \<Rightarrow> purpose \<Rightarrow> consent_entry list \<Rightarrow> consent_entry option \<Rightarrow> consent_entry option" where
  "latest_loop who purpose [] best = best"
| "latest_loop who purpose (e # es) best =
     latest_loop who purpose es
       (if ce_PrincipalMemberID e \<noteq> who \<or> ce_Purpose e \<noteq> purpose then best
        else (case best of None \<Rightarrow> Some e | Some b \<Rightarrow> if newer e b then Some e else best))"

definition cm_LatestForPurpose :: "uuid \<Rightarrow> purpose \<Rightarrow> consent_memory \<Rightarrow> consent_entry result" where
  "cm_LatestForPurpose who purpose s =
     (case latest_loop who purpose (gm_vals s) None of
        None \<Rightarrow> Inl consentErrNotFound | Some e \<Rightarrow> Inr e)"

text \<open>Newest first; \<open>None\<close> is the panic of slicing at a negative offset.\<close>

definition cm_list :: "(consent_entry \<Rightarrow> bool) \<Rightarrow> int \<Rightarrow> int \<Rightarrow> consent_memory \<Rightarrow> consent_entry list option" where
  "cm_list pred limit offset s =
     (let out = sort_key (\<lambda>e. - ce_GrantedAt e) (sort_key (\<lambda>e. - ce_CreatedAt e) (filter pred (gm_vals s)))
      in if offset \<ge> int (length out) then Some []
         else if offset < 0 then None
         else let page = drop (nat offset) out
              in Some (if limit > 0 \<and> limit < int (length page) then take (nat limit) page else page))"

definition cm_ListForPrincipal :: "uuid \<Rightarrow> int \<Rightarrow> int \<Rightarrow> consent_memory \<Rightarrow> consent_entry list result option" where
  "cm_ListForPrincipal who limit offset s =
     map_option Inr (cm_list (\<lambda>e. ce_PrincipalMemberID e = who) limit offset s)"

definition cm_ListByPurpose :: "purpose \<Rightarrow> int \<Rightarrow> int \<Rightarrow> consent_memory \<Rightarrow> consent_entry list result option" where
  "cm_ListByPurpose purpose limit offset s =
     map_option Inr (cm_list (\<lambda>e. ce_Purpose e = purpose) limit offset s)"

definition cm_ListForHousehold :: "uuid \<Rightarrow> int \<Rightarrow> int \<Rightarrow> consent_memory \<Rightarrow> consent_entry list result option" where
  "cm_ListForHousehold hh limit offset s =
     map_option Inr (cm_list (\<lambda>e. ce_HouseholdID e = hh) limit offset s)"

definition inMemoryConsentStore :: "consent_memory consent_store" where
  "inMemoryConsentStore =
     \<lparr>cs_InsertEntry = cm_InsertEntry, cs_GetEntry = cm_GetEntry, cs_LatestForPurpose = cm_LatestForPurpose,
      cs_ListForPrincipal = cm_ListForPrincipal, cs_ListByPurpose = cm_ListByPurpose,
      cs_ListForHousehold = cm_ListForHousehold\<rparr>"

section \<open>The contract of a ledger store\<close>

definition about :: "uuid \<Rightarrow> purpose \<Rightarrow> consent_entry \<Rightarrow> bool" where
  "about who purpose e \<longleftrightarrow> ce_PrincipalMemberID e = who \<and> ce_Purpose e = purpose"

text \<open>
  \<open>ledger s\<close> is the table of entries. An insert adds one row under the fresh identifier and stamps it; the
  latest entry of a pair is one that no other entry of the pair is newer than.
\<close>

locale consent_store_spec =
  fixes C :: "'s consent_store"
    and ledger :: "'s \<Rightarrow> uuid \<rightharpoonup> consent_entry"
    and good :: "'s \<Rightarrow> bool"
  assumes insert_ok:
      "good s \<Longrightarrow> cs_InsertEntry C nid now e s = (Inr e', s') \<Longrightarrow>
       good s' \<and> ledger s' = (ledger s)(nid \<mapsto> e') \<and>
       e' = e\<lparr>ce_ID := nid, ce_GrantedAt := (if ce_GrantedAt e = 0 then now else ce_GrantedAt e), ce_CreatedAt := now\<rparr>"
    and insert_failed: "cs_InsertEntry C nid now e s = (Inl err, s') \<Longrightarrow> s' = s"
    and get_entry: "cs_GetEntry C eid s = Inr e \<longleftrightarrow> ledger s eid = Some e"
    and latest_found:
      "good s \<Longrightarrow> cs_LatestForPurpose C who purpose s = Inr e \<Longrightarrow>
       (\<exists>k. ledger s k = Some e) \<and> about who purpose e \<and>
       (\<forall>k f. ledger s k = Some f \<and> about who purpose f \<longrightarrow> \<not> newer f e)"
    and latest_missing:
      "good s \<Longrightarrow> cs_LatestForPurpose C who purpose s = Inl err \<Longrightarrow>
       errors_is err consentErrNotFound \<and> (\<forall>k f. ledger s k = Some f \<longrightarrow> \<not> about who purpose f)"

lemma newer_trans: "newer a b \<Longrightarrow> \<not> newer a c \<Longrightarrow> \<not> newer b c" "\<not> newer a b \<Longrightarrow> \<not> newer b c \<Longrightarrow> \<not> newer a c"
  by (auto simp: newer_def)

lemma latest_loop_spec:
  assumes "latest_loop who purpose es best = r" and "\<And>b. best = Some b \<Longrightarrow> about who purpose b"
  shows "(case r of
            None \<Rightarrow> best = None \<and> (\<forall>e\<in>set es. \<not> about who purpose e)
          | Some e \<Rightarrow> (best = Some e \<or> e \<in> set es) \<and> about who purpose e \<and>
                       (\<forall>f\<in>set es \<union> set_option best. about who purpose f \<longrightarrow> \<not> newer f e))"
  using assms
proof (induction es arbitrary: best)
  case Nil
  then show ?case by (auto simp: newer_def split: option.splits)
next
  case (Cons e es)
  let ?b = "if ce_PrincipalMemberID e \<noteq> who \<or> ce_Purpose e \<noteq> purpose then best
            else (case best of None \<Rightarrow> Some e | Some b \<Rightarrow> if newer e b then Some e else best)"
  have "latest_loop who purpose es ?b = r" using Cons.prems(1) by simp
  moreover have "\<And>b. ?b = Some b \<Longrightarrow> about who purpose b"
    using Cons.prems(2) by (auto simp: about_def split: if_splits option.splits)
  ultimately have "(case r of None \<Rightarrow> ?b = None \<and> (\<forall>e\<in>set es. \<not> about who purpose e)
      | Some x \<Rightarrow> (?b = Some x \<or> x \<in> set es) \<and> about who purpose x \<and>
                   (\<forall>f\<in>set es \<union> set_option ?b. about who purpose f \<longrightarrow> \<not> newer f x))"
    by (rule Cons.IH)
  note IH = this
  show ?case
  proof (cases "about who purpose e")
    case False
    then have "?b = best" by (auto simp: about_def)
    then show ?thesis using IH False by (auto split: option.splits)
  next
    case True
    then have b: "?b = (case best of None \<Rightarrow> Some e | Some b \<Rightarrow> if newer e b then Some e else best)"
      by (simp add: about_def)
    show ?thesis
    proof (cases best)
      case None
      then show ?thesis using IH b True by (cases r) auto
    next
      case (Some b0)
      then have b1: "?b = (if newer e b0 then Some e else Some b0)" using b by simp
      with IH obtain x where r: "r = Some x" by (cases r) (auto split: if_splits)
      show ?thesis
      proof (cases "newer e b0")
        case n: True
        then have bE: "?b = Some e" using b1 by simp
        have "\<not> newer e x" using IH True unfolding r bE by auto
        then have "\<not> newer b0 x" using newer_trans(1) [OF n] by blast
        then show ?thesis using IH Some unfolding r bE by auto
      next
        case n: False
        then have bB: "?b = Some b0" using b1 by simp
        have "\<not> newer b0 x" using IH Cons.prems(2) [OF Some] unfolding r bB by auto
        then have "\<not> newer e x" using newer_trans(2) [OF n] by blast
        then show ?thesis using IH Some unfolding r bB by auto
      qed
    qed
  qed
qed

lemma cm_latest:
  assumes "gm_ok s"
  shows "cm_LatestForPurpose who purpose s = Inr e \<Longrightarrow>
           (\<exists>k. gm_get s k = Some e) \<and> about who purpose e \<and>
           (\<forall>k f. gm_get s k = Some f \<and> about who purpose f \<longrightarrow> \<not> newer f e)"
    and "cm_LatestForPurpose who purpose s = Inl err \<Longrightarrow>
           err = consentErrNotFound \<and> (\<forall>k f. gm_get s k = Some f \<longrightarrow> \<not> about who purpose f)"
  using latest_loop_spec [OF refl, of None who purpose "gm_vals s"] gm_vals_iff [OF assms]
  by (auto simp: cm_LatestForPurpose_def split: option.splits)

interpretation conmem: consent_store_spec inMemoryConsentStore gm_get gm_ok
proof
  show "errors_is err consentErrNotFound \<and> (\<forall>k f. gm_get s k = Some f \<longrightarrow> \<not> about who purpose f)"
    if "gm_ok s" "cs_LatestForPurpose inMemoryConsentStore who purpose s = Inl err" for s who purpose err
    using cm_latest(2) [OF that(1), of who purpose err] that(2)
    by (simp add: inMemoryConsentStore_def consentErrNotFound_def)
qed (auto simp: inMemoryConsentStore_def cm_InsertEntry_def cm_GetEntry_def fun_eq_iff Let_def
       dest: cm_latest(1) split: option.splits)

section \<open>Calls on the service\<close>

datatype consent_call =
    CallGrant uuid go_time consent_context grant_request
  | CallRevoke uuid go_time consent_context uuid uuid string
  | CallIsValid consent_context uuid purpose go_time
  | CallList consent_context uuid int int
  | CallGet consent_context uuid

text \<open>A call that panics (a negative offset) leaves the state as it was.\<close>

fun consent_exec ::
  "(go_time \<Rightarrow> string) \<Rightarrow> 's consent_store \<Rightarrow> consent_call \<Rightarrow> 's consent_world \<Rightarrow> 's consent_world" where
  "consent_exec rfc C (CallGrant nid now ac req) w = snd (ConsentService_Grant C nid now ac req w)"
| "consent_exec rfc C (CallRevoke nid now ac orig rv ev) w = snd (ConsentService_Revoke C nid now ac orig rv ev w)"
| "consent_exec rfc C (CallIsValid ac who purpose at) w = snd (ConsentService_IsValid rfc C ac who purpose at w)"
| "consent_exec rfc C (CallList ac who limit offset) w =
     (case ConsentService_ListForPrincipal C ac who limit offset w of None \<Rightarrow> w | Some (_, w') \<Rightarrow> w')"
| "consent_exec rfc C (CallGet ac eid) w = snd (ConsentService_GetEntry C ac eid w)"

fun consent_fresh :: "(uuid \<rightharpoonup> consent_entry) \<Rightarrow> consent_call \<Rightarrow> bool" where
  "consent_fresh L (CallGrant nid _ _ _) \<longleftrightarrow> L nid = None \<and> nid \<noteq> uuid_Nil"
| "consent_fresh L (CallRevoke nid _ _ _ _ _) \<longleftrightarrow> L nid = None \<and> nid \<noteq> uuid_Nil"
| "consent_fresh L _ \<longleftrightarrow> True"

inductive consent_reach ::
  "(go_time \<Rightarrow> string) \<Rightarrow> 's consent_store \<Rightarrow> ('s \<Rightarrow> uuid \<rightharpoonup> consent_entry) \<Rightarrow> 's consent_world \<Rightarrow> 's consent_world \<Rightarrow> bool"
  for rfc :: "go_time \<Rightarrow> string" and C :: "'s consent_store" and ledger :: "'s \<Rightarrow> uuid \<rightharpoonup> consent_entry"
    and w0 :: "'s consent_world" where
  start: "consent_reach rfc C ledger w0 w0"
| call: "consent_reach rfc C ledger w0 w \<Longrightarrow> consent_fresh (ledger (cw_store w)) c \<Longrightarrow>
   consent_reach rfc C ledger w0 (consent_exec rfc C c w)"

text \<open>An audit event that records the creation of a ledger row.\<close>

definition recorded :: "audit_event list \<Rightarrow> uuid \<Rightarrow> consent_entry \<Rightarrow> bool" where
  "recorded evs k e \<longleftrightarrow>
     (\<exists>ev\<in>set evs. ev_ResourceID ev = k \<and>
        ev_Action ev = (if IsRevocation e then ''consent.revoked'' else ''consent.granted''))"

text \<open>A revocation points at a grant of the same principal, purpose and household.\<close>

definition well_linked :: "(uuid \<rightharpoonup> consent_entry) \<Rightarrow> bool" where
  "well_linked L \<longleftrightarrow>
     (\<forall>k e orig. L k = Some e \<and> ce_RevokesID e = Some orig \<longrightarrow>
        (\<exists>g. L orig = Some g \<and> \<not> IsRevocation g \<and> about (ce_PrincipalMemberID e) (ce_Purpose e) g \<and>
             ce_HouseholdID g = ce_HouseholdID e))"

text \<open>How one call may change ledger and events: nothing but reads, or one new recorded row.\<close>

definition extends ::
  "(uuid \<rightharpoonup> consent_entry) \<Rightarrow> audit_event list \<Rightarrow> (uuid \<rightharpoonup> consent_entry) \<Rightarrow> audit_event list \<Rightarrow> bool" where
  "extends L evs L' evs' \<longleftrightarrow>
     L \<subseteq>\<^sub>m L' \<and> (\<exists>new. evs' = evs @ new) \<and> (well_linked L \<longrightarrow> well_linked L') \<and>
     (\<forall>k e. L' k = Some e \<and> L k = None \<longrightarrow> recorded evs' k e)"

lemma recorded_mono: "recorded evs k e \<Longrightarrow> recorded (evs @ new) k e"
  by (auto simp: recorded_def)

lemma extends_reads [simp]: "extends L evs L (evs @ new)" "extends L evs L evs"
  by (auto simp: extends_def)

lemma extends_trans: "extends L evs L' evs' \<Longrightarrow> extends L' evs' L'' evs'' \<Longrightarrow> extends L evs L'' evs''"
proof -
  assume a: "extends L evs L' evs'" and b: "extends L' evs' L'' evs''"
  have "recorded evs'' k e" if "L'' k = Some e" "L k = None" for k e
  proof (cases "L' k")
    case None
    then show ?thesis using b that by (simp add: extends_def)
  next
    case (Some e')
    then have "e' = e" using b that(1) unfolding extends_def map_le_def by force
    then have "recorded evs' k e" using a that(2) Some by (simp add: extends_def)
    then show ?thesis using b recorded_mono by (auto simp: extends_def)
  qed
  then show ?thesis using a b map_le_trans by (auto simp: extends_def)
qed

lemma extends_insert:
  assumes "L nid = None" and "evs' = evs @ [ev]" and "ev_ResourceID ev = nid"
    and "ev_Action ev = (if IsRevocation e then ''consent.revoked'' else ''consent.granted'')"
    and "\<And>orig. ce_RevokesID e = Some orig \<Longrightarrow> \<exists>g. L orig = Some g \<and> \<not> IsRevocation g \<and>
           about (ce_PrincipalMemberID e) (ce_Purpose e) g \<and> ce_HouseholdID g = ce_HouseholdID e"
  shows "extends L evs (L(nid \<mapsto> e)) evs'"
proof -
  have "L \<subseteq>\<^sub>m L(nid \<mapsto> e)" using assms(1) by (auto simp: map_le_def)
  moreover have "well_linked (L(nid \<mapsto> e))" if "well_linked L"
    unfolding well_linked_def
  proof (intro allI impI)
    fix k f orig assume f: "(L(nid \<mapsto> e)) k = Some f \<and> ce_RevokesID f = Some orig"
    have "\<exists>g. L orig = Some g \<and> \<not> IsRevocation g \<and>
        about (ce_PrincipalMemberID f) (ce_Purpose f) g \<and> ce_HouseholdID g = ce_HouseholdID f"
    proof (cases "k = nid")
      case True
      then show ?thesis using f assms(5) by simp
    next
      case False
      then have "L k = Some f \<and> ce_RevokesID f = Some orig" using f by simp
      then show ?thesis using that unfolding well_linked_def by blast
    qed
    then obtain g where g: "L orig = Some g \<and> \<not> IsRevocation g \<and>
        about (ce_PrincipalMemberID f) (ce_Purpose f) g \<and> ce_HouseholdID g = ce_HouseholdID f" ..
    then have "orig \<noteq> nid" using assms(1) by auto
    with g show "\<exists>g. (L(nid \<mapsto> e)) orig = Some g \<and> \<not> IsRevocation g \<and>
        about (ce_PrincipalMemberID f) (ce_Purpose f) g \<and> ce_HouseholdID g = ce_HouseholdID f" by auto
  qed
  moreover have "recorded evs' k f" if "(L(nid \<mapsto> e)) k = Some f" "L k = None" for k f
    using that assms(2-4) by (auto simp: recorded_def split: if_splits)
  ultimately show ?thesis using assms(2) by (auto simp: extends_def)
qed

context consent_store_spec
begin

lemma grant_extends:
  assumes "good (cw_store w)" and "ledger (cw_store w) nid = None" and "nid \<noteq> uuid_Nil"
    and "ConsentService_Grant C nid now ac req w = (r, w')"
  shows "good (cw_store w') \<and> extends (ledger (cw_store w)) (cw_events w) (ledger (cw_store w')) (cw_events w')"
proof (cases r)
  case (Inl err)
  have "w\<lparr>cw_store := s'\<rparr> = w" if "cs_InsertEntry C nid now e (cw_store w) = (Inl err', s')" for e err' s'
    using insert_failed [OF that] by simp
  then have "w' = w" using assms(4) Inl
    by (auto simp: ConsentService_Grant_def Let_def split: if_splits prod.splits sum.splits)
  then show ?thesis using assms(1) by simp
next
  case (Inr st)
  have e: "ce_RevokesID (grant_entry req) = None" by (simp add: grant_entry_def)
  from Inr assms(4) obtain s' where ins: "cs_InsertEntry C nid now (grant_entry req) (cw_store w) = (Inr st, s')"
    and w': "cw_store w' = s'"
    and ev: "\<exists>ev. cw_events w' = cw_events w @ [ev] \<and> ev_Action ev = ''consent.granted'' \<and>
               ev_ResourceID ev = (if ce_ID st \<noteq> uuid_Nil then ce_ID st else [])"
    by (auto simp: ConsentService_Grant_def consent_emit_def basic_event_def Let_def
        split: if_splits prod.splits sum.splits)
  note law = insert_ok [OF assms(1) ins]
  then have st: "ce_ID st = nid" "ce_RevokesID st = None" using e by simp_all
  from ev obtain ev where ev: "cw_events w' = cw_events w @ [ev]" "ev_Action ev = ''consent.granted''"
    "ev_ResourceID ev = nid" using st(1) assms(3) by auto
  have "extends (ledger (cw_store w)) (cw_events w) ((ledger (cw_store w))(nid \<mapsto> st)) (cw_events w')"
    by (rule extends_insert [where ev = ev]) (simp_all add: assms(2) ev st IsRevocation_def)
  with law w' show ?thesis by simp
qed

lemma revoke_extends:
  assumes "good (cw_store w)" and "ledger (cw_store w) nid = None" and "nid \<noteq> uuid_Nil"
    and "ConsentService_Revoke C nid now ac orig revoker evd w = (r, w')"
  shows "good (cw_store w') \<and> extends (ledger (cw_store w)) (cw_events w) (ledger (cw_store w')) (cw_events w')"
proof (cases r)
  case (Inl err)
  have "w\<lparr>cw_store := s'\<rparr> = w" if "cs_InsertEntry C nid now e (cw_store w) = (Inl err', s')" for e err' s'
    using insert_failed [OF that] by simp
  then have "w' = w" using assms(4) Inl
    by (auto simp: ConsentService_Revoke_def Let_def split: if_splits prod.splits sum.splits option.splits)
  then show ?thesis using assms(1) by simp
next
  case (Inr st)
  with assms(4) obtain g s' where g: "cs_GetEntry C orig (cw_store w) = Inr g" "\<not> IsRevocation g"
    and ins: "cs_InsertEntry C nid now (revocation_entry g orig revoker evd) (cw_store w) = (Inr st, s')"
    and w': "cw_store w' = s'"
    and ev: "\<exists>ev. cw_events w' = cw_events w @ [ev] \<and> ev_Action ev = ''consent.revoked'' \<and>
               ev_ResourceID ev = (if ce_ID st \<noteq> uuid_Nil then ce_ID st else [])"
    by (auto simp: ConsentService_Revoke_def consent_emit_def basic_event_def Let_def
        split: if_splits prod.splits sum.splits option.splits)
  note law = insert_ok [OF assms(1) ins]
  then have st: "ce_ID st = nid" "ce_RevokesID st = Some orig" "ce_PrincipalMemberID st = ce_PrincipalMemberID g"
    "ce_Purpose st = ce_Purpose g" "ce_HouseholdID st = ce_HouseholdID g" by (simp_all add: revocation_entry_def)
  have "ledger (cw_store w) orig = Some g" using g(1) get_entry by simp
  note old = this
  from ev obtain ev where ev: "cw_events w' = cw_events w @ [ev]" "ev_Action ev = ''consent.revoked''"
    "ev_ResourceID ev = nid" using st(1) assms(3) by auto
  have "extends (ledger (cw_store w)) (cw_events w) ((ledger (cw_store w))(nid \<mapsto> st)) (cw_events w')"
    by (rule extends_insert [where ev = ev])
      (use old g(2) in \<open>simp_all add: assms(2) ev st IsRevocation_def about_def\<close>)
  with law w' show ?thesis by simp
qed

lemma exec_extends:
  assumes "good (cw_store w)" and "consent_fresh (ledger (cw_store w)) c"
  shows "good (cw_store (consent_exec rfc C c w)) \<and>
         extends (ledger (cw_store w)) (cw_events w)
           (ledger (cw_store (consent_exec rfc C c w))) (cw_events (consent_exec rfc C c w))"
proof (cases c)
  case (CallGrant nid now ac req)
  obtain r w' where "ConsentService_Grant C nid now ac req w = (r, w')" by fastforce
  with grant_extends [OF assms(1) _ _ this] assms(2) CallGrant show ?thesis by simp
next
  case (CallRevoke nid now ac orig rv ev)
  obtain r w' where "ConsentService_Revoke C nid now ac orig rv ev w = (r, w')" by fastforce
  with revoke_extends [OF assms(1) _ _ this] assms(2) CallRevoke show ?thesis by simp
next
  case (CallIsValid ac who purpose at)
  then show ?thesis using assms
    by (auto simp: ConsentService_IsValid_def consent_emit_def Let_def split: sum.splits)
next
  case (CallList ac who limit offset)
  then show ?thesis using assms
    by (auto simp: ConsentService_ListForPrincipal_def consent_emit_def Let_def split: sum.splits option.splits)
next
  case (CallGet ac eid)
  then show ?thesis using assms by (auto simp: ConsentService_GetEntry_def consent_emit_def Let_def)
qed

lemma reach_extends:
  assumes "consent_reach rfc C ledger w0 w" and "good (cw_store w0)"
  shows "good (cw_store w) \<and> extends (ledger (cw_store w0)) (cw_events w0) (ledger (cw_store w)) (cw_events w)"
  using assms(1)
proof (induction rule: consent_reach.induct)
  case start
  then show ?case using assms(2) by simp
next
  case (call w c)
  then show ?case using exec_extends [of w c rfc] extends_trans by blast
qed

lemma latest_after_insert:
  assumes "good s" and "cs_InsertEntry C nid now e s = (Inr e', s')" and "ledger s nid = None"
    and "ce_GrantedAt e = 0" and "\<And>k f. ledger s k = Some f \<Longrightarrow> ce_GrantedAt f < now"
  shows "cs_LatestForPurpose C (ce_PrincipalMemberID e) (ce_Purpose e) s' = Inr e'"
proof -
  let ?who = "ce_PrincipalMemberID e" and ?pu = "ce_Purpose e"
  note law = insert_ok [OF assms(1,2)]
  have at: "about ?who ?pu e'" "ledger s' nid = Some e'" "ce_GrantedAt e' = now"
    using law assms(4) by (simp_all add: about_def)
  show ?thesis
  proof (cases "cs_LatestForPurpose C ?who ?pu s'")
    case (Inl err)
    then show ?thesis using latest_missing [of s'] law at by blast
  next
    case (Inr b)
    then obtain k where k: "ledger s' k = Some b" and nn: "\<not> newer e' b"
      using latest_found [of s'] law at by blast
    have "k = nid"
    proof (rule ccontr)
      assume "k \<noteq> nid"
      then have "ce_GrantedAt b < now" using k law assms(5) by simp
      with nn at(3) show False by (simp add: newer_def)
    qed
    then show ?thesis using k at(2) Inr by simp
  qed
qed

end

section \<open>Properties\<close>

text \<open>
  C5: the ledger is append-only, linked and recorded. Whatever sequence of grants, revocations, validity
  checks and reads runs over the in-memory store, no entry is ever changed or removed, the audit events
  are only appended to, every revocation in the ledger points at a grant of the same principal, purpose
  and household, and every entry has an audit event carrying its id.
\<close>

theorem consent_ledger_append_only:
  assumes "consent_reach rfc inMemoryConsentStore gm_get w0 w" and "gm_ok (cw_store w0)"
    and "well_linked (gm_get (cw_store w0))"
  shows "gm_get (cw_store w0) \<subseteq>\<^sub>m gm_get (cw_store w) \<and>
         (\<exists>new. cw_events w = cw_events w0 @ new) \<and>
         well_linked (gm_get (cw_store w)) \<and>
         (\<forall>k e. gm_get (cw_store w) k = Some e \<and> gm_get (cw_store w0) k = None \<longrightarrow> recorded (cw_events w) k e)"
  using conmem.reach_extends [OF assms(1,2)] assms(3) by (simp add: extends_def)

definition demo_request :: grant_request where
  "demo_request = \<lparr>gr_HouseholdID = ''h'', gr_PrincipalMemberID = ''child'', gr_ConsenterMemberID = ''mum'',
     gr_Purpose = ''data_export'', gr_Scope = [], gr_ConsentTextVersion = ''v1'', gr_Evidence = []\<rparr>"

definition demo_cc :: consent_context where
  "demo_cc = \<lparr>cc_CompanyID = ''c'', cc_ActorID = ''a'', cc_IPAddress = []\<rparr>"

definition empty_world :: "consent_memory consent_world" where
  "empty_world = \<lparr>cw_store = newInMemoryConsentStore, cw_events = []\<rparr>"

definition granted_world :: "consent_memory consent_world" where
  "granted_world = snd (ConsentService_Grant inMemoryConsentStore ''g1'' 10 demo_cc demo_request empty_world)"

definition revoked_world :: "consent_memory consent_world" where
  "revoked_world =
     snd (ConsentService_Revoke inMemoryConsentStore ''r1'' 20 demo_cc ''g1'' ''mum'' [] granted_world)"

lemmas consent_eval = grant_entry_def revocation_entry_def ConsentService_Grant_def ConsentService_Revoke_def ConsentService_IsValid_def
  inMemoryConsentStore_def newInMemoryConsentStore_def cm_InsertEntry_def cm_GetEntry_def cm_LatestForPurpose_def
  consent_emit_def or_empty_object_def gm_put_def gm_get_def gm_vals_def gm_ok_def IsRevocation_def
  demo_request_def empty_world_def granted_world_def

theorem consent_ledger_append_only_witness:
  "consent_reach (\<lambda>_. []) inMemoryConsentStore gm_get empty_world granted_world \<and>
   recorded (cw_events granted_world) ''g1'' (the (gm_get (cw_store granted_world) ''g1''))"
proof -
  have "consent_fresh (gm_get (cw_store empty_world)) (CallGrant ''g1'' 10 demo_cc demo_request)"
    by (simp add: empty_world_def newInMemoryConsentStore_def uuid_Nil_def)
  from consent_reach.call [where ledger = gm_get, OF consent_reach.start this]
  have r: "consent_reach (\<lambda>_. []) inMemoryConsentStore gm_get empty_world granted_world"
    by (simp add: granted_world_def)
  have "gm_ok (cw_store empty_world)" "well_linked (gm_get (cw_store empty_world))"
    by (simp_all add: empty_world_def newInMemoryConsentStore_def well_linked_def)
  from consent_ledger_append_only [OF r this]
  have "recorded (cw_events granted_world) k e"
    if "gm_get (cw_store granted_world) k = Some e" for k e
    using that by (simp add: empty_world_def newInMemoryConsentStore_def)
  moreover have "\<exists>e. gm_get (cw_store granted_world) ''g1'' = Some e"
    by (simp add: consent_eval Let_def)
  ultimately show ?thesis using r by auto
qed

text \<open>
  Consent follows the last word. When a grant succeeds at a time later than every entry of the ledger,
  every later validity check for that principal and purpose returns valid with that grant; when a
  revocation succeeds, every later check returns invalid with the revocation.
\<close>

lemma consent_follows_last_word:
  assumes "gm_ok (cw_store w)" and "gm_get (cw_store w) nid = None"
    and "\<And>k f. gm_get (cw_store w) k = Some f \<Longrightarrow> ce_GrantedAt f < now" and "now \<le> at"
  shows "(\<forall>st w'. ConsentService_Grant inMemoryConsentStore nid now ac req w = (Inr st, w') \<longrightarrow>
            fst (ConsentService_IsValid rfc inMemoryConsentStore ac' (gr_PrincipalMemberID req) (gr_Purpose req) at w')
              = Inr \<lparr>vd_Valid = True, vd_LatestEntry = Some st\<rparr>) \<and>
         (\<forall>st w' g. gm_get (cw_store w) orig = Some g \<and> ce_Purpose g \<noteq> [] \<and>
            ConsentService_Revoke inMemoryConsentStore nid now ac orig revoker evd w = (Inr st, w') \<longrightarrow>
            fst (ConsentService_IsValid rfc inMemoryConsentStore ac' (ce_PrincipalMemberID g) (ce_Purpose g) at w')
              = Inr \<lparr>vd_Valid = False, vd_LatestEntry = Some st\<rparr>)"
proof (intro conjI allI impI)
  fix st w' assume gr: "ConsentService_Grant inMemoryConsentStore nid now ac req w = (Inr st, w')"
  let ?e = "grant_entry req"
  have e: "ce_GrantedAt ?e = 0" "ce_RevokesID ?e = None" "ce_PrincipalMemberID ?e = gr_PrincipalMemberID req"
    "ce_Purpose ?e = gr_Purpose req" by (simp_all add: grant_entry_def)
  from gr have p: "gr_Purpose req \<noteq> []"
    and ins: "cs_InsertEntry inMemoryConsentStore nid now ?e (cw_store w) = (Inr st, cw_store w')"
    by (auto simp: ConsentService_Grant_def consent_emit_def Let_def split: if_splits prod.splits sum.splits)
  have "ce_GrantedAt st = now" "ce_RevokesID st = None"
    using conmem.insert_ok [OF assms(1) ins] e by simp_all
  with conmem.latest_after_insert [OF assms(1) ins assms(2) e(1) assms(3)] e p assms(4)
  show "fst (ConsentService_IsValid rfc inMemoryConsentStore ac' (gr_PrincipalMemberID req) (gr_Purpose req) at w')
    = Inr \<lparr>vd_Valid = True, vd_LatestEntry = Some st\<rparr>"
    by (simp add: ConsentService_IsValid_def Let_def IsRevocation_def)
next
  fix st w' g
  assume rv: "gm_get (cw_store w) orig = Some g \<and> ce_Purpose g \<noteq> [] \<and>
    ConsentService_Revoke inMemoryConsentStore nid now ac orig revoker evd w = (Inr st, w')"
  then have g: "cs_GetEntry inMemoryConsentStore orig (cw_store w) = Inr g" using conmem.get_entry by blast
  let ?e = "revocation_entry g orig revoker evd"
  have e: "ce_GrantedAt ?e = 0" "ce_RevokesID ?e = Some orig" "ce_PrincipalMemberID ?e = ce_PrincipalMemberID g"
    "ce_Purpose ?e = ce_Purpose g" by (simp_all add: revocation_entry_def)
  from rv have ins: "cs_InsertEntry inMemoryConsentStore nid now ?e (cw_store w) = (Inr st, cw_store w')"
    by (auto simp: ConsentService_Revoke_def g consent_emit_def Let_def
        split: if_splits prod.splits sum.splits option.splits)
  have "ce_GrantedAt st = now" "ce_RevokesID st = Some orig"
    using conmem.insert_ok [OF assms(1) ins] e by simp_all
  with conmem.latest_after_insert [OF assms(1) ins assms(2) e(1) assms(3)] e rv assms(4)
  show "fst (ConsentService_IsValid rfc inMemoryConsentStore ac' (ce_PrincipalMemberID g) (ce_Purpose g) at w')
    = Inr \<lparr>vd_Valid = False, vd_LatestEntry = Some st\<rparr>"
    by (simp add: ConsentService_IsValid_def Let_def IsRevocation_def)
qed

theorem consent_follows_last_word_witness:
  "\<exists>st. fst (ConsentService_IsValid (\<lambda>_. []) inMemoryConsentStore demo_cc ''child'' ''data_export'' 25 revoked_world)
     = Inr \<lparr>vd_Valid = False, vd_LatestEntry = Some st\<rparr>"
proof -
  have "\<exists>st. ConsentService_Revoke inMemoryConsentStore ''r1'' 20 demo_cc ''g1'' ''mum'' [] granted_world
      = (Inr st, revoked_world)"
    by (simp add: revoked_world_def consent_eval Let_def)
  then obtain st where "ConsentService_Revoke inMemoryConsentStore ''r1'' 20 demo_cc ''g1'' ''mum'' [] granted_world
      = (Inr st, revoked_world)" ..
  moreover have "\<exists>g. gm_get (cw_store granted_world) ''g1'' = Some g \<and> ce_Purpose g = ''data_export'' \<and>
      ce_PrincipalMemberID g = ''child''"
    by (simp add: consent_eval Let_def)
  moreover have "gm_ok (cw_store granted_world)" "gm_get (cw_store granted_world) ''r1'' = None"
    and "\<And>k f. gm_get (cw_store granted_world) k = Some f \<Longrightarrow> ce_GrantedAt f < 20"
    by (auto simp: consent_eval Let_def split: if_splits)
  ultimately show ?thesis
    using consent_follows_last_word [of granted_world "''r1''" 20 25] by fastforce
qed

section \<open>Observations\<close>

text \<open>
  A check as of a time between a grant and its revocation reports no valid consent, although the grant was
  in effect then: only the latest entry is looked at.
\<close>

lemma historical_check_forgets_grant:
  "\<exists>st. fst (ConsentService_IsValid (\<lambda>_. []) inMemoryConsentStore demo_cc ''child'' ''data_export'' 15 granted_world)
          = Inr \<lparr>vd_Valid = True, vd_LatestEntry = Some st\<rparr> \<and>
   vd_Valid (projr (fst (ConsentService_IsValid (\<lambda>_. []) inMemoryConsentStore demo_cc ''child'' ''data_export'' 15 revoked_world)))
     = False"
  by (simp add: revoked_world_def consent_eval newer_def Let_def)

text \<open>
  Revoking an old grant after a newer one was given makes the consent invalid: the newer grant, never
  revoked, no longer counts.
\<close>

definition regranted_world :: "consent_memory consent_world" where
  "regranted_world = snd (ConsentService_Grant inMemoryConsentStore ''g2'' 15 demo_cc demo_request granted_world)"

lemma revoking_old_grant_hides_newer:
  "vd_Valid (projr (fst (ConsentService_IsValid (\<lambda>_. []) inMemoryConsentStore demo_cc ''child'' ''data_export'' 25
     (snd (ConsentService_Revoke inMemoryConsentStore ''r1'' 20 demo_cc ''g1'' ''mum'' [] regranted_world))))) = False"
  by (simp add: regranted_world_def consent_eval newer_def Let_def)

end
