(* ===== verification/Rbac.thy ===== *)
theory Rbac
  imports Go_Strings
begin

text \<open>
  Role-based access control, \<^verbatim>\<open>src/platform/rbac\<close>: role levels and names, the default permission matrix,
  policies, membership resolution through the company hierarchy, the caching enforcer and the service.

  The service, the enforcer and the resolver work on any store, a record of operations; what the service
  relies on is the locale \<open>rbac_store_spec\<close>, interpreted on the in-memory store in \<open>Devstore\<close>. Each reading
  of the clock is an argument. \<^verbatim>\<open>json.Unmarshal\<close> of permission overrides is a parameter.
\<close>

section \<open>Roles, permissions, memberships\<close>

type_synonym role_level = int

abbreviation (input) RoleLevelViewer :: role_level where "RoleLevelViewer \<equiv> 20"
abbreviation (input) RoleLevelMember :: role_level where "RoleLevelMember \<equiv> 40"
abbreviation (input) RoleLevelManager :: role_level where "RoleLevelManager \<equiv> 60"
abbreviation (input) RoleLevelAdmin :: role_level where "RoleLevelAdmin \<equiv> 80"
abbreviation (input) RoleLevelOwner :: role_level where "RoleLevelOwner \<equiv> 90"
abbreviation (input) RoleLevelSuperAdmin :: role_level where "RoleLevelSuperAdmin \<equiv> 100"

type_synonym feature = string
type_synonym permission_matrix = "(feature, (string, role_level) gomap) gomap"

record rbac_role =
  rr_ID :: uuid
  rr_CompanyID :: "uuid option"
  rr_Name :: string
  rr_Description :: string
  rr_Level :: role_level
  rr_IsSystem :: bool

record permission =
  pm_ID :: uuid
  pm_Feature :: string
  pm_Action :: string
  pm_Resource :: string

record rbac_membership =
  rm_ID :: uuid
  rm_CompanyID :: uuid
  rm_UserID :: uuid
  rm_RoleID :: uuid
  rm_RoleName :: string
  rm_RoleLevel :: role_level
  rm_PermissionOverrides :: "string option"

record company_ancestor =
  ca_CompanyID :: uuid
  ca_Generations :: int
  ca_InheritedRoleCap :: "int option"
  ca_AccessLevel :: "string option"

record 's rbac_store =
  rs_GetRoleByID :: "uuid \<Rightarrow> 's \<Rightarrow> rbac_role result"
  rs_ListRolesByCompany :: "uuid \<Rightarrow> 's \<Rightarrow> rbac_role list result"
  rs_CreateRole :: "uuid \<Rightarrow> uuid \<Rightarrow> string \<Rightarrow> string \<Rightarrow> role_level \<Rightarrow> 's \<Rightarrow> rbac_role result \<times> 's"
  rs_ListPermissionsByRole :: "uuid \<Rightarrow> 's \<Rightarrow> permission list result"
  rs_ListAllPermissions :: "'s \<Rightarrow> permission list result"
  rs_AddRolePermission :: "uuid \<Rightarrow> uuid \<Rightarrow> 's \<Rightarrow> unit result \<times> 's"
  rs_GetUserRole :: "uuid \<Rightarrow> uuid \<Rightarrow> 's \<Rightarrow> rbac_role result"
  rs_GetMembership :: "uuid \<Rightarrow> uuid \<Rightarrow> 's \<Rightarrow> rbac_membership result"
  rs_GetUserPermissions :: "uuid \<Rightarrow> uuid \<Rightarrow> 's \<Rightarrow> permission list result"
  rs_AssignRoleToUser :: "uuid \<Rightarrow> uuid \<Rightarrow> uuid \<Rightarrow> uuid \<Rightarrow> 's \<Rightarrow> unit result \<times> 's"
  rs_CreateMembership :: "uuid \<Rightarrow> uuid \<Rightarrow> uuid \<Rightarrow> uuid \<Rightarrow> 's \<Rightarrow> unit result \<times> 's"
  rs_GetCompanyAncestors :: "uuid \<Rightarrow> 's \<Rightarrow> company_ancestor list result"
  rs_GetMembershipInCompany :: "uuid \<Rightarrow> uuid \<Rightarrow> 's \<Rightarrow> rbac_membership option result"

section \<open>Role names\<close>

definition RoleLevelByName :: "(string, role_level) gomap" where
  "RoleLevelByName =
     [(''viewer'', RoleLevelViewer), (''member'', RoleLevelMember), (''manager'', RoleLevelManager),
      (''admin'', RoleLevelAdmin), (''owner'', RoleLevelOwner), (''super_admin'', RoleLevelSuperAdmin)]"

definition RoleNameByLevel :: "role_level \<Rightarrow> string" where
  "RoleNameByLevel level =
     (if level \<ge> RoleLevelSuperAdmin then ''super_admin''
      else if level \<ge> RoleLevelOwner then ''owner''
      else if level \<ge> RoleLevelAdmin then ''admin''
      else if level \<ge> RoleLevelManager then ''manager''
      else if level \<ge> RoleLevelMember then ''member''
      else ''viewer'')"

definition AllowedByRoleName :: "permission_matrix \<Rightarrow> string \<Rightarrow> feature \<Rightarrow> string \<Rightarrow> bool" where
  "AllowedByRoleName matrix roleName feature action =
     (case gm_get RoleLevelByName roleName of
        None \<Rightarrow> False
      | Some level \<Rightarrow>
          (case gm_get matrix feature of
             None \<Rightarrow> False
           | Some actionMatrix \<Rightarrow>
               (case gm_get actionMatrix action of
                  None \<Rightarrow> False
                | Some required \<Rightarrow> level \<ge> required)))"

section \<open>Policies\<close>

definition ErrUnauthorized :: go_error where "ErrUnauthorized = ErrVar ''rbac: not authorized''"
definition ErrUnknownAction :: go_error where "ErrUnknownAction = ErrVar ''rbac: unknown policy action''"

text \<open>A policy answers the four standard actions; an action policy also has \<^verbatim>\<open>Can\<close> (\<open>Some\<close>).\<close>

record policy =
  po_Show :: bool
  po_Create :: bool
  po_Update :: bool
  po_Destroy :: bool
  po_Can :: "(string \<Rightarrow> bool) option"

definition Authorize :: "policy \<Rightarrow> string \<Rightarrow> go_error option" where
  "Authorize p action =
     (let verdict =
        (if action = ''show'' then Inr (po_Show p)
         else if action = ''create'' then Inr (po_Create p)
         else if action = ''update'' then Inr (po_Update p)
         else if action = ''destroy'' then Inr (po_Destroy p)
         else (case po_Can p of
                 None \<Rightarrow> Inl (ErrWrap [] ErrUnknownAction ('': '' @ action))
               | Some can \<Rightarrow> Inr (can action)))
      in case verdict of
           Inl err \<Rightarrow> Some err
         | Inr allowed \<Rightarrow> if \<not> allowed then Some ErrUnauthorized else None)"

definition BasePolicy :: policy where
  "BasePolicy = \<lparr>po_Show = False, po_Create = False, po_Update = False, po_Destroy = False, po_Can = None\<rparr>"

section \<open>The default permission matrix\<close>

definition DefaultPermissionMatrix :: permission_matrix where
  "DefaultPermissionMatrix = [
      (''crm'',
        [(''view'', RoleLevelViewer), (''create'', RoleLevelMember), (''edit'', RoleLevelMember),
         (''delete'', RoleLevelManager), (''export'', RoleLevelManager), (''admin'', RoleLevelAdmin)]),
      (''invoicing'',
        [(''view'', RoleLevelViewer), (''create'', RoleLevelMember), (''edit'', RoleLevelMember),
         (''send'', RoleLevelMember), (''void'', RoleLevelManager), (''delete'', RoleLevelAdmin),
         (''admin'', RoleLevelAdmin)]),
      (''payments'',
        [(''view'', RoleLevelViewer), (''create'', RoleLevelMember), (''refund'', RoleLevelManager),
         (''admin'', RoleLevelAdmin)]),
      (''subscriptions'',
        [(''view'', RoleLevelViewer), (''create'', RoleLevelMember), (''edit'', RoleLevelMember),
         (''cancel'', RoleLevelManager), (''admin'', RoleLevelAdmin)]),
      (''helpdesk'',
        [(''view'', RoleLevelViewer), (''create'', RoleLevelMember), (''assign'', RoleLevelMember),
         (''resolve'', RoleLevelMember), (''delete'', RoleLevelManager), (''admin'', RoleLevelAdmin)]),
      (''knowledgebase'',
        [(''view'', RoleLevelViewer), (''create'', RoleLevelMember), (''edit'', RoleLevelMember),
         (''publish'', RoleLevelManager), (''delete'', RoleLevelManager), (''admin'', RoleLevelAdmin)]),
      (''hr'',
        [(''view'', RoleLevelViewer), (''create'', RoleLevelManager), (''edit'', RoleLevelManager),
         (''approve'', RoleLevelManager), (''delete'', RoleLevelAdmin), (''payroll'', RoleLevelAdmin),
         (''admin'', RoleLevelAdmin)]),
      (''products'',
        [(''view'', RoleLevelViewer), (''create'', RoleLevelMember), (''edit'', RoleLevelMember),
         (''delete'', RoleLevelManager), (''admin'', RoleLevelAdmin)]),
      (''inventory'',
        [(''view'', RoleLevelViewer), (''adjust'', RoleLevelMember), (''transfer'', RoleLevelMember),
         (''write_off'', RoleLevelManager), (''admin'', RoleLevelAdmin)]),
      (''ecommerce'',
        [(''view'', RoleLevelViewer), (''manage'', RoleLevelMember), (''admin'', RoleLevelAdmin)]),
      (''marketing'',
        [(''view'', RoleLevelViewer), (''create'', RoleLevelMember), (''edit'', RoleLevelMember),
         (''send'', RoleLevelManager), (''delete'', RoleLevelManager), (''admin'', RoleLevelAdmin)]),
      (''proposals'',
        [(''view'', RoleLevelViewer), (''create'', RoleLevelMember), (''edit'', RoleLevelMember),
         (''send'', RoleLevelManager), (''approve'', RoleLevelManager), (''admin'', RoleLevelAdmin)]),
      (''projects'',
        [(''view'', RoleLevelViewer), (''create'', RoleLevelMember), (''edit'', RoleLevelMember),
         (''delete'', RoleLevelManager), (''admin'', RoleLevelAdmin)]),
      (''legal'',
        [(''view'', RoleLevelViewer), (''create'', RoleLevelMember), (''edit'', RoleLevelMember),
         (''approve'', RoleLevelManager), (''delete'', RoleLevelAdmin), (''admin'', RoleLevelAdmin)]),
      (''accounting'',
        [(''view'', RoleLevelViewer), (''create'', RoleLevelMember), (''edit'', RoleLevelMember),
         (''close_period'', RoleLevelAdmin), (''admin'', RoleLevelAdmin)]),
      (''scheduling'',
        [(''view'', RoleLevelViewer), (''create'', RoleLevelMember), (''edit'', RoleLevelMember),
         (''delete'', RoleLevelManager), (''admin'', RoleLevelAdmin)]),
      (''reporting'',
        [(''view'', RoleLevelViewer), (''create'', RoleLevelMember), (''export'', RoleLevelManager),
         (''admin'', RoleLevelAdmin)]),
      (''communications'',
        [(''view'', RoleLevelViewer), (''create'', RoleLevelMember), (''send'', RoleLevelMember),
         (''delete'', RoleLevelManager), (''admin'', RoleLevelAdmin)]),
      (''website'',
        [(''view'', RoleLevelViewer), (''edit'', RoleLevelMember), (''publish'', RoleLevelManager),
         (''admin'', RoleLevelAdmin)]),
      (''ai_tools'',
        [(''view'', RoleLevelViewer), (''use'', RoleLevelMember), (''admin'', RoleLevelAdmin)]),
      (''investor_portal'',
        [(''view'', RoleLevelViewer), (''create'', RoleLevelManager), (''edit'', RoleLevelManager),
         (''manage_cap'', RoleLevelAdmin), (''admin'', RoleLevelOwner)]),
      (''strategic_planning'',
        [(''view'', RoleLevelViewer), (''create'', RoleLevelManager), (''edit'', RoleLevelManager),
         (''approve'', RoleLevelAdmin), (''admin'', RoleLevelOwner)]),
      (''workflows'',
        [(''view'', RoleLevelViewer), (''create'', RoleLevelMember), (''edit'', RoleLevelMember),
         (''execute'', RoleLevelMember), (''admin'', RoleLevelAdmin)]),
      (''banking'',
        [(''view'', RoleLevelViewer), (''create'', RoleLevelMember), (''edit'', RoleLevelMember),
         (''delete'', RoleLevelManager), (''admin'', RoleLevelAdmin)]),
      (''customer_portal'',
        [(''view'', RoleLevelViewer), (''create'', RoleLevelMember), (''edit'', RoleLevelMember),
         (''delete'', RoleLevelManager), (''admin'', RoleLevelAdmin)]),
      (''software'',
        [(''view'', RoleLevelViewer), (''create'', RoleLevelMember), (''edit'', RoleLevelMember),
         (''delete'', RoleLevelManager), (''admin'', RoleLevelAdmin)]),
      (''settings'',
        [(''view'', RoleLevelViewer), (''edit'', RoleLevelManager), (''admin'', RoleLevelAdmin)]),
      (''notifications'',
        [(''view'', RoleLevelViewer), (''create'', RoleLevelMember), (''send'', RoleLevelMember),
         (''admin'', RoleLevelAdmin)])]"

section \<open>Membership through the company hierarchy\<close>

record resolved_membership =
  rv_CompanyID :: uuid
  rv_UserID :: uuid
  rv_RoleLevel :: role_level
  rv_RoleName :: string
  rv_SourceCompany :: uuid
  rv_IsDirect :: bool
  rv_CappedLevel :: role_level
  rv_AccessLevel :: string

text \<open>One ancestor: \<open>None\<close> means the loop continues with the next one.\<close>

definition resolve_at ::
  "'s rbac_store \<Rightarrow> uuid \<Rightarrow> uuid \<Rightarrow> 's \<Rightarrow> company_ancestor \<Rightarrow> resolved_membership option" where
  "resolve_at R companyID userID s ancestor =
     (case rs_GetMembershipInCompany R (ca_CompanyID ancestor) userID s of
        Inl _ \<Rightarrow> None
      | Inr None \<Rightarrow> None
      | Inr (Some membership) \<Rightarrow>
          let effectiveLevel = (case ca_InheritedRoleCap ancestor of
                 None \<Rightarrow> rm_RoleLevel membership
               | Some cap \<Rightarrow> if cap < rm_RoleLevel membership then cap else rm_RoleLevel membership);
              accessLevel = (case ca_AccessLevel ancestor of None \<Rightarrow> ''full'' | Some a \<Rightarrow> a)
          in if accessLevel = ''none'' then None
             else Some \<lparr>rv_CompanyID = companyID, rv_UserID = userID, rv_RoleLevel = rm_RoleLevel membership,
                        rv_RoleName = rm_RoleName membership, rv_SourceCompany = ca_CompanyID ancestor,
                        rv_IsDirect = False, rv_CappedLevel = effectiveLevel, rv_AccessLevel = accessLevel\<rparr>)"

fun resolve_walk ::
  "'s rbac_store \<Rightarrow> uuid \<Rightarrow> uuid \<Rightarrow> 's \<Rightarrow> company_ancestor list \<Rightarrow> resolved_membership option" where
  "resolve_walk R companyID userID s [] = None"
| "resolve_walk R companyID userID s (a # as) =
     (case resolve_at R companyID userID s a of
        Some r \<Rightarrow> Some r
      | None \<Rightarrow> resolve_walk R companyID userID s as)"

definition ResolveMembership ::
  "'s rbac_store \<Rightarrow> uuid \<Rightarrow> uuid \<Rightarrow> 's \<Rightarrow> resolved_membership result" where
  "ResolveMembership R companyID userID s =
     (case rs_GetMembershipInCompany R companyID userID s of
        Inr (Some direct) \<Rightarrow>
          Inr \<lparr>rv_CompanyID = companyID, rv_UserID = userID, rv_RoleLevel = rm_RoleLevel direct,
               rv_RoleName = rm_RoleName direct, rv_SourceCompany = companyID, rv_IsDirect = True,
               rv_CappedLevel = rm_RoleLevel direct, rv_AccessLevel = ''full''\<rparr>
      | _ \<Rightarrow>
          (case rs_GetCompanyAncestors R companyID s of
             Inl err \<Rightarrow> Inl (ErrWrap ''get company ancestors: '' err [])
           | Inr ancestors \<Rightarrow>
               (case resolve_walk R companyID userID s ancestors of
                  Some r \<Rightarrow> Inr r
                | None \<Rightarrow> Inl (ErrMsg (''user '' @ userID @ '' has no membership for company '' @ companyID
                                       @ '' or its ancestors'')))))"

definition CanAccessCompany :: "'s rbac_store \<Rightarrow> uuid \<Rightarrow> uuid \<Rightarrow> 's \<Rightarrow> bool result" where
  "CanAccessCompany R companyID userID s =
     (case ResolveMembership R companyID userID s of
        Inl _ \<Rightarrow> Inr False
      | Inr resolved \<Rightarrow> Inr (rv_AccessLevel resolved \<noteq> ''none''))"

definition GetEffectiveRoleLevel :: "'s rbac_store \<Rightarrow> uuid \<Rightarrow> uuid \<Rightarrow> 's \<Rightarrow> role_level result" where
  "GetEffectiveRoleLevel R companyID userID s =
     (case ResolveMembership R companyID userID s of Inl err \<Rightarrow> Inl err | Inr r \<Rightarrow> Inr (rv_CappedLevel r))"

section \<open>The enforcer\<close>

definition DefaultCacheTTL :: duration where
  "DefaultCacheTTL = 5 * minute"

record cache_entry =
  ch_permissions :: "(string, bool) gomap"
  ch_roleLevel :: role_level
  ch_expiresAt :: go_time

record enforcer =
  en_cache :: "(string, cache_entry) gomap"
  en_cacheTTL :: duration
  en_matrix :: permission_matrix

definition NewEnforcer :: "permission_matrix option \<Rightarrow> enforcer" where
  "NewEnforcer matrix =
     \<lparr>en_cache = [], en_cacheTTL = DefaultCacheTTL,
      en_matrix = (case matrix of None \<Rightarrow> DefaultPermissionMatrix | Some m \<Rightarrow> m)\<rparr>"

definition cache_key :: "uuid \<Rightarrow> uuid \<Rightarrow> string" where
  "cache_key userID companyID = userID @ '':'' @ companyID"

text \<open>The permission set computed from the store on a cache miss, with the role level.\<close>

definition apply_overrides :: "(string \<times> bool) list \<Rightarrow> (string, bool) gomap \<Rightarrow> (string, bool) gomap" where
  "apply_overrides ovs permSet = fold (\<lambda>(k, v). gm_put k v) ovs permSet"

definition load_permissions ::
  "(string \<Rightarrow> (string, bool) gomap option) \<Rightarrow> 's rbac_store \<Rightarrow> uuid \<Rightarrow> uuid \<Rightarrow> 's \<Rightarrow>
   ((string, bool) gomap \<times> role_level) result" where
  "load_permissions unmarshal R userID companyID s =
     (case rs_GetUserRole R companyID userID s of
        Inl err \<Rightarrow> Inl (ErrWrap ''get user role: '' err [])
      | Inr role \<Rightarrow>
          (case rs_ListPermissionsByRole R (rr_ID role) s of
             Inl err \<Rightarrow> Inl (ErrWrap ''list permissions: '' err [])
           | Inr perms \<Rightarrow>
               let permSet = fold (\<lambda>p. gm_put (pm_Feature p @ '':'' @ pm_Action p) True) perms [];
                   permSet' = (case rs_GetMembership R companyID userID s of
                       Inl _ \<Rightarrow> permSet
                     | Inr membership \<Rightarrow>
                         (case rm_PermissionOverrides membership of
                            None \<Rightarrow> permSet
                          | Some raw \<Rightarrow>
                              (case unmarshal raw of
                                 None \<Rightarrow> permSet
                               | Some overrides \<Rightarrow> apply_overrides overrides permSet)))
               in Inr (permSet', rr_Level role)))"

text \<open>\<^verbatim>\<open>now1\<close> is the clock when the cached entry is examined, \<^verbatim>\<open>now2\<close> when a new one is stored.\<close>

definition HasPermission ::
  "(string \<Rightarrow> (string, bool) gomap option) \<Rightarrow> 's rbac_store \<Rightarrow> go_time \<Rightarrow> go_time \<Rightarrow> uuid \<Rightarrow> uuid \<Rightarrow> string \<Rightarrow> 's \<Rightarrow>
   enforcer \<Rightarrow> bool result \<times> enforcer" where
  "HasPermission unmarshal R now1 now2 userID companyID permission s e =
     (let key = cache_key userID companyID;
          miss = (\<lambda>e'. case load_permissions unmarshal R userID companyID s of
                     Inl err \<Rightarrow> (Inl err, e')
                   | Inr (permSet, level) \<Rightarrow>
                       (Inr (gm_get_or False permSet permission),
                        e'\<lparr>en_cache := gm_put key \<lparr>ch_permissions = permSet, ch_roleLevel = level,
                                                   ch_expiresAt = now2 + en_cacheTTL e'\<rparr> (en_cache e')\<rparr>))
      in case gm_get (en_cache e) key of
           None \<Rightarrow> miss e
         | Some ce \<Rightarrow>
             if now1 < ch_expiresAt ce then (Inr (gm_get_or False (ch_permissions ce) permission), e)
             else miss (e\<lparr>en_cache := gm_del key (en_cache e)\<rparr>))"

definition HasMinimumRole :: "'s rbac_store \<Rightarrow> uuid \<Rightarrow> uuid \<Rightarrow> role_level \<Rightarrow> 's \<Rightarrow> bool result" where
  "HasMinimumRole R userID companyID minLevel s =
     (case rs_GetUserRole R companyID userID s of
        Inl err \<Rightarrow> Inl (ErrWrap ''get user role: '' err [])
      | Inr role \<Rightarrow> Inr (rr_Level role \<ge> minLevel))"

definition CheckFeatureAction ::
  "(string \<Rightarrow> (string, bool) gomap option) \<Rightarrow> 's rbac_store \<Rightarrow> go_time \<Rightarrow> go_time \<Rightarrow> uuid \<Rightarrow> uuid \<Rightarrow> feature \<Rightarrow> string \<Rightarrow>
   's \<Rightarrow> enforcer \<Rightarrow> bool result \<times> enforcer" where
  "CheckFeatureAction unmarshal R now1 now2 userID companyID feature action s e =
     (let required = (case gm_get (en_matrix e) feature of None \<Rightarrow> None | Some am \<Rightarrow> gm_get am action);
          go = HasPermission unmarshal R now1 now2 userID companyID (feature @ '':'' @ action) s e
      in case required of
           None \<Rightarrow> go
         | Some minLevel \<Rightarrow>
             (case rs_GetUserRole R companyID userID s of
                Inl err \<Rightarrow> (Inl (ErrWrap ''get user role: '' err []), e)
              | Inr role \<Rightarrow> if rr_Level role < minLevel then (Inr False, e) else go))"

definition InvalidateCache :: "uuid \<Rightarrow> uuid \<Rightarrow> enforcer \<Rightarrow> enforcer" where
  "InvalidateCache userID companyID e = e\<lparr>en_cache := gm_del (cache_key userID companyID) (en_cache e)\<rparr>"

definition InvalidateAll :: "enforcer \<Rightarrow> enforcer" where
  "InvalidateAll e = e\<lparr>en_cache := gm_remove (\<lambda>_ _. True) (en_cache e)\<rparr>"

section \<open>The service\<close>

definition SuperAdminRoleID :: uuid where "SuperAdminRoleID = ''10000000-0000-0000-0000-000000000000''"
definition OwnerRoleID :: uuid where "OwnerRoleID = ''10000000-0000-0000-0000-000000000001''"
definition AdminRoleID :: uuid where "AdminRoleID = ''10000000-0000-0000-0000-000000000002''"
definition MemberRoleID :: uuid where "MemberRoleID = ''10000000-0000-0000-0000-000000000003''"
definition ViewerRoleID :: uuid where "ViewerRoleID = ''10000000-0000-0000-0000-000000000004''"
definition ManagerRoleID :: uuid where "ManagerRoleID = ''10000000-0000-0000-0000-000000000005''"

record 's rbac_world =
  rw_store :: 's
  rw_enforcer :: enforcer

definition RbacService_ListRoles :: "'s rbac_store \<Rightarrow> uuid \<Rightarrow> 's rbac_world \<Rightarrow> rbac_role list result" where
  "RbacService_ListRoles R companyID w = rs_ListRolesByCompany R companyID (rw_store w)"

definition RbacService_CreateRole ::
  "'s rbac_store \<Rightarrow> uuid \<Rightarrow> uuid \<Rightarrow> string \<Rightarrow> string \<Rightarrow> role_level \<Rightarrow> uuid list \<Rightarrow> 's rbac_world \<Rightarrow>
   rbac_role result \<times> 's rbac_world" where
  "RbacService_CreateRole R newid companyID name description level permissionIDs w =
     (case rs_CreateRole R newid companyID name description level (rw_store w) of
        (Inl err, s) \<Rightarrow> (Inl (ErrWrap ''create role: '' err []), w\<lparr>rw_store := s\<rparr>)
      | (Inr role, s) \<Rightarrow>
          (Inr role,
           w\<lparr>rw_store := fold (\<lambda>pid s. snd (rs_AddRolePermission R (rr_ID role) pid s)) permissionIDs s\<rparr>))"

definition RbacService_AssignRole ::
  "'s rbac_store \<Rightarrow> uuid \<Rightarrow> uuid \<Rightarrow> uuid \<Rightarrow> uuid \<Rightarrow> uuid \<Rightarrow> 's rbac_world \<Rightarrow> unit result \<times> 's rbac_world" where
  "RbacService_AssignRole R newid companyID userID roleID currentUserID w =
     (let guard = (if roleID = OwnerRoleID then
                     (case rs_GetUserRole R companyID currentUserID (rw_store w) of
                        Inl err \<Rightarrow> Some (ErrWrap ''get current user role: '' err [])
                      | Inr currentRole \<Rightarrow>
                          if rr_ID currentRole \<noteq> OwnerRoleID \<and> rr_Level currentRole < RoleLevelOwner
                          then Some (ErrMsg ''only the owner can transfer ownership'') else None)
                   else None)
      in case guard of
           Some err \<Rightarrow> (Inl err, w)
         | None \<Rightarrow>
             (case rs_AssignRoleToUser R newid companyID userID roleID (rw_store w) of
                (Inl err, s) \<Rightarrow> (Inl (ErrWrap ''assign role: '' err []), w\<lparr>rw_store := s\<rparr>)
              | (Inr _, s) \<Rightarrow> (Inr (), w\<lparr>rw_store := s, rw_enforcer := InvalidateAll (rw_enforcer w)\<rparr>)))"

definition RbacService_RemoveRole ::
  "'s rbac_store \<Rightarrow> uuid \<Rightarrow> uuid \<Rightarrow> uuid \<Rightarrow> uuid \<Rightarrow> 's rbac_world \<Rightarrow> unit result \<times> 's rbac_world" where
  "RbacService_RemoveRole R newid companyID userID roleID w =
     (if roleID = OwnerRoleID then (Inl (ErrMsg ''cannot remove the owner role''), w)
      else (case rs_AssignRoleToUser R newid companyID userID MemberRoleID (rw_store w) of
              (Inl err, s) \<Rightarrow> (Inl (ErrWrap ''reset to member role: '' err []), w\<lparr>rw_store := s\<rparr>)
            | (Inr _, s) \<Rightarrow> (Inr (), w\<lparr>rw_store := s, rw_enforcer := InvalidateAll (rw_enforcer w)\<rparr>)))"

definition RbacService_ListPermissions :: "'s rbac_store \<Rightarrow> 's rbac_world \<Rightarrow> permission list result" where
  "RbacService_ListPermissions R w = rs_ListAllPermissions R (rw_store w)"

definition RbacService_GetUserPermissions ::
  "'s rbac_store \<Rightarrow> uuid \<Rightarrow> uuid \<Rightarrow> 's rbac_world \<Rightarrow> (permission list \<times> rbac_role) result" where
  "RbacService_GetUserPermissions R companyID userID w =
     (case rs_GetUserPermissions R companyID userID (rw_store w) of
        Inl err \<Rightarrow> Inl (ErrWrap ''get user permissions: '' err [])
      | Inr perms \<Rightarrow>
          (case rs_GetUserRole R companyID userID (rw_store w) of
             Inl err \<Rightarrow> Inl (ErrWrap ''get user role: '' err [])
           | Inr role \<Rightarrow> Inr (perms, role)))"

section \<open>Resolution: reference reading\<close>

text \<open>An ancestor grants access when the user is a member there and its access level is not \<^verbatim>\<open>none\<close>.\<close>

definition grants :: "'s rbac_store \<Rightarrow> uuid \<Rightarrow> 's \<Rightarrow> company_ancestor \<Rightarrow> bool" where
  "grants R userID s a \<longleftrightarrow>
     (\<exists>m. rs_GetMembershipInCompany R (ca_CompanyID a) userID s = Inr (Some m)) \<and> ca_AccessLevel a \<noteq> Some ''none''"

definition direct_member :: "'s rbac_store \<Rightarrow> uuid \<Rightarrow> uuid \<Rightarrow> 's \<Rightarrow> bool" where
  "direct_member R companyID userID s \<longleftrightarrow>
     (\<exists>m. rs_GetMembershipInCompany R companyID userID s = Inr (Some m))"

definition capped :: "role_level \<Rightarrow> int option \<Rightarrow> role_level" where
  "capped level cap = (case cap of None \<Rightarrow> level | Some c \<Rightarrow> min c level)"

lemma resolve_at_None: "resolve_at R c u s a = None \<longleftrightarrow> \<not> grants R u s a"
  by (auto simp: resolve_at_def grants_def Let_def split: sum.splits option.splits)

lemma resolve_at_Some:
  assumes "resolve_at R c u s a = Some r"
  shows "\<exists>m. rs_GetMembershipInCompany R (ca_CompanyID a) u s = Inr (Some m) \<and> rv_RoleLevel r = rm_RoleLevel m \<and>
     rv_CappedLevel r = capped (rm_RoleLevel m) (ca_InheritedRoleCap a) \<and> rv_SourceCompany r = ca_CompanyID a \<and>
     \<not> rv_IsDirect r \<and> rv_AccessLevel r \<noteq> ''none'' \<and>
     rv_AccessLevel r = (case ca_AccessLevel a of None \<Rightarrow> ''full'' | Some x \<Rightarrow> x)"
  using assms by (auto simp: resolve_at_def capped_def Let_def split: sum.splits option.splits if_splits)

lemma resolve_walk_spec:
  "case resolve_walk R c u s as of
     None \<Rightarrow> \<forall>a\<in>set as. \<not> grants R u s a
   | Some r \<Rightarrow> \<exists>pre a post. as = pre @ a # post \<and> (\<forall>b\<in>set pre. \<not> grants R u s b) \<and> grants R u s a \<and>
                resolve_at R c u s a = Some r"
proof (induction as)
  case (Cons a as)
  show ?case
  proof (cases "resolve_at R c u s a")
    case None
    then have na: "\<not> grants R u s a" by (simp add: resolve_at_None)
    show ?thesis
    proof (cases "resolve_walk R c u s as")
      case None
      then show ?thesis using Cons na \<open>resolve_at R c u s a = None\<close> by simp
    next
      case (Some r)
      with Cons obtain pre b post where "as = pre @ b # post" "\<forall>x\<in>set pre. \<not> grants R u s x" "grants R u s b"
        "resolve_at R c u s b = Some r" by auto
      then have "a # as = (a # pre) @ b # post" "\<forall>x\<in>set (a # pre). \<not> grants R u s x" using na by auto
      with \<open>grants R u s b\<close> \<open>resolve_at R c u s b = Some r\<close>
      have "\<exists>pre b post. a # as = pre @ b # post \<and> (\<forall>x\<in>set pre. \<not> grants R u s x) \<and> grants R u s b \<and>
          resolve_at R c u s b = Some r" by blast
      then show ?thesis using \<open>resolve_at R c u s a = None\<close> Some by simp
    qed
  next
    case (Some r)
    then have "grants R u s a" using resolve_at_None [of R c u s a] by auto
    with Some show ?thesis by (auto intro: exI [of _ "[]"])
  qed
qed simp

section \<open>Freshness of the enforcer\<close>

definition is_uuid :: "uuid \<Rightarrow> bool" where
  "is_uuid u \<longleftrightarrow> length u = 36"

lemma colon_key_inj: "length a = length a' \<Longrightarrow> a @ '':'' @ b = a' @ '':'' @ b' \<longleftrightarrow> a = a' \<and> b = b'"
  by auto

lemma cache_key_inj: "is_uuid u \<Longrightarrow> is_uuid u' \<Longrightarrow> cache_key u c = cache_key u' c' \<longleftrightarrow> u = u' \<and> c = c'"
  unfolding cache_key_def is_uuid_def by (rule colon_key_inj) simp

text \<open>
  Runs of an enforcer over a store that anybody may change. The log holds the pairs of an instant and the
  store contents at that instant, newest first.
\<close>

inductive enforcer_reach ::
  "(string \<Rightarrow> (string, bool) gomap option) \<Rightarrow> 's rbac_store \<Rightarrow> (go_time \<times> 's) list \<Rightarrow> go_time \<Rightarrow> 's \<Rightarrow> enforcer \<Rightarrow> bool"
  for unmarshal :: "string \<Rightarrow> (string, bool) gomap option" and R :: "'s rbac_store" where
  new: "enforcer_reach unmarshal R [(t, s)] t s (NewEnforcer m)"
| store_change: "enforcer_reach unmarshal R log t s e \<Longrightarrow> t \<le> t' \<Longrightarrow> enforcer_reach unmarshal R ((t', s') # log) t' s' e"
| ask: "enforcer_reach unmarshal R log t s e \<Longrightarrow> t \<le> now1 \<Longrightarrow> now1 \<le> now2 \<Longrightarrow> is_uuid u \<Longrightarrow> is_uuid c \<Longrightarrow>
   HasPermission unmarshal R now1 now2 u c p s e = (r, e') \<Longrightarrow>
   enforcer_reach unmarshal R ((now2, s) # log) now2 s e'"
| invalidate: "enforcer_reach unmarshal R log t s e \<Longrightarrow> enforcer_reach unmarshal R log t s (InvalidateCache u c e)"
| invalidate_all: "enforcer_reach unmarshal R log t s e \<Longrightarrow> enforcer_reach unmarshal R log t s (InvalidateAll e)"

definition cache_inv ::
  "(string \<Rightarrow> (string, bool) gomap option) \<Rightarrow> 's rbac_store \<Rightarrow> (go_time \<times> 's) list \<Rightarrow> enforcer \<Rightarrow> bool" where
  "cache_inv unmarshal R log e \<longleftrightarrow>
     gm_ok (en_cache e) \<and> en_cacheTTL e = DefaultCacheTTL \<and>
     (\<forall>u c ce. is_uuid u \<and> is_uuid c \<and> gm_get (en_cache e) (cache_key u c) = Some ce \<longrightarrow>
        (\<exists>(t, s)\<in>set log. ch_expiresAt ce = t + DefaultCacheTTL \<and>
           load_permissions unmarshal R u c s = Inr (ch_permissions ce, ch_roleLevel ce)))"

lemma cache_inv_log: "cache_inv unmarshal R log e \<Longrightarrow> cache_inv unmarshal R (x # log) e"
  by (fastforce simp: cache_inv_def)

lemma gm_remove_all [simp]: "gm_remove (\<lambda>_ _. True) m = []"
  by (simp add: gm_remove_def)

lemma cache_inv_del:
  assumes "cache_inv unmarshal R log e"
  shows "cache_inv unmarshal R log (e\<lparr>en_cache := gm_del k (en_cache e)\<rparr>)"
  using assms by (auto simp: cache_inv_def split: if_splits)

lemma cache_inv_put:
  assumes "cache_inv unmarshal R log e" and "is_uuid u" and "is_uuid c"
    and "load_permissions unmarshal R u c s = Inr (ps, lv)"
  shows "cache_inv unmarshal R ((t, s) # log)
    (e\<lparr>en_cache := gm_put (cache_key u c) \<lparr>ch_permissions = ps, ch_roleLevel = lv,
        ch_expiresAt = t + en_cacheTTL e\<rparr> (en_cache e)\<rparr>)"
  using assms cache_inv_log [OF assms(1), of "(t, s)"]
  by (auto simp: cache_inv_def cache_key_inj)

lemma cache_inv_ask:
  assumes "cache_inv unmarshal R log e" and "is_uuid u" and "is_uuid c"
    and "HasPermission unmarshal R now1 now2 u c p s e = (r, e')"
  shows "cache_inv unmarshal R ((now2, s) # log) e'"
proof (cases "load_permissions unmarshal R u c s")
  case (Inl err)
  then have "e' = e \<or> e' = e\<lparr>en_cache := gm_del (cache_key u c) (en_cache e)\<rparr>"
    using assms(4) by (auto simp: HasPermission_def Let_def split: option.splits if_splits)
  then show ?thesis using cache_inv_log cache_inv_del assms(1) by metis
next
  case (Inr pl)
  obtain ps lv where pl: "pl = (ps, lv)" by (cases pl)
  from assms(4) Inr pl consider "e' = e" |
    "e' = e\<lparr>en_cache := gm_put (cache_key u c) \<lparr>ch_permissions = ps, ch_roleLevel = lv,
        ch_expiresAt = now2 + en_cacheTTL e\<rparr> (en_cache e)\<rparr>" |
    "e' = e\<lparr>en_cache := gm_put (cache_key u c) \<lparr>ch_permissions = ps, ch_roleLevel = lv,
        ch_expiresAt = now2 + en_cacheTTL e\<rparr> (gm_del (cache_key u c) (en_cache e))\<rparr>"
    by (auto simp: HasPermission_def Let_def split: option.splits if_splits)
  then show ?thesis
  proof cases
    case 1
    then show ?thesis using assms(1) cache_inv_log by simp
  next
    case 2
    then show ?thesis using cache_inv_put [OF assms(1-3)] Inr pl by simp
  next
    case 3
    then show ?thesis
      using cache_inv_put [OF cache_inv_del [OF assms(1), of "cache_key u c"] assms(2,3)] Inr pl by simp
  qed
qed

lemma enforcer_reach_inv: "enforcer_reach unmarshal R log t s e \<Longrightarrow> cache_inv unmarshal R log e"
proof (induction rule: enforcer_reach.induct)
  case (new t s m)
  then show ?case by (simp add: cache_inv_def NewEnforcer_def)
next
  case (store_change log t s e t' s')
  then show ?case by (simp add: cache_inv_log)
next
  case (ask log t s e now1 now2 u c p r e')
  then show ?case by (metis cache_inv_ask)
next
  case (invalidate log t s e u c)
  then show ?case by (simp add: InvalidateCache_def cache_inv_del)
next
  case (invalidate_all log t s e)
  then show ?case by (simp add: InvalidateAll_def cache_inv_def)
qed

section \<open>The store contract of the service\<close>

text \<open>
  What the service relies on: assigning an existing role to a user makes it the user's role in that company,
  clears the overrides, and leaves every other pair alone; a failed assignment changes nothing. \<open>wf\<close> is the
  well-formedness of identifiers.
\<close>

locale rbac_store_spec =
  fixes R :: "'s rbac_store"
    and wf :: "uuid \<Rightarrow> bool"
  assumes assign_failed: "rs_AssignRoleToUser R nid c u r s = (Inl err, s') \<Longrightarrow> s' = s"
    and assign_ok:
      "rs_AssignRoleToUser R nid c u r s = (Inr x, s') \<Longrightarrow>
       \<exists>role. rs_GetRoleByID R r s = Inr role \<and> rs_GetUserRole R c u s' = Inr role"
    and assign_clears:
      "rs_AssignRoleToUser R nid c u r s = (Inr x, s') \<Longrightarrow>
       \<exists>m. rs_GetMembership R c u s' = Inr m \<and> rm_PermissionOverrides m = None"
    and assign_frame:
      "rs_AssignRoleToUser R nid c u r s = (Inr x, s') \<Longrightarrow> wf c \<Longrightarrow> wf c' \<Longrightarrow> (c', u') \<noteq> (c, u) \<Longrightarrow>
       rs_GetUserRole R c' u' s' = rs_GetUserRole R c' u' s \<and> rs_GetMembership R c' u' s' = rs_GetMembership R c' u' s"
    and assign_keeps_permissions:
      "rs_AssignRoleToUser R nid c u r s = (Inr x, s') \<Longrightarrow>
       rs_ListPermissionsByRole R rid s' = rs_ListPermissionsByRole R rid s"

lemma HasPermission_miss:
  assumes "gm_get (en_cache e) (cache_key u c) = None"
  shows "fst (HasPermission unmarshal R now1 now2 u c p s e)
     = (case load_permissions unmarshal R u c s of
          Inl err \<Rightarrow> Inl err | Inr (ps, lv) \<Rightarrow> Inr (gm_get_or False ps p))"
  using assms by (simp add: HasPermission_def Let_def split: sum.splits prod.splits)

lemma InvalidateAll_cache [simp]: "en_cache (InvalidateAll e) = []"
  by (simp add: InvalidateAll_def)

context rbac_store_spec
begin

text \<open>The permission set of a user right after a role was assigned is that of the role, unmodified.\<close>

lemma load_after_assign:
  assumes "rs_AssignRoleToUser R nid c u r s = (Inr x, s')"
  shows "\<exists>role. rs_GetRoleByID R r s = Inr role \<and>
     load_permissions unmarshal R u c s' =
       (case rs_ListPermissionsByRole R (rr_ID role) s of
          Inl err \<Rightarrow> Inl (ErrWrap ''list permissions: '' err [])
        | Inr perms \<Rightarrow> Inr (fold (\<lambda>p. gm_put (pm_Feature p @ '':'' @ pm_Action p) True) perms [], rr_Level role))"
proof -
  obtain role where "rs_GetRoleByID R r s = Inr role" "rs_GetUserRole R c u s' = Inr role"
    using assign_ok [OF assms] by blast
  moreover obtain m where "rs_GetMembership R c u s' = Inr m" "rm_PermissionOverrides m = None"
    using assign_clears [OF assms] by blast
  ultimately show ?thesis
    by (auto simp: load_permissions_def assign_keeps_permissions [OF assms] Let_def split: sum.splits)
qed

lemma load_frame:
  assumes "rs_AssignRoleToUser R nid c u r s = (Inr x, s')" and "wf c" and "wf c'" and "(c', u') \<noteq> (c, u)"
  shows "load_permissions unmarshal R u' c' s' = load_permissions unmarshal R u' c' s"
  using assign_frame [OF assms] assign_keeps_permissions [OF assms(1)]
  by (simp add: load_permissions_def Let_def cong: sum.case_cong)

lemma assign_role_result:
  assumes "RbacService_AssignRole R nid c u r cur w = (Inr x, w')"
  shows "rs_AssignRoleToUser R nid c u r (rw_store w) = (Inr (), rw_store w') \<and> en_cache (rw_enforcer w') = [] \<and>
     (r = OwnerRoleID \<longrightarrow> (\<exists>role. rs_GetUserRole R c cur (rw_store w) = Inr role \<and>
                             (rr_ID role = OwnerRoleID \<or> rr_Level role \<ge> RoleLevelOwner)))"
  using assms
  by (auto simp: RbacService_AssignRole_def Let_def split: if_splits sum.splits option.splits prod.splits)

lemma assign_role_refused:
  assumes "RbacService_AssignRole R nid c u r cur w = (Inl err, w')"
  shows "w' = w"
proof -
  have "w\<lparr>rw_store := s'\<rparr> = w" if "rs_AssignRoleToUser R nid c u r (rw_store w) = (Inl e', s')" for e' s'
    using assign_failed [OF that] by simp
  then show ?thesis using assms
    by (auto simp: RbacService_AssignRole_def Let_def split: if_splits sum.splits option.splits prod.splits)
qed

end

section \<open>Properties\<close>

text \<open>
  C7: a resolved membership is the right one. If it is direct, it carries the user's role in the company
  itself, uncapped and with full access. Otherwise the user is no direct member, the source is the nearest
  ancestor (the first in the store's order) where the user is a member and access is not \<^verbatim>\<open>none\<close>, and the
  effective level is the membership's level capped by that ancestor. The effective level never exceeds the
  level of the membership and the access level is never \<^verbatim>\<open>none\<close>.
\<close>

theorem resolved_membership_sound:
  assumes "ResolveMembership R c u s = Inr r"
  shows "(if rv_IsDirect r
          then \<exists>m. rs_GetMembershipInCompany R c u s = Inr (Some m) \<and> rv_SourceCompany r = c \<and>
                   rv_RoleLevel r = rm_RoleLevel m \<and> rv_CappedLevel r = rm_RoleLevel m \<and> rv_AccessLevel r = ''full''
          else \<not> direct_member R c u s \<and>
               (\<exists>pre a post m. rs_GetCompanyAncestors R c s = Inr (pre @ a # post) \<and>
                  (\<forall>b\<in>set pre. \<not> grants R u s b) \<and> grants R u s a \<and>
                  rs_GetMembershipInCompany R (ca_CompanyID a) u s = Inr (Some m) \<and>
                  rv_SourceCompany r = ca_CompanyID a \<and> rv_RoleLevel r = rm_RoleLevel m \<and>
                  rv_CappedLevel r = capped (rm_RoleLevel m) (ca_InheritedRoleCap a) \<and>
                  rv_AccessLevel r = (case ca_AccessLevel a of None \<Rightarrow> ''full'' | Some x \<Rightarrow> x))) \<and>
         rv_CappedLevel r \<le> rv_RoleLevel r \<and> rv_AccessLevel r \<noteq> ''none''"
proof (cases "direct_member R c u s")
  case True
  then show ?thesis using assms by (auto simp: direct_member_def ResolveMembership_def)
next
  case False
  with assms obtain as where as: "rs_GetCompanyAncestors R c s = Inr as" "resolve_walk R c u s as = Some r"
    by (auto simp: direct_member_def ResolveMembership_def split: sum.splits option.splits)
  with resolve_walk_spec [where R = R and c = c and u = u and s = s and as = as] obtain pre a post where
    a: "as = pre @ a # post" "\<forall>b\<in>set pre. \<not> grants R u s b" "grants R u s a" "resolve_at R c u s a = Some r"
    by auto
  from resolve_at_Some [OF a(4)] a as False show ?thesis by (fastforce simp: capped_def split: option.splits)
qed

text \<open>A store with one company, its parent and a manager of the parent, capped at member level.\<close>

definition demo_user :: uuid where "demo_user = ''20000000-0000-0000-0000-000000000000''"
definition demo_company :: uuid where "demo_company = ''30000000-0000-0000-0000-000000000000''"
definition demo_parent :: uuid where "demo_parent = ''40000000-0000-0000-0000-000000000000''"

definition demo_role :: rbac_role where
  "demo_role = \<lparr>rr_ID = ManagerRoleID, rr_CompanyID = None, rr_Name = ''manager'', rr_Description = [],
     rr_Level = RoleLevelManager, rr_IsSystem = True\<rparr>"

definition demo_membership :: rbac_membership where
  "demo_membership = \<lparr>rm_ID = uuid_Nil, rm_CompanyID = demo_parent, rm_UserID = demo_user, rm_RoleID = ManagerRoleID,
     rm_RoleName = ''manager'', rm_RoleLevel = RoleLevelManager, rm_PermissionOverrides = None\<rparr>"

definition demo_rbac :: "unit rbac_store" where
  "demo_rbac = \<lparr>rs_GetRoleByID = (\<lambda>_ _. Inr demo_role), rs_ListRolesByCompany = (\<lambda>_ _. Inr [demo_role]),
     rs_CreateRole = (\<lambda>_ _ _ _ _ s. (Inr demo_role, s)),
     rs_ListPermissionsByRole =
       (\<lambda>_ _. Inr [\<lparr>pm_ID = uuid_Nil, pm_Feature = ''crm'', pm_Action = ''view'', pm_Resource = []\<rparr>]),
     rs_ListAllPermissions = (\<lambda>_. Inr []), rs_AddRolePermission = (\<lambda>_ _ s. (Inr (), s)),
     rs_GetUserRole = (\<lambda>_ _ _. Inr demo_role), rs_GetMembership = (\<lambda>_ _ _. Inr demo_membership),
     rs_GetUserPermissions = (\<lambda>_ _ _. Inr []), rs_AssignRoleToUser = (\<lambda>_ _ _ _ s. (Inr (), s)),
     rs_CreateMembership = (\<lambda>_ _ _ _ s. (Inr (), s)),
     rs_GetCompanyAncestors = (\<lambda>_ _. Inr [\<lparr>ca_CompanyID = demo_parent, ca_Generations = 1,
         ca_InheritedRoleCap = Some 40, ca_AccessLevel = Some ''read_only''\<rparr>]),
     rs_GetMembershipInCompany = (\<lambda>c u _. Inr (if c = demo_parent then Some demo_membership else None))\<rparr>"

theorem resolved_membership_sound_witness:
  "\<exists>r. ResolveMembership demo_rbac demo_company demo_user () = Inr r \<and> rv_CappedLevel r \<le> rv_RoleLevel r \<and>
       rv_CappedLevel r = 40 \<and> rv_RoleLevel r = 60"
proof -
  have "\<exists>r. ResolveMembership demo_rbac demo_company demo_user () = Inr r \<and> rv_CappedLevel r = 40 \<and> rv_RoleLevel r = 60"
    by (simp add: ResolveMembership_def demo_rbac_def demo_company_def demo_parent_def resolve_at_def Let_def
        demo_membership_def)
  then show ?thesis using resolved_membership_sound [of demo_rbac demo_company demo_user "()"] by blast
qed

text \<open>
  Access is decided exactly by membership: a user can access a company if and only if the user is a
  direct member or a member of an ancestor whose access level is not \<^verbatim>\<open>none\<close>; the check never fails.
\<close>

lemma can_access_iff:
  "CanAccessCompany R c u s =
     Inr (direct_member R c u s \<or>
          (\<exists>as. rs_GetCompanyAncestors R c s = Inr as \<and> (\<exists>a\<in>set as. grants R u s a)))"
proof (cases "direct_member R c u s")
  case True
  then show ?thesis by (auto simp: direct_member_def CanAccessCompany_def ResolveMembership_def)
next
  case False
  then have nd: "ResolveMembership R c u s =
      (case rs_GetCompanyAncestors R c s of
         Inl err \<Rightarrow> Inl (ErrWrap ''get company ancestors: '' err [])
       | Inr as \<Rightarrow> (case resolve_walk R c u s as of Some r \<Rightarrow> Inr r
           | None \<Rightarrow> Inl (ErrMsg (''user '' @ u @ '' has no membership for company '' @ c @ '' or its ancestors''))))"
    by (auto simp: direct_member_def ResolveMembership_def split: sum.splits option.splits)
  show ?thesis
  proof (cases "rs_GetCompanyAncestors R c s")
    case (Inl err)
    then show ?thesis using nd False by (simp add: CanAccessCompany_def)
  next
    case (Inr as)
    show ?thesis
    proof (cases "resolve_walk R c u s as")
      case None
      then show ?thesis
        using nd False Inr resolve_walk_spec [where R = R and c = c and u = u and s = s and as = as] by (simp add: CanAccessCompany_def)
    next
      case (Some r)
      with resolve_walk_spec [where R = R and c = c and u = u and s = s and as = as] obtain pre a post where
        "as = pre @ a # post" "grants R u s a" "resolve_at R c u s a = Some r" by auto
      then show ?thesis
        using nd False Inr Some resolve_at_Some [of R c u s a r] by (auto simp: CanAccessCompany_def)
    qed
  qed
qed





text \<open>
  Role names and levels agree. Every named level maps back to its name; for a level of at least viewer
  the name returned belongs to the greatest named level that does not exceed it; and what a role name is
  allowed to do by a matrix, every role name of a higher level is allowed to do.
\<close>

lemma role_names_agree:
  "(\<forall>name level. gm_get RoleLevelByName name = Some level \<longrightarrow> RoleNameByLevel level = name) \<and>
   (\<forall>level \<ge> RoleLevelViewer. \<exists>l. gm_get RoleLevelByName (RoleNameByLevel level) = Some l \<and> l \<le> level \<and>
      (\<forall>n l'. gm_get RoleLevelByName n = Some l' \<and> l' \<le> level \<longrightarrow> l' \<le> l)) \<and>
   (\<forall>n n' l l'. gm_get RoleLevelByName n = Some l \<and> gm_get RoleLevelByName n' = Some l' \<and> l \<le> l' \<and>
      AllowedByRoleName matrix n f a \<longrightarrow> AllowedByRoleName matrix n' f a)"
  by (auto simp: RoleLevelByName_def RoleNameByLevel_def gm_get_def AllowedByRoleName_def
      split: if_splits option.splits)

theorem role_names_agree_witness:
  "RoleNameByLevel 80 = ''admin'' \<and> (\<exists>l. gm_get RoleLevelByName (RoleNameByLevel 65) = Some l \<and> l \<le> 65)"
proof -
  have "gm_get RoleLevelByName ''admin'' = Some 80" by (simp add: RoleLevelByName_def gm_get_def)
  moreover have "(65 :: role_level) \<ge> RoleLevelViewer" by simp
  ultimately show ?thesis using role_names_agree by blast
qed

end
