(* ===== verification/Auth.thy ===== *)
theory Auth
  imports Rbac
begin

text \<open>
  Authentication: the types and the store interface of \<^verbatim>\<open>src/platform/auth/store.go\<close> and the service of
  \<^verbatim>\<open>src/platform/auth/service.go\<close> (sign-up in a transaction, login, refresh-token rotation, logout).

  The store is a record of operations over a state; a transaction is a state of its own, begun from the
  current one and committed over it. Cryptography and the standard library's address parser are
  parameters collected in \<open>auth_env\<close>: password hashing and verification, SHA-256, the signing and
  validation of tokens, \<^verbatim>\<open>mail.ParseAddress\<close> and \<^verbatim>\<open>time.Now().Format\<close>. Each call has its own environment,
  since token minting is randomised.
\<close>

section \<open>Types\<close>

definition ErrNoJITMatch :: go_error where
  "ErrNoJITMatch = ErrVar ''auth: no jit-enabled sso_config matches issuer+domain''"

definition ErrAmbiguousJITMatch :: go_error where
  "ErrAmbiguousJITMatch = ErrVar ''auth: ambiguous jit-enabled sso_config match for issuer+domain''"

record user =
  us_ID :: uuid
  us_Email :: string
  us_PasswordHash :: string
  us_DisplayName :: string
  us_AvatarURL :: string
  us_IsActive :: bool
  us_CreatedAt :: go_time

record auth_membership =
  am_CompanyID :: uuid
  am_UserID :: uuid
  am_RoleID :: uuid
  am_RoleName :: string

record auth_role =
  ar_ID :: uuid
  ar_Name :: string
  ar_Description :: string
  ar_RoleLevel :: int

record sso_config =
  sc_CompanyID :: uuid
  sc_Provider :: string
  sc_IssuerURL :: string
  sc_ClientID :: string
  sc_ClientSecret :: string
  sc_MetadataURL :: string
  sc_DisplayName :: string
  sc_ExtraScopes :: "string list"
  sc_EnforceSSO :: bool
  sc_IsActive :: bool
  sc_EmailDomainAllowlist :: "string list"
  sc_JITDefaultRole :: string
  sc_JITEnabled :: bool

record oauth_credential =
  oc_CompanyID :: uuid
  oc_UserID :: uuid
  oc_Provider :: string
  oc_AccessToken :: string
  oc_RefreshToken :: string
  oc_TokenExpiry :: go_time
  oc_Scopes :: "string list"

record refresh_token_record =
  rt_UserID :: uuid
  rt_TokenHash :: string
  rt_ExpiresAt :: go_time

text \<open>
  The store. Operations that create rows take the identifier and the clock reading they use; the expiry
  test of \<^verbatim>\<open>GetRefreshToken\<close> takes the clock reading too.
\<close>

record 's auth_store =
  as_GetUserByEmail :: "string \<Rightarrow> 's \<Rightarrow> user result"
  as_GetUserByID :: "uuid \<Rightarrow> 's \<Rightarrow> user result"
  as_CreateUser :: "uuid \<Rightarrow> go_time \<Rightarrow> string \<Rightarrow> string \<Rightarrow> string \<Rightarrow> 's \<Rightarrow> user result \<times> 's"
  as_UpdateUser :: "uuid \<Rightarrow> string \<Rightarrow> string \<Rightarrow> 's \<Rightarrow> user result \<times> 's"
  as_CreateCompany :: "uuid \<Rightarrow> go_time \<Rightarrow> string \<Rightarrow> string \<Rightarrow> string \<Rightarrow> 's \<Rightarrow> uuid result \<times> 's"
  as_CreateCompanyMembership :: "uuid \<Rightarrow> uuid \<Rightarrow> uuid \<Rightarrow> 's \<Rightarrow> unit result \<times> 's"
  as_GetCompanyMembershipByUser :: "uuid \<Rightarrow> 's \<Rightarrow> auth_membership result"
  as_GetRoleByID :: "uuid \<Rightarrow> 's \<Rightarrow> auth_role result"
  as_GetUserRole :: "uuid \<Rightarrow> uuid \<Rightarrow> 's \<Rightarrow> auth_role result"
  as_CreateRefreshToken :: "uuid \<Rightarrow> string \<Rightarrow> go_time \<Rightarrow> 's \<Rightarrow> unit result \<times> 's"
  as_GetRefreshToken :: "go_time \<Rightarrow> string \<Rightarrow> 's \<Rightarrow> refresh_token_record result"
  as_RevokeRefreshToken :: "string \<Rightarrow> 's \<Rightarrow> unit result \<times> 's"
  as_CreateAuditLog ::
    "uuid \<Rightarrow> uuid \<Rightarrow> string \<Rightarrow> string \<Rightarrow> string \<Rightarrow> string \<Rightarrow> string \<Rightarrow> 's \<Rightarrow> unit result \<times> 's"
  as_BeginTx :: "'s \<Rightarrow> 's result"
  as_Commit :: "'s \<Rightarrow> 's \<Rightarrow> unit result \<times> 's"

record auth_env =
  ae_ParseAddress :: "string \<Rightarrow> unit result"
  ae_Hash :: "string \<Rightarrow> string result"
  ae_Verify :: "string \<Rightarrow> string \<Rightarrow> bool result"
  ae_Sha256Hex :: "string \<Rightarrow> string"
  ae_CreateAccessToken :: "string \<Rightarrow> string \<Rightarrow> string \<Rightarrow> int \<Rightarrow> string list \<Rightarrow> string result"
  ae_CreateAccessTokenWithScopes :: "string \<Rightarrow> string \<Rightarrow> string \<Rightarrow> int \<Rightarrow> string list \<Rightarrow> string list \<Rightarrow> string result"
  ae_CreateRefreshToken :: "string \<Rightarrow> string result"
  ae_ValidateRefreshToken :: "string \<Rightarrow> unit result"
  ae_RefreshTokenExpiry :: duration
  ae_TimeHHMMSS :: string
  ae_now :: go_time

section \<open>The service\<close>

record auth_response =
  rp_AccessToken :: string
  rp_RefreshToken :: string
  rp_User :: user

definition HashToken :: "auth_env \<Rightarrow> string \<Rightarrow> string" where
  "HashToken E token = ae_Sha256Hex E token"

definition validateEmail :: "auth_env \<Rightarrow> string \<Rightarrow> unit result" where
  "validateEmail E email = ae_ParseAddress E email"

definition slug_char :: "char \<Rightarrow> bool" where
  "slug_char c \<longleftrightarrow> (CHR ''a'' \<le> c \<and> c \<le> CHR ''z'') \<or> (CHR ''0'' \<le> c \<and> c \<le> CHR ''9'') \<or> c = CHR ''-''"

definition slug_base :: "string \<Rightarrow> string" where
  "slug_base name = filter slug_char (map (\<lambda>c. if c = CHR '' '' then CHR ''-'' else c) (ToLower (TrimSpace name)))"

definition generateSlug :: "auth_env \<Rightarrow> string \<Rightarrow> string" where
  "generateSlug E name =
     (let s = slug_base name
      in (if s = [] then ''default-company'' else s) @ ''-'' @ ae_TimeHHMMSS E)"

text \<open>The store calls of \<^verbatim>\<open>SignUp\<close> inside its transaction: a response and the transaction's state.\<close>

definition signup_tx ::
  "'s auth_store \<Rightarrow> auth_env \<Rightarrow> bool \<Rightarrow> uuid \<Rightarrow> uuid \<Rightarrow> string \<Rightarrow> string \<Rightarrow> string \<Rightarrow> 's \<Rightarrow> auth_response result \<times> 's" where
  "signup_tx A E b2cMode uid cid email0 hashedPassword displayName tx =
     (let email = ToLower (TrimSpace email0)
      in case as_CreateUser A uid (ae_now E) email hashedPassword (TrimSpace displayName) tx of
           (Inl err, tx1) \<Rightarrow>
             if Contains (error_text err) ''duplicate key'' \<or> Contains (error_text err) ''unique constraint''
             then (Inl (ErrMsg ''an account with this email already exists''), tx1)
             else (Inl (ErrWrap ''create user: '' err []), tx1)
         | (Inr user, tx1) \<Rightarrow>
             let companyName = (if b2cMode then TrimSpace displayName else TrimSpace displayName @ [CHR 0x27] @ ''s Company'');
                 companySlug = (if b2cMode then ''personal-'' @ take 8 (us_ID user) else generateSlug E displayName);
                 companyType = (if b2cMode then ''personal'' else ''standalone'')
             in (case as_CreateCompany A cid (ae_now E) companyName companySlug companyType tx1 of
                   (Inl err, tx2) \<Rightarrow> (Inl (ErrWrap ''create company: '' err []), tx2)
                 | (Inr companyID, tx2) \<Rightarrow>
                     (case as_CreateCompanyMembership A companyID (us_ID user) OwnerRoleID tx2 of
                        (Inl err, tx3) \<Rightarrow> (Inl (ErrWrap ''create company membership: '' err []), tx3)
                      | (Inr _, tx3) \<Rightarrow>
                          (case ae_CreateAccessToken E (us_ID user) companyID ''owner'' 90 [companyID] of
                             Inl err \<Rightarrow> (Inl (ErrWrap ''create access token: '' err []), tx3)
                           | Inr accessToken \<Rightarrow>
                               (case ae_CreateRefreshToken E (us_ID user) of
                                  Inl err \<Rightarrow> (Inl (ErrWrap ''create refresh token: '' err []), tx3)
                                | Inr refreshToken \<Rightarrow>
                                    (case as_CreateRefreshToken A (us_ID user) (HashToken E refreshToken)
                                            (ae_now E + ae_RefreshTokenExpiry E) tx3 of
                                       (Inl err, tx4) \<Rightarrow> (Inl (ErrWrap ''store refresh token: '' err []), tx4)
                                     | (Inr _, tx4) \<Rightarrow>
                                         (Inr \<lparr>rp_AccessToken = accessToken, rp_RefreshToken = refreshToken,
                                               rp_User = user\<rparr>,
                                          snd (as_CreateAuditLog A companyID (us_ID user) ''user.signup'' ''user''
                                                 (us_ID user) [] ''{}'' tx4))))))))"

definition AuthService_SignUp ::
  "'s auth_store \<Rightarrow> auth_env \<Rightarrow> bool \<Rightarrow> uuid \<Rightarrow> uuid \<Rightarrow> string \<Rightarrow> string \<Rightarrow> string \<Rightarrow> 's \<Rightarrow> auth_response result \<times> 's" where
  "AuthService_SignUp A E b2cMode uid cid email password displayName s =
     (case validateEmail E email of
        Inl err \<Rightarrow> (Inl (ErrWrap ''invalid email: '' err []), s)
      | Inr _ \<Rightarrow>
          if length password < 8 then (Inl (ErrMsg ''password must be at least 8 characters''), s)
          else if TrimSpace displayName = [] then (Inl (ErrMsg ''display name is required''), s)
          else (case ae_Hash E password of
                  Inl err \<Rightarrow> (Inl (ErrWrap ''hash password: '' err []), s)
                | Inr hashedPassword \<Rightarrow>
                    (case as_BeginTx A s of
                       Inl err \<Rightarrow> (Inl (ErrWrap ''begin transaction: '' err []), s)
                     | Inr tx \<Rightarrow>
                         (case signup_tx A E b2cMode uid cid email hashedPassword displayName tx of
                            (Inl err, _) \<Rightarrow> (Inl err, s)
                          | (Inr resp, tx') \<Rightarrow>
                              (case as_Commit A tx' s of
                                 (Inl err, s') \<Rightarrow> (Inl (ErrWrap ''commit transaction: '' err []), s')
                               | (Inr _, s') \<Rightarrow> (Inr resp, s'))))))"

definition invalid_credentials :: go_error where
  "invalid_credentials = ErrMsg ''invalid credentials''"

text \<open>The credential check \<^verbatim>\<open>Login\<close> and \<^verbatim>\<open>SignInNavigators\<close> share.\<close>

definition check_credentials :: "'s auth_store \<Rightarrow> auth_env \<Rightarrow> string \<Rightarrow> string \<Rightarrow> 's \<Rightarrow> user result" where
  "check_credentials A E email password s =
     (case as_GetUserByEmail A (ToLower (TrimSpace email)) s of
        Inl _ \<Rightarrow> Inl invalid_credentials
      | Inr user \<Rightarrow>
          if \<not> us_IsActive user then Inl invalid_credentials
          else (case ae_Verify E password (us_PasswordHash user) of
                  Inl _ \<Rightarrow> Inl invalid_credentials
                | Inr match \<Rightarrow> if \<not> match then Inl invalid_credentials else Inr user))"

text \<open>Minting and storing a refresh token, then the audit row, after the access token was made.\<close>

definition finish_login ::
  "'s auth_store \<Rightarrow> auth_env \<Rightarrow> user \<Rightarrow> uuid \<Rightarrow> string \<Rightarrow> string \<Rightarrow> string \<Rightarrow> 's \<Rightarrow> auth_response result \<times> 's" where
  "finish_login A E user companyID accessToken action details s =
     (case ae_CreateRefreshToken E (us_ID user) of
        Inl err \<Rightarrow> (Inl (ErrWrap ''create refresh token: '' err []), s)
      | Inr refreshToken \<Rightarrow>
          (case as_CreateRefreshToken A (us_ID user) (HashToken E refreshToken)
                  (ae_now E + ae_RefreshTokenExpiry E) s of
             (Inl err, s1) \<Rightarrow> (Inl (ErrWrap ''store refresh token: '' err []), s1)
           | (Inr _, s1) \<Rightarrow>
               (Inr \<lparr>rp_AccessToken = accessToken, rp_RefreshToken = refreshToken, rp_User = user\<rparr>,
                snd (as_CreateAuditLog A companyID (us_ID user) action ''user'' (us_ID user) [] details s1))))"

definition AuthService_Login ::
  "'s auth_store \<Rightarrow> auth_env \<Rightarrow> string \<Rightarrow> string \<Rightarrow> 's \<Rightarrow> auth_response result \<times> 's" where
  "AuthService_Login A E email password s =
     (case check_credentials A E email password s of
        Inl err \<Rightarrow> (Inl err, s)
      | Inr user \<Rightarrow>
          (case as_GetCompanyMembershipByUser A (us_ID user) s of
             Inl err \<Rightarrow> (Inl (ErrWrap ''get company membership: '' err []), s)
           | Inr membership \<Rightarrow>
               (case as_GetRoleByID A (am_RoleID membership) s of
                  Inl err \<Rightarrow> (Inl (ErrWrap ''get role: '' err []), s)
                | Inr role \<Rightarrow>
                    let companyID = am_CompanyID membership
                    in (case ae_CreateAccessToken E (us_ID user) companyID (ar_Name role) (ar_RoleLevel role) [companyID] of
                          Inl err \<Rightarrow> (Inl (ErrWrap ''create access token: '' err []), s)
                        | Inr accessToken \<Rightarrow>
                            finish_login A E user companyID accessToken ''user.login'' ''{}'' s))))"

definition navigators_details :: string where
  "navigators_details = ''{'' @ [CHR 0x22] @ ''client'' @ [CHR 0x22] @ '':'' @ [CHR 0x22] @ ''navigators'' @ [CHR 0x22] @ ''}''"

definition AuthService_SignInNavigators ::
  "'s auth_store \<Rightarrow> auth_env \<Rightarrow> string \<Rightarrow> string \<Rightarrow> 's \<Rightarrow> auth_response result \<times> 's" where
  "AuthService_SignInNavigators A E email password s =
     (case check_credentials A E email password s of
        Inl err \<Rightarrow> (Inl err, s)
      | Inr user \<Rightarrow>
          (case as_GetCompanyMembershipByUser A (us_ID user) s of
             Inl err \<Rightarrow> (Inl (ErrWrap ''get company membership: '' err []), s)
           | Inr membership \<Rightarrow>
               let companyID = am_CompanyID membership
               in (case ae_CreateAccessTokenWithScopes E (us_ID user) companyID [] 0 [companyID] [''volunteer:field''] of
                     Inl err \<Rightarrow> (Inl (ErrWrap ''create navigators access token: '' err []), s)
                   | Inr accessToken \<Rightarrow>
                       finish_login A E user companyID accessToken ''user.login_navigators'' navigators_details s)))"

definition AuthService_RefreshToken ::
  "'s auth_store \<Rightarrow> auth_env \<Rightarrow> string \<Rightarrow> 's \<Rightarrow> auth_response result \<times> 's" where
  "AuthService_RefreshToken A E refreshTokenStr s =
     (case ae_ValidateRefreshToken E refreshTokenStr of
        Inl _ \<Rightarrow> (Inl (ErrMsg ''invalid refresh token''), s)
      | Inr _ \<Rightarrow>
          let tokenHash = HashToken E refreshTokenStr
          in case as_GetRefreshToken A (ae_now E) tokenHash s of
               Inl _ \<Rightarrow> (Inl (ErrMsg ''refresh token not found or expired''), s)
             | Inr storedToken \<Rightarrow>
                 (case as_RevokeRefreshToken A tokenHash s of
                    (Inl err, s1) \<Rightarrow> (Inl (ErrWrap ''revoke old refresh token: '' err []), s1)
                  | (Inr _, s1) \<Rightarrow>
                      (case as_GetUserByID A (rt_UserID storedToken) s1 of
                         Inl err \<Rightarrow> (Inl (ErrWrap ''get user: '' err []), s1)
                       | Inr user \<Rightarrow>
                           (case as_GetCompanyMembershipByUser A (us_ID user) s1 of
                              Inl err \<Rightarrow> (Inl (ErrWrap ''get company membership: '' err []), s1)
                            | Inr membership \<Rightarrow>
                                (case as_GetRoleByID A (am_RoleID membership) s1 of
                                   Inl err \<Rightarrow> (Inl (ErrWrap ''get role: '' err []), s1)
                                 | Inr role \<Rightarrow>
                                     let companyID = am_CompanyID membership
                                     in (case ae_CreateAccessToken E (us_ID user) companyID (ar_Name role)
                                                (ar_RoleLevel role) [companyID] of
                                           Inl err \<Rightarrow> (Inl (ErrWrap ''create access token: '' err []), s1)
                                         | Inr newAccessToken \<Rightarrow>
                                             (case ae_CreateRefreshToken E (us_ID user) of
                                                Inl err \<Rightarrow> (Inl (ErrWrap ''create refresh token: '' err []), s1)
                                              | Inr newRefreshToken \<Rightarrow>
                                                  (case as_CreateRefreshToken A (us_ID user) (HashToken E newRefreshToken)
                                                          (ae_now E + ae_RefreshTokenExpiry E) s1 of
                                                     (Inl err, s2) \<Rightarrow>
                                                       (Inl (ErrWrap ''store new refresh token: '' err []), s2)
                                                   | (Inr _, s2) \<Rightarrow>
                                                       (Inr \<lparr>rp_AccessToken = newAccessToken,
                                                             rp_RefreshToken = newRefreshToken,
                                                             rp_User = user\<rparr>, s2)))))))))"

definition AuthService_UpdateProfile ::
  "'s auth_store \<Rightarrow> uuid \<Rightarrow> string \<Rightarrow> string \<Rightarrow> 's \<Rightarrow> user result \<times> 's" where
  "AuthService_UpdateProfile A userID displayName avatarURL s =
     (if TrimSpace displayName = [] then (Inl (ErrMsg ''display name is required''), s)
      else as_UpdateUser A userID (TrimSpace displayName) (TrimSpace avatarURL) s)"

definition AuthService_Logout :: "'s auth_store \<Rightarrow> auth_env \<Rightarrow> string \<Rightarrow> 's \<Rightarrow> unit result \<times> 's" where
  "AuthService_Logout A E refreshTokenStr s = as_RevokeRefreshToken A (HashToken E refreshTokenStr) s"

definition AuthService_RememberRefreshToken ::
  "'s auth_store \<Rightarrow> auth_env \<Rightarrow> uuid \<Rightarrow> string \<Rightarrow> go_time \<Rightarrow> 's \<Rightarrow> unit result \<times> 's" where
  "AuthService_RememberRefreshToken A E userID refreshTokenStr expiresAt s =
     as_CreateRefreshToken A userID (HashToken E refreshTokenStr) expiresAt s"

definition AuthService_GetUserByID :: "'s auth_store \<Rightarrow> uuid \<Rightarrow> 's \<Rightarrow> user result" where
  "AuthService_GetUserByID A uid s = as_GetUserByID A uid s"

definition AuthService_GetUserByEmail :: "'s auth_store \<Rightarrow> string \<Rightarrow> 's \<Rightarrow> user result" where
  "AuthService_GetUserByEmail A email s = as_GetUserByEmail A (ToLower (TrimSpace email)) s"

definition AuthService_CreateUser ::
  "'s auth_store \<Rightarrow> uuid \<Rightarrow> go_time \<Rightarrow> string \<Rightarrow> string \<Rightarrow> string \<Rightarrow> 's \<Rightarrow> user result \<times> 's" where
  "AuthService_CreateUser A uid now email passwordHash displayName s =
     as_CreateUser A uid now (ToLower (TrimSpace email)) passwordHash (TrimSpace displayName) s"

section \<open>The refresh-token contract of a store\<close>

text \<open>
  What token rotation relies on: \<open>has s h\<close> says that the store holds a token with hash \<open>h\<close>. Only storing a
  token adds its hash, revoking removes it, and a token that is not held is not found. A commit installs
  the transaction's tokens.
\<close>

locale token_store_spec =
  fixes A :: "'s auth_store"
    and has :: "'s \<Rightarrow> string \<Rightarrow> bool"
  assumes get_needs: "as_GetRefreshToken A now h s = Inr rec \<Longrightarrow> has s h"
    and create_token: "as_CreateRefreshToken A u h' ex s = (r, s') \<Longrightarrow> has s' h \<Longrightarrow> has s h \<or> h = h'"
    and revoke_token: "as_RevokeRefreshToken A h' s = (r, s') \<Longrightarrow> has s' h \<Longrightarrow> has s h"
    and revoke_removes: "as_RevokeRefreshToken A h s = (Inr x, s') \<Longrightarrow> \<not> has s' h"
    and revoke_total: "\<exists>s'. as_RevokeRefreshToken A h s = (Inr (), s')"
    and others:
      "as_CreateUser A uid now em pw dn s = (r1, s') \<Longrightarrow> has s' h \<Longrightarrow> has s h"
      "as_UpdateUser A uid dn av s = (r2, s') \<Longrightarrow> has s' h \<Longrightarrow> has s h"
      "as_CreateCompany A cid now nm sl ty s = (r3, s') \<Longrightarrow> has s' h \<Longrightarrow> has s h"
      "as_CreateCompanyMembership A cid uid rid s = (r4, s') \<Longrightarrow> has s' h \<Longrightarrow> has s h"
      "as_CreateAuditLog A cid uid a b c d e s = (r5, s') \<Longrightarrow> has s' h \<Longrightarrow> has s h"
      "as_BeginTx A s = Inr s' \<Longrightarrow> has s' h \<Longrightarrow> has s h"
      "as_Commit A tx s = (r6, s') \<Longrightarrow> has s' h \<Longrightarrow> has s h \<or> has tx h"

text \<open>The service calls that can follow, each with its environment.\<close>

datatype auth_call =
    CallSignUp auth_env bool uuid uuid string string string
  | CallLogin auth_env string string
  | CallNavigators auth_env string string
  | CallRefresh auth_env string
  | CallProfile uuid string string
  | CallLogout auth_env string

fun auth_exec :: "'s auth_store \<Rightarrow> auth_call \<Rightarrow> 's \<Rightarrow> 's" where
  "auth_exec A (CallSignUp E b uid cid em pw dn) s = snd (AuthService_SignUp A E b uid cid em pw dn s)"
| "auth_exec A (CallLogin E em pw) s = snd (AuthService_Login A E em pw s)"
| "auth_exec A (CallNavigators E em pw) s = snd (AuthService_SignInNavigators A E em pw s)"
| "auth_exec A (CallRefresh E tok) s = snd (AuthService_RefreshToken A E tok s)"
| "auth_exec A (CallProfile uid dn av) s = snd (AuthService_UpdateProfile A uid dn av s)"
| "auth_exec A (CallLogout E tok) s = snd (AuthService_Logout A E tok s)"

text \<open>No token minted by the call hashes to \<open>h\<close>.\<close>

definition mints_not :: "auth_env \<Rightarrow> string \<Rightarrow> bool" where
  "mints_not E h \<longleftrightarrow> (\<forall>u tok. ae_CreateRefreshToken E u = Inr tok \<longrightarrow> HashToken E tok \<noteq> h)"

fun call_mints_not :: "string \<Rightarrow> auth_call \<Rightarrow> bool" where
  "call_mints_not h (CallSignUp E _ _ _ _ _ _) \<longleftrightarrow> mints_not E h"
| "call_mints_not h (CallLogin E _ _) \<longleftrightarrow> mints_not E h"
| "call_mints_not h (CallNavigators E _ _) \<longleftrightarrow> mints_not E h"
| "call_mints_not h (CallRefresh E _) \<longleftrightarrow> mints_not E h"
| "call_mints_not h _ \<longleftrightarrow> True"

context token_store_spec
begin

lemma finish_login_has:
  assumes "finish_login A E user cid at act det s = (r, s')" and "mints_not E h" and "has s' h"
  shows "has s h"
proof (cases "ae_CreateRefreshToken E (us_ID user)")
  case (Inl e)
  then show ?thesis using assms(1,3) by (simp add: finish_login_def)
next
  case (Inr tok)
  obtain q s1 where c: "as_CreateRefreshToken A (us_ID user) (HashToken E tok) (ae_now E + ae_RefreshTokenExpiry E) s = (q, s1)"
    by fastforce
  have ne: "HashToken E tok \<noteq> h" using assms(2) Inr by (auto simp: mints_not_def)
  have "has s1 h"
  proof (cases q)
    case (Inl e)
    then show ?thesis using assms(1,3) Inr c by (simp add: finish_login_def)
  next
    case q: (Inr x)
    obtain r5 s2 where l: "as_CreateAuditLog A cid (us_ID user) act ''user'' (us_ID user) [] det s1 = (r5, s2)" by fastforce
    then have "s' = s2" using assms(1) Inr q c by (simp add: finish_login_def)
    then show ?thesis using others(5) [OF l] assms(3) by simp
  qed
  then show ?thesis using create_token [OF c] ne by blast
qed

lemma finish_login_snd: "mints_not E h \<Longrightarrow> has (snd (finish_login A E user cid at act det s)) h \<Longrightarrow> has s h"
  by (rule finish_login_has [OF surjective_pairing])

lemma login_has:
  assumes "mints_not E h" and "has (snd (AuthService_Login A E em pw s)) h"
  shows "has s h"
  using assms(2)
  by (auto simp: AuthService_Login_def Let_def dest: finish_login_snd [OF assms(1)] split: sum.splits)

lemma navigators_has:
  assumes "mints_not E h" and "has (snd (AuthService_SignInNavigators A E em pw s)) h"
  shows "has s h"
  using assms(2)
  by (auto simp: AuthService_SignInNavigators_def Let_def dest: finish_login_snd [OF assms(1)] split: sum.splits)

lemma signup_tx_has:
  assumes "signup_tx A E b uid cid em hp dn tx = (Inr resp, tx')" and "mints_not E h" and "has tx' h"
  shows "has tx h"
proof -
  from assms(1) obtain user tx1 nm sl ty cid' tx2 tx3 tok tx4 where
    c1: "as_CreateUser A uid (ae_now E) (ToLower (TrimSpace em)) hp (TrimSpace dn) tx = (Inr user, tx1)"
    and c2: "as_CreateCompany A cid (ae_now E) nm sl ty tx1 = (Inr cid', tx2)"
    and c3: "as_CreateCompanyMembership A cid' (us_ID user) OwnerRoleID tx2 = (Inr (), tx3)"
    and tok: "ae_CreateRefreshToken E (us_ID user) = Inr tok"
    and c4: "as_CreateRefreshToken A (us_ID user) (HashToken E tok) (ae_now E + ae_RefreshTokenExpiry E) tx3 = (Inr (), tx4)"
    and c5: "tx' = snd (as_CreateAuditLog A cid' (us_ID user) ''user.signup'' ''user'' (us_ID user) [] ''{}'' tx4)"
    by (auto simp: signup_tx_def Let_def split: sum.splits prod.splits if_splits)
  have "HashToken E tok \<noteq> h" using assms(2) tok by (auto simp: mints_not_def)
  moreover have "has tx4 h" using others(5) assms(3) c5 by (metis prod.collapse)
  ultimately have "has tx3 h" using create_token [OF c4] by blast
  then show ?thesis using others(1) [OF c1] others(3) [OF c2] others(4) [OF c3] by blast
qed

lemma signup_has:
  assumes "mints_not E h" and "has (snd (AuthService_SignUp A E b uid cid em pw dn s)) h"
  shows "has s h"
proof -
  obtain q s' where eq: "AuthService_SignUp A E b uid cid em pw dn s = (q, s')" by fastforce
  then have h: "has s' h" using assms(2) by simp
  from eq have "s' = s \<or> (\<exists>hp tx resp tx' q. as_BeginTx A s = Inr tx \<and>
      signup_tx A E b uid cid em hp dn tx = (Inr resp, tx') \<and> as_Commit A tx' s = (q, s'))"
    by (auto simp: AuthService_SignUp_def split: sum.splits prod.splits if_splits)
  then show ?thesis
  proof (elim disjE exE conjE)
    fix hp tx resp tx' q
    assume c: "as_BeginTx A s = Inr tx" "signup_tx A E b uid cid em hp dn tx = (Inr resp, tx')"
      "as_Commit A tx' s = (q, s')"
    show ?thesis using others(7) [OF c(3) h] signup_tx_has [OF c(2) assms(1)] others(6) [OF c(1)] by blast
  qed (use h in simp)
qed

lemma refresh_has:
  assumes "mints_not E h" and "has (snd (AuthService_RefreshToken A E tok s)) h"
  shows "has s h \<and>
    ((\<exists>resp. fst (AuthService_RefreshToken A E tok s) = Inr resp) \<longrightarrow> h \<noteq> HashToken E tok)"
proof -
  obtain s1 where rv: "as_RevokeRefreshToken A (HashToken E tok) s = (Inr (), s1)" using revoke_total by blast
  obtain q s' where eq: "AuthService_RefreshToken A E tok s = (q, s')" by fastforce
  then have h: "has s' h" using assms(2) by simp
  from eq have "s' = s \<and> (\<exists>e. q = Inl e) \<or> s' = s1 \<or> (\<exists>u nt q. ae_CreateRefreshToken E u = Inr nt \<and>
      as_CreateRefreshToken A u (HashToken E nt) (ae_now E + ae_RefreshTokenExpiry E) s1 = (q, s'))"
    by (auto simp: AuthService_RefreshToken_def rv Let_def split: sum.splits prod.splits)
  then show ?thesis
  proof (elim disjE exE conjE)
    assume "s' = s1"
    then show ?thesis using h revoke_token [OF rv] revoke_removes [OF rv] by auto
  next
    fix u nt q
    assume c: "ae_CreateRefreshToken E u = Inr nt"
      "as_CreateRefreshToken A u (HashToken E nt) (ae_now E + ae_RefreshTokenExpiry E) s1 = (q, s')"
    then have "HashToken E nt \<noteq> h" using assms(1) by (auto simp: mints_not_def)
    then have "has s1 h" using create_token [OF c(2) h] by blast
    then show ?thesis using revoke_token [OF rv] revoke_removes [OF rv] by auto
  qed (use h eq in auto)
qed

lemma exec_has:
  assumes "call_mints_not h c" and "has (auth_exec A c s) h"
  shows "has s h"
proof (cases c)
  case (CallProfile uid dn av)
  then show ?thesis using assms others(2)
    by (auto simp: AuthService_UpdateProfile_def split: if_splits) (metis prod.collapse)
next
  case (CallLogout E tok)
  then show ?thesis using assms revoke_token by (simp add: AuthService_Logout_def) (metis prod.collapse)
next
  case (CallSignUp E b uid cid em pw dn)
  then show ?thesis using assms by (simp add: signup_has)
next
  case (CallLogin E em pw)
  then show ?thesis using assms login_has by simp
next
  case (CallNavigators E em pw)
  then show ?thesis using assms navigators_has by simp
next
  case (CallRefresh E tok)
  then show ?thesis using assms refresh_has by simp
qed

lemma run_has:
  "\<forall>c\<in>set cs. call_mints_not h c \<Longrightarrow> has (fold (auth_exec A) cs s) h \<Longrightarrow> has s h"
  by (induction cs arbitrary: s) (auto dest: exec_has)

text \<open>Once a token has been exchanged, no later refresh with it succeeds.\<close>

lemma refresh_single_use:
  assumes "fst (AuthService_RefreshToken A E tok s) = Inr resp" and "mints_not E (HashToken E tok)"
    and "\<forall>c\<in>set cs. call_mints_not (HashToken E tok) c" and "HashToken E' tok = HashToken E tok"
  shows "\<exists>e. AuthService_RefreshToken A E' tok (fold (auth_exec A) cs (snd (AuthService_RefreshToken A E tok s)))
           = (Inl e, fold (auth_exec A) cs (snd (AuthService_RefreshToken A E tok s)))"
proof -
  let ?s = "fold (auth_exec A) cs (snd (AuthService_RefreshToken A E tok s))"
  have "\<not> has (snd (AuthService_RefreshToken A E tok s)) (HashToken E tok)"
    using refresh_has [OF assms(2)] assms(1) by blast
  then have "\<not> has ?s (HashToken E' tok)" using run_has [OF assms(3)] assms(4) by auto
  then have "\<exists>e. as_GetRefreshToken A (ae_now E') (HashToken E' tok) ?s = Inl e"
    using get_needs by (metis sum.exhaust)
  then show ?thesis by (auto simp: AuthService_RefreshToken_def Let_def split: sum.splits)
qed

lemma logout_final:
  assumes "\<forall>c\<in>set cs. call_mints_not (HashToken E tok) c" and "HashToken E' tok = HashToken E tok"
  shows "\<exists>e. fst (AuthService_RefreshToken A E' tok (fold (auth_exec A) cs (snd (AuthService_Logout A E tok s)))) = Inl e"
proof -
  let ?s = "fold (auth_exec A) cs (snd (AuthService_Logout A E tok s))"
  obtain s1 where rv: "as_RevokeRefreshToken A (HashToken E tok) s = (Inr (), s1)" using revoke_total by blast
  then have "\<not> has ?s (HashToken E' tok)"
    using run_has [OF assms(1)] revoke_removes [OF rv] assms(2) by (auto simp: AuthService_Logout_def)
  then have "\<exists>e. as_GetRefreshToken A (ae_now E') (HashToken E' tok) ?s = Inl e"
    using get_needs by (metis sum.exhaust)
  then show ?thesis by (auto simp: AuthService_RefreshToken_def Let_def split: sum.splits)
qed

end

end
