(* ===== verification/Company.thy ===== *)
theory Company
  imports Go_Strings
begin

text \<open>
  The company hierarchy: types, store interface and service of \<^verbatim>\<open>src/platform/company\<close>. The hierarchy is a
  closure table of (ancestor, descendant, generations) rows beside the parent pointers of the companies;
  the locale \<open>company_store_spec\<close> states what the service needs of a store, and inside it the closure table is
  proved to be the ancestry relation of the parent pointers.

  \<^verbatim>\<open>json.Unmarshal\<close> and \<^verbatim>\<open>json.Marshal\<close> of settings and the time suffix of a slug are parameters. A result
  \<open>None\<close> is a run-time panic.
\<close>

section \<open>Types\<close>

definition CompanyTypeStandalone :: string where "CompanyTypeStandalone = ''standalone''"
definition CompanyTypePersonal :: string where "CompanyTypePersonal = ''personal''"

record company =
  co_ID :: uuid
  co_Name :: string
  co_Slug :: string
  co_ParentCompanyID :: "uuid option"
  co_CompanyType :: string
  co_InheritedRoleCap :: "int option"
  co_InheritedAccessLvl :: "string option"
  co_Settings :: "string option"
  co_IsActive :: bool
  co_CreatedAt :: go_time
  co_UpdatedAt :: go_time

record company_hierarchy =
  hi_AncestorID :: uuid
  hi_DescendantID :: uuid
  hi_Generations :: int

record 's company_store =
  cp_CreateCompany :: "uuid \<Rightarrow> go_time \<Rightarrow> company \<Rightarrow> 's \<Rightarrow> company result \<times> 's"
  cp_GetCompany :: "uuid \<Rightarrow> 's \<Rightarrow> company result"
  cp_UpdateCompany :: "go_time \<Rightarrow> company \<Rightarrow> 's \<Rightarrow> company result \<times> 's"
  cp_ListCompanies :: "'s \<Rightarrow> company list result"
  cp_InsertHierarchyEntries :: "company_hierarchy list \<Rightarrow> 's \<Rightarrow> unit result \<times> 's"
  cp_GetAncestors :: "uuid \<Rightarrow> 's \<Rightarrow> company_hierarchy list result"
  cp_GetDescendants :: "uuid \<Rightarrow> 's \<Rightarrow> company_hierarchy list result"
  cp_GetSelfAndDescendantIDs :: "uuid \<Rightarrow> 's \<Rightarrow> uuid list result"
  cp_DeleteHierarchyEntries :: "uuid \<Rightarrow> 's \<Rightarrow> unit result \<times> 's"

section \<open>The service\<close>

definition company_slug_char :: "char \<Rightarrow> bool" where
  "company_slug_char c \<longleftrightarrow> (CHR ''a'' \<le> c \<and> c \<le> CHR ''z'') \<or> (CHR ''0'' \<le> c \<and> c \<le> CHR ''9'') \<or> c = CHR ''-''"

definition company_generateSlug :: "string \<Rightarrow> string \<Rightarrow> string" where
  "company_generateSlug hhmmss name =
     (let s = filter company_slug_char
                (map (\<lambda>c. if c = CHR '' '' then CHR ''-'' else c) (ToLower (TrimSpace name)))
      in (if s = [] then ''company'' else s) @ ''-'' @ hhmmss)"

definition default_company_settings :: string where
  "default_company_settings = ''{'' @ [CHR 0x22] @ ''enabled_features'' @ [CHR 0x22] @ '': []}''"

text \<open>The company record the service builds and the closure rows of a child of given ancestors.\<close>

definition new_company ::
  "string \<Rightarrow> uuid \<Rightarrow> go_time \<Rightarrow> string \<Rightarrow> string \<Rightarrow> string \<Rightarrow> uuid option \<Rightarrow> string option \<Rightarrow> company" where
  "new_company hhmmss newid now name slug companyType parentID settings =
     \<lparr>co_ID = newid, co_Name = name,
      co_Slug = (if slug = [] then company_generateSlug hhmmss name else slug),
      co_ParentCompanyID = parentID,
      co_CompanyType = (if companyType = [] then CompanyTypeStandalone else companyType),
      co_InheritedRoleCap = None, co_InheritedAccessLvl = None,
      co_Settings = (case settings of None \<Rightarrow> Some default_company_settings | Some j \<Rightarrow> Some j),
      co_IsActive = True, co_CreatedAt = now, co_UpdatedAt = now\<rparr>"

definition closure_entries :: "uuid \<Rightarrow> company_hierarchy list \<Rightarrow> company_hierarchy list" where
  "closure_entries cid ancestors =
     \<lparr>hi_AncestorID = cid, hi_DescendantID = cid, hi_Generations = 0\<rparr> #
     map (\<lambda>a. \<lparr>hi_AncestorID = hi_AncestorID a, hi_DescendantID = cid, hi_Generations = hi_Generations a + 1\<rparr>)
       ancestors"

definition CompanyService_CreateCompany ::
  "'s company_store \<Rightarrow> string \<Rightarrow> uuid \<Rightarrow> go_time \<Rightarrow> string \<Rightarrow> string \<Rightarrow> string \<Rightarrow> uuid option \<Rightarrow> string option \<Rightarrow> 's \<Rightarrow>
   company result \<times> 's" where
  "CompanyService_CreateCompany K hhmmss newid now name slug companyType parentID settings s =
     (if TrimSpace name = [] then (Inl (ErrMsg ''company name is required''), s)
      else (case cp_CreateCompany K newid now
                   (new_company hhmmss newid now name slug companyType parentID settings) s of
              (Inl err, s1) \<Rightarrow> (Inl (ErrWrap ''create company: '' err []), s1)
            | (Inr created, s1) \<Rightarrow>
                (case (case parentID of
                         None \<Rightarrow> Inr []
                       | Some p \<Rightarrow> cp_GetAncestors K p s1) of
                   Inl err \<Rightarrow> (Inl (ErrWrap ''get parent ancestors: '' err []), s1)
                 | Inr ancestors \<Rightarrow>
                     (case cp_InsertHierarchyEntries K (closure_entries (co_ID created) ancestors) s1 of
                        (Inl err, s2) \<Rightarrow> (Inl (ErrWrap ''insert hierarchy entries: '' err []), s2)
                      | (Inr _, s2) \<Rightarrow> (Inr created, s2)))))"

definition CompanyService_GetCompany :: "'s company_store \<Rightarrow> uuid \<Rightarrow> 's \<Rightarrow> company result" where
  "CompanyService_GetCompany K cid s = cp_GetCompany K cid s"

definition CompanyService_UpdateCompany ::
  "'s company_store \<Rightarrow> string \<Rightarrow> go_time \<Rightarrow> company \<Rightarrow> 's \<Rightarrow> company result \<times> 's" where
  "CompanyService_UpdateCompany K hhmmss now c s =
     (if TrimSpace (co_Name c) = [] then (Inl (ErrMsg ''company name is required''), s)
      else let c' = (if TrimSpace (co_Slug c) = [] then c\<lparr>co_Slug := company_generateSlug hhmmss (co_Name c)\<rparr> else c)
           in cp_UpdateCompany K now c' s)"

fun fetch_companies :: "'s company_store \<Rightarrow> uuid \<Rightarrow> 's \<Rightarrow> company_hierarchy list \<Rightarrow> company list" where
  "fetch_companies K companyID s [] = []"
| "fetch_companies K companyID s (h # hs) =
     (if hi_AncestorID h = companyID then fetch_companies K companyID s hs
      else (case cp_GetCompany K (hi_AncestorID h) s of
              Inl _ \<Rightarrow> fetch_companies K companyID s hs
            | Inr c \<Rightarrow> c # fetch_companies K companyID s hs))"

definition CompanyService_GetAncestors :: "'s company_store \<Rightarrow> uuid \<Rightarrow> 's \<Rightarrow> company list result" where
  "CompanyService_GetAncestors K companyID s =
     (case cp_GetAncestors K companyID s of
        Inl err \<Rightarrow> Inl (ErrWrap ''get ancestors: '' err [])
      | Inr hierarchy \<Rightarrow> Inr (fetch_companies K companyID s hierarchy))"

definition CompanyService_GetSelfAndDescendantIDs :: "'s company_store \<Rightarrow> uuid \<Rightarrow> 's \<Rightarrow> uuid list result" where
  "CompanyService_GetSelfAndDescendantIDs K companyID s = cp_GetSelfAndDescendantIDs K companyID s"

text \<open>
  What \<^verbatim>\<open>json.Unmarshal\<close> does with a map target: an error, JSON null (which sets the map to nil), or an
  object whose members are put into the map.
\<close>

datatype 'v unmarshalled = JErr go_error | JNull | JObj "(string, 'v) gomap"

text \<open>A Go map that may be nil: reading nil finds nothing, writing to it panics.\<close>

type_synonym 'v nilmap = "(string, 'v) gomap option"

definition nm_get :: "'v nilmap \<Rightarrow> string \<Rightarrow> 'v option" where
  "nm_get m k = (case m of None \<Rightarrow> None | Some g \<Rightarrow> gm_get g k)"

fun fill_missing :: "(string \<times> 'v) list \<Rightarrow> 'v nilmap \<Rightarrow> 'v nilmap option" where
  "fill_missing [] merged = Some merged"
| "fill_missing ((key, v) # kvs) merged =
     (case nm_get merged key of
        Some _ \<Rightarrow> fill_missing kvs merged
      | None \<Rightarrow>
          (case merged of
             None \<Rightarrow> None
           | Some g \<Rightarrow> fill_missing kvs (Some (gm_put key v g))))"

fun merge_ancestors :: "(string \<Rightarrow> 'v unmarshalled) \<Rightarrow> company list \<Rightarrow> 'v nilmap \<Rightarrow> 'v nilmap option" where
  "merge_ancestors unmarshal [] merged = Some merged"
| "merge_ancestors unmarshal (a # as) merged =
     (case co_Settings a of
        None \<Rightarrow> merge_ancestors unmarshal as merged
      | Some raw \<Rightarrow>
          (case unmarshal raw of
             JErr _ \<Rightarrow> merge_ancestors unmarshal as merged
           | JNull \<Rightarrow> merge_ancestors unmarshal as merged
           | JObj kvs \<Rightarrow>
               (case fill_missing kvs merged of
                  None \<Rightarrow> None
                | Some merged' \<Rightarrow> merge_ancestors unmarshal as merged')))"

definition CompanyService_GetEffectiveSettings ::
  "'s company_store \<Rightarrow> (string \<Rightarrow> 'v unmarshalled) \<Rightarrow> ('v nilmap \<Rightarrow> string result) \<Rightarrow> uuid \<Rightarrow> 's \<Rightarrow>
   string result option" where
  "CompanyService_GetEffectiveSettings K unmarshal marshal companyID s =
     (case cp_GetCompany K companyID s of
        Inl err \<Rightarrow> Some (Inl (ErrWrap ''get company: '' err []))
      | Inr company \<Rightarrow>
          (case (case co_Settings company of
                   None \<Rightarrow> Inr (Some [])
                 | Some raw \<Rightarrow>
                     (case unmarshal raw of
                        JErr err \<Rightarrow> Inl (ErrWrap ''unmarshal company settings: '' err [])
                      | JNull \<Rightarrow> Inr None
                      | JObj kvs \<Rightarrow> Inr (Some kvs))) of
             Inl err \<Rightarrow> Some (Inl err)
           | Inr merged \<Rightarrow>
               (case CompanyService_GetAncestors K companyID s of
                  Inl err \<Rightarrow> Some (Inl err)
                | Inr ancestors \<Rightarrow>
                    (case merge_ancestors unmarshal ancestors merged of
                       None \<Rightarrow> None
                     | Some merged' \<Rightarrow>
                         Some (case marshal merged' of
                                 Inl err \<Rightarrow> Inl (ErrWrap ''marshal merged settings: '' err [])
                               | Inr raw \<Rightarrow> Inr raw)))))"

definition CompanyService_IsDescendantOf :: "'s company_store \<Rightarrow> uuid \<Rightarrow> uuid \<Rightarrow> 's \<Rightarrow> bool result" where
  "CompanyService_IsDescendantOf K companyID ancestorID s =
     (case cp_GetSelfAndDescendantIDs K ancestorID s of
        Inl err \<Rightarrow> Inl err
      | Inr descendants \<Rightarrow> Inr (companyID \<in> set descendants))"

section \<open>Ancestry by parent pointers\<close>

text \<open>\<open>ancestry cs d a g\<close>: from the company \<open>d\<close>, \<open>g\<close> parent steps through existing companies lead to \<open>a\<close>.\<close>

inductive ancestry :: "(uuid \<rightharpoonup> company) \<Rightarrow> uuid \<Rightarrow> uuid \<Rightarrow> int \<Rightarrow> bool" for cs :: "uuid \<rightharpoonup> company" where
  self: "cs d = Some c \<Longrightarrow> ancestry cs d d 0"
| step: "cs d = Some c \<Longrightarrow> co_ParentCompanyID c = Some p \<Longrightarrow> ancestry cs p a g \<Longrightarrow> ancestry cs d a (g + 1)"

inductive_cases ancestry_cases: "ancestry cs d a g"

type_synonym closure = "(uuid \<times> uuid \<times> int) set"

definition closure_ok :: "(uuid \<rightharpoonup> company) \<Rightarrow> closure \<Rightarrow> bool" where
  "closure_ok cs rows \<longleftrightarrow> (\<forall>a d g. (a, d, g) \<in> rows \<longleftrightarrow> ancestry cs d a g)"

text \<open>The rows a new company needs: itself, and every ancestor of its parent one generation further.\<close>

definition new_rows :: "closure \<Rightarrow> uuid \<Rightarrow> uuid option \<Rightarrow> closure" where
  "new_rows rows cid parent = {(cid, cid, 0)} \<union>
     (case parent of None \<Rightarrow> {} | Some p \<Rightarrow> {(a, cid, g + 1) | a g. (a, p, g) \<in> rows})"

definition row_of :: "company_hierarchy \<Rightarrow> uuid \<times> uuid \<times> int" where
  "row_of h = (hi_AncestorID h, hi_DescendantID h, hi_Generations h)"

text \<open>A fresh identifier: no company, and nobody's parent.\<close>

definition fresh_company :: "(uuid \<rightharpoonup> company) \<Rightarrow> uuid \<Rightarrow> bool" where
  "fresh_company cs cid \<longleftrightarrow> cs cid = None \<and> (\<forall>k c. cs k = Some c \<longrightarrow> co_ParentCompanyID c \<noteq> Some cid)"

lemma ancestry_exists: "ancestry cs d a g \<Longrightarrow> (\<exists>c. cs d = Some c) \<and> (\<exists>c. cs a = Some c) \<and> 0 \<le> g"
  by (induction rule: ancestry.induct) auto

lemma ancestry_new_old1:
  assumes "ancestry (cs(cid \<mapsto> c)) d a g" and "fresh_company cs cid" and "d \<noteq> cid"
  shows "ancestry cs d a g"
  using assms(1,3)
proof (induction rule: ancestry.induct)
  case (self d c')
  then show ?case by (auto intro: ancestry.self)
next
  case (step d c' p a g)
  then have d: "cs d = Some c'" by simp
  then have "p \<noteq> cid" using step.hyps(2) assms(2) by (auto simp: fresh_company_def)
  then have "ancestry cs p a g" using step.IH by blast
  with d step.hyps(2) show ?case by (rule ancestry.step)
qed

lemma ancestry_new_old2:
  assumes "ancestry cs d a g" and "fresh_company cs cid" and "d \<noteq> cid"
  shows "ancestry (cs(cid \<mapsto> c)) d a g"
  using assms(1,3)
proof (induction rule: ancestry.induct)
  case (self d c')
  then show ?case by (auto intro: ancestry.self)
next
  case (step d c' p a g)
  then have "p \<noteq> cid" using assms(2) by (auto simp: fresh_company_def)
  then show ?case using step by (auto intro!: ancestry.step [of _ _ c'])
qed

lemma ancestry_new_old:
  assumes "fresh_company cs cid" and "d \<noteq> cid"
  shows "ancestry (cs(cid \<mapsto> c)) d a g \<longleftrightarrow> ancestry cs d a g"
  using ancestry_new_old1 [OF _ assms] ancestry_new_old2 [OF _ assms] by blast

lemma closure_ok_insert:
  assumes ok: "closure_ok cs rows" and fr: "fresh_company cs cid"
    and par: "co_ParentCompanyID c = parent" and np: "parent \<noteq> Some cid"
  shows "closure_ok (cs(cid \<mapsto> c)) (rows \<union> new_rows rows cid parent)"
proof -
  have no: "(a, cid, g) \<notin> rows" for a g
    using ok fr ancestry_exists [of cs cid a g] by (auto simp: closure_ok_def fresh_company_def)
  have new: "ancestry (cs(cid \<mapsto> c)) cid a g \<longleftrightarrow> (a, cid, g) \<in> new_rows rows cid parent" for a g
  proof
    assume "ancestry (cs(cid \<mapsto> c)) cid a g"
    then show "(a, cid, g) \<in> new_rows rows cid parent"
    proof (cases rule: ancestry.cases)
      case (self c')
      then show ?thesis by (simp add: new_rows_def)
    next
      case (step c' p g')
      then have p: "parent = Some p" "p \<noteq> cid" using par np by auto
      then have "(a, p, g') \<in> rows" using step(4) ancestry_new_old [OF fr p(2)] ok by (simp add: closure_ok_def)
      then show ?thesis using p step(1) by (auto simp: new_rows_def)
    qed
  next
    assume "(a, cid, g) \<in> new_rows rows cid parent"
    then consider "a = cid" "g = 0" | p g' where "parent = Some p" "(a, p, g') \<in> rows" "g = g' + 1"
      by (auto simp: new_rows_def split: option.splits)
    then show "ancestry (cs(cid \<mapsto> c)) cid a g"
    proof cases
      case 1
      then show ?thesis by (auto intro: ancestry.self)
    next
      case 2
      then have "p \<noteq> cid" using np by auto
      then have "ancestry (cs(cid \<mapsto> c)) p a g'" using 2 ok ancestry_new_old [OF fr] by (simp add: closure_ok_def)
      then show ?thesis using 2 par by (auto intro!: ancestry.step [of _ _ c])
    qed
  qed
  have other: "(a, d, g) \<notin> new_rows rows cid parent" if "d \<noteq> cid" for a d g
    using that by (auto simp: new_rows_def split: option.splits)
  show ?thesis
    unfolding closure_ok_def
  proof (intro allI)
    fix a d g
    show "(a, d, g) \<in> rows \<union> new_rows rows cid parent \<longleftrightarrow> ancestry (cs(cid \<mapsto> c)) d a g"
      using new no other ok ancestry_new_old [OF fr]
      by (cases "d = cid") (auto simp: closure_ok_def)
  qed
qed

lemma ancestry_same_parents:
  assumes "ancestry cs d a g" and "\<And>k. map_option co_ParentCompanyID (cs' k) = map_option co_ParentCompanyID (cs k)"
  shows "ancestry cs' d a g"
  using assms(1)
proof (induction rule: ancestry.induct)
  case (self d c)
  then obtain c' where "cs' d = Some c'" using assms(2) [of d] by auto
  then show ?case by (rule ancestry.self)
next
  case (step d c p a g)
  then obtain c' where "cs' d = Some c'" "co_ParentCompanyID c' = Some p" using assms(2) [of d] by auto
  then show ?case using step.IH by (rule ancestry.step)
qed

lemma ancestry_generation_unique: "ancestry cs d a g \<Longrightarrow> ancestry cs d b g \<Longrightarrow> a = b"
proof (induction arbitrary: b rule: ancestry.induct)
  case (self d c)
  from self.prems show ?case
    by (cases rule: ancestry.cases) (auto dest: ancestry_exists)
next
  case (step d c p a g)
  have "0 \<le> g" using ancestry_exists [OF step.hyps(3)] by simp
  from step.prems show ?case
  proof (cases rule: ancestry.cases)
    case (self c')
    then show ?thesis using \<open>0 \<le> g\<close> by simp
  next
    case (step c' p' g')
    then show ?thesis using step.IH \<open>cs d = Some c\<close> \<open>co_ParentCompanyID c = Some p\<close>
      using local.step.IH by auto
  qed
qed

section \<open>The store contract\<close>

text \<open>
  \<open>companies s\<close> and \<open>rows s\<close> are the company table and the closure table. Creating a company adds its row
  and possibly some of the closure rows it needs; updating one keeps its parent.
\<close>

locale company_store_spec =
  fixes K :: "'s company_store"
    and companies :: "'s \<Rightarrow> uuid \<rightharpoonup> company"
    and rows :: "'s \<Rightarrow> closure"
  assumes create_failed: "cp_CreateCompany K nid now c s = (Inl err, s') \<Longrightarrow> s' = s"
    and create_ok:
      "cp_CreateCompany K nid now c s = (Inr c', s') \<Longrightarrow> co_ID c \<noteq> uuid_Nil \<Longrightarrow>
       co_ParentCompanyID c \<noteq> Some (co_ID c) \<Longrightarrow>
       co_ID c' = co_ID c \<and> co_ParentCompanyID c' = co_ParentCompanyID c \<and>
       companies s' = (companies s)(co_ID c \<mapsto> c') \<and>
       rows s \<subseteq> rows s' \<and> rows s' \<subseteq> rows s \<union> new_rows (rows s) (co_ID c) (co_ParentCompanyID c)"
    and update_keeps:
      "cp_UpdateCompany K now c s = (r, s') \<Longrightarrow>
       rows s' = rows s \<and>
       (\<forall>k. map_option co_ParentCompanyID (companies s' k) = map_option co_ParentCompanyID (companies s k))"
    and ancestors_ok:
      "\<exists>hs. cp_GetAncestors K cid s = Inr hs \<and> row_of ` set hs = {(a, d, g). (a, d, g) \<in> rows s \<and> d = cid} \<and>
            sorted (map hi_Generations hs)"
    and insert_ok:
      "\<exists>s'. cp_InsertHierarchyEntries K es s = (Inr (), s') \<and> companies s' = companies s \<and>
            rows s' = rows s \<union> row_of ` set es"
    and descendants_ok:
      "\<exists>ids. cp_GetSelfAndDescendantIDs K cid s = Inr ids \<and> set ids = {d. \<exists>g. (cid, d, g) \<in> rows s}"
begin

lemma create_company_closure:
  assumes "closure_ok (companies s) (rows s)" and "fresh_company (companies s) nid" and "nid \<noteq> uuid_Nil"
    and "parent \<noteq> Some nid" and "CompanyService_CreateCompany K hms nid now name slug ty parent settings s = (r, s')"
  shows "closure_ok (companies s') (rows s') \<and>
         (case r of Inl _ \<Rightarrow> s' = s
          | Inr c \<Rightarrow> co_ID c = nid \<and> co_ParentCompanyID c = parent \<and> companies s' = (companies s)(nid \<mapsto> c))"
proof -
  let ?c = "new_company hms nid now name slug ty parent settings"
  have c: "co_ID ?c = nid" "co_ParentCompanyID ?c = parent" by (simp_all add: new_company_def)
  show ?thesis
  proof (cases "TrimSpace name = []")
    case True
    then show ?thesis using assms(1,5) by (auto simp: CompanyService_CreateCompany_def)
  next
    case False
    obtain q s1 where cr: "cp_CreateCompany K nid now ?c s = (q, s1)" by fastforce
    show ?thesis
    proof (cases q)
      case (Inl e)
      then have "s1 = s" using create_failed cr by simp
      then show ?thesis using assms(1,5) False cr Inl by (auto simp: CompanyService_CreateCompany_def)
    next
      case (Inr c')
      note law = create_ok [OF cr [unfolded Inr], unfolded c, OF assms(3,4)]
      obtain hs where hs: "(case parent of None \<Rightarrow> Inr [] | Some p \<Rightarrow> cp_GetAncestors K p s1) = Inr hs"
        and img: "row_of ` set hs = (case parent of None \<Rightarrow> {} | Some p \<Rightarrow> {(a, d, g). (a, d, g) \<in> rows s1 \<and> d = p})"
      proof (cases parent)
        case None
        then show ?thesis using that [of "[]"] by simp
      next
        case (Some p)
        obtain hs where "cp_GetAncestors K p s1 = Inr hs" "row_of ` set hs = {(a, d, g). (a, d, g) \<in> rows s1 \<and> d = p}"
          using ancestors_ok by blast
        then show ?thesis using that [of hs] Some by simp
      qed
      obtain s2 where ins: "cp_InsertHierarchyEntries K (closure_entries nid hs) s1 = (Inr (), s2)"
        "companies s2 = companies s1" "rows s2 = rows s1 \<union> row_of ` set (closure_entries nid hs)"
        using insert_ok by blast
      have eq: "r = Inr c'" "s' = s2"
        using assms(5) False cr Inr hs ins(1) law by (auto simp: CompanyService_CreateCompany_def)
      have old: "(a, p, g) \<in> rows s1 \<longleftrightarrow> (a, p, g) \<in> rows s" if "parent = Some p" for a p g
        using law assms(4) that by (auto simp: new_rows_def split: option.splits)
      have "row_of ` set (closure_entries nid hs) = new_rows (rows s) nid parent"
      proof -
        have "row_of ` set (closure_entries nid hs) = {(nid, nid, 0)} \<union> (\<lambda>(a, d, g). (a, nid, g + 1)) ` row_of ` set hs"
          by (simp add: closure_entries_def row_of_def image_image)
        also have "\<dots> = new_rows (rows s) nid parent"
        proof (cases parent)
          case None
          then show ?thesis by (simp add: img new_rows_def)
        next
          case (Some p)
          have "(\<lambda>(a, d, g). (a, nid, g + 1)) ` {(a, d, g). (a, d, g) \<in> rows s1 \<and> d = p}
              = {(a, nid, g + 1) | a g. (a, p, g) \<in> rows s}"
            by (auto simp: image_iff old [OF Some, symmetric] split: prod.splits)
          then show ?thesis by (simp add: img new_rows_def Some)
        qed
        finally show ?thesis .
      qed
      then have "rows s' = rows s \<union> new_rows (rows s) nid parent" using ins(3) law eq by auto
      moreover have "companies s' = (companies s)(nid \<mapsto> c')" using ins(2) law eq by simp
      ultimately show ?thesis
        using closure_ok_insert [OF assms(1,2) _ assms(4), of c'] law eq by simp
    qed
  qed
qed

lemma update_company_closure:
  assumes "closure_ok (companies s) (rows s)" and "CompanyService_UpdateCompany K hms now c s = (r, s')"
  shows "closure_ok (companies s') (rows s')"
proof -
  have keep: "rows s' = rows s" "map_option co_ParentCompanyID (companies s' k) = map_option co_ParentCompanyID (companies s k)" for k
    using assms(2) update_keeps by (auto simp: CompanyService_UpdateCompany_def Let_def split: if_splits)
  then have "ancestry (companies s') d a g \<longleftrightarrow> ancestry (companies s) d a g" for d a g
    using ancestry_same_parents [of "companies s"] ancestry_same_parents [of "companies s'"] by metis
  then show ?thesis using assms(1) keep(1) by (simp add: closure_ok_def)
qed

lemma is_descendant_iff:
  assumes "closure_ok (companies s) (rows s)"
  shows "CompanyService_IsDescendantOf K d a s = Inr (\<exists>g. ancestry (companies s) d a g)"
  using descendants_ok [of a s] assms by (auto simp: CompanyService_IsDescendantOf_def closure_ok_def)

text \<open>The ancestor rows of a company, nearest first, one for each generation.\<close>

lemma ancestors_by_generation:
  assumes "closure_ok (companies s) (rows s)"
  shows "\<exists>hs. cp_GetAncestors K d s = Inr hs \<and> sorted (map hi_Generations hs) \<and>
     (\<forall>a g. ancestry (companies s) d a g \<longleftrightarrow> (\<exists>h\<in>set hs. hi_AncestorID h = a \<and> hi_Generations h = g))"
proof -
  obtain hs where hs: "cp_GetAncestors K d s = Inr hs" "sorted (map hi_Generations hs)"
    "row_of ` set hs = {(a, e, g). (a, e, g) \<in> rows s \<and> e = d}" using ancestors_ok by blast
  have "ancestry (companies s) d a g \<longleftrightarrow> (\<exists>h\<in>set hs. hi_AncestorID h = a \<and> hi_Generations h = g)" for a g
  proof -
    have "ancestry (companies s) d a g \<longleftrightarrow> (a, d, g) \<in> row_of ` set hs"
      using assms hs(3) by (simp add: closure_ok_def)
    also have "\<dots> \<longleftrightarrow> (\<exists>h\<in>set hs. hi_AncestorID h = a \<and> hi_Generations h = g)"
    proof -
      have "hi_DescendantID h = d" if "h \<in> set hs" for h
      proof -
        have "row_of h \<in> row_of ` set hs" using that by simp
        then show ?thesis unfolding hs(3) by (simp add: row_of_def)
      qed
      then show ?thesis by (force simp: row_of_def)
    qed
    finally show ?thesis .
  qed
  with hs show ?thesis by blast
qed

end

section \<open>Effective settings: nearest definition wins\<close>

text \<open>What the settings of a company define: the members of a JSON object, nothing otherwise.\<close>

definition defined_by :: "(string \<Rightarrow> 'v unmarshalled) \<Rightarrow> company \<Rightarrow> (string, 'v) gomap" where
  "defined_by unmarshal c =
     (case co_Settings c of
        None \<Rightarrow> []
      | Some raw \<Rightarrow> (case unmarshal raw of JObj kvs \<Rightarrow> kvs | _ \<Rightarrow> []))"

fun first_defined :: "(string \<Rightarrow> 'v unmarshalled) \<Rightarrow> company list \<Rightarrow> string \<Rightarrow> 'v option" where
  "first_defined unmarshal [] key = None"
| "first_defined unmarshal (c # cs) key =
     (case gm_get (defined_by unmarshal c) key of
        Some v \<Rightarrow> Some v
      | None \<Rightarrow> first_defined unmarshal cs key)"

lemma gm_get_Cons: "gm_get ((k', v) # m) k = (if k = k' then Some v else gm_get m k)"
  by (simp add: gm_get_def)

lemma fill_missing_get:
  "\<exists>g'. fill_missing kvs (Some g) = Some (Some g') \<and>
     (\<forall>k. gm_get g' k = (case gm_get g k of Some v \<Rightarrow> Some v | None \<Rightarrow> gm_get kvs k))"
proof (induction kvs arbitrary: g)
  case Nil
  then show ?case by (auto split: option.splits)
next
  case (Cons kv kvs)
  obtain key v where kv: "kv = (key, v)" by (cases kv)
  show ?case
  proof (cases "gm_get g key")
    case None
    obtain g' where "fill_missing kvs (Some (gm_put key v g)) = Some (Some g')"
      "\<forall>k. gm_get g' k = (case gm_get (gm_put key v g) k of Some v \<Rightarrow> Some v | None \<Rightarrow> gm_get kvs k)"
      using Cons.IH by blast
    then show ?thesis using kv None by (auto simp: nm_get_def gm_get_Cons split: option.splits)
  next
    case (Some w)
    obtain g' where "fill_missing kvs (Some g) = Some (Some g')"
      "\<forall>k. gm_get g' k = (case gm_get g k of Some v \<Rightarrow> Some v | None \<Rightarrow> gm_get kvs k)"
      using Cons.IH by blast
    then show ?thesis using kv Some by (auto simp: nm_get_def gm_get_Cons split: option.splits)
  qed
qed

lemma merge_ancestors_get:
  "\<exists>g'. merge_ancestors unmarshal as (Some g) = Some (Some g') \<and>
     (\<forall>k. gm_get g' k = (case gm_get g k of Some v \<Rightarrow> Some v | None \<Rightarrow> first_defined unmarshal as k))"
proof (induction "as" arbitrary: g)
  case Nil
  then show ?case by (auto split: option.splits)
next
  case (Cons a as)
  show ?case
  proof (cases "\<exists>raw kvs. co_Settings a = Some raw \<and> unmarshal raw = JObj kvs")
    case True
    then obtain raw kvs where a: "co_Settings a = Some raw" "unmarshal raw = JObj kvs" by blast
    obtain g1 where g1: "fill_missing kvs (Some g) = Some (Some g1)"
      "\<forall>k. gm_get g1 k = (case gm_get g k of Some v \<Rightarrow> Some v | None \<Rightarrow> gm_get kvs k)"
      using fill_missing_get by blast
    obtain g' where "merge_ancestors unmarshal as (Some g1) = Some (Some g')"
      "\<forall>k. gm_get g' k = (case gm_get g1 k of Some v \<Rightarrow> Some v | None \<Rightarrow> first_defined unmarshal as k)"
      using Cons.IH by blast
    then show ?thesis using a g1 by (auto simp: defined_by_def split: option.splits)
  next
    case False
    then have "merge_ancestors unmarshal (a # as) (Some g) = merge_ancestors unmarshal as (Some g)"
      and "defined_by unmarshal a = []"
      by (auto simp: defined_by_def split: option.splits unmarshalled.splits)
    moreover from this(2) have "first_defined unmarshal (a # as) = first_defined unmarshal as" by auto
    ultimately show ?thesis using Cons.IH [of g] by (simp only:)
  qed
qed

section \<open>Properties for every store\<close>

text \<open>
  A company whose own settings are the JSON value null makes \<^verbatim>\<open>GetEffectiveSettings\<close> write to a nil map, that is
  panic, as soon as an ancestor defines some key.
\<close>

lemma null_settings_panic:
  assumes "cp_GetCompany K cid s = Inr c" and "co_Settings c = Some raw" and "unmarshal raw = JNull"
    and "CompanyService_GetAncestors K cid s = Inr [a]" and "defined_by unmarshal a \<noteq> []"
  shows "CompanyService_GetEffectiveSettings K unmarshal marshal cid s = None"
proof -
  from assms(5) obtain raw' kvs where a: "co_Settings a = Some raw'" "unmarshal raw' = JObj kvs" "kvs \<noteq> []"
    by (auto simp: defined_by_def split: option.splits unmarshalled.splits)
  then obtain k v kvs' where "kvs = (k, v) # kvs'" by (cases kvs) auto
  then show ?thesis
    using assms(1-4) a by (simp add: CompanyService_GetEffectiveSettings_def nm_get_def)
qed

end
