(* ===== verification/Webhook.thy ===== *)
theory Webhook
  imports Go_Strings
begin

text \<open>
  Webhook delivery, \<^verbatim>\<open>src/platform/webhook\<close>: event matching, request signing and verification, triggering,
  delivery with retry and exhaustion, and the automatic pause of failing subscriptions. The store is a
  record of operations with the contract \<open>webhook_store_spec\<close>, interpreted on the in-memory store in
  \<open>Devstore\<close>.

  The outcome of the HTTP request is an argument of a delivery, and so are clock readings. HMAC-SHA256 and
  the random secret are parameters; hexadecimal encoding is modelled. A delivery that runs on a goroutine
  is a call of \<open>WebhookService_deliver\<close> that the caller of \<^verbatim>\<open>Trigger\<close> still has to make.
\<close>

section \<open>Types\<close>

record webhook =
  wh_ID :: uuid
  wh_CompanyID :: uuid
  wh_URL :: string
  wh_Secret :: string
  wh_Events :: "string list"
  wh_Active :: bool
  wh_ConsecutiveFails :: int
  wh_CreatedAt :: go_time

record webhook_delivery =
  wd_ID :: uuid
  wd_WebhookID :: uuid
  wd_EventType :: string
  wd_Payload :: string
  wd_Status :: string
  wd_StatusCode :: int
  wd_ResponseBody :: string
  wd_Attempts :: int
  wd_NextRetryAt :: "go_time option"
  wd_CreatedAt :: go_time

record 's webhook_store =
  ws_CreateWebhook :: "uuid \<Rightarrow> go_time \<Rightarrow> uuid \<Rightarrow> string \<Rightarrow> string \<Rightarrow> string list \<Rightarrow> 's \<Rightarrow> webhook result \<times> 's"
  ws_GetWebhook :: "uuid \<Rightarrow> 's \<Rightarrow> webhook result"
  ws_ListWebhooksByCompany :: "uuid \<Rightarrow> 's \<Rightarrow> webhook list result"
  ws_UpdateWebhookStatus :: "uuid \<Rightarrow> bool \<Rightarrow> 's \<Rightarrow> unit result \<times> 's"
  ws_DeleteWebhook :: "uuid \<Rightarrow> 's \<Rightarrow> unit result \<times> 's"
  ws_IncrementFailureCount :: "uuid \<Rightarrow> 's \<Rightarrow> int result \<times> 's"
  ws_ResetFailureCount :: "uuid \<Rightarrow> 's \<Rightarrow> unit result \<times> 's"
  ws_CreateDelivery :: "uuid \<Rightarrow> go_time \<Rightarrow> uuid \<Rightarrow> string \<Rightarrow> string \<Rightarrow> 's \<Rightarrow> webhook_delivery result \<times> 's"
  ws_UpdateDelivery ::
    "uuid \<Rightarrow> string \<Rightarrow> int \<Rightarrow> string \<Rightarrow> go_time option \<Rightarrow> 's \<Rightarrow> unit result \<times> 's"
  ws_GetPendingDeliveries :: "'s \<Rightarrow> webhook_delivery list result"
  ws_GetDelivery :: "uuid \<Rightarrow> 's \<Rightarrow> webhook_delivery result"
  ws_ListFailedDeliveriesForRetry :: "int \<Rightarrow> 's \<Rightarrow> webhook_delivery list result"

section \<open>The service\<close>

record webhook_config =
  wc_maxRetries :: int
  wc_maxConsecutiveFailures :: int

definition webhook_DefaultMaxRetries :: int where "webhook_DefaultMaxRetries = 5"
definition DefaultMaxConsecutiveFailures :: int where "DefaultMaxConsecutiveFailures = 10"

definition webhook_NewService :: webhook_config where
  "webhook_NewService =
     \<lparr>wc_maxRetries = webhook_DefaultMaxRetries, wc_maxConsecutiveFailures = DefaultMaxConsecutiveFailures\<rparr>"

definition WithMaxRetries :: "int \<Rightarrow> webhook_config \<Rightarrow> webhook_config" where
  "WithMaxRetries n c = c\<lparr>wc_maxRetries := n\<rparr>"

definition WithMaxConsecutiveFailures :: "int \<Rightarrow> webhook_config \<Rightarrow> webhook_config" where
  "WithMaxConsecutiveFailures n c = c\<lparr>wc_maxConsecutiveFailures := n\<rparr>"

definition WebhookService_Register ::
  "'s webhook_store \<Rightarrow> string \<Rightarrow> uuid \<Rightarrow> go_time \<Rightarrow> uuid \<Rightarrow> string \<Rightarrow> string \<Rightarrow> string list \<Rightarrow> 's \<Rightarrow> webhook result \<times> 's" where
  "WebhookService_Register W generated newid now companyID url secret events s =
     ws_CreateWebhook W newid now companyID url (if secret = [] then generated else secret) events s"

definition matches_pattern :: "string \<Rightarrow> string \<Rightarrow> bool" where
  "matches_pattern e eventType \<longleftrightarrow>
     e = ''*'' \<or> e = eventType \<or> (HasSuffix e ''.*'' \<and> HasPrefix eventType (TrimSuffix e ''.*''))"

definition matchesEvent :: "string list \<Rightarrow> string \<Rightarrow> bool" where
  "matchesEvent subscribed eventType \<longleftrightarrow> (\<exists>e\<in>set subscribed. matches_pattern e eventType)"

text \<open>
  The loop of \<^verbatim>\<open>Trigger\<close> over the company's webhooks, with the identifiers of the deliveries it creates; the
  result lists the deliveries handed to goroutines.
\<close>

fun trigger_loop ::
  "'s webhook_store \<Rightarrow> uuid list \<Rightarrow> go_time \<Rightarrow> string \<Rightarrow> string \<Rightarrow> webhook list \<Rightarrow> 's \<Rightarrow>
   (webhook \<times> webhook_delivery) list \<times> 's" where
  "trigger_loop W ids now eventType payload [] s = ([], s)"
| "trigger_loop W ids now eventType payload (wh # whs) s =
     (if \<not> wh_Active wh \<or> \<not> matchesEvent (wh_Events wh) eventType then trigger_loop W ids now eventType payload whs s
      else (case ws_CreateDelivery W (hd ids) now (wh_ID wh) eventType payload s of
              (Inl _, s1) \<Rightarrow> trigger_loop W (tl ids) now eventType payload whs s1
            | (Inr delivery, s1) \<Rightarrow>
                (case trigger_loop W (tl ids) now eventType payload whs s1 of
                   (started, s2) \<Rightarrow> ((wh, delivery) # started, s2))))"

definition WebhookService_Trigger ::
  "'s webhook_store \<Rightarrow> uuid list \<Rightarrow> go_time \<Rightarrow> uuid \<Rightarrow> string \<Rightarrow> string \<Rightarrow> 's \<Rightarrow>
   (webhook \<times> webhook_delivery) list result \<times> 's" where
  "WebhookService_Trigger W ids now companyID eventType payload s =
     (case ws_ListWebhooksByCompany W companyID s of
        Inl err \<Rightarrow> (Inl (ErrWrap ''list webhooks: '' err []), s)
      | Inr webhooks \<Rightarrow>
          (case trigger_loop W ids now eventType payload webhooks s of (started, s') \<Rightarrow> (Inr started, s')))"

text \<open>
  The delay is \<open>2 ^ attempt\<close> minutes in 64-bit nanoseconds. (For an attempt number of 63 or more Go leaves
  the conversion from floating point open.)
\<close>

definition retry_delay :: "int \<Rightarrow> duration" where
  "retry_delay attempt = wrap64 (2 ^ nat attempt * minute)"

definition WebhookService_recordFailure ::
  "'s webhook_store \<Rightarrow> webhook_config \<Rightarrow> go_time \<Rightarrow> webhook \<Rightarrow> webhook_delivery \<Rightarrow> int \<Rightarrow> string \<Rightarrow> 's \<Rightarrow> 's" where
  "WebhookService_recordFailure W c now wh delivery statusCode responseBody s =
     (let attempt = wd_Attempts delivery + 1;
          nextRetry = (if attempt < wc_maxRetries c then Some (now + retry_delay attempt) else None);
          status = (if attempt < wc_maxRetries c then ''failed'' else ''exhausted'');
          s1 = snd (ws_UpdateDelivery W (wd_ID delivery) status statusCode responseBody nextRetry s)
      in case ws_IncrementFailureCount W (wh_ID wh) s1 of
           (Inl _, s2) \<Rightarrow> s2
         | (Inr failCount, s2) \<Rightarrow>
             if failCount \<ge> wc_maxConsecutiveFailures c
             then snd (ws_UpdateWebhookStatus W (wh_ID wh) False s2) else s2)"

text \<open>A request that cannot be built or sent, or the status code and the first KiB of the response body.\<close>

datatype http_outcome = RequestError string | Response int string

definition WebhookService_deliver ::
  "'s webhook_store \<Rightarrow> webhook_config \<Rightarrow> go_time \<Rightarrow> http_outcome \<Rightarrow> webhook \<Rightarrow> webhook_delivery \<Rightarrow> 's \<Rightarrow> 's" where
  "WebhookService_deliver W c now outcome wh delivery s =
     (case outcome of
        RequestError msg \<Rightarrow> WebhookService_recordFailure W c now wh delivery 0 msg s
      | Response code body \<Rightarrow>
          if 200 \<le> code \<and> code < 300
          then snd (ws_ResetFailureCount W (wh_ID wh)
                 (snd (ws_UpdateDelivery W (wd_ID delivery) ''success'' code body None s)))
          else WebhookService_recordFailure W c now wh delivery code body s)"

text \<open>The deliveries a retry run hands to goroutines.\<close>

definition WebhookService_RetryFailedDeliveries ::
  "'s webhook_store \<Rightarrow> webhook_config \<Rightarrow> 's \<Rightarrow> (webhook \<times> webhook_delivery) list result" where
  "WebhookService_RetryFailedDeliveries W c s =
     (case ws_ListFailedDeliveriesForRetry W (wc_maxRetries c) s of
        Inl err \<Rightarrow> Inl (ErrWrap ''list failed deliveries: '' err [])
      | Inr deliveries \<Rightarrow>
          Inr (List.map_filter (\<lambda>d. case ws_GetWebhook W (wd_WebhookID d) s of
                 Inl _ \<Rightarrow> None
               | Inr hook \<Rightarrow> if wh_Active hook then Some (hook, d) else None) deliveries))"

definition WebhookService_ExecuteDelivery ::
  "'s webhook_store \<Rightarrow> webhook_config \<Rightarrow> go_time \<Rightarrow> http_outcome \<Rightarrow> uuid \<Rightarrow> 's \<Rightarrow> unit result \<times> 's" where
  "WebhookService_ExecuteDelivery W c now outcome deliveryID s =
     (case ws_GetDelivery W deliveryID s of
        Inl err \<Rightarrow> (Inl (ErrWrap ''get delivery: '' err []), s)
      | Inr d \<Rightarrow>
          (case ws_GetWebhook W (wd_WebhookID d) s of
             Inl err \<Rightarrow> (Inl (ErrWrap ''get webhook: '' err []), s)
           | Inr hook \<Rightarrow> (Inr (), WebhookService_deliver W c now outcome hook d s)))"

section \<open>Signatures\<close>

text \<open>\<open>hmac key message\<close> is the raw HMAC-SHA256.\<close>

definition sign :: "(string \<Rightarrow> string \<Rightarrow> string) \<Rightarrow> string \<Rightarrow> string \<Rightarrow> string \<Rightarrow> string" where
  "sign hmac secret timestamp payload = hex_encode (hmac secret (timestamp @ ''.'' @ payload))"

definition signature_header :: "(string \<Rightarrow> string \<Rightarrow> string) \<Rightarrow> string \<Rightarrow> int \<Rightarrow> string \<Rightarrow> string" where
  "signature_header hmac secret timestamp payload =
     ''t='' @ show_int timestamp @ '',v1='' @ sign hmac secret (show_int timestamp) payload"

definition header_part :: "string \<times> string \<Rightarrow> string \<Rightarrow> string \<times> string" where
  "header_part ts p =
     (if HasPrefix p ''t='' then (TrimPrefix p ''t='', snd ts)
      else if HasPrefix p ''v1='' then (fst ts, TrimPrefix p ''v1='')
      else ts)"

definition VerifySignature :: "(string \<Rightarrow> string \<Rightarrow> string) \<Rightarrow> string \<Rightarrow> string \<Rightarrow> string \<Rightarrow> bool" where
  "VerifySignature hmac secret sigHeader payload =
     (let parts = Split sigHeader (CHR '','')
      in if length parts \<noteq> 2 then False
         else let (timestamp, sig) = foldl header_part ([], []) parts
              in sig = sign hmac secret timestamp payload)"

subsection \<open>What a signature proves\<close>

lemma show_int_no_comma: "CHR '','' \<notin> set (show_int i)"
  using show_nat_digits [of "CHR '',''"] by (auto simp: show_int_def)

lemma hex_encode_no_comma: "CHR '','' \<notin> set (hex_encode bs)"
proof -
  have "CHR '','' \<noteq> hex_digit k" if "k < 16" for k
  proof
    assume eq: "CHR '','' = hex_digit k"
    from hex_digit_val [OF that] eq [symmetric] show False by (simp split: if_splits)
  qed
  then show ?thesis
    by (induction bs) (simp_all add: hex_encode_Cons high_nibble, simp add: hex_encode_def)
qed

lemma Split_two: "d \<notin> set a \<Longrightarrow> d \<notin> set b \<Longrightarrow> Split (a @ d # b) d = [a, b]"
  by (induction a) (auto simp: Split_no_sep)

text \<open>
  A receiver accepts a delivery exactly when the HMAC of the timestamp and the payload it received under
  its own secret is the HMAC the sender computed under its secret. So every delivery the service signs is
  accepted under the same secret, whatever its time and payload, and a changed payload or another secret
  is accepted only on a collision of HMAC-SHA256.
\<close>

lemma webhook_signature_exact:
  "VerifySignature hmac secret' (signature_header hmac secret timestamp payload) payload' \<longleftrightarrow>
   hmac secret' (show_int timestamp @ ''.'' @ payload') = hmac secret (show_int timestamp @ ''.'' @ payload)"
proof -
  let ?t = "''t='' @ show_int timestamp" and ?v = "''v1='' @ sign hmac secret (show_int timestamp) payload"
  have split: "Split (signature_header hmac secret timestamp payload) (CHR '','') = [?t, ?v]"
    using Split_two [of "CHR '',''" ?t ?v] show_int_no_comma [of timestamp] hex_encode_no_comma
    by (simp add: signature_header_def sign_def)
  show ?thesis
    unfolding VerifySignature_def split
    by (auto simp: header_part_def HasPrefix_def TrimPrefix_def sign_def hex_encode_inj Let_def)
qed

section \<open>The store's contract\<close>

definition new_webhook :: "uuid \<Rightarrow> go_time \<Rightarrow> uuid \<Rightarrow> string \<Rightarrow> string \<Rightarrow> string list \<Rightarrow> webhook" where
  "new_webhook newid now companyID url secret events =
     \<lparr>wh_ID = newid, wh_CompanyID = companyID, wh_URL = url, wh_Secret = secret, wh_Events = events,
      wh_Active = True, wh_ConsecutiveFails = 0, wh_CreatedAt = now\<rparr>"

definition new_delivery :: "uuid \<Rightarrow> go_time \<Rightarrow> uuid \<Rightarrow> string \<Rightarrow> string \<Rightarrow> webhook_delivery" where
  "new_delivery newid now webhookID eventType payload =
     \<lparr>wd_ID = newid, wd_WebhookID = webhookID, wd_EventType = eventType, wd_Payload = payload,
      wd_Status = ''pending'', wd_StatusCode = 0, wd_ResponseBody = [], wd_Attempts = 0,
      wd_NextRetryAt = None, wd_CreatedAt = now\<rparr>"

definition updated_delivery ::
  "string \<Rightarrow> int \<Rightarrow> string \<Rightarrow> go_time option \<Rightarrow> webhook_delivery \<Rightarrow> webhook_delivery" where
  "updated_delivery status statusCode responseBody nextRetryAt d =
     d\<lparr>wd_Status := status, wd_StatusCode := statusCode, wd_ResponseBody := responseBody,
       wd_NextRetryAt := nextRetryAt, wd_Attempts := wd_Attempts d + 1\<rparr>"

locale webhook_store_spec =
  fixes W :: "'s webhook_store"
    and hooks :: "'s \<Rightarrow> uuid \<Rightarrow> webhook option"
    and dels :: "'s \<Rightarrow> uuid \<Rightarrow> webhook_delivery option"
    and wf :: "'s \<Rightarrow> bool"
  assumes hook_ids: "wf s \<Longrightarrow> hooks s i = Some h \<Longrightarrow> wh_ID h = i"
    and delivery_ids: "wf s \<Longrightarrow> dels s i = Some d \<Longrightarrow> wd_ID d = i"
    and create_hook: "wf s \<Longrightarrow> \<exists>s'. ws_CreateWebhook W n now co url secret events s
            = (Inr (new_webhook n now co url secret events), s') \<and> wf s' \<and> dels s' = dels s \<and>
          hooks s' = (hooks s)(n \<mapsto> new_webhook n now co url secret events)"
    and get_hook: "ws_GetWebhook W i s = Inr h \<longleftrightarrow> hooks s i = Some h"
    and list_hooks: "wf s \<Longrightarrow> \<exists>hs. ws_ListWebhooksByCompany W co s = Inr hs \<and> distinct (map wh_ID hs) \<and>
          (\<forall>h. h \<in> set hs \<longleftrightarrow> hooks s (wh_ID h) = Some h \<and> wh_CompanyID h = co)"
    and set_status: "wf s \<Longrightarrow> hooks s i = Some h \<Longrightarrow>
          \<exists>s'. ws_UpdateWebhookStatus W i act s = (Inr (), s') \<and> wf s' \<and> dels s' = dels s \<and>
          hooks s' = (hooks s)(i \<mapsto> h\<lparr>wh_Active := act\<rparr>)"
    and increment: "wf s \<Longrightarrow> hooks s i = Some h \<Longrightarrow>
          \<exists>s'. ws_IncrementFailureCount W i s = (Inr (wh_ConsecutiveFails h + 1), s') \<and> wf s' \<and> dels s' = dels s \<and>
          hooks s' = (hooks s)(i \<mapsto> h\<lparr>wh_ConsecutiveFails := wh_ConsecutiveFails h + 1\<rparr>)"
    and reset: "wf s \<Longrightarrow> hooks s i = Some h \<Longrightarrow>
          \<exists>s'. ws_ResetFailureCount W i s = (Inr (), s') \<and> wf s' \<and> dels s' = dels s \<and>
          hooks s' = (hooks s)(i \<mapsto> h\<lparr>wh_ConsecutiveFails := 0\<rparr>)"
    and create_delivery: "wf s \<Longrightarrow>
          \<exists>s'. ws_CreateDelivery W n now wid ev payload s = (Inr (new_delivery n now wid ev payload), s') \<and>
          wf s' \<and> hooks s' = hooks s \<and> dels s' = (dels s)(n \<mapsto> new_delivery n now wid ev payload)"
    and update_delivery: "wf s \<Longrightarrow> dels s i = Some d \<Longrightarrow>
          \<exists>s'. ws_UpdateDelivery W i status code body retry s = (Inr (), s') \<and> wf s' \<and> hooks s' = hooks s \<and>
          dels s' = (dels s)(i \<mapsto> updated_delivery status code body retry d)"
    and get_delivery: "ws_GetDelivery W i s = Inr d \<longleftrightarrow> dels s i = Some d"
    and list_failed: "wf s \<Longrightarrow> \<exists>ds. ws_ListFailedDeliveriesForRetry W limit s = Inr ds \<and>
          distinct (map wd_ID ds) \<and>
          (\<forall>d. d \<in> set ds \<longleftrightarrow> dels s (wd_ID d) = Some d \<and> wd_Status d = ''failed'' \<and> wd_Attempts d < limit)"

section \<open>Runs of the service\<close>

text \<open>
  A run interleaves calls of the service with the goroutines it started: \<open>inflight\<close> lists the deliveries
  handed to goroutines with the snapshots of webhook and delivery they work on, and \<open>CallFinish i\<close> lets
  the \<open>i\<close>-th of them run. One delivery attempt is one step.
\<close>

type_synonym inflight = "(webhook \<times> webhook_delivery) list"

datatype webhook_call =
    CallRegister string uuid go_time uuid string string "string list"
  | CallTrigger "uuid list" go_time uuid string string
  | CallRetry
  | CallFinish nat go_time http_outcome
  | CallExecute go_time http_outcome uuid

definition succeeded :: "http_outcome \<Rightarrow> bool" where
  "succeeded outcome \<longleftrightarrow> (case outcome of RequestError _ \<Rightarrow> False | Response code _ \<Rightarrow> 200 \<le> code \<and> code < 300)"

fun webhook_step ::
  "'s webhook_store \<Rightarrow> webhook_config \<Rightarrow> webhook_call \<Rightarrow> 's \<times> inflight \<Rightarrow> 's \<times> inflight" where
  "webhook_step W c (CallRegister gen n now co url secret events) (s, fl) =
     (snd (WebhookService_Register W gen n now co url secret events s), fl)"
| "webhook_step W c (CallTrigger ids now co ev payload) (s, fl) =
     (case WebhookService_Trigger W ids now co ev payload s of
        (Inl _, s') \<Rightarrow> (s', fl)
      | (Inr started, s') \<Rightarrow> (s', fl @ started))"
| "webhook_step W c CallRetry (s, fl) =
     (case WebhookService_RetryFailedDeliveries W c s of Inl _ \<Rightarrow> (s, fl) | Inr started \<Rightarrow> (s, fl @ started))"
| "webhook_step W c (CallFinish i now outcome) (s, fl) =
     (if i < length fl
      then (WebhookService_deliver W c now outcome (fst (fl ! i)) (snd (fl ! i)) s, take i fl @ drop (Suc i) fl)
      else (s, fl))"
| "webhook_step W c (CallExecute now outcome did) (s, fl) =
     (snd (WebhookService_ExecuteDelivery W c now outcome did s), fl)"

text \<open>The attempt a call makes: which webhook it addressed and whether the endpoint accepted it.\<close>

fun attempt_of :: "'s webhook_store \<Rightarrow> webhook_call \<Rightarrow> 's \<times> inflight \<Rightarrow> (uuid \<times> bool) list" where
  "attempt_of W (CallFinish i now outcome) (s, fl) =
     (if i < length fl then [(wh_ID (fst (fl ! i)), succeeded outcome)] else [])"
| "attempt_of W (CallExecute now outcome did) (s, fl) =
     (case ws_GetDelivery W did s of
        Inl _ \<Rightarrow> []
      | Inr d \<Rightarrow> (case ws_GetWebhook W (wd_WebhookID d) s of
                   Inl _ \<Rightarrow> [] | Inr hook \<Rightarrow> [(wh_ID hook, succeeded outcome)]))"
| "attempt_of W _ (s, fl) = []"

fun webhook_run ::
  "'s webhook_store \<Rightarrow> webhook_config \<Rightarrow> webhook_call list \<Rightarrow> 's \<times> inflight \<Rightarrow> (uuid \<times> bool) list \<times> 's \<times> inflight" where
  "webhook_run W c [] st = ([], st)"
| "webhook_run W c (call # calls) st =
     (case webhook_run W c calls (webhook_step W c call st) of (log, st') \<Rightarrow> (attempt_of W call st @ log, st'))"

text \<open>New identifiers are new: the identifier of a registered webhook and those of the created deliveries.\<close>

fun fresh_ids :: "'s webhook_store \<Rightarrow> webhook_call \<Rightarrow> 's \<times> inflight \<Rightarrow> bool" where
  "fresh_ids W (CallRegister gen n now co url secret events) (s, fl) \<longleftrightarrow> isl (ws_GetWebhook W n s)"
| "fresh_ids W (CallTrigger ids now co ev payload) (s, fl) \<longleftrightarrow>
     distinct ids \<and> (\<forall>n\<in>set ids. isl (ws_GetDelivery W n s)) \<and>
     (case ws_ListWebhooksByCompany W co s of Inl _ \<Rightarrow> True | Inr hs \<Rightarrow> length hs \<le> length ids)"
| "fresh_ids W _ (s, fl) \<longleftrightarrow> True"

fun fresh_run :: "'s webhook_store \<Rightarrow> webhook_config \<Rightarrow> webhook_call list \<Rightarrow> 's \<times> inflight \<Rightarrow> bool" where
  "fresh_run W c [] st \<longleftrightarrow> True"
| "fresh_run W c (call # calls) st \<longleftrightarrow> fresh_ids W call st \<and> fresh_run W c calls (webhook_step W c call st)"

text \<open>The failure counter of one webhook as a function of the outcomes of its attempts, newest last.\<close>

definition fail_streak :: "bool list \<Rightarrow> nat" where
  "fail_streak outcomes = length (takeWhile Not (rev outcomes))"

definition outcomes_of :: "uuid \<Rightarrow> (uuid \<times> bool) list \<Rightarrow> bool list" where
  "outcomes_of hook log = map snd (filter (\<lambda>a. fst a = hook) log)"

text \<open>\<open>tripped k outcomes\<close>: some point of the history had \<open>k\<close> or more failures in a row just before it.\<close>

definition tripped :: "int \<Rightarrow> bool list \<Rightarrow> bool" where
  "tripped k outcomes \<longleftrightarrow> (\<exists>n\<in>{1..length outcomes}. k \<le> int (fail_streak (take n outcomes)) \<and> \<not> outcomes ! (n - 1))"

lemma fail_streak_snoc: "fail_streak (outs @ [b]) = (if b then 0 else Suc (fail_streak outs))"
  by (simp add: fail_streak_def)

lemma outcomes_of_append: "outcomes_of h (l @ l') = outcomes_of h l @ outcomes_of h l'"
  by (simp add: outcomes_of_def)

lemma outcomes_of_single: "outcomes_of h [(h', b)] = (if h' = h then [b] else [])"
  by (simp add: outcomes_of_def)

lemma tripped_snoc:
  "tripped k (outs @ [b]) \<longleftrightarrow> tripped k outs \<or> (\<not> b \<and> k \<le> int (fail_streak (outs @ [b])))"
proof -
  have eq: "{1..length (outs @ [b])} = insert (Suc (length outs)) {1..length outs}" by auto
  have old: "take n (outs @ [b]) = take n outs" "(outs @ [b]) ! (n - 1) = outs ! (n - 1)"
    if "n \<in> {1..length outs}" for n
    using that by (auto simp: nth_append)
  show ?thesis unfolding tripped_def eq using old by (auto simp: nth_append)
qed

text \<open>What an attempt leaves of the webhook and of the delivery it was made for.\<close>

definition hook_after :: "webhook_config \<Rightarrow> bool \<Rightarrow> webhook \<Rightarrow> webhook" where
  "hook_after c success h =
     (if success then h\<lparr>wh_ConsecutiveFails := 0\<rparr>
      else h\<lparr>wh_ConsecutiveFails := wh_ConsecutiveFails h + 1,
             wh_Active := (wh_Active h \<and> wh_ConsecutiveFails h + 1 < wc_maxConsecutiveFailures c)\<rparr>)"

definition delivery_after ::
  "webhook_config \<Rightarrow> go_time \<Rightarrow> http_outcome \<Rightarrow> int \<Rightarrow> webhook_delivery \<Rightarrow> webhook_delivery" where
  "delivery_after c now outcome seen d =
     (let code = (case outcome of RequestError _ \<Rightarrow> 0 | Response code _ \<Rightarrow> code);
          body = (case outcome of RequestError msg \<Rightarrow> msg | Response _ body \<Rightarrow> body)
      in if succeeded outcome then updated_delivery ''success'' code body None d
         else if seen + 1 < wc_maxRetries c
         then updated_delivery ''failed'' code body (Some (now + retry_delay (seen + 1))) d
         else updated_delivery ''exhausted'' code body None d)"

context webhook_store_spec
begin

lemma record_failure_effect:
  assumes wf: "wf s" and h: "hooks s (wh_ID wh) = Some h" and d': "dels s (wd_ID d) = Some d'"
    and fail: "\<not> succeeded outcome"
    and code: "code = (case outcome of RequestError _ \<Rightarrow> 0 | Response code _ \<Rightarrow> code)"
    and body: "body = (case outcome of RequestError msg \<Rightarrow> msg | Response _ body \<Rightarrow> body)"
  shows "wf (WebhookService_recordFailure W c now wh d code body s)"
    and "hooks (WebhookService_recordFailure W c now wh d code body s)
           = (hooks s)(wh_ID wh \<mapsto> hook_after c False h)"
    and "dels (WebhookService_recordFailure W c now wh d code body s)
           = (dels s)(wd_ID d \<mapsto> delivery_after c now outcome (wd_Attempts d) d')"
proof -
  define retry where "retry = (if wd_Attempts d + 1 < wc_maxRetries c then Some (now + retry_delay (wd_Attempts d + 1)) else None)"
  define status where "status = (if wd_Attempts d + 1 < wc_maxRetries c then ''failed'' else ''exhausted'')"
  obtain s1 where u: "ws_UpdateDelivery W (wd_ID d) status code body retry s = (Inr (), s1)" and wf1: "wf s1"
    and h1: "hooks s1 = hooks s" and d1: "dels s1 = (dels s)(wd_ID d \<mapsto> updated_delivery status code body retry d')"
    using update_delivery [OF wf d'] by blast
  obtain s2 where inc: "ws_IncrementFailureCount W (wh_ID wh) s1 = (Inr (wh_ConsecutiveFails h + 1), s2)" and wf2: "wf s2"
    and h2: "hooks s2 = (hooks s)(wh_ID wh \<mapsto> h\<lparr>wh_ConsecutiveFails := wh_ConsecutiveFails h + 1\<rparr>)"
    and d2: "dels s2 = dels s1"
    using increment [OF wf1, of "wh_ID wh" h] h h1 by auto
  obtain s3 where st: "ws_UpdateWebhookStatus W (wh_ID wh) False s2 = (Inr (), s3)" and wf3: "wf s3"
    and h3: "hooks s3 = (hooks s2)(wh_ID wh \<mapsto> h\<lparr>wh_ConsecutiveFails := wh_ConsecutiveFails h + 1, wh_Active := False\<rparr>)"
    and d3: "dels s3 = dels s1"
    using set_status [OF wf2, of "wh_ID wh"] h2 d2 by fastforce
  have run: "WebhookService_recordFailure W c now wh d code body s =
      (if wc_maxConsecutiveFailures c \<le> wh_ConsecutiveFails h + 1 then s3 else s2)"
    using u inc st unfolding WebhookService_recordFailure_def retry_def status_def
    by (cases "wd_Attempts d + 1 < wc_maxRetries c") (simp_all add: Let_def)
  have after: "updated_delivery status code body retry d' = delivery_after c now outcome (wd_Attempts d) d'"
    using fail code body by (simp add: delivery_after_def status_def retry_def Let_def)
  show "wf (WebhookService_recordFailure W c now wh d code body s)" using wf2 wf3 run by simp
  show "hooks (WebhookService_recordFailure W c now wh d code body s) = (hooks s)(wh_ID wh \<mapsto> hook_after c False h)"
    unfolding run using h2 h3 by (simp add: hook_after_def)
  show "dels (WebhookService_recordFailure W c now wh d code body s)
      = (dels s)(wd_ID d \<mapsto> delivery_after c now outcome (wd_Attempts d) d')"
    unfolding run using d1 d2 d3 after by simp
qed

lemma deliver_effect:
  assumes wf: "wf s" and h: "hooks s (wh_ID wh) = Some h" and d': "dels s (wd_ID d) = Some d'"
  shows "wf (WebhookService_deliver W c now outcome wh d s) \<and>
    hooks (WebhookService_deliver W c now outcome wh d s) = (hooks s)(wh_ID wh \<mapsto> hook_after c (succeeded outcome) h) \<and>
    dels (WebhookService_deliver W c now outcome wh d s)
      = (dels s)(wd_ID d \<mapsto> delivery_after c now outcome (wd_Attempts d) d')"
proof (cases "succeeded outcome")
  case True
  then obtain code body where o: "outcome = Response code body" "200 \<le> code" "code < 300"
    by (auto simp: succeeded_def split: http_outcome.splits)
  obtain s1 where u: "ws_UpdateDelivery W (wd_ID d) ''success'' code body None s = (Inr (), s1)" and wf1: "wf s1"
    and h1: "hooks s1 = hooks s" and d1: "dels s1 = (dels s)(wd_ID d \<mapsto> updated_delivery ''success'' code body None d')"
    using update_delivery [OF wf d'] by blast
  obtain s2 where r: "ws_ResetFailureCount W (wh_ID wh) s1 = (Inr (), s2)" and wf2: "wf s2"
    and h2: "hooks s2 = (hooks s)(wh_ID wh \<mapsto> h\<lparr>wh_ConsecutiveFails := 0\<rparr>)" and d2: "dels s2 = dels s1"
    using reset [OF wf1, of "wh_ID wh" h] h h1 by auto
  show ?thesis
    using True o u r wf2 h2 d2 d1
    by (simp add: WebhookService_deliver_def hook_after_def delivery_after_def succeeded_def Let_def)
next
  case False
  then have run: "WebhookService_deliver W c now outcome wh d s = WebhookService_recordFailure W c now wh d
      (case outcome of RequestError _ \<Rightarrow> 0 | Response code _ \<Rightarrow> code)
      (case outcome of RequestError msg \<Rightarrow> msg | Response _ body \<Rightarrow> body) s"
    by (auto simp: WebhookService_deliver_def succeeded_def split: http_outcome.splits)
  show ?thesis
    unfolding run using record_failure_effect [OF wf h d' False refl refl] False by simp
qed

lemma trigger_loop_effect:
  assumes "wf s" and "distinct ids" and "length whs \<le> length ids" and "\<And>n. n \<in> set ids \<Longrightarrow> dels s n = None"
  shows "\<exists>s'. trigger_loop W ids now ev payload whs s =
      (map2 (\<lambda>wh n. (wh, new_delivery n now (wh_ID wh) ev payload))
         (filter (\<lambda>wh. wh_Active wh \<and> matchesEvent (wh_Events wh) ev) whs) ids, s') \<and>
      wf s' \<and> hooks s' = hooks s \<and>
      dels s' = dels s ++ map_of (map2 (\<lambda>wh n. (n, new_delivery n now (wh_ID wh) ev payload))
         (filter (\<lambda>wh. wh_Active wh \<and> matchesEvent (wh_Events wh) ev) whs) ids)"
  using assms
proof (induction whs arbitrary: ids s)
  case Nil
  then show ?case by simp
next
  case (Cons wh whs)
  show ?case
  proof (cases "wh_Active wh \<and> matchesEvent (wh_Events wh) ev")
    case False
    with Cons.IH [of s ids] Cons.prems show ?thesis by auto
  next
    case True
    from Cons.prems(3) obtain n ns where ids: "ids = n # ns" by (cases ids) auto
    let ?d = "new_delivery n now (wh_ID wh) ev payload"
    obtain s1 where c: "ws_CreateDelivery W n now (wh_ID wh) ev payload s = (Inr ?d, s1)"
      and s1: "wf s1" "hooks s1 = hooks s" "dels s1 = (dels s)(n \<mapsto> ?d)"
      using create_delivery [OF Cons.prems(1)] by blast
    have fresh: "dels s1 m = None" if "m \<in> set ns" for m
      using that s1 Cons.prems(2,4) ids by auto
    have len: "length whs \<le> length ns" "distinct ns" using Cons.prems(2,3) ids by simp_all
    let ?m = "map_of (map2 (\<lambda>wh n. (n, new_delivery n now (wh_ID wh) ev payload))
         (filter (\<lambda>wh. wh_Active wh \<and> matchesEvent (wh_Events wh) ev) whs) ns)"
    have "n \<notin> dom ?m"
      using Cons.prems(2) ids by (auto simp: dom_map_of_conv_image_fst dest: set_zip_rightD)
    then have upd: "(dels s)(n \<mapsto> ?d) ++ ?m = dels s ++ ?m(n \<mapsto> ?d)"
      by (auto simp: map_add_def fun_eq_iff domIff split: option.splits)
    obtain s2 where run: "trigger_loop W ns now ev payload whs s1 =
        (map2 (\<lambda>wh n. (wh, new_delivery n now (wh_ID wh) ev payload))
           (filter (\<lambda>wh. wh_Active wh \<and> matchesEvent (wh_Events wh) ev) whs) ns, s2)"
      and s2: "wf s2" "hooks s2 = hooks s1" "dels s2 = dels s1 ++ ?m"
      using Cons.IH [OF s1(1) len(2,1) fresh] by blast
    have d2: "dels s2 = dels s ++ ?m(n \<mapsto> ?d)" unfolding s2(3) s1(3) by (rule upd)
    show ?thesis
    proof (intro exI [of _ s2] conjI)
      show "dels s2 = dels s ++ map_of (map2 (\<lambda>wh n. (n, new_delivery n now (wh_ID wh) ev payload))
         (filter (\<lambda>wh. wh_Active wh \<and> matchesEvent (wh_Events wh) ev) (wh # whs)) ids)"
        using d2 True ids by (simp del: map_add_upd)
    qed (use True c run s2(1,2) s1(2) ids in simp_all)
  qed
qed
end

text \<open>
  The invariant of a run with the given log of attempts: goroutines work on webhooks and deliveries that
  exist, and counter and state of a webhook are what its history of attempts says.
\<close>

definition streak_ok :: "webhook_config \<Rightarrow> bool list \<Rightarrow> webhook \<Rightarrow> bool" where
  "streak_ok c outs h \<longleftrightarrow> wh_ConsecutiveFails h = int (fail_streak outs) \<and>
     (wh_Active h \<longleftrightarrow> \<not> tripped (wc_maxConsecutiveFailures c) outs)"

lemma streak_ok_after: "streak_ok c outs h \<Longrightarrow> streak_ok c (outs @ [b]) (hook_after c b h)"
  by (auto simp: streak_ok_def hook_after_def fail_streak_snoc tripped_snoc)

lemma streak_ok_new: "streak_ok c [] (new_webhook n now co url secret events)"
  by (simp add: streak_ok_def new_webhook_def fail_streak_def tripped_def)

definition run_inv ::
  "('s \<Rightarrow> uuid \<Rightarrow> webhook option) \<Rightarrow> ('s \<Rightarrow> uuid \<Rightarrow> webhook_delivery option) \<Rightarrow> ('s \<Rightarrow> bool) \<Rightarrow> webhook_config \<Rightarrow>
   (uuid \<times> bool) list \<Rightarrow> 's \<times> inflight \<Rightarrow> bool" where
  "run_inv hooks dels good c log st \<longleftrightarrow> good (fst st) \<and>
     (\<forall>p\<in>set (snd st). hooks (fst st) (wh_ID (fst p)) \<noteq> None \<and> dels (fst st) (wd_ID (snd p)) \<noteq> None) \<and>
     (\<forall>a\<in>set log. hooks (fst st) (fst a) \<noteq> None) \<and>
     (\<forall>i h. hooks (fst st) i = Some h \<longrightarrow> streak_ok c (outcomes_of i log) h)"

lemma outcomes_of_unseen: "(\<forall>a\<in>set log. fst a \<noteq> i) \<Longrightarrow> outcomes_of i log = []"
  by (induction log) (auto simp: outcomes_of_def)

context webhook_store_spec
begin

lemma missing_hook: "isl (ws_GetWebhook W i s) \<longleftrightarrow> hooks s i = None"
proof (cases "hooks s i")
  case None
  then show ?thesis using get_hook [of i s "projr (ws_GetWebhook W i s)"] by (cases "ws_GetWebhook W i s") simp_all
next
  case (Some x)
  then have "ws_GetWebhook W i s = Inr x" using get_hook [of i s x] by simp
  with Some show ?thesis by simp
qed

lemma missing_delivery: "isl (ws_GetDelivery W i s) \<longleftrightarrow> dels s i = None"
proof (cases "dels s i")
  case None
  then show ?thesis using get_delivery [of i s "projr (ws_GetDelivery W i s)"] by (cases "ws_GetDelivery W i s") simp_all
next
  case (Some x)
  then have "ws_GetDelivery W i s = Inr x" using get_delivery [of i s x] by simp
  with Some show ?thesis by simp
qed

lemma attempt_inv:
  assumes I: "run_inv hooks dels wf c log (s, fl)" and h: "hooks s (wh_ID wh) = Some h" and d': "dels s (wd_ID d) = Some d'"
  shows "run_inv hooks dels wf c (log @ [(wh_ID wh, succeeded outcome)]) (WebhookService_deliver W c now outcome wh d s, fl)"
proof -
  let ?s = "WebhookService_deliver W c now outcome wh d s"
  have wf: "wf s" using I by (simp add: run_inv_def)
  note eff = deliver_effect [OF wf h d', of c now outcome]
  have streak: "streak_ok c (outcomes_of i (log @ [(wh_ID wh, succeeded outcome)])) k" if "hooks ?s i = Some k" for i k
  proof (cases "i = wh_ID wh")
    case True
    with that eff have "k = hook_after c (succeeded outcome) h" by simp
    moreover have "streak_ok c (outcomes_of (wh_ID wh) log) h" using I h by (simp add: run_inv_def)
    ultimately show ?thesis using True by (simp add: outcomes_of_append outcomes_of_single streak_ok_after)
  next
    case False
    with that eff I show ?thesis by (simp add: run_inv_def outcomes_of_append outcomes_of_single)
  qed
  from I eff streak show ?thesis by (auto simp: run_inv_def)
qed

lemma inv_inflight_mono: "run_inv hooks dels wf c log (s, fl) \<Longrightarrow> set fl' \<subseteq> set fl \<Longrightarrow> run_inv hooks dels wf c log (s, fl')"
  by (auto simp: run_inv_def)

lemma trigger_effect:
  assumes wf: "wf s" and fresh: "fresh_ids W (CallTrigger ids now co ev payload) (s, fl)"
  shows "\<exists>hs s'. ws_ListWebhooksByCompany W co s = Inr hs \<and>
      WebhookService_Trigger W ids now co ev payload s =
        (Inr (map2 (\<lambda>wh n. (wh, new_delivery n now (wh_ID wh) ev payload))
           (filter (\<lambda>wh. wh_Active wh \<and> matchesEvent (wh_Events wh) ev) hs) ids), s') \<and>
      wf s' \<and> hooks s' = hooks s \<and>
      dels s' = dels s ++ map_of (map2 (\<lambda>wh n. (n, new_delivery n now (wh_ID wh) ev payload))
         (filter (\<lambda>wh. wh_Active wh \<and> matchesEvent (wh_Events wh) ev) hs) ids)"
proof -
  obtain hs where hs: "ws_ListWebhooksByCompany W co s = Inr hs" using list_hooks [OF wf] by blast
  have ids: "distinct ids" "length hs \<le> length ids" using fresh hs by simp_all
  have new: "dels s n = None" if "n \<in> set ids" for n
    using that fresh by (simp add: missing_delivery)
  from trigger_loop_effect [OF wf ids new, of now ev payload] hs show ?thesis
    unfolding WebhookService_Trigger_def by fastforce
qed

lemma register_inv:
  assumes I: "run_inv hooks dels wf c log (s, fl)" and fresh: "isl (ws_GetWebhook W n s)"
  shows "run_inv hooks dels wf c log (snd (WebhookService_Register W gen n now co url secret events s), fl)"
proof -
  have wf: "wf s" using I by (simp add: run_inv_def)
  have none: "hooks s n = None" using fresh by (simp add: missing_hook)
  define w where "w = new_webhook n now co url (if secret = [] then gen else secret) events"
  obtain s' where s': "WebhookService_Register W gen n now co url secret events s = (Inr w, s')" "wf s'"
      "dels s' = dels s" "hooks s' = (hooks s)(n \<mapsto> w)"
    unfolding WebhookService_Register_def w_def using create_hook [OF wf] by blast
  have "outcomes_of n log = []" using I none by (intro outcomes_of_unseen) (auto simp: run_inv_def)
  then have "streak_ok c (outcomes_of n log) w" by (simp add: streak_ok_new w_def)
  with I s' none show ?thesis by (auto simp: run_inv_def)
qed

lemma trigger_inv:
  assumes I: "run_inv hooks dels wf c log (s, fl)" and fresh: "fresh_ids W (CallTrigger ids now co ev payload) (s, fl)"
  shows "run_inv hooks dels wf c log (webhook_step W c (CallTrigger ids now co ev payload) (s, fl))"
proof -
  have wf: "wf s" using I by (simp add: run_inv_def)
  obtain hs s' where hs: "ws_ListWebhooksByCompany W co s = Inr hs"
    and tr: "WebhookService_Trigger W ids now co ev payload s =
        (Inr (map2 (\<lambda>wh n. (wh, new_delivery n now (wh_ID wh) ev payload))
           (filter (\<lambda>wh. wh_Active wh \<and> matchesEvent (wh_Events wh) ev) hs) ids), s')"
    and s': "wf s'" "hooks s' = hooks s"
    and d': "dels s' = dels s ++ map_of (map2 (\<lambda>wh n. (n, new_delivery n now (wh_ID wh) ev payload))
         (filter (\<lambda>wh. wh_Active wh \<and> matchesEvent (wh_Events wh) ev) hs) ids)"
    using trigger_effect [OF wf fresh] by blast
  let ?act = "filter (\<lambda>wh. wh_Active wh \<and> matchesEvent (wh_Events wh) ev) hs"
  have started: "hooks s (wh_ID wh) \<noteq> None \<and> dels s' (wd_ID d) \<noteq> None"
    if p: "(wh, d) \<in> set (map2 (\<lambda>wh n. (wh, new_delivery n now (wh_ID wh) ev payload)) ?act ids)" for wh d
  proof -
    from p obtain n where n: "(wh, n) \<in> set (zip ?act ids)" and d: "d = new_delivery n now (wh_ID wh) ev payload"
      by auto
    from n have "wh \<in> set hs" by (auto dest: set_zip_leftD)
    then have "hooks s (wh_ID wh) \<noteq> None" using list_hooks [OF wf, of co] hs by auto
    moreover have "(n, d) \<in> set (map2 (\<lambda>wh n. (n, new_delivery n now (wh_ID wh) ev payload)) ?act ids)"
      using imageI [OF n, of "\<lambda>(wh, n). (n, new_delivery n now (wh_ID wh) ev payload)"] d by simp
    then have "n \<in> fst ` set (map2 (\<lambda>wh n. (n, new_delivery n now (wh_ID wh) ev payload)) ?act ids)"
      by (rule rev_image_eqI) simp
    then have "dels s' n \<noteq> None"
      by (simp only: d' map_add_None map_of_eq_None_iff) simp
    ultimately show ?thesis by (simp add: d new_delivery_def)
  qed
  have old: "dels s i \<noteq> None \<Longrightarrow> dels s' i \<noteq> None" for i by (simp only: d' map_add_None) simp
  define st where "st = map2 (\<lambda>wh n. (wh, new_delivery n now (wh_ID wh) ev payload)) ?act ids"
  have st: "hooks s (wh_ID (fst p)) \<noteq> None \<and> dels s' (wd_ID (snd p)) \<noteq> None" if "p \<in> set st" for p
    using started [of "fst p" "snd p"] that unfolding st_def prod.collapse by blast
  have "webhook_step W c (CallTrigger ids now co ev payload) (s, fl) = (s', fl @ st)"
    using tr by (simp add: st_def)
  moreover have "run_inv hooks dels wf c log (s', fl @ st)"
    using I s' st old by (simp add: run_inv_def ball_Un)
  ultimately show ?thesis by simp
qed

lemma retry_inv:
  assumes I: "run_inv hooks dels wf c log (s, fl)"
  shows "run_inv hooks dels wf c log (webhook_step W c CallRetry (s, fl))"
proof -
  have wf: "wf s" using I by (simp add: run_inv_def)
  obtain ds where ds: "ws_ListFailedDeliveriesForRetry W (wc_maxRetries c) s = Inr ds"
    and mem: "\<And>d. d \<in> set ds \<Longrightarrow> dels s (wd_ID d) = Some d"
    using list_failed [OF wf] by blast
  have "hooks s (wh_ID wh) \<noteq> None" if "ws_GetWebhook W i s = Inr wh" for i wh
    using that get_hook [of i s wh] hook_ids [OF wf] by auto
  with I ds mem show ?thesis
    by (auto simp: run_inv_def WebhookService_RetryFailedDeliveries_def List.map_filter_def split: sum.splits if_splits)
qed

lemma step_inv:
  assumes I: "run_inv hooks dels wf c log st" and fresh: "fresh_ids W call st"
  shows "run_inv hooks dels wf c (log @ attempt_of W call st) (webhook_step W c call st)"
proof (cases st)
  case (Pair s fl)
  have wf: "wf s" using I Pair by (simp add: run_inv_def)
  show ?thesis
  proof (cases call)
    case (CallRegister gen n now co url secret events)
    then show ?thesis using register_inv [of c log s fl n] I fresh Pair by simp
  next
    case (CallTrigger ids now co ev payload)
    then show ?thesis using trigger_inv [of c log s fl ids now co ev payload] I fresh Pair by simp
  next
    case CallRetry
    then show ?thesis using retry_inv [of c log s fl] I Pair by simp
  next
    case (CallFinish i now outcome)
    show ?thesis
    proof (cases "i < length fl")
      case True
      then have "fl ! i \<in> set fl" by simp
      then obtain h d where "hooks s (wh_ID (fst (fl ! i))) = Some h" "dels s (wd_ID (snd (fl ! i))) = Some d"
        using I Pair by (fastforce simp: run_inv_def)
      from attempt_inv [OF _ this] I Pair
      have "run_inv hooks dels wf c (log @ [(wh_ID (fst (fl ! i)), succeeded outcome)])
          (WebhookService_deliver W c now outcome (fst (fl ! i)) (snd (fl ! i)) s, fl)" by simp
      moreover have "set (take i fl @ drop (Suc i) fl) \<subseteq> set fl"
        by (auto dest: in_set_takeD in_set_dropD)
      ultimately show ?thesis using CallFinish Pair True by (simp add: inv_inflight_mono)
    qed (use CallFinish Pair I in simp)
  next
    case (CallExecute now outcome did)
    show ?thesis
    proof (cases "ws_GetDelivery W did s")
      case (Inl e)
      then show ?thesis using CallExecute Pair I by (simp add: WebhookService_ExecuteDelivery_def)
    next
      case (Inr d)
      note d = this
      show ?thesis
      proof (cases "ws_GetWebhook W (wd_WebhookID d) s")
        case (Inl e)
        then show ?thesis using CallExecute Pair I d by (simp add: WebhookService_ExecuteDelivery_def)
      next
        case (Inr h)
        have "hooks s (wh_ID h) = Some h" "dels s (wd_ID d) = Some d"
          using Inr d get_hook get_delivery hook_ids [OF wf] delivery_ids [OF wf] by metis+
        from attempt_inv [OF _ this] I Pair show ?thesis
          using CallExecute d Inr by (simp add: WebhookService_ExecuteDelivery_def)
      qed
    qed
  qed
qed

lemma run_keeps_inv:
  assumes "run_inv hooks dels wf c log st" and "fresh_run W c calls st"
  shows "run_inv hooks dels wf c (log @ fst (webhook_run W c calls st)) (snd (webhook_run W c calls st))"
  using assms
proof (induction calls arbitrary: log st)
  case Nil
  then show ?case by simp
next
  case (Cons call calls)
  have f: "fresh_ids W call st" "fresh_run W c calls (webhook_step W c call st)" using Cons.prems(2) by simp_all
  from Cons.IH [OF step_inv [OF Cons.prems(1) f(1)] f(2)] show ?case
    by (simp add: case_prod_unfold)
qed

lemma counters_from_history:
  assumes "wf s" and "\<And>i. hooks s i = None" and "fresh_run W c calls (s, [])"
    and "webhook_run W c calls (s, []) = (log, s', fl)" and "hooks s' i = Some h"
  shows "wh_ConsecutiveFails h = int (fail_streak (outcomes_of i log))"
    and "wh_Active h \<longleftrightarrow> \<not> tripped (wc_maxConsecutiveFailures c) (outcomes_of i log)"
proof -
  have "run_inv hooks dels wf c [] (s, [])" using assms(1,2) by (simp add: run_inv_def)
  from run_keeps_inv [OF this assms(3)] assms(4,5)
  have "streak_ok c (outcomes_of i log) h" by (simp add: run_inv_def)
  then show "wh_ConsecutiveFails h = int (fail_streak (outcomes_of i log))"
    and "wh_Active h \<longleftrightarrow> \<not> tripped (wc_maxConsecutiveFailures c) (outcomes_of i log)"
    by (simp_all add: streak_ok_def)
qed
end

section \<open>Retrying one delivery\<close>

definition execute_all ::
  "'s webhook_store \<Rightarrow> webhook_config \<Rightarrow> uuid \<Rightarrow> (go_time \<times> http_outcome) list \<Rightarrow> 's \<Rightarrow> 's" where
  "execute_all W c did attempts s =
     foldl (\<lambda>s a. snd (WebhookService_ExecuteDelivery W c (fst a) (snd a) did s)) s attempts"

definition listed_for_retry :: "'s webhook_store \<Rightarrow> webhook_config \<Rightarrow> uuid \<Rightarrow> 's \<Rightarrow> bool" where
  "listed_for_retry W c did s \<longleftrightarrow>
     (case ws_ListFailedDeliveriesForRetry W (wc_maxRetries c) s of
        Inl _ \<Rightarrow> False | Inr ds \<Rightarrow> did \<in> set (map wd_ID ds))"

definition failed_delivery :: "webhook_config \<Rightarrow> go_time \<Rightarrow> webhook_delivery \<Rightarrow> bool" where
  "failed_delivery c now d \<longleftrightarrow>
     wd_Status d = (if wd_Attempts d < wc_maxRetries c then ''failed'' else ''exhausted'') \<and>
     wd_NextRetryAt d =
       (if wd_Attempts d < wc_maxRetries c then Some (now + retry_delay (wd_Attempts d)) else None)"

lemma delivery_after_keeps:
  "wd_WebhookID (delivery_after c now outcome k d) = wd_WebhookID d"
  "wd_Attempts (delivery_after c now outcome k d) = wd_Attempts d + 1"
  "wd_ID (delivery_after c now outcome k d) = wd_ID d"
  by (simp_all add: delivery_after_def updated_delivery_def Let_def)

lemma delivery_after_failed:
  "\<not> succeeded outcome \<Longrightarrow> failed_delivery c now (delivery_after c now outcome (wd_Attempts d) d)"
  by (simp add: delivery_after_def updated_delivery_def failed_delivery_def Let_def)

context webhook_store_spec
begin

lemma execute_effect:
  fixes c now outcome
  assumes wf: "wf s" and d: "dels s did = Some d" and h: "hooks s (wd_WebhookID d) = Some h"
  defines "s' \<equiv> snd (WebhookService_ExecuteDelivery W c now outcome did s)"
  shows "wf s'" and "hooks s' = (hooks s)(wd_WebhookID d \<mapsto> hook_after c (succeeded outcome) h)"
    and "dels s' = (dels s)(did \<mapsto> delivery_after c now outcome (wd_Attempts d) d)"
proof -
  have ids: "wd_ID d = did" "wh_ID h = wd_WebhookID d"
    using delivery_ids [OF wf d] hook_ids [OF wf h] by simp_all
  have "s' = WebhookService_deliver W c now outcome h d s"
    using d h get_delivery [of did s d] get_hook [of "wd_WebhookID d" s h]
    by (simp add: s'_def WebhookService_ExecuteDelivery_def)
  with deliver_effect [OF wf, of h h d d c now outcome] ids d h
  show "wf s'" and "hooks s' = (hooks s)(wd_WebhookID d \<mapsto> hook_after c (succeeded outcome) h)"
    and "dels s' = (dels s)(did \<mapsto> delivery_after c now outcome (wd_Attempts d) d)" by simp_all
qed

lemma execute_all_effect:
  assumes wf: "wf s" and d: "dels s did = Some d" and h: "hooks s (wd_WebhookID d) \<noteq> None"
    and fail: "\<And>a. a \<in> set attempts \<Longrightarrow> \<not> succeeded (snd a)"
  shows "wf (execute_all W c did attempts s) \<and>
    (\<exists>d'. dels (execute_all W c did attempts s) did = Some d' \<and> wd_WebhookID d' = wd_WebhookID d \<and>
       hooks (execute_all W c did attempts s) (wd_WebhookID d) \<noteq> None \<and>
       wd_Attempts d' = wd_Attempts d + int (length attempts) \<and>
       (attempts \<noteq> [] \<longrightarrow> failed_delivery c (fst (last attempts)) d'))"
  using fail
proof (induction attempts rule: rev_induct)
  case Nil
  then show ?case using wf d h by (simp add: execute_all_def)
next
  case (snoc a as)
  define t where "t = execute_all W c did as s"
  obtain d1 h1 where wf1: "wf t" and d1: "dels t did = Some d1" "wd_WebhookID d1 = wd_WebhookID d"
    and h1: "hooks t (wd_WebhookID d) = Some h1" and n1: "wd_Attempts d1 = wd_Attempts d + int (length as)"
    using snoc by (auto simp: t_def)
  have step: "execute_all W c did (as @ [a]) s = snd (WebhookService_ExecuteDelivery W c (fst a) (snd a) did t)"
    by (simp add: execute_all_def t_def)
  note eff = execute_effect [OF wf1 d1(1), unfolded d1(2), OF h1, of c "fst a" "snd a", folded step]
  have "failed_delivery c (fst a) (delivery_after c (fst a) (snd a) (wd_Attempts d1) d1)"
    using snoc.prems by (simp add: delivery_after_failed)
  with eff d1 n1 show ?case by (simp add: delivery_after_keeps)
qed

lemma listed_iff:
  assumes wf: "wf s" and d: "dels s did = Some d"
  shows "listed_for_retry W c did s \<longleftrightarrow> wd_Status d = ''failed'' \<and> wd_Attempts d < wc_maxRetries c"
proof -
  obtain ds where ds: "ws_ListFailedDeliveriesForRetry W (wc_maxRetries c) s = Inr ds"
    and mem: "\<And>d. d \<in> set ds \<longleftrightarrow>
      dels s (wd_ID d) = Some d \<and> wd_Status d = ''failed'' \<and> wd_Attempts d < wc_maxRetries c"
    using list_failed [OF wf] by blast
  have "did \<in> set (map wd_ID ds) \<longleftrightarrow> d \<in> set ds"
  proof
    assume "did \<in> set (map wd_ID ds)"
    then obtain e where "e \<in> set ds" "wd_ID e = did" by auto
    with mem [of e] d show "d \<in> set ds" by simp
  qed (use delivery_ids [OF wf d] in auto)
  with mem [of d] ds d delivery_ids [OF wf d] show ?thesis by (simp add: listed_for_retry_def)
qed

lemma failing_delivery_exhausts:
  assumes wf: "wf s" and d: "dels s did = Some d" and h: "hooks s (wd_WebhookID d) \<noteq> None"
    and fail: "\<And>a. a \<in> set attempts \<Longrightarrow> \<not> succeeded (snd a)" and ne: "attempts \<noteq> []"
  shows "\<exists>d'. dels (execute_all W c did attempts s) did = Some d' \<and>
       wd_Attempts d' = wd_Attempts d + int (length attempts) \<and> failed_delivery c (fst (last attempts)) d' \<and>
       (listed_for_retry W c did (execute_all W c did attempts s) \<longleftrightarrow>
          wd_Attempts d + int (length attempts) < wc_maxRetries c)"
proof -
  obtain d' where w: "wf (execute_all W c did attempts s)"
    and d': "dels (execute_all W c did attempts s) did = Some d'"
    and n: "wd_Attempts d' = wd_Attempts d + int (length attempts)"
    and f: "failed_delivery c (fst (last attempts)) d'"
    using execute_all_effect [OF wf d h fail, of attempts c] ne by auto
  from listed_iff [OF w d', of c] n f
  have "listed_for_retry W c did (execute_all W c did attempts s) \<longleftrightarrow>
      wd_Attempts d + int (length attempts) < wc_maxRetries c"
    by (auto simp: failed_delivery_def)
  with d' n f show ?thesis by blast
qed
end

end
