(* ===== verification/Devstore.thy ===== *)
theory Devstore
  imports Auth Company Webhook Audit_Log "HOL-Library.List_Lexorder"
begin

text \<open>
  The in-memory backend of \<^verbatim>\<open>src/platform/devstore\<close>: one state behind five store interfaces. Its auth, company,
  RBAC and webhook stores are records of operations over \<open>memory_state\<close> and interpret the contracts of
  the services (\<open>token_store_spec\<close>, \<open>company_store_spec\<close>, \<open>rbac_store_spec\<close>, \<open>webhook_store_spec\<close>), so the
  properties of this theory hold of the services running on this backend. The audit store is modelled in
  \<open>Audit_Log\<close>.

  Every operation holds the backend's lock, so it is one step. A transaction is a deep copy of the state,
  that is the state's value, and a commit replaces the state by it. \<^verbatim>\<open>sort.Slice\<close> is a sort by key; the order
  of entries with equal keys, which Go leaves open, is that of the map's list.
\<close>

section \<open>State\<close>

record memory_state =
  ms_usersByID :: "(uuid, user) gomap"
  ms_usersByEmail :: "(string, uuid) gomap"
  ms_companies :: "(uuid, company) gomap"
  ms_hierarchy :: "company_hierarchy list"
  ms_memberships :: "(uuid, auth_membership list) gomap"
  ms_roles :: "(uuid, auth_role) gomap"
  ms_refreshTokens :: "(string, refresh_token_record) gomap"
  ms_ssoConfigs :: "(string, sso_config) gomap"
  ms_defaultSettings :: string
  ms_rbacRoles :: "(uuid, rbac_role) gomap"
  ms_rbacPermissions :: "(uuid, permission) gomap"
  ms_rolePermissions :: "(uuid, uuid list) gomap"
  ms_rbacMemberships :: "(string, rbac_membership) gomap"
  ms_auditLogs :: "audit_log_entry list"
  ms_webhooks :: "(uuid, webhook) gomap"
  ms_deliveries :: "(uuid, webhook_delivery) gomap"

definition json_str :: "string \<Rightarrow> string" where
  "json_str s = [CHR 0x22] @ s @ [CHR 0x22]"

definition defaultSettings :: string where
  "defaultSettings = ''{'' @ json_str ''enabled_features'' @ '':['' @ json_str ''home'' @ '','' @ json_str ''projects''
     @ '','' @ json_str ''activity'' @ '','' @ json_str ''settings'' @ '']}''"

definition authRoles :: "(uuid, auth_role) gomap" where
  "authRoles =
     [(OwnerRoleID, \<lparr>ar_ID = OwnerRoleID, ar_Name = ''owner'', ar_Description = [], ar_RoleLevel = 90\<rparr>),
      (AdminRoleID, \<lparr>ar_ID = AdminRoleID, ar_Name = ''admin'', ar_Description = [], ar_RoleLevel = 80\<rparr>),
      (MemberRoleID, \<lparr>ar_ID = MemberRoleID, ar_Name = ''member'', ar_Description = [], ar_RoleLevel = 40\<rparr>),
      (ViewerRoleID, \<lparr>ar_ID = ViewerRoleID, ar_Name = ''viewer'', ar_Description = [], ar_RoleLevel = 20\<rparr>)]"

definition NewMemoryBackend :: memory_state where
  "NewMemoryBackend =
     \<lparr>ms_usersByID = [], ms_usersByEmail = [], ms_companies = [], ms_hierarchy = [], ms_memberships = [],
      ms_roles = authRoles, ms_refreshTokens = [], ms_ssoConfigs = [], ms_defaultSettings = defaultSettings,
      ms_rbacRoles = [], ms_rbacPermissions = [], ms_rolePermissions = [], ms_rbacMemberships = [],
      ms_auditLogs = [], ms_webhooks = [], ms_deliveries = []\<rparr>"

definition SeedRBACRole :: "rbac_role \<Rightarrow> memory_state \<Rightarrow> memory_state" where
  "SeedRBACRole role s = s\<lparr>ms_rbacRoles := gm_put (rr_ID role) role (ms_rbacRoles s)\<rparr>"

definition SeedRBACPermission :: "permission \<Rightarrow> memory_state \<Rightarrow> memory_state" where
  "SeedRBACPermission perm s = s\<lparr>ms_rbacPermissions := gm_put (pm_ID perm) perm (ms_rbacPermissions s)\<rparr>"

definition SetRBACMembershipOverrides :: "string \<Rightarrow> string option \<Rightarrow> memory_state \<Rightarrow> memory_state" where
  "SetRBACMembershipOverrides key overrides s =
     (case gm_get (ms_rbacMemberships s) key of
        None \<Rightarrow> s
      | Some m \<Rightarrow> s\<lparr>ms_rbacMemberships := gm_put key (m\<lparr>rm_PermissionOverrides := overrides\<rparr>) (ms_rbacMemberships s)\<rparr>)"

definition SetSSOConfig :: "uuid \<Rightarrow> string \<Rightarrow> sso_config \<Rightarrow> memory_state \<Rightarrow> memory_state" where
  "SetSSOConfig companyID provider config s =
     s\<lparr>ms_ssoConfigs := gm_put (companyID @ '':'' @ provider) config (ms_ssoConfigs s)\<rparr>"

section \<open>The closure table\<close>

definition getAncestors :: "memory_state \<Rightarrow> uuid \<Rightarrow> company_hierarchy list" where
  "getAncestors s companyID = sort_key hi_Generations (filter (\<lambda>e. hi_DescendantID e = companyID) (ms_hierarchy s))"

definition insertHierarchy :: "company_hierarchy \<Rightarrow> memory_state \<Rightarrow> memory_state" where
  "insertHierarchy entry s =
     (if (\<exists>e\<in>set (ms_hierarchy s). hi_AncestorID e = hi_AncestorID entry \<and>
            hi_DescendantID e = hi_DescendantID entry \<and> hi_Generations e = hi_Generations entry)
      then s else s\<lparr>ms_hierarchy := ms_hierarchy s @ [entry]\<rparr>)"

section \<open>Auth store\<close>

definition AuthStore_BeginTx :: "memory_state \<Rightarrow> memory_state result" where
  "AuthStore_BeginTx s = Inr s"

definition AuthStore_Commit :: "memory_state \<Rightarrow> memory_state \<Rightarrow> unit result \<times> memory_state" where
  "AuthStore_Commit tx s = (Inr (), tx)"

definition zero_user :: user where
  "zero_user = \<lparr>us_ID = uuid_Nil, us_Email = [], us_PasswordHash = [], us_DisplayName = [], us_AvatarURL = [],
     us_IsActive = False, us_CreatedAt = 0\<rparr>"

definition AuthStore_GetUserByEmail :: "string \<Rightarrow> memory_state \<Rightarrow> user result" where
  "AuthStore_GetUserByEmail email s =
     (case gm_get (ms_usersByEmail s) (ToLower (TrimSpace email)) of
        None \<Rightarrow> Inl (ErrMsg ''user not found'')
      | Some uid \<Rightarrow> Inr (gm_get_or zero_user (ms_usersByID s) uid))"

definition AuthStore_GetUserByID :: "uuid \<Rightarrow> memory_state \<Rightarrow> user result" where
  "AuthStore_GetUserByID uid s =
     (case gm_get (ms_usersByID s) uid of None \<Rightarrow> Inl (ErrMsg ''user not found'') | Some user \<Rightarrow> Inr user)"

definition AuthStore_CreateUser ::
  "uuid \<Rightarrow> go_time \<Rightarrow> string \<Rightarrow> string \<Rightarrow> string \<Rightarrow> memory_state \<Rightarrow> user result \<times> memory_state" where
  "AuthStore_CreateUser newid now email passwordHash displayName s =
     (let normalized = ToLower (TrimSpace email)
      in case gm_get (ms_usersByEmail s) normalized of
           Some _ \<Rightarrow> (Inl (ErrMsg ''duplicate key''), s)
         | None \<Rightarrow>
             let user = \<lparr>us_ID = newid, us_Email = normalized, us_PasswordHash = passwordHash,
                         us_DisplayName = TrimSpace displayName, us_AvatarURL = [], us_IsActive = True,
                         us_CreatedAt = now\<rparr>
             in (Inr user, s\<lparr>ms_usersByID := gm_put newid user (ms_usersByID s),
                             ms_usersByEmail := gm_put normalized newid (ms_usersByEmail s)\<rparr>))"

definition AuthStore_UpdateUser :: "uuid \<Rightarrow> string \<Rightarrow> string \<Rightarrow> memory_state \<Rightarrow> user result \<times> memory_state" where
  "AuthStore_UpdateUser uid displayName avatarURL s =
     (case gm_get (ms_usersByID s) uid of
        None \<Rightarrow> (Inl (ErrMsg ''user not found''), s)
      | Some user \<Rightarrow>
          let user' = user\<lparr>us_DisplayName := displayName, us_AvatarURL := avatarURL\<rparr>
          in (Inr user', s\<lparr>ms_usersByID := gm_put uid user' (ms_usersByID s)\<rparr>))"

definition AuthStore_CreateCompany ::
  "uuid \<Rightarrow> go_time \<Rightarrow> string \<Rightarrow> string \<Rightarrow> string \<Rightarrow> memory_state \<Rightarrow> uuid result \<times> memory_state" where
  "AuthStore_CreateCompany newid now name slug companyType s =
     (let c = \<lparr>co_ID = newid, co_Name = name, co_Slug = slug, co_ParentCompanyID = None,
               co_CompanyType = (if companyType = [] then CompanyTypeStandalone else companyType),
               co_InheritedRoleCap = None, co_InheritedAccessLvl = None,
               co_Settings = Some (ms_defaultSettings s), co_IsActive = True, co_CreatedAt = now,
               co_UpdatedAt = now\<rparr>
      in (Inr newid,
          insertHierarchy \<lparr>hi_AncestorID = newid, hi_DescendantID = newid, hi_Generations = 0\<rparr>
            (s\<lparr>ms_companies := gm_put newid c (ms_companies s)\<rparr>)))"

definition AuthStore_CreateCompanyMembership ::
  "uuid \<Rightarrow> uuid \<Rightarrow> uuid \<Rightarrow> memory_state \<Rightarrow> unit result \<times> memory_state" where
  "AuthStore_CreateCompanyMembership companyID userID roleID s =
     (case gm_get (ms_roles s) roleID of
        None \<Rightarrow> (Inl (ErrMsg ''role not found''), s)
      | Some role \<Rightarrow>
          let current = gm_get_or [] (ms_memberships s) userID
          in if (\<exists>m\<in>set current. am_CompanyID m = companyID) then (Inr (), s)
             else (Inr (), s\<lparr>ms_memberships := gm_put userID (current @
                      [\<lparr>am_CompanyID = companyID, am_UserID = userID, am_RoleID = roleID,
                        am_RoleName = ar_Name role\<rparr>]) (ms_memberships s)\<rparr>))"

definition AuthStore_GetCompanyMembershipByUser :: "uuid \<Rightarrow> memory_state \<Rightarrow> auth_membership result" where
  "AuthStore_GetCompanyMembershipByUser userID s =
     (case gm_get_or [] (ms_memberships s) userID of
        [] \<Rightarrow> Inl (ErrMsg ''membership not found'')
      | m # _ \<Rightarrow> Inr m)"

definition AuthStore_GetRoleByID :: "uuid \<Rightarrow> memory_state \<Rightarrow> auth_role result" where
  "AuthStore_GetRoleByID roleID s =
     (case gm_get (ms_roles s) roleID of None \<Rightarrow> Inl (ErrMsg ''role not found'') | Some role \<Rightarrow> Inr role)"

definition AuthStore_GetUserRole :: "uuid \<Rightarrow> uuid \<Rightarrow> memory_state \<Rightarrow> auth_role result" where
  "AuthStore_GetUserRole companyID userID s =
     (case find (\<lambda>m. am_CompanyID m = companyID) (gm_get_or [] (ms_memberships s) userID) of
        None \<Rightarrow> Inl (ErrMsg ''role not found'')
      | Some m \<Rightarrow> (case gm_get (ms_roles s) (am_RoleID m) of
                    None \<Rightarrow> Inl (ErrMsg ''role not found'') | Some role \<Rightarrow> Inr role))"

definition AuthStore_CreateRefreshToken ::
  "uuid \<Rightarrow> string \<Rightarrow> go_time \<Rightarrow> memory_state \<Rightarrow> unit result \<times> memory_state" where
  "AuthStore_CreateRefreshToken userID tokenHash expiresAt s =
     (Inr (), s\<lparr>ms_refreshTokens := gm_put tokenHash
        \<lparr>rt_UserID = userID, rt_TokenHash = tokenHash, rt_ExpiresAt = expiresAt\<rparr> (ms_refreshTokens s)\<rparr>)"

definition AuthStore_GetRefreshToken :: "go_time \<Rightarrow> string \<Rightarrow> memory_state \<Rightarrow> refresh_token_record result" where
  "AuthStore_GetRefreshToken now tokenHash s =
     (case gm_get (ms_refreshTokens s) tokenHash of
        None \<Rightarrow> Inl (ErrMsg ''refresh token not found'')
      | Some r \<Rightarrow> if now > rt_ExpiresAt r then Inl (ErrMsg ''refresh token not found'') else Inr r)"

definition AuthStore_RevokeRefreshToken :: "string \<Rightarrow> memory_state \<Rightarrow> unit result \<times> memory_state" where
  "AuthStore_RevokeRefreshToken tokenHash s = (Inr (), s\<lparr>ms_refreshTokens := gm_del tokenHash (ms_refreshTokens s)\<rparr>)"

definition AuthStore_CreateAuditLog ::
  "uuid \<Rightarrow> uuid \<Rightarrow> string \<Rightarrow> string \<Rightarrow> string \<Rightarrow> string \<Rightarrow> string \<Rightarrow> memory_state \<Rightarrow> unit result \<times> memory_state" where
  "AuthStore_CreateAuditLog companyID actorID action resource resourceID ipAddress details s = (Inr (), s)"

definition dev_AuthStore :: "memory_state auth_store" where
  "dev_AuthStore =
     \<lparr>as_GetUserByEmail = AuthStore_GetUserByEmail, as_GetUserByID = AuthStore_GetUserByID,
      as_CreateUser = AuthStore_CreateUser, as_UpdateUser = AuthStore_UpdateUser,
      as_CreateCompany = AuthStore_CreateCompany,
      as_CreateCompanyMembership = AuthStore_CreateCompanyMembership,
      as_GetCompanyMembershipByUser = AuthStore_GetCompanyMembershipByUser,
      as_GetRoleByID = AuthStore_GetRoleByID, as_GetUserRole = AuthStore_GetUserRole,
      as_CreateRefreshToken = AuthStore_CreateRefreshToken, as_GetRefreshToken = AuthStore_GetRefreshToken,
      as_RevokeRefreshToken = AuthStore_RevokeRefreshToken, as_CreateAuditLog = AuthStore_CreateAuditLog,
      as_BeginTx = AuthStore_BeginTx, as_Commit = AuthStore_Commit\<rparr>"

subsection \<open>Single sign-on configuration\<close>

definition sso_key_of :: "uuid \<Rightarrow> string \<Rightarrow> bool" where
  "sso_key_of companyID key \<longleftrightarrow> length key > 36 \<and> take 36 key = companyID"

definition AuthStore_GetSSOConfig :: "uuid \<Rightarrow> string \<Rightarrow> memory_state \<Rightarrow> sso_config result" where
  "AuthStore_GetSSOConfig companyID provider s =
     (case gm_get (ms_ssoConfigs s) (companyID @ '':'' @ provider) of
        None \<Rightarrow> Inl (ErrMsg ''sso config not found'') | Some c \<Rightarrow> Inr c)"

definition AuthStore_ListSSOConfigs :: "uuid \<Rightarrow> memory_state \<Rightarrow> sso_config list result" where
  "AuthStore_ListSSOConfigs companyID s =
     Inr (map snd (filter (\<lambda>e. sso_key_of companyID (fst e)) (ms_ssoConfigs s)))"

definition AuthStore_UpsertSSOConfig :: "sso_config \<Rightarrow> memory_state \<Rightarrow> unit result \<times> memory_state" where
  "AuthStore_UpsertSSOConfig cfg s =
     (Inr (), s\<lparr>ms_ssoConfigs := gm_put (sc_CompanyID cfg @ '':'' @ sc_Provider cfg) cfg (ms_ssoConfigs s)\<rparr>)"

definition AuthStore_DeleteSSOConfig :: "uuid \<Rightarrow> string \<Rightarrow> memory_state \<Rightarrow> unit result \<times> memory_state" where
  "AuthStore_DeleteSSOConfig companyID provider s =
     (Inr (), s\<lparr>ms_ssoConfigs := gm_del (companyID @ '':'' @ provider) (ms_ssoConfigs s)\<rparr>)"

definition AuthStore_HasEnforcedSSO :: "uuid \<Rightarrow> memory_state \<Rightarrow> bool result" where
  "AuthStore_HasEnforcedSSO companyID s =
     Inr (\<exists>e\<in>set (ms_ssoConfigs s). sso_key_of companyID (fst e) \<and> sc_EnforceSSO (snd e) \<and> sc_IsActive (snd e))"

definition jit_matches :: "string \<Rightarrow> string \<Rightarrow> sso_config \<Rightarrow> bool" where
  "jit_matches issuer emailDomain cfg \<longleftrightarrow>
     sc_IssuerURL cfg = issuer \<and> sc_IsActive cfg \<and> sc_JITEnabled cfg \<and> emailDomain \<in> set (sc_EmailDomainAllowlist cfg)"

definition AuthStore_ResolveJITCompanyByIssuerDomain ::
  "string \<Rightarrow> string \<Rightarrow> memory_state \<Rightarrow> (uuid \<times> string) result" where
  "AuthStore_ResolveJITCompanyByIssuerDomain issuer emailDomain s =
     (case filter (jit_matches issuer emailDomain) (gm_vals (ms_ssoConfigs s)) of
        [] \<Rightarrow> Inl ErrNoJITMatch
      | [cfg] \<Rightarrow> Inr (sc_CompanyID cfg, sc_JITDefaultRole cfg)
      | _ \<Rightarrow> Inl ErrAmbiguousJITMatch)"

definition AuthStore_UpsertOAuthCredential :: "oauth_credential \<Rightarrow> memory_state \<Rightarrow> unit result \<times> memory_state" where
  "AuthStore_UpsertOAuthCredential cred s = (Inr (), s)"

definition AuthStore_GetOAuthCredential :: "uuid \<Rightarrow> string \<Rightarrow> memory_state \<Rightarrow> oauth_credential result" where
  "AuthStore_GetOAuthCredential userID provider s = Inl (ErrMsg ''oauth credential not found'')"

section \<open>Company store\<close>

definition CompanyStore_ListCompaniesForUser :: "uuid \<Rightarrow> memory_state \<Rightarrow> company list result" where
  "CompanyStore_ListCompaniesForUser userID s =
     Inr (sort_key co_Name
            (List.map_filter (\<lambda>m. gm_get (ms_companies s) (am_CompanyID m)) (gm_get_or [] (ms_memberships s) userID)))"

text \<open>The record \<^verbatim>\<open>CreateCompany\<close> stores, after its defaults.\<close>

definition stored_company :: "uuid \<Rightarrow> go_time \<Rightarrow> string \<Rightarrow> company \<Rightarrow> company" where
  "stored_company newid now defaults c =
     c\<lparr>co_ID := (if co_ID c = uuid_Nil then newid else co_ID c),
       co_Settings := (case co_Settings c of None \<Rightarrow> Some defaults | Some j \<Rightarrow> Some j),
       co_CompanyType := (if co_CompanyType c = [] then CompanyTypeStandalone else co_CompanyType c),
       co_IsActive := True,
       co_CreatedAt := (if co_CreatedAt c = 0 then now else co_CreatedAt c),
       co_UpdatedAt := now\<rparr>"

definition CompanyStore_CreateCompany ::
  "uuid \<Rightarrow> go_time \<Rightarrow> company \<Rightarrow> memory_state \<Rightarrow> company result \<times> memory_state" where
  "CompanyStore_CreateCompany newid now c0 s =
     (let c = stored_company newid now (ms_defaultSettings s) c0;
          s1 = insertHierarchy \<lparr>hi_AncestorID = co_ID c, hi_DescendantID = co_ID c, hi_Generations = 0\<rparr>
                 (s\<lparr>ms_companies := gm_put (co_ID c) c (ms_companies s)\<rparr>)
      in case co_ParentCompanyID c of
           None \<Rightarrow> (Inr c, s1)
         | Some p \<Rightarrow>
             (Inr c, fold (\<lambda>a. insertHierarchy \<lparr>hi_AncestorID = hi_AncestorID a, hi_DescendantID = co_ID c,
                                                hi_Generations = hi_Generations a + 1\<rparr>) (getAncestors s1 p) s1))"

definition CompanyStore_GetCompany :: "uuid \<Rightarrow> memory_state \<Rightarrow> company result" where
  "CompanyStore_GetCompany cid s =
     (case gm_get (ms_companies s) cid of None \<Rightarrow> Inl (ErrMsg ''company not found'') | Some c \<Rightarrow> Inr c)"

definition CompanyStore_UpdateCompany ::
  "go_time \<Rightarrow> company \<Rightarrow> memory_state \<Rightarrow> company result \<times> memory_state" where
  "CompanyStore_UpdateCompany now c s =
     (case gm_get (ms_companies s) (co_ID c) of
        None \<Rightarrow> (Inl (ErrMsg ''company not found''), s)
      | Some current \<Rightarrow>
          let current' = current\<lparr>
                co_Name := (if co_Name c \<noteq> [] then co_Name c else co_Name current),
                co_Slug := (if co_Slug c \<noteq> [] then co_Slug c else co_Slug current),
                co_CompanyType := (if co_CompanyType c \<noteq> [] then co_CompanyType c else co_CompanyType current),
                co_InheritedRoleCap := co_InheritedRoleCap c,
                co_InheritedAccessLvl := co_InheritedAccessLvl c,
                co_Settings := (if co_Settings c \<noteq> None then co_Settings c else co_Settings current),
                co_UpdatedAt := now\<rparr>
          in (Inr current', s\<lparr>ms_companies := gm_put (co_ID c) current' (ms_companies s)\<rparr>))"

definition CompanyStore_ListCompanies :: "memory_state \<Rightarrow> company list result" where
  "CompanyStore_ListCompanies s = Inr (sort_key co_Name (gm_vals (ms_companies s)))"

definition CompanyStore_InsertHierarchyEntries ::
  "company_hierarchy list \<Rightarrow> memory_state \<Rightarrow> unit result \<times> memory_state" where
  "CompanyStore_InsertHierarchyEntries entries s = (Inr (), fold insertHierarchy entries s)"

definition CompanyStore_GetAncestors :: "uuid \<Rightarrow> memory_state \<Rightarrow> company_hierarchy list result" where
  "CompanyStore_GetAncestors companyID s = Inr (getAncestors s companyID)"

definition CompanyStore_GetDescendants :: "uuid \<Rightarrow> memory_state \<Rightarrow> company_hierarchy list result" where
  "CompanyStore_GetDescendants companyID s =
     Inr (sort_key hi_Generations (filter (\<lambda>e. hi_AncestorID e = companyID) (ms_hierarchy s)))"

definition CompanyStore_GetSelfAndDescendantIDs :: "uuid \<Rightarrow> memory_state \<Rightarrow> uuid list result" where
  "CompanyStore_GetSelfAndDescendantIDs companyID s =
     (case CompanyStore_GetDescendants companyID s of
        Inl err \<Rightarrow> Inl err
      | Inr descendants \<Rightarrow> Inr (map hi_DescendantID descendants))"

definition CompanyStore_DeleteHierarchyEntries :: "uuid \<Rightarrow> memory_state \<Rightarrow> unit result \<times> memory_state" where
  "CompanyStore_DeleteHierarchyEntries descendantID s =
     (Inr (), s\<lparr>ms_hierarchy := filter (\<lambda>e. hi_DescendantID e \<noteq> descendantID) (ms_hierarchy s)\<rparr>)"

definition dev_CompanyStore :: "memory_state company_store" where
  "dev_CompanyStore =
     \<lparr>cp_CreateCompany = CompanyStore_CreateCompany, cp_GetCompany = CompanyStore_GetCompany,
      cp_UpdateCompany = CompanyStore_UpdateCompany, cp_ListCompanies = CompanyStore_ListCompanies,
      cp_InsertHierarchyEntries = CompanyStore_InsertHierarchyEntries,
      cp_GetAncestors = CompanyStore_GetAncestors, cp_GetDescendants = CompanyStore_GetDescendants,
      cp_GetSelfAndDescendantIDs = CompanyStore_GetSelfAndDescendantIDs,
      cp_DeleteHierarchyEntries = CompanyStore_DeleteHierarchyEntries\<rparr>"

section \<open>RBAC store\<close>

definition RBACStore_GetRoleByID :: "uuid \<Rightarrow> memory_state \<Rightarrow> rbac_role result" where
  "RBACStore_GetRoleByID rid s =
     (case gm_get (ms_rbacRoles s) rid of
        None \<Rightarrow> Inl (ErrMsg (''rbac role not found: '' @ rid)) | Some role \<Rightarrow> Inr role)"

definition RBACStore_ListRolesByCompany :: "uuid \<Rightarrow> memory_state \<Rightarrow> rbac_role list result" where
  "RBACStore_ListRolesByCompany companyID s =
     Inr (filter (\<lambda>r. rr_IsSystem r \<or> rr_CompanyID r = Some companyID) (gm_vals (ms_rbacRoles s)))"

definition RBACStore_CreateRole ::
  "uuid \<Rightarrow> uuid \<Rightarrow> string \<Rightarrow> string \<Rightarrow> role_level \<Rightarrow> memory_state \<Rightarrow> rbac_role result \<times> memory_state" where
  "RBACStore_CreateRole newid companyID name description level s =
     (let role = \<lparr>rr_ID = newid, rr_CompanyID = Some companyID, rr_Name = name, rr_Description = description,
                  rr_Level = level, rr_IsSystem = False\<rparr>
      in (Inr role, s\<lparr>ms_rbacRoles := gm_put newid role (ms_rbacRoles s)\<rparr>))"

definition RBACStore_ListPermissionsByRole :: "uuid \<Rightarrow> memory_state \<Rightarrow> permission list result" where
  "RBACStore_ListPermissionsByRole roleID s =
     Inr (List.map_filter (gm_get (ms_rbacPermissions s)) (gm_get_or [] (ms_rolePermissions s) roleID))"

definition RBACStore_ListAllPermissions :: "memory_state \<Rightarrow> permission list result" where
  "RBACStore_ListAllPermissions s = Inr (gm_vals (ms_rbacPermissions s))"

definition RBACStore_AddRolePermission :: "uuid \<Rightarrow> uuid \<Rightarrow> memory_state \<Rightarrow> unit result \<times> memory_state" where
  "RBACStore_AddRolePermission roleID permissionID s =
     (Inr (), s\<lparr>ms_rolePermissions :=
        gm_put roleID (gm_get_or [] (ms_rolePermissions s) roleID @ [permissionID]) (ms_rolePermissions s)\<rparr>)"

text \<open>The fall-back of both lookups: the first auth membership in the company whose auth role is known.\<close>

definition auth_fallback :: "uuid \<Rightarrow> uuid \<Rightarrow> memory_state \<Rightarrow> auth_membership option" where
  "auth_fallback companyID userID s =
     find (\<lambda>m. am_CompanyID m = companyID \<and> gm_get (ms_roles s) (am_RoleID m) \<noteq> None)
       (gm_get_or [] (ms_memberships s) userID)"

definition RBACStore_GetUserRole :: "uuid \<Rightarrow> uuid \<Rightarrow> memory_state \<Rightarrow> rbac_role result" where
  "RBACStore_GetUserRole companyID userID s =
     (let key = companyID @ '':'' @ userID
      in case (case gm_get (ms_rbacMemberships s) key of
                 None \<Rightarrow> None
               | Some membership \<Rightarrow> gm_get (ms_rbacRoles s) (rm_RoleID membership)) of
           Some role \<Rightarrow> Inr role
         | None \<Rightarrow>
             (case auth_fallback companyID userID s of
                None \<Rightarrow> Inl (ErrMsg (''rbac role not found for user '' @ userID @ '' in company '' @ companyID))
              | Some m \<Rightarrow>
                  let authRole = the (gm_get (ms_roles s) (am_RoleID m))
                  in Inr \<lparr>rr_ID = ar_ID authRole, rr_CompanyID = None, rr_Name = ar_Name authRole,
                          rr_Description = [], rr_Level = ar_RoleLevel authRole, rr_IsSystem = True\<rparr>))"

definition RBACStore_GetMembership :: "uuid \<Rightarrow> uuid \<Rightarrow> uuid \<Rightarrow> memory_state \<Rightarrow> rbac_membership result" where
  "RBACStore_GetMembership newid companyID userID s =
     (let key = companyID @ '':'' @ userID
      in case gm_get (ms_rbacMemberships s) key of
           Some membership \<Rightarrow> Inr membership
         | None \<Rightarrow>
             (case auth_fallback companyID userID s of
                None \<Rightarrow> Inl (ErrMsg (''membership not found for user '' @ userID @ '' in company '' @ companyID))
              | Some m \<Rightarrow>
                  let authRole = the (gm_get (ms_roles s) (am_RoleID m))
                  in Inr \<lparr>rm_ID = newid, rm_CompanyID = companyID, rm_UserID = userID, rm_RoleID = am_RoleID m,
                          rm_RoleName = ar_Name authRole, rm_RoleLevel = ar_RoleLevel authRole,
                          rm_PermissionOverrides = None\<rparr>))"

definition RBACStore_GetUserPermissions :: "uuid \<Rightarrow> uuid \<Rightarrow> memory_state \<Rightarrow> permission list result" where
  "RBACStore_GetUserPermissions companyID userID s =
     (case RBACStore_GetUserRole companyID userID s of
        Inl err \<Rightarrow> Inl err
      | Inr role \<Rightarrow> RBACStore_ListPermissionsByRole (rr_ID role) s)"

definition RBACStore_AssignRoleToUser ::
  "uuid \<Rightarrow> uuid \<Rightarrow> uuid \<Rightarrow> uuid \<Rightarrow> memory_state \<Rightarrow> unit result \<times> memory_state" where
  "RBACStore_AssignRoleToUser newid companyID userID roleID s =
     (case gm_get (ms_rbacRoles s) roleID of
        None \<Rightarrow> (Inl (ErrMsg (''rbac role not found: '' @ roleID)), s)
      | Some role \<Rightarrow>
          (Inr (), s\<lparr>ms_rbacMemberships := gm_put (companyID @ '':'' @ userID)
             \<lparr>rm_ID = newid, rm_CompanyID = companyID, rm_UserID = userID, rm_RoleID = roleID,
              rm_RoleName = rr_Name role, rm_RoleLevel = rr_Level role, rm_PermissionOverrides = None\<rparr>
             (ms_rbacMemberships s)\<rparr>))"

definition RBACStore_CreateMembership ::
  "uuid \<Rightarrow> uuid \<Rightarrow> uuid \<Rightarrow> uuid \<Rightarrow> memory_state \<Rightarrow> unit result \<times> memory_state" where
  "RBACStore_CreateMembership newid companyID userID roleID s =
     (case gm_get (ms_rbacRoles s) roleID of
        None \<Rightarrow> (Inl (ErrMsg (''rbac role not found: '' @ roleID)), s)
      | Some role \<Rightarrow>
          (Inr (), s\<lparr>ms_rbacMemberships := gm_put (companyID @ '':'' @ userID)
             \<lparr>rm_ID = newid, rm_CompanyID = companyID, rm_UserID = userID, rm_RoleID = roleID,
              rm_RoleName = rr_Name role, rm_RoleLevel = rr_Level role, rm_PermissionOverrides = None\<rparr>
             (ms_rbacMemberships s)\<rparr>))"

definition RBACStore_GetCompanyAncestors :: "uuid \<Rightarrow> memory_state \<Rightarrow> company_ancestor list result" where
  "RBACStore_GetCompanyAncestors companyID s =
     Inr [\<lparr>ca_CompanyID = companyID, ca_Generations = 0, ca_InheritedRoleCap = None, ca_AccessLevel = None\<rparr>]"

definition RBACStore_GetMembershipInCompany ::
  "uuid \<Rightarrow> uuid \<Rightarrow> uuid \<Rightarrow> memory_state \<Rightarrow> rbac_membership option result" where
  "RBACStore_GetMembershipInCompany newid companyID userID s =
     (case RBACStore_GetMembership newid companyID userID s of Inl err \<Rightarrow> Inl err | Inr m \<Rightarrow> Inr (Some m))"

text \<open>\<open>nid\<close> is the identifier the lookups invent for a membership they derive from the auth tables.\<close>

definition dev_RBACStore :: "uuid \<Rightarrow> memory_state rbac_store" where
  "dev_RBACStore nid =
     \<lparr>rs_GetRoleByID = RBACStore_GetRoleByID, rs_ListRolesByCompany = RBACStore_ListRolesByCompany,
      rs_CreateRole = RBACStore_CreateRole, rs_ListPermissionsByRole = RBACStore_ListPermissionsByRole,
      rs_ListAllPermissions = RBACStore_ListAllPermissions, rs_AddRolePermission = RBACStore_AddRolePermission,
      rs_GetUserRole = RBACStore_GetUserRole, rs_GetMembership = RBACStore_GetMembership nid,
      rs_GetUserPermissions = RBACStore_GetUserPermissions, rs_AssignRoleToUser = RBACStore_AssignRoleToUser,
      rs_CreateMembership = RBACStore_CreateMembership, rs_GetCompanyAncestors = RBACStore_GetCompanyAncestors,
      rs_GetMembershipInCompany = RBACStore_GetMembershipInCompany nid\<rparr>"

section \<open>Webhook store\<close>

definition webhook_missing :: "uuid \<Rightarrow> go_error" where
  "webhook_missing i = ErrMsg (''webhook not found: '' @ i)"

definition delivery_missing :: "uuid \<Rightarrow> go_error" where
  "delivery_missing i = ErrMsg (''delivery not found: '' @ i)"

definition WebhookStore_CreateWebhook ::
  "uuid \<Rightarrow> go_time \<Rightarrow> uuid \<Rightarrow> string \<Rightarrow> string \<Rightarrow> string list \<Rightarrow> memory_state \<Rightarrow> webhook result \<times> memory_state" where
  "WebhookStore_CreateWebhook newid now companyID url secret events s =
     (let wh = \<lparr>wh_ID = newid, wh_CompanyID = companyID, wh_URL = url, wh_Secret = secret, wh_Events = events,
                wh_Active = True, wh_ConsecutiveFails = 0, wh_CreatedAt = now\<rparr>
      in (Inr wh, s\<lparr>ms_webhooks := gm_put (wh_ID wh) wh (ms_webhooks s)\<rparr>))"

definition WebhookStore_GetWebhook :: "uuid \<Rightarrow> memory_state \<Rightarrow> webhook result" where
  "WebhookStore_GetWebhook i s =
     (case gm_get (ms_webhooks s) i of None \<Rightarrow> Inl (webhook_missing i) | Some wh \<Rightarrow> Inr wh)"

definition WebhookStore_ListWebhooksByCompany :: "uuid \<Rightarrow> memory_state \<Rightarrow> webhook list result" where
  "WebhookStore_ListWebhooksByCompany companyID s =
     Inr (sort_key wh_CreatedAt (filter (\<lambda>wh. wh_CompanyID wh = companyID) (gm_vals (ms_webhooks s))))"

definition WebhookStore_UpdateWebhookStatus :: "uuid \<Rightarrow> bool \<Rightarrow> memory_state \<Rightarrow> unit result \<times> memory_state" where
  "WebhookStore_UpdateWebhookStatus i active s =
     (case gm_get (ms_webhooks s) i of
        None \<Rightarrow> (Inl (webhook_missing i), s)
      | Some wh \<Rightarrow> (Inr (), s\<lparr>ms_webhooks := gm_put i (wh\<lparr>wh_Active := active\<rparr>) (ms_webhooks s)\<rparr>))"

definition WebhookStore_DeleteWebhook :: "uuid \<Rightarrow> memory_state \<Rightarrow> unit result \<times> memory_state" where
  "WebhookStore_DeleteWebhook i s = (Inr (), s\<lparr>ms_webhooks := gm_del i (ms_webhooks s)\<rparr>)"

definition WebhookStore_IncrementFailureCount :: "uuid \<Rightarrow> memory_state \<Rightarrow> int result \<times> memory_state" where
  "WebhookStore_IncrementFailureCount i s =
     (case gm_get (ms_webhooks s) i of
        None \<Rightarrow> (Inl (webhook_missing i), s)
      | Some wh \<Rightarrow>
          let wh' = wh\<lparr>wh_ConsecutiveFails := wh_ConsecutiveFails wh + 1\<rparr>
          in (Inr (wh_ConsecutiveFails wh'), s\<lparr>ms_webhooks := gm_put i wh' (ms_webhooks s)\<rparr>))"

definition WebhookStore_ResetFailureCount :: "uuid \<Rightarrow> memory_state \<Rightarrow> unit result \<times> memory_state" where
  "WebhookStore_ResetFailureCount i s =
     (case gm_get (ms_webhooks s) i of
        None \<Rightarrow> (Inl (webhook_missing i), s)
      | Some wh \<Rightarrow> (Inr (), s\<lparr>ms_webhooks := gm_put i (wh\<lparr>wh_ConsecutiveFails := 0\<rparr>) (ms_webhooks s)\<rparr>))"

definition WebhookStore_CreateDelivery ::
  "uuid \<Rightarrow> go_time \<Rightarrow> uuid \<Rightarrow> string \<Rightarrow> string \<Rightarrow> memory_state \<Rightarrow> webhook_delivery result \<times> memory_state" where
  "WebhookStore_CreateDelivery newid now webhookID eventType payload s =
     (let delivery = \<lparr>wd_ID = newid, wd_WebhookID = webhookID, wd_EventType = eventType, wd_Payload = payload,
                      wd_Status = ''pending'', wd_StatusCode = 0, wd_ResponseBody = [], wd_Attempts = 0,
                      wd_NextRetryAt = None, wd_CreatedAt = now\<rparr>
      in (Inr delivery, s\<lparr>ms_deliveries := gm_put (wd_ID delivery) delivery (ms_deliveries s)\<rparr>))"

definition WebhookStore_UpdateDelivery ::
  "uuid \<Rightarrow> string \<Rightarrow> int \<Rightarrow> string \<Rightarrow> go_time option \<Rightarrow> memory_state \<Rightarrow> unit result \<times> memory_state" where
  "WebhookStore_UpdateDelivery i status statusCode responseBody nextRetryAt s =
     (case gm_get (ms_deliveries s) i of
        None \<Rightarrow> (Inl (delivery_missing i), s)
      | Some d \<Rightarrow>
          (Inr (), s\<lparr>ms_deliveries := gm_put i
             (d\<lparr>wd_Status := status, wd_StatusCode := statusCode, wd_ResponseBody := responseBody,
                wd_NextRetryAt := nextRetryAt, wd_Attempts := wd_Attempts d + 1\<rparr>) (ms_deliveries s)\<rparr>))"

definition WebhookStore_GetPendingDeliveries :: "memory_state \<Rightarrow> webhook_delivery list result" where
  "WebhookStore_GetPendingDeliveries s = Inr (filter (\<lambda>d. wd_Status d = ''pending'') (gm_vals (ms_deliveries s)))"

definition WebhookStore_GetDelivery :: "uuid \<Rightarrow> memory_state \<Rightarrow> webhook_delivery result" where
  "WebhookStore_GetDelivery i s =
     (case gm_get (ms_deliveries s) i of None \<Rightarrow> Inl (delivery_missing i) | Some d \<Rightarrow> Inr d)"

definition WebhookStore_ListFailedDeliveriesForRetry :: "int \<Rightarrow> memory_state \<Rightarrow> webhook_delivery list result" where
  "WebhookStore_ListFailedDeliveriesForRetry maxAttempts s =
     Inr (sort_key wd_CreatedAt
            (filter (\<lambda>d. wd_Status d = ''failed'' \<and> wd_Attempts d < maxAttempts) (gm_vals (ms_deliveries s))))"

text \<open>Newest first; \<open>None\<close> is the panic of a negative offset.\<close>

definition WebhookStore_ListDeliveriesByWebhook ::
  "uuid \<Rightarrow> int \<Rightarrow> int \<Rightarrow> memory_state \<Rightarrow> webhook_delivery list result option" where
  "WebhookStore_ListDeliveriesByWebhook webhookID limit offset s =
     (let filtered = sort_key (\<lambda>d. - wd_CreatedAt d) (filter (\<lambda>d. wd_WebhookID d = webhookID) (gm_vals (ms_deliveries s)))
      in if offset \<ge> int (length filtered) then Some (Inr [])
         else if offset < 0 then None
         else let rest = drop (nat offset) filtered
              in Some (Inr (if limit > 0 \<and> limit < int (length rest) then take (nat limit) rest else rest)))"

definition dev_WebhookStore :: "memory_state webhook_store" where
  "dev_WebhookStore =
     \<lparr>ws_CreateWebhook = WebhookStore_CreateWebhook, ws_GetWebhook = WebhookStore_GetWebhook,
      ws_ListWebhooksByCompany = WebhookStore_ListWebhooksByCompany,
      ws_UpdateWebhookStatus = WebhookStore_UpdateWebhookStatus, ws_DeleteWebhook = WebhookStore_DeleteWebhook,
      ws_IncrementFailureCount = WebhookStore_IncrementFailureCount,
      ws_ResetFailureCount = WebhookStore_ResetFailureCount, ws_CreateDelivery = WebhookStore_CreateDelivery,
      ws_UpdateDelivery = WebhookStore_UpdateDelivery,
      ws_GetPendingDeliveries = WebhookStore_GetPendingDeliveries,
      ws_GetDelivery = WebhookStore_GetDelivery,
      ws_ListFailedDeliveriesForRetry = WebhookStore_ListFailedDeliveriesForRetry\<rparr>"

section \<open>The stores keep their contracts\<close>

lemmas dev_auth_defs = dev_AuthStore_def AuthStore_BeginTx_def AuthStore_Commit_def AuthStore_GetUserByEmail_def
  AuthStore_GetUserByID_def AuthStore_CreateUser_def AuthStore_UpdateUser_def AuthStore_CreateCompany_def
  AuthStore_CreateCompanyMembership_def AuthStore_GetCompanyMembershipByUser_def AuthStore_GetRoleByID_def
  AuthStore_CreateRefreshToken_def AuthStore_GetRefreshToken_def AuthStore_RevokeRefreshToken_def
  AuthStore_CreateAuditLog_def

lemma insertHierarchy_frame [simp]:
  "ms_refreshTokens (insertHierarchy e s) = ms_refreshTokens s"
  "ms_companies (insertHierarchy e s) = ms_companies s"
  "ms_usersByID (insertHierarchy e s) = ms_usersByID s"
  "ms_usersByEmail (insertHierarchy e s) = ms_usersByEmail s"
  "ms_memberships (insertHierarchy e s) = ms_memberships s"
  "ms_roles (insertHierarchy e s) = ms_roles s"
  by (simp_all add: insertHierarchy_def)

definition holds_token :: "memory_state \<Rightarrow> string \<Rightarrow> bool" where
  "holds_token s h \<longleftrightarrow> gm_get (ms_refreshTokens s) h \<noteq> None"

interpretation devauth: token_store_spec dev_AuthStore holds_token
  by unfold_locales
    (auto simp: dev_auth_defs holds_token_def Let_def split: option.splits if_splits)

subsection \<open>Companies\<close>

definition closure_rows :: "memory_state \<Rightarrow> closure" where
  "closure_rows s = row_of ` set (ms_hierarchy s)"

lemma row_of_eq_iff:
  "row_of e = row_of e' \<longleftrightarrow> hi_AncestorID e = hi_AncestorID e' \<and> hi_DescendantID e = hi_DescendantID e' \<and>
     hi_Generations e = hi_Generations e'"
  by (simp add: row_of_def)

lemma closure_rows_insert [simp]: "closure_rows (insertHierarchy e s) = insert (row_of e) (closure_rows s)"
proof (cases "\<exists>e'\<in>set (ms_hierarchy s). row_of e' = row_of e")
  case True
  then have "insertHierarchy e s = s" by (simp add: insertHierarchy_def row_of_eq_iff)
  moreover have "row_of e \<in> closure_rows s" using True unfolding closure_rows_def by (metis imageI)
  ultimately show ?thesis by auto
next
  case False
  then have "insertHierarchy e s = s\<lparr>ms_hierarchy := ms_hierarchy s @ [e]\<rparr>"
    by (simp add: insertHierarchy_def row_of_eq_iff)
  then show ?thesis by (simp add: closure_rows_def)
qed

lemma closure_rows_fold: "closure_rows (fold insertHierarchy es s) = closure_rows s \<union> row_of ` set es"
  by (induction es arbitrary: s) auto

lemma companies_fold: "ms_companies (fold insertHierarchy es s) = ms_companies s"
  by (induction es arbitrary: s) auto

lemma closure_rows_companies [simp]: "closure_rows (s\<lparr>ms_companies := m\<rparr>) = closure_rows s"
  by (simp add: closure_rows_def)

lemma getAncestors_rows: "row_of ` set (getAncestors s cid) = {(a, d, g). (a, d, g) \<in> closure_rows s \<and> d = cid}"
  by (auto simp: getAncestors_def closure_rows_def row_of_def image_iff)

lemma create_company_store:
  assumes "CompanyStore_CreateCompany newid now c s = (r, s')" and "co_ID c \<noteq> uuid_Nil"
    and "co_ParentCompanyID c \<noteq> Some (co_ID c)"
  shows "\<exists>c'. r = Inr c' \<and> co_ID c' = co_ID c \<and> co_ParentCompanyID c' = co_ParentCompanyID c \<and>
     gm_get (ms_companies s') = (gm_get (ms_companies s))(co_ID c \<mapsto> c') \<and>
     closure_rows s' = closure_rows s \<union> new_rows (closure_rows s) (co_ID c) (co_ParentCompanyID c)"
proof -
  define c' where "c' = stored_company newid now (ms_defaultSettings s) c"
  define self where "self = \<lparr>hi_AncestorID = co_ID c, hi_DescendantID = co_ID c, hi_Generations = 0\<rparr>"
  define s1 where "s1 = insertHierarchy self (s\<lparr>ms_companies := gm_put (co_ID c) c' (ms_companies s)\<rparr>)"
  define up where "up = (\<lambda>a :: company_hierarchy. \<lparr>hi_AncestorID = hi_AncestorID a, hi_DescendantID = co_ID c, hi_Generations = hi_Generations a + 1\<rparr>)"
  have c': "co_ID c' = co_ID c" "co_ParentCompanyID c' = co_ParentCompanyID c"
    using assms(2) by (simp_all add: c'_def stored_company_def)
  have run: "(r, s') = (Inr c', case co_ParentCompanyID c of None \<Rightarrow> s1
      | Some p \<Rightarrow> fold insertHierarchy (map up (getAncestors s1 p)) s1)"
    using assms(1) c' unfolding CompanyStore_CreateCompany_def
    by (simp add: Let_def c'_def [symmetric] self_def [symmetric] s1_def [symmetric] up_def fold_map comp_def split: option.splits)
  have rows1: "closure_rows s1 = insert (co_ID c, co_ID c, 0) (closure_rows s)"
    by (simp add: s1_def self_def row_of_def)
  have up: "row_of ` set (map up (getAncestors s1 p)) = {(a, co_ID c, g + 1) | a g. (a, p, g) \<in> closure_rows s}"
    if p: "co_ParentCompanyID c = Some p" for p
  proof -
    have "row_of ` set (map up (getAncestors s1 p))
        = (\<lambda>(a, d, g). (a, co_ID c, g + 1)) ` row_of ` set (getAncestors s1 p)"
      by (simp add: image_image up_def row_of_def)
    also have "\<dots> = {(a, co_ID c, g + 1) | a g. (a, p, g) \<in> closure_rows s}"
      using p assms(3) by (auto simp: getAncestors_rows rows1 image_iff)
    finally show ?thesis .
  qed
  have "closure_rows s' = closure_rows s \<union> new_rows (closure_rows s) (co_ID c) (co_ParentCompanyID c)"
    using run rows1 up by (auto simp: closure_rows_fold new_rows_def split: option.splits)
  moreover have "gm_get (ms_companies s') = (gm_get (ms_companies s))(co_ID c \<mapsto> c')"
  proof -
    have "ms_companies s' = gm_put (co_ID c) c' (ms_companies s)"
      using run by (simp add: companies_fold s1_def split: option.splits)
    then show ?thesis by (simp add: fun_eq_iff)
  qed
  ultimately show ?thesis using run c' by simp
qed

interpretation devcompany: company_store_spec dev_CompanyStore "\<lambda>s. gm_get (ms_companies s)" closure_rows
proof (unfold_locales, goal_cases)
  case (1 nid now c s err s')
  then show ?case by (auto simp: dev_CompanyStore_def CompanyStore_CreateCompany_def Let_def split: option.splits)
next
  case (2 nid now c s c' s')
  then have "CompanyStore_CreateCompany nid now c s = (Inr c', s')" by (simp add: dev_CompanyStore_def)
  from create_company_store [OF this 2(2,3)] show ?case by auto
next
  case (3 now c s r s')
  then show ?case
    by (auto simp: dev_CompanyStore_def CompanyStore_UpdateCompany_def Let_def fun_eq_iff split: option.splits)
next
  case (4 cid s)
  show ?case
    using getAncestors_rows [of s cid]
    by (auto simp: dev_CompanyStore_def CompanyStore_GetAncestors_def getAncestors_def)
next
  case (5 es s)
  show ?case
    by (simp add: dev_CompanyStore_def CompanyStore_InsertHierarchyEntries_def companies_fold closure_rows_fold)
next
  case (6 cid s)
  show ?case
    by (auto simp: dev_CompanyStore_def CompanyStore_GetSelfAndDescendantIDs_def CompanyStore_GetDescendants_def
        closure_rows_def row_of_def image_iff)
qed

subsection \<open>Roles\<close>

interpretation devrbac: rbac_store_spec "dev_RBACStore nid" is_uuid for nid
proof (unfold_locales, goal_cases)
  case (4 n c u r s x s' c' u')
  then have "c' @ '':'' @ u' \<noteq> c @ '':'' @ u" using colon_key_inj [of c' c] by (auto simp: is_uuid_def)
  then show ?case
    using 4(1) by (auto simp: dev_RBACStore_def RBACStore_AssignRoleToUser_def RBACStore_GetUserRole_def
        RBACStore_GetMembership_def auth_fallback_def Let_def split: option.splits)
qed (auto simp: dev_RBACStore_def RBACStore_AssignRoleToUser_def RBACStore_GetUserRole_def RBACStore_GetRoleByID_def
    RBACStore_GetMembership_def RBACStore_ListPermissionsByRole_def Let_def split: option.splits)

subsection \<open>Webhooks\<close>

definition webhooks_wf :: "memory_state \<Rightarrow> bool" where
  "webhooks_wf s \<longleftrightarrow> gm_ok (ms_webhooks s) \<and> gm_ok (ms_deliveries s) \<and>
     (\<forall>i h. gm_get (ms_webhooks s) i = Some h \<longrightarrow> wh_ID h = i) \<and>
     (\<forall>i d. gm_get (ms_deliveries s) i = Some d \<longrightarrow> wd_ID d = i)"

lemma distinct_ids_vals:
  assumes "gm_ok m" and "\<And>i x. gm_get m i = Some x \<Longrightarrow> f x = i"
  shows "distinct (map f (gm_vals m))"
proof -
  have "map f (gm_vals m) = map fst m"
    using assms(2) gm_in_get [OF assms(1)] by (auto simp: gm_vals_def)
  then show ?thesis using assms(1) by (simp add: gm_ok_def)
qed

lemma distinct_sorted_filtered: "distinct (map f xs) \<Longrightarrow> distinct (map f (sort_key k (filter P xs)))"
proof -
  assume d: "distinct (map f xs)"
  then have "distinct (map f (filter P xs))" by (rule distinct_map_filter)
  then show ?thesis by (simp add: distinct_map)
qed

lemmas dev_webhook_defs = dev_WebhookStore_def WebhookStore_CreateWebhook_def WebhookStore_GetWebhook_def
  WebhookStore_ListWebhooksByCompany_def WebhookStore_UpdateWebhookStatus_def
  WebhookStore_IncrementFailureCount_def WebhookStore_ResetFailureCount_def WebhookStore_CreateDelivery_def
  WebhookStore_UpdateDelivery_def WebhookStore_GetDelivery_def WebhookStore_ListFailedDeliveriesForRetry_def

interpretation devhook: webhook_store_spec dev_WebhookStore "\<lambda>s. gm_get (ms_webhooks s)"
  "\<lambda>s. gm_get (ms_deliveries s)" webhooks_wf
proof (unfold_locales, goal_cases)
  case (5 s co)
  then have wf: "gm_ok (ms_webhooks s)" "\<And>i h. gm_get (ms_webhooks s) i = Some h \<Longrightarrow> wh_ID h = i"
    by (auto simp: webhooks_wf_def)
  have "h \<in> set (gm_vals (ms_webhooks s)) \<longleftrightarrow> gm_get (ms_webhooks s) (wh_ID h) = Some h" for h
    using wf by (auto simp: gm_vals_iff)
  then show ?case
    using distinct_sorted_filtered [OF distinct_ids_vals [of _ wh_ID, OF wf]] by (auto simp: dev_webhook_defs)
next
  case (12 s limit)
  then have wf: "gm_ok (ms_deliveries s)" "\<And>i h. gm_get (ms_deliveries s) i = Some h \<Longrightarrow> wd_ID h = i"
    by (auto simp: webhooks_wf_def)
  have "h \<in> set (gm_vals (ms_deliveries s)) \<longleftrightarrow> gm_get (ms_deliveries s) (wd_ID h) = Some h" for h
    using wf by (auto simp: gm_vals_iff)
  then show ?case
    using distinct_sorted_filtered [OF distinct_ids_vals [of _ wd_ID, OF wf]] by (auto simp: dev_webhook_defs)
qed (auto simp: dev_webhook_defs webhooks_wf_def new_webhook_def new_delivery_def updated_delivery_def Let_def fun_eq_iff
    split: option.splits if_splits)

end
