(* ===== verification/Access_Properties.thy ===== *)
theory Access_Properties
  imports Devstore
begin

text \<open>
  Authorization on the in-memory backend: role assignment, its effect on the enforcer and its refusals.
\<close>

section \<open>Role assignment\<close>

definition role_grants :: "memory_state \<Rightarrow> rbac_role \<Rightarrow> string \<Rightarrow> bool" where
  "role_grants s role p \<longleftrightarrow>
     (\<exists>pm\<in>set (List.map_filter (gm_get (ms_rbacPermissions s)) (gm_get_or [] (ms_rolePermissions s) (rr_ID role))).
        pm_Feature pm @ '':'' @ pm_Action pm = p)"

definition may_transfer_ownership :: "memory_state \<Rightarrow> uuid \<Rightarrow> uuid \<Rightarrow> bool" where
  "may_transfer_ownership s c u \<longleftrightarrow>
     (case RBACStore_GetUserRole c u s of
        Inl _ \<Rightarrow> False | Inr role \<Rightarrow> rr_ID role = OwnerRoleID \<or> rr_Level role \<ge> RoleLevelOwner)"

lemma gm_get_or_fold_true:
  "gm_get_or False (fold (\<lambda>p. gm_put (f p) True) ps m) k \<longleftrightarrow> (\<exists>p\<in>set ps. f p = k) \<or> gm_get_or False m k"
  by (induction ps arbitrary: m) auto

lemma dev_rbac_ops:
  "rs_GetRoleByID (dev_RBACStore nid) = RBACStore_GetRoleByID"
  "rs_GetUserRole (dev_RBACStore nid) = RBACStore_GetUserRole"
  "rs_ListPermissionsByRole (dev_RBACStore nid) = RBACStore_ListPermissionsByRole"
  "rs_AssignRoleToUser (dev_RBACStore nid) = RBACStore_AssignRoleToUser"
  by (simp_all add: dev_RBACStore_def)

text \<open>
  C6: an assigned role decides. After a successful assignment the enforcer answers for that user and company
  exactly by the permissions linked to the assigned role, whatever was cached or overridden before, and the
  minimum-role check by its level; for every other user or company it answers as on the state before
  with an empty cache; and the owner role was assigned only by an owner.
\<close>

theorem assigned_role_decides:
  assumes "RbacService_AssignRole (dev_RBACStore nid) n c u r cur w = (Inr x, w')"
  shows "\<exists>role. gm_get (ms_rbacRoles (rw_store w)) r = Some role \<and>
     (\<forall>p. fst (HasPermission unmarshal (dev_RBACStore nid) t1 t2 u c p (rw_store w') (rw_enforcer w'))
            = Inr (role_grants (rw_store w) role p)) \<and>
     (\<forall>m. HasMinimumRole (dev_RBACStore nid) u c m (rw_store w') = Inr (rr_Level role \<ge> m)) \<and>
     (\<forall>c' u' p. is_uuid c \<and> is_uuid c' \<and> (c', u') \<noteq> (c, u) \<longrightarrow>
        fst (HasPermission unmarshal (dev_RBACStore nid) t1 t2 u' c' p (rw_store w') (rw_enforcer w'))
          = fst (HasPermission unmarshal (dev_RBACStore nid) t1 t2 u' c' p (rw_store w) (NewEnforcer None))) \<and>
     (r = OwnerRoleID \<longrightarrow> may_transfer_ownership (rw_store w) c cur)"
proof -
  have as: "rs_AssignRoleToUser (dev_RBACStore nid) n c u r (rw_store w) = (Inr (), rw_store w')"
    and empty: "en_cache (rw_enforcer w') = []"
    and owner: "r = OwnerRoleID \<longrightarrow> may_transfer_ownership (rw_store w) c cur"
    using devrbac.assign_role_result [OF assms] by (auto simp: may_transfer_ownership_def dev_rbac_ops)
  obtain role where r: "RBACStore_GetRoleByID r (rw_store w) = Inr role"
    and get: "RBACStore_GetUserRole c u (rw_store w') = Inr role"
    using devrbac.assign_ok [OF as] unfolding dev_rbac_ops by blast
  have role: "gm_get (ms_rbacRoles (rw_store w)) r = Some role"
    using r by (simp add: RBACStore_GetRoleByID_def split: option.splits)
  obtain role' where r': "RBACStore_GetRoleByID r (rw_store w) = Inr role'"
    and load': "load_permissions unmarshal (dev_RBACStore nid) u c (rw_store w') =
        (case RBACStore_ListPermissionsByRole (rr_ID role') (rw_store w) of
           Inl err \<Rightarrow> Inl (ErrWrap ''list permissions: '' err [])
         | Inr perms \<Rightarrow> Inr (fold (\<lambda>p. gm_put (pm_Feature p @ '':'' @ pm_Action p) True) perms [], rr_Level role'))"
    using devrbac.load_after_assign [OF as, of unmarshal] unfolding dev_rbac_ops by blast
  have load: "load_permissions unmarshal (dev_RBACStore nid) u c (rw_store w') =
        Inr (fold (\<lambda>p. gm_put (pm_Feature p @ '':'' @ pm_Action p) True)
               (List.map_filter (gm_get (ms_rbacPermissions (rw_store w)))
                  (gm_get_or [] (ms_rolePermissions (rw_store w)) (rr_ID role))) [], rr_Level role)"
    using load' r r' by (simp add: RBACStore_ListPermissionsByRole_def)
  have miss: "fst (HasPermission unmarshal (dev_RBACStore nid) t1 t2 u' c' p (rw_store w') (rw_enforcer w')) =
      (case load_permissions unmarshal (dev_RBACStore nid) u' c' (rw_store w') of
         Inl err \<Rightarrow> Inl err | Inr (ps, lv) \<Rightarrow> Inr (gm_get_or False ps p))" for u' c' p
    by (rule HasPermission_miss) (simp add: empty)
  have cold: "fst (HasPermission unmarshal (dev_RBACStore nid) t1 t2 u' c' p (rw_store w) (NewEnforcer None)) =
      (case load_permissions unmarshal (dev_RBACStore nid) u' c' (rw_store w) of
         Inl err \<Rightarrow> Inl err | Inr (ps, lv) \<Rightarrow> Inr (gm_get_or False ps p))" for u' c' p
    by (rule HasPermission_miss) (simp add: NewEnforcer_def)
  have "fst (HasPermission unmarshal (dev_RBACStore nid) t1 t2 u c p (rw_store w') (rw_enforcer w'))
      = Inr (role_grants (rw_store w) role p)" for p
    unfolding miss load by (simp add: gm_get_or_fold_true role_grants_def gm_get_or_def [of False "[]"])
  moreover have "HasMinimumRole (dev_RBACStore nid) u c m (rw_store w') = Inr (rr_Level role \<ge> m)" for m
    using get by (simp add: HasMinimumRole_def dev_rbac_ops)
  moreover have "load_permissions unmarshal (dev_RBACStore nid) u' c' (rw_store w') = load_permissions unmarshal (dev_RBACStore nid) u' c' (rw_store w)"
    if "is_uuid c" "is_uuid c'" "(c', u') \<noteq> (c, u)" for u' c'
    by (rule devrbac.load_frame [OF as that])
  ultimately show ?thesis using role owner miss cold by (intro exI [of _ role]) simp
qed

text \<open>A backend with a member role that may view projects, and one user who is its administrator.\<close>

definition demo_perm :: permission where
  "demo_perm = \<lparr>pm_ID = ''p'', pm_Feature = ''projects'', pm_Action = ''view'', pm_Resource = []\<rparr>"

definition member_role :: rbac_role where
  "member_role = \<lparr>rr_ID = MemberRoleID, rr_CompanyID = None, rr_Name = ''member'', rr_Description = [],
     rr_Level = 40, rr_IsSystem = True\<rparr>"

definition demo_access :: "memory_state rbac_world" where
  "demo_access = \<lparr>rw_store = snd (RBACStore_AddRolePermission MemberRoleID ''p''
        (SeedRBACPermission demo_perm (SeedRBACRole member_role NewMemoryBackend))),
     rw_enforcer = NewEnforcer None\<rparr>"

theorem assigned_role_decides_witness:
  "let w' = snd (RbacService_AssignRole (dev_RBACStore ''m'') ''n'' ''c'' ''u'' MemberRoleID ''a'' demo_access)
   in fst (HasPermission (\<lambda>_. None) (dev_RBACStore ''m'') 1 2 ''u'' ''c'' ''projects:view'' (rw_store w') (rw_enforcer w'))
        = Inr True \<and>
      fst (HasPermission (\<lambda>_. None) (dev_RBACStore ''m'') 1 2 ''u'' ''c'' ''projects:edit'' (rw_store w') (rw_enforcer w'))
        = Inr False"
proof -
  let ?as = "RbacService_AssignRole (dev_RBACStore ''m'') ''n'' ''c'' ''u'' MemberRoleID ''a'' demo_access"
  have ok: "fst ?as = Inr ()" by code_simp
  then have as: "?as = (Inr (), snd ?as)" by (metis prod.collapse)
  have role: "gm_get (ms_rbacRoles (rw_store demo_access)) MemberRoleID = Some member_role" by code_simp
  have g: "role_grants (rw_store demo_access) member_role ''projects:view''"
      "\<not> role_grants (rw_store demo_access) member_role ''projects:edit''" by code_simp+
  from assigned_role_decides [OF as, of "\<lambda>_. None" 1 2] role g show ?thesis by (simp add: Let_def)
qed

text \<open>
  Refusals of role assignment. An assignment is refused exactly when the role is unknown or when the
  owner role is to be assigned by someone who is not an owner of the company, and a refused assignment
  changes neither the store nor the enforcer's cache.
\<close>

lemma role_assignment_refused:
  "((\<exists>e. fst (RbacService_AssignRole (dev_RBACStore nid) n c u r cur w) = Inl e) \<longleftrightarrow>
      gm_get (ms_rbacRoles (rw_store w)) r = None \<or>
      (r = OwnerRoleID \<and> \<not> may_transfer_ownership (rw_store w) c cur)) \<and>
   (\<forall>e w'. RbacService_AssignRole (dev_RBACStore nid) n c u r cur w = (Inl e, w') \<longrightarrow> w' = w)"
proof (intro conjI allI impI)
  fix e w' assume "RbacService_AssignRole (dev_RBACStore nid) n c u r cur w = (Inl e, w')"
  then show "w' = w" by (rule devrbac.assign_role_refused)
qed (auto simp: RbacService_AssignRole_def may_transfer_ownership_def dev_rbac_ops RBACStore_AssignRoleToUser_def Let_def
    split: sum.splits option.splits if_splits)

theorem role_assignment_refused_witness:
  "RbacService_AssignRole (dev_RBACStore ''m'') ''n'' ''c'' ''u'' OwnerRoleID ''a'' demo_access
     = (Inl (ErrWrap ''get current user role: '' (ErrMsg ''rbac role not found for user a in company c'') []), demo_access)"
proof -
  let ?as = "RbacService_AssignRole (dev_RBACStore ''m'') ''n'' ''c'' ''u'' OwnerRoleID ''a'' demo_access"
  let ?e = "ErrWrap ''get current user role: '' (ErrMsg ''rbac role not found for user a in company c'') []"
  have e: "fst ?as = Inl ?e" by code_simp
  then have "?as = (Inl ?e, snd ?as)" by (metis prod.collapse)
  moreover from this have "snd ?as = demo_access"
    using role_assignment_refused [of "''m''" "''n''" "''c''" "''u''" OwnerRoleID "''a''" demo_access] by blast
  ultimately show ?thesis by simp
qed

section \<open>Guards that do not hold\<close>

definition admin_role :: rbac_role where
  "admin_role = \<lparr>rr_ID = SuperAdminRoleID, rr_CompanyID = None, rr_Name = ''super_admin'', rr_Description = [],
     rr_Level = 100, rr_IsSystem = True\<rparr>"

definition owner_role :: rbac_role where
  "owner_role = \<lparr>rr_ID = OwnerRoleID, rr_CompanyID = None, rr_Name = ''owner'', rr_Description = [],
     rr_Level = 90, rr_IsSystem = True\<rparr>"

text \<open>
  Only the owner role is guarded: a caller without any role in the company can assign the super-admin role,
  whose level is above the owner's, to anyone.
\<close>

lemma super_admin_assigned_by_outsider:
  assumes "gm_get (ms_rbacRoles (rw_store w)) SuperAdminRoleID = Some admin_role"
  shows "\<exists>w'. RbacService_AssignRole (dev_RBACStore nid) n c u SuperAdminRoleID cur w = (Inr (), w') \<and>
     HasMinimumRole (dev_RBACStore nid) u c RoleLevelSuperAdmin (rw_store w') = Inr True"
proof -
  have ne: "SuperAdminRoleID \<noteq> OwnerRoleID" by (simp add: SuperAdminRoleID_def OwnerRoleID_def)
  let ?r = "RbacService_AssignRole (dev_RBACStore nid) n c u SuperAdminRoleID cur w"
  have "fst ?r = Inr ()"
    using assms ne by (simp add: RbacService_AssignRole_def dev_rbac_ops RBACStore_AssignRoleToUser_def Let_def)
  then obtain w' where r: "?r = (Inr (), w')" by (metis prod.collapse)
  have "rs_AssignRoleToUser (dev_RBACStore nid) n c u SuperAdminRoleID (rw_store w) = (Inr (), rw_store w')"
    using devrbac.assign_role_result [OF r] by simp
  from devrbac.assign_ok [OF this] assms have "RBACStore_GetUserRole c u (rw_store w') = Inr admin_role"
    by (auto simp: dev_rbac_ops RBACStore_GetRoleByID_def)
  then show ?thesis using r by (simp add: HasMinimumRole_def dev_rbac_ops admin_role_def)
qed

text \<open>
  \<^verbatim>\<open>RemoveRole\<close> protects the owner only when the caller names the owner role: with any other role identifier the
  owner is reset to member.
\<close>

lemma owner_demoted_by_other_role_id:
  assumes "gm_get (ms_rbacRoles (rw_store w)) MemberRoleID = Some member_role" and "rid \<noteq> OwnerRoleID"
    and "RBACStore_GetUserRole c u (rw_store w) = Inr owner_role"
  shows "\<exists>w'. RbacService_RemoveRole (dev_RBACStore nid) n c u rid w = (Inr (), w') \<and>
     RBACStore_GetUserRole c u (rw_store w') = Inr member_role"
  using assms
  by (simp add: RbacService_RemoveRole_def dev_rbac_ops RBACStore_AssignRoleToUser_def RBACStore_GetUserRole_def Let_def)

end
