(* ===== verification/Session_Properties.thy ===== *)
theory Session_Properties
  imports Devstore
begin

text \<open>
  Authentication on the in-memory backend: sign-up, login, refresh-token rotation, logout, the e-mail index, and
  the company a just-in-time user is placed in.
\<close>

section \<open>Refresh tokens\<close>


definition demo_env :: auth_env where
  "demo_env = \<lparr>ae_ParseAddress = (\<lambda>_. Inr ()), ae_Hash = (\<lambda>p. Inr (CHR ''#'' # p)),
     ae_Verify = (\<lambda>p h. Inr (h = CHR ''#'' # p)), ae_Sha256Hex = (\<lambda>t. t),
     ae_CreateAccessToken = (\<lambda>_ _ _ _ _. Inr ''access''),
     ae_CreateAccessTokenWithScopes = (\<lambda>_ _ _ _ _ _. Inr ''access''),
     ae_CreateRefreshToken = (\<lambda>u. Inr ''r1''), ae_ValidateRefreshToken = (\<lambda>_. Inr ()),
     ae_RefreshTokenExpiry = 1000, ae_TimeHHMMSS = ''101010'', ae_now = 5\<rparr>"

definition demo_env2 :: auth_env where
  "demo_env2 = demo_env\<lparr>ae_CreateRefreshToken := (\<lambda>u. Inr ''r2'')\<rparr>"

definition demo_signed_up :: memory_state where
  "demo_signed_up =
     snd (AuthService_SignUp dev_AuthStore demo_env False ''u1'' ''c1'' '' Ann@Example.com '' ''password'' ''Ann'' NewMemoryBackend)"


text \<open>
  Logout is final. After a logout the refresh token it named cannot be exchanged any more, whatever calls
  happen in between that mint no token of the same hash.
\<close>

lemma logout_ends_token:
  assumes "\<forall>c\<in>set cs. call_mints_not (HashToken E tok) c" and "HashToken E' tok = HashToken E tok"
  shows "\<exists>e. fst (AuthService_RefreshToken dev_AuthStore E' tok
            (fold (auth_exec dev_AuthStore) cs (snd (AuthService_Logout dev_AuthStore E tok s)))) = Inl e"
  by (rule devauth.logout_final [OF assms])

theorem logout_ends_token_witness:
  "holds_token demo_signed_up ''r1'' \<and>
   (\<exists>e. fst (AuthService_RefreshToken dev_AuthStore demo_env2 ''r1''
            (fold (auth_exec dev_AuthStore) [CallRefresh demo_env2 ''r1'']
               (snd (AuthService_Logout dev_AuthStore demo_env ''r1'' demo_signed_up)))) = Inl e)"
proof -
  have held: "holds_token demo_signed_up ''r1''" by code_simp
  have "\<forall>c\<in>set [CallRefresh demo_env2 ''r1'']. call_mints_not (HashToken demo_env ''r1'') c"
    by (simp add: mints_not_def demo_env2_def demo_env_def HashToken_def)
  moreover have "HashToken demo_env2 ''r1'' = HashToken demo_env ''r1''"
    by (simp add: demo_env2_def demo_env_def HashToken_def)
  ultimately show ?thesis using logout_ends_token [of "[CallRefresh demo_env2 ''r1'']" demo_env "''r1''" demo_env2] held by blast
qed

section \<open>Sign-up\<close>

definition signed_up_user :: "auth_env \<Rightarrow> uuid \<Rightarrow> string \<Rightarrow> string \<Rightarrow> string \<Rightarrow> user" where
  "signed_up_user E uid email hashed displayName =
     \<lparr>us_ID = uid, us_Email = ToLower (TrimSpace email), us_PasswordHash = hashed,
      us_DisplayName = TrimSpace displayName, us_AvatarURL = [], us_IsActive = True, us_CreatedAt = ae_now E\<rparr>"

definition owner_membership :: "uuid \<Rightarrow> uuid \<Rightarrow> auth_membership" where
  "owner_membership cid uid =
     \<lparr>am_CompanyID = cid, am_UserID = uid, am_RoleID = OwnerRoleID, am_RoleName = ''owner''\<rparr>"

lemma owner_auth_role:
  "gm_get authRoles OwnerRoleID = Some \<lparr>ar_ID = OwnerRoleID, ar_Name = ''owner'', ar_Description = [], ar_RoleLevel = 90\<rparr>"
  by (simp add: authRoles_def gm_get_def)

lemma dev_auth_ops:
  "as_GetUserByEmail dev_AuthStore = AuthStore_GetUserByEmail"
  "as_GetUserByID dev_AuthStore = AuthStore_GetUserByID"
  "as_CreateUser dev_AuthStore = AuthStore_CreateUser"
  "as_UpdateUser dev_AuthStore = AuthStore_UpdateUser"
  "as_CreateCompany dev_AuthStore = AuthStore_CreateCompany"
  "as_CreateCompanyMembership dev_AuthStore = AuthStore_CreateCompanyMembership"
  "as_GetCompanyMembershipByUser dev_AuthStore = AuthStore_GetCompanyMembershipByUser"
  "as_GetRoleByID dev_AuthStore = AuthStore_GetRoleByID"
  "as_CreateRefreshToken dev_AuthStore = AuthStore_CreateRefreshToken"
  "as_GetRefreshToken dev_AuthStore = AuthStore_GetRefreshToken"
  "as_RevokeRefreshToken dev_AuthStore = AuthStore_RevokeRefreshToken"
  "as_CreateAuditLog dev_AuthStore = AuthStore_CreateAuditLog"
  "as_BeginTx dev_AuthStore = AuthStore_BeginTx"
  "as_Commit dev_AuthStore = AuthStore_Commit"
  by (simp_all add: dev_AuthStore_def)

lemma closure_rows_frame [simp]:
  "closure_rows (s\<lparr>ms_memberships := m\<rparr>) = closure_rows s"
  "closure_rows (s\<lparr>ms_refreshTokens := t\<rparr>) = closure_rows s"
  "closure_rows (s\<lparr>ms_usersByID := us\<rparr>) = closure_rows s"
  "closure_rows (s\<lparr>ms_usersByEmail := e\<rparr>) = closure_rows s"
  by (simp_all add: closure_rows_def)

lemma signup_dev:
  "AuthService_SignUp dev_AuthStore E b uid cid email pw dn s = (r, s') \<Longrightarrow>
   (\<exists>e. r = Inl e \<and> s' = s) \<or>
   (\<exists>hashed resp. r = Inr resp \<and> ae_Hash E pw = Inr hashed \<and>
      signup_tx dev_AuthStore E b uid cid email hashed dn s = (Inr resp, s'))"
  by (auto simp: AuthService_SignUp_def dev_auth_ops AuthStore_BeginTx_def AuthStore_Commit_def
      split: sum.splits prod.splits if_splits)

lemma signup_tx_dev:
  assumes run: "signup_tx dev_AuthStore E b uid cid email hashed dn s = (Inr resp, s')"
    and fresh: "gm_get (ms_memberships s) uid = None" and roles: "ms_roles s = authRoles"
  shows "gm_get (ms_usersByEmail s) (ToLower (TrimSpace email)) = None \<and>
     rp_User resp = signed_up_user E uid email hashed dn \<and>
     ms_usersByID s' = gm_put uid (rp_User resp) (ms_usersByID s) \<and>
     ms_usersByEmail s' = gm_put (ToLower (TrimSpace email)) uid (ms_usersByEmail s) \<and>
     ms_memberships s' = gm_put uid [owner_membership cid uid] (ms_memberships s) \<and>
     (\<exists>c. ms_companies s' = gm_put cid c (ms_companies s) \<and> co_ID c = cid \<and> co_ParentCompanyID c = None \<and>
          co_CompanyType c = (if b then CompanyTypePersonal else CompanyTypeStandalone)) \<and>
     closure_rows s' = insert (cid, cid, 0) (closure_rows s) \<and> ms_roles s' = ms_roles s \<and>
     ae_CreateRefreshToken E uid = Inr (rp_RefreshToken resp) \<and>
     ms_refreshTokens s' = gm_put (HashToken E (rp_RefreshToken resp))
        \<lparr>rt_UserID = uid, rt_TokenHash = HashToken E (rp_RefreshToken resp),
         rt_ExpiresAt = ae_now E + ae_RefreshTokenExpiry E\<rparr> (ms_refreshTokens s)"
  using run fresh roles
  by (auto simp: signup_tx_def dev_auth_ops AuthStore_CreateUser_def AuthStore_CreateCompany_def
      AuthStore_CreateCompanyMembership_def AuthStore_CreateRefreshToken_def AuthStore_CreateAuditLog_def
      signed_up_user_def owner_membership_def owner_auth_role gm_get_or_def row_of_def
      CompanyTypePersonal_def CompanyTypeStandalone_def Let_def
      split: option.splits sum.splits if_splits)

text \<open>
  C10: sign-up is all or nothing. A sign-up that fails leaves the backend unchanged. One that succeeds found the
  normalised address unused, and afterwards: the address leads to the new active user with the hashed
  password; the user's first membership is as owner of the new company, which exists as a root of the
  hierarchy with the type of the deployment mode; the refresh token returned is stored under its hash; every
  other user, address, company, membership, closure row and token is as before; and logging in with the same
  password succeeds whenever password verification and token minting do.
\<close>

theorem signup_all_or_nothing:
  assumes "AuthService_SignUp dev_AuthStore E b uid cid email pw dn s = (r, s')"
    and "gm_get (ms_memberships s) uid = None" and "ms_roles s = authRoles"
  shows "case r of
      Inl e \<Rightarrow> s' = s
    | Inr resp \<Rightarrow>
        \<exists>hashed c. ae_Hash E pw = Inr hashed \<and> gm_get (ms_usersByEmail s) (ToLower (TrimSpace email)) = None \<and>
          rp_User resp = signed_up_user E uid email hashed dn \<and>
          AuthStore_GetUserByEmail email s' = Inr (rp_User resp) \<and>
          ms_usersByID s' = gm_put uid (rp_User resp) (ms_usersByID s) \<and>
          ms_usersByEmail s' = gm_put (ToLower (TrimSpace email)) uid (ms_usersByEmail s) \<and>
          ms_memberships s' = gm_put uid [owner_membership cid uid] (ms_memberships s) \<and>
          ms_companies s' = gm_put cid c (ms_companies s) \<and> co_ID c = cid \<and> co_ParentCompanyID c = None \<and>
          co_CompanyType c = (if b then CompanyTypePersonal else CompanyTypeStandalone) \<and>
          closure_rows s' = insert (cid, cid, 0) (closure_rows s) \<and>
          ms_refreshTokens s' = gm_put (HashToken E (rp_RefreshToken resp))
             \<lparr>rt_UserID = uid, rt_TokenHash = HashToken E (rp_RefreshToken resp),
              rt_ExpiresAt = ae_now E + ae_RefreshTokenExpiry E\<rparr> (ms_refreshTokens s) \<and>
          (\<forall>E' at rt. ae_Verify E' pw hashed = Inr True \<and>
             ae_CreateAccessToken E' uid cid ''owner'' 90 [cid] = Inr at \<and> ae_CreateRefreshToken E' uid = Inr rt \<longrightarrow>
             fst (AuthService_Login dev_AuthStore E' email pw s')
               = Inr \<lparr>rp_AccessToken = at, rp_RefreshToken = rt, rp_User = rp_User resp\<rparr>)"
proof (cases r)
  case (Inl e)
  then show ?thesis using signup_dev [OF assms(1)] by auto
next
  case (Inr resp)
  then obtain hashed where h: "ae_Hash E pw = Inr hashed"
    and tx: "signup_tx dev_AuthStore E b uid cid email hashed dn s = (Inr resp, s')"
    using signup_dev [OF assms(1)] by auto
  note eff = signup_tx_dev [OF tx assms(2,3)]
  have get: "AuthStore_GetUserByEmail email s' = Inr (rp_User resp)"
    using eff by (simp add: AuthStore_GetUserByEmail_def)
  have login: "fst (AuthService_Login dev_AuthStore E' email pw s')
      = Inr \<lparr>rp_AccessToken = at, rp_RefreshToken = rt, rp_User = rp_User resp\<rparr>"
    if "ae_Verify E' pw hashed = Inr True" "ae_CreateAccessToken E' uid cid ''owner'' 90 [cid] = Inr at"
      "ae_CreateRefreshToken E' uid = Inr rt" for E' at rt
  proof -
    have user: "us_IsActive (rp_User resp)" "us_PasswordHash (rp_User resp) = hashed" "us_ID (rp_User resp) = uid"
      using eff by (simp_all add: signed_up_user_def)
    have cred: "check_credentials dev_AuthStore E' email pw s' = Inr (rp_User resp)"
      using that(1) user eff by (simp add: check_credentials_def dev_auth_ops AuthStore_GetUserByEmail_def)
    have mem: "AuthStore_GetCompanyMembershipByUser uid s' = Inr (owner_membership cid uid)"
      using eff by (simp add: AuthStore_GetCompanyMembershipByUser_def)
    have role: "AuthStore_GetRoleByID OwnerRoleID s'
        = Inr \<lparr>ar_ID = OwnerRoleID, ar_Name = ''owner'', ar_Description = [], ar_RoleLevel = 90\<rparr>"
      using eff assms(3) by (simp add: AuthStore_GetRoleByID_def owner_auth_role)
    show ?thesis
      using that(2,3) user cred mem role
      by (simp add: AuthService_Login_def dev_auth_ops owner_membership_def finish_login_def AuthStore_CreateRefreshToken_def Let_def)
  qed
  from eff obtain c where "ms_companies s' = gm_put cid c (ms_companies s)" "co_ID c = cid" "co_ParentCompanyID c = None"
    "co_CompanyType c = (if b then CompanyTypePersonal else CompanyTypeStandalone)" by blast
  with Inr h eff get login show ?thesis by (simp del: gm_get_put)
qed

theorem signup_all_or_nothing_witness:
  "fst (AuthService_SignUp dev_AuthStore demo_env False ''u1'' ''c1'' '' Ann@Example.com '' ''password'' ''Ann'' NewMemoryBackend)
     = Inr \<lparr>rp_AccessToken = ''access'', rp_RefreshToken = ''r1'', rp_User = signed_up_user demo_env ''u1'' ''ann@example.com'' ''#password'' ''Ann''\<rparr> \<and>
   closure_rows demo_signed_up = {(''c1'', ''c1'', 0)}"
proof -
  let ?r = "AuthService_SignUp dev_AuthStore demo_env False ''u1'' ''c1'' '' Ann@Example.com '' ''password'' ''Ann'' NewMemoryBackend"
  have ok: "fst ?r = Inr \<lparr>rp_AccessToken = ''access'', rp_RefreshToken = ''r1'',
      rp_User = signed_up_user demo_env ''u1'' ''ann@example.com'' ''#password'' ''Ann''\<rparr>" by code_simp
  then have run: "?r = (Inr \<lparr>rp_AccessToken = ''access'', rp_RefreshToken = ''r1'',
      rp_User = signed_up_user demo_env ''u1'' ''ann@example.com'' ''#password'' ''Ann''\<rparr>, demo_signed_up)"
    unfolding demo_signed_up_def by (metis prod.collapse)
  have fresh: "gm_get (ms_memberships NewMemoryBackend) ''u1'' = None" and roles: "ms_roles NewMemoryBackend = authRoles"
    and none: "closure_rows NewMemoryBackend = {}"
    by (simp_all add: NewMemoryBackend_def closure_rows_def)
  from signup_all_or_nothing [OF run fresh roles] ok none show ?thesis by auto
qed

section \<open>The e-mail index\<close>

definition users_wf :: "memory_state \<Rightarrow> bool" where
  "users_wf s \<longleftrightarrow>
     (\<forall>e i. gm_get (ms_usersByEmail s) e = Some i \<longrightarrow>
        (\<exists>u. gm_get (ms_usersByID s) i = Some u \<and> us_Email u = e \<and> us_ID u = i \<and> ToLower (TrimSpace e) = e)) \<and>
     (\<forall>i u. gm_get (ms_usersByID s) i = Some u \<longrightarrow> gm_get (ms_usersByEmail s) (us_Email u) = Some i) \<and>
     ms_roles s = authRoles"

fun fresh_user :: "auth_call \<Rightarrow> memory_state \<Rightarrow> bool" where
  "fresh_user (CallSignUp E b uid cid em pw dn) s \<longleftrightarrow>
     gm_get (ms_usersByID s) uid = None \<and> gm_get (ms_memberships s) uid = None"
| "fresh_user _ s \<longleftrightarrow> True"

fun fresh_users :: "auth_call list \<Rightarrow> memory_state \<Rightarrow> bool" where
  "fresh_users [] s \<longleftrightarrow> True"
| "fresh_users (c # cs) s \<longleftrightarrow> fresh_user c s \<and> fresh_users cs (auth_exec dev_AuthStore c s)"

text \<open>The user tables.\<close>

definition user_tables :: "memory_state \<Rightarrow> (uuid, user) gomap \<times> (string, uuid) gomap \<times> (uuid, auth_role) gomap" where
  "user_tables s = (ms_usersByID s, ms_usersByEmail s, ms_roles s)"

lemma users_wf_cong: "user_tables s' = user_tables s \<Longrightarrow> users_wf s' \<longleftrightarrow> users_wf s"
  by (simp add: users_wf_def user_tables_def)

lemma finish_login_tables: "user_tables (snd (finish_login dev_AuthStore E u c at ac d s)) = user_tables s"
  by (simp add: finish_login_def dev_auth_ops AuthStore_CreateRefreshToken_def AuthStore_CreateAuditLog_def
      user_tables_def split: sum.splits)

lemma login_tables:
  "user_tables (snd (AuthService_Login dev_AuthStore E em pw s)) = user_tables s"
  "user_tables (snd (AuthService_SignInNavigators dev_AuthStore E em pw s)) = user_tables s"
  by (simp_all add: AuthService_Login_def AuthService_SignInNavigators_def Let_def finish_login_tables split: sum.splits)

lemma refresh_tables: "user_tables (snd (AuthService_RefreshToken dev_AuthStore E tok s)) = user_tables s"
  by (simp add: AuthService_RefreshToken_def dev_auth_ops AuthStore_RevokeRefreshToken_def
      AuthStore_CreateRefreshToken_def user_tables_def Let_def split: sum.splits)

lemma logout_tables: "user_tables (snd (AuthService_Logout dev_AuthStore E tok s)) = user_tables s"
  by (simp add: AuthService_Logout_def dev_auth_ops AuthStore_RevokeRefreshToken_def user_tables_def)

lemma users_wf_index:
  "users_wf s \<Longrightarrow> gm_get (ms_usersByEmail s) e = Some i \<Longrightarrow>
   \<exists>u. gm_get (ms_usersByID s) i = Some u \<and> us_Email u = e \<and> us_ID u = i \<and> ToLower (TrimSpace e) = e"
  by (simp add: users_wf_def)

lemma users_wf_back:
  "users_wf s \<Longrightarrow> gm_get (ms_usersByID s) i = Some u \<Longrightarrow> gm_get (ms_usersByEmail s) (us_Email u) = Some i"
  by (simp add: users_wf_def)

lemma update_user_wf:
  assumes "users_wf s"
  shows "users_wf (snd (AuthStore_UpdateUser i dn av s))"
proof (cases "gm_get (ms_usersByID s) i")
  case None
  then show ?thesis using assms by (simp add: AuthStore_UpdateUser_def)
next
  case (Some u)
  define s' where "s' = snd (AuthStore_UpdateUser i dn av s)"
  have s': "ms_usersByID s' = gm_put i (u\<lparr>us_DisplayName := dn, us_AvatarURL := av\<rparr>) (ms_usersByID s)"
    "ms_usersByEmail s' = ms_usersByEmail s" "ms_roles s' = ms_roles s"
    using Some by (simp_all add: s'_def AuthStore_UpdateUser_def Let_def)
  have "\<exists>v. gm_get (ms_usersByID s') k = Some v \<and> us_Email v = e \<and> us_ID v = k \<and> ToLower (TrimSpace e) = e"
    if "gm_get (ms_usersByEmail s') e = Some k" for e k
    using users_wf_index [OF assms, of e k] that Some by (auto simp: s')
  moreover have "gm_get (ms_usersByEmail s') (us_Email v) = Some k" if "gm_get (ms_usersByID s') k = Some v" for k v
    using users_wf_back [OF assms, of k] users_wf_back [OF assms Some] that by (auto simp: s' split: if_splits)
  moreover have "ms_roles s' = authRoles" using assms s'(3) by (simp add: users_wf_def)
  ultimately show ?thesis unfolding users_wf_def s'_def [symmetric] by blast
qed

lemma add_user_wf:
  assumes "users_wf s" and "gm_get (ms_usersByEmail s) e = None" and "gm_get (ms_usersByID s) i = None"
    and "us_Email u = e" and "us_ID u = i" and "ToLower (TrimSpace e) = e"
    and "ms_usersByID s' = gm_put i u (ms_usersByID s)" and "ms_usersByEmail s' = gm_put e i (ms_usersByEmail s)"
    and "ms_roles s' = ms_roles s"
  shows "users_wf s'"
proof -
  have "\<exists>v. gm_get (ms_usersByID s') k = Some v \<and> us_Email v = f \<and> us_ID v = k \<and> ToLower (TrimSpace f) = f"
    if "gm_get (ms_usersByEmail s') f = Some k" for f k
    using users_wf_index [OF assms(1), of f k] that assms(3-8) by (auto split: if_splits)
  moreover have "gm_get (ms_usersByEmail s') (us_Email v) = Some k" if "gm_get (ms_usersByID s') k = Some v" for k v
    using users_wf_back [OF assms(1), of k v] that assms(2,4,7,8) by (auto split: if_splits)
  moreover have "ms_roles s' = authRoles" using assms(1,9) by (simp add: users_wf_def)
  ultimately show ?thesis unfolding users_wf_def by blast
qed

lemma exec_users_wf:
  assumes "users_wf s" and "fresh_user c s"
  shows "users_wf (auth_exec dev_AuthStore c s)"
proof (cases c)
  case (CallSignUp E b uid cid em pw dn)
  obtain r s' where run: "AuthService_SignUp dev_AuthStore E b uid cid em pw dn s = (r, s')" by fastforce
  have fr: "gm_get (ms_usersByID s) uid = None" "gm_get (ms_memberships s) uid = None" "ms_roles s = authRoles"
    using assms CallSignUp by (simp_all add: users_wf_def)
  from signup_dev [OF run] have "users_wf s'"
  proof (elim disjE exE conjE)
    fix hashed resp
    assume tx: "signup_tx dev_AuthStore E b uid cid em hashed dn s = (Inr resp, s')"
    note eff = signup_tx_dev [OF tx fr(2,3)]
    have u: "us_Email (rp_User resp) = ToLower (TrimSpace em)" "us_ID (rp_User resp) = uid"
      using eff by (simp_all add: signed_up_user_def)
    show ?thesis
      by (rule add_user_wf [OF assms(1) _ fr(1) u]) (use eff in \<open>simp_all\<close>)
  qed (use assms in simp)
  then show ?thesis using run CallSignUp by simp
next
  case (CallProfile uid dn av)
  then show ?thesis using assms update_user_wf by (simp add: AuthService_UpdateProfile_def dev_auth_ops)
next
  case (CallLogin E em pw)
  then show ?thesis using assms users_wf_cong [OF login_tables(1)] by simp
next
  case (CallNavigators E em pw)
  then show ?thesis using assms users_wf_cong [OF login_tables(2)] by simp
next
  case (CallRefresh E tok)
  then show ?thesis using assms users_wf_cong [OF refresh_tables] by simp
next
  case (CallLogout E tok)
  then show ?thesis using assms users_wf_cong [OF logout_tables] by simp
qed

lemma run_users_wf: "users_wf s \<Longrightarrow> fresh_users cs s \<Longrightarrow> users_wf (fold (auth_exec dev_AuthStore) cs s)"
  by (induction cs arbitrary: s) (auto simp: exec_users_wf)

text \<open>
  One account for each address. After any sequence of authentication calls from an empty backend, in which
  new users get new identifiers, every user is found under its own e-mail address, the addresses are in normal
  form, and no two users have the same one.
\<close>

lemma one_account_per_address:
  assumes "fresh_users cs NewMemoryBackend"
  defines "s \<equiv> fold (auth_exec dev_AuthStore) cs NewMemoryBackend"
  shows "(\<forall>i u. gm_get (ms_usersByID s) i = Some u \<longrightarrow>
            us_ID u = i \<and> ToLower (TrimSpace (us_Email u)) = us_Email u \<and>
            AuthStore_GetUserByEmail (us_Email u) s = Inr u) \<and>
         (\<forall>i j u v. gm_get (ms_usersByID s) i = Some u \<and> gm_get (ms_usersByID s) j = Some v \<and> us_Email u = us_Email v \<longrightarrow> i = j) \<and>
         (\<forall>email u. AuthStore_GetUserByEmail email s = Inr u \<longrightarrow>
            us_Email u = ToLower (TrimSpace email) \<and> gm_get (ms_usersByID s) (us_ID u) = Some u)"
proof -
  have "users_wf NewMemoryBackend" by (simp add: users_wf_def NewMemoryBackend_def)
  then have wf: "users_wf s" using run_users_wf assms by simp
  have index: "\<exists>u. gm_get (ms_usersByID s) i = Some u \<and> us_Email u = e \<and> us_ID u = i \<and> ToLower (TrimSpace e) = e"
    if "gm_get (ms_usersByEmail s) e = Some i" for e i
    using wf that by (simp add: users_wf_def)
  have owner_of: "gm_get (ms_usersByEmail s) (us_Email u) = Some i" if "gm_get (ms_usersByID s) i = Some u" for i u
    using wf that by (simp add: users_wf_def)
  show ?thesis
  proof (intro conjI allI impI; (elim conjE)?)
    fix i u assume u: "gm_get (ms_usersByID s) i = Some u"
    have n: "us_ID u = i" "ToLower (TrimSpace (us_Email u)) = us_Email u" using index [OF owner_of [OF u]] u by auto
    then show "us_ID u = i" "ToLower (TrimSpace (us_Email u)) = us_Email u" by simp_all
    from n(2) owner_of [OF u] u show "AuthStore_GetUserByEmail (us_Email u) s = Inr u"
      by (simp add: AuthStore_GetUserByEmail_def gm_get_or_def)
  next
    fix i j u v
    assume "gm_get (ms_usersByID s) i = Some u" "gm_get (ms_usersByID s) j = Some v" "us_Email u = us_Email v"
    then show "i = j" using owner_of [of i u] owner_of [of j v] by simp
  next
    fix email u assume "AuthStore_GetUserByEmail email s = Inr u"
    then obtain i where "gm_get (ms_usersByEmail s) (ToLower (TrimSpace email)) = Some i"
      and u: "u = gm_get_or zero_user (ms_usersByID s) i"
      by (auto simp: AuthStore_GetUserByEmail_def split: option.splits)
    from index [OF this(1)] u
    show "us_Email u = ToLower (TrimSpace email)" and "gm_get (ms_usersByID s) (us_ID u) = Some u"
      by (auto simp: gm_get_or_def)
  qed
qed

theorem one_account_per_address_witness:
  "AuthStore_GetUserByEmail ''ANN@example.com'' demo_signed_up = Inr (signed_up_user demo_env ''u1'' ''ann@example.com'' ''#password'' ''Ann'') \<and>
   gm_get (ms_usersByID demo_signed_up) ''u1'' = Some (signed_up_user demo_env ''u1'' ''ann@example.com'' ''#password'' ''Ann'')"
proof -
  let ?cs = "[CallSignUp demo_env False ''u1'' ''c1'' '' Ann@Example.com '' ''password'' ''Ann'']"
  have fresh: "fresh_users ?cs NewMemoryBackend" by code_simp
  have s: "fold (auth_exec dev_AuthStore) ?cs NewMemoryBackend = demo_signed_up" by (simp add: demo_signed_up_def)
  have get: "AuthStore_GetUserByEmail ''ANN@example.com'' demo_signed_up
      = Inr (signed_up_user demo_env ''u1'' ''ann@example.com'' ''#password'' ''Ann'')" by code_simp
  have uid: "us_ID (signed_up_user demo_env ''u1'' ''ann@example.com'' ''#password'' ''Ann'') = ''u1''"
    by (simp add: signed_up_user_def)
  have "gm_get (ms_usersByID demo_signed_up) (us_ID (signed_up_user demo_env ''u1'' ''ann@example.com'' ''#password'' ''Ann''))
      = Some (signed_up_user demo_env ''u1'' ''ann@example.com'' ''#password'' ''Ann'')"
    using one_account_per_address [OF fresh, unfolded s] get by blast
  then show ?thesis using get by (simp only: uid)
qed

section \<open>Login\<close>

text \<open>
  C27: login does not tell accounts apart. For an unknown e-mail address, a deactivated account and a wrong
  password (or a failing verification) both login paths return the same error and leave the store as it is;
  and a login that succeeds is for an active user found under the normalised address whose password verified.
\<close>

theorem login_failures_indistinguishable:
  "((\<exists>e. as_GetUserByEmail A (ToLower (TrimSpace email)) s = Inl e) \<or>
    (\<exists>u. as_GetUserByEmail A (ToLower (TrimSpace email)) s = Inr u \<and>
         (\<not> us_IsActive u \<or> ae_Verify E pw (us_PasswordHash u) \<noteq> Inr True))
      \<longleftrightarrow> fst (AuthService_Login A E email pw s) = Inl invalid_credentials) \<and>
   (fst (AuthService_Login A E email pw s) = Inl invalid_credentials \<longrightarrow>
      AuthService_Login A E email pw s = (Inl invalid_credentials, s) \<and>
      AuthService_SignInNavigators A E email pw s = (Inl invalid_credentials, s)) \<and>
   (\<forall>resp s'. AuthService_Login A E email pw s = (Inr resp, s') \<longrightarrow>
      as_GetUserByEmail A (ToLower (TrimSpace email)) s = Inr (rp_User resp) \<and> us_IsActive (rp_User resp) \<and>
      ae_Verify E pw (us_PasswordHash (rp_User resp)) = Inr True)"
  by (auto simp: AuthService_Login_def AuthService_SignInNavigators_def check_credentials_def finish_login_def
      invalid_credentials_def Let_def split: sum.splits prod.splits if_splits)

theorem login_failures_indistinguishable_witness:
  "AuthService_Login dev_AuthStore demo_env ''nobody@example.com'' ''password'' demo_signed_up = (Inl invalid_credentials, demo_signed_up) \<and>
   AuthService_Login dev_AuthStore demo_env ''ann@example.com'' ''wrong'' demo_signed_up = (Inl invalid_credentials, demo_signed_up) \<and>
   us_IsActive (signed_up_user demo_env ''u1'' ''ann@example.com'' ''#password'' ''Ann'')"
proof -
  have f: "fst (AuthService_Login dev_AuthStore demo_env ''nobody@example.com'' ''password'' demo_signed_up) = Inl invalid_credentials"
    "fst (AuthService_Login dev_AuthStore demo_env ''ann@example.com'' ''wrong'' demo_signed_up) = Inl invalid_credentials"
    by code_simp+
  have ok: "rp_User (projr (fst (AuthService_Login dev_AuthStore demo_env2 ''ann@example.com'' ''password'' demo_signed_up)))
      = signed_up_user demo_env ''u1'' ''ann@example.com'' ''#password'' ''Ann''"
    "\<not> isl (fst (AuthService_Login dev_AuthStore demo_env2 ''ann@example.com'' ''password'' demo_signed_up))" by code_simp+
  then obtain resp s' where run: "AuthService_Login dev_AuthStore demo_env2 ''ann@example.com'' ''password'' demo_signed_up = (Inr resp, s')"
    and u: "rp_User resp = signed_up_user demo_env ''u1'' ''ann@example.com'' ''#password'' ''Ann''"
    by (metis prod.collapse sum.collapse(2) sum.sel(2) fst_conv)
  from login_failures_indistinguishable [of dev_AuthStore "''ann@example.com''" demo_signed_up demo_env2 "''password''"] run u
  have "us_IsActive (signed_up_user demo_env ''u1'' ''ann@example.com'' ''#password'' ''Ann'')" by metis
  with f login_failures_indistinguishable [of dev_AuthStore "''nobody@example.com''" demo_signed_up demo_env "''password''"]
    login_failures_indistinguishable [of dev_AuthStore "''ann@example.com''" demo_signed_up demo_env "''wrong''"]
  show ?thesis by metis
qed

text \<open>
  A refresh does not look at the active flag: a deactivated account, which cannot log in, still exchanges its
  refresh token for a new pair of tokens.
\<close>

definition deactivated :: memory_state where
  "deactivated = demo_signed_up\<lparr>ms_usersByID :=
     gm_map (\<lambda>_ u. u\<lparr>us_IsActive := False\<rparr>) (ms_usersByID demo_signed_up)\<rparr>"

lemma deactivated_user_refreshes:
  "fst (AuthService_Login dev_AuthStore demo_env2 ''ann@example.com'' ''password'' deactivated) = Inl invalid_credentials \<and>
   map_sum (\<lambda>_. ()) rp_RefreshToken (fst (AuthService_RefreshToken dev_AuthStore demo_env2 ''r1'' deactivated)) = Inr ''r2''"
  by code_simp

text \<open>
  A commit installs the transaction's copy of the whole state: a change made by another call between the begin and
  the commit, here a logout, is lost, and the revoked token can be exchanged again.
\<close>

lemma commit_loses_concurrent_change:
  "AuthStore_Commit tx (snd (AuthService_Logout dev_AuthStore E tok s)) = AuthStore_Commit tx s"
  by (simp add: AuthStore_Commit_def)

section \<open>Just-in-time company\<close>

lemma filtered_entries: "filter P (gm_vals m) = map snd (filter (\<lambda>e. P (snd e)) m)"
  by (simp add: gm_vals_def filter_map comp_def)

lemma in_filtered_entries:
  "gm_ok m \<Longrightarrow> (k, v) \<in> set (filter (\<lambda>e. P (snd e)) m) \<longleftrightarrow> gm_get m k = Some v \<and> P v"
  by (auto simp: gm_in_iff)

definition jit_keys :: "string \<Rightarrow> string \<Rightarrow> memory_state \<Rightarrow> string set" where
  "jit_keys issuer domain s = {k. \<exists>cfg. gm_get (ms_ssoConfigs s) k = Some cfg \<and> jit_matches issuer domain cfg}"

text \<open>
  Just-in-time users are placed only when the target is unambiguous. The resolver returns the company and
  role of a configuration exactly when it is the only active, JIT-enabled one for the issuer whose allow-list
  contains the domain; it reports no match exactly when there is none and ambiguity exactly when there are two
  or more. The answer does not depend on the iteration order of the map.
\<close>

lemma jit_resolution_unambiguous:
  assumes ok: "gm_ok (ms_ssoConfigs s)"
  shows "(\<forall>c role. AuthStore_ResolveJITCompanyByIssuerDomain issuer domain s = Inr (c, role) \<longleftrightarrow>
            (\<exists>k cfg. jit_keys issuer domain s = {k} \<and> gm_get (ms_ssoConfigs s) k = Some cfg \<and>
                     c = sc_CompanyID cfg \<and> role = sc_JITDefaultRole cfg)) \<and>
         (AuthStore_ResolveJITCompanyByIssuerDomain issuer domain s = Inl ErrNoJITMatch \<longleftrightarrow> jit_keys issuer domain s = {}) \<and>
         (AuthStore_ResolveJITCompanyByIssuerDomain issuer domain s = Inl ErrAmbiguousJITMatch \<longleftrightarrow>
            (\<exists>k k'. k \<noteq> k' \<and> {k, k'} \<subseteq> jit_keys issuer domain s))"
proof -
  define fm where "fm = filter (\<lambda>e. jit_matches issuer domain (snd e)) (ms_ssoConfigs s)"
  have dist: "distinct (map fst fm)" using ok unfolding fm_def gm_ok_def by (rule distinct_map_filter)
  have keys: "jit_keys issuer domain s = fst ` set fm"
    using in_filtered_entries [OF ok, of _ _ "jit_matches issuer domain"]
    by (force simp: jit_keys_def fm_def [symmetric])
  have get: "gm_get (ms_ssoConfigs s) k = Some v" if "(k, v) \<in> set fm" for k v
    using that in_filtered_entries [OF ok, of k v "jit_matches issuer domain"] by (simp add: fm_def)
  have run: "AuthStore_ResolveJITCompanyByIssuerDomain issuer domain s =
      (case map snd fm of [] \<Rightarrow> Inl ErrNoJITMatch | [cfg] \<Rightarrow> Inr (sc_CompanyID cfg, sc_JITDefaultRole cfg)
       | _ \<Rightarrow> Inl ErrAmbiguousJITMatch)"
    by (simp only: AuthStore_ResolveJITCompanyByIssuerDomain_def filtered_entries fm_def)
  have ne: "ErrNoJITMatch \<noteq> ErrAmbiguousJITMatch" by (simp add: ErrNoJITMatch_def ErrAmbiguousJITMatch_def)
  consider "fm = []" | k v where "fm = [(k, v)]" | k v k' v' rest where "fm = (k, v) # (k', v') # rest"
    by (cases fm rule: remdups_adj.cases) auto
  then show ?thesis
  proof cases
    case 1
    then show ?thesis using run keys ne by simp
  next
    case 2
    then show ?thesis using run keys get [of k v] by auto
  next
    case 3
    then have diff: "k \<noteq> k'" using dist by auto
    define K where "K = jit_keys issuer domain s"
    have two: "k \<in> K" "k' \<in> K" using 3 keys by (simp_all add: K_def)
    have none: "K \<noteq> {}" using two by blast
    have many: "K \<noteq> {x}" for x
    proof
      assume "K = {x}"
      with two have "k = x" "k' = x" by simp_all
      with diff show False by simp
    qed
    have amb: "AuthStore_ResolveJITCompanyByIssuerDomain issuer domain s = Inl ErrAmbiguousJITMatch"
      using run 3 by simp
    have ex: "\<exists>k k'. k \<noteq> k' \<and> {k, k'} \<subseteq> K"
      by (rule exI [of _ k], rule exI [of _ k']) (simp add: two diff)
    show ?thesis unfolding amb K_def [symmetric] using none many ne ex by simp
  qed
qed

definition demo_sso :: "uuid \<Rightarrow> sso_config" where
  "demo_sso cid = \<lparr>sc_CompanyID = cid, sc_Provider = ''oidc'', sc_IssuerURL = ''iss'', sc_ClientID = [], sc_ClientSecret = [],
     sc_MetadataURL = [], sc_DisplayName = [], sc_ExtraScopes = [], sc_EnforceSSO = False, sc_IsActive = True,
     sc_EmailDomainAllowlist = [''x.org''], sc_JITDefaultRole = ''member'', sc_JITEnabled = True\<rparr>"

theorem jit_resolution_unambiguous_witness:
  "AuthStore_ResolveJITCompanyByIssuerDomain ''iss'' ''x.org'' (SetSSOConfig ''c1'' ''oidc'' (demo_sso ''c1'') NewMemoryBackend)
     = Inr (''c1'', ''member'') \<and>
   AuthStore_ResolveJITCompanyByIssuerDomain ''iss'' ''x.org''
     (SetSSOConfig ''c2'' ''oidc'' (demo_sso ''c2'') (SetSSOConfig ''c1'' ''oidc'' (demo_sso ''c1'') NewMemoryBackend))
     = Inl ErrAmbiguousJITMatch"
proof -
  let ?s1 = "SetSSOConfig ''c1'' ''oidc'' (demo_sso ''c1'') NewMemoryBackend"
  let ?s2 = "SetSSOConfig ''c2'' ''oidc'' (demo_sso ''c2'') ?s1"
  have ok: "gm_ok (ms_ssoConfigs ?s1)" "gm_ok (ms_ssoConfigs ?s2)" by (simp_all add: SetSSOConfig_def NewMemoryBackend_def)
  have m: "jit_matches ''iss'' ''x.org'' (demo_sso c)" for c by (simp add: jit_matches_def demo_sso_def)
  have g1: "gm_get (ms_ssoConfigs ?s1) k = (if k = ''c1:oidc'' then Some (demo_sso ''c1'') else None)" for k
    by (simp add: SetSSOConfig_def NewMemoryBackend_def)
  have g2: "gm_get (ms_ssoConfigs ?s2) k = (if k = ''c2:oidc'' then Some (demo_sso ''c2'') else gm_get (ms_ssoConfigs ?s1) k)" for k
    by (simp add: SetSSOConfig_def)
  have k1: "jit_keys ''iss'' ''x.org'' ?s1 = {''c1:oidc''}" using m by (auto simp: jit_keys_def g1)
  have k2: "{''c1:oidc'', ''c2:oidc''} \<subseteq> jit_keys ''iss'' ''x.org'' ?s2" using m by (auto simp: jit_keys_def g2 g1)
  have "AuthStore_ResolveJITCompanyByIssuerDomain ''iss'' ''x.org'' ?s1 = Inr (''c1'', ''member'')"
  proof -
    have "sc_CompanyID (demo_sso ''c1'') = ''c1''" "sc_JITDefaultRole (demo_sso ''c1'') = ''member''"
      by (simp_all add: demo_sso_def)
    moreover have "gm_get (ms_ssoConfigs ?s1) ''c1:oidc'' = Some (demo_sso ''c1'')" using g1 by simp
    ultimately have "\<exists>k cfg. jit_keys ''iss'' ''x.org'' ?s1 = {k} \<and> gm_get (ms_ssoConfigs ?s1) k = Some cfg \<and>
        ''c1'' = sc_CompanyID cfg \<and> ''member'' = sc_JITDefaultRole cfg"
      using k1 by metis
    with conjunct1 [OF jit_resolution_unambiguous [OF ok(1), of "''iss''" "''x.org''"]] show ?thesis by blast
  qed
  moreover have "(''c1:oidc'' :: string) \<noteq> ''c2:oidc''" by simp
  then have "\<exists>k k'. k \<noteq> k' \<and> {k, k'} \<subseteq> jit_keys ''iss'' ''x.org'' ?s2" using k2 by (intro exI conjI)
  with jit_resolution_unambiguous [OF ok(2), of "''iss''" "''x.org''", THEN conjunct2, THEN conjunct2]
  have "AuthStore_ResolveJITCompanyByIssuerDomain ''iss'' ''x.org'' ?s2 = Inl ErrAmbiguousJITMatch"
    by (simp only:)
  ultimately show ?thesis by simp
qed

end
