(* ===== verification/Company_Properties.thy ===== *)
theory Company_Properties
  imports Session_Properties
begin

text \<open>
  The company hierarchy on the in-memory backend, under every mixture of company-service calls and
  authentication calls (a sign-up creates a company too), and the inheritance of settings along it.
\<close>

section \<open>Runs over the whole tenant\<close>

datatype tenant_call =
    TCreate string uuid go_time string string string "uuid option" "string option"
  | TUpdate string go_time company
  | TAuth auth_call

fun tenant_exec :: "tenant_call \<Rightarrow> memory_state \<Rightarrow> memory_state" where
  "tenant_exec (TCreate hms nid now name slug ty parent settings) s =
     snd (CompanyService_CreateCompany dev_CompanyStore hms nid now name slug ty parent settings s)"
| "tenant_exec (TUpdate hms now c) s = snd (CompanyService_UpdateCompany dev_CompanyStore hms now c s)"
| "tenant_exec (TAuth c) s = auth_exec dev_AuthStore c s"

text \<open>A new company identifier: not in use, not the zero identifier, and no company's parent.\<close>

definition unused_company :: "uuid \<Rightarrow> memory_state \<Rightarrow> bool" where
  "unused_company nid s \<longleftrightarrow> nid \<noteq> uuid_Nil \<and> gm_get (ms_companies s) nid = None \<and>
     (\<forall>c\<in>set (gm_vals (ms_companies s)). co_ParentCompanyID c \<noteq> Some nid)"

fun tenant_fresh :: "tenant_call \<Rightarrow> memory_state \<Rightarrow> bool" where
  "tenant_fresh (TCreate hms nid now name slug ty parent settings) s \<longleftrightarrow> unused_company nid s \<and> parent \<noteq> Some nid"
| "tenant_fresh (TUpdate hms now c) s \<longleftrightarrow> True"
| "tenant_fresh (TAuth (CallSignUp E b uid cid em pw dn)) s \<longleftrightarrow>
     unused_company cid s \<and> gm_get (ms_memberships s) uid = None"
| "tenant_fresh (TAuth _) s \<longleftrightarrow> True"

fun tenant_run_fresh :: "tenant_call list \<Rightarrow> memory_state \<Rightarrow> bool" where
  "tenant_run_fresh [] s \<longleftrightarrow> True"
| "tenant_run_fresh (c # cs) s \<longleftrightarrow> tenant_fresh c s \<and> tenant_run_fresh cs (tenant_exec c s)"

lemma unused_fresh: "unused_company nid s \<Longrightarrow> fresh_company (gm_get (ms_companies s)) nid"
  by (auto simp: unused_company_def fresh_company_def gm_vals_def dest!: gm_get_in)

definition acyclic_companies :: "(uuid \<rightharpoonup> company) \<Rightarrow> bool" where
  "acyclic_companies cs \<longleftrightarrow> (\<forall>d g. ancestry cs d d g \<longrightarrow> g = 0)"

lemma acyclic_insert:
  assumes ac: "acyclic_companies cs" and fr: "fresh_company cs nid" and np: "co_ParentCompanyID c \<noteq> Some nid"
  shows "acyclic_companies (cs(nid \<mapsto> c))"
  unfolding acyclic_companies_def
proof (intro allI impI)
  fix d g assume a: "ancestry (cs(nid \<mapsto> c)) d d g"
  show "g = 0"
  proof (cases "d = nid")
    case False
    then show ?thesis using a ancestry_new_old [OF fr] ac by (auto simp: acyclic_companies_def)
  next
    case True
    from a show ?thesis
    proof (cases rule: ancestry.cases)
      case (step c' p g')
      then have p: "p \<noteq> nid" using True np by auto
      with step(4) True have "ancestry cs p nid g'" using ancestry_new_old [OF fr] by simp
      then have "\<exists>c. cs nid = Some c" using ancestry_exists by blast
      with fr show ?thesis by (simp add: fresh_company_def)
    qed simp
  qed
qed

definition tenant_inv :: "memory_state \<Rightarrow> bool" where
  "tenant_inv s \<longleftrightarrow> closure_ok (gm_get (ms_companies s)) (closure_rows s) \<and>
     acyclic_companies (gm_get (ms_companies s)) \<and> ms_roles s = authRoles"

definition company_tables :: "memory_state \<Rightarrow> (uuid, company) gomap \<times> company_hierarchy list \<times> (uuid, auth_role) gomap" where
  "company_tables s = (ms_companies s, ms_hierarchy s, ms_roles s)"

lemma tenant_inv_cong: "company_tables s' = company_tables s \<Longrightarrow> tenant_inv s' \<longleftrightarrow> tenant_inv s"
  by (simp add: tenant_inv_def company_tables_def closure_rows_def)

lemma auth_company_frame:
  "company_tables (snd (AuthService_Login dev_AuthStore E em pw s)) = company_tables s"
  "company_tables (snd (AuthService_SignInNavigators dev_AuthStore E em pw s)) = company_tables s"
  "company_tables (snd (AuthService_RefreshToken dev_AuthStore E tok s)) = company_tables s"
  "company_tables (snd (AuthService_Logout dev_AuthStore E tok s)) = company_tables s"
  "company_tables (snd (AuthService_UpdateProfile dev_AuthStore uid dn av s)) = company_tables s"
  by (simp_all add: AuthService_Login_def AuthService_SignInNavigators_def AuthService_RefreshToken_def AuthService_Logout_def
      AuthService_UpdateProfile_def finish_login_def dev_auth_ops AuthStore_RevokeRefreshToken_def AuthStore_UpdateUser_def
      AuthStore_CreateRefreshToken_def AuthStore_CreateAuditLog_def company_tables_def Let_def split: sum.splits option.splits)

lemma create_company_inv:
  assumes I: "tenant_inv s" and fr: "unused_company nid s" and np: "parent \<noteq> Some nid"
  shows "tenant_inv (snd (CompanyService_CreateCompany dev_CompanyStore hms nid now name slug ty parent settings s))"
proof -
  let ?run = "CompanyService_CreateCompany dev_CompanyStore hms nid now name slug ty parent settings s"
  obtain r s' where run: "?run = (r, s')" by fastforce
  have nil: "nid \<noteq> uuid_Nil" and f: "fresh_company (gm_get (ms_companies s)) nid"
    using fr unused_fresh by (auto simp: unused_company_def)
  have ok: "closure_ok (gm_get (ms_companies s)) (closure_rows s)" and ac: "acyclic_companies (gm_get (ms_companies s))"
    using I by (simp_all add: tenant_inv_def)
  note eff = devcompany.create_company_closure [OF ok f nil np run]
  have ac': "acyclic_companies (gm_get (ms_companies s'))"
  proof (cases r)
    case (Inl e)
    then show ?thesis using eff ac by simp
  next
    case (Inr c)
    then show ?thesis using eff acyclic_insert [OF ac f, of c] np by simp
  qed
  have roles: "ms_roles (fold (\<lambda>a. insertHierarchy (f a)) es t) = ms_roles t" for f :: "company_hierarchy \<Rightarrow> _" and es t
    by (induction es arbitrary: t) simp_all
  have "ms_roles s' = ms_roles s"
    using run roles [of "\<lambda>a. a"] unfolding CompanyService_CreateCompany_def dev_CompanyStore_def CompanyStore_CreateCompany_def
      CompanyStore_InsertHierarchyEntries_def CompanyStore_GetAncestors_def
    by (auto simp: Let_def roles fold_map comp_def split: if_splits option.splits sum.splits)
  then show ?thesis using eff ac' run I by (simp add: tenant_inv_def)
qed

lemma update_company_inv:
  assumes I: "tenant_inv s"
  shows "tenant_inv (snd (CompanyService_UpdateCompany dev_CompanyStore hms now c s))"
proof -
  obtain r s' where run: "CompanyService_UpdateCompany dev_CompanyStore hms now c s = (r, s')" by fastforce
  have ok: "closure_ok (gm_get (ms_companies s)) (closure_rows s)" using I by (simp add: tenant_inv_def)
  have ok': "closure_ok (gm_get (ms_companies s')) (closure_rows s')"
    by (rule devcompany.update_company_closure [OF ok run])
  have keep: "ms_hierarchy s' = ms_hierarchy s" "ms_roles s' = ms_roles s"
    using run by (auto simp: CompanyService_UpdateCompany_def dev_CompanyStore_def CompanyStore_UpdateCompany_def Let_def
        split: if_splits option.splits)
  then have "ancestry (gm_get (ms_companies s')) d a g \<longleftrightarrow> ancestry (gm_get (ms_companies s)) d a g" for d a g
    using ok ok' by (simp add: closure_ok_def closure_rows_def)
  then show ?thesis using I ok' keep run by (simp add: tenant_inv_def acyclic_companies_def)
qed

lemma signup_inv:
  assumes I: "tenant_inv s" and fr: "unused_company cid s" and mem: "gm_get (ms_memberships s) uid = None"
  shows "tenant_inv (snd (AuthService_SignUp dev_AuthStore E b uid cid em pw dn s))"
proof -
  obtain r s' where run: "AuthService_SignUp dev_AuthStore E b uid cid em pw dn s = (r, s')" by fastforce
  have f: "fresh_company (gm_get (ms_companies s)) cid" using fr by (rule unused_fresh)
  from signup_dev [OF run] have "tenant_inv s'"
  proof (elim disjE exE conjE)
    fix hashed resp
    assume tx: "signup_tx dev_AuthStore E b uid cid em hashed dn s = (Inr resp, s')"
    have roles: "ms_roles s = authRoles" using I by (simp add: tenant_inv_def)
    from signup_tx_dev [OF tx mem roles] obtain c where c: "ms_companies s' = gm_put cid c (ms_companies s)"
      "co_ParentCompanyID c = None" and rows: "closure_rows s' = insert (cid, cid, 0) (closure_rows s)"
      and roles': "ms_roles s' = authRoles" using roles by auto
    have cs: "gm_get (ms_companies s') = (gm_get (ms_companies s))(cid \<mapsto> c)" by (simp add: c fun_eq_iff)
    have "closure_ok (gm_get (ms_companies s')) (closure_rows s')"
      using closure_ok_insert [OF _ f c(2), of "closure_rows s"] I by (simp add: cs rows tenant_inv_def new_rows_def)
    moreover have "acyclic_companies (gm_get (ms_companies s'))"
      unfolding cs using I by (intro acyclic_insert [OF _ f]) (simp_all add: tenant_inv_def c)
    ultimately show ?thesis using roles' by (simp add: tenant_inv_def)
  qed (use I in simp)
  then show ?thesis using run by simp
qed

lemma tenant_exec_inv:
  assumes "tenant_inv s" and "tenant_fresh c s"
  shows "tenant_inv (tenant_exec c s)"
proof (cases c)
  case (TCreate hms nid now name slug ty parent settings)
  then show ?thesis using assms create_company_inv by simp
next
  case (TUpdate hms now co)
  then show ?thesis using assms update_company_inv by simp
next
  case (TAuth a)
  then show ?thesis
    using assms signup_inv auth_company_frame [THEN tenant_inv_cong] by (cases a) simp_all
qed

lemma tenant_run_inv: "tenant_inv s \<Longrightarrow> tenant_run_fresh cs s \<Longrightarrow> tenant_inv (fold tenant_exec cs s)"
  by (induction cs arbitrary: s) (auto simp: tenant_exec_inv)

lemma tenant_inv_new: "tenant_inv NewMemoryBackend"
proof -
  have "\<not> ancestry (gm_get []) d a g" for d a g using ancestry_exists by fastforce
  then show ?thesis
    by (simp add: tenant_inv_def NewMemoryBackend_def closure_ok_def closure_rows_def acyclic_companies_def)
qed

text \<open>
  C11: the closure table is the hierarchy. After any sequence of company creations and updates, sign-ups, logins
  and other authentication calls on a new backend (in which new companies and users get new identifiers), a row
  of the closure table exists exactly when following parent pointers leads from the descendant to the ancestor
  in that number of steps, the hierarchy has no cycle, \<^verbatim>\<open>IsDescendantOf\<close> answers by it, and the ancestor rows
  of a company come nearest first.
\<close>

theorem company_closure_exact:
  assumes "tenant_run_fresh calls NewMemoryBackend"
  defines "s \<equiv> fold tenant_exec calls NewMemoryBackend"
  defines "parents \<equiv> gm_get (ms_companies s)"
  shows "(\<forall>a d g. (a, d, g) \<in> closure_rows s \<longleftrightarrow> ancestry parents d a g) \<and>
         (\<forall>d g. ancestry parents d d g \<longrightarrow> g = 0) \<and>
         (\<forall>d a. CompanyService_IsDescendantOf dev_CompanyStore d a s = Inr (\<exists>g. ancestry parents d a g)) \<and>
         (\<forall>d. \<exists>hs. CompanyStore_GetAncestors d s = Inr hs \<and> sorted (map hi_Generations hs) \<and>
            (\<forall>a g. ancestry parents d a g \<longleftrightarrow> (\<exists>h\<in>set hs. hi_AncestorID h = a \<and> hi_Generations h = g)))"
proof -
  have I: "tenant_inv s" unfolding s_def by (rule tenant_run_inv [OF tenant_inv_new assms(1)])
  then have ok: "closure_ok (gm_get (ms_companies s)) (closure_rows s)" by (simp add: tenant_inv_def)
  have get: "cp_GetAncestors dev_CompanyStore = CompanyStore_GetAncestors" by (simp add: dev_CompanyStore_def)
  show ?thesis
    using I ok devcompany.is_descendant_iff [OF ok] devcompany.ancestors_by_generation [OF ok, unfolded get]
    by (simp add: tenant_inv_def closure_ok_def acyclic_companies_def parents_def)
qed

definition demo_tenant :: "tenant_call list" where
  "demo_tenant =
     [TAuth (CallSignUp demo_env False ''u1'' ''c1'' ''ann@example.com'' ''password'' ''Ann''),
      TCreate ''101010'' ''c2'' 7 ''Branch'' [] [] (Some ''c1'') None,
      TCreate ''101010'' ''c3'' 8 ''Shop'' [] [] (Some ''c2'') (Some ''{}'')]"

theorem company_closure_exact_witness:
  "tenant_run_fresh demo_tenant NewMemoryBackend \<and>
   CompanyService_IsDescendantOf dev_CompanyStore ''c3'' ''c1'' (fold tenant_exec demo_tenant NewMemoryBackend) = Inr True \<and>
   ancestry (gm_get (ms_companies (fold tenant_exec demo_tenant NewMemoryBackend))) ''c3'' ''c1'' 2"
proof -
  let ?s = "fold tenant_exec demo_tenant NewMemoryBackend"
  have fresh: "tenant_run_fresh demo_tenant NewMemoryBackend" by code_simp
  have "(''c1'', ''c3'', 2) \<in> set (map row_of (ms_hierarchy ?s))" by code_simp
  then have row: "(''c1'', ''c3'', 2) \<in> closure_rows ?s" by (simp add: closure_rows_def)
  note exact = company_closure_exact [OF fresh]
  from exact row have anc: "ancestry (gm_get (ms_companies ?s)) ''c3'' ''c1'' 2" by blast
  from exact have "CompanyService_IsDescendantOf dev_CompanyStore ''c3'' ''c1'' ?s
      = Inr (\<exists>g. ancestry (gm_get (ms_companies ?s)) ''c3'' ''c1'' g)" by blast
  also have "(\<exists>g. ancestry (gm_get (ms_companies ?s)) ''c3'' ''c1'' g) = True" using anc by blast
  finally show ?thesis using fresh anc by blast
qed

section \<open>Effective settings\<close>

text \<open>
  Effective settings. When a company's own settings are absent or a JSON object, \<^verbatim>\<open>GetEffectiveSettings\<close>
  does not panic, and what it marshals has, for every key, the value the company itself defines, or else
  the value of its nearest ancestor that defines the key, and no other keys.
\<close>

lemma effective_settings_nearest_wins:
  assumes "cp_GetCompany K cid s = Inr c" and "CompanyService_GetAncestors K cid s = Inr as"
    and "co_Settings c = None \<or> (\<exists>kvs. unmarshal (the (co_Settings c)) = JObj kvs)"
  shows "\<exists>m. CompanyService_GetEffectiveSettings K unmarshal marshal cid s
             = Some (case marshal (Some m) of
                       Inl err \<Rightarrow> Inl (ErrWrap ''marshal merged settings: '' err []) | Inr raw \<Rightarrow> Inr raw) \<and>
           (\<forall>key. gm_get m key = first_defined unmarshal (c # as) key)"
proof -
  let ?own = "defined_by unmarshal c"
  obtain m where m: "merge_ancestors unmarshal as (Some ?own) = Some (Some m)"
    "\<forall>k. gm_get m k = (case gm_get ?own k of Some v \<Rightarrow> Some v | None \<Rightarrow> first_defined unmarshal as k)"
    using merge_ancestors_get by blast
  have "CompanyService_GetEffectiveSettings K unmarshal marshal cid s
      = Some (case marshal (Some m) of
                Inl err \<Rightarrow> Inl (ErrWrap ''marshal merged settings: '' err []) | Inr raw \<Rightarrow> Inr raw)"
    using assms m(1) by (auto simp: CompanyService_GetEffectiveSettings_def defined_by_def split: option.splits)
  then show ?thesis by (intro exI [of _ m]) (simp add: m(2))
qed

definition demo_unmarshal :: "string \<Rightarrow> string unmarshalled" where
  "demo_unmarshal raw = (if raw = ''{}'' then JObj [] else JObj [(''k'', raw)])"

theorem effective_settings_nearest_wins_witness:
  "\<exists>m. CompanyService_GetEffectiveSettings dev_CompanyStore demo_unmarshal (\<lambda>m. Inr (the (nm_get m ''k''))) ''c3''
         (fold tenant_exec demo_tenant NewMemoryBackend) = Some (Inr (the (gm_get m ''k''))) \<and>
       gm_get m ''k'' = Some default_company_settings"
proof -
  let ?s = "fold tenant_exec demo_tenant NewMemoryBackend"
  have get: "\<exists>c. cp_GetCompany dev_CompanyStore ''c3'' ?s = Inr c \<and> co_Settings c = Some ''{}''"
    by (rule exI [of _ "projr (cp_GetCompany dev_CompanyStore ''c3'' ?s)"]) code_simp
  then obtain c where c: "cp_GetCompany dev_CompanyStore ''c3'' ?s = Inr c" "co_Settings c = Some ''{}''" by blast
  have anc: "map_sum (\<lambda>_. ()) (map co_Settings) (CompanyService_GetAncestors dev_CompanyStore ''c3'' ?s)
      = Inr [Some default_company_settings, Some defaultSettings]" by code_simp
  then obtain as where as: "CompanyService_GetAncestors dev_CompanyStore ''c3'' ?s = Inr as"
      "map co_Settings as = [Some default_company_settings, Some defaultSettings]"
    by (cases "CompanyService_GetAncestors dev_CompanyStore ''c3'' ?s") auto
  have obj: "co_Settings c = None \<or> (\<exists>kvs. demo_unmarshal (the (co_Settings c)) = JObj kvs)"
    by (simp add: c demo_unmarshal_def)
  have ne: "default_company_settings \<noteq> ''{}''" by (simp add: default_company_settings_def)
  have "first_defined demo_unmarshal (c # as) ''k'' = Some default_company_settings"
    using as(2) ne by (auto simp: defined_by_def c demo_unmarshal_def gm_get_def split: list.splits)
  with effective_settings_nearest_wins [where unmarshal = demo_unmarshal, OF c(1) as(1) obj, of "\<lambda>m. Inr (the (nm_get m ''k''))"]
  show ?thesis by (auto simp: nm_get_def)
qed

end
