(* ===== verification/Webhook_Properties.thy ===== *)
theory Webhook_Properties
  imports Devstore
begin

text \<open>
  The webhook service on the in-memory backend: how often a failing delivery is retried, when a subscription
  is paused, and which deliveries an event creates. The runs are arbitrary interleavings of registrations,
  events, retry runs, explicit executions and the goroutines these start.
\<close>

text \<open>
  C12: automatic pause. After any run from an empty backend (with new identifiers that are new), the failure
  counter of every subscription is the number of failed attempts since its last success, and the
  subscription is inactive exactly when at some point of its history as many attempts in a row had failed as
  the configured maximum: it is never paused earlier, and never left active later.
\<close>

theorem webhook_pause_exact:
  assumes "fresh_run dev_WebhookStore c calls (NewMemoryBackend, [])"
    and "webhook_run dev_WebhookStore c calls (NewMemoryBackend, []) = (log, s', fl)"
    and "gm_get (ms_webhooks s') i = Some h"
  shows "wh_ConsecutiveFails h = int (fail_streak (outcomes_of i log)) \<and>
         (wh_Active h \<longleftrightarrow> \<not> tripped (wc_maxConsecutiveFailures c) (outcomes_of i log))"
proof -
  have wf: "webhooks_wf NewMemoryBackend" and none: "\<And>i. gm_get (ms_webhooks NewMemoryBackend) i = None"
    by (simp_all add: webhooks_wf_def NewMemoryBackend_def)
  show ?thesis using devhook.counters_from_history [OF wf none assms] by simp
qed

definition demo_pause_run :: "webhook_call list" where
  "demo_pause_run =
     [CallRegister [] ''w'' 1 ''co'' ''u'' ''k'' [''a.*''],
      CallTrigger [''d''] 2 ''co'' ''a.b'' ''{}'',
      CallFinish 0 3 (Response 500 []),
      CallExecute 4 (RequestError ''timeout'') ''d'']"

theorem webhook_pause_exact_witness:
  "(case webhook_run dev_WebhookStore (WithMaxConsecutiveFailures 2 webhook_NewService) demo_pause_run (NewMemoryBackend, []) of
      (log, s', fl) \<Rightarrow>
        log = [(''w'', False), (''w'', False)] \<and>
        (case gm_get (ms_webhooks s') ''w'' of
           None \<Rightarrow> False
         | Some h \<Rightarrow> wh_ConsecutiveFails h = 2 \<and> \<not> wh_Active h))"
proof -
  let ?c = "WithMaxConsecutiveFailures 2 webhook_NewService"
  obtain log s' fl where run: "webhook_run dev_WebhookStore ?c demo_pause_run (NewMemoryBackend, []) = (log, s', fl)"
    by (metis prod_cases3)
  have log: "fst (webhook_run dev_WebhookStore ?c demo_pause_run (NewMemoryBackend, [])) = [(''w'', False), (''w'', False)]"
    by code_simp
  have reg: "gm_get (ms_webhooks (fst (snd (webhook_run dev_WebhookStore ?c demo_pause_run (NewMemoryBackend, []))))) ''w'' \<noteq> None"
    by code_simp
  have fresh: "fresh_run dev_WebhookStore ?c demo_pause_run (NewMemoryBackend, [])" by code_simp
  from reg run obtain h where h: "gm_get (ms_webhooks s') ''w'' = Some h" by auto
  have trip: "tripped (wc_maxConsecutiveFailures ?c) (outcomes_of ''w'' [(''w'', False), (''w'', False)])" by code_simp
  have streak: "fail_streak (outcomes_of ''w'' [(''w'', False), (''w'', False)]) = 2" by code_simp
  from webhook_pause_exact [OF fresh run h] log run trip streak h show ?thesis by simp
qed

text \<open>
  An event reaches its subscribers. \<^verbatim>\<open>Trigger\<close> creates one pending delivery, with the event and payload, for every
  active subscription of the company whose patterns match the event, hands exactly these to goroutines, and
  changes no other delivery and no subscription. In particular it creates nothing for a paused one.
\<close>

lemma webhook_trigger_exact:
  assumes "webhooks_wf s" and "fresh_ids dev_WebhookStore (CallTrigger ids now co ev payload) (s, [])"
  shows "\<exists>hs s'. distinct (map wh_ID hs) \<and>
     (\<forall>h. h \<in> set hs \<longleftrightarrow> gm_get (ms_webhooks s) (wh_ID h) = Some h \<and> wh_CompanyID h = co \<and> wh_Active h \<and>
                       matchesEvent (wh_Events h) ev) \<and>
     WebhookService_Trigger dev_WebhookStore ids now co ev payload s =
       (Inr (map2 (\<lambda>wh n. (wh, new_delivery n now (wh_ID wh) ev payload)) hs ids), s') \<and>
     webhooks_wf s' \<and> gm_get (ms_webhooks s') = gm_get (ms_webhooks s) \<and>
     gm_get (ms_deliveries s') =
       gm_get (ms_deliveries s) ++ map_of (map2 (\<lambda>wh n. (n, new_delivery n now (wh_ID wh) ev payload)) hs ids)"
proof -
  obtain all s' where all: "ws_ListWebhooksByCompany dev_WebhookStore co s = Inr all"
    and run: "WebhookService_Trigger dev_WebhookStore ids now co ev payload s =
        (Inr (map2 (\<lambda>wh n. (wh, new_delivery n now (wh_ID wh) ev payload))
           (filter (\<lambda>wh. wh_Active wh \<and> matchesEvent (wh_Events wh) ev) all) ids), s')"
    and s': "webhooks_wf s'" "gm_get (ms_webhooks s') = gm_get (ms_webhooks s)"
    and d': "gm_get (ms_deliveries s') = gm_get (ms_deliveries s) ++
        map_of (map2 (\<lambda>wh n. (n, new_delivery n now (wh_ID wh) ev payload))
           (filter (\<lambda>wh. wh_Active wh \<and> matchesEvent (wh_Events wh) ev) all) ids)"
    using devhook.trigger_effect [OF assms] by blast
  have dist: "distinct (map wh_ID all)"
    and mem: "h \<in> set all \<longleftrightarrow> gm_get (ms_webhooks s) (wh_ID h) = Some h \<and> wh_CompanyID h = co" for h
    using devhook.list_hooks [OF assms(1), of co] all by auto
  let ?hs = "filter (\<lambda>wh. wh_Active wh \<and> matchesEvent (wh_Events wh) ev) all"
  have "distinct (map wh_ID ?hs)" using dist by (rule distinct_map_filter)
  moreover have "h \<in> set ?hs \<longleftrightarrow> gm_get (ms_webhooks s) (wh_ID h) = Some h \<and> wh_CompanyID h = co \<and> wh_Active h \<and>
      matchesEvent (wh_Events h) ev" for h
    using mem [of h] by auto
  ultimately show ?thesis using run s' d' by blast
qed

definition demo_hooks :: memory_state where
  "demo_hooks =
     snd (WebhookStore_CreateWebhook ''w2'' 2 ''co'' ''u'' ''k'' [''b.*'']
       (snd (WebhookStore_CreateWebhook ''w1'' 1 ''co'' ''u'' ''k'' [''a.*''] NewMemoryBackend)))"

theorem webhook_trigger_exact_witness:
  "webhooks_wf demo_hooks \<and>
   (\<exists>s'. WebhookService_Trigger dev_WebhookStore [''d1'', ''d2''] 3 ''co'' ''a.b'' ''{}'' demo_hooks =
     (Inr [(new_webhook ''w1'' 1 ''co'' ''u'' ''k'' [''a.*''], new_delivery ''d1'' 3 ''w1'' ''a.b'' ''{}'')], s') \<and>
     gm_get (ms_deliveries s') ''d1'' = Some (new_delivery ''d1'' 3 ''w1'' ''a.b'' ''{}'') \<and>
     gm_get (ms_deliveries s') ''d2'' = None)"
proof -
  let ?tr = "WebhookService_Trigger dev_WebhookStore [''d1'', ''d2''] 3 ''co'' ''a.b'' ''{}'' demo_hooks"
  have wf: "webhooks_wf demo_hooks"
    by (auto simp: demo_hooks_def webhooks_wf_def WebhookStore_CreateWebhook_def NewMemoryBackend_def Let_def split: if_splits)
  have fresh: "fresh_ids dev_WebhookStore (CallTrigger [''d1'', ''d2''] 3 ''co'' ''a.b'' ''{}'') (demo_hooks, [])"
    by code_simp
  have started: "fst ?tr = Inr [(new_webhook ''w1'' 1 ''co'' ''u'' ''k'' [''a.*''], new_delivery ''d1'' 3 ''w1'' ''a.b'' ''{}'')]"
    by code_simp
  have empty: "gm_get (ms_deliveries demo_hooks) ''d2'' = None" by code_simp
  from webhook_trigger_exact [OF wf fresh] obtain hs s' where
    run: "?tr = (Inr (map2 (\<lambda>wh n. (wh, new_delivery n 3 (wh_ID wh) ''a.b'' ''{}'')) hs [''d1'', ''d2'']), s')"
    and d: "gm_get (ms_deliveries s') = gm_get (ms_deliveries demo_hooks) ++
       map_of (map2 (\<lambda>wh n. (n, new_delivery n 3 (wh_ID wh) ''a.b'' ''{}'')) hs [''d1'', ''d2''])"
    by blast
  have eq: "map2 (\<lambda>wh n. (wh, new_delivery n 3 (wh_ID wh) ''a.b'' ''{}'')) hs [''d1'', ''d2'']
      = [(new_webhook ''w1'' 1 ''co'' ''u'' ''k'' [''a.*''], new_delivery ''d1'' 3 ''w1'' ''a.b'' ''{}'')]"
    using started run by simp
  then obtain h where hs: "hs = [h]" "h = new_webhook ''w1'' 1 ''co'' ''u'' ''k'' [''a.*'']"
    by (cases hs; cases "tl hs") auto
  have "wh_ID h = ''w1''" by (simp add: hs new_webhook_def)
  then show ?thesis using wf run eq d hs(1) empty by simp
qed

text \<open>
  Bounded retries. A delivery whose attempts all fail, executed one after the other, counts every attempt; it
  is marked failed, with the next attempt due \<open>2 ^ attempts\<close> minutes after the last one, and stays listed for
  retry as long as it has had fewer than the maximum number of attempts; from the maximum on it is
  exhausted, has no next attempt and is not listed any more.
\<close>

lemma webhook_retries_bounded:
  assumes "webhooks_wf s" and "gm_get (ms_deliveries s) did = Some d"
    and "gm_get (ms_webhooks s) (wd_WebhookID d) \<noteq> None"
    and "\<forall>a\<in>set attempts. \<not> succeeded (snd a)" and "attempts \<noteq> []"
  shows "\<exists>d'. gm_get (ms_deliveries (execute_all dev_WebhookStore c did attempts s)) did = Some d' \<and>
     wd_Attempts d' = wd_Attempts d + int (length attempts) \<and>
     (wd_Status d', wd_NextRetryAt d') =
       (if wd_Attempts d' < wc_maxRetries c
        then (''failed'', Some (fst (last attempts) + retry_delay (wd_Attempts d')))
        else (''exhausted'', None)) \<and>
     (listed_for_retry dev_WebhookStore c did (execute_all dev_WebhookStore c did attempts s) \<longleftrightarrow>
        wd_Attempts d' < wc_maxRetries c)"
proof -
  have fail: "\<And>a. a \<in> set attempts \<Longrightarrow> \<not> succeeded (snd a)" using assms(4) by blast
  from devhook.failing_delivery_exhausts [OF assms(1,2,3) fail assms(5), of c]
  show ?thesis by (auto simp: failed_delivery_def)
qed

definition demo_delivery :: memory_state where
  "demo_delivery = snd (WebhookStore_CreateDelivery ''d'' 2 ''w1'' ''a.b'' ''{}'' demo_hooks)"

definition three_failures :: "(go_time \<times> http_outcome) list" where
  "three_failures = [(3, Response 500 []), (4, RequestError ''refused''), (5, Response 404 [])]"

theorem webhook_retries_bounded_witness:
  "\<exists>d'. gm_get (ms_deliveries (execute_all dev_WebhookStore (WithMaxRetries 3 webhook_NewService) ''d'' three_failures demo_delivery)) ''d''
       = Some d' \<and> wd_Attempts d' = 3 \<and> wd_Status d' = ''exhausted'' \<and> wd_NextRetryAt d' = None \<and>
     \<not> listed_for_retry dev_WebhookStore (WithMaxRetries 3 webhook_NewService) ''d''
         (execute_all dev_WebhookStore (WithMaxRetries 3 webhook_NewService) ''d'' three_failures demo_delivery)"
proof -
  let ?c = "WithMaxRetries 3 webhook_NewService"
  have c: "wc_maxRetries ?c = 3" by (simp add: WithMaxRetries_def)
  have wf: "webhooks_wf demo_delivery"
    by (auto simp: demo_delivery_def demo_hooks_def webhooks_wf_def WebhookStore_CreateWebhook_def
        WebhookStore_CreateDelivery_def NewMemoryBackend_def Let_def split: if_splits)
  have d: "gm_get (ms_deliveries demo_delivery) ''d'' = Some (new_delivery ''d'' 2 ''w1'' ''a.b'' ''{}'')" by code_simp
  have h: "gm_get (ms_webhooks demo_delivery) (wd_WebhookID (new_delivery ''d'' 2 ''w1'' ''a.b'' ''{}'')) \<noteq> None"
    by code_simp
  have fail: "\<forall>a\<in>set three_failures. \<not> succeeded (snd a)" by code_simp
  have ne: "three_failures \<noteq> []" and len: "length three_failures = 3" by (simp_all add: three_failures_def)
  have zero: "wd_Attempts (new_delivery ''d'' 2 ''w1'' ''a.b'' ''{}'') = 0" by (simp add: new_delivery_def)
  from webhook_retries_bounded [OF wf d h fail ne, of ?c] show ?thesis by (auto simp: c len zero)
qed

section \<open>Overlapping retries\<close>

text \<open>
  Two retry runs can start a second goroutine for a delivery whose first one has not finished. Both work on the
  same snapshot of the attempt counter, so both record the same attempt number while the stored counter is
  incremented twice: the delivery ends as failed with the maximum number of attempts, and is neither retried
  nor marked exhausted.
\<close>

definition overlapping_run :: "webhook_call list" where
  "overlapping_run =
     [CallRegister [] ''w'' 1 ''co'' ''u'' ''k'' [''*''],
      CallTrigger [''d''] 2 ''co'' ''a'' ''{}'', CallFinish 0 3 (Response 500 []),
      CallRetry, CallRetry, CallFinish 0 4 (Response 500 []), CallFinish 0 5 (Response 500 [])]"

lemma overlapping_retries_strand:
  "let c = WithMaxRetries 3 webhook_NewService;
       s = fst (snd (webhook_run dev_WebhookStore c overlapping_run (NewMemoryBackend, [])))
   in map_option (\<lambda>d. (wd_Status d, wd_Attempts d)) (gm_get (ms_deliveries s) ''d'') = Some (''failed'', 3) \<and>
      \<not> listed_for_retry dev_WebhookStore c ''d'' s"
  by code_simp

text \<open>
  The retry time is computed and stored, but no code reads it: a retry run starts a failed delivery again at once.
\<close>

lemma retry_ignores_backoff:
  "let c = webhook_NewService;
       s = fst (snd (webhook_run dev_WebhookStore c (take 3 overlapping_run) (NewMemoryBackend, [])))
   in map_option wd_NextRetryAt (gm_get (ms_deliveries s) ''d'') = Some (Some (3 + 2 * minute)) \<and>
      listed_for_retry dev_WebhookStore c ''d'' s"
  by code_simp

end
