(* ===== verification/Livekit.thy ===== *)
theory Livekit
  imports Go_Strings
begin

text \<open>
  Calls and meetings, \<^verbatim>\<open>src/platform/livekit\<close>: the transition tables, room names, the call and meeting service
  with its ringing timer, recordings, the store interface and the in-memory store.

  The LiveKit server is outside: the results of creating a room, issuing tokens and starting or stopping an
  egress are arguments of the operation, as are clock readings and new identifiers. \<^verbatim>\<open>uuid.Parse\<close> is a
  parameter. One clock reading stands for all those of an operation. A scheduled timer is an entry of \<open>lw_timers\<close>, and its firing a step of its own; the signals sent are
  recorded in \<open>lw_sent\<close>, since delivery errors are ignored by the code.
\<close>

section \<open>States\<close>

text \<open>The declared constants of the three state types, and how they print.\<close>

datatype call_state =
  StateRinging | StateConnecting | StateConnected | StateDeclined | StateMissed | StateFailed | StateEnded

datatype meeting_state = MeetingStateScheduled | MeetingStateActive | MeetingStateEnded

datatype recording_state =
  RecordingStateRecording | RecordingStateProcessing | RecordingStateCompleted | RecordingStateFailed

primrec call_state_text :: "call_state \<Rightarrow> string" where
  "call_state_text StateRinging = ''ringing''"
| "call_state_text StateConnecting = ''connecting''"
| "call_state_text StateConnected = ''connected''"
| "call_state_text StateDeclined = ''declined''"
| "call_state_text StateMissed = ''missed''"
| "call_state_text StateFailed = ''failed''"
| "call_state_text StateEnded = ''ended''"

primrec recording_state_text :: "recording_state \<Rightarrow> string" where
  "recording_state_text RecordingStateRecording = ''recording''"
| "recording_state_text RecordingStateProcessing = ''processing''"
| "recording_state_text RecordingStateCompleted = ''completed''"
| "recording_state_text RecordingStateFailed = ''failed''"

definition CallState_IsTerminal :: "call_state \<Rightarrow> bool" where
  "CallState_IsTerminal s \<longleftrightarrow> s \<in> {StateDeclined, StateMissed, StateFailed, StateEnded}"

definition callTransitions :: "(call_state, call_state list) gomap" where
  "callTransitions =
     [(StateRinging, [StateConnecting, StateDeclined, StateMissed, StateFailed]),
      (StateConnecting, [StateConnected, StateFailed, StateEnded]),
      (StateConnected, [StateEnded])]"

definition ValidCallTransition :: "call_state \<Rightarrow> call_state \<Rightarrow> bool" where
  "ValidCallTransition from to \<longleftrightarrow>
     (case gm_get callTransitions from of None \<Rightarrow> False | Some allowed \<Rightarrow> to \<in> set allowed)"

definition meetingTransitions :: "(meeting_state, meeting_state list) gomap" where
  "meetingTransitions =
     [(MeetingStateScheduled, [MeetingStateActive, MeetingStateEnded]),
      (MeetingStateActive, [MeetingStateEnded])]"

definition ValidMeetingTransition :: "meeting_state \<Rightarrow> meeting_state \<Rightarrow> bool" where
  "ValidMeetingTransition from to \<longleftrightarrow>
     (case gm_get meetingTransitions from of None \<Rightarrow> False | Some allowed \<Rightarrow> to \<in> set allowed)"

section \<open>Types\<close>

definition ErrInvalidCallType :: go_error where "ErrInvalidCallType = ErrVar ''livekit: invalid call type''"
definition ErrCallNotFound :: go_error where "ErrCallNotFound = ErrVar ''livekit: call not found''"
definition ErrMeetingNotFound :: go_error where "ErrMeetingNotFound = ErrVar ''livekit: meeting not found''"
definition ErrRecordingNotFound :: go_error where "ErrRecordingNotFound = ErrVar ''livekit: recording not found''"
definition ErrInvalidState :: go_error where "ErrInvalidState = ErrVar ''livekit: invalid state for operation''"
definition ErrUserBusy :: go_error where "ErrUserBusy = ErrVar ''livekit: user has an active call''"
definition ErrNotParticipant :: go_error where "ErrNotParticipant = ErrVar ''livekit: user is not a participant''"
definition ErrMeetingFull :: go_error where "ErrMeetingFull = ErrVar ''livekit: meeting is at capacity''"
definition lkErrUnauthorized :: go_error where
  "lkErrUnauthorized = ErrVar ''livekit: not authorized for this operation''"

record lk_call =
  lc_ID :: uuid
  lc_RoomName :: string
  lc_CallerID :: uuid
  lc_CalleeID :: uuid
  lc_CallType :: string
  lc_State :: call_state
  lc_StartedAt :: go_time
  lc_AnsweredAt :: "go_time option"
  lc_ConnectedAt :: "go_time option"
  lc_EndedAt :: "go_time option"
  lc_EndReason :: string
  lc_Duration :: duration

record meeting =
  mt_ID :: uuid
  mt_RoomName :: string
  mt_Title :: string
  mt_CreatorID :: uuid
  mt_MaxParticipants :: int
  mt_RecordingEnabled :: bool
  mt_E2EEEnabled :: bool
  mt_State :: meeting_state
  mt_StartedAt :: "go_time option"
  mt_EndedAt :: "go_time option"
  mt_CreatedAt :: go_time

record participant =
  pt_MeetingID :: uuid
  pt_UserID :: uuid
  pt_JoinedAt :: go_time
  pt_LeftAt :: "go_time option"

record recording =
  rc_ID :: uuid
  rc_MeetingID :: uuid
  rc_EgressID :: string
  rc_State :: recording_state
  rc_FilePath :: string
  rc_FileSize :: int
  rc_Duration :: duration
  rc_StartedAt :: go_time
  rc_EndedAt :: "go_time option"

record call_accepted =
  ac_Call :: lk_call
  ac_LiveKitURL :: string
  ac_CalleeToken :: string

record meeting_join =
  mj_Meeting :: meeting
  mj_LiveKitURL :: string
  mj_Token :: string
  mj_E2EEEnabled :: bool

definition CallType_Validate :: "string \<Rightarrow> go_error option" where
  "CallType_Validate t = (if t \<noteq> ''voice'' \<and> t \<noteq> ''video'' then Some ErrInvalidCallType else None)"

text \<open>The store interface.\<close>

record 's lk_store =
  lk_CreateCall :: "uuid \<Rightarrow> lk_call \<Rightarrow> 's \<Rightarrow> lk_call result \<times> 's"
  lk_GetCall :: "uuid \<Rightarrow> 's \<Rightarrow> lk_call result"
  lk_UpdateCall :: "lk_call \<Rightarrow> 's \<Rightarrow> lk_call result \<times> 's"
  lk_GetActiveCallForUser :: "uuid \<Rightarrow> 's \<Rightarrow> lk_call result"
  lk_ListCallsForUser :: "uuid \<Rightarrow> int \<Rightarrow> int \<Rightarrow> 's \<Rightarrow> lk_call list result option"
  lk_CreateMeeting :: "uuid \<Rightarrow> meeting \<Rightarrow> 's \<Rightarrow> meeting result \<times> 's"
  lk_GetMeeting :: "uuid \<Rightarrow> 's \<Rightarrow> meeting result"
  lk_UpdateMeeting :: "meeting \<Rightarrow> 's \<Rightarrow> meeting result \<times> 's"
  lk_ListMeetingsForCreator :: "uuid \<Rightarrow> int \<Rightarrow> int \<Rightarrow> 's \<Rightarrow> meeting list result option"
  lk_AddParticipant :: "participant \<Rightarrow> 's \<Rightarrow> unit result \<times> 's"
  lk_RemoveParticipant :: "uuid \<Rightarrow> uuid \<Rightarrow> go_time \<Rightarrow> 's \<Rightarrow> unit result \<times> 's"
  lk_CountActiveParticipants :: "uuid \<Rightarrow> 's \<Rightarrow> int result"
  lk_ListParticipants :: "uuid \<Rightarrow> 's \<Rightarrow> participant list result"
  lk_CreateRecording :: "uuid \<Rightarrow> recording \<Rightarrow> 's \<Rightarrow> recording result \<times> 's"
  lk_GetRecording :: "uuid \<Rightarrow> 's \<Rightarrow> recording result"
  lk_GetRecordingByEgressID :: "string \<Rightarrow> 's \<Rightarrow> recording result"
  lk_UpdateRecording :: "recording \<Rightarrow> 's \<Rightarrow> recording result \<times> 's"
  lk_ListRecordingsForMeeting :: "uuid \<Rightarrow> 's \<Rightarrow> recording list result"

section \<open>Room names\<close>

definition callRoomPrefix :: string where "callRoomPrefix = ''call-''"
definition meetingRoomPrefix :: string where "meetingRoomPrefix = ''meeting-''"

definition IsCallRoom :: "string \<Rightarrow> bool" where
  "IsCallRoom roomName = HasPrefix roomName callRoomPrefix"

definition IsMeetingRoom :: "string \<Rightarrow> bool" where
  "IsMeetingRoom roomName = HasPrefix roomName meetingRoomPrefix"

definition CallIDFromRoomName :: "(string \<Rightarrow> uuid result) \<Rightarrow> string \<Rightarrow> uuid result" where
  "CallIDFromRoomName parse roomName =
     (if \<not> IsCallRoom roomName
      then Inl (ErrMsg (''room '' @ quoted roomName @ '' does not have '' @ quoted callRoomPrefix @ '' prefix''))
      else parse (TrimPrefix roomName callRoomPrefix))"

definition MeetingIDFromRoomName :: "(string \<Rightarrow> uuid result) \<Rightarrow> string \<Rightarrow> uuid result" where
  "MeetingIDFromRoomName parse roomName =
     (if \<not> IsMeetingRoom roomName
      then Inl (ErrMsg (''room '' @ quoted roomName @ '' does not have '' @ quoted meetingRoomPrefix @ '' prefix''))
      else parse (TrimPrefix roomName meetingRoomPrefix))"

section \<open>The service: calls\<close>

record lk_config =
  lf_livekitURL :: string
  lf_ringingTimeout :: duration
  lf_tokenTTL :: duration

definition DefaultRingingTimeout :: duration where "DefaultRingingTimeout = 30 * second"
definition DefaultMaxMeetingParticipants :: int where "DefaultMaxMeetingParticipants = 10"
definition MaxMeetingParticipantsCap :: int where "MaxMeetingParticipantsCap = 49"

type_synonym signal = "uuid \<times> string \<times> (string, string) gomap"

record 's lk_world =
  lw_store :: 's
  lw_sent :: "signal list"
  lw_timers :: "(go_time \<times> uuid) list"

definition SendToUser :: "uuid \<Rightarrow> string \<Rightarrow> (string, string) gomap \<Rightarrow> 's lk_world \<Rightarrow> 's lk_world" where
  "SendToUser userID eventType payload w = w\<lparr>lw_sent := lw_sent w @ [(userID, eventType, payload)]\<rparr>"

definition assertNoActiveCall :: "'s lk_store \<Rightarrow> uuid \<Rightarrow> 's \<Rightarrow> go_error option" where
  "assertNoActiveCall K userID s =
     (case lk_GetActiveCallForUser K userID s of
        Inr _ \<Rightarrow> Some ErrUserBusy
      | Inl err \<Rightarrow> if \<not> errors_is err ErrCallNotFound then Some (ErrWrap ''check active call: '' err []) else None)"

definition ringing_call :: "uuid \<Rightarrow> go_time \<Rightarrow> uuid \<Rightarrow> uuid \<Rightarrow> string \<Rightarrow> lk_call" where
  "ringing_call newid now callerID calleeID callType =
     \<lparr>lc_ID = newid, lc_RoomName = [], lc_CallerID = callerID, lc_CalleeID = calleeID, lc_CallType = callType,
      lc_State = StateRinging, lc_StartedAt = now, lc_AnsweredAt = None, lc_ConnectedAt = None,
      lc_EndedAt = None, lc_EndReason = [], lc_Duration = 0\<rparr>"

text \<open>The checks of \<^verbatim>\<open>InitiateCall\<close>, and what it does once they passed.\<close>

definition initiate_checks :: "'s lk_store \<Rightarrow> uuid \<Rightarrow> uuid \<Rightarrow> string \<Rightarrow> 's \<Rightarrow> go_error option" where
  "initiate_checks K callerID calleeID callType s =
     (case CallType_Validate callType of
        Some err \<Rightarrow> Some err
      | None \<Rightarrow>
          if callerID = calleeID then Some (ErrWrap [] ErrInvalidState '': caller and callee must differ'')
          else (case assertNoActiveCall K callerID s of
                  Some err \<Rightarrow> Some err
                | None \<Rightarrow> assertNoActiveCall K calleeID s))"

definition initiate_commit ::
  "'s lk_store \<Rightarrow> lk_config \<Rightarrow> uuid \<Rightarrow> go_time \<Rightarrow> uuid \<Rightarrow> uuid \<Rightarrow> string \<Rightarrow> 's lk_world \<Rightarrow> lk_call result \<times> 's lk_world" where
  "initiate_commit K cf newid now callerID calleeID callType w =
     (case lk_CreateCall K newid (ringing_call newid now callerID calleeID callType) (lw_store w) of
        (Inl err, s) \<Rightarrow> (Inl (ErrWrap ''create call: '' err []), w\<lparr>lw_store := s\<rparr>)
      | (Inr stored, s) \<Rightarrow>
          let w1 = SendToUser calleeID ''call.invite''
                     [(''call_id'', lc_ID stored), (''caller_id'', callerID), (''call_type'', callType)]
                     (w\<lparr>lw_store := s\<rparr>)
          in (Inr stored, w1\<lparr>lw_timers := lw_timers w1 @ [(now + lf_ringingTimeout cf, lc_ID stored)]\<rparr>))"

definition InitiateCall ::
  "'s lk_store \<Rightarrow> lk_config \<Rightarrow> uuid \<Rightarrow> go_time \<Rightarrow> uuid \<Rightarrow> uuid \<Rightarrow> string \<Rightarrow> 's lk_world \<Rightarrow> lk_call result \<times> 's lk_world" where
  "InitiateCall K cf newid now callerID calleeID callType w =
     (case initiate_checks K callerID calleeID callType (lw_store w) of
        Some err \<Rightarrow> (Inl err, w)
      | None \<Rightarrow> initiate_commit K cf newid now callerID calleeID callType w)"

definition expireRinging :: "'s lk_store \<Rightarrow> go_time \<Rightarrow> uuid \<Rightarrow> 's lk_world \<Rightarrow> 's lk_world" where
  "expireRinging K now callID w =
     (case lk_GetCall K callID (lw_store w) of
        Inl _ \<Rightarrow> w
      | Inr call \<Rightarrow>
          if lc_State call \<noteq> StateRinging then w
          else (case lk_UpdateCall K (call\<lparr>lc_State := StateMissed, lc_EndedAt := Some now, lc_EndReason := ''timeout''\<rparr>)
                       (lw_store w) of
                  (Inl _, s) \<Rightarrow> w\<lparr>lw_store := s\<rparr>
                | (Inr _, s) \<Rightarrow>
                    let payload = [(''call_id'', callID)]
                    in SendToUser (lc_CalleeID call) ''call.missed'' payload
                         (SendToUser (lc_CallerID call) ''call.missed'' payload (w\<lparr>lw_store := s\<rparr>))))"

definition not_ringing :: "lk_call \<Rightarrow> go_error" where
  "not_ringing call = ErrWrap [] ErrInvalidState ('': call is '' @ call_state_text (lc_State call) @ '', not ringing'')"

text \<open>
  \<open>room\<close> is the name of the room created, \<open>tok1\<close> and \<open>tok2\<close> the caller's and the callee's token. Deleting a
  room that is not used only affects the server.
\<close>

definition AcceptCall ::
  "'s lk_store \<Rightarrow> lk_config \<Rightarrow> go_time \<Rightarrow> string result \<Rightarrow> string result \<Rightarrow> string result \<Rightarrow> uuid \<Rightarrow> uuid \<Rightarrow>
   's lk_world \<Rightarrow> call_accepted result \<times> 's lk_world" where
  "AcceptCall K cf now room tok1 tok2 callID calleeID w =
     (case lk_GetCall K callID (lw_store w) of
        Inl err \<Rightarrow> (Inl (ErrWrap ''get call: '' err []), w)
      | Inr call \<Rightarrow>
          if lc_State call \<noteq> StateRinging then (Inl (not_ringing call), w)
          else if lc_CalleeID call \<noteq> calleeID
          then (Inl (ErrWrap [] lkErrUnauthorized '': only the callee may accept''), w)
          else (case room of
                  Inl err \<Rightarrow>
                    (Inl (ErrWrap ''create room: '' err []),
                     w\<lparr>lw_store := snd (lk_UpdateCall K (call\<lparr>lc_State := StateFailed, lc_EndedAt := Some now,
                         lc_EndReason := ''room_creation_failed''\<rparr>) (lw_store w))\<rparr>)
                | Inr roomName \<Rightarrow>
                    (case tok1 of
                       Inl err \<Rightarrow> (Inl (ErrWrap ''issue caller token: '' err []), w)
                     | Inr callerToken \<Rightarrow>
                         (case tok2 of
                            Inl err \<Rightarrow> (Inl (ErrWrap ''issue callee token: '' err []), w)
                          | Inr calleeToken \<Rightarrow>
                              (case lk_UpdateCall K (call\<lparr>lc_State := StateConnecting, lc_RoomName := roomName,
                                       lc_AnsweredAt := Some now\<rparr>) (lw_store w) of
                                 (Inl err, s) \<Rightarrow> (Inl (ErrWrap ''update call: '' err []), w\<lparr>lw_store := s\<rparr>)
                               | (Inr updated, s) \<Rightarrow>
                                   (Inr \<lparr>ac_Call = updated, ac_LiveKitURL = lf_livekitURL cf, ac_CalleeToken = calleeToken\<rparr>,
                                    SendToUser (lc_CallerID call) ''call.accepted''
                                      [(''call_id'', lc_ID updated), (''livekit_url'', lf_livekitURL cf), (''token'', callerToken)]
                                      (w\<lparr>lw_store := s\<rparr>)))))))"

definition DeclineCall ::
  "'s lk_store \<Rightarrow> go_time \<Rightarrow> uuid \<Rightarrow> uuid \<Rightarrow> 's lk_world \<Rightarrow> unit result \<times> 's lk_world" where
  "DeclineCall K now callID calleeID w =
     (case lk_GetCall K callID (lw_store w) of
        Inl err \<Rightarrow> (Inl (ErrWrap ''get call: '' err []), w)
      | Inr call \<Rightarrow>
          if lc_State call \<noteq> StateRinging then (Inl (not_ringing call), w)
          else if lc_CalleeID call \<noteq> calleeID
          then (Inl (ErrWrap [] lkErrUnauthorized '': only the callee may decline''), w)
          else (case lk_UpdateCall K (call\<lparr>lc_State := StateDeclined, lc_EndedAt := Some now, lc_EndReason := ''declined''\<rparr>)
                       (lw_store w) of
                  (Inl err, s) \<Rightarrow> (Inl (ErrWrap ''update call: '' err []), w\<lparr>lw_store := s\<rparr>)
                | (Inr _, s) \<Rightarrow>
                    (Inr (), SendToUser (lc_CallerID call) ''call.declined'' [(''call_id'', callID)] (w\<lparr>lw_store := s\<rparr>))))"

definition ended_call :: "go_time \<Rightarrow> string \<Rightarrow> lk_call \<Rightarrow> lk_call" where
  "ended_call now reason call =
     (case lc_ConnectedAt call of None \<Rightarrow> call | Some t \<Rightarrow> call\<lparr>lc_Duration := now - t\<rparr>)
       \<lparr>lc_State := StateEnded, lc_EndedAt := Some now, lc_EndReason := reason\<rparr>"

definition EndCall ::
  "'s lk_store \<Rightarrow> go_time \<Rightarrow> uuid \<Rightarrow> uuid \<Rightarrow> 's lk_world \<Rightarrow> unit result \<times> 's lk_world" where
  "EndCall K now callID userID w =
     (case lk_GetCall K callID (lw_store w) of
        Inl err \<Rightarrow> (Inl (ErrWrap ''get call: '' err []), w)
      | Inr call \<Rightarrow>
          if lc_State call \<noteq> StateConnecting \<and> lc_State call \<noteq> StateConnected
          then (Inl (ErrWrap [] ErrInvalidState ('': cannot end call in state '' @ call_state_text (lc_State call))), w)
          else (case (if userID = lc_CallerID call then Some (''caller_hangup'', lc_CalleeID call)
                      else if userID = lc_CalleeID call then Some (''callee_hangup'', lc_CallerID call) else None) of
                  None \<Rightarrow> (Inl ErrNotParticipant, w)
                | Some (endReason, otherParty) \<Rightarrow>
                    (case lk_UpdateCall K (ended_call now endReason call) (lw_store w) of
                       (Inl err, s) \<Rightarrow> (Inl (ErrWrap ''update call: '' err []), w\<lparr>lw_store := s\<rparr>)
                     | (Inr _, s) \<Rightarrow>
                         (Inr (), SendToUser otherParty ''call.ended''
                            [(''call_id'', callID), (''end_reason'', endReason)] (w\<lparr>lw_store := s\<rparr>)))))"

definition MarkConnected :: "'s lk_store \<Rightarrow> go_time \<Rightarrow> uuid \<Rightarrow> 's lk_world \<Rightarrow> unit result \<times> 's lk_world" where
  "MarkConnected K now callID w =
     (case lk_GetCall K callID (lw_store w) of
        Inl err \<Rightarrow> (Inl (ErrWrap ''get call: '' err []), w)
      | Inr call \<Rightarrow>
          if lc_State call \<noteq> StateConnecting then (Inr (), w)
          else (case lk_UpdateCall K (call\<lparr>lc_State := StateConnected, lc_ConnectedAt := Some now\<rparr>) (lw_store w) of
                  (Inl err, s) \<Rightarrow> (Inl (ErrWrap ''update call: '' err []), w\<lparr>lw_store := s\<rparr>)
                | (Inr _, s) \<Rightarrow> (Inr (), w\<lparr>lw_store := s\<rparr>)))"

definition EndCallByRoom ::
  "'s lk_store \<Rightarrow> (string \<Rightarrow> uuid result) \<Rightarrow> go_time \<Rightarrow> string \<Rightarrow> string \<Rightarrow> 's lk_world \<Rightarrow> unit result \<times> 's lk_world" where
  "EndCallByRoom K parse now roomName reason w =
     (case CallIDFromRoomName parse roomName of
        Inl err \<Rightarrow> (Inl err, w)
      | Inr callID \<Rightarrow>
          (case lk_GetCall K callID (lw_store w) of
             Inl err \<Rightarrow> (Inl (ErrWrap ''get call: '' err []), w)
           | Inr call \<Rightarrow>
               if lc_State call \<noteq> StateConnecting \<and> lc_State call \<noteq> StateConnected then (Inr (), w)
               else (case lk_UpdateCall K (ended_call now reason call) (lw_store w) of
                       (Inl err, s) \<Rightarrow> (Inl (ErrWrap ''update call: '' err []), w\<lparr>lw_store := s\<rparr>)
                     | (Inr _, s) \<Rightarrow>
                         let payload = [(''call_id'', callID), (''end_reason'', reason)]
                         in (Inr (), SendToUser (lc_CalleeID call) ''call.ended'' payload
                              (SendToUser (lc_CallerID call) ''call.ended'' payload (w\<lparr>lw_store := s\<rparr>))))))"

text \<open>The page bounds both list operations use.\<close>

definition page_limit :: "int \<Rightarrow> int" where
  "page_limit limit = (if limit \<le> 0 \<or> limit > 100 then 20 else limit)"

definition page_offset :: "int \<Rightarrow> int" where
  "page_offset offset = (if offset < 0 then 0 else offset)"

definition Service_ListCallsForUser :: "'s lk_store \<Rightarrow> uuid \<Rightarrow> int \<Rightarrow> int \<Rightarrow> 's lk_world \<Rightarrow> lk_call list result option" where
  "Service_ListCallsForUser K userID limit offset w =
     lk_ListCallsForUser K userID (page_limit limit) (page_offset offset) (lw_store w)"

section \<open>The service: meetings\<close>

definition scheduled_meeting :: "uuid \<Rightarrow> go_time \<Rightarrow> string \<Rightarrow> uuid \<Rightarrow> int \<Rightarrow> bool \<Rightarrow> meeting" where
  "scheduled_meeting newid now title creatorID maxP recordingEnabled =
     \<lparr>mt_ID = newid, mt_RoomName = ''meeting-'' @ newid, mt_Title = title, mt_CreatorID = creatorID,
      mt_MaxParticipants = maxP, mt_RecordingEnabled = recordingEnabled, mt_E2EEEnabled = (\<not> recordingEnabled),
      mt_State = MeetingStateScheduled, mt_StartedAt = None, mt_EndedAt = None, mt_CreatedAt = now\<rparr>"

definition capped_participants :: "int \<Rightarrow> int" where
  "capped_participants requested =
     (let maxP = (if requested \<le> 0 then DefaultMaxMeetingParticipants else requested)
      in if maxP > MaxMeetingParticipantsCap then MaxMeetingParticipantsCap else maxP)"

definition CreateMeeting ::
  "'s lk_store \<Rightarrow> uuid \<Rightarrow> go_time \<Rightarrow> string \<Rightarrow> uuid \<Rightarrow> int \<Rightarrow> bool \<Rightarrow> 's lk_world \<Rightarrow> meeting result \<times> 's lk_world" where
  "CreateMeeting K newid now title creatorID maxParticipants recordingEnabled w =
     (if title = [] then (Inl (ErrWrap [] ErrInvalidState '': title is required''), w)
      else (case lk_CreateMeeting K newid
                   (scheduled_meeting newid now title creatorID (capped_participants maxParticipants) recordingEnabled)
                   (lw_store w) of
              (Inl err, s) \<Rightarrow> (Inl (ErrWrap ''create meeting: '' err []), w\<lparr>lw_store := s\<rparr>)
            | (Inr stored, s) \<Rightarrow> (Inr stored, w\<lparr>lw_store := s\<rparr>)))"

text \<open>The activation of a scheduled meeting by its first participant; \<open>room\<close> is the result of creating the room.\<close>

definition activate_meeting ::
  "'s lk_store \<Rightarrow> go_time \<Rightarrow> unit result \<Rightarrow> meeting \<Rightarrow> 's lk_world \<Rightarrow> meeting result \<times> 's lk_world" where
  "activate_meeting K now room meeting w =
     (if mt_State meeting \<noteq> MeetingStateScheduled then (Inr meeting, w)
      else (case room of
              Inl err \<Rightarrow> (Inl (ErrWrap ''create meeting room: '' err []), w)
            | Inr _ \<Rightarrow>
                (case lk_UpdateMeeting K (meeting\<lparr>mt_State := MeetingStateActive, mt_StartedAt := Some now\<rparr>) (lw_store w) of
                   (Inl err, s) \<Rightarrow> (Inl (ErrWrap ''activate meeting: '' err []), w\<lparr>lw_store := s\<rparr>)
                 | (Inr updated, s) \<Rightarrow> (Inr updated, w\<lparr>lw_store := s\<rparr>))))"

definition JoinMeeting ::
  "'s lk_store \<Rightarrow> lk_config \<Rightarrow> go_time \<Rightarrow> unit result \<Rightarrow> string result \<Rightarrow> uuid \<Rightarrow> uuid \<Rightarrow> 's lk_world \<Rightarrow>
   meeting_join result \<times> 's lk_world" where
  "JoinMeeting K cf now room tok meetingID userID w =
     (case lk_GetMeeting K meetingID (lw_store w) of
        Inl err \<Rightarrow> (Inl (ErrWrap ''get meeting: '' err []), w)
      | Inr meeting0 \<Rightarrow>
          if mt_State meeting0 = MeetingStateEnded then (Inl (ErrWrap [] ErrInvalidState '': meeting has ended''), w)
          else (case lk_CountActiveParticipants K meetingID (lw_store w) of
                  Inl err \<Rightarrow> (Inl (ErrWrap ''count participants: '' err []), w)
                | Inr n \<Rightarrow>
                    if n \<ge> mt_MaxParticipants meeting0 then (Inl ErrMeetingFull, w)
                    else (case activate_meeting K now room meeting0 w of
                            (Inl err, w1) \<Rightarrow> (Inl err, w1)
                          | (Inr meeting, w1) \<Rightarrow>
                              (case lk_AddParticipant K \<lparr>pt_MeetingID = meetingID, pt_UserID = userID, pt_JoinedAt = now,
                                       pt_LeftAt = None\<rparr> (lw_store w1) of
                                 (Inl err, s) \<Rightarrow> (Inl (ErrWrap ''add participant: '' err []), w1\<lparr>lw_store := s\<rparr>)
                               | (Inr _, s) \<Rightarrow>
                                   let w2 = w1\<lparr>lw_store := s\<rparr>
                                   in (case tok of
                                         Inl err \<Rightarrow> (Inl (ErrWrap ''issue token: '' err []), w2)
                                       | Inr token \<Rightarrow>
                                           (Inr \<lparr>mj_Meeting = meeting, mj_LiveKitURL = lf_livekitURL cf, mj_Token = token,
                                                 mj_E2EEEnabled = mt_E2EEEnabled meeting\<rparr>, w2))))))"

text \<open>Ending a meeting that has not ended yet.\<close>

definition end_meeting :: "'s lk_store \<Rightarrow> go_time \<Rightarrow> meeting \<Rightarrow> 's lk_world \<Rightarrow> unit result \<times> 's lk_world" where
  "end_meeting K now meeting w =
     (if mt_State meeting = MeetingStateEnded then (Inr (), w)
      else (case lk_UpdateMeeting K (meeting\<lparr>mt_State := MeetingStateEnded, mt_EndedAt := Some now\<rparr>) (lw_store w) of
              (Inl err, s) \<Rightarrow> (Inl (ErrWrap ''end meeting: '' err []), w\<lparr>lw_store := s\<rparr>)
            | (Inr _, s) \<Rightarrow> (Inr (), w\<lparr>lw_store := s\<rparr>)))"

definition LeaveMeeting ::
  "'s lk_store \<Rightarrow> go_time \<Rightarrow> uuid \<Rightarrow> uuid \<Rightarrow> 's lk_world \<Rightarrow> unit result \<times> 's lk_world" where
  "LeaveMeeting K now meetingID userID w =
     (case lk_RemoveParticipant K meetingID userID now (lw_store w) of
        (Inl err, s) \<Rightarrow> (Inl (ErrWrap ''remove participant: '' err []), w\<lparr>lw_store := s\<rparr>)
      | (Inr _, s) \<Rightarrow>
          let w1 = w\<lparr>lw_store := s\<rparr>
          in (case lk_CountActiveParticipants K meetingID s of
                Inl err \<Rightarrow> (Inl (ErrWrap ''count participants: '' err []), w1)
              | Inr n \<Rightarrow>
                  if n > 0 then (Inr (), w1)
                  else (case lk_GetMeeting K meetingID s of
                          Inl err \<Rightarrow> (Inl (ErrWrap ''get meeting: '' err []), w1)
                        | Inr meeting \<Rightarrow> end_meeting K now meeting w1)))"

definition EndMeeting ::
  "'s lk_store \<Rightarrow> go_time \<Rightarrow> uuid \<Rightarrow> uuid \<Rightarrow> 's lk_world \<Rightarrow> unit result \<times> 's lk_world" where
  "EndMeeting K now meetingID userID w =
     (case lk_GetMeeting K meetingID (lw_store w) of
        Inl err \<Rightarrow> (Inl (ErrWrap ''get meeting: '' err []), w)
      | Inr meeting \<Rightarrow>
          if mt_CreatorID meeting \<noteq> userID then (Inl lkErrUnauthorized, w) else end_meeting K now meeting w)"

definition EndMeetingByRoom ::
  "'s lk_store \<Rightarrow> (string \<Rightarrow> uuid result) \<Rightarrow> go_time \<Rightarrow> string \<Rightarrow> 's lk_world \<Rightarrow> unit result \<times> 's lk_world" where
  "EndMeetingByRoom K parse now roomName w =
     (case MeetingIDFromRoomName parse roomName of
        Inl err \<Rightarrow> (Inl err, w)
      | Inr meetingID \<Rightarrow>
          (case lk_GetMeeting K meetingID (lw_store w) of
             Inl err \<Rightarrow> (Inl (ErrWrap ''get meeting: '' err []), w)
           | Inr meeting \<Rightarrow> end_meeting K now meeting w))"

definition Service_ListMeetingsForCreator ::
  "'s lk_store \<Rightarrow> uuid \<Rightarrow> int \<Rightarrow> int \<Rightarrow> 's lk_world \<Rightarrow> meeting list result option" where
  "Service_ListMeetingsForCreator K userID limit offset w =
     lk_ListMeetingsForCreator K userID (page_limit limit) (page_offset offset) (lw_store w)"

section \<open>Recordings\<close>

text \<open>\<open>egress\<close> is the identifier of the egress the server started.\<close>

definition StartRecording ::
  "'s lk_store \<Rightarrow> uuid \<Rightarrow> go_time \<Rightarrow> string result \<Rightarrow> uuid \<Rightarrow> 's \<Rightarrow> recording result \<times> 's" where
  "StartRecording K newid now egress meetingID s =
     (case egress of
        Inl err \<Rightarrow> (Inl (ErrWrap ''start room composite egress: '' err []), s)
      | Inr egressID \<Rightarrow>
          (case lk_CreateRecording K newid
                  \<lparr>rc_ID = newid, rc_MeetingID = meetingID, rc_EgressID = egressID, rc_State = RecordingStateRecording,
                   rc_FilePath = [], rc_FileSize = 0, rc_Duration = 0, rc_StartedAt = now, rc_EndedAt = None\<rparr> s of
             (Inl err, s') \<Rightarrow> (Inl (ErrWrap ''create recording: '' err []), s')
           | (Inr stored, s') \<Rightarrow> (Inr stored, s')))"

definition StopRecording ::
  "'s lk_store \<Rightarrow> go_time \<Rightarrow> unit result \<Rightarrow> uuid \<Rightarrow> 's \<Rightarrow> recording result \<times> 's" where
  "StopRecording K now stop recordingID s =
     (case lk_GetRecording K recordingID s of
        Inl err \<Rightarrow> (Inl (ErrWrap ''get recording: '' err []), s)
      | Inr rcd \<Rightarrow>
          if rc_State rcd \<noteq> RecordingStateRecording
          then (Inl (ErrWrap [] ErrInvalidState
                  ('': recording is '' @ recording_state_text (rc_State rcd) @ '', not recording'')), s)
          else (case stop of
                  Inl err \<Rightarrow> (Inl (ErrWrap ''stop egress: '' err []), s)
                | Inr _ \<Rightarrow>
                    (case lk_UpdateRecording K (rcd\<lparr>rc_State := RecordingStateProcessing, rc_EndedAt := Some now\<rparr>) s of
                       (Inl err, s') \<Rightarrow> (Inl (ErrWrap ''update recording: '' err []), s')
                     | (Inr updated, s') \<Rightarrow> (Inr updated, s'))))"

definition HandleEgressEnded ::
  "'s lk_store \<Rightarrow> go_time \<Rightarrow> string \<Rightarrow> string \<Rightarrow> int \<Rightarrow> int \<Rightarrow> bool \<Rightarrow> 's \<Rightarrow> unit result \<times> 's" where
  "HandleEgressEnded K now egressID filePath fileSize durationNs failed s =
     (case lk_GetRecordingByEgressID K egressID s of
        Inl err \<Rightarrow> (Inl (ErrWrap ''get recording by egress: '' err []), s)
      | Inr rcd \<Rightarrow>
          let rcd' = rcd\<lparr>rc_State := (if failed then RecordingStateFailed else RecordingStateCompleted),
                         rc_FilePath := (if filePath \<noteq> [] then filePath else rc_FilePath rcd),
                         rc_FileSize := (if fileSize > 0 then fileSize else rc_FileSize rcd),
                         rc_Duration := (if durationNs > 0 then durationNs else rc_Duration rcd),
                         rc_EndedAt := Some now\<rparr>
          in (case lk_UpdateRecording K rcd' s of
                (Inl err, s') \<Rightarrow> (Inl (ErrWrap ''update recording: '' err []), s')
              | (Inr _, s') \<Rightarrow> (Inr (), s')))"

definition ListRecordings :: "'s lk_store \<Rightarrow> uuid \<Rightarrow> 's \<Rightarrow> recording list result" where
  "ListRecordings K meetingID s = lk_ListRecordingsForMeeting K meetingID s"

section \<open>Server notifications\<close>

text \<open>
  The fields of a verified webhook event that the built-in handlers read; \<open>we_Egress\<close> is the egress information,
  with its status and its file results. Consumer-registered subscribers run after them and are not modelled.
\<close>

record egress_file =
  ef_Filename :: string
  ef_Size :: int
  ef_Duration :: int

record egress_info =
  ei_EgressID :: string
  ei_Failed :: bool
  ei_FileResults :: "egress_file list"

record webhook_event =
  we_Event :: string
  we_RoomName :: string
  we_NumParticipants :: int
  we_Identity :: string
  we_Egress :: "egress_info option"

definition dispatchParticipantJoined ::
  "'s lk_store \<Rightarrow> (string \<Rightarrow> uuid result) \<Rightarrow> go_time \<Rightarrow> webhook_event \<Rightarrow> 's lk_world \<Rightarrow> 's lk_world" where
  "dispatchParticipantJoined K parse now ev w =
     (if \<not> IsCallRoom (we_RoomName ev) then w
      else if we_NumParticipants ev < 2 then w
      else (case CallIDFromRoomName parse (we_RoomName ev) of
              Inl _ \<Rightarrow> w
            | Inr callID \<Rightarrow> snd (MarkConnected K now callID w)))"

definition dispatchParticipantLeft ::
  "'s lk_store \<Rightarrow> (string \<Rightarrow> uuid result) \<Rightarrow> go_time \<Rightarrow> webhook_event \<Rightarrow> 's lk_world \<Rightarrow> 's lk_world" where
  "dispatchParticipantLeft K parse now ev w =
     (if IsCallRoom (we_RoomName ev) then snd (EndCallByRoom K parse now (we_RoomName ev) ''participant_left'' w)
      else if IsMeetingRoom (we_RoomName ev)
      then (if we_Identity ev = [] then w
            else (case parse (we_Identity ev) of
                    Inl _ \<Rightarrow> w
                  | Inr userID \<Rightarrow>
                      (case MeetingIDFromRoomName parse (we_RoomName ev) of
                         Inl _ \<Rightarrow> w
                       | Inr meetingID \<Rightarrow> snd (LeaveMeeting K now meetingID userID w))))
      else w)"

definition dispatchRoomFinished ::
  "'s lk_store \<Rightarrow> (string \<Rightarrow> uuid result) \<Rightarrow> go_time \<Rightarrow> webhook_event \<Rightarrow> 's lk_world \<Rightarrow> 's lk_world" where
  "dispatchRoomFinished K parse now ev w =
     (if IsCallRoom (we_RoomName ev) then snd (EndCallByRoom K parse now (we_RoomName ev) ''room_finished'' w)
      else if IsMeetingRoom (we_RoomName ev) then snd (EndMeetingByRoom K parse now (we_RoomName ev) w)
      else w)"

definition dispatchEgressEnded ::
  "'s lk_store \<Rightarrow> bool \<Rightarrow> go_time \<Rightarrow> webhook_event \<Rightarrow> 's lk_world \<Rightarrow> 's lk_world" where
  "dispatchEgressEnded K hasRecordings now ev w =
     (if \<not> hasRecordings then w
      else (case we_Egress ev of
              None \<Rightarrow> w
            | Some info \<Rightarrow>
                let (filePath, fileSize, durationNs) =
                      (case ei_FileResults info of
                         [] \<Rightarrow> ([], 0, 0)
                       | f # _ \<Rightarrow> (ef_Filename f, ef_Size f, ef_Duration f))
                in w\<lparr>lw_store := snd (HandleEgressEnded K now (ei_EgressID info) filePath fileSize durationNs
                      (ei_Failed info) (lw_store w))\<rparr>))"

definition WebhookHandler_dispatch ::
  "'s lk_store \<Rightarrow> bool \<Rightarrow> (string \<Rightarrow> uuid result) \<Rightarrow> go_time \<Rightarrow> webhook_event \<Rightarrow> 's lk_world \<Rightarrow> 's lk_world" where
  "WebhookHandler_dispatch K hasRecordings parse now ev w =
     (if we_Event ev = ''participant_joined'' then dispatchParticipantJoined K parse now ev w
      else if we_Event ev = ''participant_left'' then dispatchParticipantLeft K parse now ev w
      else if we_Event ev = ''room_finished'' then dispatchRoomFinished K parse now ev w
      else if we_Event ev = ''egress_ended'' then dispatchEgressEnded K hasRecordings now ev w
      else w)"

section \<open>The in-memory store\<close>

record lk_memory =
  lm_calls :: "(uuid, lk_call) gomap"
  lm_meetings :: "(uuid, meeting) gomap"
  lm_participants :: "(uuid, participant list) gomap"
  lm_recordings :: "(uuid, recording) gomap"

definition lk_NewInMemoryStore :: lk_memory where
  "lk_NewInMemoryStore = \<lparr>lm_calls = [], lm_meetings = [], lm_participants = [], lm_recordings = []\<rparr>"

definition InMemoryStore_CreateCall :: "uuid \<Rightarrow> lk_call \<Rightarrow> lk_memory \<Rightarrow> lk_call result \<times> lk_memory" where
  "InMemoryStore_CreateCall newid call s =
     (let call' = (if lc_ID call = uuid_Nil then call\<lparr>lc_ID := newid\<rparr> else call)
      in (Inr call', s\<lparr>lm_calls := gm_put (lc_ID call') call' (lm_calls s)\<rparr>))"

definition InMemoryStore_GetCall :: "uuid \<Rightarrow> lk_memory \<Rightarrow> lk_call result" where
  "InMemoryStore_GetCall i s = (case gm_get (lm_calls s) i of None \<Rightarrow> Inl ErrCallNotFound | Some c \<Rightarrow> Inr c)"

definition InMemoryStore_UpdateCall :: "lk_call \<Rightarrow> lk_memory \<Rightarrow> lk_call result \<times> lk_memory" where
  "InMemoryStore_UpdateCall call s =
     (case gm_get (lm_calls s) (lc_ID call) of
        None \<Rightarrow> (Inl ErrCallNotFound, s)
      | Some _ \<Rightarrow> (Inr call, s\<lparr>lm_calls := gm_put (lc_ID call) call (lm_calls s)\<rparr>))"

definition active_for :: "uuid \<Rightarrow> lk_call \<Rightarrow> bool" where
  "active_for userID c \<longleftrightarrow> (lc_CallerID c = userID \<or> lc_CalleeID c = userID) \<and> \<not> CallState_IsTerminal (lc_State c)"

definition InMemoryStore_GetActiveCallForUser :: "uuid \<Rightarrow> lk_memory \<Rightarrow> lk_call result" where
  "InMemoryStore_GetActiveCallForUser userID s =
     (case find (active_for userID) (gm_vals (lm_calls s)) of None \<Rightarrow> Inl ErrCallNotFound | Some c \<Rightarrow> Inr c)"

text \<open>The page of a sorted listing; \<open>None\<close> is the panic of a negative offset.\<close>

definition lk_page :: "int \<Rightarrow> int \<Rightarrow> 'a list \<Rightarrow> 'a list result option" where
  "lk_page limit offset out =
     (if offset > int (length out) then Some (Inr [])
      else if offset < 0 then None
      else let rest = drop (nat offset) out
           in Some (Inr (if limit > 0 \<and> int (length rest) > limit then take (nat limit) rest else rest)))"

definition InMemoryStore_ListCallsForUser :: "uuid \<Rightarrow> int \<Rightarrow> int \<Rightarrow> lk_memory \<Rightarrow> lk_call list result option" where
  "InMemoryStore_ListCallsForUser userID limit offset s =
     lk_page limit offset (sort_key (\<lambda>c. - lc_StartedAt c)
       (filter (\<lambda>c. lc_CallerID c = userID \<or> lc_CalleeID c = userID) (gm_vals (lm_calls s))))"

definition InMemoryStore_CreateMeeting :: "uuid \<Rightarrow> meeting \<Rightarrow> lk_memory \<Rightarrow> meeting result \<times> lk_memory" where
  "InMemoryStore_CreateMeeting newid m s =
     (let m' = (if mt_ID m = uuid_Nil then m\<lparr>mt_ID := newid\<rparr> else m)
      in (Inr m', s\<lparr>lm_meetings := gm_put (mt_ID m') m' (lm_meetings s)\<rparr>))"

definition InMemoryStore_GetMeeting :: "uuid \<Rightarrow> lk_memory \<Rightarrow> meeting result" where
  "InMemoryStore_GetMeeting i s = (case gm_get (lm_meetings s) i of None \<Rightarrow> Inl ErrMeetingNotFound | Some m \<Rightarrow> Inr m)"

definition InMemoryStore_UpdateMeeting :: "meeting \<Rightarrow> lk_memory \<Rightarrow> meeting result \<times> lk_memory" where
  "InMemoryStore_UpdateMeeting m s =
     (case gm_get (lm_meetings s) (mt_ID m) of
        None \<Rightarrow> (Inl ErrMeetingNotFound, s)
      | Some _ \<Rightarrow> (Inr m, s\<lparr>lm_meetings := gm_put (mt_ID m) m (lm_meetings s)\<rparr>))"

definition InMemoryStore_ListMeetingsForCreator :: "uuid \<Rightarrow> int \<Rightarrow> int \<Rightarrow> lk_memory \<Rightarrow> meeting list result option" where
  "InMemoryStore_ListMeetingsForCreator userID limit offset s =
     lk_page limit offset (sort_key (\<lambda>m. - mt_CreatedAt m)
       (filter (\<lambda>m. mt_CreatorID m = userID) (gm_vals (lm_meetings s))))"

definition InMemoryStore_AddParticipant :: "participant \<Rightarrow> lk_memory \<Rightarrow> unit result \<times> lk_memory" where
  "InMemoryStore_AddParticipant p s =
     (case gm_get (lm_meetings s) (pt_MeetingID p) of
        None \<Rightarrow> (Inl ErrMeetingNotFound, s)
      | Some _ \<Rightarrow>
          let parts = gm_get_or [] (lm_participants s) (pt_MeetingID p)
          in if (\<exists>q\<in>set parts. pt_UserID q = pt_UserID p \<and> pt_LeftAt q = None) then (Inr (), s)
             else (Inr (), s\<lparr>lm_participants := gm_put (pt_MeetingID p) (parts @ [p]) (lm_participants s)\<rparr>))"

text \<open>Marking the first record of the user that has not left; \<open>None\<close> when there is none.\<close>

fun mark_left :: "uuid \<Rightarrow> go_time \<Rightarrow> participant list \<Rightarrow> participant list option" where
  "mark_left userID leftAt [] = None"
| "mark_left userID leftAt (p # ps) =
     (if pt_UserID p = userID \<and> pt_LeftAt p = None then Some (p\<lparr>pt_LeftAt := Some leftAt\<rparr> # ps)
      else map_option ((#) p) (mark_left userID leftAt ps))"

definition InMemoryStore_RemoveParticipant ::
  "uuid \<Rightarrow> uuid \<Rightarrow> go_time \<Rightarrow> lk_memory \<Rightarrow> unit result \<times> lk_memory" where
  "InMemoryStore_RemoveParticipant meetingID userID leftAt s =
     (case mark_left userID leftAt (gm_get_or [] (lm_participants s) meetingID) of
        None \<Rightarrow> (Inl ErrNotParticipant, s)
      | Some parts \<Rightarrow> (Inr (), s\<lparr>lm_participants := gm_put meetingID parts (lm_participants s)\<rparr>))"

definition InMemoryStore_CountActiveParticipants :: "uuid \<Rightarrow> lk_memory \<Rightarrow> int result" where
  "InMemoryStore_CountActiveParticipants meetingID s =
     Inr (int (length (filter (\<lambda>p. pt_LeftAt p = None) (gm_get_or [] (lm_participants s) meetingID))))"

definition InMemoryStore_ListParticipants :: "uuid \<Rightarrow> lk_memory \<Rightarrow> participant list result" where
  "InMemoryStore_ListParticipants meetingID s = Inr (gm_get_or [] (lm_participants s) meetingID)"

definition InMemoryStore_CreateRecording :: "uuid \<Rightarrow> recording \<Rightarrow> lk_memory \<Rightarrow> recording result \<times> lk_memory" where
  "InMemoryStore_CreateRecording newid r s =
     (let r' = (if rc_ID r = uuid_Nil then r\<lparr>rc_ID := newid\<rparr> else r)
      in (Inr r', s\<lparr>lm_recordings := gm_put (rc_ID r') r' (lm_recordings s)\<rparr>))"

definition InMemoryStore_GetRecording :: "uuid \<Rightarrow> lk_memory \<Rightarrow> recording result" where
  "InMemoryStore_GetRecording i s =
     (case gm_get (lm_recordings s) i of None \<Rightarrow> Inl ErrRecordingNotFound | Some r \<Rightarrow> Inr r)"

definition InMemoryStore_GetRecordingByEgressID :: "string \<Rightarrow> lk_memory \<Rightarrow> recording result" where
  "InMemoryStore_GetRecordingByEgressID egressID s =
     (case find (\<lambda>r. rc_EgressID r = egressID) (gm_vals (lm_recordings s)) of
        None \<Rightarrow> Inl ErrRecordingNotFound | Some r \<Rightarrow> Inr r)"

definition InMemoryStore_UpdateRecording :: "recording \<Rightarrow> lk_memory \<Rightarrow> recording result \<times> lk_memory" where
  "InMemoryStore_UpdateRecording r s =
     (case gm_get (lm_recordings s) (rc_ID r) of
        None \<Rightarrow> (Inl ErrRecordingNotFound, s)
      | Some _ \<Rightarrow> (Inr r, s\<lparr>lm_recordings := gm_put (rc_ID r) r (lm_recordings s)\<rparr>))"

definition InMemoryStore_ListRecordingsForMeeting :: "uuid \<Rightarrow> lk_memory \<Rightarrow> recording list result" where
  "InMemoryStore_ListRecordingsForMeeting meetingID s =
     Inr (sort_key (\<lambda>r. - rc_StartedAt r) (filter (\<lambda>r. rc_MeetingID r = meetingID) (gm_vals (lm_recordings s))))"

definition lk_InMemoryStore :: "lk_memory lk_store" where
  "lk_InMemoryStore =
     \<lparr>lk_CreateCall = InMemoryStore_CreateCall, lk_GetCall = InMemoryStore_GetCall,
      lk_UpdateCall = InMemoryStore_UpdateCall, lk_GetActiveCallForUser = InMemoryStore_GetActiveCallForUser,
      lk_ListCallsForUser = InMemoryStore_ListCallsForUser, lk_CreateMeeting = InMemoryStore_CreateMeeting,
      lk_GetMeeting = InMemoryStore_GetMeeting, lk_UpdateMeeting = InMemoryStore_UpdateMeeting,
      lk_ListMeetingsForCreator = InMemoryStore_ListMeetingsForCreator,
      lk_AddParticipant = InMemoryStore_AddParticipant, lk_RemoveParticipant = InMemoryStore_RemoveParticipant,
      lk_CountActiveParticipants = InMemoryStore_CountActiveParticipants,
      lk_ListParticipants = InMemoryStore_ListParticipants, lk_CreateRecording = InMemoryStore_CreateRecording,
      lk_GetRecording = InMemoryStore_GetRecording,
      lk_GetRecordingByEgressID = InMemoryStore_GetRecordingByEgressID,
      lk_UpdateRecording = InMemoryStore_UpdateRecording,
      lk_ListRecordingsForMeeting = InMemoryStore_ListRecordingsForMeeting\<rparr>"

end
