(* ===== verification/Livekit_Spec.thy ===== *)
theory Livekit_Spec
  imports Livekit "HOL-Library.Multiset"
begin

text \<open>
  The abstract machine that the call and meeting service implements: calls, meetings, who is present and which
  ringing timers are pending, with one rule per thing that can happen. Its invariants are proved here once by
  rule induction; the contract of the store is a locale, in which every operation of the service is shown to
  be a step of the machine.
\<close>

section \<open>The abstract machine\<close>

record lk_spec =
  sp_calls :: "uuid \<rightharpoonup> lk_call"
  sp_meets :: "uuid \<rightharpoonup> meeting"
  sp_present :: "uuid \<Rightarrow> uuid set"
  sp_timers :: "uuid multiset"

definition spec_init :: lk_spec where
  "spec_init = \<lparr>sp_calls = (\<lambda>_. None), sp_meets = (\<lambda>_. None), sp_present = (\<lambda>_. {}), sp_timers = {#}\<rparr>"

definition busy :: "lk_spec \<Rightarrow> uuid \<Rightarrow> bool" where
  "busy \<sigma> u \<longleftrightarrow> (\<exists>i c. sp_calls \<sigma> i = Some c \<and> active_for u c)"

text \<open>A call moves along the transition table; the parties stay, and it gets an end time when it ends.\<close>

definition call_moves :: "lk_call \<Rightarrow> lk_call \<Rightarrow> bool" where
  "call_moves c c' \<longleftrightarrow>
     ValidCallTransition (lc_State c) (lc_State c') \<and> lc_ID c' = lc_ID c \<and> lc_CallerID c' = lc_CallerID c \<and>
     lc_CalleeID c' = lc_CalleeID c \<and> lc_CallType c' = lc_CallType c \<and> lc_StartedAt c' = lc_StartedAt c \<and>
     (if CallState_IsTerminal (lc_State c') then lc_EndedAt c' \<noteq> None else lc_EndedAt c' = lc_EndedAt c)"

definition meeting_moves :: "meeting \<Rightarrow> meeting \<Rightarrow> bool" where
  "meeting_moves m m' \<longleftrightarrow>
     ValidMeetingTransition (mt_State m) (mt_State m') \<and> mt_ID m' = mt_ID m \<and> mt_CreatorID m' = mt_CreatorID m \<and>
     mt_MaxParticipants m' = mt_MaxParticipants m \<and> mt_RecordingEnabled m' = mt_RecordingEnabled m \<and>
     mt_E2EEEnabled m' = mt_E2EEEnabled m \<and>
     (if mt_State m' = MeetingStateEnded then mt_EndedAt m' \<noteq> None else mt_EndedAt m' = mt_EndedAt m)"

definition placed :: "uuid \<Rightarrow> lk_call \<Rightarrow> bool" where
  "placed i c \<longleftrightarrow>
     lc_ID c = i \<and> lc_State c = StateRinging \<and> lc_EndedAt c = None \<and> lc_CallerID c \<noteq> lc_CalleeID c"

definition planned :: "uuid \<Rightarrow> meeting \<Rightarrow> bool" where
  "planned i m \<longleftrightarrow>
     mt_ID m = i \<and> mt_State m = MeetingStateScheduled \<and> mt_EndedAt m = None \<and>
     1 \<le> mt_MaxParticipants m \<and> mt_MaxParticipants m \<le> MaxMeetingParticipantsCap \<and>
     mt_E2EEEnabled m = (\<not> mt_RecordingEnabled m)"

inductive spec_step :: "lk_spec \<Rightarrow> lk_spec \<Rightarrow> bool" where
  idle: "spec_step \<sigma> \<sigma>"
| place: "spec_step \<sigma> (\<sigma>\<lparr>sp_calls := (sp_calls \<sigma>)(i \<mapsto> c), sp_timers := add_mset i (sp_timers \<sigma>)\<rparr>)"
    if "sp_calls \<sigma> i = None" "placed i c" "\<not> busy \<sigma> (lc_CallerID c)" "\<not> busy \<sigma> (lc_CalleeID c)"
| move: "spec_step \<sigma> (\<sigma>\<lparr>sp_calls := (sp_calls \<sigma>)(i \<mapsto> c')\<rparr>)"
    if "sp_calls \<sigma> i = Some c" "call_moves c c'"
| ring_out: "spec_step \<sigma> (\<sigma>\<lparr>sp_calls := (sp_calls \<sigma>)(i \<mapsto> c'), sp_timers := sp_timers \<sigma> - {#i#}\<rparr>)"
    if "sp_calls \<sigma> i = Some c" "call_moves c c'" "lc_State c' = StateMissed"
| ring_late: "spec_step \<sigma> (\<sigma>\<lparr>sp_timers := sp_timers \<sigma> - {#i#}\<rparr>)"
    if "\<forall>c. sp_calls \<sigma> i = Some c \<longrightarrow> lc_State c \<noteq> StateRinging"
| plan: "spec_step \<sigma> (\<sigma>\<lparr>sp_meets := (sp_meets \<sigma>)(i \<mapsto> m)\<rparr>)"
    if "sp_meets \<sigma> i = None" "planned i m"
| start: "spec_step \<sigma> (\<sigma>\<lparr>sp_meets := (sp_meets \<sigma>)(i \<mapsto> m'), sp_present := (sp_present \<sigma>)(i := {u})\<rparr>)"
    if "sp_meets \<sigma> i = Some m" "meeting_moves m m'" "mt_State m' = MeetingStateActive" "sp_present \<sigma> i = {}"
| join: "spec_step \<sigma> (\<sigma>\<lparr>sp_present := (sp_present \<sigma>)(i := insert u (sp_present \<sigma> i))\<rparr>)"
    if "sp_meets \<sigma> i = Some m" "mt_State m = MeetingStateActive" "int (card (sp_present \<sigma> i)) < mt_MaxParticipants m"
| leave: "spec_step \<sigma> (\<sigma>\<lparr>sp_present := (sp_present \<sigma>)(i := sp_present \<sigma> i - {u})\<rparr>)"
    if "sp_present \<sigma> i - {u} \<noteq> {} \<or> (\<exists>m. sp_meets \<sigma> i = Some m \<and> mt_State m = MeetingStateEnded)"
| empty_out: "spec_step \<sigma> (\<sigma>\<lparr>sp_meets := (sp_meets \<sigma>)(i \<mapsto> m'), sp_present := (sp_present \<sigma>)(i := {})\<rparr>)"
    if "sp_meets \<sigma> i = Some m" "meeting_moves m m'" "mt_State m' = MeetingStateEnded"
| close: "spec_step \<sigma> (\<sigma>\<lparr>sp_meets := (sp_meets \<sigma>)(i \<mapsto> m')\<rparr>)"
    if "sp_meets \<sigma> i = Some m" "meeting_moves m m'" "mt_State m' = MeetingStateEnded"

section \<open>Its invariants\<close>

definition calls_inv :: "lk_spec \<Rightarrow> bool" where
  "calls_inv \<sigma> \<longleftrightarrow>
     (\<forall>i c. sp_calls \<sigma> i = Some c \<longrightarrow>
        lc_ID c = i \<and> lc_CallerID c \<noteq> lc_CalleeID c \<and> (lc_EndedAt c \<noteq> None \<longleftrightarrow> CallState_IsTerminal (lc_State c)) \<and>
        (lc_State c = StateRinging \<longrightarrow> i \<in># sp_timers \<sigma>)) \<and>
     (\<forall>u i j c d. sp_calls \<sigma> i = Some c \<longrightarrow> sp_calls \<sigma> j = Some d \<longrightarrow> active_for u c \<longrightarrow> active_for u d \<longrightarrow> i = j)"

definition meeting_ok :: "meeting \<Rightarrow> uuid set \<Rightarrow> bool" where
  "meeting_ok m P \<longleftrightarrow>
     finite P \<and> int (card P) \<le> mt_MaxParticipants m \<and>
     1 \<le> mt_MaxParticipants m \<and> mt_MaxParticipants m \<le> MaxMeetingParticipantsCap \<and>
     mt_E2EEEnabled m = (\<not> mt_RecordingEnabled m) \<and>
     (mt_EndedAt m \<noteq> None \<longleftrightarrow> mt_State m = MeetingStateEnded) \<and>
     (mt_State m = MeetingStateScheduled \<longrightarrow> P = {}) \<and> (mt_State m = MeetingStateActive \<longrightarrow> P \<noteq> {})"

definition meeting_at :: "uuid \<Rightarrow> meeting option \<Rightarrow> uuid set \<Rightarrow> bool" where
  "meeting_at i mo P \<longleftrightarrow> (case mo of None \<Rightarrow> P = {} | Some m \<Rightarrow> mt_ID m = i \<and> meeting_ok m P)"

definition meets_inv :: "lk_spec \<Rightarrow> bool" where
  "meets_inv \<sigma> \<longleftrightarrow> (\<forall>i. meeting_at i (sp_meets \<sigma> i) (sp_present \<sigma> i))"

lemma meeting_at_simps [simp]:
  "meeting_at i None P \<longleftrightarrow> P = {}" "meeting_at i (Some m) P \<longleftrightarrow> mt_ID m = i \<and> meeting_ok m P"
  by (simp_all add: meeting_at_def)

lemma spec_init_inv: "calls_inv spec_init" "meets_inv spec_init"
  by (simp_all add: calls_inv_def meets_inv_def spec_init_def)

text \<open>Facts on the two transition tables.\<close>

lemmas transition_tables =
  ValidCallTransition_def callTransitions_def ValidMeetingTransition_def meetingTransitions_def
  gm_get_def CallState_IsTerminal_def

lemma call_transition_cases:
  "ValidCallTransition a b \<Longrightarrow> \<not> CallState_IsTerminal a \<and> b \<noteq> StateRinging \<and> a \<noteq> b"
  by (cases a) (auto simp: transition_tables)

lemma meeting_transition_cases:
  "ValidMeetingTransition a b \<Longrightarrow> a \<noteq> MeetingStateEnded \<and> b \<noteq> MeetingStateScheduled \<and> a \<noteq> b \<and>
     (b = MeetingStateActive \<longrightarrow> a = MeetingStateScheduled)"
  by (cases a) (auto simp: transition_tables)

lemma call_moves_active: "call_moves c c' \<Longrightarrow> active_for u c' \<Longrightarrow> active_for u c"
  by (auto simp: call_moves_def active_for_def dest: call_transition_cases)

lemma calls_inv_upd:
  assumes I: "calls_inv \<sigma>" and c: "sp_calls \<sigma> i = Some c" and m: "call_moves c c'"
    and tm: "\<And>j. j \<noteq> i \<Longrightarrow> j \<in># sp_timers \<sigma> \<Longrightarrow> j \<in># T"
  shows "calls_inv (\<sigma>\<lparr>sp_calls := (sp_calls \<sigma>)(i \<mapsto> c'), sp_timers := T\<rparr>)"
proof -
  have ok: "lc_ID c = i" "lc_CallerID c \<noteq> lc_CalleeID c" "lc_EndedAt c \<noteq> None \<longleftrightarrow> CallState_IsTerminal (lc_State c)"
    using I c by (auto simp: calls_inv_def)
  have fact: "lc_ID c' = i" "lc_CallerID c' \<noteq> lc_CalleeID c'" "lc_State c' \<noteq> StateRinging"
    "lc_EndedAt c' \<noteq> None \<longleftrightarrow> CallState_IsTerminal (lc_State c')"
    using m ok call_transition_cases [of "lc_State c" "lc_State c'"] by (auto simp: call_moves_def split: if_splits)
  have unique: "j = k" if a: "((sp_calls \<sigma>)(i \<mapsto> c')) j = Some a" "active_for u a"
      and b: "((sp_calls \<sigma>)(i \<mapsto> c')) k = Some b" "active_for u b" for u j k a b
  proof -
    obtain a' where "sp_calls \<sigma> j = Some a'" "active_for u a'"
      using a c call_moves_active [OF m] by (auto split: if_splits)
    moreover obtain b' where "sp_calls \<sigma> k = Some b'" "active_for u b'"
      using b c call_moves_active [OF m] by (auto split: if_splits)
    ultimately show ?thesis using I by (auto simp: calls_inv_def)
  qed
  show ?thesis unfolding calls_inv_def
  proof (intro conjI allI impI)
    fix j d
    assume d: "sp_calls (\<sigma>\<lparr>sp_calls := (sp_calls \<sigma>)(i \<mapsto> c'), sp_timers := T\<rparr>) j = Some d"
    show "lc_ID d = j" and "lc_CallerID d \<noteq> lc_CalleeID d"
      and "lc_EndedAt d \<noteq> None \<longleftrightarrow> CallState_IsTerminal (lc_State d)"
      and "lc_State d = StateRinging \<Longrightarrow> j \<in># sp_timers (\<sigma>\<lparr>sp_calls := (sp_calls \<sigma>)(i \<mapsto> c'), sp_timers := T\<rparr>)"
      using d fact I tm [of j] by (auto simp: calls_inv_def split: if_splits)
  next
    fix u j k a b
    assume "sp_calls (\<sigma>\<lparr>sp_calls := (sp_calls \<sigma>)(i \<mapsto> c'), sp_timers := T\<rparr>) j = Some a"
      and "sp_calls (\<sigma>\<lparr>sp_calls := (sp_calls \<sigma>)(i \<mapsto> c'), sp_timers := T\<rparr>) k = Some b"
      and "active_for u a" and "active_for u b"
    then show "j = k" using unique [of j a u k b] by simp
  qed
qed

lemma calls_invD:
  "calls_inv \<sigma> \<Longrightarrow> sp_calls \<sigma> i = Some c \<Longrightarrow>
     lc_CallerID c \<noteq> lc_CalleeID c \<and> (lc_EndedAt c \<noteq> None \<longleftrightarrow> CallState_IsTerminal (lc_State c)) \<and>
     (lc_State c = StateRinging \<longrightarrow> i \<in># sp_timers \<sigma>)"
  by (simp add: calls_inv_def)

lemma calls_inv_unique:
  "calls_inv \<sigma> \<Longrightarrow> sp_calls \<sigma> i = Some c \<Longrightarrow> sp_calls \<sigma> j = Some d \<Longrightarrow> active_for u c \<Longrightarrow> active_for u d \<Longrightarrow> i = j"
  unfolding calls_inv_def by blast

lemma calls_inv_place:
  assumes I: "calls_inv \<sigma>" and new: "sp_calls \<sigma> i = None" "placed i c"
    and free: "\<not> busy \<sigma> (lc_CallerID c)" "\<not> busy \<sigma> (lc_CalleeID c)"
  shows "calls_inv (\<sigma>\<lparr>sp_calls := (sp_calls \<sigma>)(i \<mapsto> c), sp_timers := add_mset i (sp_timers \<sigma>)\<rparr>)"
proof -
  have idle: "\<not> active_for u d" if "sp_calls \<sigma> j = Some d" "active_for u c" for u j d
    using that free by (auto simp: busy_def active_for_def)
  have "\<not> CallState_IsTerminal StateRinging" by (simp add: CallState_IsTerminal_def)
  then show ?thesis using I new idle unfolding calls_inv_def placed_def by (auto split: if_splits)
qed

lemma meets_inv_upd:
  assumes "meets_inv \<sigma>" and "mt_ID m = i" and "meeting_ok m P"
  shows "meets_inv (\<sigma>\<lparr>sp_meets := (sp_meets \<sigma>)(i \<mapsto> m), sp_present := (sp_present \<sigma>)(i := P)\<rparr>)"
  using assms by (simp add: meets_inv_def)

lemma meets_invD:
  "meets_inv \<sigma> \<Longrightarrow> sp_meets \<sigma> i = Some m \<Longrightarrow> mt_ID m = i \<and> meeting_ok m (sp_present \<sigma> i)"
  unfolding meets_inv_def by (drule spec [where x = i]) simp

lemma present_finite: "meets_inv \<sigma> \<Longrightarrow> finite (sp_present \<sigma> i)"
  unfolding meets_inv_def by (cases "sp_meets \<sigma> i"; drule spec [where x = i]) (auto simp: meeting_ok_def)

lemma present_none: "meets_inv \<sigma> \<Longrightarrow> sp_meets \<sigma> i = None \<Longrightarrow> sp_present \<sigma> i = {}"
  unfolding meets_inv_def by (drule spec [where x = i]) simp

lemma meeting_moves_ended:
  assumes "meeting_ok m P" and "meeting_moves m m'" and "mt_State m' = MeetingStateEnded" and "Q \<subseteq> P"
  shows "meeting_ok m' Q"
proof -
  have "finite Q" "card Q \<le> card P" using assms(1,4) by (auto simp: meeting_ok_def finite_subset card_mono)
  with assms show ?thesis by (auto simp: meeting_ok_def meeting_moves_def)
qed

lemma frame_calls [simp]:
  "calls_inv (\<sigma>\<lparr>sp_meets := M, sp_present := P\<rparr>) = calls_inv \<sigma>"
  "calls_inv (\<sigma>\<lparr>sp_meets := M\<rparr>) = calls_inv \<sigma>" "calls_inv (\<sigma>\<lparr>sp_present := P\<rparr>) = calls_inv \<sigma>"
  by (simp_all add: calls_inv_def)

lemma frame_meets [simp]:
  "meets_inv (\<sigma>\<lparr>sp_calls := C, sp_timers := T\<rparr>) = meets_inv \<sigma>"
  "meets_inv (\<sigma>\<lparr>sp_calls := C\<rparr>) = meets_inv \<sigma>" "meets_inv (\<sigma>\<lparr>sp_timers := T\<rparr>) = meets_inv \<sigma>"
  by (simp_all add: meets_inv_def)

lemma spec_step_calls_inv: "spec_step \<sigma> \<sigma>' \<Longrightarrow> calls_inv \<sigma> \<Longrightarrow> calls_inv \<sigma>'"
proof (induction rule: spec_step.induct)
  case (place \<sigma> i c)
  then show ?case by (intro calls_inv_place)
next
  case (move \<sigma> i c c')
  then show ?case using calls_inv_upd [of \<sigma> i c c' "sp_timers \<sigma>"] by simp
next
  case (ring_out \<sigma> i c c')
  then show ?case using calls_inv_upd [of \<sigma> i c c' "sp_timers \<sigma> - {#i#}"] by (simp add: in_diff_count)
next
  case (ring_late \<sigma> i)
  then show ?case by (auto simp: calls_inv_def in_diff_count)
qed simp_all

lemma meets_inv_upd_meeting:
  "meets_inv \<sigma> \<Longrightarrow> mt_ID m = i \<Longrightarrow> meeting_ok m (sp_present \<sigma> i) \<Longrightarrow> meets_inv (\<sigma>\<lparr>sp_meets := (sp_meets \<sigma>)(i \<mapsto> m)\<rparr>)"
  by (simp add: meets_inv_def)

lemma meets_inv_upd_present:
  "meets_inv \<sigma> \<Longrightarrow> sp_meets \<sigma> i = Some m \<Longrightarrow> meeting_ok m P \<Longrightarrow> meets_inv (\<sigma>\<lparr>sp_present := (sp_present \<sigma>)(i := P)\<rparr>)"
  unfolding meets_inv_def by (auto dest: spec [where x = i])

lemma spec_step_meets_inv: "spec_step \<sigma> \<sigma>' \<Longrightarrow> meets_inv \<sigma> \<Longrightarrow> meets_inv \<sigma>'"
proof (induction rule: spec_step.induct)
  case (plan \<sigma> i m)
  have "sp_present \<sigma> i = {}" using plan.prems plan.hyps(1) by (rule present_none)
  with plan show ?case by (intro meets_inv_upd_meeting) (auto simp: planned_def meeting_ok_def)
next
  case (start \<sigma> i m m' u)
  from meets_invD [OF start.prems start.hyps(1)] start.hyps show ?case
    by (intro meets_inv_upd start.prems) (auto simp: meeting_ok_def meeting_moves_def dest: meeting_transition_cases)
next
  case (join \<sigma> i m u)
  from meets_invD [OF join.prems join.hyps(1)] join.hyps show ?case
    by (intro meets_inv_upd_present [OF join.prems join.hyps(1)]) (auto simp: meeting_ok_def card_insert_if)
next
  case (leave \<sigma> i u)
  show ?case
  proof (cases "sp_meets \<sigma> i")
    case None
    then have "sp_present \<sigma> i = {}" by (rule present_none [OF leave.prems])
    then have "sp_present \<sigma> i - {u} = sp_present \<sigma> i" by simp
    then have "(sp_present \<sigma>)(i := sp_present \<sigma> i - {u}) = sp_present \<sigma>" by simp
    then show ?thesis using leave.prems by simp
  next
    case (Some m)
    have "card (sp_present \<sigma> i - {u}) \<le> card (sp_present \<sigma> i)"
      using present_finite [OF leave.prems] by (simp add: card_mono)
    with meets_invD [OF leave.prems Some] leave.hyps Some show ?thesis
      by (intro meets_inv_upd_present [OF leave.prems Some]) (auto simp: meeting_ok_def)
  qed
next
  case (empty_out \<sigma> i m m')
  from meets_invD [OF empty_out.prems empty_out.hyps(1)] empty_out.hyps show ?case
    by (intro meets_inv_upd empty_out.prems) (auto simp: meeting_moves_def elim!: meeting_moves_ended)
next
  case (close \<sigma> i m m')
  from meets_invD [OF close.prems close.hyps(1)] close.hyps show ?case
    by (intro meets_inv_upd_meeting close.prems) (auto simp: meeting_moves_def elim!: meeting_moves_ended)
qed simp_all

text \<open>What a call or a meeting can become; nothing follows a terminal state.\<close>

lemma spec_step_call:
  "spec_step \<sigma> \<sigma>' \<Longrightarrow> sp_calls \<sigma> i = Some c \<Longrightarrow> \<exists>c'. sp_calls \<sigma>' i = Some c' \<and> (c' = c \<or> call_moves c c')"
  by (induction rule: spec_step.induct) auto

lemma spec_step_meeting:
  "spec_step \<sigma> \<sigma>' \<Longrightarrow> sp_meets \<sigma> i = Some m \<Longrightarrow> \<exists>m'. sp_meets \<sigma>' i = Some m' \<and> (m' = m \<or> meeting_moves m m')"
  by (induction rule: spec_step.induct) auto

lemma call_moves_not_terminal: "call_moves c c' \<Longrightarrow> \<not> CallState_IsTerminal (lc_State c)"
  by (auto simp: call_moves_def dest: call_transition_cases)

section \<open>The contract of the store\<close>

locale livekit_store_spec =
  fixes K :: "'s lk_store"
    and calls :: "'s \<Rightarrow> uuid \<rightharpoonup> lk_call" and meets :: "'s \<Rightarrow> uuid \<rightharpoonup> meeting"
    and present :: "'s \<Rightarrow> uuid \<Rightarrow> uuid set" and good :: "'s \<Rightarrow> bool"
  assumes get_call: "lk_GetCall K i s = (case calls s i of None \<Rightarrow> Inl ErrCallNotFound | Some c \<Rightarrow> Inr c)"
    and active_some: "good s \<Longrightarrow> lk_GetActiveCallForUser K u s = Inr c \<Longrightarrow> \<exists>i. calls s i = Some c \<and> active_for u c"
    and active_none: "good s \<Longrightarrow> lk_GetActiveCallForUser K u s = Inl e \<Longrightarrow>
          e = ErrCallNotFound \<and> (\<forall>i c. calls s i = Some c \<longrightarrow> \<not> active_for u c)"
    and create_call: "good s \<Longrightarrow> lc_ID c \<noteq> uuid_Nil \<Longrightarrow> \<exists>s'. lk_CreateCall K n c s = (Inr c, s') \<and> good s' \<and>
          calls s' = (calls s)(lc_ID c \<mapsto> c) \<and> meets s' = meets s \<and> present s' = present s"
    and update_call: "good s \<Longrightarrow> calls s (lc_ID c) \<noteq> None \<Longrightarrow> \<exists>s'. lk_UpdateCall K c s = (Inr c, s') \<and> good s' \<and>
          calls s' = (calls s)(lc_ID c \<mapsto> c) \<and> meets s' = meets s \<and> present s' = present s"
    and get_meeting: "lk_GetMeeting K i s = (case meets s i of None \<Rightarrow> Inl ErrMeetingNotFound | Some m \<Rightarrow> Inr m)"
    and create_meeting: "good s \<Longrightarrow> mt_ID m \<noteq> uuid_Nil \<Longrightarrow> \<exists>s'. lk_CreateMeeting K n m s = (Inr m, s') \<and> good s' \<and>
          calls s' = calls s \<and> meets s' = (meets s)(mt_ID m \<mapsto> m) \<and> present s' = present s"
    and update_meeting: "good s \<Longrightarrow> meets s (mt_ID m) \<noteq> None \<Longrightarrow> \<exists>s'. lk_UpdateMeeting K m s = (Inr m, s') \<and> good s' \<and>
          calls s' = calls s \<and> meets s' = (meets s)(mt_ID m \<mapsto> m) \<and> present s' = present s"
    and add_participant: "good s \<Longrightarrow> meets s (pt_MeetingID p) \<noteq> None \<Longrightarrow> pt_LeftAt p = None \<Longrightarrow>
          \<exists>s'. lk_AddParticipant K p s = (Inr (), s') \<and> good s' \<and> calls s' = calls s \<and> meets s' = meets s \<and>
            present s' = (present s)(pt_MeetingID p := insert (pt_UserID p) (present s (pt_MeetingID p)))"
    and remove_participant: "good s \<Longrightarrow> u \<in> present s i \<Longrightarrow>
          \<exists>s'. lk_RemoveParticipant K i u t s = (Inr (), s') \<and> good s' \<and> calls s' = calls s \<and> meets s' = meets s \<and>
            present s' = (present s)(i := present s i - {u})"
    and remove_absent: "good s \<Longrightarrow> u \<notin> present s i \<Longrightarrow> lk_RemoveParticipant K i u t s = (Inl ErrNotParticipant, s)"
    and create_recording: "good s \<Longrightarrow> lk_CreateRecording K n r s = (res, s') \<Longrightarrow> good s' \<and>
          calls s' = calls s \<and> meets s' = meets s \<and> present s' = present s"
    and update_recording: "good s \<Longrightarrow> lk_UpdateRecording K r s = (res, s') \<Longrightarrow> good s' \<and>
          calls s' = calls s \<and> meets s' = meets s \<and> present s' = present s"
    and count_active: "good s \<Longrightarrow> lk_CountActiveParticipants K i s = Inr (int (card (present s i)))"

section \<open>Runs of the service\<close>

datatype lk_op =
  OpInitiate uuid go_time uuid uuid string
| OpTimer nat go_time
| OpAccept go_time "string result" "string result" "string result" uuid uuid
| OpDecline go_time uuid uuid
| OpEndCall go_time uuid uuid
| OpCreateMeeting uuid go_time string uuid int bool
| OpJoin go_time "unit result" "string result" uuid uuid
| OpLeave go_time uuid uuid
| OpEndMeeting go_time uuid uuid
| OpStartRecording uuid go_time "string result" uuid
| OpStopRecording go_time "unit result" uuid
| OpWebhook bool go_time webhook_event

text \<open>A timer fires at its due time or later, and only once.\<close>

primrec lk_step :: "'s lk_store \<Rightarrow> lk_config \<Rightarrow> (string \<Rightarrow> uuid result) \<Rightarrow> lk_op \<Rightarrow> 's lk_world \<Rightarrow> 's lk_world" where
  "lk_step K cf parse (OpInitiate n now a b t) w = snd (InitiateCall K cf n now a b t w)"
| "lk_step K cf parse (OpTimer k now) w =
     (if k < length (lw_timers w) \<and> fst (lw_timers w ! k) \<le> now
      then expireRinging K now (snd (lw_timers w ! k)) (w\<lparr>lw_timers := take k (lw_timers w) @ drop (Suc k) (lw_timers w)\<rparr>)
      else w)"
| "lk_step K cf parse (OpAccept now room tok1 tok2 i u) w = snd (AcceptCall K cf now room tok1 tok2 i u w)"
| "lk_step K cf parse (OpDecline now i u) w = snd (DeclineCall K now i u w)"
| "lk_step K cf parse (OpEndCall now i u) w = snd (EndCall K now i u w)"
| "lk_step K cf parse (OpCreateMeeting n now title u maxP r) w = snd (CreateMeeting K n now title u maxP r w)"
| "lk_step K cf parse (OpJoin now room tok i u) w = snd (JoinMeeting K cf now room tok i u w)"
| "lk_step K cf parse (OpLeave now i u) w = snd (LeaveMeeting K now i u w)"
| "lk_step K cf parse (OpEndMeeting now i u) w = snd (EndMeeting K now i u w)"
| "lk_step K cf parse (OpStartRecording n now egress i) w = w\<lparr>lw_store := snd (StartRecording K n now egress i (lw_store w))\<rparr>"
| "lk_step K cf parse (OpStopRecording now stop i) w = w\<lparr>lw_store := snd (StopRecording K now stop i (lw_store w))\<rparr>"
| "lk_step K cf parse (OpWebhook r now ev) w = WebhookHandler_dispatch K r parse now ev w"

primrec lk_run :: "'s lk_store \<Rightarrow> lk_config \<Rightarrow> (string \<Rightarrow> uuid result) \<Rightarrow> lk_op list \<Rightarrow> 's lk_world \<Rightarrow> 's lk_world" where
  "lk_run K cf parse [] w = w"
| "lk_run K cf parse (op # ops) w = lk_run K cf parse ops (lk_step K cf parse op w)"

text \<open>New identifiers are new.\<close>

primrec lk_fresh :: "'s lk_store \<Rightarrow> lk_op \<Rightarrow> 's lk_world \<Rightarrow> bool" where
  "lk_fresh K (OpInitiate n now a b t) w \<longleftrightarrow> n \<noteq> uuid_Nil \<and> lk_GetCall K n (lw_store w) = Inl ErrCallNotFound"
| "lk_fresh K (OpTimer k now) w \<longleftrightarrow> True"
| "lk_fresh K (OpAccept now room tok1 tok2 i u) w \<longleftrightarrow> True"
| "lk_fresh K (OpDecline now i u) w \<longleftrightarrow> True"
| "lk_fresh K (OpEndCall now i u) w \<longleftrightarrow> True"
| "lk_fresh K (OpCreateMeeting n now title u maxP r) w \<longleftrightarrow>
     n \<noteq> uuid_Nil \<and> lk_GetMeeting K n (lw_store w) = Inl ErrMeetingNotFound"
| "lk_fresh K (OpJoin now room tok i u) w \<longleftrightarrow> True"
| "lk_fresh K (OpLeave now i u) w \<longleftrightarrow> True"
| "lk_fresh K (OpEndMeeting now i u) w \<longleftrightarrow> True"
| "lk_fresh K (OpStartRecording n now egress i) w \<longleftrightarrow> True"
| "lk_fresh K (OpStopRecording now stop i) w \<longleftrightarrow> True"
| "lk_fresh K (OpWebhook r now ev) w \<longleftrightarrow> True"

primrec lk_fresh_run :: "'s lk_store \<Rightarrow> lk_config \<Rightarrow> (string \<Rightarrow> uuid result) \<Rightarrow> lk_op list \<Rightarrow> 's lk_world \<Rightarrow> bool" where
  "lk_fresh_run K cf parse [] w \<longleftrightarrow> True"
| "lk_fresh_run K cf parse (op # ops) w \<longleftrightarrow>
     lk_fresh K op w \<and> lk_fresh_run K cf parse ops (lk_step K cf parse op w)"

section \<open>The service refines the machine\<close>

definition lk_abs ::
  "('s \<Rightarrow> uuid \<rightharpoonup> lk_call) \<Rightarrow> ('s \<Rightarrow> uuid \<rightharpoonup> meeting) \<Rightarrow> ('s \<Rightarrow> uuid \<Rightarrow> uuid set) \<Rightarrow> 's lk_world \<Rightarrow> lk_spec" where
  "lk_abs calls meets present w =
     \<lparr>sp_calls = calls (lw_store w), sp_meets = meets (lw_store w), sp_present = present (lw_store w),
      sp_timers = mset (map snd (lw_timers w))\<rparr>"

lemma lk_abs_simps [simp]:
  "sp_calls (lk_abs calls meets present w) = calls (lw_store w)"
  "sp_meets (lk_abs calls meets present w) = meets (lw_store w)"
  "sp_present (lk_abs calls meets present w) = present (lw_store w)"
  "sp_timers (lk_abs calls meets present w) = mset (map snd (lw_timers w))"
  by (simp_all add: lk_abs_def)

lemma SendToUser_frame [simp]:
  "lw_store (SendToUser u e p w) = lw_store w" "lw_timers (SendToUser u e p w) = lw_timers w"
  by (simp_all add: SendToUser_def)

lemma valid_transitions [simp]:
  "ValidCallTransition StateRinging b \<longleftrightarrow> b \<in> {StateConnecting, StateDeclined, StateMissed, StateFailed}"
  "ValidCallTransition StateConnecting b \<longleftrightarrow> b \<in> {StateConnected, StateFailed, StateEnded}"
  "ValidCallTransition StateConnected b \<longleftrightarrow> b = StateEnded"
  "ValidMeetingTransition MeetingStateScheduled b' \<longleftrightarrow> b' \<in> {MeetingStateActive, MeetingStateEnded}"
  "ValidMeetingTransition MeetingStateActive b' \<longleftrightarrow> b' = MeetingStateEnded"
  by (auto simp: transition_tables)

lemma ended_call_moves:
  assumes "lc_State c = StateConnecting \<or> lc_State c = StateConnected"
  shows "call_moves c (ended_call now reason c)"
  using assms by (auto simp: call_moves_def ended_call_def CallState_IsTerminal_def split: option.splits)

lemma end_meeting_moves:
  "mt_State m \<noteq> MeetingStateEnded \<Longrightarrow> meeting_moves m (m\<lparr>mt_State := MeetingStateEnded, mt_EndedAt := Some now\<rparr>)"
  by (cases "mt_State m") (auto simp: meeting_moves_def)

context livekit_store_spec
begin

definition abs :: "'s lk_world \<Rightarrow> lk_spec" where
  "abs w = lk_abs calls meets present w"

definition ok :: "'s lk_world \<Rightarrow> bool" where
  "ok w \<longleftrightarrow> good (lw_store w) \<and> calls_inv (abs w) \<and> meets_inv (abs w)"

definition goes :: "'s lk_world \<Rightarrow> 's lk_world \<Rightarrow> bool" where
  "goes w w' \<longleftrightarrow> good (lw_store w') \<and> spec_step (abs w) (abs w')"

lemma abs_views [simp]:
  "sp_calls (abs w) = calls (lw_store w)" "sp_meets (abs w) = meets (lw_store w)"
  "sp_present (abs w) = present (lw_store w)" "sp_timers (abs w) = mset (map snd (lw_timers w))"
  by (simp_all add: abs_def)

lemma abs_eq: "sp_calls \<sigma> = calls (lw_store w) \<Longrightarrow> sp_meets \<sigma> = meets (lw_store w) \<Longrightarrow>
   sp_present \<sigma> = present (lw_store w) \<Longrightarrow> sp_timers \<sigma> = mset (map snd (lw_timers w)) \<Longrightarrow> \<sigma> = abs w"
  by (cases \<sigma>) (simp add: abs_def lk_abs_def)

lemma goes_refl: "ok w \<Longrightarrow> goes w w"
  by (simp add: goes_def ok_def spec_step.idle)

lemma goes_ok: "ok w \<Longrightarrow> goes w w' \<Longrightarrow> ok w'"
  using spec_step_calls_inv spec_step_meets_inv by (auto simp: ok_def goes_def)

lemma ok_call_id: "ok w \<Longrightarrow> calls (lw_store w) i = Some c \<Longrightarrow> lc_ID c = i"
  by (simp add: ok_def calls_inv_def)

lemma ok_meeting: "ok w \<Longrightarrow> meets (lw_store w) i = Some m \<Longrightarrow> mt_ID m = i \<and> meeting_ok m (present (lw_store w) i)"
  using meets_invD [of "abs w" i m] by (simp add: ok_def)

text \<open>One update of a stored call along the table.\<close>

lemma update_goes:
  assumes w: "ok w" and c: "calls (lw_store w) i = Some c" and m: "call_moves c c'"
  obtains s' where "lk_UpdateCall K c' (lw_store w) = (Inr c', s')"
    and "\<And>w'. lw_store w' = s' \<Longrightarrow> lw_timers w' = lw_timers w \<Longrightarrow> goes w w'"
    and "calls s' = (calls (lw_store w))(i \<mapsto> c')"
proof -
  have ids: "lc_ID c' = i" using ok_call_id [OF w c] m by (simp add: call_moves_def)
  obtain s' where s': "lk_UpdateCall K c' (lw_store w) = (Inr c', s')" "good s'"
    "calls s' = (calls (lw_store w))(i \<mapsto> c')" "meets s' = meets (lw_store w)" "present s' = present (lw_store w)"
    using update_call [of "lw_store w" c'] w c ids by (auto simp: ok_def)
  have "goes w w'" if "lw_store w' = s'" "lw_timers w' = lw_timers w" for w'
  proof -
    have "abs w' = (abs w)\<lparr>sp_calls := (sp_calls (abs w))(i \<mapsto> c')\<rparr>"
      by (rule abs_eq [symmetric]) (simp_all add: s' that)
    moreover have "spec_step (abs w) ((abs w)\<lparr>sp_calls := (sp_calls (abs w))(i \<mapsto> c')\<rparr>)"
      using c m by (intro spec_step.move) simp_all
    ultimately show ?thesis using s'(2) that(1) by (simp add: goes_def)
  qed
  with s' that show ?thesis by blast
qed

lemma initiate_goes:
  assumes w: "ok w" and n: "n \<noteq> uuid_Nil" "calls (lw_store w) n = None"
  shows "goes w (snd (InitiateCall K cf n now a b t w))"
proof (cases "initiate_checks K a b t (lw_store w)")
  case (Some e)
  then show ?thesis by (simp add: InitiateCall_def goes_refl [OF w])
next
  case None
  let ?c = "ringing_call n now a b t"
  have diff: "a \<noteq> b" and free: "assertNoActiveCall K a (lw_store w) = None" "assertNoActiveCall K b (lw_store w) = None"
    using None by (auto simp: initiate_checks_def split: option.splits if_splits)
  have idle: "\<not> busy (abs w) u" if "assertNoActiveCall K u (lw_store w) = None" for u
    using that active_none [of "lw_store w" u] w
    by (auto simp: assertNoActiveCall_def busy_def ok_def split: sum.splits if_splits)
  have good: "good (lw_store w)" using w by (simp add: ok_def)
  have id: "lc_ID ?c = n" by (simp add: ringing_call_def)
  obtain s' where s': "lk_CreateCall K n ?c (lw_store w) = (Inr ?c, s')" "good s'"
    "calls s' = (calls (lw_store w))(n \<mapsto> ?c)" "meets s' = meets (lw_store w)" "present s' = present (lw_store w)"
    using create_call [OF good, of ?c n] n(1) id by auto
  let ?w' = "snd (InitiateCall K cf n now a b t w)"
  have w': "lw_store ?w' = s'" "lw_timers ?w' = lw_timers w @ [(now + lf_ringingTimeout cf, n)]"
    using None s'(1) id by (simp_all add: InitiateCall_def initiate_commit_def Let_def)
  have "abs ?w' = (abs w)\<lparr>sp_calls := (sp_calls (abs w))(n \<mapsto> ?c), sp_timers := add_mset n (sp_timers (abs w))\<rparr>"
    by (rule abs_eq [symmetric]) (simp_all add: s' w')
  moreover have "spec_step (abs w) ((abs w)\<lparr>sp_calls := (sp_calls (abs w))(n \<mapsto> ?c), sp_timers := add_mset n (sp_timers (abs w))\<rparr>)"
    using n diff idle [OF free(1)] idle [OF free(2)]
    by (intro spec_step.place) (simp_all add: placed_def ringing_call_def)
  ultimately show ?thesis using s'(2) w'(1) by (simp add: goes_def)
qed

lemma accept_goes:
  assumes w: "ok w"
  shows "goes w (snd (AcceptCall K cf now room tok1 tok2 i u w))"
proof (cases "calls (lw_store w) i")
  case None
  then show ?thesis by (simp add: AcceptCall_def get_call goes_refl [OF w])
next
  case (Some c)
  show ?thesis
  proof (cases "lc_State c = StateRinging \<and> lc_CalleeID c = u")
    case False
    then show ?thesis using Some by (auto simp: AcceptCall_def get_call goes_refl [OF w])
  next
    case True
    define failed where
      "failed = c\<lparr>lc_State := StateFailed, lc_EndedAt := Some now, lc_EndReason := ''room_creation_failed''\<rparr>"
    define joined where
      "joined r = c\<lparr>lc_State := StateConnecting, lc_RoomName := r, lc_AnsweredAt := Some now\<rparr>" for r
    have mf: "call_moves c failed" and mj: "call_moves c (joined r)" for r
      using True by (simp_all add: call_moves_def failed_def joined_def CallState_IsTerminal_def)
    obtain s1 where s1: "lk_UpdateCall K failed (lw_store w) = (Inr failed, s1)"
      "\<And>w'. lw_store w' = s1 \<Longrightarrow> lw_timers w' = lw_timers w \<Longrightarrow> goes w w'"
      using update_goes [OF w Some mf] by metis
    have fail: "goes w (w\<lparr>lw_store := s1\<rparr>)" by (rule s1(2)) simp_all
    show ?thesis
    proof (cases "\<exists>r t1 t2. room = Inr r \<and> tok1 = Inr t1 \<and> tok2 = Inr t2")
      case False
      then show ?thesis using Some True fail
        by (auto simp: AcceptCall_def get_call goes_refl [OF w] failed_def [symmetric] s1(1) split: sum.split)
    next
      case ok: True
      then obtain r t1 t2 where r: "room = Inr r" "tok1 = Inr t1" "tok2 = Inr t2" by blast
      obtain s2 where "lk_UpdateCall K (joined r) (lw_store w) = (Inr (joined r), s2)"
        "\<And>w'. lw_store w' = s2 \<Longrightarrow> lw_timers w' = lw_timers w \<Longrightarrow> goes w w'"
        using update_goes [OF w Some mj] by metis
      then show ?thesis using Some True r by (simp add: AcceptCall_def get_call joined_def [symmetric])
    qed
  qed
qed

lemma decline_goes:
  assumes w: "ok w"
  shows "goes w (snd (DeclineCall K now i u w))"
proof (cases "calls (lw_store w) i")
  case (Some c)
  show ?thesis
  proof (cases "lc_State c = StateRinging \<and> lc_CalleeID c = u")
    case True
    define c' where "c' = c\<lparr>lc_State := StateDeclined, lc_EndedAt := Some now, lc_EndReason := ''declined''\<rparr>"
    have "call_moves c c'" using True by (simp add: call_moves_def c'_def CallState_IsTerminal_def)
    from update_goes [OF w Some this] obtain s' where "lk_UpdateCall K c' (lw_store w) = (Inr c', s')"
      "\<And>w'. lw_store w' = s' \<Longrightarrow> lw_timers w' = lw_timers w \<Longrightarrow> goes w w'" by metis
    then show ?thesis using Some True by (simp add: DeclineCall_def get_call c'_def [symmetric])
  qed (use Some in \<open>auto simp: DeclineCall_def get_call goes_refl [OF w]\<close>)
qed (simp add: DeclineCall_def get_call goes_refl [OF w])

lemma mark_connected_goes:
  assumes w: "ok w"
  shows "goes w (snd (MarkConnected K now i w))"
proof (cases "calls (lw_store w) i")
  case (Some c)
  show ?thesis
  proof (cases "lc_State c = StateConnecting")
    case True
    define c' where "c' = c\<lparr>lc_State := StateConnected, lc_ConnectedAt := Some now\<rparr>"
    have "call_moves c c'" using True by (simp add: call_moves_def c'_def CallState_IsTerminal_def)
    from update_goes [OF w Some this] obtain s' where "lk_UpdateCall K c' (lw_store w) = (Inr c', s')"
      "\<And>w'. lw_store w' = s' \<Longrightarrow> lw_timers w' = lw_timers w \<Longrightarrow> goes w w'" by metis
    then show ?thesis using Some True by (simp add: MarkConnected_def get_call c'_def [symmetric])
  qed (use Some in \<open>simp add: MarkConnected_def get_call goes_refl [OF w]\<close>)
qed (simp add: MarkConnected_def get_call goes_refl [OF w])

lemma end_update:
  assumes w: "ok w" and c: "calls (lw_store w) i = Some c" and st: "lc_State c = StateConnecting \<or> lc_State c = StateConnected"
  obtains s' where "lk_UpdateCall K (ended_call now reason c) (lw_store w) = (Inr (ended_call now reason c), s')"
    and "\<And>w'. lw_store w' = s' \<Longrightarrow> lw_timers w' = lw_timers w \<Longrightarrow> goes w w'"
  using update_goes [OF w c ended_call_moves [OF st]] by metis

lemma end_call_goes:
  assumes w: "ok w"
  shows "goes w (snd (EndCall K now i u w))"
proof (cases "calls (lw_store w) i")
  case (Some c)
  show ?thesis
  proof (cases "(lc_State c = StateConnecting \<or> lc_State c = StateConnected) \<and> (u = lc_CallerID c \<or> u = lc_CalleeID c)")
    case True
    define reason where "reason = (if u = lc_CallerID c then ''caller_hangup'' else ''callee_hangup'')"
    from True end_update [OF w Some, of now reason] obtain s' where
      "lk_UpdateCall K (ended_call now reason c) (lw_store w) = (Inr (ended_call now reason c), s')"
      "\<And>w'. lw_store w' = s' \<Longrightarrow> lw_timers w' = lw_timers w \<Longrightarrow> goes w w'" by metis
    then show ?thesis using Some True by (auto simp: EndCall_def get_call reason_def split: if_splits)
  qed (use Some in \<open>auto simp: EndCall_def get_call goes_refl [OF w]\<close>)
qed (simp add: EndCall_def get_call goes_refl [OF w])

lemma end_by_room_goes:
  assumes w: "ok w"
  shows "goes w (snd (EndCallByRoom K parse now room reason w))"
proof (cases "CallIDFromRoomName parse room")
  case (Inr i)
  note i = this
  show ?thesis
  proof (cases "calls (lw_store w) i")
    case (Some c)
    show ?thesis
    proof (cases "lc_State c = StateConnecting \<or> lc_State c = StateConnected")
      case True
      from end_update [OF w Some True, of now reason] obtain s' where
        "lk_UpdateCall K (ended_call now reason c) (lw_store w) = (Inr (ended_call now reason c), s')"
        "\<And>w'. lw_store w' = s' \<Longrightarrow> lw_timers w' = lw_timers w \<Longrightarrow> goes w w'" by metis
      then show ?thesis using Some True i by (auto simp: EndCallByRoom_def get_call Let_def)
    qed (use Some i in \<open>auto simp: EndCallByRoom_def get_call goes_refl [OF w]\<close>)
  qed (use i in \<open>simp add: EndCallByRoom_def get_call goes_refl [OF w]\<close>)
qed (simp add: EndCallByRoom_def goes_refl [OF w])

lemma mset_drop_nth: "k < length xs \<Longrightarrow> mset (map snd (take k xs @ drop (Suc k) xs)) = mset (map snd xs) - {#snd (xs ! k)#}"
proof -
  assume k: "k < length xs"
  have "mset (map snd xs) = mset (map snd (take k xs @ xs ! k # drop (Suc k) xs))" using k by (simp add: id_take_nth_drop [symmetric])
  then show ?thesis by simp
qed

lemma timer_goes:
  assumes w: "ok w" and k: "k < length (lw_timers w)"
  defines "w1 \<equiv> w\<lparr>lw_timers := take k (lw_timers w) @ drop (Suc k) (lw_timers w)\<rparr>"
    and "i \<equiv> snd (lw_timers w ! k)"
  shows "goes w (expireRinging K now i w1)"
    and "calls (lw_store w) i = Some c \<Longrightarrow> lc_State c = StateRinging \<Longrightarrow>
      \<exists>c'. calls (lw_store (expireRinging K now i w1)) i = Some c' \<and> lc_State c' = StateMissed \<and> lc_EndedAt c' = Some now"
proof -
  have tm: "mset (map snd (lw_timers w1)) = mset (map snd (lw_timers w)) - {#i#}"
    unfolding w1_def i_def using mset_drop_nth [OF k] by simp
  have st1: "lw_store w1 = lw_store w" by (simp add: w1_def)
  have late: "goes w w1" if "\<forall>c. calls (lw_store w) i = Some c \<longrightarrow> lc_State c \<noteq> StateRinging"
  proof -
    have "abs w1 = (abs w)\<lparr>sp_timers := sp_timers (abs w) - {#i#}\<rparr>"
      by (rule abs_eq [symmetric]) (simp_all add: tm [simplified] st1)
    then show ?thesis using that w spec_step.ring_late [of "abs w" i] by (simp add: goes_def ok_def w1_def)
  qed
  have ring: "goes w (expireRinging K now i w1) \<and>
      (\<exists>c'. calls (lw_store (expireRinging K now i w1)) i = Some c' \<and> lc_State c' = StateMissed \<and> lc_EndedAt c' = Some now)"
    if c: "calls (lw_store w) i = Some c" and st: "lc_State c = StateRinging" for c
  proof -
    define c' where "c' = c\<lparr>lc_State := StateMissed, lc_EndedAt := Some now, lc_EndReason := ''timeout''\<rparr>"
    have m: "call_moves c c'" using st by (simp add: call_moves_def c'_def CallState_IsTerminal_def)
    have ids: "lc_ID c' = i" using ok_call_id [OF w c] by (simp add: c'_def)
    obtain s' where s': "lk_UpdateCall K c' (lw_store w) = (Inr c', s')" "good s'"
      "calls s' = (calls (lw_store w))(i \<mapsto> c')" "meets s' = meets (lw_store w)" "present s' = present (lw_store w)"
      using update_call [of "lw_store w" c'] w c ids by (auto simp: ok_def)
    let ?w' = "expireRinging K now i w1"
    have w': "lw_store ?w' = s'" "lw_timers ?w' = lw_timers w1"
      using c st s'(1) by (simp_all add: expireRinging_def get_call st1 c'_def [symmetric] Let_def)
    have "abs ?w' = (abs w)\<lparr>sp_calls := (sp_calls (abs w))(i \<mapsto> c'), sp_timers := sp_timers (abs w) - {#i#}\<rparr>"
      by (rule abs_eq [symmetric]) (simp_all add: s' w' tm [simplified])
    moreover have "lc_State c' = StateMissed" by (simp add: c'_def)
    ultimately show ?thesis using spec_step.ring_out [of "abs w" i c c'] c m s' w' by (simp add: goes_def c'_def)
  qed
  show "goes w (expireRinging K now i w1)"
  proof (cases "\<exists>c. calls (lw_store w) i = Some c \<and> lc_State c = StateRinging")
    case False
    then have "expireRinging K now i w1 = w1" by (auto simp: expireRinging_def get_call w1_def split: option.splits)
    then show ?thesis using late False by auto
  qed (use ring in blast)
  show "calls (lw_store w) i = Some c \<Longrightarrow> lc_State c = StateRinging \<Longrightarrow>
      \<exists>c'. calls (lw_store (expireRinging K now i w1)) i = Some c' \<and> lc_State c' = StateMissed \<and> lc_EndedAt c' = Some now"
    using ring by blast
qed

lemma capped_participants_bounds: "1 \<le> capped_participants n \<and> capped_participants n \<le> MaxMeetingParticipantsCap"
  by (simp add: capped_participants_def DefaultMaxMeetingParticipants_def MaxMeetingParticipantsCap_def Let_def)

lemma create_meeting_goes:
  assumes w: "ok w" and n: "n \<noteq> uuid_Nil" "meets (lw_store w) n = None"
  shows "goes w (snd (CreateMeeting K n now title u maxP r w))"
proof (cases "title = []")
  case False
  let ?m = "scheduled_meeting n now title u (capped_participants maxP) r"
  have id: "mt_ID ?m = n" and pl: "planned n ?m"
    using capped_participants_bounds by (simp_all add: scheduled_meeting_def planned_def)
  obtain s' where s': "lk_CreateMeeting K n ?m (lw_store w) = (Inr ?m, s')" "good s'" "calls s' = calls (lw_store w)"
    "meets s' = (meets (lw_store w))(n \<mapsto> ?m)" "present s' = present (lw_store w)"
    using create_meeting [of "lw_store w" ?m n] w n id by (auto simp: ok_def)
  let ?w' = "snd (CreateMeeting K n now title u maxP r w)"
  have w': "?w' = w\<lparr>lw_store := s'\<rparr>" using False s'(1) by (simp add: CreateMeeting_def)
  have "abs ?w' = (abs w)\<lparr>sp_meets := (sp_meets (abs w))(n \<mapsto> ?m)\<rparr>"
    by (rule abs_eq [symmetric]) (simp_all add: s' w')
  then show ?thesis using spec_step.plan [of "abs w" n ?m] n pl s'(2) w' by (simp add: goes_def)
qed (simp add: CreateMeeting_def goes_refl [OF w])

text \<open>Adding a participant; a scheduled meeting has been activated just before.\<close>

lemma add_after:
  assumes "good s" and "meets s i \<noteq> None"
  obtains s' where "lk_AddParticipant K \<lparr>pt_MeetingID = i, pt_UserID = u, pt_JoinedAt = now, pt_LeftAt = None\<rparr> s = (Inr (), s')"
    "good s'" "calls s' = calls s" "meets s' = meets s" "present s' = (present s)(i := insert u (present s i))"
  using add_participant [of s "\<lparr>pt_MeetingID = i, pt_UserID = u, pt_JoinedAt = now, pt_LeftAt = None\<rparr>"] assms by auto

lemma join_store:
  assumes "lk_GetMeeting K i (lw_store w) = Inr m" and "mt_State m \<noteq> MeetingStateEnded"
    and "lk_CountActiveParticipants K i (lw_store w) = Inr n" and "n < mt_MaxParticipants m"
    and "activate_meeting K now room m w = (Inr m', w1)"
    and "lk_AddParticipant K \<lparr>pt_MeetingID = i, pt_UserID = u, pt_JoinedAt = now, pt_LeftAt = None\<rparr> (lw_store w1) = (Inr (), s')"
  shows "snd (JoinMeeting K cf now room tok i u w) = w1\<lparr>lw_store := s'\<rparr>"
  using assms by (simp add: JoinMeeting_def Let_def split: sum.split)

lemma join_goes:
  assumes w: "ok w"
  shows "goes w (snd (JoinMeeting K cf now room tok i u w))"
proof (cases "meets (lw_store w) i")
  case (Some m)
  have good: "good (lw_store w)" using w by (simp add: ok_def)
  note mt = ok_meeting [OF w Some]
  note cnt = count_active [OF good, of i]
  have get: "lk_GetMeeting K i (lw_store w) = Inr m" using Some by (simp add: get_meeting)
  show ?thesis
  proof (cases "mt_State m \<noteq> MeetingStateEnded \<and> int (card (present (lw_store w) i)) < mt_MaxParticipants m")
    case False
    then show ?thesis using get cnt by (auto simp: JoinMeeting_def goes_refl [OF w])
  next
    case open': True
    show ?thesis
    proof (cases "mt_State m = MeetingStateScheduled")
      case True
      show ?thesis
      proof (cases room)
        case (Inl e)
        then show ?thesis using get cnt open' True by (simp add: JoinMeeting_def activate_meeting_def goes_refl [OF w])
      next
        case (Inr x)
        define m' where "m' = m\<lparr>mt_State := MeetingStateActive, mt_StartedAt := Some now\<rparr>"
        have mv: "meeting_moves m m'" "mt_State m' = MeetingStateActive" "mt_ID m' = i"
          using True mt by (simp_all add: meeting_moves_def m'_def)
        obtain s1 where s1: "lk_UpdateMeeting K m' (lw_store w) = (Inr m', s1)" "good s1" "calls s1 = calls (lw_store w)"
          "meets s1 = (meets (lw_store w))(i \<mapsto> m')" "present s1 = present (lw_store w)"
          using update_meeting [OF good, of m'] Some mv(3) by auto
        have act: "activate_meeting K now room m w = (Inr m', w\<lparr>lw_store := s1\<rparr>)"
          using True Inr s1(1) by (simp add: activate_meeting_def m'_def [symmetric])
        obtain s' where s': "lk_AddParticipant K \<lparr>pt_MeetingID = i, pt_UserID = u, pt_JoinedAt = now, pt_LeftAt = None\<rparr> s1 = (Inr (), s')"
          "good s'" "calls s' = calls s1" "meets s' = meets s1" "present s' = (present s1)(i := insert u (present s1 i))"
          using add_after [OF s1(2), of i u now] s1(4) by auto
        have w': "snd (JoinMeeting K cf now room tok i u w) = w\<lparr>lw_store := s'\<rparr>"
          using join_store [OF get _ cnt _ act, of u s' cf tok] open' s'(1) by simp
        have none: "present (lw_store w) i = {}" using mt True by (simp add: meeting_ok_def)
        have "abs (w\<lparr>lw_store := s'\<rparr>) =
            (abs w)\<lparr>sp_meets := (sp_meets (abs w))(i \<mapsto> m'), sp_present := (sp_present (abs w))(i := {u})\<rparr>"
          by (rule abs_eq [symmetric]) (simp_all add: s' s1 none)
        then show ?thesis using spec_step.start [of "abs w" i m m' u] Some mv none s'(2) w' by (simp add: goes_def)
      qed
    next
      case False
      then have st: "mt_State m = MeetingStateActive" using open' by (cases "mt_State m") auto
      then have act: "activate_meeting K now room m w = (Inr m, w)" by (simp add: activate_meeting_def)
      obtain s' where s': "lk_AddParticipant K \<lparr>pt_MeetingID = i, pt_UserID = u, pt_JoinedAt = now, pt_LeftAt = None\<rparr> (lw_store w) = (Inr (), s')"
        "good s'" "calls s' = calls (lw_store w)" "meets s' = meets (lw_store w)"
        "present s' = (present (lw_store w))(i := insert u (present (lw_store w) i))"
        using add_after [OF good, of i u now] Some by auto
      have w': "snd (JoinMeeting K cf now room tok i u w) = w\<lparr>lw_store := s'\<rparr>"
        using join_store [OF get _ cnt _ act, of u s' cf tok] open' s'(1) by simp
      have "abs (w\<lparr>lw_store := s'\<rparr>) = (abs w)\<lparr>sp_present := (sp_present (abs w))(i := insert u (sp_present (abs w) i))\<rparr>"
        by (rule abs_eq [symmetric]) (simp_all add: s')
      then show ?thesis using spec_step.join [of "abs w" i m u] Some st open' s'(2) w' by (simp add: goes_def)
    qed
  qed
qed (simp add: JoinMeeting_def get_meeting goes_refl [OF w])

text \<open>Ending a stored meeting that has not ended.\<close>

lemma end_meeting_store:
  fixes now :: go_time
  assumes "good s" and "meets s (mt_ID m) \<noteq> None" and "mt_State m \<noteq> MeetingStateEnded"
  defines "m' \<equiv> m\<lparr>mt_State := MeetingStateEnded, mt_EndedAt := Some now\<rparr>"
  obtains s' where "\<And>w. lw_store w = s \<Longrightarrow> end_meeting K now m w = (Inr (), w\<lparr>lw_store := s'\<rparr>)"
    "good s'" "calls s' = calls s" "meets s' = (meets s)(mt_ID m \<mapsto> m')" "present s' = present s"
proof -
  have id: "mt_ID m' = mt_ID m" by (simp add: m'_def)
  from assms(1,2) update_meeting [of s m'] obtain s' where
    s': "lk_UpdateMeeting K m' s = (Inr m', s')" "good s'" "calls s' = calls s" "meets s' = (meets s)(mt_ID m \<mapsto> m')"
      "present s' = present s" unfolding id by blast
  have "end_meeting K now m w = (Inr (), w\<lparr>lw_store := s'\<rparr>)" if "lw_store w = s" for w :: "'s lk_world"
    using assms(3) s'(1) that by (simp add: end_meeting_def m'_def [symmetric])
  with s' that show thesis by blast
qed

lemma end_meeting_goes:
  assumes w: "ok w" and m: "meets (lw_store w) i = Some m"
  shows "goes w (snd (end_meeting K now m w))"
proof (cases "mt_State m = MeetingStateEnded")
  case False
  let ?m' = "m\<lparr>mt_State := MeetingStateEnded, mt_EndedAt := Some now\<rparr>"
  have good: "good (lw_store w)" using w by (simp add: ok_def)
  have id: "mt_ID m = i" using ok_meeting [OF w m] by simp
  obtain s' where s': "end_meeting K now m w = (Inr (), w\<lparr>lw_store := s'\<rparr>)" "good s'" "calls s' = calls (lw_store w)"
    "meets s' = (meets (lw_store w))(i \<mapsto> ?m')" "present s' = present (lw_store w)"
    using end_meeting_store [OF good, of m now] False m id by (metis option.distinct(1))
  have "abs (w\<lparr>lw_store := s'\<rparr>) = (abs w)\<lparr>sp_meets := (sp_meets (abs w))(i \<mapsto> ?m')\<rparr>"
    by (rule abs_eq [symmetric]) (simp_all add: s')
  moreover have "spec_step (abs w) ((abs w)\<lparr>sp_meets := (sp_meets (abs w))(i \<mapsto> ?m')\<rparr>)"
    using m end_meeting_moves [OF False] by (intro spec_step.close) simp_all
  ultimately show ?thesis using s'(1,2) by (simp add: goes_def)
qed (simp add: end_meeting_def goes_refl [OF w])

lemma end_meeting_op_goes:
  assumes w: "ok w"
  shows "goes w (snd (EndMeeting K now i u w))" and "goes w (snd (EndMeetingByRoom K parse now room w))"
  by (auto simp: EndMeeting_def EndMeetingByRoom_def get_meeting goes_refl [OF w] end_meeting_goes [OF w]
      split: sum.split option.split)

lemma leave_goes:
  assumes w: "ok w"
  shows "goes w (snd (LeaveMeeting K now i u w))"
proof (cases "u \<in> present (lw_store w) i")
  case False
  then show ?thesis using remove_absent w by (simp add: LeaveMeeting_def ok_def goes_refl [OF w])
next
  case True
  have good: "good (lw_store w)" using w by (simp add: ok_def)
  obtain m where m: "meets (lw_store w) i = Some m"
    using True w present_none [of "abs w" i] by (auto simp: ok_def)
  have id: "mt_ID m = i" and fin: "finite (present (lw_store w) i)"
    using ok_meeting [OF w m] by (simp_all add: meeting_ok_def)
  obtain s1 where s1: "lk_RemoveParticipant K i u now (lw_store w) = (Inr (), s1)" "good s1" "calls s1 = calls (lw_store w)"
    "meets s1 = meets (lw_store w)" "present s1 = (present (lw_store w))(i := present (lw_store w) i - {u})"
    using remove_participant [OF good True, of now] by blast
  note cnt = count_active [OF s1(2), of i]
  let ?w1 = "w\<lparr>lw_store := s1\<rparr>"
  have ab: "abs ?w1 = (abs w)\<lparr>sp_present := (sp_present (abs w))(i := sp_present (abs w) i - {u})\<rparr>"
    by (rule abs_eq [symmetric]) (simp_all add: s1)
  show ?thesis
  proof (cases "present (lw_store w) i - {u} \<noteq> {} \<or> mt_State m = MeetingStateEnded")
    case True
    have "snd (LeaveMeeting K now i u w) = ?w1"
    proof (cases "present (lw_store w) i - {u} = {}")
      case False
      then have "card (present s1 i) > 0" using fin by (simp add: s1 card_gt_0_iff)
      then show ?thesis using s1(1) cnt by (simp add: LeaveMeeting_def Let_def)
    qed (use s1 cnt m True in \<open>simp add: LeaveMeeting_def Let_def get_meeting end_meeting_def\<close>)
    moreover have "spec_step (abs w) (abs ?w1)"
      unfolding ab using True m by (intro spec_step.leave) auto
    ultimately show ?thesis using s1(2) by (simp add: goes_def)
  next
    case False
    let ?m' = "m\<lparr>mt_State := MeetingStateEnded, mt_EndedAt := Some now\<rparr>"
    have ne: "meets s1 (mt_ID m) \<noteq> None" "mt_State m \<noteq> MeetingStateEnded" using False m id s1(4) by simp_all
    obtain s' where em: "\<And>w. lw_store w = s1 \<Longrightarrow> end_meeting K now m w = (Inr (), w\<lparr>lw_store := s'\<rparr>)"
      and s'': "good s'" "calls s' = calls s1" "meets s' = (meets s1)(mt_ID m \<mapsto> ?m')" "present s' = present s1"
      by (rule end_meeting_store [OF s1(2) ne, of now]) blast
    have s': "end_meeting K now m ?w1 = (Inr (), ?w1\<lparr>lw_store := s'\<rparr>)" "good s'" "calls s' = calls s1"
      "meets s' = (meets s1)(i \<mapsto> ?m')" "present s' = present s1"
      using em [of ?w1] s'' by (simp_all add: id)
    have none: "present (lw_store w) i - {u} = {}" using False by simp
    have p1: "present s1 = (present (lw_store w))(i := {})" by (simp only: s1(5) none)
    then have "snd (LeaveMeeting K now i u w) = ?w1\<lparr>lw_store := s'\<rparr>"
      using s1(1,4) cnt m s'(1) by (simp add: LeaveMeeting_def Let_def get_meeting)
    moreover have "abs (?w1\<lparr>lw_store := s'\<rparr>) = (abs w)\<lparr>sp_meets := (sp_meets (abs w))(i \<mapsto> ?m'), sp_present := (sp_present (abs w))(i := {})\<rparr>"
      by (rule abs_eq [symmetric]) (simp_all add: s'(3-5) s1(3,4) p1)
    moreover have "mt_State m \<noteq> MeetingStateEnded" using False by simp
    ultimately show ?thesis using spec_step.empty_out [of "abs w" i m ?m'] m s'(2) end_meeting_moves by (simp add: goes_def)
  qed
qed

text \<open>Recordings are outside the machine.\<close>

lemma recording_goes:
  assumes w: "ok w" and s': "good s'" "calls s' = calls (lw_store w)" "meets s' = meets (lw_store w)"
    "present s' = present (lw_store w)"
  shows "goes w (w\<lparr>lw_store := s'\<rparr>)"
proof -
  have "abs (w\<lparr>lw_store := s'\<rparr>) = abs w" by (rule abs_eq) (simp_all add: s')
  then show ?thesis using s'(1) by (simp add: goes_def spec_step.idle)
qed

lemma recording_ops_go:
  assumes w: "ok w"
  shows "goes w (w\<lparr>lw_store := snd (StartRecording K n now egress i (lw_store w))\<rparr>)"
    and "goes w (w\<lparr>lw_store := snd (StopRecording K now stop i (lw_store w))\<rparr>)"
    and "goes w (w\<lparr>lw_store := snd (HandleEgressEnded K now e f sz d failed (lw_store w))\<rparr>)"
proof -
  have good: "good (lw_store w)" using w by (simp add: ok_def)
  note idle = goes_refl [OF w]
  have c: "goes w (w\<lparr>lw_store := s'\<rparr>)" if "lk_CreateRecording K n r (lw_store w) = (res, s')" for n r res s'
    using create_recording [OF good that] by (auto intro: recording_goes [OF w])
  have u: "goes w (w\<lparr>lw_store := s'\<rparr>)" if "lk_UpdateRecording K r (lw_store w) = (res, s')" for r res s'
    using update_recording [OF good that] by (auto intro: recording_goes [OF w])
  show "goes w (w\<lparr>lw_store := snd (StartRecording K n now egress i (lw_store w))\<rparr>)"
    by (auto simp: StartRecording_def idle split: sum.split prod.split intro: c)
  show "goes w (w\<lparr>lw_store := snd (StopRecording K now stop i (lw_store w))\<rparr>)"
    by (auto simp: StopRecording_def idle split: sum.split prod.split intro: u)
  show "goes w (w\<lparr>lw_store := snd (HandleEgressEnded K now e f sz d failed (lw_store w))\<rparr>)"
  proof (cases "lk_GetRecordingByEgressID K e (lw_store w)")
    case (Inr rcd)
    define r where "r = rcd\<lparr>rc_State := (if failed then RecordingStateFailed else RecordingStateCompleted),
      rc_FilePath := (if f \<noteq> [] then f else rc_FilePath rcd), rc_FileSize := (if sz > 0 then sz else rc_FileSize rcd),
      rc_Duration := (if d > 0 then d else rc_Duration rcd), rc_EndedAt := Some now\<rparr>"
    have "snd (HandleEgressEnded K now e f sz d failed (lw_store w)) = snd (lk_UpdateRecording K r (lw_store w))"
      unfolding HandleEgressEnded_def Inr Let_def sum.case r_def [symmetric] by (simp split: sum.split prod.split)
    then show ?thesis using u [of r] by (cases "lk_UpdateRecording K r (lw_store w)") simp
  qed (simp add: HandleEgressEnded_def idle)
qed

lemma webhook_goes:
  assumes w: "ok w"
  shows "goes w (WebhookHandler_dispatch K r parse now ev w)"
  by (simp add: WebhookHandler_dispatch_def dispatchParticipantJoined_def dispatchParticipantLeft_def
      dispatchRoomFinished_def dispatchEgressEnded_def goes_refl [OF w] mark_connected_goes [OF w] end_by_room_goes [OF w]
      leave_goes [OF w] end_meeting_op_goes [OF w] recording_ops_go [OF w] split: sum.split option.split prod.split)

text \<open>Every operation is a step of the machine, and so is every run.\<close>

lemma step_goes: "ok w \<Longrightarrow> lk_fresh K op w \<Longrightarrow> goes w (lk_step K cf parse op w)"
  by (cases op) (auto simp: get_call get_meeting goes_refl initiate_goes accept_goes decline_goes
      end_call_goes webhook_goes recording_ops_go timer_goes(1) create_meeting_goes join_goes leave_goes end_meeting_op_goes
      split: option.splits)

lemma run_goes:
  "ok w \<Longrightarrow> lk_fresh_run K cf parse ops w \<Longrightarrow> ok (lk_run K cf parse ops w) \<and> spec_step\<^sup>*\<^sup>* (abs w) (abs (lk_run K cf parse ops w))"
proof (induction ops arbitrary: w)
  case (Cons op ops)
  have go: "goes w (lk_step K cf parse op w)" using Cons.prems by (simp add: step_goes)
  from Cons.IH [OF goes_ok [OF Cons.prems(1) go]] Cons.prems(2) go show ?case
    by (auto simp: goes_def intro: converse_rtranclp_into_rtranclp)
qed simp
end

end
