(* ===== verification/Livekit_Properties.thy ===== *)
theory Livekit_Properties
  imports Livekit_Spec
begin

text \<open>
  The call and meeting service on the in-memory store: the store meets the contract, so that every run of the
  service is a run of the abstract machine, and what that gives for callers, for ringing calls and for meetings.
  A run is any sequence of requests, webhook notifications and timer expiries; new identifiers are new.
\<close>

section \<open>The in-memory store meets the contract\<close>

definition active_users :: "participant list \<Rightarrow> uuid list" where
  "active_users ps = map pt_UserID (filter (\<lambda>p. pt_LeftAt p = None) ps)"

definition lm_present :: "lk_memory \<Rightarrow> uuid \<Rightarrow> uuid set" where
  "lm_present s i = set (active_users (gm_get_or [] (lm_participants s) i))"

definition lm_good :: "lk_memory \<Rightarrow> bool" where
  "lm_good s \<longleftrightarrow> gm_ok (lm_calls s) \<and> (\<forall>i. distinct (active_users (gm_get_or [] (lm_participants s) i)))"

lemma active_users_simps [simp]:
  "active_users [] = []"
  "active_users (p # ps) = (if pt_LeftAt p = None then [pt_UserID p] else []) @ active_users ps"
  "active_users (ps @ [p]) = active_users ps @ (if pt_LeftAt p = None then [pt_UserID p] else [])"
  by (simp_all add: active_users_def)

lemma active_users_iff: "u \<in> set (active_users ps) \<longleftrightarrow> (\<exists>q\<in>set ps. pt_UserID q = u \<and> pt_LeftAt q = None)"
  by (induction ps) auto

lemma mark_left_None: "mark_left u t ps = None \<longleftrightarrow> u \<notin> set (active_users ps)"
  by (induction ps) auto

lemma mark_left_Some:
  "mark_left u t ps = Some qs \<Longrightarrow> distinct (active_users ps) \<Longrightarrow>
     distinct (active_users qs) \<and> set (active_users qs) = set (active_users ps) - {u}"
proof (induction ps arbitrary: qs)
  case (Cons p ps)
  show ?case
  proof (cases "pt_UserID p = u \<and> pt_LeftAt p = None")
    case True
    with Cons.prems show ?thesis by auto
  next
    case False
    then obtain rs where rs: "mark_left u t ps = Some rs" and qs: "qs = p # rs" using Cons.prems by auto
    have d: "distinct (active_users ps)" using Cons.prems(2) by simp
    note IH = Cons.IH [OF rs d]
    show ?thesis
    proof (cases "pt_LeftAt p = None")
      case True
      with False have "pt_UserID p \<noteq> u" by simp
      then show ?thesis using Cons.prems(2) True IH by (simp add: qs) blast
    next
      case False
      then have "active_users qs = active_users rs" "active_users (p # ps) = active_users ps" by (simp_all add: qs)
      then show ?thesis using IH by simp
    qed
  qed
qed simp

lemma lm_add_participant:
  assumes g: "lm_good s" and m: "gm_get (lm_meetings s) (pt_MeetingID p) \<noteq> None" and l: "pt_LeftAt p = None"
  shows "\<exists>s'. InMemoryStore_AddParticipant p s = (Inr (), s') \<and> lm_good s' \<and> gm_get (lm_calls s') = gm_get (lm_calls s) \<and>
     gm_get (lm_meetings s') = gm_get (lm_meetings s) \<and>
     lm_present s' = (lm_present s)(pt_MeetingID p := insert (pt_UserID p) (lm_present s (pt_MeetingID p)))"
proof -
  let ?ps = "gm_get_or [] (lm_participants s) (pt_MeetingID p)"
  obtain m where m': "gm_get (lm_meetings s) (pt_MeetingID p) = Some m" using m by auto
  have add: "InMemoryStore_AddParticipant p s =
      (Inr (), if pt_UserID p \<in> set (active_users ?ps) then s
               else s\<lparr>lm_participants := gm_put (pt_MeetingID p) (?ps @ [p]) (lm_participants s)\<rparr>)"
    unfolding active_users_iff InMemoryStore_AddParticipant_def m' Let_def by (simp only: option.case) presburger
  show ?thesis
  proof (cases "pt_UserID p \<in> set (active_users ?ps)")
    case True
    then have "insert (pt_UserID p) (lm_present s (pt_MeetingID p)) = lm_present s (pt_MeetingID p)"
      by (auto simp: lm_present_def)
    with g True add show ?thesis by simp
  next
    case False
    with g l show ?thesis unfolding add by (auto simp: lm_good_def lm_present_def fun_eq_iff)
  qed
qed

lemma lm_remove_participant:
  assumes g: "lm_good s" and u: "u \<in> lm_present s i"
  shows "\<exists>s'. InMemoryStore_RemoveParticipant i u t s = (Inr (), s') \<and> lm_good s' \<and> gm_get (lm_calls s') = gm_get (lm_calls s) \<and>
     gm_get (lm_meetings s') = gm_get (lm_meetings s) \<and> lm_present s' = (lm_present s)(i := lm_present s i - {u})"
proof -
  let ?ps = "gm_get_or [] (lm_participants s) i"
  obtain qs where qs: "mark_left u t ?ps = Some qs" using u mark_left_None [of u t ?ps] by (auto simp: lm_present_def)
  have "distinct (active_users qs)" "set (active_users qs) = set (active_users ?ps) - {u}"
    using mark_left_Some [OF qs] g by (simp_all add: lm_good_def)
  then show ?thesis using qs g
    by (auto simp: InMemoryStore_RemoveParticipant_def lm_good_def lm_present_def fun_eq_iff)
qed

lemma lm_active_call:
  assumes "lm_good s"
  shows "InMemoryStore_GetActiveCallForUser u s = Inr c \<Longrightarrow> \<exists>i. gm_get (lm_calls s) i = Some c \<and> active_for u c"
    and "InMemoryStore_GetActiveCallForUser u s = Inl e \<Longrightarrow>
      e = ErrCallNotFound \<and> (\<forall>i c. gm_get (lm_calls s) i = Some c \<longrightarrow> \<not> active_for u c)"
proof -
  have ok: "gm_ok (lm_calls s)" using assms by (simp add: lm_good_def)
  show "InMemoryStore_GetActiveCallForUser u s = Inr c \<Longrightarrow> \<exists>i. gm_get (lm_calls s) i = Some c \<and> active_for u c"
    using gm_vals_iff [OF ok, of c]
    by (auto simp: InMemoryStore_GetActiveCallForUser_def find_Some_iff in_set_conv_nth split: option.splits)
  show "InMemoryStore_GetActiveCallForUser u s = Inl e \<Longrightarrow>
      e = ErrCallNotFound \<and> (\<forall>i c. gm_get (lm_calls s) i = Some c \<longrightarrow> \<not> active_for u c)"
    using gm_vals_iff [OF ok]
    by (auto simp: InMemoryStore_GetActiveCallForUser_def find_None_iff split: option.splits)
qed

lemmas lm_ops =
  lk_InMemoryStore_def InMemoryStore_GetCall_def InMemoryStore_CreateCall_def InMemoryStore_UpdateCall_def
  InMemoryStore_GetMeeting_def InMemoryStore_CreateMeeting_def InMemoryStore_UpdateMeeting_def
  InMemoryStore_CreateRecording_def InMemoryStore_UpdateRecording_def

interpretation lkmem: livekit_store_spec lk_InMemoryStore "\<lambda>s. gm_get (lm_calls s)" "\<lambda>s. gm_get (lm_meetings s)"
  lm_present lm_good
proof (unfold_locales, goal_cases)
  case (2 s u c)
  then show ?case using lm_active_call(1) by (simp add: lk_InMemoryStore_def)
next
  case (3 s u e)
  then show ?case using lm_active_call(2) by (simp add: lk_InMemoryStore_def)
next
  case (9 s p)
  then show ?case using lm_add_participant by (simp add: lk_InMemoryStore_def)
next
  case (10 s u i t)
  then show ?case using lm_remove_participant by (simp add: lk_InMemoryStore_def)
next
  case (11 s u i t)
  then have "mark_left u t (gm_get_or [] (lm_participants s) i) = None" by (simp add: mark_left_None lm_present_def)
  then show ?case by (simp add: lk_InMemoryStore_def InMemoryStore_RemoveParticipant_def)
next
  case (14 s i)
  then have "distinct (active_users (gm_get_or [] (lm_participants s) i))" by (simp add: lm_good_def)
  from distinct_card [OF this] show ?case
    by (simp add: lk_InMemoryStore_def InMemoryStore_CountActiveParticipants_def lm_present_def active_users_def)
qed (auto simp: lm_ops lm_good_def lm_present_def fun_eq_iff Let_def split: option.splits)

section \<open>Properties\<close>

definition lk_new_world :: "lk_memory lk_world" where
  "lk_new_world = \<lparr>lw_store = lk_NewInMemoryStore, lw_sent = [], lw_timers = []\<rparr>"

abbreviation mem_run :: "lk_config \<Rightarrow> (string \<Rightarrow> uuid result) \<Rightarrow> lk_op list \<Rightarrow> lk_memory lk_world" where
  "mem_run cf parse ops \<equiv> lk_run lk_InMemoryStore cf parse ops lk_new_world"

abbreviation mem_fresh :: "lk_config \<Rightarrow> (string \<Rightarrow> uuid result) \<Rightarrow> lk_op list \<Rightarrow> bool" where
  "mem_fresh cf parse ops \<equiv> lk_fresh_run lk_InMemoryStore cf parse ops lk_new_world"

definition mem_abs :: "lk_memory lk_world \<Rightarrow> lk_spec" where
  "mem_abs w = lk_abs (\<lambda>s. gm_get (lm_calls s)) (\<lambda>s. gm_get (lm_meetings s)) lm_present w"

lemma mem_abs_abs: "lkmem.abs w = mem_abs w"
  by (simp add: lkmem.abs_def mem_abs_def)

lemma new_world_ok: "lkmem.ok lk_new_world" and mem_abs_new: "mem_abs lk_new_world = spec_init"
proof -
  show new: "mem_abs lk_new_world = spec_init"
    by (simp add: mem_abs_def lk_abs_def lk_new_world_def lk_NewInMemoryStore_def spec_init_def lm_present_def
        gm_get_or_def fun_eq_iff)
  have "lm_good (lw_store lk_new_world)" by (simp add: lm_good_def lk_new_world_def lk_NewInMemoryStore_def gm_get_or_def)
  then show "lkmem.ok lk_new_world" using new spec_init_inv by (simp add: lkmem.ok_def mem_abs_abs)
qed

lemma mem_run_ok: "mem_fresh cf parse ops \<Longrightarrow> lkmem.ok (mem_run cf parse ops)"
  using lkmem.run_goes [OF new_world_ok] by blast

lemma lk_run_append: "lk_run K cf parse (ops @ ops') w = lk_run K cf parse ops' (lk_run K cf parse ops w)"
  by (induction ops arbitrary: w) simp_all

lemma lk_fresh_run_append:
  "lk_fresh_run K cf parse (ops @ ops') w \<longleftrightarrow>
     lk_fresh_run K cf parse ops w \<and> lk_fresh_run K cf parse ops' (lk_run K cf parse ops w)"
  by (induction ops arbitrary: w) simp_all

text \<open>
  C13: refinement. Every run of the call and meeting service on the in-memory store, seen through its calls, meetings,
  present participants and pending timers, is a run of the abstract machine of the theory \<^verbatim>\<open>Livekit_Spec\<close> from
  its initial state.
\<close>

theorem livekit_refines_spec:
  assumes "lk_fresh_run lk_InMemoryStore cf parse ops lk_new_world"
  shows "spec_step\<^sup>*\<^sup>* spec_init (mem_abs (lk_run lk_InMemoryStore cf parse ops lk_new_world))"
  using lkmem.run_goes [OF new_world_ok assms] by (simp add: mem_abs_abs mem_abs_new)

definition demo_lk_config :: lk_config where
  "demo_lk_config = \<lparr>lf_livekitURL = ''wss'', lf_ringingTimeout = DefaultRingingTimeout, lf_tokenTTL = 3600 * second\<rparr>"

text \<open>Alice calls Bob; Carol cannot reach Bob; Bob accepts, the call connects, and the server closes the room.\<close>

definition room_event :: "string \<Rightarrow> string \<Rightarrow> webhook_event" where
  "room_event name room =
     \<lparr>we_Event = name, we_RoomName = room, we_NumParticipants = 2, we_Identity = [], we_Egress = None\<rparr>"

definition demo_lk_run :: "lk_op list" where
  "demo_lk_run =
     [OpInitiate ''c1'' 0 ''alice'' ''bob'' ''voice'', OpInitiate ''c2'' 1 ''carol'' ''bob'' ''video'',
      OpAccept 2 (Inr ''call-c1'') (Inr ''t1'') (Inr ''t2'') ''c1'' ''bob'', OpWebhook True 3 (room_event ''participant_joined'' ''call-c1''),
      OpCreateMeeting ''m1'' 4 ''sync'' ''alice'' 2 False, OpJoin 5 (Inr ()) (Inr ''t'') ''m1'' ''alice'',
      OpJoin 6 (Inr ()) (Inr ''t'') ''m1'' ''bob'', OpJoin 7 (Inr ()) (Inr ''t'') ''m1'' ''carol'']"

lemma demo_lk_fresh: "lk_fresh_run lk_InMemoryStore demo_lk_config Inr demo_lk_run lk_new_world"
  by code_simp

theorem livekit_refines_spec_witness:
  "spec_step\<^sup>*\<^sup>* spec_init (mem_abs (lk_run lk_InMemoryStore demo_lk_config Inr demo_lk_run lk_new_world)) \<and>
   map_option lc_State (sp_calls (mem_abs (lk_run lk_InMemoryStore demo_lk_config Inr demo_lk_run lk_new_world)) ''c1'')
     = Some StateConnected"
proof -
  have "map_option lc_State (gm_get (lm_calls (lw_store (lk_run lk_InMemoryStore demo_lk_config Inr demo_lk_run lk_new_world))) ''c1'')
      = Some StateConnected" by code_simp
  with livekit_refines_spec [OF demo_lk_fresh] show ?thesis by (simp add: mem_abs_def)
qed

text \<open>
  One call at a time. After any run, no call has the same caller and callee, a call has an end time exactly when it
  is declined, missed, failed or ended, and two calls that involve the same user and are neither of these are
  the same call.
\<close>

lemma livekit_one_active_call:
  assumes "lk_fresh_run lk_InMemoryStore cf parse ops lk_new_world"
    and "gm_get (lm_calls (lw_store (lk_run lk_InMemoryStore cf parse ops lk_new_world))) i = Some c"
  shows "lc_CallerID c \<noteq> lc_CalleeID c \<and> (lc_EndedAt c \<noteq> None \<longleftrightarrow> CallState_IsTerminal (lc_State c)) \<and>
    (\<forall>u j d. gm_get (lm_calls (lw_store (lk_run lk_InMemoryStore cf parse ops lk_new_world))) j = Some d \<longrightarrow>
       active_for u c \<longrightarrow> active_for u d \<longrightarrow> i = j)"
proof -
  have I: "calls_inv (mem_abs (mem_run cf parse ops))" using mem_run_ok [OF assms(1)] by (simp add: lkmem.ok_def mem_abs_abs)
  have c: "sp_calls (mem_abs (mem_run cf parse ops)) i = Some c" using assms(2) by (simp add: mem_abs_def)
  have "i = j" if "gm_get (lm_calls (lw_store (mem_run cf parse ops))) j = Some d" "active_for u c" "active_for u d" for u j d
    using calls_inv_unique [OF I c _ that(2,3), of j] that(1) by (simp add: mem_abs_def)
  then have "\<forall>u j d. gm_get (lm_calls (lw_store (mem_run cf parse ops))) j = Some d \<longrightarrow>
       active_for u c \<longrightarrow> active_for u d \<longrightarrow> i = j" by (intro allI impI)
  then show ?thesis using calls_invD [OF I c] by (intro conjI) simp_all
qed

theorem livekit_one_active_call_witness:
  "(let s = lw_store (lk_run lk_InMemoryStore demo_lk_config Inr demo_lk_run lk_new_world)
    in gm_get (lm_calls s) ''c1'' \<noteq> None \<and> active_for ''bob'' (the (gm_get (lm_calls s) ''c1'')) \<and>
       (\<forall>j d. gm_get (lm_calls s) j = Some d \<longrightarrow> active_for ''bob'' d \<longrightarrow> ''c1'' = j))"
proof -
  define s where "s = lw_store (lk_run lk_InMemoryStore demo_lk_config Inr demo_lk_run lk_new_world)"
  have a: "case gm_get (lm_calls s) ''c1'' of None \<Rightarrow> False | Some c \<Rightarrow> active_for ''bob'' c" unfolding s_def by code_simp
  then obtain c where c: "gm_get (lm_calls s) ''c1'' = Some c" "active_for ''bob'' c" by (auto split: option.splits)
  then have "gm_get (lm_calls s) ''c1'' \<noteq> None" "active_for ''bob'' (the (gm_get (lm_calls s) ''c1''))" by simp_all
  moreover have "\<forall>j d. gm_get (lm_calls s) j = Some d \<longrightarrow> active_for ''bob'' d \<longrightarrow> ''c1'' = j"
    using livekit_one_active_call [OF demo_lk_fresh c(1) [unfolded s_def], folded s_def] c(2) by blast
  ultimately show ?thesis unfolding Let_def s_def [symmetric] by (intro conjI)
qed

lemma spec_run_call:
  "spec_step\<^sup>*\<^sup>* \<sigma> \<sigma>' \<Longrightarrow> sp_calls \<sigma> i = Some c \<Longrightarrow> \<exists>c'. sp_calls \<sigma>' i = Some c' \<and> call_moves\<^sup>*\<^sup>* c c'"
proof (induction rule: rtranclp_induct)
  case (step \<sigma>' \<sigma>'')
  then obtain c' where c': "sp_calls \<sigma>' i = Some c'" "call_moves\<^sup>*\<^sup>* c c'" by blast
  from spec_step_call [OF step.hyps(2) c'(1)] c'(2) show ?case by (auto intro: rtranclp.rtrancl_into_rtrancl)
qed auto

lemma call_moves_star:
  assumes "call_moves\<^sup>*\<^sup>* c c'"
  shows "lc_CallerID c' = lc_CallerID c \<and> lc_CalleeID c' = lc_CalleeID c \<and> ValidCallTransition\<^sup>*\<^sup>* (lc_State c) (lc_State c')"
    and "CallState_IsTerminal (lc_State c) \<Longrightarrow> c' = c"
proof -
  show "lc_CallerID c' = lc_CallerID c \<and> lc_CalleeID c' = lc_CalleeID c \<and> ValidCallTransition\<^sup>*\<^sup>* (lc_State c) (lc_State c')"
    using assms
  proof (induction rule: rtranclp_induct)
    case (step d e)
    then have "ValidCallTransition (lc_State d) (lc_State e)" "lc_CallerID e = lc_CallerID d" "lc_CalleeID e = lc_CalleeID d"
      by (simp_all add: call_moves_def)
    with step.IH show ?case by (auto intro: rtranclp.rtrancl_into_rtrancl)
  qed simp
  show "CallState_IsTerminal (lc_State c) \<Longrightarrow> c' = c"
    using assms by (auto elim: converse_rtranclpE dest: call_moves_not_terminal)
qed

text \<open>
  The life of a call. Whatever happens after a run, a call that was stored stays stored, with the same parties; the
  states it goes through follow the transition table, and a call that had reached a terminal state is not
  changed in any field.
\<close>

lemma livekit_call_lifecycle:
  assumes "lk_fresh_run lk_InMemoryStore cf parse (ops @ ops') lk_new_world"
    and "gm_get (lm_calls (lw_store (lk_run lk_InMemoryStore cf parse ops lk_new_world))) i = Some c"
  shows "\<exists>c'. gm_get (lm_calls (lw_store (lk_run lk_InMemoryStore cf parse (ops @ ops') lk_new_world))) i = Some c' \<and>
     lc_CallerID c' = lc_CallerID c \<and> lc_CalleeID c' = lc_CalleeID c \<and>
     ValidCallTransition\<^sup>*\<^sup>* (lc_State c) (lc_State c') \<and> (CallState_IsTerminal (lc_State c) \<longrightarrow> c' = c)"
proof -
  have f: "mem_fresh cf parse ops" "lk_fresh_run lk_InMemoryStore cf parse ops' (mem_run cf parse ops)"
    using assms(1) by (simp_all add: lk_fresh_run_append)
  have "spec_step\<^sup>*\<^sup>* (mem_abs (mem_run cf parse ops)) (mem_abs (mem_run cf parse (ops @ ops')))"
    using lkmem.run_goes [OF mem_run_ok [OF f(1)] f(2)] by (simp add: mem_abs_abs lk_run_append)
  from spec_run_call [OF this, of i c] assms(2) obtain c' where
    "gm_get (lm_calls (lw_store (mem_run cf parse (ops @ ops')))) i = Some c'" "call_moves\<^sup>*\<^sup>* c c'"
    by (auto simp: mem_abs_def)
  with call_moves_star [of c c'] show ?thesis by blast
qed

definition demo_lk_more :: "lk_op list" where
  "demo_lk_more = [OpWebhook True 9 (room_event ''room_finished'' ''call-c1''), OpEndCall 10 ''c1'' ''alice'', OpTimer 0 40000000000]"

theorem livekit_call_lifecycle_witness:
  "\<exists>c'. gm_get (lm_calls (lw_store (lk_run lk_InMemoryStore demo_lk_config Inr (demo_lk_run @ demo_lk_more) lk_new_world))) ''c1''
        = Some c' \<and> lc_CalleeID c' = ''bob'' \<and> lc_State c' = StateEnded \<and>
     ValidCallTransition\<^sup>*\<^sup>* StateConnected (lc_State c')"
proof -
  let ?w = "lk_run lk_InMemoryStore demo_lk_config Inr demo_lk_run lk_new_world"
  let ?w' = "lk_run lk_InMemoryStore demo_lk_config Inr (demo_lk_run @ demo_lk_more) lk_new_world"
  have fresh: "lk_fresh_run lk_InMemoryStore demo_lk_config Inr (demo_lk_run @ demo_lk_more) lk_new_world" by code_simp
  have "map_option (\<lambda>c. (lc_CalleeID c, lc_State c)) (gm_get (lm_calls (lw_store ?w)) ''c1'') = Some (''bob'', StateConnected)"
    by code_simp
  then obtain c where c: "gm_get (lm_calls (lw_store ?w)) ''c1'' = Some c" "lc_CalleeID c = ''bob''" "lc_State c = StateConnected"
    by auto
  have e: "map_option lc_State (gm_get (lm_calls (lw_store ?w')) ''c1'') = Some StateEnded" by code_simp
  from livekit_call_lifecycle [OF fresh c(1)] obtain c' where
    "gm_get (lm_calls (lw_store ?w')) ''c1'' = Some c'" "lc_CalleeID c' = ''bob''" "ValidCallTransition\<^sup>*\<^sup>* StateConnected (lc_State c')"
    using c(2,3) by auto
  with e show ?thesis by auto
qed

text \<open>
  Nobody rings for ever. After any run, every ringing call has a pending timer, and when that timer fires, at its
  due time or later, the call is missed from then on; no ringing call can be left without one.
\<close>

lemma livekit_ringing_expires:
  assumes "lk_fresh_run lk_InMemoryStore cf parse ops lk_new_world"
    and "w = lk_run lk_InMemoryStore cf parse ops lk_new_world"
    and "gm_get (lm_calls (lw_store w)) i = Some c" and "lc_State c = StateRinging"
  shows "\<exists>k<length (lw_timers w). snd (lw_timers w ! k) = i \<and>
     (\<forall>now\<ge>fst (lw_timers w ! k). \<exists>c'. gm_get (lm_calls (lw_store (lk_step lk_InMemoryStore cf parse (OpTimer k now) w))) i = Some c' \<and>
        lc_State c' = StateMissed \<and> lc_EndedAt c' = Some now)"
proof -
  have ok: "lkmem.ok w" using mem_run_ok [OF assms(1)] assms(2) by simp
  have "i \<in># mset (map snd (lw_timers w))" using ok assms(3,4) by (auto simp: lkmem.ok_def calls_inv_def)
  then obtain k where k: "k < length (lw_timers w)" "snd (lw_timers w ! k) = i"
    by (auto simp: in_set_conv_nth)
  have "\<exists>c'. gm_get (lm_calls (lw_store (lk_step lk_InMemoryStore cf parse (OpTimer k now) w))) i = Some c' \<and>
        lc_State c' = StateMissed \<and> lc_EndedAt c' = Some now" if "now \<ge> fst (lw_timers w ! k)" for now
    using lkmem.timer_goes(2) [OF ok k(1), of c now] k assms(3,4) that by simp
  with k show ?thesis by blast
qed

definition demo_ring :: "lk_op list" where
  "demo_ring = [OpInitiate ''c1'' 0 ''alice'' ''bob'' ''voice'', OpTimer 0 5]"

theorem livekit_ringing_expires_witness:
  "(let w = lk_run lk_InMemoryStore demo_lk_config Inr demo_ring lk_new_world
    in \<exists>c'. gm_get (lm_calls (lw_store (lk_step lk_InMemoryStore demo_lk_config Inr (OpTimer 0 40000000000) w))) ''c1'' = Some c' \<and>
        lc_State c' = StateMissed)"
proof -
  define w where "w = lk_run lk_InMemoryStore demo_lk_config Inr demo_ring lk_new_world"
  have fresh: "lk_fresh_run lk_InMemoryStore demo_lk_config Inr demo_ring lk_new_world" by code_simp
  have "map_option lc_State (gm_get (lm_calls (lw_store w)) ''c1'') = Some StateRinging" unfolding w_def by code_simp
  then obtain c where c: "gm_get (lm_calls (lw_store w)) ''c1'' = Some c" "lc_State c = StateRinging" by auto
  have tm: "lw_timers w = [(30000000000, ''c1'')]" unfolding w_def by code_simp
  from livekit_ringing_expires [OF fresh w_def c]
  obtain k where "k < length (lw_timers w)" and late: "\<forall>now\<ge>fst (lw_timers w ! k).
      \<exists>c'. gm_get (lm_calls (lw_store (lk_step lk_InMemoryStore demo_lk_config Inr (OpTimer k now) w))) ''c1'' = Some c' \<and>
        lc_State c' = StateMissed \<and> lc_EndedAt c' = Some now" by blast
  then have "k = 0" using tm by simp
  then have "fst (lw_timers w ! k) \<le> 40000000000" using tm by simp
  with late \<open>k = 0\<close> show ?thesis unfolding Let_def w_def [symmetric] by blast
qed

text \<open>
  Meetings keep their bounds. After any run, a meeting has a capacity between 1 and 49 and never more present
  participants than that; it is end-to-end encrypted exactly when it is not recorded; it has an end time
  exactly when it has ended; nobody is present before it starts, and as long as it is active somebody is.
\<close>

lemma livekit_meeting_bounds:
  assumes "lk_fresh_run lk_InMemoryStore cf parse ops lk_new_world"
    and "s = lw_store (lk_run lk_InMemoryStore cf parse ops lk_new_world)"
    and "gm_get (lm_meetings s) i = Some m"
  shows "1 \<le> mt_MaxParticipants m \<and> mt_MaxParticipants m \<le> 49 \<and>
     distinct (active_users (gm_get_or [] (lm_participants s) i)) \<and>
     int (length (active_users (gm_get_or [] (lm_participants s) i))) \<le> mt_MaxParticipants m \<and>
     (mt_E2EEEnabled m \<longleftrightarrow> \<not> mt_RecordingEnabled m) \<and> (mt_EndedAt m \<noteq> None \<longleftrightarrow> mt_State m = MeetingStateEnded) \<and>
     (mt_State m = MeetingStateScheduled \<longrightarrow> active_users (gm_get_or [] (lm_participants s) i) = []) \<and>
     (mt_State m = MeetingStateActive \<longrightarrow> active_users (gm_get_or [] (lm_participants s) i) \<noteq> [])"
proof -
  have ok: "lkmem.ok (mem_run cf parse ops)" by (rule mem_run_ok [OF assms(1)])
  have "meeting_ok m (lm_present s i)" using lkmem.ok_meeting [OF ok] assms(2,3) by simp
  moreover have d: "distinct (active_users (gm_get_or [] (lm_participants s) i))"
    using ok assms(2) by (simp add: lkmem.ok_def lm_good_def)
  ultimately show ?thesis using distinct_card [OF d]
    by (auto simp: meeting_ok_def lm_present_def MaxMeetingParticipantsCap_def)
qed

theorem livekit_meeting_bounds_witness:
  "(let s = lw_store (lk_run lk_InMemoryStore demo_lk_config Inr demo_lk_run lk_new_world)
    in active_users (gm_get_or [] (lm_participants s) ''m1'') = [''alice'', ''bob''] \<and>
       (\<exists>m. gm_get (lm_meetings s) ''m1'' = Some m \<and> mt_MaxParticipants m = 2 \<and> mt_EndedAt m = None))"
proof -
  let ?s = "lw_store (lk_run lk_InMemoryStore demo_lk_config Inr demo_lk_run lk_new_world)"
  have "map_option (\<lambda>m. (mt_MaxParticipants m, mt_State m)) (gm_get (lm_meetings ?s) ''m1'') = Some (2, MeetingStateActive)"
    by code_simp
  then obtain m where m: "gm_get (lm_meetings ?s) ''m1'' = Some m" "mt_MaxParticipants m = 2" "mt_State m = MeetingStateActive"
    by auto
  have "active_users (gm_get_or [] (lm_participants ?s) ''m1'') = [''alice'', ''bob'']" by code_simp
  with livekit_meeting_bounds [OF demo_lk_fresh refl m(1)] m show ?thesis by auto
qed

text \<open>
  Room names. For a parser that reads back the identifiers the service prints, the identifier of a call or
  meeting is recovered from the name of its room, a call room is not a meeting room, and each of the two
  functions refuses the other kind of name.
\<close>

lemma livekit_room_names:
  assumes "parse n = Inr n"
  shows "CallIDFromRoomName parse (callRoomPrefix @ n) = Inr n \<and>
    MeetingIDFromRoomName parse (mt_RoomName (scheduled_meeting n now title u maxP r)) = Inr n \<and>
    \<not> IsMeetingRoom (callRoomPrefix @ n) \<and> \<not> IsCallRoom (meetingRoomPrefix @ n) \<and>
    (\<exists>e. MeetingIDFromRoomName parse (callRoomPrefix @ n) = Inl e) \<and>
    (\<exists>e. CallIDFromRoomName parse (meetingRoomPrefix @ n) = Inl e)"
  using assms
  by (simp_all add: CallIDFromRoomName_def MeetingIDFromRoomName_def IsCallRoom_def IsMeetingRoom_def callRoomPrefix_def
      meetingRoomPrefix_def scheduled_meeting_def HasPrefix_def TrimPrefix_def)

theorem livekit_room_names_witness:
  "CallIDFromRoomName Inr (callRoomPrefix @ ''7f'') = Inr ''7f'' \<and>
   MeetingIDFromRoomName Inr (mt_RoomName (scheduled_meeting ''7f'' 0 ''t'' ''u'' 5 False)) = Inr ''7f''"
  using livekit_room_names [of Inr "''7f''"] by simp

section \<open>Divergences\<close>

text \<open>
  Concurrency control is said to be delegated to the store, but the checks of \<^verbatim>\<open>InitiateCall\<close> and the creation
  are separate calls to it. Two requests that both pass the checks before either creates its call leave a
  user in two active calls.
\<close>

lemma concurrent_initiate_breaks_one_call:
  "let s0 = lw_store lk_new_world; K = lk_InMemoryStore;
       w = snd (initiate_commit K demo_lk_config ''c2'' 1 ''carol'' ''bob'' ''voice''
             (snd (initiate_commit K demo_lk_config ''c1'' 1 ''alice'' ''bob'' ''voice'' lk_new_world)))
   in initiate_checks K ''alice'' ''bob'' ''voice'' s0 = None \<and> initiate_checks K ''carol'' ''bob'' ''voice'' s0 = None \<and>
      length (filter (active_for ''bob'') (gm_vals (lm_calls (lw_store w)))) = 2"
  by code_simp

text \<open>A participant of a full meeting who joins again is refused, although adding a present participant does nothing.\<close>

lemma rejoin_full_meeting_refused:
  "let w = lk_run lk_InMemoryStore demo_lk_config Inr demo_lk_run lk_new_world
   in fst (JoinMeeting lk_InMemoryStore demo_lk_config 8 (Inr ()) (Inr ''t'') ''m1'' ''bob'' w) = Inl ErrMeetingFull \<and>
      InMemoryStore_AddParticipant \<lparr>pt_MeetingID = ''m1'', pt_UserID = ''bob'', pt_JoinedAt = 8, pt_LeftAt = None\<rparr> (lw_store w)
        = (Inr (), lw_store w)"
  by code_simp

end
