(* ===== verification/Issuer.thy ===== *)
theory Issuer
  imports Auth
begin

text \<open>
  The OpenID Connect issuer: the client registry of \<^verbatim>\<open>src/internal/aoid/clients\<close> and the authorization,
  token and user-info endpoints of \<^verbatim>\<open>src/internal/aoid/issuer\<close>, with their code and session stores. The
  authentication service they call is that of the theory \<^verbatim>\<open>Auth\<close>.

  A request is what the handlers read of it; a response is one of the shapes they write. Hashing, random
  strings, the signing of tokens, \<^verbatim>\<open>uuid.Parse\<close> and \<^verbatim>\<open>url.Parse\<close> are parameters in \<open>issuer_env\<close>, one
  environment per request.
\<close>

section \<open>The client registry\<close>

definition ErrClientNotFound :: go_error where "ErrClientNotFound = ErrVar ''client not found''"
definition ErrDuplicateClient :: go_error where "ErrDuplicateClient = ErrVar ''client already registered''"
definition ErrInvalidSecret :: go_error where "ErrInvalidSecret = ErrVar ''invalid client secret''"
definition ErrInvalidRedirect :: go_error where
  "ErrInvalidRedirect = ErrVar ''redirect_uri does not match a registered URI''"

record oidc_client =
  cl_ID :: string
  cl_SecretHash :: string
  cl_Name :: string
  cl_Type :: string
  cl_RedirectURIs :: "string list"
  cl_AllowedScopes :: "string list"
  cl_AllowedGrants :: "string list"
  cl_AuthMethod :: string
  cl_CreatedAt :: go_time

definition HasScope :: "oidc_client \<Rightarrow> string \<Rightarrow> bool" where
  "HasScope c s \<longleftrightarrow> s \<in> set (cl_AllowedScopes c)"

definition HasGrant :: "oidc_client \<Rightarrow> string \<Rightarrow> bool" where
  "HasGrant c g \<longleftrightarrow> g \<in> set (cl_AllowedGrants c)"

type_synonym registry = "(string, oidc_client) gomap"

definition MemoryRegistry_Lookup :: "string \<Rightarrow> registry \<Rightarrow> oidc_client result" where
  "MemoryRegistry_Lookup clientID r = (case gm_get r clientID of None \<Rightarrow> Inl ErrClientNotFound | Some c \<Rightarrow> Inr c)"

definition MemoryRegistry_Register :: "go_time \<Rightarrow> oidc_client \<Rightarrow> registry \<Rightarrow> unit result \<times> registry" where
  "MemoryRegistry_Register now client r =
     (if cl_ID client = [] then (Inl (ErrMsg ''clients: client ID required''), r)
      else (case gm_get r (cl_ID client) of
              Some _ \<Rightarrow> (Inl ErrDuplicateClient, r)
            | None \<Rightarrow>
                let c = (if cl_CreatedAt client = 0 then client\<lparr>cl_CreatedAt := now\<rparr> else client)
                in (Inr (), gm_put (cl_ID client) c r)))"

text \<open>\<open>hexDecode\<close> is \<^verbatim>\<open>hex.DecodeString\<close> and \<open>sha256\<close> the 32 bytes of the digest.\<close>

definition MemoryRegistry_Authenticate ::
  "(string \<Rightarrow> string option) \<Rightarrow> (string \<Rightarrow> string) \<Rightarrow> string \<Rightarrow> string \<Rightarrow> registry \<Rightarrow> oidc_client result" where
  "MemoryRegistry_Authenticate hexDecode sha256 clientID secret r =
     (case MemoryRegistry_Lookup clientID r of
        Inl err \<Rightarrow> Inl err
      | Inr c \<Rightarrow>
          if cl_SecretHash c = [] then Inl ErrInvalidSecret
          else (case hexDecode (cl_SecretHash c) of
                  None \<Rightarrow> Inl ErrInvalidSecret
                | Some want \<Rightarrow> if want \<noteq> sha256 secret then Inl ErrInvalidSecret else Inr c))"

definition MemoryRegistry_ValidateRedirect :: "oidc_client \<Rightarrow> string \<Rightarrow> go_error option" where
  "MemoryRegistry_ValidateRedirect client redirectURI =
     (if redirectURI \<in> set (cl_RedirectURIs client) then None else Some ErrInvalidRedirect)"

definition AODexClientID :: string where "AODexClientID = ''aodex-pilot''"

definition aodex_client :: "(string \<Rightarrow> string) \<Rightarrow> string \<Rightarrow> string list \<Rightarrow> oidc_client" where
  "aodex_client hashSecret clientSecret redirectURIs =
     \<lparr>cl_ID = AODexClientID, cl_SecretHash = hashSecret clientSecret, cl_Name = ''AODex (pilot)'',
      cl_Type = ''confidential'', cl_RedirectURIs = redirectURIs,
      cl_AllowedScopes = [''openid'', ''profile'', ''email'', ''offline_access''],
      cl_AllowedGrants = [''authorization_code'', ''refresh_token''],
      cl_AuthMethod = ''client_secret_basic'', cl_CreatedAt = 0\<rparr>"

definition SeedAODex ::
  "(string \<Rightarrow> string) \<Rightarrow> go_time \<Rightarrow> string \<Rightarrow> string list \<Rightarrow> registry \<Rightarrow> unit result \<times> registry" where
  "SeedAODex hashSecret now clientSecret redirectURIs r =
     (if clientSecret = [] then (Inl (ErrMsg ''clients: SeedAODex: empty client secret''), r)
      else if redirectURIs = [] then (Inl (ErrMsg ''clients: SeedAODex: redirect URIs required''), r)
      else (case MemoryRegistry_Register now (aodex_client hashSecret clientSecret redirectURIs) r of
              (Inl err, r') \<Rightarrow> if errors_is err ErrDuplicateClient then (Inr (), r') else (Inl err, r')
            | (Inr _, r') \<Rightarrow> (Inr (), r')))"

section \<open>Codes and sessions\<close>

definition ErrCodeNotFound :: go_error where "ErrCodeNotFound = ErrVar ''code not found''"
definition ErrCodeExpired :: go_error where "ErrCodeExpired = ErrVar ''code expired''"
definition ErrSessionNotFound :: go_error where "ErrSessionNotFound = ErrVar ''session not found''"

record auth_code =
  co_Code :: string
  co_ClientID :: string
  co_UserID :: string
  co_Scope :: "string list"
  co_RedirectURI :: string
  co_CodeChallenge :: string
  co_CodeChallengeMethod :: string
  co_Nonce :: string
  co_ExpiresAt :: go_time
  co_CreatedAt :: go_time

text \<open>The interface of the code store; an operation that reads the clock takes the reading.\<close>

record 'c code_store =
  cs_Save :: "auth_code \<Rightarrow> 'c \<Rightarrow> unit result \<times> 'c"
  cs_Consume :: "go_time \<Rightarrow> string \<Rightarrow> 'c \<Rightarrow> auth_code result \<times> 'c"

type_synonym memory_codes = "(string, auth_code) gomap"

definition MemoryCodeStore_Save :: "auth_code \<Rightarrow> memory_codes \<Rightarrow> unit result \<times> memory_codes" where
  "MemoryCodeStore_Save c m =
     (if co_Code c = [] then (Inl (ErrMsg ''codes: empty code string''), m)
      else if co_ExpiresAt c = 0 then (Inl (ErrMsg ''codes: ExpiresAt unset''), m)
      else (case gm_get m (co_Code c) of
              Some _ \<Rightarrow> (Inl (ErrMsg ''codes: duplicate code''), m)
            | None \<Rightarrow> (Inr (), gm_put (co_Code c) c m)))"

definition MemoryCodeStore_Consume :: "go_time \<Rightarrow> string \<Rightarrow> memory_codes \<Rightarrow> auth_code result \<times> memory_codes" where
  "MemoryCodeStore_Consume now codeStr m =
     (case gm_get m codeStr of
        None \<Rightarrow> (Inl ErrCodeNotFound, m)
      | Some c \<Rightarrow>
          if now > co_ExpiresAt c then (Inl ErrCodeExpired, gm_del codeStr m)
          else (Inr c, gm_del codeStr m))"

text \<open>One round of the background pruner.\<close>

definition MemoryCodeStore_prune :: "go_time \<Rightarrow> memory_codes \<Rightarrow> memory_codes" where
  "MemoryCodeStore_prune now m = gm_remove (\<lambda>_ c. now > co_ExpiresAt c) m"

definition MemoryCodeStore :: "memory_codes code_store" where
  "MemoryCodeStore = \<lparr>cs_Save = MemoryCodeStore_Save, cs_Consume = MemoryCodeStore_Consume\<rparr>"

record mem_session =
  se_UserID :: string
  se_ExpiresAt :: go_time

type_synonym memory_sessions = "(string, mem_session) gomap"

definition MemorySessionStore_Create ::
  "string result \<Rightarrow> string \<Rightarrow> go_time \<Rightarrow> memory_sessions \<Rightarrow> string result \<times> memory_sessions" where
  "MemorySessionStore_Create rnd userID expiresAt m =
     (case rnd of
        Inl err \<Rightarrow> (Inl err, m)
      | Inr i \<Rightarrow> (Inr i, gm_put i \<lparr>se_UserID = userID, se_ExpiresAt = expiresAt\<rparr> m))"

definition MemorySessionStore_Lookup :: "go_time \<Rightarrow> string \<Rightarrow> memory_sessions \<Rightarrow> string result \<times> memory_sessions" where
  "MemorySessionStore_Lookup now sessionID m =
     (case gm_get m sessionID of
        None \<Rightarrow> (Inl ErrSessionNotFound, m)
      | Some sess \<Rightarrow>
          if now > se_ExpiresAt sess then (Inl ErrSessionNotFound, gm_del sessionID m)
          else (Inr (se_UserID sess), m))"

definition MemorySessionStore_Destroy :: "string \<Rightarrow> memory_sessions \<Rightarrow> unit result \<times> memory_sessions" where
  "MemorySessionStore_Destroy sessionID m = (Inr (), gm_del sessionID m)"

section \<open>Requests, responses and the issuer\<close>

text \<open>
  \<open>rq_Query\<close> and \<open>rq_Form\<close> are \<^verbatim>\<open>r.URL.Query().Get\<close> and \<^verbatim>\<open>r.FormValue\<close>; \<open>rq_Basic\<close> is the HTTP Basic
  credential, \<open>rq_Cookie\<close> the session cookie and \<open>rq_Authorization\<close> the header.
\<close>

record http_request =
  rq_Method :: string
  rq_Parses :: bool
  rq_Query :: "string \<Rightarrow> string"
  rq_Form :: "string \<Rightarrow> string"
  rq_Basic :: "(string \<times> string) option"
  rq_Cookie :: "string option"
  rq_Authorization :: string

record token_bundle =
  tb_AccessToken :: string
  tb_TokenType :: string
  tb_ExpiresIn :: int
  tb_IDToken :: string
  tb_RefreshToken :: string
  tb_Scope :: string

record id_claims =
  ic_Subject :: string
  ic_Issuer :: string
  ic_Audience :: string
  ic_ExpiresAt :: go_time
  ic_IssuedAt :: go_time
  ic_NotBefore :: go_time
  ic_ID :: string
  ic_AuthTime :: go_time
  ic_Nonce :: string
  ic_Email :: string
  ic_EmailVerified :: bool
  ic_Name :: string
  ic_PreferredUsername :: string

datatype http_response =
    PlainError int string
  | AuthorizeError string string
  | RedirectError string string string string
  | RedirectCode string string string
  | LoginPage string
  | TokenError int string string
  | TokenResponse token_bundle
  | UserinfoResponse string string bool string

record issuer_config =
  if_Issuer :: string
  if_AuthCodeTTL :: duration
  if_SessionTTL :: duration

record issuer_env =
  ie_Auth :: auth_env
  ie_now :: go_time
  ie_NewCode :: "string result"
  ie_NewSession :: "string result"
  ie_S256 :: "string \<Rightarrow> string"
  ie_HexDecode :: "string \<Rightarrow> string option"
  ie_Sha256 :: "string \<Rightarrow> string"
  ie_ParseUUID :: "string \<Rightarrow> uuid result"
  ie_ParsesURL :: "string \<Rightarrow> bool"
  ie_RandomID :: string
  ie_SignIDToken :: "id_claims \<Rightarrow> string result"
  ie_ValidateAccessToken :: "string \<Rightarrow> string result"

record ('c, 's) issuer_state =
  is_clients :: registry
  is_codes :: 'c
  is_sessions :: memory_sessions
  is_store :: 's

definition DefaultConfig :: issuer_config where
  "DefaultConfig = \<lparr>if_Issuer = [], if_AuthCodeTTL = 10 * minute, if_SessionTTL = 24 * 60 * minute\<rparr>"

definition issuer_New :: "issuer_config \<Rightarrow> registry \<Rightarrow> 's \<Rightarrow> issuer_config \<times> (memory_codes, 's) issuer_state" where
  "issuer_New cf reg s =
     (cf\<lparr>if_AuthCodeTTL := (if if_AuthCodeTTL cf = 0 then 10 * minute else if_AuthCodeTTL cf),
         if_SessionTTL := (if if_SessionTTL cf = 0 then 24 * 60 * minute else if_SessionTTL cf)\<rparr>,
      \<lparr>is_clients = reg, is_codes = [], is_sessions = [], is_store = s\<rparr>)"

section \<open>The authorization endpoint\<close>

record authorize_request =
  aq_ResponseType :: string
  aq_ClientID :: string
  aq_RedirectURI :: string
  aq_Scope :: string
  aq_State :: string
  aq_Nonce :: string
  aq_CodeChallenge :: string
  aq_CodeChallengeMethod :: string
  aq_Prompt :: string

definition request_param :: "http_request \<Rightarrow> string \<Rightarrow> string" where
  "request_param r k = (if rq_Query r k \<noteq> [] then rq_Query r k else rq_Form r k)"

definition parseAuthorizeRequest :: "http_request \<Rightarrow> authorize_request" where
  "parseAuthorizeRequest r =
     \<lparr>aq_ResponseType = request_param r ''response_type'', aq_ClientID = request_param r ''client_id'',
      aq_RedirectURI = request_param r ''redirect_uri'', aq_Scope = request_param r ''scope'',
      aq_State = request_param r ''state'', aq_Nonce = request_param r ''nonce'',
      aq_CodeChallenge = request_param r ''code_challenge'',
      aq_CodeChallengeMethod = request_param r ''code_challenge_method'', aq_Prompt = request_param r ''prompt''\<rparr>"

definition splitScopes :: "string \<Rightarrow> string list" where
  "splitScopes s = (if TrimSpace s = [] then [] else Fields s)"

definition redirectErr :: "issuer_env \<Rightarrow> string \<Rightarrow> string \<Rightarrow> string \<Rightarrow> string \<Rightarrow> http_response" where
  "redirectErr E redirectURI code desc state =
     (if \<not> ie_ParsesURL E redirectURI then PlainError 400 ''bad redirect_uri''
      else RedirectError redirectURI code desc state)"

definition issued_code :: "issuer_config \<Rightarrow> go_time \<Rightarrow> string \<Rightarrow> authorize_request \<Rightarrow> string \<Rightarrow> auth_code" where
  "issued_code cf now code ar userID =
     \<lparr>co_Code = code, co_ClientID = aq_ClientID ar, co_UserID = userID, co_Scope = splitScopes (aq_Scope ar),
      co_RedirectURI = aq_RedirectURI ar, co_CodeChallenge = aq_CodeChallenge ar,
      co_CodeChallengeMethod = aq_CodeChallengeMethod ar, co_Nonce = aq_Nonce ar,
      co_ExpiresAt = now + if_AuthCodeTTL cf, co_CreatedAt = now\<rparr>"

definition completeAuthorization ::
  "'c code_store \<Rightarrow> issuer_config \<Rightarrow> issuer_env \<Rightarrow> authorize_request \<Rightarrow> string \<Rightarrow> ('c, 's) issuer_state \<Rightarrow>
   http_response \<times> ('c, 's) issuer_state" where
  "completeAuthorization C cf E ar userID st =
     (case ie_NewCode E of
        Inl _ \<Rightarrow> (redirectErr E (aq_RedirectURI ar) ''server_error'' ''could not generate code'' (aq_State ar), st)
      | Inr code \<Rightarrow>
          (case cs_Save C (issued_code cf (ie_now E) code ar userID) (is_codes st) of
             (Inl _, c') \<Rightarrow>
               (redirectErr E (aq_RedirectURI ar) ''server_error'' ''could not persist code'' (aq_State ar), st\<lparr>is_codes := c'\<rparr>)
           | (Inr _, c') \<Rightarrow>
               (if \<not> ie_ParsesURL E (aq_RedirectURI ar) then PlainError 400 ''bad redirect_uri''
                else RedirectCode (aq_RedirectURI ar) code (aq_State ar),
                st\<lparr>is_codes := c'\<rparr>)))"

text \<open>The session cookie that a successful login sets is the new session identifier of the store.\<close>

definition handleLoginPost ::
  "'s auth_store \<Rightarrow> 'c code_store \<Rightarrow> issuer_config \<Rightarrow> issuer_env \<Rightarrow> http_request \<Rightarrow> authorize_request \<Rightarrow>
   ('c, 's) issuer_state \<Rightarrow> http_response \<times> ('c, 's) issuer_state" where
  "handleLoginPost A C cf E r ar st =
     (let email = TrimSpace (rq_Form r ''email''); password = rq_Form r ''password''
      in if email = [] \<or> password = [] then (LoginPage ''Enter both email and password.'', st)
         else (case AuthService_Login A (ie_Auth E) email password (is_store st) of
                 (Inl _, s') \<Rightarrow> (LoginPage ''Invalid email or password.'', st\<lparr>is_store := s'\<rparr>)
               | (Inr resp, s') \<Rightarrow>
                   let m = snd (MemorySessionStore_Create (ie_NewSession E) (us_ID (rp_User resp))
                                 (ie_now E + if_SessionTTL cf) (is_sessions st))
                   in completeAuthorization C cf E ar (us_ID (rp_User resp)) (st\<lparr>is_store := s', is_sessions := m\<rparr>)))"

definition currentUser :: "issuer_env \<Rightarrow> http_request \<Rightarrow> ('c, 's) issuer_state \<Rightarrow> string \<times> ('c, 's) issuer_state" where
  "currentUser E r st =
     (case rq_Cookie r of
        None \<Rightarrow> ([], st)
      | Some sid \<Rightarrow>
          (case MemorySessionStore_Lookup (ie_now E) sid (is_sessions st) of
             (Inl _, m) \<Rightarrow> ([], st\<lparr>is_sessions := m\<rparr>)
           | (Inr uid, m) \<Rightarrow> (uid, st\<lparr>is_sessions := m\<rparr>)))"

text \<open>The checks before anything is done for the request; \<open>Inr\<close> carries the client.\<close>

definition authorize_checks ::
  "issuer_env \<Rightarrow> authorize_request \<Rightarrow> registry \<Rightarrow> http_response + oidc_client" where
  "authorize_checks E ar reg =
     (if aq_ClientID ar = [] then Inl (PlainError 400 ''missing client_id'')
      else (case MemoryRegistry_Lookup (aq_ClientID ar) reg of
              Inl _ \<Rightarrow> Inl (AuthorizeError ''invalid_client'' ''unknown client_id'')
            | Inr client \<Rightarrow>
                if aq_RedirectURI ar = [] then Inl (AuthorizeError ''invalid_request'' ''missing redirect_uri'')
                else if MemoryRegistry_ValidateRedirect client (aq_RedirectURI ar) \<noteq> None
                then Inl (AuthorizeError ''invalid_redirect_uri'' ''redirect_uri does not match registered URI'')
                else if aq_ResponseType ar \<noteq> ''code''
                then Inl (redirectErr E (aq_RedirectURI ar) ''unsupported_response_type''
                            ''only response_type=code is supported'' (aq_State ar))
                else if aq_CodeChallenge ar = [] \<or> aq_CodeChallengeMethod ar \<noteq> ''S256''
                then Inl (redirectErr E (aq_RedirectURI ar) ''invalid_request''
                            ''code_challenge with method=S256 is required (PKCE)'' (aq_State ar))
                else if ''openid'' \<notin> set (splitScopes (aq_Scope ar))
                then Inl (redirectErr E (aq_RedirectURI ar) ''invalid_scope'' ''scope must include openid'' (aq_State ar))
                else (case find (\<lambda>s. \<not> HasScope client s) (splitScopes (aq_Scope ar)) of
                        Some s \<Rightarrow> Inl (redirectErr E (aq_RedirectURI ar) ''invalid_scope''
                                        (''scope %q not allowed for this client: '' @ s) (aq_State ar))
                      | None \<Rightarrow> Inr client)))"

definition AuthorizeHandler ::
  "'s auth_store \<Rightarrow> 'c code_store \<Rightarrow> issuer_config \<Rightarrow> issuer_env \<Rightarrow> http_request \<Rightarrow> ('c, 's) issuer_state \<Rightarrow>
   http_response \<times> ('c, 's) issuer_state" where
  "AuthorizeHandler A C cf E r st =
     (if \<not> rq_Parses r then (PlainError 400 ''bad request'', st)
      else let ar = parseAuthorizeRequest r
           in case authorize_checks E ar (is_clients st) of
                Inl resp \<Rightarrow> (resp, st)
              | Inr client \<Rightarrow>
                  if rq_Method r = ''POST'' \<and> rq_Form r ''aoid_login'' = ''1'' then handleLoginPost A C cf E r ar st
                  else (case currentUser E r st of
                          (userID, st') \<Rightarrow>
                            if userID \<noteq> [] then completeAuthorization C cf E ar userID st' else (LoginPage [], st')))"

section \<open>The token endpoint\<close>

definition verifyPKCE :: "(string \<Rightarrow> string) \<Rightarrow> string \<Rightarrow> string \<Rightarrow> bool" where
  "verifyPKCE S256 verifier challenge \<longleftrightarrow> S256 verifier = challenge"

definition extractClientCreds :: "http_request \<Rightarrow> (string \<times> string) option" where
  "extractClientCreds r =
     (case rq_Basic r of
        Some cred \<Rightarrow> Some cred
      | None \<Rightarrow>
          if rq_Form r ''client_id'' = [] \<or> rq_Form r ''client_secret'' = [] then None
          else Some (rq_Form r ''client_id'', rq_Form r ''client_secret''))"

text \<open>Times in claims are kept as clock readings; the encoding writes them as whole seconds.\<close>

definition id_token_claims ::
  "issuer_config \<Rightarrow> go_time \<Rightarrow> string \<Rightarrow> user \<Rightarrow> string \<Rightarrow> string \<Rightarrow> string list \<Rightarrow> id_claims" where
  "id_token_claims cf now jti user audience nonce scope =
     \<lparr>ic_Subject = us_ID user, ic_Issuer = if_Issuer cf, ic_Audience = audience, ic_ExpiresAt = now + 60 * minute,
      ic_IssuedAt = now, ic_NotBefore = now, ic_ID = jti, ic_AuthTime = now, ic_Nonce = nonce,
      ic_Email = (if ''email'' \<in> set scope then us_Email user else []),
      ic_EmailVerified = (''email'' \<in> set scope \<and> us_IsActive user),
      ic_Name = (if ''profile'' \<in> set scope then us_DisplayName user else []),
      ic_PreferredUsername = (if ''email'' \<in> set scope \<or> ''profile'' \<in> set scope then us_Email user else [])\<rparr>"

definition signIDToken ::
  "issuer_config \<Rightarrow> issuer_env \<Rightarrow> user \<Rightarrow> string \<Rightarrow> string \<Rightarrow> string list \<Rightarrow> string result" where
  "signIDToken cf E user audience nonce scope =
     ie_SignIDToken E (id_token_claims cf (ie_now E) (ie_RandomID E) user audience nonce scope)"

fun strings_Join :: "string list \<Rightarrow> string \<Rightarrow> string" where
  "strings_Join [] sep = []"
| "strings_Join [x] sep = x"
| "strings_Join (x # y # xs) sep = x @ sep @ strings_Join (y # xs) sep"

definition mintTokens ::
  "issuer_config \<Rightarrow> issuer_env \<Rightarrow> user \<Rightarrow> string \<Rightarrow> string \<Rightarrow> string list \<Rightarrow> token_bundle result" where
  "mintTokens cf E user clientID nonce scope =
     (case ae_CreateAccessToken (ie_Auth E) (us_ID user) [] ''user'' 0 [] of
        Inl err \<Rightarrow> Inl (ErrWrap ''create access token: '' err [])
      | Inr at \<Rightarrow>
          (case ae_CreateRefreshToken (ie_Auth E) (us_ID user) of
             Inl err \<Rightarrow> Inl (ErrWrap ''create refresh token: '' err [])
           | Inr rt \<Rightarrow>
               (case signIDToken cf E user clientID nonce scope of
                  Inl err \<Rightarrow> Inl (ErrWrap ''sign id token: '' err [])
                | Inr idt \<Rightarrow>
                    Inr \<lparr>tb_AccessToken = at, tb_TokenType = ''Bearer'', tb_ExpiresIn = 900, tb_IDToken = idt,
                         tb_RefreshToken = rt, tb_Scope = strings_Join scope '' ''\<rparr>)))"

definition writeTokenResponse :: "token_bundle \<Rightarrow> http_response" where
  "writeTokenResponse b = TokenResponse (if tb_TokenType b = [] then b\<lparr>tb_TokenType := ''Bearer''\<rparr> else b)"

text \<open>The exchange once the code has been consumed: the bindings are checked, then the user is resolved.\<close>

definition redeem_code ::
  "'s auth_store \<Rightarrow> issuer_config \<Rightarrow> issuer_env \<Rightarrow> http_request \<Rightarrow> oidc_client \<Rightarrow> auth_code \<Rightarrow> ('c, 's) issuer_state \<Rightarrow>
   http_response \<times> ('c, 's) issuer_state" where
  "redeem_code A cf E r client code st =
     (if co_ClientID code \<noteq> cl_ID client
      then (TokenError 400 ''invalid_grant'' ''code was issued to a different client'', st)
      else if rq_Form r ''redirect_uri'' \<noteq> co_RedirectURI code
      then (TokenError 400 ''invalid_grant'' ''redirect_uri does not match the one used at /authorize'', st)
      else if rq_Form r ''code_verifier'' = []
      then (TokenError 400 ''invalid_request'' ''code_verifier required'', st)
      else if \<not> verifyPKCE (ie_S256 E) (rq_Form r ''code_verifier'') (co_CodeChallenge code)
      then (TokenError 400 ''invalid_grant'' ''PKCE verification failed'', st)
      else (case ie_ParseUUID E (co_UserID code) of
              Inl _ \<Rightarrow> (TokenError 500 ''server_error'' ''bad user id'', st)
            | Inr uid \<Rightarrow>
                (case as_GetUserByID A uid (is_store st) of
                   Inl _ \<Rightarrow> (TokenError 500 ''server_error'' ''user lookup failed'', st)
                 | Inr user \<Rightarrow>
                     (case mintTokens cf E user (cl_ID client) (co_Nonce code) (co_Scope code) of
                        Inl _ \<Rightarrow> (TokenError 500 ''server_error'' ''could not mint tokens'', st)
                      | Inr bundle \<Rightarrow>
                          (writeTokenResponse bundle,
                           st\<lparr>is_store := snd (AuthService_RememberRefreshToken A (ie_Auth E) (us_ID user)
                                (tb_RefreshToken bundle) (ie_now E + 7 * 24 * 60 * minute) (is_store st))\<rparr>)))))"

definition handleCodeGrant ::
  "'s auth_store \<Rightarrow> 'c code_store \<Rightarrow> issuer_config \<Rightarrow> issuer_env \<Rightarrow> http_request \<Rightarrow> oidc_client \<Rightarrow>
   ('c, 's) issuer_state \<Rightarrow> http_response \<times> ('c, 's) issuer_state" where
  "handleCodeGrant A C cf E r client st =
     (if \<not> HasGrant client ''authorization_code''
      then (TokenError 400 ''unauthorized_client'' ''client cannot use authorization_code grant'', st)
      else if rq_Form r ''code'' = [] then (TokenError 400 ''invalid_request'' ''code required'', st)
      else (case cs_Consume C (ie_now E) (rq_Form r ''code'') (is_codes st) of
              (Inl _, c') \<Rightarrow>
                (TokenError 400 ''invalid_grant'' ''code invalid, expired, or already used'', st\<lparr>is_codes := c'\<rparr>)
            | (Inr code, c') \<Rightarrow> redeem_code A cf E r client code (st\<lparr>is_codes := c'\<rparr>)))"

definition handleRefreshGrant ::
  "'s auth_store \<Rightarrow> issuer_config \<Rightarrow> issuer_env \<Rightarrow> http_request \<Rightarrow> oidc_client \<Rightarrow> ('c, 's) issuer_state \<Rightarrow>
   http_response \<times> ('c, 's) issuer_state" where
  "handleRefreshGrant A cf E r client st =
     (if \<not> HasGrant client ''refresh_token''
      then (TokenError 400 ''unauthorized_client'' ''client cannot use refresh_token grant'', st)
      else if rq_Form r ''refresh_token'' = [] then (TokenError 400 ''invalid_request'' ''refresh_token required'', st)
      else (case AuthService_RefreshToken A (ie_Auth E) (rq_Form r ''refresh_token'') (is_store st) of
              (Inl _, s') \<Rightarrow>
                (TokenError 400 ''invalid_grant'' ''invalid or already-used refresh_token'', st\<lparr>is_store := s'\<rparr>)
            | (Inr resp, s') \<Rightarrow>
                (case signIDToken cf E (rp_User resp) (cl_ID client) [] [''openid'', ''profile'', ''email''] of
                   Inl _ \<Rightarrow> (TokenError 500 ''server_error'' ''could not mint id token'', st\<lparr>is_store := s'\<rparr>)
                 | Inr idTok \<Rightarrow>
                     (writeTokenResponse \<lparr>tb_AccessToken = rp_AccessToken resp, tb_TokenType = [], tb_ExpiresIn = 900,
                        tb_IDToken = idTok, tb_RefreshToken = rp_RefreshToken resp, tb_Scope = ''openid profile email''\<rparr>,
                      st\<lparr>is_store := s'\<rparr>))))"

definition TokenHandler ::
  "'s auth_store \<Rightarrow> 'c code_store \<Rightarrow> issuer_config \<Rightarrow> issuer_env \<Rightarrow> http_request \<Rightarrow> ('c, 's) issuer_state \<Rightarrow>
   http_response \<times> ('c, 's) issuer_state" where
  "TokenHandler A C cf E r st =
     (if rq_Method r \<noteq> ''POST'' then (TokenError 405 ''invalid_request'' ''POST required'', st)
      else if \<not> rq_Parses r then (TokenError 400 ''invalid_request'' ''could not parse form'', st)
      else (case extractClientCreds r of
              None \<Rightarrow> (TokenError 401 ''invalid_client'' ''client credentials required'', st)
            | Some (clientID, secret) \<Rightarrow>
                (case MemoryRegistry_Authenticate (ie_HexDecode E) (ie_Sha256 E) clientID secret (is_clients st) of
                   Inl _ \<Rightarrow> (TokenError 401 ''invalid_client'' ''invalid client credentials'', st)
                 | Inr client \<Rightarrow>
                     (let grant = rq_Form r ''grant_type''
                      in if grant = ''authorization_code'' then handleCodeGrant A C cf E r client st
                         else if grant = ''refresh_token'' then handleRefreshGrant A cf E r client st
                         else if grant = [] then (TokenError 400 ''invalid_request'' ''grant_type required'', st)
                         else (TokenError 400 ''unsupported_grant_type'' ''grant_type not supported'', st)))))"

section \<open>User info\<close>

definition UserinfoHandler :: "'s auth_store \<Rightarrow> issuer_env \<Rightarrow> http_request \<Rightarrow> ('c, 's) issuer_state \<Rightarrow> http_response" where
  "UserinfoHandler A E r st =
     (if rq_Method r \<noteq> ''GET'' \<and> rq_Method r \<noteq> ''POST'' then PlainError 405 ''method not allowed''
      else if \<not> HasPrefix (rq_Authorization r) ''Bearer '' then PlainError 401 ''missing bearer token''
      else (case ie_ValidateAccessToken E (TrimSpace (drop 7 (rq_Authorization r))) of
              Inl _ \<Rightarrow> PlainError 401 ''invalid token''
            | Inr sub \<Rightarrow>
                (case ie_ParseUUID E sub of
                   Inl _ \<Rightarrow> PlainError 401 ''bad token sub''
                 | Inr uid \<Rightarrow>
                     (case as_GetUserByID A uid (is_store st) of
                        Inl _ \<Rightarrow> PlainError 404 ''user not found''
                      | Inr user \<Rightarrow> UserinfoResponse (us_ID user) (us_Email user) (us_IsActive user) (us_DisplayName user)))))"

end
