(* ===== verification/Issuer_Spec.thy ===== *)
theory Issuer_Spec
  imports Issuer
begin

text \<open>
  What the authorization-code flow of the issuer guarantees over any sequence of requests: the contract of the
  code store as a locale, runs, and for every stored code and session the request it comes from.
\<close>

section \<open>Runs\<close>

text \<open>
  The operations that change the issuer's state: the two endpoints, registering a client, ending a session, and
  the code store's own background work.
\<close>

datatype issuer_call =
  CallAuthorize issuer_env http_request
| CallToken issuer_env http_request
| CallRegisterClient go_time oidc_client
| CallDestroySession string
| CallBackground go_time

fun issuer_exec ::
  "'s auth_store \<Rightarrow> 'c code_store \<Rightarrow> (go_time \<Rightarrow> 'c \<Rightarrow> 'c) \<Rightarrow> issuer_config \<Rightarrow> issuer_call \<Rightarrow> ('c, 's) issuer_state \<Rightarrow>
   ('c, 's) issuer_state" where
  "issuer_exec A C tick cf (CallAuthorize E r) st = snd (AuthorizeHandler A C cf E r st)"
| "issuer_exec A C tick cf (CallToken E r) st = snd (TokenHandler A C cf E r st)"
| "issuer_exec A C tick cf (CallRegisterClient now c) st =
     st\<lparr>is_clients := snd (MemoryRegistry_Register now c (is_clients st))\<rparr>"
| "issuer_exec A C tick cf (CallDestroySession sid) st =
     st\<lparr>is_sessions := snd (MemorySessionStore_Destroy sid (is_sessions st))\<rparr>"
| "issuer_exec A C tick cf (CallBackground now) st = st\<lparr>is_codes := tick now (is_codes st)\<rparr>"

definition issuer_run ::
  "'s auth_store \<Rightarrow> 'c code_store \<Rightarrow> (go_time \<Rightarrow> 'c \<Rightarrow> 'c) \<Rightarrow> issuer_config \<Rightarrow> issuer_call list \<Rightarrow> ('c, 's) issuer_state \<Rightarrow>
   ('c, 's) issuer_state" where
  "issuer_run A C tick cf calls st = foldl (\<lambda>st call. issuer_exec A C tick cf call st) st calls"

lemma issuer_run_simps [simp]:
  "issuer_run A C tick cf [] st = st"
  "issuer_run A C tick cf (calls @ [call]) st = issuer_exec A C tick cf call (issuer_run A C tick cf calls st)"
  "issuer_run A C tick cf (call # calls) st = issuer_run A C tick cf calls (issuer_exec A C tick cf call st)"
  by (simp_all add: issuer_run_def)

lemma issuer_run_append:
  "issuer_run A C tick cf (xs @ ys) st = issuer_run A C tick cf ys (issuer_run A C tick cf xs st)"
  by (simp add: issuer_run_def)

section \<open>Who is authenticated\<close>

text \<open>The request is a login form whose email and password the authentication service accepts for the user.\<close>

definition logs_in :: "'s auth_store \<Rightarrow> issuer_env \<Rightarrow> http_request \<Rightarrow> 's \<Rightarrow> uuid \<Rightarrow> bool" where
  "logs_in A E r s uid \<longleftrightarrow>
     (case AuthService_Login A (ie_Auth E) (TrimSpace (rq_Form r ''email'')) (rq_Form r ''password'') s of
        (Inl _, _) \<Rightarrow> False
      | (Inr resp, _) \<Rightarrow> us_ID (rp_User resp) = uid)"

text \<open>The cookie of the request names a session of the user that has not expired.\<close>

definition has_session :: "issuer_env \<Rightarrow> http_request \<Rightarrow> memory_sessions \<Rightarrow> uuid \<Rightarrow> bool" where
  "has_session E r m uid \<longleftrightarrow>
     (\<exists>sid sess. rq_Cookie r = Some sid \<and> gm_get m sid = Some sess \<and> se_UserID sess = uid \<and> ie_now E \<le> se_ExpiresAt sess)"

text \<open>Some request of the run logged the user in.\<close>

definition logged_in_before ::
  "'s auth_store \<Rightarrow> 'c code_store \<Rightarrow> (go_time \<Rightarrow> 'c \<Rightarrow> 'c) \<Rightarrow> issuer_config \<Rightarrow> issuer_call list \<Rightarrow> ('c, 's) issuer_state \<Rightarrow>
   uuid \<Rightarrow> bool" where
  "logged_in_before A C tick cf calls st uid \<longleftrightarrow>
     (\<exists>pre E r post. calls = pre @ CallAuthorize E r # post \<and> logs_in A E r (is_store (issuer_run A C tick cf pre st)) uid)"

text \<open>The code was issued by an authorization request of the run that had passed all checks.\<close>

definition issued_before ::
  "'s auth_store \<Rightarrow> 'c code_store \<Rightarrow> (go_time \<Rightarrow> 'c \<Rightarrow> 'c) \<Rightarrow> issuer_config \<Rightarrow> issuer_call list \<Rightarrow> ('c, 's) issuer_state \<Rightarrow>
   auth_code \<Rightarrow> bool" where
  "issued_before A C tick cf calls st c \<longleftrightarrow>
     (\<exists>pre E r post client. calls = pre @ CallAuthorize E r # post \<and>
        authorize_checks E (parseAuthorizeRequest r) (is_clients (issuer_run A C tick cf pre st)) = Inr client \<and>
        ie_NewCode E = Inr (co_Code c) \<and> c = issued_code cf (ie_now E) (co_Code c) (parseAuthorizeRequest r) (co_UserID c) \<and>
        (logs_in A E r (is_store (issuer_run A C tick cf pre st)) (co_UserID c) \<or>
         has_session E r (is_sessions (issuer_run A C tick cf pre st)) (co_UserID c)))"

lemma logged_in_before_snoc:
  "logged_in_before A C tick cf calls st uid \<Longrightarrow> logged_in_before A C tick cf (calls @ [call]) st uid"
  unfolding logged_in_before_def by (metis append_Cons append_assoc)

lemma issued_before_snoc:
  "issued_before A C tick cf calls st c \<Longrightarrow> issued_before A C tick cf (calls @ [call]) st c"
  unfolding issued_before_def by (metis append_Cons append_assoc)

section \<open>The contract of the code store\<close>

locale code_store_spec =
  fixes C :: "'c code_store" and tick :: "go_time \<Rightarrow> 'c \<Rightarrow> 'c"
    and held :: "'c \<Rightarrow> string \<Rightarrow> auth_code option" and good :: "'c \<Rightarrow> bool"
  assumes save_any: "good s \<Longrightarrow> cs_Save C c s = (res, s') \<Longrightarrow>
        good s' \<and> (\<forall>k d. held s' k = Some d \<longrightarrow> held s k = Some d \<or> k = co_Code c \<and> d = c)"
    and save_new: "good s \<Longrightarrow> co_Code c \<noteq> [] \<Longrightarrow> co_ExpiresAt c \<noteq> 0 \<Longrightarrow> held s (co_Code c) = None \<Longrightarrow>
        \<exists>s'. cs_Save C c s = (Inr (), s') \<and> held s' (co_Code c) = Some c"
    and consume_any: "good s \<Longrightarrow> cs_Consume C now k s = (r, s') \<Longrightarrow>
        good s' \<and> held s' k = None \<and> (\<forall>j d. held s' j = Some d \<longrightarrow> held s j = Some d)"
    and consume_held: "good s \<Longrightarrow> cs_Consume C now k s = (Inr c, s') \<Longrightarrow>
        held s k = Some c \<and> co_Code c = k \<and> now \<le> co_ExpiresAt c"
    and consume_live: "good s \<Longrightarrow> held s k = Some c \<Longrightarrow> now \<le> co_ExpiresAt c \<Longrightarrow> \<exists>s'. cs_Consume C now k s = (Inr c, s')"
    and background: "good s \<Longrightarrow> good (tick now s) \<and> (\<forall>k d. held (tick now s) k = Some d \<longrightarrow> held s k = Some d)"

section \<open>Frame facts\<close>

lemma completeAuthorization_frame [simp]:
  "is_clients (snd (completeAuthorization C cf E ar uid st)) = is_clients st"
  "is_sessions (snd (completeAuthorization C cf E ar uid st)) = is_sessions st"
  "is_store (snd (completeAuthorization C cf E ar uid st)) = is_store st"
  by (simp_all add: completeAuthorization_def split: sum.split prod.split)

lemma currentUser_frame [simp]:
  "is_codes (snd (currentUser E r st)) = is_codes st" "is_store (snd (currentUser E r st)) = is_store st"
  by (simp_all add: currentUser_def split: option.split sum.split prod.split)

lemma redeem_code_frame [simp]:
  "is_codes (snd (redeem_code A cf E r client code st)) = is_codes st"
  "is_sessions (snd (redeem_code A cf E r client code st)) = is_sessions st"
  by (simp_all add: redeem_code_def split: sum.split)

lemma handleRefreshGrant_frame [simp]:
  "is_codes (snd (handleRefreshGrant A cf E r client st)) = is_codes st"
  "is_sessions (snd (handleRefreshGrant A cf E r client st)) = is_sessions st"
  by (simp_all add: handleRefreshGrant_def split: sum.split prod.split)

lemma handleCodeGrant_sessions [simp]: "is_sessions (snd (handleCodeGrant A C cf E r client st)) = is_sessions st"
  by (simp add: handleCodeGrant_def split: sum.split prod.split)

lemma TokenHandler_sessions [simp]: "is_sessions (snd (TokenHandler A C cf E r st)) = is_sessions st"
  by (simp add: TokenHandler_def Let_def split: option.split sum.split prod.split)

section \<open>Where sessions come from\<close>

lemma login_post_sessions:
  assumes "gm_get (is_sessions (snd (handleLoginPost A C cf E r ar st))) sid = Some sess"
  shows "gm_get (is_sessions st) sid = Some sess \<or> logs_in A E r (is_store st) (se_UserID sess)"
proof (cases "AuthService_Login A (ie_Auth E) (TrimSpace (rq_Form r ''email'')) (rq_Form r ''password'') (is_store st)")
  case (Pair q s')
  with assms show ?thesis
    by (cases q) (auto simp: handleLoginPost_def Let_def logs_in_def MemorySessionStore_Create_def split: if_splits sum.splits)
qed

lemma current_user_sessions:
  "gm_get (is_sessions (snd (currentUser E r st))) sid = Some sess \<Longrightarrow> gm_get (is_sessions st) sid = Some sess"
  by (auto simp: currentUser_def MemorySessionStore_Lookup_def split: option.splits if_splits)

lemma current_user_session:
  "fst (currentUser E r st) = uid \<Longrightarrow> uid \<noteq> [] \<Longrightarrow> has_session E r (is_sessions st) uid"
  by (auto simp: currentUser_def MemorySessionStore_Lookup_def has_session_def split: option.splits if_splits)

lemma authorize_sessions:
  assumes "gm_get (is_sessions (snd (AuthorizeHandler A C cf E r st))) sid = Some sess"
  shows "gm_get (is_sessions st) sid = Some sess \<or> logs_in A E r (is_store st) (se_UserID sess)"
proof (cases "rq_Parses r")
  case True
  show ?thesis
  proof (cases "authorize_checks E (parseAuthorizeRequest r) (is_clients st)")
    case (Inr client)
    show ?thesis
    proof (cases "rq_Method r = ''POST'' \<and> rq_Form r ''aoid_login'' = ''1''")
      case login: True
      with assms True Inr show ?thesis
        by (intro login_post_sessions [of A C cf E r "parseAuthorizeRequest r"]) (simp add: AuthorizeHandler_def)
    next
      case False
      with assms True Inr have "gm_get (is_sessions (snd (currentUser E r st))) sid = Some sess"
        by (auto simp: AuthorizeHandler_def Let_def case_prod_unfold split: if_splits)
      then show ?thesis using current_user_sessions by blast
    qed
  qed (use assms True in \<open>simp add: AuthorizeHandler_def\<close>)
qed (use assms in \<open>simp add: AuthorizeHandler_def\<close>)

lemma session_login:
  assumes "\<And>sid sess. gm_get (is_sessions st) sid = Some sess \<Longrightarrow> False"
    and "gm_get (is_sessions (issuer_run A C tick cf calls st)) sid = Some sess"
  shows "logged_in_before A C tick cf calls st (se_UserID sess)"
  using assms(2)
proof (induction calls arbitrary: sid sess rule: rev_induct)
  case Nil
  then have "gm_get (is_sessions st) sid = Some sess" by simp
  then show ?case using assms(1) by blast
next
  case (snoc call calls)
  let ?st = "issuer_run A C tick cf calls st"
  have "gm_get (is_sessions ?st) sid = Some sess \<or>
      (\<exists>E r. call = CallAuthorize E r \<and> logs_in A E r (is_store ?st) (se_UserID sess))"
  proof (cases call)
    case (CallAuthorize E r)
    then show ?thesis using snoc.prems authorize_sessions [of A C cf E r ?st sid sess] by auto
  qed (use snoc.prems in \<open>auto simp: MemorySessionStore_Destroy_def split: if_splits\<close>)
  then show ?case
  proof
    assume "gm_get (is_sessions ?st) sid = Some sess"
    then show ?thesis by (intro logged_in_before_snoc snoc.IH)
  next
    assume "\<exists>E r. call = CallAuthorize E r \<and> logs_in A E r (is_store ?st) (se_UserID sess)"
    then show ?thesis unfolding logged_in_before_def by blast
  qed
qed

section \<open>Where codes come from\<close>

fun mints_code :: "string \<Rightarrow> issuer_call \<Rightarrow> bool" where
  "mints_code k (CallAuthorize E r) \<longleftrightarrow> ie_NewCode E = Inr k"
| "mints_code k _ \<longleftrightarrow> False"

lemma authorize_checksD:
  assumes "authorize_checks E ar reg = Inr client"
  shows "gm_get reg (aq_ClientID ar) = Some client" "aq_RedirectURI ar \<in> set (cl_RedirectURIs client)"
    "set (splitScopes (aq_Scope ar)) \<subseteq> set (cl_AllowedScopes client)" "''openid'' \<in> set (splitScopes (aq_Scope ar))"
    "aq_CodeChallenge ar \<noteq> []"
  using assms
  by (auto simp: authorize_checks_def MemoryRegistry_Lookup_def MemoryRegistry_ValidateRedirect_def HasScope_def find_None_iff
      split: if_splits option.splits)

context code_store_spec
begin

lemma complete_codes:
  assumes g: "good (is_codes st)"
  shows "good (is_codes (snd (completeAuthorization C cf E ar uid st)))"
    and "held (is_codes (snd (completeAuthorization C cf E ar uid st))) k = Some d \<Longrightarrow>
      held (is_codes st) k = Some d \<or> ie_NewCode E = Inr k \<and> d = issued_code cf (ie_now E) k ar uid"
proof -
  have "good (is_codes (snd (completeAuthorization C cf E ar uid st))) \<and>
    (held (is_codes (snd (completeAuthorization C cf E ar uid st))) k = Some d \<longrightarrow>
      held (is_codes st) k = Some d \<or> ie_NewCode E = Inr k \<and> d = issued_code cf (ie_now E) k ar uid)"
  proof (cases "ie_NewCode E")
    case (Inr code)
    obtain q c' where sv: "cs_Save C (issued_code cf (ie_now E) code ar uid) (is_codes st) = (q, c')" by fastforce
    have st': "is_codes (snd (completeAuthorization C cf E ar uid st)) = c'"
      using Inr sv by (simp add: completeAuthorization_def split: sum.split)
    from save_any [OF g sv] show ?thesis unfolding st' Inr by (auto simp: issued_code_def)
  qed (use g in \<open>simp add: completeAuthorization_def\<close>)
  then show "good (is_codes (snd (completeAuthorization C cf E ar uid st)))"
    and "held (is_codes (snd (completeAuthorization C cf E ar uid st))) k = Some d \<Longrightarrow>
      held (is_codes st) k = Some d \<or> ie_NewCode E = Inr k \<and> d = issued_code cf (ie_now E) k ar uid" by blast+
qed

text \<open>A request either leaves the codes alone or completes an authorization for an authenticated user.\<close>

lemma authorize_cases:
  obtains "is_codes (snd (AuthorizeHandler A C cf E r st)) = is_codes st"
  | client uid st1 where "authorize_checks E (parseAuthorizeRequest r) (is_clients st) = Inr client"
      "logs_in A E r (is_store st) uid \<or> has_session E r (is_sessions st) uid" "is_codes st1 = is_codes st"
      "AuthorizeHandler A C cf E r st = completeAuthorization C cf E (parseAuthorizeRequest r) uid st1"
proof (cases "rq_Parses r")
  case True
  show ?thesis
  proof (cases "authorize_checks E (parseAuthorizeRequest r) (is_clients st)")
    case (Inr client)
    note checked = this
    show ?thesis
    proof (cases "rq_Method r = ''POST'' \<and> rq_Form r ''aoid_login'' = ''1''")
      case login: True
      have eq: "AuthorizeHandler A C cf E r st = handleLoginPost A C cf E r (parseAuthorizeRequest r) st"
        using True Inr login by (simp add: AuthorizeHandler_def)
      show ?thesis
      proof (cases "TrimSpace (rq_Form r ''email'') = [] \<or> rq_Form r ''password'' = []")
        case False
        obtain q s' where lg: "AuthService_Login A (ie_Auth E) (TrimSpace (rq_Form r ''email'')) (rq_Form r ''password'') (is_store st) = (q, s')"
          by fastforce
        show ?thesis
        proof (cases q)
          case (Inr resp)
          then have li: "logs_in A E r (is_store st) (us_ID (rp_User resp))" using lg by (simp add: logs_in_def)
          have ah: "AuthorizeHandler A C cf E r st = completeAuthorization C cf E (parseAuthorizeRequest r) (us_ID (rp_User resp))
              (st\<lparr>is_store := s', is_sessions := snd (MemorySessionStore_Create (ie_NewSession E) (us_ID (rp_User resp))
                 (ie_now E + if_SessionTTL cf) (is_sessions st))\<rparr>)"
            using eq lg False Inr by (simp add: handleLoginPost_def Let_def)
          show ?thesis by (rule that(2) [OF checked disjI1 [OF li] _ ah]) simp
        qed (use that(1) eq lg False in \<open>simp add: handleLoginPost_def Let_def\<close>)
      qed (use that(1) eq in \<open>simp add: handleLoginPost_def Let_def\<close>)
    next
      case False
      have eq: "AuthorizeHandler A C cf E r st =
          (if fst (currentUser E r st) \<noteq> [] then completeAuthorization C cf E (parseAuthorizeRequest r) (fst (currentUser E r st)) (snd (currentUser E r st))
           else (LoginPage [], snd (currentUser E r st)))"
        using True Inr False by (auto simp: AuthorizeHandler_def Let_def case_prod_unfold)
      show ?thesis
      proof (cases "fst (currentUser E r st) = []")
        case True
        then show ?thesis using that(1) eq by simp
      next
        case False
        show ?thesis
          by (rule that(2) [OF Inr disjI2 [OF current_user_session [OF refl False]], of "snd (currentUser E r st)"])
            (simp_all add: eq False)
      qed
    qed
  qed (use that(1) True in \<open>simp add: AuthorizeHandler_def\<close>)
qed (use that(1) in \<open>simp add: AuthorizeHandler_def\<close>)

lemma token_codes:
  assumes g: "good (is_codes st)"
  shows "good (is_codes (snd (TokenHandler A C cf E r st)))"
    and "held (is_codes (snd (TokenHandler A C cf E r st))) k = Some d \<Longrightarrow> held (is_codes st) k = Some d"
proof -
  obtain q c' where cn: "cs_Consume C (ie_now E) (rq_Form r ''code'') (is_codes st) = (q, c')" by fastforce
  have "is_codes (snd (TokenHandler A C cf E r st)) = is_codes st \<or> is_codes (snd (TokenHandler A C cf E r st)) = c'"
    using cn by (cases q) (auto simp: TokenHandler_def handleCodeGrant_def Let_def split: option.split sum.split)
  with consume_any [OF g cn] g show "good (is_codes (snd (TokenHandler A C cf E r st)))"
    and "held (is_codes (snd (TokenHandler A C cf E r st))) k = Some d \<Longrightarrow> held (is_codes st) k = Some d" by auto
qed

lemma exec_codes:
  assumes g: "good (is_codes st)"
  shows "good (is_codes (issuer_exec A C tick cf call st))"
    and "held (is_codes (issuer_exec A C tick cf call st)) k = Some d \<Longrightarrow>
      held (is_codes st) k = Some d \<or>
      (\<exists>E r client. call = CallAuthorize E r \<and> authorize_checks E (parseAuthorizeRequest r) (is_clients st) = Inr client \<and>
        ie_NewCode E = Inr k \<and> d = issued_code cf (ie_now E) k (parseAuthorizeRequest r) (co_UserID d) \<and>
        (logs_in A E r (is_store st) (co_UserID d) \<or> has_session E r (is_sessions st) (co_UserID d)))"
proof (atomize (full), cases call)
  case (CallAuthorize E r)
  show "good (is_codes (issuer_exec A C tick cf call st)) \<and>
    (held (is_codes (issuer_exec A C tick cf call st)) k = Some d \<longrightarrow>
      held (is_codes st) k = Some d \<or>
      (\<exists>E r client. call = CallAuthorize E r \<and> authorize_checks E (parseAuthorizeRequest r) (is_clients st) = Inr client \<and>
        ie_NewCode E = Inr k \<and> d = issued_code cf (ie_now E) k (parseAuthorizeRequest r) (co_UserID d) \<and>
        (logs_in A E r (is_store st) (co_UserID d) \<or> has_session E r (is_sessions st) (co_UserID d))))"
  proof (cases rule: authorize_cases [of A cf E r st])
    case 1
    then show ?thesis using g CallAuthorize by simp
  next
    case (2 client uid st1)
    have g1: "good (is_codes st1)" using g 2(3) by simp
    have u: "d = issued_code cf (ie_now E) k (parseAuthorizeRequest r) uid \<Longrightarrow> co_UserID d = uid" by (simp add: issued_code_def)
    show ?thesis
      using complete_codes(1) [OF g1, of cf E "parseAuthorizeRequest r" uid]
        complete_codes(2) [OF g1, of cf E "parseAuthorizeRequest r" uid k d] 2 CallAuthorize u by auto
  qed
qed (use g token_codes [OF g] background [OF g] in auto)

lemma run_good: "good (is_codes st) \<Longrightarrow> good (is_codes (issuer_run A C tick cf calls st))"
  by (induction calls rule: rev_induct) (simp_all add: exec_codes(1))

lemma code_origin:
  assumes g: "good (is_codes st)" and none: "\<And>k. held (is_codes st) k = None"
    and d: "held (is_codes (issuer_run A C tick cf calls st)) k = Some d"
  shows "issued_before A C tick cf calls st d \<and> co_Code d = k"
  using d
proof (induction calls arbitrary: k d rule: rev_induct)
  case Nil
  then show ?case using none by simp
next
  case (snoc call calls)
  let ?st = "issuer_run A C tick cf calls st"
  have "held (is_codes ?st) k = Some d \<or>
      (\<exists>E r client. call = CallAuthorize E r \<and> authorize_checks E (parseAuthorizeRequest r) (is_clients ?st) = Inr client \<and>
        ie_NewCode E = Inr k \<and> d = issued_code cf (ie_now E) k (parseAuthorizeRequest r) (co_UserID d) \<and>
        (logs_in A E r (is_store ?st) (co_UserID d) \<or> has_session E r (is_sessions ?st) (co_UserID d)))"
    using exec_codes(2) [OF run_good [OF g], of A cf call A cf calls k d] snoc.prems by simp
  then show ?case
  proof
    assume "held (is_codes ?st) k = Some d"
    then show ?thesis using snoc.IH issued_before_snoc by blast
  next
    assume "\<exists>E r client. call = CallAuthorize E r \<and> authorize_checks E (parseAuthorizeRequest r) (is_clients ?st) = Inr client \<and>
        ie_NewCode E = Inr k \<and> d = issued_code cf (ie_now E) k (parseAuthorizeRequest r) (co_UserID d) \<and>
        (logs_in A E r (is_store ?st) (co_UserID d) \<or> has_session E r (is_sessions ?st) (co_UserID d))"
    then obtain E r client where o: "call = CallAuthorize E r" "ie_NewCode E = Inr k"
      "authorize_checks E (parseAuthorizeRequest r) (is_clients ?st) = Inr client"
      "d = issued_code cf (ie_now E) k (parseAuthorizeRequest r) (co_UserID d)"
      "logs_in A E r (is_store ?st) (co_UserID d) \<or> has_session E r (is_sessions ?st) (co_UserID d)" by blast
    have k: "co_Code d = k" by (subst o(4)) (simp add: issued_code_def)
    show ?thesis unfolding issued_before_def k using o by blast
  qed
qed

text \<open>A successful exchange consumed a held code whose bindings the request matches.\<close>

lemma token_success:
  assumes g: "good (is_codes st)" and ok: "fst (TokenHandler A C cf E r st) = TokenResponse b"
    and gt: "rq_Form r ''grant_type'' = ''authorization_code''"
  obtains client code cid secret user uid c' where "extractClientCreds r = Some (cid, secret)"
    "MemoryRegistry_Authenticate (ie_HexDecode E) (ie_Sha256 E) cid secret (is_clients st) = Inr client"
    "cs_Consume C (ie_now E) (rq_Form r ''code'') (is_codes st) = (Inr code, c')"
    "co_ClientID code = cl_ID client" "rq_Form r ''redirect_uri'' = co_RedirectURI code"
    "ie_S256 E (rq_Form r ''code_verifier'') = co_CodeChallenge code"
    "ie_ParseUUID E (co_UserID code) = Inr uid" "as_GetUserByID A uid (is_store st) = Inr user"
    "mintTokens cf E user (cl_ID client) (co_Nonce code) (co_Scope code) = Inr b"
    "is_codes (snd (TokenHandler A C cf E r st)) = c'"
proof -
  from ok gt obtain cid secret client where c: "extractClientCreds r = Some (cid, secret)"
    "MemoryRegistry_Authenticate (ie_HexDecode E) (ie_Sha256 E) cid secret (is_clients st) = Inr client"
    and h: "TokenHandler A C cf E r st = handleCodeGrant A C cf E r client st"
    by (auto simp: TokenHandler_def Let_def split: if_splits option.splits sum.splits)
  from ok h obtain code c' where n: "cs_Consume C (ie_now E) (rq_Form r ''code'') (is_codes st) = (Inr code, c')"
    and h2: "TokenHandler A C cf E r st = redeem_code A cf E r client code (st\<lparr>is_codes := c'\<rparr>)"
    by (auto simp: handleCodeGrant_def split: if_splits sum.splits prod.splits)
  from ok h2 have rd: "fst (redeem_code A cf E r client code (st\<lparr>is_codes := c'\<rparr>)) = TokenResponse b" by simp
  then obtain uid user b0 where u: "ie_ParseUUID E (co_UserID code) = Inr uid" "as_GetUserByID A uid (is_store st) = Inr user"
    "mintTokens cf E user (cl_ID client) (co_Nonce code) (co_Scope code) = Inr b0" "writeTokenResponse b0 = TokenResponse b"
    and bind: "co_ClientID code = cl_ID client" "rq_Form r ''redirect_uri'' = co_RedirectURI code"
    "ie_S256 E (rq_Form r ''code_verifier'') = co_CodeChallenge code"
    by (auto simp: redeem_code_def verifyPKCE_def split: if_splits sum.splits)
  have "tb_TokenType b0 = ''Bearer''" using u(3) by (auto simp: mintTokens_def split: sum.splits)
  then have "b0 = b" using u(4) by (simp add: writeTokenResponse_def)
  with that [OF c n bind] u h2 show thesis by simp
qed

lemma exchange_origin:
  assumes g: "good (is_codes st0)" and none: "\<And>k. held (is_codes st0) k = None"
    and nosess: "\<And>sid sess. gm_get (is_sessions st0) sid = Some sess \<Longrightarrow> False"
    and st: "st = issuer_run A C tick cf calls st0" and ok: "fst (TokenHandler A C cf E r st) = TokenResponse b"
    and gt: "rq_Form r ''grant_type'' = ''authorization_code''"
  obtains pre E' r' post client' cid secret client uid uid' user where
    "calls = pre @ CallAuthorize E' r' # post"
    "authorize_checks E' (parseAuthorizeRequest r') (is_clients (issuer_run A C tick cf pre st0)) = Inr client'"
    "ie_NewCode E' = Inr (rq_Form r ''code'')" "extractClientCreds r = Some (cid, secret)"
    "MemoryRegistry_Authenticate (ie_HexDecode E) (ie_Sha256 E) cid secret (is_clients st) = Inr client"
    "cl_ID client = aq_ClientID (parseAuthorizeRequest r')"
    "rq_Form r ''redirect_uri'' = aq_RedirectURI (parseAuthorizeRequest r')"
    "ie_S256 E (rq_Form r ''code_verifier'') = aq_CodeChallenge (parseAuthorizeRequest r')"
    "ie_now E \<le> ie_now E' + if_AuthCodeTTL cf"
    "logged_in_before A C tick cf (pre @ [CallAuthorize E' r']) st0 uid"
    "ie_ParseUUID E uid = Inr uid'" "as_GetUserByID A uid' (is_store st) = Inr user"
    "mintTokens cf E user (cl_ID client) (aq_Nonce (parseAuthorizeRequest r'))
       (splitScopes (aq_Scope (parseAuthorizeRequest r'))) = Inr b"
proof -
  have gs: "good (is_codes st)" unfolding st by (rule run_good [OF g])
  from token_success [OF gs ok gt] obtain client code cid secret user uid' c' where
    c: "extractClientCreds r = Some (cid, secret)"
      "MemoryRegistry_Authenticate (ie_HexDecode E) (ie_Sha256 E) cid secret (is_clients st) = Inr client"
    and n: "cs_Consume C (ie_now E) (rq_Form r ''code'') (is_codes st) = (Inr code, c')"
    and bind: "co_ClientID code = cl_ID client" "rq_Form r ''redirect_uri'' = co_RedirectURI code"
      "ie_S256 E (rq_Form r ''code_verifier'') = co_CodeChallenge code"
    and u: "ie_ParseUUID E (co_UserID code) = Inr uid'" "as_GetUserByID A uid' (is_store st) = Inr user"
      "mintTokens cf E user (cl_ID client) (co_Nonce code) (co_Scope code) = Inr b" by metis
  note held = consume_held [OF gs n]
  have ib: "issued_before A C tick cf calls st0 code"
    using code_origin [OF g none, of A cf calls "rq_Form r ''code''" code] held st by simp
  then obtain pre E' r' post client' where o: "calls = pre @ CallAuthorize E' r' # post"
    "authorize_checks E' (parseAuthorizeRequest r') (is_clients (issuer_run A C tick cf pre st0)) = Inr client'"
    "ie_NewCode E' = Inr (co_Code code)"
    "code = issued_code cf (ie_now E') (co_Code code) (parseAuthorizeRequest r') (co_UserID code)"
    and who: "logs_in A E' r' (is_store (issuer_run A C tick cf pre st0)) (co_UserID code) \<or>
      has_session E' r' (is_sessions (issuer_run A C tick cf pre st0)) (co_UserID code)"
    unfolding issued_before_def by blast
  have fields: "co_ClientID code = aq_ClientID (parseAuthorizeRequest r')"
    "co_RedirectURI code = aq_RedirectURI (parseAuthorizeRequest r')"
    "co_CodeChallenge code = aq_CodeChallenge (parseAuthorizeRequest r')" "co_Nonce code = aq_Nonce (parseAuthorizeRequest r')"
    "co_Scope code = splitScopes (aq_Scope (parseAuthorizeRequest r'))" "co_ExpiresAt code = ie_now E' + if_AuthCodeTTL cf"
    by (subst o(4), simp add: issued_code_def)+
  have "logged_in_before A C tick cf (pre @ [CallAuthorize E' r']) st0 (co_UserID code)"
    using who
  proof
    assume "logs_in A E' r' (is_store (issuer_run A C tick cf pre st0)) (co_UserID code)"
    then show ?thesis unfolding logged_in_before_def by blast
  next
    assume "has_session E' r' (is_sessions (issuer_run A C tick cf pre st0)) (co_UserID code)"
    then obtain sid sess where s: "gm_get (is_sessions (issuer_run A C tick cf pre st0)) sid = Some sess"
      and eq: "se_UserID sess = co_UserID code"
      by (auto simp: has_session_def)
    have "logged_in_before A C tick cf pre st0 (se_UserID sess)" by (rule session_login [OF nosess s])
    then show ?thesis using logged_in_before_snoc eq by metis
  qed
  with that [OF o(1,2) _ c] o(3) held bind u fields show thesis by simp
qed

text \<open>Once a code is gone it stays gone.\<close>

lemma run_keeps_none:
  assumes "good (is_codes st)" and "held (is_codes st) k = None" and "\<forall>call\<in>set calls. \<not> mints_code k call"
  shows "held (is_codes (issuer_run A C tick cf calls st)) k = None"
  using assms(3)
proof (induction calls rule: rev_induct)
  case (snoc call calls)
  let ?st = "issuer_run A C tick cf calls st"
  have "held (is_codes ?st) k = None" using snoc by simp
  moreover have "\<not> mints_code k call" using snoc.prems by simp
  ultimately show ?case
    using exec_codes(2) [OF run_good [OF assms(1)], of A cf call A cf calls k]
    by (cases "held (is_codes (issuer_exec A C tick cf call ?st)) k") auto
qed (simp add: assms(2))

lemma exchange_once:
  assumes g: "good (is_codes st)" and ok: "fst (TokenHandler A C cf E r st) = TokenResponse b"
    and gt: "rq_Form r ''grant_type'' = ''authorization_code''" "rq_Form r' ''grant_type'' = ''authorization_code''"
    and k: "rq_Form r' ''code'' = rq_Form r ''code''" and no: "\<forall>call\<in>set calls. \<not> mints_code (rq_Form r ''code'') call"
  shows "fst (TokenHandler A C cf E' r' (issuer_run A C tick cf calls (snd (TokenHandler A C cf E r st)))) \<noteq> TokenResponse b'"
proof
  let ?s1 = "snd (TokenHandler A C cf E r st)"
  let ?s2 = "issuer_run A C tick cf calls ?s1"
  assume again: "fst (TokenHandler A C cf E' r' ?s2) = TokenResponse b'"
  from token_success [OF g ok gt(1)] obtain code c' where
    n: "cs_Consume C (ie_now E) (rq_Form r ''code'') (is_codes st) = (Inr code, c')" "is_codes ?s1 = c'" by metis
  have g1: "good (is_codes ?s1)" and h1: "held (is_codes ?s1) (rq_Form r ''code'') = None"
    using consume_any [OF g n(1)] n(2) by simp_all
  have g2: "good (is_codes ?s2)" by (rule run_good [OF g1])
  from token_success [OF g2 again gt(2)] obtain code2 c2 where
    "cs_Consume C (ie_now E') (rq_Form r' ''code'') (is_codes ?s2) = (Inr code2, c2)" by metis
  from consume_held [OF g2 this] run_keeps_none [OF g1 h1 no, of A cf] k show False by simp
qed

text \<open>The honest flow: what a completed authorization stored, the matching token request exchanges.\<close>

lemma code_flow:
  assumes g: "good (is_codes st)" and new: "ie_NewCode E = Inr k" "k \<noteq> []" "held (is_codes st) k = None"
    and ttl: "ie_now E + if_AuthCodeTTL cf \<noteq> 0" and url: "ie_ParsesURL E (aq_RedirectURI ar)"
  shows "fst (completeAuthorization C cf E ar uid st) = RedirectCode (aq_RedirectURI ar) k (aq_State ar)"
    and "ie_now E' \<le> ie_now E + if_AuthCodeTTL cf \<Longrightarrow>
      \<exists>c'. cs_Consume C (ie_now E') k (is_codes (snd (completeAuthorization C cf E ar uid st)))
           = (Inr (issued_code cf (ie_now E) k ar uid), c')"
proof -
  let ?c = "issued_code cf (ie_now E) k ar uid"
  have f: "co_Code ?c = k" "co_ExpiresAt ?c = ie_now E + if_AuthCodeTTL cf" by (simp_all add: issued_code_def)
  obtain c1 where sv: "cs_Save C ?c (is_codes st) = (Inr (), c1)" and h: "held c1 k = Some ?c"
    using save_new [OF g, of ?c] new ttl f by auto
  have eq: "completeAuthorization C cf E ar uid st = (RedirectCode (aq_RedirectURI ar) k (aq_State ar), st\<lparr>is_codes := c1\<rparr>)"
    using new(1) sv url by (simp add: completeAuthorization_def)
  show "fst (completeAuthorization C cf E ar uid st) = RedirectCode (aq_RedirectURI ar) k (aq_State ar)" by (simp add: eq)
  have g1: "good c1" using save_any [OF g sv] by simp
  show "ie_now E' \<le> ie_now E + if_AuthCodeTTL cf \<Longrightarrow>
      \<exists>c'. cs_Consume C (ie_now E') k (is_codes (snd (completeAuthorization C cf E ar uid st))) = (Inr ?c, c')"
    using consume_live [OF g1 h] f by (simp add: eq)
qed
end

end
