(* ===== verification/Issuer_Properties.thy ===== *)
theory Issuer_Properties
  imports Issuer_Spec Session_Properties
begin

text \<open>
  The issuer on its in-memory code and session stores and the in-memory authentication store: what a token
  response of the authorization-code grant implies about the past, and where the code departs from its
  documentation.
\<close>

section \<open>The in-memory code store meets the contract\<close>

definition codes_ok :: "memory_codes \<Rightarrow> bool" where
  "codes_ok m \<longleftrightarrow> gm_ok m \<and> (\<forall>k c. gm_get m k = Some c \<longrightarrow> co_Code c = k)"

interpretation memcodes: code_store_spec MemoryCodeStore MemoryCodeStore_prune gm_get codes_ok
proof (unfold_locales, goal_cases)
  case (1 s c res s')
  then show ?case
    by (auto simp: MemoryCodeStore_def MemoryCodeStore_Save_def codes_ok_def split: if_splits option.splits)
next
  case (2 s c)
  then show ?case by (simp add: MemoryCodeStore_def MemoryCodeStore_Save_def)
next
  case (3 s now k r s')
  then show ?case
    by (auto simp: MemoryCodeStore_def MemoryCodeStore_Consume_def codes_ok_def split: if_splits option.splits)
next
  case (4 s now k c s')
  then show ?case
    by (auto simp: MemoryCodeStore_def MemoryCodeStore_Consume_def codes_ok_def split: if_splits option.splits)
next
  case (5 s k c now)
  then show ?case by (simp add: MemoryCodeStore_def MemoryCodeStore_Consume_def)
next
  case (6 s now)
  then show ?case
    by (auto simp: MemoryCodeStore_prune_def codes_ok_def gm_get_remove split: option.splits if_splits)
qed

section \<open>The authorization-code grant\<close>

abbreviation dev_issuer_run ::
  "issuer_config \<Rightarrow> issuer_call list \<Rightarrow> (memory_codes, memory_state) issuer_state \<Rightarrow> (memory_codes, memory_state) issuer_state" where
  "dev_issuer_run \<equiv> issuer_run dev_AuthStore MemoryCodeStore MemoryCodeStore_prune"

abbreviation dev_TokenHandler ::
  "issuer_config \<Rightarrow> issuer_env \<Rightarrow> http_request \<Rightarrow> (memory_codes, memory_state) issuer_state \<Rightarrow>
   http_response \<times> (memory_codes, memory_state) issuer_state" where
  "dev_TokenHandler \<equiv> TokenHandler dev_AuthStore MemoryCodeStore"

text \<open>
  C14: tokens only for the right client and user. If, after any sequence of requests to a new issuer, the token endpoint
  answers an authorization-code request with tokens, then the code was issued by an earlier authorization
  request that passed every check; the client authenticated at the token endpoint is the one that request
  named, and its redirect URI was registered for that client and is repeated now; the verifier hashes to the
  challenge of that request; the code is not older than its lifetime; the scopes were allowed for the client;
  and the tokens are for a user who logged in with a password in that request or in an earlier one.
\<close>

theorem code_exchange_origin:
  assumes "st = dev_issuer_run cf calls (snd (issuer_New cf0 reg s))"
    and "fst (dev_TokenHandler cf E r st) = TokenResponse b"
    and "rq_Form r ''grant_type'' = ''authorization_code''"
  shows "\<exists>pre E' r' post client' cid secret client uid uid' user.
     calls = pre @ CallAuthorize E' r' # post \<and> ie_NewCode E' = Inr (rq_Form r ''code'') \<and>
     gm_get (is_clients (dev_issuer_run cf pre (snd (issuer_New cf0 reg s)))) (aq_ClientID (parseAuthorizeRequest r')) = Some client' \<and>
     extractClientCreds r = Some (cid, secret) \<and>
     MemoryRegistry_Authenticate (ie_HexDecode E) (ie_Sha256 E) cid secret (is_clients st) = Inr client \<and>
     cl_ID client = aq_ClientID (parseAuthorizeRequest r') \<and>
     rq_Form r ''redirect_uri'' = aq_RedirectURI (parseAuthorizeRequest r') \<and>
     rq_Form r ''redirect_uri'' \<in> set (cl_RedirectURIs client') \<and>
     ie_S256 E (rq_Form r ''code_verifier'') = aq_CodeChallenge (parseAuthorizeRequest r') \<and>
     set (splitScopes (aq_Scope (parseAuthorizeRequest r'))) \<subseteq> set (cl_AllowedScopes client') \<and>
     ie_now E \<le> ie_now E' + if_AuthCodeTTL cf \<and>
     logged_in_before dev_AuthStore MemoryCodeStore MemoryCodeStore_prune cf (pre @ [CallAuthorize E' r'])
       (snd (issuer_New cf0 reg s)) uid \<and>
     ie_ParseUUID E uid = Inr uid' \<and> as_GetUserByID dev_AuthStore uid' (is_store st) = Inr user \<and>
     mintTokens cf E user (cl_ID client) (aq_Nonce (parseAuthorizeRequest r'))
       (splitScopes (aq_Scope (parseAuthorizeRequest r'))) = Inr b"
proof -
  let ?st0 = "snd (issuer_New cf0 reg s)"
  have g: "codes_ok (is_codes ?st0)" and none: "\<And>k. gm_get (is_codes ?st0) k = None"
    and nosess: "\<And>sid sess. gm_get (is_sessions ?st0) sid = Some sess \<Longrightarrow> False"
    by (simp_all add: issuer_New_def codes_ok_def)
  show ?thesis
  proof (rule memcodes.exchange_origin [OF g none nosess assms])
    fix pre E' r' post client' cid secret client uid uid' user
    assume o: "calls = pre @ CallAuthorize E' r' # post"
      "authorize_checks E' (parseAuthorizeRequest r') (is_clients (dev_issuer_run cf pre ?st0)) = Inr client'"
      "ie_NewCode E' = Inr (rq_Form r ''code'')"
      and c: "extractClientCreds r = Some (cid, secret)"
      "MemoryRegistry_Authenticate (ie_HexDecode E) (ie_Sha256 E) cid secret (is_clients st) = Inr client"
      "cl_ID client = aq_ClientID (parseAuthorizeRequest r')"
      "rq_Form r ''redirect_uri'' = aq_RedirectURI (parseAuthorizeRequest r')"
      "ie_S256 E (rq_Form r ''code_verifier'') = aq_CodeChallenge (parseAuthorizeRequest r')"
      "ie_now E \<le> ie_now E' + if_AuthCodeTTL cf"
      and u: "logged_in_before dev_AuthStore MemoryCodeStore MemoryCodeStore_prune cf (pre @ [CallAuthorize E' r']) ?st0 uid"
      "ie_ParseUUID E uid = Inr uid'" "as_GetUserByID dev_AuthStore uid' (is_store st) = Inr user"
      "mintTokens cf E user (cl_ID client) (aq_Nonce (parseAuthorizeRequest r'))
         (splitScopes (aq_Scope (parseAuthorizeRequest r'))) = Inr b"
    note ck = authorize_checksD [OF o(2)]
    have ru: "rq_Form r ''redirect_uri'' \<in> set (cl_RedirectURIs client')" using ck(2) c(4) by simp
    show ?thesis by (intro exI conjI) (fact o(1) o(3) ck(1) c(1-4) ru c(5) ck(3) c(6) u)+
  qed
qed

definition form_of :: "(string, string) gomap \<Rightarrow> string \<Rightarrow> string" where
  "form_of m k = gm_get_or [] m k"

definition demo_client :: oidc_client where
  "demo_client =
     \<lparr>cl_ID = ''web'', cl_SecretHash = ''s3cret'', cl_Name = ''Web'', cl_Type = ''confidential'',
      cl_RedirectURIs = [''https://web/cb''], cl_AllowedScopes = [''openid'', ''email''],
      cl_AllowedGrants = [''authorization_code'', ''refresh_token''], cl_AuthMethod = ''client_secret_post'', cl_CreatedAt = 1\<rparr>"

definition other_client :: oidc_client where
  "other_client = demo_client\<lparr>cl_ID := ''other'', cl_SecretHash := ''0ther'', cl_RedirectURIs := [''https://other/cb'']\<rparr>"

definition demo_ienv :: issuer_env where
  "demo_ienv =
     \<lparr>ie_Auth = demo_env, ie_now = 10, ie_NewCode = Inr ''k1'', ie_NewSession = Inr ''sess1'', ie_S256 = (@) ''h'',
      ie_HexDecode = Some, ie_Sha256 = (\<lambda>x. x), ie_ParseUUID = Inr, ie_ParsesURL = (\<lambda>_. True), ie_RandomID = ''j'',
      ie_SignIDToken = (\<lambda>c. Inr (ic_Subject c @ '' '' @ ic_Audience c @ '' '' @ ic_Email c)), ie_ValidateAccessToken = Inr\<rparr>"

definition post_request :: "(string, string) gomap \<Rightarrow> http_request" where
  "post_request m = \<lparr>rq_Method = ''POST'', rq_Parses = True, rq_Query = (\<lambda>_. []), rq_Form = form_of m, rq_Basic = None,
     rq_Cookie = None, rq_Authorization = []\<rparr>"

definition demo_authorize :: http_request where
  "demo_authorize = post_request
     [(''response_type'', ''code''), (''client_id'', ''web''), (''redirect_uri'', ''https://web/cb''), (''scope'', ''openid''),
      (''code_challenge'', ''hv''), (''code_challenge_method'', ''S256''), (''aoid_login'', ''1''),
      (''email'', ''ann@example.com''), (''password'', ''password'')]"

definition demo_token :: http_request where
  "demo_token = post_request
     [(''grant_type'', ''authorization_code''), (''client_id'', ''web''), (''client_secret'', ''s3cret''), (''code'', ''k1''),
      (''redirect_uri'', ''https://web/cb''), (''code_verifier'', ''v'')]"

definition demo_issuer :: "(memory_codes, memory_state) issuer_state" where
  "demo_issuer = snd (issuer_New DefaultConfig [] demo_signed_up)"

definition demo_flow :: "issuer_call list" where
  "demo_flow = [CallRegisterClient 1 demo_client, CallRegisterClient 1 other_client, CallAuthorize demo_ienv demo_authorize]"

definition demo_bundle :: token_bundle where
  "demo_bundle = \<lparr>tb_AccessToken = ''access'', tb_TokenType = ''Bearer'', tb_ExpiresIn = 900, tb_IDToken = ''u1 web '',
     tb_RefreshToken = ''r1'', tb_Scope = ''openid''\<rparr>"

lemma demo_exchange:
  "fst (dev_TokenHandler DefaultConfig demo_ienv demo_token (dev_issuer_run DefaultConfig demo_flow demo_issuer)) = TokenResponse demo_bundle"
  by code_simp

theorem code_exchange_origin_witness:
  "\<exists>pre E' r' post. demo_flow = pre @ CallAuthorize E' r' # post \<and> ie_NewCode E' = Inr ''k1'' \<and>
     aq_RedirectURI (parseAuthorizeRequest r') = ''https://web/cb'' \<and> aq_CodeChallenge (parseAuthorizeRequest r') = ''hv''"
proof -
  have gt: "rq_Form demo_token ''grant_type'' = ''authorization_code''" and k: "rq_Form demo_token ''code'' = ''k1''"
    and ru: "rq_Form demo_token ''redirect_uri'' = ''https://web/cb''" and v: "ie_S256 demo_ienv (rq_Form demo_token ''code_verifier'') = ''hv''"
    by code_simp+
  from code_exchange_origin [OF refl, of DefaultConfig demo_ienv demo_token demo_flow DefaultConfig "[]" demo_signed_up demo_bundle,
      folded demo_issuer_def, OF demo_exchange gt, unfolded k ru v] show ?thesis by metis
qed

text \<open>
  C15: an authorization code is good for one exchange. After a successful exchange no request with the same code is
  answered with tokens, whatever requests come in between, as long as the random generator does not produce
  that code again.
\<close>

theorem code_single_use:
  assumes "codes_ok (is_codes st)" and "fst (dev_TokenHandler cf E r st) = TokenResponse b"
    and "rq_Form r ''grant_type'' = ''authorization_code''" and "rq_Form r' ''grant_type'' = ''authorization_code''"
    and "rq_Form r' ''code'' = rq_Form r ''code''" and "\<forall>call\<in>set calls. \<not> mints_code (rq_Form r ''code'') call"
  shows "fst (dev_TokenHandler cf E' r' (dev_issuer_run cf calls (snd (dev_TokenHandler cf E r st)))) \<noteq> TokenResponse b'"
  by (rule memcodes.exchange_once [OF assms])

theorem code_single_use_witness:
  "fst (dev_TokenHandler DefaultConfig demo_ienv demo_token (dev_issuer_run DefaultConfig demo_flow demo_issuer)) = TokenResponse demo_bundle \<and>
   fst (dev_TokenHandler DefaultConfig demo_ienv demo_token
     (dev_issuer_run DefaultConfig [CallBackground 11, CallAuthorize (demo_ienv\<lparr>ie_NewCode := Inr ''k2''\<rparr>) demo_authorize]
        (snd (dev_TokenHandler DefaultConfig demo_ienv demo_token (dev_issuer_run DefaultConfig demo_flow demo_issuer)))))
     \<noteq> TokenResponse demo_bundle"
proof -
  have ok: "codes_ok (is_codes (dev_issuer_run DefaultConfig demo_flow demo_issuer))"
    by (rule memcodes.run_good) (simp add: demo_issuer_def issuer_New_def codes_ok_def)
  have gt: "rq_Form demo_token ''grant_type'' = ''authorization_code''" by code_simp
  have k: "rq_Form demo_token ''code'' = ''k1''" by code_simp
  have no: "\<forall>call\<in>set [CallBackground 11, CallAuthorize (demo_ienv\<lparr>ie_NewCode := Inr ''k2''\<rparr>) demo_authorize].
      \<not> mints_code (rq_Form demo_token ''code'') call" unfolding k by simp
  show ?thesis using demo_exchange code_single_use [OF ok demo_exchange gt gt refl no, of demo_ienv demo_bundle] by blast
qed

text \<open>
  The code flow completes. When an authorization is completed with a new code and the client that requested it
  presents the code in time with the same redirect URI and a verifier for its challenge, and the user can be
  looked up and tokens signed, the browser was redirected with the code and the client gets these tokens.
\<close>

lemma code_flow_completes:
  assumes "codes_ok (is_codes st)" and "ie_NewCode E = Inr k" and "k \<noteq> []" and "gm_get (is_codes st) k = None"
    and "ie_now E + if_AuthCodeTTL cf \<noteq> 0" and "ie_ParsesURL E (aq_RedirectURI ar)"
    and "HasGrant client ''authorization_code''" and "cl_ID client = aq_ClientID ar" and "rq_Form r ''code'' = k"
    and "rq_Form r ''redirect_uri'' = aq_RedirectURI ar" and "rq_Form r ''code_verifier'' \<noteq> []"
    and "ie_S256 E' (rq_Form r ''code_verifier'') = aq_CodeChallenge ar" and "ie_now E' \<le> ie_now E + if_AuthCodeTTL cf"
    and "ie_ParseUUID E' uid = Inr uid'" and "as_GetUserByID dev_AuthStore uid' (is_store st) = Inr user"
    and "mintTokens cf E' user (cl_ID client) (aq_Nonce ar) (splitScopes (aq_Scope ar)) = Inr b"
  shows "fst (completeAuthorization MemoryCodeStore cf E ar uid st) = RedirectCode (aq_RedirectURI ar) k (aq_State ar) \<and>
    fst (handleCodeGrant dev_AuthStore MemoryCodeStore cf E' r client (snd (completeAuthorization MemoryCodeStore cf E ar uid st)))
      = TokenResponse b"
proof -
  let ?st = "snd (completeAuthorization MemoryCodeStore cf E ar uid st)"
  obtain c' where n: "cs_Consume MemoryCodeStore (ie_now E') k (is_codes ?st) = (Inr (issued_code cf (ie_now E) k ar uid), c')"
    using memcodes.code_flow(2) [OF assms(1-6), of E' uid] assms(13) by blast
  have bearer: "tb_TokenType b = ''Bearer''" using assms(16) by (auto simp: mintTokens_def split: sum.splits)
  have "fst (handleCodeGrant dev_AuthStore MemoryCodeStore cf E' r client ?st) = TokenResponse b"
    using assms n bearer
    by (simp add: handleCodeGrant_def redeem_code_def verifyPKCE_def issued_code_def writeTokenResponse_def)
  with memcodes.code_flow(1) [OF assms(1-6)] show ?thesis by simp
qed

theorem code_flow_completes_witness:
  "fst (handleCodeGrant dev_AuthStore MemoryCodeStore DefaultConfig demo_ienv demo_token demo_client
     (snd (completeAuthorization MemoryCodeStore DefaultConfig demo_ienv (parseAuthorizeRequest demo_authorize) ''u1'' demo_issuer)))
     = TokenResponse demo_bundle"
proof -
  let ?ar = "parseAuthorizeRequest demo_authorize"
  let ?user = "signed_up_user demo_env ''u1'' ''ann@example.com'' ''#password'' ''Ann''"
  have h: "codes_ok (is_codes demo_issuer)" "gm_get (is_codes demo_issuer) ''k1'' = None"
    by (simp_all add: demo_issuer_def issuer_New_def codes_ok_def)
  have e: "ie_NewCode demo_ienv = Inr ''k1''" "ie_now demo_ienv + if_AuthCodeTTL DefaultConfig \<noteq> 0"
    "ie_ParsesURL demo_ienv (aq_RedirectURI ?ar)" "ie_now demo_ienv \<le> ie_now demo_ienv + if_AuthCodeTTL DefaultConfig"
    "ie_ParseUUID demo_ienv ''u1'' = Inr ''u1''"
    by (simp_all add: demo_ienv_def DefaultConfig_def)
  have c: "HasGrant demo_client ''authorization_code''" "cl_ID demo_client = aq_ClientID ?ar" "rq_Form demo_token ''code'' = ''k1''"
    "rq_Form demo_token ''redirect_uri'' = aq_RedirectURI ?ar" "rq_Form demo_token ''code_verifier'' \<noteq> []"
    "ie_S256 demo_ienv (rq_Form demo_token ''code_verifier'') = aq_CodeChallenge ?ar"
    by code_simp+
  have u: "as_GetUserByID dev_AuthStore ''u1'' (is_store demo_issuer) = Inr ?user" by code_simp
  have m: "mintTokens DefaultConfig demo_ienv ?user (cl_ID demo_client) (aq_Nonce ?ar) (splitScopes (aq_Scope ?ar)) = Inr demo_bundle"
    by code_simp
  have ne: "''k1'' \<noteq> []" by simp
  from code_flow_completes [OF h(1) e(1) ne h(2) e(2,3) c e(4,5) u m] show ?thesis by blast
qed

section \<open>Divergences\<close>

text \<open>
  Refresh tokens are not bound to the client: a token that was issued to one client is exchanged for another one.
  The new ID token also carries the e-mail address, which the original scope did not include.
\<close>

definition other_refresh :: http_request where
  "other_refresh = post_request
     [(''grant_type'', ''refresh_token''), (''client_id'', ''other''), (''client_secret'', ''0ther''), (''refresh_token'', ''r1'')]"

lemma refresh_not_bound_to_client:
  "(case fst (dev_TokenHandler DefaultConfig (demo_ienv\<lparr>ie_Auth := demo_env2\<rparr>) other_refresh
      (snd (dev_TokenHandler DefaultConfig demo_ienv demo_token (dev_issuer_run DefaultConfig demo_flow demo_issuer)))) of
      TokenResponse b \<Rightarrow> tb_IDToken b = ''u1 other ann@example.com''
    | _ \<Rightarrow> False)"
  by code_simp

text \<open>A client without a secret is refused at the token endpoint, although it is said to skip the secret check.\<close>

lemma public_client_refused:
  assumes "gm_get (is_clients st) cid = Some client" and "cl_SecretHash client = []"
    and "extractClientCreds r = Some (cid, secret)" and "rq_Method r = ''POST''" and "rq_Parses r"
  shows "TokenHandler A C cf E r st = (TokenError 401 ''invalid_client'' ''invalid client credentials'', st)"
  using assms by (simp add: TokenHandler_def MemoryRegistry_Authenticate_def MemoryRegistry_Lookup_def)

end
