(* ===== verification/Experience.thy ===== *)
theory Experience
  imports Go_Strings "HOL-Library.List_Lexorder" "HOL-Library.Char_ord"
begin

text \<open>
  The experience contract, \<^verbatim>\<open>src/platform/experience\<close>: scope projection, the repository chokepoint, version
  negotiation, contract versions, the validators for navigation graphs, presentation, tooling and agents, the
  resolver with its content hash, the scope-keyed store with the service handler, and the stub dispatcher.

  Protocol-buffer messages are records of the fields this code reads, a message pointer that may be nil an
  option; the remaining fields of a spec are one opaque field. SHA-256, the deterministic marshalling of a
  spec and the JSON parser are parameters.
\<close>

section \<open>Scope projection\<close>

datatype scope_authority = SCOPE_AUTHORITY_UNSPECIFIED | SCOPE_AUTHORITY_COMPANY | SCOPE_AUTHORITY_ORG

datatype transport_kind = TRANSPORT_KIND_UNSPECIFIED | TRANSPORT_KIND_CONNECT | TRANSPORT_KIND_REST_OPENAPI

datatype operation =
  OPERATION_UNSPECIFIED | OPERATION_GET | OPERATION_LIST | OPERATION_CREATE | OPERATION_UPDATE | OPERATION_DELETE

record aoid_identity =
  id_Subject :: string
  id_CompanyIDs :: "string list"
  id_OrgIDs :: "string list"

record scoped_context =
  sx_Subject :: string
  sx_Authority :: scope_authority
  sx_ScopeID :: string

record transport_binding =
  bi_TransportKind :: transport_kind
  bi_ScopeAuthority :: scope_authority
  bi_Operations :: "operation list"

definition ErrScopeDenied :: go_error where "ErrScopeDenied = ErrVar ''experience: scope projection denied''"

definition ResolveScope :: "aoid_identity \<Rightarrow> scope_authority \<Rightarrow> string \<Rightarrow> scoped_context result" where
  "ResolveScope identity authority requestedScopeID =
     (case (case authority of
              SCOPE_AUTHORITY_COMPANY \<Rightarrow> Some (id_CompanyIDs identity)
            | SCOPE_AUTHORITY_ORG \<Rightarrow> Some (id_OrgIDs identity)
            | _ \<Rightarrow> None) of
        None \<Rightarrow> Inl ErrScopeDenied
      | Some grants \<Rightarrow>
          if requestedScopeID \<in> set grants \<and> requestedScopeID \<noteq> []
          then Inr \<lparr>sx_Subject = id_Subject identity, sx_Authority = authority, sx_ScopeID = requestedScopeID\<rparr>
          else Inl ErrScopeDenied)"

definition BindingHasOperation :: "transport_binding \<Rightarrow> operation \<Rightarrow> bool" where
  "BindingHasOperation b oper \<longleftrightarrow> oper \<in> set (bi_Operations b)"

definition BindingIsBindable :: "transport_binding \<Rightarrow> bool" where
  "BindingIsBindable b \<longleftrightarrow>
     bi_TransportKind b \<noteq> TRANSPORT_KIND_UNSPECIFIED \<and> bi_ScopeAuthority b \<noteq> SCOPE_AUTHORITY_UNSPECIFIED"

definition authorizeScope :: "aoid_identity \<Rightarrow> scope_authority \<Rightarrow> scoped_context \<Rightarrow> go_error option" where
  "authorizeScope identity authority sc =
     (if sx_Subject sc \<noteq> id_Subject identity then Some ErrScopeDenied
      else if sx_Authority sc \<noteq> authority then Some ErrScopeDenied
      else (case ResolveScope identity authority (sx_ScopeID sc) of
              Inl err \<Rightarrow> Some err
            | Inr reprojected \<Rightarrow> if sx_ScopeID reprojected \<noteq> sx_ScopeID sc then Some ErrScopeDenied else None))"

section \<open>The Connect repository\<close>

record entity =
  en_ID :: string
  en_ScopeID :: string
  en_Fields :: "(string, string) gomap"

record entity_page =
  pg_Items :: "entity list"
  pg_NextCursor :: string

abbreviation connect_authorize :: "aoid_identity \<Rightarrow> scoped_context \<Rightarrow> go_error option" where
  "connect_authorize identity sc \<equiv> authorizeScope identity SCOPE_AUTHORITY_COMPANY sc"

definition connectStub_Get :: "aoid_identity \<Rightarrow> scoped_context \<Rightarrow> string \<Rightarrow> entity result" where
  "connectStub_Get identity sc i =
     (case connect_authorize identity sc of
        Some err \<Rightarrow> Inl err
      | None \<Rightarrow> Inr \<lparr>en_ID = i, en_ScopeID = sx_ScopeID sc,
                     en_Fields = [(''name'', ''Biz Connect Entity''), (''kind'', ''connect-company'')]\<rparr>)"

definition connectStub_List :: "aoid_identity \<Rightarrow> scoped_context \<Rightarrow> int \<Rightarrow> entity_page result" where
  "connectStub_List identity sc limit =
     (case connect_authorize identity sc of
        Some err \<Rightarrow> Inl err
      | None \<Rightarrow>
          let items = [\<lparr>en_ID = ''tenant-biz-1'', en_ScopeID = sx_ScopeID sc,
                        en_Fields = [(''name'', ''Biz One''), (''kind'', ''connect-company'')]\<rparr>,
                       \<lparr>en_ID = ''tenant-biz-2'', en_ScopeID = sx_ScopeID sc,
                        en_Fields = [(''name'', ''Biz Two''), (''kind'', ''connect-company'')]\<rparr>]
          in Inr \<lparr>pg_Items = (if limit > 0 \<and> limit < int (length items) then take (nat limit) items else items),
                  pg_NextCursor = ''connect-cursor-page-2''\<rparr>)"

definition connectStub_Create :: "aoid_identity \<Rightarrow> scoped_context \<Rightarrow> entity \<Rightarrow> entity result" where
  "connectStub_Create identity sc e =
     (case connect_authorize identity sc of
        Some err \<Rightarrow> Inl err
      | None \<Rightarrow> Inr \<lparr>en_ID = ''tenant-biz-created'', en_ScopeID = sx_ScopeID sc,
                     en_Fields = gm_put ''kind'' ''connect-company'' (en_Fields e)\<rparr>)"

definition connectStub_Update :: "aoid_identity \<Rightarrow> scoped_context \<Rightarrow> entity \<Rightarrow> entity result" where
  "connectStub_Update identity sc e =
     (case connect_authorize identity sc of
        Some err \<Rightarrow> Inl err
      | None \<Rightarrow> Inr \<lparr>en_ID = en_ID e, en_ScopeID = sx_ScopeID sc,
                     en_Fields = gm_put ''kind'' ''connect-company'' (en_Fields e)\<rparr>)"

definition connectStub_Delete :: "aoid_identity \<Rightarrow> scoped_context \<Rightarrow> unit result" where
  "connectStub_Delete identity sc = (case connect_authorize identity sc of Some err \<Rightarrow> Inl err | None \<Rightarrow> Inr ())"

section \<open>Specs\<close>

text \<open>
  A protocol-buffer enumeration is open: where the code treats numbers without a name differently from every
  named value, the number is kept.
\<close>

datatype unknown_surface_policy = POLICY_UNSPECIFIED | POLICY_IGNORE | POLICY_BLOCK_UPGRADE | POLICY_RENDER_DEGRADED

datatype placement = PLACEMENT_UNSPECIFIED | PLACEMENT_PRIMARY | PLACEMENT_MORE | PLACEMENT_DETAIL_ONLY

record nav_slot =
  sl_SurfaceID :: string
  sl_Placement :: placement

record nav_edge =
  ed_From :: string
  ed_To :: string

record nav_graph =
  ng_Landing :: string
  ng_Slots :: "nav_slot list"
  ng_Edges :: "nav_edge list"

datatype offline_policy =
  OFFLINE_POLICY_UNSPECIFIED | OFFLINE_POLICY_NONE | OFFLINE_POLICY_READ_CACHE | OFFLINE_POLICY_READ_WRITE_QUEUE
| OFFLINE_POLICY_number int

datatype conflict_policy =
  CONFLICT_POLICY_UNSPECIFIED | CONFLICT_POLICY_LAST_WRITE_WINS | CONFLICT_POLICY_SERVER_WINS
| CONFLICT_POLICY_MANUAL_RECONCILE | CONFLICT_POLICY_number int

record offline_spec =
  of_Policy :: offline_policy
  of_ConflictPolicy :: conflict_policy

record resolution_context =
  rx_TenantID :: string
  rx_OrgID :: string
  rx_ResolvedAt :: string
  rx_ResolverVersion :: string

record experience_spec =
  ex_TenantID :: string
  ex_OrgID :: string
  ex_MinBinaryVersion :: string
  ex_SpecSchemaVersion :: string
  ex_SurfaceContractVersion :: string
  ex_ReferencedSurfaceIDs :: "string list"
  ex_UnknownSurfacePolicy :: unknown_surface_policy
  ex_NavGraph :: "nav_graph option"
  ex_Timezone :: string
  ex_SurfaceOffline :: "(string, offline_spec option) gomap"
  ex_LockedSurfaces :: "(string \<times> string) list"
  ex_ResolutionContext :: "resolution_context option"
  ex_ContentHash :: string
  ex_Other :: string

record resolution_tuple =
  tu_Role :: string
  tu_FormFactor :: string
  tu_TenantID :: string
  tu_OrgID :: string
  tu_Entitlement :: string
  tu_Granted :: "(string, unit) gomap"

section \<open>Version negotiation\<close>

definition componentAt :: "string list \<Rightarrow> nat \<Rightarrow> int" where
  "componentAt parts i =
     (if i \<ge> length parts then 0 else (case Atoi (TrimSpace (parts ! i)) of None \<Rightarrow> 0 | Some v \<Rightarrow> v))"

text \<open>The loop over the positions from \<open>i\<close>, \<open>k\<close> of them.\<close>

fun compare_from :: "string list \<Rightarrow> string list \<Rightarrow> nat \<Rightarrow> nat \<Rightarrow> int" where
  "compare_from as bs i 0 = 0"
| "compare_from as bs i (Suc k) =
     (if componentAt as i < componentAt bs i then -1
      else if componentAt as i > componentAt bs i then 1
      else compare_from as bs (Suc i) k)"

definition compareVersions :: "string \<Rightarrow> string \<Rightarrow> int" where
  "compareVersions a b =
     (let as = Split a CHR ''.''; bs = Split b CHR ''.''
      in compare_from as bs 0 (max (length as) (length bs)))"

record negotiation =
  nr_Rendered :: "string list"
  nr_Dropped :: "string list"
  nr_Degraded :: "string list"
  nr_Blocked :: bool
  nr_Reason :: string
  nr_TenantID :: string
  nr_OrgID :: string

text \<open>The loop over the referenced surfaces.\<close>

fun negotiate_surfaces :: "string list \<Rightarrow> unknown_surface_policy \<Rightarrow> string list \<Rightarrow> negotiation \<Rightarrow> negotiation" where
  "negotiate_surfaces known policy [] res = res"
| "negotiate_surfaces known policy (i # ids) res =
     (if i \<in> set known then negotiate_surfaces known policy ids (res\<lparr>nr_Rendered := nr_Rendered res @ [i]\<rparr>)
      else (case policy of
              POLICY_IGNORE \<Rightarrow> negotiate_surfaces known policy ids (res\<lparr>nr_Dropped := nr_Dropped res @ [i]\<rparr>)
            | POLICY_RENDER_DEGRADED \<Rightarrow>
                negotiate_surfaces known policy ids (res\<lparr>nr_Degraded := nr_Degraded res @ [i]\<rparr>)
            | POLICY_BLOCK_UPGRADE \<Rightarrow>
                res\<lparr>nr_Blocked := True,
                    nr_Reason := ''spec references unknown surface '' @ quoted i @ '' and policy is BLOCK_UPGRADE; upgrade required''\<rparr>
            | POLICY_UNSPECIFIED \<Rightarrow>
                res\<lparr>nr_Blocked := True,
                    nr_Reason := ''spec references unknown surface '' @ quoted i @
                      '' and unknown_surface_policy is unspecified; failing safe (block)''\<rparr>))"

definition Negotiate :: "experience_spec \<Rightarrow> string list \<Rightarrow> string \<Rightarrow> negotiation" where
  "Negotiate spec known binaryVersion =
     (let res = \<lparr>nr_Rendered = [], nr_Dropped = [], nr_Degraded = [], nr_Blocked = False, nr_Reason = [],
                 nr_TenantID = ex_TenantID spec, nr_OrgID = ex_OrgID spec\<rparr>;
          floor' = ex_MinBinaryVersion spec
      in if floor' \<noteq> [] \<and> compareVersions binaryVersion floor' < 0
         then res\<lparr>nr_Blocked := True,
                  nr_Reason := ''binary '' @ binaryVersion @ '' is below the spec'' @ [CHR 0x27] @ ''s min_binary_version '' @
                    floor' @ ''; upgrade required''\<rparr>
         else negotiate_surfaces known (ex_UnknownSurfacePolicy spec) (ex_ReferencedSurfaceIDs spec) res)"

section \<open>Contract versions\<close>

definition ContractVersion :: string where "ContractVersion = ''experience.v1''"

datatype change_class = ChangeNone | ChangeMinor | ChangeBreaking | ChangeClass_number int

primrec ChangeClass_String :: "change_class \<Rightarrow> string" where
  "ChangeClass_String ChangeNone = ''None''"
| "ChangeClass_String ChangeMinor = ''Minor''"
| "ChangeClass_String ChangeBreaking = ''Breaking''"
| "ChangeClass_String (ChangeClass_number n) = ''ChangeClass('' @ show_int n @ '')''"

record field_descriptor =
  fd_Number :: int
  fd_Name :: string
  fd_Kind :: string

definition indexByNumber :: "field_descriptor list \<Rightarrow> (int, field_descriptor) gomap" where
  "indexByNumber fs = fold (\<lambda>f m. gm_put (fd_Number f) f m) fs []"

definition ClassifyChange :: "field_descriptor list \<Rightarrow> field_descriptor list \<Rightarrow> change_class" where
  "ClassifyChange oldFields newFields =
     (let oldByNum = indexByNumber oldFields;
          newByNum = indexByNumber newFields;
          breaking = list_ex (\<lambda>(num, of').
            case gm_get newByNum num of
              None \<Rightarrow> True
            | Some nf \<Rightarrow> fd_Name nf \<noteq> fd_Name of' \<or> fd_Kind nf \<noteq> fd_Kind of') oldByNum
      in if breaking then ChangeBreaking
         else if list_ex (\<lambda>(num, nf). gm_get oldByNum num = None) newByNum then ChangeMinor
         else ChangeNone)"

text \<open>The error of a failed \<^verbatim>\<open>strconv.Atoi\<close>: a range error when the digits are well formed.\<close>

definition Atoi_error :: "string \<Rightarrow> go_error" where
  "Atoi_error s =
     (let ds = (case s of [] \<Rightarrow> [] | c # r \<Rightarrow> if c = CHR ''-'' \<or> c = CHR ''+'' then r else s)
      in ErrWrap (''strconv.Atoi: parsing '' @ quoted s @ '': '')
           (ErrVar (if ds \<noteq> [] \<and> digits_val ds 0 \<noteq> None then ''value out of range'' else ''invalid syntax'')) [])"

definition semver_component :: "string list \<Rightarrow> nat \<Rightarrow> int result" where
  "semver_component parts i =
     (if i \<ge> length parts then Inr 0
      else (case Atoi (TrimSpace (parts ! i)) of
              None \<Rightarrow> Inl (Atoi_error (TrimSpace (parts ! i)))
            | Some v \<Rightarrow> Inr v))"

definition parseSemver :: "string \<Rightarrow> (int \<times> int \<times> int) result" where
  "parseSemver v =
     (let parts = Split (TrimSpace v) CHR ''.'';
          malformed = (\<lambda>err. Inl (ErrWrap (''contract: malformed semver '' @ quoted v @ '': '') err []))
      in case semver_component parts 0 of
           Inl err \<Rightarrow> malformed err
         | Inr major \<Rightarrow>
             (case semver_component parts 1 of
                Inl err \<Rightarrow> malformed err
              | Inr minor \<Rightarrow>
                  (case semver_component parts 2 of
                     Inl err \<Rightarrow> malformed err
                   | Inr patch \<Rightarrow> Inr (major, minor, patch))))"

definition BumpVersion :: "string \<Rightarrow> change_class \<Rightarrow> string result" where
  "BumpVersion version cls =
     (case cls of
        ChangeBreaking \<Rightarrow>
          Inl (ErrMsg (''contract: a BREAKING change to the frozen experience.v1 contract is forbidden; '' @
            ''it must become a new contract (experience.v2) by deliberate decision, not a bump of '' @ quoted version))
      | ChangeNone \<Rightarrow> Inr version
      | ChangeMinor \<Rightarrow>
          (case parseSemver version of
             Inl err \<Rightarrow> Inl err
           | Inr (major, minor, patch) \<Rightarrow>
               Inr (show_int major @ ''.'' @ show_int (wrap64 (minor + 1)) @ ''.0''))
      | ChangeClass_number n \<Rightarrow> Inl (ErrMsg (''contract: unknown change class '' @ ChangeClass_String cls)))"

section \<open>Navigation graphs\<close>

definition maxPrimarySlots :: int where "maxPrimarySlots = 5"

datatype coherence_code =
  CoherenceTooManyPrimary | CoherenceLandingMissing | CoherenceEdgeEndpointMissing | CoherenceSurfaceNotEntitled
| CoherenceMissingTimezone | CoherenceIncoherentOffline

primrec coherence_text :: "coherence_code \<Rightarrow> string" where
  "coherence_text CoherenceTooManyPrimary = ''nav.too_many_primary''"
| "coherence_text CoherenceLandingMissing = ''nav.landing_missing''"
| "coherence_text CoherenceEdgeEndpointMissing = ''nav.edge_endpoint_missing''"
| "coherence_text CoherenceSurfaceNotEntitled = ''nav.surface_not_entitled''"
| "coherence_text CoherenceMissingTimezone = ''presentation.missing_timezone''"
| "coherence_text CoherenceIncoherentOffline = ''presentation.incoherent_offline''"

record coherence_error =
  ce_Code :: coherence_code
  ce_SurfaceID :: string
  ce_Message :: string

definition CoherenceError_Error :: "coherence_error \<Rightarrow> string" where
  "CoherenceError_Error e =
     (if ce_SurfaceID e \<noteq> []
      then coherence_text (ce_Code e) @ '': '' @ ce_Message e @ '' ('' @ ce_SurfaceID e @ '')''
      else coherence_text (ce_Code e) @ '': '' @ ce_Message e)"

definition edge_errors :: "string list \<Rightarrow> nav_edge \<Rightarrow> coherence_error list" where
  "edge_errors slotSurfaces e =
     concat (map (\<lambda>endpoint.
       if endpoint = [] then []
       else if endpoint \<in> set slotSurfaces then []
       else [\<lparr>ce_Code = CoherenceEdgeEndpointMissing, ce_SurfaceID = endpoint,
              ce_Message = ''edge endpoint is not a placed slot''\<rparr>]) [ed_From e, ed_To e])"

definition ValidateNavGraph :: "nav_graph option \<Rightarrow> (string, unit) gomap \<Rightarrow> coherence_error list" where
  "ValidateNavGraph g entitled =
     (case g of
        None \<Rightarrow> []
      | Some g \<Rightarrow>
          let slotSurfaces = map sl_SurfaceID (ng_Slots g);
              primaryCount = int (length (filter (\<lambda>sl. sl_Placement sl = PLACEMENT_PRIMARY) (ng_Slots g)));
              landing = ng_Landing g
          in (if primaryCount > maxPrimarySlots
              then [\<lparr>ce_Code = CoherenceTooManyPrimary, ce_SurfaceID = [],
                     ce_Message = ''primary nav has '' @ show_int primaryCount @ '' slots; max is '' @ show_int maxPrimarySlots\<rparr>]
              else []) @
             (if landing \<noteq> [] \<and> landing \<notin> set slotSurfaces
              then [\<lparr>ce_Code = CoherenceLandingMissing, ce_SurfaceID = landing,
                     ce_Message = ''landing_surface_id is not a placed slot''\<rparr>]
              else []) @
             concat (map (edge_errors slotSurfaces) (ng_Edges g)) @
             concat (map (\<lambda>sl.
               if gm_get entitled (sl_SurfaceID sl) = None
               then [\<lparr>ce_Code = CoherenceSurfaceNotEntitled, ce_SurfaceID = sl_SurfaceID sl,
                      ce_Message = ''surface is not entitled to the requesting scope''\<rparr>]
               else []) (ng_Slots g)))"

section \<open>Presentation\<close>

primrec OfflinePolicy_String :: "offline_policy \<Rightarrow> string" where
  "OfflinePolicy_String OFFLINE_POLICY_UNSPECIFIED = ''OFFLINE_POLICY_UNSPECIFIED''"
| "OfflinePolicy_String OFFLINE_POLICY_NONE = ''OFFLINE_POLICY_NONE''"
| "OfflinePolicy_String OFFLINE_POLICY_READ_CACHE = ''OFFLINE_POLICY_READ_CACHE''"
| "OfflinePolicy_String OFFLINE_POLICY_READ_WRITE_QUEUE = ''OFFLINE_POLICY_READ_WRITE_QUEUE''"
| "OfflinePolicy_String (OFFLINE_POLICY_number n) = show_int n"

primrec ConflictPolicy_String :: "conflict_policy \<Rightarrow> string" where
  "ConflictPolicy_String CONFLICT_POLICY_UNSPECIFIED = ''CONFLICT_POLICY_UNSPECIFIED''"
| "ConflictPolicy_String CONFLICT_POLICY_LAST_WRITE_WINS = ''CONFLICT_POLICY_LAST_WRITE_WINS''"
| "ConflictPolicy_String CONFLICT_POLICY_SERVER_WINS = ''CONFLICT_POLICY_SERVER_WINS''"
| "ConflictPolicy_String CONFLICT_POLICY_MANUAL_RECONCILE = ''CONFLICT_POLICY_MANUAL_RECONCILE''"
| "ConflictPolicy_String (CONFLICT_POLICY_number n) = show_int n"

definition SchedulingSurfaces :: "string list \<Rightarrow> (string, unit) gomap" where
  "SchedulingSurfaces ids = fold (\<lambda>i m. gm_put i () m) ids []"

definition servesDataOffline :: "offline_policy \<Rightarrow> bool" where
  "servesDataOffline p = (case p of
     OFFLINE_POLICY_READ_CACHE \<Rightarrow> True | OFFLINE_POLICY_READ_WRITE_QUEUE \<Rightarrow> True | _ \<Rightarrow> False)"

definition offlineIsActive :: "offline_policy \<Rightarrow> bool" where
  "offlineIsActive p = (case p of OFFLINE_POLICY_UNSPECIFIED \<Rightarrow> False | OFFLINE_POLICY_NONE \<Rightarrow> False | _ \<Rightarrow> True)"

definition offline_errors ::
  "string \<Rightarrow> (string, unit) gomap \<Rightarrow> string \<times> offline_spec option \<Rightarrow> coherence_error list" where
  "offline_errors timezone schedulingSurfaces entry =
     (case entry of
        (surfaceID, None) \<Rightarrow> []
      | (surfaceID, Some off) \<Rightarrow>
          (if servesDataOffline (of_Policy off) \<and> gm_get schedulingSurfaces surfaceID \<noteq> None \<and> timezone = []
           then [\<lparr>ce_Code = CoherenceMissingTimezone, ce_SurfaceID = surfaceID,
                  ce_Message = ''offline scheduling surface requires LocaleSpec.timezone (load-bearing for local appointment times)''\<rparr>]
           else []) @
          (if \<not> offlineIsActive (of_Policy off) \<and> of_ConflictPolicy off \<noteq> CONFLICT_POLICY_UNSPECIFIED
           then [\<lparr>ce_Code = CoherenceIncoherentOffline, ce_SurfaceID = surfaceID,
                  ce_Message = ''conflict_policy '' @ ConflictPolicy_String (of_ConflictPolicy off) @
                    '' set while offline policy is '' @ OfflinePolicy_String (of_Policy off) @ '' (nothing is queued offline)''\<rparr>]
           else []))"

definition ValidatePresentation :: "experience_spec option \<Rightarrow> (string, unit) gomap \<Rightarrow> coherence_error list" where
  "ValidatePresentation spec schedulingSurfaces =
     (case spec of
        None \<Rightarrow> []
      | Some spec \<Rightarrow> concat (map (offline_errors (ex_Timezone spec) schedulingSurfaces) (ex_SurfaceOffline spec)))"

end
