(* ===== verification/Go_Encoding.thy ===== *)
theory Go_Encoding
  imports Go_Strings
begin

text \<open>
  What the components use of Go's encoding packages: the values \<^verbatim>\<open>encoding/json\<close> decodes into an \<^verbatim>\<open>any\<close>,
  \<^verbatim>\<open>url.QueryEscape\<close>, and \<^verbatim>\<open>base64.RawURLEncoding\<close> with its round trip.
\<close>

section \<open>JSON values\<close>

text \<open>
  The values \<^verbatim>\<open>json.Unmarshal\<close> yields for an \<^verbatim>\<open>any\<close>; \<open>unmarshal\<close> is its result or its error. Decoding into
  a map fails unless the value is an object, or null, which leaves the map nil.
\<close>

datatype json = JNull | JBool bool | JNumber string | JString string | JArray "json list" | JObject "(string, json) gomap"

definition unmarshal_map :: "(string \<Rightarrow> json result) \<Rightarrow> string \<Rightarrow> (string, json) gomap option" where
  "unmarshal_map unmarshal s = (case unmarshal s of Inr (JObject m) \<Rightarrow> Some m | Inr JNull \<Rightarrow> Some [] | _ \<Rightarrow> None)"

section \<open>Query strings\<close>

definition url_plain :: string where
  "url_plain = ''abcdefghijklmnopqrstuvwxyzABCDEFGHIJKLMNOPQRSTUVWXYZ0123456789-_.~''"

definition upper_hex :: string where
  "upper_hex = ''0123456789ABCDEF''"

definition escape_char :: "char \<Rightarrow> string" where
  "escape_char c =
     (if c \<in> set url_plain then [c]
      else if c = CHR '' '' then ''+''
      else [CHR ''%'', upper_hex ! (of_char c div 16), upper_hex ! (of_char c mod 16)])"

definition QueryEscape :: "string \<Rightarrow> string" where
  "QueryEscape s = concat (map escape_char s)"

lemma upper_hex_inj: "m < 16 \<Longrightarrow> n < 16 \<Longrightarrow> upper_hex ! m = upper_hex ! n \<longleftrightarrow> m = n"
proof -
  have "distinct upper_hex" "length upper_hex = 16" by code_simp+
  then show "m < 16 \<Longrightarrow> n < 16 \<Longrightarrow> upper_hex ! m = upper_hex ! n \<longleftrightarrow> m = n" by (simp add: nth_eq_iff_index_eq)
qed

lemma char_eq_nibbles: "(of_char c :: nat) div 16 = of_char d div 16 \<Longrightarrow> (of_char c :: nat) mod 16 = of_char d mod 16 \<Longrightarrow> c = d"
  by (metis (no_types) div_mult_mod_eq of_char_eq_iff)

lemma escape_char_prefix:
  assumes "escape_char c @ xs = escape_char d @ ys"
  shows "c = d \<and> xs = ys"
proof -
  have p: "CHR ''%'' \<notin> set url_plain" "CHR ''+'' \<notin> set url_plain" by code_simp+
  have "(of_char c :: nat) div 16 < 16" "(of_char d :: nat) div 16 < 16" by (rule high_nibble)+
  then show ?thesis
    using assms p by (auto simp: escape_char_def upper_hex_inj dest: char_eq_nibbles split: if_splits)
qed

lemma escape_char_ne [simp]: "escape_char c \<noteq> []"
  by (simp add: escape_char_def)

lemma QueryEscape_inj: "QueryEscape s = QueryEscape t \<longleftrightarrow> s = t"
proof
  show "QueryEscape s = QueryEscape t \<Longrightarrow> s = t"
  proof (induction s arbitrary: t)
    case Nil
    then show ?case by (cases t) (auto simp: QueryEscape_def)
  next
    case (Cons c s)
    then show ?case
      by (cases t) (auto simp: QueryEscape_def dest!: escape_char_prefix)
  qed
qed simp

lemma QueryEscape_alphabet: "set (QueryEscape s) \<subseteq> set url_plain \<union> {CHR ''+'', CHR ''%''}"
proof -
  have "set upper_hex \<subseteq> set url_plain" "length upper_hex = 16" by code_simp+
  then have "upper_hex ! (of_char c div 16) \<in> set url_plain" "upper_hex ! (of_char c mod 16) \<in> set url_plain" for c
    using high_nibble [of c] nth_mem [of _ upper_hex] by (metis subsetD, metis mod_less_divisor subsetD zero_less_numeral)
  then show ?thesis by (auto simp: QueryEscape_def escape_char_def split: if_splits)
qed

text \<open>
  \<^verbatim>\<open>url.QueryUnescape\<close>: a percent sign needs two hexadecimal digits of either case after it, a plus is a space and
  every other byte stands for itself.
\<close>

definition unhex :: "char \<Rightarrow> nat option" where
  "unhex c =
     (if CHR ''0'' \<le> c \<and> c \<le> CHR ''9'' then Some (of_char c - 48)
      else if CHR ''a'' \<le> c \<and> c \<le> CHR ''f'' then Some (of_char c - 87)
      else if CHR ''A'' \<le> c \<and> c \<le> CHR ''F'' then Some (of_char c - 55) else None)"

fun QueryUnescape :: "string \<Rightarrow> string option" where
  "QueryUnescape [] = Some []"
| "QueryUnescape (c # s) =
     (if c = CHR ''%''
      then (case s of
              h # l # r \<Rightarrow> (case (unhex h, unhex l) of
                               (Some i, Some j) \<Rightarrow> map_option ((#) (char_of (16 * i + j))) (QueryUnescape r)
                             | _ \<Rightarrow> None)
            | _ \<Rightarrow> None)
      else map_option ((#) (if c = CHR ''+'' then CHR '' '' else c)) (QueryUnescape s))"

lemma unhex_upper_hex: "n < 16 \<Longrightarrow> unhex (upper_hex ! n) = Some n"
proof -
  have "\<forall>k\<in>set [0..<16]. unhex (upper_hex ! k) = Some k" by code_simp
  then show "n < 16 \<Longrightarrow> unhex (upper_hex ! n) = Some n" by simp
qed

lemma QueryUnescape_escape_char: "QueryUnescape (escape_char c @ r) = map_option ((#) c) (QueryUnescape r)"
proof -
  have p: "CHR ''%'' \<notin> set url_plain" "CHR ''+'' \<notin> set url_plain" by code_simp+
  show ?thesis
  proof (cases "c \<in> set url_plain \<or> c = CHR '' ''")
    case True
    with p show ?thesis by (auto simp: escape_char_def)
  next
    case False
    define h l :: nat where "h = of_char c div 16" and "l = of_char c mod 16"
    have "h < 16" "l < 16" using high_nibble [of c] by (simp_all add: h_def l_def)
    moreover have "char_of (16 * h + l) = c" by (simp only: h_def l_def mult_div_mod_eq char_of_char)
    moreover have "escape_char c = [CHR ''%'', upper_hex ! h, upper_hex ! l]"
      using False by (simp add: escape_char_def h_def l_def)
    ultimately show ?thesis by (simp add: unhex_upper_hex)
  qed
qed

lemma QueryUnescape_QueryEscape [simp]: "QueryUnescape (QueryEscape s) = Some s"
proof (induction s)
  case (Cons c s)
  then show ?case using QueryUnescape_escape_char [of c "QueryEscape s"] by (simp add: QueryEscape_def)
qed (simp add: QueryEscape_def)

section \<open>Unpadded base64url\<close>

definition b64url :: string where
  "b64url = ''ABCDEFGHIJKLMNOPQRSTUVWXYZabcdefghijklmnopqrstuvwxyz0123456789-_''"

fun b64_sextets :: "nat list \<Rightarrow> nat list" where
  "b64_sextets [] = []"
| "b64_sextets [x] = [x div 4, x mod 4 * 16]"
| "b64_sextets [x, y] = [x div 4, x mod 4 * 16 + y div 16, y mod 16 * 4]"
| "b64_sextets (x # y # z # r) = [x div 4, x mod 4 * 16 + y div 16, y mod 16 * 4 + z div 64, z mod 64] @ b64_sextets r"

fun b64_octets :: "nat list \<Rightarrow> nat list option" where
  "b64_octets [] = Some []"
| "b64_octets [a] = None"
| "b64_octets [a, b] = Some [a * 4 + b div 16]"
| "b64_octets [a, b, c] = Some [a * 4 + b div 16, b mod 16 * 16 + c div 4]"
| "b64_octets (a # b # c # d # r) =
     map_option (\<lambda>os. [a * 4 + b div 16, b mod 16 * 16 + c div 4, c mod 4 * 64 + d] @ os) (b64_octets r)"

definition b64_EncodeToString :: "string \<Rightarrow> string" where
  "b64_EncodeToString s = map (\<lambda>n. b64url ! n) (b64_sextets (map of_char s))"

fun index_of :: "'a list \<Rightarrow> 'a \<Rightarrow> nat option" where
  "index_of [] x = None"
| "index_of (y # ys) x = (if y = x then Some 0 else map_option Suc (index_of ys x))"

fun sextets_of :: "string \<Rightarrow> nat list option" where
  "sextets_of [] = Some []"
| "sextets_of (c # s) =
     (case index_of b64url c of None \<Rightarrow> None | Some n \<Rightarrow> map_option ((#) n) (sextets_of s))"

text \<open>The decoder skips line breaks and ignores the bits left over at the end.\<close>

definition b64_DecodeString :: "string \<Rightarrow> string option" where
  "b64_DecodeString s =
     (case sextets_of (filter (\<lambda>c. c \<noteq> CHR 0x0A \<and> c \<noteq> CHR 0x0D) s) of
        None \<Rightarrow> None
      | Some ns \<Rightarrow> map_option (map char_of) (b64_octets ns))"

lemma b64_sextets_bound: "\<forall>x\<in>set xs. x < 256 \<Longrightarrow> \<forall>n\<in>set (b64_sextets xs). n < 64"
  by (induction xs rule: b64_sextets.induct) auto

lemma b64_octets_sextets: "\<forall>x\<in>set xs. x < 256 \<Longrightarrow> b64_octets (b64_sextets xs) = Some xs"
  by (induction xs rule: b64_sextets.induct) (auto simp: div_mult2_eq [symmetric])

lemma index_of_nth: "distinct xs \<Longrightarrow> n < length xs \<Longrightarrow> index_of xs (xs ! n) = Some n"
  by (induction xs arbitrary: n) (auto simp: nth_Cons split: nat.splits)

lemma b64url_facts: "distinct b64url" "length b64url = 64" "CHR 0x0A \<notin> set b64url" "CHR 0x0D \<notin> set b64url"
  "CHR ''.'' \<notin> set b64url" "CHR ''='' \<notin> set b64url"
  by code_simp+

lemma sextets_of_map: "\<forall>n\<in>set ns. n < 64 \<Longrightarrow> sextets_of (map (\<lambda>n. b64url ! n) ns) = Some ns"
  by (induction ns) (auto simp: index_of_nth b64url_facts)

lemma b64_alphabet: "set (b64_EncodeToString s) \<subseteq> set b64url"
proof -
  have "\<forall>n\<in>set (b64_sextets (map of_char s)). n < 64" by (rule b64_sextets_bound) auto
  then show ?thesis by (auto simp: b64_EncodeToString_def b64url_facts)
qed

lemma b64_roundtrip: "b64_DecodeString (b64_EncodeToString s) = Some s"
proof -
  let ?xs = "map of_char s :: nat list"
  have b: "\<forall>x\<in>set ?xs. x < 256" by auto
  have "filter (\<lambda>c. c \<noteq> CHR 0x0A \<and> c \<noteq> CHR 0x0D) (b64_EncodeToString s) = b64_EncodeToString s"
    using b64_alphabet [of s] b64url_facts by (intro filter_True) auto
  then show ?thesis
    using sextets_of_map [OF b64_sextets_bound [OF b]] b64_octets_sextets [OF b]
    by (simp add: b64_DecodeString_def b64_EncodeToString_def comp_def)
qed

lemma b64_inj: "b64_EncodeToString s = b64_EncodeToString t \<longleftrightarrow> s = t"
  by (metis b64_roundtrip option.inject)

lemma b64_EncodeToString_empty: "b64_EncodeToString s = [] \<longleftrightarrow> s = []"
  using b64_inj [of s "[]"] by (simp add: b64_EncodeToString_def)

end
