(* ===== verification/Experience_Service.thy ===== *)
theory Experience_Service
  imports Experience Go_Encoding
begin

text \<open>
  The second half of \<^verbatim>\<open>src/platform/experience\<close>: tool and agent contracts, the content hash, the resolver,
  the scope-keyed store behind its interface, the service handler and the stub dispatcher.

  The deterministic protocol-buffer encoding, the SHA-256 digest, the entitlements provider, the clock and
  \<^verbatim>\<open>json.Unmarshal\<close> are arguments of the definitions that use them. A request handled by the service is its
  claims (none when it is not authenticated) and the message it carries.
\<close>

section \<open>Tools\<close>

datatype side_effect = SIDE_EFFECT_UNSPECIFIED | SIDE_EFFECT_READ | SIDE_EFFECT_WRITE | SIDE_EFFECT_EXTERNAL
| SIDE_EFFECT_number int

datatype tool_visibility = TOOL_VISIBILITY_UNSPECIFIED | TOOL_VISIBILITY_INTERNAL_ONLY | TOOL_VISIBILITY_EXTERNAL_SAFE

record tool_definition =
  td_AdapterID :: string
  td_InputSchema :: string
  td_OutputSchema :: string
  td_SideEffect :: side_effect
  td_Visibility :: tool_visibility

record agent_node =
  an_ToolIDs :: "string list"
  an_IoEnvelopeSchema :: string

datatype tooling_code = ToolingAdapterNotAllowed | ToolingMalformedEnvelope | ToolingExternalDeferred

primrec tooling_text :: "tooling_code \<Rightarrow> string" where
  "tooling_text ToolingAdapterNotAllowed = ''tooling.adapter_not_allowed''"
| "tooling_text ToolingMalformedEnvelope = ''tooling.malformed_envelope''"
| "tooling_text ToolingExternalDeferred = ''tooling.external_deferred''"

record tooling_error =
  te_Code :: tooling_code
  te_AdapterID :: string
  te_Message :: string

definition ToolingError_Error :: "tooling_error \<Rightarrow> string" where
  "ToolingError_Error e =
     (if te_AdapterID e \<noteq> []
      then tooling_text (te_Code e) @ '': '' @ te_Message e @ '' ('' @ te_AdapterID e @ '')''
      else tooling_text (te_Code e) @ '': '' @ te_Message e)"

text \<open>The body of the loop over the tools; a nil tool is skipped.\<close>

definition tool_errors :: "(string, unit) gomap \<Rightarrow> tool_definition option \<Rightarrow> tooling_error list" where
  "tool_errors allowedAdapters tool =
     (case tool of
        None \<Rightarrow> []
      | Some tool \<Rightarrow>
          if gm_get allowedAdapters (td_AdapterID tool) = None
          then [\<lparr>te_Code = ToolingAdapterNotAllowed, te_AdapterID = [], te_Message = ''adapter is not in the allowed adapter set''\<rparr>]
          else
            (if td_InputSchema tool = [] \<or> td_OutputSchema tool = []
             then [\<lparr>te_Code = ToolingMalformedEnvelope, te_AdapterID = td_AdapterID tool,
                    te_Message = ''tool input_schema/output_schema must be a non-empty JSON-Schema envelope''\<rparr>]
             else []) @
            (if td_SideEffect tool = SIDE_EFFECT_EXTERNAL
             then [\<lparr>te_Code = ToolingExternalDeferred, te_AdapterID = td_AdapterID tool,
                    te_Message = ''side_effect=external (outbound) is deferred -- representable but not dispatchable yet''\<rparr>]
             else []))"

definition ValidateTooling :: "tool_definition option list \<Rightarrow> (string, unit) gomap \<Rightarrow> tooling_error list" where
  "ValidateTooling tools allowedAdapters = concat (map (tool_errors allowedAdapters) tools)"

definition AgentEnvelopePreserved :: "agent_node option \<Rightarrow> bool" where
  "AgentEnvelopePreserved node \<longleftrightarrow> (case node of None \<Rightarrow> False | Some n \<Rightarrow> an_IoEnvelopeSchema n \<noteq> [])"

text \<open>A signing spec maps a platform to the reference and the custody of its credential.\<close>

definition SigningRefsOnly :: "(string, string \<times> string) gomap \<Rightarrow> bool" where
  "SigningRefsOnly byPlatform \<longleftrightarrow> list_all (\<lambda>(_, ref, custody). \<not> (ref = [] \<or> custody = [])) byPlatform"

section \<open>Agent specs\<close>

datatype agent_audience =
  AGENT_AUDIENCE_UNSPECIFIED | AGENT_AUDIENCE_INTERNAL | AGENT_AUDIENCE_EXTERNAL | AGENT_AUDIENCE_BOTH

text \<open>
  The accessors read a nil message as one with empty fields, so nil tools, bindings and budgets of an agent
  spec are the empty ones here.
\<close>

record audience_binding =
  ab_Audience :: agent_audience
  ab_ToolIDs :: "string list"

record agent_spec =
  ag_CompanyID :: string
  ag_Persona :: string
  ag_ModelRef :: string
  ag_Tools :: "tool_definition list"
  ag_MaxSteps :: int
  ag_Audience :: agent_audience
  ag_AudienceBindings :: "audience_binding list"

datatype agent_spec_code =
  AgentSpecPermissionDenied | AgentSpecMissingPersona | AgentSpecMissingModelRef | AgentSpecNoTools
| AgentSpecBudgetOutOfRange | AgentSpecMissingAdapterID | AgentSpecMissingExternalBinding
| AgentSpecBindingUnknownTool | AgentSpecExternalToolNotSafe

record agent_spec_error =
  ae_Code :: agent_spec_code
  ae_Message :: string

definition AgentSpecMaxStepsCeiling :: int where "AgentSpecMaxStepsCeiling = 50"

definition deniedAgentSpec :: "agent_spec_error list" where
  "deniedAgentSpec = [\<lparr>ae_Code = AgentSpecPermissionDenied, ae_Message = ''agent spec is not available in this scope''\<rparr>]"

definition externalFacing :: "agent_audience \<Rightarrow> bool" where
  "externalFacing a \<longleftrightarrow> a = AGENT_AUDIENCE_EXTERNAL \<or> a = AGENT_AUDIENCE_BOTH"

definition visibilityByTool :: "tool_definition list \<Rightarrow> (string, tool_visibility) gomap" where
  "visibilityByTool tools =
     fold (\<lambda>tool m. if td_AdapterID tool \<noteq> [] then gm_put (td_AdapterID tool) (td_Visibility tool) m else m) tools []"

definition binding_errors :: "(string, tool_visibility) gomap \<Rightarrow> audience_binding \<Rightarrow> agent_spec_error list" where
  "binding_errors vis b =
     concat (map (\<lambda>toolID.
       case gm_get vis toolID of
         None \<Rightarrow> [\<lparr>ae_Code = AgentSpecBindingUnknownTool,
                   ae_Message = ''audience binding references '' @ quoted toolID @ '', which is not among the spec'' @
                     [CHR 0x27] @ ''s tools''\<rparr>]
       | Some v \<Rightarrow>
           if externalFacing (ab_Audience b) \<and> v \<noteq> TOOL_VISIBILITY_EXTERNAL_SAFE
           then [\<lparr>ae_Code = AgentSpecExternalToolNotSafe,
                  ae_Message = ''external audience binding references '' @ quoted toolID @
                    '', which is not visibility=EXTERNAL_SAFE (unspecified is internal_only)''\<rparr>]
           else []) (ab_ToolIDs b))"

definition validateAudience :: "agent_spec \<Rightarrow> agent_spec_error list" where
  "validateAudience spec =
     (if externalFacing (ag_Audience spec) \<and> \<not> list_ex (\<lambda>b. externalFacing (ab_Audience b)) (ag_AudienceBindings spec)
      then [\<lparr>ae_Code = AgentSpecMissingExternalBinding,
             ae_Message = ''an external or both audience requires an explicit EXTERNAL audience binding''\<rparr>]
      else []) @
     concat (map (binding_errors (visibilityByTool (ag_Tools spec))) (ag_AudienceBindings spec))"

definition ValidateAgentSpec :: "agent_spec option \<Rightarrow> string \<Rightarrow> agent_spec_error list" where
  "ValidateAgentSpec spec principalScope =
     (case spec of
        None \<Rightarrow> deniedAgentSpec
      | Some spec \<Rightarrow>
          if ag_CompanyID spec \<noteq> principalScope then deniedAgentSpec
          else
            (if ag_Persona spec = []
             then [\<lparr>ae_Code = AgentSpecMissingPersona,
                    ae_Message = ''persona must be non-empty (the agent'' @ [CHR 0x27] @ ''s behavioral contract)''\<rparr>]
             else []) @
            (if ag_ModelRef spec = []
             then [\<lparr>ae_Code = AgentSpecMissingModelRef, ae_Message = ''model_ref must reference an AOCore /v1/models catalog asset id''\<rparr>]
             else []) @
            (if ag_Tools spec = []
             then [\<lparr>ae_Code = AgentSpecNoTools, ae_Message = ''an agent spec must bind at least one tool''\<rparr>]
             else []) @
            (if ag_MaxSteps spec \<le> 0 \<or> ag_MaxSteps spec > AgentSpecMaxStepsCeiling
             then [\<lparr>ae_Code = AgentSpecBudgetOutOfRange,
                    ae_Message = ''budget.max_steps must be in (0, '' @ show_int AgentSpecMaxStepsCeiling @ '']''\<rparr>]
             else []) @
            concat (map (\<lambda>tool.
              if td_AdapterID tool = []
              then [\<lparr>ae_Code = AgentSpecMissingAdapterID,
                     ae_Message = ''every bound tool must name its curated-allowlist adapter_id''\<rparr>]
              else []) (ag_Tools spec)) @
            validateAudience spec)"

section \<open>The content hash\<close>

definition ResolverVersionTag :: string where "ResolverVersionTag = ''experience-resolver/140-08''"

definition SHA256Hex :: "(string \<Rightarrow> string) \<Rightarrow> string \<Rightarrow> string" where
  "SHA256Hex sha256 b = hex_encode (sha256 b)"

text \<open>The length is converted to 32 bits.\<close>

definition appendFramed :: "string \<Rightarrow> string \<Rightarrow> string" where
  "appendFramed dst seg = dst @ PutUint32 (length seg mod 2 ^ 32) @ seg"

definition tuplePreimage :: "resolution_tuple \<Rightarrow> string" where
  "tuplePreimage t =
     (let out = appendFramed [] (''role='' @ tu_Role t);
          out = appendFramed out (''entitlements='' @ tu_Entitlement t);
          out = appendFramed out (''form_factor='' @ tu_FormFactor t);
          out = appendFramed out (''tenant='' @ tu_TenantID t);
          out = appendFramed out (''org='' @ tu_OrgID t);
          granted = sort (map fst (tu_Granted t))
      in foldl (\<lambda>out g. appendFramed out (''granted='' @ g)) out granted)"

definition canonicalSpecBytes :: "(experience_spec \<Rightarrow> string option) \<Rightarrow> experience_spec \<Rightarrow> string" where
  "canonicalSpecBytes marshal resolved =
     (case marshal (resolved\<lparr>ex_ContentHash := []\<rparr>) of None \<Rightarrow> [] | Some b \<Rightarrow> b)"

definition content_preimage :: "(experience_spec \<Rightarrow> string option) \<Rightarrow> experience_spec \<Rightarrow> resolution_tuple \<Rightarrow> string" where
  "content_preimage marshal resolved tuple =
     appendFramed (appendFramed [] (canonicalSpecBytes marshal resolved)) (tuplePreimage tuple)"

definition ContentHash ::
  "(string \<Rightarrow> string) \<Rightarrow> (experience_spec \<Rightarrow> string option) \<Rightarrow> experience_spec \<Rightarrow> resolution_tuple \<Rightarrow> string" where
  "ContentHash sha256 marshal resolved tuple = SHA256Hex sha256 (content_preimage marshal resolved tuple)"

section \<open>The resolver\<close>

definition ErrResolutionDenied :: go_error where "ErrResolutionDenied = ErrVar ''experience: resolution denied''"

definition lockedUpsellReason :: string where
  "lockedUpsellReason = ''This feature is not included in your current plan.''"

record resolver_config =
  rc_Version :: string
  rc_ResolvedAt :: string

fun filter_surfaces :: "(string, unit) gomap \<Rightarrow> string list \<Rightarrow> string list \<Rightarrow> (string \<times> string) list \<Rightarrow> string list \<times> (string \<times> string) list" where
  "filter_surfaces grants [] granted locked = (granted, locked)"
| "filter_surfaces grants (i # ids) granted locked =
     (if gm_get grants i \<noteq> None then filter_surfaces grants ids (granted @ [i]) locked
      else filter_surfaces grants ids granted (locked @ [(i, lockedUpsellReason)]))"

definition Resolve ::
  "(string \<Rightarrow> string) \<Rightarrow> (experience_spec \<Rightarrow> string option) \<Rightarrow> experience_spec option \<Rightarrow> resolution_tuple \<Rightarrow> resolver_config \<Rightarrow>
   experience_spec result" where
  "Resolve sha256 marshal spec tuple cfg =
     (case spec of
        None \<Rightarrow> Inl ErrResolutionDenied
      | Some spec \<Rightarrow>
          if tu_TenantID tuple \<noteq> ex_TenantID spec \<or> tu_OrgID tuple \<noteq> ex_OrgID spec then Inl ErrResolutionDenied
          else
            let (granted, locked) = filter_surfaces (tu_Granted tuple) (ex_ReferencedSurfaceIDs spec) [] [];
                version = (if rc_Version cfg = [] then ResolverVersionTag else rc_Version cfg);
                resolved = spec\<lparr>ex_ReferencedSurfaceIDs := granted, ex_LockedSurfaces := locked,
                  ex_ResolutionContext := Some \<lparr>rx_TenantID = tu_TenantID tuple, rx_OrgID = tu_OrgID tuple,
                    rx_ResolvedAt = rc_ResolvedAt cfg, rx_ResolverVersion = version\<rparr>\<rparr>
            in Inr (resolved\<lparr>ex_ContentHash := ContentHash sha256 marshal resolved tuple\<rparr>))"

section \<open>Principals and the spec store\<close>

record PrincipalScope =
  ps_TenantID :: string
  ps_OrgID :: string

text \<open>The claims that the handler reads.\<close>

record scope_claims =
  jc_CompanyID :: string
  jc_Scopes :: "string list"

definition orgScopePrefix :: string where "orgScopePrefix = ''org:''"

definition principalScopeFromContext :: "scope_claims option \<Rightarrow> PrincipalScope option" where
  "principalScopeFromContext claims =
     (case claims of
        None \<Rightarrow> None
      | Some c \<Rightarrow>
          if jc_CompanyID c = [] then None
          else Some \<lparr>ps_TenantID = jc_CompanyID c,
                     ps_OrgID = (case find (\<lambda>s. HasPrefix s orgScopePrefix) (jc_Scopes c) of
                                   None \<Rightarrow> []
                                 | Some s \<Rightarrow> TrimPrefix s orgScopePrefix)\<rparr>)"

record app_definition =
  ad_ID :: string
  ad_Spec :: "experience_spec option"
  ad_Other :: string

record 's spec_store =
  ss_Put :: "PrincipalScope \<Rightarrow> app_definition \<Rightarrow> 's \<Rightarrow> 's"
  ss_Get :: "PrincipalScope \<Rightarrow> string \<Rightarrow> 's \<Rightarrow> app_definition option"

type_synonym memorySpecStore = "(string, app_definition) gomap"

definition storeKey :: "PrincipalScope \<Rightarrow> string \<Rightarrow> string" where
  "storeKey scope appDefID = ps_TenantID scope @ [CHR 0x00] @ ps_OrgID scope @ [CHR 0x00] @ appDefID"

definition memorySpecStore_Put :: "PrincipalScope \<Rightarrow> app_definition \<Rightarrow> memorySpecStore \<Rightarrow> memorySpecStore" where
  "memorySpecStore_Put scope def s = gm_put (storeKey scope (ad_ID def)) def s"

definition memorySpecStore_Get :: "PrincipalScope \<Rightarrow> string \<Rightarrow> memorySpecStore \<Rightarrow> app_definition option" where
  "memorySpecStore_Get scope appDefID s = gm_get s (storeKey scope appDefID)"

definition NewMemorySpecStore :: "memorySpecStore spec_store" where
  "NewMemorySpecStore = \<lparr>ss_Put = memorySpecStore_Put, ss_Get = memorySpecStore_Get\<rparr>"

section \<open>The service handler\<close>

datatype connect_code = CodeUnauthenticated | CodeInvalidArgument | CodePermissionDenied | CodeInternal

type_synonym connect_error = "connect_code \<times> go_error option"

definition errDenied :: go_error where
  "errDenied = ErrVar ''experience: spec not found or not permitted for this scope''"

record 's experience_handler =
  xh_store :: "'s spec_store"
  xh_TupleFor :: "PrincipalScope \<Rightarrow> string \<Rightarrow> string \<Rightarrow> resolution_tuple"
  xh_now :: string
  xh_sha256 :: "string \<Rightarrow> string"
  xh_marshal :: "experience_spec \<Rightarrow> string option"

record store_response =
  sr_AppDefID :: string
  sr_ContentHash :: string
  sr_SpecSchemaVersion :: string

definition stamp_scope :: "PrincipalScope \<Rightarrow> experience_spec \<Rightarrow> experience_spec" where
  "stamp_scope scope spec = spec\<lparr>ex_TenantID := ps_TenantID scope, ex_OrgID := ps_OrgID scope\<rparr>"

definition errSpecRequired :: go_error where "errSpecRequired = ErrMsg ''experience: app_definition with spec is required''"

definition StoreSpec ::
  "'s experience_handler \<Rightarrow> scope_claims option \<Rightarrow> app_definition option \<Rightarrow> 's \<Rightarrow> (connect_error + store_response) \<times> 's" where
  "StoreSpec h claims def s =
     (case principalScopeFromContext claims of
        None \<Rightarrow> (Inl (CodeUnauthenticated, None), s)
      | Some scope \<Rightarrow>
          (case def of
             None \<Rightarrow> (Inl (CodeInvalidArgument, Some errSpecRequired), s)
           | Some def \<Rightarrow>
               (case ad_Spec def of
                  None \<Rightarrow> (Inl (CodeInvalidArgument, Some errSpecRequired), s)
                | Some spec \<Rightarrow>
                    if ad_ID def = []
                    then (Inl (CodeInvalidArgument, Some (ErrMsg ''experience: app_definition.id is required'')), s)
                    else (Inr \<lparr>sr_AppDefID = ad_ID def, sr_ContentHash = ex_ContentHash spec,
                               sr_SpecSchemaVersion = ex_SpecSchemaVersion spec\<rparr>,
                          ss_Put (xh_store h) scope (def\<lparr>ad_Spec := Some (stamp_scope scope spec)\<rparr>) s))))"

definition ResolveSpec ::
  "'s experience_handler \<Rightarrow> scope_claims option \<Rightarrow> string \<Rightarrow> string \<Rightarrow> string \<Rightarrow> 's \<Rightarrow> connect_error + experience_spec" where
  "ResolveSpec h claims appDefID role formFactor s =
     (case principalScopeFromContext claims of
        None \<Rightarrow> Inl (CodeUnauthenticated, None)
      | Some scope \<Rightarrow>
          (case ss_Get (xh_store h) scope appDefID s of
             None \<Rightarrow> Inl (CodePermissionDenied, Some errDenied)
           | Some def \<Rightarrow>
               (case Resolve (xh_sha256 h) (xh_marshal h) (ad_Spec def) (xh_TupleFor h scope role formFactor)
                       \<lparr>rc_Version = [], rc_ResolvedAt = xh_now h\<rparr> of
                  Inl err \<Rightarrow> if errors_is err ErrResolutionDenied then Inl (CodePermissionDenied, Some errDenied)
                             else Inl (CodeInternal, Some err)
                | Inr resolved \<Rightarrow> Inr resolved)))"

record validation_problem =
  vp_Code :: string
  vp_SurfaceID :: string
  vp_Message :: string

definition grantedManifest :: "resolution_tuple \<Rightarrow> string list" where
  "grantedManifest tuple = map fst (tu_Granted tuple)"

definition spec_problems :: "experience_spec \<Rightarrow> resolution_tuple \<Rightarrow> validation_problem list" where
  "spec_problems spec tuple =
     map (\<lambda>ce. \<lparr>vp_Code = coherence_text (ce_Code ce), vp_SurfaceID = ce_SurfaceID ce, vp_Message = ce_Message ce\<rparr>)
       (ValidateNavGraph (ex_NavGraph spec) (tu_Granted tuple)) @
     (let neg = Negotiate spec (grantedManifest tuple) (ex_MinBinaryVersion spec)
      in if nr_Blocked neg
         then [\<lparr>vp_Code = ''version.block_upgrade'', vp_SurfaceID = [], vp_Message = nr_Reason neg\<rparr>]
         else [])"

definition ValidateSpec ::
  "'s experience_handler \<Rightarrow> scope_claims option \<Rightarrow> app_definition option \<Rightarrow> connect_error + bool \<times> validation_problem list" where
  "ValidateSpec h claims def =
     (case principalScopeFromContext claims of
        None \<Rightarrow> Inl (CodeUnauthenticated, None)
      | Some scope \<Rightarrow>
          (case def of
             None \<Rightarrow> Inl (CodeInvalidArgument, Some errSpecRequired)
           | Some def \<Rightarrow>
               (case ad_Spec def of
                  None \<Rightarrow> Inl (CodeInvalidArgument, Some errSpecRequired)
                | Some spec \<Rightarrow>
                    let problems = spec_problems (stamp_scope scope spec) (xh_TupleFor h scope [] [])
                    in Inr (problems = [], problems))))"

section \<open>The stub dispatcher\<close>

definition ErrDispatchDenied :: go_error where "ErrDispatchDenied = ErrVar ''experience: tool dispatch denied''"

definition ErrDispatchExternalDeferred :: go_error where
  "ErrDispatchExternalDeferred = ErrVar ''experience: external side-effect dispatch is deferred (out of scope)''"

definition ErrDispatchInvalidInput :: go_error where
  "ErrDispatchInvalidInput = ErrVar ''experience: dispatch input does not satisfy input_schema''"

datatype gate_class = GateRead | GateWrite | GateExternal

record stub_result =
  st_Status :: string
  st_GateClass :: gate_class
  st_WriteGated :: bool
  st_Executed :: bool
  st_OutputEnvelope :: string

definition nodeBindsAdapter :: "agent_node \<Rightarrow> string \<Rightarrow> bool" where
  "nodeBindsAdapter node adapterID \<longleftrightarrow> adapterID \<in> set (an_ToolIDs node)"

fun missing_required :: "(string, json) gomap \<Rightarrow> json list \<Rightarrow> string option" where
  "missing_required obj [] = None"
| "missing_required obj (JString key # rs) =
     (if gm_get obj key = None then Some key else missing_required obj rs)"
| "missing_required obj (r # rs) = missing_required obj rs"

definition object_typed :: "(string, json) gomap \<Rightarrow> bool" where
  "object_typed schemaObj \<longleftrightarrow> gm_get schemaObj ''type'' = Some (JString ''object'')"

definition validateAgainstSchema :: "(string \<Rightarrow> json result) \<Rightarrow> string \<Rightarrow> string \<Rightarrow> go_error option" where
  "validateAgainstSchema unmarshal input schema =
     (case unmarshal input of
        Inl err \<Rightarrow> Some (ErrWrap ''input is not valid JSON: '' err [])
      | Inr inputAny \<Rightarrow>
          (case unmarshal_map unmarshal schema of
             None \<Rightarrow> None
           | Some schemaObj \<Rightarrow>
               if object_typed schemaObj then
                 (case inputAny of
                    JObject obj \<Rightarrow>
                      (case gm_get schemaObj ''required'' of
                         Some (JArray req) \<Rightarrow>
                           map_option (\<lambda>key. ErrMsg (''missing required property '' @ quoted key)) (missing_required obj req)
                       | _ \<Rightarrow> None)
                  | _ \<Rightarrow> Some (ErrMsg ''schema requires a JSON object''))
               else None))"

definition echoOutputEnvelope :: "(string \<Rightarrow> json result) \<Rightarrow> string \<Rightarrow> string" where
  "echoOutputEnvelope unmarshal outputSchema =
     (case unmarshal_map unmarshal outputSchema of
        Some schemaObj \<Rightarrow> if object_typed schemaObj then ''{}'' else ''null''
      | None \<Rightarrow> ''null'')"

definition Dispatch ::
  "(string \<Rightarrow> json result) \<Rightarrow> (string, (string, unit) gomap) gomap \<Rightarrow> agent_node option \<Rightarrow> tool_definition option \<Rightarrow>
   scoped_context \<Rightarrow> string \<Rightarrow> stub_result result" where
  "Dispatch unmarshal scopedAdapters node tool scope input =
     (case (tool, node) of
        (Some tool, Some node) \<Rightarrow>
          if \<not> nodeBindsAdapter node (td_AdapterID tool) then Inl ErrDispatchDenied
          else if gm_get (gm_get_or [] scopedAdapters (sx_ScopeID scope)) (td_AdapterID tool) = None
          then Inl ErrDispatchDenied
          else if td_InputSchema tool = [] \<or> td_OutputSchema tool = []
          then Inl (ErrWrap [] ErrDispatchInvalidInput '': tool envelope missing input_schema/output_schema'')
          else
            (let dispatch = (case validateAgainstSchema unmarshal input (td_InputSchema tool) of
                   Some err \<Rightarrow> Inl (ErrWrap [] ErrDispatchInvalidInput ('': '' @ error_text err))
                 | None \<Rightarrow>
                     let writeGated = (td_SideEffect tool = SIDE_EFFECT_WRITE)
                     in Inr \<lparr>st_Status = ''validated'', st_GateClass = (if writeGated then GateWrite else GateRead),
                             st_WriteGated = writeGated, st_Executed = False,
                             st_OutputEnvelope = echoOutputEnvelope unmarshal (td_OutputSchema tool)\<rparr>)
             in case td_SideEffect tool of
                  SIDE_EFFECT_EXTERNAL \<Rightarrow> Inl ErrDispatchExternalDeferred
                | SIDE_EFFECT_READ \<Rightarrow> dispatch
                | SIDE_EFFECT_WRITE \<Rightarrow> dispatch
                | _ \<Rightarrow> Inl ErrDispatchDenied)
      | _ \<Rightarrow> Inl ErrDispatchDenied)"

section \<open>Choosing a repository\<close>

definition ErrTransportNotSupported :: go_error where
  "ErrTransportNotSupported = ErrVar ''experience: transport/scope has no Repository impl''"

text \<open>The two constructors are arguments; the one of the REST stub starts a server and may fail.\<close>

primrec TransportKind_String :: "transport_kind \<Rightarrow> string" where
  "TransportKind_String TRANSPORT_KIND_UNSPECIFIED = ''TRANSPORT_KIND_UNSPECIFIED''"
| "TransportKind_String TRANSPORT_KIND_CONNECT = ''TRANSPORT_KIND_CONNECT''"
| "TransportKind_String TRANSPORT_KIND_REST_OPENAPI = ''TRANSPORT_KIND_REST_OPENAPI''"

primrec ScopeAuthority_String :: "scope_authority \<Rightarrow> string" where
  "ScopeAuthority_String SCOPE_AUTHORITY_UNSPECIFIED = ''SCOPE_AUTHORITY_UNSPECIFIED''"
| "ScopeAuthority_String SCOPE_AUTHORITY_COMPANY = ''SCOPE_AUTHORITY_COMPANY''"
| "ScopeAuthority_String SCOPE_AUTHORITY_ORG = ''SCOPE_AUTHORITY_ORG''"

definition RepositoryFor ::
  "(transport_binding \<Rightarrow> aoid_identity \<Rightarrow> 'r) \<Rightarrow> (transport_binding \<Rightarrow> aoid_identity \<Rightarrow> 'r result) \<Rightarrow>
   transport_binding \<Rightarrow> aoid_identity \<Rightarrow> 'r result" where
  "RepositoryFor newConnectStub newAocoreRestStub b identity =
     (let unsupported = (\<lambda>why. Inl (ErrWrap [] ErrTransportNotSupported
            ('': transport='' @ TransportKind_String (bi_TransportKind b) @ '' scope='' @
             ScopeAuthority_String (bi_ScopeAuthority b) @ why)))
      in if \<not> BindingIsBindable b then unsupported '' not bindable''
         else if bi_TransportKind b = TRANSPORT_KIND_CONNECT \<and> bi_ScopeAuthority b = SCOPE_AUTHORITY_COMPANY
         then Inr (newConnectStub b identity)
         else if bi_TransportKind b = TRANSPORT_KIND_REST_OPENAPI \<and> bi_ScopeAuthority b = SCOPE_AUTHORITY_ORG
         then newAocoreRestStub b identity
         else unsupported '' has no impl'')"

end
