(* ===== verification/Experience_Versions.thy ===== *)
theory Experience_Versions
  imports Experience
begin

text \<open>
  Versions of the experience contract: the order behind version negotiation is the lexicographic one on
  zero-padded components, an additive bump moves a version up in it, and the classification of a change
  composes along a chain of releases.
\<close>

section \<open>Splitting\<close>

lemma Split_append_sep: "d \<notin> set w \<Longrightarrow> Split (w @ d # s) d = w # Split s d"
  by (induction w) auto

lemma TrimSpace_Cons_space: "is_space c \<Longrightarrow> TrimSpace (c # w) = TrimSpace w"
  by (simp add: TrimSpace_def)

lemma TrimSpace_rev: "TrimSpace (rev s) = rev (TrimSpace s)"
proof (cases "\<forall>c\<in>set s. is_space c")
  case True
  then have d: "dropWhile is_space s = []" "dropWhile is_space (rev s) = []" by auto
  show ?thesis by (simp only: TrimSpace_def d rev.simps dropWhile.simps)
next
  case False
  then obtain u v where uv: "s = takeWhile is_space s @ v" "v \<noteq> []" "\<not> is_space (hd v)"
    by (metis dropWhile_eq_Nil_conv hd_dropWhile takeWhile_dropWhile_id)
  define a where "a = takeWhile is_space s"
  have a: "\<forall>c\<in>set a. is_space c" by (auto simp: a_def dest: set_takeWhileD)
  have d1: "dropWhile is_space s = v" using uv a by (metis a_def append_same_eq takeWhile_dropWhile_id same_append_eq)
  have d2: "dropWhile is_space (rev s) = dropWhile is_space (rev v) @ rev a"
  proof -
    have "\<exists>c\<in>set (rev v). \<not> is_space c" using uv(2,3) by (auto intro: bexI [of _ "hd v"])
    then show ?thesis using uv(1) by (metis a_def dropWhile_append1 rev_append)
  qed
  have "dropWhile is_space (rev (dropWhile is_space (rev v) @ rev a)) = rev (dropWhile is_space (rev v))"
  proof -
    have ne: "dropWhile is_space (rev v) \<noteq> []" using uv(2,3) by (auto simp: dropWhile_eq_Nil_conv intro: bexI [of _ "hd v"])
    have "last (dropWhile is_space (rev v)) = hd v"
      using ne uv(2) by (metis last_append last_rev takeWhile_dropWhile_id)
    with ne uv(3) have "dropWhile is_space (rev (dropWhile is_space (rev v))) = rev (dropWhile is_space (rev v))"
      by (intro dropWhile_hd_id) (simp add: hd_rev)
    then show ?thesis using a by (simp add: dropWhile_append2)
  qed
  then show ?thesis by (simp add: TrimSpace_def d1 d2)
qed

lemma Split_snoc:
  "Split (s @ [c]) d =
     (if c = d then Split s d @ [[]] else butlast (Split s d) @ [last (Split s d) @ [c]])"
  by (induction s) (auto split: list.splits)

text \<open>Spaces around the whole string end up around its first and last part.\<close>

lemma map_TrimSpace_Split_front:
  assumes "\<not> is_space d"
  shows "map TrimSpace (Split (dropWhile is_space s) d) = map TrimSpace (Split s d)"
proof (induction s)
  case (Cons c s)
  show ?case
  proof (cases "is_space c")
    case True
    with assms have "c \<noteq> d" by auto
    obtain w ws where "Split s d = w # ws" by (cases "Split s d") auto
    then show ?thesis using True \<open>c \<noteq> d\<close> Cons by (simp add: TrimSpace_Cons_space)
  qed simp
qed simp

lemma TrimSpace_snoc_space: "is_space c \<Longrightarrow> TrimSpace (w @ [c]) = TrimSpace w"
  using TrimSpace_rev [of "c # rev w"] TrimSpace_rev [of "rev w"] by (simp add: TrimSpace_Cons_space)

lemma map_TrimSpace_Split_back:
  assumes "\<not> is_space d"
  shows "map TrimSpace (Split (rev (dropWhile is_space s)) d) = map TrimSpace (Split (rev s) d)"
proof (induction s)
  case (Cons c s)
  show ?case
  proof (cases "is_space c")
    case True
    with assms have "c \<noteq> d" by auto
    have "map TrimSpace (butlast (Split (rev s) d) @ [last (Split (rev s) d) @ [c]]) =
          map TrimSpace (butlast (Split (rev s) d) @ [last (Split (rev s) d)])"
      by (simp only: map_append list.map TrimSpace_snoc_space [OF True])
    also have "\<dots> = map TrimSpace (Split (rev s) d)" by (simp only: append_butlast_last_id [OF Split_ne])
    finally show ?thesis using True \<open>c \<noteq> d\<close> Cons by (simp add: Split_snoc)
  qed simp
qed simp

lemma map_TrimSpace_Split: "\<not> is_space d \<Longrightarrow> map TrimSpace (Split (TrimSpace s) d) = map TrimSpace (Split s d)"
  using map_TrimSpace_Split_back [of d "rev (dropWhile is_space s)"] map_TrimSpace_Split_front [of d s]
  by (simp add: TrimSpace_def)

section \<open>The order on versions\<close>

definition version :: "string \<Rightarrow> nat \<Rightarrow> int" where
  "version v i = componentAt (Split v CHR ''.'') i"

lemma version_past: "length (Split v CHR ''.'') \<le> i \<Longrightarrow> version v i = 0"
  by (simp add: version_def componentAt_def)

text \<open>\<open>a\<close> comes before \<open>b\<close>: they agree up to some position and \<open>a\<close> is smaller there.\<close>

definition older :: "string \<Rightarrow> string \<Rightarrow> bool" where
  "older a b \<longleftrightarrow> (\<exists>k. version a k < version b k \<and> (\<forall>j < k. version a j = version b j))"

lemma compare_from_less:
  "compare_from as bs i n = -1 \<longleftrightarrow>
   (\<exists>k. i \<le> k \<and> k < i + n \<and> componentAt as k < componentAt bs k \<and> (\<forall>j. i \<le> j \<and> j < k \<longrightarrow> componentAt as j = componentAt bs j))"
proof (induction n arbitrary: i)
  case (Suc n)
  show ?case
  proof (cases "componentAt as i = componentAt bs i")
    case True
    have "(\<exists>k. Suc i \<le> k \<and> k < Suc i + n \<and> componentAt as k < componentAt bs k \<and>
              (\<forall>j. Suc i \<le> j \<and> j < k \<longrightarrow> componentAt as j = componentAt bs j)) \<longleftrightarrow>
          (\<exists>k. i \<le> k \<and> k < i + Suc n \<and> componentAt as k < componentAt bs k \<and>
              (\<forall>j. i \<le> j \<and> j < k \<longrightarrow> componentAt as j = componentAt bs j))"
      using True by (intro ex_cong1) (metis Suc_leD Suc_leI add_Suc_right add_Suc_shift le_neq_implies_less less_irrefl)
    then show ?thesis using True Suc by simp
  next
    case False
    then show ?thesis
      by (auto simp: not_less_iff_gr_or_eq intro: exI [of _ i]) (metis le_neq_implies_less less_irrefl order_refl less_asym)
  qed
qed simp

lemma compare_from_swap: "compare_from bs as i n = - compare_from as bs i n"
  by (induction n arbitrary: i) auto

lemma compareVersions_swap: "compareVersions b a = - compareVersions a b"
  by (simp add: compareVersions_def Let_def max.commute compare_from_swap [of "Split b CHR ''.''"])

lemma compareVersions_older: "compareVersions a b = -1 \<longleftrightarrow> older a b"
proof -
  have "k < max (length (Split a CHR ''.'')) (length (Split b CHR ''.''))" if "version a k < version b k" for k
    using that version_past [of a k] version_past [of b k] by (force simp: not_le [symmetric])
  then show ?thesis
    unfolding compareVersions_def Let_def compare_from_less older_def version_def [symmetric] by auto
qed

lemma compare_from_range: "compare_from as bs i n \<in> {-1, 0, 1}"
  by (induction n arbitrary: i) auto

lemma compareVersions_range: "compareVersions a b \<in> {-1, 0, 1}"
  unfolding compareVersions_def Let_def by (rule compare_from_range)

lemma compareVersions_newer: "compareVersions a b = 1 \<longleftrightarrow> older b a"
  using compareVersions_swap [of a b] compareVersions_older [of b a] by auto

lemma older_total: "(\<forall>i. version a i = version b i) \<or> older a b \<or> older b a"
proof (rule disjCI)
  assume ne: "\<not> (older a b \<or> older b a)"
  show "\<forall>i. version a i = version b i"
  proof
    fix i show "version a i = version b i"
    proof (induction i rule: less_induct)
      case (less i)
      then show ?case using ne unfolding older_def by (metis linorder_neq_iff)
    qed
  qed
qed

lemma older_irrefl: "(\<forall>i. version a i = version b i) \<Longrightarrow> \<not> older a b"
  by (auto simp: older_def)

lemma older_trans:
  assumes "older a b" and "older b c"
  shows "older a c"
proof -
  obtain k where k: "version a k < version b k" "\<forall>j < k. version a j = version b j" using assms(1) by (auto simp: older_def)
  obtain l where l: "version b l < version c l" "\<forall>j < l. version b j = version c j" using assms(2) by (auto simp: older_def)
  have "version a (min k l) < version c (min k l)"
    using k l by (cases k l rule: linorder_cases) (auto simp: min_def)
  then show ?thesis using k(2) l(2) unfolding older_def by (intro exI [of _ "min k l"]) auto
qed

section \<open>Bumping a version\<close>

lemma componentAt_semver: "semver_component (Split (TrimSpace v) CHR ''.'') i = Inr n \<Longrightarrow> version v i = n"
proof -
  assume n: "semver_component (Split (TrimSpace v) CHR ''.'') i = Inr n"
  have eq: "map TrimSpace (Split (TrimSpace v) CHR ''.'') = map TrimSpace (Split v CHR ''.'')"
    by (rule map_TrimSpace_Split) (simp add: is_space_def)
  then have len: "length (Split (TrimSpace v) CHR ''.'') = length (Split v CHR ''.'')" by (metis length_map)
  have "i < length (Split v CHR ''.'') \<Longrightarrow> TrimSpace (Split (TrimSpace v) CHR ''.'' ! i) = TrimSpace (Split v CHR ''.'' ! i)"
    using eq len by (metis nth_map)
  with n len show ?thesis
    by (auto simp: semver_component_def version_def componentAt_def split: if_splits option.splits)
qed

lemma semver_component_range:
  "semver_component parts i = Inr n \<Longrightarrow> - (2 ^ 63) \<le> n \<and> n < 2 ^ 63"
  by (auto simp: semver_component_def dest!: Atoi_range split: if_splits option.splits)

lemma parseSemver_Inr:
  "parseSemver v = Inr (major, minor, patch) \<longleftrightarrow>
   semver_component (Split (TrimSpace v) CHR ''.'') 0 = Inr major \<and>
   semver_component (Split (TrimSpace v) CHR ''.'') 1 = Inr minor \<and>
   semver_component (Split (TrimSpace v) CHR ''.'') 2 = Inr patch"
  by (auto simp: parseSemver_def Let_def split: sum.splits)

text \<open>The text that a bump writes, and its parts.\<close>

definition semver_text :: "int \<Rightarrow> int \<Rightarrow> string" where
  "semver_text major minor = show_int major @ ''.'' @ show_int minor @ ''.0''"

lemma Split_semver_text: "Split (semver_text major minor) CHR ''.'' = [show_int major, show_int minor, ''0'']"
proof -
  have nd: "CHR ''.'' \<notin> set (show_int i)" for i using show_int_chars [of "CHR ''.''" i] by auto
  show ?thesis
    using Split_append_sep [OF nd, of major "show_int minor @ ''.0''"] Split_append_sep [OF nd, of minor "''0''"]
    by (simp add: semver_text_def)
qed

lemma TrimSpace_semver_text: "TrimSpace (semver_text major minor) = semver_text major minor"
proof (rule TrimSpace_id)
  have "hd (show_int major) \<in> set (show_int major)" by (rule hd_in_set) simp
  then have "\<not> is_space (hd (show_int major))" using show_int_chars by blast
  then show "semver_text major minor = [] \<or>
     \<not> is_space (hd (semver_text major minor)) \<and> \<not> is_space (last (semver_text major minor))"
    by (simp add: semver_text_def is_space_def)
qed

lemma parse_semver_text:
  assumes "- (2 ^ 63) \<le> major" "major < 2 ^ 63" "- (2 ^ 63) \<le> minor" "minor < 2 ^ 63"
  shows "parseSemver (semver_text major minor) = Inr (major, minor, 0)"
proof -
  have "Atoi ''0'' = Some 0" by code_simp
  moreover have "TrimSpace ''0'' = ''0''" by code_simp
  ultimately show ?thesis
    using assms by (simp add: parseSemver_Inr TrimSpace_semver_text Split_semver_text semver_component_def Atoi_show_int numeral_2_eq_2)
qed

lemma older_semver_text:
  assumes "parseSemver v = Inr (major, minor, patch)" and "minor < 2 ^ 63 - 1"
  shows "older v (semver_text major (minor + 1))"
proof -
  have r: "- (2 ^ 63) \<le> major" "major < 2 ^ 63" "- (2 ^ 63) \<le> minor"
    and v: "version v 0 = major" "version v 1 = minor"
    using assms(1) semver_component_range componentAt_semver unfolding parseSemver_Inr by blast+
  have "parseSemver (semver_text major (minor + 1)) = Inr (major, minor + 1, 0)"
    using parse_semver_text [of major "minor + 1"] r assms(2) by linarith
  then have "version (semver_text major (minor + 1)) 0 = major" "version (semver_text major (minor + 1)) 1 = minor + 1"
    using componentAt_semver unfolding parseSemver_Inr by blast+
  then show ?thesis using v by (auto simp: older_def less_Suc_eq intro: exI [of _ 1])
qed

section \<open>Classifying a change\<close>

text \<open>The field a message has at a number: the last one declared with it.\<close>

definition field_at :: "field_descriptor list \<Rightarrow> int \<Rightarrow> field_descriptor option" where
  "field_at fs n = gm_get (indexByNumber fs) n"

lemma indexByNumber_snoc: "indexByNumber (fs @ [f]) = gm_put (fd_Number f) f (indexByNumber fs)"
  by (simp add: indexByNumber_def)

lemma gm_ok_indexByNumber [simp]: "gm_ok (indexByNumber fs)"
  by (induction fs rule: rev_induct) (simp_all add: indexByNumber_snoc, simp add: indexByNumber_def)

lemma field_at_snoc: "field_at (fs @ [f]) n = (if n = fd_Number f then Some f else field_at fs n)"
  by (simp add: field_at_def indexByNumber_snoc)

lemma field_at_find: "field_at fs n = find (\<lambda>f. fd_Number f = n) (rev fs)"
  by (induction fs rule: rev_induct) (auto simp: field_at_snoc, simp add: field_at_def indexByNumber_def)

text \<open>Every published field is still there, under its number, name and kind.\<close>

definition keeps :: "field_descriptor list \<Rightarrow> field_descriptor list \<Rightarrow> bool" where
  "keeps fs fs' \<longleftrightarrow> (\<forall>n f. field_at fs n = Some f \<longrightarrow>
     (\<exists>f'. field_at fs' n = Some f' \<and> fd_Name f' = fd_Name f \<and> fd_Kind f' = fd_Kind f))"

lemma ClassifyChange_cases:
  "ClassifyChange fs fs' =
     (if \<not> keeps fs fs' then ChangeBreaking
      else if \<exists>n. field_at fs n = None \<and> field_at fs' n \<noteq> None then ChangeMinor
      else ChangeNone)"
proof -
  have "list_ex (\<lambda>(num, of'). case gm_get (indexByNumber fs') num of None \<Rightarrow> True
          | Some nf \<Rightarrow> fd_Name nf \<noteq> fd_Name of' \<or> fd_Kind nf \<noteq> fd_Kind of') (indexByNumber fs) \<longleftrightarrow> \<not> keeps fs fs'"
    unfolding list_ex_iff keeps_def field_at_def by (force simp: gm_in_iff split: option.splits)
  moreover have "list_ex (\<lambda>(num, nf). gm_get (indexByNumber fs) num = None) (indexByNumber fs') \<longleftrightarrow>
      (\<exists>n. field_at fs n = None \<and> field_at fs' n \<noteq> None)"
    unfolding list_ex_iff field_at_def by (force simp: gm_in_iff)
  ultimately show ?thesis unfolding ClassifyChange_def Let_def by simp
qed

section \<open>The properties\<close>

lemma compareVersions_le_0: "compareVersions a b \<le> 0 \<longleftrightarrow> \<not> older b a"
  using compareVersions_range [of a b] compareVersions_newer [of a b] by auto

lemma older_asym: "older a b \<Longrightarrow> \<not> older b a"
  using older_trans [of a b a] older_irrefl [of a a] by auto

lemma not_older_trans:
  assumes "\<not> older b a" and "\<not> older c b"
  shows "\<not> older c a"
proof
  assume ca: "older c a"
  consider "\<forall>i. version a i = version b i" | "older a b" using older_total [of a b] assms(1) by blast
  then show False
  proof cases
    case 1
    with ca have "older c b" by (simp add: older_def)
    with assms(2) show False ..
  next
    case 2
    with ca have "older c b" by (rule older_trans)
    with assms(2) show False ..
  qed
qed

text \<open>
  Comparing two dotted versions component by component decides the lexicographic order on their
  components, a missing or unreadable component counting as 0, whatever the two lengths are; the order is
  transitive, so the floor of a spec is monotone: a binary at least as new as one that the floor lets
  through is let through as well.
\<close>

lemma version_order_exact:
  "compareVersions a b = (if older a b then -1 else if older b a then 1 else 0) \<and>
   (compareVersions a b \<le> 0 \<longrightarrow> compareVersions b c \<le> 0 \<longrightarrow> compareVersions a c \<le> 0) \<and>
   (compareVersions v (ex_MinBinaryVersion spec) \<ge> 0 \<and> compareVersions v v' \<le> 0 \<longrightarrow>
      Negotiate spec known v' = Negotiate spec known v)"
proof (intro conjI impI)
  show "compareVersions a b = (if older a b then -1 else if older b a then 1 else 0)"
    using compareVersions_range [of a b] compareVersions_older [of a b] compareVersions_newer [of a b] by auto
  show "compareVersions a b \<le> 0 \<Longrightarrow> compareVersions b c \<le> 0 \<Longrightarrow> compareVersions a c \<le> 0"
    unfolding compareVersions_le_0 by (rule not_older_trans)
  assume "compareVersions v (ex_MinBinaryVersion spec) \<ge> 0 \<and> compareVersions v v' \<le> 0"
  then have "\<not> older v (ex_MinBinaryVersion spec)" "\<not> older v' v"
    using compareVersions_older [of v "ex_MinBinaryVersion spec"] by (auto simp: compareVersions_le_0)
  then have "\<not> older v' (ex_MinBinaryVersion spec)" using not_older_trans by blast
  then have "\<not> compareVersions v' (ex_MinBinaryVersion spec) < 0" "\<not> compareVersions v (ex_MinBinaryVersion spec) < 0"
    using \<open>\<not> older v (ex_MinBinaryVersion spec)\<close>
      compareVersions_swap [of v' "ex_MinBinaryVersion spec"] compareVersions_swap [of v "ex_MinBinaryVersion spec"]
      compareVersions_le_0 [of "ex_MinBinaryVersion spec" v'] compareVersions_le_0 [of "ex_MinBinaryVersion spec" v]
    by linarith+
  then show "Negotiate spec known v' = Negotiate spec known v" by (simp add: Negotiate_def Let_def)
qed

definition spec_v1 :: experience_spec where
  "spec_v1 = \<lparr>ex_TenantID = ''t'', ex_OrgID = ''o'', ex_MinBinaryVersion = ''1.9'', ex_SpecSchemaVersion = ''1.0.0'',
     ex_SurfaceContractVersion = ''1.0.0'', ex_ReferencedSurfaceIDs = [''crm'', ''billing'', ''maps''],
     ex_UnknownSurfacePolicy = POLICY_IGNORE, ex_NavGraph = None, ex_Timezone = [], ex_SurfaceOffline = [],
     ex_LockedSurfaces = [], ex_ResolutionContext = None, ex_ContentHash = [], ex_Other = []\<rparr>"

theorem version_order_exact_witness:
  "compareVersions ''1.9'' ''1.10'' = -1 \<and> compareVersions ''1.9'' ''2'' \<le> 0 \<and>
   Negotiate spec_v1 [''crm''] ''1.10.0'' = Negotiate spec_v1 [''crm''] ''1.9.0''"
proof -
  have c: "compareVersions ''1.9'' ''1.10'' = -1" "compareVersions ''1.10'' ''2'' \<le> 0"
    "compareVersions ''1.9.0'' (ex_MinBinaryVersion spec_v1) \<ge> 0" "compareVersions ''1.9.0'' ''1.10.0'' \<le> 0"
    by code_simp+
  note v = version_order_exact [of "''1.9''" "''1.10''" "''2''" "''1.9.0''" spec_v1 "''1.10.0''" "[''crm'']"]
  from v c have "compareVersions ''1.9'' ''2'' \<le> 0" by linarith
  moreover from v c have "Negotiate spec_v1 [''crm''] ''1.10.0'' = Negotiate spec_v1 [''crm''] ''1.9.0''" by blast
  ultimately show ?thesis using c by blast
qed

text \<open>
  A release gets a new version only when every published field survives under its number, name and kind;
  the version moves up in the order of version negotiation exactly when a field was added, reads back as the
  next minor version with patch 0, and is unchanged otherwise. The last minor version of 64 bits is excluded:
  the increment wraps there.
\<close>

lemma release_moves_forward:
  assumes "BumpVersion v (ClassifyChange fs fs') = Inr v'"
    and "\<forall>major minor patch. parseSemver v = Inr (major, minor, patch) \<longrightarrow> minor < 2 ^ 63 - 1"
  shows "keeps fs fs' \<and>
    (if \<exists>n. field_at fs n = None \<and> field_at fs' n \<noteq> None
     then compareVersions v v' = -1 \<and>
       (\<exists>major minor patch. parseSemver v = Inr (major, minor, patch) \<and> parseSemver v' = Inr (major, minor + 1, 0))
     else v' = v)"
proof (cases "ClassifyChange fs fs'")
  case ChangeMinor
  then obtain major minor patch where p: "parseSemver v = Inr (major, minor, patch)"
    and v': "v' = semver_text major (wrap64 (minor + 1))"
    using assms(1) by (auto simp: BumpVersion_def semver_text_def split: sum.splits)
  have r: "- (2 ^ 63) \<le> major" "major < 2 ^ 63" "- (2 ^ 63) \<le> minor" "minor < 2 ^ 63 - 1"
    using p assms(2) semver_component_range unfolding parseSemver_Inr by blast+
  then have w: "wrap64 (minor + 1) = minor + 1" by (intro wrap64_id) linarith+
  have "compareVersions v v' = -1" using older_semver_text [OF p r(4)] by (simp add: compareVersions_older v' w)
  moreover have "parseSemver v' = Inr (major, minor + 1, 0)"
    using parse_semver_text [of major "minor + 1"] r unfolding v' w by linarith
  moreover have "keeps fs fs'" and e: "\<exists>n. field_at fs n = None \<and> field_at fs' n \<noteq> None"
    using ChangeMinor unfolding ClassifyChange_cases by (metis change_class.distinct(1,3,7))+
  ultimately show ?thesis unfolding if_P [OF e] using p by blast
next
  case ChangeNone
  then have "keeps fs fs'" and e: "\<not> (\<exists>n. field_at fs n = None \<and> field_at fs' n \<noteq> None)"
    unfolding ClassifyChange_cases by (metis change_class.distinct(1,3))+
  then show ?thesis using assms(1) ChangeNone unfolding if_not_P [OF e] by (simp add: BumpVersion_def)
qed (use assms(1) in \<open>simp_all add: BumpVersion_def\<close>)

theorem release_moves_forward_witness:
  "compareVersions ''1.9.4'' ''1.10.0'' = -1"
proof -
  have b: "BumpVersion ''1.9.4'' (ClassifyChange [\<lparr>fd_Number = 1, fd_Name = ''id'', fd_Kind = ''string''\<rparr>]
      [\<lparr>fd_Number = 2, fd_Name = ''org'', fd_Kind = ''string''\<rparr>, \<lparr>fd_Number = 1, fd_Name = ''id'', fd_Kind = ''string''\<rparr>])
      = Inr ''1.10.0''" by code_simp
  have "parseSemver ''1.9.4'' = Inr (1, 9, 4)" by code_simp
  then have m: "\<forall>major minor patch. parseSemver ''1.9.4'' = Inr (major, minor, patch) \<longrightarrow> minor < 2 ^ 63 - 1" by simp
  have "field_at [\<lparr>fd_Number = 1, fd_Name = ''id'', fd_Kind = ''string''\<rparr>] 2 = None"
    "field_at [\<lparr>fd_Number = 2, fd_Name = ''org'', fd_Kind = ''string''\<rparr>,
       \<lparr>fd_Number = 1, fd_Name = ''id'', fd_Kind = ''string''\<rparr>] 2 \<noteq> None" by code_simp+
  then have e: "\<exists>n. field_at [\<lparr>fd_Number = 1, fd_Name = ''id'', fd_Kind = ''string''\<rparr>] n = None \<and>
     field_at [\<lparr>fd_Number = 2, fd_Name = ''org'', fd_Kind = ''string''\<rparr>,
       \<lparr>fd_Number = 1, fd_Name = ''id'', fd_Kind = ''string''\<rparr>] n \<noteq> None" by blast
  show ?thesis using release_moves_forward [OF b m] unfolding if_P [OF e] by blast
qed

text \<open>At the last minor version the bump wraps to the smallest one.\<close>

lemma bump_wraps:
  "parseSemver v = Inr (major, 2 ^ 63 - 1, patch) \<Longrightarrow>
   BumpVersion v ChangeMinor = Inr (semver_text major (- (2 ^ 63)))"
  by (simp add: BumpVersion_def semver_text_def wrap64_over)

text \<open>Compatibility composes: along a chain of releases no published field is ever lost.\<close>

lemma keeps_trans: "keeps a b \<Longrightarrow> keeps b c \<Longrightarrow> keeps a c"
  unfolding keeps_def by metis

end
