(* ===== verification/Experience_Properties.thy ===== *)
theory Experience_Properties
  imports Experience_Service Experience_Versions
begin

text \<open>
  What the experience service promises: the scope-keyed store as an interface, isolation of tenants across any
  interleaving of requests, the origin and the filtering of a resolved spec, the cache key, and the agent
  contract.
\<close>

section \<open>The store interface\<close>

text \<open>
  A store promises that a definition is found under the scope and the id it was put under and that a put
  changes nothing else, for the scopes it supports.
\<close>

locale scoped_store =
  fixes S :: "'s spec_store" and init :: 's and supported :: "PrincipalScope \<Rightarrow> bool"
  assumes get_init: "ss_Get S sc i init = None"
    and get_put: "supported sc \<Longrightarrow> supported sc' \<Longrightarrow>
      ss_Get S sc i (ss_Put S sc' def s) = (if sc = sc' \<and> i = ad_ID def then Some def else ss_Get S sc i s)"

section \<open>Requests\<close>

datatype request =
    RStore "scope_claims option" "app_definition option"
  | RResolve "scope_claims option" string string string
  | RValidate "scope_claims option" "app_definition option"

primrec request_scope :: "request \<Rightarrow> PrincipalScope option" where
  "request_scope (RStore c d) = principalScopeFromContext c"
| "request_scope (RResolve c i r f) = principalScopeFromContext c"
| "request_scope (RValidate c d) = principalScopeFromContext c"

text \<open>The state after a request; only storing changes it.\<close>

primrec serve :: "'s experience_handler \<Rightarrow> request \<Rightarrow> 's \<Rightarrow> 's" where
  "serve h (RStore c d) s = snd (StoreSpec h c d s)"
| "serve h (RResolve c i r f) s = s"
| "serve h (RValidate c d) s = s"

definition serve_all :: "'s experience_handler \<Rightarrow> request list \<Rightarrow> 's \<Rightarrow> 's" where
  "serve_all h reqs s = fold (serve h) reqs s"

lemma serve_all_simps [simp]:
  "serve_all h [] s = s" "serve_all h (reqs @ [r]) s = serve h r (serve_all h reqs s)"
  by (simp_all add: serve_all_def)

text \<open>The definition a request leaves in the store, if it leaves one.\<close>

definition stored_by :: "request \<Rightarrow> (PrincipalScope \<times> app_definition) option" where
  "stored_by req =
     (case req of
        RStore c (Some def) \<Rightarrow>
          (case (principalScopeFromContext c, ad_Spec def) of
             (Some sc, Some spec) \<Rightarrow>
               if ad_ID def = [] then None else Some (sc, def\<lparr>ad_Spec := Some (stamp_scope sc spec)\<rparr>)
           | _ \<Rightarrow> None)
      | _ \<Rightarrow> None)"

lemma serve_stored:
  "serve h req s = (case stored_by req of None \<Rightarrow> s | Some (sc, def) \<Rightarrow> ss_Put (xh_store h) sc def s)"
  by (cases req) (auto simp: stored_by_def StoreSpec_def split: option.splits)

lemma stored_by_scope: "stored_by req = Some (sc, def) \<Longrightarrow> request_scope req = Some sc"
  by (auto simp: stored_by_def split: request.splits option.splits if_splits)

context scoped_store
begin

text \<open>The last definition that requests of a scope left under an id is the one found.\<close>

lemma get_serve:
  assumes "xh_store h = S" and "supported sc" and "\<And>sc'. request_scope req = Some sc' \<Longrightarrow> supported sc'"
  shows "ss_Get S sc i (serve h req s) =
    (case stored_by req of
       Some (sc', def) \<Rightarrow> if sc = sc' \<and> i = ad_ID def then Some def else ss_Get S sc i s
     | None \<Rightarrow> ss_Get S sc i s)"
  using assms get_put stored_by_scope [of req] by (auto simp: serve_stored split: option.splits)

lemma get_other_scope:
  assumes "xh_store h = S" and "supported sc" and "\<And>sc'. request_scope req = Some sc' \<Longrightarrow> supported sc'"
    and "request_scope req \<noteq> Some sc"
  shows "ss_Get S sc i (serve h req s) = ss_Get S sc i s"
  using get_serve [OF assms(1-3)] stored_by_scope [of req] assms(4) by (auto split: option.splits)

lemma get_isolated:
  assumes "xh_store h = S" and "supported sc"
    and "\<And>req sc'. req \<in> set reqs \<Longrightarrow> request_scope req = Some sc' \<Longrightarrow> supported sc'"
  shows "ss_Get S sc i (serve_all h reqs init) =
         ss_Get S sc i (serve_all h (filter (\<lambda>r. request_scope r = Some sc) reqs) init)"
  using assms(3)
proof (induction reqs rule: rev_induct)
  case (snoc r reqs)
  have r: "request_scope r = Some sc' \<Longrightarrow> supported sc'" for sc' using snoc.prems [of r sc'] by simp
  have IH: "ss_Get S sc i (serve_all h reqs init) =
      ss_Get S sc i (serve_all h (filter (\<lambda>r. request_scope r = Some sc) reqs) init)"
    by (rule snoc.IH) (use snoc.prems in auto)
  show ?case
  proof (cases "request_scope r = Some sc")
    case True
    have "ss_Get S sc i (serve h r s) = (case stored_by r of
         Some (sc', def) \<Rightarrow> if sc = sc' \<and> i = ad_ID def then Some def else ss_Get S sc i s
       | None \<Rightarrow> ss_Get S sc i s)" for s
      by (rule get_serve) (use assms r in auto)
    with True show ?thesis using IH by (simp split: option.splits prod.splits)
  next
    case False
    then show ?thesis using IH by (simp add: get_other_scope [where req = r, OF assms(1,2) r False])
  qed
qed simp

lemma get_origin:
  assumes "xh_store h = S" and "supported sc"
    and "\<And>req sc'. req \<in> set reqs \<Longrightarrow> request_scope req = Some sc' \<Longrightarrow> supported sc'"
    and "ss_Get S sc i (serve_all h reqs init) = Some def"
  shows "\<exists>before req after. reqs = before @ req # after \<and> stored_by req = Some (sc, def) \<and> ad_ID def = i \<and>
    (\<forall>r\<in>set after. \<forall>d. stored_by r = Some (sc, d) \<longrightarrow> ad_ID d \<noteq> i)"
  using assms(3,4)
proof (induction reqs rule: rev_induct)
  case (snoc r reqs)
  have r: "request_scope r = Some sc' \<Longrightarrow> supported sc'" for sc' using snoc.prems(1) [of r sc'] by simp
  show ?case
  proof (cases "\<exists>d. stored_by r = Some (sc, d) \<and> ad_ID d = i")
    case True
    then have "stored_by r = Some (sc, def)" "ad_ID def = i"
      using snoc.prems(2) get_serve [where req = r, OF assms(1,2) r] by auto
    then show ?thesis by (intro exI [of _ reqs] exI [of _ r] exI [of _ "[]"]) simp
  next
    case False
    then have "ss_Get S sc i (serve_all h reqs init) = Some def"
      using snoc.prems(2) get_serve [where req = r and i = i and s = "serve_all h reqs init", OF assms(1,2) r]
      by (auto split: option.splits prod.splits if_splits)
    then have "\<exists>before req after. reqs = before @ req # after \<and> stored_by req = Some (sc, def) \<and> ad_ID def = i \<and>
        (\<forall>r\<in>set after. \<forall>d. stored_by r = Some (sc, d) \<longrightarrow> ad_ID d \<noteq> i)"
      by (intro snoc.IH) (use snoc.prems(1) in auto)
    then obtain before req after where *: "reqs = before @ req # after" "stored_by req = Some (sc, def)" "ad_ID def = i"
      "\<forall>r\<in>set after. \<forall>d. stored_by r = Some (sc, d) \<longrightarrow> ad_ID d \<noteq> i" by blast
    with False show ?thesis by (intro exI [of _ before] exI [of _ req] exI [of _ "after @ [r]"]) auto
  qed
qed (simp add: get_init)

end

text \<open>The in-memory store keeps its promise for scopes without a NUL byte.\<close>

definition nul_free :: "PrincipalScope \<Rightarrow> bool" where
  "nul_free sc \<longleftrightarrow> CHR 0x00 \<notin> set (ps_TenantID sc) \<and> CHR 0x00 \<notin> set (ps_OrgID sc)"

lemma sep_inj: "z \<notin> set a \<Longrightarrow> z \<notin> set b \<Longrightarrow> a @ z # x = b @ z # y \<longleftrightarrow> a = b \<and> x = y"
proof (induction a arbitrary: b)
  case Nil
  then show ?case by (cases b) auto
next
  case (Cons c a)
  then show ?case by (cases b) auto
qed

lemma storeKey_inj: "nul_free sc \<Longrightarrow> nul_free sc' \<Longrightarrow> storeKey sc i = storeKey sc' j \<longleftrightarrow> sc = sc' \<and> i = j"
  by (auto simp: storeKey_def nul_free_def sep_inj)

interpretation memspecs: scoped_store NewMemorySpecStore "[]" nul_free
  by unfold_locales
    (auto simp: NewMemorySpecStore_def memorySpecStore_Get_def memorySpecStore_Put_def storeKey_inj)

section \<open>The resolver\<close>

lemma filter_surfaces_eq:
  "filter_surfaces grants ids granted locked =
     (granted @ filter (\<lambda>i. gm_get grants i \<noteq> None) ids,
      locked @ map (\<lambda>i. (i, lockedUpsellReason)) (filter (\<lambda>i. gm_get grants i = None) ids))"
  by (induction ids arbitrary: granted locked) auto

lemma Resolve_Inr:
  assumes "Resolve sha256 marshal (Some spec) tuple cfg = Inr r"
  shows "tu_TenantID tuple = ex_TenantID spec" "tu_OrgID tuple = ex_OrgID spec"
    "ex_TenantID r = ex_TenantID spec" "ex_OrgID r = ex_OrgID spec"
    "ex_MinBinaryVersion r = ex_MinBinaryVersion spec" "ex_UnknownSurfacePolicy r = ex_UnknownSurfacePolicy spec"
    "ex_ReferencedSurfaceIDs r = filter (\<lambda>i. gm_get (tu_Granted tuple) i \<noteq> None) (ex_ReferencedSurfaceIDs spec)"
    "map fst (ex_LockedSurfaces r) = filter (\<lambda>i. gm_get (tu_Granted tuple) i = None) (ex_ReferencedSurfaceIDs spec)"
    "ex_ContentHash r = ContentHash sha256 marshal r tuple"
  using assms
  by (auto simp: Resolve_def Let_def filter_surfaces_eq ContentHash_def content_preimage_def canonicalSpecBytes_def comp_def
      split: if_splits)

lemma ResolveSpec_Inr:
  assumes "ResolveSpec h claims i role ff s = Inr r"
  obtains scope def where "principalScopeFromContext claims = Some scope" "ss_Get (xh_store h) scope i s = Some def"
    "Resolve (xh_sha256 h) (xh_marshal h) (ad_Spec def) (xh_TupleFor h scope role ff) \<lparr>rc_Version = [], rc_ResolvedAt = xh_now h\<rparr> = Inr r"
  using assms by (auto simp: ResolveSpec_def split: option.splits sum.splits if_splits)

text \<open>What negotiation does with a list of surfaces.\<close>

lemma negotiate_surfaces_account:
  assumes "res' = negotiate_surfaces known policy ids res"
  shows "mset (nr_Rendered res') + mset (nr_Dropped res') + mset (nr_Degraded res') \<subseteq>#
           mset (nr_Rendered res) + mset (nr_Dropped res) + mset (nr_Degraded res) + mset ids \<and>
         set (nr_Rendered res') \<subseteq> set (nr_Rendered res) \<union> (set ids \<inter> set known) \<and>
         set (nr_Rendered res) \<subseteq> set (nr_Rendered res') \<and>
         (\<not> nr_Blocked res' \<longrightarrow>
            mset (nr_Rendered res') + mset (nr_Dropped res') + mset (nr_Degraded res') =
            mset (nr_Rendered res) + mset (nr_Dropped res) + mset (nr_Degraded res) + mset ids \<and>
            set ids \<inter> set known \<subseteq> set (nr_Rendered res'))"
  using assms
proof (induction ids arbitrary: res)
  case Nil
  then show ?case by simp
next
  case (Cons i ids)
  consider (known) "i \<in> set known" | (ignore) "i \<notin> set known" "policy = POLICY_IGNORE"
    | (degraded) "i \<notin> set known" "policy = POLICY_RENDER_DEGRADED"
    | (block) "i \<notin> set known" "policy = POLICY_BLOCK_UPGRADE \<or> policy = POLICY_UNSPECIFIED"
    by (cases policy) auto
  then show ?case
  proof cases
    case known
    then show ?thesis using Cons.IH [of "res\<lparr>nr_Rendered := nr_Rendered res @ [i]\<rparr>"] Cons.prems by auto
  next
    case ignore
    then show ?thesis using Cons.IH [of "res\<lparr>nr_Dropped := nr_Dropped res @ [i]\<rparr>"] Cons.prems by auto
  next
    case degraded
    then show ?thesis using Cons.IH [of "res\<lparr>nr_Degraded := nr_Degraded res @ [i]\<rparr>"] Cons.prems by auto
  next
    case block
    then show ?thesis using Cons.prems by auto
  qed
qed

lemma Negotiate_account:
  assumes "n = Negotiate spec known v"
  shows "set (nr_Rendered n) \<subseteq> set (ex_ReferencedSurfaceIDs spec) \<inter> set known"
    and "\<not> nr_Blocked n \<Longrightarrow>
      mset (nr_Rendered n) + mset (nr_Dropped n) + mset (nr_Degraded n) = mset (ex_ReferencedSurfaceIDs spec)"
    and "\<not> nr_Blocked n \<Longrightarrow> set (nr_Rendered n) = set (ex_ReferencedSurfaceIDs spec) \<inter> set known"
proof -
  define res where "res = \<lparr>nr_Rendered = [], nr_Dropped = [], nr_Degraded = [], nr_Blocked = False, nr_Reason = [],
    nr_TenantID = ex_TenantID spec, nr_OrgID = ex_OrgID spec\<rparr>"
  consider "nr_Blocked n" "nr_Rendered n = []"
    | "n = negotiate_surfaces known (ex_UnknownSurfacePolicy spec) (ex_ReferencedSurfaceIDs spec) res"
    using assms by (auto simp: Negotiate_def Let_def res_def split: if_splits)
  note c = this
  have r0: "nr_Rendered res = []" "nr_Dropped res = []" "nr_Degraded res = []" by (simp_all add: res_def)
  note acc = negotiate_surfaces_account
    [of n known "ex_UnknownSurfacePolicy spec" "ex_ReferencedSurfaceIDs spec" res, unfolded r0]
  show "set (nr_Rendered n) \<subseteq> set (ex_ReferencedSurfaceIDs spec) \<inter> set known"
    using c by cases (use acc in auto)
  show "\<not> nr_Blocked n \<Longrightarrow>
      mset (nr_Rendered n) + mset (nr_Dropped n) + mset (nr_Degraded n) = mset (ex_ReferencedSurfaceIDs spec)"
    using c by cases (use acc in auto)
  show "\<not> nr_Blocked n \<Longrightarrow> set (nr_Rendered n) = set (ex_ReferencedSurfaceIDs spec) \<inter> set known"
    using c by cases (use acc in auto)
qed

section \<open>Isolation of tenants\<close>

lemma ResolveSpec_cong:
  assumes "\<And>scope. principalScopeFromContext claims = Some scope \<Longrightarrow>
    ss_Get (xh_store h) scope i s = ss_Get (xh_store h) scope i s'"
  shows "ResolveSpec h claims i role ff s = ResolveSpec h claims i role ff s'"
  using assms by (auto simp: ResolveSpec_def split: option.splits)

text \<open>
  C16: tenants are isolated. After any interleaving of store, resolve and validate requests of any number of
  principals, the answer of \<^verbatim>\<open>ResolveSpec\<close> to a principal is the one it would get had only the requests of its
  own tenant and organisation been served; and when none of those stored a definition under the id, the
  answer is the one denial, whatever other tenants stored. The scopes are free of NUL bytes, the separator of
  the store's keys.
\<close>

theorem spec_tenants_isolated:
  assumes "xh_store h = NewMemorySpecStore" and "principalScopeFromContext claims = Some scope" and "nul_free scope"
    and "\<forall>req\<in>set reqs. \<forall>sc. request_scope req = Some sc \<longrightarrow> nul_free sc"
  shows "ResolveSpec h claims i role ff (serve_all h reqs []) =
           ResolveSpec h claims i role ff (serve_all h (filter (\<lambda>r. request_scope r = Some scope) reqs) []) \<and>
         ((\<forall>req\<in>set reqs. \<forall>def. stored_by req = Some (scope, def) \<longrightarrow> ad_ID def \<noteq> i) \<longrightarrow>
           ResolveSpec h claims i role ff (serve_all h reqs []) = Inl (CodePermissionDenied, Some errDenied))"
proof (intro conjI impI)
  show "ResolveSpec h claims i role ff (serve_all h reqs []) =
           ResolveSpec h claims i role ff (serve_all h (filter (\<lambda>r. request_scope r = Some scope) reqs) [])"
    by (rule ResolveSpec_cong) (use assms memspecs.get_isolated [of h scope reqs i] in auto)
  assume "\<forall>req\<in>set reqs. \<forall>def. stored_by req = Some (scope, def) \<longrightarrow> ad_ID def \<noteq> i"
  then have "ss_Get NewMemorySpecStore scope i (serve_all h reqs []) = None"
    using memspecs.get_origin [of h scope reqs i] assms by (metis in_set_conv_decomp not_None_eq)
  then show "ResolveSpec h claims i role ff (serve_all h reqs []) = Inl (CodePermissionDenied, Some errDenied)"
    using assms(1,2) by (simp add: ResolveSpec_def)
qed

text \<open>A handler and two tenants that store a definition under the same id.\<close>

definition acme :: "scope_claims option" where
  "acme = Some \<lparr>jc_CompanyID = ''acme'', jc_Scopes = [''read'', ''org:o1'', ''org:o2'']\<rparr>"

definition other :: "scope_claims option" where
  "other = Some \<lparr>jc_CompanyID = ''other'', jc_Scopes = [''org:o1'']\<rparr>"

definition acme_scope :: PrincipalScope where
  "acme_scope = \<lparr>ps_TenantID = ''acme'', ps_OrgID = ''o1''\<rparr>"

definition grants_crm :: "PrincipalScope \<Rightarrow> string \<Rightarrow> string \<Rightarrow> resolution_tuple" where
  "grants_crm sc role ff = \<lparr>tu_Role = role, tu_FormFactor = ff, tu_TenantID = ps_TenantID sc, tu_OrgID = ps_OrgID sc,
     tu_Entitlement = ''base'', tu_Granted = [(''maps'', ()), (''crm'', ()), (''extra'', ())]\<rparr>"

definition demo_handler :: "memorySpecStore experience_handler" where
  "demo_handler = \<lparr>xh_store = NewMemorySpecStore, xh_TupleFor = grants_crm, xh_now = ''2026-01-01T00:00:00Z'',
     xh_sha256 = rev, xh_marshal = (\<lambda>spec. Some (concat (ex_ReferencedSurfaceIDs spec)))\<rparr>"

definition demo_def :: "string \<Rightarrow> app_definition" where
  "demo_def note = \<lparr>ad_ID = ''app'', ad_Spec = Some (spec_v1\<lparr>ex_Other := note\<rparr>), ad_Other = note\<rparr>"

definition demo_requests :: "request list" where
  "demo_requests = [RStore acme (Some (demo_def ''first'')), RStore acme (Some (demo_def ''second'')),
     RResolve other ''app'' [] [], RStore other (Some (demo_def ''foreign''))]"

lemma demo_facts:
  "xh_store demo_handler = NewMemorySpecStore" "principalScopeFromContext acme = Some acme_scope" "nul_free acme_scope"
  "\<forall>req\<in>set demo_requests. \<forall>sc. request_scope req = Some sc \<longrightarrow> nul_free sc"
proof -
  have "list_all (\<lambda>req. case request_scope req of None \<Rightarrow> True | Some sc \<Rightarrow> nul_free sc) demo_requests" by code_simp
  then show "\<forall>req\<in>set demo_requests. \<forall>sc. request_scope req = Some sc \<longrightarrow> nul_free sc"
    unfolding list_all_iff by (metis option.simps(5))
qed (simp add: demo_handler_def, code_simp+)

theorem spec_tenants_isolated_witness:
  "ResolveSpec demo_handler acme ''app'' ''owner'' ''phone'' (serve_all demo_handler demo_requests []) =
     ResolveSpec demo_handler acme ''app'' ''owner'' ''phone'' (serve_all demo_handler (take 2 demo_requests) []) \<and>
   ResolveSpec demo_handler acme ''app2'' ''owner'' ''phone'' (serve_all demo_handler demo_requests []) =
     Inl (CodePermissionDenied, Some errDenied)"
proof -
  have f: "filter (\<lambda>r. request_scope r = Some acme_scope) demo_requests = take 2 demo_requests" by code_simp
  have "list_all (\<lambda>req. case stored_by req of None \<Rightarrow> True | Some (sc, def) \<Rightarrow> ad_ID def \<noteq> ''app2'') demo_requests" by code_simp
  then have "\<forall>req\<in>set demo_requests. \<forall>def. stored_by req = Some (acme_scope, def) \<longrightarrow> ad_ID def \<noteq> ''app2''"
    unfolding list_all_iff by fastforce
  then show ?thesis
    using spec_tenants_isolated [OF demo_facts, of "''app''" "''owner''" "''phone''", unfolded f]
      spec_tenants_isolated [OF demo_facts, of "''app2''" "''owner''" "''phone''"] by blast
qed

text \<open>
  C28: what a principal renders. A resolved spec comes from the last definition that its own tenant and
  organisation stored under the id, re-stamped with their scope. Every surface that definition references is
  accounted for, as granted or as locked; a binary that negotiates the resolved spec renders exactly the
  surfaces that are referenced, granted and known to it, none that is locked or never requested, and drops or
  degrades the remaining granted ones, unless it is told to upgrade.
\<close>

theorem resolved_spec_renders:
  assumes "xh_store h = NewMemorySpecStore" and "principalScopeFromContext claims = Some scope" and "nul_free scope"
    and "\<forall>req\<in>set reqs. \<forall>sc. request_scope req = Some sc \<longrightarrow> nul_free sc"
    and "ResolveSpec h claims i role ff (serve_all h reqs []) = Inr r"
    and "granted = {s. gm_get (tu_Granted (xh_TupleFor h scope role ff)) s \<noteq> None}"
    and "n = Negotiate r known v"
  shows "\<exists>before c def spec after.
    reqs = before @ RStore c (Some def) # after \<and> principalScopeFromContext c = Some scope \<and> ad_ID def = i \<and>
    ad_Spec def = Some spec \<and> (\<forall>q\<in>set after. \<forall>d. stored_by q = Some (scope, d) \<longrightarrow> ad_ID d \<noteq> i) \<and>
    ex_TenantID r = ps_TenantID scope \<and> ex_OrgID r = ps_OrgID scope \<and>
    mset (ex_ReferencedSurfaceIDs r) + mset (map fst (ex_LockedSurfaces r)) = mset (ex_ReferencedSurfaceIDs spec) \<and>
    set (map fst (ex_LockedSurfaces r)) = set (ex_ReferencedSurfaceIDs spec) - granted \<and>
    set (nr_Rendered n) \<subseteq> set (ex_ReferencedSurfaceIDs spec) \<inter> granted \<inter> set known \<and>
    (\<not> nr_Blocked n \<longrightarrow>
       set (nr_Rendered n) = set (ex_ReferencedSurfaceIDs spec) \<inter> granted \<inter> set known \<and>
       mset (nr_Rendered n) + mset (nr_Dropped n) + mset (nr_Degraded n) + mset (map fst (ex_LockedSurfaces r)) =
         mset (ex_ReferencedSurfaceIDs spec))"
proof -
  obtain def' where get: "ss_Get NewMemorySpecStore scope i (serve_all h reqs []) = Some def'"
    and res: "Resolve (xh_sha256 h) (xh_marshal h) (ad_Spec def') (xh_TupleFor h scope role ff)
      \<lparr>rc_Version = [], rc_ResolvedAt = xh_now h\<rparr> = Inr r"
    using assms(1,2,5) by (auto elim!: ResolveSpec_Inr)
  obtain before req after where o: "reqs = before @ req # after" "stored_by req = Some (scope, def')" "ad_ID def' = i"
    "\<forall>r\<in>set after. \<forall>d. stored_by r = Some (scope, d) \<longrightarrow> ad_ID d \<noteq> i"
    using memspecs.get_origin [OF assms(1,3) _ get] assms(4) by blast
  obtain c def spec where d: "req = RStore c (Some def)" "principalScopeFromContext c = Some scope" "ad_Spec def = Some spec"
    "def' = def\<lparr>ad_Spec := Some (stamp_scope scope spec)\<rparr>"
    using o(2) by (auto simp: stored_by_def split: request.splits option.splits if_splits)
  define ids where "ids = ex_ReferencedSurfaceIDs spec"
  have refs: "ex_ReferencedSurfaceIDs (stamp_scope scope spec) = ids" by (simp add: stamp_scope_def ids_def)
  note R = Resolve_Inr [OF res [unfolded d(4), simplified], unfolded refs]
  have split: "mset (filter P ids) + mset (filter (\<lambda>x. \<not> P x) ids) = mset ids" for P by (induction ids) auto
  note N = Negotiate_account [OF assms(7)]
  have "ex_TenantID r = ps_TenantID scope" "ex_OrgID r = ps_OrgID scope" using R(3,4) by (simp_all add: stamp_scope_def)
  moreover have all: "mset (ex_ReferencedSurfaceIDs r) + mset (map fst (ex_LockedSurfaces r)) = mset ids"
    using split [of "\<lambda>i. gm_get (tu_Granted (xh_TupleFor h scope role ff)) i \<noteq> None"] unfolding R(7,8) by simp
  moreover have "set (map fst (ex_LockedSurfaces r)) = set ids - granted" 
    unfolding R(8) assms(6) by (rule set_eqI) (simp only: set_filter mem_Collect_eq Diff_iff not_not)
  moreover have "set (ex_ReferencedSurfaceIDs r) = set ids \<inter> granted" unfolding R(7) assms(6) set_filter by blast
  ultimately show ?thesis
    using o d N all [symmetric] unfolding ids_def
    by (intro exI [of _ before] exI [of _ c] exI [of _ def] exI [of _ spec] exI [of _ after]) simp
qed

lemma demo_resolves:
  "\<exists>r. ResolveSpec demo_handler acme ''app'' ''owner'' ''phone'' (serve_all demo_handler demo_requests []) = Inr r"
proof -
  have "ss_Get NewMemorySpecStore acme_scope ''app'' (serve_all demo_handler demo_requests []) =
      Some ((demo_def ''second'')\<lparr>ad_Spec := Some (stamp_scope acme_scope (spec_v1\<lparr>ex_Other := ''second''\<rparr>))\<rparr>)"
    by code_simp
  moreover have "xh_TupleFor demo_handler acme_scope role ff = grants_crm acme_scope role ff" for role ff
    by (simp add: demo_handler_def)
  ultimately show ?thesis
    by (simp add: ResolveSpec_def demo_facts Resolve_def stamp_scope_def grants_crm_def Let_def split: prod.splits)
qed

theorem resolved_spec_renders_witness:
  "\<exists>r. ResolveSpec demo_handler acme ''app'' ''owner'' ''phone'' (serve_all demo_handler demo_requests []) = Inr r \<and>
    set (nr_Rendered (Negotiate r [''crm'', ''chat''] ''2.0'')) \<subseteq> {''crm''}"
proof -
  obtain r where r: "ResolveSpec demo_handler acme ''app'' ''owner'' ''phone'' (serve_all demo_handler demo_requests []) = Inr r"
    using demo_resolves by blast
  have g: "{s. gm_get (tu_Granted (xh_TupleFor demo_handler acme_scope ''owner'' ''phone'')) s \<noteq> None} = {''maps'', ''crm'', ''extra''}"
    by (auto simp: demo_handler_def grants_crm_def gm_get_def split: if_splits)
  have "set (nr_Rendered (Negotiate r [''crm'', ''chat''] ''2.0'')) \<subseteq> {''maps'', ''crm'', ''extra''} \<inter> set [''crm'', ''chat'']"
    using resolved_spec_renders [OF demo_facts r g [symmetric] refl, of "[''crm'', ''chat'']" "''2.0''"] by blast
  then have "set (nr_Rendered (Negotiate r [''crm'', ''chat''] ''2.0'')) \<subseteq> {''crm''}" by auto
  with r show ?thesis by blast
qed

section \<open>The cache key\<close>

text \<open>A length-framed segment, and a sequence of them.\<close>

definition frame :: "string \<Rightarrow> string" where
  "frame seg = PutUint32 (length seg mod 2 ^ 32) @ seg"

definition short :: "string \<Rightarrow> bool" where
  "short seg \<longleftrightarrow> length seg < 2 ^ 32"

lemma frame_inj: "short a \<Longrightarrow> short b \<Longrightarrow> frame a @ x = frame b @ y \<longleftrightarrow> a = b \<and> x = y"
proof -
  assume s: "short a" "short b"
  have "a = b \<and> x = y" if eq: "frame a @ x = frame b @ y"
  proof -
    from eq have hd: "PutUint32 (length a) = PutUint32 (length b)" and tl: "a @ x = b @ y"
      using s by (auto simp: frame_def short_def)
    from hd s have "length a = length b" by (auto simp: short_def intro: PutUint32_inj)
    with tl show ?thesis by simp
  qed
  then show ?thesis by blast
qed

lemma frame_ne [simp]: "frame x \<noteq> []"
  by (simp add: frame_def PutUint32_def)

lemma frames_inj:
  "(\<forall>x\<in>set xs. short x) \<Longrightarrow> (\<forall>y\<in>set ys. short y) \<Longrightarrow> concat (map frame xs) = concat (map frame ys) \<Longrightarrow> xs = ys"
proof (induction xs arbitrary: ys)
  case Nil
  then show ?case by (cases ys) simp_all
next
  case (Cons x xs)
  have "ys \<noteq> []" using Cons.prems(3) by auto
  then obtain y ys' where ys: "ys = y # ys'" by (cases ys) auto
  with Cons.prems have eq: "x = y" "concat (map frame xs) = concat (map frame ys')" by (simp_all add: frame_inj)
  have "xs = ys'" by (rule Cons.IH [OF _ _ eq(2)]) (use Cons.prems(1,2) ys in simp_all)
  with eq(1) ys show ?case by simp
qed

lemma appendFramed_frame: "appendFramed dst seg = dst @ frame seg"
  by (simp add: appendFramed_def frame_def)

definition tuple_segments :: "resolution_tuple \<Rightarrow> string list" where
  "tuple_segments t =
     [''role='' @ tu_Role t, ''entitlements='' @ tu_Entitlement t, ''form_factor='' @ tu_FormFactor t,
      ''tenant='' @ tu_TenantID t, ''org='' @ tu_OrgID t] @ map (\<lambda>g. ''granted='' @ g) (sort (map fst (tu_Granted t)))"

lemma foldl_appendFramed: "foldl (\<lambda>out g. appendFramed out (f g)) out gs = out @ concat (map frame (map f gs))"
  by (induction gs arbitrary: out) (simp_all add: appendFramed_frame)

lemma tuplePreimage_frames: "tuplePreimage t = concat (map frame (tuple_segments t))"
  unfolding tuplePreimage_def tuple_segments_def Let_def foldl_appendFramed
  by (simp only: appendFramed_frame append_Nil append_assoc map_append list.map concat_append concat.simps append_Nil2)

lemma content_preimage_frames:
  "content_preimage marshal spec t = frame (canonicalSpecBytes marshal spec) @ frame (tuplePreimage t)"
  by (simp add: content_preimage_def appendFramed_frame)

text \<open>The two tuples are the same request: equal axes and the same granted surfaces.\<close>

definition same_tuple :: "resolution_tuple \<Rightarrow> resolution_tuple \<Rightarrow> bool" where
  "same_tuple t t' \<longleftrightarrow> tu_Role t = tu_Role t' \<and> tu_Entitlement t = tu_Entitlement t' \<and> tu_FormFactor t = tu_FormFactor t' \<and>
     tu_TenantID t = tu_TenantID t' \<and> tu_OrgID t = tu_OrgID t' \<and> mset (map fst (tu_Granted t)) = mset (map fst (tu_Granted t'))"

lemma tuple_segments_inj: "tuple_segments t = tuple_segments t' \<longleftrightarrow> same_tuple t t'"
proof -
  have "map (\<lambda>g. ''granted='' @ g) xs = map (\<lambda>g. ''granted='' @ g) ys \<longleftrightarrow> xs = ys" for xs ys
    by (rule inj_map_eq_map) (simp add: inj_on_def)
  moreover have "sort xs = sort ys \<longleftrightarrow> mset xs = mset ys" for xs ys :: "string list"
    by (metis mset_sort properties_for_sort sorted_sort)
  ultimately show ?thesis by (auto simp: tuple_segments_def same_tuple_def)
qed

lemma short_segments: "short (tuplePreimage t) \<Longrightarrow> \<forall>x\<in>set (tuple_segments t). short x"
proof
  fix x assume s: "short (tuplePreimage t)" and x: "x \<in> set (tuple_segments t)"
  then obtain xs ys where "tuple_segments t = xs @ x # ys" by (auto simp: in_set_conv_decomp)
  then have "length x \<le> length (tuplePreimage t)" by (simp add: tuplePreimage_frames frame_def)
  with s show "short x" by (simp add: short_def)
qed

text \<open>
  C29: the content hash is a cache key. Two resolved specs have the same hash exactly when their canonical
  bytes agree, so do all five axes of the resolution tuple, and the same surfaces are granted, as long as
  SHA-256 does not collide on the two preimages and the encoded spec and tuple are shorter than 4 GiB. In
  particular the order in which the entitlements list the surfaces does not matter, and no byte can move from
  one axis to the next.
\<close>

theorem content_hash_is_cache_key:
  assumes "sha256 (content_preimage marshal r t) = sha256 (content_preimage marshal r' t') \<Longrightarrow>
      content_preimage marshal r t = content_preimage marshal r' t'"
    and "\<forall>b\<in>{canonicalSpecBytes marshal r, canonicalSpecBytes marshal r', tuplePreimage t, tuplePreimage t'}. length b < 2 ^ 32"
  shows "ContentHash sha256 marshal r t = ContentHash sha256 marshal r' t' \<longleftrightarrow>
    canonicalSpecBytes marshal r = canonicalSpecBytes marshal r' \<and> same_tuple t t'"
proof -
  have sh: "short (canonicalSpecBytes marshal r)" "short (canonicalSpecBytes marshal r')"
    "short (tuplePreimage t)" "short (tuplePreimage t')"
    using assms(2) by (simp_all add: short_def)
  have "ContentHash sha256 marshal r t = ContentHash sha256 marshal r' t' \<longleftrightarrow>
      content_preimage marshal r t = content_preimage marshal r' t'"
    using assms(1) by (auto simp: ContentHash_def SHA256Hex_def hex_encode_inj)
  also have "\<dots> \<longleftrightarrow> canonicalSpecBytes marshal r = canonicalSpecBytes marshal r' \<and> tuplePreimage t = tuplePreimage t'"
    using frame_inj [OF sh(1,2)] frame_inj [OF sh(3,4), of "[]" "[]"] by (simp add: content_preimage_frames)
  also have "tuplePreimage t = tuplePreimage t' \<longleftrightarrow> tuple_segments t = tuple_segments t'"
    using frames_inj [OF short_segments [OF sh(3)] short_segments [OF sh(4)]] by (auto simp: tuplePreimage_frames)
  finally show ?thesis by (simp only: tuple_segments_inj)
qed

theorem content_hash_is_cache_key_witness:
  "ContentHash id (\<lambda>_. Some ''spec'') spec_v1 (grants_crm acme_scope ''owner'' ''phone'') \<noteq>
   ContentHash id (\<lambda>_. Some ''spec'') spec_v1 (grants_crm acme_scope ''ownerp'' ''hone'')"
proof -
  have len: "length (tuplePreimage (grants_crm acme_scope role ff)) =
      length role + length ff + 119" for role ff
    unfolding tuplePreimage_frames tuple_segments_def grants_crm_def acme_scope_def
    by (simp add: frame_def)
  show ?thesis
    using content_hash_is_cache_key [of id "\<lambda>_. Some ''spec''" spec_v1 "grants_crm acme_scope ''owner'' ''phone''" spec_v1
        "grants_crm acme_scope ''ownerp'' ''hone''"]
    by (simp add: len canonicalSpecBytes_def same_tuple_def) (simp add: grants_crm_def)
qed

text \<open>
  Past the 32 bits of its length prefix a frame is ambiguous: one segment of \<open>2 ^ 32\<close> bytes that is a frame
  itself reads as an empty segment followed by the framed one.
\<close>

lemma frame_wraps: "length (frame b) = 2 ^ 32 \<Longrightarrow> appendFramed [] (frame b) = appendFramed (appendFramed [] []) b"
  by (simp add: appendFramed_frame) (simp add: frame_def)

section \<open>Agents and tools\<close>

lemma visibilityByTool_snoc:
  "visibilityByTool (ts @ [t]) = (if td_AdapterID t \<noteq> [] then gm_put (td_AdapterID t) (td_Visibility t) (visibilityByTool ts)
     else visibilityByTool ts)"
  by (simp add: visibilityByTool_def)

lemma visibilityByTool_get:
  "gm_get (visibilityByTool ts) i =
     (if i = [] then None else map_option td_Visibility (find (\<lambda>t. td_AdapterID t = i) (rev ts)))"
proof (induction ts rule: rev_induct)
  case Nil
  then show ?case by (simp add: visibilityByTool_def)
qed (auto simp: visibilityByTool_snoc)

text \<open>What a clean binding means; a tool id names the last tool with that adapter.\<close>

definition binding_ok :: "tool_definition list \<Rightarrow> audience_binding \<Rightarrow> bool" where
  "binding_ok ts b \<longleftrightarrow> (\<forall>i\<in>set (ab_ToolIDs b). i \<noteq> [] \<and>
     (\<exists>t. find (\<lambda>t. td_AdapterID t = i) (rev ts) = Some t \<and>
        (externalFacing (ab_Audience b) \<longrightarrow> td_Visibility t = TOOL_VISIBILITY_EXTERNAL_SAFE)))"

lemma binding_errors_Nil: "binding_errors (visibilityByTool ts) b = [] \<longleftrightarrow> binding_ok ts b"
  by (auto simp: binding_errors_def binding_ok_def visibilityByTool_get split: option.splits if_splits)

lemma validateAudience_Nil:
  "validateAudience spec = [] \<longleftrightarrow>
     (externalFacing (ag_Audience spec) \<longrightarrow> (\<exists>b\<in>set (ag_AudienceBindings spec). externalFacing (ab_Audience b))) \<and>
     (\<forall>b\<in>set (ag_AudienceBindings spec). binding_ok (ag_Tools spec) b)"
  by (auto simp: validateAudience_def list_ex_iff binding_errors_Nil)

lemma ValidateAgentSpec_Nil:
  "ValidateAgentSpec (Some spec) scope = [] \<longleftrightarrow>
     ag_CompanyID spec = scope \<and> ag_Persona spec \<noteq> [] \<and> ag_ModelRef spec \<noteq> [] \<and> ag_Tools spec \<noteq> [] \<and>
     0 < ag_MaxSteps spec \<and> ag_MaxSteps spec \<le> 50 \<and> (\<forall>t\<in>set (ag_Tools spec). td_AdapterID t \<noteq> []) \<and>
     validateAudience spec = []"
  by (auto simp: ValidateAgentSpec_def deniedAgentSpec_def AgentSpecMaxStepsCeiling_def split: if_splits)

lemma find_rev_unique:
  "distinct (map f xs) \<Longrightarrow> find (\<lambda>t. f t = i) (rev xs) = Some t \<longleftrightarrow> t \<in> set xs \<and> f t = i"
proof (induction xs)
  case (Cons x xs)
  have "find (\<lambda>t. f t = i) (rev xs) = None" if "i \<notin> f ` set xs" using that by (auto simp: find_None_iff)
  with Cons show ?case by (auto simp: find_snoc split: option.splits)
qed simp

text \<open>
  A clean agent spec is safe to expose. The validator finds nothing wrong with a spec whose tools have
  pairwise different adapters exactly when it belongs to the principal's company, has persona, model and
  tools with adapters, a step budget from 1 to 50, an external binding if its audience is external, and
  bindings that name only tools of the spec and, where external-facing, only tools marked safe for external
  use. A foreign spec and a missing one are answered alike, with one finding that does not depend on the
  spec.
\<close>

lemma agent_spec_exact:
  assumes "distinct (map td_AdapterID (ag_Tools spec))"
  shows "(ValidateAgentSpec (Some spec) scope = [] \<longleftrightarrow>
      ag_CompanyID spec = scope \<and> ag_Persona spec \<noteq> [] \<and> ag_ModelRef spec \<noteq> [] \<and> ag_Tools spec \<noteq> [] \<and>
      0 < ag_MaxSteps spec \<and> ag_MaxSteps spec \<le> 50 \<and> (\<forall>t\<in>set (ag_Tools spec). td_AdapterID t \<noteq> []) \<and>
      (externalFacing (ag_Audience spec) \<longrightarrow> (\<exists>b\<in>set (ag_AudienceBindings spec). externalFacing (ab_Audience b))) \<and>
      (\<forall>b\<in>set (ag_AudienceBindings spec). \<forall>i\<in>set (ab_ToolIDs b). \<exists>t\<in>set (ag_Tools spec). td_AdapterID t = i \<and>
         (externalFacing (ab_Audience b) \<longrightarrow> td_Visibility t = TOOL_VISIBILITY_EXTERNAL_SAFE))) \<and>
    (ag_CompanyID spec \<noteq> scope \<longrightarrow> ValidateAgentSpec (Some spec) scope = ValidateAgentSpec None scope)"
  (is "(_ \<longleftrightarrow> ?clean) \<and> _")
proof (intro conjI impI)
  have "binding_ok (ag_Tools spec) b \<longleftrightarrow> (\<forall>i\<in>set (ab_ToolIDs b). \<exists>t\<in>set (ag_Tools spec). td_AdapterID t = i \<and>
         (externalFacing (ab_Audience b) \<longrightarrow> td_Visibility t = TOOL_VISIBILITY_EXTERNAL_SAFE))"
    if "\<forall>t\<in>set (ag_Tools spec). td_AdapterID t \<noteq> []" for b
    using that unfolding binding_ok_def find_rev_unique [OF assms] by blast
  then show "ValidateAgentSpec (Some spec) scope = [] \<longleftrightarrow> ?clean"
    unfolding ValidateAgentSpec_Nil validateAudience_Nil by blast
qed (simp add: ValidateAgentSpec_def)

definition demo_tool :: "string \<Rightarrow> tool_visibility \<Rightarrow> tool_definition" where
  "demo_tool i v = \<lparr>td_AdapterID = i, td_InputSchema = ''{}'', td_OutputSchema = ''{}'', td_SideEffect = SIDE_EFFECT_READ,
     td_Visibility = v\<rparr>"

definition demo_agent :: "tool_definition list \<Rightarrow> agent_spec" where
  "demo_agent ts = \<lparr>ag_CompanyID = ''acme'', ag_Persona = ''p'', ag_ModelRef = ''m'', ag_Tools = ts, ag_MaxSteps = 50,
     ag_Audience = AGENT_AUDIENCE_BOTH,
     ag_AudienceBindings = [\<lparr>ab_Audience = AGENT_AUDIENCE_EXTERNAL, ab_ToolIDs = [''faq'']\<rparr>]\<rparr>"

theorem agent_spec_exact_witness:
  "ValidateAgentSpec (Some (demo_agent [demo_tool ''faq'' TOOL_VISIBILITY_EXTERNAL_SAFE, demo_tool ''crm'' TOOL_VISIBILITY_INTERNAL_ONLY])) ''acme'' = [] \<and>
   ValidateAgentSpec (Some (demo_agent [demo_tool ''faq'' TOOL_VISIBILITY_INTERNAL_ONLY])) ''acme'' \<noteq> []"
  using agent_spec_exact [of "demo_agent [demo_tool ''faq'' TOOL_VISIBILITY_EXTERNAL_SAFE, demo_tool ''crm'' TOOL_VISIBILITY_INTERNAL_ONLY]" "''acme''"]
    agent_spec_exact [of "demo_agent [demo_tool ''faq'' TOOL_VISIBILITY_INTERNAL_ONLY]" "''acme''"]
  by (simp add: demo_agent_def demo_tool_def externalFacing_def)

text \<open>With a repeated adapter the last tool's visibility hides the others': an internal-only tool is bound externally.\<close>

lemma repeated_adapter_masks:
  "ValidateAgentSpec (Some (demo_agent [demo_tool ''faq'' TOOL_VISIBILITY_INTERNAL_ONLY, demo_tool ''faq'' TOOL_VISIBILITY_EXTERNAL_SAFE])) ''acme'' = []"
  by code_simp

text \<open>
  A dispatch depends only on the allowlist of its own scope, and a tool of the node that the tool validator
  accepts for that allowlist is dispatched, or refused for its input or for an unknown side effect.
\<close>

lemma dispatch_own_scope:
  "gm_get_or [] A (sx_ScopeID sc) = gm_get_or [] A' (sx_ScopeID sc) \<Longrightarrow>
   Dispatch unmarshal A node tool sc input = Dispatch unmarshal A' node tool sc input"
  by (cases tool; cases node) (simp_all add: Dispatch_def)

lemma clean_tool_dispatches:
  assumes "ValidateTooling [Some tool] (gm_get_or [] A (sx_ScopeID sc)) = []" and "nodeBindsAdapter node (td_AdapterID tool)"
    and "td_SideEffect tool \<in> {SIDE_EFFECT_READ, SIDE_EFFECT_WRITE}"
  shows "(\<exists>r. Dispatch unmarshal A (Some node) (Some tool) sc input = Inr r \<and> \<not> st_Executed r \<and>
            st_WriteGated r = (td_SideEffect tool = SIDE_EFFECT_WRITE)) \<or>
         (\<exists>e. Dispatch unmarshal A (Some node) (Some tool) sc input = Inl e \<and> errors_is e ErrDispatchInvalidInput)"
  using assms
  by (auto simp: ValidateTooling_def tool_errors_def Dispatch_def Let_def ErrDispatchInvalidInput_def
      split: if_splits option.splits)

end
