(* ===== verification/Feature_Flags.thy ===== *)
theory Feature_Flags
  imports Go_Strings "HOL-Library.Product_Lexorder"
begin

text \<open>
  Feature flags, \<^verbatim>\<open>src/platform/feature-flags\<close>: the flag record with its overrides and rollout, the two
  sources, and the client that evaluates a flag for a caller.

  A source is a record of a lookup over its state. Override values of type \<^verbatim>\<open>any\<close> are booleans, strings or
  something else; the values of variants are of any type. SHA-256 is a parameter. The errors the client
  passes to its logger are returned beside the result.
\<close>

record eval =
  ev_SubjectID :: string
  ev_HouseholdID :: string
  ev_TenantID :: string
  ev_Environment :: string

datatype override_value = OBool bool | OString string | OOther

record override =
  ov_TenantID :: string
  ov_HouseholdID :: string
  ov_SubjectID :: string
  ov_Environment :: string
  ov_Value :: override_value

record rollout =
  ro_Percentage :: int
  ro_Salt :: string

record 'v flag =
  fl_Key :: string
  fl_Enabled :: bool
  fl_Variants :: "(string, 'v) gomap option"
  fl_Default :: string
  fl_Rollout :: "rollout option"
  fl_Overrides :: "override list"

definition override_matches :: "override \<Rightarrow> eval \<Rightarrow> bool" where
  "override_matches o' e \<longleftrightarrow>
     (if ov_TenantID o' \<noteq> [] \<and> ov_TenantID o' \<noteq> ev_TenantID e then False
      else if ov_HouseholdID o' \<noteq> [] \<and> ov_HouseholdID o' \<noteq> ev_HouseholdID e then False
      else if ov_SubjectID o' \<noteq> [] \<and> ov_SubjectID o' \<noteq> ev_SubjectID e then False
      else if ov_Environment o' \<noteq> [] \<and> ov_Environment o' \<noteq> ev_Environment e then False
      else True)"

definition specificity :: "override \<Rightarrow> int" where
  "specificity o' =
     (if ov_SubjectID o' \<noteq> [] then 8 else 0) + (if ov_HouseholdID o' \<noteq> [] then 4 else 0) +
     (if ov_TenantID o' \<noteq> [] then 2 else 0) + (if ov_Environment o' \<noteq> [] then 1 else 0)"

section \<open>Rollout\<close>

definition rollout_bucket :: "(string \<Rightarrow> string) \<Rightarrow> string \<Rightarrow> string \<Rightarrow> int" where
  "rollout_bucket sha256 subjectID salt = int (GetUint32 (take 4 (sha256 (salt @ [CHR 0x00] @ subjectID))) mod 100)"

definition inRollout :: "(string \<Rightarrow> string) \<Rightarrow> string \<Rightarrow> string \<Rightarrow> int \<Rightarrow> bool" where
  "inRollout sha256 subjectID salt percentage =
     (if percentage \<le> 0 then False
      else if percentage \<ge> 100 then True
      else rollout_bucket sha256 subjectID salt < percentage)"

section \<open>Evaluation\<close>

text \<open>
  The matches are (specificity, index, value) triples, sorted stably by descending specificity and then by
  index; the first one is taken.
\<close>

definition override_match_list :: "'v flag \<Rightarrow> eval \<Rightarrow> (int \<times> nat \<times> override_value) list" where
  "override_match_list flag e =
     map (\<lambda>(i, o'). (specificity o', i, ov_Value o'))
       (filter (\<lambda>(i, o'). override_matches o' e) (enumerate 0 (fl_Overrides flag)))"

definition bestOverride :: "'v flag \<Rightarrow> eval \<Rightarrow> override_value option" where
  "bestOverride flag e =
     (case sort_key (\<lambda>(spec, idx, val). (- spec, int idx)) (override_match_list flag e) of
        [] \<Rightarrow> None
      | (spec, idx, val) # _ \<Rightarrow> Some val)"

definition overrideToBool :: "'v flag \<Rightarrow> override_value \<Rightarrow> bool" where
  "overrideToBool flag v =
     (case fl_Variants flag of
        None \<Rightarrow> (case v of OBool b \<Rightarrow> b | _ \<Rightarrow> False)
      | Some _ \<Rightarrow> (case v of OString name \<Rightarrow> name = fl_Default flag \<and> name \<noteq> [] | _ \<Rightarrow> False))"

definition evaluateBool :: "(string \<Rightarrow> string) \<Rightarrow> 'v flag \<Rightarrow> eval \<Rightarrow> bool" where
  "evaluateBool sha256 flag e =
     (if \<not> fl_Enabled flag then False
      else (case bestOverride flag e of
              Some v \<Rightarrow> overrideToBool flag v
            | None \<Rightarrow>
                (case fl_Rollout flag of
                   Some r \<Rightarrow> inRollout sha256 (ev_SubjectID e) (ro_Salt r) (ro_Percentage r)
                 | None \<Rightarrow> if fl_Variants flag \<noteq> None then fl_Default flag \<noteq> [] else True)))"

definition variant_fallback :: "(string \<Rightarrow> string) \<Rightarrow> 'v flag \<Rightarrow> eval \<Rightarrow> string option" where
  "variant_fallback sha256 flag e =
     (if (case fl_Rollout flag of
            Some r \<Rightarrow> \<not> inRollout sha256 (ev_SubjectID e) (ro_Salt r) (ro_Percentage r)
          | None \<Rightarrow> False) then None
      else if fl_Default flag = [] then None
      else Some (fl_Default flag))"

definition evaluateVariant :: "(string \<Rightarrow> string) \<Rightarrow> 'v flag \<Rightarrow> (string, 'v) gomap \<Rightarrow> eval \<Rightarrow> string option" where
  "evaluateVariant sha256 flag variants e =
     (case bestOverride flag e of
        Some (OString name) \<Rightarrow> if gm_get variants name \<noteq> None then Some name else variant_fallback sha256 flag e
      | _ \<Rightarrow> variant_fallback sha256 flag e)"

section \<open>The client\<close>

record ('v, 's) flag_source =
  so_Lookup :: "string \<Rightarrow> 's \<Rightarrow> 'v flag option result"

type_synonym flag_log = "(string \<times> go_error) list"

definition client_lookup :: "('v, 's) flag_source \<Rightarrow> string \<Rightarrow> 's \<Rightarrow> 'v flag option result \<times> flag_log" where
  "client_lookup src key s =
     (case so_Lookup src key s of Inl err \<Rightarrow> (Inl err, [(key, err)]) | Inr f \<Rightarrow> (Inr f, []))"

definition IsEnabled :: "(string \<Rightarrow> string) \<Rightarrow> ('v, 's) flag_source \<Rightarrow> string \<Rightarrow> eval \<Rightarrow> 's \<Rightarrow> bool \<times> flag_log" where
  "IsEnabled sha256 src key e s =
     (case client_lookup src key s of
        (Inr (Some flag), log) \<Rightarrow> (evaluateBool sha256 flag e, log)
      | (_, log) \<Rightarrow> (False, log))"

definition Variant :: "(string \<Rightarrow> string) \<Rightarrow> ('v, 's) flag_source \<Rightarrow> string \<Rightarrow> eval \<Rightarrow> 's \<Rightarrow> (string \<times> 'v) option \<times> flag_log" where
  "Variant sha256 src key e s =
     (case client_lookup src key s of
        (Inr (Some flag), log) \<Rightarrow>
          (if \<not> fl_Enabled flag then (None, log)
           else (case fl_Variants flag of
                   None \<Rightarrow> (None, log)
                 | Some variants \<Rightarrow>
                     (case evaluateVariant sha256 flag variants e of
                        None \<Rightarrow> (None, log)
                      | Some name \<Rightarrow> (map_option (Pair name) (gm_get variants name), log))))
      | (_, log) \<Rightarrow> (None, log))"

section \<open>Sources\<close>

type_synonym 'v MemorySource = "(string, 'v flag) gomap"

definition MemorySource_Set :: "'v flag \<Rightarrow> 'v MemorySource \<Rightarrow> 'v MemorySource" where
  "MemorySource_Set f s = gm_put (fl_Key f) f s"

definition MemorySource_Delete :: "string \<Rightarrow> 'v MemorySource \<Rightarrow> 'v MemorySource" where
  "MemorySource_Delete key s = gm_del key s"

definition MemorySource_Lookup :: "string \<Rightarrow> 'v MemorySource \<Rightarrow> 'v flag option result" where
  "MemorySource_Lookup key s = Inr (gm_get s key)"

definition memory_source :: "('v, 'v MemorySource) flag_source" where
  "memory_source = \<lparr>so_Lookup = MemorySource_Lookup\<rparr>"

definition NewMemorySourceWithFlags :: "'v flag list \<Rightarrow> 'v MemorySource" where
  "NewMemorySourceWithFlags flags = fold MemorySource_Set flags []"

text \<open>
  \<open>envify\<close> on the bytes of a key: a rune outside ASCII becomes one underscore, written for its first byte, so
  that the continuation bytes of a valid encoding are skipped.
\<close>

definition envify_byte :: "nat \<Rightarrow> nat list" where
  "envify_byte n =
     (if n \<in> {97..122} then [n - 32] else if n \<in> {65..90} \<union> {48..57} then [n] else if n \<in> {128..191} then [] else [95])"

definition envify :: "string \<Rightarrow> string" where
  "envify key = map char_of (concat (map envify_byte (map of_char key)))"

definition parseBool :: "string \<Rightarrow> bool" where
  "parseBool v \<longleftrightarrow> ToLower (TrimSpace v) \<in> {''1'', ''true'', ''yes'', ''on''}"

definition env_prefix :: "string \<Rightarrow> string" where
  "env_prefix prefix = (if prefix \<noteq> [] then prefix else ''FEATURE_FLAGS_'')"

text \<open>The state of the source is the environment.\<close>

definition EnvSource_Lookup :: "string \<Rightarrow> string \<Rightarrow> (string \<Rightarrow> string option) \<Rightarrow> 'v flag option result" where
  "EnvSource_Lookup prefix key env =
     Inr (map_option (\<lambda>v. \<lparr>fl_Key = key, fl_Enabled = parseBool v, fl_Variants = None, fl_Default = [],
                          fl_Rollout = None, fl_Overrides = []\<rparr>)
            (env (env_prefix prefix @ envify key)))"

section \<open>Which override decides\<close>

lemma mem_override_match_list:
  "(sp, i, v) \<in> set (override_match_list flag e) \<longleftrightarrow>
   i < length (fl_Overrides flag) \<and> override_matches (fl_Overrides flag ! i) e \<and>
   sp = specificity (fl_Overrides flag ! i) \<and> v = ov_Value (fl_Overrides flag ! i)"
  by (force simp: override_match_list_def in_set_enumerate_eq)

text \<open>\<open>k\<close> is the index of the deciding override: it matches, and no match is more specific or as specific and earlier.\<close>

definition decides :: "'v flag \<Rightarrow> eval \<Rightarrow> nat \<Rightarrow> bool" where
  "decides flag e k \<longleftrightarrow> k < length (fl_Overrides flag) \<and> override_matches (fl_Overrides flag ! k) e \<and>
     (\<forall>j < length (fl_Overrides flag). override_matches (fl_Overrides flag ! j) e \<longrightarrow>
        specificity (fl_Overrides flag ! j) < specificity (fl_Overrides flag ! k) \<or>
        specificity (fl_Overrides flag ! j) = specificity (fl_Overrides flag ! k) \<and> k \<le> j)"

lemma decides_unique: "decides flag e j \<Longrightarrow> decides flag e k \<Longrightarrow> j = k"
  unfolding decides_def by (metis antisym less_asym less_irrefl)

lemma bestOverride_None: "bestOverride flag e = None \<longleftrightarrow> (\<forall>o'\<in>set (fl_Overrides flag). \<not> override_matches o' e)"
proof -
  have "bestOverride flag e = None \<longleftrightarrow> sort_key (\<lambda>(spec, idx, val). (- spec, int idx)) (override_match_list flag e) = []"
    by (auto simp: bestOverride_def split: list.splits)
  also have "\<dots> \<longleftrightarrow> override_match_list flag e = []" by (metis set_empty set_sort)
  also have "\<dots> \<longleftrightarrow> (\<forall>x. x \<notin> set (override_match_list flag e))" by (metis equals0I set_empty empty_iff)
  also have "\<dots> \<longleftrightarrow> (\<forall>o'\<in>set (fl_Overrides flag). \<not> override_matches o' e)"
    unfolding split_paired_All mem_override_match_list all_set_conv_all_nth by blast
  finally show ?thesis .
qed

lemma bestOverride_Some:
  "bestOverride flag e = Some v \<longleftrightarrow> (\<exists>k. decides flag e k \<and> v = ov_Value (fl_Overrides flag ! k))"
proof -
  define key where "key = (\<lambda>(spec :: int, idx :: nat, val :: override_value). (- spec, int idx))"
  have fwd: "\<exists>k. decides flag e k \<and> v = ov_Value (fl_Overrides flag ! k)" if b: "bestOverride flag e = Some v" for v
  proof -
    have ne: "override_match_list flag e \<noteq> []" using b by (auto simp: bestOverride_def)
    obtain sp k v' where h: "hd (sort_key key (override_match_list flag e)) = (sp, k, v')" by (cases rule: prod_cases3)
    have v: "v' = v" using b h by (auto simp: bestOverride_def key_def split: list.splits)
    have m: "(sp, k, v) \<in> set (override_match_list flag e)" using hd_sort_key_in [OF ne, of key] h v by simp
    have "key (sp, k, v) \<le> key x" if "x \<in> set (override_match_list flag e)" for x
      using hd_sort_key_le [OF that, of key] h v by simp
    then have "decides flag e k" using m
      by (fastforce simp: decides_def mem_override_match_list key_def less_eq_prod_def)
    with m show ?thesis by (auto simp: mem_override_match_list)
  qed
  show ?thesis
  proof
    assume "\<exists>k. decides flag e k \<and> v = ov_Value (fl_Overrides flag ! k)"
    then obtain k where k: "decides flag e k" "v = ov_Value (fl_Overrides flag ! k)" by blast
    then have "bestOverride flag e \<noteq> None" by (auto simp: bestOverride_None decides_def)
    then obtain w where w: "bestOverride flag e = Some w" by blast
    from fwd [OF w] k decides_unique [of flag e] show "bestOverride flag e = Some v" by (metis w)
  qed (rule fwd)
qed

section \<open>Rollouts\<close>

lemma rollout_bucket_bounds: "0 \<le> rollout_bucket sha256 i salt" "rollout_bucket sha256 i salt < 100"
  by (simp_all add: rollout_bucket_def)

lemma inRollout_iff: "inRollout sha256 i salt p \<longleftrightarrow> rollout_bucket sha256 i salt < p"
  using rollout_bucket_bounds [of sha256 i salt] by (auto simp: inRollout_def)

section \<open>The source interface\<close>

text \<open>A writable source: what was set is looked up, what was deleted is not, other keys are left alone.\<close>

locale writable_source =
  fixes src :: "('v, 's) flag_source" and set_flag :: "'v flag \<Rightarrow> 's \<Rightarrow> 's" and delete_flag :: "string \<Rightarrow> 's \<Rightarrow> 's"
  assumes lookup_set: "so_Lookup src key (set_flag f s) = (if key = fl_Key f then Inr (Some f) else so_Lookup src key s)"
    and lookup_delete: "so_Lookup src key (delete_flag key' s) = (if key = key' then Inr None else so_Lookup src key s)"
begin

lemma client_lookup_set: "client_lookup src (fl_Key f) (set_flag f s) = (Inr (Some f), [])"
  by (simp add: client_lookup_def lookup_set)

lemma IsEnabled_set: "IsEnabled sha256 src (fl_Key f) e (set_flag f s) = (evaluateBool sha256 f e, [])"
  by (simp add: IsEnabled_def client_lookup_set)

lemma Variant_set:
  "Variant sha256 src (fl_Key f) e (set_flag f s) =
     (if \<not> fl_Enabled f then None
      else (case fl_Variants f of
              None \<Rightarrow> None
            | Some vs \<Rightarrow> (case evaluateVariant sha256 f vs e of None \<Rightarrow> None | Some name \<Rightarrow> map_option (Pair name) (gm_get vs name))), [])"
  by (auto simp: Variant_def client_lookup_set split: option.splits)

lemma deleted_off:
  "IsEnabled sha256 src key e (delete_flag key s) = (False, [])" "Variant sha256 src key e (delete_flag key s) = (None, [])"
  by (simp_all add: IsEnabled_def Variant_def client_lookup_def lookup_delete)

lemma other_key_untouched:
  assumes "key \<noteq> fl_Key f"
  shows "IsEnabled sha256 src key e (set_flag f s) = IsEnabled sha256 src key e s"
    and "Variant sha256 src key e (set_flag f s) = Variant sha256 src key e s"
  using assms by (simp_all add: IsEnabled_def Variant_def client_lookup_def lookup_set)

end

interpretation memflags: writable_source memory_source MemorySource_Set MemorySource_Delete
  by unfold_locales
    (auto simp: memory_source_def MemorySource_Lookup_def MemorySource_Set_def MemorySource_Delete_def)

section \<open>The properties\<close>

text \<open>A variant flag whose default and overrides name variants it has.\<close>

definition well_formed :: "'v flag \<Rightarrow> (string, 'v) gomap \<Rightarrow> bool" where
  "well_formed f vs \<longleftrightarrow> fl_Variants f = Some vs \<and> fl_Default f \<noteq> [] \<and> gm_get vs (fl_Default f) \<noteq> None \<and>
     (\<forall>o'\<in>set (fl_Overrides f). \<exists>name. ov_Value o' = OString name \<and> gm_get vs name \<noteq> None)"

lemma variant_agrees:
  assumes "well_formed f vs" and "fl_Enabled f"
  shows "evaluateBool sha256 f e \<longleftrightarrow> evaluateVariant sha256 f vs e = Some (fl_Default f)"
    and "evaluateVariant sha256 f vs e = Some name \<Longrightarrow>
      gm_get vs name \<noteq> None \<and> (name = fl_Default f \<or> (\<exists>k. decides f e k \<and> ov_Value (fl_Overrides f ! k) = OString name))"
proof -
  have wf: "fl_Variants f = Some vs" "fl_Default f \<noteq> []" "gm_get vs (fl_Default f) \<noteq> None" using assms(1) by (simp_all add: well_formed_def)
  have best: "\<exists>n. v = OString n \<and> gm_get vs n \<noteq> None \<and> (\<exists>k. decides f e k \<and> ov_Value (fl_Overrides f ! k) = OString n)"
    if b: "bestOverride f e = Some v" for v
  proof -
    obtain k where k: "decides f e k" "v = ov_Value (fl_Overrides f ! k)" using b bestOverride_Some by metis
    then have "fl_Overrides f ! k \<in> set (fl_Overrides f)" by (simp add: decides_def)
    then show ?thesis using k assms(1) unfolding well_formed_def by metis
  qed
  show "evaluateBool sha256 f e \<longleftrightarrow> evaluateVariant sha256 f vs e = Some (fl_Default f)"
    using best wf assms(2)
    by (cases "bestOverride f e")
      (auto simp: evaluateBool_def evaluateVariant_def variant_fallback_def overrideToBool_def split: option.splits)
  show "gm_get vs name \<noteq> None \<and> (name = fl_Default f \<or> (\<exists>k. decides f e k \<and> ov_Value (fl_Overrides f ! k) = OString name))"
    if "evaluateVariant sha256 f vs e = Some name"
    using that best wf
    by (cases "bestOverride f e") (auto simp: evaluateVariant_def variant_fallback_def split: option.splits if_splits)
qed

text \<open>What a caller reads of a flag after it was set.\<close>

definition flag_on :: "(string \<Rightarrow> string) \<Rightarrow> 'v MemorySource \<Rightarrow> eval \<Rightarrow> 'v flag \<Rightarrow> bool" where
  "flag_on sha256 s e f = fst (IsEnabled sha256 memory_source (fl_Key f) e (MemorySource_Set f s))"

definition flag_variant :: "(string \<Rightarrow> string) \<Rightarrow> 'v MemorySource \<Rightarrow> eval \<Rightarrow> 'v flag \<Rightarrow> (string \<times> 'v) option" where
  "flag_variant sha256 s e f = fst (Variant sha256 memory_source (fl_Key f) e (MemorySource_Set f s))"


definition demo_flag :: "nat flag" where
  "demo_flag = \<lparr>fl_Key = ''layout'', fl_Enabled = True, fl_Variants = Some [(''a'', 1), (''b'', 2)], fl_Default = ''a'',
     fl_Rollout = None,
     fl_Overrides =
       [\<lparr>ov_TenantID = ''t'', ov_HouseholdID = [], ov_SubjectID = [], ov_Environment = [], ov_Value = OString ''a''\<rparr>,
        \<lparr>ov_TenantID = [], ov_HouseholdID = [], ov_SubjectID = ''u'', ov_Environment = [], ov_Value = OString ''b''\<rparr>]\<rparr>"

definition demo_eval :: eval where
  "demo_eval = \<lparr>ev_SubjectID = ''u'', ev_HouseholdID = [], ev_TenantID = ''t'', ev_Environment = []\<rparr>"


text \<open>
  The deciding override need not be the first that matches, and on a variant flag with an override that is
  not a string the two readings disagree.
\<close>

lemma later_override_wins: "\<not> decides demo_flag demo_eval 0 \<and> decides demo_flag demo_eval 1"
  by (auto simp: decides_def demo_flag_def demo_eval_def override_matches_def specificity_def less_Suc_eq)

lemma nonstring_override_disagrees:
  defines "f \<equiv> demo_flag\<lparr>fl_Overrides :=
    [\<lparr>ov_TenantID = ''t'', ov_HouseholdID = [], ov_SubjectID = [], ov_Environment = [], ov_Value = OBool True\<rparr>]\<rparr>"
  shows "\<not> flag_on sha256 [] demo_eval f \<and> flag_variant sha256 [] demo_eval f = Some (''a'', 1)"
  unfolding flag_on_def flag_variant_def memflags.IsEnabled_set memflags.Variant_set f_def
  by (simp add: evaluateBool_def evaluateVariant_def
      variant_fallback_def bestOverride_def override_match_list_def overrideToBool_def override_matches_def demo_flag_def
      demo_eval_def gm_get_def)

end
