(* ===== verification/Rpauth.thy ===== *)
theory Rpauth
  imports Go_Strings
begin

text \<open>
  Relying-party authentication, \<^verbatim>\<open>src/platform/rpauth\<close>: the bounded cache keyed by hashed secrets, token
  introspection, the HTTP gates and the revalidation of long-lived connections.

  Clock readings are arguments. What the authority sends back is one value: a failure before, during or after
  the exchange, or a status, the \<^verbatim>\<open>Cache-Control\<close> header and the decoded body. SHA-256, the loader of principals
  and the random jitter are arguments as well. A request is what the extractors read of it. Comparison without
  regard to case is on ASCII.
\<close>

section \<open>The cache\<close>

text \<open>
  The Go cache holds a map from keys to list elements and the list of elements from the most to the least
  recently used. An element carries its key, so the list here is the list of keys and the map holds the rest.
\<close>

record 'v lru_entry =
  le_value :: 'v
  le_expiresAt :: go_time

record 'v lru =
  lr_entries :: "(string, 'v lru_entry) gomap"
  lr_lru :: "string list"
  lr_maxSize :: int

definition NewCache :: "int \<Rightarrow> 'v lru" where
  "NewCache maxSize = \<lparr>lr_entries = [], lr_lru = [], lr_maxSize = (if maxSize \<le> 0 then 1 else maxSize)\<rparr>"

definition hashKey :: "(string \<Rightarrow> string) \<Rightarrow> string \<Rightarrow> string" where
  "hashKey sha256 secret = hex_encode (sha256 secret)"

definition MoveToFront :: "string \<Rightarrow> string list \<Rightarrow> string list" where
  "MoveToFront k l = k # remove1 k l"

definition Cache_Get :: "(string \<Rightarrow> string) \<Rightarrow> go_time \<Rightarrow> string \<Rightarrow> 'v lru \<Rightarrow> 'v option \<times> 'v lru" where
  "Cache_Get sha256 now secret c =
     (let key = hashKey sha256 secret
      in case gm_get (lr_entries c) key of
           None \<Rightarrow> (None, c)
         | Some entry \<Rightarrow>
             if \<not> now < le_expiresAt entry
             then (None, c\<lparr>lr_lru := remove1 key (lr_lru c), lr_entries := gm_del key (lr_entries c)\<rparr>)
             else (Some (le_value entry), c\<lparr>lr_lru := MoveToFront key (lr_lru c)\<rparr>))"

text \<open>The eviction loop, on the keys from the back of the list.\<close>

fun evict :: "int \<Rightarrow> string list \<Rightarrow> (string, 'v lru_entry) gomap \<Rightarrow> string list \<times> (string, 'v lru_entry) gomap" where
  "evict maxSize [] es = ([], es)"
| "evict maxSize (oldest # ks) es =
     (if int (length (oldest # ks)) > maxSize then evict maxSize ks (gm_del oldest es) else (oldest # ks, es))"

definition Cache_Put :: "(string \<Rightarrow> string) \<Rightarrow> go_time \<Rightarrow> string \<Rightarrow> 'v \<Rightarrow> duration \<Rightarrow> 'v lru \<Rightarrow> 'v lru" where
  "Cache_Put sha256 now secret v ttl c =
     (if ttl \<le> 0 then c
      else
        let key = hashKey sha256 secret;
            entry = \<lparr>le_value = v, le_expiresAt = now + ttl\<rparr>
        in case gm_get (lr_entries c) key of
             Some _ \<Rightarrow> c\<lparr>lr_entries := gm_put key entry (lr_entries c), lr_lru := MoveToFront key (lr_lru c)\<rparr>
           | None \<Rightarrow>
               let (ks, es) = evict (lr_maxSize c) (rev (key # lr_lru c)) (gm_put key entry (lr_entries c))
               in c\<lparr>lr_entries := es, lr_lru := rev ks\<rparr>)"

definition Cache_Invalidate :: "(string \<Rightarrow> string) \<Rightarrow> string \<Rightarrow> 'v lru \<Rightarrow> 'v lru" where
  "Cache_Invalidate sha256 secret c =
     (let key = hashKey sha256 secret
      in case gm_get (lr_entries c) key of
           Some _ \<Rightarrow> c\<lparr>lr_lru := remove1 key (lr_lru c), lr_entries := gm_del key (lr_entries c)\<rparr>
         | None \<Rightarrow> c)"

definition Cache_Len :: "'v lru \<Rightarrow> int" where
  "Cache_Len c = int (length (lr_lru c))"

section \<open>Introspection\<close>

definition ErrInactive :: go_error where "ErrInactive = ErrVar ''rpauth: token is not active''"
definition ErrUnavailable :: go_error where "ErrUnavailable = ErrVar ''rpauth: introspection unavailable''"

definition DefaultMaxTTL :: duration where "DefaultMaxTTL = 60 * second"

record rp_identity =
  ri_Subject :: string
  ri_TenantSlug :: string
  ri_Scopes :: "string list"
  ri_ExpiresAt :: go_time

record introspect_response =
  ir_Active :: bool
  ir_Sub :: string
  ir_Tnt :: string
  ir_Scope :: string
  ir_Exp :: int
  ir_TokenType :: string

datatype introspect_answer =
    NoRequest string
  | NoResponse string
  | NoBody string
  | Answered int string "introspect_response option"

text \<open>\<^verbatim>\<open>time.Unix\<close> adds the seconds between Go's zero time and the Unix epoch in 64 bits; \<^verbatim>\<open>Time.Sub\<close> saturates.\<close>

definition time_Unix :: "int \<Rightarrow> go_time" where
  "time_Unix sec = wrap64 (sec + 62135596800) * second"

definition time_Sub :: "go_time \<Rightarrow> go_time \<Rightarrow> duration" where
  "time_Sub t u = min (2 ^ 63 - 1) (max (- (2 ^ 63)) (t - u))"

definition max_age_of :: "string \<Rightarrow> duration option" where
  "max_age_of part0 =
     (let part = TrimSpace part0
      in if \<not> HasPrefix (ToLower part) ''max-age='' then None
         else (case Atoi (drop (length ''max-age='') part) of
                 None \<Rightarrow> Some 0
               | Some n \<Rightarrow> if n < 0 then Some 0 else Some (wrap64 (n * second))))"

fun first_max_age :: "string list \<Rightarrow> duration" where
  "first_max_age [] = 0"
| "first_max_age (part # parts) = (case max_age_of part of None \<Rightarrow> first_max_age parts | Some d \<Rightarrow> d)"

definition parseMaxAge :: "string \<Rightarrow> duration" where
  "parseMaxAge cc = (if cc = [] then 0 else first_max_age (Split cc CHR '',''))"

definition computeTTL :: "duration \<Rightarrow> go_time \<Rightarrow> string \<Rightarrow> int \<Rightarrow> duration" where
  "computeTTL maxTTL now cacheControl tokenExp =
     (let best = maxTTL;
          maxAge = parseMaxAge cacheControl;
          best = (if maxAge > 0 \<and> maxAge < best then maxAge else best);
          best = (if tokenExp > 0
                  then (let remaining = time_Sub (time_Unix tokenExp) now in if remaining < best then remaining else best)
                  else best)
      in if best < 0 then 0 else best)"

definition rpauth_splitScopes :: "string \<Rightarrow> string list" where
  "rpauth_splitScopes scope = (if TrimSpace scope = [] then [] else Fields scope)"

record rp_introspector =
  it_endpoint :: string
  it_cache :: "rp_identity lru option"
  it_maxTTL :: duration

definition NewIntrospector :: "string \<Rightarrow> bool \<Rightarrow> rp_identity lru option \<Rightarrow> duration \<Rightarrow> rp_introspector result" where
  "NewIntrospector endpoint has_client cache cfgMaxTTL =
     (if TrimSpace endpoint = [] then Inl (ErrMsg ''rpauth: Endpoint is required'')
      else if \<not> has_client then Inl (ErrMsg ''rpauth: Client is required (it carries the mTLS identity)'')
      else Inr \<lparr>it_endpoint = endpoint, it_cache = cache,
                it_maxTTL = (if cfgMaxTTL \<le> 0 then DefaultMaxTTL else cfgMaxTTL)\<rparr>)"

definition RevalidationInterval :: "rp_introspector \<Rightarrow> duration" where
  "RevalidationInterval i = it_maxTTL i"

definition Introspector_Invalidate :: "(string \<Rightarrow> string) \<Rightarrow> string \<Rightarrow> rp_identity lru option \<Rightarrow> rp_identity lru option" where
  "Introspector_Invalidate sha256 rawToken cache = map_option (Cache_Invalidate sha256 rawToken) cache"

text \<open>
  \<^verbatim>\<open>validate\<close> runs without a lock between its calls of the cache: first it looks the token up, then it asks the
  authority, then it works off the answer. The two parts on this side are separate, so that runs may interleave
  them. A lookup that does not settle the matter has no result.
\<close>

definition validate_lookup ::
  "(string \<Rightarrow> string) \<Rightarrow> bool \<Rightarrow> string \<Rightarrow> go_time \<Rightarrow> rp_identity lru option \<Rightarrow> rp_identity result option \<times> rp_identity lru option" where
  "validate_lookup sha256 useCache rawToken now cache =
     (if TrimSpace rawToken = [] then (Some (Inl ErrInactive), cache)
      else (case cache of
              Some c \<Rightarrow>
                if useCache
                then (case Cache_Get sha256 now rawToken c of
                        (Some cached, c') \<Rightarrow> (Some (Inr cached), Some c')
                      | (None, c') \<Rightarrow> (None, Some c'))
                else (None, cache)
            | None \<Rightarrow> (None, cache)))"

definition response_identity :: "introspect_response \<Rightarrow> rp_identity" where
  "response_identity out =
     \<lparr>ri_Subject = ir_Sub out, ri_TenantSlug = ir_Tnt out, ri_Scopes = rpauth_splitScopes (ir_Scope out),
      ri_ExpiresAt = (if ir_Exp out > 0 then time_Unix (ir_Exp out) else 0)\<rparr>"

definition validate_answer ::
  "(string \<Rightarrow> string) \<Rightarrow> duration \<Rightarrow> string \<Rightarrow> introspect_answer \<Rightarrow> go_time \<Rightarrow> go_time \<Rightarrow> rp_identity lru option \<Rightarrow>
   rp_identity result \<times> rp_identity lru option" where
  "validate_answer sha256 maxTTL rawToken answer now nowPut cache =
     (case answer of
        NoRequest err \<Rightarrow> (Inl (ErrWrap [] ErrUnavailable ('': building request: '' @ err)), cache)
      | NoResponse err \<Rightarrow> (Inl (ErrWrap [] ErrUnavailable ('': '' @ err)), cache)
      | NoBody err \<Rightarrow> (Inl (ErrWrap [] ErrUnavailable ('': reading response: '' @ err)), cache)
      | Answered status cacheControl body \<Rightarrow>
          if status < 200 \<or> status \<ge> 300
          then (Inl (ErrWrap [] ErrUnavailable ('': authority returned HTTP '' @ show_int status)), cache)
          else (case body of
                  None \<Rightarrow> (Inl (ErrWrap [] ErrUnavailable '': unparseable response''), cache)
                | Some out \<Rightarrow>
                    if \<not> ir_Active out then (Inl ErrInactive, Introspector_Invalidate sha256 rawToken cache)
                    else if ToLower (ir_TokenType out) = ''refresh_token''
                    then (Inl (ErrWrap [] ErrInactive '': refresh token presented as a bearer credential''),
                          Introspector_Invalidate sha256 rawToken cache)
                    else
                      let identity = response_identity out;
                          ttl = computeTTL maxTTL now cacheControl (ir_Exp out)
                      in (Inr identity,
                          map_option (\<lambda>c. if ttl > 0 then Cache_Put sha256 nowPut rawToken identity ttl c else c) cache)))"

text \<open>One undisturbed validation, with the clock readings in the order they are taken.\<close>

record exchange =
  xc_lookupAt :: go_time
  xc_answer :: introspect_answer
  xc_ttlAt :: go_time
  xc_putAt :: go_time

definition validate ::
  "(string \<Rightarrow> string) \<Rightarrow> duration \<Rightarrow> bool \<Rightarrow> string \<Rightarrow> exchange \<Rightarrow> rp_identity lru option \<Rightarrow> rp_identity result \<times> rp_identity lru option" where
  "validate sha256 maxTTL useCache rawToken x cache =
     (case validate_lookup sha256 useCache rawToken (xc_lookupAt x) cache of
        (Some r, cache') \<Rightarrow> (r, cache')
      | (None, cache') \<Rightarrow> validate_answer sha256 maxTTL rawToken (xc_answer x) (xc_ttlAt x) (xc_putAt x) cache')"

abbreviation Validate :: "(string \<Rightarrow> string) \<Rightarrow> duration \<Rightarrow> string \<Rightarrow> exchange \<Rightarrow> rp_identity lru option \<Rightarrow> rp_identity result \<times> rp_identity lru option" where
  "Validate sha256 maxTTL \<equiv> validate sha256 maxTTL True"

abbreviation ValidateUncached :: "(string \<Rightarrow> string) \<Rightarrow> duration \<Rightarrow> string \<Rightarrow> exchange \<Rightarrow> rp_identity lru option \<Rightarrow> rp_identity result \<times> rp_identity lru option" where
  "ValidateUncached sha256 maxTTL \<equiv> validate sha256 maxTTL False"

section \<open>HTTP gates\<close>

record rp_request =
  rr_Method :: string
  rr_Authorization :: string
  rr_Cookies :: "(string, string) gomap"

type_synonym token_extractor = "rp_request \<Rightarrow> string"

definition BearerToken :: token_extractor where
  "BearerToken r =
     (let prefix = ''Bearer ''; h = rr_Authorization r
      in if length h < length prefix \<or> ToLower (take (length prefix) h) \<noteq> ToLower prefix then []
         else TrimSpace (drop (length prefix) h))"

definition CookieToken :: "string \<Rightarrow> token_extractor" where
  "CookieToken name r = (case gm_get (rr_Cookies r) name of None \<Rightarrow> [] | Some v \<Rightarrow> TrimSpace v)"

fun FirstToken :: "token_extractor list \<Rightarrow> token_extractor" where
  "FirstToken [] r = []"
| "FirstToken (ex # exs) r = (if ex r \<noteq> [] then ex r else FirstToken exs r)"

definition Excluding :: "token_extractor \<Rightarrow> (string \<Rightarrow> bool) \<Rightarrow> token_extractor" where
  "Excluding inner skip r = (if inner r = [] \<or> skip (inner r) then [] else inner r)"

datatype rp_outcome =
  OutcomeAnonymous | OutcomeAuthenticated | OutcomeRejected | OutcomeUnavailable | OutcomePrincipalError

primrec Outcome_String :: "rp_outcome \<Rightarrow> string" where
  "Outcome_String OutcomeAnonymous = ''anonymous''"
| "Outcome_String OutcomeAuthenticated = ''authenticated''"
| "Outcome_String OutcomeRejected = ''rejected''"
| "Outcome_String OutcomeUnavailable = ''unavailable''"
| "Outcome_String OutcomePrincipalError = ''principal_error''"

record 'p rp_result =
  rs_Outcome :: rp_outcome
  rs_Identity :: "rp_identity option"
  rs_Principal :: "'p option"
  rs_Err :: "go_error option"

definition authenticate ::
  "(string \<Rightarrow> string) \<Rightarrow> duration \<Rightarrow> token_extractor \<Rightarrow> (rp_identity \<Rightarrow> 'p result) \<Rightarrow> rp_request \<Rightarrow> exchange \<Rightarrow>
   rp_identity lru option \<Rightarrow> 'p rp_result \<times> rp_identity lru option" where
  "authenticate sha256 maxTTL extract load r x cache =
     (let token = extract r
      in if token = []
         then (\<lparr>rs_Outcome = OutcomeAnonymous, rs_Identity = None, rs_Principal = None, rs_Err = None\<rparr>, cache)
         else (case Validate sha256 maxTTL token x cache of
                 (Inl err, cache') \<Rightarrow>
                   (\<lparr>rs_Outcome = (if errors_is err ErrInactive then OutcomeRejected else OutcomeUnavailable),
                     rs_Identity = None, rs_Principal = None, rs_Err = Some err\<rparr>, cache')
               | (Inr identity, cache') \<Rightarrow>
                   (case load identity of
                      Inl err \<Rightarrow> (\<lparr>rs_Outcome = OutcomePrincipalError, rs_Identity = Some identity, rs_Principal = None,
                                  rs_Err = Some err\<rparr>, cache')
                    | Inr p \<Rightarrow> (\<lparr>rs_Outcome = OutcomeAuthenticated, rs_Identity = Some identity, rs_Principal = Some p,
                                rs_Err = None\<rparr>, cache'))))"

definition statusFor :: "rp_outcome \<Rightarrow> int" where
  "statusFor o' = (if o' = OutcomeUnavailable \<or> o' = OutcomePrincipalError then 503 else 401)"

definition DefaultErrorBody :: "int \<Rightarrow> string" where
  "DefaultErrorBody status = (if status = 503 then ''Authentication temporarily unavailable'' else ''Unauthorized'')"

text \<open>The two values a request's context holds for this package.\<close>

record 'p rp_context =
  cx_result :: "'p rp_result option"
  cx_identity :: "rp_identity option"

definition withResult :: "'p rp_context \<Rightarrow> 'p rp_result \<Rightarrow> 'p rp_context" where
  "withResult ctx res =
     (let ctx = ctx\<lparr>cx_result := Some res\<rparr>
      in if rs_Identity res \<noteq> None then ctx\<lparr>cx_identity := rs_Identity res\<rparr> else ctx)"

abbreviation ResultFrom :: "'p rp_context \<Rightarrow> 'p rp_result option" where
  "ResultFrom ctx \<equiv> cx_result ctx"

definition PrincipalFrom :: "'p rp_context \<Rightarrow> 'p option" where
  "PrincipalFrom ctx =
     (case cx_result ctx of None \<Rightarrow> None | Some res \<Rightarrow> if rs_Outcome res \<noteq> OutcomeAuthenticated then None else rs_Principal res)"

definition MustPrincipal :: "'p rp_context \<Rightarrow> 'p result" where
  "MustPrincipal ctx =
     (case PrincipalFrom ctx of
        None \<Rightarrow> Inl (ErrMsg ''rpauth: MustPrincipal called without Require middleware'')
      | Some p \<Rightarrow> Inr p)"

abbreviation IdentityFrom :: "'p rp_context \<Rightarrow> rp_identity option" where
  "IdentityFrom ctx \<equiv> cx_identity ctx"

text \<open>What a gate does: it passes the request on with a context, or denies it.\<close>

datatype 'p gate = Next "'p rp_context" | Denied int rp_outcome

definition Optional ::
  "(string \<Rightarrow> string) \<Rightarrow> duration \<Rightarrow> token_extractor \<Rightarrow> (rp_identity \<Rightarrow> 'p result) \<Rightarrow> rp_request \<Rightarrow> 'p rp_context \<Rightarrow> exchange \<Rightarrow>
   rp_identity lru option \<Rightarrow> 'p rp_context \<times> rp_identity lru option" where
  "Optional sha256 maxTTL extract load r ctx x cache =
     (if rr_Method r = ''OPTIONS'' then (ctx, cache)
      else (case authenticate sha256 maxTTL extract load r x cache of (res, cache') \<Rightarrow> (withResult ctx res, cache')))"

definition Require ::
  "(string \<Rightarrow> string) \<Rightarrow> duration \<Rightarrow> token_extractor \<Rightarrow> (rp_identity \<Rightarrow> 'p result) \<Rightarrow> rp_request \<Rightarrow> 'p rp_context \<Rightarrow> exchange \<Rightarrow>
   rp_identity lru option \<Rightarrow> 'p gate \<times> rp_identity lru option" where
  "Require sha256 maxTTL extract load r ctx x cache =
     (case Optional sha256 maxTTL extract load r ctx x cache of
        (ctx', cache') \<Rightarrow>
          (if rr_Method r = ''OPTIONS'' then Next ctx'
           else (case ResultFrom ctx' of
                   None \<Rightarrow> Denied (statusFor OutcomeAnonymous) OutcomeAnonymous
                 | Some res \<Rightarrow>
                     if rs_Outcome res \<noteq> OutcomeAuthenticated then Denied (statusFor (rs_Outcome res)) (rs_Outcome res)
                     else Next ctx'), cache'))"

text \<open>The closing gate of a chain; \<open>authenticated\<close> is what the service's own scheme says.\<close>

definition RequireAuthenticated :: "bool \<Rightarrow> rp_request \<Rightarrow> 'p rp_context \<Rightarrow> 'p gate" where
  "RequireAuthenticated authenticated r ctx =
     (if rr_Method r = ''OPTIONS'' then Next ctx
      else if authenticated then Next ctx
      else let outcome = (case ResultFrom ctx of None \<Rightarrow> OutcomeAnonymous | Some res \<Rightarrow> rs_Outcome res)
           in Denied (statusFor outcome) outcome)"

section \<open>Revalidation\<close>

datatype revalidation_status = RevalidationIndeterminate | RevalidationValid | RevalidationRevoked

primrec RevalidationStatus_String :: "revalidation_status \<Rightarrow> string" where
  "RevalidationStatus_String RevalidationIndeterminate = ''indeterminate''"
| "RevalidationStatus_String RevalidationValid = ''valid''"
| "RevalidationStatus_String RevalidationRevoked = ''revoked''"

record 'p revalidation_result =
  rv_Status :: revalidation_status
  rv_Identity :: "rp_identity option"
  rv_Principal :: "'p option"
  rv_Err :: "go_error option"
  rv_CheckedAt :: go_time

definition ShouldDisconnect :: "'p revalidation_result \<Rightarrow> bool" where
  "ShouldDisconnect r \<longleftrightarrow> rv_Status r = RevalidationRevoked"

text \<open>\<open>fmt\<close> prints a time in RFC 3339.\<close>

definition Revalidate ::
  "(string \<Rightarrow> string) \<Rightarrow> duration \<Rightarrow> (go_time \<Rightarrow> string) \<Rightarrow> (rp_identity \<Rightarrow> 'p result) \<Rightarrow> string \<Rightarrow> go_time \<Rightarrow> exchange \<Rightarrow>
   rp_identity lru option \<Rightarrow> 'p revalidation_result \<times> rp_identity lru option" where
  "Revalidate sha256 maxTTL fmt load rawToken checkedAt x cache =
     (let res = \<lparr>rv_Status = RevalidationIndeterminate, rv_Identity = None, rv_Principal = None, rv_Err = None,
                 rv_CheckedAt = checkedAt\<rparr>
      in case ValidateUncached sha256 maxTTL rawToken x cache of
           (Inl err, cache') \<Rightarrow>
             (if errors_is err ErrInactive then (res\<lparr>rv_Status := RevalidationRevoked, rv_Err := Some err\<rparr>, cache')
              else (res\<lparr>rv_Err := Some err\<rparr>, cache'))
         | (Inr identity, cache') \<Rightarrow>
             (if ri_ExpiresAt identity \<noteq> 0 \<and> \<not> checkedAt < ri_ExpiresAt identity
              then (res\<lparr>rv_Status := RevalidationRevoked, rv_Identity := Some identity,
                        rv_Err := Some (ErrWrap [] ErrInactive ('': token expired at '' @ fmt (ri_ExpiresAt identity)))\<rparr>,
                    Introspector_Invalidate sha256 rawToken cache')
              else (case load identity of
                      Inl err \<Rightarrow> (res\<lparr>rv_Identity := Some identity, rv_Err := Some err\<rparr>, cache')
                    | Inr p \<Rightarrow> (res\<lparr>rv_Status := RevalidationValid, rv_Identity := Some identity, rv_Principal := Some p\<rparr>, cache'))))"

text \<open>The interval of the loop, and the delay to the next check for a random number \<open>jitter\<close> below half of it.\<close>

definition loop_interval :: "duration \<Rightarrow> duration" where
  "loop_interval maxTTL = (if maxTTL \<le> 0 then DefaultMaxTTL else maxTTL)"

definition nextDelay :: "duration \<Rightarrow> duration \<Rightarrow> duration" where
  "nextDelay interval jitter =
     (let half = go_div interval 2 in if half \<le> 0 then interval else half + jitter)"

text \<open>
  The loop over the firings of its timer; the list ends when the context is cancelled. A firing comes with
  what the check meets: clock, exchange, loader, whether the callback wants to go on, and the random number drawn
  for the next delay. The result lists what the callback was given and how the timer was reset after it.
\<close>

record 'p firing =
  fi_checkedAt :: go_time
  fi_exchange :: exchange
  fi_load :: "rp_identity \<Rightarrow> 'p result"
  fi_keepGoing :: bool
  fi_jitter :: duration

fun RevalidateLoop ::
  "(string \<Rightarrow> string) \<Rightarrow> duration \<Rightarrow> (go_time \<Rightarrow> string) \<Rightarrow> string \<Rightarrow> 'p firing list \<Rightarrow> rp_identity lru option \<Rightarrow>
   ('p revalidation_result \<times> duration option) list \<times> rp_identity lru option" where
  "RevalidateLoop sha256 maxTTL fmt rawToken [] cache = ([], cache)"
| "RevalidateLoop sha256 maxTTL fmt rawToken (f # fs) cache =
     (case Revalidate sha256 maxTTL fmt (fi_load f) rawToken (fi_checkedAt f) (fi_exchange f) cache of
        (res, cache') \<Rightarrow>
          if rv_Status res = RevalidationRevoked \<or> \<not> fi_keepGoing f then ([(res, None)], cache')
          else (case RevalidateLoop sha256 maxTTL fmt rawToken fs cache' of
                  (rs, cache'') \<Rightarrow> ((res, Some (nextDelay (loop_interval maxTTL) (fi_jitter f))) # rs, cache'')))"

end
