(* ===== verification/Expiring_Cache.thy ===== *)
theory Expiring_Cache
  imports Go_Prelude
begin

text \<open>
  The contract shared by the caches with expiring entries: \<^verbatim>\<open>src/platform/rpauth/cache.go\<close> and
  \<^verbatim>\<open>src/platform/entitlements/cache.go\<close>. The two differ in how keys are stored, when an entry counts as
  expired, and what may be dropped early; the contract names these differences as parameters. The client's lemma
  is proved once: whatever a lookup serves was stored under the same slot, is still live, and neither was
  overwritten nor dropped since.
\<close>

datatype ('k, 'v, 'd) cache_event =
    Got go_time 'k
  | Stored go_time 'k 'v duration
  | Forgot 'd

primrec cache_step ::
  "(go_time \<Rightarrow> 'k \<Rightarrow> 'c \<Rightarrow> 'v option \<times> 'c) \<Rightarrow> (go_time \<Rightarrow> 'k \<Rightarrow> 'v \<Rightarrow> duration \<Rightarrow> 'c \<Rightarrow> 'c) \<Rightarrow> ('d \<Rightarrow> 'c \<Rightarrow> 'c) \<Rightarrow>
   ('k, 'v, 'd) cache_event \<Rightarrow> 'c \<Rightarrow> 'c" where
  "cache_step get put forget (Got now k) c = snd (get now k c)"
| "cache_step get put forget (Stored now k v ttl) c = put now k v ttl c"
| "cache_step get put forget (Forgot d) c = forget d c"

definition cache_run ::
  "(go_time \<Rightarrow> 'k \<Rightarrow> 'c \<Rightarrow> 'v option \<times> 'c) \<Rightarrow> (go_time \<Rightarrow> 'k \<Rightarrow> 'v \<Rightarrow> duration \<Rightarrow> 'c \<Rightarrow> 'c) \<Rightarrow> ('d \<Rightarrow> 'c \<Rightarrow> 'c) \<Rightarrow>
   ('k, 'v, 'd) cache_event list \<Rightarrow> 'c \<Rightarrow> 'c" where
  "cache_run get put forget evs c = fold (cache_step get put forget) evs c"

lemma cache_run_simps [simp]:
  "cache_run get put forget [] c = c"
  "cache_run get put forget (evs @ [e]) c = cache_step get put forget e (cache_run get put forget evs c)"
  by (simp_all add: cache_run_def)

lemma cache_run_append:
  "cache_run get put forget (xs @ ys) c = cache_run get put forget ys (cache_run get put forget xs c)"
  by (simp add: cache_run_def)

text \<open>An event that ends the life of what a slot held before it.\<close>

primrec overwrites :: "('k \<Rightarrow> 's) \<Rightarrow> ('d \<Rightarrow> 's \<Rightarrow> bool) \<Rightarrow> 's \<Rightarrow> ('k, 'v, 'd) cache_event \<Rightarrow> bool" where
  "overwrites slot forgets s (Got now k) \<longleftrightarrow> False"
| "overwrites slot forgets s (Stored now k v ttl) \<longleftrightarrow> slot k = s \<and> 0 < ttl"
| "overwrites slot forgets s (Forgot d) \<longleftrightarrow> forgets d s"

locale expiring_cache =
  fixes slot :: "'k \<Rightarrow> 's"
    and live :: "go_time \<Rightarrow> go_time \<Rightarrow> bool"
    and forgets :: "'d \<Rightarrow> 's \<Rightarrow> bool"
    and held :: "'c \<Rightarrow> 's \<Rightarrow> ('v \<times> go_time) option"
    and good :: "'c \<Rightarrow> bool"
    and start :: 'c
    and get :: "go_time \<Rightarrow> 'k \<Rightarrow> 'c \<Rightarrow> 'v option \<times> 'c"
    and put :: "go_time \<Rightarrow> 'k \<Rightarrow> 'v \<Rightarrow> duration \<Rightarrow> 'c \<Rightarrow> 'c"
    and forget :: "'d \<Rightarrow> 'c \<Rightarrow> 'c"
  assumes start_good: "good start"
    and start_held: "held start s = None"
    and get_good: "good c \<Longrightarrow> good (snd (get now k c))"
    and put_good: "good c \<Longrightarrow> good (put now k v ttl c)"
    and forget_good: "good c \<Longrightarrow> good (forget d c)"
    and get_value: "good c \<Longrightarrow> fst (get now k c) = Some v \<longleftrightarrow> (\<exists>e. held c (slot k) = Some (v, e) \<and> live now e)"
    and get_keeps: "good c \<Longrightarrow> held (snd (get now k c)) s = Some x \<Longrightarrow> held c s = Some x"
    and put_own: "good c \<Longrightarrow> 0 < ttl \<Longrightarrow> held (put now k v ttl c) (slot k) = Some (v, now + ttl)"
    and put_keeps: "good c \<Longrightarrow> held (put now k v ttl c) s = Some x \<Longrightarrow>
                    held c s = Some x \<and> \<not> (slot k = s \<and> 0 < ttl) \<or> slot k = s \<and> x = (v, now + ttl)"
    and forget_keeps: "good c \<Longrightarrow> held (forget d c) s = Some x \<Longrightarrow> held c s = Some x \<and> \<not> forgets d s"
begin

lemma run_good: "good (cache_run get put forget evs start)"
proof (induction evs rule: rev_induct)
  case (snoc e evs)
  then show ?case by (cases e) (auto simp: get_good put_good forget_good)
qed (simp add: start_good)

lemma held_origin:
  assumes "held (cache_run get put forget evs start) s = Some (v, e)"
  shows "\<exists>pre t k ttl post. evs = pre @ Stored t k v ttl # post \<and> slot k = s \<and> e = t + ttl
           \<and> (\<forall>ev\<in>set post. \<not> overwrites slot forgets s ev)"
  using assms
proof (induction evs arbitrary: v e rule: rev_induct)
  case Nil
  then show ?case by (simp add: start_held)
next
  case (snoc ev evs)
  let ?c = "cache_run get put forget evs start"
  consider (old) "held ?c s = Some (v, e)" "\<not> overwrites slot forgets s ev"
    | (new) t k ttl where "ev = Stored t k v ttl" "slot k = s" "e = t + ttl"
    using snoc.prems get_keeps [OF run_good] put_keeps [OF run_good] forget_keeps [OF run_good]
    by (cases ev) fastforce+
  then show ?case
  proof cases
    case old
    then obtain pre t k ttl post where "evs = pre @ Stored t k v ttl # post" "slot k = s" "e = t + ttl"
      "\<forall>ev\<in>set post. \<not> overwrites slot forgets s ev"
      using snoc.IH by blast
    with old(2) have "evs @ [ev] = pre @ Stored t k v ttl # (post @ [ev])"
      "\<forall>ev\<in>set (post @ [ev]). \<not> overwrites slot forgets s ev" by auto
    then show ?thesis using \<open>slot k = s\<close> \<open>e = t + ttl\<close> by blast
  next
    case new
    then have "evs @ [ev] = evs @ Stored t k v ttl # []" by simp
    with new show ?thesis by fastforce
  qed
qed

lemma served_origin:
  assumes "fst (get now k (cache_run get put forget evs start)) = Some v"
  shows "\<exists>pre t k' ttl post. evs = pre @ Stored t k' v ttl # post \<and> slot k' = slot k \<and> live now (t + ttl)
           \<and> (\<forall>ev\<in>set post. \<not> overwrites slot forgets (slot k) ev)"
  using assms held_origin get_value [OF run_good] by fastforce

lemma served_member:
  assumes "fst (get now k (cache_run get put forget evs start)) = Some v"
  obtains t k' ttl where "Stored t k' v ttl \<in> set evs" "slot k' = slot k" "live now (t + ttl)"
  using served_origin [OF assms] by force

lemma forgotten_is_missed:
  assumes "forgets d (slot k)"
  shows "fst (get now k (forget d (cache_run get put forget evs start))) = None"
proof (rule ccontr)
  assume "fst (get now k (forget d (cache_run get put forget evs start))) \<noteq> None"
  then obtain v e where "held (forget d (cache_run get put forget evs start)) (slot k) = Some (v, e)"
    using get_value [OF forget_good [OF run_good]] by blast
  with forget_keeps [OF run_good] assms show False by blast
qed

lemma stored_is_served:
  assumes "0 < ttl" "live now (t + ttl)" "slot k' = slot k"
  shows "fst (get now k' (put t k v ttl (cache_run get put forget evs start))) = Some v"
  using assms put_own [OF run_good \<open>0 < ttl\<close>] get_value [OF put_good [OF run_good]] by metis

end

end
