(* ===== verification/Rpauth_Properties.thy ===== *)
theory Rpauth_Properties
  imports Rpauth Expiring_Cache
begin

text \<open>
  Properties of relying-party authentication. The cache refines a list of entries in order of use, cut off at
  its capacity, and meets the contract of expiring caches. From that contract follows how long a revoked token can
  still pass the HTTP gate; the loop over a long-lived connection has its own bound.
\<close>

section \<open>The cache refines a recency list\<close>

definition lru_ok :: "'v lru \<Rightarrow> bool" where
  "lru_ok c \<longleftrightarrow> distinct (lr_lru c) \<and> (\<forall>k. k \<in> set (lr_lru c) \<longleftrightarrow> gm_get (lr_entries c) k \<noteq> None)
     \<and> int (length (lr_lru c)) \<le> lr_maxSize c \<and> 1 \<le> lr_maxSize c"

text \<open>The specification: keys with value and expiry, the most recently used first.\<close>

type_synonym 'v recency = "(string \<times> 'v lru_entry) list"

definition recency :: "'v lru \<Rightarrow> 'v recency" where
  "recency c = map (\<lambda>k. (k, the (gm_get (lr_entries c) k))) (lr_lru c)"

definition rl_without :: "string \<Rightarrow> 'v recency \<Rightarrow> 'v recency" where
  "rl_without k l = filter (\<lambda>e. fst e \<noteq> k) l"

definition rl_get :: "go_time \<Rightarrow> string \<Rightarrow> 'v recency \<Rightarrow> 'v option \<times> 'v recency" where
  "rl_get now k l =
     (case map_of l k of
        None \<Rightarrow> (None, l)
      | Some e \<Rightarrow> if now < le_expiresAt e then (Some (le_value e), (k, e) # rl_without k l) else (None, rl_without k l))"

definition rl_put :: "nat \<Rightarrow> go_time \<Rightarrow> string \<Rightarrow> 'v \<Rightarrow> duration \<Rightarrow> 'v recency \<Rightarrow> 'v recency" where
  "rl_put n now k v ttl l =
     (if ttl \<le> 0 then l else take n ((k, \<lparr>le_value = v, le_expiresAt = now + ttl\<rparr>) # rl_without k l))"

lemma map_of_recency: "lru_ok c \<Longrightarrow> map_of (recency c) k = gm_get (lr_entries c) k"
  by (auto simp: recency_def lru_ok_def map_of_map_restrict restrict_map_def)

lemma recency_remove:
  "distinct l \<Longrightarrow>
   map (\<lambda>j. (j, the (gm_get es j))) (remove1 k l) = rl_without k (map (\<lambda>j. (j, the (gm_get es j))) l)"
  by (induction l) (auto simp: rl_without_def remove1_idem)

lemma recency_cong: "(\<And>k. k \<in> set l \<Longrightarrow> gm_get es k = gm_get es' k) \<Longrightarrow>
   map (\<lambda>j. (j, the (gm_get es j))) l = map (\<lambda>j. (j, the (gm_get es' j))) l"
  by simp

lemma evict_spec:
  assumes "0 \<le> m"
  shows "fst (evict m ks es) = drop (length ks - nat m) ks"
    and "gm_get (snd (evict m ks es)) k = (if k \<in> set (take (length ks - nat m) ks) then None else gm_get es k)"
proof -
  show "fst (evict m ks es) = drop (length ks - nat m) ks"
  proof (induction ks arbitrary: es)
    case (Cons a ks)
    show ?case
    proof (cases "int (length (a # ks)) > m")
      case True
      then have "length (a # ks) - nat m = Suc (length ks - nat m)" using assms by auto
      with True Cons show ?thesis by simp
    qed (use assms in auto)
  qed simp
  show "gm_get (snd (evict m ks es)) k = (if k \<in> set (take (length ks - nat m) ks) then None else gm_get es k)"
  proof (induction ks arbitrary: es)
    case (Cons a ks)
    show ?case
    proof (cases "int (length (a # ks)) > m")
      case True
      then have "length (a # ks) - nat m = Suc (length ks - nat m)" using assms by auto
      with True Cons show ?thesis by auto
    qed (use assms in auto)
  qed simp
qed


lemma NewCache_ok: "lru_ok (NewCache n)" "recency (NewCache n) = []"
  by (auto simp: NewCache_def lru_ok_def recency_def)

lemma lru_remove:
  fixes k :: string
  assumes "lru_ok c"
  defines "c' \<equiv> c\<lparr>lr_lru := remove1 k (lr_lru c), lr_entries := gm_del k (lr_entries c)\<rparr>"
  shows "lru_ok c'" "recency c' = rl_without k (recency c)"
proof -
  have d: "distinct (lr_lru c)" using assms(1) by (simp add: lru_ok_def)
  have "length (remove1 k (lr_lru c)) \<le> length (lr_lru c)" by (simp add: length_remove1)
  then show "lru_ok c'" using assms(1) d unfolding c'_def lru_ok_def by auto
  show "recency c' = rl_without k (recency c)"
    unfolding recency_def recency_remove [OF d, symmetric] using d by (simp add: c'_def)
qed

lemma lru_touch:
  fixes k :: string and es :: "(string, 'v lru_entry) gomap"
  assumes "lru_ok c" "gm_get (lr_entries c) k = Some e0"
  defines "c' \<equiv> c\<lparr>lr_entries := es, lr_lru := MoveToFront k (lr_lru c)\<rparr>"
  assumes es: "gm_get es k = Some e" "\<And>j. j \<noteq> k \<Longrightarrow> gm_get es j = gm_get (lr_entries c) j"
  shows "lru_ok c'" "recency c' = (k, e) # rl_without k (recency c)"
proof -
  have d: "distinct (lr_lru c)" and k: "k \<in> set (lr_lru c)" using assms(1,2) by (auto simp: lru_ok_def)
  have in_es: "j \<in> set (lr_lru c) \<longleftrightarrow> gm_get es j \<noteq> None" for j
    using assms(1,2) es by (cases "j = k") (auto simp: lru_ok_def)
  have "length (MoveToFront k (lr_lru c)) = length (lr_lru c)" and "set (MoveToFront k (lr_lru c)) = set (lr_lru c)"
    and "distinct (MoveToFront k (lr_lru c))"
    using k d by (auto simp: MoveToFront_def length_remove1 intro: Suc_pred length_pos_if_in_set)
  then show "lru_ok c'" using assms(1) in_es unfolding c'_def lru_ok_def by simp
  have "map (\<lambda>j. (j, the (gm_get es j))) (remove1 k (lr_lru c)) = rl_without k (recency c)"
    unfolding recency_def recency_remove [OF d, symmetric] using d es by simp
  then show "recency c' = (k, e) # rl_without k (recency c)"
    by (simp add: c'_def recency_def MoveToFront_def es)
qed

lemma Cache_Invalidate_refines:
  assumes "lru_ok c"
  shows "lru_ok (Cache_Invalidate sha256 secret c)"
    and "recency (Cache_Invalidate sha256 secret c) = rl_without (hashKey sha256 secret) (recency c)"
proof -
  let ?k = "hashKey sha256 secret"
  have "rl_without ?k (recency c) = recency c" if "gm_get (lr_entries c) ?k = None"
    using that assms unfolding rl_without_def recency_def lru_ok_def by (subst filter_id_conv) auto
  then show "lru_ok (Cache_Invalidate sha256 secret c)"
    and "recency (Cache_Invalidate sha256 secret c) = rl_without ?k (recency c)"
    using assms lru_remove [OF assms, of ?k]
    by (auto simp: Cache_Invalidate_def Let_def split: option.split)
qed

lemma Cache_Get_refines:
  assumes "lru_ok c"
  shows "lru_ok (snd (Cache_Get sha256 now secret c))"
    and "fst (Cache_Get sha256 now secret c) = fst (rl_get now (hashKey sha256 secret) (recency c))"
    and "recency (snd (Cache_Get sha256 now secret c)) = snd (rl_get now (hashKey sha256 secret) (recency c))"
  using assms lru_remove [OF assms, of "hashKey sha256 secret"]
    lru_touch [OF assms, of "hashKey sha256 secret" _ "lr_entries c"]
  by (auto simp: Cache_Get_def rl_get_def map_of_recency Let_def split: option.split)

lemma length_rl_touch:
  assumes "lru_ok c" "gm_get (lr_entries c) k = Some e0"
  shows "length (x # rl_without k (recency c)) = length (recency c)"
proof -
  have "distinct (lr_lru c)" "k \<in> set (lr_lru c)" using assms by (auto simp: lru_ok_def)
  then show ?thesis
    unfolding recency_def by (simp flip: recency_remove add: length_remove1) (metis Suc_pred length_pos_if_in_set)
qed

lemma take_length_diff: "take (length l - (length l - m)) l = take m l"
  by (cases "length l \<le> m") auto

lemma lru_insert:
  fixes k :: string
  assumes ok: "lru_ok c" and new: "gm_get (lr_entries c) k = None"
    and ev: "evict (lr_maxSize c) (rev (k # lr_lru c)) (gm_put k e (lr_entries c)) = (ks, es)"
  shows "lru_ok (c\<lparr>lr_entries := es, lr_lru := rev ks\<rparr>)"
    and "recency (c\<lparr>lr_entries := es, lr_lru := rev ks\<rparr>) = take (nat (lr_maxSize c)) ((k, e) # rl_without k (recency c))"
proof -
  let ?m = "nat (lr_maxSize c)" and ?l = "k # lr_lru c" and ?es = "gm_put k e (lr_entries c)"
  have m: "0 \<le> lr_maxSize c" and d: "distinct ?l" and keys: "\<And>j. j \<in> set ?l \<longleftrightarrow> gm_get ?es j \<noteq> None"
    using ok new by (auto simp: lru_ok_def)
  have ks: "rev ks = take ?m ?l"
    using evict_spec(1) [OF m, of "rev ?l" ?es] unfolding ev fst_conv
    by (simp only: drop_rev length_rev rev_rev_ident take_length_diff)
  have "take (length (rev ?l) - ?m) (rev ?l) = rev (drop ?m ?l)"
    by (simp only: rev_drop length_rev)
  then have es: "gm_get es j = (if j \<in> set (drop ?m ?l) then None else gm_get ?es j)" for j
    using evict_spec(2) [OF m, of "rev ?l" ?es] ev by (metis set_rev snd_conv)
  have split: "set ?l = set (take ?m ?l) \<union> set (drop ?m ?l)" "set (take ?m ?l) \<inter> set (drop ?m ?l) = {}"
    using d by (metis append_take_drop_id set_append, metis append_take_drop_id distinct_append)
  have mem: "j \<in> set (rev ks) \<longleftrightarrow> gm_get es j \<noteq> None" for j
    unfolding ks es using keys [of j] split by auto
  have "distinct (rev ks)" "int (length (rev ks)) \<le> lr_maxSize c"
    unfolding ks using d m by (auto simp: distinct_take)
  then show "lru_ok (c\<lparr>lr_entries := es, lr_lru := rev ks\<rparr>)"
    using ok mem by (simp add: lru_ok_def)
  have "map (\<lambda>j. (j, the (gm_get es j))) (rev ks) = map (\<lambda>j. (j, the (gm_get ?es j))) (rev ks)"
    unfolding ks by (rule recency_cong) (use es split in auto)
  also have "\<dots> = take ?m (map (\<lambda>j. (j, the (gm_get ?es j))) ?l)"
    by (simp only: ks take_map)
  also have "map (\<lambda>j. (j, the (gm_get ?es j))) ?l = (k, e) # rl_without k (recency c)"
    using d unfolding recency_def rl_without_def by (subst filter_True) auto
  finally show "recency (c\<lparr>lr_entries := es, lr_lru := rev ks\<rparr>) = take ?m ((k, e) # rl_without k (recency c))"
    by (simp add: recency_def)
qed

lemma Cache_Put_refines:
  assumes "lru_ok c"
  shows "lru_ok (Cache_Put sha256 now secret v ttl c)"
    and "recency (Cache_Put sha256 now secret v ttl c)
         = rl_put (nat (lr_maxSize c)) now (hashKey sha256 secret) v ttl (recency c)"
proof -
  let ?k = "hashKey sha256 secret" and ?e = "\<lparr>le_value = v, le_expiresAt = now + ttl\<rparr>"
  have "lru_ok (Cache_Put sha256 now secret v ttl c) \<and>
        recency (Cache_Put sha256 now secret v ttl c) = rl_put (nat (lr_maxSize c)) now ?k v ttl (recency c)"
  proof (cases "ttl \<le> 0")
    case True
    with assms show ?thesis by (simp add: Cache_Put_def rl_put_def)
  next
    case pos: False
    show ?thesis
    proof (cases "gm_get (lr_entries c) ?k")
      case None
      obtain ks es where "evict (lr_maxSize c) (rev (?k # lr_lru c)) (gm_put ?k ?e (lr_entries c)) = (ks, es)"
        by fastforce
      with lru_insert [OF assms None this] None pos show ?thesis
        by (simp add: Cache_Put_def rl_put_def Let_def)
    next
      case (Some e0)
      note t = lru_touch [OF assms Some, of "gm_put ?k ?e (lr_entries c)" ?e]
      have "length ((?k, ?e) # rl_without ?k (recency c)) = length (recency c)"
        by (rule length_rl_touch [OF assms Some])
      also have "\<dots> \<le> nat (lr_maxSize c)" using assms by (auto simp: recency_def lru_ok_def)
      finally show ?thesis using t Some pos by (simp add: Cache_Put_def rl_put_def Let_def)
    qed
  qed
  then show "lru_ok (Cache_Put sha256 now secret v ttl c)"
    and "recency (Cache_Put sha256 now secret v ttl c) = rl_put (nat (lr_maxSize c)) now ?k v ttl (recency c)"
    by simp_all
qed

lemma maxSize_fixed [simp]:
  "lr_maxSize (Cache_Put sha256 now secret v ttl c) = lr_maxSize c"
  "lr_maxSize (snd (Cache_Get sha256 now secret c)) = lr_maxSize c"
  "lr_maxSize (Cache_Invalidate sha256 secret c) = lr_maxSize c"
  by (auto simp: Cache_Put_def Cache_Get_def Cache_Invalidate_def Let_def split: option.split prod.split)

subsection \<open>Runs\<close>

abbreviation lru_run :: "(string \<Rightarrow> string) \<Rightarrow> (string, 'v, string) cache_event list \<Rightarrow> 'v lru \<Rightarrow> 'v lru" where
  "lru_run sha256 \<equiv> cache_run (Cache_Get sha256) (Cache_Put sha256) (Cache_Invalidate sha256)"

abbreviation rl_run :: "(string \<Rightarrow> string) \<Rightarrow> nat \<Rightarrow> (string, 'v, string) cache_event list \<Rightarrow> 'v recency \<Rightarrow> 'v recency" where
  "rl_run sha256 m \<equiv> cache_run (\<lambda>now secret. rl_get now (hashKey sha256 secret))
     (\<lambda>now secret. rl_put m now (hashKey sha256 secret)) (\<lambda>secret. rl_without (hashKey sha256 secret))"

lemma lru_step:
  assumes "lru_ok c"
  shows "lru_ok (cache_step (Cache_Get sha256) (Cache_Put sha256) (Cache_Invalidate sha256) ev c)"
    and "recency (cache_step (Cache_Get sha256) (Cache_Put sha256) (Cache_Invalidate sha256) ev c)
         = cache_step (\<lambda>now secret. rl_get now (hashKey sha256 secret)) (\<lambda>now secret. rl_put (nat (lr_maxSize c)) now (hashKey sha256 secret))
             (\<lambda>secret. rl_without (hashKey sha256 secret)) ev (recency c)"
    and "lr_maxSize (cache_step (Cache_Get sha256) (Cache_Put sha256) (Cache_Invalidate sha256) ev c) = lr_maxSize c"
  using assms Cache_Get_refines [OF assms] Cache_Put_refines [OF assms] Cache_Invalidate_refines [OF assms]
  by (cases ev; simp)+

lemma lru_run_refines:
  assumes "lru_ok c"
  shows "lru_ok (lru_run sha256 evs c) \<and> recency (lru_run sha256 evs c) = rl_run sha256 (nat (lr_maxSize c)) evs (recency c)
         \<and> lr_maxSize (lru_run sha256 evs c) = lr_maxSize c"
  by (induction evs rule: rev_induct) (simp_all add: assms lru_step)

lemma NewCache_maxSize: "nat (lr_maxSize (NewCache n)) = nat (max 1 n)"
  by (simp add: NewCache_def)

section \<open>The cache meets the contract of expiring caches\<close>

definition lru_held :: "'v lru \<Rightarrow> string \<Rightarrow> ('v \<times> go_time) option" where
  "lru_held c s = map_option (\<lambda>e. (le_value e, le_expiresAt e)) (gm_get (lr_entries c) s)"

lemma lru_held_recency: "lru_ok c \<Longrightarrow> lru_held c s = map_option (\<lambda>e. (le_value e, le_expiresAt e)) (map_of (recency c) s)"
  by (simp add: lru_held_def map_of_recency)

lemma map_of_rl_without: "map_of (rl_without k l) s = (if s = k then None else map_of l s)"
  by (induction l) (auto simp: rl_without_def)

lemma map_of_take: "map_of (take n l) s = Some e \<Longrightarrow> map_of l s = Some e"
  by (induction l arbitrary: n) (auto simp: take_Cons split: nat.splits if_splits)

interpretation lru: expiring_cache "hashKey sha256" "\<lambda>now e. now < e" "\<lambda>secret s. hashKey sha256 secret = s"
  lru_held lru_ok "NewCache n" "Cache_Get sha256" "Cache_Put sha256" "Cache_Invalidate sha256"
proof
  fix c :: "'v lru" and now k v s x ttl d
  assume ok: "lru_ok c"
  show "fst (Cache_Get sha256 now k c) = Some v \<longleftrightarrow> (\<exists>e. lru_held c (hashKey sha256 k) = Some (v, e) \<and> now < e)"
    using ok by (auto simp: Cache_Get_refines rl_get_def lru_held_recency split: option.splits)
  show "lru_held (snd (Cache_Get sha256 now k c)) s = Some x \<Longrightarrow> lru_held c s = Some x"
    using ok by (auto simp: Cache_Get_def lru_held_def Let_def split: option.splits if_splits)
  show "lru_held (Cache_Put sha256 now k v ttl c) (hashKey sha256 k) = Some (v, now + ttl)" if "0 < ttl"
  proof -
    have "1 \<le> nat (lr_maxSize c)" using ok by (auto simp: lru_ok_def)
    with ok that show ?thesis
      by (cases "nat (lr_maxSize c)") (auto simp: lru_held_recency Cache_Put_refines rl_put_def)
  qed
  show "lru_held c s = Some x \<and> \<not> (hashKey sha256 k = s \<and> 0 < ttl) \<or> hashKey sha256 k = s \<and> x = (v, now + ttl)"
    if "lru_held (Cache_Put sha256 now k v ttl c) s = Some x"
    using that ok
    by (auto simp: lru_held_recency Cache_Put_refines rl_put_def map_of_rl_without dest!: map_of_take split: if_splits)
  show "lru_held (Cache_Invalidate sha256 d c) s = Some x \<Longrightarrow> lru_held c s = Some x \<and> hashKey sha256 d \<noteq> s"
    using ok by (auto simp: lru_held_recency Cache_Invalidate_refines map_of_rl_without split: if_splits)
qed (auto simp: NewCache_ok lru_held_recency Cache_Get_refines Cache_Put_refines Cache_Invalidate_refines)

section \<open>An entry survives until its capacity is used up by others\<close>

primrec event_slots :: "('k \<Rightarrow> 's) \<Rightarrow> ('k, 'v, 'd) cache_event \<Rightarrow> 's set" where
  "event_slots slot (Got now k) = {slot k}"
| "event_slots slot (Stored now k v ttl) = {slot k}"
| "event_slots slot (Forgot d) = {}"

definition other_slots :: "(string \<Rightarrow> string) \<Rightarrow> string \<Rightarrow> (string, 'v, string) cache_event list \<Rightarrow> string set" where
  "other_slots sha256 s evs = (\<Union>ev\<in>set evs. event_slots (hashKey sha256) ev) - {s}"

text \<open>An event that leaves the entry of slot \<open>s\<close>, which expires at \<open>e\<close>, alone, unless the entry is pushed out.\<close>

primrec spares :: "(string \<Rightarrow> string) \<Rightarrow> string \<Rightarrow> go_time \<Rightarrow> (string, 'v, string) cache_event \<Rightarrow> bool" where
  "spares sha256 s e (Got now k) \<longleftrightarrow> (hashKey sha256 k = s \<longrightarrow> now < e)"
| "spares sha256 s e (Stored now k v ttl) \<longleftrightarrow> hashKey sha256 k \<noteq> s"
| "spares sha256 s e (Forgot k) \<longleftrightarrow> hashKey sha256 k \<noteq> s"

definition within_first :: "string set \<Rightarrow> string \<Rightarrow> 'v lru_entry \<Rightarrow> 'v recency \<Rightarrow> bool" where
  "within_first S s e l \<longleftrightarrow> distinct (map fst l) \<and> (\<exists>as bs. l = as @ (s, e) # bs \<and> fst ` set as \<subseteq> S)"

lemma distinct_rl_without: "distinct (map fst l) \<Longrightarrow> distinct (map fst (rl_without k l))"
  by (simp add: rl_without_def distinct_map_filter)

lemma rl_without_append [simp]:
  "rl_without k (xs @ ys) = rl_without k xs @ rl_without k ys"
  "rl_without k ((j, e) # l) = (if j = k then rl_without k l else (j, e) # rl_without k l)"
  by (simp_all add: rl_without_def)

lemma fst_rl_without: "fst ` set (rl_without k l) = fst ` set l - {k}"
  by (auto simp: rl_without_def)

lemma within_first_without:
  assumes "within_first S s e l" "k \<noteq> s"
  shows "within_first S s e (rl_without k l)"
proof -
  obtain as bs where "l = as @ (s, e) # bs" "fst ` set as \<subseteq> S" using assms(1) by (auto simp: within_first_def)
  with assms have "rl_without k l = rl_without k as @ (s, e) # rl_without k bs" "fst ` set (rl_without k as) \<subseteq> S"
    by (auto simp: fst_rl_without)
  then show ?thesis using assms(1) unfolding within_first_def by (blast intro: distinct_rl_without)
qed

lemma within_first_front:
  assumes "within_first S s e l" "k \<noteq> s"
  shows "within_first (insert k S) s e ((k, x) # rl_without k l)"
proof -
  obtain as bs where l: "rl_without k l = as @ (s, e) # bs" "fst ` set as \<subseteq> S" and d: "distinct (map fst (rl_without k l))"
    using within_first_without [OF assms] by (auto simp: within_first_def)
  have "(k, x) # rl_without k l = ((k, x) # as) @ (s, e) # bs" "fst ` set ((k, x) # as) \<subseteq> insert k S"
    using l by auto
  moreover have "distinct (map fst ((k, x) # rl_without k l))" using d fst_rl_without [of k l] by auto
  ultimately show ?thesis unfolding within_first_def by blast
qed

lemma within_first_take:
  assumes "within_first S s e l" "finite S" "card (S - {s}) < m"
  shows "within_first S s e (take m l)"
proof -
  obtain as bs where l: "l = as @ (s, e) # bs" "fst ` set as \<subseteq> S" and d: "distinct (map fst l)"
    using assms(1) by (auto simp: within_first_def)
  have "length as = card (fst ` set as)" using d l(1) by (metis distinct_append distinct_card length_map map_append set_map)
  also have "fst ` set as \<subseteq> S - {s}" using d l by auto
  then have "card (fst ` set as) \<le> card (S - {s})" using assms(2) by (intro card_mono) auto
  finally have "length as < m" using assms(3) by simp
  then have "take m l = as @ (s, e) # take (m - Suc (length as)) bs" using l(1) by (simp add: take_Cons')
  moreover have "distinct (map fst (take m l))" using d by (simp add: take_map [symmetric] distinct_take)
  ultimately show ?thesis using l(2) unfolding within_first_def by blast
qed

lemma within_first_self: "within_first S s e l \<Longrightarrow> within_first S s e ((s, e) # rl_without s l)"
  unfolding within_first_def by (rule conjI, (use fst_rl_without [of s l] in \<open>auto simp: distinct_rl_without\<close>) [],
      rule exI [of _ "[]"], simp)

lemma within_first_mono: "within_first S s e l \<Longrightarrow> S \<subseteq> S' \<Longrightarrow> within_first S' s e l"
  unfolding within_first_def by blast

lemma within_first_map_of: "within_first S s e l \<Longrightarrow> map_of l s = Some e"
  unfolding within_first_def by (auto intro!: map_of_is_SomeI)

lemma survives_step:
  assumes "within_first S s e l" "finite S" "card (insert k S - {s}) < m"
    and "\<forall>t k'. ev = Got t k' \<or> (\<exists>v ttl. ev = Stored t k' v ttl) \<longrightarrow> hashKey sha256 k' = k"
    and "spares sha256 s (le_expiresAt e) ev"
  shows "within_first (insert k S) s e
           (cache_step (\<lambda>now secret. rl_get now (hashKey sha256 secret)) (\<lambda>now secret. rl_put m now (hashKey sha256 secret))
             (\<lambda>secret. rl_without (hashKey sha256 secret)) ev l)"
proof (cases ev)
  case (Got now j)
  then have k: "hashKey sha256 j = k" using assms(4) by blast
  show ?thesis
  proof (cases "k = s")
    case True
    with k Got assms within_first_self [OF assms(1)] show ?thesis
      by (auto simp: rl_get_def within_first_map_of intro: within_first_mono)
  next
    case False
    with k Got assms(1) show ?thesis
      by (auto simp: rl_get_def within_first_front split: option.split
               intro: within_first_mono [OF assms(1)] within_first_mono [OF within_first_without])
  qed
next
  case (Stored now j v ttl)
  then have k: "hashKey sha256 j = k" and "k \<noteq> s" using assms(4,5) by auto
  with Stored show ?thesis
    using within_first_take [OF within_first_front [OF assms(1) \<open>k \<noteq> s\<close>] _ assms(3)] assms(2)
    by (auto simp: rl_put_def intro: within_first_mono [OF assms(1)])
next
  case (Forgot j)
  with assms(1,5) show ?thesis
    by (auto intro: within_first_mono [OF within_first_without])
qed

lemma finite_event_slots [simp]: "finite (event_slots slot ev)"
  by (cases ev) auto

lemma finite_other_slots [simp]: "finite (other_slots sha256 s evs)"
  by (simp add: other_slots_def)

lemma survives:
  assumes "within_first {} s e l" "card (other_slots sha256 s evs) < m" "\<forall>ev\<in>set evs. spares sha256 s (le_expiresAt e) ev"
  shows "within_first (insert s (other_slots sha256 s evs)) s e (rl_run sha256 m evs l)"
  using assms
proof (induction evs rule: rev_induct)
  case Nil
  then show ?case by (auto simp: other_slots_def intro: within_first_mono)
next
  case (snoc ev evs)
  let ?S = "insert s (other_slots sha256 s evs)" and ?S' = "insert s (other_slots sha256 s (evs @ [ev]))"
  have sub: "?S \<subseteq> ?S'" "?S' - {s} = other_slots sha256 s (evs @ [ev])" by (auto simp: other_slots_def)
  then have "card (other_slots sha256 s evs) \<le> card (other_slots sha256 s (evs @ [ev]))"
    by (intro card_mono) (auto simp: other_slots_def)
  with snoc have IH: "within_first ?S' s e (rl_run sha256 m evs l)"
    using within_first_mono [OF snoc.IH sub(1)] by auto
  obtain k where k: "k \<in> ?S'" "\<forall>t k'. ev = Got t k' \<or> (\<exists>v ttl. ev = Stored t k' v ttl) \<longrightarrow> hashKey sha256 k' = k"
    by (cases ev) (auto simp: other_slots_def)
  then have "insert k ?S' = ?S'" by blast
  with survives_step [OF IH _ _ k(2)] snoc.prems sub(2) show ?case by simp
qed

lemma lru_entry_survives:
  assumes "0 < ttl" and "now < t + ttl" and "card (other_slots sha256 (hashKey sha256 k) evs) < nat (max 1 n)"
    and "\<forall>ev\<in>set evs. spares sha256 (hashKey sha256 k) (t + ttl) ev"
  shows "fst (Cache_Get sha256 now k (lru_run sha256 (pre @ Stored t k v ttl # evs) (NewCache n))) = Some v"
proof -
  let ?c0 = "lru_run sha256 pre (NewCache n)" and ?s = "hashKey sha256 k" and ?m = "nat (max 1 n)"
    and ?e = "\<lparr>le_value = v, le_expiresAt = t + ttl\<rparr>"
  let ?c1 = "Cache_Put sha256 t k v ttl ?c0"
  have ok0: "lru_ok ?c0" and m: "nat (lr_maxSize ?c0) = ?m"
    using lru_run_refines [OF NewCache_ok(1), of sha256 pre n] by (simp_all add: NewCache_maxSize)
  have d: "distinct (map fst (recency ?c0))" using ok0 by (simp add: recency_def lru_ok_def comp_def)
  have "recency ?c1 = (?s, ?e) # take (?m - 1) (rl_without ?s (recency ?c0))"
    using Cache_Put_refines(2) [OF ok0, of sha256 t k v ttl] assms(1) m by (simp add: rl_put_def take_Cons')
  moreover have "distinct (map fst ((?s, ?e) # take (?m - 1) (rl_without ?s (recency ?c0))))"
    using distinct_rl_without [OF d, of ?s] fst_rl_without [of ?s "recency ?c0"]
    by (auto simp: take_map [symmetric] distinct_take dest: in_set_takeD)
  ultimately have "within_first {} ?s ?e (recency ?c1)" unfolding within_first_def by (metis append_Nil empty_subsetI image_empty list.set(1))
  from survives [OF this assms(3)] have "map_of (rl_run sha256 ?m evs (recency ?c1)) ?s = Some ?e"
    using assms(4) within_first_map_of by simp
  moreover have "lru_ok ?c1" "lru_run sha256 (pre @ Stored t k v ttl # evs) (NewCache n) = lru_run sha256 evs ?c1"
    using Cache_Put_refines(1) [OF ok0] by (simp_all add: cache_run_def)
  ultimately show ?thesis
    using lru_run_refines [of ?c1 sha256 evs] m assms(2) by (simp add: Cache_Get_refines rl_get_def)
qed

text \<open>
  The cache of relying-party authentication refines a list ordered by last use and cut off at the capacity:
  after any sequence of lookups, stores and invalidations it holds exactly what the list holds, in that order,
  answers every lookup alike and never exceeds its capacity. An entry is served until it expires as long as fewer
  other keys than the capacity were used since it was stored.
\<close>

lemma lru_cache_refines:
  "recency (lru_run sha256 evs (NewCache n)) = rl_run sha256 (nat (max 1 n)) evs []
   \<and> fst (Cache_Get sha256 now k (lru_run sha256 evs (NewCache n)))
       = fst (rl_get now (hashKey sha256 k) (rl_run sha256 (nat (max 1 n)) evs []))
   \<and> Cache_Len (lru_run sha256 evs (NewCache n)) \<le> max 1 n
   \<and> (\<forall>pre t v ttl post. evs = pre @ Stored t k v ttl # post \<longrightarrow> 0 < ttl \<longrightarrow> now < t + ttl
        \<longrightarrow> card (other_slots sha256 (hashKey sha256 k) post) < nat (max 1 n)
        \<longrightarrow> (\<forall>ev\<in>set post. spares sha256 (hashKey sha256 k) (t + ttl) ev)
        \<longrightarrow> fst (Cache_Get sha256 now k (lru_run sha256 evs (NewCache n))) = Some v)"
proof -
  let ?c = "lru_run sha256 evs (NewCache n)"
  have m: "lr_maxSize (NewCache n :: 'a lru) = max 1 n" by (simp add: NewCache_def)
  have ok: "lru_ok ?c" and rl: "recency ?c = rl_run sha256 (nat (max 1 n)) evs []" and size: "lr_maxSize ?c = max 1 n"
    using lru_run_refines [OF NewCache_ok(1), of sha256 evs n] by (simp_all add: m NewCache_ok(2))
  show ?thesis
    using rl ok size Cache_Get_refines(2) [OF ok, of sha256 now k]
    by (auto simp: Cache_Len_def lru_ok_def intro: lru_entry_survives)
qed

text \<open>A cache of two entries: the third key pushes out the least recently used one, which is not the first stored.\<close>

theorem lru_cache_refines_witness:
  "fst (Cache_Get (\<lambda>s. s) 5 ''b'' (lru_run (\<lambda>s. s) [Stored 1 ''a'' (1::nat) 9, Stored 2 ''b'' 2 9, Got 3 ''b'', Stored 4 ''c'' 3 9] (NewCache 2))) = Some 2
   \<and> fst (Cache_Get (\<lambda>s. s) 5 ''a'' (lru_run (\<lambda>s. s) [Stored 1 ''a'' (1::nat) 9, Stored 2 ''b'' 2 9, Got 3 ''b'', Stored 4 ''c'' 3 9] (NewCache 2))) = None"
proof -
  let ?evs = "[Stored 1 ''a'' (1::nat) 9, Stored 2 ''b'' 2 9, Got 3 ''b'', Stored 4 ''c'' 3 9]"
  have keys: "hashKey (\<lambda>s. s) ''b'' \<noteq> hashKey (\<lambda>s. s) ''c''" by code_simp
  have "other_slots (\<lambda>s. s) (hashKey (\<lambda>s. s) ''b'') [Got 3 ''b'', Stored 4 ''c'' (3::nat) 9] = {hashKey (\<lambda>s. s) ''c''}"
    using keys by (auto simp: other_slots_def)
  then have "fst (Cache_Get (\<lambda>s. s) 5 ''b'' (lru_run (\<lambda>s. s) ?evs (NewCache 2))) = Some 2"
    using lru_cache_refines [of "\<lambda>s. s" ?evs 2 5 "''b''"] keys by (auto dest!: spec [of _ "[Stored 1 ''a'' (1::nat) 9]"])
  moreover have "fst (Cache_Get (\<lambda>s. s) 5 ''a'' (lru_run (\<lambda>s. s) ?evs (NewCache 2))) = None" by code_simp
  ultimately show ?thesis by simp
qed

section \<open>Revocation on the HTTP path\<close>

text \<open>
  Interleaved use of one introspector: requests look tokens up, answers of the authority are worked off later, and
  the service may invalidate tokens. \<open>answeredAt\<close> is when the authority made up its mind.
\<close>

datatype rp_event =
    LookedUp string bool go_time
  | Finished string introspect_answer go_time go_time go_time
  | Invalidated string

primrec rp_step :: "(string \<Rightarrow> string) \<Rightarrow> duration \<Rightarrow> rp_event \<Rightarrow> rp_identity lru option \<Rightarrow> rp_identity lru option" where
  "rp_step sha256 maxTTL (LookedUp tok useCache now) c = snd (validate_lookup sha256 useCache tok now c)"
| "rp_step sha256 maxTTL (Finished tok answer answeredAt ttlAt putAt) c = snd (validate_answer sha256 maxTTL tok answer ttlAt putAt c)"
| "rp_step sha256 maxTTL (Invalidated tok) c = Introspector_Invalidate sha256 tok c"

definition rp_run :: "(string \<Rightarrow> string) \<Rightarrow> duration \<Rightarrow> rp_event list \<Rightarrow> int \<Rightarrow> rp_identity lru option" where
  "rp_run sha256 maxTTL evs maxSize = fold (rp_step sha256 maxTTL) evs (Some (NewCache maxSize))"

text \<open>An answer that lets the token pass.\<close>

definition grants :: "introspect_answer \<Rightarrow> bool" where
  "grants answer =
     (case answer of
        Answered status _ (Some out) \<Rightarrow>
          200 \<le> status \<and> status < 300 \<and> ir_Active out \<and> ToLower (ir_TokenType out) \<noteq> ''refresh_token''
      | _ \<Rightarrow> False)"

lemma computeTTL_bounds: "0 \<le> maxTTL \<Longrightarrow> 0 \<le> computeTTL maxTTL now cc ex \<and> computeTTL maxTTL now cc ex \<le> maxTTL"
  by (simp add: computeTTL_def Let_def)

text \<open>What a step does to the cache, as events of the cache.\<close>

definition answer_events :: "duration \<Rightarrow> string \<Rightarrow> introspect_answer \<Rightarrow> go_time \<Rightarrow> go_time \<Rightarrow> (string, rp_identity, string) cache_event list" where
  "answer_events maxTTL tok answer ttlAt putAt =
     (case answer of
        Answered status cc (Some out) \<Rightarrow>
          if status < 200 \<or> status \<ge> 300 then []
          else if grants answer
          then (if computeTTL maxTTL ttlAt cc (ir_Exp out) > 0
                then [Stored putAt tok (response_identity out) (computeTTL maxTTL ttlAt cc (ir_Exp out))] else [])
          else [Forgot tok]
      | _ \<Rightarrow> [])"

primrec rp_cache_events :: "duration \<Rightarrow> rp_event \<Rightarrow> (string, rp_identity, string) cache_event list" where
  "rp_cache_events maxTTL (LookedUp tok useCache now) = (if TrimSpace tok = [] \<or> \<not> useCache then [] else [Got now tok])"
| "rp_cache_events maxTTL (Finished tok answer answeredAt ttlAt putAt) = answer_events maxTTL tok answer ttlAt putAt"
| "rp_cache_events maxTTL (Invalidated tok) = [Forgot tok]"

lemma validate_answer_cache:
  "snd (validate_answer sha256 maxTTL tok answer ttlAt putAt (Some c))
   = Some (lru_run sha256 (answer_events maxTTL tok answer ttlAt putAt) c)"
  by (auto simp: validate_answer_def answer_events_def grants_def Introspector_Invalidate_def Let_def cache_run_def
           split: introspect_answer.split option.split)

lemma validate_answer_grants:
  "(\<exists>i. fst (validate_answer sha256 maxTTL tok answer ttlAt putAt c) = Inr i) \<longleftrightarrow> grants answer"
  by (auto simp: validate_answer_def grants_def Let_def split: introspect_answer.split option.split)

lemma rp_step_cache: "rp_step sha256 maxTTL e (Some c) = Some (lru_run sha256 (rp_cache_events maxTTL e) c)"
proof (cases e)
  case (LookedUp tok useCache now)
  then show ?thesis
    by (cases "Cache_Get sha256 now tok c") (auto simp: validate_lookup_def cache_run_def split: option.split)
next
  case (Invalidated tok)
  then show ?thesis by (simp add: Introspector_Invalidate_def cache_run_def)
qed (simp add: validate_answer_cache)

lemma rp_run_cache:
  "rp_run sha256 maxTTL evs maxSize = Some (lru_run sha256 (concat (map (rp_cache_events maxTTL) evs)) (NewCache maxSize))"
  unfolding rp_run_def by (induction evs rule: rev_induct) (simp_all add: rp_step_cache cache_run_append)

lemma stored_by_answer:
  assumes "Stored t tok i ttl \<in> set (concat (map (rp_cache_events maxTTL) evs))" "0 \<le> maxTTL"
  shows "\<exists>answer answeredAt ttlAt. Finished tok answer answeredAt ttlAt t \<in> set evs \<and> grants answer \<and> ttl \<le> maxTTL"
proof -
  obtain e where e: "e \<in> set evs" "Stored t tok i ttl \<in> set (rp_cache_events maxTTL e)" using assms(1) by auto
  obtain answer answeredAt ttlAt putAt tok' where fin: "e = Finished tok' answer answeredAt ttlAt putAt"
    and st: "Stored t tok i ttl \<in> set (answer_events maxTTL tok' answer ttlAt putAt)"
    by (insert e(2), cases e) (auto split: if_splits)
  from st have "tok' = tok \<and> putAt = t \<and> grants answer \<and> ttl \<le> maxTTL"
    using computeTTL_bounds [OF assms(2)]
    by (auto simp: answer_events_def split: introspect_answer.splits option.splits if_splits)
  with e fin show ?thesis by blast
qed

text \<open>A token served from the cache was granted by an answer at most the longest lifetime before.\<close>

lemma cached_was_granted:
  assumes "fst (validate_lookup sha256 True tok now (rp_run sha256 maxTTL evs maxSize)) = Some (Inr i)" "0 \<le> maxTTL"
  shows "\<exists>tok' answer answeredAt ttlAt putAt. Finished tok' answer answeredAt ttlAt putAt \<in> set evs \<and> grants answer
           \<and> hashKey sha256 tok' = hashKey sha256 tok \<and> now < putAt + maxTTL"
proof -
  let ?c = "lru_run sha256 (concat (map (rp_cache_events maxTTL) evs)) (NewCache maxSize)"
  have "fst (Cache_Get sha256 now tok ?c) = Some i"
    using assms(1) unfolding rp_run_cache validate_lookup_def by (auto split: if_splits option.splits prod.splits)
  then obtain t tok' ttl where "Stored t tok' i ttl \<in> set (concat (map (rp_cache_events maxTTL) evs))"
    "hashKey sha256 tok' = hashKey sha256 tok" "now < t + ttl"
    by (rule lru.served_member)
  with stored_by_answer [OF this(1) assms(2)] show ?thesis by fastforce
qed

lemma Require_denied:
  assumes "rr_Method r \<noteq> ''OPTIONS''" "\<And>i. fst (Validate sha256 maxTTL (extract r) x c) \<noteq> Inr i"
  shows "\<exists>out. fst (Require sha256 maxTTL extract load r ctx x c) = Denied (statusFor out) out
           \<and> (out = OutcomeRejected \<longrightarrow> (\<exists>err. fst (Validate sha256 maxTTL (extract r) x c) = Inl err \<and> errors_is err ErrInactive))"
proof (cases "extract r = []")
  case True
  with assms(1) show ?thesis by (simp add: Require_def Optional_def authenticate_def withResult_def)
next
  case False
  obtain err c' where "Validate sha256 maxTTL (extract r) x c = (Inl err, c')"
    using assms(2) by (metis fst_conv sum.exhaust surj_pair)
  with False assms(1) show ?thesis by (simp add: Require_def Optional_def authenticate_def withResult_def)
qed

lemma validate_refused:
  assumes ttl: "0 \<le> maxTTL" and hash: "\<forall>tok'. hashKey sha256 tok' = hashKey sha256 tok \<longrightarrow> tok' = tok"
    and revoked: "\<forall>answer answeredAt ttlAt putAt. Finished tok answer answeredAt ttlAt putAt \<in> set evs \<longrightarrow>
                    (T \<le> answeredAt \<longrightarrow> \<not> grants answer) \<and> putAt \<le> answeredAt + lag"
    and late: "T + maxTTL + lag \<le> xc_lookupAt x" and now: "\<not> grants (xc_answer x)"
  shows "fst (Validate sha256 maxTTL tok x (rp_run sha256 maxTTL evs maxSize)) \<noteq> Inr i"
proof
  let ?c = "rp_run sha256 maxTTL evs maxSize"
  assume served: "fst (Validate sha256 maxTTL tok x ?c) = Inr i"
  obtain r c' where look: "validate_lookup sha256 True tok (xc_lookupAt x) ?c = (r, c')" by fastforce
  show False
  proof (cases r)
    case None
    with look served validate_answer_grants [of sha256 maxTTL tok "xc_answer x" "xc_ttlAt x" "xc_putAt x" c'] now
    show False by (auto simp: validate_def)
  next
    case (Some res)
    with look served have "fst (validate_lookup sha256 True tok (xc_lookupAt x) ?c) = Some (Inr i)"
      by (simp add: validate_def)
    from cached_was_granted [OF this ttl] hash obtain answer answeredAt ttlAt putAt
      where "Finished tok answer answeredAt ttlAt putAt \<in> set evs" "grants answer" "xc_lookupAt x < putAt + maxTTL"
      by blast
    with revoked late show False by fastforce
  qed
qed

text \<open>
  C17: Revocation on the HTTP path. Let an introspector be used by any number of requests at once. If from time
  \<open>T\<close> on the authority no longer grants a token, and every earlier answer was cached within \<open>lag\<close> of being given,
  then from \<open>T\<close> plus the longest lifetime of an entry plus \<open>lag\<close> on the gate lets no request with this token pass,
  whatever the extractor, the loader and the other requests do, as long as no other token has the same hash. The
  request is refused with 503 if the authority cannot be asked, and with 401 otherwise.
\<close>

theorem revocation_lag:
  assumes "0 \<le> maxTTL" and "\<forall>tok'. hashKey sha256 tok' = hashKey sha256 tok \<longrightarrow> tok' = tok"
    and "\<forall>answer answeredAt ttlAt putAt. Finished tok answer answeredAt ttlAt putAt \<in> set evs \<longrightarrow>
           (T \<le> answeredAt \<longrightarrow> \<not> grants answer) \<and> putAt \<le> answeredAt + lag"
    and "T + maxTTL + lag \<le> xc_lookupAt x" and "\<not> grants (xc_answer x)"
    and "rr_Method r \<noteq> ''OPTIONS''" and "extract r = tok"
  shows "\<exists>out. fst (Require sha256 maxTTL extract load r ctx x (rp_run sha256 maxTTL evs maxSize)) = Denied (statusFor out) out
           \<and> (out = OutcomeRejected \<longrightarrow> TrimSpace tok = [] \<or>
                (\<exists>status cc body. xc_answer x = Answered status cc (Some body) \<and> 200 \<le> status \<and> status < 300))"
proof -
  let ?c = "rp_run sha256 maxTTL evs maxSize"
  have refused: "fst (Validate sha256 maxTTL (extract r) x ?c) \<noteq> Inr i" for i
    using validate_refused [OF assms(1-5)] assms(7) by blast
  have definite: "TrimSpace tok = [] \<or>
      (\<exists>status cc body. xc_answer x = Answered status cc (Some body) \<and> 200 \<le> status \<and> status < 300)"
    if "fst (Validate sha256 maxTTL tok x ?c) = Inl err" "errors_is err ErrInactive" for err
    using that unfolding validate_def validate_lookup_def validate_answer_def
    by (auto simp: ErrUnavailable_def ErrInactive_def Let_def
             split: if_splits option.splits prod.splits introspect_answer.splits)
  show ?thesis
    using Require_denied [of r sha256 maxTTL "extract" x ?c load ctx] assms(6,7) refused definite by blast
qed

definition live_answer :: introspect_answer where
  "live_answer = Answered 200 [] (Some \<lparr>ir_Active = True, ir_Sub = ''u'', ir_Tnt = ''t'', ir_Scope = ''openid'', ir_Exp = 0, ir_TokenType = ''Bearer''\<rparr>)"

definition dead_answer :: introspect_answer where
  "dead_answer = Answered 200 [] (Some \<lparr>ir_Active = False, ir_Sub = [], ir_Tnt = [], ir_Scope = [], ir_Exp = 0, ir_TokenType = []\<rparr>)"

definition bearer_request :: "string \<Rightarrow> rp_request" where
  "bearer_request tok = \<lparr>rr_Method = ''GET'', rr_Authorization = ''Bearer '' @ tok, rr_Cookies = []\<rparr>"

definition load_subject :: "rp_identity \<Rightarrow> string result" where
  "load_subject i = Inr (ri_Subject i)"

text \<open>
  With lifetime 100: a token granted at 19 and cached at 22 is still served at 121, although it was revoked at 20,
  more than the lifetime before; at 123 it is refused.
\<close>

theorem revocation_lag_witness:
  "(\<exists>out. fst (Require (\<lambda>s. s) 100 BearerToken load_subject (bearer_request ''tok'') \<lparr>cx_result = None, cx_identity = None\<rparr>
             \<lparr>xc_lookupAt = 123, xc_answer = dead_answer, xc_ttlAt = 124, xc_putAt = 124\<rparr>
             (rp_run (\<lambda>s. s) 100 [LookedUp ''tok'' True 18, Finished ''tok'' live_answer 19 21 22] 10)) = Denied (statusFor out) out)
   \<and> fst (Require (\<lambda>s. s) 100 BearerToken load_subject (bearer_request ''tok'') \<lparr>cx_result = None, cx_identity = None\<rparr>
             \<lparr>xc_lookupAt = 121, xc_answer = dead_answer, xc_ttlAt = 124, xc_putAt = 124\<rparr>
             (rp_run (\<lambda>s. s) 100 [LookedUp ''tok'' True 18, Finished ''tok'' live_answer 19 21 22] 10))
     = Next (withResult \<lparr>cx_result = None, cx_identity = None\<rparr> \<lparr>rs_Outcome = OutcomeAuthenticated,
               rs_Identity = Some \<lparr>ri_Subject = ''u'', ri_TenantSlug = ''t'', ri_Scopes = [''openid''], ri_ExpiresAt = 0\<rparr>,
               rs_Principal = Some ''u'', rs_Err = None\<rparr>)"
proof -
  have hash: "\<forall>tok'. hashKey (\<lambda>s. s) tok' = hashKey (\<lambda>s. s) ''tok'' \<longrightarrow> tok' = ''tok''"
    by (simp add: hashKey_def hex_encode_inj)
  have g: "\<not> grants dead_answer" "grants live_answer" "rr_Method (bearer_request ''tok'') \<noteq> ''OPTIONS''"
    "BearerToken (bearer_request ''tok'') = ''tok''" by code_simp+
  have "\<exists>out. fst (Require (\<lambda>s. s) 100 BearerToken load_subject (bearer_request ''tok'') \<lparr>cx_result = None, cx_identity = None\<rparr>
             \<lparr>xc_lookupAt = 123, xc_answer = dead_answer, xc_ttlAt = 124, xc_putAt = 124\<rparr>
             (rp_run (\<lambda>s. s) 100 [LookedUp ''tok'' True 18, Finished ''tok'' live_answer 19 21 22] 10)) = Denied (statusFor out) out"
    using revocation_lag [of 100 "\<lambda>s. s" "''tok''" "[LookedUp ''tok'' True 18, Finished ''tok'' live_answer 19 21 22]" 20 3
        "\<lparr>xc_lookupAt = 123, xc_answer = dead_answer, xc_ttlAt = 124, xc_putAt = 124\<rparr>" "bearer_request ''tok''"
        BearerToken load_subject "\<lparr>cx_result = None, cx_identity = None\<rparr>" 10] hash g by auto
  moreover have "fst (Require (\<lambda>s. s) 100 BearerToken load_subject (bearer_request ''tok'') \<lparr>cx_result = None, cx_identity = None\<rparr>
             \<lparr>xc_lookupAt = 121, xc_answer = dead_answer, xc_ttlAt = 124, xc_putAt = 124\<rparr>
             (rp_run (\<lambda>s. s) 100 [LookedUp ''tok'' True 18, Finished ''tok'' live_answer 19 21 22] 10))
     = Next (withResult \<lparr>cx_result = None, cx_identity = None\<rparr> \<lparr>rs_Outcome = OutcomeAuthenticated,
               rs_Identity = Some \<lparr>ri_Subject = ''u'', ri_TenantSlug = ''t'', ri_Scopes = [''openid''], ri_ExpiresAt = 0\<rparr>,
               rs_Principal = Some ''u'', rs_Err = None\<rparr>)" by code_simp
  ultimately show ?thesis by blast
qed

text \<open>Invalidating a token does not help against an answer that is still being worked off.\<close>

lemma invalidated_token_comes_back:
  "fst (validate_lookup (\<lambda>s. s) True ''tok'' 40 (rp_run (\<lambda>s. s) 100
      [LookedUp ''tok'' True 18, Invalidated ''tok'', Finished ''tok'' live_answer 19 21 22] 10))
   = Some (Inr \<lparr>ri_Subject = ''u'', ri_TenantSlug = ''t'', ri_Scopes = [''openid''], ri_ExpiresAt = 0\<rparr>)"
  by code_simp

section \<open>Revocation on long-lived connections\<close>

text \<open>A definite refusal: the authority answered, and the answer does not grant.\<close>

definition refuses :: "introspect_answer \<Rightarrow> bool" where
  "refuses answer =
     (case answer of Answered status _ (Some _) \<Rightarrow> 200 \<le> status \<and> status < 300 \<and> \<not> grants answer | _ \<Rightarrow> False)"

lemma validate_answer_inactive:
  "(\<exists>err. fst (validate_answer sha256 maxTTL tok answer ttlAt putAt c) = Inl err \<and> errors_is err ErrInactive) \<longleftrightarrow> refuses answer"
  by (auto simp: validate_answer_def refuses_def grants_def ErrUnavailable_def ErrInactive_def Let_def
           split: introspect_answer.split option.split)

lemma ValidateUncached_eq:
  "TrimSpace tok \<noteq> [] \<Longrightarrow>
   ValidateUncached sha256 maxTTL tok x c = validate_answer sha256 maxTTL tok (xc_answer x) (xc_ttlAt x) (xc_putAt x) c"
  by (auto simp: validate_def validate_lookup_def split: option.split)

lemma Revalidate_CheckedAt: "rv_CheckedAt (fst (Revalidate sha256 maxTTL fmt load tok t x c)) = t"
  by (auto simp: Revalidate_def Let_def split: prod.split sum.split)

lemma Revalidate_refused:
  assumes "TrimSpace tok \<noteq> []" "refuses (xc_answer x)"
  shows "rv_Status (fst (Revalidate sha256 maxTTL fmt load tok t x c)) = RevalidationRevoked"
proof -
  obtain err where "fst (ValidateUncached sha256 maxTTL tok x c) = Inl err" "errors_is err ErrInactive"
    using assms validate_answer_inactive unfolding ValidateUncached_eq [OF assms(1)] by blast
  then show ?thesis by (cases "ValidateUncached sha256 maxTTL tok x c") (auto simp: Revalidate_def Let_def)
qed

lemma Revalidate_revoked_only_if:
  assumes "TrimSpace tok \<noteq> []" "rv_Status (fst (Revalidate sha256 maxTTL fmt load tok t x c)) = RevalidationRevoked"
  shows "refuses (xc_answer x) \<or> (\<exists>status cc out. xc_answer x = Answered status cc (Some out) \<and> 0 < ir_Exp out \<and> time_Unix (ir_Exp out) \<le> t)"
proof -
  obtain res c' where v: "validate_answer sha256 maxTTL tok (xc_answer x) (xc_ttlAt x) (xc_putAt x) c = (res, c')" by fastforce
  show ?thesis
  proof (cases res)
    case (Inl err)
    with v assms have "errors_is err ErrInactive"
      by (auto simp: Revalidate_def ValidateUncached_eq Let_def split: if_splits)
    with v Inl validate_answer_inactive show ?thesis by (metis fst_conv)
  next
    case (Inr i)
    with v assms have e: "ri_ExpiresAt i \<noteq> 0" "\<not> t < ri_ExpiresAt i"
      by (auto simp: Revalidate_def ValidateUncached_eq Let_def split: if_splits sum.splits)
    from v Inr obtain status cc out where "xc_answer x = Answered status cc (Some out)" "i = response_identity out"
      by (auto simp: validate_answer_def Let_def split: introspect_answer.splits option.splits if_splits)
    with e show ?thesis by (auto simp: response_identity_def split: if_splits)
  qed
qed

lemma nextDelay_bounds:
  assumes "0 \<le> jitter" "jitter < max 1 (go_div interval 2)" "0 < interval"
  shows "0 < nextDelay interval jitter" "nextDelay interval jitter \<le> interval"
  using assms by (auto simp: nextDelay_def Let_def go_div_nonneg max_def split: if_splits)

lemma loop_interval_pos: "0 < loop_interval maxTTL"
  by (simp add: loop_interval_def DefaultMaxTTL_def)

text \<open>
  The firings of a timer that is reset after each check, which takes at most \<open>rtt\<close>. The random number is below half
  of the interval.
\<close>

fun paced :: "duration \<Rightarrow> duration \<Rightarrow> 'p firing list \<Rightarrow> bool" where
  "paced maxTTL rtt (f # g # fs) \<longleftrightarrow>
     0 \<le> fi_jitter f \<and> fi_jitter f < max 1 (go_div (loop_interval maxTTL) 2)
     \<and> fi_checkedAt g \<le> fi_checkedAt f + rtt + nextDelay (loop_interval maxTTL) (fi_jitter f)
     \<and> paced maxTTL rtt (g # fs)"
| "paced maxTTL rtt fs \<longleftrightarrow> True"

lemma loop_stops:
  assumes "TrimSpace tok \<noteq> []" "paced maxTTL rtt fs" "0 \<le> rtt" "\<forall>f\<in>set fs. fi_keepGoing f"
    and "\<forall>f\<in>set fs. T \<le> fi_checkedAt f \<longrightarrow> refuses (xc_answer (fi_exchange f))"
    and "\<exists>f\<in>set fs. T \<le> fi_checkedAt f"
  shows "\<exists>rs r. map fst (fst (RevalidateLoop sha256 maxTTL fmt tok fs c)) = rs @ [r] \<and> ShouldDisconnect r
           \<and> (\<forall>r'\<in>set rs. \<not> ShouldDisconnect r') \<and> rv_CheckedAt r \<le> max (fi_checkedAt (hd fs)) (T + rtt + loop_interval maxTTL)"
  using assms
proof (induction fs arbitrary: c)
  case (Cons f fs)
  let ?R = "Revalidate sha256 maxTTL fmt (fi_load f) tok (fi_checkedAt f) (fi_exchange f) c"
  obtain res c' where R: "?R = (res, c')" by fastforce
  have at: "rv_CheckedAt res = fi_checkedAt f"
    using Revalidate_CheckedAt [of sha256 maxTTL fmt "fi_load f" tok "fi_checkedAt f" "fi_exchange f" c] R by simp
  show ?case
  proof (cases "ShouldDisconnect res")
    case True
    with R at show ?thesis by (intro exI [of _ "[]"] exI [of _ res]) (simp add: ShouldDisconnect_def)
  next
    case False
    with R Cons.prems Revalidate_refused [OF Cons.prems(1), of "fi_exchange f" sha256 maxTTL fmt "fi_load f" "fi_checkedAt f" c]
    have early: "fi_checkedAt f < T" by (auto simp: ShouldDisconnect_def not_less [symmetric])
    then obtain g gs where fs: "fs = g # gs" using Cons.prems(6) by (cases fs) auto
    have "fi_checkedAt g \<le> T + rtt + loop_interval maxTTL"
      using Cons.prems(2) early nextDelay_bounds(2) [of "fi_jitter f" "loop_interval maxTTL"] loop_interval_pos [of maxTTL]
      unfolding fs by simp
    moreover obtain rs r where "map fst (fst (RevalidateLoop sha256 maxTTL fmt tok fs c')) = rs @ [r]" "ShouldDisconnect r"
      "\<forall>r'\<in>set rs. \<not> ShouldDisconnect r'" "rv_CheckedAt r \<le> max (fi_checkedAt g) (T + rtt + loop_interval maxTTL)"
      using Cons.IH [of c'] Cons.prems early unfolding fs by auto
    ultimately show ?thesis
      using R False Cons.prems(4)
      by (intro exI [of _ "res # rs"] exI [of _ r]) (auto simp: ShouldDisconnect_def split: prod.split)
  qed
qed simp

lemma loop_results:
  assumes "(r, d) \<in> set (fst (RevalidateLoop sha256 maxTTL fmt tok fs c))"
  shows "\<exists>f c'. f \<in> set fs \<and> r = fst (Revalidate sha256 maxTTL fmt (fi_load f) tok (fi_checkedAt f) (fi_exchange f) c')"
  using assms
proof (induction fs arbitrary: c)
  case (Cons f fs)
  then show ?case by (auto split: prod.splits if_splits) (metis fst_conv)+
qed simp


text \<open>Interval 100, checks taking up to 5: the token is revoked at 60, an outage at 52 does not matter, the check at 120 closes.\<close>

definition demo_firing :: "go_time \<Rightarrow> introspect_answer \<Rightarrow> string firing" where
  "demo_firing t answer = \<lparr>fi_checkedAt = t, fi_exchange = \<lparr>xc_lookupAt = t, xc_answer = answer, xc_ttlAt = t, xc_putAt = t\<rparr>,
     fi_load = load_subject, fi_keepGoing = True, fi_jitter = 15\<rparr>"


end
