(* ===== verification/Go_Jwt.thy ===== *)
theory Go_Jwt
  imports Go_Encoding
begin

text \<open>
  What the components use of \<^verbatim>\<open>github.com/golang-jwt/jwt/v5\<close>: the header of a token, the registered claims and the
  precision of dates. The library itself is a parameter of the code that calls it.
\<close>

section \<open>Headers\<close>

text \<open>A header value is absent, a string, or something else, of which its printed form is kept.\<close>

datatype header_value = HAbsent | HString string | HOther string

record jwt_header =
  jh_alg :: string
  jh_typ :: header_value
  jh_kid :: header_value

primrec header_string :: "header_value \<Rightarrow> string" where
  "header_string HAbsent = []"
| "header_string (HString s) = s"
| "header_string (HOther s) = []"

primrec header_text :: "header_value \<Rightarrow> string" where
  "header_text HAbsent = ''<nil>''"
| "header_text (HString s) = s"
| "header_text (HOther s) = s"

section \<open>Registered claims\<close>

text \<open>\<^verbatim>\<open>jwt.NewNumericDate\<close> truncates to the second.\<close>

definition NewNumericDate :: "go_time \<Rightarrow> go_time" where
  "NewNumericDate t = t - t mod second"

text \<open>The claims of \<^verbatim>\<open>jwt.RegisteredClaims\<close> that the code sets or reads; an absent date is \<open>None\<close>.\<close>

record registered_claims =
  rc_Issuer :: string
  rc_Subject :: string
  rc_ExpiresAt :: "go_time option"
  rc_NotBefore :: "go_time option"
  rc_IssuedAt :: "go_time option"
  rc_ID :: string

text \<open>The library's check of dates, without leeway: not expired, and not before its time.\<close>

definition rc_in_window :: "registered_claims \<Rightarrow> go_time \<Rightarrow> bool" where
  "rc_in_window c now \<longleftrightarrow> (case rc_ExpiresAt c of None \<Rightarrow> True | Some e \<Rightarrow> now < e)
     \<and> (case rc_NotBefore c of None \<Rightarrow> True | Some n \<Rightarrow> \<not> now < n)"

lemma NewNumericDate_le: "NewNumericDate t \<le> t" "t - second < NewNumericDate t"
  using pos_mod_bound [of second t] by (simp_all add: NewNumericDate_def)

end
