(* ===== verification/Tokens.thy ===== *)
theory Tokens
  imports Auth Go_Jwt
begin

text \<open>
  Session tokens: the manager of \<^verbatim>\<open>src/platform/auth/jwt.go\<close> with its key ring, the signing method of
  \<^verbatim>\<open>src/platform/auth/mldsa.go\<close>, and the gates on claims of \<^verbatim>\<open>context.go\<close>, \<^verbatim>\<open>require.go\<close> and \<^verbatim>\<open>entitlements.go\<close>.

  Parameters, collected in \<open>jose_lib\<close>: the JWT library (building a signed token, reading one, parsing one with a key
  function and the registered methods), the ML-DSA-65 routines, HMAC and SHA-256. A claim set is the registered claims
  and the JSON object of the others, so that the struct tags of the code are part of the model. A key is its bytes; a
  nil pointer is \<open>None\<close>. Dereferencing one is the runtime's error value, which no manager made by the constructor
  reaches. The clock and the random token identifier are arguments.
\<close>

section \<open>The libraries\<close>

datatype sign_key = MldsaPrivate "string option" | MldsaPublic "string option" | HmacKey string

type_synonym claim_set = "registered_claims \<times> (string, json) gomap"

type_synonym verify_method = "string \<Rightarrow> string \<Rightarrow> sign_key \<Rightarrow> go_error option"

record jose_lib =
  jo_SignedString :: "jwt_header \<Rightarrow> claim_set \<Rightarrow> (string \<Rightarrow> string result) \<Rightarrow> string result"
  jo_ParseUnverified :: "string \<Rightarrow> (jwt_header \<times> claim_set \<times> string \<times> string) result"
  jo_ParseWithClaims ::
    "(string \<Rightarrow> verify_method) \<Rightarrow> string \<Rightarrow> go_time \<Rightarrow> (jwt_header \<Rightarrow> sign_key result) \<Rightarrow> (jwt_header \<times> claim_set \<times> bool) result"
  jo_builtin :: "string \<Rightarrow> verify_method"
  jo_HMAC :: "string \<Rightarrow> string \<Rightarrow> string"
  jo_SHA256 :: "string \<Rightarrow> string"
  jo_MLDSA_SignTo :: "string \<Rightarrow> string \<Rightarrow> string result"
  jo_MLDSA_Verify :: "string \<Rightarrow> string \<Rightarrow> string \<Rightarrow> bool"
  jo_MLDSA_NewKeyFromSeed :: "string \<Rightarrow> string \<times> string"

definition jwt_InvalidKeyType :: go_error where "jwt_InvalidKeyType = ErrVar ''key is of invalid type''"
definition jwt_SignatureInvalid :: go_error where "jwt_SignatureInvalid = ErrVar ''signature is invalid''"
definition nil_dereference :: go_error where
  "nil_dereference = ErrVar ''runtime error: invalid memory address or nil pointer dereference''"

section \<open>The signing method\<close>

definition MLDSA65_Alg :: string where "MLDSA65_Alg = ''ML-DSA-65''"

definition MLDSA65_Sign :: "jose_lib \<Rightarrow> string \<Rightarrow> sign_key \<Rightarrow> string result" where
  "MLDSA65_Sign L signingString key =
     (case key of MldsaPrivate (Some sk) \<Rightarrow> jo_MLDSA_SignTo L sk signingString | _ \<Rightarrow> Inl jwt_InvalidKeyType)"

definition MLDSA65_Verify :: "jose_lib \<Rightarrow> verify_method" where
  "MLDSA65_Verify L signingString sig key =
     (case key of
        MldsaPublic (Some pk) \<Rightarrow> if jo_MLDSA_Verify L pk signingString sig then None else Some jwt_SignatureInvalid
      | _ \<Rightarrow> Some jwt_InvalidKeyType)"

text \<open>The registered methods: the package's \<^verbatim>\<open>init\<close> adds its own to those of the library.\<close>

definition registered_methods :: "jose_lib \<Rightarrow> string \<Rightarrow> verify_method" where
  "registered_methods L alg = (if alg = MLDSA65_Alg then MLDSA65_Verify L else jo_builtin L alg)"

section \<open>Claims\<close>

record token_claims =
  tc_Registered :: registered_claims
  tc_UserID :: string
  tc_CompanyID :: string
  tc_CompanyIDs :: "string list"
  tc_Role :: string
  tc_RoleLevel :: int
  tc_Scopes :: "string list"
  tc_HouseholdID :: string
  tc_ChildID :: string
  tc_ChildMode :: bool
  tc_Entitlements :: "string list"

text \<open>The JSON of the claims by their struct tags.\<close>

definition omitempty :: "string \<Rightarrow> bool \<Rightarrow> json \<Rightarrow> (string, json) gomap" where
  "omitempty k zero v = (if zero then [] else [(k, v)])"

definition jstrings :: "string list \<Rightarrow> json" where
  "jstrings xs = JArray (map JString xs)"

definition claims_json :: "token_claims \<Rightarrow> (string, json) gomap" where
  "claims_json c =
     [(''uid'', JString (tc_UserID c)), (''cid'', JString (tc_CompanyID c))]
     @ omitempty ''cids'' (tc_CompanyIDs c = []) (jstrings (tc_CompanyIDs c))
     @ [(''role'', JString (tc_Role c)), (''rlvl'', JNumber (show_int (tc_RoleLevel c)))]
     @ omitempty ''scopes'' (tc_Scopes c = []) (jstrings (tc_Scopes c))
     @ omitempty ''hid'' (tc_HouseholdID c = []) (JString (tc_HouseholdID c))
     @ omitempty ''child_id'' (tc_ChildID c = []) (JString (tc_ChildID c))
     @ omitempty ''child_mode'' (\<not> tc_ChildMode c) (JBool (tc_ChildMode c))
     @ omitempty ''ent'' (tc_Entitlements c = []) (jstrings (tc_Entitlements c))"

text \<open>Decoding a field into its Go type; an absent field and null leave the zero value, another type is an error.\<close>

definition field_string :: "(string, json) gomap \<Rightarrow> string \<Rightarrow> string option" where
  "field_string m k = (case gm_get m k of None \<Rightarrow> Some [] | Some JNull \<Rightarrow> Some [] | Some (JString s) \<Rightarrow> Some s | Some _ \<Rightarrow> None)"

fun json_texts :: "json list \<Rightarrow> string list option" where
  "json_texts [] = Some []"
| "json_texts (JString s # vs) = map_option ((#) s) (json_texts vs)"
| "json_texts (JNull # vs) = map_option ((#) []) (json_texts vs)"
| "json_texts (v # vs) = None"

definition field_strings :: "(string, json) gomap \<Rightarrow> string \<Rightarrow> string list option" where
  "field_strings m k = (case gm_get m k of None \<Rightarrow> Some [] | Some JNull \<Rightarrow> Some [] | Some (JArray vs) \<Rightarrow> json_texts vs | Some _ \<Rightarrow> None)"

definition field_int :: "(string, json) gomap \<Rightarrow> string \<Rightarrow> int option" where
  "field_int m k = (case gm_get m k of None \<Rightarrow> Some 0 | Some JNull \<Rightarrow> Some 0 | Some (JNumber n) \<Rightarrow> Atoi n | Some _ \<Rightarrow> None)"

definition field_bool :: "(string, json) gomap \<Rightarrow> string \<Rightarrow> bool option" where
  "field_bool m k = (case gm_get m k of None \<Rightarrow> Some False | Some JNull \<Rightarrow> Some False | Some (JBool b) \<Rightarrow> Some b | Some _ \<Rightarrow> None)"

definition claims_of_json :: "claim_set \<Rightarrow> token_claims option" where
  "claims_of_json cs =
     (let m = snd cs
      in case (field_string m ''uid'', field_string m ''cid'', field_strings m ''cids'', field_string m ''role'', field_int m ''rlvl'',
               field_strings m ''scopes'', field_string m ''hid'', field_string m ''child_id'', field_bool m ''child_mode'', field_strings m ''ent'') of
           (Some uid, Some cid, Some cids, Some role, Some rlvl, Some scopes, Some hid, Some child, Some mode, Some ent) \<Rightarrow>
             Some \<lparr>tc_Registered = fst cs, tc_UserID = uid, tc_CompanyID = cid, tc_CompanyIDs = cids, tc_Role = role,
                   tc_RoleLevel = rlvl, tc_Scopes = scopes, tc_HouseholdID = hid, tc_ChildID = child, tc_ChildMode = mode,
                   tc_Entitlements = ent\<rparr>
         | _ \<Rightarrow> None)"

definition Claims_HasScope :: "token_claims \<Rightarrow> string \<Rightarrow> bool" where
  "Claims_HasScope c scope \<longleftrightarrow> scope \<in> set (tc_Scopes c)"

definition Claims_OnlyHasScope :: "token_claims \<Rightarrow> string \<Rightarrow> bool" where
  "Claims_OnlyHasScope c scope \<longleftrightarrow> length (tc_Scopes c) = 1 \<and> tc_Scopes c ! 0 = scope"

definition Claims_HasEntitlement :: "token_claims \<Rightarrow> string \<Rightarrow> bool" where
  "Claims_HasEntitlement c entitlement \<longleftrightarrow> entitlement \<in> set (tc_Entitlements c)"

section \<open>The key ring\<close>

record key_entry =
  ke_PrivateKey :: "string option"
  ke_PublicKey :: "string option"

record jwt_config =
  jf_KeySeedPath :: string
  jf_KeySeedPaths :: "(string, string) gomap"
  jf_ActiveKID :: string
  jf_Issuer :: string
  jf_AccessTokenExpiry :: duration
  jf_RefreshTokenExpiry :: duration

record jwt_manager =
  jm_keys :: "(string, key_entry) gomap"
  jm_activeKID :: string
  jm_config :: jwt_config

definition DefaultJWTConfig :: jwt_config where
  "DefaultJWTConfig =
     \<lparr>jf_KeySeedPath = [], jf_KeySeedPaths = [], jf_ActiveKID = [], jf_Issuer = ''eden-platform'',
      jf_AccessTokenExpiry = 15 * minute, jf_RefreshTokenExpiry = 7 * 24 * 60 * minute\<rparr>"

definition mldsa_SeedSize :: nat where "mldsa_SeedSize = 32"

definition loadKeySeed :: "jose_lib \<Rightarrow> (string \<Rightarrow> string result) \<Rightarrow> string \<Rightarrow> (string \<times> string) result" where
  "loadKeySeed L readFile path =
     (case readFile path of
        Inl err \<Rightarrow> Inl (ErrWrap ''read key seed: '' err [])
      | Inr data \<Rightarrow>
          if length data \<noteq> mldsa_SeedSize
          then Inl (ErrMsg (''key seed must be exactly '' @ show_nat mldsa_SeedSize @ '' bytes, got '' @ show_nat (length data)))
          else Inr (jo_MLDSA_NewKeyFromSeed L data))"

definition entry_of_pair :: "string \<times> string \<Rightarrow> key_entry" where
  "entry_of_pair p = \<lparr>ke_PrivateKey = Some (snd p), ke_PublicKey = Some (fst p)\<rparr>"

fun load_key_seeds ::
  "jose_lib \<Rightarrow> (string \<Rightarrow> string result) \<Rightarrow> (string, string) gomap \<Rightarrow> (string, key_entry) gomap \<Rightarrow> (string, key_entry) gomap result" where
  "load_key_seeds L readFile [] keys = Inr keys"
| "load_key_seeds L readFile ((kid, path) # paths) keys =
     (case loadKeySeed L readFile path of
        Inl err \<Rightarrow> Inl (ErrWrap (''load key seed for kid '' @ quoted kid @ '': '') err [])
      | Inr p \<Rightarrow> load_key_seeds L readFile paths (gm_put kid (entry_of_pair p) keys))"

definition default_config :: "jwt_config \<Rightarrow> jwt_config" where
  "default_config cfg =
     cfg\<lparr>jf_Issuer := (if jf_Issuer cfg = [] then ''eden-platform'' else jf_Issuer cfg),
         jf_AccessTokenExpiry := (if jf_AccessTokenExpiry cfg = 0 then 15 * minute else jf_AccessTokenExpiry cfg),
         jf_RefreshTokenExpiry := (if jf_RefreshTokenExpiry cfg = 0 then 7 * 24 * 60 * minute else jf_RefreshTokenExpiry cfg)\<rparr>"

definition NewJWTManager ::
  "jose_lib \<Rightarrow> (string \<Rightarrow> string result) \<Rightarrow> (string \<times> string) result \<Rightarrow> jwt_config \<Rightarrow> jwt_manager result" where
  "NewJWTManager L readFile GenerateKeyPair cfg0 =
     (let cfg = default_config cfg0;
          ephemeral = (case GenerateKeyPair of
              Inl err \<Rightarrow> Inl (ErrWrap ''generate key pair: '' err [])
            | Inr p \<Rightarrow> Inr \<lparr>jm_keys = gm_put ''ephemeral'' (entry_of_pair p) [], jm_activeKID = ''ephemeral'', jm_config = cfg\<rparr>)
      in if jf_KeySeedPaths cfg \<noteq> [] then
           (case load_key_seeds L readFile (jf_KeySeedPaths cfg) [] of
              Inl err \<Rightarrow> Inl err
            | Inr keys \<Rightarrow>
                if jf_ActiveKID cfg = [] then Inl (ErrMsg ''ActiveKID must be set when KeySeedPaths is non-empty'')
                else if gm_get keys (jf_ActiveKID cfg) = None
                then Inl (ErrMsg (''ActiveKID '' @ quoted (jf_ActiveKID cfg) @ '' not found in KeySeedPaths''))
                else Inr \<lparr>jm_keys = keys, jm_activeKID = jf_ActiveKID cfg, jm_config = cfg\<rparr>)
         else if jf_KeySeedPath cfg \<noteq> [] then
           (case loadKeySeed L readFile (jf_KeySeedPath cfg) of
              Inr p \<Rightarrow> Inr \<lparr>jm_keys = gm_put ''default'' (entry_of_pair p) [], jm_activeKID = ''default'', jm_config = cfg\<rparr>
            | Inl _ \<Rightarrow> ephemeral)
         else ephemeral)"

definition PublicKeys :: "jwt_manager \<Rightarrow> (string, string option) gomap" where
  "PublicKeys m = map (\<lambda>(kid, e). (kid, ke_PublicKey e)) (jm_keys m)"

definition ActiveKID :: "jwt_manager \<Rightarrow> string" where "ActiveKID m = jm_activeKID m"

definition ActivePrivateKey :: "jwt_manager \<Rightarrow> string option" where
  "ActivePrivateKey m = (case gm_get (jm_keys m) (jm_activeKID m) of None \<Rightarrow> None | Some e \<Rightarrow> ke_PrivateKey e)"

definition keyfunc :: "jwt_manager \<Rightarrow> jwt_header \<Rightarrow> sign_key result" where
  "keyfunc m h =
     (if jh_alg h \<noteq> MLDSA65_Alg then Inl (ErrMsg (''unexpected signing method: '' @ jh_alg h))
      else if header_string (jh_kid h) = []
      then (case gm_get (jm_keys m) (jm_activeKID m) of
              None \<Rightarrow> Inl nil_dereference
            | Some e \<Rightarrow> Inr (MldsaPublic (ke_PublicKey e)))
      else (case gm_get (jm_keys m) (header_string (jh_kid h)) of
              None \<Rightarrow> Inl (ErrMsg (''unknown kid: '' @ header_string (jh_kid h)))
            | Some e \<Rightarrow> Inr (MldsaPublic (ke_PublicKey e))))"

section \<open>Creating tokens\<close>

definition sign_active :: "jose_lib \<Rightarrow> jwt_manager \<Rightarrow> claim_set \<Rightarrow> string result" where
  "sign_active L m cs =
     (case gm_get (jm_keys m) (jm_activeKID m) of
        None \<Rightarrow> Inl nil_dereference
      | Some e \<Rightarrow>
          jo_SignedString L \<lparr>jh_alg = MLDSA65_Alg, jh_typ = HString ''JWT'', jh_kid = HString (jm_activeKID m)\<rparr> cs
            (\<lambda>s. MLDSA65_Sign L s (MldsaPrivate (ke_PrivateKey e))))"

definition registered :: "jwt_manager \<Rightarrow> go_time \<Rightarrow> string \<Rightarrow> string \<Rightarrow> duration \<Rightarrow> registered_claims" where
  "registered m now jti subject expiry =
     \<lparr>rc_Issuer = jf_Issuer (jm_config m), rc_Subject = subject, rc_ExpiresAt = Some (NewNumericDate (now + expiry)),
      rc_NotBefore = None, rc_IssuedAt = Some (NewNumericDate now), rc_ID = jti\<rparr>"

definition access_claims ::
  "jwt_manager \<Rightarrow> go_time \<Rightarrow> string \<Rightarrow> string \<Rightarrow> string \<Rightarrow> string \<Rightarrow> int \<Rightarrow> string list \<Rightarrow> string list \<Rightarrow> token_claims" where
  "access_claims m now jti userID companyID role roleLevel companyIDs scopes =
     \<lparr>tc_Registered = registered m now jti userID (jf_AccessTokenExpiry (jm_config m)),
      tc_UserID = userID, tc_CompanyID = companyID, tc_CompanyIDs = companyIDs, tc_Role = role, tc_RoleLevel = roleLevel,
      tc_Scopes = scopes, tc_HouseholdID = [], tc_ChildID = [], tc_ChildMode = False, tc_Entitlements = []\<rparr>"

definition CreateAccessTokenWithScopes ::
  "jose_lib \<Rightarrow> jwt_manager \<Rightarrow> go_time \<Rightarrow> string \<Rightarrow> string \<Rightarrow> string \<Rightarrow> string \<Rightarrow> int \<Rightarrow> string list \<Rightarrow> string list \<Rightarrow> string result" where
  "CreateAccessTokenWithScopes L m now jti userID companyID role roleLevel companyIDs scopes =
     (let c = access_claims m now jti userID companyID role roleLevel companyIDs scopes
      in sign_active L m (tc_Registered c, claims_json c))"

definition CreateAccessToken ::
  "jose_lib \<Rightarrow> jwt_manager \<Rightarrow> go_time \<Rightarrow> string \<Rightarrow> string \<Rightarrow> string \<Rightarrow> string \<Rightarrow> int \<Rightarrow> string list \<Rightarrow> string result" where
  "CreateAccessToken L m now jti userID companyID role roleLevel companyIDs =
     CreateAccessTokenWithScopes L m now jti userID companyID role roleLevel companyIDs []"

definition household_claims :: "jwt_manager \<Rightarrow> go_time \<Rightarrow> string \<Rightarrow> string \<Rightarrow> string \<Rightarrow> string \<Rightarrow> bool \<Rightarrow> token_claims" where
  "household_claims m now jti userID householdID childID childMode =
     \<lparr>tc_Registered = registered m now jti userID (jf_AccessTokenExpiry (jm_config m)),
      tc_UserID = userID, tc_CompanyID = [], tc_CompanyIDs = [], tc_Role = [], tc_RoleLevel = 0,
      tc_Scopes = [], tc_HouseholdID = householdID, tc_ChildID = childID, tc_ChildMode = childMode, tc_Entitlements = []\<rparr>"

definition CreateHouseholdAccessToken ::
  "jose_lib \<Rightarrow> jwt_manager \<Rightarrow> go_time \<Rightarrow> string \<Rightarrow> string \<Rightarrow> string \<Rightarrow> string \<Rightarrow> bool \<Rightarrow> string result" where
  "CreateHouseholdAccessToken L m now jti userID householdID childID childMode =
     (let c = household_claims m now jti userID householdID childID childMode
      in sign_active L m (tc_Registered c, claims_json c))"

definition CreateRefreshToken :: "jose_lib \<Rightarrow> jwt_manager \<Rightarrow> go_time \<Rightarrow> string \<Rightarrow> string \<Rightarrow> string result" where
  "CreateRefreshToken L m now jti userID = sign_active L m (registered m now jti userID (jf_RefreshTokenExpiry (jm_config m)), [])"

definition CreateShortLivedToken :: "jose_lib \<Rightarrow> jwt_manager \<Rightarrow> go_time \<Rightarrow> string \<Rightarrow> string \<Rightarrow> duration \<Rightarrow> string result" where
  "CreateShortLivedToken L m now jti subject expiry = sign_active L m (registered m now jti subject expiry, [])"

definition stateHMACKey :: "jose_lib \<Rightarrow> jwt_manager \<Rightarrow> string result" where
  "stateHMACKey L m =
     (case gm_get (jm_keys m) (jm_activeKID m) of
        None \<Rightarrow> Inl (ErrMsg ''no active signing key'')
      | Some e \<Rightarrow>
          (case ke_PrivateKey e of
             None \<Rightarrow> Inl (ErrMsg ''no active signing key'')
           | Some sk \<Rightarrow> Inr (jo_SHA256 L (''eden-platform/short-lived-hs256/v1'' @ [CHR 0x00] @ sk))))"

definition CreateCompactShortLivedToken :: "jose_lib \<Rightarrow> jwt_manager \<Rightarrow> go_time \<Rightarrow> string \<Rightarrow> string \<Rightarrow> duration \<Rightarrow> string result" where
  "CreateCompactShortLivedToken L m now jti subject expiry =
     (case stateHMACKey L m of
        Inl err \<Rightarrow> Inl err
      | Inr key \<Rightarrow>
          jo_SignedString L \<lparr>jh_alg = ''HS256'', jh_typ = HString ''JWT'', jh_kid = HAbsent\<rparr>
            (registered m now jti subject expiry, []) (\<lambda>s. Inr (jo_HMAC L key s)))"

section \<open>Validating tokens\<close>

text \<open>
  The library decodes the claims into the caller's struct before it looks for the key; the model decodes what the parser
  returns, which gives the same tokens and differs in the text of an error only.
\<close>

definition parse_claims :: "jose_lib \<Rightarrow> jwt_manager \<Rightarrow> go_time \<Rightarrow> string \<Rightarrow> (claim_set \<times> bool) result" where
  "parse_claims L m now tokenStr = map_sum id snd (jo_ParseWithClaims L (registered_methods L) tokenStr now (keyfunc m))"

definition ValidateAccessToken :: "jose_lib \<Rightarrow> jwt_manager \<Rightarrow> go_time \<Rightarrow> string \<Rightarrow> token_claims result" where
  "ValidateAccessToken L m now tokenStr =
     (case parse_claims L m now tokenStr of
        Inl err \<Rightarrow> Inl (ErrWrap ''parse access token: '' err [])
      | Inr (cs, valid) \<Rightarrow>
          (case claims_of_json cs of
             None \<Rightarrow> Inl (ErrWrap ''parse access token: '' (ErrMsg ''token is malformed: could not JSON decode claim'') [])
           | Some claims \<Rightarrow> if \<not> valid then Inl (ErrMsg ''invalid access token'') else Inr claims))"

definition ValidateRefreshToken :: "jose_lib \<Rightarrow> jwt_manager \<Rightarrow> go_time \<Rightarrow> string \<Rightarrow> registered_claims result" where
  "ValidateRefreshToken L m now tokenStr =
     (case parse_claims L m now tokenStr of
        Inl err \<Rightarrow> Inl (ErrWrap ''parse refresh token: '' err [])
      | Inr (cs, valid) \<Rightarrow> if \<not> valid then Inl (ErrMsg ''invalid refresh token'') else Inr (fst cs))"

definition ValidateShortLivedToken :: "jose_lib \<Rightarrow> jwt_manager \<Rightarrow> go_time \<Rightarrow> string \<Rightarrow> string result" where
  "ValidateShortLivedToken L m now tokenStr =
     (case parse_claims L m now tokenStr of
        Inl err \<Rightarrow> Inl (ErrWrap ''parse short-lived token: '' err [])
      | Inr (cs, valid) \<Rightarrow> if \<not> valid then Inl (ErrMsg ''invalid token'') else Inr (rc_Subject (fst cs)))"

definition ValidateCompactShortLivedToken :: "jose_lib \<Rightarrow> jwt_manager \<Rightarrow> go_time \<Rightarrow> string \<Rightarrow> string result" where
  "ValidateCompactShortLivedToken L m now tokenStr =
     (case stateHMACKey L m of
        Inl err \<Rightarrow> Inl err
      | Inr key \<Rightarrow>
          (case jo_ParseWithClaims L (registered_methods L) tokenStr now
                  (\<lambda>h. if jh_alg h \<noteq> ''HS256'' then Inl (ErrMsg (''unexpected signing method: '' @ jh_alg h)) else Inr (HmacKey key)) of
             Inl err \<Rightarrow> Inl (ErrWrap ''parse compact short-lived token: '' err [])
           | Inr (h, cs, valid) \<Rightarrow> if \<not> valid then Inl (ErrMsg ''invalid token'') else Inr (rc_Subject (fst cs))))"

section \<open>Gates on the claims of a request\<close>

text \<open>The claims a context carries, if any; \<^verbatim>\<open>uuid.Parse\<close> is a parameter.\<close>

definition ErrNoCompany :: go_error where "ErrNoCompany = ErrVar ''auth: no company in context''"
definition ErrNoHousehold :: go_error where "ErrNoHousehold = ErrVar ''auth: no household in context''"
definition ErrNotParentMode :: go_error where "ErrNotParentMode = ErrVar ''auth: not in parent mode''"
definition ErrNotChildMode :: go_error where "ErrNotChildMode = ErrVar ''auth: not in child mode''"
definition ErrNoClaims :: go_error where "ErrNoClaims = ErrVar ''auth: no claims in context''"
definition ErrMissingEntitlement :: go_error where "ErrMissingEntitlement = ErrVar ''auth: missing entitlement''"

definition require_id ::
  "(string \<Rightarrow> uuid result) \<Rightarrow> (token_claims \<Rightarrow> string) \<Rightarrow> go_error \<Rightarrow> token_claims option \<Rightarrow> uuid result" where
  "require_id parse field err ctx =
     (case ctx of
        None \<Rightarrow> Inl err
      | Some claims \<Rightarrow>
          if field claims = [] then Inl err
          else (case parse (field claims) of Inl _ \<Rightarrow> Inl err | Inr i \<Rightarrow> Inr i))"

definition RequireCompany :: "(string \<Rightarrow> uuid result) \<Rightarrow> token_claims option \<Rightarrow> uuid result" where
  "RequireCompany parse ctx = require_id parse tc_CompanyID ErrNoCompany ctx"

definition RequireUser :: "(string \<Rightarrow> uuid result) \<Rightarrow> token_claims option \<Rightarrow> uuid result" where
  "RequireUser parse ctx = require_id parse tc_UserID ErrNoCompany ctx"

definition RequireHousehold :: "(string \<Rightarrow> uuid result) \<Rightarrow> token_claims option \<Rightarrow> uuid result" where
  "RequireHousehold parse ctx = require_id parse tc_HouseholdID ErrNoHousehold ctx"

definition RequireParentMode :: "token_claims option \<Rightarrow> token_claims result" where
  "RequireParentMode ctx =
     (case ctx of None \<Rightarrow> Inl ErrNoHousehold | Some claims \<Rightarrow> if tc_ChildMode claims then Inl ErrNotParentMode else Inr claims)"

definition RequireChildMode :: "token_claims option \<Rightarrow> token_claims result" where
  "RequireChildMode ctx =
     (case ctx of None \<Rightarrow> Inl ErrNoHousehold | Some claims \<Rightarrow> if \<not> tc_ChildMode claims then Inl ErrNotChildMode else Inr claims)"

definition RequirePlan :: "token_claims option \<Rightarrow> string \<Rightarrow> token_claims result" where
  "RequirePlan ctx entitlement =
     (case ctx of
        None \<Rightarrow> Inl ErrNoClaims
      | Some claims \<Rightarrow>
          if \<not> Claims_HasEntitlement claims entitlement then Inl (ErrWrap [] ErrMissingEntitlement ('' '' @ quoted entitlement))
          else Inr claims)"

end
