(* ===== verification/Token_Properties.thy ===== *)
theory Token_Properties
  imports Tokens
begin

text \<open>
  Session tokens survive their trip: the claims of a token are those it was created with, under every manager whose ring
  still holds the key, for exactly its lifetime. The theory also holds what later theories use of compact tokens.
\<close>

section \<open>What is assumed of the libraries\<close>

text \<open>
  The parser takes exactly the tokens it can read, whose key function yields a key under which the registered method of
  their algorithm finds the signature good, and that are in their window. A token built by the library can be read back,
  with the signature its method gave. HMAC verification compares the code.
\<close>

definition jose_parser_ok :: "jose_lib \<Rightarrow> bool" where
  "jose_parser_ok L \<longleftrightarrow>
     (\<forall>meth tok now kf.
        case jo_ParseUnverified L tok of
          Inl _ \<Rightarrow> \<exists>err. jo_ParseWithClaims L meth tok now kf = Inl err
        | Inr (h, cs, s, sig) \<Rightarrow>
            if (\<exists>k. kf h = Inr k \<and> meth (jh_alg h) s sig k = None) \<and> rc_in_window (fst cs) now
            then jo_ParseWithClaims L meth tok now kf = Inr (h, cs, True)
            else \<exists>err. jo_ParseWithClaims L meth tok now kf = Inl err)"

definition jose_builder_ok :: "jose_lib \<Rightarrow> bool" where
  "jose_builder_ok L \<longleftrightarrow>
     (\<forall>h cs sign tok. jo_SignedString L h cs sign = Inr tok \<longrightarrow>
        (\<exists>s sig. sign s = Inr sig \<and> jo_ParseUnverified L tok = Inr (h, cs, s, sig)))"

definition jose_ok :: "jose_lib \<Rightarrow> bool" where
  "jose_ok L \<longleftrightarrow> jose_parser_ok L \<and> jose_builder_ok L
     \<and> (\<forall>s sig key. jo_builtin L ''HS256'' s sig (HmacKey key) = None \<longleftrightarrow> sig = jo_HMAC L key s)"

text \<open>A signature made with the private key verifies under the public key of the same pair.\<close>

definition mldsa_pair :: "jose_lib \<Rightarrow> string \<times> string \<Rightarrow> bool" where
  "mldsa_pair L p \<longleftrightarrow> (\<forall>s sig. jo_MLDSA_SignTo L (snd p) s = Inr sig \<longrightarrow> jo_MLDSA_Verify L (fst p) s sig)"

lemma jose_parse:
  assumes "jose_ok L"
  shows "case jo_ParseUnverified L tok of
          Inl _ \<Rightarrow> \<exists>err. jo_ParseWithClaims L meth tok now kf = Inl err
        | Inr (h, cs, s, sig) \<Rightarrow>
            if (\<exists>k. kf h = Inr k \<and> meth (jh_alg h) s sig k = None) \<and> rc_in_window (fst cs) now
            then jo_ParseWithClaims L meth tok now kf = Inr (h, cs, True)
            else \<exists>err. jo_ParseWithClaims L meth tok now kf = Inl err"
proof -
  from assms have "jose_parser_ok L" by (simp add: jose_ok_def)
  then show ?thesis unfolding jose_parser_ok_def by (rule spec [of _ kf, OF spec [of _ now, OF spec [of _ tok, OF spec [of _ meth]]]])
qed

lemma jose_signed:
  assumes "jose_ok L" "jo_SignedString L h cs sign = Inr tok"
  obtains s sig where "sign s = Inr sig" "jo_ParseUnverified L tok = Inr (h, cs, s, sig)"
  using assms unfolding jose_ok_def jose_builder_ok_def by meson

lemma jose_hmac: "jose_ok L \<Longrightarrow> jo_builtin L ''HS256'' s sig (HmacKey key) = None \<longleftrightarrow> sig = jo_HMAC L key s"
  by (simp add: jose_ok_def)

lemma jose_accepts:
  assumes "jose_ok L" "jo_ParseUnverified L tok = Inr (h, cs, s, sig)"
    "kf h = Inr k" "meth (jh_alg h) s sig k = None" "rc_in_window (fst cs) now"
  shows "jo_ParseWithClaims L meth tok now kf = Inr (h, cs, True)"
  using jose_parse [OF assms(1), of meth tok now kf] assms by (simp split: if_splits)

lemma jose_refuses:
  assumes "jose_ok L" "jo_ParseUnverified L tok = Inr (h, cs, s, sig)" "(\<forall>k. kf h \<noteq> Inr k) \<or> \<not> rc_in_window (fst cs) now"
  shows "\<exists>err. jo_ParseWithClaims L meth tok now kf = Inl err"
  using jose_parse [OF assms(1), of meth tok now kf] assms by (auto split: if_splits)

lemma jose_accepted:
  assumes "jose_ok L" "jo_ParseWithClaims L meth tok now kf = Inr (h, cs, v)"
  shows "v \<and> rc_in_window (fst cs) now \<and>
    (\<exists>s sig k. jo_ParseUnverified L tok = Inr (h, cs, s, sig) \<and> kf h = Inr k \<and> meth (jh_alg h) s sig k = None)"
  using jose_parse [OF assms(1), of meth tok now kf] assms(2) by (auto split: sum.splits prod.splits if_splits)

section \<open>Claims as JSON\<close>

lemma json_texts_map: "json_texts (map JString xs) = Some xs"
  by (induction xs) auto

lemma claims_json_roundtrip:
  assumes "- (2 ^ 63) \<le> tc_RoleLevel c" "tc_RoleLevel c < 2 ^ 63"
  shows "claims_of_json (tc_Registered c, claims_json c) = Some c"
proof -
  let ?m = "claims_json c"
  have "field_string ?m ''uid'' = Some (tc_UserID c)" "field_string ?m ''cid'' = Some (tc_CompanyID c)"
    "field_string ?m ''role'' = Some (tc_Role c)" "field_string ?m ''hid'' = Some (tc_HouseholdID c)"
    "field_string ?m ''child_id'' = Some (tc_ChildID c)" "field_bool ?m ''child_mode'' = Some (tc_ChildMode c)"
    "field_strings ?m ''cids'' = Some (tc_CompanyIDs c)" "field_strings ?m ''scopes'' = Some (tc_Scopes c)"
    "field_strings ?m ''ent'' = Some (tc_Entitlements c)"
    by (simp_all add: claims_json_def omitempty_def jstrings_def field_string_def field_strings_def field_bool_def gm_get_def json_texts_map)
  moreover have "field_int ?m ''rlvl'' = Some (tc_RoleLevel c)"
    using Atoi_show_int [OF assms] by (simp add: claims_json_def omitempty_def field_int_def gm_get_def)
  ultimately show ?thesis by (simp add: claims_of_json_def)
qed

text \<open>A token without private claims reads as claims of nobody.\<close>

lemma claims_of_registered:
  "claims_of_json (rc, []) = Some \<lparr>tc_Registered = rc, tc_UserID = [], tc_CompanyID = [], tc_CompanyIDs = [], tc_Role = [],
     tc_RoleLevel = 0, tc_Scopes = [], tc_HouseholdID = [], tc_ChildID = [], tc_ChildMode = False, tc_Entitlements = []\<rparr>"
  by (simp add: claims_of_json_def field_string_def field_strings_def field_int_def field_bool_def)

section \<open>The key ring\<close>

text \<open>A manager whose active key is a pair.\<close>

definition ring_ok :: "jose_lib \<Rightarrow> jwt_manager \<Rightarrow> bool" where
  "ring_ok L m \<longleftrightarrow> jm_activeKID m \<noteq> [] \<and> (\<exists>p. gm_get (jm_keys m) (jm_activeKID m) = Some (entry_of_pair p) \<and> mldsa_pair L p)"

lemma load_key_seeds_pairs:
  assumes "load_key_seeds L readFile paths keys = Inr keys'" "\<And>seed. mldsa_pair L (jo_MLDSA_NewKeyFromSeed L seed)"
    "\<forall>kid e. gm_get keys kid = Some e \<longrightarrow> (\<exists>p. e = entry_of_pair p \<and> mldsa_pair L p)"
  shows "\<forall>kid e. gm_get keys' kid = Some e \<longrightarrow> (\<exists>p. e = entry_of_pair p \<and> mldsa_pair L p)"
  using assms
proof (induction L readFile paths keys rule: load_key_seeds.induct)
  case (2 L readFile kid path paths keys)
  from "2.prems"(1) obtain p where p: "loadKeySeed L readFile path = Inr p"
      "load_key_seeds L readFile paths (gm_put kid (entry_of_pair p) keys) = Inr keys'"
    by (auto split: sum.splits)
  have pair: "mldsa_pair L p" using p(1) "2.prems"(2) by (auto simp: loadKeySeed_def split: sum.splits if_splits)
  show ?case by (rule "2.IH" [OF p]) (use "2.prems" pair in \<open>auto simp del: split_paired_Ex\<close>)
qed simp

lemma NewJWTManager_ring:
  assumes "NewJWTManager L readFile gen cfg = Inr m" "\<And>seed. mldsa_pair L (jo_MLDSA_NewKeyFromSeed L seed)"
    "\<And>p. gen = Inr p \<Longrightarrow> mldsa_pair L p"
  shows "ring_ok L m"
proof (cases "jf_KeySeedPaths (default_config cfg) \<noteq> []")
  case True
  then obtain keys where k: "load_key_seeds L readFile (jf_KeySeedPaths (default_config cfg)) [] = Inr keys"
      "m = \<lparr>jm_keys = keys, jm_activeKID = jf_ActiveKID (default_config cfg), jm_config = default_config cfg\<rparr>"
      "jf_ActiveKID (default_config cfg) \<noteq> []" "gm_get keys (jf_ActiveKID (default_config cfg)) \<noteq> None"
    using assms(1) by (auto simp: NewJWTManager_def Let_def split: sum.splits if_splits)
  then show ?thesis using load_key_seeds_pairs [OF k(1) assms(2)] by (auto simp: ring_ok_def)
next
  case False
  then obtain kid p where "m = \<lparr>jm_keys = gm_put kid (entry_of_pair p) [], jm_activeKID = kid, jm_config = default_config cfg\<rparr>"
      "kid \<noteq> []" "gen = Inr p \<or> (\<exists>seed. jo_MLDSA_NewKeyFromSeed L seed = p)"
    using assms(1) by (auto simp: NewJWTManager_def Let_def loadKeySeed_def split: sum.splits if_splits)
  moreover from this(3) assms(2,3) have "mldsa_pair L p" by blast
  ultimately show ?thesis unfolding ring_ok_def by (intro conjI exI [of _ p]) simp_all
qed

section \<open>Tokens under a ring\<close>

lemma sign_active_read:
  assumes "jose_ok L" "ring_ok L m" "sign_active L m cs = Inr tok"
  obtains e pk s sig where "gm_get (jm_keys m) (jm_activeKID m) = Some e" "ke_PublicKey e = Some pk" "jo_MLDSA_Verify L pk s sig"
    "jo_ParseUnverified L tok = Inr (\<lparr>jh_alg = MLDSA65_Alg, jh_typ = HString ''JWT'', jh_kid = HString (jm_activeKID m)\<rparr>, cs, s, sig)"
proof -
  from assms(2) obtain p where p: "gm_get (jm_keys m) (jm_activeKID m) = Some (entry_of_pair p)" "mldsa_pair L p"
    unfolding ring_ok_def by blast
  from assms(3) p(1) obtain s sig where s: "MLDSA65_Sign L s (MldsaPrivate (Some (snd p))) = Inr sig"
      "jo_ParseUnverified L tok = Inr (\<lparr>jh_alg = MLDSA65_Alg, jh_typ = HString ''JWT'', jh_kid = HString (jm_activeKID m)\<rparr>, cs, s, sig)"
    by (auto simp: sign_active_def entry_of_pair_def elim!: jose_signed [OF assms(1)])
  from s(1) p(2) have "jo_MLDSA_Verify L (fst p) s sig" by (simp add: mldsa_pair_def MLDSA65_Sign_def)
  then show ?thesis by (intro that [OF p(1) _ _ s(2)]) (simp_all add: entry_of_pair_def)
qed

text \<open>A token signed with the active key parses under every ring that has the key, exactly until it expires.\<close>

lemma parse_signed:
  assumes "jose_ok L" "ring_ok L m" "sign_active L m (rc, priv) = Inr tok"
    "gm_get (jm_keys m') (jm_activeKID m) = gm_get (jm_keys m) (jm_activeKID m)"
    "rc_NotBefore rc = None" "rc_ExpiresAt rc = Some e"
  shows "now < e \<Longrightarrow> parse_claims L m' now tok = Inr ((rc, priv), True)" "\<not> now < e \<Longrightarrow> \<exists>err. parse_claims L m' now tok = Inl err"
proof -
  obtain en pk s sig where p: "gm_get (jm_keys m) (jm_activeKID m) = Some en" "ke_PublicKey en = Some pk" "jo_MLDSA_Verify L pk s sig"
    and r: "jo_ParseUnverified L tok = Inr (\<lparr>jh_alg = MLDSA65_Alg, jh_typ = HString ''JWT'', jh_kid = HString (jm_activeKID m)\<rparr>, (rc, priv), s, sig)"
    by (rule sign_active_read [OF assms(1-3)])
  have k: "keyfunc m' \<lparr>jh_alg = MLDSA65_Alg, jh_typ = HString ''JWT'', jh_kid = HString (jm_activeKID m)\<rparr> = Inr (MldsaPublic (Some pk))"
    using assms(2,4) p(1,2) by (simp add: keyfunc_def ring_ok_def)
  show "parse_claims L m' now tok = Inr ((rc, priv), True)" if "now < e"
    using jose_accepts [where kf = "keyfunc m'" and meth = "registered_methods L" and now = now, OF assms(1) r k] that p(3) assms(5,6)
    by (simp add: parse_claims_def registered_methods_def MLDSA65_Verify_def rc_in_window_def)
  show "\<exists>err. parse_claims L m' now tok = Inl err" if "\<not> now < e"
    using jose_refuses [OF assms(1) r, of "keyfunc m'" now "registered_methods L"] that assms(5,6)
    by (auto simp: parse_claims_def rc_in_window_def)
qed

lemma parse_unknown_kid:
  assumes "jose_ok L" "ring_ok L m" "sign_active L m (rc, priv) = Inr tok" "gm_get (jm_keys m') (jm_activeKID m) = None"
  shows "\<exists>err. parse_claims L m' now tok = Inl err"
proof -
  obtain en pk s sig where r: "jo_ParseUnverified L tok = Inr (\<lparr>jh_alg = MLDSA65_Alg, jh_typ = HString ''JWT'', jh_kid = HString (jm_activeKID m)\<rparr>, (rc, priv), s, sig)"
    by (rule sign_active_read [OF assms(1-3)])
  show ?thesis
    using jose_refuses [OF assms(1) r, of "keyfunc m'" now "registered_methods L"] assms(2,4)
    by (auto simp: parse_claims_def keyfunc_def ring_ok_def)
qed

lemma registered_fields [simp]:
  "rc_NotBefore (registered m now jti subject expiry) = None"
  "rc_ExpiresAt (registered m now jti subject expiry) = Some (NewNumericDate (now + expiry))"
  "rc_Subject (registered m now jti subject expiry) = subject" "rc_ID (registered m now jti subject expiry) = jti"
  by (simp_all add: registered_def)

lemma access_claims_fields [simp]:
  "tc_Registered (access_claims m now jti u c r l cs sc) = registered m now jti u (jf_AccessTokenExpiry (jm_config m))"
  "tc_RoleLevel (access_claims m now jti u c r l cs sc) = l" "tc_UserID (access_claims m now jti u c r l cs sc) = u"
  "tc_CompanyID (access_claims m now jti u c r l cs sc) = c"
  by (simp_all add: access_claims_def)

lemma household_claims_fields [simp]:
  "tc_Registered (household_claims m now jti u h c cm) = registered m now jti u (jf_AccessTokenExpiry (jm_config m))"
  "tc_RoleLevel (household_claims m now jti u h c cm) = 0" "tc_UserID (household_claims m now jti u h c cm) = u"
  "tc_CompanyID (household_claims m now jti u h c cm) = []"
  by (simp_all add: household_claims_def)

section \<open>The lifetime of an access token\<close>

lemma ValidateAccessToken_parsed:
  assumes "parse_claims L m now tok = Inr ((tc_Registered c, claims_json c), True)" "- (2 ^ 63) \<le> tc_RoleLevel c" "tc_RoleLevel c < 2 ^ 63"
  shows "ValidateAccessToken L m now tok = Inr c"
  using assms(1) claims_json_roundtrip [OF assms(2,3)] by (simp add: ValidateAccessToken_def)

lemma access_token_window:
  assumes "jose_ok L" "ring_ok L m" "sign_active L m (tc_Registered c, claims_json c) = Inr tok" "- (2 ^ 63) \<le> tc_RoleLevel c"
    "tc_RoleLevel c < 2 ^ 63" "tc_Registered c = registered m t jti u expiry"
    "gm_get (jm_keys m') (jm_activeKID m) = gm_get (jm_keys m) (jm_activeKID m)"
  shows "if now < NewNumericDate (t + expiry) then ValidateAccessToken L m' now tok = Inr c else \<exists>err. ValidateAccessToken L m' now tok = Inl err"
  using parse_signed [OF assms(1,2,3,7), of "NewNumericDate (t + expiry)" now] assms(6)
  by (auto simp: ValidateAccessToken_parsed [OF _ assms(4,5)]) (auto simp: ValidateAccessToken_def)

lemma access_token_dropped:
  assumes "jose_ok L" "ring_ok L m" "sign_active L m (rc, priv) = Inr tok" "gm_get (jm_keys m') (jm_activeKID m) = None"
  shows "\<exists>err. ValidateAccessToken L m' now tok = Inl err"
  using parse_unknown_kid [OF assms, of now] by (auto simp: ValidateAccessToken_def)


section \<open>A library for concrete runs\<close>

text \<open>
  Tokens of a table of headers and claims: the row in unary, a dot and the signature. A key is its own public half, and a
  signature the key before the message.
\<close>

definition table_read :: "(jwt_header \<times> claim_set) list \<Rightarrow> string \<Rightarrow> (jwt_header \<times> claim_set \<times> string \<times> string) result" where
  "table_read tbl tok =
     (let i = length (takeWhile (\<lambda>c. c \<noteq> CHR ''.'') tok)
      in if i < length tbl \<and> CHR ''.'' \<in> set tok then Inr (fst (tbl ! i), snd (tbl ! i), replicate i CHR ''i'', drop (i + 1) tok)
         else Inl (ErrMsg ''malformed''))"

definition table_lib :: "(jwt_header \<times> claim_set) list \<Rightarrow> jose_lib" where
  "table_lib tbl =
     \<lparr>jo_SignedString = (\<lambda>h cs sign.
        (case index_of tbl (h, cs) of
           None \<Rightarrow> Inl (ErrMsg ''not in the table'')
         | Some i \<Rightarrow> (case sign (replicate i CHR ''i'') of
                         Inl err \<Rightarrow> Inl err | Inr sig \<Rightarrow> Inr (replicate i CHR ''i'' @ CHR ''.'' # sig)))),
      jo_ParseUnverified = table_read tbl,
      jo_ParseWithClaims = (\<lambda>meth tok now kf.
        (case table_read tbl tok of
           Inl err \<Rightarrow> Inl err
         | Inr (h, cs, s, sig) \<Rightarrow>
             (case kf h of
                Inl err \<Rightarrow> Inl err
              | Inr k \<Rightarrow>
                  if meth (jh_alg h) s sig k = None \<and> rc_in_window (fst cs) now then Inr (h, cs, True)
                  else Inl (ErrMsg ''refused'')))),
      jo_builtin = (\<lambda>alg s sig key. if alg = ''HS256'' \<and> (case key of HmacKey k \<Rightarrow> sig = k @ s | _ \<Rightarrow> False) then None else Some (ErrMsg ''bad'')),
      jo_HMAC = (@), jo_SHA256 = (\<lambda>s. s),
      jo_MLDSA_SignTo = (\<lambda>sk s. Inr (sk @ s)), jo_MLDSA_Verify = (\<lambda>pk s sig. sig = pk @ s), jo_MLDSA_NewKeyFromSeed = (\<lambda>seed. (seed, seed))\<rparr>"

lemma index_of_Some: "index_of xs x = Some i \<Longrightarrow> i < length xs \<and> xs ! i = x"
  by (induction xs arbitrary: i) (auto split: if_splits)

lemma table_lib_ok: "jose_ok (table_lib tbl)"
proof -
  have "jose_parser_ok (table_lib tbl)"
    unfolding jose_parser_ok_def by (auto simp: table_lib_def split: sum.splits)
  moreover have "jose_builder_ok (table_lib tbl)"
    unfolding jose_builder_ok_def
  proof (intro allI impI)
    fix h cs sign tok
    assume "jo_SignedString (table_lib tbl) h cs sign = Inr tok"
    then obtain i sig where i: "index_of tbl (h, cs) = Some i" "sign (replicate i CHR ''i'') = Inr sig"
        "tok = replicate i CHR ''i'' @ CHR ''.'' # sig"
      by (auto simp: table_lib_def split: option.splits sum.splits)
    then have "table_read tbl tok = Inr (h, cs, replicate i CHR ''i'', sig)"
      using index_of_Some [OF i(1)] by (simp add: table_read_def takeWhile_sep)
    with i(2) show "\<exists>s sig. sign s = Inr sig \<and> jo_ParseUnverified (table_lib tbl) tok = Inr (h, cs, s, sig)"
      by (auto simp: table_lib_def)
  qed
  ultimately show ?thesis by (auto simp: jose_ok_def table_lib_def split: if_splits)
qed

lemma table_lib_pair: "mldsa_pair (table_lib tbl) (k, k)"
  by (simp add: mldsa_pair_def table_lib_def)

lemma table_lib_seed: "mldsa_pair (table_lib tbl) (jo_MLDSA_NewKeyFromSeed (table_lib tbl) seed)"
  by (simp add: mldsa_pair_def table_lib_def)

definition demo_manager :: jwt_manager where
  "demo_manager =
     \<lparr>jm_keys = [(''ephemeral'', entry_of_pair (''key'', ''key''))], jm_activeKID = ''ephemeral'', jm_config = DefaultJWTConfig\<rparr>"

definition demo_access :: token_claims where
  "demo_access = access_claims demo_manager 0 ''j1'' ''alice'' ''acme'' ''owner'' 90 [''acme''] []"

definition demo_household :: token_claims where
  "demo_household = household_claims demo_manager 0 ''j2'' ''bob'' ''home'' ''kid'' True"

definition demo_lib :: jose_lib where
  "demo_lib = table_lib
     [(\<lparr>jh_alg = MLDSA65_Alg, jh_typ = HString ''JWT'', jh_kid = HString ''ephemeral''\<rparr>, (tc_Registered demo_access, claims_json demo_access)),
      (\<lparr>jh_alg = MLDSA65_Alg, jh_typ = HString ''JWT'', jh_kid = HString ''ephemeral''\<rparr>, (tc_Registered demo_household, claims_json demo_household))]"


text \<open>
  The refresh token of a user passes as an access token, for the week it lives, with the claims of nobody: the manager
  does not tell its kinds of token apart.
\<close>

lemma refresh_token_passes_as_access:
  assumes "jose_ok L" "ring_ok L m" "CreateRefreshToken L m t jti u = Inr tok" "now < NewNumericDate (t + jf_RefreshTokenExpiry (jm_config m))"
  shows "\<exists>c. ValidateAccessToken L m now tok = Inr c \<and> tc_UserID c = [] \<and> tc_CompanyID c = [] \<and> rc_Subject (tc_Registered c) = u"
  using parse_signed(1) [OF assms(1,2), of "registered m t jti u (jf_RefreshTokenExpiry (jm_config m))" "[]" tok m
      "NewNumericDate (t + jf_RefreshTokenExpiry (jm_config m))" now] assms(3,4)
  by (auto simp: CreateRefreshToken_def ValidateAccessToken_def claims_of_registered)

text \<open>The gates of \<^verbatim>\<open>require.go\<close> stop such a token.\<close>

lemma refresh_token_stopped_by_gates:
  "tc_UserID c = [] \<Longrightarrow> RequireUser parse (Some c) = Inl ErrNoCompany"
  "tc_CompanyID c = [] \<Longrightarrow> RequireCompany parse (Some c) = Inl ErrNoCompany"
  by (simp_all add: RequireUser_def RequireCompany_def require_id_def)

section \<open>Compact tokens\<close>

lemma compact_read:
  assumes "jose_ok L" "CreateCompactShortLivedToken L m t jti sub ttl = Inr tok"
  obtains key s where "stateHMACKey L m = Inr key"
    "jo_ParseUnverified L tok = Inr (\<lparr>jh_alg = ''HS256'', jh_typ = HString ''JWT'', jh_kid = HAbsent\<rparr>, (registered m t jti sub ttl, []), s, jo_HMAC L key s)"
proof -
  from assms(2) obtain key where k: "stateHMACKey L m = Inr key"
      "jo_SignedString L \<lparr>jh_alg = ''HS256'', jh_typ = HString ''JWT'', jh_kid = HAbsent\<rparr> (registered m t jti sub ttl, []) (\<lambda>s. Inr (jo_HMAC L key s)) = Inr tok"
    by (auto simp: CreateCompactShortLivedToken_def split: sum.splits)
  from jose_signed [OF assms(1) k(2)] that [OF k(1)] show ?thesis by (metis sum.inject(2))
qed

text \<open>A compact token gives back its subject for exactly its lifetime.\<close>

lemma compact_window:
  assumes "jose_ok L" "CreateCompactShortLivedToken L m t jti sub ttl = Inr tok"
  shows "if now < NewNumericDate (t + ttl) then ValidateCompactShortLivedToken L m now tok = Inr sub
         else \<exists>err. ValidateCompactShortLivedToken L m now tok = Inl err"
proof -
  obtain key s where k: "stateHMACKey L m = Inr key" and
    r: "jo_ParseUnverified L tok = Inr (\<lparr>jh_alg = ''HS256'', jh_typ = HString ''JWT'', jh_kid = HAbsent\<rparr>, (registered m t jti sub ttl, []), s, jo_HMAC L key s)"
    by (rule compact_read [OF assms])
  let ?kf = "\<lambda>h. if jh_alg h \<noteq> ''HS256'' then Inl (ErrMsg (''unexpected signing method: '' @ jh_alg h)) else Inr (HmacKey key)"
  have "jo_ParseWithClaims L (registered_methods L) tok now ?kf =
      Inr (\<lparr>jh_alg = ''HS256'', jh_typ = HString ''JWT'', jh_kid = HAbsent\<rparr>, (registered m t jti sub ttl, []), True)" if "now < NewNumericDate (t + ttl)"
    by (rule jose_accepts [OF assms(1) r, where k = "HmacKey key"])
      (use that jose_hmac [OF assms(1)] in \<open>auto simp: registered_methods_def MLDSA65_Alg_def rc_in_window_def\<close>)
  moreover have "\<exists>err. jo_ParseWithClaims L (registered_methods L) tok now ?kf = Inl err" if "\<not> now < NewNumericDate (t + ttl)"
    by (rule jose_refuses [OF assms(1) r]) (use that in \<open>simp add: rc_in_window_def\<close>)
  ultimately show ?thesis using k by (auto simp: ValidateCompactShortLivedToken_def)
qed

lemma table_compact:
  assumes "index_of tbl (\<lparr>jh_alg = ''HS256'', jh_typ = HString ''JWT'', jh_kid = HAbsent\<rparr>, (registered m now tid sub ttl, [])) = Some i"
    "stateHMACKey (table_lib tbl) m = Inr key"
  shows "CreateCompactShortLivedToken (table_lib tbl) m now tid sub ttl = Inr (replicate i CHR ''i'' @ CHR ''.'' # key @ replicate i CHR ''i'')"
proof -
  have "jo_SignedString (table_lib tbl) h cs sign = (case index_of tbl (h, cs) of None \<Rightarrow> Inl (ErrMsg ''not in the table'')
      | Some i \<Rightarrow> (case sign (replicate i CHR ''i'') of Inl err \<Rightarrow> Inl err | Inr sig \<Rightarrow> Inr (replicate i CHR ''i'' @ CHR ''.'' # sig)))" for h cs sign
    by (simp add: table_lib_def)
  moreover have "jo_HMAC (table_lib tbl) = (@)" by (simp add: table_lib_def)
  ultimately show ?thesis using assms by (simp add: CreateCompactShortLivedToken_def)
qed

end
