(* ===== verification/Handoff.thy ===== *)
theory Handoff
  imports Token_Properties
begin

text \<open>
  Handoff codes, \<^verbatim>\<open>src/platform/auth/handoff.go\<close>: a redirect carries a short code in place of the tokens, and the tokens
  are fetched once with it. The store is an interface, a record of operations; \<^verbatim>\<open>InMemoryHandoffStore\<close> is one. Each
  operation of a store is one atomic step with its own reading of the clock.
\<close>

section \<open>Codes\<close>

definition HandoffTTL :: duration where "HandoffTTL = 60 * second"
definition handoffSubjectPrefix :: string where "handoffSubjectPrefix = ''edenhandoff.v1''"

definition ErrHandoffInvalid :: go_error where "ErrHandoffInvalid = ErrVar ''invalid handoff code''"
definition ErrHandoffReplayed :: go_error where "ErrHandoffReplayed = ErrWrap ''handoff code already redeemed: '' ErrHandoffInvalid []"
definition ErrHandoffAudience :: go_error where "ErrHandoffAudience = ErrWrap ''handoff code not valid for this audience: '' ErrHandoffInvalid []"
definition ErrHandoffUnknown :: go_error where "ErrHandoffUnknown = ErrWrap ''handoff code references no stored token pair: '' ErrHandoffInvalid []"

record 's handoff_store =
  hs_MarkRedeemed :: "go_time \<Rightarrow> string \<Rightarrow> duration \<Rightarrow> 's \<Rightarrow> bool result \<times> 's"
  hs_Put :: "go_time \<Rightarrow> string \<Rightarrow> auth_response \<Rightarrow> duration \<Rightarrow> 's \<Rightarrow> unit result \<times> 's"
  hs_Load :: "go_time \<Rightarrow> string \<Rightarrow> 's \<Rightarrow> auth_response result"

text \<open>The sixteen random bytes are an argument.\<close>

definition token_JTI :: "string \<Rightarrow> string" where
  "token_JTI b = hex_encode b"

definition handoff_subject :: "string \<Rightarrow> string \<Rightarrow> string" where
  "handoff_subject jti audience = Join [handoffSubjectPrefix, jti, QueryEscape audience] ''|''"

definition mintHandoff ::
  "jose_lib \<Rightarrow> jwt_manager option \<Rightarrow> 's handoff_store option \<Rightarrow> go_time \<Rightarrow> string \<Rightarrow> string \<Rightarrow> string \<Rightarrow> auth_response option \<Rightarrow> duration
   \<Rightarrow> 's \<Rightarrow> string result \<times> 's" where
  "mintHandoff L jm store now b b' audience resp ttl s =
     (case (jm, store) of
        (Some m, Some H) \<Rightarrow>
          if audience = [] then (Inl (ErrMsg ''mint handoff: audience is required''), s)
          else (case resp of
                  None \<Rightarrow> (Inl (ErrMsg ''mint handoff: a token pair is required''), s)
                | Some r \<Rightarrow>
                    if rp_AccessToken r = [] then (Inl (ErrMsg ''mint handoff: a token pair is required''), s)
                    else let jti = token_JTI b
                         in (case hs_Put H now jti r ttl s of
                               (Inl err, s') \<Rightarrow> (Inl (ErrWrap ''mint handoff: '' err []), s')
                             | (Inr _, s') \<Rightarrow> (CreateCompactShortLivedToken L m now (token_JTI b') (handoff_subject jti audience) ttl, s')))
      | _ \<Rightarrow> (Inl (ErrMsg ''mint handoff: jwt manager and store are required''), s))"

definition MintHandoff ::
  "jose_lib \<Rightarrow> jwt_manager option \<Rightarrow> 's handoff_store option \<Rightarrow> go_time \<Rightarrow> string \<Rightarrow> string \<Rightarrow> string \<Rightarrow> auth_response option
   \<Rightarrow> 's \<Rightarrow> string result \<times> 's" where
  "MintHandoff L jm store now b b' audience resp s = mintHandoff L jm store now b b' audience resp HandoffTTL s"

definition redeem_invalid :: "string \<Rightarrow> go_error" where
  "redeem_invalid what = ErrWrap ''redeem handoff: '' ErrHandoffInvalid ('': '' @ what)"

definition parseHandoffSubject :: "string \<Rightarrow> (string \<times> string) result" where
  "parseHandoffSubject subject =
     (let parts = Split subject CHR ''|''
      in if length parts \<noteq> 3 \<or> parts ! 0 \<noteq> handoffSubjectPrefix then Inl (redeem_invalid ''subject is not a handoff'')
         else if parts ! 1 = [] then Inl (redeem_invalid ''empty jti'')
         else (case QueryUnescape (parts ! 2) of
                 None \<Rightarrow> Inl (redeem_invalid ''undecodable audience'')
               | Some aud \<Rightarrow> Inr (parts ! 1, aud)))"

text \<open>
  Redeeming, in its two parts: everything up to the marking of the code, which is the single-use gate, and the lookup
  that follows. Another request may run between the two.
\<close>

definition redeem_claim ::
  "jose_lib \<Rightarrow> jwt_manager \<Rightarrow> 's handoff_store \<Rightarrow> go_time \<Rightarrow> string \<Rightarrow> string \<Rightarrow> 's \<Rightarrow> string result \<times> 's" where
  "redeem_claim L m H now audience code s =
     (case ValidateCompactShortLivedToken L m now code of
        Inl err \<Rightarrow> (Inl (redeem_invalid (error_text err)), s)
      | Inr subject \<Rightarrow>
          (case parseHandoffSubject subject of
             Inl err \<Rightarrow> (Inl err, s)
           | Inr (jti, boundAudience) \<Rightarrow>
               if boundAudience \<noteq> audience \<or> audience = [] then (Inl ErrHandoffAudience, s)
               else (case hs_MarkRedeemed H now jti HandoffTTL s of
                       (Inl err, s') \<Rightarrow> (Inl (redeem_invalid (error_text err)), s')
                     | (Inr fresh, s') \<Rightarrow> if \<not> fresh then (Inl ErrHandoffReplayed, s') else (Inr jti, s'))))"

definition RedeemHandoff ::
  "jose_lib \<Rightarrow> jwt_manager option \<Rightarrow> 's handoff_store option \<Rightarrow> go_time \<Rightarrow> go_time \<Rightarrow> string \<Rightarrow> string \<Rightarrow> 's \<Rightarrow> auth_response result \<times> 's" where
  "RedeemHandoff L jm store now now' audience code s =
     (case (jm, store) of
        (Some m, Some H) \<Rightarrow>
          (case redeem_claim L m H now audience code s of
             (Inl err, s') \<Rightarrow> (Inl err, s')
           | (Inr jti, s') \<Rightarrow> (hs_Load H now' jti s', s'))
      | _ \<Rightarrow> (Inl (ErrMsg ''redeem handoff: jwt manager and store are required''), s))"

section \<open>The store in memory\<close>

record handoff_entry =
  he_resp :: auth_response
  he_expiresAt :: go_time

record memory_handoffs =
  mh_entries :: "(string, handoff_entry) gomap"
  mh_redeemed :: "(string, go_time) gomap"

definition maxInMemoryHandoffs :: nat where "maxInMemoryHandoffs = 10000"

definition NewInMemoryHandoffStore :: memory_handoffs where
  "NewInMemoryHandoffStore = \<lparr>mh_entries = [], mh_redeemed = []\<rparr>"

definition sweepLocked :: "go_time \<Rightarrow> memory_handoffs \<Rightarrow> memory_handoffs" where
  "sweepLocked now s =
     s\<lparr>mh_entries := gm_remove (\<lambda>_ e. he_expiresAt e < now) (mh_entries s),
       mh_redeemed := gm_remove (\<lambda>_ until. until < now) (mh_redeemed s)\<rparr>"

definition MemoryHandoff_Put :: "go_time \<Rightarrow> string \<Rightarrow> auth_response \<Rightarrow> duration \<Rightarrow> memory_handoffs \<Rightarrow> unit result \<times> memory_handoffs" where
  "MemoryHandoff_Put now jti resp ttl s0 =
     (let s = sweepLocked now s0
      in if maxInMemoryHandoffs \<le> length (mh_entries s) then (Inl (ErrMsg ''handoff store is full''), s)
         else (Inr (), s\<lparr>mh_entries := gm_put jti \<lparr>he_resp = resp, he_expiresAt = now + ttl\<rparr> (mh_entries s)\<rparr>))"

definition MemoryHandoff_Load :: "go_time \<Rightarrow> string \<Rightarrow> memory_handoffs \<Rightarrow> auth_response result" where
  "MemoryHandoff_Load now jti s =
     (case gm_get (mh_entries s) jti of
        None \<Rightarrow> Inl ErrHandoffUnknown
      | Some e \<Rightarrow> if he_expiresAt e < now then Inl ErrHandoffUnknown else Inr (he_resp e))"

definition MemoryHandoff_MarkRedeemed :: "go_time \<Rightarrow> string \<Rightarrow> duration \<Rightarrow> memory_handoffs \<Rightarrow> bool result \<times> memory_handoffs" where
  "MemoryHandoff_MarkRedeemed now jti ttl s0 =
     (let s = sweepLocked now s0
      in if (case gm_get (mh_redeemed s) jti of None \<Rightarrow> False | Some until \<Rightarrow> now < until) then (Inr False, s)
         else (Inr True, s\<lparr>mh_redeemed := gm_put jti (now + ttl) (mh_redeemed s)\<rparr>))"

definition memory_handoff_store :: "memory_handoffs handoff_store" where
  "memory_handoff_store =
     \<lparr>hs_MarkRedeemed = MemoryHandoff_MarkRedeemed, hs_Put = MemoryHandoff_Put, hs_Load = MemoryHandoff_Load\<rparr>"

section \<open>The contract of a store\<close>

text \<open>
  \<open>holds\<close> is the response recorded under an identifier with the time until which it may be loaded, \<open>spent\<close> the time until
  which an identifier counts as redeemed. An operation may forget what has run out, and nothing else.
\<close>

locale handoff_contract =
  fixes H :: "'s handoff_store"
    and good :: "'s \<Rightarrow> bool"
    and holds :: "'s \<Rightarrow> string \<Rightarrow> (auth_response \<times> go_time) option"
    and spent :: "'s \<Rightarrow> string \<Rightarrow> go_time option"
    and start :: 's
  assumes start_good: "good start"
    and start_holds: "holds start j = None"
    and start_spent: "spent start j = None"
    and put_good: "good s \<Longrightarrow> good (snd (hs_Put H now j r ttl s))"
    and mark_good: "good s \<Longrightarrow> good (snd (hs_MarkRedeemed H now j ttl s))"
    and put_holds: "good s \<Longrightarrow> holds (snd (hs_Put H now j r ttl s)) k = Some v \<Longrightarrow> holds s k = Some v \<or> k = j \<and> v = (r, now + ttl)"
    and put_stored: "good s \<Longrightarrow> fst (hs_Put H now j r ttl s) = Inr () \<Longrightarrow> holds (snd (hs_Put H now j r ttl s)) j = Some (r, now + ttl)"
    and put_keeps: "good s \<Longrightarrow> k \<noteq> j \<Longrightarrow> holds s k = Some (x, e) \<Longrightarrow> now \<le> e \<Longrightarrow> holds (snd (hs_Put H now j r ttl s)) k = Some (x, e)"
    and put_spent: "good s \<Longrightarrow> spent s k = Some u \<Longrightarrow> now \<le> u \<Longrightarrow> spent (snd (hs_Put H now j r ttl s)) k = Some u"
    and put_spent_new: "good s \<Longrightarrow> spent (snd (hs_Put H now j r ttl s)) k = Some u \<Longrightarrow> spent s k = Some u"
    and mark_fresh: "good s \<Longrightarrow> fst (hs_MarkRedeemed H now j ttl s) = Inr b \<Longrightarrow> b \<longleftrightarrow> \<not> (\<exists>u. spent s j = Some u \<and> now < u)"
    and mark_spent: "good s \<Longrightarrow> fst (hs_MarkRedeemed H now j ttl s) = Inr True \<Longrightarrow> spent (snd (hs_MarkRedeemed H now j ttl s)) j = Some (now + ttl)"
    and mark_keeps_spent: "good s \<Longrightarrow> k \<noteq> j \<or> fst (hs_MarkRedeemed H now j ttl s) \<noteq> Inr True \<Longrightarrow> spent s k = Some u \<Longrightarrow> now \<le> u \<Longrightarrow>
                       spent (snd (hs_MarkRedeemed H now j ttl s)) k = Some u"
    and mark_spent_new: "good s \<Longrightarrow> k \<noteq> j \<or> fst (hs_MarkRedeemed H now j ttl s) \<noteq> Inr True \<Longrightarrow>
                       spent (snd (hs_MarkRedeemed H now j ttl s)) k = Some u \<Longrightarrow> spent s k = Some u"
    and mark_holds: "good s \<Longrightarrow> holds (snd (hs_MarkRedeemed H now j ttl s)) k = Some v \<Longrightarrow> holds s k = Some v"
    and mark_keeps: "good s \<Longrightarrow> holds s k = Some (x, e) \<Longrightarrow> now \<le> e \<Longrightarrow> holds (snd (hs_MarkRedeemed H now j ttl s)) k = Some (x, e)"
    and load: "good s \<Longrightarrow> hs_Load H now j s = Inr r \<longleftrightarrow> (\<exists>e. holds s j = Some (r, e) \<and> now \<le> e)"

definition memory_handoffs_ok :: "memory_handoffs \<Rightarrow> bool" where
  "memory_handoffs_ok s \<longleftrightarrow> gm_ok (mh_entries s) \<and> gm_ok (mh_redeemed s)"

definition memory_holds :: "memory_handoffs \<Rightarrow> string \<Rightarrow> (auth_response \<times> go_time) option" where
  "memory_holds s j = map_option (\<lambda>e. (he_resp e, he_expiresAt e)) (gm_get (mh_entries s) j)"

lemmas memory_handoff_defs =
  memory_handoff_store_def MemoryHandoff_Put_def MemoryHandoff_Load_def MemoryHandoff_MarkRedeemed_def sweepLocked_def
  memory_handoffs_ok_def memory_holds_def NewInMemoryHandoffStore_def Let_def

lemmas handoff_splits = if_splits option.splits

interpretation memory_handoff:
  handoff_contract memory_handoff_store memory_handoffs_ok memory_holds "\<lambda>s. gm_get (mh_redeemed s)" NewInMemoryHandoffStore
  by unfold_locales (auto simp: memory_handoff_defs gm_get_remove split: handoff_splits)

section \<open>Subjects\<close>

lemma hex_encode_no_bar: "CHR ''|'' \<notin> set (hex_encode b)"
proof (induction b)
  case (Cons c b)
  have d: "hex_digit n \<noteq> CHR ''|''" if "n < 16" for n
  proof
    assume "hex_digit n = CHR ''|''"
    then have "(of_char (hex_digit n) :: nat) = 124" by simp
    with that show False by (simp add: hex_digit_val split: if_splits)
  qed
  have "CHR ''|'' \<noteq> hex_digit (of_char c div 16)" "CHR ''|'' \<noteq> hex_digit (of_char c mod 16)"
    using d [OF high_nibble [of c]] d [of "of_char c mod 16"] by auto
  with Cons show ?case by (simp add: hex_encode_Cons)
qed (simp add: hex_encode_def)

lemma QueryEscape_no_bar: "CHR ''|'' \<notin> set (QueryEscape s)"
proof -
  have "CHR ''|'' \<notin> set url_plain \<union> {CHR ''+'', CHR ''%''}" by code_simp
  with QueryEscape_alphabet [of s] show ?thesis by blast
qed

lemma parse_handoff_subject:
  assumes "b \<noteq> []"
  shows "parseHandoffSubject (handoff_subject (token_JTI b) audience) = Inr (token_JTI b, audience)"
proof -
  have p: "CHR ''|'' \<notin> set handoffSubjectPrefix" by code_simp
  have "hex_encode b \<noteq> []" using assms by (cases b) (simp_all add: hex_encode_Cons)
  then show ?thesis
    using Split_sep [OF p, of "hex_encode b @ CHR ''|'' # QueryEscape audience"]
      Split_sep [OF hex_encode_no_bar, of b "QueryEscape audience"] Split_no_sep [OF QueryEscape_no_bar, of audience]
    by (simp add: parseHandoffSubject_def handoff_subject_def token_JTI_def)
qed

lemma parse_other_subject:
  assumes "CHR ''|'' \<notin> set w" "w \<noteq> handoffSubjectPrefix"
  shows "\<exists>err. parseHandoffSubject (w @ CHR ''|'' # r) = Inl err"
  using assms by (simp add: parseHandoffSubject_def Split_sep)

section \<open>Runs\<close>

text \<open>
  A run of minting and redeeming, in any interleaving: the log keeps what was minted, the compact tokens that exist with
  their subjects, the claims that passed the gate, those whose lookup is still to come, and the responses handed out. The
  clock moves on with every operation. Nobody makes a token that passes without the key: a presented code is one that
  exists or one that never validates.
\<close>

record minted =
  mn_jti :: string
  mn_audience :: string
  mn_resp :: auth_response
  mn_at :: go_time
  mn_code :: string

type_synonym handoff_claim = "string \<times> string \<times> go_time"

record released =
  rl_claim :: handoff_claim
  rl_resp :: auth_response
  rl_at :: go_time

record 's handoff_run =
  hr_store :: 's
  hr_minted :: "minted list"
  hr_codes :: "(string \<times> string) list"
  hr_claims :: "handoff_claim list"
  hr_pending :: "handoff_claim list"
  hr_released :: "released list"
  hr_clock :: go_time

definition handoff_start :: "'s \<Rightarrow> go_time \<Rightarrow> 's handoff_run" where
  "handoff_start s t = \<lparr>hr_store = s, hr_minted = [], hr_codes = [], hr_claims = [], hr_pending = [], hr_released = [], hr_clock = t\<rparr>"

definition presentable :: "jose_lib \<Rightarrow> jwt_manager \<Rightarrow> (string \<times> string) list \<Rightarrow> string \<Rightarrow> bool" where
  "presentable L m codes code \<longleftrightarrow> code \<in> fst ` set codes \<or> (\<forall>now. \<exists>err. ValidateCompactShortLivedToken L m now code = Inl err)"

inductive handoff_step :: "jose_lib \<Rightarrow> jwt_manager \<Rightarrow> 's handoff_store \<Rightarrow> 's handoff_run \<Rightarrow> 's handoff_run \<Rightarrow> bool"
  for L m H where
  mint: "\<lbrakk>hr_clock st < now; length b = 16; token_JTI b \<notin> mn_jti ` set (hr_minted st);
          MintHandoff L (Some m) (Some H) now b b' audience (Some resp) (hr_store st) = (Inr code, s')\<rbrakk> \<Longrightarrow>
         handoff_step L m H st (st\<lparr>hr_store := s', hr_clock := now,
           hr_minted := \<lparr>mn_jti = token_JTI b, mn_audience = audience, mn_resp = resp, mn_at = now, mn_code = code\<rparr> # hr_minted st,
           hr_codes := (code, handoff_subject (token_JTI b) audience) # hr_codes st\<rparr>)"
| mint_failed: "\<lbrakk>hr_clock st < now; length b = 16; token_JTI b \<notin> mn_jti ` set (hr_minted st);
          MintHandoff L (Some m) (Some H) now b b' audience resp (hr_store st) = (Inl err, s')\<rbrakk> \<Longrightarrow>
         handoff_step L m H st (st\<lparr>hr_store := s', hr_clock := now\<rparr>)"
| other: "\<lbrakk>hr_clock st < now; CreateCompactShortLivedToken L m now jti sub ttl = Inr code; \<exists>err. parseHandoffSubject sub = Inl err\<rbrakk> \<Longrightarrow>
         handoff_step L m H st (st\<lparr>hr_clock := now, hr_codes := (code, sub) # hr_codes st\<rparr>)"
| claim: "\<lbrakk>hr_clock st < now; presentable L m (hr_codes st) code;
          redeem_claim L m H now audience code (hr_store st) = (Inr jti, s')\<rbrakk> \<Longrightarrow>
         handoff_step L m H st (st\<lparr>hr_store := s', hr_clock := now,
           hr_claims := (jti, audience, now) # hr_claims st, hr_pending := (jti, audience, now) # hr_pending st\<rparr>)"
| claim_refused: "\<lbrakk>hr_clock st < now; presentable L m (hr_codes st) code;
          redeem_claim L m H now audience code (hr_store st) = (Inl err, s')\<rbrakk> \<Longrightarrow>
         handoff_step L m H st (st\<lparr>hr_store := s', hr_clock := now\<rparr>)"
| release: "\<lbrakk>hr_clock st < now; (jti, audience, t) \<in> set (hr_pending st); hs_Load H now jti (hr_store st) = Inr resp\<rbrakk> \<Longrightarrow>
         handoff_step L m H st (st\<lparr>hr_clock := now, hr_pending := remove1 (jti, audience, t) (hr_pending st),
           hr_released := \<lparr>rl_claim = (jti, audience, t), rl_resp = resp, rl_at = now\<rparr> # hr_released st\<rparr>)"
| release_failed: "\<lbrakk>hr_clock st < now; (jti, audience, t) \<in> set (hr_pending st); hs_Load H now jti (hr_store st) = Inl err\<rbrakk> \<Longrightarrow>
         handoff_step L m H st (st\<lparr>hr_clock := now, hr_pending := remove1 (jti, audience, t) (hr_pending st)\<rparr>)"

end
