(* ===== verification/Sso.thy ===== *)
theory Sso
  imports Handoff Devstore
begin

text \<open>
  Single sign-on, \<^verbatim>\<open>src/platform/auth/sso.go\<close>: the authorization-code flow with its signed state, the SAML callback,
  provisioning at first sight, and the HTTP handlers that hand the tokens over by a code.

  Parameters, in \<open>sso_lib\<close>: the OpenID client library (discovery, the authorization URL, the code exchange, verification
  of an ID token), the SAML library and URL parsing. A provider and a service provider are opaque values of it. The
  randomness, the fresh user identifier and the clock of one call are in \<open>sso_call\<close>. The state is the auth store's, the
  cache of providers and the handoff store's.
\<close>

section \<open>Store and libraries\<close>

record 's sso_store = "'s auth_store" +
  as_GetSSOConfig :: "uuid \<Rightarrow> string \<Rightarrow> 's \<Rightarrow> sso_config result"
  as_UpsertOAuthCredential :: "oauth_credential \<Rightarrow> 's \<Rightarrow> unit result \<times> 's"

record oauth_config =
  ox_ClientID :: string
  ox_ClientSecret :: string
  ox_Endpoint :: string
  ox_RedirectURL :: string
  ox_Scopes :: "string list"

record oauth_token =
  ot_AccessToken :: string
  ot_RefreshToken :: string
  ot_Expiry :: go_time
  ot_IDToken :: "string option"

record saml_attribute =
  sa_Name :: string
  sa_FriendlyName :: string
  sa_Values :: "string list"

type_synonym saml_assertion = "saml_attribute list list"

record ('p, 'i, 'r, 'v) sso_lib =
  sl_NewProvider :: "string \<Rightarrow> 'p result"
  sl_Endpoint :: "'p \<Rightarrow> string"
  sl_AuthCodeURL :: "oauth_config \<Rightarrow> string \<Rightarrow> string \<Rightarrow> string"
  sl_Exchange :: "oauth_config \<Rightarrow> string \<Rightarrow> string option \<Rightarrow> oauth_token result"
  sl_Verify :: "'p \<Rightarrow> string \<Rightarrow> string \<Rightarrow> 'i result"
  sl_Claims :: "'i \<Rightarrow> (string \<times> string) result"
  sl_ParseURL :: "string \<Rightarrow> unit result"
  sl_FetchMetadata :: "string \<Rightarrow> 'v result"
  sl_MakeAuthenticationRequest :: "string \<Rightarrow> 'v \<Rightarrow> string result"
  sl_RequestRedirect :: "string \<Rightarrow> 'v \<Rightarrow> string result"
  sl_ParseResponse :: "string \<Rightarrow> 'v \<Rightarrow> 'r \<Rightarrow> saml_assertion option result"
  sl_ParseUUID :: "string \<Rightarrow> uuid result"
  sl_Sha256Hex :: "string \<Rightarrow> string"

record sso_call =
  sc_now :: go_time
  sc_rand :: "nat \<Rightarrow> string"
  sc_newUser :: uuid

type_synonym 'p sso_cache = "(string, 'p \<times> oauth_config) gomap"

record ('s, 'p, 'h) sso_state =
  sx_store :: 's
  sx_providers :: "'p sso_cache"
  sx_handoffs :: 'h

record 'h sso_service =
  sv_lib :: jose_lib
  sv_jwt :: jwt_manager
  sv_baseURL :: string
  sv_handoff :: "'h handoff_store option"

definition NewSSOService :: "jose_lib \<Rightarrow> jwt_manager \<Rightarrow> string \<Rightarrow> memory_handoffs sso_service" where
  "NewSSOService L m baseURL =
     \<lparr>sv_lib = L, sv_jwt = m, sv_baseURL = TrimRight baseURL CHR ''/'', sv_handoff = Some memory_handoff_store\<rparr>"

definition SetHandoffStore :: "'h handoff_store option \<Rightarrow> 'g sso_service \<Rightarrow> 'h sso_service" where
  "SetHandoffStore store v = \<lparr>sv_lib = sv_lib v, sv_jwt = sv_jwt v, sv_baseURL = sv_baseURL v, sv_handoff = store\<rparr>"

section \<open>The signed state\<close>

definition createStateJWT :: "jose_lib \<Rightarrow> jwt_manager \<Rightarrow> go_time \<Rightarrow> string \<Rightarrow> uuid \<Rightarrow> string \<Rightarrow> string \<Rightarrow> string \<Rightarrow> string result" where
  "createStateJWT L m now tid companyID provider redirectURI verifier =
     CreateCompactShortLivedToken L m now tid (companyID @ ''|'' @ provider @ ''|'' @ redirectURI @ ''|'' @ verifier) (10 * minute)"

definition parseStateJWT ::
  "('p, 'i, 'r, 'v) sso_lib \<Rightarrow> jose_lib \<Rightarrow> jwt_manager \<Rightarrow> go_time \<Rightarrow> string \<Rightarrow> (uuid \<times> string \<times> string \<times> string) result" where
  "parseStateJWT P L m now stateJWT =
     (case (case ValidateCompactShortLivedToken L m now stateJWT of
              Inr subject \<Rightarrow> Inr subject
            | Inl _ \<Rightarrow> ValidateShortLivedToken L m now stateJWT) of
        Inl err \<Rightarrow> Inl (ErrWrap ''invalid state: '' err [])
      | Inr subject \<Rightarrow>
          (let parts = SplitN subject CHR ''|'' 4
           in if length parts < 3 then Inl (ErrMsg ''malformed state'')
              else (case sl_ParseUUID P (parts ! 0) of
                      Inl _ \<Rightarrow> Inl (ErrMsg ''invalid company_id in state'')
                    | Inr companyID \<Rightarrow>
                        Inr (companyID, parts ! 1, parts ! 2, if length parts = 4 then parts ! 3 else []))))"

section \<open>Providers\<close>

definition ProviderPresets :: "(string, string \<times> string) gomap" where
  "ProviderPresets =
     [(''microsoft'', (''https://login.microsoftonline.com/common/v2.0'', ''Microsoft'')),
      (''google'', (''https://accounts.google.com'', ''Google''))]"

definition getOrCreateOIDCProvider ::
  "('p, 'i, 'r, 'v) sso_lib \<Rightarrow> string \<Rightarrow> sso_config \<Rightarrow> 'p sso_cache \<Rightarrow> ('p \<times> oauth_config) result \<times> 'p sso_cache" where
  "getOrCreateOIDCProvider P baseURL cfg cache =
     (let key = sc_CompanyID cfg @ '':'' @ sc_Provider cfg
      in case gm_get cache key of
           Some cached \<Rightarrow> (Inr cached, cache)
         | None \<Rightarrow>
             let issuerURL = (if sc_IssuerURL cfg = []
                              then (case gm_get ProviderPresets (sc_Provider cfg) of None \<Rightarrow> [] | Some preset \<Rightarrow> fst preset)
                              else sc_IssuerURL cfg)
             in (case sl_NewProvider P issuerURL of
                   Inl err \<Rightarrow> (Inl (ErrWrap (''discover OIDC provider at '' @ issuerURL @ '': '') err []), cache)
                 | Inr provider \<Rightarrow>
                     let cached = (provider, \<lparr>ox_ClientID = sc_ClientID cfg, ox_ClientSecret = sc_ClientSecret cfg,
                           ox_Endpoint = sl_Endpoint P provider, ox_RedirectURL = baseURL @ ''/auth/oidc/callback'',
                           ox_Scopes = [''openid'', ''profile'', ''email''] @ sc_ExtraScopes cfg\<rparr>)
                     in (Inr cached, gm_put key cached cache)))"

text \<open>Starting a flow. The verifier and the token identifier are the first two random values.\<close>

definition InitiateOIDC ::
  "('p, 'i, 'r, 'v) sso_lib \<Rightarrow> 's sso_store \<Rightarrow> 'h sso_service \<Rightarrow> sso_call \<Rightarrow> uuid \<Rightarrow> string \<Rightarrow> string \<Rightarrow> ('s, 'p, 'h) sso_state
   \<Rightarrow> (string \<times> string) result \<times> ('s, 'p, 'h) sso_state" where
  "InitiateOIDC P A v c companyID provider0 redirectURI st =
     (let provider = (if provider0 = [] then ''oidc'' else provider0)
      in case as_GetSSOConfig A companyID provider (sx_store st) of
           Inl _ \<Rightarrow> (Inl (ErrMsg (''SSO provider '' @ quoted provider @ '' not configured for this company'')), st)
         | Inr cfg0 \<Rightarrow>
             (case (if sc_IssuerURL cfg0 = []
                    then (case gm_get ProviderPresets provider of
                            None \<Rightarrow> Inl (ErrMsg (''no issuer URL configured for provider '' @ quoted provider))
                          | Some preset \<Rightarrow> Inr (cfg0\<lparr>sc_IssuerURL := fst preset\<rparr>))
                    else Inr cfg0) of
                Inl err \<Rightarrow> (Inl err, st)
              | Inr cfg \<Rightarrow>
                  (case getOrCreateOIDCProvider P (sv_baseURL v) cfg (sx_providers st) of
                     (Inl err, cache) \<Rightarrow> (Inl (ErrWrap ''create OIDC provider: '' err []), st\<lparr>sx_providers := cache\<rparr>)
                   | (Inr cached, cache) \<Rightarrow>
                       (case createStateJWT (sv_lib v) (sv_jwt v) (sc_now c) (sc_rand c 1) companyID provider redirectURI (sc_rand c 0) of
                          Inl err \<Rightarrow> (Inl (ErrWrap ''create state: '' err []), st\<lparr>sx_providers := cache\<rparr>)
                        | Inr state \<Rightarrow> (Inr (sl_AuthCodeURL P (snd cached) state (sc_rand c 0), state), st\<lparr>sx_providers := cache\<rparr>)))))"

section \<open>Provisioning\<close>

definition jitProvision ::
  "('p, 'i, 'r, 'v) sso_lib \<Rightarrow> 's sso_store \<Rightarrow> 'h sso_service \<Rightarrow> sso_call \<Rightarrow> string \<Rightarrow> string \<Rightarrow> uuid \<Rightarrow> 's \<Rightarrow> auth_response result \<times> 's" where
  "jitProvision P A v c email0 name0 companyID s =
     (let email = ToLower (TrimSpace email0);
          name = (if name0 = [] then hd (Split email CHR ''@'') else name0)
      in case (case as_GetUserByEmail A email s of
                 Inr user \<Rightarrow> (Inr user, s)
               | Inl _ \<Rightarrow> as_CreateUser A (sc_newUser c) (sc_now c) email [] name s) of
           (Inl err, s1) \<Rightarrow> (Inl (ErrWrap ''create SSO user: '' err []), s1)
         | (Inr user, s1) \<Rightarrow>
             let s2 = snd (as_CreateCompanyMembership A companyID (us_ID user) MemberRoleID s1);
                 role = (case as_GetUserRole A companyID (us_ID user) s2 of
                           Inl _ \<Rightarrow> (''member'', 40) | Inr r \<Rightarrow> (ar_Name r, ar_RoleLevel r))
             in (case CreateAccessToken (sv_lib v) (sv_jwt v) (sc_now c) (sc_rand c 2) (us_ID user) companyID (fst role) (snd role) [companyID] of
                   Inl err \<Rightarrow> (Inl (ErrWrap ''create access token: '' err []), s2)
                 | Inr accessToken \<Rightarrow>
                     (case CreateRefreshToken (sv_lib v) (sv_jwt v) (sc_now c) (sc_rand c 3) (us_ID user) of
                        Inl err \<Rightarrow> (Inl (ErrWrap ''create refresh token: '' err []), s2)
                      | Inr refreshToken \<Rightarrow>
                          (case as_CreateRefreshToken A (us_ID user) (sl_Sha256Hex P refreshToken)
                                  (sc_now c + jf_RefreshTokenExpiry (jm_config (sv_jwt v))) s2 of
                             (Inl err, s3) \<Rightarrow> (Inl (ErrWrap ''store refresh token: '' err []), s3)
                           | (Inr _, s3) \<Rightarrow>
                               (Inr \<lparr>rp_AccessToken = accessToken, rp_RefreshToken = refreshToken, rp_User = user\<rparr>, s3)))))"

section \<open>The callbacks\<close>

definition HandleOIDCCallbackWithVerifier ::
  "('p, 'i, 'r, 'v) sso_lib \<Rightarrow> 's sso_store \<Rightarrow> 'h sso_service \<Rightarrow> sso_call \<Rightarrow> string \<Rightarrow> string \<Rightarrow> uuid \<Rightarrow> string \<Rightarrow> ('s, 'p, 'h) sso_state
   \<Rightarrow> auth_response result \<times> ('s, 'p, 'h) sso_state" where
  "HandleOIDCCallbackWithVerifier P A v c code provider companyID verifier st =
     (case as_GetSSOConfig A companyID provider (sx_store st) of
        Inl _ \<Rightarrow> (Inl (ErrMsg (''SSO provider '' @ quoted provider @ '' not configured for this company'')), st)
      | Inr cfg \<Rightarrow>
          (case getOrCreateOIDCProvider P (sv_baseURL v) cfg (sx_providers st) of
             (Inl err, cache) \<Rightarrow> (Inl (ErrWrap ''create OIDC provider: '' err []), st\<lparr>sx_providers := cache\<rparr>)
           | (Inr cached, cache) \<Rightarrow>
               let st1 = st\<lparr>sx_providers := cache\<rparr>
               in (case sl_Exchange P (snd cached) code (if verifier = [] then None else Some verifier) of
                     Inl err \<Rightarrow> (Inl (ErrWrap ''exchange authorization code: '' err []), st1)
                   | Inr token \<Rightarrow>
                       (case ot_IDToken token of
                          None \<Rightarrow> (Inl (ErrMsg ''no id_token in token response''), st1)
                        | Some rawIDToken \<Rightarrow>
                            (case sl_Verify P (fst cached) (sc_ClientID cfg) rawIDToken of
                               Inl err \<Rightarrow> (Inl (ErrWrap ''verify ID token: '' err []), st1)
                             | Inr idToken \<Rightarrow>
                                 (case sl_Claims P idToken of
                                    Inl err \<Rightarrow> (Inl (ErrWrap ''extract ID token claims: '' err []), st1)
                                  | Inr (email, name) \<Rightarrow>
                                      if email = [] then (Inl (ErrMsg ''email claim not found in ID token''), st1)
                                      else (case jitProvision P A v c email name companyID (sx_store st1) of
                                              (Inl err, s) \<Rightarrow> (Inl err, st1\<lparr>sx_store := s\<rparr>)
                                            | (Inr resp, s) \<Rightarrow>
                                                (Inr resp, st1\<lparr>sx_store :=
                                                   (if ot_AccessToken token = [] then s
                                                    else snd (as_UpsertOAuthCredential A
                                                           \<lparr>oc_CompanyID = companyID, oc_UserID = us_ID (rp_User resp), oc_Provider = provider,
                                                            oc_AccessToken = ot_AccessToken token, oc_RefreshToken = ot_RefreshToken token,
                                                            oc_TokenExpiry = ot_Expiry token, oc_Scopes = sc_ExtraScopes cfg\<rparr> s))\<rparr>)))))))) "

definition HandleOIDCCallback ::
  "('p, 'i, 'r, 'v) sso_lib \<Rightarrow> 's sso_store \<Rightarrow> 'h sso_service \<Rightarrow> sso_call \<Rightarrow> string \<Rightarrow> string \<Rightarrow> uuid \<Rightarrow> ('s, 'p, 'h) sso_state
   \<Rightarrow> auth_response result \<times> ('s, 'p, 'h) sso_state" where
  "HandleOIDCCallback P A v c code provider companyID st = HandleOIDCCallbackWithVerifier P A v c code provider companyID [] st"

definition HandleOIDCCallbackWithState ::
  "('p, 'i, 'r, 'v) sso_lib \<Rightarrow> 's sso_store \<Rightarrow> 'h sso_service \<Rightarrow> sso_call \<Rightarrow> string \<Rightarrow> string \<Rightarrow> ('s, 'p, 'h) sso_state
   \<Rightarrow> (auth_response \<times> string) result \<times> ('s, 'p, 'h) sso_state" where
  "HandleOIDCCallbackWithState P A v c code stateJWT st =
     (case parseStateJWT P (sv_lib v) (sv_jwt v) (sc_now c) stateJWT of
        Inl err \<Rightarrow> (Inl (ErrWrap ''invalid state: '' err []), st)
      | Inr (companyID, provider, redirectURI, verifier) \<Rightarrow>
          (case HandleOIDCCallbackWithVerifier P A v c code provider companyID verifier st of
             (Inl err, st') \<Rightarrow> (Inl err, st')
           | (Inr resp, st') \<Rightarrow> (Inr (resp, redirectURI), st')))"

subsection \<open>SAML\<close>

definition createSAMLSP :: "('p, 'i, 'r, 'v) sso_lib \<Rightarrow> 'h sso_service \<Rightarrow> sso_config \<Rightarrow> 'v result" where
  "createSAMLSP P v cfg =
     (if sc_MetadataURL cfg = [] then Inl (ErrMsg ''SAML metadata URL not configured'')
      else (case sl_ParseURL P (sc_MetadataURL cfg) of
              Inl err \<Rightarrow> Inl (ErrWrap ''parse metadata URL: '' err [])
            | Inr _ \<Rightarrow>
                (case sl_ParseURL P (sv_baseURL v) of
                   Inl err \<Rightarrow> Inl (ErrWrap ''parse base URL: '' err [])
                 | Inr _ \<Rightarrow>
                     (case sl_FetchMetadata P (sc_MetadataURL cfg) of
                        Inl err \<Rightarrow> Inl (ErrWrap ''fetch IdP metadata: '' err [])
                      | Inr idp \<Rightarrow> Inr idp))))"

definition InitiateSAML ::
  "('p, 'i, 'r, 'v) sso_lib \<Rightarrow> 's sso_store \<Rightarrow> 'h sso_service \<Rightarrow> uuid \<Rightarrow> ('s, 'p, 'h) sso_state \<Rightarrow> string result" where
  "InitiateSAML P A v companyID st =
     (case as_GetSSOConfig A companyID ''saml'' (sx_store st) of
        Inl _ \<Rightarrow> Inl (ErrMsg ''SAML not configured for this company'')
      | Inr cfg \<Rightarrow>
          (case createSAMLSP P v cfg of
             Inl err \<Rightarrow> Inl (ErrWrap ''create SAML SP: '' err [])
           | Inr sp \<Rightarrow>
               (case sl_MakeAuthenticationRequest P (sv_baseURL v) sp of
                  Inl err \<Rightarrow> Inl (ErrWrap ''create SAML authn request: '' err [])
                | Inr authnReq \<Rightarrow>
                    (case sl_RequestRedirect P authnReq sp of
                       Inl err \<Rightarrow> Inl (ErrWrap ''build SAML redirect URL: '' err [])
                     | Inr redirectURL \<Rightarrow> Inr redirectURL))))"

text \<open>The first value of the first attribute with one of the names; one without values is passed over.\<close>

definition getAssertionAttribute :: "saml_assertion option \<Rightarrow> string list \<Rightarrow> string" where
  "getAssertionAttribute assertion names =
     (case assertion of
        None \<Rightarrow> []
      | Some stmts \<Rightarrow>
          (case find (\<lambda>a. (\<exists>n\<in>set names. sa_Name a = n \<or> sa_FriendlyName a = n) \<and> sa_Values a \<noteq> []) (concat stmts) of
             None \<Rightarrow> [] | Some a \<Rightarrow> hd (sa_Values a)))"

definition HandleSAMLCallback ::
  "('p, 'i, 'r, 'v) sso_lib \<Rightarrow> 's sso_store \<Rightarrow> 'h sso_service \<Rightarrow> sso_call \<Rightarrow> 'r \<Rightarrow> uuid \<Rightarrow> ('s, 'p, 'h) sso_state
   \<Rightarrow> auth_response result \<times> ('s, 'p, 'h) sso_state" where
  "HandleSAMLCallback P A v c r companyID st =
     (case as_GetSSOConfig A companyID ''saml'' (sx_store st) of
        Inl _ \<Rightarrow> (Inl (ErrMsg ''SAML not configured for this company''), st)
      | Inr cfg \<Rightarrow>
          (case createSAMLSP P v cfg of
             Inl err \<Rightarrow> (Inl (ErrWrap ''create SAML SP: '' err []), st)
           | Inr sp \<Rightarrow>
               (case sl_ParseResponse P (sv_baseURL v) sp r of
                  Inl err \<Rightarrow> (Inl (ErrWrap ''validate SAML assertion: '' err []), st)
                | Inr assertion \<Rightarrow>
                    let email = getAssertionAttribute assertion [''email'', ''http://schemas.xmlsoap.org/ws/2005/05/identity/claims/emailaddress''];
                        name = getAssertionAttribute assertion [''displayName'', ''http://schemas.xmlsoap.org/ws/2005/05/identity/claims/name'']
                    in if email = [] then (Inl (ErrMsg ''email attribute not found in SAML assertion''), st)
                       else (case jitProvision P A v c email name companyID (sx_store st) of
                               (r, s) \<Rightarrow> (r, st\<lparr>sx_store := s\<rparr>)))))"

section \<open>The HTTP handlers\<close>

datatype sso_response =
    HttpError int string
  | Redirect string
  | TokenPair string string
  | TokenPairNoStore string string

definition appendSSOQuery :: "string \<Rightarrow> string \<Rightarrow> string \<Rightarrow> string" where
  "appendSSOQuery rawURL key val = rawURL @ (if Contains rawURL ''?'' then ''&'' else ''?'') @ key @ ''='' @ QueryEscape val"

text \<open>The query parameters of the callback are arguments, empty when absent.\<close>

definition handleOIDCCallbackHTTP ::
  "('p, 'i, 'r, 'v) sso_lib \<Rightarrow> 's sso_store \<Rightarrow> 'h sso_service \<Rightarrow> sso_call \<Rightarrow> string \<Rightarrow> string \<Rightarrow> ('s, 'p, 'h) sso_state
   \<Rightarrow> sso_response \<times> ('s, 'p, 'h) sso_state" where
  "handleOIDCCallbackHTTP P A v c code stateJWT st =
     (if code = [] \<or> stateJWT = [] then (HttpError 400 ''missing code or state parameter'', st)
      else (case HandleOIDCCallbackWithState P A v c code stateJWT st of
              (Inl err, st1) \<Rightarrow> (HttpError 500 ''authentication failed'', st1)
            | (Inr (resp, redirectURI), st1) \<Rightarrow>
                if redirectURI \<noteq> [] \<and> redirectURI \<noteq> ''json''
                then (case MintHandoff (sv_lib v) (Some (sv_jwt v)) (sv_handoff v) (sc_now c) (sc_rand c 4) (sc_rand c 5) redirectURI (Some resp) (sx_handoffs st1) of
                        (Inl err, h) \<Rightarrow> (HttpError 500 ''authentication failed'', st1\<lparr>sx_handoffs := h\<rparr>)
                      | (Inr handoffCode, h) \<Rightarrow>
                          (Redirect (appendSSOQuery (appendSSOQuery redirectURI ''code'' handoffCode) ''state'' stateJWT), st1\<lparr>sx_handoffs := h\<rparr>))
                else (TokenPairNoStore (rp_AccessToken resp) (rp_RefreshToken resp), st1)))"

text \<open>The method, whether the form parses, and the two fields of the body are arguments.\<close>

definition handleOIDCExchangeHTTP ::
  "'h sso_service \<Rightarrow> go_time \<Rightarrow> go_time \<Rightarrow> string \<Rightarrow> bool \<Rightarrow> string \<Rightarrow> string \<Rightarrow> ('s, 'p, 'h) sso_state \<Rightarrow> sso_response \<times> ('s, 'p, 'h) sso_state" where
  "handleOIDCExchangeHTTP v now now' meth formOK handoffCode redirectURI st =
     (if meth \<noteq> ''POST'' then (HttpError 405 ''method not allowed'', st)
      else if \<not> formOK then (HttpError 400 ''invalid request'', st)
      else if handoffCode = [] \<or> redirectURI = [] then (HttpError 400 ''invalid request'', st)
      else (case RedeemHandoff (sv_lib v) (Some (sv_jwt v)) (sv_handoff v) now now' redirectURI handoffCode (sx_handoffs st) of
              (Inl err, h) \<Rightarrow> (HttpError 400 ''invalid request'', st\<lparr>sx_handoffs := h\<rparr>)
            | (Inr resp, h) \<Rightarrow> (TokenPairNoStore (rp_AccessToken resp) (rp_RefreshToken resp), st\<lparr>sx_handoffs := h\<rparr>)))"

definition handleSAMLACSHTTP ::
  "('p, 'i, 'r, 'v) sso_lib \<Rightarrow> 's sso_store \<Rightarrow> 'h sso_service \<Rightarrow> sso_call \<Rightarrow> bool \<Rightarrow> string \<Rightarrow> 'r \<Rightarrow> ('s, 'p, 'h) sso_state
   \<Rightarrow> sso_response \<times> ('s, 'p, 'h) sso_state" where
  "handleSAMLACSHTTP P A v c formOK relayState r st =
     (if \<not> formOK then (HttpError 400 ''failed to parse form'', st)
      else (case sl_ParseUUID P relayState of
              Inl _ \<Rightarrow> (HttpError 400 ''invalid company_id in RelayState'', st)
            | Inr companyID \<Rightarrow>
                (case HandleSAMLCallback P A v c r companyID st of
                   (Inl err, st1) \<Rightarrow> (HttpError 500 ''authentication failed'', st1)
                 | (Inr resp, st1) \<Rightarrow> (TokenPair (rp_AccessToken resp) (rp_RefreshToken resp), st1))))"

section \<open>The in-memory backend\<close>

definition dev_SSOStore :: "memory_state sso_store" where
  "dev_SSOStore = auth_store.extend dev_AuthStore (sso_store.fields AuthStore_GetSSOConfig AuthStore_UpsertOAuthCredential)"

end
