(* ===== verification/Handoff_Properties.thy ===== *)
theory Handoff_Properties
  imports Handoff
begin

text \<open>
  A handoff code gives its tokens to one redemption, for the audience it was minted for and within a minute. The
  invariant is proved for every store that keeps the contract, and holds of the store in memory.
\<close>

section \<open>The invariant\<close>

text \<open>What was minted, and the tokens that exist.\<close>

definition minted_ok :: "jose_lib \<Rightarrow> jwt_manager \<Rightarrow> 's handoff_run \<Rightarrow> minted \<Rightarrow> bool" where
  "minted_ok L m st M \<longleftrightarrow> mn_at M \<le> hr_clock st \<and> mn_audience M \<noteq> [] \<and> (\<exists>b. length b = 16 \<and> mn_jti M = token_JTI b)
     \<and> (\<exists>tid. CreateCompactShortLivedToken L m (mn_at M) tid (handoff_subject (mn_jti M) (mn_audience M)) HandoffTTL = Inr (mn_code M))"

definition code_ok :: "jose_lib \<Rightarrow> jwt_manager \<Rightarrow> 's handoff_run \<Rightarrow> string \<times> string \<Rightarrow> bool" where
  "code_ok L m st c \<longleftrightarrow> (\<exists>t tid ttl. CreateCompactShortLivedToken L m t tid (snd c) ttl = Inr (fst c))
     \<and> ((\<exists>err. parseHandoffSubject (snd c) = Inl err) \<or> (\<exists>M\<in>set (hr_minted st). snd c = handoff_subject (mn_jti M) (mn_audience M)))"

definition log_ok :: "jose_lib \<Rightarrow> jwt_manager \<Rightarrow> 's handoff_run \<Rightarrow> bool" where
  "log_ok L m st \<longleftrightarrow> distinct (map mn_jti (hr_minted st)) \<and> (\<forall>M\<in>set (hr_minted st). minted_ok L m st M) \<and> (\<forall>c\<in>set (hr_codes st). code_ok L m st c)"

text \<open>Claims come after the minting, for its audience; two claims of one code are a lifetime apart.\<close>

abbreviation claim_time :: "handoff_claim \<Rightarrow> go_time" where "claim_time c \<equiv> snd (snd c)"

definition claims_ok :: "'s handoff_run \<Rightarrow> bool" where
  "claims_ok st \<longleftrightarrow> distinct (map claim_time (hr_claims st))
     \<and> (\<forall>c\<in>set (hr_claims st). claim_time c \<le> hr_clock st
          \<and> (\<exists>M\<in>set (hr_minted st). mn_jti M = fst c \<and> mn_audience M = fst (snd c) \<and> mn_at M < claim_time c))
     \<and> (\<forall>c\<in>set (hr_claims st). \<forall>d\<in>set (hr_claims st). fst c = fst d \<longrightarrow> claim_time c < claim_time d \<longrightarrow> claim_time c + HandoffTTL \<le> claim_time d)"

text \<open>A claim is looked up at most once, and a response is the one minted, while it is fresh.\<close>

definition lookups_ok :: "'s handoff_run \<Rightarrow> bool" where
  "lookups_ok st \<longleftrightarrow> distinct (hr_pending st @ map rl_claim (hr_released st))
     \<and> set (hr_pending st) \<union> rl_claim ` set (hr_released st) \<subseteq> set (hr_claims st)
     \<and> (\<forall>R\<in>set (hr_released st). claim_time (rl_claim R) < rl_at R
          \<and> (\<exists>M\<in>set (hr_minted st). mn_jti M = fst (rl_claim R) \<and> rl_resp R = mn_resp M \<and> rl_at R \<le> mn_at M + HandoffTTL))"

definition store_ok :: "('s \<Rightarrow> string \<Rightarrow> (auth_response \<times> go_time) option) \<Rightarrow> ('s \<Rightarrow> string \<Rightarrow> go_time option) \<Rightarrow> 's handoff_run \<Rightarrow> bool" where
  "store_ok holds spent st \<longleftrightarrow>
     (\<forall>M\<in>set (hr_minted st). holds (hr_store st) (mn_jti M) = None \<or> holds (hr_store st) (mn_jti M) = Some (mn_resp M, mn_at M + HandoffTTL))
     \<and> (\<forall>M\<in>set (hr_minted st). hr_clock st \<le> mn_at M + HandoffTTL \<longrightarrow> holds (hr_store st) (mn_jti M) = Some (mn_resp M, mn_at M + HandoffTTL))
     \<and> (\<forall>c\<in>set (hr_claims st). hr_clock st \<le> claim_time c + HandoffTTL \<longrightarrow> (\<exists>u. spent (hr_store st) (fst c) = Some u \<and> claim_time c + HandoffTTL \<le> u))
     \<and> (\<forall>j u. spent (hr_store st) j = Some u \<longrightarrow> j \<in> fst ` set (hr_claims st))"

lemmas run_defs = log_ok_def claims_ok_def lookups_ok_def store_ok_def minted_ok_def code_ok_def

lemma HandoffTTL_pos: "0 < HandoffTTL"
  by (simp add: HandoffTTL_def)

text \<open>A code that validates and reads as a handoff was minted.\<close>

lemma presented_origin:
  assumes "jose_ok L" "log_ok L m st" "presentable L m (hr_codes st) code"
    "ValidateCompactShortLivedToken L m now code = Inr sub" "parseHandoffSubject sub = Inr (jti, aud)"
  shows "\<exists>M\<in>set (hr_minted st). mn_jti M = jti \<and> mn_audience M = aud"
proof -
  from assms(4) have "\<not> (\<forall>now. \<exists>err. ValidateCompactShortLivedToken L m now code = Inl err)" by (metis sum.distinct(1))
  with assms(3) obtain sub' where c: "(code, sub') \<in> set (hr_codes st)" by (auto simp: presentable_def)
  then have ok: "code_ok L m st (code, sub')" using assms(2) by (auto simp: log_ok_def)
  then obtain t tid ttl where "CreateCompactShortLivedToken L m t tid sub' ttl = Inr code" by (auto simp: code_ok_def)
  from compact_window [OF assms(1) this, of now] assms(4) have "sub' = sub" by (auto split: if_splits)
  with ok assms(5) obtain M where M: "M \<in> set (hr_minted st)" "sub = handoff_subject (mn_jti M) (mn_audience M)" by (auto simp: code_ok_def)
  with assms(2) obtain b where "length b = 16" "mn_jti M = token_JTI b" by (auto simp: log_ok_def minted_ok_def)
  with parse_handoff_subject [of b "mn_audience M"] assms(5) M show ?thesis by fastforce
qed

lemma mint_result:
  assumes "MintHandoff L (Some m) (Some H) now b b' audience (Some resp) s = (Inr code, s')"
  shows "s' = snd (hs_Put H now (token_JTI b) resp HandoffTTL s)" "fst (hs_Put H now (token_JTI b) resp HandoffTTL s) = Inr ()"
    "audience \<noteq> []" "CreateCompactShortLivedToken L m now (token_JTI b') (handoff_subject (token_JTI b) audience) HandoffTTL = Inr code"
  using assms by (auto simp: MintHandoff_def mintHandoff_def Let_def split: if_splits sum.splits prod.splits)

lemma mint_failure:
  assumes "MintHandoff L (Some m) (Some H) now b b' audience resp s = (Inl err, s')"
  shows "s' = s \<or> (\<exists>r. s' = snd (hs_Put H now (token_JTI b) r HandoffTTL s))"
  using assms by (auto simp: MintHandoff_def mintHandoff_def Let_def split: if_splits sum.splits prod.splits option.splits)
    (metis snd_conv)+

lemma claim_result:
  assumes "redeem_claim L m H now audience code s = (Inr jti, s')"
  shows "s' = snd (hs_MarkRedeemed H now jti HandoffTTL s)" "fst (hs_MarkRedeemed H now jti HandoffTTL s) = Inr True"
    "\<exists>sub. ValidateCompactShortLivedToken L m now code = Inr sub \<and> parseHandoffSubject sub = Inr (jti, audience)"
  using assms by (auto simp: redeem_claim_def split: if_splits sum.splits prod.splits)

lemma claim_failure:
  assumes "redeem_claim L m H now audience code s = (Inl err, s')"
  shows "s' = s \<or> (\<exists>j. s' = snd (hs_MarkRedeemed H now j HandoffTTL s) \<and> fst (hs_MarkRedeemed H now j HandoffTTL s) \<noteq> Inr True)"
  using assms by (auto simp: redeem_claim_def split: if_splits sum.splits prod.splits)
    (metis fst_conv snd_conv sum.distinct(1) sum.inject(2))+

lemma log_ok_step:
  assumes "handoff_step L m H st st'" "log_ok L m st"
  shows "log_ok L m st'"
  using assms
proof cases
  case (mint now b b' audience resp code s')
  have "minted_ok L m st' M" if "M \<in> set (hr_minted st)" for M
    using that assms(2) mint(1,2) by (fastforce simp: log_ok_def minted_ok_def)
  moreover have "code_ok L m st' c" if "c \<in> set (hr_codes st)" for c
    using that assms(2) mint(1) by (fastforce simp: log_ok_def code_ok_def)
  ultimately show ?thesis
    using assms(2) mint mint_result [OF mint(5)] by (auto simp: log_ok_def minted_ok_def code_ok_def)
next
  case (other now jti sub ttl code)
  then show ?thesis using assms(2) by (fastforce simp: log_ok_def minted_ok_def code_ok_def)
qed (use assms(2) in \<open>fastforce simp: log_ok_def minted_ok_def code_ok_def\<close>)+

section \<open>Every step keeps it\<close>

lemma store_okD:
  assumes "store_ok holds spent st"
  shows "M \<in> set (hr_minted st) \<Longrightarrow> holds (hr_store st) (mn_jti M) = None \<or> holds (hr_store st) (mn_jti M) = Some (mn_resp M, mn_at M + HandoffTTL)"
    and "M \<in> set (hr_minted st) \<Longrightarrow> hr_clock st \<le> mn_at M + HandoffTTL \<Longrightarrow> holds (hr_store st) (mn_jti M) = Some (mn_resp M, mn_at M + HandoffTTL)"
    and "c \<in> set (hr_claims st) \<Longrightarrow> hr_clock st \<le> claim_time c + HandoffTTL \<Longrightarrow> \<exists>u. spent (hr_store st) (fst c) = Some u \<and> claim_time c + HandoffTTL \<le> u"
    and "spent (hr_store st) j = Some u \<Longrightarrow> j \<in> fst ` set (hr_claims st)"
  using assms unfolding store_ok_def by blast+

lemma store_ok_change:
  assumes ok: "store_ok holds spent st" and now: "hr_clock st < now"
    and h: "\<And>k v. k \<in> mn_jti ` set (hr_minted st) \<Longrightarrow> holds s' k = Some v \<Longrightarrow> holds (hr_store st) k = Some v"
    and l: "\<And>k x e. k \<in> mn_jti ` set (hr_minted st) \<Longrightarrow> holds (hr_store st) k = Some (x, e) \<Longrightarrow> now \<le> e \<Longrightarrow> holds s' k = Some (x, e)"
    and u: "\<And>k u. spent (hr_store st) k = Some u \<Longrightarrow> now \<le> u \<Longrightarrow> \<exists>u'. spent s' k = Some u' \<and> u \<le> u'"
    and n: "\<And>k u. spent s' k = Some u \<Longrightarrow> spent (hr_store st) k = Some u \<or> k \<in> fst ` set cs"
    and cs: "\<And>c. c \<in> set cs \<Longrightarrow> spent s' (fst c) = Some (claim_time c + HandoffTTL)"
  shows "store_ok holds spent (st\<lparr>hr_store := s', hr_clock := now, hr_claims := cs @ hr_claims st\<rparr>)"
proof -
  have 1: "holds s' (mn_jti M) = None \<or> holds s' (mn_jti M) = Some (mn_resp M, mn_at M + HandoffTTL)" if "M \<in> set (hr_minted st)" for M
    using store_okD(1) [OF ok that] h [OF imageI [OF that]] by (metis not_None_eq)
  have 2: "holds s' (mn_jti M) = Some (mn_resp M, mn_at M + HandoffTTL)" if "M \<in> set (hr_minted st)" "now \<le> mn_at M + HandoffTTL" for M
    by (rule l [OF imageI [OF that(1)] store_okD(2) [OF ok that(1)] that(2)]) (use now that(2) in linarith)
  have 3: "\<exists>v. spent s' (fst c) = Some v \<and> claim_time c + HandoffTTL \<le> v" if c: "c \<in> set (cs @ hr_claims st)" "now \<le> claim_time c + HandoffTTL" for c
  proof (cases "c \<in> set cs")
    case True
    with cs show ?thesis by blast
  next
    case False
    with c(1) have "c \<in> set (hr_claims st)" by simp
    then obtain v where v: "spent (hr_store st) (fst c) = Some v" "claim_time c + HandoffTTL \<le> v"
      using store_okD(3) [OF ok] now c(2) by (meson less_le_trans less_imp_le)
    with u [OF v(1)] c(2) show ?thesis by (meson order_trans)
  qed
  have 4: "j \<in> fst ` set (cs @ hr_claims st)" if "spent s' j = Some v" for j v
    using n [OF that] store_okD(4) [OF ok] by (metis UnCI image_Un set_append)
  show ?thesis
    unfolding store_ok_def by (simp del: set_append split_paired_All) (use 1 2 3 4 in blast)
qed

text \<open>Adding what was just minted.\<close>

lemma store_ok_mint:
  assumes "store_ok holds spent st" "holds (hr_store st) (mn_jti M) = Some (mn_resp M, mn_at M + HandoffTTL)"
  shows "store_ok holds spent (st\<lparr>hr_minted := M # hr_minted st\<rparr>)"
  using assms by (auto simp: store_ok_def)

lemma idle_store_ok:
  assumes "store_ok holds spent st" "hr_clock st < now"
  shows "store_ok holds spent (st\<lparr>hr_clock := now\<rparr>)"
  using store_ok_change [OF assms, of "hr_store st" "[]"] by auto

lemma store_ok_codes [simp]: "store_ok holds spent (st\<lparr>hr_codes := cs\<rparr>) = store_ok holds spent st"
  "store_ok holds spent (st\<lparr>hr_pending := ps\<rparr>) = store_ok holds spent st"
  "store_ok holds spent (st\<lparr>hr_released := rs\<rparr>) = store_ok holds spent st"
  by (simp_all add: store_ok_def)

text \<open>A step that adds no claim and no response keeps what is said of them.\<close>

lemma idle_claims:
  assumes "claims_ok st" "lookups_ok st" "hr_clock st \<le> hr_clock st'" "hr_claims st' = hr_claims st" "set (hr_minted st) \<subseteq> set (hr_minted st')"
  shows "claims_ok st'" "hr_pending st' = hr_pending st \<Longrightarrow> hr_released st' = hr_released st \<Longrightarrow> lookups_ok st'"
proof -
  show "claims_ok st'"
    using assms(1,3,4,5) unfolding claims_ok_def by (simp del: split_paired_All split_paired_Ex) (meson order_trans subsetD)
  assume "hr_pending st' = hr_pending st" "hr_released st' = hr_released st"
  with assms(2,4,5) show "lookups_ok st'"
    unfolding lookups_ok_def by (simp del: split_paired_All split_paired_Ex) (meson subsetD)
qed

lemma lookups_ok_claim:
  assumes "claims_ok st" "lookups_ok st" "hr_clock st < now"
  shows "lookups_ok (st\<lparr>hr_store := s', hr_clock := now, hr_claims := (j, audience, now) # hr_claims st, hr_pending := (j, audience, now) # hr_pending st\<rparr>)"
proof -
  have "(j, audience, now) \<notin> set (hr_claims st)" using assms(1,3) by (fastforce simp: claims_ok_def)
  with assms(2) show ?thesis unfolding lookups_ok_def by auto
qed

context handoff_contract
begin

lemma put_store_ok:
  assumes "good (hr_store st)" "store_ok holds spent st" "j \<notin> mn_jti ` set (hr_minted st)" "hr_clock st < now"
  shows "store_ok holds spent (st\<lparr>hr_store := snd (hs_Put H now j r ttl (hr_store st)), hr_clock := now\<rparr>)"
proof -
  let ?s = "snd (hs_Put H now j r ttl (hr_store st))"
  have "store_ok holds spent (st\<lparr>hr_store := ?s, hr_clock := now, hr_claims := [] @ hr_claims st\<rparr>)"
  proof (rule store_ok_change [OF assms(2,4)])
    show "holds (hr_store st) k = Some v" if "k \<in> mn_jti ` set (hr_minted st)" "holds ?s k = Some v" for k v
      using put_holds [OF assms(1) that(2)] assms(3) that(1) by metis
    show "holds ?s k = Some (x, e)" if "k \<in> mn_jti ` set (hr_minted st)" "holds (hr_store st) k = Some (x, e)" "now \<le> e" for k x e
      using put_keeps [OF assms(1) _ that(2,3)] assms(3) that(1) by metis
    show "\<exists>u'. spent ?s k = Some u' \<and> u \<le> u'" if "spent (hr_store st) k = Some u" "now \<le> u" for k u
      using put_spent [OF assms(1) that] by blast
    show "spent (hr_store st) k = Some u \<or> k \<in> fst ` set ([] :: handoff_claim list)" if "spent ?s k = Some u" for k u
      using put_spent_new [OF assms(1) that] by blast
  qed simp
  then show ?thesis by simp
qed

lemma mark_store_ok:
  assumes "good (hr_store st)" "store_ok holds spent st" "hr_clock st < now" "fst (hs_MarkRedeemed H now j ttl (hr_store st)) \<noteq> Inr True"
  shows "store_ok holds spent (st\<lparr>hr_store := snd (hs_MarkRedeemed H now j ttl (hr_store st)), hr_clock := now\<rparr>)"
proof -
  let ?s = "snd (hs_MarkRedeemed H now j ttl (hr_store st))"
  have "store_ok holds spent (st\<lparr>hr_store := ?s, hr_clock := now, hr_claims := [] @ hr_claims st\<rparr>)"
  proof (rule store_ok_change [OF assms(2,3)])
    show "\<exists>u'. spent ?s k = Some u' \<and> u \<le> u'" if "spent (hr_store st) k = Some u" "now \<le> u" for k u
      using mark_keeps_spent [OF assms(1) _ that] assms(4) by blast
    show "spent (hr_store st) k = Some u \<or> k \<in> fst ` set ([] :: handoff_claim list)" if "spent ?s k = Some u" for k u
      using mark_spent_new [OF assms(1) _ that] assms(4) by blast
  qed (use mark_holds [OF assms(1)] mark_keeps [OF assms(1)] in blast, use mark_keeps [OF assms(1)] in blast, simp)
  then show ?thesis by simp
qed

lemma claim_store_ok:
  assumes "good (hr_store st)" "store_ok holds spent st" "hr_clock st < now" "fst (hs_MarkRedeemed H now j HandoffTTL (hr_store st)) = Inr True"
  shows "store_ok holds spent (st\<lparr>hr_store := snd (hs_MarkRedeemed H now j HandoffTTL (hr_store st)), hr_clock := now,
           hr_claims := (j, aud, now) # hr_claims st\<rparr>)"
proof -
  let ?s = "snd (hs_MarkRedeemed H now j HandoffTTL (hr_store st))"
  have j: "spent ?s j = Some (now + HandoffTTL)" by (rule mark_spent [OF assms(1,4)])
  have f: "\<not> now < u" if "spent (hr_store st) j = Some u" for u using mark_fresh [OF assms(1,4)] that by simp
  have u: "\<exists>u'. spent ?s k = Some u' \<and> u \<le> u'" if "spent (hr_store st) k = Some u" "now \<le> u" for k u
  proof (cases "k = j")
    case True
    with that(1) f [of u] j HandoffTTL_pos show ?thesis by simp
  next
    case False
    with mark_keeps_spent [OF assms(1) _ that] show ?thesis by blast
  qed
  have n: "spent (hr_store st) k = Some u \<or> k \<in> fst ` set [(j, aud, now)]" if "spent ?s k = Some u" for k u
    using mark_spent_new [OF assms(1) _ that] by auto
  have "store_ok holds spent (st\<lparr>hr_store := ?s, hr_clock := now, hr_claims := [(j, aud, now)] @ hr_claims st\<rparr>)"
    by (rule store_ok_change [OF assms(2,3) _ _ u n])
      (use mark_holds [OF assms(1)] in blast, use mark_keeps [OF assms(1)] in blast, simp_all add: j)
  then show ?thesis by simp
qed

text \<open>A claim that passes the gate is a lifetime after every earlier claim of the same code.\<close>

lemma claims_ok_claim:
  assumes "jose_ok L" "log_ok L m st" "good (hr_store st)" "store_ok holds spent st" "claims_ok st" "hr_clock st < now"
    "presentable L m (hr_codes st) code" "redeem_claim L m H now audience code (hr_store st) = (Inr j, s')"
  shows "claims_ok (st\<lparr>hr_store := s', hr_clock := now, hr_claims := (j, audience, now) # hr_claims st, hr_pending := ps\<rparr>)"
proof -
  obtain sub where "ValidateCompactShortLivedToken L m now code = Inr sub" "parseHandoffSubject sub = Inr (j, audience)"
    using claim_result(3) [OF assms(8)] by blast
  then obtain M where M: "M \<in> set (hr_minted st)" "mn_jti M = j" "mn_audience M = audience" using presented_origin [OF assms(1,2,7)] by blast
  then have at: "mn_at M < now" using assms(2,6) by (auto simp: log_ok_def minted_ok_def)
  have fresh: "\<not> now < u" if "spent (hr_store st) j = Some u" for u using mark_fresh [OF assms(3) claim_result(2) [OF assms(8)]] that by simp
  have apart: "claim_time c + HandoffTTL \<le> now" if c: "c \<in> set (hr_claims st)" "fst c = j" for c
  proof (rule ccontr)
    assume late: "\<not> claim_time c + HandoffTTL \<le> now"
    then have "hr_clock st \<le> claim_time c + HandoffTTL" using assms(6) by linarith
    then obtain u where "spent (hr_store st) j = Some u" "claim_time c + HandoffTTL \<le> u" using store_okD(3) [OF assms(4) c(1)] c(2) by auto
    with fresh late show False by force
  qed
  have past: "claim_time c \<le> hr_clock st" if "c \<in> set (hr_claims st)" for c using that assms(5) by (auto simp: claims_ok_def)
  then have "now \<notin> claim_time ` set (hr_claims st)" using assms(6) by force
  moreover have "claim_time c \<le> now" if "c \<in> set (hr_claims st)" for c using past [OF that] assms(6) by linarith
  ultimately show ?thesis
    using assms(5,6) M at apart unfolding claims_ok_def by (auto dest: leD)
qed

lemma lookups_ok_release:
  assumes "good (hr_store st)" "store_ok holds spent st" "claims_ok st" "lookups_ok st" "hr_clock st < now" "(j, audience, t) \<in> set (hr_pending st)"
    "hs_Load H now j (hr_store st) = Inr resp"
  shows "lookups_ok (st\<lparr>hr_clock := now, hr_pending := remove1 (j, audience, t) (hr_pending st),
           hr_released := \<lparr>rl_claim = (j, audience, t), rl_resp = resp, rl_at = now\<rparr> # hr_released st\<rparr>)"
proof -
  have c: "(j, audience, t) \<in> set (hr_claims st)" using assms(4,6) by (auto simp: lookups_ok_def)
  then obtain M where M: "M \<in> set (hr_minted st)" "mn_jti M = j" and t: "t \<le> hr_clock st" using assms(3) by (fastforce simp: claims_ok_def)
  from load [OF assms(1), of now j resp] assms(7) obtain e where "holds (hr_store st) j = Some (resp, e)" "now \<le> e" by blast
  with store_okD(1) [OF assms(2) M(1)] M(2) have "resp = mn_resp M" "now \<le> mn_at M + HandoffTTL" by auto
  with M t assms(5) have "t < now \<and> (\<exists>M\<in>set (hr_minted st). mn_jti M = j \<and> resp = mn_resp M \<and> now \<le> mn_at M + HandoffTTL)" by force
  then show ?thesis
    using assms(4,6) c unfolding lookups_ok_def by (auto simp: set_remove1_eq dest: notin_set_remove1)
qed

definition run_ok :: "jose_lib \<Rightarrow> jwt_manager \<Rightarrow> 's handoff_run \<Rightarrow> bool" where
  "run_ok L m st \<longleftrightarrow> good (hr_store st) \<and> log_ok L m st \<and> claims_ok st \<and> lookups_ok st \<and> store_ok holds spent st"

lemma run_ok_start: "run_ok L m (handoff_start start t)"
  by (simp add: run_ok_def handoff_start_def run_defs start_good start_holds start_spent)

lemma run_ok_step:
  assumes "jose_ok L" "handoff_step L m H st st'" "run_ok L m st"
  shows "run_ok L m st'"
proof -
  note ok = assms(3) [unfolded run_ok_def]
  have log: "log_ok L m st'" by (rule log_ok_step [OF assms(2)]) (use ok in blast)
  have later: "claims_ok st" "lookups_ok st" "store_ok holds spent st" "good (hr_store st)" "log_ok L m st" using ok by blast+
  from assms(2) show ?thesis
  proof cases
    case (mint now b b' audience resp code s')
    have "claims_ok st'" "lookups_ok st'" using idle_claims [OF later(1,2), of st'] mint(1,2) by auto
    moreover have "store_ok holds spent st'"
      using store_ok_mint [OF put_store_ok [OF later(4,3) mint(4,2), of resp HandoffTTL]] put_stored [OF later(4) mint_result(2) [OF mint(5)]]
      by (simp add: mint(1) mint_result(1) [OF mint(5)])
    ultimately show ?thesis using log put_good [OF later(4)] by (simp add: run_ok_def mint(1) mint_result(1) [OF mint(5)])
  next
    case (mint_failed now b b' audience resp err s')
    have s: "s' = hr_store st \<or> (\<exists>r. s' = snd (hs_Put H now (token_JTI b) r HandoffTTL (hr_store st)))" by (rule mint_failure [OF mint_failed(5)])
    have "claims_ok st'" "lookups_ok st'" using idle_claims [OF later(1,2), of st'] mint_failed(1,2) by auto
    moreover have "store_ok holds spent st'"
      using s put_store_ok [OF later(4,3) mint_failed(4,2)] idle_store_ok [OF later(3) mint_failed(2)] by (auto simp: mint_failed(1))
    ultimately show ?thesis using log s put_good [OF later(4)] later(4) by (auto simp: run_ok_def mint_failed(1))
  next
    case (other now jti sub ttl code)
    have "claims_ok st'" "lookups_ok st'" using idle_claims [OF later(1,2), of st'] other(1,2) by auto
    moreover have "store_ok holds spent st'" using idle_store_ok [OF later(3) other(2)] by (simp add: other(1))
    ultimately show ?thesis using log later(4) by (simp add: run_ok_def other(1))
  next
    case (claim now code audience jti s')
    have "lookups_ok st'" using lookups_ok_claim [OF later(1,2) claim(2)] by (simp add: claim(1))
    moreover have "claims_ok st'" using claims_ok_claim [OF assms(1) later(5,4,3,1) claim(2,3,4)] by (simp add: claim(1))
    moreover have "store_ok holds spent st'"
      using claim_store_ok [OF later(4,3) claim(2) claim_result(2) [OF claim(4)]] by (simp add: claim(1) claim_result(1) [OF claim(4)])
    ultimately show ?thesis using log mark_good [OF later(4)] by (simp add: run_ok_def claim(1) claim_result(1) [OF claim(4)])
  next
    case (claim_refused now code audience err s')
    have s: "s' = hr_store st \<or> (\<exists>j. s' = snd (hs_MarkRedeemed H now j HandoffTTL (hr_store st)) \<and> fst (hs_MarkRedeemed H now j HandoffTTL (hr_store st)) \<noteq> Inr True)"
      by (rule claim_failure [OF claim_refused(4)])
    have "claims_ok st'" "lookups_ok st'" using idle_claims [OF later(1,2), of st'] claim_refused(1,2) by auto
    moreover have "store_ok holds spent st'"
      using s mark_store_ok [OF later(4,3) claim_refused(2)] idle_store_ok [OF later(3) claim_refused(2)] by (auto simp: claim_refused(1))
    ultimately show ?thesis using log s mark_good [OF later(4)] later(4) by (auto simp: run_ok_def claim_refused(1))
  next
    case (release now jti audience t resp)
    have "claims_ok st'" using idle_claims(1) [OF later(1,2), of st'] release(1,2) by auto
    moreover have "lookups_ok st'" using lookups_ok_release [OF later(4,3,1,2) release(2,3,4)] by (simp add: release(1))
    moreover have "store_ok holds spent st'" using idle_store_ok [OF later(3) release(2)] by (simp add: release(1))
    ultimately show ?thesis using log later(4) by (simp add: run_ok_def release(1))
  next
    case (release_failed now jti audience t err)
    have "claims_ok st'" using idle_claims(1) [OF later(1,2), of st'] release_failed(1,2) by auto
    moreover have "lookups_ok st'"
      using later(2) release_failed(1) unfolding lookups_ok_def by (auto simp: set_remove1_eq dest: notin_set_remove1)
    moreover have "store_ok holds spent st'" using idle_store_ok [OF later(3) release_failed(2)] by (simp add: release_failed(1))
    ultimately show ?thesis using log later(4) by (simp add: run_ok_def release_failed(1))
  qed
qed

lemma run_ok_reachable:
  assumes "jose_ok L" "(handoff_step L m H)\<^sup>*\<^sup>* (handoff_start start t) st"
  shows "run_ok L m st"
  using assms(2) by (induction rule: rtranclp_induct) (auto intro: run_ok_start run_ok_step [OF assms(1)])

lemma released_origin:
  assumes "run_ok L m st" "R \<in> set (hr_released st)"
  shows "\<exists>M\<in>set (hr_minted st). mn_jti M = fst (rl_claim R) \<and> mn_audience M = fst (snd (rl_claim R)) \<and> rl_resp R = mn_resp M
    \<and> mn_at M < claim_time (rl_claim R) \<and> claim_time (rl_claim R) < rl_at R \<and> rl_at R \<le> mn_at M + HandoffTTL"
proof -
  have ok: "claims_ok st" "lookups_ok st" "distinct (map mn_jti (hr_minted st))" using assms(1) by (auto simp: run_ok_def log_ok_def)
  from ok(2) assms(2) obtain M where M: "M \<in> set (hr_minted st)" "mn_jti M = fst (rl_claim R)" "rl_resp R = mn_resp M"
      "rl_at R \<le> mn_at M + HandoffTTL" "claim_time (rl_claim R) < rl_at R" "rl_claim R \<in> set (hr_claims st)"
    unfolding lookups_ok_def by blast
  from ok(1) M(6) obtain M' where M': "M' \<in> set (hr_minted st)" "mn_jti M' = fst (rl_claim R)" "mn_audience M' = fst (snd (rl_claim R))"
      "mn_at M' < claim_time (rl_claim R)"
    unfolding claims_ok_def by blast
  have "M' = M" using ok(3) M(1,2) M'(1,2) by (metis distinct_map inj_onD)
  with M M' show ?thesis by blast
qed

lemma single_use:
  assumes "run_ok L m st"
  shows "distinct (map (\<lambda>R. fst (rl_claim R)) (hr_released st))"
proof -
  have ok: "claims_ok st" "lookups_ok st" "distinct (map mn_jti (hr_minted st))" using assms by (auto simp: run_ok_def log_ok_def)
  have d: "distinct (map rl_claim (hr_released st))" using ok(2) by (simp add: lookups_ok_def)
  have no: False if R: "R \<in> set (hr_released st)" "Q \<in> set (hr_released st)" "fst (rl_claim R) = fst (rl_claim Q)"
    "claim_time (rl_claim R) < claim_time (rl_claim Q)" for R Q
  proof -
    have "claim_time (rl_claim R) + HandoffTTL \<le> claim_time (rl_claim Q)" using ok(1,2) R unfolding claims_ok_def lookups_ok_def by (meson UnI2 imageI subsetD)
    moreover obtain M M' where "M \<in> set (hr_minted st)" "M' \<in> set (hr_minted st)" "mn_jti M = mn_jti M'"
        "mn_at M < claim_time (rl_claim R)" "claim_time (rl_claim Q) < rl_at Q" "rl_at Q \<le> mn_at M' + HandoffTTL"
      using released_origin [OF assms R(1)] released_origin [OF assms R(2)] R(3) by metis
    moreover from this(1-3) ok(3) have "M = M'" by (metis distinct_map inj_onD)
    ultimately show False by simp
  qed
  have t: "inj_on claim_time (set (hr_claims st))" using ok(1) by (simp add: claims_ok_def distinct_map)
  have "R = Q" if R: "R \<in> set (hr_released st)" "Q \<in> set (hr_released st)" "fst (rl_claim R) = fst (rl_claim Q)" for R Q
  proof -
    have "claim_time (rl_claim R) = claim_time (rl_claim Q)" using no [OF R] no [OF R(2,1) R(3) [symmetric]] by force
    moreover have "rl_claim R \<in> set (hr_claims st)" "rl_claim Q \<in> set (hr_claims st)" using ok(2) R(1,2) by (auto simp: lookups_ok_def)
    ultimately have "rl_claim R = rl_claim Q" using t by (meson inj_onD)
    with d R(1,2) show ?thesis by (metis distinct_map inj_onD)
  qed
  with d show ?thesis by (auto simp: distinct_map inj_on_def)
qed

text \<open>A code nobody has redeemed works for its audience, if the gate answers.\<close>

lemma unclaimed_redeems:
  assumes "jose_ok L" "run_ok L m st" "M \<in> set (hr_minted st)" "mn_jti M \<notin> fst ` set (hr_claims st)" "hr_clock st < now" "now < now'"
    "now' < NewNumericDate (mn_at M + HandoffTTL)" "fst (hs_MarkRedeemed H now (mn_jti M) HandoffTTL (hr_store st)) = Inr b"
  shows "fst (RedeemHandoff L (Some m) (Some H) now now' (mn_audience M) (mn_code M) (hr_store st)) = Inr (mn_resp M)"
proof -
  have ok: "store_ok holds spent st" "good (hr_store st)" "minted_ok L m st M" using assms(2,3) by (auto simp: run_ok_def log_ok_def)
  from ok(3) obtain bs tid where bs: "length bs = 16" "mn_jti M = token_JTI bs" "mn_audience M \<noteq> []"
      and tid: "CreateCompactShortLivedToken L m (mn_at M) tid (handoff_subject (mn_jti M) (mn_audience M)) HandoffTTL = Inr (mn_code M)"
    by (auto simp: minted_ok_def)
  have v: "ValidateCompactShortLivedToken L m now (mn_code M) = Inr (handoff_subject (mn_jti M) (mn_audience M))"
    using compact_window [OF assms(1) tid, of now] assms(6,7) by (simp split: if_splits)
  have p: "parseHandoffSubject (handoff_subject (mn_jti M) (mn_audience M)) = Inr (mn_jti M, mn_audience M)"
    using parse_handoff_subject [of bs "mn_audience M"] bs(1,2) by fastforce
  have "spent (hr_store st) (mn_jti M) = None" using store_okD(4) [OF ok(1)] assms(4) by (metis not_None_eq)
  with mark_fresh [OF ok(2) assms(8)] assms(8) have mk: "fst (hs_MarkRedeemed H now (mn_jti M) HandoffTTL (hr_store st)) = Inr True" by simp
  let ?s = "snd (hs_MarkRedeemed H now (mn_jti M) HandoffTTL (hr_store st))"
  have e: "now' \<le> mn_at M + HandoffTTL" using assms(7) NewNumericDate_le(1) [of "mn_at M + HandoffTTL"] by linarith
  then have "holds (hr_store st) (mn_jti M) = Some (mn_resp M, mn_at M + HandoffTTL)"
    using store_okD(2) [OF ok(1) assms(3)] assms(5,6) by linarith
  then have "holds ?s (mn_jti M) = Some (mn_resp M, mn_at M + HandoffTTL)" using mark_keeps [OF ok(2)] e assms(6) by auto
  then have "hs_Load H now' (mn_jti M) ?s = Inr (mn_resp M)" using load [OF mark_good [OF ok(2)]] e by blast
  with mk v p bs(3) show ?thesis by (auto simp: RedeemHandoff_def redeem_claim_def split: prod.splits)
qed

end

section \<open>The store in memory\<close>

text \<open>
  C20: In every interleaving of minting, redeeming and other use of the signing key, on the store in memory, a handoff code
  hands out its tokens at most once. What is handed out is the response recorded when the code was minted, to a request
  that named exactly the redirect target the code was minted for, after the minting and no more than sixty seconds later;
  concurrent redemptions, replays after the marker was swept and forged or foreign tokens change nothing. Conversely a
  code that nobody has redeemed gives its response to a request for its target, until its lifetime, cut to the second,
  has passed.
\<close>

theorem handoff_single_use:
  assumes "jose_ok L"
    and "(handoff_step L m memory_handoff_store)\<^sup>*\<^sup>* (handoff_start NewInMemoryHandoffStore t) st"
  shows "distinct (map (\<lambda>R. fst (rl_claim R)) (hr_released st))
    \<and> (\<forall>R\<in>set (hr_released st). \<exists>M\<in>set (hr_minted st).
         mn_jti M = fst (rl_claim R) \<and> mn_audience M = fst (snd (rl_claim R)) \<and> rl_resp R = mn_resp M
         \<and> mn_at M < claim_time (rl_claim R) \<and> claim_time (rl_claim R) < rl_at R \<and> rl_at R \<le> mn_at M + HandoffTTL)
    \<and> (\<forall>M\<in>set (hr_minted st). mn_jti M \<notin> fst ` set (hr_claims st) \<longrightarrow>
         (\<forall>now now'. hr_clock st < now \<longrightarrow> now < now' \<longrightarrow> now' < NewNumericDate (mn_at M + HandoffTTL) \<longrightarrow>
            fst (RedeemHandoff L (Some m) (Some memory_handoff_store) now now' (mn_audience M) (mn_code M) (hr_store st)) = Inr (mn_resp M)))"
proof -
  have ok: "memory_handoff.run_ok L m st" by (rule memory_handoff.run_ok_reachable [OF assms])
  have mk: "\<exists>b. fst (hs_MarkRedeemed memory_handoff_store now j ttl s) = Inr b" for now j ttl s
    by (auto simp: memory_handoff_defs)
  show ?thesis
    using memory_handoff.single_use [OF ok] memory_handoff.released_origin [OF ok] memory_handoff.unclaimed_redeems [OF assms(1) ok] mk
    by blast
qed

definition demo_user :: user where
  "demo_user = \<lparr>us_ID = ''u1'', us_Email = ''ann@example.com'', us_PasswordHash = [], us_DisplayName = ''Ann'', us_AvatarURL = [], us_IsActive = True, us_CreatedAt = 0\<rparr>"

definition demo_pair :: auth_response where
  "demo_pair = \<lparr>rp_AccessToken = ''access'', rp_RefreshToken = ''refresh'', rp_User = demo_user\<rparr>"

abbreviation demo_bytes :: string where "demo_bytes \<equiv> ''0123456789abcdef''"
abbreviation demo_target :: string where "demo_target \<equiv> ''t''"

definition demo_table :: "(jwt_header \<times> claim_set) list" where
  "demo_table =
     [(\<lparr>jh_alg = ''HS256'', jh_typ = HString ''JWT'', jh_kid = HAbsent\<rparr>,
       (registered demo_manager second (token_JTI ''x'') (handoff_subject (token_JTI demo_bytes) demo_target) HandoffTTL, []))]"

abbreviation demo_handoff_lib :: jose_lib where "demo_handoff_lib \<equiv> table_lib demo_table"

definition demo_key :: string where
  "demo_key = ''eden-platform/short-lived-hs256/v1'' @ [CHR 0x00] @ ''key''"

definition demo_code :: string where "demo_code = CHR ''.'' # demo_key"

lemma demo_state_key: "stateHMACKey (table_lib tbl) demo_manager = Inr demo_key"
  by (simp add: stateHMACKey_def demo_manager_def gm_get_def entry_of_pair_def table_lib_def demo_key_def)

lemma demo_code_made:
  "CreateCompactShortLivedToken demo_handoff_lib demo_manager second (token_JTI ''x'') (handoff_subject (token_JTI demo_bytes) demo_target) HandoffTTL = Inr demo_code"
  using table_compact [OF _ demo_state_key, of demo_table second "token_JTI ''x''" "handoff_subject (token_JTI demo_bytes) demo_target" HandoffTTL 0]
  by (simp add: demo_table_def demo_code_def)

definition demo_run_minted :: "memory_handoffs handoff_run" where
  "demo_run_minted =
     \<lparr>hr_store = \<lparr>mh_entries = [(token_JTI demo_bytes, \<lparr>he_resp = demo_pair, he_expiresAt = second + HandoffTTL\<rparr>)], mh_redeemed = []\<rparr>,
      hr_minted = [\<lparr>mn_jti = token_JTI demo_bytes, mn_audience = demo_target, mn_resp = demo_pair, mn_at = second, mn_code = demo_code\<rparr>],
      hr_codes = [(demo_code, handoff_subject (token_JTI demo_bytes) demo_target)], hr_claims = [], hr_pending = [], hr_released = [], hr_clock = second\<rparr>"

definition demo_run_claimed :: "memory_handoffs handoff_run" where
  "demo_run_claimed = demo_run_minted
     \<lparr>hr_store := \<lparr>mh_entries = [(token_JTI demo_bytes, \<lparr>he_resp = demo_pair, he_expiresAt = second + HandoffTTL\<rparr>)],
                   mh_redeemed = [(token_JTI demo_bytes, 2 * second + HandoffTTL)]\<rparr>,
      hr_clock := 2 * second, hr_claims := [(token_JTI demo_bytes, demo_target, 2 * second)], hr_pending := [(token_JTI demo_bytes, demo_target, 2 * second)]\<rparr>"

lemma demo_minted: "handoff_step demo_handoff_lib demo_manager memory_handoff_store (handoff_start NewInMemoryHandoffStore 0) demo_run_minted"
proof -
  have "MintHandoff demo_handoff_lib (Some demo_manager) (Some memory_handoff_store) second demo_bytes ''x'' demo_target (Some demo_pair)
      (hr_store (handoff_start NewInMemoryHandoffStore 0)) = (Inr demo_code, hr_store demo_run_minted)"
    using demo_code_made
    by (simp add: MintHandoff_def mintHandoff_def handoff_start_def memory_handoff_defs demo_pair_def demo_run_minted_def gm_remove_def gm_put_def maxInMemoryHandoffs_def)
  from handoff_step.mint [OF _ _ _ this]
  show ?thesis by (simp add: handoff_start_def demo_run_minted_def)
qed

lemma demo_claimed: "handoff_step demo_handoff_lib demo_manager memory_handoff_store demo_run_minted demo_run_claimed"
proof -
  have "ValidateCompactShortLivedToken demo_handoff_lib demo_manager (2 * second) demo_code = Inr (handoff_subject (token_JTI demo_bytes) demo_target)"
    using compact_window [OF table_lib_ok demo_code_made, of "2 * second"] by (simp add: HandoffTTL_def NewNumericDate_def)
  moreover have "parseHandoffSubject (handoff_subject (token_JTI demo_bytes) demo_target) = Inr (token_JTI demo_bytes, demo_target)"
    by (rule parse_handoff_subject) simp
  ultimately have "redeem_claim demo_handoff_lib demo_manager memory_handoff_store (2 * second) demo_target demo_code (hr_store demo_run_minted)
      = (Inr (token_JTI demo_bytes), hr_store demo_run_claimed)"
    by (simp add: redeem_claim_def memory_handoff_defs demo_run_minted_def demo_run_claimed_def gm_remove_def gm_put_def HandoffTTL_def)
  from handoff_step.claim [OF _ _ this] show ?thesis by (simp add: presentable_def demo_run_minted_def demo_run_claimed_def)
qed

text \<open>A code is minted, claimed a second later and looked up another second later.\<close>

theorem handoff_single_use_witness:
  "\<exists>st. (handoff_step demo_handoff_lib demo_manager memory_handoff_store)\<^sup>*\<^sup>* (handoff_start NewInMemoryHandoffStore 0) st
     \<and> map rl_resp (hr_released st) = [demo_pair] \<and> distinct (map (\<lambda>R. fst (rl_claim R)) (hr_released st))
     \<and> (\<forall>R\<in>set (hr_released st). \<exists>M\<in>set (hr_minted st). mn_audience M = fst (snd (rl_claim R)) \<and> rl_at R \<le> mn_at M + HandoffTTL)"
proof -
  let ?c = "(token_JTI demo_bytes, demo_target, 2 * second)"
  let ?st = "demo_run_claimed\<lparr>hr_clock := 3 * second, hr_pending := remove1 ?c (hr_pending demo_run_claimed),
      hr_released := \<lparr>rl_claim = ?c, rl_resp = demo_pair, rl_at = 3 * second\<rparr> # hr_released demo_run_claimed\<rparr>"
  have l: "hs_Load memory_handoff_store (3 * second) (token_JTI demo_bytes) (hr_store demo_run_claimed) = Inr demo_pair"
    by (simp add: memory_handoff_defs demo_run_claimed_def gm_get_def HandoffTTL_def)
  have "handoff_step demo_handoff_lib demo_manager memory_handoff_store demo_run_claimed ?st"
    by (rule handoff_step.release [OF _ _ l]) (simp_all add: demo_run_claimed_def)
  with demo_minted demo_claimed have r: "(handoff_step demo_handoff_lib demo_manager memory_handoff_store)\<^sup>*\<^sup>* (handoff_start NewInMemoryHandoffStore 0) ?st"
    by (meson converse_rtranclp_into_rtranclp r_into_rtranclp)
  have j: "jose_ok demo_handoff_lib" by (rule table_lib_ok)
  from handoff_single_use [OF j r] have "distinct (map (\<lambda>R. fst (rl_claim R)) (hr_released ?st))"
      "\<forall>R\<in>set (hr_released ?st). \<exists>M\<in>set (hr_minted ?st). mn_audience M = fst (snd (rl_claim R)) \<and> rl_at R \<le> mn_at M + HandoffTTL" by blast+
  moreover have "map rl_resp (hr_released ?st) = [demo_pair]" by (simp add: demo_run_claimed_def demo_run_minted_def)
  ultimately show ?thesis using r by (intro exI [of _ ?st] conjI)
qed

text \<open>
  The comment on the limit of the store promises that the oldest entry makes room when the store is full; the code refuses
  the new one.
\<close>

lemma full_store_refuses:
  assumes "maxInMemoryHandoffs \<le> length (mh_entries (sweepLocked now s))"
  shows "MemoryHandoff_Put now jti resp ttl s = (Inl (ErrMsg ''handoff store is full''), sweepLocked now s)"
  using assms by (simp add: MemoryHandoff_Put_def Let_def)

end
