(* ===== verification/Sso_Properties.thy ===== *)
theory Sso_Properties
  imports Sso Handoff_Properties Session_Properties
begin

text \<open>
  Single sign-on from end to end: a callback acts for the flow its state was issued for, and what the exchange hands out
  is a session of the account that the identity provider vouched for.
\<close>

section \<open>The state\<close>

lemma state_window:
  assumes "jose_ok L" "createStateJWT L m t tid cid prov uri ver = Inr state" "CHR ''|'' \<notin> set cid" "CHR ''|'' \<notin> set prov" "CHR ''|'' \<notin> set uri"
    "sl_ParseUUID P cid = Inr cid" "now < NewNumericDate (t + 10 * minute)"
  shows "parseStateJWT P L m now state = Inr (cid, prov, uri, ver)"
proof -
  have "ValidateCompactShortLivedToken L m now state = Inr (cid @ ''|'' @ prov @ ''|'' @ uri @ ''|'' @ ver)"
    using compact_window [OF assms(1) assms(2) [unfolded createStateJWT_def], of now] assms(7) by (simp split: if_splits)
  moreover have "SplitN (cid @ CHR ''|'' # prov @ CHR ''|'' # uri @ CHR ''|'' # ver) CHR ''|'' 4 = [cid, prov, uri, ver]"
    using assms(3-5) by (simp add: numeral_eq_Suc SplitN_sep del: SplitN.simps) simp
  ultimately show ?thesis using assms(6) by (simp add: parseStateJWT_def)
qed

text \<open>
  A bar in the redirect target shifts the fields: the callback sends the user to the part before the bar, and the rest is
  taken for the beginning of the verifier.
\<close>

lemma state_bar_shifts:
  assumes "jose_ok L" "createStateJWT L m t tid cid prov (u @ CHR ''|'' # r) ver = Inr state" "CHR ''|'' \<notin> set cid" "CHR ''|'' \<notin> set prov"
    "CHR ''|'' \<notin> set u" "sl_ParseUUID P cid = Inr cid" "now < NewNumericDate (t + 10 * minute)"
  shows "parseStateJWT P L m now state = Inr (cid, prov, u, r @ CHR ''|'' # ver)"
proof -
  have "createStateJWT L m t tid cid prov u (r @ CHR ''|'' # ver) = Inr state" using assms(2) by (simp add: createStateJWT_def)
  from state_window [OF assms(1) this assms(3-7)] show ?thesis .
qed

section \<open>The callback\<close>

text \<open>What a session response of the OpenID callback rests on: the provider's answer, for this code and verifier.\<close>

definition vouched ::
  "('p, 'i, 'r, 'v) sso_lib \<Rightarrow> 's sso_store \<Rightarrow> 'h sso_service \<Rightarrow> ('s, 'p, 'h) sso_state \<Rightarrow> uuid \<Rightarrow> string \<Rightarrow> string \<Rightarrow> string \<Rightarrow> string \<Rightarrow> string \<Rightarrow> bool" where
  "vouched P A v st cid prov code ver email name \<longleftrightarrow>
     (\<exists>cfg cached cache token raw idt.
        as_GetSSOConfig A cid prov (sx_store st) = Inr cfg
        \<and> getOrCreateOIDCProvider P (sv_baseURL v) cfg (sx_providers st) = (Inr cached, cache)
        \<and> sl_Exchange P (snd cached) code (if ver = [] then None else Some ver) = Inr token
        \<and> ot_IDToken token = Some raw \<and> sl_Verify P (fst cached) (sc_ClientID cfg) raw = Inr idt
        \<and> sl_Claims P idt = Inr (email, name) \<and> email \<noteq> [])"

lemma callback_vouched:
  assumes "HandleOIDCCallbackWithVerifier P A v c code prov cid ver st = (Inr resp, st')"
  shows "\<exists>email name s. vouched P A v st cid prov code ver email name \<and> jitProvision P A v c email name cid (sx_store st) = (Inr resp, s)"
  using assms unfolding HandleOIDCCallbackWithVerifier_def vouched_def Let_def
  by (auto split: sum.splits prod.splits option.splits if_splits)

lemma callback_keeps_handoffs:
  "sx_handoffs (snd (HandleOIDCCallbackWithVerifier P A v c code prov cid ver st)) = sx_handoffs st"
  unfolding HandleOIDCCallbackWithVerifier_def Let_def
  by (auto split: sum.splits prod.splits option.splits if_splits)

lemma jit_response:
  assumes "jitProvision P A v c email name cid s = (Inr resp, s')"
  shows "\<exists>role lvl. CreateAccessToken (sv_lib v) (sv_jwt v) (sc_now c) (sc_rand c 2) (us_ID (rp_User resp)) cid role lvl [cid] = Inr (rp_AccessToken resp)
    \<and> (as_GetUserByEmail A (ToLower (TrimSpace email)) s = Inr (rp_User resp)
       \<or> (\<exists>err n. as_GetUserByEmail A (ToLower (TrimSpace email)) s = Inl err
           \<and> fst (as_CreateUser A (sc_newUser c) (sc_now c) (ToLower (TrimSpace email)) [] n s) = Inr (rp_User resp)))"
  using assms unfolding jitProvision_def Let_def
  by (auto split: sum.splits prod.splits) (metis fst_conv sum.inject(2))+

section \<open>The flow\<close>

lemma initiate_state:
  assumes "InitiateOIDC P A v c cid prov uri st0 = (Inr (url, state), st1)"
  shows "createStateJWT (sv_lib v) (sv_jwt v) (sc_now c) (sc_rand c 1) cid (if prov = [] then ''oidc'' else prov) uri (sc_rand c 0) = Inr state"
  using assms unfolding InitiateOIDC_def Let_def by (auto split: sum.splits prod.splits option.splits if_splits)

lemma callback_redirects:
  assumes "handleOIDCCallbackHTTP P A v c code state st = (Redirect target, st')"
    "parseStateJWT P (sv_lib v) (sv_jwt v) (sc_now c) state = Inr (cid, prov, uri, ver)"
  shows "\<exists>resp st1 hc h. HandleOIDCCallbackWithVerifier P A v c code prov cid ver st = (Inr resp, st1)
    \<and> MintHandoff (sv_lib v) (Some (sv_jwt v)) (sv_handoff v) (sc_now c) (sc_rand c 4) (sc_rand c 5) uri (Some resp) (sx_handoffs st1) = (Inr hc, h)
    \<and> target = appendSSOQuery (appendSSOQuery uri ''code'' hc) ''state'' state \<and> st' = st1\<lparr>sx_handoffs := h\<rparr>"
  using assms unfolding handleOIDCCallbackHTTP_def HandleOIDCCallbackWithState_def
  by (auto split: sum.splits prod.splits if_splits)

text \<open>A code that was just minted: its target gets the tokens, any other target the common refusal.\<close>

lemma redeem_minted:
  assumes "jose_ok L" "MintHandoff L (Some m) (Some memory_handoff_store) t b b' uri (Some resp) s = (Inr hc, s')" "memory_handoffs_ok s" "b \<noteq> []"
    "gm_get (mh_redeemed s) (token_JTI b) = None" "t \<le> now" "now \<le> now'" "now' < NewNumericDate (t + HandoffTTL)"
  shows "fst (RedeemHandoff L (Some m) (Some memory_handoff_store) now now' uri hc s') = Inr resp"
    "uri' \<noteq> uri \<Longrightarrow> fst (RedeemHandoff L (Some m) (Some memory_handoff_store) now now' uri' hc s') = Inl ErrHandoffAudience"
proof -
  note r = mint_result [OF assms(2)]
  have v: "ValidateCompactShortLivedToken L m now hc = Inr (handoff_subject (token_JTI b) uri)"
    using compact_window [OF assms(1) r(4), of now] assms(7,8) by (simp split: if_splits)
  note p = parse_handoff_subject [OF assms(4), of uri]
  have e: "now' \<le> t + HandoffTTL" using assms(8) NewNumericDate_le(1) [of "t + HandoffTTL"] by linarith
  have s': "memory_handoffs_ok s'" using memory_handoff.put_good [OF assms(3)] r(1) by simp
  have h: "memory_holds s' (token_JTI b) = Some (resp, t + HandoffTTL)" using memory_handoff.put_stored [OF assms(3) r(2)] r(1) by simp
  have n: "gm_get (mh_redeemed s') (token_JTI b) = None"
    using memory_handoff.put_spent_new [OF assms(3)] r(1) assms(5) by (metis not_None_eq)
  let ?mk = "hs_MarkRedeemed memory_handoff_store now (token_JTI b) HandoffTTL s'"
  have mk: "fst ?mk = Inr True" using n by (simp add: memory_handoff_defs gm_get_remove s' [unfolded memory_handoffs_ok_def])
  have "memory_holds (snd ?mk) (token_JTI b) = Some (resp, t + HandoffTTL)"
    using memory_handoff.mark_keeps [OF s' h] e assms(7) by simp
  then have l: "hs_Load memory_handoff_store now' (token_JTI b) (snd ?mk) = Inr resp"
    using memory_handoff.load [OF memory_handoff.mark_good [OF s']] e by blast
  show "fst (RedeemHandoff L (Some m) (Some memory_handoff_store) now now' uri hc s') = Inr resp"
    using v p mk l r(3) by (auto simp: RedeemHandoff_def redeem_claim_def split: prod.splits)
  show "fst (RedeemHandoff L (Some m) (Some memory_handoff_store) now now' uri' hc s') = Inl ErrHandoffAudience" if "uri' \<noteq> uri"
    using v p that by (auto simp: RedeemHandoff_def redeem_claim_def)
qed


section \<open>Accounts\<close>

lemma dev_sso_ops:
  "as_GetUserByEmail dev_SSOStore = AuthStore_GetUserByEmail" "as_CreateUser dev_SSOStore = AuthStore_CreateUser"
  "as_CreateCompanyMembership dev_SSOStore = AuthStore_CreateCompanyMembership" "as_GetUserRole dev_SSOStore = AuthStore_GetUserRole"
  "as_CreateRefreshToken dev_SSOStore = AuthStore_CreateRefreshToken" "as_GetSSOConfig dev_SSOStore = AuthStore_GetSSOConfig"
  "as_UpsertOAuthCredential dev_SSOStore = AuthStore_UpsertOAuthCredential"
  by (simp_all add: dev_SSOStore_def dev_AuthStore_def sso_store.defs auth_store.defs)

text \<open>The account of an address: the one it has, or a new one without a password.\<close>

definition account_step :: "uuid \<Rightarrow> go_time \<Rightarrow> string \<Rightarrow> string \<Rightarrow> memory_state \<Rightarrow> user result \<times> memory_state" where
  "account_step uid now email name s =
     (case AuthStore_GetUserByEmail email s of Inr user \<Rightarrow> (Inr user, s) | Inl _ \<Rightarrow> AuthStore_CreateUser uid now email [] name s)"

lemma account_step_wf:
  assumes "users_wf s" "gm_get (ms_usersByID s) uid = None" "ToLower (TrimSpace email) = email" "account_step uid now email name s = (Inr user, s1)"
  shows "users_wf s1" "gm_get (ms_usersByEmail s1) email = Some (us_ID user)" "ms_memberships s1 = ms_memberships s" "us_Email user = email"
    "gm_get (ms_usersByID s1) (us_ID user) = Some user"
proof -
  have "users_wf s1 \<and> gm_get (ms_usersByEmail s1) email = Some (us_ID user) \<and> ms_memberships s1 = ms_memberships s \<and> us_Email user = email
      \<and> gm_get (ms_usersByID s1) (us_ID user) = Some user"
  proof (cases "gm_get (ms_usersByEmail s) email")
    case None
    then have u: "us_ID user = uid" "us_Email user = email" and s1: "s1 = s\<lparr>ms_usersByID := gm_put uid user (ms_usersByID s), ms_usersByEmail := gm_put email uid (ms_usersByEmail s)\<rparr>"
      using assms(3,4) by (auto simp: account_step_def AuthStore_GetUserByEmail_def AuthStore_CreateUser_def Let_def)
    have "users_wf s1" by (rule add_user_wf [OF assms(1) None assms(2) u(2,1) assms(3)]) (simp_all add: s1)
    with u s1 show ?thesis by simp
  next
    case (Some i)
    with users_wf_index [OF assms(1) Some] show ?thesis
      using assms(1,3,4) by (auto simp: account_step_def AuthStore_GetUserByEmail_def gm_get_or_def)
  qed
  then show "users_wf s1" "gm_get (ms_usersByEmail s1) email = Some (us_ID user)" "ms_memberships s1 = ms_memberships s" "us_Email user = email"
    "gm_get (ms_usersByID s1) (us_ID user) = Some user" by auto
qed

lemma GetUserRole_cong:
  "ms_memberships s' = ms_memberships s \<Longrightarrow> ms_roles s' = ms_roles s \<Longrightarrow> AuthStore_GetUserRole cid uid s' = AuthStore_GetUserRole cid uid s"
  by (simp add: AuthStore_GetUserRole_def cong: option.case_cong)

definition member_role :: auth_role where
  "member_role = \<lparr>ar_ID = MemberRoleID, ar_Name = ''member'', ar_Description = [], ar_RoleLevel = 40\<rparr>"

definition in_company :: "uuid \<Rightarrow> uuid \<Rightarrow> memory_state \<Rightarrow> bool" where
  "in_company cid uid s \<longleftrightarrow> (\<exists>m\<in>set (gm_get_or [] (ms_memberships s) uid). am_CompanyID m = cid)"

lemma join_company:
  fixes cid uid :: uuid
  assumes "ms_roles s = authRoles"
  defines "s2 \<equiv> snd (AuthStore_CreateCompanyMembership cid uid MemberRoleID s)"
  shows "in_company cid uid s2" "user_tables s2 = user_tables s" "in_company cid uid s \<Longrightarrow> s2 = s"
    "AuthStore_GetUserRole cid uid s2 = (if in_company cid uid s then AuthStore_GetUserRole cid uid s else Inr member_role)"
proof -
  have r: "gm_get authRoles MemberRoleID = Some member_role" by code_simp
  then show "in_company cid uid s2" "user_tables s2 = user_tables s" and old: "in_company cid uid s \<Longrightarrow> s2 = s"
    using assms(1) by (auto simp: s2_def AuthStore_CreateCompanyMembership_def in_company_def user_tables_def Let_def)
  show "AuthStore_GetUserRole cid uid s2 = (if in_company cid uid s then AuthStore_GetUserRole cid uid s else Inr member_role)"
  proof (cases "in_company cid uid s")
    case True
    with old show ?thesis by simp
  next
    case False
    then have "find (\<lambda>m. am_CompanyID m = cid) (gm_get_or [] (ms_memberships s) uid) = None" by (simp add: in_company_def find_None_iff)
    with False r assms(1) show ?thesis
      by (simp add: s2_def AuthStore_CreateCompanyMembership_def AuthStore_GetUserRole_def in_company_def Let_def find_snoc)
  qed
qed

text \<open>The role a session carries.\<close>

definition session_role :: "uuid \<Rightarrow> uuid \<Rightarrow> memory_state \<Rightarrow> string \<times> int" where
  "session_role cid uid s = (case AuthStore_GetUserRole cid uid s of Inl _ \<Rightarrow> (''member'', 40) | Inr r \<Rightarrow> (ar_Name r, ar_RoleLevel r))"

lemma session_role_level:
  assumes "ms_roles s = authRoles"
  shows "0 \<le> snd (session_role cid uid s)" "snd (session_role cid uid s) < 100"
proof -
  have "\<forall>p\<in>set authRoles. 0 \<le> ar_RoleLevel (snd p) \<and> ar_RoleLevel (snd p) < 100" by code_simp
  then have "0 \<le> ar_RoleLevel r \<and> ar_RoleLevel r < 100" if "gm_get authRoles i = Some r" for i r
    using gm_get_in [OF that] by auto
  then show "0 \<le> snd (session_role cid uid s)" "snd (session_role cid uid s) < 100"
    using assms by (auto simp: session_role_def AuthStore_GetUserRole_def split: sum.splits option.splits)
qed

lemma dev_jit:
  assumes "jitProvision P dev_SSOStore v c email name cid s = (Inr resp, s')"
  shows "\<exists>n s1 s2. account_step (sc_newUser c) (sc_now c) (ToLower (TrimSpace email)) n s = (Inr (rp_User resp), s1)
    \<and> s2 = snd (AuthStore_CreateCompanyMembership cid (us_ID (rp_User resp)) MemberRoleID s1)
    \<and> CreateAccessToken (sv_lib v) (sv_jwt v) (sc_now c) (sc_rand c 2) (us_ID (rp_User resp)) cid
        (fst (session_role cid (us_ID (rp_User resp)) s2)) (snd (session_role cid (us_ID (rp_User resp)) s2)) [cid] = Inr (rp_AccessToken resp)
    \<and> s' = s2\<lparr>ms_refreshTokens := gm_put (sl_Sha256Hex P (rp_RefreshToken resp))
        \<lparr>rt_UserID = us_ID (rp_User resp), rt_TokenHash = sl_Sha256Hex P (rp_RefreshToken resp),
         rt_ExpiresAt = sc_now c + jf_RefreshTokenExpiry (jm_config (sv_jwt v))\<rparr> (ms_refreshTokens s2)\<rparr>"
proof -
  let ?e = "ToLower (TrimSpace email)"
  let ?n = "if name = [] then hd (Split ?e CHR ''@'') else name"
  obtain r s1 where a: "account_step (sc_newUser c) (sc_now c) ?e ?n s = (r, s1)" by fastforce
  with assms obtain user where u: "r = Inr user"
    unfolding jitProvision_def Let_def dev_sso_ops account_step_def [symmetric] by (cases r) simp_all
  define s2 where "s2 = snd (AuthStore_CreateCompanyMembership cid (us_ID user) MemberRoleID s1)"
  have "rp_User resp = user
    \<and> CreateAccessToken (sv_lib v) (sv_jwt v) (sc_now c) (sc_rand c 2) (us_ID user) cid
        (fst (session_role cid (us_ID user) s2)) (snd (session_role cid (us_ID user) s2)) [cid] = Inr (rp_AccessToken resp)
    \<and> s' = s2\<lparr>ms_refreshTokens := gm_put (sl_Sha256Hex P (rp_RefreshToken resp))
        \<lparr>rt_UserID = us_ID user, rt_TokenHash = sl_Sha256Hex P (rp_RefreshToken resp),
         rt_ExpiresAt = sc_now c + jf_RefreshTokenExpiry (jm_config (sv_jwt v))\<rparr> (ms_refreshTokens s2)\<rparr>"
    using assms a u unfolding jitProvision_def Let_def dev_sso_ops account_step_def [symmetric] session_role_def [symmetric]
    by (auto simp: AuthStore_CreateRefreshToken_def s2_def [symmetric] split: sum.splits)
  with a u s2_def show ?thesis by blast
qed

text \<open>The backend after a sign-in.\<close>

lemma jit_backend:
  assumes "users_wf s" "gm_get (ms_usersByID s) (sc_newUser c) = None" "jitProvision P dev_SSOStore v c email name cid s = (Inr resp, s')"
  shows "users_wf s'" "us_Email (rp_User resp) = ToLower (TrimSpace email)" "in_company cid (us_ID (rp_User resp)) s'"
    "\<And>x. ToLower (TrimSpace x) = ToLower (TrimSpace email) \<Longrightarrow> AuthStore_GetUserByEmail x s' = Inr (rp_User resp)"
    "AuthStore_GetUserRole cid (us_ID (rp_User resp)) s' =
       (if in_company cid (us_ID (rp_User resp)) s then AuthStore_GetUserRole cid (us_ID (rp_User resp)) s else Inr member_role)"
    "CreateAccessToken (sv_lib v) (sv_jwt v) (sc_now c) (sc_rand c 2) (us_ID (rp_User resp)) cid
       (fst (session_role cid (us_ID (rp_User resp)) s')) (snd (session_role cid (us_ID (rp_User resp)) s')) [cid] = Inr (rp_AccessToken resp)"
    "map_option rt_UserID (gm_get (ms_refreshTokens s') (sl_Sha256Hex P (rp_RefreshToken resp))) = Some (us_ID (rp_User resp))"
proof -
  let ?e = "ToLower (TrimSpace email)" and ?u = "rp_User resp"
  let ?uid = "us_ID ?u"
  obtain n s1 s2 where a: "account_step (sc_newUser c) (sc_now c) ?e n s = (Inr ?u, s1)"
    and s2: "s2 = snd (AuthStore_CreateCompanyMembership cid ?uid MemberRoleID s1)"
    and tok: "CreateAccessToken (sv_lib v) (sv_jwt v) (sc_now c) (sc_rand c 2) ?uid cid (fst (session_role cid ?uid s2)) (snd (session_role cid ?uid s2)) [cid] = Inr (rp_AccessToken resp)"
    and s': "s' = s2\<lparr>ms_refreshTokens := gm_put (sl_Sha256Hex P (rp_RefreshToken resp)) \<lparr>rt_UserID = ?uid, rt_TokenHash = sl_Sha256Hex P (rp_RefreshToken resp),
         rt_ExpiresAt = sc_now c + jf_RefreshTokenExpiry (jm_config (sv_jwt v))\<rparr> (ms_refreshTokens s2)\<rparr>"
    using dev_jit [OF assms(3)] by blast
  note acc = account_step_wf [OF assms(1,2) normalise_idem a]
  have roles: "ms_roles s1 = authRoles" "ms_roles s = authRoles" using acc(1) assms(1) by (simp_all add: users_wf_def)
  note join = join_company [OF roles(1), of cid ?uid, folded s2]
  have tables: "user_tables s' = user_tables s1" using join(2) by (simp add: s' user_tables_def)
  have r2: "AuthStore_GetUserRole cid ?uid s' = AuthStore_GetUserRole cid ?uid s2" by (rule GetUserRole_cong) (simp_all add: s')
  have r1: "AuthStore_GetUserRole cid ?uid s1 = AuthStore_GetUserRole cid ?uid s" by (rule GetUserRole_cong) (simp_all add: acc(3) roles)
  show "users_wf s'" using acc(1) users_wf_cong [OF tables] by simp
  show "us_Email ?u = ?e" by (rule acc(4))
  show "in_company cid ?uid s'" using join(1) by (simp add: s' in_company_def)
  show "AuthStore_GetUserByEmail x s' = Inr ?u" if "ToLower (TrimSpace x) = ?e" for x
    using that acc(2,5) tables by (simp add: AuthStore_GetUserByEmail_def gm_get_or_def user_tables_def)
  show "AuthStore_GetUserRole cid ?uid s' = (if in_company cid ?uid s then AuthStore_GetUserRole cid ?uid s else Inr member_role)"
    using join(4) r1 r2 by (simp add: in_company_def acc(3))
  show "CreateAccessToken (sv_lib v) (sv_jwt v) (sc_now c) (sc_rand c 2) ?uid cid (fst (session_role cid ?uid s')) (snd (session_role cid ?uid s')) [cid] = Inr (rp_AccessToken resp)"
    using tok r2 by (simp add: session_role_def)
  show "map_option rt_UserID (gm_get (ms_refreshTokens s') (sl_Sha256Hex P (rp_RefreshToken resp))) = Some ?uid" by (simp add: s')
qed

text \<open>Signing in where the account is already a member changes neither users nor memberships.\<close>

lemma jit_again:
  assumes "users_wf s" "AuthStore_GetUserByEmail (ToLower (TrimSpace email)) s = Inr u" "in_company cid (us_ID u) s"
    "jitProvision P dev_SSOStore v c email name cid s = (Inr resp, s')"
  shows "rp_User resp = u \<and> ms_usersByID s' = ms_usersByID s \<and> ms_memberships s' = ms_memberships s"
proof -
  obtain n s1 s2 where t: "account_step (sc_newUser c) (sc_now c) (ToLower (TrimSpace email)) n s = (Inr (rp_User resp), s1)"
    "s2 = snd (AuthStore_CreateCompanyMembership cid (us_ID (rp_User resp)) MemberRoleID s1)"
    "ms_usersByID s' = ms_usersByID s2" "ms_memberships s' = ms_memberships s2"
    using dev_jit [OF assms(4)] by auto
  from t(1) assms(2) have "rp_User resp = u" "s1 = s" by (simp_all add: account_step_def)
  with t join_company(3) [of s cid "us_ID u"] assms(1,3) show ?thesis by (simp add: users_wf_def)
qed

text \<open>
  C36: Single sign-on on the in-memory backend. A sign-in yields a session of the account whose address is the asserted one
  up to case and surrounding space, created without a password when there was none; the account is then a member of the
  company, with the role it already had there, or as a plain member. Until it expires the access token reads as that user,
  that company, and that role and level, and the refresh token is on record for the user. A later sign-in with any spelling
  of the address is the same account, and changes neither users nor memberships.
\<close>

theorem sso_session_account:
  assumes "jose_ok (sv_lib v)" "\<And>seed. mldsa_pair (sv_lib v) (jo_MLDSA_NewKeyFromSeed (sv_lib v) seed)" "\<And>p. gen = Inr p \<Longrightarrow> mldsa_pair (sv_lib v) p"
    and "NewJWTManager (sv_lib v) readFile gen cfg = Inr (sv_jwt v)"
    and "users_wf s" "gm_get (ms_usersByID s) (sc_newUser c) = None"
    and "jitProvision P dev_SSOStore v c email name cid s = (Inr resp, s')"
    and "now < NewNumericDate (sc_now c + jf_AccessTokenExpiry (jm_config (sv_jwt v)))"
  shows "users_wf s' \<and> us_Email (rp_User resp) = ToLower (TrimSpace email)
    \<and> AuthStore_GetUserByEmail email s' = Inr (rp_User resp) \<and> in_company cid (us_ID (rp_User resp)) s'
    \<and> AuthStore_GetUserRole cid (us_ID (rp_User resp)) s' =
        (if in_company cid (us_ID (rp_User resp)) s then AuthStore_GetUserRole cid (us_ID (rp_User resp)) s else Inr member_role)
    \<and> ValidateAccessToken (sv_lib v) (sv_jwt v) now (rp_AccessToken resp) =
        Inr (access_claims (sv_jwt v) (sc_now c) (sc_rand c 2) (us_ID (rp_User resp)) cid
               (fst (session_role cid (us_ID (rp_User resp)) s')) (snd (session_role cid (us_ID (rp_User resp)) s')) [cid] [])
    \<and> map_option rt_UserID (gm_get (ms_refreshTokens s') (sl_Sha256Hex P (rp_RefreshToken resp))) = Some (us_ID (rp_User resp))
    \<and> (\<forall>c' email' name' resp' s''. ToLower (TrimSpace email') = ToLower (TrimSpace email) \<longrightarrow>
         jitProvision P dev_SSOStore v c' email' name' cid s' = (Inr resp', s'') \<longrightarrow>
         rp_User resp' = rp_User resp \<and> ms_usersByID s'' = ms_usersByID s' \<and> ms_memberships s'' = ms_memberships s')"
proof -
  let ?uid = "us_ID (rp_User resp)"
  note bk = jit_backend [OF assms(5-7)]
  let ?c = "access_claims (sv_jwt v) (sc_now c) (sc_rand c 2) ?uid cid (fst (session_role cid ?uid s')) (snd (session_role cid ?uid s')) [cid] []"
  have ring: "ring_ok (sv_lib v) (sv_jwt v)" by (rule NewJWTManager_ring [OF assms(4,2,3)])
  have signed: "sign_active (sv_lib v) (sv_jwt v) (tc_Registered ?c, claims_json ?c) = Inr (rp_AccessToken resp)"
    using bk(6) by (simp add: CreateAccessToken_def CreateAccessTokenWithScopes_def)
  have "ms_roles s' = authRoles" using bk(1) by (simp add: users_wf_def)
  from session_role_level [OF this, of cid ?uid] have token: "ValidateAccessToken (sv_lib v) (sv_jwt v) now (rp_AccessToken resp) = Inr ?c"
    using access_token_window [OF assms(1) ring signed, of "sc_now c" "sc_rand c 2" ?uid "jf_AccessTokenExpiry (jm_config (sv_jwt v))" "sv_jwt v" now] assms(8)
    by simp
  have "rp_User resp' = rp_User resp \<and> ms_usersByID s'' = ms_usersByID s' \<and> ms_memberships s'' = ms_memberships s'"
    if "ToLower (TrimSpace email') = ToLower (TrimSpace email)" "jitProvision P dev_SSOStore v c' email' name' cid s' = (Inr resp', s'')" for c' email' name' resp' s''
    by (rule jit_again [OF bk(1) _ bk(3) that(2)]) (use bk(4) that(1) in simp)
  with bk(1-3,5,7) bk(4) [OF refl] token show ?thesis by blast
qed

section \<open>A concrete flow\<close>

text \<open>
  The configuration of the company is switched off, does not allow provisioning and lists no domain; the address belongs
  to a deactivated account. The flow goes through all the same.
\<close>

definition demo_config :: sso_config where
  "demo_config = \<lparr>sc_CompanyID = ''c1'', sc_Provider = ''oidc'', sc_IssuerURL = ''https://idp'', sc_ClientID = ''cl'', sc_ClientSecret = ''s'', sc_MetadataURL = [],
     sc_DisplayName = [], sc_ExtraScopes = [], sc_EnforceSSO = False, sc_IsActive = False, sc_EmailDomainAllowlist = [], sc_JITDefaultRole = [], sc_JITEnabled = False\<rparr>"

definition demo_deactivated :: user where
  "demo_deactivated = \<lparr>us_ID = ''u1'', us_Email = ''ann@example.com'', us_PasswordHash = [], us_DisplayName = ''Ann'', us_AvatarURL = [], us_IsActive = False, us_CreatedAt = 0\<rparr>"

definition demo_backend :: memory_state where
  "demo_backend = (SetSSOConfig ''c1'' ''oidc'' demo_config NewMemoryBackend)
     \<lparr>ms_usersByID := [(''u1'', demo_deactivated)], ms_usersByEmail := [(''ann@example.com'', ''u1'')]\<rparr>"

definition demo_idp :: "(string, string, unit, unit) sso_lib" where
  "demo_idp =
     \<lparr>sl_NewProvider = Inr, sl_Endpoint = (\<lambda>p. p), sl_AuthCodeURL = (\<lambda>cfg st ver. ox_Endpoint cfg @ ''?state='' @ st),
      sl_Exchange = (\<lambda>cfg code ver. if code = ''ok'' \<and> ver = Some ''v''
        then Inr \<lparr>ot_AccessToken = [], ot_RefreshToken = [], ot_Expiry = 0, ot_IDToken = Some ''Ann@Example.com''\<rparr> else Inl (ErrMsg ''invalid_grant'')),
      sl_Verify = (\<lambda>p cl raw. Inr raw), sl_Claims = (\<lambda>i. Inr (i, [])), sl_ParseURL = (\<lambda>u. Inr ()), sl_FetchMetadata = (\<lambda>u. Inr ()),
      sl_MakeAuthenticationRequest = (\<lambda>b sp. Inr b), sl_RequestRedirect = (\<lambda>q sp. Inr q), sl_ParseResponse = (\<lambda>b sp r. Inr None),
      sl_ParseUUID = Inr, sl_Sha256Hex = (\<lambda>t. t)\<rparr>"

lemma demo_fields [simp]:
  "sc_CompanyID demo_config = ''c1''" "sc_Provider demo_config = ''oidc''" "sc_IssuerURL demo_config = ''https://idp''" "sc_ClientID demo_config = ''cl''"
  "sc_ClientSecret demo_config = ''s''" "sc_ExtraScopes demo_config = []"
  "sl_NewProvider demo_idp = Inr" "sl_Endpoint demo_idp p = p" "sl_AuthCodeURL demo_idp cfg st ver = ox_Endpoint cfg @ ''?state='' @ st"
  "sl_Exchange demo_idp cfg ''ok'' (Some ''v'') = Inr \<lparr>ot_AccessToken = [], ot_RefreshToken = [], ot_Expiry = 0, ot_IDToken = Some ''Ann@Example.com''\<rparr>"
  "sl_Verify demo_idp p cl raw = Inr raw" "sl_Claims demo_idp i = Inr (i, [])" "sl_ParseUUID demo_idp = Inr"
  by (simp_all add: demo_config_def demo_idp_def)

definition demo_call :: "go_time \<Rightarrow> sso_call" where
  "demo_call now = \<lparr>sc_now = now, sc_rand = (\<lambda>i. [''v'', ''r1'', ''r2'', ''r3'', demo_bytes, ''x''] ! i), sc_newUser = ''u2''\<rparr>"

definition demo_session_claims :: token_claims where
  "demo_session_claims = access_claims demo_manager (2 * second) ''r2'' ''u1'' ''c1'' ''member'' 40 [''c1''] []"

definition demo_sso_table :: "(jwt_header \<times> claim_set) list" where
  "demo_sso_table =
     [(\<lparr>jh_alg = ''HS256'', jh_typ = HString ''JWT'', jh_kid = HAbsent\<rparr>, (registered demo_manager second ''r1'' ''c1|oidc|t|v'' (10 * minute), [])),
      (\<lparr>jh_alg = MLDSA65_Alg, jh_typ = HString ''JWT'', jh_kid = HString ''ephemeral''\<rparr>, (tc_Registered demo_session_claims, claims_json demo_session_claims)),
      (\<lparr>jh_alg = MLDSA65_Alg, jh_typ = HString ''JWT'', jh_kid = HString ''ephemeral''\<rparr>, (registered demo_manager (2 * second) ''r3'' ''u1'' (7 * 24 * 60 * minute), [])),
      (\<lparr>jh_alg = ''HS256'', jh_typ = HString ''JWT'', jh_kid = HAbsent\<rparr>,
       (registered demo_manager (2 * second) (token_JTI ''x'') (handoff_subject (token_JTI demo_bytes) demo_target) HandoffTTL, []))]"

abbreviation demo_sso_jose :: jose_lib where "demo_sso_jose \<equiv> table_lib demo_sso_table"

definition demo_service :: "memory_handoffs sso_service" where
  "demo_service = NewSSOService demo_sso_jose demo_manager ''https://api/''"

definition demo_before :: "(memory_state, string, memory_handoffs) sso_state" where
  "demo_before = \<lparr>sx_store = demo_backend, sx_providers = [], sx_handoffs = NewInMemoryHandoffStore\<rparr>"

definition demo_session :: auth_response where
  "demo_session = \<lparr>rp_AccessToken = ''i.keyi'', rp_RefreshToken = ''ii.keyii'', rp_User = demo_deactivated\<rparr>"

lemma demo_service_fields [simp]:
  "sv_lib demo_service = demo_sso_jose" "sv_jwt demo_service = demo_manager" "sv_handoff demo_service = Some memory_handoff_store"
  by (simp_all add: demo_service_def NewSSOService_def)

lemma demo_call_fields [simp]:
  "sc_now (demo_call t) = t" "sc_newUser (demo_call t) = ''u2''" "sc_rand (demo_call t) 0 = ''v''" "sc_rand (demo_call t) (Suc 0) = ''r1''"
  "sc_rand (demo_call t) 4 = demo_bytes" "sc_rand (demo_call t) 5 = ''x''" "sc_rand (demo_call t) 2 = ''r2''"
  by (simp_all add: demo_call_def)

lemma demo_state_made: "createStateJWT demo_sso_jose demo_manager second ''r1'' ''c1'' ''oidc'' demo_target ''v'' = Inr demo_code"
  using table_compact [OF _ demo_state_key, of demo_sso_table second "''r1''" "''c1|oidc|t|v''" "10 * minute" 0]
  by (simp add: createStateJWT_def demo_sso_table_def demo_code_def)

lemma demo_handoff_made:
  "CreateCompactShortLivedToken demo_sso_jose demo_manager (2 * second) (token_JTI ''x'') (handoff_subject (token_JTI demo_bytes) demo_target) HandoffTTL
   = Inr (''iii.'' @ demo_key @ ''iii'')"
proof -
  have "index_of demo_sso_table (\<lparr>jh_alg = ''HS256'', jh_typ = HString ''JWT'', jh_kid = HAbsent\<rparr>,
      (registered demo_manager (2 * second) (token_JTI ''x'') (handoff_subject (token_JTI demo_bytes) demo_target) HandoffTTL, [])) = Some 3"
    by (simp add: demo_sso_table_def registered_def NewNumericDate_def HandoffTTL_def MLDSA65_Alg_def)
  from table_compact [OF this demo_state_key] show ?thesis by (simp add: numeral_3_eq_3)
qed

lemma demo_jit:
  "fst (jitProvision demo_idp dev_SSOStore demo_service (demo_call (2 * second)) ''Ann@Example.com'' [] ''c1'' demo_backend) = Inr demo_session"
  by code_simp

definition demo_init :: "(string \<times> string) result \<times> (memory_state, string, memory_handoffs) sso_state" where
  "demo_init = InitiateOIDC demo_idp dev_SSOStore demo_service (demo_call second) ''c1'' [] demo_target demo_before"

lemma demo_config_found: "AuthStore_GetSSOConfig ''c1'' ''oidc'' demo_backend = Inr demo_config"
  by (simp add: AuthStore_GetSSOConfig_def demo_backend_def SetSSOConfig_def NewMemoryBackend_def gm_put_def gm_get_def)

definition demo_provider :: "string \<times> oauth_config" where
  "demo_provider = (''https://idp'', \<lparr>ox_ClientID = ''cl'', ox_ClientSecret = ''s'', ox_Endpoint = ''https://idp'',
     ox_RedirectURL = sv_baseURL demo_service @ ''/auth/oidc/callback'', ox_Scopes = [''openid'', ''profile'', ''email'']\<rparr>)"

lemma demo_discovered:
  "getOrCreateOIDCProvider demo_idp (sv_baseURL demo_service) demo_config [] = (Inr demo_provider, [(''c1:oidc'', demo_provider)])"
  "getOrCreateOIDCProvider demo_idp (sv_baseURL demo_service) demo_config [(''c1:oidc'', demo_provider)] = (Inr demo_provider, [(''c1:oidc'', demo_provider)])"
  by (simp_all add: getOrCreateOIDCProvider_def gm_put_def gm_get_def demo_provider_def Let_def)

lemma demo_started: "demo_init = (Inr (''https://idp?state='' @ demo_code, demo_code), demo_before\<lparr>sx_providers := [(''c1:oidc'', demo_provider)]\<rparr>)"
  using demo_state_made
  by (simp add: demo_init_def InitiateOIDC_def dev_sso_ops demo_before_def demo_config_found demo_discovered) (simp add: demo_provider_def)

lemma demo_after [simp]:
  "sx_store (snd demo_init) = demo_backend" "sx_handoffs (snd demo_init) = NewInMemoryHandoffStore" "sx_providers (snd demo_init) = [(''c1:oidc'', demo_provider)]"
  by (simp_all add: demo_started demo_before_def)

definition demo_callback :: "sso_response \<times> (memory_state, string, memory_handoffs) sso_state" where
  "demo_callback = handleOIDCCallbackHTTP demo_idp dev_SSOStore demo_service (demo_call (2 * second)) ''ok'' demo_code (snd demo_init)"

lemma demo_parsed: "parseStateJWT demo_idp demo_sso_jose demo_manager (2 * second) demo_code = Inr (''c1'', ''oidc'', demo_target, ''v'')"
  by (rule state_window [OF table_lib_ok demo_state_made]) (simp_all add: demo_idp_def NewNumericDate_def)

lemma demo_answered: "fst demo_callback = Redirect (appendSSOQuery (appendSSOQuery demo_target ''code'' (''iii.'' @ demo_key @ ''iii'')) ''state'' demo_code)"
proof -
  have "fst (HandleOIDCCallbackWithVerifier demo_idp dev_SSOStore demo_service (demo_call (2 * second)) ''ok'' ''oidc'' ''c1'' ''v'' (snd demo_init)) = Inr demo_session"
    using demo_jit
    by (auto simp: HandleOIDCCallbackWithVerifier_def dev_sso_ops demo_config_found demo_discovered Let_def split: prod.splits)
  moreover have "sx_handoffs (snd (HandleOIDCCallbackWithVerifier demo_idp dev_SSOStore demo_service (demo_call (2 * second)) ''ok'' ''oidc'' ''c1'' ''v'' (snd demo_init)))
      = NewInMemoryHandoffStore"
    by (simp add: callback_keeps_handoffs)
  moreover have "fst (MintHandoff demo_sso_jose (Some demo_manager) (Some memory_handoff_store) (2 * second) demo_bytes ''x'' demo_target (Some demo_session) NewInMemoryHandoffStore)
      = Inr (''iii.'' @ demo_key @ ''iii'')"
    using demo_handoff_made by (simp add: MintHandoff_def mintHandoff_def memory_handoff_defs demo_session_def gm_remove_def maxInMemoryHandoffs_def)
  ultimately show ?thesis
    using demo_parsed
    by (auto simp: demo_callback_def handleOIDCCallbackHTTP_def HandleOIDCCallbackWithState_def demo_code_def split: prod.splits sum.splits)
qed


text \<open>The session of that flow is one of the deactivated account, on a configuration that is switched off.\<close>

lemma sso_ignores_switches:
  "\<not> us_IsActive demo_deactivated \<and> \<not> sc_IsActive demo_config \<and> \<not> sc_JITEnabled demo_config \<and> sc_EmailDomainAllowlist demo_config = []
   \<and> map_sum error_text rp_User (fst (jitProvision demo_idp dev_SSOStore demo_service (demo_call (2 * second)) ''Ann@Example.com'' [] ''c1'' (sx_store (snd demo_init))))
     = Inr demo_deactivated"
  using demo_jit by (simp add: demo_session_def demo_deactivated_def demo_config_def)

theorem sso_session_account_witness:
  "\<exists>resp s'. jitProvision demo_idp dev_SSOStore demo_service (demo_call (2 * second)) ''Ann@Example.com'' [] ''c1'' demo_backend = (Inr resp, s')
     \<and> rp_User resp = demo_deactivated \<and> AuthStore_GetUserRole ''c1'' ''u1'' s' = Inr member_role
     \<and> ValidateAccessToken demo_sso_jose demo_manager (3 * second) (rp_AccessToken resp) = Inr demo_session_claims"
proof -
  let ?run = "jitProvision demo_idp dev_SSOStore demo_service (demo_call (2 * second)) ''Ann@Example.com'' [] ''c1'' demo_backend"
  have n: "NewJWTManager (sv_lib demo_service) (\<lambda>p. Inl (ErrMsg p)) (Inr (''key'', ''key'')) DefaultJWTConfig = Inr (sv_jwt demo_service)"
    unfolding demo_service_fields by code_simp
  have j: "jose_ok (sv_lib demo_service)" by (simp add: table_lib_ok)
  have s: "mldsa_pair (sv_lib demo_service) (jo_MLDSA_NewKeyFromSeed (sv_lib demo_service) seed)" for seed by (simp add: table_lib_seed)
  have p: "mldsa_pair (sv_lib demo_service) p" if "Inr (''key'', ''key'') = Inr p" for p using that by (auto simp: table_lib_pair)
  have wf: "users_wf demo_backend"
    unfolding users_wf_def demo_backend_def
    by (auto simp: gm_get_def SetSSOConfig_def NewMemoryBackend_def demo_deactivated_def TrimSpace_def ToLower_def is_space_def lower_char_def split: if_splits)
  have fr: "gm_get (ms_usersByID demo_backend) (sc_newUser (demo_call (2 * second))) = None" by (simp add: demo_backend_def gm_get_def)
  obtain resp where r: "fst ?run = Inr resp" "rp_User resp = demo_deactivated" using demo_jit by (simp add: demo_session_def)
  then have run: "?run = (Inr resp, snd ?run)" by (simp add: prod_eq_iff)
  have t: "3 * second < NewNumericDate (sc_now (demo_call (2 * second)) + jf_AccessTokenExpiry (jm_config (sv_jwt demo_service)))"
    by (simp add: demo_manager_def DefaultJWTConfig_def NewNumericDate_def)
  have c: "\<not> in_company ''c1'' ''u1'' demo_backend" "us_ID demo_deactivated = ''u1''"
    by (simp_all add: in_company_def demo_backend_def SetSSOConfig_def NewMemoryBackend_def gm_get_or_def demo_deactivated_def)
  have f: "AuthStore_GetUserRole ''c1'' ''u1'' (snd ?run) = Inr member_role"
      "ValidateAccessToken (sv_lib demo_service) (sv_jwt demo_service) (3 * second) (rp_AccessToken resp) =
        Inr (access_claims (sv_jwt demo_service) (sc_now (demo_call (2 * second))) (sc_rand (demo_call (2 * second)) 2) ''u1'' ''c1''
               (fst (session_role ''c1'' ''u1'' (snd ?run))) (snd (session_role ''c1'' ''u1'' (snd ?run))) [''c1''] [])"
    using sso_session_account [OF j s p n wf fr run t] r(2) c by simp_all
  have "session_role ''c1'' ''u1'' (snd ?run) = (''member'', 40)" using f(1) by (simp add: session_role_def member_role_def)
  with f(2) have "ValidateAccessToken demo_sso_jose demo_manager (3 * second) (rp_AccessToken resp) = Inr demo_session_claims"
    by (simp add: demo_session_claims_def)
  with f(1) r(2) run show ?thesis by blast
qed

text \<open>The cached provider is used whatever the configuration says by then; only the client of the ID token is read afresh.\<close>

lemma provider_cache_stale:
  assumes "gm_get cache (sc_CompanyID cfg @ '':'' @ sc_Provider cfg) = Some cached"
  shows "getOrCreateOIDCProvider P base cfg cache = (Inr cached, cache)"
  using assms by (simp add: getOrCreateOIDCProvider_def Let_def)

end
