(* ===== verification/Entitlements.thy ===== *)
theory Entitlements
  imports Go_Encoding Expiring_Cache
begin

text \<open>
  \<^verbatim>\<open>src/platform/entitlements\<close>: the cache with a fixed lifetime, the client of the entitlement service with its
  three caches, feature flags read from the bootstrap response, and the gates.

  Network and JSON are arguments: \<open>http_answer\<close> is what the transport comes back with for a request, with the part of
  the body the size limit lets through, and the
  \<open>unmarshal\<close> arguments decode a body. A method reads the cache, performs the exchange, and stores the
  result, with no lock held in between; the part after the exchange is a definition of its own, so that runs can
  interleave calls.
\<close>

section \<open>The cache\<close>

record 'v ttl_entry =
  te_value :: 'v
  te_expiresAt :: go_time

record ('k, 'v) ttl_cache =
  tc_entries :: "('k, 'v ttl_entry) gomap"
  tc_ttl :: duration

definition ent_NewCache :: "duration \<Rightarrow> ('k, 'v) ttl_cache" where
  "ent_NewCache ttl = \<lparr>tc_entries = [], tc_ttl = ttl\<rparr>"

definition ent_Cache_Get :: "go_time \<Rightarrow> 'k \<Rightarrow> ('k, 'v) ttl_cache \<Rightarrow> 'v option" where
  "ent_Cache_Get now key c =
     (case gm_get (tc_entries c) key of
        None \<Rightarrow> None
      | Some entry \<Rightarrow> if te_expiresAt entry < now then None else Some (te_value entry))"

definition ent_Cache_Set :: "go_time \<Rightarrow> 'k \<Rightarrow> 'v \<Rightarrow> ('k, 'v) ttl_cache \<Rightarrow> ('k, 'v) ttl_cache" where
  "ent_Cache_Set now key v c =
     c\<lparr>tc_entries := gm_put key \<lparr>te_value = v, te_expiresAt = now + tc_ttl c\<rparr> (tc_entries c)\<rparr>"

definition ent_Cache_Invalidate :: "'k \<Rightarrow> ('k, 'v) ttl_cache \<Rightarrow> ('k, 'v) ttl_cache" where
  "ent_Cache_Invalidate key c = c\<lparr>tc_entries := gm_del key (tc_entries c)\<rparr>"

definition ent_Cache_Clear :: "('k, 'v) ttl_cache \<Rightarrow> ('k, 'v) ttl_cache" where
  "ent_Cache_Clear c = c\<lparr>tc_entries := []\<rparr>"

section \<open>Models\<close>

record ent_plan =
  pl_ID :: string
  pl_Name :: string
  pl_Interval :: string
  pl_Amount :: int
  pl_Currency :: string
  pl_Features :: json

record ent_subscription =
  sb_ID :: string
  sb_PlanID :: string
  sb_Status :: string
  sb_CurrentPeriodStart :: string
  sb_CurrentPeriodEnd :: string

record entitlement_entry =
  ee_FeatureKey :: string
  ee_FeatureType :: string
  ee_Allowed :: bool
  ee_IncludedUnits :: "int option"
  ee_UsedUnits :: "int option"
  ee_Remaining :: "int option"
  ee_SoftCap :: bool

record entitlement_result =
  er_Allowed :: bool
  er_Remaining :: "int option"
  er_SoftCap :: bool

record ent_flag =
  fg_Key :: string
  fg_Enabled :: bool

record bootstrap_response =
  br_Subscription :: "ent_subscription option"
  br_Plan :: "ent_plan option"
  br_Entitlements :: "entitlement_entry list"
  br_FeatureFlags :: "ent_flag list"

section \<open>The client\<close>

record ent_client =
  ec_baseURL :: string
  ec_serviceToken :: string
  ec_bootstrap :: "(string, bootstrap_response) ttl_cache"
  ec_check :: "(string, entitlement_result) ttl_cache"
  ec_byIdentity :: "(string, bootstrap_response) ttl_cache"

definition defaultCacheTTL :: duration where "defaultCacheTTL = 5 * minute"

text \<open>\<open>ttl\<close> is the last \<^verbatim>\<open>WithCacheTTL\<close>, if there is one, \<open>token\<close> the last \<^verbatim>\<open>WithServiceToken\<close>.\<close>

definition NewClient :: "string \<Rightarrow> duration option \<Rightarrow> string \<Rightarrow> ent_client" where
  "NewClient edenBizBaseURL ttl token =
     (let d = (case ttl of None \<Rightarrow> defaultCacheTTL | Some d \<Rightarrow> d)
      in \<lparr>ec_baseURL = rev (dropWhile (\<lambda>c. c = CHR ''/'') (rev edenBizBaseURL)), ec_serviceToken = token,
          ec_bootstrap = ent_NewCache d, ec_check = ent_NewCache d, ec_byIdentity = ent_NewCache d\<rparr>)"

record ent_request =
  rq_Method :: string
  rq_URL :: string
  rq_Headers :: "(string, string) gomap"

datatype http_answer =
    RequestFailed go_error
  | TransportFailed go_error
  | BodyFailed go_error
  | Responded int string

definition setAuth :: "ent_client \<Rightarrow> (string, string) gomap \<Rightarrow> (string, string) gomap" where
  "setAuth c h = (if ec_serviceToken c \<noteq> [] then gm_put ''Authorization'' (''Bearer '' @ ec_serviceToken c) h else h)"

definition get_request :: "ent_client \<Rightarrow> string \<Rightarrow> (string, string) gomap \<Rightarrow> ent_request" where
  "get_request c url headers =
     \<lparr>rq_Method = ''GET'', rq_URL = url, rq_Headers = fold (\<lambda>(k, v). gm_put k v) headers (setAuth c [])\<rparr>"

text \<open>The outcome of \<^verbatim>\<open>doGet\<close> and \<^verbatim>\<open>doGetWithHeaders\<close> on an answer.\<close>

definition doGet :: "http_answer \<Rightarrow> string result" where
  "doGet answer =
     (case answer of
        RequestFailed err \<Rightarrow> Inl err
      | TransportFailed err \<Rightarrow> Inl err
      | BodyFailed err \<Rightarrow> Inl (ErrWrap ''read body: '' err [])
      | Responded status body \<Rightarrow>
          if status \<ge> 300 then Inl (ErrMsg (''status '' @ show_int status @ '': '' @ body)) else Inr body)"

definition bootstrap_request :: "ent_client \<Rightarrow> string \<Rightarrow> ent_request" where
  "bootstrap_request c companyID =
     get_request c (ec_baseURL c @ ''/api/v1/entitlements/bootstrap?company_id='' @ QueryEscape companyID) []"

definition identity_request :: "ent_client \<Rightarrow> string \<Rightarrow> string \<Rightarrow> ent_request" where
  "identity_request c subject email =
     get_request c (ec_baseURL c @ ''/api/v1/entitlements/bootstrap?aoid_subject='' @ QueryEscape subject)
       (if email \<noteq> [] then [(''X-AOID-Email'', email)] else [])"

definition check_request :: "ent_client \<Rightarrow> string \<Rightarrow> string \<Rightarrow> ent_request" where
  "check_request c subscriptionID featureKey =
     get_request c (ec_baseURL c @ ''/entitlements/check?subscription_id='' @ QueryEscape subscriptionID
       @ ''&feature='' @ QueryEscape featureKey) []"

text \<open>What the three readers make of an answer: the decoded value, or an error under the reader's prefix.\<close>

definition decode_answer :: "(string \<Rightarrow> 'v result) \<Rightarrow> string \<Rightarrow> http_answer \<Rightarrow> 'v result" where
  "decode_answer unmarshal prefix answer =
     (case doGet answer of
        Inl err \<Rightarrow> Inl (ErrWrap (prefix @ '': '') err [])
      | Inr body \<Rightarrow>
          (case unmarshal body of
             Inl err \<Rightarrow> Inl (ErrWrap (prefix @ '': parse: '') err [])
           | Inr v \<Rightarrow> Inr v))"

definition bootstrap_answer ::
  "(string \<Rightarrow> bootstrap_response result) \<Rightarrow> string \<Rightarrow> http_answer \<Rightarrow> go_time \<Rightarrow> ent_client \<Rightarrow> bootstrap_response result \<times> ent_client" where
  "bootstrap_answer unmarshal companyID answer setAt c =
     (case decode_answer unmarshal ''entitlements bootstrap'' answer of
        Inl err \<Rightarrow> (Inl err, c)
      | Inr v \<Rightarrow> (Inr v, c\<lparr>ec_bootstrap := ent_Cache_Set setAt companyID v (ec_bootstrap c)\<rparr>))"

definition identity_answer ::
  "(string \<Rightarrow> bootstrap_response result) \<Rightarrow> string \<Rightarrow> http_answer \<Rightarrow> go_time \<Rightarrow> ent_client \<Rightarrow> bootstrap_response result \<times> ent_client" where
  "identity_answer unmarshal subject answer setAt c =
     (case decode_answer unmarshal ''entitlements bootstrap by identity'' answer of
        Inl err \<Rightarrow> (Inl err, c)
      | Inr v \<Rightarrow> (Inr v, c\<lparr>ec_byIdentity := ent_Cache_Set setAt subject v (ec_byIdentity c)\<rparr>))"

definition check_key :: "string \<Rightarrow> string \<Rightarrow> string" where
  "check_key subscriptionID featureKey = subscriptionID @ '':'' @ featureKey"

definition check_answer ::
  "(string \<Rightarrow> entitlement_result result) \<Rightarrow> string \<Rightarrow> string \<Rightarrow> http_answer \<Rightarrow> go_time \<Rightarrow> ent_client \<Rightarrow> entitlement_result result \<times> ent_client" where
  "check_answer unmarshal subscriptionID featureKey answer setAt c =
     (case decode_answer unmarshal ''entitlements check'' answer of
        Inl err \<Rightarrow> (Inl err, c)
      | Inr v \<Rightarrow> (Inr v, c\<lparr>ec_check := ent_Cache_Set setAt (check_key subscriptionID featureKey) v (ec_check c)\<rparr>))"

text \<open>One undisturbed call: \<open>net\<close> answers the request; the clock is read at the lookup and when the result is stored.\<close>

definition Bootstrap ::
  "(string \<Rightarrow> bootstrap_response result) \<Rightarrow> (ent_request \<Rightarrow> http_answer) \<Rightarrow> go_time \<Rightarrow> go_time \<Rightarrow> string \<Rightarrow> ent_client \<Rightarrow>
   bootstrap_response result \<times> ent_client" where
  "Bootstrap unmarshal net now setAt companyID c =
     (case ent_Cache_Get now companyID (ec_bootstrap c) of
        Some resp \<Rightarrow> (Inr resp, c)
      | None \<Rightarrow> bootstrap_answer unmarshal companyID (net (bootstrap_request c companyID)) setAt c)"

definition BootstrapByIdentity ::
  "(string \<Rightarrow> bootstrap_response result) \<Rightarrow> (ent_request \<Rightarrow> http_answer) \<Rightarrow> go_time \<Rightarrow> go_time \<Rightarrow> string \<Rightarrow> string \<Rightarrow> ent_client \<Rightarrow>
   bootstrap_response result \<times> ent_client" where
  "BootstrapByIdentity unmarshal net now setAt subject email c =
     (case ent_Cache_Get now subject (ec_byIdentity c) of
        Some resp \<Rightarrow> (Inr resp, c)
      | None \<Rightarrow> identity_answer unmarshal subject (net (identity_request c subject email)) setAt c)"

definition CheckEntitlement ::
  "(string \<Rightarrow> entitlement_result result) \<Rightarrow> (ent_request \<Rightarrow> http_answer) \<Rightarrow> go_time \<Rightarrow> go_time \<Rightarrow> string \<Rightarrow> string \<Rightarrow> ent_client \<Rightarrow>
   entitlement_result result \<times> ent_client" where
  "CheckEntitlement unmarshal net now setAt subscriptionID featureKey c =
     (case ent_Cache_Get now (check_key subscriptionID featureKey) (ec_check c) of
        Some res \<Rightarrow> (Inr res, c)
      | None \<Rightarrow> check_answer unmarshal subscriptionID featureKey (net (check_request c subscriptionID featureKey)) setAt c)"

fun feature_allowed :: "entitlement_entry list \<Rightarrow> string \<Rightarrow> bool" where
  "feature_allowed [] featureKey = False"
| "feature_allowed (e # es) featureKey = (if ee_FeatureKey e = featureKey then ee_Allowed e else feature_allowed es featureKey)"

definition CanUseFeature ::
  "(string \<Rightarrow> bootstrap_response result) \<Rightarrow> (ent_request \<Rightarrow> http_answer) \<Rightarrow> go_time \<Rightarrow> go_time \<Rightarrow> string \<Rightarrow> string \<Rightarrow> ent_client \<Rightarrow>
   bool result \<times> ent_client" where
  "CanUseFeature unmarshal net now setAt companyID featureKey c =
     (case Bootstrap unmarshal net now setAt companyID c of
        (Inl err, c') \<Rightarrow> (Inl err, c')
      | (Inr bootstrap, c') \<Rightarrow> (Inr (feature_allowed (br_Entitlements bootstrap) featureKey), c'))"

definition CanUseFeatureByIdentity ::
  "(string \<Rightarrow> bootstrap_response result) \<Rightarrow> (ent_request \<Rightarrow> http_answer) \<Rightarrow> go_time \<Rightarrow> go_time \<Rightarrow> string \<Rightarrow> string \<Rightarrow> string \<Rightarrow> ent_client \<Rightarrow>
   bool result \<times> ent_client" where
  "CanUseFeatureByIdentity unmarshal net now setAt subject email featureKey c =
     (case BootstrapByIdentity unmarshal net now setAt subject email c of
        (Inl err, c') \<Rightarrow> (Inl err, c')
      | (Inr bootstrap, c') \<Rightarrow> (Inr (feature_allowed (br_Entitlements bootstrap) featureKey), c'))"

text \<open>
  \<^verbatim>\<open>RecordUsage\<close>: marshalling of strings and an integer does not fail. The body is read only for the text of the
  error; it comes with the answer as far as it could be read.
\<close>

datatype usage_answer =
    UsageRequestFailed go_error
  | UsageTransportFailed go_error
  | UsageResponded int string

definition RecordUsage :: "string \<Rightarrow> string \<Rightarrow> usage_answer \<Rightarrow> ent_client \<Rightarrow> go_error option \<times> ent_client" where
  "RecordUsage subscriptionID featureKey answer c =
     (case answer of
        UsageRequestFailed err \<Rightarrow> (Some (ErrWrap ''entitlements record usage: request: '' err []), c)
      | UsageTransportFailed err \<Rightarrow> (Some (ErrWrap ''entitlements record usage: '' err []), c)
      | UsageResponded status body \<Rightarrow>
          if status \<ge> 300
          then (Some (ErrMsg (''entitlements record usage: status '' @ show_int status @ '': '' @ body)), c)
          else (None, c\<lparr>ec_check := ent_Cache_Invalidate (check_key subscriptionID featureKey) (ec_check c)\<rparr>))"

definition InvalidateCompany :: "string \<Rightarrow> ent_client \<Rightarrow> ent_client" where
  "InvalidateCompany companyID c =
     c\<lparr>ec_bootstrap := ent_Cache_Invalidate companyID (ec_bootstrap c), ec_check := ent_Cache_Clear (ec_check c)\<rparr>"

definition InvalidateIdentity :: "string \<Rightarrow> ent_client \<Rightarrow> ent_client" where
  "InvalidateIdentity subject c = c\<lparr>ec_byIdentity := ent_Cache_Invalidate subject (ec_byIdentity c)\<rparr>"

section \<open>Feature flags and gates\<close>

definition AllFlags ::
  "(string \<Rightarrow> bootstrap_response result) \<Rightarrow> (ent_request \<Rightarrow> http_answer) \<Rightarrow> go_time \<Rightarrow> go_time \<Rightarrow> string \<Rightarrow> ent_client \<Rightarrow>
   (string, bool) gomap result \<times> ent_client" where
  "AllFlags unmarshal net now setAt companyID c =
     (case Bootstrap unmarshal net now setAt companyID c of
        (Inl err, c') \<Rightarrow> (Inl (ErrWrap ''feature flags: '' err []), c')
      | (Inr bootstrap, c') \<Rightarrow> (Inr (fold (\<lambda>f. gm_put (fg_Key f) (fg_Enabled f)) (br_FeatureFlags bootstrap) []), c'))"

definition flags_IsEnabled ::
  "(string \<Rightarrow> bootstrap_response result) \<Rightarrow> (ent_request \<Rightarrow> http_answer) \<Rightarrow> go_time \<Rightarrow> go_time \<Rightarrow> string \<Rightarrow> string \<Rightarrow> ent_client \<Rightarrow>
   bool result \<times> ent_client" where
  "flags_IsEnabled unmarshal net now setAt companyID flagKey c =
     (case AllFlags unmarshal net now setAt companyID c of
        (Inl err, c') \<Rightarrow> (Inl err, c')
      | (Inr flags, c') \<Rightarrow> (Inr (gm_get_or False flags flagKey), c'))"

text \<open>A gate serves the request, with the bootstrap data it puts into the context, or writes an error.\<close>

datatype ent_gate = Served "bootstrap_response option" | Refused int string

definition gate_answer :: "string \<Rightarrow> bool result \<Rightarrow> ent_gate" where
  "gate_answer refusal res =
     (case res of
        Inl err \<Rightarrow> Refused 403 ''feature not available''
      | Inr allowed \<Rightarrow> if \<not> allowed then Refused 403 refusal else Served None)"

definition RequireEntitlement ::
  "(string \<Rightarrow> bootstrap_response result) \<Rightarrow> (ent_request \<Rightarrow> http_answer) \<Rightarrow> go_time \<Rightarrow> go_time \<Rightarrow> string \<Rightarrow> string \<Rightarrow> ent_client \<Rightarrow>
   ent_gate \<times> ent_client" where
  "RequireEntitlement unmarshal net now setAt featureKey companyID c =
     (if companyID = [] then (Refused 401 ''missing company context'', c)
      else (case CanUseFeature unmarshal net now setAt companyID featureKey c of
              (res, c') \<Rightarrow>
                (gate_answer (''feature '' @ [CHR 0x27] @ featureKey @ [CHR 0x27] @ '' is not included in your plan'') res, c')))"

definition RequireFeatureFlag ::
  "(string \<Rightarrow> bootstrap_response result) \<Rightarrow> (ent_request \<Rightarrow> http_answer) \<Rightarrow> go_time \<Rightarrow> go_time \<Rightarrow> string \<Rightarrow> string \<Rightarrow> ent_client \<Rightarrow>
   ent_gate \<times> ent_client" where
  "RequireFeatureFlag unmarshal net now setAt flagKey companyID c =
     (if companyID = [] then (Refused 401 ''missing company context'', c)
      else (case flags_IsEnabled unmarshal net now setAt companyID flagKey c of
              (res, c') \<Rightarrow> (gate_answer (''feature '' @ [CHR 0x27] @ flagKey @ [CHR 0x27] @ '' is not enabled'') res, c')))"

definition RequireEntitlementByIdentity ::
  "(string \<Rightarrow> bootstrap_response result) \<Rightarrow> (ent_request \<Rightarrow> http_answer) \<Rightarrow> go_time \<Rightarrow> go_time \<Rightarrow> string \<Rightarrow> string \<Rightarrow> string \<Rightarrow> ent_client \<Rightarrow>
   ent_gate \<times> ent_client" where
  "RequireEntitlementByIdentity unmarshal net now setAt featureKey subject email c =
     (if subject = [] then (Refused 401 ''missing identity context'', c)
      else (case CanUseFeatureByIdentity unmarshal net now setAt subject email featureKey c of
              (res, c') \<Rightarrow>
                (gate_answer (''feature '' @ [CHR 0x27] @ featureKey @ [CHR 0x27] @ '' is not included in your plan'') res, c')))"

text \<open>The two prefetching middlewares always serve; \<^verbatim>\<open>EntitlementsFromContext\<close> reads what they stored.\<close>

definition InjectEntitlements ::
  "(string \<Rightarrow> bootstrap_response result) \<Rightarrow> (ent_request \<Rightarrow> http_answer) \<Rightarrow> go_time \<Rightarrow> go_time \<Rightarrow> string \<Rightarrow> ent_client \<Rightarrow>
   ent_gate \<times> ent_client" where
  "InjectEntitlements unmarshal net now setAt companyID c =
     (if companyID = [] then (Served None, c)
      else (case Bootstrap unmarshal net now setAt companyID c of
              (Inl err, c') \<Rightarrow> (Served None, c')
            | (Inr bootstrap, c') \<Rightarrow> (Served (Some bootstrap), c')))"

definition InjectEntitlementsByIdentity ::
  "(string \<Rightarrow> bootstrap_response result) \<Rightarrow> (ent_request \<Rightarrow> http_answer) \<Rightarrow> go_time \<Rightarrow> go_time \<Rightarrow> string \<Rightarrow> string \<Rightarrow> ent_client \<Rightarrow>
   ent_gate \<times> ent_client" where
  "InjectEntitlementsByIdentity unmarshal net now setAt subject email c =
     (if subject = [] then (Served None, c)
      else (case BootstrapByIdentity unmarshal net now setAt subject email c of
              (Inl err, c') \<Rightarrow> (Served None, c')
            | (Inr bootstrap, c') \<Rightarrow> (Served (Some bootstrap), c')))"

end
