(* ===== verification/Entitlements_Properties.thy ===== *)
theory Entitlements_Properties
  imports Entitlements
begin

text \<open>
  Properties of the entitlement gates: the cache meets the contract of expiring caches, a run of calls acts on each
  of the three caches as a sequence of cache events, and a gate serves a request only on a response that is recent,
  belongs to the company or subject of the request, and allows the feature.
\<close>

section \<open>The cache meets the contract\<close>

text \<open>The lifetime is a field of the cache; the contract passes it with each store.\<close>

definition ttl_put :: "go_time \<Rightarrow> 'k \<Rightarrow> 'v \<Rightarrow> duration \<Rightarrow> ('k, 'v) ttl_cache \<Rightarrow> ('k, 'v) ttl_cache" where
  "ttl_put now k v ttl c = ent_Cache_Set now k v (c\<lparr>tc_ttl := ttl\<rparr>)"

definition ttl_get :: "go_time \<Rightarrow> 'k \<Rightarrow> ('k, 'v) ttl_cache \<Rightarrow> 'v option \<times> ('k, 'v) ttl_cache" where
  "ttl_get now k c = (ent_Cache_Get now k c, c)"

text \<open>\<open>None\<close> stands for all keys.\<close>

definition ttl_forget :: "'k option \<Rightarrow> ('k, 'v) ttl_cache \<Rightarrow> ('k, 'v) ttl_cache" where
  "ttl_forget d c = (case d of None \<Rightarrow> ent_Cache_Clear c | Some k \<Rightarrow> ent_Cache_Invalidate k c)"

definition ttl_held :: "('k, 'v) ttl_cache \<Rightarrow> 'k \<Rightarrow> ('v \<times> go_time) option" where
  "ttl_held c k = map_option (\<lambda>e. (te_value e, te_expiresAt e)) (gm_get (tc_entries c) k)"

lemmas ttl_defs = ttl_put_def ttl_get_def ttl_forget_def ttl_held_def ent_Cache_Set_def ent_Cache_Get_def
  ent_Cache_Invalidate_def ent_Cache_Clear_def ent_NewCache_def

interpretation ttl: expiring_cache "\<lambda>k. k" "\<lambda>now e. now \<le> e" "\<lambda>d k. d = None \<or> d = Some k" ttl_held "\<lambda>c. True"
  "ent_NewCache lifetime" ttl_get ttl_put ttl_forget
  by unfold_locales (auto simp: ttl_defs split: option.splits if_splits)

lemma ent_Cache_Set_put: "ent_Cache_Set now k v c = ttl_put now k v (tc_ttl c) c"
  by (simp add: ttl_put_def)

lemma ent_Cache_Get_get: "ent_Cache_Get now k c = fst (ttl_get now k c)"
  by (simp add: ttl_get_def)

section \<open>Runs of the client\<close>

text \<open>The steps of concurrent calls that change the client: answers being worked off, and invalidations.\<close>

datatype ent_event =
    BootstrapDone string http_answer go_time
  | IdentityDone string http_answer go_time
  | CheckDone string string http_answer go_time
  | UsageDone string string usage_answer
  | CompanyInvalidated string
  | IdentityInvalidated string

primrec ent_step ::
  "(string \<Rightarrow> bootstrap_response result) \<Rightarrow> (string \<Rightarrow> entitlement_result result) \<Rightarrow> ent_event \<Rightarrow> ent_client \<Rightarrow> ent_client" where
  "ent_step um umc (BootstrapDone companyID answer setAt) c = snd (bootstrap_answer um companyID answer setAt c)"
| "ent_step um umc (IdentityDone subject answer setAt) c = snd (identity_answer um subject answer setAt c)"
| "ent_step um umc (CheckDone subscriptionID featureKey answer setAt) c = snd (check_answer umc subscriptionID featureKey answer setAt c)"
| "ent_step um umc (UsageDone subscriptionID featureKey answer) c = snd (RecordUsage subscriptionID featureKey answer c)"
| "ent_step um umc (CompanyInvalidated companyID) c = InvalidateCompany companyID c"
| "ent_step um umc (IdentityInvalidated subject) c = InvalidateIdentity subject c"

definition ent_run ::
  "(string \<Rightarrow> bootstrap_response result) \<Rightarrow> (string \<Rightarrow> entitlement_result result) \<Rightarrow> ent_event list \<Rightarrow> ent_client \<Rightarrow> ent_client" where
  "ent_run um umc evs c = fold (ent_step um umc) evs c"

text \<open>What an event does to the two bootstrap caches.\<close>

definition stored_events :: "'v result \<Rightarrow> go_time \<Rightarrow> string \<Rightarrow> duration \<Rightarrow> (string, 'v, string option) cache_event list" where
  "stored_events r setAt k ttl = (case r of Inl _ \<Rightarrow> [] | Inr v \<Rightarrow> [Stored setAt k v ttl])"

fun company_events ::
  "(string \<Rightarrow> bootstrap_response result) \<Rightarrow> duration \<Rightarrow> ent_event \<Rightarrow> (string, bootstrap_response, string option) cache_event list" where
  "company_events um ttl (BootstrapDone companyID answer setAt) =
     stored_events (decode_answer um ''entitlements bootstrap'' answer) setAt companyID ttl"
| "company_events um ttl (CompanyInvalidated companyID) = [Forgot (Some companyID)]"
| "company_events um ttl _ = []"

fun identity_events ::
  "(string \<Rightarrow> bootstrap_response result) \<Rightarrow> duration \<Rightarrow> ent_event \<Rightarrow> (string, bootstrap_response, string option) cache_event list" where
  "identity_events um ttl (IdentityDone subject answer setAt) =
     stored_events (decode_answer um ''entitlements bootstrap by identity'' answer) setAt subject ttl"
| "identity_events um ttl (IdentityInvalidated subject) = [Forgot (Some subject)]"
| "identity_events um ttl _ = []"

abbreviation ttl_run :: "('k, 'v, 'k option) cache_event list \<Rightarrow> ('k, 'v) ttl_cache \<Rightarrow> ('k, 'v) ttl_cache" where
  "ttl_run \<equiv> cache_run ttl_get ttl_put ttl_forget"

lemmas ent_step_defs = bootstrap_answer_def identity_answer_def check_answer_def RecordUsage_def InvalidateCompany_def
  InvalidateIdentity_def

lemma ent_step_caches:
  "ec_bootstrap (ent_step um umc e c) = ttl_run (company_events um (tc_ttl (ec_bootstrap c)) e) (ec_bootstrap c)"
  "ec_byIdentity (ent_step um umc e c) = ttl_run (identity_events um (tc_ttl (ec_byIdentity c)) e) (ec_byIdentity c)"
  by (cases e; auto simp: ent_step_defs stored_events_def cache_run_def ent_Cache_Set_put ttl_forget_def
        split: sum.split usage_answer.split)+

lemma ent_step_ttl:
  "tc_ttl (ec_bootstrap (ent_step um umc e c)) = tc_ttl (ec_bootstrap c)"
  "tc_ttl (ec_byIdentity (ent_step um umc e c)) = tc_ttl (ec_byIdentity c)"
  by (cases e; auto simp: ent_step_defs ttl_defs split: sum.split usage_answer.split)+

lemma ent_run_ttl:
  "tc_ttl (ec_bootstrap (ent_run um umc evs c)) = tc_ttl (ec_bootstrap c)"
  "tc_ttl (ec_byIdentity (ent_run um umc evs c)) = tc_ttl (ec_byIdentity c)"
  unfolding ent_run_def by (induction evs rule: rev_induct) (simp_all add: ent_step_ttl)

lemma ent_run_caches:
  "ec_bootstrap (ent_run um umc evs c) = ttl_run (concat (map (company_events um (tc_ttl (ec_bootstrap c))) evs)) (ec_bootstrap c)"
  "ec_byIdentity (ent_run um umc evs c) = ttl_run (concat (map (identity_events um (tc_ttl (ec_byIdentity c))) evs)) (ec_byIdentity c)"
proof (induction evs rule: rev_induct)
  case (snoc e evs)
  have "ent_run um umc (evs @ [e]) c = ent_step um umc e (ent_run um umc evs c)" by (simp add: ent_run_def)
  with snoc show
    "ec_bootstrap (ent_run um umc (evs @ [e]) c) = ttl_run (concat (map (company_events um (tc_ttl (ec_bootstrap c))) (evs @ [e]))) (ec_bootstrap c)"
    "ec_byIdentity (ent_run um umc (evs @ [e]) c) = ttl_run (concat (map (identity_events um (tc_ttl (ec_byIdentity c))) (evs @ [e]))) (ec_byIdentity c)"
    using ent_step_caches [of um umc e "ent_run um umc evs c", unfolded ent_run_ttl] by (simp_all add: cache_run_append)
qed (simp_all add: ent_run_def)

text \<open>
  A list of events that each become at most one cache event: where a stored value comes from, and what followed it.
\<close>

lemma concat_single_split:
  assumes "concat (map f evs) = pre @ x # post" and "\<And>e. length (f e) \<le> 1"
  shows "\<exists>pre' e post'. evs = pre' @ e # post' \<and> f e = [x] \<and> post = concat (map f post')"
  using assms(1)
proof (induction evs arbitrary: pre)
  case (Cons e evs)
  show ?case
  proof (cases "f e")
    case Nil
    with Cons obtain pre' e' post' where "evs = pre' @ e' # post'" "f e' = [x]" "post = concat (map f post')" by auto
    then show ?thesis by (intro exI [of _ "e # pre'"]) auto
  next
    case (Cons y ys)
    with assms(2) [of e] have fe: "f e = [y]" by simp
    show ?thesis
    proof (cases pre)
      case Nil
      with fe Cons.prems show ?thesis by (intro exI [of _ "[]"]) auto
    next
      case (Cons z zs)
      with fe Cons.prems Cons.IH [of zs] obtain pre' e' post' where "evs = pre' @ e' # post'" "f e' = [x]" "post = concat (map f post')" by auto
      then show ?thesis by (intro exI [of _ "e # pre'"]) auto
    qed
  qed
qed simp


section \<open>What a gate serves\<close>

text \<open>
  The response \<open>resp\<close> was stored under \<open>k\<close> by a call of the run, its lifetime is not over at \<open>now\<close>, and since then the
  run neither stored another response under \<open>k\<close> nor invalidated \<open>k\<close>. \<open>evf\<close> says which cache is meant.
\<close>

definition recently_stored ::
  "(ent_event \<Rightarrow> (string, bootstrap_response, string option) cache_event list) \<Rightarrow> duration \<Rightarrow> ent_event list \<Rightarrow> go_time \<Rightarrow> string \<Rightarrow>
   bootstrap_response \<Rightarrow> bool" where
  "recently_stored evf ttl evs now k resp \<longleftrightarrow>
     (\<exists>pre e post setAt. evs = pre @ e # post \<and> evf e = [Stored setAt k resp ttl] \<and> now \<le> setAt + ttl
        \<and> (\<forall>e'\<in>set post. \<forall>x\<in>set (evf e'). \<not> overwrites (\<lambda>k. k) (\<lambda>d k. d = None \<or> d = Some k) k x))"

lemma events_single: "length (company_events um ttl e) \<le> 1" "length (identity_events um ttl e) \<le> 1"
  by (cases e; simp add: stored_events_def split: sum.split)+

lemma cached_recent:
  assumes "ent_Cache_Get now k (ttl_run (concat (map evf evs)) (ent_NewCache ttl)) = Some resp"
    and "\<And>e. length (evf e) \<le> 1" and ttl: "\<And>e t k v d. Stored t k v d \<in> set (evf e) \<Longrightarrow> d = ttl"
  shows "recently_stored evf ttl evs now k resp"
proof -
  have "fst (ttl_get now k (ttl_run (concat (map evf evs)) (ent_NewCache ttl))) = Some resp"
    using assms(1) by (simp only: ent_Cache_Get_get)
  from ttl.served_origin [OF this] obtain pre t d post where o: "concat (map evf evs) = pre @ Stored t k resp d # post"
    "now \<le> t + d" "\<forall>ev\<in>set post. \<not> overwrites (\<lambda>k. k) (\<lambda>d k. d = None \<or> d = Some k) k ev" by auto
  from concat_single_split [OF o(1) assms(2)] obtain pre' e post' where
    "evs = pre' @ e # post'" "evf e = [Stored t k resp d]" "post = concat (map evf post')" by blast
  moreover from this(2) ttl [of t k resp d e] have "d = ttl" by simp
  ultimately show ?thesis using o(2,3) unfolding recently_stored_def by fastforce
qed

lemma events_ttl:
  "Stored t k v d \<in> set (company_events um ttl e) \<Longrightarrow> d = ttl"
  "Stored t k v d \<in> set (identity_events um ttl e) \<Longrightarrow> d = ttl"
  by (cases e; auto simp: stored_events_def split: sum.splits)+

lemma NewClient_caches:
  "ec_bootstrap (NewClient url (Some ttl) token) = ent_NewCache ttl" "ec_byIdentity (NewClient url (Some ttl) token) = ent_NewCache ttl"
  "tc_ttl (ent_NewCache ttl) = ttl"
  by (simp_all add: NewClient_def ent_NewCache_def)

lemma ttl_run_keeps:
  assumes "\<forall>x\<in>set xs. \<not> overwrites (\<lambda>k. k) (\<lambda>d k. d = None \<or> d = Some k) k x" "\<forall>t j v d. Stored t j v d \<in> set xs \<longrightarrow> 0 < d"
  shows "ttl_held (ttl_run xs c) k = ttl_held c k"
  using assms
proof (induction xs rule: rev_induct)
  case (snoc x xs)
  then show ?case by (cases x) (auto simp: ttl_defs split: option.splits)
qed simp

lemma cached_iff_recent:
  assumes "0 < ttl" "\<And>e. length (evf e) \<le> 1" and ttl: "\<And>e t k v d. Stored t k v d \<in> set (evf e) \<Longrightarrow> d = ttl"
  shows "ent_Cache_Get now k (ttl_run (concat (map evf evs)) (ent_NewCache ttl)) = Some resp
         \<longleftrightarrow> recently_stored evf ttl evs now k resp"
proof
  assume "recently_stored evf ttl evs now k resp"
  then obtain pre e post t where evs: "evs = pre @ e # post" "evf e = [Stored t k resp ttl]" "now \<le> t + ttl"
    "\<forall>e'\<in>set post. \<forall>x\<in>set (evf e'). \<not> overwrites (\<lambda>k. k) (\<lambda>d k. d = None \<or> d = Some k) k x"
    by (auto simp: recently_stored_def)
  let ?c = "ttl_put t k resp ttl (ttl_run (concat (map evf pre)) (ent_NewCache ttl))"
  have "ttl_held (ttl_run (concat (map evf post)) ?c) k = ttl_held ?c k"
    by (rule ttl_run_keeps) (use evs(4) ttl assms(1) in fastforce)+
  moreover have "ttl_run (concat (map evf evs)) (ent_NewCache ttl) = ttl_run (concat (map evf post)) ?c"
    using evs(1,2) by (simp add: cache_run_def)
  ultimately show "ent_Cache_Get now k (ttl_run (concat (map evf evs)) (ent_NewCache ttl)) = Some resp"
    using evs(3) by (auto simp: ttl_defs)
qed (rule cached_recent [OF _ assms(2,3)])

lemma company_cached_iff:
  assumes "0 < ttl"
  shows "ent_Cache_Get now k (ttl_run (concat (map (company_events um ttl) evs)) (ent_NewCache ttl)) = Some resp
         \<longleftrightarrow> recently_stored (company_events um ttl) ttl evs now k resp"
  by (rule cached_iff_recent [OF assms events_single(1)]) (rule events_ttl(1))

lemma identity_cached_iff:
  assumes "0 < ttl"
  shows "ent_Cache_Get now k (ttl_run (concat (map (identity_events um ttl) evs)) (ent_NewCache ttl)) = Some resp
         \<longleftrightarrow> recently_stored (identity_events um ttl) ttl evs now k resp"
  by (rule cached_iff_recent [OF assms events_single(2)]) (rule events_ttl(2))

definition service_says :: "(string \<Rightarrow> bootstrap_response result) \<Rightarrow> http_answer \<Rightarrow> bootstrap_response \<Rightarrow> bool" where
  "service_says um answer resp \<longleftrightarrow> (\<exists>body. doGet answer = Inr body \<and> um body = Inr resp)"

lemma decode_answer_iff: "decode_answer um prefix answer = Inr resp \<longleftrightarrow> service_says um answer resp"
  by (auto simp: decode_answer_def service_says_def split: sum.split)

lemma ent_run_config:
  "ec_baseURL (ent_run um umc evs c) = ec_baseURL c" "ec_serviceToken (ent_run um umc evs c) = ec_serviceToken c"
proof -
  have "ec_baseURL (ent_step um umc e c) = ec_baseURL c \<and> ec_serviceToken (ent_step um umc e c) = ec_serviceToken c" for e c
    by (cases e) (auto simp: ent_step_defs split: sum.split usage_answer.split)
  then show "ec_baseURL (ent_run um umc evs c) = ec_baseURL c" "ec_serviceToken (ent_run um umc evs c) = ec_serviceToken c"
    unfolding ent_run_def by (induction evs rule: rev_induct) simp_all
qed

lemma requests_fixed:
  "bootstrap_request (ent_run um umc evs c) companyID = bootstrap_request c companyID"
  "identity_request (ent_run um umc evs c) subject email = identity_request c subject email"
  by (simp_all add: bootstrap_request_def identity_request_def get_request_def setAuth_def ent_run_config)

text \<open>The responses a call may use: the one cached, or, if there is none, what the service says now.\<close>

definition usable ::
  "(string \<Rightarrow> bootstrap_response result) \<Rightarrow> (ent_event \<Rightarrow> (string, bootstrap_response, string option) cache_event list) \<Rightarrow> duration \<Rightarrow>
   ent_event list \<Rightarrow> go_time \<Rightarrow> string \<Rightarrow> http_answer \<Rightarrow> bootstrap_response \<Rightarrow> bool" where
  "usable um evf ttl evs now k answer resp \<longleftrightarrow>
     recently_stored evf ttl evs now k resp \<or> (\<forall>r. \<not> recently_stored evf ttl evs now k r) \<and> service_says um answer resp"

lemma Bootstrap_usable:
  assumes "0 < ttl"
  shows "fst (Bootstrap um net now setAt companyID (ent_run um umc evs (NewClient url (Some ttl) token))) = Inr resp
     \<longleftrightarrow> usable um (company_events um ttl) ttl evs now companyID (net (bootstrap_request (NewClient url (Some ttl) token) companyID)) resp"
proof (cases "ent_Cache_Get now companyID (ec_bootstrap (ent_run um umc evs (NewClient url (Some ttl) token)))")
  case None
  then have none: "\<not> recently_stored (company_events um ttl) ttl evs now companyID r" for r
    by (simp add: ent_run_caches NewClient_caches flip: company_cached_iff [OF assms])
  have "fst (Bootstrap um net now setAt companyID (ent_run um umc evs (NewClient url (Some ttl) token)))
      = decode_answer um ''entitlements bootstrap'' (net (bootstrap_request (NewClient url (Some ttl) token) companyID))"
    using None by (simp add: Bootstrap_def bootstrap_answer_def requests_fixed split: sum.split)
  then show ?thesis by (simp add: usable_def none decode_answer_iff)
next
  case (Some r)
  then have "recently_stored (company_events um ttl) ttl evs now companyID r' \<longleftrightarrow> r' = r" for r'
    by (auto simp: ent_run_caches NewClient_caches simp flip: company_cached_iff [OF assms])
  then show ?thesis using Some by (auto simp: usable_def Bootstrap_def)
qed

lemma BootstrapByIdentity_usable:
  assumes "0 < ttl"
  shows "fst (BootstrapByIdentity um net now setAt subject email (ent_run um umc evs (NewClient url (Some ttl) token))) = Inr resp
     \<longleftrightarrow> usable um (identity_events um ttl) ttl evs now subject (net (identity_request (NewClient url (Some ttl) token) subject email)) resp"
proof (cases "ent_Cache_Get now subject (ec_byIdentity (ent_run um umc evs (NewClient url (Some ttl) token)))")
  case None
  then have none: "\<not> recently_stored (identity_events um ttl) ttl evs now subject r" for r
    by (simp add: ent_run_caches NewClient_caches flip: identity_cached_iff [OF assms])
  have "fst (BootstrapByIdentity um net now setAt subject email (ent_run um umc evs (NewClient url (Some ttl) token)))
      = decode_answer um ''entitlements bootstrap by identity'' (net (identity_request (NewClient url (Some ttl) token) subject email))"
    using None by (simp add: BootstrapByIdentity_def identity_answer_def requests_fixed split: sum.split)
  then show ?thesis by (simp add: usable_def none decode_answer_iff)
next
  case (Some r)
  then have "recently_stored (identity_events um ttl) ttl evs now subject r' \<longleftrightarrow> r' = r" for r'
    by (auto simp: ent_run_caches NewClient_caches simp flip: identity_cached_iff [OF assms])
  then show ?thesis using Some by (auto simp: usable_def BootstrapByIdentity_def)
qed

lemma RequireEntitlement_iff:
  "if companyID \<noteq> [] \<and> (\<exists>resp. fst (Bootstrap um net now setAt companyID c) = Inr resp \<and> feature_allowed (br_Entitlements resp) featureKey)
   then fst (RequireEntitlement um net now setAt featureKey companyID c) = Served None
   else \<exists>m. fst (RequireEntitlement um net now setAt featureKey companyID c) = Refused (if companyID = [] then 401 else 403) m"
  by (cases "Bootstrap um net now setAt companyID c"; cases "fst (Bootstrap um net now setAt companyID c)")
     (auto simp: RequireEntitlement_def CanUseFeature_def gate_answer_def)

lemma RequireEntitlementByIdentity_iff:
  "if subject \<noteq> [] \<and> (\<exists>resp. fst (BootstrapByIdentity um net now setAt subject email c) = Inr resp \<and> feature_allowed (br_Entitlements resp) featureKey)
   then fst (RequireEntitlementByIdentity um net now setAt featureKey subject email c) = Served None
   else \<exists>m. fst (RequireEntitlementByIdentity um net now setAt featureKey subject email c) = Refused (if subject = [] then 401 else 403) m"
  by (cases "BootstrapByIdentity um net now setAt subject email c"; cases "fst (BootstrapByIdentity um net now setAt subject email c)")
     (auto simp: RequireEntitlementByIdentity_def CanUseFeatureByIdentity_def gate_answer_def)


definition demo_bootstrap :: "bool \<Rightarrow> bootstrap_response" where
  "demo_bootstrap b = \<lparr>br_Subscription = None, br_Plan = None,
     br_Entitlements = [\<lparr>ee_FeatureKey = ''video'', ee_FeatureType = ''boolean'', ee_Allowed = b, ee_IncludedUnits = None, ee_UsedUnits = None,
                        ee_Remaining = None, ee_SoftCap = False\<rparr>], br_FeatureFlags = []\<rparr>"

definition demo_unmarshal :: "string \<Rightarrow> bootstrap_response result" where
  "demo_unmarshal s = (if s = ''yes'' then Inr (demo_bootstrap True) else if s = ''no'' then Inr (demo_bootstrap False) else Inl (ErrMsg ''syntax''))"


section \<open>Limits\<close>

text \<open>The key of the check cache does not separate its two parts.\<close>

lemma check_keys_collide:
  "check_key ''a'' ''b:c'' = check_key ''a:b'' ''c''"
  "fst (CheckEntitlement umc net 1 1 ''a:b'' ''c''
      (snd (check_answer (\<lambda>_. Inr \<lparr>er_Allowed = True, er_Remaining = None, er_SoftCap = False\<rparr>) ''a'' ''b:c'' (Responded 200 []) 0
        (NewClient url (Some 100) token)))) = Inr \<lparr>er_Allowed = True, er_Remaining = None, er_SoftCap = False\<rparr>"
  by (simp_all add: check_key_def CheckEntitlement_def check_answer_def decode_answer_def doGet_def NewClient_def ttl_defs)

text \<open>Invalidating a company leaves the responses cached for its subjects; the gate by identity goes on serving them.\<close>

lemma invalidate_company_keeps_subjects:
  "RequireEntitlementByIdentity um net now setAt featureKey subject email (InvalidateCompany companyID c)
   = (case RequireEntitlementByIdentity um net now setAt featureKey subject email c of
        (g, c') \<Rightarrow> (g, InvalidateCompany companyID c'))"
  by (auto simp: RequireEntitlementByIdentity_def CanUseFeatureByIdentity_def BootstrapByIdentity_def InvalidateCompany_def
        identity_answer_def identity_request_def get_request_def setAuth_def split: option.split sum.split)

text \<open>Reporting usage of one feature leaves the other cached checks of the subscription as they are.\<close>

lemma record_usage_keeps_other_features:
  assumes "featureKey' \<noteq> featureKey"
  shows "ent_Cache_Get now (check_key subscriptionID featureKey') (ec_check (snd (RecordUsage subscriptionID featureKey answer c)))
       = ent_Cache_Get now (check_key subscriptionID featureKey') (ec_check c)"
  using assms by (simp add: RecordUsage_def check_key_def ttl_defs split: usage_answer.split)

end
