(* ===== verification/Go_Bignum.thy ===== *)
theory Go_Bignum
  imports Go_Strings
begin

text \<open>
  Natural numbers as big-endian byte strings: the part of \<^verbatim>\<open>math/big\<close> and \<^verbatim>\<open>encoding/binary\<close> that signatures and
  published keys use.
\<close>

section \<open>Definitions\<close>

text \<open>\<^verbatim>\<open>big.Int.Bytes\<close> is the shortest form, \<^verbatim>\<open>SetBytes\<close> its inverse.\<close>

fun big_Bytes :: "nat \<Rightarrow> string" where
  "big_Bytes n = (if n = 0 then [] else big_Bytes (n div 256) @ [char_of (n mod 256)])"

declare big_Bytes.simps [simp del]

definition big_SetBytes :: "string \<Rightarrow> nat" where
  "big_SetBytes s = foldl (\<lambda>n c. n * 256 + of_char c) 0 s"

text \<open>\<^verbatim>\<open>big.Int.FillBytes\<close> into a buffer of \<open>w\<close> bytes, which panics (\<open>None\<close>) when the number does not fit.\<close>

definition big_FillBytes :: "nat \<Rightarrow> nat \<Rightarrow> string option" where
  "big_FillBytes w n =
     (if length (big_Bytes n) \<le> w then Some (replicate (w - length (big_Bytes n)) (CHR 0x00) @ big_Bytes n) else None)"

fun big_BitLen :: "nat \<Rightarrow> nat" where
  "big_BitLen n = (if n = 0 then 0 else Suc (big_BitLen (n div 2)))"

declare big_BitLen.simps [simp del]

definition PutUint64 :: "nat \<Rightarrow> string" where
  "PutUint64 n = map (\<lambda>i. char_of (n div 256 ^ (7 - i) mod 256)) [0..<8]"

section \<open>Lemmas\<close>

lemma big_SetBytes_snoc: "big_SetBytes (s @ [c]) = big_SetBytes s * 256 + of_char c"
  by (simp add: big_SetBytes_def)

lemma big_SetBytes_zeros: "big_SetBytes (replicate k (CHR 0x00) @ s) = big_SetBytes s"
proof -
  have "foldl (\<lambda>n c. n * 256 + of_char c) 0 (replicate k (CHR 0x00)) = (0 :: nat)" by (induction k) simp_all
  then show ?thesis by (simp add: big_SetBytes_def)
qed

lemma big_Bytes_inverse: "big_SetBytes (big_Bytes n) = n"
proof (induction n rule: big_Bytes.induct)
  case (1 n)
  show ?case
  proof (cases "n = 0")
    case True
    then show ?thesis by (simp add: big_Bytes.simps [of 0] big_SetBytes_def)
  next
    case False
    with 1 show ?thesis by (simp add: big_Bytes.simps [of n] big_SetBytes_snoc)
  qed
qed

lemma big_Bytes_0 [simp]: "big_Bytes 0 = []"
  by (simp add: big_Bytes.simps)

lemma big_Bytes_empty [simp]: "big_Bytes n = [] \<longleftrightarrow> n = 0"
  by (simp add: big_Bytes.simps)

lemma length_big_Bytes: "length (big_Bytes n) \<le> w \<longleftrightarrow> n < 256 ^ w"
proof (induction w arbitrary: n)
  case (Suc w)
  have "n < 256 ^ Suc w \<longleftrightarrow> n div 256 < 256 ^ w" by (simp add: div_less_iff_less_mult mult.commute)
  with Suc show ?case by (cases "n = 0") (simp_all add: big_Bytes.simps [of n])
qed simp

lemma big_FillBytes_Some: "n < 256 ^ w \<Longrightarrow> \<exists>s. big_FillBytes w n = Some s \<and> length s = w \<and> big_SetBytes s = n"
  by (simp add: big_FillBytes_def length_big_Bytes big_SetBytes_zeros big_Bytes_inverse)

lemma big_FillBytes_None: "big_FillBytes w n = None \<longleftrightarrow> 256 ^ w \<le> n"
  by (simp add: big_FillBytes_def length_big_Bytes not_less)

lemma big_BitLen_0 [simp]: "big_BitLen 0 = 0"
  by (simp add: big_BitLen.simps)

lemma big_BitLen_le: "big_BitLen n \<le> k \<longleftrightarrow> n < 2 ^ k"
proof (induction k arbitrary: n)
  case 0
  then show ?case by (simp add: big_BitLen.simps [of n])
next
  case (Suc k)
  have "n < 2 ^ Suc k \<longleftrightarrow> n div 2 < 2 ^ k" by (simp add: div_less_iff_less_mult mult.commute)
  with Suc show ?case by (cases "n = 0") (simp_all add: big_BitLen.simps [of n])
qed

lemma length_PutUint64 [simp]: "length (PutUint64 n) = 8"
  by (simp add: PutUint64_def)

lemma digits_256: "big_SetBytes (map (\<lambda>i. char_of (n div 256 ^ (k - i) mod 256)) [0..<Suc k]) = n mod 256 ^ Suc k"
proof (induction k arbitrary: n)
  case 0
  then show ?case by (simp add: big_SetBytes_def)
next
  case (Suc k)
  have "map (\<lambda>i. char_of (n div 256 ^ (Suc k - i) mod 256) :: char) [0..<Suc k]
      = map (\<lambda>i. char_of (n div 256 div 256 ^ (k - i) mod 256)) [0..<Suc k]"
    by (rule map_cong) (auto simp: Suc_diff_le div_mult2_eq)
  moreover have "[0..<Suc (Suc k)] = [0..<Suc k] @ [Suc k]" by simp
  ultimately have "big_SetBytes (map (\<lambda>i. char_of (n div 256 ^ (Suc k - i) mod 256)) [0..<Suc (Suc k)])
      = (n div 256 mod 256 ^ Suc k) * 256 + n mod 256"
    using Suc [of "n div 256"] by (simp only: map_append list.map big_SetBytes_snoc) simp
  also have "\<dots> = n mod 256 ^ Suc (Suc k)"
    using mod_mult2_eq [of n 256 "256 ^ Suc k"] by (simp add: mult.commute)
  finally show ?case .
qed

lemma PutUint64_value: "big_SetBytes (PutUint64 n) = n mod 2 ^ 64"
  using digits_256 [of n 7] by (simp add: PutUint64_def del: upt.simps upt_Suc)

end
