(* ===== verification/Audit_Signing.thy ===== *)
theory Audit_Signing
  imports Go_Encoding Go_Bignum Audit_Log "HOL-Library.List_Lexorder" "HOL-Library.Char_ord"
begin

text \<open>
  Signing of audit events: the canonical JSON of \<^verbatim>\<open>src/platform/audit/canonical_json.go\<close>, the compact JWS of
  \<^verbatim>\<open>src/platform/audit/signed.go\<close> with its verification, and the conversion of ECDSA signatures in
  \<^verbatim>\<open>src/platform/kms/signature\<close>.

  On this side the details of an event are the JSON values \<^verbatim>\<open>json.Unmarshal\<close> yields; a number stands for the text
  Go prints for it. Strings are printed byte by byte, which is what the encoder does with valid UTF-8 other than
  U+2028 and U+2029. SHA-256, the signer and the two verification routines are arguments, and so are the decoders. Printing decoded values does not
  fail, so the error branches of the canonicalisation and of \<^verbatim>\<open>MarshalCanonical\<close> cannot be taken here.
\<close>

section \<open>Printing JSON\<close>

definition short_escape :: "char \<Rightarrow> char option" where
  "short_escape c =
     map_of [(CHR 0x22, CHR 0x22), (CHR 0x5C, CHR 0x5C), (CHR 0x08, CHR ''b''), (CHR 0x0C, CHR ''f''), (CHR 0x0A, CHR ''n''),
             (CHR 0x0D, CHR ''r''), (CHR 0x09, CHR ''t'')] c"

definition json_char :: "bool \<Rightarrow> char \<Rightarrow> string" where
  "json_char html c =
     (case short_escape c of
        Some e \<Rightarrow> [CHR 0x5C, e]
      | None \<Rightarrow>
          if (of_char c :: nat) < 32 \<or> html \<and> c \<in> set ''<>&''
          then [CHR 0x5C, CHR ''u'', CHR ''0'', CHR ''0'', hex_digit (of_char c div 16), hex_digit (of_char c mod 16)]
          else [c])"

definition json_string :: "bool \<Rightarrow> string \<Rightarrow> string" where
  "json_string html s = [CHR 0x22] @ concat (map (json_char html) s) @ [CHR 0x22]"

fun join :: "string \<Rightarrow> string list \<Rightarrow> string" where
  "join sep [] = []"
| "join sep [x] = x"
| "join sep (x # y # xs) = x @ sep @ join sep (y # xs)"

definition json_object :: "bool \<Rightarrow> (string \<times> string) list \<Rightarrow> string" where
  "json_object html fs = ''{'' @ join '','' (map (\<lambda>(k, v). json_string html k @ '':'' @ v) fs) @ ''}''"

definition json_array :: "string list \<Rightarrow> string" where
  "json_array xs = ''['' @ join '','' xs @ '']''"

abbreviation jsonMarshalNoHTML :: "string \<Rightarrow> string" where
  "jsonMarshalNoHTML \<equiv> json_string False"

primrec canonicalizeDecoded :: "json \<Rightarrow> string" where
  "canonicalizeDecoded JNull = ''null''"
| "canonicalizeDecoded (JBool b) = (if b then ''true'' else ''false'')"
| "canonicalizeDecoded (JNumber s) = s"
| "canonicalizeDecoded (JString s) = jsonMarshalNoHTML s"
| "canonicalizeDecoded (JArray xs) = json_array (map canonicalizeDecoded xs)"
| "canonicalizeDecoded (JObject m) = json_object False (sort_key fst (map (map_prod (\<lambda>k. k) canonicalizeDecoded) m))"

section \<open>The canonical payload\<close>

record signed_event =
  se_CompanyID :: string
  se_ActorID :: string
  se_Action :: string
  se_Resource :: string
  se_ResourceID :: string
  se_Details :: "(string, json) gomap"
  se_IPAddress :: string
  se_Decision :: string
  se_ActorKind :: string
  se_SubjectID :: string
  se_SubjectKind :: string
  se_MFA :: "mfa_attestation option"
  se_Federation :: "federation_link list"
  se_Risk :: "risk_attestation option"

record canonical_payload =
  cp_EventID :: string
  cp_Issuer :: string
  cp_IssuedAt :: int
  cp_JTI :: string
  cp_EventType :: string
  cp_TenantID :: string
  cp_ActorID :: string
  cp_ActorKind :: string
  cp_SubjectID :: string
  cp_SubjectKind :: string
  cp_Resource :: string
  cp_ResourceID :: string
  cp_Decision :: string
  cp_SourceIP :: string
  cp_MFA :: "mfa_attestation option"
  cp_Federation :: "federation_link list"
  cp_RiskScore :: int
  cp_RiskSignals :: "risk_signal list"
  cp_Details :: "(string, string) gomap"

definition eventJTI :: "signed_event \<Rightarrow> string" where
  "eventJTI e = (case gm_get (se_Details e) ''jti'' of Some (JString s) \<Rightarrow> s | _ \<Rightarrow> [])"

text \<open>A field with the option \<^verbatim>\<open>omitempty\<close>: dropped when the flag says it is empty.\<close>

definition opt_field :: "string \<Rightarrow> bool \<Rightarrow> string \<Rightarrow> (string \<times> string) list" where
  "opt_field k absent v = (if absent then [] else [(k, v)])"

abbreviation str_field :: "string \<Rightarrow> string \<Rightarrow> (string \<times> string) list" where
  "str_field k s \<equiv> opt_field k (s = []) (jsonMarshalNoHTML s)"

abbreviation int_field :: "string \<Rightarrow> int \<Rightarrow> (string \<times> string) list" where
  "int_field k n \<equiv> opt_field k (n = 0) (show_int n)"

definition encode_mfa :: "mfa_attestation \<Rightarrow> string" where
  "encode_mfa m = json_object False
     (opt_field ''presented'' (mfa_Presented m = []) (json_array (map jsonMarshalNoHTML (mfa_Presented m)))
      @ opt_field ''verified'' (mfa_Verified m = []) (json_array (map jsonMarshalNoHTML (mfa_Verified m)))
      @ opt_field ''step_up_satisfied'' (\<not> mfa_StepUpSatisfied m) ''true''
      @ str_field ''aal_achieved'' (mfa_AALAchieved m))"

definition encode_federation :: "federation_link \<Rightarrow> string" where
  "encode_federation f = json_object False
     (str_field ''idp'' (fed_IDP f) @ str_field ''level'' (fed_Level f) @ str_field ''trust_link'' (fed_TrustLink f))"

definition encode_signal :: "risk_signal \<Rightarrow> string" where
  "encode_signal r = json_object False (str_field ''signal'' (rsk_Signal r) @ int_field ''weight'' (rsk_Weight r))"

definition encode_payload :: "canonical_payload \<Rightarrow> string" where
  "encode_payload cp = json_object False
     (str_field ''event_id'' (cp_EventID cp) @ str_field ''iss'' (cp_Issuer cp) @ int_field ''iat'' (cp_IssuedAt cp)
      @ str_field ''jti'' (cp_JTI cp) @ str_field ''event_type'' (cp_EventType cp) @ str_field ''tenant_id'' (cp_TenantID cp)
      @ str_field ''actor_id'' (cp_ActorID cp) @ str_field ''actor_kind'' (cp_ActorKind cp) @ str_field ''subject_id'' (cp_SubjectID cp)
      @ str_field ''subject_kind'' (cp_SubjectKind cp) @ str_field ''resource'' (cp_Resource cp)
      @ str_field ''resource_id'' (cp_ResourceID cp) @ str_field ''decision'' (cp_Decision cp) @ str_field ''source_ip'' (cp_SourceIP cp)
      @ (case cp_MFA cp of None \<Rightarrow> [] | Some m \<Rightarrow> [(''mfa'', encode_mfa m)])
      @ opt_field ''federation'' (cp_Federation cp = []) (json_array (map encode_federation (cp_Federation cp)))
      @ int_field ''risk_score'' (cp_RiskScore cp)
      @ opt_field ''risk_signals'' (cp_RiskSignals cp = []) (json_array (map encode_signal (cp_RiskSignals cp)))
      @ opt_field ''details'' (cp_Details cp = []) (json_object False (sort_key fst (cp_Details cp))))"

definition canonical_of :: "signed_event \<Rightarrow> string \<Rightarrow> int \<Rightarrow> canonical_payload" where
  "canonical_of e issuer iatSec =
     \<lparr>cp_EventID = eventJTI e, cp_Issuer = issuer, cp_IssuedAt = iatSec, cp_JTI = eventJTI e, cp_EventType = se_Action e,
      cp_TenantID = ToLower (se_CompanyID e), cp_ActorID = ToLower (se_ActorID e), cp_ActorKind = se_ActorKind e,
      cp_SubjectID = ToLower (se_SubjectID e), cp_SubjectKind = se_SubjectKind e, cp_Resource = se_Resource e,
      cp_ResourceID = se_ResourceID e, cp_Decision = se_Decision e, cp_SourceIP = se_IPAddress e, cp_MFA = se_MFA e,
      cp_Federation = se_Federation e,
      cp_RiskScore = (case se_Risk e of None \<Rightarrow> 0 | Some r \<Rightarrow> rsk_Score r),
      cp_RiskSignals = (case se_Risk e of None \<Rightarrow> [] | Some r \<Rightarrow> rsk_Signals r),
      cp_Details = map (map_prod (\<lambda>k. k) canonicalizeDecoded) (sort_key fst (se_Details e))\<rparr>"

definition MarshalCanonical :: "signed_event \<Rightarrow> string \<Rightarrow> int \<Rightarrow> string" where
  "MarshalCanonical e issuer iatSec = encode_payload (canonical_of e issuer iatSec)"

text \<open>Decoding of the details, in the order of the list; the first failure ends it.\<close>

fun decode_details :: "(string \<Rightarrow> json result) \<Rightarrow> (string, string) gomap \<Rightarrow> (string, json) gomap result" where
  "decode_details decode [] = Inr []"
| "decode_details decode ((k, raw) # m) =
     (case decode raw of
        Inl err \<Rightarrow> Inl (ErrWrap (''audit: unmarshal details['' @ quoted k @ '']: '') err [])
      | Inr v \<Rightarrow> (case decode_details decode m of Inl err \<Rightarrow> Inl err | Inr r \<Rightarrow> Inr ((k, v) # r)))"

definition event_of_payload :: "canonical_payload \<Rightarrow> (string, json) gomap \<Rightarrow> signed_event" where
  "event_of_payload cp details =
     \<lparr>se_CompanyID = cp_TenantID cp, se_ActorID = cp_ActorID cp, se_Action = cp_EventType cp, se_Resource = cp_Resource cp,
      se_ResourceID = cp_ResourceID cp, se_Details = details, se_IPAddress = cp_SourceIP cp, se_Decision = cp_Decision cp,
      se_ActorKind = cp_ActorKind cp, se_SubjectID = cp_SubjectID cp, se_SubjectKind = cp_SubjectKind cp, se_MFA = cp_MFA cp,
      se_Federation = cp_Federation cp,
      se_Risk = (if cp_RiskScore cp \<noteq> 0 \<or> cp_RiskSignals cp \<noteq> []
                 then Some \<lparr>rsk_Score = cp_RiskScore cp, rsk_Signals = cp_RiskSignals cp\<rparr> else None)\<rparr>"

definition UnmarshalCanonical ::
  "(string \<Rightarrow> canonical_payload result) \<Rightarrow> (string \<Rightarrow> json result) \<Rightarrow> string \<Rightarrow> (signed_event \<times> string \<times> int) result" where
  "UnmarshalCanonical decode_payload decode b =
     (case decode_payload b of
        Inl err \<Rightarrow> Inl (ErrWrap ''audit: unmarshal canonical: '' err [])
      | Inr cp \<Rightarrow>
          (case decode_details decode (cp_Details cp) of
             Inl err \<Rightarrow> Inl err
           | Inr details \<Rightarrow> Inr (event_of_payload cp details, cp_Issuer cp, cp_IssuedAt cp)))"

section \<open>ECDSA signatures\<close>

text \<open>\<open>asn1\<close> decodes a sequence of two integers and says what follows it.\<close>

definition ECDSAJWSFromDER :: "(string \<Rightarrow> (int \<times> int \<times> string) result) \<Rightarrow> string \<Rightarrow> int \<Rightarrow> string result" where
  "ECDSAJWSFromDER asn1 der curveBytes =
     (if der = [] then Inl (ErrMsg ''signature: empty DER input'')
      else if curveBytes \<le> 0 then Inl (ErrMsg (''signature: invalid curveBytes '' @ show_int curveBytes))
      else (case asn1 der of
              Inl err \<Rightarrow> Inl (ErrWrap ''signature: asn1 unmarshal: '' err [])
            | Inr (r, s, more_bytes) \<Rightarrow>
                if more_bytes \<noteq> [] then Inl (ErrMsg ''signature: trailing bytes after DER signature'')
                else if r < 0 \<or> s < 0 then Inl (ErrMsg ''signature: negative R or S in DER signature'')
                else
                  let rBytes = big_Bytes (nat r); sBytes = big_Bytes (nat s); w = nat curveBytes
                  in if length rBytes > w \<or> length sBytes > w
                     then Inl (ErrMsg (''signature: R or S exceeds curve width '' @ show_int curveBytes))
                     else Inr (replicate (w - length rBytes) (CHR 0x00) @ rBytes
                               @ replicate (w - length sBytes) (CHR 0x00) @ sBytes)))"

definition ECDSADERFromJWS :: "(nat \<times> nat \<Rightarrow> string result) \<Rightarrow> string \<Rightarrow> string result" where
  "ECDSADERFromJWS asn1_marshal raw =
     (if raw = [] then Inl (ErrMsg ''signature: empty raw input'')
      else if length raw mod 2 \<noteq> 0 then Inl (ErrMsg (''signature: raw length '' @ show_nat (length raw) @ '' is odd''))
      else
        let half = length raw div 2
        in (case asn1_marshal (big_SetBytes (take half raw), big_SetBytes (drop half raw)) of
              Inl err \<Rightarrow> Inl (ErrWrap ''signature: asn1 marshal: '' err [])
            | Inr der \<Rightarrow> Inr der))"

section \<open>Signing\<close>

definition ErrUnsupportedAlgorithm :: go_error where
  "ErrUnsupportedAlgorithm = ErrVar ''audit: signer algorithm must be ES256 or RS256''"
definition ErrInvalidJWS :: go_error where "ErrInvalidJWS = ErrVar ''audit: invalid JWS Compact''"
definition ErrSignatureInvalid :: go_error where "ErrSignatureInvalid = ErrVar ''audit: signature verification failed''"

text \<open>The signer: its algorithm, the identifier of its key, and the signature of a digest.\<close>

record kms_signer =
  ks_SigningAlgorithm :: string
  ks_KeyID :: string
  ks_Sign :: "string \<Rightarrow> string result"

definition NewSignedStore :: "kms_signer option \<Rightarrow> bool \<Rightarrow> string \<Rightarrow> (kms_signer \<times> string) result" where
  "NewSignedStore signer has_inner issuerID =
     (case signer of
        None \<Rightarrow> Inl (ErrMsg ''audit: nil signer'')
      | Some k \<Rightarrow>
          if \<not> has_inner then Inl (ErrMsg ''audit: nil inner store'')
          else if ks_SigningAlgorithm k \<noteq> ''ES256'' \<and> ks_SigningAlgorithm k \<noteq> ''RS256''
          then Inl (ErrWrap [] ErrUnsupportedAlgorithm ('': got '' @ quoted (ks_SigningAlgorithm k)))
          else if issuerID = [] then Inl (ErrMsg ''audit: empty issuerID'')
          else Inr (k, issuerID))"

definition jws_header :: "string \<Rightarrow> string \<Rightarrow> string" where
  "jws_header alg kid =
     json_object True [(''alg'', json_string True alg), (''kid'', json_string True kid), (''typ'', json_string True ''JWT'')]"

definition signing_input :: "string \<Rightarrow> string \<Rightarrow> string" where
  "signing_input header payload = b64_EncodeToString header @ ''.'' @ b64_EncodeToString payload"

definition SignedStore_sign ::
  "(string \<Rightarrow> string) \<Rightarrow> (string \<Rightarrow> (int \<times> int \<times> string) result) \<Rightarrow> kms_signer \<Rightarrow> string \<Rightarrow> int \<Rightarrow> signed_event \<Rightarrow> string result" where
  "SignedStore_sign sha256 asn1 k issuerID iat e =
     (let payload = MarshalCanonical e issuerID iat;
          alg = ks_SigningAlgorithm k;
          input = signing_input (jws_header alg (ks_KeyID k)) payload
      in case ks_Sign k (sha256 input) of
           Inl err \<Rightarrow> Inl (ErrWrap ''audit: signer.Sign: '' err [])
         | Inr sig \<Rightarrow>
             (case (if alg = ''ES256'' then ECDSAJWSFromDER asn1 sig 32 else Inr sig) of
                Inl err \<Rightarrow> Inl (ErrWrap (''audit: ECDSA DER'' @ [CHR 0xE2, CHR 0x86, CHR 0x92] @ ''raw: '') err [])
              | Inr raw \<Rightarrow> Inr (input @ ''.'' @ b64_EncodeToString raw)))"

text \<open>
  A public key is an ECDSA key or an RSA key, each with its verification routine, or something else. The
  text of the type in the error is that of the Go type.
\<close>

datatype public_key =
    EcdsaPub "string \<Rightarrow> nat \<Rightarrow> nat \<Rightarrow> bool"
  | RsaPub "string \<Rightarrow> string \<Rightarrow> string option"
  | OtherPub string

primrec pub_type :: "public_key \<Rightarrow> string" where
  "pub_type (EcdsaPub v) = ''*ecdsa.PublicKey''"
| "pub_type (RsaPub v) = ''*rsa.PublicKey''"
| "pub_type (OtherPub t) = t"

record verified_event =
  ve_Event :: signed_event
  ve_Issuer :: string
  ve_IssuedAt :: int
  ve_KID :: string
  ve_Alg :: string

text \<open>The check of the signature: \<open>None\<close> when it holds.\<close>

definition check_signature :: "string \<Rightarrow> public_key \<Rightarrow> string \<Rightarrow> string \<Rightarrow> go_error option" where
  "check_signature alg pub digest sig =
     (if alg = ''ES256'' then
        (case pub of
           EcdsaPub verify \<Rightarrow>
             if length sig \<noteq> 64
             then Some (ErrWrap [] ErrInvalidJWS ('': ES256 raw signature length '' @ show_nat (length sig) @ '', want 64''))
             else if \<not> verify digest (big_SetBytes (take 32 sig)) (big_SetBytes (drop 32 sig)) then Some ErrSignatureInvalid
             else None
         | _ \<Rightarrow> Some (ErrWrap [] ErrInvalidJWS ('': ES256 requires *ecdsa.PublicKey, got '' @ pub_type pub)))
      else
        (case pub of
           RsaPub verify \<Rightarrow>
             (case verify digest sig of Some err \<Rightarrow> Some (ErrWrap [] ErrSignatureInvalid ('': '' @ err)) | None \<Rightarrow> None)
         | _ \<Rightarrow> Some (ErrWrap [] ErrInvalidJWS ('': RS256 requires *rsa.PublicKey, got '' @ pub_type pub))))"

text \<open>\<open>bad64\<close> is the text of a base64 error; \<open>decode_header\<close> decodes a JSON object of strings.\<close>

definition VerifySignedEvent ::
  "(string \<Rightarrow> string) \<Rightarrow> (string \<Rightarrow> string) \<Rightarrow> (string \<Rightarrow> (string, string) gomap result) \<Rightarrow> (string \<Rightarrow> canonical_payload result) \<Rightarrow>
   (string \<Rightarrow> json result) \<Rightarrow> string \<Rightarrow> public_key \<Rightarrow> verified_event result" where
  "VerifySignedEvent sha256 bad64 decode_header decode_payload decode jwsCompact pub =
     (case Split jwsCompact CHR ''.'' of
        [h, p, s] \<Rightarrow>
          (case b64_DecodeString h of
             None \<Rightarrow> Inl (ErrWrap [] ErrInvalidJWS ('': decode header: '' @ bad64 h))
           | Some headerBytes \<Rightarrow>
               (case decode_header headerBytes of
                  Inl err \<Rightarrow> Inl (ErrWrap [] ErrInvalidJWS ('': parse header: '' @ error_text err))
                | Inr header \<Rightarrow>
                    let alg = gm_get_or [] header ''alg''
                    in if alg \<noteq> ''ES256'' \<and> alg \<noteq> ''RS256''
                       then Inl (ErrWrap [] ErrUnsupportedAlgorithm ('': header alg='' @ quoted alg))
                       else
                         (case b64_DecodeString p of
                            None \<Rightarrow> Inl (ErrWrap [] ErrInvalidJWS ('': decode payload: '' @ bad64 p))
                          | Some payloadBytes \<Rightarrow>
                              (case b64_DecodeString s of
                                 None \<Rightarrow> Inl (ErrWrap [] ErrInvalidJWS ('': decode signature: '' @ bad64 s))
                               | Some sig \<Rightarrow>
                                   (case check_signature alg pub (sha256 (h @ ''.'' @ p)) sig of
                                      Some err \<Rightarrow> Inl err
                                    | None \<Rightarrow>
                                        (case UnmarshalCanonical decode_payload decode payloadBytes of
                                           Inl err \<Rightarrow> Inl (ErrWrap [] ErrInvalidJWS ('': unmarshal payload: '' @ error_text err))
                                         | Inr (event, iss, iat) \<Rightarrow>
                                             Inr \<lparr>ve_Event = event, ve_Issuer = iss, ve_IssuedAt = iat,
                                                  ve_KID = gm_get_or [] header ''kid'', ve_Alg = alg\<rparr>))))))
      | parts \<Rightarrow> Inl (ErrWrap [] ErrInvalidJWS ('': want 3 parts, got '' @ show_nat (length parts))))"

section \<open>Identifiers\<close>

definition crockfordAlphabet :: string where
  "crockfordAlphabet = ''0123456789ABCDEFGHJKMNPQRSTVWXYZ''"

text \<open>The lowest \<open>n\<close> groups of five bits, the highest first.\<close>

fun crockford :: "nat \<Rightarrow> nat \<Rightarrow> string" where
  "crockford 0 ms = []"
| "crockford (Suc n) ms = crockford n (ms div 32) @ [crockfordAlphabet ! (ms mod 32)]"

definition generateJTI :: "nat \<Rightarrow> string \<Rightarrow> string" where
  "generateJTI ms random = crockford 10 ms @ map (\<lambda>b. crockfordAlphabet ! (of_char b mod 32)) random"

end
