(* ===== verification/Audit_Canonical.thy ===== *)
theory Audit_Canonical
  imports Audit_Signing
begin

text \<open>
  The canonical encoding of audit events is exact: equal bytes mean equal events, up to the order of keys in maps
  and the case of the identifiers. The proof is about printed JSON in general: every printed value is
  self-delimiting.
\<close>

section \<open>Normal forms\<close>

primrec json_norm :: "json \<Rightarrow> json" where
  "json_norm JNull = JNull"
| "json_norm (JBool b) = JBool b"
| "json_norm (JNumber s) = JNumber s"
| "json_norm (JString s) = JString s"
| "json_norm (JArray xs) = JArray (map json_norm xs)"
| "json_norm (JObject m) = JObject (sort_key fst (map (map_prod (\<lambda>k. k) json_norm) m))"

primrec json_print :: "json \<Rightarrow> string" where
  "json_print JNull = ''null''"
| "json_print (JBool b) = (if b then ''true'' else ''false'')"
| "json_print (JNumber s) = s"
| "json_print (JString s) = json_string False s"
| "json_print (JArray xs) = json_array (map json_print xs)"
| "json_print (JObject m) = json_object False (map (map_prod (\<lambda>k. k) json_print) m)"

definition number_text :: "string \<Rightarrow> bool" where
  "number_text s \<longleftrightarrow> s \<noteq> [] \<and> hd s \<in> set ''-0123456789'' \<and> set s \<subseteq> set ''-+.eE0123456789''"

primrec json_valid :: "json \<Rightarrow> bool" where
  "json_valid JNull \<longleftrightarrow> True"
| "json_valid (JBool b) \<longleftrightarrow> True"
| "json_valid (JNumber s) \<longleftrightarrow> number_text s"
| "json_valid (JString s) \<longleftrightarrow> True"
| "json_valid (JArray xs) \<longleftrightarrow> list_all (\<lambda>b. b) (map json_valid xs)"
| "json_valid (JObject m) \<longleftrightarrow> list_all snd (map (map_prod (\<lambda>k. k) json_valid) m)"

lemma json_valid_simps [simp]:
  "json_valid (JArray xs) \<longleftrightarrow> (\<forall>v\<in>set xs. json_valid v)"
  "json_valid (JObject m) \<longleftrightarrow> (\<forall>(k, v)\<in>set m. json_valid v)"
  by (auto simp: list_all_iff)

declare json_valid.simps(5,6) [simp del]

lemma insort_key_map_prod:
  "insort_key fst (map_prod (\<lambda>k. k) f x) (map (map_prod (\<lambda>k. k) f) xs) = map (map_prod (\<lambda>k. k) f) (insort_key fst x xs)"
  by (induction xs) (auto simp: map_prod_def split: prod.splits)

lemma sort_key_map_prod: "sort_key fst (map (map_prod (\<lambda>k. k) f) m) = map (map_prod (\<lambda>k. k) f) (sort_key fst m)"
  by (induction m) (simp_all add: insort_key_map_prod)

lemma canonical_print: "canonicalizeDecoded v = json_print (json_norm v)"
proof (induction v)
  case (JObject m)
  have "map (map_prod (\<lambda>k. k) canonicalizeDecoded) m = map (map_prod (\<lambda>k. k) (\<lambda>v. json_print (json_norm v))) m"
    using JObject by (fastforce simp: map_prod_def split: prod.splits)
  then have "canonicalizeDecoded (JObject m) = json_object False (sort_key fst (map (map_prod (\<lambda>k. k) (\<lambda>v. json_print (json_norm v))) m))"
    by (simp only: canonicalizeDecoded.simps)
  then show ?case by (simp add: sort_key_map_prod comp_def prod.map_comp)
qed (auto cong: map_cong simp: comp_def)

lemma json_valid_norm: "json_valid v \<Longrightarrow> json_valid (json_norm v)"
  by (induction v) (fastforce simp: json_valid_simps)+

section \<open>Printed values are self-delimiting\<close>

lemma short_escape_facts:
  "short_escape c = Some e \<Longrightarrow> short_escape d = Some e \<Longrightarrow> c = d"
  "short_escape c = Some e \<Longrightarrow> e \<noteq> CHR ''u''"
  "short_escape c = None \<Longrightarrow> c \<noteq> CHR 0x5C \<and> c \<noteq> CHR 0x22"
  by (auto simp: short_escape_def split: if_splits)

lemma json_char_first: "json_char html c \<noteq> []" "hd (json_char html c) \<noteq> CHR 0x22"
  using short_escape_facts(3) [of c] by (auto simp: json_char_def split: option.split)

lemma unicode_escape_inj:
  assumes "hex_digit (of_char c div 16) = hex_digit (of_char d div 16)" "hex_digit (of_char c mod 16) = hex_digit (of_char d mod 16)"
  shows "c = d"
  using assms high_nibble [of c] high_nibble [of d] by (intro char_eq_nibbles) (simp_all add: hex_digit_inj)

lemma json_char_cases:
  obtains (short) e where "json_char html c = [CHR 0x5C, e]" "short_escape c = Some e"
  | (unicode) "json_char html c = [CHR 0x5C, CHR ''u'', CHR ''0'', CHR ''0'', hex_digit (of_char c div 16), hex_digit (of_char c mod 16)]"
      "short_escape c = None"
  | (plain) "json_char html c = [c]" "c \<noteq> CHR 0x5C"
  using short_escape_facts(3) [of c]
  by (cases "short_escape c"; cases "(of_char c :: nat) < 32 \<or> html \<and> c \<in> set ''<>&''") (auto simp: json_char_def)

lemma json_char_prefix:
  assumes "json_char html c @ xs = json_char html d @ ys"
  shows "c = d \<and> xs = ys"
proof (cases rule: json_char_cases [of html c])
  case (short e)
  then show ?thesis
    by (cases rule: json_char_cases [of html d]) (use assms short_escape_facts(1,2) in auto)
next
  case unicode
  then show ?thesis
    by (cases rule: json_char_cases [of html d]) (use assms unicode_escape_inj [of c d] short_escape_facts(2) [of d] in auto)
next
  case plain
  then show ?thesis
    by (cases rule: json_char_cases [of html d]) (use assms in auto)
qed

lemma json_string_prefix:
  assumes "json_string html s @ xs = json_string html t @ ys"
  shows "s = t \<and> xs = ys"
proof -
  have "concat (map (json_char html) s) @ CHR 0x22 # xs = concat (map (json_char html) t) @ CHR 0x22 # ys \<Longrightarrow> s = t \<and> xs = ys"
  proof (induction s arbitrary: t)
    case Nil
    show ?case
    proof (cases t)
      case (Cons d t')
      with Nil json_char_first [of html d] show ?thesis by (cases "json_char html d") auto
    qed (use Nil in auto)
  next
    case (Cons c s)
    show ?case
    proof (cases t)
      case Nil
      with Cons.prems json_char_first [of html c] show ?thesis by (cases "json_char html c") auto
    next
      case (Cons d t')
      with Cons.prems Cons.IH [of t'] show ?thesis by (auto dest!: json_char_prefix)
    qed
  qed
  with assms show ?thesis by (simp add: json_string_def)
qed

lemma json_string_inj: "json_string html s = json_string html t \<longleftrightarrow> s = t"
  using json_string_prefix [of html s "[]" t "[]"] by auto

text \<open>What may follow a value.\<close>

definition delim :: "string \<Rightarrow> bool" where
  "delim x \<longleftrightarrow> x = [] \<or> hd x \<in> set '',]}''"

text \<open>An encoding whose code words can be told apart from what follows, and do not begin like a delimiter.\<close>

definition self_delimiting :: "('a \<Rightarrow> bool) \<Rightarrow> ('a \<Rightarrow> string) \<Rightarrow> 'a \<Rightarrow> bool" where
  "self_delimiting V f v \<longleftrightarrow>
     (\<forall>w x y. V w \<longrightarrow> f v @ x = f w @ y \<longrightarrow> delim x \<longrightarrow> delim y \<longrightarrow> v = w \<and> x = y)"

definition opens :: "string \<Rightarrow> bool" where
  "opens s \<longleftrightarrow> s \<noteq> [] \<and> hd s \<notin> set '',]}''"

lemma join_Cons: "join sep (x # xs) = x @ concat (map (\<lambda>y. sep @ y) xs)"
  by (induction xs arbitrary: x) auto

lemma delim_tail: "c \<in> set '',]}'' \<Longrightarrow> delim (c # x)" "c \<in> set '',]}'' \<Longrightarrow> delim (concat (map (\<lambda>y. '','' @ f y) xs) @ c # x)"
  by (simp add: delim_def, cases xs) (auto simp: delim_def)

lemma tail_inj:
  assumes "\<forall>v\<in>set vs. self_delimiting V f v" "\<forall>w\<in>set ws. V w" "c \<in> set '']}''"
    and "concat (map (\<lambda>y. '','' @ f y) vs) @ c # x = concat (map (\<lambda>y. '','' @ f y) ws) @ c # y"
  shows "vs = ws \<and> x = y"
  using assms
proof (induction vs arbitrary: ws)
  case Nil
  then show ?case by (cases ws) auto
next
  case (Cons v vs)
  obtain w ws' where ws: "ws = w # ws'" using Cons.prems by (cases ws) auto
  have c: "c \<in> set '',]}''" using Cons.prems(3) by auto
  have "f v @ concat (map (\<lambda>y. '','' @ f y) vs) @ c # x = f w @ concat (map (\<lambda>y. '','' @ f y) ws') @ c # y"
    using Cons.prems(4) ws by simp
  then have "v = w \<and> concat (map (\<lambda>y. '','' @ f y) vs) @ c # x = concat (map (\<lambda>y. '','' @ f y) ws') @ c # y"
    using Cons.prems(1,2) ws delim_tail(2) [OF c] unfolding self_delimiting_def by (metis list.set_intros(1))
  with Cons.IH [of ws'] Cons.prems ws show ?case by simp
qed

lemma list_inj:
  assumes "\<forall>v\<in>set vs. self_delimiting V f v \<and> opens (f v)" "\<forall>w\<in>set ws. V w \<and> opens (f w)" "c \<in> set '']}''"
    and "join '','' (map f vs) @ c # x = join '','' (map f ws) @ c # y"
  shows "vs = ws \<and> x = y"
proof (cases vs)
  case Nil
  with assms show ?thesis by (cases ws) (auto simp: join_Cons opens_def neq_Nil_conv)
next
  case (Cons v vs')
  obtain w ws' where ws: "ws = w # ws'"
    using assms Cons by (cases ws) (auto simp: join_Cons opens_def neq_Nil_conv)
  have c: "c \<in> set '',]}''" using assms(3) by auto
  have "f v @ concat (map (\<lambda>y. '','' @ f y) vs') @ c # x = f w @ concat (map (\<lambda>y. '','' @ f y) ws') @ c # y"
    using assms(4) Cons ws by (simp add: join_Cons comp_def)
  then have "v = w \<and> concat (map (\<lambda>y. '','' @ f y) vs') @ c # x = concat (map (\<lambda>y. '','' @ f y) ws') @ c # y"
    using assms(1,2) Cons ws delim_tail(2) [OF c] unfolding self_delimiting_def by (metis list.set_intros(1))
  with tail_inj [of vs' V f ws' c x y] assms Cons ws show ?thesis by simp
qed

section \<open>Printing is injective\<close>

lemma opens_print: "json_valid v \<Longrightarrow> opens (json_print v)"
  by (cases v) (auto simp: opens_def json_string_def json_array_def json_object_def number_text_def)

lemma opens_pair: "opens (json_string False k @ '':'' @ x)"
  by (simp add: opens_def json_string_def)

definition print_pair :: "string \<times> json \<Rightarrow> string" where
  "print_pair e = json_string False (fst e) @ '':'' @ json_print (snd e)"

lemma json_print_object: "json_print (JObject m) = ''{'' @ join '','' (map print_pair m) @ ''}''"
  by (simp add: json_object_def comp_def case_prod_beta) (simp add: print_pair_def [abs_def])

text \<open>The first character of a printed value tells its kind.\<close>

primrec json_kind :: "json \<Rightarrow> nat" where
  "json_kind JNull = 0"
| "json_kind (JBool b) = (if b then 1 else 2)"
| "json_kind (JNumber s) = 3"
| "json_kind (JString s) = 4"
| "json_kind (JArray vs) = 5"
| "json_kind (JObject m) = 6"

definition char_kind :: "char \<Rightarrow> nat" where
  "char_kind c = (if c \<in> set ''-0123456789'' then 3 else the (map_of [(CHR ''n'', 0), (CHR ''t'', 1), (CHR ''f'', 2), (CHR 0x22, 4), (CHR ''['', 5), (CHR ''{'', 6)] c))"

lemma print_kind: "json_valid v \<Longrightarrow> json_kind v = char_kind (hd (json_print v @ x))"
  by (cases v) (auto simp: char_kind_def json_string_def json_array_def json_object_def number_text_def)

lemma same_kind: "json_valid v \<Longrightarrow> json_valid w \<Longrightarrow> json_print v @ x = json_print w @ y \<Longrightarrow> json_kind v = json_kind w"
  using print_kind by metis

lemma number_prefix:
  assumes "number_text s" "number_text t" "s @ x = t @ y" "delim x" "delim y"
  shows "s = t \<and> x = y"
proof -
  have "takeWhile (\<lambda>c. c \<in> set ''-+.eE0123456789'') (s @ x) = s" "takeWhile (\<lambda>c. c \<in> set ''-+.eE0123456789'') (t @ y) = t"
    using assms(1,2,4,5) by (cases x; cases y; auto simp: number_text_def delim_def takeWhile_append subset_iff)+
  with assms(3) show ?thesis by simp
qed

lemma pair_self_delimiting:
  "self_delimiting json_valid json_print (snd e) \<Longrightarrow> self_delimiting (\<lambda>e. json_valid (snd e)) print_pair e"
  unfolding self_delimiting_def print_pair_def by (auto dest!: json_string_prefix simp: prod_eq_iff)

lemma print_self_delimiting: "json_valid v \<Longrightarrow> self_delimiting json_valid json_print v"
proof (induction v)
  case (JArray vs)
  have "JArray vs = w \<and> x = y" if w: "json_valid w" "json_print (JArray vs) @ x = json_print w @ y" for w x y
  proof -
    obtain ws where ws: "w = JArray ws" using same_kind [OF JArray.prems w] by (cases w) (auto split: if_splits)
    with w have "join '','' (map json_print vs) @ CHR '']'' # x = join '','' (map json_print ws) @ CHR '']'' # y"
      by (simp add: json_array_def)
    with list_inj [of vs json_valid json_print ws "CHR '']''" x y] JArray.IH JArray.prems w(1) ws opens_print
    show ?thesis by auto
  qed
  then show ?case by (auto simp: self_delimiting_def)
next
  case (JObject m)
  have "JObject m = w \<and> x = y" if w: "json_valid w" "json_print (JObject m) @ x = json_print w @ y" for w x y
  proof -
    obtain n where n: "w = JObject n" using same_kind [OF JObject.prems w] by (cases w) (auto split: if_splits)
    with w have eq: "join '','' (map print_pair m) @ CHR ''}'' # x = join '','' (map print_pair n) @ CHR ''}'' # y"
      unfolding n json_print_object by simp
    have "\<forall>e\<in>set m. self_delimiting (\<lambda>e. json_valid (snd e)) print_pair e \<and> opens (print_pair e)"
      using JObject.IH JObject.prems opens_pair by (fastforce simp: print_pair_def [of e for e] intro!: pair_self_delimiting)
    moreover have "\<forall>e\<in>set n. json_valid (snd e) \<and> opens (print_pair e)"
      using w(1) n opens_pair by (auto simp: print_pair_def)
    ultimately show ?thesis using list_inj [OF _ _ _ eq, of "\<lambda>e. json_valid (snd e)"] n by simp
  qed
  then show ?case by (auto simp: self_delimiting_def)
next
  case (JString s)
  have "JString s = w \<and> x = y" if w: "json_valid w" "json_print (JString s) @ x = json_print w @ y" for w x y
  proof -
    obtain t where "w = JString t" using same_kind [OF JString.prems w] by (cases w) (auto split: if_splits)
    with w show ?thesis by (auto dest!: json_string_prefix)
  qed
  then show ?case by (auto simp: self_delimiting_def)
next
  case (JNumber s)
  have "JNumber s = w \<and> x = y" if w: "json_valid w" "json_print (JNumber s) @ x = json_print w @ y" "delim x" "delim y" for w x y
  proof -
    obtain t where "w = JNumber t" using same_kind [OF JNumber.prems w(1,2)] by (cases w) (auto split: if_splits)
    with w JNumber.prems number_prefix [of s t x y] show ?thesis by simp
  qed
  then show ?case by (auto simp: self_delimiting_def)
next
  case (JBool b)
  have "JBool b = w \<and> x = y" if w: "json_valid w" "json_print (JBool b) @ x = json_print w @ y" for w x y
  proof -
    obtain c where "w = JBool c" using same_kind [OF JBool.prems w] by (cases w) (auto split: if_splits)
    moreover from this have "b = c" using same_kind [OF JBool.prems w] by (simp split: if_splits)
    ultimately show ?thesis using w(2) by (cases c) auto
  qed
  then show ?case by (auto simp: self_delimiting_def)
next
  case JNull
  have "JNull = w \<and> x = y" if w: "json_valid w" "json_print JNull @ x = json_print w @ y" for w x y
  proof -
    have "w = JNull" using same_kind [OF JNull.prems w] by (cases w) (auto split: if_splits)
    then show ?thesis using w(2) by simp
  qed
  then show ?case by (auto simp: self_delimiting_def)
qed

lemma print_inj: "json_valid v \<Longrightarrow> json_valid w \<Longrightarrow> json_print v = json_print w \<longleftrightarrow> v = w"
  using print_self_delimiting [of v] unfolding self_delimiting_def delim_def by (metis append_Nil2)

lemma canonical_inj:
  "json_valid v \<Longrightarrow> json_valid w \<Longrightarrow> canonicalizeDecoded v = canonicalizeDecoded w \<longleftrightarrow> json_norm v = json_norm w"
  unfolding canonical_print by (rule print_inj) (rule json_valid_norm, assumption)+

section \<open>The payload as a JSON value\<close>

definition opt_json :: "string \<Rightarrow> bool \<Rightarrow> json \<Rightarrow> (string \<times> json) list" where
  "opt_json k absent v = (if absent then [] else [(k, v)])"

abbreviation str_json :: "string \<Rightarrow> string \<Rightarrow> (string \<times> json) list" where
  "str_json k s \<equiv> opt_json k (s = []) (JString s)"

abbreviation int_json :: "string \<Rightarrow> int \<Rightarrow> (string \<times> json) list" where
  "int_json k n \<equiv> opt_json k (n = 0) (JNumber (show_int n))"

definition mfa_json :: "mfa_attestation \<Rightarrow> json" where
  "mfa_json m = JObject
     (opt_json ''presented'' (mfa_Presented m = []) (JArray (map JString (mfa_Presented m)))
      @ opt_json ''verified'' (mfa_Verified m = []) (JArray (map JString (mfa_Verified m)))
      @ opt_json ''step_up_satisfied'' (\<not> mfa_StepUpSatisfied m) (JBool True)
      @ str_json ''aal_achieved'' (mfa_AALAchieved m))"

definition federation_json :: "federation_link \<Rightarrow> json" where
  "federation_json f = JObject
     (str_json ''idp'' (fed_IDP f) @ str_json ''level'' (fed_Level f) @ str_json ''trust_link'' (fed_TrustLink f))"

definition signal_json :: "risk_signal \<Rightarrow> json" where
  "signal_json r = JObject (str_json ''signal'' (rsk_Signal r) @ int_json ''weight'' (rsk_Weight r))"

text \<open>The fields of a payload; the details are given as JSON.\<close>

definition payload_fields :: "canonical_payload \<Rightarrow> (string \<times> json) list \<Rightarrow> (string \<times> json) list" where
  "payload_fields cp details =
     str_json ''event_id'' (cp_EventID cp) @ str_json ''iss'' (cp_Issuer cp) @ int_json ''iat'' (cp_IssuedAt cp)
      @ str_json ''jti'' (cp_JTI cp) @ str_json ''event_type'' (cp_EventType cp) @ str_json ''tenant_id'' (cp_TenantID cp)
      @ str_json ''actor_id'' (cp_ActorID cp) @ str_json ''actor_kind'' (cp_ActorKind cp) @ str_json ''subject_id'' (cp_SubjectID cp)
      @ str_json ''subject_kind'' (cp_SubjectKind cp) @ str_json ''resource'' (cp_Resource cp)
      @ str_json ''resource_id'' (cp_ResourceID cp) @ str_json ''decision'' (cp_Decision cp) @ str_json ''source_ip'' (cp_SourceIP cp)
      @ opt_json ''mfa'' (cp_MFA cp = None) (mfa_json (the (cp_MFA cp)))
      @ opt_json ''federation'' (cp_Federation cp = []) (JArray (map federation_json (cp_Federation cp)))
      @ int_json ''risk_score'' (cp_RiskScore cp)
      @ opt_json ''risk_signals'' (cp_RiskSignals cp = []) (JArray (map signal_json (cp_RiskSignals cp)))
      @ opt_json ''details'' (details = []) (JObject details)"

lemma opt_json_print: "map (map_prod (\<lambda>k. k) json_print) (opt_json k a v) = opt_field k a (json_print v)"
  by (simp add: opt_json_def opt_field_def)

lemma mfa_print: "json_print (mfa_json m) = encode_mfa m"
  by (simp add: mfa_json_def encode_mfa_def opt_json_print json_array_def [symmetric] comp_def)

lemma federation_print: "json_print (federation_json f) = encode_federation f"
  by (simp add: federation_json_def encode_federation_def opt_json_print)

lemma signal_print: "json_print (signal_json r) = encode_signal r"
  by (simp add: signal_json_def encode_signal_def opt_json_print)

lemma encode_payload_print:
  assumes "sort_key fst (cp_Details cp) = map (map_prod (\<lambda>k. k) json_print) details"
  shows "encode_payload cp = json_print (JObject (payload_fields cp details))"
proof -
  have "cp_Details cp = [] \<longleftrightarrow> details = []" using assms by (metis Nil_is_map_conv length_0_conv length_sort)
  then show ?thesis
    by (simp add: encode_payload_def payload_fields_def opt_json_print assms mfa_print federation_print signal_print comp_def
             split: option.split) (simp add: opt_field_def)
qed

lemma number_show_int: "number_text (show_int n)"
proof -
  have d: "set (show_nat k) \<subseteq> set ''0123456789''" for k
  proof
    fix c assume "c \<in> set (show_nat k)"
    then have b: "48 \<le> (of_char c :: nat)" "(of_char c :: nat) < 58" using show_nat_digits by blast+
    then have "char_of (of_char c :: nat) \<in> char_of ` {48..<58::nat}" by (intro imageI) simp
    moreover have "char_of ` {48..<58::nat} = set ''0123456789''" by code_simp
    ultimately show "c \<in> set ''0123456789''" by (simp only: char_of_char)
  qed
  have ne: "show_nat k \<noteq> []" for k by (subst show_nat.simps) auto
  have sub: "set ''0123456789'' \<subseteq> set ''-0123456789''" "set ''0123456789'' \<subseteq> set ''-+.eE0123456789''"
    "CHR ''-'' \<in> set ''-0123456789''" "CHR ''-'' \<in> set ''-+.eE0123456789''" by code_simp+
  have "number_text (show_nat k)" for k
    unfolding number_text_def using subsetD [OF d [of k] hd_in_set [OF ne]]
    by (intro conjI ne subset_trans [OF d sub(2)] subsetD [OF sub(1)])
  moreover have "number_text (CHR ''-'' # show_nat k)" for k
    unfolding number_text_def list.sel list.set(2) [of "CHR ''-''" "show_nat k"] insert_subset
    by (intro conjI list.distinct(2) sub subset_trans [OF d sub(2)])
  ultimately show ?thesis unfolding show_int_def by simp
qed

lemma char_of_digit: "a < 10 \<Longrightarrow> b < 10 \<Longrightarrow> (char_of (48 + a) :: char) = char_of (48 + b) \<longleftrightarrow> a = (b :: nat)"
proof -
  have "(of_char (char_of (48 + k) :: char) :: nat) = 48 + k" if "k < 10" for k :: nat using that by simp
  then show "a < 10 \<Longrightarrow> b < 10 \<Longrightarrow> ?thesis" by (metis add_left_cancel)
qed

lemma show_nat_inj: "show_nat m = show_nat n \<Longrightarrow> m = n"
proof (induction m arbitrary: n rule: show_nat.induct)
  case (1 m)
  have "m < 10 \<longleftrightarrow> n < 10"
    using "1.prems" show_nat_ne [of "m div 10"] show_nat_ne [of "n div 10"]
    by (subst (asm) (1 2) show_nat.simps) (auto split: if_splits simp: append_eq_Cons_conv Cons_eq_append_conv)
  show ?case
  proof (cases "m < 10")
    case True
    with \<open>m < 10 \<longleftrightarrow> n < 10\<close> "1.prems" show ?thesis by (simp add: show_nat.simps [of m] show_nat.simps [of n] char_of_digit)
  next
    case False
    with \<open>m < 10 \<longleftrightarrow> n < 10\<close> "1.prems" have "show_nat (m div 10) = show_nat (n div 10)" "m mod 10 = n mod 10"
      by (simp_all add: show_nat.simps [of m] show_nat.simps [of n] char_of_digit)
    with "1.IH" [OF False] show ?thesis by (metis div_mult_mod_eq)
  qed
qed

lemma show_int_inj: "show_int m = show_int n \<longleftrightarrow> m = n"
proof -
  have minus: "show_nat k \<noteq> CHR ''-'' # s" for k s
    using show_nat_digits [of "CHR ''-''" k] by auto
  show ?thesis
    using minus minus [symmetric] by (auto simp: show_int_def dest!: show_nat_inj split: if_splits)
qed

section \<open>Equal bytes mean equal events\<close>

lemma valid_opt_json: "(a \<or> json_valid v) \<Longrightarrow> x \<in> set (opt_json k a v) \<Longrightarrow> json_valid (snd x)"
  by (auto simp: opt_json_def split: if_splits)

lemma valid_parts: "json_valid (mfa_json m)" "json_valid (federation_json f)" "json_valid (signal_json r)"
  by (auto simp: mfa_json_def federation_json_def signal_json_def opt_json_def number_show_int)

lemma valid_payload:
  assumes "\<forall>x\<in>set details. json_valid (snd x)"
  shows "json_valid (JObject (payload_fields cp details))"
  using assms by (auto simp: payload_fields_def opt_json_def number_show_int valid_parts split: option.splits)

lemma get_opt_json [simp]:
  "gm_get (opt_json k a v @ l) k' = (if k' = k \<and> \<not> a then Some v else gm_get l k')"
  "gm_get (opt_json k a v) k' = (if k' = k \<and> \<not> a then Some v else None)"
  by (auto simp: opt_json_def gm_get_def)

lemma mfa_json_inj: "mfa_json m = mfa_json n \<longleftrightarrow> m = n"
proof
  assume "mfa_json m = mfa_json n"
  then have "gm_get (case mfa_json m of JObject l \<Rightarrow> l) k = gm_get (case mfa_json n of JObject l \<Rightarrow> l) k" for k by simp
  note eq = this [unfolded mfa_json_def json.case]
  show "m = n"
    using eq [of "''presented''"] eq [of "''verified''"] eq [of "''step_up_satisfied''"] eq [of "''aal_achieved''"]
    by (auto intro!: mfa_attestation.equality simp: inj_map_eq_map inj_def split: if_splits)
qed simp

lemma federation_json_inj: "federation_json f = federation_json g \<longleftrightarrow> f = g"
proof
  assume "federation_json f = federation_json g"
  then have "gm_get (case federation_json f of JObject l \<Rightarrow> l) k = gm_get (case federation_json g of JObject l \<Rightarrow> l) k" for k by simp
  note eq = this [unfolded federation_json_def json.case]
  show "f = g"
    using eq [of "''idp''"] eq [of "''level''"] eq [of "''trust_link''"]
    by (auto intro!: federation_link.equality split: if_splits)
qed simp

lemma signal_json_inj: "signal_json r = signal_json q \<longleftrightarrow> r = q"
proof
  assume "signal_json r = signal_json q"
  then have "gm_get (case signal_json r of JObject l \<Rightarrow> l) k = gm_get (case signal_json q of JObject l \<Rightarrow> l) k" for k by simp
  note eq = this [unfolded signal_json_def json.case]
  show "r = q"
    using eq [of "''signal''"] eq [of "''weight''"]
    by (auto intro!: risk_signal.equality simp: show_int_inj split: if_splits)
qed simp

text \<open>
  An event as a verifier gets it back: identifiers in lower case, details in normal form, and no risk record that
  says nothing.
\<close>

definition normal_details :: "(string, json) gomap \<Rightarrow> (string, json) gomap" where
  "normal_details m = sort_key fst (map (map_prod (\<lambda>k. k) json_norm) m)"

definition normal_event :: "signed_event \<Rightarrow> signed_event" where
  "normal_event e = event_of_payload (canonical_of e [] 0) (normal_details (se_Details e))"

definition event_valid :: "signed_event \<Rightarrow> bool" where
  "event_valid e \<longleftrightarrow> (\<forall>x\<in>set (se_Details e). json_valid (snd x)) \<and> gm_ok (se_Details e)"

lemma MarshalCanonical_print:
  "MarshalCanonical e issuer iat = json_print (JObject (payload_fields (canonical_of e issuer iat) (normal_details (se_Details e))))"
  unfolding MarshalCanonical_def
proof (rule encode_payload_print)
  have "sort_key fst (sort_key fst (se_Details e)) = sort_key fst (se_Details e)"
    by (rule sort_key_id_if_sorted) simp
  then show "sort_key fst (cp_Details (canonical_of e issuer iat)) = map (map_prod (\<lambda>k. k) json_print) (normal_details (se_Details e))"
    unfolding ext [of canonicalizeDecoded, OF canonical_print] canonical_of_def
    by (simp add: normal_details_def sort_key_map_prod prod.map_comp comp_def)
qed

lemma valid_normal_details: "event_valid e \<Longrightarrow> \<forall>x\<in>set (normal_details (se_Details e)). json_valid (snd x)"
  by (auto simp: event_valid_def normal_details_def json_valid_norm)

lemma payload_fields_inj:
  assumes "payload_fields cp d = payload_fields cp' d'"
  shows "cp_Issuer cp = cp_Issuer cp' \<and> cp_IssuedAt cp = cp_IssuedAt cp' \<and> d = d' \<and> event_of_payload cp d = event_of_payload cp' d'"
proof -
  have "gm_get (payload_fields cp d) k = gm_get (payload_fields cp' d') k" for k using assms by simp
  note eq = this [unfolded payload_fields_def]
  have "cp_Issuer cp = cp_Issuer cp'" using eq [of "''iss''"] by (simp split: if_splits)
  moreover have "cp_JTI cp = cp_JTI cp'" using eq [of "''jti''"] by (simp split: if_splits)
  moreover have "cp_EventType cp = cp_EventType cp'" using eq [of "''event_type''"] by (simp split: if_splits)
  moreover have "cp_TenantID cp = cp_TenantID cp'" using eq [of "''tenant_id''"] by (simp split: if_splits)
  moreover have "cp_ActorID cp = cp_ActorID cp'" using eq [of "''actor_id''"] by (simp split: if_splits)
  moreover have "cp_ActorKind cp = cp_ActorKind cp'" using eq [of "''actor_kind''"] by (simp split: if_splits)
  moreover have "cp_SubjectID cp = cp_SubjectID cp'" using eq [of "''subject_id''"] by (simp split: if_splits)
  moreover have "cp_SubjectKind cp = cp_SubjectKind cp'" using eq [of "''subject_kind''"] by (simp split: if_splits)
  moreover have "cp_Resource cp = cp_Resource cp'" using eq [of "''resource''"] by (simp split: if_splits)
  moreover have "cp_ResourceID cp = cp_ResourceID cp'" using eq [of "''resource_id''"] by (simp split: if_splits)
  moreover have "cp_Decision cp = cp_Decision cp'" using eq [of "''decision''"] by (simp split: if_splits)
  moreover have "cp_SourceIP cp = cp_SourceIP cp'" using eq [of "''source_ip''"] by (simp split: if_splits)
  moreover have "cp_IssuedAt cp = cp_IssuedAt cp'" using eq [of "''iat''"] by (simp add: show_int_inj split: if_splits)
  moreover have "cp_RiskScore cp = cp_RiskScore cp'" using eq [of "''risk_score''"] by (simp add: show_int_inj split: if_splits)
  moreover have "cp_MFA cp = cp_MFA cp'" using eq [of "''mfa''"] by (auto simp: mfa_json_inj split: if_splits)
  moreover have "cp_Federation cp = cp_Federation cp'"
    using eq [of "''federation''"] by (simp add: inj_map_eq_map inj_def federation_json_inj split: if_splits)
  moreover have "cp_RiskSignals cp = cp_RiskSignals cp'"
    using eq [of "''risk_signals''"] by (simp add: inj_map_eq_map inj_def signal_json_inj split: if_splits)
  moreover have "d = d'" using eq [of "''details''"] by (simp split: if_splits)
  ultimately show ?thesis by (simp add: event_of_payload_def)
qed

lemma event_of_canonical: "event_of_payload (canonical_of e issuer iat) d = event_of_payload (canonical_of e [] 0) d"
  by (simp add: event_of_payload_def canonical_of_def)

lemma canonical_of_fields [simp]:
  "cp_Issuer (canonical_of e issuer iat) = issuer" "cp_IssuedAt (canonical_of e issuer iat) = iat"
  "cp_EventID (canonical_of e issuer iat) = eventJTI e" "cp_JTI (canonical_of e issuer iat) = eventJTI e"
  by (simp_all add: canonical_of_def)

lemma gm_get_normal_details:
  assumes "gm_ok m"
  shows "gm_get (normal_details m) k = map_option json_norm (gm_get m k)"
proof -
  have "distinct (map fst (sort_key fst m))" "set (sort_key fst m) = set m"
    using assms by (simp_all add: gm_ok_def distinct_map)
  then have "map_of (sort_key fst m) = map_of m"
    using assms by (intro map_of_inject_set [THEN iffD2]) (auto simp: gm_ok_def)
  moreover have "map_of (map (map_prod (\<lambda>k. k) json_norm) l) k = map_option json_norm (map_of l k)" for l
    by (induction l) auto
  ultimately show ?thesis by (simp add: gm_get_def normal_details_def sort_key_map_prod)
qed

lemma eventJTI_normal:
  assumes "event_valid e" "event_valid e'" "normal_details (se_Details e) = normal_details (se_Details e')"
  shows "eventJTI e = eventJTI e'"
proof -
  have n: "json_norm v = JString s \<longleftrightarrow> v = JString s" for v s by (cases v) auto
  have "map_option json_norm (gm_get (se_Details e) ''jti'') = map_option json_norm (gm_get (se_Details e') ''jti'')"
    using assms by (simp add: event_valid_def flip: gm_get_normal_details)
  then show ?thesis
    unfolding eventJTI_def by (auto split: option.splits json.splits dest!: n [THEN iffD1] n [THEN iffD2]) 
qed

lemma payload_fields_cong:
  assumes "event_of_payload cp d = event_of_payload cp' d" "cp_EventID cp = cp_EventID cp'" "cp_Issuer cp = cp_Issuer cp'"
    "cp_IssuedAt cp = cp_IssuedAt cp'" "cp_JTI cp = cp_JTI cp'"
  shows "payload_fields cp d = payload_fields cp' d"
proof -
  have "cp_RiskScore cp = cp_RiskScore cp' \<and> cp_RiskSignals cp = cp_RiskSignals cp'"
    using assms(1) by (auto simp: event_of_payload_def split: if_splits)
  with assms show ?thesis by (simp add: event_of_payload_def payload_fields_def)
qed


definition demo_signed_event :: "string \<Rightarrow> (string, json) gomap \<Rightarrow> signed_event" where
  "demo_signed_event company details =
     \<lparr>se_CompanyID = company, se_ActorID = ''aa'', se_Action = ''auth.user.login'', se_Resource = ''user'', se_ResourceID = ''7'',
      se_Details = details, se_IPAddress = ''10.0.0.1'', se_Decision = ''allow'', se_ActorKind = ''human'', se_SubjectID = [],
      se_SubjectKind = [], se_MFA = None, se_Federation = [], se_Risk = None\<rparr>"


end
