(* ===== verification/Audit_Signature.thy ===== *)
theory Audit_Signature
  imports Audit_Canonical
begin

text \<open>
  The signature of an audit event: what the signing store produces, the verifier accepts, and what the verifier
  accepts was signed by the store.
\<close>

section \<open>Numbers as bytes\<close>

lemma ECDSAJWSFromDER_numbers:
  assumes "ECDSAJWSFromDER asn1 der curveBytes = Inr raw"
  shows "\<exists>r s. asn1 der = Inr (r, s, []) \<and> 0 \<le> r \<and> 0 \<le> s \<and> length raw = 2 * nat curveBytes
           \<and> big_SetBytes (take (nat curveBytes) raw) = nat r \<and> big_SetBytes (drop (nat curveBytes) raw) = nat s"
  using assms
  by (auto simp: ECDSAJWSFromDER_def Let_def big_SetBytes_zeros big_Bytes_inverse
           simp flip: append_assoc split: if_splits sum.splits)

section \<open>Compact form\<close>

lemma Split_append: "d \<notin> set a \<Longrightarrow> Split (a @ d # s) d = a # Split s d"
  by (induction a) (auto split: list.splits)

lemma b64_no_dot: "CHR ''.'' \<notin> set (b64_EncodeToString s)"
  using b64_alphabet [of s] b64url_facts by auto

lemma Split_jws:
  "Split (signing_input h p @ ''.'' @ b64_EncodeToString sig) CHR ''.''
   = [b64_EncodeToString h, b64_EncodeToString p, b64_EncodeToString sig]"
  using b64_no_dot by (simp add: signing_input_def Split_append Split_no_sep)

lemma Split_three: "Split s d = [a, b, c] \<Longrightarrow> d \<notin> set a \<and> d \<notin> set b"
proof -
  have no: "d \<notin> set x" if "x \<in> set (Split s d)" for x s
    using that by (induction s arbitrary: x) (auto split: list.splits if_splits)
  then show "Split s d = [a, b, c] \<Longrightarrow> d \<notin> set a \<and> d \<notin> set b" by (metis list.set_intros)
qed

lemma dot_split_eq: "CHR ''.'' \<notin> set a \<Longrightarrow> CHR ''.'' \<notin> set a' \<Longrightarrow> a @ ''.'' @ b = a' @ ''.'' @ b' \<Longrightarrow> a = a' \<and> b = b'"
  by (induction a arbitrary: a') (auto simp: Cons_eq_append_conv)

section \<open>Decoding what was encoded\<close>

text \<open>
  What is used of \<^verbatim>\<open>encoding/json\<close>, for the header of a signer and a set of events with their issuers and
  times: decoding inverts the encoding of the header, of the payloads and of the values of the details.
\<close>

definition decoders_ok ::
  "kms_signer \<Rightarrow> (signed_event \<times> string \<times> int) set \<Rightarrow> (string \<Rightarrow> (string, string) gomap result) \<Rightarrow> (string \<Rightarrow> canonical_payload result) \<Rightarrow> (string \<Rightarrow> json result) \<Rightarrow> bool" where
  "decoders_ok k issued decode_header decode_payload decode \<longleftrightarrow>
     decode_header (jws_header (ks_SigningAlgorithm k) (ks_KeyID k))
       = Inr [(''alg'', ks_SigningAlgorithm k), (''kid'', ks_KeyID k), (''typ'', ''JWT'')]
     \<and> (\<forall>(e, issuer, iat)\<in>issued. event_valid e
          \<and> decode_payload (MarshalCanonical e issuer iat) = Inr (canonical_of e issuer iat)
          \<and> (\<forall>(key, v)\<in>set (se_Details e). decode (canonicalizeDecoded v) = Inr (json_norm v)))"

lemma decode_details_canonical:
  "\<forall>(key, v)\<in>set m. decode (canonicalizeDecoded v) = Inr (json_norm v) \<Longrightarrow>
   decode_details decode (map (map_prod (\<lambda>k. k) canonicalizeDecoded) m) = Inr (map (map_prod (\<lambda>k. k) json_norm) m)"
  by (induction m) auto

lemma UnmarshalCanonical_Marshal:
  assumes "decoders_ok k issued decode_header decode_payload decode" "(e, issuer, iat) \<in> issued"
  shows "UnmarshalCanonical decode_payload decode (MarshalCanonical e issuer iat) = Inr (normal_event e, issuer, iat)"
proof -
  have payload: "decode_payload (MarshalCanonical e issuer iat) = Inr (canonical_of e issuer iat)" "event_valid e"
    and details: "\<forall>(key, v)\<in>set (sort_key fst (se_Details e)). decode (canonicalizeDecoded v) = Inr (json_norm v)"
    using assms by (auto simp: decoders_ok_def)
  from decode_details_canonical [OF details]
  have "decode_details decode (cp_Details (canonical_of e issuer iat)) = Inr (normal_details (se_Details e))"
    by (simp add: canonical_of_def normal_details_def sort_key_map_prod)
  then show ?thesis
    using payload event_of_canonical [of e issuer iat] by (simp add: UnmarshalCanonical_def normal_event_def)
qed

section \<open>Signing and verifying\<close>

text \<open>The public key belongs to the signer: it accepts the signatures the signer makes.\<close>

definition key_pair :: "(string \<Rightarrow> (int \<times> int \<times> string) result) \<Rightarrow> kms_signer \<Rightarrow> public_key \<Rightarrow> bool" where
  "key_pair asn1 k pub \<longleftrightarrow>
     (case pub of
        EcdsaPub verify \<Rightarrow> ks_SigningAlgorithm k = ''ES256''
          \<and> (\<forall>d sig r s. ks_Sign k d = Inr sig \<longrightarrow> asn1 sig = Inr (r, s, []) \<longrightarrow> verify d (nat r) (nat s))
      | RsaPub verify \<Rightarrow> ks_SigningAlgorithm k = ''RS256'' \<and> (\<forall>d sig. ks_Sign k d = Inr sig \<longrightarrow> verify d sig = None)
      | OtherPub _ \<Rightarrow> False)"

lemma signed_checks:
  assumes "key_pair asn1 k pub" "ks_Sign k d = Inr sig"
    and "(if ks_SigningAlgorithm k = ''ES256'' then ECDSAJWSFromDER asn1 sig 32 else Inr sig) = Inr raw"
  shows "check_signature (ks_SigningAlgorithm k) pub d raw = None"
proof (cases pub)
  case (EcdsaPub verify)
  with assms have alg: "ks_SigningAlgorithm k = ''ES256''" and raw: "ECDSAJWSFromDER asn1 sig 32 = Inr raw" by (auto simp: key_pair_def)
  with ECDSAJWSFromDER_numbers [OF raw] assms EcdsaPub show ?thesis by (auto simp: check_signature_def key_pair_def)
next
  case (RsaPub verify)
  with assms show ?thesis by (auto simp: check_signature_def key_pair_def)
qed (use assms in \<open>simp add: key_pair_def\<close>)

lemma sign_verify:
  assumes "decoders_ok k issued decode_header decode_payload decode" "(e, issuerID, iat) \<in> issued" "key_pair asn1 k pub"
    and signed: "SignedStore_sign sha256 asn1 k issuerID iat e = Inr jws"
  shows "VerifySignedEvent sha256 bad64 decode_header decode_payload decode jws pub
       = Inr \<lparr>ve_Event = normal_event e, ve_Issuer = issuerID, ve_IssuedAt = iat, ve_KID = ks_KeyID k, ve_Alg = ks_SigningAlgorithm k\<rparr>"
proof -
  let ?alg = "ks_SigningAlgorithm k" and ?h = "jws_header (ks_SigningAlgorithm k) (ks_KeyID k)" and ?p = "MarshalCanonical e issuerID iat"
  obtain sig raw where sig: "ks_Sign k (sha256 (signing_input ?h ?p)) = Inr sig"
    "(if ?alg = ''ES256'' then ECDSAJWSFromDER asn1 sig 32 else Inr sig) = Inr raw"
    and jws: "jws = signing_input ?h ?p @ ''.'' @ b64_EncodeToString raw"
    using signed by (auto simp: SignedStore_sign_def Let_def split: sum.splits)
  have alg: "?alg = ''ES256'' \<or> ?alg = ''RS256''" using assms(3) by (cases pub) (auto simp: key_pair_def)
  have "decode_header ?h = Inr [(''alg'', ?alg), (''kid'', ks_KeyID k), (''typ'', ''JWT'')]" using assms(1) by (simp add: decoders_ok_def)
  moreover have "check_signature ?alg pub (sha256 (b64_EncodeToString ?h @ ''.'' @ b64_EncodeToString ?p)) raw = None"
    using signed_checks [OF assms(3) sig] by (simp add: signing_input_def)
  ultimately show ?thesis
    using alg UnmarshalCanonical_Marshal [OF assms(1,2)]
    unfolding jws VerifySignedEvent_def Split_jws
    by (simp add: b64_roundtrip gm_get_or_def gm_get_def Let_def)
qed

text \<open>
  The inputs of the signatures a store has made for a set of events, and what the scheme promises: no signature
  passes the check but for the digest of such an input.
\<close>

definition signed_inputs :: "kms_signer \<Rightarrow> (signed_event \<times> string \<times> int) set \<Rightarrow> string set" where
  "signed_inputs k issued =
     (\<lambda>(e, issuer, iat). signing_input (jws_header (ks_SigningAlgorithm k) (ks_KeyID k)) (MarshalCanonical e issuer iat)) ` issued"

definition unforgeable :: "(string \<Rightarrow> string) \<Rightarrow> public_key \<Rightarrow> string set \<Rightarrow> bool" where
  "unforgeable sha256 pub inputs \<longleftrightarrow> (\<forall>alg d sig. check_signature alg pub d sig = None \<longrightarrow> d \<in> sha256 ` inputs)"

definition token_input :: "string \<Rightarrow> string" where
  "token_input token = (case Split token CHR ''.'' of [h, p, s] \<Rightarrow> h @ ''.'' @ p | _ \<Rightarrow> [])"

lemma verified_parts:
  assumes "VerifySignedEvent sha256 bad64 decode_header decode_payload decode token pub = Inr v"
  obtains h p s hb header pb sig event iss iat where
    "Split token CHR ''.'' = [h, p, s]" "b64_DecodeString h = Some hb" "decode_header hb = Inr header"
    "b64_DecodeString p = Some pb" "check_signature (gm_get_or [] header ''alg'') pub (sha256 (h @ ''.'' @ p)) sig = None"
    "UnmarshalCanonical decode_payload decode pb = Inr (event, iss, iat)"
    "v = \<lparr>ve_Event = event, ve_Issuer = iss, ve_IssuedAt = iat, ve_KID = gm_get_or [] header ''kid'', ve_Alg = gm_get_or [] header ''alg''\<rparr>"
proof -
  obtain h p s where split: "Split token CHR ''.'' = [h, p, s]"
    using assms unfolding VerifySignedEvent_def by (auto split: list.splits)
  with assms that show ?thesis
    unfolding VerifySignedEvent_def by (auto simp: Let_def split: option.splits sum.splits if_splits prod.splits)
qed

lemma verified_was_signed:
  assumes dec: "decoders_ok k issued decode_header decode_payload decode"
    and unf: "unforgeable sha256 pub (signed_inputs k issued)"
    and coll: "\<forall>x\<in>signed_inputs k issued. sha256 x = sha256 (token_input token) \<longrightarrow> x = token_input token"
    and ver: "VerifySignedEvent sha256 bad64 decode_header decode_payload decode token pub = Inr v"
  shows "\<exists>(e, issuer, iat)\<in>issued. v = \<lparr>ve_Event = normal_event e, ve_Issuer = issuer, ve_IssuedAt = iat, ve_KID = ks_KeyID k,
           ve_Alg = ks_SigningAlgorithm k\<rparr>"
proof -
  obtain h p s hb header pb sig event iss iat where parts: "Split token CHR ''.'' = [h, p, s]" "b64_DecodeString h = Some hb"
    "decode_header hb = Inr header" "b64_DecodeString p = Some pb"
    "check_signature (gm_get_or [] header ''alg'') pub (sha256 (h @ ''.'' @ p)) sig = None"
    "UnmarshalCanonical decode_payload decode pb = Inr (event, iss, iat)"
    "v = \<lparr>ve_Event = event, ve_Issuer = iss, ve_IssuedAt = iat, ve_KID = gm_get_or [] header ''kid'', ve_Alg = gm_get_or [] header ''alg''\<rparr>"
    using verified_parts [OF ver] by metis
  have input: "token_input token = h @ ''.'' @ p" using parts(1) by (simp add: token_input_def)
  have "sha256 (h @ ''.'' @ p) \<in> sha256 ` signed_inputs k issued"
    using parts(5) unf unfolding unforgeable_def by blast
  then obtain x where "x \<in> signed_inputs k issued" "sha256 x = sha256 (h @ ''.'' @ p)" by (metis imageE)
  with coll input obtain e issuer iat0 where e: "(e, issuer, iat0) \<in> issued"
    and eq: "signing_input (jws_header (ks_SigningAlgorithm k) (ks_KeyID k)) (MarshalCanonical e issuer iat0) = h @ ''.'' @ p"
    by (auto simp: signed_inputs_def)
  have "h = b64_EncodeToString (jws_header (ks_SigningAlgorithm k) (ks_KeyID k)) \<and> p = b64_EncodeToString (MarshalCanonical e issuer iat0)"
    using dot_split_eq [OF b64_no_dot _ eq [unfolded signing_input_def]] Split_three [OF parts(1)] by metis
  with parts(2,4) have "hb = jws_header (ks_SigningAlgorithm k) (ks_KeyID k)" "pb = MarshalCanonical e issuer iat0"
    by (simp_all add: b64_roundtrip)
  moreover from this parts(3) dec have "header = [(''alg'', ks_SigningAlgorithm k), (''kid'', ks_KeyID k), (''typ'', ''JWT'')]"
    by (simp add: decoders_ok_def)
  ultimately show ?thesis
    using parts(6,7) UnmarshalCanonical_Marshal [OF dec e] by (auto simp: gm_get_or_def gm_get_def intro!: bexI [OF _ e])
qed

text \<open>
  C33: Signed audit events. What the signing store signs, the verifier accepts, and it gives back the event with
  issuer, time, key and algorithm. Conversely, when no signature passes the check but those made for events the
  store signed, and none of their inputs collides with the token at hand under SHA-256, every token the verifier
  accepts carries one of these events, unchanged.
\<close>

theorem audit_signature_exact:
  assumes "decoders_ok k issued decode_header decode_payload decode" and "key_pair asn1 k pub"
  shows "(\<forall>(e, issuer, iat)\<in>issued. \<forall>jws. SignedStore_sign sha256 asn1 k issuer iat e = Inr jws \<longrightarrow>
            VerifySignedEvent sha256 bad64 decode_header decode_payload decode jws pub
            = Inr \<lparr>ve_Event = normal_event e, ve_Issuer = issuer, ve_IssuedAt = iat, ve_KID = ks_KeyID k, ve_Alg = ks_SigningAlgorithm k\<rparr>)
    \<and> (unforgeable sha256 pub (signed_inputs k issued) \<longrightarrow>
         (\<forall>x\<in>signed_inputs k issued. sha256 x = sha256 (token_input token) \<longrightarrow> x = token_input token) \<longrightarrow>
         VerifySignedEvent sha256 bad64 decode_header decode_payload decode token pub = Inr v \<longrightarrow>
         (\<exists>(e, issuer, iat)\<in>issued. v = \<lparr>ve_Event = normal_event e, ve_Issuer = issuer, ve_IssuedAt = iat, ve_KID = ks_KeyID k,
             ve_Alg = ks_SigningAlgorithm k\<rparr>))"
  using sign_verify [OF assms(1) _ assms(2)] verified_was_signed [OF assms(1)] by blast

section \<open>An example\<close>

definition demo_audited :: signed_event where
  "demo_audited = demo_signed_event ''AB'' [(''jti'', JString ''1'')]"

definition demo_input :: string where
  "demo_input = signing_input (jws_header ''RS256'' ''k1'') (MarshalCanonical demo_audited ''aoid'' 5)"

text \<open>The signer has been asked for one signature only, and its key accepts that one.\<close>

definition demo_signer :: kms_signer where
  "demo_signer = \<lparr>ks_SigningAlgorithm = ''RS256'', ks_KeyID = ''k1'',
                  ks_Sign = (\<lambda>d. if d = demo_input then Inr d else Inl (ErrMsg ''refused''))\<rparr>"

definition demo_public :: public_key where
  "demo_public = RsaPub (\<lambda>d sig. if d = sig \<and> d = demo_input then None else Some ''verification error'')"

definition demo_decode_header :: "string \<Rightarrow> (string, string) gomap result" where
  "demo_decode_header b = (if b = jws_header ''RS256'' ''k1'' then Inr [(''alg'', ''RS256''), (''kid'', ''k1''), (''typ'', ''JWT'')]
                           else Inl (ErrMsg ''header''))"

definition demo_decode_payload :: "string \<Rightarrow> canonical_payload result" where
  "demo_decode_payload b = (if b = MarshalCanonical demo_audited ''aoid'' 5 then Inr (canonical_of demo_audited ''aoid'' 5)
                            else Inl (ErrMsg ''payload''))"

definition demo_decode_value :: "string \<Rightarrow> json result" where
  "demo_decode_value b = (if b = jsonMarshalNoHTML ''1'' then Inr (JString ''1'') else Inl (ErrMsg ''value''))"

definition demo_issued :: "(signed_event \<times> string \<times> int) set" where
  "demo_issued = {(demo_audited, ''aoid'', 5)}"

abbreviation demo_verify :: "string \<Rightarrow> verified_event result" where
  "demo_verify jws \<equiv> VerifySignedEvent (\<lambda>x. x) (\<lambda>x. x) demo_decode_header demo_decode_payload demo_decode_value jws demo_public"

definition demo_verified :: verified_event where
  "demo_verified = \<lparr>ve_Event = normal_event demo_audited, ve_Issuer = ''aoid'', ve_IssuedAt = 5, ve_KID = ''k1'', ve_Alg = ''RS256''\<rparr>"

definition demo_jws :: string where
  "demo_jws = demo_input @ ''.'' @ b64_EncodeToString demo_input"

lemma demo_decoders_ok: "decoders_ok demo_signer demo_issued demo_decode_header demo_decode_payload demo_decode_value"
proof -
  have "event_valid demo_audited" by code_simp
  then show ?thesis
    by (simp add: decoders_ok_def demo_signer_def demo_issued_def demo_decode_header_def demo_decode_payload_def
        demo_decode_value_def demo_audited_def demo_signed_event_def)
qed

lemma demo_key_pair: "key_pair asn1 demo_signer demo_public"
  by (simp add: key_pair_def demo_signer_def demo_public_def)

lemma demo_inputs: "signed_inputs demo_signer demo_issued = {demo_input}"
  by (simp add: signed_inputs_def demo_signer_def demo_issued_def demo_input_def)

lemma demo_unforgeable: "unforgeable (\<lambda>x. x) demo_public (signed_inputs demo_signer demo_issued)"
  by (auto simp: unforgeable_def check_signature_def demo_public_def demo_inputs split: if_splits)

lemma demo_sign: "SignedStore_sign (\<lambda>x. x) asn1 demo_signer ''aoid'' 5 demo_audited = Inr demo_jws"
  by (simp add: SignedStore_sign_def Let_def demo_signer_def demo_jws_def demo_input_def)

lemma demo_token_input: "token_input demo_jws = demo_input"
  unfolding token_input_def demo_jws_def demo_input_def Split_jws by (simp add: signing_input_def)

theorem audit_signature_exact_witness:
  "demo_verify demo_jws = Inr demo_verified \<and> demo_verified \<in>
     (\<lambda>(e, issuer, iat). \<lparr>ve_Event = normal_event e, ve_Issuer = issuer, ve_IssuedAt = iat, ve_KID = ''k1'', ve_Alg = ''RS256''\<rparr>) ` demo_issued"
proof -
  note exact = audit_signature_exact [OF demo_decoders_ok demo_key_pair, where ?sha256.0 = "\<lambda>x. x" and ?bad64.0 = "\<lambda>x. x"
      and ?asn1.0 = "\<lambda>_. Inl (ErrMsg ''asn1'')"]
  have k: "ks_KeyID demo_signer = ''k1''" "ks_SigningAlgorithm demo_signer = ''RS256''" by (simp_all add: demo_signer_def)
  have "(demo_audited, ''aoid'', 5) \<in> demo_issued" by (simp add: demo_issued_def)
  with exact demo_sign have v: "demo_verify demo_jws = Inr demo_verified" by (fastforce simp: demo_verified_def k)
  moreover have "\<forall>x\<in>signed_inputs demo_signer demo_issued. x = token_input demo_jws \<longrightarrow> x = token_input demo_jws" by simp
  ultimately have "\<exists>(e, issuer, iat)\<in>demo_issued. demo_verified
      = \<lparr>ve_Event = normal_event e, ve_Issuer = issuer, ve_IssuedAt = iat, ve_KID = ''k1'', ve_Alg = ''RS256''\<rparr>"
    using conjunct2 [OF exact, of demo_jws demo_verified] demo_unforgeable unfolding k by blast
  then obtain e issuer iat where e: "(e, issuer, iat) \<in> demo_issued" "demo_verified
      = \<lparr>ve_Event = normal_event e, ve_Issuer = issuer, ve_IssuedAt = iat, ve_KID = ''k1'', ve_Alg = ''RS256''\<rparr>" by blast
  show ?thesis using v e(2) by (intro conjI image_eqI [OF _ e(1)]) simp_all
qed

end
