(* ===== verification/Audit_Pipeline.thy ===== *)
theory Audit_Pipeline
  imports Audit_Signing
begin

text \<open>
  The way of a signed audit event: \<^verbatim>\<open>SignedStore.CreateAuditLog\<close>, the buffer table of
  \<^verbatim>\<open>src/platform/audit/postgres_buffer.go\<close> and the forwarder with its pump for unsigned rows,
  \<^verbatim>\<open>src/platform/audit/forwarder.go\<close>.

  The table is a list of rows in the order of insertion; the statements are the ones in the source. A batch is
  selected under \<^verbatim>\<open>FOR UPDATE SKIP LOCKED\<close>: its rows stay locked until the transaction ends, so the two halves of a
  round are separate and other rounds may run in between. \<open>uuid.Parse\<close>, the clock and whether a statement or a commit
  succeeds are arguments.
\<close>

section \<open>The buffer\<close>

record buffer_row =
  bf_id :: int
  bf_jti :: string
  bf_tenantID :: uuid
  bf_emittedAt :: go_time
  bf_jws :: "string option"
  bf_payload :: string
  bf_attempts :: int
  bf_lastAttemptAt :: "go_time option"
  bf_lastError :: "string option"
  bf_sentAt :: "go_time option"
  bf_signingError :: "string option"

record buffer_table =
  bt_rows :: "buffer_row list"
  bt_nextID :: int

definition ErrBufferFull :: go_error where "ErrBufferFull = ErrVar ''audit: buffer at hard cap''"

definition BufferDepth :: "buffer_table \<Rightarrow> int" where
  "BufferDepth t = int (length (filter (\<lambda>r. bf_sentAt r = None) (bt_rows t)))"

definition nullif :: "string \<Rightarrow> string option" where
  "nullif s = (if s = [] then None else Some s)"

text \<open>The insertion, which only uses up a number of the sequence when the jti is taken.\<close>

definition insert_row :: "go_time \<Rightarrow> string \<Rightarrow> uuid \<Rightarrow> string \<Rightarrow> string \<Rightarrow> string \<Rightarrow> buffer_table \<Rightarrow> buffer_table" where
  "insert_row now jti tenantID jwsCompact payload signingError t =
     (if \<exists>r\<in>set (bt_rows t). bf_jti r = jti then t\<lparr>bt_nextID := bt_nextID t + 1\<rparr>
      else t\<lparr>bt_rows := bt_rows t @ [\<lparr>bf_id = bt_nextID t, bf_jti = jti, bf_tenantID = tenantID, bf_emittedAt = now,
                 bf_jws = nullif jwsCompact, bf_payload = payload, bf_attempts = 0, bf_lastAttemptAt = None, bf_lastError = None,
                 bf_sentAt = None, bf_signingError = nullif signingError\<rparr>], bt_nextID := bt_nextID t + 1\<rparr>)"

text \<open>\<open>depth_ok\<close> says whether the count could be read, \<open>exec_err\<close> what the insertion returned.\<close>

definition CreateSignedAuditLog ::
  "(string \<Rightarrow> uuid result) \<Rightarrow> int \<Rightarrow> bool \<Rightarrow> go_time \<Rightarrow> int \<Rightarrow> go_error option \<Rightarrow> signed_event \<Rightarrow> string \<Rightarrow> string \<Rightarrow> buffer_table \<Rightarrow>
   go_error option \<times> buffer_table" where
  "CreateSignedAuditLog parse hardCap depth_ok now unixNow exec_err e jwsCompact signingError t =
     (if hardCap > 0 \<and> depth_ok \<and> BufferDepth t \<ge> hardCap then (Some ErrBufferFull, t)
      else (case parse (se_CompanyID e) of
              Inl err \<Rightarrow> (Some (ErrWrap (''audit: parse tenant_id '' @ quoted (se_CompanyID e) @ '': '') err []), t)
            | Inr tenantID \<Rightarrow>
                if eventJTI e = []
                then (Some (ErrMsg (''audit: event missing jti '' @ [CHR 0xE2, CHR 0x80, CHR 0x94]
                        @ '' SignedStore must populate Details['' @ quoted ''jti'' @ ''] before delegating'')), t)
                else (case exec_err of
                        Some err \<Rightarrow> (Some (ErrWrap ''audit: insert buffered event: '' err []), t)
                      | None \<Rightarrow>
                          (None, insert_row now (eventJTI e) tenantID jwsCompact (MarshalCanonical e ''aoid'' unixNow) signingError t))))"

text \<open>
  The event \<^verbatim>\<open>CreateAuditLog\<close> builds from its arguments. \<open>details\<close> are the decoded details, empty when they are missing
  or no JSON object; \<open>newjti\<close> is the identifier generated when they carry none.
\<close>

definition event_from_args ::
  "uuid \<Rightarrow> uuid \<Rightarrow> string \<Rightarrow> string \<Rightarrow> string \<Rightarrow> string \<Rightarrow> (string, json) gomap \<Rightarrow> string \<Rightarrow> signed_event" where
  "event_from_args companyID actorID action resource resourceID ipAddress details newjti =
     (let jti = (case gm_get details ''jti'' of Some (JString s) \<Rightarrow> s | _ \<Rightarrow> []);
          details = (if jti = [] then gm_put ''jti'' (JString newjti) details else details)
      in \<lparr>se_CompanyID = companyID, se_ActorID = actorID, se_Action = action, se_Resource = resource, se_ResourceID = resourceID,
          se_Details = details, se_IPAddress = ipAddress, se_Decision = [], se_ActorKind = [], se_SubjectID = [], se_SubjectKind = [],
          se_MFA = None, se_Federation = [], se_Risk = None\<rparr>)"

definition Buffer_CreateAuditLog ::
  "(string \<Rightarrow> uuid result) \<Rightarrow> int \<Rightarrow> bool \<Rightarrow> go_time \<Rightarrow> int \<Rightarrow> go_error option \<Rightarrow> signed_event \<Rightarrow> buffer_table \<Rightarrow>
   go_error option \<times> buffer_table" where
  "Buffer_CreateAuditLog parse hardCap depth_ok now unixNow exec_err e t =
     CreateSignedAuditLog parse hardCap depth_ok now unixNow exec_err e [] [] t"

text \<open>
  \<^verbatim>\<open>SignedStore.CreateAuditLog\<close> on a store that keeps signatures: an event that cannot be signed is stored with the
  text of the error.
\<close>

definition SignedStore_CreateAuditLog ::
  "(signed_event \<Rightarrow> string result) \<Rightarrow> (signed_event \<Rightarrow> string \<Rightarrow> string \<Rightarrow> 's \<Rightarrow> go_error option \<times> 's) \<Rightarrow> signed_event \<Rightarrow> 's \<Rightarrow>
   go_error option \<times> 's" where
  "SignedStore_CreateAuditLog sign create e s =
     (case sign e of
        Inl err \<Rightarrow> create e [] (error_text err) s
      | Inr jws \<Rightarrow> create e jws [] s)"

text \<open>The same on a plain store: the signature goes into the details. \<open>marshal\<close> is \<^verbatim>\<open>json.Marshal\<close> of a map.\<close>

definition SignedStore_CreateAuditLog_plain ::
  "(signed_event \<Rightarrow> string result) \<Rightarrow> ((string, json) gomap \<Rightarrow> string result) \<Rightarrow> 's create_audit_log \<Rightarrow> signed_event \<Rightarrow> 's \<Rightarrow>
   go_error option \<times> 's" where
  "SignedStore_CreateAuditLog_plain sign marshal create e s =
     (let (jws, signErr) = (case sign e of Inl err \<Rightarrow> ([], error_text err) | Inr j \<Rightarrow> (j, []));
          wrapped = [(''jws'', JString jws), (''payload'', JObject (se_Details e))]
                    @ (if signErr \<noteq> [] then [(''signing_error'', JString signErr)] else [])
      in case marshal wrapped of
           Inl err \<Rightarrow> (Some (ErrWrap ''audit: marshal wrapped details: '' err []), s)
         | Inr json \<Rightarrow>
             create (se_CompanyID e) (se_ActorID e) (se_Action e) (se_Resource e) (se_ResourceID e) (se_IPAddress e) json s)"

section \<open>Batches\<close>

definition is_pending :: "buffer_row \<Rightarrow> bool" where
  "is_pending r \<longleftrightarrow> bf_sentAt r = None \<and> bf_jws r \<noteq> None \<and> bf_jws r \<noteq> Some []"

definition needs_resigning :: "buffer_row \<Rightarrow> bool" where
  "needs_resigning r \<longleftrightarrow> bf_sentAt r = None \<and> (bf_jws r = None \<or> bf_jws r = Some []) \<and> bf_signingError r \<noteq> None"

definition dequeue :: "(buffer_row \<Rightarrow> bool) \<Rightarrow> int set \<Rightarrow> nat \<Rightarrow> buffer_table \<Rightarrow> buffer_row list" where
  "dequeue wanted locked batchSize t =
     take batchSize (sort_key bf_emittedAt (filter (\<lambda>r. wanted r \<and> bf_id r \<notin> locked) (bt_rows t)))"

definition DequeuePending :: "int set \<Rightarrow> nat \<Rightarrow> buffer_table \<Rightarrow> buffer_row list" where
  "DequeuePending locked batchSize t = dequeue is_pending locked batchSize t"

definition DequeueUnsignedForResigning :: "int set \<Rightarrow> nat \<Rightarrow> buffer_table \<Rightarrow> buffer_row list" where
  "DequeueUnsignedForResigning locked batchSize t = dequeue needs_resigning locked batchSize t"

definition update_rows :: "int set \<Rightarrow> (buffer_row \<Rightarrow> buffer_row) \<Rightarrow> buffer_table \<Rightarrow> buffer_table" where
  "update_rows ids f t = t\<lparr>bt_rows := map (\<lambda>r. if bf_id r \<in> ids then f r else r) (bt_rows t)\<rparr>"

definition batch_ids :: "buffer_row list \<Rightarrow> int set" where
  "batch_ids batch = bf_id ` set batch"

text \<open>The release of a batch that failed, shared by both kinds of batches.\<close>

definition mark_attempt :: "go_time \<Rightarrow> string \<Rightarrow> buffer_row \<Rightarrow> buffer_row" where
  "mark_attempt now err r = r\<lparr>bf_attempts := bf_attempts r + 1, bf_lastAttemptAt := Some now, bf_lastError := Some err\<rparr>"

text \<open>\<open>committed\<close>: the update and the commit went through; otherwise the transaction is rolled back.\<close>

definition releaseSent :: "buffer_row list \<Rightarrow> bool \<Rightarrow> string \<Rightarrow> go_time \<Rightarrow> bool \<Rightarrow> buffer_table \<Rightarrow> buffer_table" where
  "releaseSent batch success errStr now committed t =
     (if batch = [] \<or> \<not> committed then t
      else if success then update_rows (batch_ids batch) (\<lambda>r. r\<lparr>bf_sentAt := Some now\<rparr>) t
      else update_rows (batch_ids batch) (mark_attempt now errStr) t)"

definition SetJWSInTx :: "int \<Rightarrow> string \<Rightarrow> buffer_table \<Rightarrow> buffer_table" where
  "SetJWSInTx rowid jws t = update_rows {rowid} (\<lambda>r. r\<lparr>bf_jws := Some jws\<rparr>) t"

definition SetJWS :: "int \<Rightarrow> string \<Rightarrow> buffer_table \<Rightarrow> buffer_table" where
  "SetJWS rowid jws t = update_rows {rowid} (\<lambda>r. r\<lparr>bf_jws := Some jws, bf_signingError := None\<rparr>) t"

definition releaseResign :: "buffer_row list \<Rightarrow> bool \<Rightarrow> string \<Rightarrow> go_time \<Rightarrow> buffer_table \<Rightarrow> buffer_table" where
  "releaseResign batch success errStr now t =
     (if batch = [] then t
      else if success then update_rows (batch_ids batch) (\<lambda>r. r\<lparr>bf_signingError := None\<rparr>) t
      else update_rows (batch_ids batch) (mark_attempt now errStr) t)"

definition Vacuum :: "int \<Rightarrow> go_time \<Rightarrow> buffer_table \<Rightarrow> buffer_table result" where
  "Vacuum retentionDays now t =
     (if retentionDays \<le> 0 then Inl (ErrMsg ''audit: retentionDays must be > 0'')
      else Inr (t\<lparr>bt_rows := filter (\<lambda>r. \<not> (case bf_sentAt r of None \<Rightarrow> False | Some s \<Rightarrow> s < now - retentionDays * 86400 * second)) (bt_rows t)\<rparr>))"

section \<open>The forwarder\<close>

definition DefaultBackoff :: "int \<Rightarrow> duration" where
  "DefaultBackoff n =
     (if n \<le> 0 then 0 else if n = 1 then second else if n = 2 then 5 * second else if n = 3 then 30 * second
      else if n = 4 then 5 * minute else if n = 5 then 30 * minute else 60 * minute)"

text \<open>
  The second half of \<^verbatim>\<open>drainOnce\<close>, with the batch it dequeued and the outcome of \<^verbatim>\<open>Send\<close>: the table, the count of
  consecutive failures, and how long the loop sleeps.
\<close>

definition drain_end ::
  "buffer_row list \<Rightarrow> string option \<Rightarrow> go_time \<Rightarrow> bool \<Rightarrow> int \<Rightarrow> buffer_table \<Rightarrow> (int \<times> duration) \<times> buffer_table" where
  "drain_end batch sendErr now committed failures t =
     (if batch = [] then ((0, 0), releaseSent batch True [] now committed t)
      else (case sendErr of
              Some err \<Rightarrow> ((failures + 1, DefaultBackoff (failures + 1)), releaseSent batch False err now committed t)
            | None \<Rightarrow> ((0, 0), releaseSent batch True [] now committed t)))"

text \<open>
  The loop over the rows of a batch in \<^verbatim>\<open>resignOnce\<close>. A row whose payload cannot be decoded or signed is skipped. A
  failing statement aborts the transaction, so the release is rolled back (\<open>None\<close>).
\<close>

fun resign_rows ::
  "(string \<Rightarrow> signed_event result) \<Rightarrow> (signed_event \<Rightarrow> string result) \<Rightarrow> (int \<Rightarrow> bool) \<Rightarrow> buffer_row list \<Rightarrow> buffer_table \<Rightarrow>
   buffer_table option" where
  "resign_rows unmarshal sign set_ok [] t = Some t"
| "resign_rows unmarshal sign set_ok (be # bes) t =
     (case unmarshal (bf_payload be) of
        Inl _ \<Rightarrow> resign_rows unmarshal sign set_ok bes t
      | Inr e \<Rightarrow>
          (case sign e of
             Inl _ \<Rightarrow> resign_rows unmarshal sign set_ok bes t
           | Inr jws \<Rightarrow> if set_ok (bf_id be) then resign_rows unmarshal sign set_ok bes (SetJWSInTx (bf_id be) jws t) else None))"

definition resign_end ::
  "(string \<Rightarrow> signed_event result) \<Rightarrow> (signed_event \<Rightarrow> string result) \<Rightarrow> (int \<Rightarrow> bool) \<Rightarrow> buffer_row list \<Rightarrow> bool \<Rightarrow> buffer_table \<Rightarrow>
   buffer_table" where
  "resign_end unmarshal sign set_ok batch committed t =
     (case resign_rows unmarshal sign set_ok batch t of
        None \<Rightarrow> t
      | Some t' \<Rightarrow> if committed then releaseResign batch True [] 0 t' else t)"

end
