(* ===== verification/Audit_Pipeline_Properties.thy ===== *)
theory Audit_Pipeline_Properties
  imports Audit_Pipeline
begin

text \<open>
  No audit event is lost on its way, with one exception that the code makes: the release of a re-signing round
  clears the error mark of the whole batch, also of the rows that could not be signed, and no later round picks
  those up.
\<close>

section \<open>Runs\<close>

text \<open>
  The table, the open batches of both kinds, and what has happened: the accepted identifiers, what the sink took,
  and the identifiers stored without a signature or skipped by a re-signing round.
\<close>

record pipeline =
  pp_table :: buffer_table
  pp_drains :: "buffer_row list list"
  pp_resigns :: "buffer_row list list"
  pp_accepted :: "string set"
  pp_delivered :: "(string \<times> string) set"
  pp_unsignable :: "string set"

definition pp_start :: pipeline where
  "pp_start = \<lparr>pp_table = \<lparr>bt_rows = [], bt_nextID = 1\<rparr>, pp_drains = [], pp_resigns = [], pp_accepted = {}, pp_delivered = {}, pp_unsignable = {}\<rparr>"

definition pp_locked :: "pipeline \<Rightarrow> int set" where
  "pp_locked s = (\<Union>b\<in>set (pp_drains s @ pp_resigns s). batch_ids b)"

definition jws_text :: "buffer_row \<Rightarrow> string" where
  "jws_text r = (case bf_jws r of None \<Rightarrow> [] | Some j \<Rightarrow> j)"

definition row_signs :: "(string \<Rightarrow> signed_event result) \<Rightarrow> (signed_event \<Rightarrow> string result) \<Rightarrow> buffer_row \<Rightarrow> string option" where
  "row_signs unmarshal sign r =
     (case unmarshal (bf_payload r) of Inl _ \<Rightarrow> None | Inr e \<Rightarrow> (case sign e of Inl _ \<Rightarrow> None | Inr j \<Rightarrow> Some j))"

text \<open>A signature is never empty.\<close>

definition proper_sign :: "(signed_event \<Rightarrow> string result) \<Rightarrow> bool" where
  "proper_sign sign \<longleftrightarrow> (\<forall>e. sign e \<noteq> Inr [] \<and> (\<forall>err. sign e = Inl err \<longrightarrow> error_text err \<noteq> []))"

inductive pp_step :: "pipeline \<Rightarrow> pipeline \<Rightarrow> bool" where
  store: "proper_sign sign \<Longrightarrow>
    SignedStore_CreateAuditLog sign (CreateSignedAuditLog parse hardCap depth_ok now unixNow exec_err) e (pp_table s) = (None, t) \<Longrightarrow>
    pp_step s (s\<lparr>pp_table := t, pp_accepted := insert (eventJTI e) (pp_accepted s)\<rparr>)"
| store_unsigned: "Buffer_CreateAuditLog parse hardCap depth_ok now unixNow exec_err e (pp_table s) = (None, t) \<Longrightarrow>
    pp_step s (s\<lparr>pp_table := t, pp_accepted := insert (eventJTI e) (pp_accepted s),
                 pp_unsignable := insert (eventJTI e) (pp_unsignable s)\<rparr>)"
| drain_begin: "pp_step s (s\<lparr>pp_drains := DequeuePending (pp_locked s) n (pp_table s) # pp_drains s\<rparr>)"
| drain_done: "pp_drains s = bs @ b # bs' \<Longrightarrow> drain_end b sendErr now committed failures (pp_table s) = (r, t) \<Longrightarrow>
    pp_step s (s\<lparr>pp_table := t, pp_drains := bs @ bs',
                 pp_delivered := (if sendErr = None then (\<lambda>r. (bf_jti r, jws_text r)) ` set b else {}) \<union> pp_delivered s\<rparr>)"
| resign_begin: "pp_step s (s\<lparr>pp_resigns := DequeueUnsignedForResigning (pp_locked s) n (pp_table s) # pp_resigns s\<rparr>)"
| resign_done: "pp_resigns s = bs @ b # bs' \<Longrightarrow> proper_sign sign \<Longrightarrow> resign_end unmarshal sign set_ok b committed (pp_table s) = t \<Longrightarrow>
    pp_step s (s\<lparr>pp_table := t, pp_resigns := bs @ bs',
                 pp_unsignable := bf_jti ` {r \<in> set b. row_signs unmarshal sign r = None} \<union> pp_unsignable s\<rparr>)"
| vacuum: "Vacuum retentionDays now (pp_table s) = Inr t \<Longrightarrow> pp_step s (s\<lparr>pp_table := t\<rparr>)"

definition pp_reach :: "pipeline \<Rightarrow> bool" where
  "pp_reach s \<longleftrightarrow> pp_step\<^sup>*\<^sup>* pp_start s"

section \<open>What the statements do to rows\<close>

text \<open>A row that no statement can pick up any more.\<close>

definition row_stuck :: "buffer_row \<Rightarrow> bool" where
  "row_stuck r \<longleftrightarrow> bf_sentAt r = None \<and> \<not> is_pending r \<and> \<not> needs_resigning r"

lemma row_stuck_iff: "row_stuck r \<longleftrightarrow> bf_sentAt r = None \<and> jws_text r = [] \<and> bf_signingError r = None"
  by (auto simp: row_stuck_def is_pending_def needs_resigning_def jws_text_def split: option.splits)

lemma update_rows_set:
  "set (bt_rows (update_rows ids f t)) = (\<lambda>r. if bf_id r \<in> ids then f r else r) ` set (bt_rows t)"
  by (simp add: update_rows_def)

text \<open>What re-signing a batch does to a row, when it is committed.\<close>

definition resigned :: "(string \<Rightarrow> signed_event result) \<Rightarrow> (signed_event \<Rightarrow> string result) \<Rightarrow> buffer_row list \<Rightarrow> buffer_row \<Rightarrow> buffer_row" where
  "resigned unmarshal sign batch r =
     (case find (\<lambda>b. bf_id b = bf_id r \<and> row_signs unmarshal sign b \<noteq> None) (rev batch) of
        None \<Rightarrow> r
      | Some b \<Rightarrow> r\<lparr>bf_jws := row_signs unmarshal sign b\<rparr>)"

lemma resigned_id [simp]: "bf_id (resigned unmarshal sign batch r) = bf_id r"
  by (simp add: resigned_def split: option.split)

lemma resign_rows_rows:
  assumes "resign_rows unmarshal sign set_ok batch t = Some t'"
  shows "bt_rows t' = map (resigned unmarshal sign batch) (bt_rows t) \<and> bt_nextID t' = bt_nextID t"
  using assms
proof (induction batch arbitrary: t)
  case Nil
  then show ?case by (simp add: resigned_def)
next
  case (Cons b batch)
  show ?case
  proof (cases "row_signs unmarshal sign b")
    case None
    then have "resign_rows unmarshal sign set_ok batch t = Some t'"
      using Cons.prems by (auto simp: row_signs_def split: sum.splits)
    moreover have "resigned unmarshal sign (b # batch) = resigned unmarshal sign batch"
      using None by (auto simp: resigned_def find_snoc fun_eq_iff split: option.split)
    ultimately show ?thesis using Cons.IH by simp
  next
    case (Some j)
    then have "resign_rows unmarshal sign set_ok batch (SetJWSInTx (bf_id b) j t) = Some t'"
      using Cons.prems by (auto simp: row_signs_def split: sum.splits if_splits)
    from Cons.IH [OF this] have "bt_rows t' = map (resigned unmarshal sign batch) (map (\<lambda>r. if bf_id r = bf_id b then r\<lparr>bf_jws := Some j\<rparr> else r) (bt_rows t))"
      "bt_nextID t' = bt_nextID t" by (simp_all add: SetJWSInTx_def update_rows_def)
    moreover have "resigned unmarshal sign batch (if bf_id r = bf_id b then r\<lparr>bf_jws := Some j\<rparr> else r) = resigned unmarshal sign (b # batch) r" for r
      using Some by (auto simp: resigned_def find_snoc split: option.split)
    ultimately show ?thesis by simp
  qed
qed

lemma find_Some_mem: "find P xs = Some x \<Longrightarrow> x \<in> set xs \<and> P x"
  by (induction xs) (auto split: if_splits)

lemma resigned_row:
  assumes "r \<in> set batch" "distinct (map bf_id batch)"
  shows "resigned unmarshal sign batch r = (case row_signs unmarshal sign r of None \<Rightarrow> r | Some j \<Rightarrow> r\<lparr>bf_jws := Some j\<rparr>)"
proof -
  have uniq: "b = r" if "b \<in> set batch" "bf_id b = bf_id r" for b
    using assms that by (auto simp: distinct_map inj_on_def)
  show ?thesis
  proof (cases "find (\<lambda>b. bf_id b = bf_id r \<and> row_signs unmarshal sign b \<noteq> None) (rev batch)")
    case None
    then have "row_signs unmarshal sign r = None" using assms(1) by (auto simp: find_None_iff)
    with None show ?thesis by (simp add: resigned_def)
  next
    case (Some b)
    then have "b \<in> set batch" "bf_id b = bf_id r" "row_signs unmarshal sign b \<noteq> None" by (auto dest: find_Some_mem)
    with uniq [of b] have "b = r" "row_signs unmarshal sign r \<noteq> None" by auto
    with Some show ?thesis by (auto simp: resigned_def)
  qed
qed

lemma resigned_other:
  assumes "bf_id r \<notin> batch_ids batch"
  shows "resigned unmarshal sign batch r = r"
proof -
  have "\<not> (\<exists>b\<in>set batch. bf_id b = bf_id r)" using assms unfolding batch_ids_def by (metis image_eqI)
  then have "find (\<lambda>b. bf_id b = bf_id r \<and> row_signs unmarshal sign b \<noteq> None) (rev batch) = None"
    by (auto simp: find_None_iff)
  then show ?thesis by (simp add: resigned_def)
qed

lemma resign_end_nextID: "bt_nextID (resign_end unmarshal sign set_ok batch committed t) = bt_nextID t"
proof (cases "resign_rows unmarshal sign set_ok batch t")
  case (Some t')
  with resign_rows_rows [OF Some] show ?thesis by (simp add: resign_end_def releaseResign_def update_rows_def)
qed (simp add: resign_end_def)

lemma resign_end_rows:
  "bt_rows (resign_end unmarshal sign set_ok batch committed t) = bt_rows t \<or>
   bt_rows (resign_end unmarshal sign set_ok batch committed t)
     = map (\<lambda>r. if bf_id r \<in> batch_ids batch then (resigned unmarshal sign batch r)\<lparr>bf_signingError := None\<rparr> else r) (bt_rows t)"
proof (cases "resign_rows unmarshal sign set_ok batch t")
  case None
  then show ?thesis by (simp add: resign_end_def)
next
  case (Some t')
  note rows = resign_rows_rows [OF Some]
  show ?thesis
  proof (cases "committed \<and> batch \<noteq> []")
    case True
    have "bt_rows (resign_end unmarshal sign set_ok batch committed t)
        = map (\<lambda>r. if bf_id r \<in> batch_ids batch then r\<lparr>bf_signingError := None\<rparr> else r) (map (resigned unmarshal sign batch) (bt_rows t))"
      using Some True rows by (simp add: resign_end_def releaseResign_def update_rows_def)
    also have "\<dots> = map (\<lambda>r. if bf_id r \<in> batch_ids batch then (resigned unmarshal sign batch r)\<lparr>bf_signingError := None\<rparr> else r) (bt_rows t)"
      by (simp add: resigned_other)
    finally show ?thesis ..
  next
    case False
    moreover have "map (resigned unmarshal sign []) (bt_rows t) = bt_rows t" by (rule map_idI) (simp add: resigned_def)
    ultimately show ?thesis using Some rows by (auto simp: resign_end_def releaseResign_def)
  qed
qed

lemma drain_end_rows:
  assumes "drain_end batch sendErr now committed failures t = (r, t')"
  shows "bt_nextID t' = bt_nextID t \<and> (bt_rows t' = bt_rows t \<or>
      (\<exists>f. bt_rows t' = map (\<lambda>r. if bf_id r \<in> batch_ids batch then f r else r) (bt_rows t)
         \<and> ((\<exists>err. f = mark_attempt now err) \<or> sendErr = None \<and> f = (\<lambda>r. r\<lparr>bf_sentAt := Some now\<rparr>))))"
  using assms by (auto simp: drain_end_def releaseSent_def update_rows_def split: if_splits option.splits)

section \<open>The invariant\<close>

definition table_ok :: "buffer_table \<Rightarrow> bool" where
  "table_ok t \<longleftrightarrow> distinct (map bf_id (bt_rows t)) \<and> (\<forall>r\<in>set (bt_rows t). bf_id r < bt_nextID t) \<and> distinct (map bf_jti (bt_rows t))"

definition batches_ok :: "pipeline \<Rightarrow> bool" where
  "batches_ok s \<longleftrightarrow> distinct (map bf_id (concat (pp_drains s @ pp_resigns s)))
     \<and> (\<forall>b\<in>set (pp_drains s). \<forall>r\<in>set b. r \<in> set (bt_rows (pp_table s)) \<and> is_pending r)
     \<and> (\<forall>b\<in>set (pp_resigns s). \<forall>r\<in>set b. r \<in> set (bt_rows (pp_table s)) \<and> needs_resigning r)"

definition row_accounted :: "pipeline \<Rightarrow> buffer_row \<Rightarrow> bool" where
  "row_accounted s r \<longleftrightarrow>
     (bf_sentAt r \<noteq> None \<longrightarrow> jws_text r \<noteq> [] \<and> (bf_jti r, jws_text r) \<in> pp_delivered s)
     \<and> (row_stuck r \<longrightarrow> bf_jti r \<in> pp_unsignable s)"

definition pp_inv :: "pipeline \<Rightarrow> bool" where
  "pp_inv s \<longleftrightarrow> table_ok (pp_table s) \<and> batches_ok s
     \<and> (\<forall>r\<in>set (bt_rows (pp_table s)). row_accounted s r \<and> bf_jti r \<in> pp_accepted s)
     \<and> (\<forall>j\<in>pp_accepted s. (\<exists>r\<in>set (bt_rows (pp_table s)). bf_jti r = j) \<or> (\<exists>jws. jws \<noteq> [] \<and> (j, jws) \<in> pp_delivered s))
     \<and> (\<forall>(j, jws)\<in>pp_delivered s. jws \<noteq> [] \<and> j \<in> pp_accepted s)"

text \<open>A statement that touches only rows of one batch, keeping their numbers and identifiers.\<close>

lemma table_ok_map:
  assumes "table_ok t" "bt_rows t' = map g (bt_rows t)" "bt_nextID t' = bt_nextID t"
    and "\<And>r. bf_id (g r) = bf_id r" "\<And>r. bf_jti (g r) = bf_jti r"
  shows "table_ok t'"
  using assms by (simp add: table_ok_def comp_def)

lemma table_row_eq: "table_ok t \<Longrightarrow> r \<in> set (bt_rows t) \<Longrightarrow> r' \<in> set (bt_rows t) \<Longrightarrow> bf_id r = bf_id r' \<Longrightarrow> r = r'"
  by (auto simp: table_ok_def distinct_map inj_on_def)

lemma insert_row_facts:
  assumes "table_ok t"
  shows "table_ok (insert_row now jti tenantID jws payload err t)"
    and "set (bt_rows t) \<subseteq> set (bt_rows (insert_row now jti tenantID jws payload err t))"
    and "\<exists>r\<in>set (bt_rows (insert_row now jti tenantID jws payload err t)). bf_jti r = jti"
    and "r \<in> set (bt_rows (insert_row now jti tenantID jws payload err t)) \<Longrightarrow> r \<notin> set (bt_rows t) \<Longrightarrow>
           bf_jti r = jti \<and> bf_sentAt r = None \<and> bf_jws r = nullif jws \<and> bf_signingError r = nullif err"
  using assms by (force simp: insert_row_def table_ok_def split: if_splits)+

lemma dequeue_facts:
  assumes "table_ok t"
  shows "distinct (map bf_id (dequeue P locked n t))"
    and "r \<in> set (dequeue P locked n t) \<Longrightarrow> r \<in> set (bt_rows t) \<and> P r \<and> bf_id r \<notin> locked"
proof -
  let ?l = "filter (\<lambda>r. P r \<and> bf_id r \<notin> locked) (bt_rows t)"
  have "distinct (map bf_id ?l)" using assms by (simp add: table_ok_def distinct_map_filter)
  then have "distinct (map bf_id (sort_key bf_emittedAt ?l))" by (simp add: distinct_map)
  then show "distinct (map bf_id (dequeue P locked n t))" by (simp add: dequeue_def take_map [symmetric] distinct_take)
  show "r \<in> set (dequeue P locked n t) \<Longrightarrow> r \<in> set (bt_rows t) \<and> P r \<and> bf_id r \<notin> locked"
    by (auto simp: dequeue_def dest!: in_set_takeD)
qed

lemma locked_ids: "pp_locked s = set (map bf_id (concat (pp_drains s @ pp_resigns s)))"
  by (auto simp: pp_locked_def batch_ids_def)

lemma distinct_add_batch:
  assumes "distinct (map f b)" "\<And>r. r \<in> set b \<Longrightarrow> f r \<notin> set (map f (xs @ ys))" "distinct (map f (xs @ ys))"
  shows "distinct (map f (xs @ b @ ys))"
proof -
  have "set (map f b) \<inter> set (map f (xs @ ys)) = {}" using assms(2) by auto
  then have "distinct (map f b @ map f (xs @ ys))" using assms(1,3) by (simp only: distinct_append)
  moreover have "mset (map f b @ map f (xs @ ys)) = mset (map f (xs @ b @ ys))" by (simp add: ac_simps)
  ultimately show ?thesis by (metis mset_eq_imp_distinct_iff)
qed

lemma pp_inv_start: "pp_inv pp_start"
  by (simp add: pp_inv_def pp_start_def table_ok_def batches_ok_def)

text \<open>Storing an event.\<close>

lemma pp_inv_store:
  assumes inv: "pp_inv s" and t: "t = insert_row now j tenantID jws payload err (pp_table s)" and j: "j \<noteq> []"
    and mark: "jws = [] \<and> err = [] \<longrightarrow> j \<in> un" and un: "pp_unsignable s \<subseteq> un"
  shows "pp_inv (s\<lparr>pp_table := t, pp_accepted := insert j (pp_accepted s), pp_unsignable := un\<rparr>)"
proof -
  let ?s = "s\<lparr>pp_table := t, pp_accepted := insert j (pp_accepted s), pp_unsignable := un\<rparr>"
  have ok: "table_ok (pp_table s)" using inv by (simp add: pp_inv_def)
  note f = insert_row_facts [OF ok, where now = now and jti = j and tenantID = tenantID and jws = jws and payload = payload and err = err, folded t]
  have rows: "row_accounted ?s r \<and> bf_jti r \<in> pp_accepted ?s" if "r \<in> set (bt_rows t)" for r
  proof (cases "r \<in> set (bt_rows (pp_table s))")
    case True
    with inv un show ?thesis by (auto simp: pp_inv_def row_accounted_def)
  next
    case False
    with f(4) [OF that] mark show ?thesis
      by (auto simp: row_accounted_def row_stuck_iff jws_text_def nullif_def split: if_splits)
  qed
  have "batches_ok ?s" using inv f(2) by (auto simp: pp_inv_def batches_ok_def)
  moreover have "(\<exists>r\<in>set (bt_rows t). bf_jti r = j') \<or> (\<exists>jws. jws \<noteq> [] \<and> (j', jws) \<in> pp_delivered s)" if "j' \<in> insert j (pp_accepted s)" for j'
    using that f(2,3) inv unfolding pp_inv_def by blast
  moreover have "\<forall>(j', jws)\<in>pp_delivered s. jws \<noteq> [] \<and> j' \<in> insert j (pp_accepted s)" using inv by (auto simp: pp_inv_def)
  ultimately show ?thesis using f(1) rows by (simp add: pp_inv_def)
qed

text \<open>
  Ending a batch: the statement changes rows of the batch only, and what it leaves is accounted for. The batch is
  one of the open ones; \<open>g\<close> is the effect on a row of the table.
\<close>

definition ends_batch :: "pipeline \<Rightarrow> buffer_row list \<Rightarrow> (buffer_row \<Rightarrow> buffer_row) \<Rightarrow> (string \<times> string) set \<Rightarrow> string set \<Rightarrow> bool" where
  "ends_batch s b g del un \<longleftrightarrow>
     (\<forall>r. bf_id (g r) = bf_id r \<and> bf_jti (g r) = bf_jti r \<and> (bf_id r \<notin> batch_ids b \<longrightarrow> g r = r))
     \<and> (\<forall>r\<in>set b. (bf_sentAt (g r) \<noteq> None \<longrightarrow> jws_text (g r) \<noteq> [] \<and> (bf_jti r, jws_text (g r)) \<in> del)
                 \<and> (row_stuck (g r) \<longrightarrow> bf_jti r \<in> un))"

lemma pp_inv_end:
  assumes inv: "pp_inv s" and b: "b \<in> set (pp_drains s) \<union> set (pp_resigns s)"
    and g: "ends_batch s b g del un" and rows: "bt_rows t = map g (bt_rows (pp_table s))" "bt_nextID t = bt_nextID (pp_table s)"
    and del: "\<forall>(j, jws)\<in>del. jws \<noteq> [] \<and> j \<in> pp_accepted s"
    and open_batches: "mset (concat (ds @ rs)) + mset b = mset (concat (pp_drains s @ pp_resigns s))"
      "set ds \<subseteq> set (pp_drains s)" "set rs \<subseteq> set (pp_resigns s)"
  shows "pp_inv (s\<lparr>pp_table := t, pp_drains := ds, pp_resigns := rs, pp_delivered := del \<union> pp_delivered s, pp_unsignable := un \<union> pp_unsignable s\<rparr>)"
proof -
  let ?s = "s\<lparr>pp_table := t, pp_drains := ds, pp_resigns := rs, pp_delivered := del \<union> pp_delivered s, pp_unsignable := un \<union> pp_unsignable s\<rparr>"
  have ok: "table_ok (pp_table s)" and bo: "batches_ok s" using inv by (auto simp: pp_inv_def)
  have gid: "bf_id (g r) = bf_id r" "bf_jti (g r) = bf_jti r" "bf_id r \<notin> batch_ids b \<Longrightarrow> g r = r" for r
    using g by (auto simp: ends_batch_def)
  have "table_ok t" by (rule table_ok_map [OF ok rows gid(1,2)])
  have inb: "r \<in> set b" if "r \<in> set (bt_rows (pp_table s))" "bf_id r \<in> batch_ids b" for r
  proof -
    from that(2) obtain r' where "r' \<in> set b" "bf_id r' = bf_id r" by (auto simp: batch_ids_def)
    moreover have "r' \<in> set (bt_rows (pp_table s))" using b bo \<open>r' \<in> set b\<close> by (auto simp: batches_ok_def)
    ultimately show ?thesis using table_row_eq [OF ok that(1), of r'] by simp
  qed
  have acc: "row_accounted ?s (g r) \<and> bf_jti (g r) \<in> pp_accepted ?s" if r: "r \<in> set (bt_rows (pp_table s))" for r
  proof (cases "bf_id r \<in> batch_ids b")
    case True
    with g inb [OF r] r inv gid show ?thesis by (auto simp: ends_batch_def row_accounted_def pp_inv_def)
  next
    case False
    with r inv gid show ?thesis by (auto simp: row_accounted_def pp_inv_def)
  qed
  have "mset (map bf_id (concat (ds @ rs))) + mset (map bf_id b) = mset (map bf_id (concat (pp_drains s @ pp_resigns s)))"
    using arg_cong [OF open_batches(1), of "image_mset bf_id"] by simp
  then have "mset (map bf_id (concat (ds @ rs)) @ map bf_id b) = mset (map bf_id (concat (pp_drains s @ pp_resigns s)))"
    by (simp only: mset_append)
  then have dist: "distinct (map bf_id (concat (ds @ rs)) @ map bf_id b)"
    using bo unfolding batches_ok_def by (metis mset_eq_imp_distinct_iff)
  have same: "g r = r" if "d \<in> set (ds @ rs)" "r \<in> set d" for d r
  proof -
    have "bf_id r \<in> set (map bf_id (concat (ds @ rs)))" using that by auto
    with dist have "bf_id r \<notin> set (map bf_id b)" by (metis disjoint_iff distinct_append)
    then show ?thesis by (intro gid(3)) (auto simp: batch_ids_def)
  qed
  have "batches_ok ?s"
    unfolding batches_ok_def
  proof (intro conjI ballI)
    from dist have "distinct (map bf_id (concat (ds @ rs)))" by (rule distinct_append [THEN iffD1, THEN conjunct1])
    then show "distinct (map bf_id (concat (pp_drains ?s @ pp_resigns ?s)))" by simp
    fix d r
    {
      assume d: "d \<in> set (pp_drains ?s)" "r \<in> set d"
      with open_batches(2) bo have "r \<in> set (bt_rows (pp_table s))" "is_pending r" by (auto simp: batches_ok_def)
      with same [of d r] d rows(1) show "r \<in> set (bt_rows (pp_table ?s))" "is_pending r" by (auto intro!: image_eqI [of r g r])
    next
      assume d: "d \<in> set (pp_resigns ?s)" "r \<in> set d"
      with open_batches(3) bo have "r \<in> set (bt_rows (pp_table s))" "needs_resigning r" by (auto simp: batches_ok_def)
      with same [of d r] d rows(1) show "r \<in> set (bt_rows (pp_table ?s))" "needs_resigning r" by (auto intro!: image_eqI [of r g r])
    }
  qed
  moreover have "(\<exists>r\<in>set (bt_rows t). bf_jti r = j) \<or> (\<exists>jws. jws \<noteq> [] \<and> (j, jws) \<in> del \<union> pp_delivered s)" if "j \<in> pp_accepted s" for j
    using inv that gid rows(1) by (auto simp: pp_inv_def)
  ultimately show ?thesis
    using \<open>table_ok t\<close> acc del inv rows(1) by (auto simp: pp_inv_def)
qed

lemma nonempty_jws: "is_pending r \<Longrightarrow> jws_text r \<noteq> []"
  by (auto simp: is_pending_def jws_text_def split: option.splits)

lemma drain_ends_batch:
  assumes "batches_ok s" "b \<in> set (pp_drains s)"
    and "f = mark_attempt now err \<or> sendErr = None \<and> f = (\<lambda>r. r\<lparr>bf_sentAt := Some now\<rparr>)"
  shows "ends_batch s b (\<lambda>r. if bf_id r \<in> batch_ids b then f r else r)
           (if sendErr = None then (\<lambda>r. (bf_jti r, jws_text r)) ` set b else {}) {}"
proof -
  have p: "bf_sentAt r = None" "jws_text r \<noteq> []" if "r \<in> set b" for r
    using assms(1,2) that nonempty_jws by (auto simp: batches_ok_def is_pending_def)
  have t: "jws_text (mark_attempt now err r) = jws_text r" "jws_text (r\<lparr>bf_sentAt := Some now\<rparr>) = jws_text r" for r
    by (simp_all add: jws_text_def mark_attempt_def)
  show ?thesis
    using assms(3)
  proof (elim disjE conjE)
    assume f: "f = mark_attempt now err"
    show ?thesis unfolding f ends_batch_def using p by (auto simp: t row_stuck_iff) (auto simp: mark_attempt_def)
  next
    assume f: "sendErr = None" "f = (\<lambda>r. r\<lparr>bf_sentAt := Some now\<rparr>)"
    show ?thesis unfolding f ends_batch_def using p by (auto simp: t row_stuck_iff)
  qed
qed

lemma resign_ends_batch:
  assumes "batches_ok s" "b \<in> set (pp_resigns s)" "distinct (map bf_id b)" "proper_sign sign"
  shows "ends_batch s b (\<lambda>r. if bf_id r \<in> batch_ids b then (resigned unmarshal sign b r)\<lparr>bf_signingError := None\<rparr> else r)
           {} (bf_jti ` {r \<in> set b. row_signs unmarshal sign r = None})"
proof -
  have p: "bf_sentAt r = None" if "r \<in> set b" for r using assms(1,2) that by (auto simp: batches_ok_def needs_resigning_def)
  have ne: "j \<noteq> []" if "row_signs unmarshal sign r = Some j" for r j
    using assms(4) that by (auto simp: row_signs_def proper_sign_def split: sum.splits)
  have jti: "bf_jti (resigned unmarshal sign b r) = bf_jti r" for r by (simp add: resigned_def split: option.split)
  show ?thesis
    using p ne resigned_row [OF _ assms(3), of _ unmarshal sign]
    by (auto simp: ends_batch_def batch_ids_def row_stuck_iff jws_text_def jti split: option.splits)
qed

lemma batch_row_open: "is_pending r \<or> needs_resigning r \<Longrightarrow> bf_sentAt r = None \<and> \<not> row_stuck r"
  by (auto simp: row_stuck_def is_pending_def needs_resigning_def)

lemma ends_batch_id:
  assumes "batches_ok s" "b \<in> set (pp_drains s) \<union> set (pp_resigns s)"
  shows "ends_batch s b (\<lambda>r. r) del un"
proof -
  have "bf_sentAt r = None \<and> \<not> row_stuck r" if "r \<in> set b" for r
    using assms that by (intro batch_row_open) (auto simp: batches_ok_def)
  then show ?thesis by (simp add: ends_batch_def)
qed

lemma pp_inv_drain_done:
  assumes inv: "pp_inv s" and d: "pp_drains s = bs @ b # bs'" and e: "drain_end b sendErr now committed failures (pp_table s) = (r, t)"
  shows "pp_inv (s\<lparr>pp_table := t, pp_drains := bs @ bs',
           pp_delivered := (if sendErr = None then (\<lambda>r. (bf_jti r, jws_text r)) ` set b else {}) \<union> pp_delivered s\<rparr>)"
proof -
  let ?del = "if sendErr = None then (\<lambda>r. (bf_jti r, jws_text r)) ` set b else {}"
  have bo: "batches_ok s" and b: "b \<in> set (pp_drains s)" using inv d by (auto simp: pp_inv_def)
  obtain g where g: "ends_batch s b g ?del {}" "bt_rows t = map g (bt_rows (pp_table s))" "bt_nextID t = bt_nextID (pp_table s)"
  proof (cases "bt_rows t = bt_rows (pp_table s)")
    case True
    with drain_end_rows [OF e] ends_batch_id [OF bo, of b ?del "{}"] b show ?thesis by (intro that [of "\<lambda>r. r"]) auto
  next
    case False
    then obtain f where f: "bt_rows t = map (\<lambda>r. if bf_id r \<in> batch_ids b then f r else r) (bt_rows (pp_table s))"
      and or: "(\<exists>err. f = mark_attempt now err) \<or> sendErr = None \<and> f = (\<lambda>r. r\<lparr>bf_sentAt := Some now\<rparr>)"
      using drain_end_rows [OF e] by blast
    from or drain_ends_batch [OF bo b, of f now _ sendErr] have "ends_batch s b (\<lambda>r. if bf_id r \<in> batch_ids b then f r else r) ?del {}"
      by blast
    with f drain_end_rows [OF e] show ?thesis by (intro that) auto
  qed
  have "\<forall>(j, jws)\<in>?del. jws \<noteq> [] \<and> j \<in> pp_accepted s"
    using bo b inv nonempty_jws by (auto simp: batches_ok_def pp_inv_def)
  note del = this
  have "mset (concat ((bs @ bs') @ pp_resigns s)) + mset b = mset (concat (pp_drains s @ pp_resigns s))"
    "set (bs @ bs') \<subseteq> set (pp_drains s)" using d by (auto simp: ac_simps)
  from pp_inv_end [OF inv _ g del this subset_refl] b show ?thesis by simp
qed

lemma pp_inv_resign_done:
  assumes inv: "pp_inv s" and d: "pp_resigns s = bs @ b # bs'" and sign: "proper_sign sign"
    and e: "resign_end unmarshal sign set_ok b committed (pp_table s) = t"
  shows "pp_inv (s\<lparr>pp_table := t, pp_resigns := bs @ bs',
           pp_unsignable := bf_jti ` {r \<in> set b. row_signs unmarshal sign r = None} \<union> pp_unsignable s\<rparr>)"
proof -
  let ?un = "bf_jti ` {r \<in> set b. row_signs unmarshal sign r = None}"
  have bo: "batches_ok s" and b: "b \<in> set (pp_resigns s)" using inv d by (auto simp: pp_inv_def)
  have "distinct (map bf_id b)" using bo d by (auto simp: batches_ok_def)
  note eb = resign_ends_batch [OF bo b this sign, of unmarshal]
  have next_id: "bt_nextID t = bt_nextID (pp_table s)" using resign_end_nextID e by blast
  obtain g where g: "ends_batch s b g {} ?un" "bt_rows t = map g (bt_rows (pp_table s))" "bt_nextID t = bt_nextID (pp_table s)"
  proof (cases "bt_rows t = bt_rows (pp_table s)")
    case True
    with next_id ends_batch_id [OF bo, of b "{}" ?un] b show ?thesis by (intro that [of "\<lambda>r. r"]) auto
  next
    case False
    then have "bt_rows t = map (\<lambda>r. if bf_id r \<in> batch_ids b then (resigned unmarshal sign b r)\<lparr>bf_signingError := None\<rparr> else r) (bt_rows (pp_table s))"
      using resign_end_rows [of unmarshal sign set_ok b committed "pp_table s"] unfolding e by blast
    with eb next_id show ?thesis by (intro that)
  qed
  have m: "mset (concat (pp_drains s @ (bs @ bs'))) + mset b = mset (concat (pp_drains s @ pp_resigns s))"
    "set (bs @ bs') \<subseteq> set (pp_resigns s)" using d by (auto simp: ac_simps)
  from pp_inv_end [OF inv _ g _ m(1) subset_refl m(2)] b show ?thesis by simp
qed

lemma pp_inv_vacuum:
  assumes inv: "pp_inv s" and v: "Vacuum retentionDays now (pp_table s) = Inr t"
  shows "pp_inv (s\<lparr>pp_table := t\<rparr>)"
proof -
  obtain P where t: "t = pp_table s\<lparr>bt_rows := filter P (bt_rows (pp_table s))\<rparr>" and keep: "\<And>r. \<not> P r \<Longrightarrow> bf_sentAt r \<noteq> None"
    using v by (auto simp: Vacuum_def split: if_splits option.splits)
  have "table_ok t" using inv t by (auto simp: pp_inv_def table_ok_def distinct_map_filter)
  moreover have "batches_ok (s\<lparr>pp_table := t\<rparr>)"
    using inv keep t by (fastforce simp: pp_inv_def batches_ok_def is_pending_def needs_resigning_def)
  moreover have "(\<exists>r\<in>set (bt_rows t). bf_jti r = j) \<or> (\<exists>jws. jws \<noteq> [] \<and> (j, jws) \<in> pp_delivered s)" if "j \<in> pp_accepted s" for j
    using inv that keep t by (fastforce simp: pp_inv_def row_accounted_def)
  ultimately show ?thesis using inv t by (auto simp: pp_inv_def row_accounted_def)
qed

lemma pp_inv_step:
  assumes "pp_step s s'" "pp_inv s"
  shows "pp_inv s'"
  using assms
proof (induction rule: pp_step.induct)
  case (store sign parse hardCap depth_ok now unixNow exec_err e s t)
  obtain jws err where create: "CreateSignedAuditLog parse hardCap depth_ok now unixNow exec_err e jws err (pp_table s) = (None, t)"
    and ne: "\<not> (jws = [] \<and> err = [])"
    using store(1,2) by (auto simp: SignedStore_CreateAuditLog_def proper_sign_def split: sum.splits)
  then obtain tid where "t = insert_row now (eventJTI e) tid jws (MarshalCanonical e ''aoid'' unixNow) err (pp_table s)" "eventJTI e \<noteq> []"
    by (auto simp: CreateSignedAuditLog_def split: if_splits sum.splits option.splits)
  from pp_inv_store [OF store(3) this, of "pp_unsignable s"] ne show ?case by auto
next
  case (store_unsigned parse hardCap depth_ok now unixNow exec_err e s t)
  then obtain tid where "t = insert_row now (eventJTI e) tid [] (MarshalCanonical e ''aoid'' unixNow) [] (pp_table s)" "eventJTI e \<noteq> []"
    by (auto simp: Buffer_CreateAuditLog_def CreateSignedAuditLog_def split: if_splits sum.splits option.splits)
  from pp_inv_store [OF store_unsigned(2) this, of "insert (eventJTI e) (pp_unsignable s)"] show ?case by auto
next
  case (drain_begin s n)
  let ?b = "DequeuePending (pp_locked s) n (pp_table s)"
  have t: "table_ok (pp_table s)" and bo: "batches_ok s" using drain_begin by (auto simp: pp_inv_def)
  note d = dequeue_facts [OF t, where P = is_pending and locked = "pp_locked s" and n = n, folded DequeuePending_def]
  have "distinct (map bf_id ([] @ ?b @ concat (pp_drains s @ pp_resigns s)))"
    by (rule distinct_add_batch) (use d bo locked_ids [of s] in \<open>auto simp: batches_ok_def\<close>)
  with d(2) bo have "batches_ok (s\<lparr>pp_drains := ?b # pp_drains s\<rparr>)" by (auto simp: batches_ok_def)
  with drain_begin show ?case by (simp add: pp_inv_def row_accounted_def)
next
  case (resign_begin s n)
  let ?b = "DequeueUnsignedForResigning (pp_locked s) n (pp_table s)"
  have t: "table_ok (pp_table s)" and bo: "batches_ok s" using resign_begin by (auto simp: pp_inv_def)
  note d = dequeue_facts [OF t, where P = needs_resigning and locked = "pp_locked s" and n = n, folded DequeueUnsignedForResigning_def]
  have "distinct (map bf_id (concat (pp_drains s) @ ?b @ concat (pp_resigns s)))"
    by (rule distinct_add_batch) (use d bo locked_ids [of s] in \<open>auto simp: batches_ok_def\<close>)
  with d(2) bo have "batches_ok (s\<lparr>pp_resigns := ?b # pp_resigns s\<rparr>)" by (auto simp: batches_ok_def)
  with resign_begin show ?case by (simp add: pp_inv_def row_accounted_def)
next
  case (drain_done s bs b bs' sendErr now committed failures r t)
  then show ?case by (intro pp_inv_drain_done)
next
  case (resign_done s bs b bs' sign unmarshal set_ok committed t)
  then show ?case by (intro pp_inv_resign_done)
next
  case (vacuum retentionDays now s t)
  then show ?case by (intro pp_inv_vacuum)
qed

lemma pp_reach_inv: "pp_reach s \<Longrightarrow> pp_inv s"
  unfolding pp_reach_def by (induction rule: rtranclp_induct) (auto intro: pp_inv_start pp_inv_step)

text \<open>
  C34: No audit event is lost between the service and the collector. Whatever the interleaving of stores, forwarding
  and re-signing rounds of any number of workers, failures of the signer, the sink or the database, and vacuuming:
  every accepted event has been delivered with a signature, or its row is unsent and waits to be forwarded or to be
  signed, or it was stored without the signing store or skipped by a re-signing round. A row is marked as sent only
  after the sink took it, with its signature; there is one row per identifier; and only accepted events are
  delivered.
\<close>

theorem audit_event_not_lost:
  assumes "pp_reach s" "j \<in> pp_accepted s"
  shows "((\<exists>jws. jws \<noteq> [] \<and> (j, jws) \<in> pp_delivered s)
          \<or> (\<exists>r\<in>set (bt_rows (pp_table s)). bf_jti r = j \<and> bf_sentAt r = None \<and> (is_pending r \<or> needs_resigning r \<or> j \<in> pp_unsignable s)))
    \<and> (\<forall>r\<in>set (bt_rows (pp_table s)). bf_sentAt r \<noteq> None \<longrightarrow> (bf_jti r, jws_text r) \<in> pp_delivered s \<and> jws_text r \<noteq> [])
    \<and> distinct (map bf_jti (bt_rows (pp_table s)))
    \<and> fst ` pp_delivered s \<subseteq> pp_accepted s"
proof -
  have inv: "pp_inv s" by (rule pp_reach_inv [OF assms(1)])
  have "(\<exists>jws. jws \<noteq> [] \<and> (j, jws) \<in> pp_delivered s)
      \<or> (\<exists>r\<in>set (bt_rows (pp_table s)). bf_jti r = j \<and> bf_sentAt r = None \<and> (is_pending r \<or> needs_resigning r \<or> j \<in> pp_unsignable s))"
  proof (cases "\<exists>jws. jws \<noteq> [] \<and> (j, jws) \<in> pp_delivered s")
    case False
    then obtain r where r: "r \<in> set (bt_rows (pp_table s))" "bf_jti r = j" using inv assms(2) by (auto simp: pp_inv_def)
    with inv have "row_accounted s r" by (auto simp: pp_inv_def)
    with False r show ?thesis by (auto simp: row_accounted_def row_stuck_def)
  qed simp
  with inv show ?thesis by (auto simp: pp_inv_def row_accounted_def table_ok_def)
qed

section \<open>Rows that stay behind\<close>

lemma map_if_keeps: "r \<in> set l \<Longrightarrow> \<not> P r \<Longrightarrow> r \<in> set (map (\<lambda>r. if P r then f r else r) l)"
  by (metis (mono_tags, lifting) image_eqI list.set_map)

lemma resign_end_keeps:
  assumes "r \<in> set (bt_rows t)" "bf_id r \<notin> batch_ids b"
  shows "r \<in> set (bt_rows (resign_end unmarshal sign set_ok b committed t))"
proof (rule disjE [OF resign_end_rows [of unmarshal sign set_ok b committed t]])
  assume "bt_rows (resign_end unmarshal sign set_ok b committed t) = bt_rows t"
  with assms show ?thesis by simp
next
  assume eq: "bt_rows (resign_end unmarshal sign set_ok b committed t)
     = map (\<lambda>r. if bf_id r \<in> batch_ids b then (resigned unmarshal sign b r)\<lparr>bf_signingError := None\<rparr> else r) (bt_rows t)"
  show ?thesis unfolding eq by (rule map_if_keeps [where P = "\<lambda>r. bf_id r \<in> batch_ids b", OF assms])
qed

lemma stuck_step:
  assumes "pp_inv s" "pp_step s s'" "r \<in> set (bt_rows (pp_table s))" "row_stuck r"
  shows "r \<in> set (bt_rows (pp_table s'))"
proof -
  have ok: "table_ok (pp_table s)" and bo: "batches_ok s" using assms(1) by (auto simp: pp_inv_def)
  have out: "bf_id r \<notin> batch_ids b" if "b \<in> set (pp_drains s) \<union> set (pp_resigns s)" for b
  proof
    assume "bf_id r \<in> batch_ids b"
    then obtain r' where r': "r' \<in> set b" "bf_id r' = bf_id r" by (auto simp: batch_ids_def)
    then have "r' \<in> set (bt_rows (pp_table s))" "\<not> row_stuck r'"
      using that bo batch_row_open [of r'] by (auto simp: batches_ok_def)
    with table_row_eq [OF ok assms(3), of r'] r'(2) assms(4) show False by simp
  qed
  show ?thesis
    using assms(2,3,4) out
  proof (induction rule: pp_step.cases)
    case (store sign parse hardCap depth_ok now unixNow exec_err e s t)
    then show ?case
      by (auto simp: SignedStore_CreateAuditLog_def CreateSignedAuditLog_def insert_row_def split: sum.splits if_splits option.splits)
  next
    case (store_unsigned parse hardCap depth_ok now unixNow exec_err e s t)
    then show ?case
      by (auto simp: Buffer_CreateAuditLog_def CreateSignedAuditLog_def insert_row_def split: sum.splits if_splits option.splits)
  next
    case (drain_done s bs b bs' sendErr now committed failures ra t)
    then have "bf_id r \<notin> batch_ids b" by auto
    with drain_end_rows [OF drain_done(4)] drain_done show ?case by (force intro: image_eqI [of r _ r])
  next
    case (resign_done s bs b bs' sign unmarshal set_ok committed t)
    then have "bf_id r \<notin> batch_ids b" by auto
    with resign_end_keeps [of r "pp_table s" b unmarshal sign set_ok committed] resign_done show ?case by simp
  next
    case (vacuum retentionDays now s t)
    then show ?case by (auto simp: Vacuum_def row_stuck_def split: if_splits)
  qed simp_all
qed

text \<open>No later step picks up such a row again: it is never signed and never forwarded.\<close>

lemma stuck_forever:
  assumes "pp_reach s" "pp_step\<^sup>*\<^sup>* s s'" "r \<in> set (bt_rows (pp_table s))" "row_stuck r"
  shows "r \<in> set (bt_rows (pp_table s'))"
  using assms(2)
proof (induction rule: rtranclp_induct)
  case (step y z)
  have "pp_reach y" using assms(1) step(1) unfolding pp_reach_def by (rule rtranclp_trans)
  then show ?case by (rule stuck_step [OF pp_reach_inv step(2) step(3) assms(4)])
qed (use assms in simp)

subsection \<open>A run\<close>

definition demo_login :: signed_event where
  "demo_login = event_from_args ''c1'' ''u1'' ''auth.user.login'' ''user'' ''u1'' ''10.0.0.1'' [(''jti'', JString ''J1'')] ''J2''"

definition kms_down :: "signed_event \<Rightarrow> string result" where
  "kms_down e = Inl (ErrMsg ''kms down'')"

definition demo_row :: "string option \<Rightarrow> string option \<Rightarrow> buffer_row" where
  "demo_row jws err = \<lparr>bf_id = 1, bf_jti = ''J1'', bf_tenantID = ''c1'', bf_emittedAt = 10, bf_jws = jws,
     bf_payload = MarshalCanonical demo_login ''aoid'' 5, bf_attempts = 0, bf_lastAttemptAt = None, bf_lastError = None, bf_sentAt = None,
     bf_signingError = err\<rparr>"

definition demo_pipeline :: "buffer_row list \<Rightarrow> buffer_row list list \<Rightarrow> string set \<Rightarrow> pipeline" where
  "demo_pipeline rows resigns un = pp_start\<lparr>pp_table := \<lparr>bt_rows = rows, bt_nextID = 2\<rparr>, pp_resigns := resigns,
     pp_accepted := {''J1''}, pp_unsignable := un\<rparr>"

lemma kms_down_proper: "proper_sign kms_down"
  by (simp add: proper_sign_def kms_down_def)

lemma demo_stored: "pp_step pp_start (demo_pipeline [demo_row None (Some ''kms down'')] [] {})"
proof -
  have e: "se_CompanyID demo_login = ''c1''" "eventJTI demo_login = ''J1''" by code_simp+
  have "SignedStore_CreateAuditLog kms_down (CreateSignedAuditLog Inr 0 True 10 5 None) demo_login (pp_table pp_start)
      = (None, \<lparr>bt_rows = [demo_row None (Some ''kms down'')], bt_nextID = 2\<rparr>)"
    by (simp add: SignedStore_CreateAuditLog_def kms_down_def CreateSignedAuditLog_def e insert_row_def pp_start_def demo_row_def nullif_def)
  from pp_step.store [OF kms_down_proper this] show ?thesis by (simp add: e demo_pipeline_def pp_start_def)
qed

lemma demo_resigning:
  "pp_step (demo_pipeline [demo_row None (Some ''kms down'')] [] {})
     (demo_pipeline [demo_row None (Some ''kms down'')] [[demo_row None (Some ''kms down'')]] {})"
  using pp_step.resign_begin [of "demo_pipeline [demo_row None (Some ''kms down'')] [] {}" 10]
  by (simp add: demo_pipeline_def pp_start_def DequeueUnsignedForResigning_def dequeue_def pp_locked_def needs_resigning_def demo_row_def)

text \<open>The signer is down twice: when the event is stored and in the re-signing round. Its row then has neither a signature nor a mark.\<close>

lemma demo_skipped:
  "pp_step (demo_pipeline [demo_row None (Some ''kms down'')] [[demo_row None (Some ''kms down'')]] {})
     (demo_pipeline [demo_row None None] [] {''J1''})"
proof -
  let ?b = "[demo_row None (Some ''kms down'')]" and ?um = "\<lambda>_. Inr demo_login"
  have "resign_end ?um kms_down (\<lambda>_. True) ?b True \<lparr>bt_rows = ?b, bt_nextID = 2\<rparr> = \<lparr>bt_rows = [demo_row None None], bt_nextID = 2\<rparr>"
    by (simp add: resign_end_def kms_down_def releaseResign_def update_rows_def batch_ids_def demo_row_def)
  with pp_step.resign_done [of "demo_pipeline ?b [?b] {}" "[]" ?b "[]" kms_down ?um "\<lambda>_. True" True, OF _ kms_down_proper refl]
  show ?thesis by (simp add: demo_pipeline_def pp_start_def row_signs_def kms_down_def demo_row_def)
qed

lemma demo_reach: "pp_reach (demo_pipeline [demo_row None None] [] {''J1''})"
  unfolding pp_reach_def using demo_stored demo_resigning demo_skipped by (meson rtranclp.rtrancl_into_rtrancl rtranclp.rtrancl_refl)

text \<open>After that the event is never forwarded, even though the signer and the sink work again.\<close>

lemma skipped_event_never_forwarded:
  assumes "pp_step\<^sup>*\<^sup>* (demo_pipeline [demo_row None None] [] {''J1''}) s"
  shows "demo_row None None \<in> set (bt_rows (pp_table s)) \<and> \<not> is_pending (demo_row None None) \<and> \<not> needs_resigning (demo_row None None)"
  using stuck_forever [OF demo_reach assms, of "demo_row None None"]
  by (auto simp: demo_pipeline_def demo_row_def row_stuck_def is_pending_def needs_resigning_def)

theorem audit_event_not_lost_witness:
  "pp_reach (demo_pipeline [demo_row None None] [] {''J1''})
   \<and> (\<exists>r\<in>set (bt_rows (pp_table (demo_pipeline [demo_row None None] [] {''J1''}))). bf_jti r = ''J1'' \<and> bf_sentAt r = None)"
  using audit_event_not_lost [OF demo_reach, of "''J1''"] demo_reach by (auto simp: demo_pipeline_def pp_start_def)

end
