(* ===== verification/Jwk_Sets.thy ===== *)
theory Jwk_Sets
  imports Audit_Signing
begin

text \<open>
  Published key sets: the rendering of public keys in \<^verbatim>\<open>src/platform/auth/jwks\<close>, the handler of
  \<^verbatim>\<open>src/platform/identity/keyset.go\<close> that serves them, and the parser of \<^verbatim>\<open>src/platform/identity/keysource.go\<close>.

  A public key is an ECDSA key, an RSA key, each possibly a nil pointer, or something else, of which only the name of
  its type matters. Numbers are natural numbers; an absent one is \<open>None\<close>. \<^verbatim>\<open>json.Unmarshal\<close> into the list of entries
  and the text of a base64 error and of a duration are parameters. \<^verbatim>\<open>FillBytes\<close> panics on a number that does not fit;
  a call that may panic has the result \<open>None\<close> then.
\<close>

section \<open>Keys\<close>

record ec_public =
  ec_Curve :: "string option"
  ec_X :: "nat option"
  ec_Y :: "nat option"

record rsa_public =
  rsa_N :: "nat option"
  rsa_E :: int

datatype crypto_key = EcdsaKey "ec_public option" | RsaKey "rsa_public option" | OtherKey string

primrec key_type :: "crypto_key \<Rightarrow> string" where
  "key_type (EcdsaKey _) = ''*ecdsa.PublicKey''"
| "key_type (RsaKey _) = ''*rsa.PublicKey''"
| "key_type (OtherKey t) = t"

text \<open>The curve P-256: the points \<^verbatim>\<open>ecdsa.ParseUncompressedPublicKey\<close> accepts.\<close>

definition p256_p :: nat where
  "p256_p = 0xffffffff00000001000000000000000000000000ffffffffffffffffffffffff"

definition p256_b :: nat where
  "p256_b = 0x5ac635d8aa3a93e7b3ebbd55769886bc651d06b0cc53b0f63bce3c3e27d2604b"

definition on_P256 :: "nat \<Rightarrow> nat \<Rightarrow> bool" where
  "on_P256 x y \<longleftrightarrow> x < p256_p \<and> y < p256_p \<and> y * y mod p256_p = (x * x * x + (p256_p - 3) * x + p256_b) mod p256_p"

section \<open>Publication\<close>

record JWK =
  jwk_Kty :: string
  jwk_Crv :: string
  jwk_Alg :: string
  jwk_Use :: string
  jwk_Kid :: string
  jwk_X :: string
  jwk_Y :: string
  jwk_N :: string
  jwk_E :: string

definition p256CoordBytes :: nat where "p256CoordBytes = 32"

definition MarshalECPublic :: "ec_public option \<Rightarrow> string \<Rightarrow> string \<Rightarrow> string \<Rightarrow> JWK result option" where
  "MarshalECPublic pub kid alg use =
     (case pub of
        None \<Rightarrow> Some (Inl (ErrMsg ''jwks: nil public key''))
      | Some k \<Rightarrow>
          if ec_Curve k \<noteq> Some ''P-256''
          then Some (Inl (ErrMsg (''jwks: unsupported curve '' @ (case ec_Curve k of None \<Rightarrow> ''unknown'' | Some c \<Rightarrow> c)
                                  @ '', only P-256 supported'')))
          else (case (ec_X k, ec_Y k) of
                  (Some x, Some y) \<Rightarrow>
                    (case (big_FillBytes p256CoordBytes x, big_FillBytes p256CoordBytes y) of
                       (Some xb, Some yb) \<Rightarrow>
                         Some (Inr \<lparr>jwk_Kty = ''EC'', jwk_Crv = ''P-256'', jwk_Alg = alg, jwk_Use = use, jwk_Kid = kid,
                                    jwk_X = b64_EncodeToString xb, jwk_Y = b64_EncodeToString yb, jwk_N = [], jwk_E = []\<rparr>)
                     | _ \<Rightarrow> None)
                | _ \<Rightarrow> Some (Inl (ErrMsg ''jwks: EC public key missing X or Y''))))"

fun strip_zeros :: "string \<Rightarrow> string" where
  "strip_zeros (a # b # s) = (if a = CHR 0x00 then strip_zeros (b # s) else a # b # s)"
| "strip_zeros s = s"

definition MarshalRSAPublic :: "rsa_public option \<Rightarrow> string \<Rightarrow> string \<Rightarrow> string \<Rightarrow> JWK result" where
  "MarshalRSAPublic pub kid alg use =
     (case pub of
        None \<Rightarrow> Inl (ErrMsg ''jwks: nil public key'')
      | Some k \<Rightarrow>
          (case rsa_N k of
             None \<Rightarrow> Inl (ErrMsg ''jwks: RSA public key missing N'')
           | Some n \<Rightarrow>
               if rsa_E k \<le> 0 then Inl (ErrMsg (''jwks: RSA public exponent must be positive, got '' @ show_int (rsa_E k)))
               else Inr \<lparr>jwk_Kty = ''RSA'', jwk_Crv = [], jwk_Alg = alg, jwk_Use = use, jwk_Kid = kid, jwk_X = [], jwk_Y = [],
                         jwk_N = b64_EncodeToString (big_Bytes n),
                         jwk_E = b64_EncodeToString (strip_zeros (PutUint64 (nat (rsa_E k))))\<rparr>))"

text \<open>What publishing needs of a signer.\<close>

record key_set_signer =
  kss_Public :: crypto_key
  kss_SigningAlgorithm :: string
  kss_KeyID :: string

definition AddSigningKey :: "key_set_signer option \<Rightarrow> string \<Rightarrow> JWK list \<Rightarrow> JWK list result option" where
  "AddSigningKey signer kid keys =
     (case signer of
        None \<Rightarrow> Some (Inl (ErrMsg ''jwks: nil signer''))
      | Some k \<Rightarrow>
          if kid = [] then Some (Inl (ErrMsg ''jwks: empty kid''))
          else
            let alg = kss_SigningAlgorithm k in
            if alg = ''ES256'' then
              (case kss_Public k of
                 EcdsaKey pub \<Rightarrow>
                   (case MarshalECPublic pub kid alg ''sig'' of
                      None \<Rightarrow> None
                    | Some (Inl err) \<Rightarrow> Some (Inl (ErrWrap (''jwks: marshal EC public for kid='' @ quoted kid @ '': '') err []))
                    | Some (Inr jwk) \<Rightarrow> Some (Inr (keys @ [jwk])))
               | key \<Rightarrow> Some (Inl (ErrMsg (''jwks: '' @ alg @ '' signer has non-ecdsa public key '' @ key_type key))))
            else if alg = ''RS256'' then
              (case kss_Public k of
                 RsaKey pub \<Rightarrow>
                   (case MarshalRSAPublic pub kid alg ''sig'' of
                      Inl err \<Rightarrow> Some (Inl (ErrWrap (''jwks: marshal RSA public for kid='' @ quoted kid @ '': '') err []))
                    | Inr jwk \<Rightarrow> Some (Inr (keys @ [jwk])))
               | key \<Rightarrow> Some (Inl (ErrMsg (''jwks: '' @ alg @ '' signer has non-rsa public key '' @ key_type key))))
            else Some (Inl (ErrMsg (''jwks: unsupported signing algorithm '' @ quoted alg @ '' (want ES256 or RS256)''))))"

definition encode_JWK :: "JWK \<Rightarrow> string" where
  "encode_JWK k =
     (let s = json_string True; om = (\<lambda>n v. opt_field n (v = []) (s v))
      in json_object True
           ([(''kty'', s (jwk_Kty k))] @ om ''crv'' (jwk_Crv k) @ [(''alg'', s (jwk_Alg k)), (''use'', s (jwk_Use k)), (''kid'', s (jwk_Kid k))]
            @ om ''x'' (jwk_X k) @ om ''y'' (jwk_Y k) @ om ''n'' (jwk_N k) @ om ''e'' (jwk_E k)))"

definition Set_MarshalJSON :: "JWK list \<Rightarrow> string" where
  "Set_MarshalJSON keys = json_object True [(''keys'', json_array (map encode_JWK keys))]"

text \<open>\<open>fmt\<close> is \<^verbatim>\<open>fmt.Sprintf("%q", s)\<close>.\<close>

definition RFC7638Thumbprint :: "(string \<Rightarrow> string) \<Rightarrow> (string \<Rightarrow> string) \<Rightarrow> JWK \<Rightarrow> string result" where
  "RFC7638Thumbprint sha256 fmt j =
     (if jwk_Kty j = ''EC'' then
        (if jwk_Crv j = [] then Inl (ErrMsg ''jwks: EC thumbprint requires crv'')
         else if jwk_X j = [] then Inl (ErrMsg ''jwks: EC thumbprint requires x'')
         else if jwk_Y j = [] then Inl (ErrMsg ''jwks: EC thumbprint requires y'')
         else Inr (b64_EncodeToString (sha256 (''{'' @ quoted ''crv'' @ '':'' @ fmt (jwk_Crv j) @ '','' @ quoted ''kty'' @ '':'' @ quoted ''EC''
                     @ '','' @ quoted ''x'' @ '':'' @ fmt (jwk_X j) @ '','' @ quoted ''y'' @ '':'' @ fmt (jwk_Y j) @ ''}''))))
      else if jwk_Kty j = ''RSA'' then
        (if jwk_N j = [] then Inl (ErrMsg ''jwks: RSA thumbprint requires n'')
         else if jwk_E j = [] then Inl (ErrMsg ''jwks: RSA thumbprint requires e'')
         else Inr (b64_EncodeToString (sha256 (''{'' @ quoted ''e'' @ '':'' @ fmt (jwk_E j) @ '','' @ quoted ''kty'' @ '':'' @ quoted ''RSA''
                     @ '','' @ quoted ''n'' @ '':'' @ fmt (jwk_N j) @ ''}''))))
      else Inl (ErrMsg (''jwks: unsupported kty '' @ quoted (jwk_Kty j) @ '' for thumbprint (want EC or RSA)'')))"

section \<open>The handler\<close>

definition ErrNilKeySetSigner :: go_error where "ErrNilKeySetSigner = ErrVar ''identity: key set has no signer''"
definition ErrMissingKeySetKeyID :: go_error where "ErrMissingKeySetKeyID = ErrVar ''identity: key set signer has no key id''"
definition ErrUnpublishableKey :: go_error where "ErrUnpublishableKey = ErrVar ''identity: signing key cannot be published as a jwk''"
definition ErrInvalidKeySetMaxAge :: go_error where
  "ErrInvalidKeySetMaxAge = ErrVar ''identity: key set cache lifetime must be at least one second''"

text \<open>An error that wraps two, the sentinel and its cause; of the cause only the text is kept.\<close>

definition wrap2 :: "go_error \<Rightarrow> go_error \<Rightarrow> go_error" where
  "wrap2 sentinel cause = ErrWrap [] sentinel ('': '' @ error_text cause)"

definition DefaultJWKSCacheTTL :: duration where "DefaultJWKSCacheTTL = 5 * minute"
definition DefaultKeySetMaxAge :: duration where "DefaultKeySetMaxAge = DefaultJWKSCacheTTL"

record key_set_handler =
  ksh_document :: string
  ksh_cacheControl :: string
  ksh_maxAge :: duration

definition NewKeySetHandler ::
  "(duration \<Rightarrow> string) \<Rightarrow> key_set_signer option \<Rightarrow> duration option \<Rightarrow> key_set_handler result option" where
  "NewKeySetHandler show_dur signer opt_maxAge =
     (let maxAge = (case opt_maxAge of None \<Rightarrow> DefaultKeySetMaxAge | Some d \<Rightarrow> d)
      in case signer of
           None \<Rightarrow> Some (Inl ErrNilKeySetSigner)
         | Some k \<Rightarrow>
             if maxAge < second then Some (Inl (ErrWrap [] ErrInvalidKeySetMaxAge ('': got '' @ show_dur maxAge)))
             else if kss_KeyID k = [] then Some (Inl ErrMissingKeySetKeyID)
             else (case AddSigningKey signer (kss_KeyID k) [] of
                     None \<Rightarrow> None
                   | Some (Inl err) \<Rightarrow> Some (Inl (wrap2 ErrUnpublishableKey err))
                   | Some (Inr keys) \<Rightarrow>
                       Some (Inr \<lparr>ksh_document = Set_MarshalJSON keys,
                                  ksh_cacheControl = ''public, max-age='' @ show_int (maxAge div second), ksh_maxAge = maxAge\<rparr>)))"

text \<open>An answer: its status, headers and body.\<close>

definition KeySet_ServeHTTP :: "key_set_handler \<Rightarrow> string \<Rightarrow> int \<times> (string \<times> string) list \<times> string" where
  "KeySet_ServeHTTP h verb =
     (if verb \<noteq> ''GET'' \<and> verb \<noteq> ''HEAD'' then (405, [(''Allow'', ''GET, HEAD''), (''Content-Type'', ''text/plain; charset=utf-8''), (''X-Content-Type-Options'', ''nosniff'')],
            ''method not allowed'' @ [CHR 0x0A])
      else (200, [(''Content-Type'', ''application/jwk-set+json''), (''Content-Length'', show_nat (length (ksh_document h))),
                  (''Cache-Control'', ksh_cacheControl h)],
            if verb = ''HEAD'' then [] else ksh_document h))"

section \<open>Parsing\<close>

definition ErrJWKSMalformed :: go_error where "ErrJWKSMalformed = ErrVar ''identity: key set is not a usable jwks document''"

definition p256CoordinateBytes :: nat where "p256CoordinateBytes = 32"
definition minRSAModulusBits :: nat where "minRSAModulusBits = 2048"

record jwk_entry =
  je_Kty :: string
  je_Kid :: string
  je_Crv :: string
  je_Use :: string
  je_X :: string
  je_Y :: string
  je_N :: string
  je_E :: string

definition coordinate :: "(string \<Rightarrow> string) \<Rightarrow> string \<Rightarrow> nat \<Rightarrow> nat result" where
  "coordinate bad64 encoded width =
     (if encoded = [] then Inl (ErrMsg ''coordinate is absent'')
      else (case b64_DecodeString encoded of
              None \<Rightarrow> Inl (ErrMsg (''coordinate is not unpadded base64url: '' @ bad64 encoded))
            | Some decoded \<Rightarrow>
                if length decoded > width
                then Inl (ErrMsg (''coordinate is '' @ show_nat (length decoded) @ '' bytes, wider than the '' @ show_nat width @ ''-byte curve''))
                else Inr (big_SetBytes decoded)))"

definition ecPublicKey :: "(string \<Rightarrow> string) \<Rightarrow> jwk_entry \<Rightarrow> crypto_key result" where
  "ecPublicKey bad64 k =
     (if je_Crv k \<noteq> ''P-256'' then Inl (ErrMsg (''unsupported curve '' @ quoted (je_Crv k)))
      else (case coordinate bad64 (je_X k) p256CoordinateBytes of
              Inl err \<Rightarrow> Inl (ErrWrap ''x: '' err [])
            | Inr x \<Rightarrow>
                (case coordinate bad64 (je_Y k) p256CoordinateBytes of
                   Inl err \<Rightarrow> Inl (ErrWrap ''y: '' err [])
                 | Inr y \<Rightarrow>
                     if on_P256 x y then Inr (EcdsaKey (Some \<lparr>ec_Curve = Some ''P-256'', ec_X = Some x, ec_Y = Some y\<rparr>))
                     else Inl (ErrMsg ''crypto/ecdsa: invalid public key''))))"

definition rsaPublicKey :: "(string \<Rightarrow> string) \<Rightarrow> jwk_entry \<Rightarrow> crypto_key result" where
  "rsaPublicKey bad64 k =
     (if je_N k = [] \<or> je_E k = [] then Inl (ErrMsg ''modulus or exponent is absent'')
      else (case b64_DecodeString (je_N k) of
              None \<Rightarrow> Inl (ErrMsg (''modulus is not unpadded base64url: '' @ bad64 (je_N k)))
            | Some nb \<Rightarrow>
                (case b64_DecodeString (je_E k) of
                   None \<Rightarrow> Inl (ErrMsg (''exponent is not unpadded base64url: '' @ bad64 (je_E k)))
                 | Some eb \<Rightarrow>
                     let modulus = big_SetBytes nb; exponent = big_SetBytes eb
                     in if big_BitLen modulus < minRSAModulusBits
                        then Inl (ErrMsg (''modulus is '' @ show_nat (big_BitLen modulus) @ '' bits, below the ''
                                          @ show_nat minRSAModulusBits @ ''-bit floor''))
                        else if big_BitLen exponent > 31 then Inl (ErrMsg ''public exponent does not fit in an int'')
                        else if exponent < 3 \<or> even exponent
                        then Inl (ErrMsg (''public exponent '' @ show_nat exponent @ '' is not usable''))
                        else Inr (RsaKey (Some \<lparr>rsa_N = Some modulus, rsa_E = int exponent\<rparr>)))))"

definition jwk_publicKey :: "(string \<Rightarrow> string) \<Rightarrow> jwk_entry \<Rightarrow> crypto_key result" where
  "jwk_publicKey bad64 k =
     (if je_Kty k = ''EC'' then ecPublicKey bad64 k
      else if je_Kty k = ''RSA'' then rsaPublicKey bad64 k
      else Inl (ErrMsg (''unsupported key type '' @ quoted (je_Kty k))))"

definition jwks_entry_step :: "(string \<Rightarrow> string) \<Rightarrow> jwk_entry \<Rightarrow> (string, crypto_key) gomap \<Rightarrow> (string, crypto_key) gomap" where
  "jwks_entry_step bad64 entry m =
     (if je_Kid entry = [] \<or> (je_Use entry \<noteq> [] \<and> je_Use entry \<noteq> ''sig'') then m
      else if gm_get m (je_Kid entry) \<noteq> None then m
      else (case jwk_publicKey bad64 entry of Inl _ \<Rightarrow> m | Inr key \<Rightarrow> gm_put (je_Kid entry) key m))"

definition parseJWKS ::
  "(string \<Rightarrow> jwk_entry list result) \<Rightarrow> (string \<Rightarrow> string) \<Rightarrow> string \<Rightarrow> (string, crypto_key) gomap result" where
  "parseJWKS decode bad64 body =
     (case decode body of
        Inl err \<Rightarrow> Inl (wrap2 ErrJWKSMalformed err)
      | Inr entries \<Rightarrow>
          let m = fold (jwks_entry_step bad64) entries []
          in if m = [] then Inl (ErrWrap [] ErrJWKSMalformed '': no usable verification key'') else Inr m)"

end
