(* ===== verification/Remote_Keys.thy ===== *)
theory Remote_Keys
  imports Jwk_Sets
begin

text \<open>
  The key sources of \<^verbatim>\<open>src/platform/identity/keysource.go\<close>: a fixed set of keys, and the cached key set of a remote
  issuer with its two triggers for a fetch and the floor between fetches.

  \<^verbatim>\<open>http.Client.Do\<close> and \<^verbatim>\<open>url.Parse\<close> are parameters. The mutex is held during a whole lookup, so lookups are steps. A
  lookup also yields the requests it sent, at most one.
\<close>

section \<open>Fixed keys\<close>

definition ErrUnknownKeyID :: go_error where "ErrUnknownKeyID = ErrVar ''identity: no verification key for key id''"

definition unknown_kid :: "string \<Rightarrow> go_error" where
  "unknown_kid kid = ErrWrap [] ErrUnknownKeyID ('': '' @ quoted kid)"

definition no_kid :: go_error where
  "no_kid = ErrWrap [] ErrUnknownKeyID '': token carries no key id''"

text \<open>A nil interface is \<open>None\<close>.\<close>

fun NewStaticKeys :: "(string, crypto_key option) gomap \<Rightarrow> (string, crypto_key) gomap" where
  "NewStaticKeys [] = []"
| "NewStaticKeys ((kid, key) # keys) =
     (if kid = [] then NewStaticKeys keys
      else (case key of None \<Rightarrow> NewStaticKeys keys | Some k \<Rightarrow> (kid, k) # NewStaticKeys keys))"

definition StaticKeys_KeyForKID :: "(string, crypto_key) gomap \<Rightarrow> string \<Rightarrow> crypto_key result" where
  "StaticKeys_KeyForKID keys kid =
     (if kid = [] then Inl no_kid
      else (case gm_get keys kid of None \<Rightarrow> Inl (unknown_kid kid) | Some key \<Rightarrow> Inr key))"

section \<open>A remote key set\<close>

definition ErrMissingJWKSURL :: go_error where "ErrMissingJWKSURL = ErrVar ''identity: key set url is empty''"
definition ErrInvalidJWKSURL :: go_error where
  "ErrInvalidJWKSURL = ErrVar ''identity: key set url must be an absolute http or https url''"
definition ErrNilHTTPClient :: go_error where "ErrNilHTTPClient = ErrVar ''identity: http client must not be nil''"
definition ErrInvalidCacheTTL :: go_error where "ErrInvalidCacheTTL = ErrVar ''identity: key set cache lifetime must be positive''"
definition ErrInvalidRefetchInterval :: go_error where
  "ErrInvalidRefetchInterval = ErrVar ''identity: minimum refetch interval must be positive and no longer than the cache lifetime''"
definition ErrInvalidClock :: go_error where "ErrInvalidClock = ErrVar ''identity: clock must not be nil''"
definition ErrJWKSUnavailable :: go_error where "ErrJWKSUnavailable = ErrVar ''identity: key set could not be fetched''"

definition DefaultJWKSMinRefetchInterval :: duration where "DefaultJWKSMinRefetchInterval = 30 * second"
definition maxJWKSBytes :: nat where "maxJWKSBytes = 1048576"

text \<open>The options: whether a client and a clock were given that are nil, the lifetime and the floor.\<close>

record jwks_options =
  jo_nilClient :: bool
  jo_nilClock :: bool
  jo_ttl :: "duration option"
  jo_minRefetch :: "duration option"

record remote_jwks =
  rj_url :: string
  rj_ttl :: duration
  rj_minRefetch :: duration
  rj_keys :: "(string, crypto_key) gomap"
  rj_fetchedAt :: go_time
  rj_lastAttempt :: go_time

text \<open>\<open>url_parse\<close> gives the scheme and the host.\<close>

definition NewRemoteJWKS ::
  "(string \<Rightarrow> (string \<times> string) result) \<Rightarrow> (duration \<Rightarrow> string) \<Rightarrow> string \<Rightarrow> jwks_options \<Rightarrow> remote_jwks result" where
  "NewRemoteJWKS url_parse show_dur url opts =
     (let ttl = (case jo_ttl opts of None \<Rightarrow> DefaultJWKSCacheTTL | Some d \<Rightarrow> d);
          minRefetch = (case jo_minRefetch opts of None \<Rightarrow> DefaultJWKSMinRefetchInterval | Some d \<Rightarrow> d)
      in if url = [] then Inl ErrMissingJWKSURL
         else (case url_parse url of
                 Inl err \<Rightarrow> Inl (wrap2 ErrInvalidJWKSURL err)
               | Inr (scheme, host) \<Rightarrow>
                   if scheme \<noteq> ''http'' \<and> scheme \<noteq> ''https'' then Inl (ErrWrap [] ErrInvalidJWKSURL ('': got scheme '' @ quoted scheme))
                   else if host = [] then Inl (ErrWrap [] ErrInvalidJWKSURL '': no host'')
                   else if jo_nilClient opts then Inl ErrNilHTTPClient
                   else if ttl \<le> 0 then Inl (ErrWrap [] ErrInvalidCacheTTL ('': got '' @ show_dur ttl))
                   else if minRefetch \<le> 0 \<or> minRefetch > ttl
                   then Inl (ErrWrap [] ErrInvalidRefetchInterval
                               ('': got '' @ show_dur minRefetch @ '' with a cache lifetime of '' @ show_dur ttl))
                   else if jo_nilClock opts then Inl ErrInvalidClock
                   else Inr \<lparr>rj_url = url, rj_ttl = ttl, rj_minRefetch = minRefetch, rj_keys = [], rj_fetchedAt = 0, rj_lastAttempt = 0\<rparr>))"

text \<open>
  What a request can come to: it could not be built or sent, or it was answered with a status code, a status line
  and a body, whose reading may fail.
\<close>

datatype http_outcome = NotSent go_error | Answered int string "string result"

definition jwks_fetch ::
  "(string \<Rightarrow> jwk_entry list result) \<Rightarrow> (string \<Rightarrow> string) \<Rightarrow> string \<Rightarrow> http_outcome \<Rightarrow> (string, crypto_key) gomap result" where
  "jwks_fetch decode bad64 url outcome =
     (case outcome of
        NotSent err \<Rightarrow> Inl (wrap2 ErrJWKSUnavailable err)
      | Answered status statusLine body \<Rightarrow>
          if status < 200 \<or> status \<ge> 300
          then Inl (ErrWrap [] ErrJWKSUnavailable ('': '' @ url @ '' responded '' @ statusLine))
          else (case body of
                  Inl err \<Rightarrow> Inl (wrap2 ErrJWKSUnavailable err)
                | Inr full \<Rightarrow>
                    let b = take (maxJWKSBytes + 1) full
                    in if length b > maxJWKSBytes
                       then Inl (ErrWrap [] ErrJWKSMalformed ('': document exceeds '' @ show_nat maxJWKSBytes @ '' bytes''))
                       else parseJWKS decode bad64 b))"

definition expiredLocked :: "remote_jwks \<Rightarrow> go_time \<Rightarrow> bool" where
  "expiredLocked r now \<longleftrightarrow> rj_fetchedAt r = 0 \<or> \<not> now < rj_fetchedAt r + rj_ttl r"

definition throttledLocked :: "remote_jwks \<Rightarrow> go_time \<Rightarrow> bool" where
  "throttledLocked r now \<longleftrightarrow> rj_lastAttempt r \<noteq> 0 \<and> now < rj_lastAttempt r + rj_minRefetch r"

text \<open>\<open>fetched\<close> is what the fetch comes to, if one is made.\<close>

definition refreshLocked ::
  "(string, crypto_key) gomap result \<Rightarrow> go_time \<Rightarrow> remote_jwks \<Rightarrow> go_error option \<times> remote_jwks" where
  "refreshLocked fetched now r =
     (let r = r\<lparr>rj_lastAttempt := now\<rparr>
      in case fetched of
           Inl err \<Rightarrow> (Some err, r)
         | Inr m \<Rightarrow> (None, r\<lparr>rj_keys := m, rj_fetchedAt := now\<rparr>))"

definition RemoteJWKS_KeyForKID ::
  "(string, crypto_key) gomap result \<Rightarrow> go_time \<Rightarrow> string \<Rightarrow> remote_jwks \<Rightarrow> crypto_key result \<times> string list \<times> remote_jwks" where
  "RemoteJWKS_KeyForKID fetched now kid r =
     (if kid = [] then (Inl no_kid, [], r)
      else
        (case (gm_get (rj_keys r) kid, expiredLocked r now) of
           (Some key, False) \<Rightarrow> (Inr key, [], r)
         | (cached, _) \<Rightarrow>
             if throttledLocked r now
             then ((case cached of Some key \<Rightarrow> Inr key | None \<Rightarrow> Inl (unknown_kid kid)), [], r)
             else (case refreshLocked fetched now r of
                     (Some err, r') \<Rightarrow> (Inl err, [rj_url r], r')
                   | (None, r') \<Rightarrow>
                       ((case gm_get (rj_keys r') kid of None \<Rightarrow> Inl (unknown_kid kid) | Some key \<Rightarrow> Inr key), [rj_url r], r'))))"

section \<open>Sequences of lookups\<close>

text \<open>A lookup: when, for which key, and what a fetch would come to at that moment.\<close>

record key_lookup =
  kl_now :: go_time
  kl_kid :: string
  kl_fetch :: "(string, crypto_key) gomap result"

abbreviation lookup :: "key_lookup \<Rightarrow> remote_jwks \<Rightarrow> crypto_key result \<times> string list \<times> remote_jwks" where
  "lookup l r \<equiv> RemoteJWKS_KeyForKID (kl_fetch l) (kl_now l) (kl_kid l) r"

text \<open>The run of a sequence: the lookups that sent a request, in order, and the source afterwards.\<close>

definition lookup_step :: "key_lookup list \<times> remote_jwks \<Rightarrow> key_lookup \<Rightarrow> key_lookup list \<times> remote_jwks" where
  "lookup_step s l =
     (case lookup l (snd s) of (res, reqs, r) \<Rightarrow> (fst s @ (if reqs = [] then [] else [l]), r))"

definition lookup_run :: "key_lookup list \<Rightarrow> remote_jwks \<Rightarrow> key_lookup list \<times> remote_jwks" where
  "lookup_run ls r = foldl lookup_step ([], r) ls"

definition succeeded :: "key_lookup \<Rightarrow> bool" where
  "succeeded l \<longleftrightarrow> (case kl_fetch l of Inl _ \<Rightarrow> False | Inr _ \<Rightarrow> True)"

definition fetched_set :: "key_lookup \<Rightarrow> (string, crypto_key) gomap" where
  "fetched_set l = (case kl_fetch l of Inl _ \<Rightarrow> [] | Inr m \<Rightarrow> m)"

text \<open>What the state of a source is in terms of the fetches made.\<close>

definition source_state :: "remote_jwks \<Rightarrow> key_lookup list \<Rightarrow> remote_jwks \<Rightarrow> bool" where
  "source_state r0 fetches r \<longleftrightarrow>
     rj_url r = rj_url r0 \<and> rj_ttl r = rj_ttl r0 \<and> rj_minRefetch r = rj_minRefetch r0
     \<and> rj_lastAttempt r = (if fetches = [] then 0 else kl_now (last fetches))
     \<and> (case filter succeeded fetches of
          [] \<Rightarrow> rj_keys r = [] \<and> rj_fetchedAt r = 0
        | _ \<Rightarrow> rj_keys r = fetched_set (last (filter succeeded fetches)) \<and> rj_fetchedAt r = kl_now (last (filter succeeded fetches)))"

text \<open>A lookup either leaves the source alone or fetches; when it fetches depends on the cache and the floor only.\<close>

definition wants_fetch :: "remote_jwks \<Rightarrow> key_lookup \<Rightarrow> bool" where
  "wants_fetch r l \<longleftrightarrow> kl_kid l \<noteq> [] \<and> (gm_get (rj_keys r) (kl_kid l) = None \<or> expiredLocked r (kl_now l)) \<and> \<not> throttledLocked r (kl_now l)"

lemma lookup_cases:
  "lookup l r =
     (if kl_kid l = [] then (Inl no_kid, [], r)
      else if wants_fetch r l
      then ((case kl_fetch l of
               Inl err \<Rightarrow> Inl err
             | Inr m \<Rightarrow> (case gm_get m (kl_kid l) of None \<Rightarrow> Inl (unknown_kid (kl_kid l)) | Some key \<Rightarrow> Inr key)),
            [rj_url r], snd (refreshLocked (kl_fetch l) (kl_now l) r))
      else ((case gm_get (rj_keys r) (kl_kid l) of None \<Rightarrow> Inl (unknown_kid (kl_kid l)) | Some key \<Rightarrow> Inr key), [], r))"
  by (auto simp: RemoteJWKS_KeyForKID_def wants_fetch_def refreshLocked_def Let_def split: option.splits sum.splits bool.splits)

lemma lookup_run_Nil [simp]: "lookup_run [] r = ([], r)"
  by (simp add: lookup_run_def)

lemma lookup_run_snoc:
  "lookup_run (ls @ [l]) r =
     (if wants_fetch (snd (lookup_run ls r)) l
      then (fst (lookup_run ls r) @ [l], snd (refreshLocked (kl_fetch l) (kl_now l) (snd (lookup_run ls r))))
      else lookup_run ls r)"
  by (auto simp: lookup_run_def lookup_step_def lookup_cases wants_fetch_def prod_eq_iff)

lemma source_state_start:
  "NewRemoteJWKS url_parse show_dur url opts = Inr r \<Longrightarrow> source_state r [] r \<and> 0 < rj_minRefetch r \<and> rj_minRefetch r \<le> rj_ttl r"
  by (auto simp: NewRemoteJWKS_def Let_def source_state_def split: if_splits sum.splits)

lemma source_state_refresh:
  "source_state r0 fetches r \<Longrightarrow> source_state r0 (fetches @ [l]) (snd (refreshLocked (kl_fetch l) (kl_now l) r))"
  by (auto simp: source_state_def refreshLocked_def Let_def succeeded_def fetched_set_def split: sum.splits list.splits if_splits)

lemma lookup_run_state: "source_state r [] r \<Longrightarrow> source_state r (fst (lookup_run ls r)) (snd (lookup_run ls r))"
proof (induction ls rule: rev_induct)
  case Nil
  then show ?case by (simp add: lookup_run_def)
next
  case (snoc l ls)
  then show ?case by (simp add: lookup_run_snoc source_state_refresh)
qed

lemma lookup_run_subset: "set (fst (lookup_run ls r)) \<subseteq> set ls"
  by (induction ls rule: rev_induct) (auto simp: lookup_run_snoc split: if_splits)

lemma fetches_spaced:
  assumes "source_state r [] r" "\<forall>l\<in>set ls. 0 < kl_now l" "0 < rj_minRefetch r"
  shows "sorted_wrt (\<lambda>a b. kl_now a + rj_minRefetch r \<le> kl_now b) (fst (lookup_run ls r))"
  using assms(2)
proof (induction ls rule: rev_induct)
  case Nil
  then show ?case by (simp add: lookup_run_def)
next
  case (snoc l ls)
  let ?fs = "fst (lookup_run ls r)" and ?r = "snd (lookup_run ls r)"
  have st: "source_state r ?fs ?r" using assms(1) by (rule lookup_run_state)
  have IH: "sorted_wrt (\<lambda>a b. kl_now a + rj_minRefetch r \<le> kl_now b) ?fs" using snoc by simp
  show ?case
  proof (cases "wants_fetch ?r l")
    case True
    have "kl_now a + rj_minRefetch r \<le> kl_now l" if a: "a \<in> set ?fs" for a
    proof -
      from a have "?fs \<noteq> []" by auto
      then have fs: "?fs = butlast ?fs @ [last ?fs]" by simp
      have "last ?fs \<in> set ls" using \<open>?fs \<noteq> []\<close> lookup_run_subset [of ls r] last_in_set by blast
      with snoc(2) have "0 < kl_now (last ?fs)" by simp
      with True st \<open>?fs \<noteq> []\<close> have le: "kl_now (last ?fs) + rj_minRefetch r \<le> kl_now l"
        by (auto simp: wants_fetch_def throttledLocked_def source_state_def)
      from a fs consider "a = last ?fs" | "a \<in> set (butlast ?fs)" by (metis Un_iff empty_iff insert_iff list.set set_append)
      then show ?thesis
      proof cases
        case 2
        have "sorted_wrt (\<lambda>a b. kl_now a + rj_minRefetch r \<le> kl_now b) (butlast ?fs @ [last ?fs])" using IH fs by simp
        with 2 have "kl_now a + rj_minRefetch r \<le> kl_now (last ?fs)" by (simp add: sorted_wrt_append)
        with le assms(3) show ?thesis by linarith
      qed (use le in simp)
    qed
    with True IH show ?thesis by (simp add: lookup_run_snoc sorted_wrt_append)
  qed (use IH in \<open>simp add: lookup_run_snoc\<close>)
qed

lemma last_filter_last: "xs \<noteq> [] \<Longrightarrow> P (last xs) \<Longrightarrow> filter P xs \<noteq> [] \<and> last (filter P xs) = last xs"
  by (induction xs rule: rev_induct) simp_all

lemma source_has_fetched:
  assumes "source_state r0 fetches r" "rj_fetchedAt r \<noteq> 0 \<or> rj_keys r \<noteq> []"
  shows "filter succeeded fetches \<noteq> [] \<and> rj_keys r = fetched_set (last (filter succeeded fetches))
       \<and> rj_fetchedAt r = kl_now (last (filter succeeded fetches))"
  using assms by (auto simp: source_state_def split: list.splits)

lemma source_last_fetch:
  assumes "source_state r0 fetches r" "fetches \<noteq> []" "succeeded (last fetches)"
  shows "rj_keys r = fetched_set (last fetches) \<and> rj_fetchedAt r = kl_now (last fetches)"
  using assms last_filter_last [of fetches succeeded] by (auto simp: source_state_def split: list.splits)

text \<open>Where an answer comes from: the last usable document, either within its lifetime or while a failed fetch may not be retried.\<close>

lemma answer_origin:
  assumes st: "source_state r [] r" and ttl: "rj_minRefetch r \<le> rj_ttl r" and pos: "\<forall>l\<in>set ls. 0 < kl_now l"
    and res: "fst (lookup l (snd (lookup_run ls r))) = Inr key"
    and fs: "fs = fst (lookup_run (ls @ [l]) r)" and ttl0: "0 < rj_ttl r"
  shows "filter succeeded fs \<noteq> [] \<and> gm_get (fetched_set (last (filter succeeded fs))) (kl_kid l) = Some key
       \<and> (kl_now l < kl_now (last (filter succeeded fs)) + rj_ttl r \<or> \<not> succeeded (last fs) \<and> kl_now l < kl_now (last fs) + rj_minRefetch r)"
proof -
  let ?r = "snd (lookup_run ls r)" and ?fs = "fst (lookup_run ls r)"
  have state: "source_state r ?fs ?r" using st by (rule lookup_run_state)
  then have par: "rj_ttl ?r = rj_ttl r" "rj_minRefetch ?r = rj_minRefetch r" by (simp_all add: source_state_def)
  have kid: "kl_kid l \<noteq> []" using res by (auto simp: lookup_cases)
  show ?thesis
  proof (cases "wants_fetch ?r l")
    case True
    then have f: "fs = ?fs @ [l]" using fs by (simp add: lookup_run_snoc)
    from True res kid obtain m where m: "kl_fetch l = Inr m" "gm_get m (kl_kid l) = Some key"
      by (auto simp: lookup_cases split: sum.splits option.splits)
    then have "succeeded l" "fetched_set l = m" by (simp_all add: succeeded_def fetched_set_def)
    with m f ttl0 show ?thesis by simp
  next
    case False
    then have f: "fs = ?fs" using fs by (simp add: lookup_run_snoc)
    from False res kid have got: "gm_get (rj_keys ?r) (kl_kid l) = Some key"
      by (auto simp: lookup_cases split: option.splits)
    then have "rj_keys ?r \<noteq> []" by auto
    then have last: "filter succeeded ?fs \<noteq> []" "rj_keys ?r = fetched_set (last (filter succeeded ?fs))"
        "rj_fetchedAt ?r = kl_now (last (filter succeeded ?fs))"
      using source_has_fetched [OF state] by simp_all
    then have ne: "?fs \<noteq> []" by auto
    have "kl_now l < kl_now (last (filter succeeded ?fs)) + rj_ttl r \<or> \<not> succeeded (last ?fs) \<and> kl_now l < kl_now (last ?fs) + rj_minRefetch r"
    proof (cases "expiredLocked ?r (kl_now l)")
      case False
      then show ?thesis using last(3) par by (auto simp: expiredLocked_def)
    next
      case True
      with False got kid have "throttledLocked ?r (kl_now l)" by (simp add: wants_fetch_def)
      with state ne par have "kl_now l < kl_now (last ?fs) + rj_minRefetch r" by (simp add: throttledLocked_def source_state_def)
      with source_last_fetch [OF state ne] last(3) ttl show ?thesis by (cases "succeeded (last ?fs)") auto
    qed
    with f got last show ?thesis by simp
  qed
qed

text \<open>When the fetches of the last lifetime all yield one document, lookups answer from it.\<close>

lemma settled_source:
  assumes st: "source_state r [] r" and ttl: "rj_minRefetch r \<le> rj_ttl r"
    and fetch: "\<forall>x\<in>set ls. kl_now l < kl_now x + rj_ttl r \<longrightarrow> kl_fetch x = Inr m" "kl_fetch l = Inr m"
    and kid: "kl_kid l \<noteq> []" and new: "gm_get m (kl_kid l) = Some key"
  shows "fst (lookup l (snd (lookup_run ls r))) = Inr key"
proof -
  let ?r = "snd (lookup_run ls r)" and ?fs = "fst (lookup_run ls r)"
  have state: "source_state r ?fs ?r" using st by (rule lookup_run_state)
  then have par: "rj_ttl ?r = rj_ttl r" "rj_minRefetch ?r = rj_minRefetch r" by (simp_all add: source_state_def)
  have recent: "kl_fetch x = Inr m" if "x \<in> set ?fs" "kl_now l < kl_now x + rj_ttl r" for x
    using that fetch(1) lookup_run_subset [of ls r] by auto
  show ?thesis
  proof (cases "wants_fetch ?r l")
    case True
    with fetch(2) kid new show ?thesis by (subst lookup_cases) simp
  next
    case False
    have "rj_keys ?r = m"
    proof (cases "throttledLocked ?r (kl_now l)")
      case True
      then have ne: "?fs \<noteq> []" using state by (auto simp: throttledLocked_def source_state_def)
      with True state par have "kl_now l < kl_now (last ?fs) + rj_minRefetch r" by (simp add: throttledLocked_def source_state_def)
      with recent [of "last ?fs"] ne ttl have "kl_fetch (last ?fs) = Inr m" by simp
      with source_last_fetch [OF state ne] show ?thesis by (simp add: succeeded_def fetched_set_def)
    next
      case nt: False
      with False kid have ex: "\<not> expiredLocked ?r (kl_now l)" by (simp add: wants_fetch_def)
      then have "rj_fetchedAt ?r \<noteq> 0" by (simp add: expiredLocked_def)
      with source_has_fetched [OF state] have last: "filter succeeded ?fs \<noteq> []" "rj_keys ?r = fetched_set (last (filter succeeded ?fs))"
        "rj_fetchedAt ?r = kl_now (last (filter succeeded ?fs))" by simp_all
      then have "last (filter succeeded ?fs) \<in> set ?fs" using last_in_set by (metis filter_is_subset subsetD)
      with recent [of "last (filter succeeded ?fs)"] last ex par show ?thesis by (auto simp: expiredLocked_def fetched_set_def)
    qed
    with False kid new show ?thesis by (simp add: lookup_cases)
  qed
qed

text \<open>So a key replaced under an unchanged identifier is picked up one lifetime later, if the issuer can be reached.\<close>

lemma rotation_heals:
  assumes "source_state r [] r" "rj_minRefetch r \<le> rj_ttl r" "0 < rj_ttl r"
    and "\<forall>x\<in>set (ls @ [l]). t \<le> kl_now x \<longrightarrow> kl_fetch x = Inr m"
    and "t + rj_ttl r \<le> kl_now l" "kl_kid l \<noteq> []" "gm_get m (kl_kid l) = Some key"
  shows "fst (lookup l (snd (lookup_run ls r))) = Inr key"
  using assms by (intro settled_source [OF assms(1,2) _ _ assms(6,7)]) auto

text \<open>
  C19: The cached keys of a remote issuer. For every source the constructor accepts and every sequence of lookups, with
  whatever key identifiers: two requests to the issuer are at least the refetch floor apart; a key is answered only
  from the last usable document, fetched less than one lifetime ago, unless the last fetch failed and the floor still
  holds off the next; and once the issuer serves a document, even one with a new key under an old identifier, every
  lookup one lifetime later answers from it.
\<close>

theorem remote_keys_bounded:
  assumes "NewRemoteJWKS url_parse show_dur url opts = Inr r" and "\<forall>x\<in>set ls. 0 < kl_now x"
  shows "sorted_wrt (\<lambda>a b. kl_now a + rj_minRefetch r \<le> kl_now b) (fst (lookup_run ls r))
    \<and> (fst (lookup l (snd (lookup_run ls r))) = Inr key \<longrightarrow>
         (let fs = fst (lookup_run (ls @ [l]) r); a = last (filter succeeded fs)
          in filter succeeded fs \<noteq> [] \<and> gm_get (fetched_set a) (kl_kid l) = Some key
             \<and> (kl_now l < kl_now a + rj_ttl r \<or> \<not> succeeded (last fs) \<and> kl_now l < kl_now (last fs) + rj_minRefetch r)))
    \<and> ((\<forall>x\<in>set (ls @ [l]). t \<le> kl_now x \<longrightarrow> kl_fetch x = Inr m) \<longrightarrow> t + rj_ttl r \<le> kl_now l \<longrightarrow>
         kl_kid l \<noteq> [] \<longrightarrow> gm_get m (kl_kid l) = Some key' \<longrightarrow> fst (lookup l (snd (lookup_run ls r))) = Inr key')"
proof -
  have st: "source_state r [] r" "0 < rj_minRefetch r" "rj_minRefetch r \<le> rj_ttl r" "0 < rj_ttl r"
    using source_state_start [OF assms(1)] by auto
  show ?thesis
    using fetches_spaced [OF st(1) assms(2) st(2)] answer_origin [OF st(1,3) assms(2) _ refl st(4), where l = l and key = key]
      rotation_heals [OF st(1,3,4)]
    by (simp add: Let_def)
qed

definition demo_source :: remote_jwks where
  "demo_source = \<lparr>rj_url = ''https://id.example/jwks'', rj_ttl = 300 * second, rj_minRefetch = 30 * second, rj_keys = [],
                  rj_fetchedAt = 0, rj_lastAttempt = 0\<rparr>"

definition demo_lookup :: "int \<Rightarrow> string \<Rightarrow> string \<Rightarrow> key_lookup" where
  "demo_lookup t kid key = \<lparr>kl_now = t * second, kl_kid = kid, kl_fetch = Inr [(''k1'', OtherKey key)]\<rparr>"

text \<open>The key behind \<open>k1\<close> changes after the first second; an unknown identifier does not cause a second request.\<close>

theorem remote_keys_bounded_witness:
  "map kl_now (fst (lookup_run [demo_lookup 1 ''k1'' ''old'', demo_lookup 2 ''zz'' ''new''] demo_source)) = [1 * second]
   \<and> fst (lookup (demo_lookup 302 ''k1'' ''new'')
             (snd (lookup_run [demo_lookup 1 ''k1'' ''old'', demo_lookup 2 ''zz'' ''new''] demo_source))) = Inr (OtherKey ''new'')"
proof -
  let ?ls = "[demo_lookup 1 ''k1'' ''old'', demo_lookup 2 ''zz'' ''new'']" and ?l = "demo_lookup 302 ''k1'' ''new''"
  have new: "NewRemoteJWKS (\<lambda>u. Inr (''https'', ''id.example'')) (\<lambda>d. []) ''https://id.example/jwks''
      \<lparr>jo_nilClient = False, jo_nilClock = False, jo_ttl = None, jo_minRefetch = None\<rparr> = Inr demo_source"
    by (simp add: NewRemoteJWKS_def demo_source_def DefaultJWKSCacheTTL_def DefaultJWKSMinRefetchInterval_def)
  have pos: "\<forall>x\<in>set ?ls. 0 < kl_now x" by (simp add: demo_lookup_def)
  have heal: "\<forall>x\<in>set (?ls @ [?l]). 2 * second \<le> kl_now x \<longrightarrow> kl_fetch x = Inr [(''k1'', OtherKey ''new'')]"
    "2 * second + rj_ttl demo_source \<le> kl_now ?l" "kl_kid ?l \<noteq> []" "gm_get [(''k1'', OtherKey ''new'')] (kl_kid ?l) = Some (OtherKey ''new'')"
    by (simp_all add: demo_lookup_def demo_source_def gm_get_def)
  have "fst (lookup ?l (snd (lookup_run ?ls demo_source))) = Inr (OtherKey ''new'')"
    using remote_keys_bounded [OF new pos, of ?l _ "2 * second"] heal by blast
  moreover have "map kl_now (fst (lookup_run ?ls demo_source)) = [1 * second]" by code_simp
  ultimately show ?thesis by simp
qed

end
