(* ===== verification/Identity.thy ===== *)
theory Identity
  imports Remote_Keys Go_Jwt
begin

text \<open>
  Signed identity contexts: \<^verbatim>\<open>src/platform/identity\<close> (claims, authentication and assurance, minter, issuer, verifier)
  and the signing methods of \<^verbatim>\<open>src/platform/auth/kmssigner\<close>.

  The JWT library, \<^verbatim>\<open>github.com/golang-jwt/jwt/v5\<close>, is a parameter, \<open>jwt_lib\<close>: building a signed token, reading one
  without verification, and parsing one with a key function. So are SHA-256, the routines of \<^verbatim>\<open>crypto/ecdsa\<close> and
  \<^verbatim>\<open>crypto/rsa\<close>, the signer, the credential verifier and the claims resolver. A key source is the function it is at the
  moment of the call. Reading the clock is an argument.
\<close>

section \<open>Signing methods\<close>

text \<open>The platform's key surface: the signer of \<^verbatim>\<open>kms\<close> with its public half and its health check.\<close>

record key_surface = kms_signer +
  ks_Public :: crypto_key
  ks_HealthCheck :: "go_error option"

datatype method_key = KeySigner key_surface | KeyPublic crypto_key | KeyOther string

primrec method_key_type :: "method_key \<Rightarrow> string" where
  "method_key_type (KeySigner s) = ''kmssigner.Signer''"
| "method_key_type (KeyPublic k) = key_type k"
| "method_key_type (KeyOther t) = t"

definition ErrAlgMismatch :: go_error where "ErrAlgMismatch = ErrVar ''kmssigner: signer alg does not match method alg''"
definition jwt_ErrInvalidKeyType :: go_error where "jwt_ErrInvalidKeyType = ErrVar ''key is of invalid type''"
definition jwt_ErrTokenSignatureInvalid :: go_error where "jwt_ErrTokenSignatureInvalid = ErrVar ''token signature is invalid''"

definition ES256_Sign ::
  "(string \<Rightarrow> string) \<Rightarrow> (string \<Rightarrow> (int \<times> int \<times> string) result) \<Rightarrow> string \<Rightarrow> method_key \<Rightarrow> string result" where
  "ES256_Sign sha256 asn1 signingString key =
     (case key of
        KeySigner signer \<Rightarrow>
          if ks_SigningAlgorithm signer \<noteq> ''ES256''
          then Inl (ErrWrap [] ErrAlgMismatch ('': signer reports '' @ quoted (ks_SigningAlgorithm signer) @ '', method is ES256''))
          else (case ks_Sign signer (sha256 signingString) of
                  Inl err \<Rightarrow> Inl (ErrWrap ''kmssigner: ES256 sign: '' err [])
                | Inr der \<Rightarrow>
                    (case ECDSAJWSFromDER asn1 der 32 of
                       Inl err \<Rightarrow> Inl (ErrWrap ''kmssigner: ES256 sign: DER conversion: '' err [])
                     | Inr raw \<Rightarrow> Inr raw))
      | k \<Rightarrow> Inl (ErrWrap ''kmssigner: ES256 sign: '' jwt_ErrInvalidKeyType ('': got '' @ method_key_type k)))"

definition RS256_Sign :: "(string \<Rightarrow> string) \<Rightarrow> string \<Rightarrow> method_key \<Rightarrow> string result" where
  "RS256_Sign sha256 signingString key =
     (case key of
        KeySigner signer \<Rightarrow>
          if ks_SigningAlgorithm signer \<noteq> ''RS256''
          then Inl (ErrWrap [] ErrAlgMismatch ('': signer reports '' @ quoted (ks_SigningAlgorithm signer) @ '', method is RS256''))
          else (case ks_Sign signer (sha256 signingString) of
                  Inl err \<Rightarrow> Inl (ErrWrap ''kmssigner: RS256 sign: '' err [])
                | Inr sig \<Rightarrow> Inr sig)
      | k \<Rightarrow> Inl (ErrWrap ''kmssigner: RS256 sign: '' jwt_ErrInvalidKeyType ('': got '' @ method_key_type k)))"

definition extractECDSAPublicKey :: "method_key \<Rightarrow> ec_public option result" where
  "extractECDSAPublicKey key =
     (case key of
        KeyPublic (EcdsaKey k) \<Rightarrow> Inr k
      | KeySigner s \<Rightarrow>
          (case ks_Public s of
             EcdsaKey k \<Rightarrow> Inr k
           | p \<Rightarrow> Inl (ErrWrap (''Signer.Public() returned '' @ key_type p @ '', want *ecdsa.PublicKey: '') jwt_ErrInvalidKeyType []))
      | k \<Rightarrow> Inl (ErrWrap [] jwt_ErrInvalidKeyType ('': got '' @ method_key_type k @ '', want *ecdsa.PublicKey or Signer'')))"

definition extractRSAPublicKey :: "method_key \<Rightarrow> rsa_public option result" where
  "extractRSAPublicKey key =
     (case key of
        KeyPublic (RsaKey k) \<Rightarrow> Inr k
      | KeySigner s \<Rightarrow>
          (case ks_Public s of
             RsaKey k \<Rightarrow> Inr k
           | p \<Rightarrow> Inl (ErrWrap (''Signer.Public() returned '' @ key_type p @ '', want *rsa.PublicKey: '') jwt_ErrInvalidKeyType []))
      | k \<Rightarrow> Inl (ErrWrap [] jwt_ErrInvalidKeyType ('': got '' @ method_key_type k @ '', want *rsa.PublicKey or Signer'')))"

definition ES256_Verify ::
  "(string \<Rightarrow> string) \<Rightarrow> (ec_public option \<Rightarrow> string \<Rightarrow> nat \<Rightarrow> nat \<Rightarrow> bool) \<Rightarrow> string \<Rightarrow> string \<Rightarrow> method_key \<Rightarrow> go_error option" where
  "ES256_Verify sha256 ecdsa_verify signingString sig key =
     (case extractECDSAPublicKey key of
        Inl err \<Rightarrow> Some (ErrWrap ''kmssigner: ES256 verify: '' err [])
      | Inr pub \<Rightarrow>
          if length sig \<noteq> 64
          then Some (ErrWrap (''kmssigner: ES256 verify: signature length '' @ show_nat (length sig) @ '', want 64: '') jwt_ErrTokenSignatureInvalid [])
          else if \<not> ecdsa_verify pub (sha256 signingString) (big_SetBytes (take 32 sig)) (big_SetBytes (drop 32 sig))
          then Some jwt_ErrTokenSignatureInvalid
          else None)"

definition RS256_Verify ::
  "(string \<Rightarrow> string) \<Rightarrow> (rsa_public option \<Rightarrow> string \<Rightarrow> string \<Rightarrow> string option) \<Rightarrow> string \<Rightarrow> string \<Rightarrow> method_key \<Rightarrow> go_error option" where
  "RS256_Verify sha256 rsa_verify signingString sig key =
     (case extractRSAPublicKey key of
        Inl err \<Rightarrow> Some (ErrWrap ''kmssigner: RS256 verify: '' err [])
      | Inr pub \<Rightarrow>
          (case rsa_verify pub (sha256 signingString) sig of
             Some err \<Rightarrow> Some (ErrWrap [] jwt_ErrTokenSignatureInvalid ('': '' @ err))
           | None \<Rightarrow> None))"

section \<open>Claims\<close>

definition JWTType :: string where "JWTType = ''identity-context+jwt''"
definition ctx_Version :: int where "ctx_Version = 1"
definition AAL1 :: string where "AAL1 = ''AAL1''"
definition AAL2 :: string where "AAL2 = ''AAL2''"
definition AAL3 :: string where "AAL3 = ''AAL3''"

definition ErrUnsupportedVersion :: go_error where "ErrUnsupportedVersion = ErrVar ''identity: unsupported context schema version''"
definition ErrMissingSubject :: go_error where "ErrMissingSubject = ErrVar ''identity: context has no subject''"
definition ErrMissingTenant :: go_error where "ErrMissingTenant = ErrVar ''identity: context has no tenant''"
definition ErrMissingAssurance :: go_error where "ErrMissingAssurance = ErrVar ''identity: context has no assurance level''"

record ctx_claims =
  ic_Issuer :: string
  ic_Subject :: string
  ic_IssuedAt :: "go_time option"
  ic_ExpiresAt :: "go_time option"
  ic_NotBefore :: "go_time option"
  ic_ID :: string
  ic_Tenant :: string
  ic_Entitlements :: "string list"
  ic_AAL :: string
  ic_CtxVer :: int
  ic_TokRef :: string

text \<open>A set of versions is a list without repetitions.\<close>

definition NewVersionSet :: "int list \<Rightarrow> int list" where "NewVersionSet versions = remdups versions"
definition DefaultVersionSet :: "int list" where "DefaultVersionSet = NewVersionSet [ctx_Version]"
definition VersionSet_Accepts :: "int list \<Rightarrow> int \<Rightarrow> bool" where "VersionSet_Accepts s v \<longleftrightarrow> v \<in> set s"
definition VersionSet_Versions :: "int list \<Rightarrow> int list" where "VersionSet_Versions s = sort s"

definition show_ints :: "int list \<Rightarrow> string" where
  "show_ints ns = ''['' @ join '' '' (map show_int ns) @ '']''"

definition Claims_Validate :: "int list \<Rightarrow> ctx_claims \<Rightarrow> go_error option" where
  "Claims_Validate accepted c =
     (if \<not> VersionSet_Accepts accepted (ic_CtxVer c)
      then Some (ErrWrap [] ErrUnsupportedVersion ('': got '' @ show_int (ic_CtxVer c) @ '', accepted '' @ show_ints (VersionSet_Versions accepted)))
      else if ic_Subject c = [] then Some ErrMissingSubject
      else if ic_Tenant c = [] then Some ErrMissingTenant
      else if ic_AAL c = [] then Some ErrMissingAssurance
      else None)"

definition TokRef :: "(string \<Rightarrow> string) \<Rightarrow> string \<Rightarrow> string" where
  "TokRef sha256 token = (if token = [] then [] else hex_encode (take 8 (sha256 token)))"

section \<open>Authentication and assurance\<close>

definition FactorKnowledge :: string where "FactorKnowledge = ''knowledge''"
definition FactorPossession :: string where "FactorPossession = ''possession''"
definition FactorInherence :: string where "FactorInherence = ''inherence''"

definition factorKinds :: "string list" where "factorKinds = [FactorKnowledge, FactorPossession, FactorInherence]"

definition recognised :: "string \<Rightarrow> bool" where
  "recognised k \<longleftrightarrow> k = FactorKnowledge \<or> k = FactorPossession \<or> k = FactorInherence"

record auth_factor =
  fa_Kind :: string
  fa_Method :: string

record authentication =
  au_Subject :: string
  au_Factors :: "auth_factor list"
  au_PhishingResistant :: bool
  au_HardwareBacked :: bool

definition ErrNilAuthentication :: go_error where "ErrNilAuthentication = ErrVar ''identity: authentication is nil''"
definition ErrMissingAuthenticatedSubject :: go_error where
  "ErrMissingAuthenticatedSubject = ErrVar ''identity: authentication has no subject''"
definition ErrNoFactors :: go_error where "ErrNoFactors = ErrVar ''identity: authentication exercised no factor''"
definition ErrUnknownFactorKind :: go_error where
  "ErrUnknownFactorKind = ErrVar ''identity: unrecognised authentication factor category''"
definition ErrMissingFactorMethod :: go_error where "ErrMissingFactorMethod = ErrVar ''identity: authentication factor has no method''"

fun check_factors :: "nat \<Rightarrow> auth_factor list \<Rightarrow> go_error option" where
  "check_factors i [] = None"
| "check_factors i (f # fs) =
     (if \<not> recognised (fa_Kind f)
      then Some (ErrWrap [] ErrUnknownFactorKind ('': factor '' @ show_nat i @ '' has category '' @ quoted (fa_Kind f)))
      else if fa_Method f = []
      then Some (ErrWrap [] ErrMissingFactorMethod ('': factor '' @ show_nat i @ '' is a '' @ fa_Kind f @ '' factor''))
      else check_factors (i + 1) fs)"

definition Authentication_Validate :: "authentication option \<Rightarrow> go_error option" where
  "Authentication_Validate a =
     (case a of
        None \<Rightarrow> Some ErrNilAuthentication
      | Some a \<Rightarrow>
          if au_Subject a = [] then Some ErrMissingAuthenticatedSubject
          else if au_Factors a = [] then Some ErrNoFactors
          else check_factors 0 (au_Factors a))"

definition Kinds :: "authentication option \<Rightarrow> string list" where
  "Kinds a =
     (case a of
        None \<Rightarrow> []
      | Some a \<Rightarrow>
          let present = fold (\<lambda>f m. if recognised (fa_Kind f) then gm_put (fa_Kind f) () m else m) (au_Factors a) []
          in filter (\<lambda>k. gm_get present k \<noteq> None) factorKinds)"

definition DeriveAssurance :: "authentication option \<Rightarrow> string result" where
  "DeriveAssurance auth =
     (case Authentication_Validate auth of
        Some err \<Rightarrow> Inl err
      | None \<Rightarrow>
          if length (Kinds auth) < 2 then Inr AAL1
          else if (case auth of None \<Rightarrow> False | Some a \<Rightarrow> au_HardwareBacked a \<and> au_PhishingResistant a) then Inr AAL3
          else Inr AAL2)"

section \<open>The JWT library\<close>

text \<open>
  Signing takes the header, the claims and the signing method applied to its key; parsing takes the clock and the key
  function and says whether the token was marked valid.
\<close>

record jwt_lib =
  jl_SignedString :: "jwt_header \<Rightarrow> ctx_claims \<Rightarrow> (string \<Rightarrow> string result) \<Rightarrow> string result"
  jl_ParseUnverified :: "string \<Rightarrow> (jwt_header \<times> ctx_claims) result"
  jl_ParseWithClaims :: "string \<Rightarrow> go_time \<Rightarrow> (jwt_header \<Rightarrow> crypto_key result) \<Rightarrow> (jwt_header \<times> ctx_claims \<times> bool) result"

section \<open>The minter\<close>

definition DefaultTTL :: duration where "DefaultTTL = 15 * minute"

definition ErrNilSigner :: go_error where "ErrNilSigner = ErrVar ''identity: minter has no signer''"
definition ErrMissingKeyID :: go_error where "ErrMissingKeyID = ErrVar ''identity: minter has no key id''"
definition ErrMissingIssuer :: go_error where "ErrMissingIssuer = ErrVar ''identity: minter has no issuer''"
definition id_ErrUnsupportedAlgorithm :: go_error where "id_ErrUnsupportedAlgorithm = ErrVar ''identity: unsupported signing algorithm''"
definition ErrInvalidTTL :: go_error where "ErrInvalidTTL = ErrVar ''identity: context lifetime must be positive''"
definition ErrInvalidAssurance :: go_error where "ErrInvalidAssurance = ErrVar ''identity: unrecognised assurance level''"
definition ErrMalformedTokenRef :: go_error where "ErrMalformedTokenRef = ErrVar ''identity: token reference is not a derived handle''"

definition tokenRefWidth :: "(string \<Rightarrow> string) \<Rightarrow> nat" where
  "tokenRefWidth sha256 = length (TokRef sha256 ''derive the width from the function itself'')"

record mint_input =
  mi_Subject :: string
  mi_Tenant :: string
  mi_Entitlements :: "string list"
  mi_Assurance :: string
  mi_TokenID :: string
  mi_TokenRef :: string

record minter =
  mt_signer :: key_surface
  mt_method :: string
  mt_keyID :: string
  mt_issuer :: string
  mt_ttl :: duration

definition signingMethodFor :: "string \<Rightarrow> string result" where
  "signingMethodFor alg =
     (if alg = ''ES256'' \<or> alg = ''RS256'' then Inr alg
      else Inl (ErrWrap [] id_ErrUnsupportedAlgorithm
                  ('': signer reports '' @ quoted alg @ '', want '' @ quoted ''ES256'' @ '' or '' @ quoted ''RS256'')))"

text \<open>The options: a lifetime, and whether a nil clock was given.\<close>

definition NewMinter ::
  "(duration \<Rightarrow> string) \<Rightarrow> key_surface option \<Rightarrow> string \<Rightarrow> string \<Rightarrow> duration option \<Rightarrow> bool \<Rightarrow> minter result" where
  "NewMinter show_dur signer keyID issuer opt_ttl nilClock =
     (let ttl = (case opt_ttl of None \<Rightarrow> DefaultTTL | Some d \<Rightarrow> d)
      in case signer of
           None \<Rightarrow> Inl ErrNilSigner
         | Some s \<Rightarrow>
             if keyID = [] then Inl ErrMissingKeyID
             else if issuer = [] then Inl ErrMissingIssuer
             else if ttl \<le> 0 then Inl (ErrWrap [] ErrInvalidTTL ('': got '' @ show_dur ttl))
             else if nilClock then Inl ErrInvalidClock
             else (case signingMethodFor (ks_SigningAlgorithm s) of
                     Inl err \<Rightarrow> Inl err
                   | Inr m \<Rightarrow> Inr \<lparr>mt_signer = s, mt_method = m, mt_keyID = keyID, mt_issuer = issuer, mt_ttl = ttl\<rparr>))"

definition knownAssurance :: "string \<Rightarrow> bool" where
  "knownAssurance level \<longleftrightarrow> level = AAL1 \<or> level = AAL2 \<or> level = AAL3"

definition isDerivedTokenRef :: "(string \<Rightarrow> string) \<Rightarrow> string \<Rightarrow> bool" where
  "isDerivedTokenRef sha256 ref \<longleftrightarrow> length ref = tokenRefWidth sha256 \<and> (\<forall>c\<in>set ref. c \<in> set ''0123456789abcdef'')"

definition context_claims_of :: "minter \<Rightarrow> go_time \<Rightarrow> mint_input \<Rightarrow> ctx_claims" where
  "context_claims_of m now inp =
     \<lparr>ic_Issuer = mt_issuer m, ic_Subject = mi_Subject inp, ic_IssuedAt = Some (NewNumericDate now),
      ic_ExpiresAt = Some (NewNumericDate (now + mt_ttl m)), ic_NotBefore = None, ic_ID = mi_TokenID inp,
      ic_Tenant = mi_Tenant inp, ic_Entitlements = mi_Entitlements inp, ic_AAL = mi_Assurance inp, ic_CtxVer = ctx_Version,
      ic_TokRef = mi_TokenRef inp\<rparr>"

definition contextClaims :: "(string \<Rightarrow> string) \<Rightarrow> minter \<Rightarrow> go_time \<Rightarrow> mint_input \<Rightarrow> ctx_claims result" where
  "contextClaims sha256 m now inp =
     (if mi_Subject inp = [] then Inl (ErrWrap ''identity: mint: '' ErrMissingSubject [])
      else if mi_Tenant inp = [] then Inl (ErrWrap ''identity: mint: '' ErrMissingTenant [])
      else if mi_Assurance inp = [] then Inl (ErrWrap ''identity: mint: '' ErrMissingAssurance [])
      else if \<not> knownAssurance (mi_Assurance inp)
      then Inl (ErrWrap [] ErrInvalidAssurance ('': '' @ quoted (mi_Assurance inp) @ '', want one of '' @ quoted AAL1 @ '', '' @ quoted AAL2 @ '', '' @ quoted AAL3))
      else if mi_TokenRef inp \<noteq> [] \<and> \<not> isDerivedTokenRef sha256 (mi_TokenRef inp)
      then Inl (ErrWrap [] ErrMalformedTokenRef ('': want '' @ show_nat (tokenRefWidth sha256)
                  @ '' lowercase hex characters as produced by TokRef, got '' @ show_nat (length (mi_TokenRef inp)) @ '' characters''))
      else
        let claims = context_claims_of m now inp
        in (case Claims_Validate DefaultVersionSet claims of
              Some err \<Rightarrow> Inl (ErrWrap ''identity: mint: refusing to mint an unvalidatable context: '' err [])
            | None \<Rightarrow> Inr claims))"

definition method_sign ::
  "(string \<Rightarrow> string) \<Rightarrow> (string \<Rightarrow> (int \<times> int \<times> string) result) \<Rightarrow> string \<Rightarrow> key_surface \<Rightarrow> string \<Rightarrow> string result" where
  "method_sign sha256 asn1 m signer input =
     (if m = ''ES256'' then ES256_Sign sha256 asn1 input (KeySigner signer) else RS256_Sign sha256 input (KeySigner signer))"

definition mint_header :: "minter \<Rightarrow> jwt_header" where
  "mint_header m = \<lparr>jh_alg = mt_method m, jh_typ = HString JWTType, jh_kid = HString (mt_keyID m)\<rparr>"

definition Mint ::
  "jwt_lib \<Rightarrow> (string \<Rightarrow> string) \<Rightarrow> (string \<Rightarrow> (int \<times> int \<times> string) result) \<Rightarrow> minter \<Rightarrow> go_time \<Rightarrow> mint_input \<Rightarrow> string result" where
  "Mint lib sha256 asn1 m now inp =
     (case contextClaims sha256 m now inp of
        Inl err \<Rightarrow> Inl err
      | Inr claims \<Rightarrow>
          (case jl_SignedString lib (mint_header m) claims (method_sign sha256 asn1 (mt_method m) (mt_signer m)) of
             Inl err \<Rightarrow> Inl (ErrWrap ''identity: sign context: '' err [])
           | Inr signed \<Rightarrow> Inr signed))"

section \<open>The issuer\<close>

definition ErrNilCredentialVerifier :: go_error where "ErrNilCredentialVerifier = ErrVar ''identity: issuer has no credential verifier''"
definition ErrNilClaimsResolver :: go_error where "ErrNilClaimsResolver = ErrVar ''identity: issuer has no claims resolver''"
definition ErrSignerUnhealthy :: go_error where "ErrSignerUnhealthy = ErrVar ''identity: signer failed its health check''"
definition ErrVerifierReportedNoAuthentication :: go_error where
  "ErrVerifierReportedNoAuthentication = ErrVar ''identity: credential verifier reported success without an authentication''"

record grant =
  gr_Tenant :: string
  gr_Entitlements :: "string list"

type_synonym 'c credential_verifier = "'c \<Rightarrow> authentication option result"
type_synonym claims_resolver = "string \<Rightarrow> grant result"

record 'c issuer =
  is_verifier :: "'c credential_verifier"
  is_resolver :: claims_resolver
  is_minter :: minter

definition NewIssuer ::
  "(duration \<Rightarrow> string) \<Rightarrow> key_surface option \<Rightarrow> string \<Rightarrow> 'c credential_verifier option \<Rightarrow> claims_resolver option \<Rightarrow> duration option \<Rightarrow>
   bool \<Rightarrow> 'c issuer result" where
  "NewIssuer show_dur signer issuerName verifier resolver opt_ttl nilClock =
     (case (verifier, resolver, signer) of
        (None, _, _) \<Rightarrow> Inl ErrNilCredentialVerifier
      | (Some v, None, _) \<Rightarrow> Inl ErrNilClaimsResolver
      | (Some v, Some r, None) \<Rightarrow> Inl ErrNilSigner
      | (Some v, Some r, Some s) \<Rightarrow>
          if issuerName = [] then Inl ErrMissingIssuer
          else if ks_KeyID s = [] then Inl ErrMissingKeyID
          else (case ks_HealthCheck s of
                  Some err \<Rightarrow> Inl (wrap2 ErrSignerUnhealthy err)
                | None \<Rightarrow>
                    (case NewMinter show_dur signer (ks_KeyID s) issuerName opt_ttl nilClock of
                       Inl err \<Rightarrow> Inl err
                     | Inr m \<Rightarrow> Inr \<lparr>is_verifier = v, is_resolver = r, is_minter = m\<rparr>)))"

definition mint_input_of :: "authentication \<Rightarrow> grant \<Rightarrow> string \<Rightarrow> mint_input" where
  "mint_input_of a g assurance =
     \<lparr>mi_Subject = au_Subject a, mi_Tenant = gr_Tenant g, mi_Entitlements = gr_Entitlements g, mi_Assurance = assurance,
      mi_TokenID = [], mi_TokenRef = []\<rparr>"

text \<open>Besides the token, the subjects whose claims were looked up.\<close>

definition Issue ::
  "jwt_lib \<Rightarrow> (string \<Rightarrow> string) \<Rightarrow> (string \<Rightarrow> (int \<times> int \<times> string) result) \<Rightarrow> 'c issuer \<Rightarrow> go_time \<Rightarrow> 'c \<Rightarrow> string result \<times> string list" where
  "Issue lib sha256 asn1 i now credential =
     (case is_verifier i credential of
        Inl err \<Rightarrow> (Inl (ErrWrap ''identity: issue: verify credential: '' err []), [])
      | Inr None \<Rightarrow> (Inl ErrVerifierReportedNoAuthentication, [])
      | Inr (Some a) \<Rightarrow>
          (case Authentication_Validate (Some a) of
             Some err \<Rightarrow> (Inl (ErrWrap ''identity: issue: '' err []), [])
           | None \<Rightarrow>
               (case DeriveAssurance (Some a) of
                  Inl err \<Rightarrow> (Inl (ErrWrap ''identity: issue: derive assurance: '' err []), [])
                | Inr assurance \<Rightarrow>
                    (case is_resolver i (au_Subject a) of
                       Inl err \<Rightarrow> (Inl (ErrWrap ''identity: issue: resolve claims: '' err []), [au_Subject a])
                     | Inr g \<Rightarrow> (Mint lib sha256 asn1 (is_minter i) now (mint_input_of a g assurance), [au_Subject a])))))"

section \<open>The verifier\<close>

definition verificationLeeway :: duration where "verificationLeeway = 5 * second"
definition verificationMethods :: "string list" where "verificationMethods = [''ES256'', ''RS256'']"

definition ErrInvalidContext :: go_error where "ErrInvalidContext = ErrVar ''identity: identity context is not valid''"
definition ErrNoTrustedIssuers :: go_error where "ErrNoTrustedIssuers = ErrVar ''identity: verifier must trust at least one issuer''"
definition ErrMissingTrustedIssuer :: go_error where "ErrMissingTrustedIssuer = ErrVar ''identity: trusted issuer name is empty''"
definition ErrNilKeySource :: go_error where "ErrNilKeySource = ErrVar ''identity: trusted issuer has no key source''"
definition ErrDuplicateTrustedIssuer :: go_error where
  "ErrDuplicateTrustedIssuer = ErrVar ''identity: trusted issuer is listed more than once''"
definition ErrNoAcceptedVersions :: go_error where "ErrNoAcceptedVersions = ErrVar ''identity: verifier must accept at least one schema version''"

type_synonym key_source = "string \<Rightarrow> crypto_key result"

record verifier =
  vf_trusted :: "(string, key_source) gomap"
  vf_accepted :: "int list"

fun trust_issuers :: "(string \<times> key_source option) list \<Rightarrow> (string, key_source) gomap \<Rightarrow> (string, key_source) gomap result" where
  "trust_issuers [] m = Inr m"
| "trust_issuers ((name, keys) # rest) m =
     (if name = [] then Inl ErrMissingTrustedIssuer
      else (case keys of
              None \<Rightarrow> Inl (ErrWrap [] ErrNilKeySource ('': '' @ quoted name))
            | Some ks \<Rightarrow>
                if gm_get m name \<noteq> None then Inl (ErrWrap [] ErrDuplicateTrustedIssuer ('': '' @ quoted name))
                else trust_issuers rest (gm_put name ks m)))"

definition NewVerifier :: "(string \<times> key_source option) list \<Rightarrow> int list option \<Rightarrow> verifier result" where
  "NewVerifier trusted opt_accepted =
     (let accepted = (case opt_accepted of None \<Rightarrow> DefaultVersionSet | Some s \<Rightarrow> s)
      in if trusted = [] then Inl ErrNoTrustedIssuers
         else (case trust_issuers trusted [] of
                 Inl err \<Rightarrow> Inl err
               | Inr m \<Rightarrow>
                   if accepted = [] then Inl ErrNoAcceptedVersions
                   else Inr \<lparr>vf_trusted = m, vf_accepted = NewVersionSet (VersionSet_Versions accepted)\<rparr>))"

definition claimedIssuer :: "jwt_lib \<Rightarrow> string \<Rightarrow> string result" where
  "claimedIssuer lib token =
     (case jl_ParseUnverified lib token of Inl err \<Rightarrow> Inl err | Inr (h, c) \<Rightarrow> Inr (ic_Issuer c))"

definition verify_context :: "jwt_lib \<Rightarrow> verifier \<Rightarrow> go_time \<Rightarrow> string \<Rightarrow> ctx_claims result" where
  "verify_context lib v now token =
     (case claimedIssuer lib token of
        Inl err \<Rightarrow> Inl err
      | Inr iss \<Rightarrow>
          (case gm_get (vf_trusted v) iss of
             None \<Rightarrow> Inl (ErrMsg (''identity: issuer '' @ quoted iss @ '' is not in this verifier'' @ [CHR 0x27] @ ''s trust set''))
           | Some keys \<Rightarrow>
               (case jl_ParseWithClaims lib token now (\<lambda>h. keys (header_string (jh_kid h))) of
                  Inl err \<Rightarrow> Inl err
                | Inr (h, claims, valid) \<Rightarrow>
                    if \<not> valid then Inl (ErrMsg ''identity: parser accepted the context without marking it valid'')
                    else if header_string (jh_typ h) \<noteq> JWTType
                    then Inl (ErrMsg (''identity: token type header is '' @ header_text (jh_typ h) @ '', want '' @ quoted JWTType))
                    else (case Claims_Validate (vf_accepted v) claims of Some err \<Rightarrow> Inl err | None \<Rightarrow> Inr claims))))"

text \<open>The answer, and the reason handed to the operator's sink.\<close>

definition Verify :: "jwt_lib \<Rightarrow> verifier \<Rightarrow> go_time \<Rightarrow> string \<Rightarrow> ctx_claims result \<times> go_error option" where
  "Verify lib v now token =
     (case verify_context lib v now token of Inl err \<Rightarrow> (Inl ErrInvalidContext, Some err) | Inr claims \<Rightarrow> (Inr claims, None))"

end
