(* ===== verification/Jwk_Properties.thy ===== *)
theory Jwk_Properties
  imports Remote_Keys
begin

text \<open>
  Publishing and parsing key sets fit together: what a consumer of the document finds in it.
\<close>

lemma strip_zeros_value: "big_SetBytes (strip_zeros s) = big_SetBytes s"
proof (induction s rule: strip_zeros.induct)
  case (1 a b s)
  have "big_SetBytes (CHR 0x00 # b # s) = big_SetBytes (b # s)" using big_SetBytes_zeros [of 1 "b # s"] by simp
  with 1 show ?case by simp
qed simp_all

lemma strip_zeros_empty [simp]: "strip_zeros s = [] \<longleftrightarrow> s = []"
  by (induction s rule: strip_zeros.induct) simp_all

text \<open>The entry a decoder sees: the field \<^verbatim>\<open>alg\<close> is not among the ones it reads.\<close>

definition entry_of :: "JWK \<Rightarrow> jwk_entry" where
  "entry_of k = \<lparr>je_Kty = jwk_Kty k, je_Kid = jwk_Kid k, je_Crv = jwk_Crv k, je_Use = jwk_Use k, je_X = jwk_X k, je_Y = jwk_Y k,
                 je_N = jwk_N k, je_E = jwk_E k\<rparr>"

text \<open>The keys a consumer can verify with: points of P-256, and RSA keys of at least 2048 bits with a sane exponent.\<close>

definition usable_key :: "crypto_key \<Rightarrow> bool" where
  "usable_key key =
     (case key of
        EcdsaKey (Some k) \<Rightarrow>
          (case (ec_X k, ec_Y k) of (Some x, Some y) \<Rightarrow> ec_Curve k = Some ''P-256'' \<and> on_P256 x y | _ \<Rightarrow> False)
      | RsaKey (Some k) \<Rightarrow>
          (case rsa_N k of Some n \<Rightarrow> 2 ^ 2047 \<le> n \<and> 3 \<le> rsa_E k \<and> rsa_E k < 2 ^ 31 \<and> odd (rsa_E k) | None \<Rightarrow> False)
      | _ \<Rightarrow> False)"

text \<open>An exponent is a Go \<^verbatim>\<open>int\<close>.\<close>

definition exponent_fits :: "crypto_key \<Rightarrow> bool" where
  "exponent_fits key = (case key of RsaKey (Some k) \<Rightarrow> rsa_E k < 2 ^ 63 | _ \<Rightarrow> True)"

lemma coordinate_filled:
  assumes "big_FillBytes 32 n = Some s"
  shows "coordinate bad64 (b64_EncodeToString s) 32 = Inr n"
proof -
  have "n < 256 ^ 32" using assms big_FillBytes_None [of 32 n] by simp
  with assms have "length s = 32" "big_SetBytes s = n" using big_FillBytes_Some [of n 32] by auto
  then show ?thesis by (auto simp: coordinate_def b64_roundtrip b64_EncodeToString_empty)
qed

lemma ec_published:
  assumes "MarshalECPublic pub kid alg use = Some (Inr jwk)"
  shows "jwk_publicKey bad64 (entry_of jwk) = Inr (EcdsaKey pub) \<longleftrightarrow> usable_key (EcdsaKey pub)"
    and "usable_key (EcdsaKey pub) \<or> (\<exists>err. jwk_publicKey bad64 (entry_of jwk) = Inl err)"
    and "jwk_Kid jwk = kid" "jwk_Use jwk = use"
proof -
  obtain k x y xb yb where k: "pub = Some k" "ec_Curve k = Some ''P-256''" "ec_X k = Some x" "ec_Y k = Some y"
      "big_FillBytes 32 x = Some xb" "big_FillBytes 32 y = Some yb"
    and jwk: "jwk = \<lparr>jwk_Kty = ''EC'', jwk_Crv = ''P-256'', jwk_Alg = alg, jwk_Use = use, jwk_Kid = kid,
                 jwk_X = b64_EncodeToString xb, jwk_Y = b64_EncodeToString yb, jwk_N = [], jwk_E = []\<rparr>"
    using assms by (auto simp: MarshalECPublic_def p256CoordBytes_def split: option.splits if_splits)
  have "k = \<lparr>ec_Curve = Some ''P-256'', ec_X = Some x, ec_Y = Some y\<rparr>" using k by (cases k) simp
  then have *: "jwk_publicKey bad64 (entry_of jwk) = (if on_P256 x y then Inr (EcdsaKey pub) else Inl (ErrMsg ''crypto/ecdsa: invalid public key''))"
    using k coordinate_filled [OF k(5)] coordinate_filled [OF k(6)]
    by (simp add: jwk jwk_publicKey_def ecPublicKey_def entry_of_def p256CoordinateBytes_def)
  show "jwk_publicKey bad64 (entry_of jwk) = Inr (EcdsaKey pub) \<longleftrightarrow> usable_key (EcdsaKey pub)"
    "usable_key (EcdsaKey pub) \<or> (\<exists>err. jwk_publicKey bad64 (entry_of jwk) = Inl err)"
    using k by (simp_all add: * usable_key_def)
  show "jwk_Kid jwk = kid" "jwk_Use jwk = use" by (simp_all add: jwk)
qed

lemma rsa_published:
  assumes "MarshalRSAPublic pub kid alg use = Inr jwk" "exponent_fits (RsaKey pub)"
  shows "jwk_publicKey bad64 (entry_of jwk) = Inr (RsaKey pub) \<longleftrightarrow> usable_key (RsaKey pub)"
    and "usable_key (RsaKey pub) \<or> (\<exists>err. jwk_publicKey bad64 (entry_of jwk) = Inl err)"
    and "jwk_Kid jwk = kid" "jwk_Use jwk = use"
proof -
  obtain k n where k: "pub = Some k" "rsa_N k = Some n" "0 < rsa_E k"
    and jwk: "jwk = \<lparr>jwk_Kty = ''RSA'', jwk_Crv = [], jwk_Alg = alg, jwk_Use = use, jwk_Kid = kid, jwk_X = [], jwk_Y = [],
                 jwk_N = b64_EncodeToString (big_Bytes n), jwk_E = b64_EncodeToString (strip_zeros (PutUint64 (nat (rsa_E k))))\<rparr>"
    using assms(1) by (auto simp: MarshalRSAPublic_def split: option.splits if_splits)
  have e: "rsa_E k < 2 ^ 63" using assms(2) k by (simp add: exponent_fits_def)
  then have "nat (rsa_E k) < 2 ^ 64" by simp
  then have val: "big_SetBytes (strip_zeros (PutUint64 (nat (rsa_E k)))) = nat (rsa_E k)"
    by (simp add: strip_zeros_value PutUint64_value)
  have ne: "strip_zeros (PutUint64 (nat (rsa_E k))) \<noteq> []"
    using length_PutUint64 [of "nat (rsa_E k)"] by (metis length_0_conv strip_zeros_empty zero_neq_numeral)
  have "rsa_E k < 2 ^ 31 \<longleftrightarrow> nat (rsa_E k) < 2 ^ 31" using k(3) by (simp add: nat_less_iff)
  then have bits: "(big_BitLen n < 2048) = (n < 2 ^ 2047)" "(31 < big_BitLen (nat (rsa_E k))) = (\<not> rsa_E k < 2 ^ 31)"
    unfolding big_BitLen_le [symmetric] by auto
  have rk: "k = \<lparr>rsa_N = Some n, rsa_E = rsa_E k\<rparr>" using k by (cases k) simp
  define good where "good \<longleftrightarrow> \<not> n < 2 ^ 2047 \<and> rsa_E k < 2 ^ 31 \<and> 3 \<le> rsa_E k \<and> odd (rsa_E k)"
  have nz: "n \<noteq> 0" if good using that by (auto simp: good_def)
  have small: "nat (rsa_E k) < 3 \<longleftrightarrow> \<not> 3 \<le> rsa_E k" and par: "even (nat (rsa_E k)) = even (rsa_E k)"
    using k(3) by (auto simp: even_nat_iff)
  have "jwk_publicKey bad64 (entry_of jwk) = Inr (RsaKey pub)" if good
    using that nz [OF that] ne k(3) rk
    unfolding jwk jwk_publicKey_def rsaPublicKey_def entry_of_def good_def minRSAModulusBits_def Let_def
    by (simp add: b64_roundtrip b64_EncodeToString_empty big_Bytes_inverse val bits small par k(1) del: power_numeral)
  moreover have "\<exists>err. jwk_publicKey bad64 (entry_of jwk) = Inl err" if "\<not> good"
    using that k(3)
    unfolding jwk jwk_publicKey_def rsaPublicKey_def entry_of_def good_def minRSAModulusBits_def Let_def
    by (auto simp: b64_roundtrip b64_EncodeToString_empty big_Bytes_inverse val bits small par simp del: power_numeral)
  moreover have "usable_key (RsaKey pub) \<longleftrightarrow> good"
    using k unfolding usable_key_def good_def by (auto simp: not_less simp del: power_numeral)
  ultimately show "jwk_publicKey bad64 (entry_of jwk) = Inr (RsaKey pub) \<longleftrightarrow> usable_key (RsaKey pub)"
    "usable_key (RsaKey pub) \<or> (\<exists>err. jwk_publicKey bad64 (entry_of jwk) = Inl err)" by auto
  show "jwk_Kid jwk = kid" "jwk_Use jwk = use" by (simp_all add: jwk)
qed

lemma published_entry:
  assumes "AddSigningKey (Some signer) kid [] = Some (Inr keys)" "exponent_fits (kss_Public signer)"
  obtains jwk where "keys = [jwk]" "jwk_Kid jwk = kid" "jwk_Use jwk = ''sig''" "kid \<noteq> []"
    "usable_key (kss_Public signer) \<longrightarrow> jwk_publicKey bad64 (entry_of jwk) = Inr (kss_Public signer)"
    "\<not> usable_key (kss_Public signer) \<longrightarrow> (\<exists>err. jwk_publicKey bad64 (entry_of jwk) = Inl err)"
proof -
  have kid: "kid \<noteq> []" using assms(1) by (auto simp: AddSigningKey_def)
  from assms(1) kid consider
      (ec) pub jwk where "kss_Public signer = EcdsaKey pub" "MarshalECPublic pub kid ''ES256'' ''sig'' = Some (Inr jwk)" "keys = [jwk]"
    | (rsa) pub jwk where "kss_Public signer = RsaKey pub" "MarshalRSAPublic pub kid ''RS256'' ''sig'' = Inr jwk" "keys = [jwk]"
    by (auto simp: AddSigningKey_def Let_def split: if_splits crypto_key.splits option.splits sum.splits)
  then show ?thesis
  proof cases
    case ec
    with ec_published(1,2) [OF ec(2), of bad64] ec_published(3,4) [OF ec(2)] kid that show ?thesis by metis
  next
    case rsa
    with assms(2) rsa_published(1,2) [OF rsa(2), of bad64] rsa_published(3,4) [OF rsa(2)] kid that show ?thesis by metis
  qed
qed

text \<open>
  Whoever fetches and parses the document an issuer publishes finds exactly the issuer's own
  public key, under the identifier its contexts carry, if that key is a point of P-256 or an RSA key of at least 2048
  bits with an odd exponent from 3 to below \<open>2 ^ 31\<close>, and finds no usable key otherwise.
\<close>

lemma published_key_resolves:
  assumes "NewKeySetHandler show_dur (Some signer) maxAge = Some (Inr h)"
    and "AddSigningKey (Some signer) (kss_KeyID signer) [] = Some (Inr keys)"
    and "decode (Set_MarshalJSON keys) = Inr (map entry_of keys)"
    and "exponent_fits (kss_Public signer)"
  shows "parseJWKS decode bad64 (snd (snd (KeySet_ServeHTTP h ''GET''))) =
           (if usable_key (kss_Public signer) then Inr [(kss_KeyID signer, kss_Public signer)]
            else Inl (ErrWrap [] ErrJWKSMalformed '': no usable verification key''))"
proof -
  have doc: "snd (snd (KeySet_ServeHTTP h ''GET'')) = Set_MarshalJSON keys"
    using assms(1,2) by (auto simp: NewKeySetHandler_def KeySet_ServeHTTP_def Let_def split: if_splits option.splits)
  obtain jwk where jwk: "keys = [jwk]" "jwk_Kid jwk = kss_KeyID signer" "jwk_Use jwk = ''sig''" "kss_KeyID signer \<noteq> []"
    "usable_key (kss_Public signer) \<longrightarrow> jwk_publicKey bad64 (entry_of jwk) = Inr (kss_Public signer)"
    "\<not> usable_key (kss_Public signer) \<longrightarrow> (\<exists>err. jwk_publicKey bad64 (entry_of jwk) = Inl err)"
    using published_entry [OF assms(2,4), of bad64] by metis
  have "fold (jwks_entry_step bad64) [entry_of jwk] [] = (if usable_key (kss_Public signer) then [(kss_KeyID signer, kss_Public signer)] else [])"
    using jwk by (auto simp: jwks_entry_step_def entry_of_def gm_put_def split: sum.splits)
  with assms(3) jwk(1) show ?thesis by (simp add: doc parseJWKS_def Let_def)
qed

definition demo_point :: crypto_key where
  "demo_point = EcdsaKey (Some \<lparr>ec_Curve = Some ''P-256'',
     ec_X = Some 0,
     ec_Y = Some 0x66485c780e2f83d72433bd5d84a06bb6541c2af31dae871728bf856a174f93f4\<rparr>)"

definition demo_key_signer :: key_set_signer where
  "demo_key_signer = \<lparr>kss_Public = demo_point, kss_SigningAlgorithm = ''ES256'', kss_KeyID = ''k1''\<rparr>"

definition demo_published :: "JWK list" where
  "demo_published = (case AddSigningKey (Some demo_key_signer) ''k1'' [] of Some (Inr keys) \<Rightarrow> keys | _ \<Rightarrow> [])"

definition demo_jwks_decode :: "string \<Rightarrow> jwk_entry list result" where
  "demo_jwks_decode body = (if body = Set_MarshalJSON demo_published then Inr (map entry_of demo_published) else Inl (ErrMsg ''json''))"

definition demo_handler :: key_set_handler where
  "demo_handler = \<lparr>ksh_document = Set_MarshalJSON demo_published, ksh_cacheControl = ''public, max-age=300'', ksh_maxAge = 300 * second\<rparr>"

text \<open>A point of the curve, with the quotient that shows it is on it.\<close>

lemma demo_point_usable: "usable_key demo_point"
proof -
  let ?y = "0x66485c780e2f83d72433bd5d84a06bb6541c2af31dae871728bf856a174f93f4 :: nat"
  have p: "0 < p256_p" "?y < p256_p" by (simp_all add: p256_p_def)
  have "?y * ?y = 0x28ddbe23f91a186cde31693e44d9577376ba56e1c52cb3f335f4c8dba9b83fbb * p256_p + p256_b" by (simp add: p256_p_def p256_b_def)
  then have "?y * ?y mod p256_p = p256_b mod p256_p" by (simp only: mod_mult_self3)
  with p show ?thesis by (simp add: usable_key_def demo_point_def on_P256_def del: numeral_times_numeral)
qed

lemma demo_point_bytes:
  obtains xb yb where "big_FillBytes 32 0 = Some xb" "length xb = 32" "big_FillBytes 32 0x66485c780e2f83d72433bd5d84a06bb6541c2af31dae871728bf856a174f93f4 = Some yb" "length yb = 32"
  using big_FillBytes_Some [of 0 32] big_FillBytes_Some [of "0x66485c780e2f83d72433bd5d84a06bb6541c2af31dae871728bf856a174f93f4" 32] by auto

lemma demo_point_added: "AddSigningKey (Some demo_key_signer) ''k1'' [] = Some (Inr demo_published)"
  by (rule demo_point_bytes)
     (simp add: demo_published_def AddSigningKey_def demo_key_signer_def demo_point_def MarshalECPublic_def p256CoordBytes_def)

lemma demo_handler_new: "NewKeySetHandler show_dur (Some demo_key_signer) None = Some (Inr demo_handler)"
proof -
  have "show_int 300 = ''300''" by code_simp
  then show ?thesis
    using demo_point_added
    by (simp add: NewKeySetHandler_def demo_key_signer_def demo_handler_def DefaultKeySetMaxAge_def DefaultJWKSCacheTTL_def)
qed

text \<open>The document is short, whatever the bytes of the point.\<close>

lemma length_json_string: "length (json_string html s) \<le> 6 * length s + 2"
proof -
  have "length (json_char html c) \<le> 6" for c by (auto simp: json_char_def split: option.splits)
  then have "length (concat (map (json_char html) s)) \<le> 6 * length s" by (induction s) (auto intro: add_mono order_trans)
  then show ?thesis by (simp add: json_string_def)
qed

lemma length_b64_sextets: "3 * length (b64_sextets xs) \<le> 4 * length xs + 2"
  by (induction xs rule: b64_sextets.induct) auto

lemma length_b64: "3 * length (b64_EncodeToString s) \<le> 4 * length s + 2"
  using length_b64_sextets [of "map of_char s"] by (simp add: b64_EncodeToString_def)

lemma demo_document_small: "length (ksh_document demo_handler) \<le> maxJWKSBytes"
proof -
  obtain k where k: "demo_published = [k]" "length (jwk_X k) \<le> 43" "length (jwk_Y k) \<le> 43" "jwk_N k = []" "jwk_E k = []" "jwk_Kty k = ''EC''"
    "jwk_Crv k = ''P-256''" "jwk_Alg k = ''ES256''" "jwk_Use k = ''sig''" "jwk_Kid k = ''k1''"
  proof (rule demo_point_bytes)
    fix xb yb
    assume b: "big_FillBytes 32 0 = Some xb" "length xb = 32" "big_FillBytes 32 0x66485c780e2f83d72433bd5d84a06bb6541c2af31dae871728bf856a174f93f4 = Some yb" "length yb = 32"
    then have "demo_published = [\<lparr>jwk_Kty = ''EC'', jwk_Crv = ''P-256'', jwk_Alg = ''ES256'', jwk_Use = ''sig'', jwk_Kid = ''k1'',
        jwk_X = b64_EncodeToString xb, jwk_Y = b64_EncodeToString yb, jwk_N = [], jwk_E = []\<rparr>]"
      by (simp add: demo_published_def AddSigningKey_def demo_key_signer_def demo_point_def MarshalECPublic_def p256CoordBytes_def)
    with b length_b64 [of xb] length_b64 [of yb] that show thesis by simp
  qed
  show ?thesis
    using k(2,3) length_json_string [of True "jwk_X k"] length_json_string [of True "jwk_Y k"]
      length_json_string [of True "''keys''"] length_json_string [of True "''kty''"] length_json_string [of True "''EC''"] length_json_string [of True "''crv''"] length_json_string [of True "''P-256''"] length_json_string [of True "''alg''"] length_json_string [of True "''ES256''"] length_json_string [of True "''use''"] length_json_string [of True "''sig''"] length_json_string [of True "''kid''"] length_json_string [of True "''k1''"] length_json_string [of True "''x''"] length_json_string [of True "''y''"]
    unfolding demo_handler_def key_set_handler.select_convs Set_MarshalJSON_def k(1)
    by (simp add: k(4-) json_object_def json_array_def encode_JWK_def opt_field_def maxJWKSBytes_def Let_def)
qed

end
