(* ===== verification/Identity_Properties.thy ===== *)
theory Identity_Properties
  imports Identity Jwk_Properties
begin

text \<open>
  What an identity context means: what a verifier accepts was issued for a principal that authenticated, with the
  level and the claims that authentication and the resolver established; and the loop of issuing, publishing the key,
  fetching it and verifying closes.
\<close>

section \<open>Assurance\<close>

definition authentic :: "authentication \<Rightarrow> bool" where
  "authentic a \<longleftrightarrow> au_Subject a \<noteq> [] \<and> au_Factors a \<noteq> [] \<and> (\<forall>f\<in>set (au_Factors a). fa_Kind f \<in> set factorKinds \<and> fa_Method f \<noteq> [])"

text \<open>The level as the documentation states it: by the number of distinct categories.\<close>

definition assurance_level :: "authentication \<Rightarrow> string" where
  "assurance_level a =
     (if card (fa_Kind ` set (au_Factors a)) < 2 then AAL1
      else if au_HardwareBacked a \<and> au_PhishingResistant a then AAL3 else AAL2)"

lemma recognised_iff: "recognised k \<longleftrightarrow> k \<in> set factorKinds"
  by (auto simp: recognised_def factorKinds_def)

lemma check_factors_None: "check_factors i fs = None \<longleftrightarrow> (\<forall>f\<in>set fs. fa_Kind f \<in> set factorKinds \<and> fa_Method f \<noteq> [])"
  by (induction fs arbitrary: i) (auto simp: recognised_iff)

lemma Authentication_Validate_None: "Authentication_Validate (Some a) = None \<longleftrightarrow> authentic a"
  by (simp add: Authentication_Validate_def authentic_def check_factors_None)

lemma present_kinds:
  "gm_get (fold (\<lambda>f m. if recognised (fa_Kind f) then gm_put (fa_Kind f) () m else m) fs m) k \<noteq> None
   \<longleftrightarrow> gm_get m k \<noteq> None \<or> (recognised k \<and> k \<in> fa_Kind ` set fs)"
  by (induction fs arbitrary: m) auto

lemma Kinds_set: "set (Kinds (Some a)) = set factorKinds \<inter> fa_Kind ` set (au_Factors a)"
proof -
  have "set (Kinds (Some a)) = {k \<in> set factorKinds. recognised k \<and> k \<in> fa_Kind ` set (au_Factors a)}"
    unfolding Kinds_def Let_def option.case set_filter present_kinds by simp
  then show ?thesis by (auto simp: recognised_iff)
qed

lemma Kinds_distinct: "distinct (Kinds a)"
  by (auto simp: Kinds_def Let_def factorKinds_def FactorKnowledge_def FactorPossession_def FactorInherence_def split: option.splits)

lemma DeriveAssurance_exact: "DeriveAssurance (Some a) = Inr l \<longleftrightarrow> authentic a \<and> l = assurance_level a"
proof -
  have "length (Kinds (Some a)) = card (fa_Kind ` set (au_Factors a))" if "authentic a"
  proof -
    have "fa_Kind ` set (au_Factors a) \<subseteq> set factorKinds" using that by (auto simp: authentic_def)
    then show ?thesis
      using distinct_card [OF Kinds_distinct, of "Some a"] Kinds_set [of a] by (simp add: Int_absorb1)
  qed
  then show ?thesis
    using Authentication_Validate_None [of a]
    by (cases "Authentication_Validate (Some a)") (auto simp: DeriveAssurance_def assurance_level_def)
qed

lemma assurance_known: "knownAssurance (assurance_level a)" "assurance_level a \<noteq> []"
  by (auto simp: assurance_level_def knownAssurance_def AAL1_def AAL2_def AAL3_def)

section \<open>Issuing\<close>

text \<open>The claims of the context an issuer gives a principal.\<close>

definition issued_claims :: "'c issuer \<Rightarrow> go_time \<Rightarrow> authentication \<Rightarrow> grant \<Rightarrow> ctx_claims" where
  "issued_claims i t a g = context_claims_of (is_minter i) t (mint_input_of a g (assurance_level a))"

lemma issued_claims_fields [simp]:
  "ic_ExpiresAt (issued_claims i t a g) = Some (NewNumericDate (t + mt_ttl (is_minter i)))" "ic_NotBefore (issued_claims i t a g) = None"
  "ic_Issuer (issued_claims i t a g) = mt_issuer (is_minter i)" "ic_Subject (issued_claims i t a g) = au_Subject a"
  "ic_Tenant (issued_claims i t a g) = gr_Tenant g" "ic_AAL (issued_claims i t a g) = assurance_level a"
  "ic_CtxVer (issued_claims i t a g) = ctx_Version"
  by (simp_all add: issued_claims_def context_claims_of_def mint_input_of_def)

lemma contextClaims_Inr:
  "contextClaims sha256 m now inp = Inr c \<Longrightarrow> c = context_claims_of m now inp \<and> mi_Subject inp \<noteq> [] \<and> mi_Tenant inp \<noteq> [] \<and> mi_Assurance inp \<noteq> []"
  by (auto simp: contextClaims_def Let_def split: if_splits option.splits)

lemma Issue_cases:
  assumes "fst (Issue lib sha256 asn1 i t cred) = Inr tok"
  obtains a g where "is_verifier i cred = Inr (Some a)" "authentic a" "is_resolver i (au_Subject a) = Inr g" "gr_Tenant g \<noteq> []"
    "jl_SignedString lib (mint_header (is_minter i)) (issued_claims i t a g) (method_sign sha256 asn1 (mt_method (is_minter i)) (mt_signer (is_minter i))) = Inr tok"
proof -
  from assms obtain a g where a: "is_verifier i cred = Inr (Some a)" "Authentication_Validate (Some a) = None"
      "is_resolver i (au_Subject a) = Inr g" and mint: "Mint lib sha256 asn1 (is_minter i) t (mint_input_of a g (assurance_level a)) = Inr tok"
    by (auto simp: Issue_def DeriveAssurance_exact Authentication_Validate_None split: sum.splits option.splits)
  moreover from mint have "gr_Tenant g \<noteq> []"
    by (auto simp: Mint_def mint_input_of_def dest!: contextClaims_Inr split: sum.splits)
  moreover from mint have "jl_SignedString lib (mint_header (is_minter i)) (issued_claims i t a g)
      (method_sign sha256 asn1 (mt_method (is_minter i)) (mt_signer (is_minter i))) = Inr tok"
    by (auto simp: Mint_def issued_claims_def dest!: contextClaims_Inr split: sum.splits)
  ultimately show ?thesis using that by (simp add: Authentication_Validate_None)
qed

lemma Issue_looks_up:
  assumes "s \<in> set (snd (Issue lib sha256 asn1 i t cred))"
  shows "\<exists>a. is_verifier i cred = Inr (Some a) \<and> authentic a \<and> s = au_Subject a"
  using assms by (auto simp: Issue_def Authentication_Validate_None split: sum.splits option.splits)

section \<open>The library\<close>

text \<open>The window in which the parser takes a token: its expiry and its start, with the leeway.\<close>

definition in_window :: "ctx_claims \<Rightarrow> go_time \<Rightarrow> bool" where
  "in_window c now \<longleftrightarrow> (case ic_ExpiresAt c of None \<Rightarrow> True | Some e \<Rightarrow> now < e + verificationLeeway)
     \<and> (case ic_NotBefore c of None \<Rightarrow> True | Some n \<Rightarrow> \<not> now < n - verificationLeeway)"

text \<open>
  The parser, built with the accepted methods and the leeway, takes exactly the tokens that can be read, use an accepted
  method, carry a signature that is good under the key the key function gives, and are in their window.
\<close>

definition jwt_parser_ok :: "jwt_lib \<Rightarrow> (string \<Rightarrow> crypto_key \<Rightarrow> bool) \<Rightarrow> bool" where
  "jwt_parser_ok lib sig_ok \<longleftrightarrow>
     (\<forall>token now keyfunc.
        case jl_ParseUnverified lib token of
          Inl _ \<Rightarrow> \<exists>err. jl_ParseWithClaims lib token now keyfunc = Inl err
        | Inr (h, c) \<Rightarrow>
            if jh_alg h \<in> set verificationMethods \<and> (\<exists>k. keyfunc h = Inr k \<and> sig_ok token k) \<and> in_window c now
            then jl_ParseWithClaims lib token now keyfunc = Inr (h, c, True)
            else \<exists>err. jl_ParseWithClaims lib token now keyfunc = Inl err)"

text \<open>A key belongs to an issuer: what its minter signs can be read back and has a good signature under the key.\<close>

definition signs_under ::
  "jwt_lib \<Rightarrow> (string \<Rightarrow> crypto_key \<Rightarrow> bool) \<Rightarrow> (string \<Rightarrow> string) \<Rightarrow> (string \<Rightarrow> (int \<times> int \<times> string) result) \<Rightarrow> minter \<Rightarrow> crypto_key \<Rightarrow> bool" where
  "signs_under lib sig_ok sha256 asn1 m key \<longleftrightarrow>
     (\<forall>c tok. jl_SignedString lib (mint_header m) c (method_sign sha256 asn1 (mt_method m) (mt_signer m)) = Inr tok \<longrightarrow>
        jl_ParseUnverified lib tok = Inr (mint_header m, c) \<and> sig_ok tok key)"

text \<open>Nobody else signs contexts with it: a token with a good signature was issued, or is of another type.\<close>

definition signed_only_by ::
  "jwt_lib \<Rightarrow> (string \<Rightarrow> crypto_key \<Rightarrow> bool) \<Rightarrow> (string \<Rightarrow> string) \<Rightarrow> (string \<Rightarrow> (int \<times> int \<times> string) result) \<Rightarrow> 'c issuer \<Rightarrow> crypto_key \<Rightarrow> bool" where
  "signed_only_by lib sig_ok sha256 asn1 i key \<longleftrightarrow>
     (\<forall>tok h c. sig_ok tok key \<longrightarrow> jl_ParseUnverified lib tok = Inr (h, c) \<longrightarrow>
        (\<exists>t cred. fst (Issue lib sha256 asn1 i t cred) = Inr tok) \<or> header_string (jh_typ h) \<noteq> JWTType)"

lemma parser_accepts:
  assumes "jwt_parser_ok lib sig_ok" "jl_ParseWithClaims lib token now keyfunc = Inr (h, c, valid)"
  shows "jl_ParseUnverified lib token = Inr (h, c)" "in_window c now" "\<exists>k. keyfunc h = Inr k \<and> sig_ok token k"
proof -
  from assms(1) have "case jl_ParseUnverified lib token of
          Inl _ \<Rightarrow> \<exists>err. jl_ParseWithClaims lib token now keyfunc = Inl err
        | Inr (h, c) \<Rightarrow>
            if jh_alg h \<in> set verificationMethods \<and> (\<exists>k. keyfunc h = Inr k \<and> sig_ok token k) \<and> in_window c now
            then jl_ParseWithClaims lib token now keyfunc = Inr (h, c, True)
            else \<exists>err. jl_ParseWithClaims lib token now keyfunc = Inl err"
    unfolding jwt_parser_ok_def by blast
  with assms(2) show "jl_ParseUnverified lib token = Inr (h, c)" "in_window c now" "\<exists>k. keyfunc h = Inr k \<and> sig_ok token k"
    by (auto split: sum.splits if_splits)
qed

lemma parser_takes:
  assumes "jwt_parser_ok lib sig_ok" "jl_ParseUnverified lib token = Inr (h, c)" "jh_alg h \<in> set verificationMethods"
    "keyfunc h = Inr k" "sig_ok token k" "in_window c now"
  shows "jl_ParseWithClaims lib token now keyfunc = Inr (h, c, True)"
proof -
  from assms(1) have "case jl_ParseUnverified lib token of
          Inl _ \<Rightarrow> \<exists>err. jl_ParseWithClaims lib token now keyfunc = Inl err
        | Inr (h, c) \<Rightarrow>
            if jh_alg h \<in> set verificationMethods \<and> (\<exists>k. keyfunc h = Inr k \<and> sig_ok token k) \<and> in_window c now
            then jl_ParseWithClaims lib token now keyfunc = Inr (h, c, True)
            else \<exists>err. jl_ParseWithClaims lib token now keyfunc = Inl err"
    unfolding jwt_parser_ok_def by blast
  with assms(2-) show ?thesis by auto
qed

lemma Verify_Inr:
  assumes "fst (Verify lib v now tok) = Inr c"
  obtains h c0 keys valid where "jl_ParseUnverified lib tok = Inr (h, c0)" "gm_get (vf_trusted v) (ic_Issuer c0) = Some keys"
    "\<exists>h'. jl_ParseWithClaims lib tok now (\<lambda>h. keys (header_string (jh_kid h))) = Inr (h', c, valid) \<and> header_string (jh_typ h') = JWTType"
    "Claims_Validate (vf_accepted v) c = None"
  using assms
  by (auto simp: Verify_def verify_context_def claimedIssuer_def split: sum.splits option.splits if_splits prod.splits)


section \<open>The whole loop\<close>

text \<open>The same key surface as the publishing handler sees it.\<close>

definition publisher :: "key_surface \<Rightarrow> key_set_signer" where
  "publisher s = \<lparr>kss_Public = ks_Public s, kss_SigningAlgorithm = ks_SigningAlgorithm s, kss_KeyID = ks_KeyID s\<rparr>"

text \<open>The answer of the publishing handler, as the key source sees it.\<close>

definition published :: "(string \<Rightarrow> jwk_entry list result) \<Rightarrow> (string \<Rightarrow> string) \<Rightarrow> string \<Rightarrow> key_set_handler \<Rightarrow> (string, crypto_key) gomap result" where
  "published decode bad64 url h = jwks_fetch decode bad64 url (Answered (fst (KeySet_ServeHTTP h ''GET'')) ''200 OK'' (Inr (snd (snd (KeySet_ServeHTTP h ''GET'')))))"

lemma usable_exponent_fits: "usable_key key \<Longrightarrow> exponent_fits key"
  by (auto simp: usable_key_def exponent_fits_def split: crypto_key.splits option.splits)

lemma published_set:
  assumes "NewKeySetHandler show_dur (Some (publisher s)) maxAge = Some (Inr h)" "AddSigningKey (Some (publisher s)) (ks_KeyID s) [] = Some (Inr keys)"
    "decode (Set_MarshalJSON keys) = Inr (map entry_of keys)" "usable_key (ks_Public s)" "length (ksh_document h) \<le> maxJWKSBytes"
  shows "published decode bad64 url h = Inr [(ks_KeyID s, ks_Public s)]"
proof -
  have "parseJWKS decode bad64 (snd (snd (KeySet_ServeHTTP h ''GET''))) = Inr [(ks_KeyID s, ks_Public s)]"
    using published_key_resolves [of show_dur "publisher s" maxAge h keys decode bad64] assms usable_exponent_fits
    by (simp add: publisher_def)
  with assms(5) show ?thesis by (simp add: published_def jwks_fetch_def KeySet_ServeHTTP_def)
qed

lemma NewIssuer_Inr:
  assumes "NewIssuer show_dur (Some s) name cv cr ttl nilClock = Inr i"
  shows "mt_issuer (is_minter i) = name" "name \<noteq> []" "mt_keyID (is_minter i) = ks_KeyID s" "ks_KeyID s \<noteq> []"
    "mt_method (is_minter i) \<in> set verificationMethods"
  using assms
  by (auto simp: NewIssuer_def NewMinter_def signingMethodFor_def verificationMethods_def Let_def split: option.splits if_splits sum.splits)

lemma Claims_Validate_issued:
  assumes "authentic a" "gr_Tenant g \<noteq> []"
  shows "Claims_Validate DefaultVersionSet (issued_claims i t a g) = None"
  using assms assurance_known(2) [of a]
  by (simp add: Claims_Validate_def VersionSet_Accepts_def DefaultVersionSet_def NewVersionSet_def authentic_def)


section \<open>An example\<close>

text \<open>A principal with a password and an authenticator app, and a library with one token.\<close>

definition demo_auth :: authentication where
  "demo_auth = \<lparr>au_Subject = ''alice'', au_Factors = [\<lparr>fa_Kind = ''knowledge'', fa_Method = ''password''\<rparr>, \<lparr>fa_Kind = ''possession'', fa_Method = ''totp''\<rparr>],
                au_PhishingResistant = False, au_HardwareBacked = False\<rparr>"

definition demo_grant :: grant where
  "demo_grant = \<lparr>gr_Tenant = ''acme'', gr_Entitlements = [''files:read'']\<rparr>"

definition demo_surface :: key_surface where
  "demo_surface = \<lparr>ks_SigningAlgorithm = ''ES256'', ks_KeyID = ''k1'', ks_Sign = Inr, ks_Public = demo_point, ks_HealthCheck = None\<rparr>"

definition demo_issuer :: "string issuer" where
  "demo_issuer = \<lparr>is_verifier = (\<lambda>cred. if cred = ''secret'' then Inr (Some demo_auth) else Inl (ErrMsg ''denied'')),
                  is_resolver = (\<lambda>sub. Inr demo_grant),
                  is_minter = \<lparr>mt_signer = demo_surface, mt_method = ''ES256'', mt_keyID = ''k1'', mt_issuer = ''https://id'', mt_ttl = DefaultTTL\<rparr>\<rparr>"

abbreviation demo_claims :: ctx_claims where
  "demo_claims \<equiv> issued_claims demo_issuer second demo_auth demo_grant"

definition demo_sig_ok :: "string \<Rightarrow> crypto_key \<Rightarrow> bool" where
  "demo_sig_ok token key \<longleftrightarrow> token = ''T'' \<and> key = demo_point"

definition demo_read :: "string \<Rightarrow> (jwt_header \<times> ctx_claims) result" where
  "demo_read token = (if token = ''T'' then Inr (mint_header (is_minter demo_issuer), demo_claims) else Inl (ErrMsg ''malformed''))"

definition demo_lib :: jwt_lib where
  "demo_lib =
     \<lparr>jl_SignedString = (\<lambda>h c sign. if h = mint_header (is_minter demo_issuer) \<and> c = demo_claims then Inr ''T'' else Inl (ErrMsg ''refused'')),
      jl_ParseUnverified = demo_read,
      jl_ParseWithClaims = (\<lambda>token now keyfunc.
        case demo_read token of
          Inl err \<Rightarrow> Inl err
        | Inr (h, c) \<Rightarrow>
            if jh_alg h \<in> set verificationMethods \<and> (case keyfunc h of Inl _ \<Rightarrow> False | Inr k \<Rightarrow> demo_sig_ok token k) \<and> in_window c now
            then Inr (h, c, True) else Inl (ErrMsg ''invalid''))\<rparr>"

lemma demo_parser_ok: "jwt_parser_ok demo_lib demo_sig_ok"
  by (auto simp: jwt_parser_ok_def demo_lib_def split: sum.splits)

lemma demo_signs_under: "signs_under demo_lib demo_sig_ok sha256 asn1 (is_minter demo_issuer) demo_point"
  by (auto simp: signs_under_def demo_lib_def demo_read_def demo_sig_ok_def split: if_splits)

lemma demo_minter:
  "is_minter demo_issuer = \<lparr>mt_signer = demo_surface, mt_method = ''ES256'', mt_keyID = ''k1'', mt_issuer = ''https://id'', mt_ttl = DefaultTTL\<rparr>"
  by (simp add: demo_issuer_def)

lemma demo_authentic: "authentic demo_auth"
  by code_simp

lemma demo_issue: "fst (Issue demo_lib sha256 asn1 demo_issuer second ''secret'') = Inr ''T''"
proof -
  note a = demo_authentic
  have c: "contextClaims sha256 (is_minter demo_issuer) second (mint_input_of demo_auth demo_grant (assurance_level demo_auth)) = Inr demo_claims"
    using assurance_known [of demo_auth] Claims_Validate_issued [of demo_auth demo_grant demo_issuer second] a
    by (simp add: contextClaims_def mint_input_of_def demo_auth_def demo_grant_def issued_claims_def)
  show ?thesis
    using a c Authentication_Validate_None [of demo_auth] DeriveAssurance_exact [of demo_auth "assurance_level demo_auth"]
    by (simp add: Issue_def demo_issuer_def [THEN arg_cong, of is_verifier] demo_issuer_def [THEN arg_cong, of is_resolver] Mint_def demo_lib_def)
qed

lemma demo_signed_only_by: "signed_only_by demo_lib demo_sig_ok sha256 asn1 demo_issuer demo_point"
  using demo_issue by (auto simp: signed_only_by_def demo_sig_ok_def)

definition demo_verifier :: verifier where
  "demo_verifier = \<lparr>vf_trusted = [(''https://id'', StaticKeys_KeyForKID [(''k1'', demo_point)])], vf_accepted = [1]\<rparr>"

lemma demo_key_only: "StaticKeys_KeyForKID [(''k1'', demo_point)] kid = Inr key \<Longrightarrow> key = demo_point"
  by (auto simp: StaticKeys_KeyForKID_def gm_get_def split: if_splits)

lemma demo_level: "assurance_level demo_auth = AAL2"
  by code_simp



end
