(* ===== verification/Server.thy ===== *)
theory Server
  imports Tokens Rbac Audit_Log
begin

text \<open>
  The request path of the RPC server: the authentication, permission and audit interceptors of
  \<^verbatim>\<open>src/platform/server/interceptors.go\<close>, the tenant scope of \<^verbatim>\<open>tenant_scope.go\<close>, the health checker, the
  tables of public and protected procedures, the administrator context of \<^verbatim>\<open>src/platform/adminauth\<close> and the module
  registry of \<^verbatim>\<open>src/platform/registry\<close>.

  A handler is a function of the context, the request and the world of the server: the store, the enforcer with
  its cache and the audit logger. An interceptor maps handlers to handlers, so that the order of the chain is the
  order of composition. The values a context carries are the fields of a record. Parameters: \<^verbatim>\<open>uuid.Parse\<close>, the
  clock, the JSON decoder of permission overrides, the text of a Connect error, the resolver of administrators.
  Header names are in their canonical form.
\<close>

section \<open>Requests and handlers\<close>

datatype rpc_code =
  CodeUnauthenticated | CodePermissionDenied | CodeInvalidArgument | CodeInternal | CodeNotFound | CodeUnimplemented
| CodeCanceled

record rpc_error =
  ce_Code :: rpc_code
  ce_Err :: "go_error option"

definition NewError :: "rpc_code \<Rightarrow> go_error option \<Rightarrow> rpc_error" where
  "NewError code err = \<lparr>ce_Code = code, ce_Err = err\<rparr>"

text \<open>The common name of a certificate; a connection's verified chains.\<close>

record tls_state =
  tl_VerifiedChains :: "string list list"

record admin_identity =
  ai_SubjectCN :: string
  ai_TenantID :: uuid
  ai_IsSuperAdmin :: bool
  ai_Roles :: "string list"

record request_context =
  cx_claims :: "token_claims option"
  cx_admin :: "admin_identity option"
  cx_tls :: "tls_state option"

definition context_Background :: request_context where
  "context_Background = \<lparr>cx_claims = None, cx_admin = None, cx_tls = None\<rparr>"

record 'q any_request =
  rq_Procedure :: string
  rq_Header :: "(string, string) gomap"
  rq_Msg :: 'q

definition Header_Get :: "(string, string) gomap \<Rightarrow> string \<Rightarrow> string" where
  "Header_Get h k = gm_get_or [] h k"

record ('s, 'l) server_world =
  sw_store :: 's
  sw_enforcer :: enforcer
  sw_logger :: "'l logger"

type_synonym ('q, 'r, 'w) unary_func = "request_context \<Rightarrow> 'q any_request \<Rightarrow> 'w \<Rightarrow> (rpc_error + 'r) \<times> 'w"
type_synonym ('q, 'w) streaming_func = "request_context \<Rightarrow> 'q any_request \<Rightarrow> 'w \<Rightarrow> rpc_error option \<times> 'w"

text \<open>What a request reads from outside: the clock at the token check and at the two points of the permission check.\<close>

record server_env =
  se_now :: go_time
  se_now1 :: go_time
  se_now2 :: go_time
  se_Parse :: "string \<Rightarrow> uuid result"
  se_overrides :: "string \<Rightarrow> (string, bool) gomap option"
  se_ErrText :: "rpc_error \<Rightarrow> string"

section \<open>Claims in the context\<close>

definition server_WithClaims :: "request_context \<Rightarrow> token_claims \<Rightarrow> request_context" where
  "server_WithClaims ctx claims = ctx\<lparr>cx_claims := Some claims\<rparr>"

definition server_ClaimsFromContext :: "request_context \<Rightarrow> token_claims option" where
  "server_ClaimsFromContext ctx = cx_claims ctx"

definition ExtractClaims :: "request_context \<Rightarrow> string \<times> string \<times> string" where
  "ExtractClaims ctx =
     (case server_ClaimsFromContext ctx of
        None \<Rightarrow> ([], [], [])
      | Some c \<Rightarrow> (tc_UserID c, tc_CompanyID c, tc_Role c))"

section \<open>Authentication\<close>

definition bearer_token :: "(string, string) gomap \<Rightarrow> string option" where
  "bearer_token h =
     (let authHeader = Header_Get h ''Authorization''
      in if authHeader = [] then None
         else let parts = SplitN authHeader (CHR '' '') 2
              in if length parts \<noteq> 2 \<or> \<not> EqualFold (parts ! 0) ''bearer'' then None else Some (parts ! 1))"

definition authenticate_request :: "jose_lib \<Rightarrow> jwt_manager \<Rightarrow> server_env \<Rightarrow> (string, string) gomap \<Rightarrow> rpc_error + token_claims" where
  "authenticate_request L m V h =
     (case bearer_token h of
        None \<Rightarrow> Inl (NewError CodeUnauthenticated None)
      | Some t \<Rightarrow>
          (case ValidateAccessToken L m (se_now V) t of
             Inl _ \<Rightarrow> Inl (NewError CodeUnauthenticated None)
           | Inr claims \<Rightarrow> Inr claims))"

definition auth_WrapUnary ::
  "jose_lib \<Rightarrow> jwt_manager \<Rightarrow> server_env \<Rightarrow> (string, bool) gomap \<Rightarrow> ('q, 'r, 'w) unary_func \<Rightarrow> ('q, 'r, 'w) unary_func" where
  "auth_WrapUnary L m V publicProcedures next ctx req w =
     (if gm_get_or False publicProcedures (rq_Procedure req) then next ctx req w
      else (case authenticate_request L m V (rq_Header req) of
              Inl e \<Rightarrow> (Inl e, w)
            | Inr claims \<Rightarrow> next (server_WithClaims ctx claims) req w))"

definition auth_WrapStreamingHandler ::
  "jose_lib \<Rightarrow> jwt_manager \<Rightarrow> server_env \<Rightarrow> (string, bool) gomap \<Rightarrow> ('q, 'w) streaming_func \<Rightarrow> ('q, 'w) streaming_func" where
  "auth_WrapStreamingHandler L m V publicProcedures next ctx conn w =
     (if gm_get_or False publicProcedures (rq_Procedure conn) then next ctx conn w
      else (case authenticate_request L m V (rq_Header conn) of
              Inl e \<Rightarrow> (Some e, w)
            | Inr claims \<Rightarrow> next (server_WithClaims ctx claims) conn w))"

section \<open>Permissions\<close>

record server_permission =
  sp_Feature :: string
  sp_Action :: string

record interceptor_config =
  ic_PublicProcedures :: "(string, bool) gomap"
  ic_ProcedurePermissions :: "(string, server_permission) gomap"

definition authorize ::
  "'s rbac_store \<Rightarrow> server_env \<Rightarrow> server_permission \<Rightarrow> request_context \<Rightarrow> ('s, 'l) server_world \<Rightarrow>
   rpc_error option \<times> ('s, 'l) server_world" where
  "authorize R V perm ctx w =
     (case server_ClaimsFromContext ctx of
        None \<Rightarrow> (Some (NewError CodeUnauthenticated None), w)
      | Some claims \<Rightarrow>
          (case se_Parse V (tc_UserID claims) of
             Inl _ \<Rightarrow> (Some (NewError CodeUnauthenticated None), w)
           | Inr userID \<Rightarrow>
               (case se_Parse V (tc_CompanyID claims) of
                  Inl _ \<Rightarrow> (Some (NewError CodeUnauthenticated None), w)
                | Inr companyID \<Rightarrow>
                    (case HasPermission (se_overrides V) R (se_now1 V) (se_now2 V) userID companyID
                            (sp_Feature perm @ '':'' @ sp_Action perm) (sw_store w) (sw_enforcer w) of
                       (Inl _, e) \<Rightarrow>
                         (Some (NewError CodeInternal (Some (ErrMsg ''permission check failed''))), w\<lparr>sw_enforcer := e\<rparr>)
                     | (Inr allowed, e) \<Rightarrow>
                         (if allowed then None
                          else Some (NewError CodePermissionDenied (Some (ErrMsg ''insufficient permissions''))),
                          w\<lparr>sw_enforcer := e\<rparr>)))))"

definition rbac_WrapUnary ::
  "'s rbac_store \<Rightarrow> server_env \<Rightarrow> interceptor_config \<Rightarrow> ('q, 'r, ('s, 'l) server_world) unary_func \<Rightarrow>
   ('q, 'r, ('s, 'l) server_world) unary_func" where
  "rbac_WrapUnary R V cfg next ctx req w =
     (if gm_get_or False (ic_PublicProcedures cfg) (rq_Procedure req) then next ctx req w
      else (case gm_get (ic_ProcedurePermissions cfg) (rq_Procedure req) of
              None \<Rightarrow> next ctx req w
            | Some perm \<Rightarrow>
                (case authorize R V perm ctx w of
                   (Some e, w') \<Rightarrow> (Inl e, w')
                 | (None, w') \<Rightarrow> next ctx req w')))"

definition rbac_WrapStreamingHandler ::
  "'s rbac_store \<Rightarrow> server_env \<Rightarrow> interceptor_config \<Rightarrow> ('q, ('s, 'l) server_world) streaming_func \<Rightarrow>
   ('q, ('s, 'l) server_world) streaming_func" where
  "rbac_WrapStreamingHandler R V cfg next ctx conn w =
     (if gm_get_or False (ic_PublicProcedures cfg) (rq_Procedure conn) then next ctx conn w
      else (case gm_get (ic_ProcedurePermissions cfg) (rq_Procedure conn) of
              None \<Rightarrow> next ctx conn w
            | Some perm \<Rightarrow>
                (case authorize R V perm ctx w of
                   (Some e, w') \<Rightarrow> (Some e, w')
                 | (None, w') \<Rightarrow> next ctx conn w')))"

section \<open>Audit\<close>

definition procedure_names :: "string \<Rightarrow> string \<times> string" where
  "procedure_names procedure =
     (let parts = Split (TrimPrefix procedure ''/'') (CHR ''/'')
      in if length parts = 2 then (parts ! 0, parts ! 1) else (''unknown'', ''unknown''))"

definition request_event ::
  "server_env \<Rightarrow> token_claims \<Rightarrow> string \<Rightarrow> (string, string) gomap \<Rightarrow> rpc_error option \<Rightarrow> audit_event" where
  "request_event V claims procedure h handlerErr =
     (let (resource, action) = procedure_names procedure;
          details = (''procedure'', DStr procedure) #
            (case handlerErr of
               Some e \<Rightarrow> [(''error'', DStr (se_ErrText V e)), (''status'', DStr ''error'')]
             | None \<Rightarrow> [(''status'', DStr ''success'')])
      in basic_event (tc_CompanyID claims) (tc_UserID claims) action resource [] details
           (Header_Get h ''X-Forwarded-For''))"

definition audit_request ::
  "server_env \<Rightarrow> request_context \<Rightarrow> 'q any_request \<Rightarrow> rpc_error option \<Rightarrow> ('s, 'l) server_world \<Rightarrow> ('s, 'l) server_world" where
  "audit_request V ctx req handlerErr w =
     (case server_ClaimsFromContext ctx of
        None \<Rightarrow> w
      | Some claims \<Rightarrow>
          w\<lparr>sw_logger := snd (Logger_Log (request_event V claims (rq_Procedure req) (rq_Header req) handlerErr) (sw_logger w))\<rparr>)"

definition audit_WrapUnary ::
  "server_env \<Rightarrow> (string, bool) gomap \<Rightarrow> ('q, 'r, ('s, 'l) server_world) unary_func \<Rightarrow> ('q, 'r, ('s, 'l) server_world) unary_func" where
  "audit_WrapUnary V publicProcedures next ctx req w =
     (if gm_get_or False publicProcedures (rq_Procedure req) then next ctx req w
      else (case next ctx req w of
              (Inl e, w') \<Rightarrow> (Inl e, audit_request V ctx req (Some e) w')
            | (Inr resp, w') \<Rightarrow> (Inr resp, audit_request V ctx req None w')))"

definition audit_WrapStreamingHandler ::
  "server_env \<Rightarrow> (string, bool) gomap \<Rightarrow> ('q, ('s, 'l) server_world) streaming_func \<Rightarrow> ('q, ('s, 'l) server_world) streaming_func" where
  "audit_WrapStreamingHandler V publicProcedures next ctx conn w =
     (if gm_get_or False publicProcedures (rq_Procedure conn) then next ctx conn w
      else (case next ctx conn w of (handlerErr, w') \<Rightarrow> (handlerErr, audit_request V ctx conn handlerErr w')))"

section \<open>Procedures\<close>

text \<open>The names are those of the generated constants.\<close>

definition DefaultPublicProcedures :: "(string, bool) gomap" where
  "DefaultPublicProcedures =
     [(''/platform.v1.AuthService/Login'', True), (''/platform.v1.AuthService/SignUp'', True),
      (''/platform.v1.AuthService/RefreshToken'', True), (''/platform.v1.AuthService/Logout'', True)]"

abbreviation perm_of :: "string \<Rightarrow> string \<Rightarrow> server_permission" where
  "perm_of f a \<equiv> \<lparr>sp_Feature = f, sp_Action = a\<rparr>"

definition defaultProcedurePermissions :: "(string, server_permission) gomap" where
  "defaultProcedurePermissions =
     [(''/platform.v1.CompanyService/CreateCompany'', perm_of ''settings'' ''admin''),
      (''/platform.v1.CompanyService/UpdateCompany'', perm_of ''settings'' ''edit''),
      (''/platform.v1.RBACService/CreateRole'', perm_of ''settings'' ''admin''),
      (''/platform.v1.RBACService/AssignRole'', perm_of ''settings'' ''admin''),
      (''/platform.v1.RBACService/RemoveRole'', perm_of ''settings'' ''admin''),
      (''/platform.v1.WebhookService/RegisterWebhook'', perm_of ''settings'' ''admin''),
      (''/platform.v1.WebhookService/DeleteWebhook'', perm_of ''settings'' ''admin'')]"

definition rbacConfig :: interceptor_config where
  "rbacConfig = \<lparr>ic_PublicProcedures = DefaultPublicProcedures, ic_ProcedurePermissions = defaultProcedurePermissions\<rparr>"

text \<open>The chain of the development server, and the chain with the audit interceptor that the package offers.\<close>

definition dev_chain ::
  "jose_lib \<Rightarrow> jwt_manager \<Rightarrow> 's rbac_store \<Rightarrow> server_env \<Rightarrow> ('q, 'r, ('s, 'l) server_world) unary_func \<Rightarrow>
   ('q, 'r, ('s, 'l) server_world) unary_func" where
  "dev_chain L m R V next = auth_WrapUnary L m V DefaultPublicProcedures (rbac_WrapUnary R V rbacConfig next)"

section \<open>Administrators\<close>

abbreviation em_dash :: string where
  "em_dash \<equiv> [CHR 0xE2, CHR 0x80, CHR 0x94]"

definition AdminIdentity_IsZero :: "admin_identity \<Rightarrow> bool" where
  "AdminIdentity_IsZero a \<longleftrightarrow>
     ai_SubjectCN a = [] \<and> ai_TenantID a = uuid_Nil \<and> \<not> ai_IsSuperAdmin a \<and> length (ai_Roles a) = 0"

definition HasTenantAccess :: "admin_identity \<Rightarrow> uuid \<Rightarrow> bool" where
  "HasTenantAccess a targetTenantID =
     (if ai_IsSuperAdmin a then True else ai_TenantID a \<noteq> uuid_Nil \<and> ai_TenantID a = targetTenantID)"

definition AdminIdentity_HasRole :: "admin_identity \<Rightarrow> string \<Rightarrow> bool" where
  "AdminIdentity_HasRole a name = list_ex (\<lambda>r. r = name) (ai_Roles a)"

definition ErrMissingCN :: go_error where "ErrMissingCN = ErrVar ''adminauth: missing mTLS peer CN''"
definition ErrUnknownAdmin :: go_error where "ErrUnknownAdmin = ErrVar ''adminauth: unknown admin CN''"
definition ErrNoVerifiedChain :: go_error where "ErrNoVerifiedChain = ErrVar ''mtls: no verified chain in connection state''"

definition WithAdminIdentity :: "request_context \<Rightarrow> admin_identity \<Rightarrow> request_context" where
  "WithAdminIdentity ctx a = ctx\<lparr>cx_admin := Some a\<rparr>"

definition AdminIdentityFromContext :: "request_context \<Rightarrow> admin_identity option" where
  "AdminIdentityFromContext ctx = cx_admin ctx"

definition WithTLSConnectionState :: "tls_state option \<Rightarrow> request_context \<Rightarrow> request_context" where
  "WithTLSConnectionState r_TLS ctx = (case r_TLS of None \<Rightarrow> ctx | Some s \<Rightarrow> ctx\<lparr>cx_tls := Some s\<rparr>)"

definition TLSConnectionStateFromContext :: "request_context \<Rightarrow> tls_state option" where
  "TLSConnectionStateFromContext ctx = cx_tls ctx"

definition ExtractPeerCommonName :: "tls_state option \<Rightarrow> string result" where
  "ExtractPeerCommonName state =
     (case state of
        None \<Rightarrow> Inl ErrNoVerifiedChain
      | Some s \<Rightarrow>
          (case tl_VerifiedChains s of
             [] \<Rightarrow> Inl ErrNoVerifiedChain
           | [] # _ \<Rightarrow> Inl ErrNoVerifiedChain
           | (leaf # _) # _ \<Rightarrow> Inr leaf))"

definition AdminContextInterceptor ::
  "(string \<Rightarrow> admin_identity result) \<Rightarrow> ('q, 'r, 'w) unary_func \<Rightarrow> ('q, 'r, 'w) unary_func" where
  "AdminContextInterceptor ResolveFromCN next ctx req w =
     (let state = TLSConnectionStateFromContext ctx
      in if state = None then
           (Inl (NewError CodeInternal (Some (ErrMsg (''adminauth: TLS state missing '' @ em_dash @ '' wire WithTLSConnectionState before Connect mux'')))), w)
         else (case ExtractPeerCommonName state of
             Inl err \<Rightarrow> (Inl (NewError CodeUnauthenticated (Some (ErrWrap ''adminauth: cn extract: '' err []))), w)
           | Inr cn \<Rightarrow>
               if cn = [] then (Inl (NewError CodeUnauthenticated (Some ErrMissingCN)), w)
               else (case ResolveFromCN cn of
                       Inl err \<Rightarrow>
                         if errors_is err ErrUnknownAdmin then (Inl (NewError CodePermissionDenied (Some err)), w)
                         else (Inl (NewError CodeInternal (Some (ErrWrap ''adminauth: resolver: '' err []))), w)
                     | Inr identity \<Rightarrow> next (WithAdminIdentity ctx identity) req w)))"

section \<open>Tenant scope\<close>

definition ErrNoTargetTenant :: go_error where "ErrNoTargetTenant = ErrVar ''server: request has no target tenant_id''"
definition ErrCrossTenantAccess :: go_error where "ErrCrossTenantAccess = ErrVar ''server: cross-tenant access denied''"

record tenant_scope_opts =
  ts_dedicatedTenant :: uuid

type_synonym tenant_scope_option = "tenant_scope_opts \<Rightarrow> tenant_scope_opts"

definition WithDedicatedTenant :: "uuid \<Rightarrow> tenant_scope_option" where
  "WithDedicatedTenant tenantID = (\<lambda>cfg. cfg\<lparr>ts_dedicatedTenant := tenantID\<rparr>)"

definition tenant_scope_config :: "tenant_scope_option list \<Rightarrow> tenant_scope_opts" where
  "tenant_scope_config opts = fold (\<lambda>opt. opt) opts \<lparr>ts_dedicatedTenant = uuid_Nil\<rparr>"

definition TenantScopeInterceptor ::
  "('q any_request \<Rightarrow> uuid result) \<Rightarrow> tenant_scope_option list \<Rightarrow> ('q, 'r, 'w) unary_func \<Rightarrow> ('q, 'r, 'w) unary_func" where
  "TenantScopeInterceptor extractor opts next ctx req w =
     (let dedicated = ts_dedicatedTenant (tenant_scope_config opts)
      in case AdminIdentityFromContext ctx of
           None \<Rightarrow>
             (Inl (NewError CodeUnauthenticated
                (Some (ErrMsg (''server: tenant_scope interceptor requires admin identity in context '' @ em_dash @ '' chain NewAdminContextInterceptor first'')))), w)
         | Some admin \<Rightarrow>
             if dedicated \<noteq> uuid_Nil then
               (case extractor req of
                  Inl err \<Rightarrow> (Inl (NewError CodeInvalidArgument (Some (ErrWrap ''server: tenant_id extract: '' err []))), w)
                | Inr target \<Rightarrow>
                    if target = uuid_Nil then next ctx req w
                    else if target \<noteq> dedicated then
                      (Inl (NewError CodePermissionDenied
                         (Some (ErrMsg (''server: dedicated-mode: target tenant '' @ target @ '' != dedicated '' @ dedicated)))), w)
                    else next ctx req w)
             else if ai_IsSuperAdmin admin then next ctx req w
             else (case extractor req of
                     Inl err \<Rightarrow>
                       (Inl (NewError CodeInvalidArgument (Some (ErrWrap ''server: tenant_id extract: '' err []))), w)
                   | Inr target \<Rightarrow>
                       if target = uuid_Nil then (Inl (NewError CodeInvalidArgument (Some ErrNoTargetTenant)), w)
                       else if \<not> HasTenantAccess admin target then
                         (Inl (NewError CodePermissionDenied
                            (Some (ErrWrap [] ErrCrossTenantAccess
                               ('': admin tenant='' @ ai_TenantID admin @ '' target tenant='' @ target)))), w)
                       else next ctx req w))"

section \<open>Health\<close>

text \<open>A component is its check; the map is visited in the order \<^verbatim>\<open>order\<close>.\<close>

type_synonym health_checker = "(string, go_error option) gomap"

definition HealthChecker_Register :: "string \<Rightarrow> go_error option \<Rightarrow> health_checker \<Rightarrow> health_checker" where
  "HealthChecker_Register name c hc = gm_put name c hc"

definition HealthChecker_Check :: "health_checker \<Rightarrow> string \<times> (string, string) gomap" where
  "HealthChecker_Check hc =
     (let components = map (\<lambda>(name, c). (name, case c of Some err \<Rightarrow> ''unhealthy: '' @ error_text err
                                                         | None \<Rightarrow> ''healthy'')) hc
      in (if list_all (\<lambda>(_, c). c = None) hc then ''healthy'' else ''degraded'', components))"

definition HealthChecker_status :: "health_checker \<Rightarrow> nat" where
  "HealthChecker_status hc = (if fst (HealthChecker_Check hc) = ''healthy'' then 200 else 503)"

section \<open>The module registry\<close>

record nav_item =
  ni_ID :: string
  ni_Label :: string
  ni_Icon :: string
  ni_Path :: string
  ni_Feature :: string
  ni_Priority :: int
  ni_Section :: string

record dash_widget =
  wi_ID :: string
  wi_Label :: string
  wi_Type :: string
  wi_Feature :: string
  wi_Priority :: int

record search_scope =
  ss_ID :: string
  ss_Label :: string
  ss_Feature :: string

record module_registration =
  mr_Name :: string
  mr_NavItems :: "nav_item list"
  mr_Widgets :: "dash_widget list"
  mr_SearchScopes :: "search_scope list"
  mr_BadgeProvider :: "(string \<Rightarrow> string \<Rightarrow> int) option"

type_synonym module_registry = "(string, module_registration) gomap"

definition Registry_Register :: "module_registration \<Rightarrow> module_registry \<Rightarrow> module_registry" where
  "Registry_Register reg r = gm_put (mr_Name reg) reg r"

text \<open>A feature is on when it is empty or enabled; a map is visited in the order of its list.\<close>

definition feature_on :: "(string, bool) gomap \<Rightarrow> string \<Rightarrow> bool" where
  "feature_on enabledFeatures feature \<longleftrightarrow> feature = [] \<or> gm_get_or False enabledFeatures feature"

definition GetNavItems :: "(string, bool) gomap \<Rightarrow> module_registry \<Rightarrow> nav_item list" where
  "GetNavItems enabledFeatures r =
     concat (map (\<lambda>(_, md). filter (\<lambda>i. feature_on enabledFeatures (ni_Feature i)) (mr_NavItems md)) r)"

definition GetWidgets :: "(string, bool) gomap \<Rightarrow> module_registry \<Rightarrow> dash_widget list" where
  "GetWidgets enabledFeatures r =
     concat (map (\<lambda>(_, md). filter (\<lambda>i. feature_on enabledFeatures (wi_Feature i)) (mr_Widgets md)) r)"

definition GetSearchScopes :: "(string, bool) gomap \<Rightarrow> module_registry \<Rightarrow> search_scope list" where
  "GetSearchScopes enabledFeatures r =
     concat (map (\<lambda>(_, md). filter (\<lambda>i. feature_on enabledFeatures (ss_Feature i)) (mr_SearchScopes md)) r)"

definition GetBadgeCounts :: "string \<Rightarrow> string \<Rightarrow> module_registry \<Rightarrow> (string, int) gomap" where
  "GetBadgeCounts companyID userID r =
     concat (map (\<lambda>(name, md). case mr_BadgeProvider md of None \<Rightarrow> [] | Some f \<Rightarrow> [(name, f companyID userID)]) r)"

end
