(* ===== verification/Bridge.thy ===== *)
theory Bridge
  imports Go_Strings "HOL-Library.Multiset"
begin

text \<open>
  The event bridge, \<^verbatim>\<open>src/platform/bridge/bridge.go\<close>: adapters registered under subject prefixes, the choice of an
  adapter for a subject or an action, and the processing of one message.

  An adapter is the record of its answers. A Go map is visited in any order: a registry is its list of entries, and
  what does not depend on the order is proved for every permutation. The message stream is the sequence of calls of
  \<^verbatim>\<open>processMessage\<close>; \<^verbatim>\<open>json.Unmarshal\<close> and the event handler are parameters.
\<close>

record action_schema =
  as_Type :: string
  as_Label :: string
  as_RequiresInput :: bool
  as_InputHint :: string
  as_Destructive :: bool

record event_envelope =
  ee_AppName :: string
  ee_EventID :: string
  ee_EventType :: string
  ee_CompanyID :: string
  ee_UserID :: string
  ee_Timestamp :: go_time
  ee_Data :: string

record transformed_event =
  te_EventType :: string
  te_SourceID :: string
  te_CompanyID :: string
  te_Data :: string

record bridge_adapter =
  ba_EventTypes :: "string list"
  ba_Transform :: "string \<Rightarrow> event_envelope \<Rightarrow> transformed_event option result"
  ba_ActionTypes :: "action_schema list"
  ba_SupportsAction :: "string \<Rightarrow> bool"

record adapter_registry =
  ad_adapters :: "(string, bridge_adapter) gomap"
  ad_eventTypes :: "(string, bridge_adapter) gomap"

definition NewAdapterRegistry :: adapter_registry where
  "NewAdapterRegistry = \<lparr>ad_adapters = [], ad_eventTypes = []\<rparr>"

definition AdapterRegistry_Register :: "string \<Rightarrow> bridge_adapter \<Rightarrow> adapter_registry \<Rightarrow> adapter_registry" where
  "AdapterRegistry_Register prefix adapter r =
     r\<lparr>ad_adapters := gm_put prefix adapter (ad_adapters r),
       ad_eventTypes := fold (\<lambda>et. gm_put et adapter) (ba_EventTypes adapter) (ad_eventTypes r)\<rparr>"

definition AdapterRegistry_ListAll :: "adapter_registry \<Rightarrow> (string, bridge_adapter) gomap" where
  "AdapterRegistry_ListAll r = ad_adapters r"

definition FindAdapterForAction :: "string \<Rightarrow> adapter_registry \<Rightarrow> bridge_adapter option" where
  "FindAdapterForAction actionType r = List.find (\<lambda>a. ba_SupportsAction a actionType) (gm_vals (ad_adapters r))"

text \<open>The loop over the entries, with the best adapter so far and the length of its prefix.\<close>

fun find_adapter_loop ::
  "string \<Rightarrow> (string \<times> bridge_adapter) list \<Rightarrow> bridge_adapter option \<times> nat \<Rightarrow> bridge_adapter option \<times> nat" where
  "find_adapter_loop subject [] best = best"
| "find_adapter_loop subject ((prefix, adapter) # rest) (best, bestLen) =
     (if HasPrefix subject prefix \<and> length prefix > bestLen
      then find_adapter_loop subject rest (Some adapter, length prefix)
      else find_adapter_loop subject rest (best, bestLen))"

definition FindAdapter :: "string \<Rightarrow> adapter_registry \<Rightarrow> bridge_adapter option" where
  "FindAdapter subject r = fst (find_adapter_loop subject (ad_adapters r) (None, 0))"

datatype ack = Ack | Nak

definition processMessage ::
  "(string \<Rightarrow> event_envelope result) \<Rightarrow> (string \<Rightarrow> transformed_event \<Rightarrow> 's \<Rightarrow> go_error option \<times> 's) option \<Rightarrow>
   adapter_registry \<Rightarrow> string \<Rightarrow> string \<Rightarrow> 's \<Rightarrow> ack \<times> 's" where
  "processMessage unmarshal handler r subject data s =
     (case FindAdapter subject r of
        None \<Rightarrow> (Nak, s)
      | Some adapter \<Rightarrow>
          (case unmarshal data of
             Inl _ \<Rightarrow> (Nak, s)
           | Inr envelope \<Rightarrow>
               (case ba_Transform adapter subject envelope of
                  Inl _ \<Rightarrow> (Nak, s)
                | Inr None \<Rightarrow> (Ack, s)
                | Inr (Some event) \<Rightarrow>
                    (case handler of
                       None \<Rightarrow> (Ack, s)
                     | Some h \<Rightarrow>
                         (case h subject event s of
                            (Some _, s') \<Rightarrow> (Nak, s')
                          | (None, s') \<Rightarrow> (Ack, s'))))))"

section \<open>The adapter of a subject\<close>

text \<open>The specification: the entry with the longest non-empty prefix of the subject.\<close>

definition best_prefix :: "string \<Rightarrow> (string \<times> bridge_adapter) list \<Rightarrow> string \<Rightarrow> bool" where
  "best_prefix subject es p \<longleftrightarrow>
     p \<in> fst ` set es \<and> p \<noteq> [] \<and> HasPrefix subject p \<and>
     (\<forall>q \<in> fst ` set es. HasPrefix subject q \<longrightarrow> length q \<le> length p)"

lemma HasPrefix_same_length: "HasPrefix s p \<Longrightarrow> HasPrefix s q \<Longrightarrow> length p = length q \<Longrightarrow> p = q"
  by (simp add: HasPrefix_def)

text \<open>What the loop has found: the start value, or the longest matching prefix among the entries.\<close>

definition found_best :: "string \<Rightarrow> (string \<times> bridge_adapter) list \<Rightarrow> nat \<Rightarrow> string \<Rightarrow> bridge_adapter \<Rightarrow> bool" where
  "found_best subject es n p a \<longleftrightarrow>
     (p, a) \<in> set es \<and> n < length p \<and> HasPrefix subject p \<and>
     (\<forall>q b. (q, b) \<in> set es \<longrightarrow> HasPrefix subject q \<longrightarrow> length q \<le> length p)"

definition none_longer :: "string \<Rightarrow> (string \<times> bridge_adapter) list \<Rightarrow> nat \<Rightarrow> bool" where
  "none_longer subject es n \<longleftrightarrow> (\<forall>q b. (q, b) \<in> set es \<longrightarrow> HasPrefix subject q \<longrightarrow> length q \<le> n)"

lemma find_adapter_loop_spec:
  "find_adapter_loop subject es (best, n) = (best', n') \<Longrightarrow>
   (best' = best \<and> none_longer subject es n) \<or> (\<exists>p a. best' = Some a \<and> found_best subject es n p a)"
proof (induction es arbitrary: best n)
  case (Cons e es)
  obtain p a where e: "e = (p, a)" by (cases e)
  show ?case
  proof (cases "HasPrefix subject p \<and> length p > n")
    case True
    with Cons.prems e have "find_adapter_loop subject es (Some a, length p) = (best', n')" by simp
    from Cons.IH[OF this] consider
      "best' = Some a" "none_longer subject es (length p)"
      | q b where "best' = Some b" "found_best subject es (length p) q b" by blast
    then show ?thesis
    proof cases
      case 1
      then have "found_best subject (e # es) n p a" using True by (auto simp: found_best_def none_longer_def e)
      then show ?thesis using 1(1) by blast
    next
      case 2
      then have "found_best subject (e # es) n q b" using True by (auto simp: found_best_def e)
      then show ?thesis using 2(1) by blast
    qed
  next
    case False
    with Cons.prems e have "find_adapter_loop subject es (best, n) = (best', n')" by (auto split: if_splits)
    from Cons.IH[OF this] consider "best' = best" "none_longer subject es n"
      | q b where "best' = Some b" "found_best subject es n q b" by blast
    then show ?thesis
    proof cases
      case 1
      then show ?thesis using False by (auto simp: none_longer_def e)
    next
      case 2
      then have "found_best subject (e # es) n q b" using False by (auto simp: found_best_def e)
      then show ?thesis using 2(1) by blast
    qed
  qed
qed (simp add: none_longer_def)

lemma FindAdapter_iff:
  assumes "gm_ok (ad_adapters r)"
  shows "FindAdapter subject r = Some a \<longleftrightarrow>
         (\<exists>p. gm_get (ad_adapters r) p = Some a \<and> best_prefix subject (ad_adapters r) p)"
    and "FindAdapter subject r = None \<longleftrightarrow> (\<forall>p \<in> fst ` set (ad_adapters r). p \<noteq> [] \<longrightarrow> \<not> HasPrefix subject p)"
proof -
  obtain best' n' where loop: "find_adapter_loop subject (ad_adapters r) (None, 0) = (best', n')" by fastforce
  have get: "gm_get (ad_adapters r) p = Some b \<longleftrightarrow> (p, b) \<in> set (ad_adapters r)" for p b
    using assms by (simp add: gm_ok_def gm_get_def)
  consider "FindAdapter subject r = None" "none_longer subject (ad_adapters r) 0"
    | p b where "FindAdapter subject r = Some b" "found_best subject (ad_adapters r) 0 p b"
    using find_adapter_loop_spec[OF loop] loop by (auto simp: FindAdapter_def)
  note found = this
  show "FindAdapter subject r = None \<longleftrightarrow> (\<forall>p \<in> fst ` set (ad_adapters r). p \<noteq> [] \<longrightarrow> \<not> HasPrefix subject p)"
  proof (cases rule: found)
    case 1
    then show ?thesis by (auto simp: none_longer_def)
  next
    case (2 p b)
    then have "p \<in> fst ` set (ad_adapters r)" "p \<noteq> []" "HasPrefix subject p"
      by (auto simp: found_best_def intro: rev_image_eqI)
    then show ?thesis using 2(1) by auto
  qed
  show "FindAdapter subject r = Some a \<longleftrightarrow>
         (\<exists>p. gm_get (ad_adapters r) p = Some a \<and> best_prefix subject (ad_adapters r) p)"
  proof (cases rule: found)
    case 1
    then show ?thesis by (auto simp: none_longer_def best_prefix_def)
  next
    case (2 p b)
    then have best: "best_prefix subject (ad_adapters r) p"
      by (auto simp: found_best_def best_prefix_def intro: rev_image_eqI)
    have same: "q = p" if "best_prefix subject (ad_adapters r) q" for q
    proof (rule HasPrefix_same_length)
      show "HasPrefix subject q" "HasPrefix subject p" using that best by (simp_all add: best_prefix_def)
      show "length q = length p" using that best unfolding best_prefix_def by (meson le_antisym)
    qed
    have "(p, b) \<in> set (ad_adapters r)" using 2(2) by (simp add: found_best_def)
    then show ?thesis using 2(1) best same get by (metis option.inject)
  qed
qed

text \<open>The choice does not depend on the order in which the map is visited.\<close>

lemma FindAdapter_order:
  assumes "gm_ok (ad_adapters r)" "mset (ad_adapters r) = mset (ad_adapters r')"
  shows "FindAdapter subject r = FindAdapter subject r'"
proof -
  have ok': "gm_ok (ad_adapters r')"
    using assms by (metis gm_ok_def mset_eq_imp_distinct_iff mset_map)
  have set: "set (ad_adapters r) = set (ad_adapters r')" using assms(2) by (rule mset_eq_setD)
  have get: "gm_get (ad_adapters r) = gm_get (ad_adapters r')"
    using assms(1) ok' set map_of_inject_set by (fastforce simp: gm_get_def gm_ok_def)
  show ?thesis
  proof (cases "FindAdapter subject r'")
    case None
    then show ?thesis
      using FindAdapter_iff(2)[OF assms(1), of subject] FindAdapter_iff(2)[OF ok', of subject] set by simp
  next
    case (Some a)
    then show ?thesis
      using FindAdapter_iff(1)[OF assms(1), of subject a] FindAdapter_iff(1)[OF ok', of subject a] set get
      by (simp add: best_prefix_def)
  qed
qed

text \<open>An adapter registered under the empty prefix is never chosen.\<close>

lemma empty_prefix_never_matches:
  "FindAdapter subject (AdapterRegistry_Register [] a NewAdapterRegistry) = None"
  by (simp add: FindAdapter_def AdapterRegistry_Register_def NewAdapterRegistry_def gm_put_def)

text \<open>A message is acknowledged exactly when its adapter drops it or its event is handled without an error.\<close>

lemma processMessage_Ack_iff:
  "fst (processMessage unmarshal (Some h) r subject data s) = Ack \<longleftrightarrow>
   (\<exists>a envelope. FindAdapter subject r = Some a \<and> unmarshal data = Inr envelope \<and>
      (ba_Transform a subject envelope = Inr None \<or>
       (\<exists>event. ba_Transform a subject envelope = Inr (Some event) \<and> fst (h subject event s) = None)))"
  by (auto simp: processMessage_def split: option.splits sum.splits prod.splits)

end
