(* ===== verification/Connectapi.thy ===== *)
theory Connectapi
  imports Server Bridge Company Webhook Sso
begin

text \<open>
  The RPC handlers of \<^verbatim>\<open>src/platform/connectapi\<close>: they read a message, call a service and translate the answer and its
  errors. A handler is a function of the context, the request and the world, so that the interceptors of the server
  apply to it. The stores, the text of a time and what a call reads from outside are arguments; an identifier is
  printed as it is kept. \<open>None\<close> as the answer of a handler is the panic of the service it calls.
\<close>

section \<open>Messages\<close>

text \<open>What one call reads from outside, apart from the values the services take.\<close>

record call_env =
  cl_Parse :: "string \<Rightarrow> uuid result"
  cl_RFC3339 :: "go_time \<Rightarrow> string"
  cl_now :: go_time
  cl_newid :: uuid
  cl_hhmmss :: string

definition int32 :: "int \<Rightarrow> int" where
  "int32 i = (i + 2 ^ 31) mod 2 ^ 32 - 2 ^ 31"

lemma int32_id: "- (2 ^ 31) \<le> i \<Longrightarrow> i < 2 ^ 31 \<Longrightarrow> int32 i = i"
  by (simp add: int32_def)

record user_proto =
  up_Id :: string
  up_Email :: string
  up_DisplayName :: string
  up_AvatarUrl :: string
  up_IsActive :: bool
  up_CreatedAt :: string

record auth_data =
  at_AccessToken :: string
  at_RefreshToken :: string
  at_User :: user_proto

record company_data =
  cd_Id :: string
  cd_Name :: string
  cd_Slug :: string
  cd_CompanyType :: string
  cd_SettingsJson :: string
  cd_IsActive :: bool
  cd_CreatedAt :: string
  cd_UpdatedAt :: string
  cd_ParentCompanyId :: "string option"
  cd_InheritedRoleCap :: "int option"
  cd_InheritedAccessLevel :: "string option"

definition userToProto :: "call_env \<Rightarrow> user \<Rightarrow> user_proto" where
  "userToProto V u =
     \<lparr>up_Id = us_ID u, up_Email = us_Email u, up_DisplayName = us_DisplayName u, up_AvatarUrl = us_AvatarURL u,
      up_IsActive = us_IsActive u, up_CreatedAt = cl_RFC3339 V (us_CreatedAt u)\<rparr>"

definition authDataFromDomain :: "call_env \<Rightarrow> auth_response \<Rightarrow> auth_data" where
  "authDataFromDomain V r =
     \<lparr>at_AccessToken = rp_AccessToken r, at_RefreshToken = rp_RefreshToken r, at_User = userToProto V (rp_User r)\<rparr>"

definition companyDataFromDomain :: "call_env \<Rightarrow> company \<Rightarrow> company_data" where
  "companyDataFromDomain V c =
     \<lparr>cd_Id = co_ID c, cd_Name = co_Name c, cd_Slug = co_Slug c, cd_CompanyType = co_CompanyType c,
      cd_SettingsJson = (case co_Settings c of None \<Rightarrow> [] | Some j \<Rightarrow> j), cd_IsActive = co_IsActive c,
      cd_CreatedAt = cl_RFC3339 V (co_CreatedAt c), cd_UpdatedAt = cl_RFC3339 V (co_UpdatedAt c),
      cd_ParentCompanyId = co_ParentCompanyID c, cd_InheritedRoleCap = map_option int32 (co_InheritedRoleCap c),
      cd_InheritedAccessLevel = co_InheritedAccessLvl c\<rparr>"

definition companyDataList :: "call_env \<Rightarrow> company list \<Rightarrow> company_data list" where
  "companyDataList V cs = map (companyDataFromDomain V) cs"

definition parseSettingsJSON :: "string \<Rightarrow> string option" where
  "parseSettingsJSON raw = (if raw = [] then None else Some raw)"

abbreviation rpc_fail :: "rpc_code \<Rightarrow> go_error \<Rightarrow> rpc_error + 'r" where
  "rpc_fail code err \<equiv> Inl (NewError code (Some err))"

section \<open>Accounts\<close>

record sign_up_request =
  su_Email :: string
  su_Password :: string
  su_DisplayName :: string

definition AuthHandler_SignUp ::
  "'s auth_store \<Rightarrow> auth_env \<Rightarrow> call_env \<Rightarrow> bool \<Rightarrow> uuid \<Rightarrow> uuid \<Rightarrow> (sign_up_request, auth_data, ('s, 'l) server_world) unary_func" where
  "AuthHandler_SignUp A E V b2cMode uid cid ctx req w =
     (case AuthService_SignUp A E b2cMode uid cid (su_Email (rq_Msg req)) (su_Password (rq_Msg req)) (su_DisplayName (rq_Msg req)) (sw_store w) of
        (Inl err, s) \<Rightarrow> (rpc_fail CodeInvalidArgument err, w\<lparr>sw_store := s\<rparr>)
      | (Inr response, s) \<Rightarrow> (Inr (authDataFromDomain V response), w\<lparr>sw_store := s\<rparr>))"

definition context_Canceled :: go_error where "context_Canceled = ErrVar ''context canceled''"

definition AuthHandler_Login ::
  "'s auth_store \<Rightarrow> auth_env \<Rightarrow> call_env \<Rightarrow> (string \<times> string, auth_data, ('s, 'l) server_world) unary_func" where
  "AuthHandler_Login A E V ctx req w =
     (case AuthService_Login A E (fst (rq_Msg req)) (snd (rq_Msg req)) (sw_store w) of
        (Inl err, s) \<Rightarrow> (rpc_fail (if errors_is err context_Canceled then CodeCanceled else CodeInvalidArgument) err, w\<lparr>sw_store := s\<rparr>)
      | (Inr response, s) \<Rightarrow> (Inr (authDataFromDomain V response), w\<lparr>sw_store := s\<rparr>))"

definition AuthHandler_RefreshToken ::
  "'s auth_store \<Rightarrow> auth_env \<Rightarrow> call_env \<Rightarrow> (string, auth_data, ('s, 'l) server_world) unary_func" where
  "AuthHandler_RefreshToken A E V ctx req w =
     (case AuthService_RefreshToken A E (rq_Msg req) (sw_store w) of
        (Inl err, s) \<Rightarrow> (rpc_fail CodeUnauthenticated err, w\<lparr>sw_store := s\<rparr>)
      | (Inr response, s) \<Rightarrow> (Inr (authDataFromDomain V response), w\<lparr>sw_store := s\<rparr>))"

definition AuthHandler_Logout :: "'s auth_store \<Rightarrow> auth_env \<Rightarrow> (string, unit, ('s, 'l) server_world) unary_func" where
  "AuthHandler_Logout A E ctx req w =
     (case AuthService_Logout A E (rq_Msg req) (sw_store w) of
        (Inl err, s) \<Rightarrow> (rpc_fail CodeUnauthenticated err, w\<lparr>sw_store := s\<rparr>)
      | (Inr _, s) \<Rightarrow> (Inr (), w\<lparr>sw_store := s\<rparr>))"

definition AuthHandler_UpdateProfile ::
  "'s auth_store \<Rightarrow> call_env \<Rightarrow> (string \<times> string, user_proto, ('s, 'l) server_world) unary_func" where
  "AuthHandler_UpdateProfile A V ctx req w =
     (case cl_Parse V (fst (ExtractClaims ctx)) of
        Inl _ \<Rightarrow> (rpc_fail CodeUnauthenticated (ErrMsg ''invalid user identity''), w)
      | Inr userID \<Rightarrow>
          (case AuthService_UpdateProfile A userID (fst (rq_Msg req)) (snd (rq_Msg req)) (sw_store w) of
             (Inl err, s) \<Rightarrow> (rpc_fail CodeInvalidArgument err, w\<lparr>sw_store := s\<rparr>)
           | (Inr user, s) \<Rightarrow> (Inr (userToProto V user), w\<lparr>sw_store := s\<rparr>)))"

text \<open>The single sign-on handlers run on the state of that service.\<close>

definition sso_code :: "go_error \<Rightarrow> rpc_code" where
  "sso_code err = (if Contains (error_text err) ''not configured'' then CodeNotFound else CodeInternal)"

definition AuthHandler_InitiateOIDC ::
  "('p, 'i, 'r, 'v) sso_lib \<Rightarrow> 's sso_store \<Rightarrow> 'h sso_service \<Rightarrow> sso_call \<Rightarrow> call_env \<Rightarrow>
   (string, string \<times> string, ('s, 'p, 'h) sso_state) unary_func" where
  "AuthHandler_InitiateOIDC P A v c V ctx req st =
     (case cl_Parse V (rq_Msg req) of
        Inl _ \<Rightarrow> (rpc_fail CodeInvalidArgument (ErrMsg ''invalid company_id''), st)
      | Inr companyID \<Rightarrow>
          (case InitiateOIDC P A v c companyID ''oidc'' [] st of
             (Inl err, st') \<Rightarrow> (rpc_fail (sso_code err) err, st')
           | (Inr (authURL, state), st') \<Rightarrow> (Inr (authURL, state), st')))"

definition AuthHandler_InitiateSAML ::
  "('p, 'i, 'r, 'v) sso_lib \<Rightarrow> 's sso_store \<Rightarrow> 'h sso_service \<Rightarrow> call_env \<Rightarrow> (string, string, ('s, 'p, 'h) sso_state) unary_func" where
  "AuthHandler_InitiateSAML P A v V ctx req st =
     (case cl_Parse V (rq_Msg req) of
        Inl _ \<Rightarrow> (rpc_fail CodeInvalidArgument (ErrMsg ''invalid company_id''), st)
      | Inr companyID \<Rightarrow>
          (case InitiateSAML P A v companyID st of
             Inl err \<Rightarrow> (rpc_fail (sso_code err) err, st)
           | Inr redirectURL \<Rightarrow> (Inr redirectURL, st)))"

section \<open>Companies\<close>

record create_company_request =
  cq_Name :: string
  cq_Slug :: string
  cq_CompanyType :: string
  cq_ParentCompanyId :: "string option"
  cq_SettingsJson :: string

definition CompanyHandler_CreateCompany ::
  "'s company_store \<Rightarrow> call_env \<Rightarrow> (create_company_request, company_data, ('s, 'l) server_world) unary_func" where
  "CompanyHandler_CreateCompany K V ctx req w =
     (let msg = rq_Msg req
      in case (case cq_ParentCompanyId msg of
                 None \<Rightarrow> Inr None
               | Some p \<Rightarrow> if p = [] then Inr None else map_sum id Some (cl_Parse V p)) of
           Inl err \<Rightarrow> (rpc_fail CodeInvalidArgument err, w)
         | Inr parentID \<Rightarrow>
             (case CompanyService_CreateCompany K (cl_hhmmss V) (cl_newid V) (cl_now V) (cq_Name msg) (cq_Slug msg) (cq_CompanyType msg)
                     parentID (parseSettingsJSON (cq_SettingsJson msg)) (sw_store w) of
                (Inl err, s) \<Rightarrow> (rpc_fail CodeInvalidArgument err, w\<lparr>sw_store := s\<rparr>)
              | (Inr created, s) \<Rightarrow> (Inr (companyDataFromDomain V created), w\<lparr>sw_store := s\<rparr>)))"

definition CompanyHandler_GetCompany ::
  "'s company_store \<Rightarrow> call_env \<Rightarrow> (string, company_data, ('s, 'l) server_world) unary_func" where
  "CompanyHandler_GetCompany K V ctx req w =
     (case cl_Parse V (rq_Msg req) of
        Inl err \<Rightarrow> (rpc_fail CodeInvalidArgument err, w)
      | Inr cid \<Rightarrow>
          (case CompanyService_GetCompany K cid (sw_store w) of
             Inl err \<Rightarrow> (rpc_fail CodeNotFound err, w)
           | Inr c \<Rightarrow> (Inr (companyDataFromDomain V c), w)))"

record update_company_request =
  uq_Id :: string
  uq_Name :: string
  uq_Slug :: string
  uq_CompanyType :: string
  uq_InheritedRoleCap :: "int option"
  uq_InheritedAccessLevel :: "string option"
  uq_SettingsJson :: "string option"

definition updated_company :: "update_company_request \<Rightarrow> company \<Rightarrow> company" where
  "updated_company msg existing =
     (let c1 = existing\<lparr>co_Name := uq_Name msg, co_Slug := uq_Slug msg, co_CompanyType := uq_CompanyType msg\<rparr>;
          c2 = (case uq_InheritedRoleCap msg of None \<Rightarrow> c1 | Some v \<Rightarrow> c1\<lparr>co_InheritedRoleCap := Some v\<rparr>);
          c3 = (case uq_InheritedAccessLevel msg of None \<Rightarrow> c2 | Some v \<Rightarrow> c2\<lparr>co_InheritedAccessLvl := Some v\<rparr>)
      in case uq_SettingsJson msg of None \<Rightarrow> c3 | Some j \<Rightarrow> c3\<lparr>co_Settings := parseSettingsJSON j\<rparr>)"

definition CompanyHandler_UpdateCompany ::
  "'s company_store \<Rightarrow> call_env \<Rightarrow> (update_company_request, company_data, ('s, 'l) server_world) unary_func" where
  "CompanyHandler_UpdateCompany K V ctx req w =
     (case cl_Parse V (uq_Id (rq_Msg req)) of
        Inl err \<Rightarrow> (rpc_fail CodeInvalidArgument err, w)
      | Inr cid \<Rightarrow>
          (case CompanyService_GetCompany K cid (sw_store w) of
             Inl err \<Rightarrow> (rpc_fail CodeNotFound err, w)
           | Inr existing \<Rightarrow>
               (case CompanyService_UpdateCompany K (cl_hhmmss V) (cl_now V) (updated_company (rq_Msg req) existing) (sw_store w) of
                  (Inl err, s) \<Rightarrow> (rpc_fail CodeInvalidArgument err, w\<lparr>sw_store := s\<rparr>)
                | (Inr result, s) \<Rightarrow> (Inr (companyDataFromDomain V result), w\<lparr>sw_store := s\<rparr>))))"

definition CompanyHandler_ListCompanies ::
  "(uuid \<Rightarrow> 's \<Rightarrow> company list result) option \<Rightarrow> call_env \<Rightarrow> (unit, company_data list, ('s, 'l) server_world) unary_func" where
  "CompanyHandler_ListCompanies lister V ctx req w =
     (let userID = fst (ExtractClaims ctx);
          unconfigured = (rpc_fail CodeInternal (ErrMsg ''company listing is not configured''), w)
      in case lister of
           None \<Rightarrow> unconfigured
         | Some ListCompaniesForUser \<Rightarrow>
             if userID = [] then unconfigured
             else (case cl_Parse V userID of
                     Inl err \<Rightarrow> (rpc_fail CodeUnauthenticated err, w)
                   | Inr parsedUserID \<Rightarrow>
                       (case ListCompaniesForUser parsedUserID (sw_store w) of
                          Inl err \<Rightarrow> (rpc_fail CodeInternal err, w)
                        | Inr companies \<Rightarrow> (Inr (companyDataList V companies), w))))"

definition CompanyHandler_GetAncestors ::
  "'s company_store \<Rightarrow> call_env \<Rightarrow> (string, company_data list, ('s, 'l) server_world) unary_func" where
  "CompanyHandler_GetAncestors K V ctx req w =
     (case cl_Parse V (rq_Msg req) of
        Inl err \<Rightarrow> (rpc_fail CodeInvalidArgument err, w)
      | Inr cid \<Rightarrow>
          (case CompanyService_GetAncestors K cid (sw_store w) of
             Inl err \<Rightarrow> (rpc_fail CodeInternal err, w)
           | Inr companies \<Rightarrow> (Inr (companyDataList V companies), w)))"

definition CompanyHandler_GetDescendants ::
  "'s company_store \<Rightarrow> call_env \<Rightarrow> (string, company_data list, ('s, 'l) server_world) unary_func" where
  "CompanyHandler_GetDescendants K V ctx req w =
     (case cl_Parse V (rq_Msg req) of
        Inl err \<Rightarrow> (rpc_fail CodeInvalidArgument err, w)
      | Inr cid \<Rightarrow>
          (case CompanyService_GetSelfAndDescendantIDs K cid (sw_store w) of
             Inl err \<Rightarrow> (rpc_fail CodeInternal err, w)
           | Inr descendantIDs \<Rightarrow>
               (Inr (companyDataList V (concat (map (\<lambda>d. case CompanyService_GetCompany K d (sw_store w) of
                                                            Inl _ \<Rightarrow> [] | Inr c \<Rightarrow> [c]) descendantIDs))), w)))"

definition CompanyHandler_GetEffectiveSettings ::
  "'s company_store \<Rightarrow> (string \<Rightarrow> 'v unmarshalled) \<Rightarrow> ('v nilmap \<Rightarrow> string result) \<Rightarrow> call_env \<Rightarrow> string any_request \<Rightarrow>
   ('s, 'l) server_world \<Rightarrow> (rpc_error + string) option" where
  "CompanyHandler_GetEffectiveSettings K unmarshal marshal V req w =
     (case cl_Parse V (rq_Msg req) of
        Inl err \<Rightarrow> Some (rpc_fail CodeInvalidArgument err)
      | Inr cid \<Rightarrow>
          (case CompanyService_GetEffectiveSettings K unmarshal marshal cid (sw_store w) of
             None \<Rightarrow> None
           | Some (Inl err) \<Rightarrow> Some (rpc_fail CodeInternal err)
           | Some (Inr settings) \<Rightarrow> Some (Inr settings)))"

section \<open>Roles and permissions\<close>

text \<open>The service and the interceptor share the enforcer.\<close>

definition rbac_part :: "('s, 'l) server_world \<Rightarrow> 's rbac_world" where
  "rbac_part w = \<lparr>rw_store = sw_store w, rw_enforcer = sw_enforcer w\<rparr>"

definition with_rbac_part :: "('s, 'l) server_world \<Rightarrow> 's rbac_world \<Rightarrow> ('s, 'l) server_world" where
  "with_rbac_part w r = w\<lparr>sw_store := rw_store r, sw_enforcer := rw_enforcer r\<rparr>"

record role_data =
  rd_Id :: string
  rd_Name :: string
  rd_Description :: string
  rd_Level :: int
  rd_IsSystem :: bool

definition roleToProto :: "rbac_role \<Rightarrow> role_data" where
  "roleToProto role =
     \<lparr>rd_Id = rr_ID role, rd_Name = rr_Name role, rd_Description = rr_Description role, rd_Level = int32 (rr_Level role),
      rd_IsSystem = rr_IsSystem role\<rparr>"

definition RBACHandler_ListRoles ::
  "'s rbac_store \<Rightarrow> call_env \<Rightarrow> (string, role_data list, ('s, 'l) server_world) unary_func" where
  "RBACHandler_ListRoles R V ctx req w =
     (case cl_Parse V (rq_Msg req) of
        Inl err \<Rightarrow> (rpc_fail CodeInvalidArgument err, w)
      | Inr companyID \<Rightarrow>
          (case RbacService_ListRoles R companyID (rbac_part w) of
             Inl err \<Rightarrow> (rpc_fail CodeInternal err, w)
           | Inr roles \<Rightarrow> (Inr (map roleToProto roles), w)))"

fun parse_ids :: "(string \<Rightarrow> uuid result) \<Rightarrow> string list \<Rightarrow> uuid list result" where
  "parse_ids parse [] = Inr []"
| "parse_ids parse (s # ss) =
     (case parse s of Inl err \<Rightarrow> Inl err | Inr x \<Rightarrow> (case parse_ids parse ss of Inl err \<Rightarrow> Inl err | Inr xs \<Rightarrow> Inr (x # xs)))"

record create_role_request =
  cr_CompanyId :: string
  cr_Name :: string
  cr_Description :: string
  cr_Level :: int
  cr_PermissionIds :: "string list"

definition RBACHandler_CreateRole ::
  "'s rbac_store \<Rightarrow> call_env \<Rightarrow> (create_role_request, role_data, ('s, 'l) server_world) unary_func" where
  "RBACHandler_CreateRole R V ctx req w =
     (let msg = rq_Msg req
      in case cl_Parse V (cr_CompanyId msg) of
           Inl err \<Rightarrow> (rpc_fail CodeInvalidArgument err, w)
         | Inr companyID \<Rightarrow>
             (case parse_ids (cl_Parse V) (cr_PermissionIds msg) of
                Inl err \<Rightarrow> (rpc_fail CodeInvalidArgument err, w)
              | Inr permissionIDs \<Rightarrow>
                  (case RbacService_CreateRole R (cl_newid V) companyID (cr_Name msg) (cr_Description msg) (cr_Level msg) permissionIDs (rbac_part w) of
                     (Inl err, r) \<Rightarrow> (rpc_fail CodeInvalidArgument err, with_rbac_part w r)
                   | (Inr role, r) \<Rightarrow> (Inr (roleToProto role), with_rbac_part w r))))"

text \<open>The company, user and role of a request that changes an assignment.\<close>

record role_request =
  ro_CompanyId :: string
  ro_UserId :: string
  ro_RoleId :: string

definition parse_role_request :: "call_env \<Rightarrow> role_request \<Rightarrow> (uuid \<times> uuid \<times> uuid) result" where
  "parse_role_request V msg =
     (case cl_Parse V (ro_CompanyId msg) of
        Inl err \<Rightarrow> Inl err
      | Inr companyID \<Rightarrow>
          (case cl_Parse V (ro_UserId msg) of
             Inl err \<Rightarrow> Inl err
           | Inr userID \<Rightarrow>
               (case cl_Parse V (ro_RoleId msg) of
                  Inl err \<Rightarrow> Inl err
                | Inr roleID \<Rightarrow> Inr (companyID, userID, roleID))))"

definition RBACHandler_AssignRole ::
  "'s rbac_store \<Rightarrow> call_env \<Rightarrow> (role_request, unit, ('s, 'l) server_world) unary_func" where
  "RBACHandler_AssignRole R V ctx req w =
     (case parse_role_request V (rq_Msg req) of
        Inl err \<Rightarrow> (rpc_fail CodeInvalidArgument err, w)
      | Inr (companyID, userID, roleID) \<Rightarrow>
          let currentUserIDStr = fst (ExtractClaims ctx)
          in if currentUserIDStr = [] then (Inl (NewError CodeUnauthenticated None), w)
             else (case cl_Parse V currentUserIDStr of
                     Inl err \<Rightarrow> (rpc_fail CodeUnauthenticated err, w)
                   | Inr currentUserID \<Rightarrow>
                       (case RbacService_AssignRole R (cl_newid V) companyID userID roleID currentUserID (rbac_part w) of
                          (Inl err, r) \<Rightarrow>
                            (rpc_fail (if Contains (error_text err) ''only the owner'' then CodePermissionDenied else CodeInvalidArgument) err,
                             with_rbac_part w r)
                        | (Inr _, r) \<Rightarrow> (Inr (), with_rbac_part w r))))"

definition RBACHandler_RemoveRole ::
  "'s rbac_store \<Rightarrow> call_env \<Rightarrow> (role_request, unit, ('s, 'l) server_world) unary_func" where
  "RBACHandler_RemoveRole R V ctx req w =
     (case parse_role_request V (rq_Msg req) of
        Inl err \<Rightarrow> (rpc_fail CodeInvalidArgument err, w)
      | Inr (companyID, userID, roleID) \<Rightarrow>
          (case RbacService_RemoveRole R (cl_newid V) companyID userID roleID (rbac_part w) of
             (Inl err, r) \<Rightarrow>
               (rpc_fail (if Contains (error_text err) ''cannot remove the owner'' then CodePermissionDenied else CodeInvalidArgument) err,
                with_rbac_part w r)
           | (Inr _, r) \<Rightarrow> (Inr (), with_rbac_part w r)))"

text \<open>A permission is sent with the fields it is kept with.\<close>

definition RBACHandler_ListPermissions :: "'s rbac_store \<Rightarrow> (unit, permission list, ('s, 'l) server_world) unary_func" where
  "RBACHandler_ListPermissions R ctx req w =
     (case RbacService_ListPermissions R (rbac_part w) of
        Inl err \<Rightarrow> (rpc_fail CodeInternal err, w)
      | Inr perms \<Rightarrow> (Inr perms, w))"

definition parse_member :: "call_env \<Rightarrow> string \<times> string \<Rightarrow> (uuid \<times> uuid) result" where
  "parse_member V msg =
     (case cl_Parse V (fst msg) of
        Inl err \<Rightarrow> Inl err
      | Inr companyID \<Rightarrow> (case cl_Parse V (snd msg) of Inl err \<Rightarrow> Inl err | Inr userID \<Rightarrow> Inr (companyID, userID)))"

definition RBACHandler_GetUserPermissions ::
  "'s rbac_store \<Rightarrow> call_env \<Rightarrow> (string \<times> string, permission list \<times> role_data, ('s, 'l) server_world) unary_func" where
  "RBACHandler_GetUserPermissions R V ctx req w =
     (case parse_member V (rq_Msg req) of
        Inl err \<Rightarrow> (rpc_fail CodeInvalidArgument err, w)
      | Inr (companyID, userID) \<Rightarrow>
          (case RbacService_GetUserPermissions R companyID userID (rbac_part w) of
             Inl err \<Rightarrow> (rpc_fail CodeNotFound err, w)
           | Inr (perms, role) \<Rightarrow> (Inr (perms, roleToProto role), w)))"

definition RBACHandler_CheckPermission ::
  "'s rbac_store \<Rightarrow> server_env \<Rightarrow> call_env \<Rightarrow> ((string \<times> string) \<times> string \<times> string, bool, ('s, 'l) server_world) unary_func" where
  "RBACHandler_CheckPermission R SV V ctx req w =
     (case parse_member V (fst (rq_Msg req)) of
        Inl err \<Rightarrow> (rpc_fail CodeInvalidArgument err, w)
      | Inr (companyID, userID) \<Rightarrow>
          (case HasPermission (se_overrides SV) R (se_now1 SV) (se_now2 SV) userID companyID
                  (fst (snd (rq_Msg req)) @ '':'' @ snd (snd (rq_Msg req))) (sw_store w) (sw_enforcer w) of
             (Inl err, e) \<Rightarrow> (rpc_fail CodeInternal err, w\<lparr>sw_enforcer := e\<rparr>)
           | (Inr allowed, e) \<Rightarrow> (Inr allowed, w\<lparr>sw_enforcer := e\<rparr>)))"

definition RBACHandler_ResolveMembership ::
  "'s rbac_store \<Rightarrow> call_env \<Rightarrow> (string \<times> string, resolved_membership, ('s, 'l) server_world) unary_func" where
  "RBACHandler_ResolveMembership R V ctx req w =
     (case parse_member V (rq_Msg req) of
        Inl err \<Rightarrow> (rpc_fail CodeInvalidArgument err, w)
      | Inr (companyID, userID) \<Rightarrow>
          (case ResolveMembership R companyID userID (sw_store w) of
             Inl err \<Rightarrow> (rpc_fail CodeNotFound err, w)
           | Inr r \<Rightarrow> (Inr (r\<lparr>rv_RoleLevel := int32 (rv_RoleLevel r), rv_CappedLevel := int32 (rv_CappedLevel r)\<rparr>), w)))"

section \<open>The module registry\<close>

abbreviation default_features :: "(string, bool) gomap" where
  "default_features \<equiv> [(''home'', True), (''projects'', True), (''activity'', True), (''settings'', True)]"

definition enabledFeatures ::
  "'s company_store \<Rightarrow> (string \<Rightarrow> json unmarshalled) \<Rightarrow> call_env \<Rightarrow> string \<Rightarrow> ('s, 'l) server_world \<Rightarrow> (string, bool) gomap result" where
  "enabledFeatures K unmarshal V companyID w =
     (case cl_Parse V companyID of
        Inl err \<Rightarrow> Inl err
      | Inr cid \<Rightarrow>
          (case cp_GetCompany K cid (sw_store w) of
             Inl err \<Rightarrow> Inl err
           | Inr companyRecord \<Rightarrow>
               (case unmarshal (case co_Settings companyRecord of None \<Rightarrow> [] | Some j \<Rightarrow> j) of
                  JErr _ \<Rightarrow> Inr []
                | parsed \<Rightarrow>
                    (case (case parsed of JObj kvs \<Rightarrow> gm_get kvs ''enabled_features'' | _ \<Rightarrow> None) of
                       Some (JArray rawFeatures) \<Rightarrow>
                         let enabled = fold (\<lambda>f m. case f of JString v \<Rightarrow> gm_put v True m | _ \<Rightarrow> m) rawFeatures []
                         in Inr (if length enabled = 0 then default_features else enabled)
                     | _ \<Rightarrow> Inr default_features))))"

text \<open>\<^verbatim>\<open>sort.Slice\<close> may reorder items of equal priority; the model keeps their order. Priorities are sent as 32-bit numbers.\<close>

definition RegistryHandler_GetNavItems ::
  "'s company_store \<Rightarrow> (string \<Rightarrow> json unmarshalled) \<Rightarrow> call_env \<Rightarrow> module_registry \<Rightarrow> (string, nav_item list, ('s, 'l) server_world) unary_func" where
  "RegistryHandler_GetNavItems K unmarshal V reg ctx req w =
     (case enabledFeatures K unmarshal V (rq_Msg req) w of
        Inl err \<Rightarrow> (rpc_fail CodeInvalidArgument err, w)
      | Inr features \<Rightarrow>
          (Inr (map (\<lambda>i. i\<lparr>ni_Priority := int32 (ni_Priority i)\<rparr>) (sort_key ni_Priority (GetNavItems features reg))), w))"

definition RegistryHandler_GetWidgets ::
  "'s company_store \<Rightarrow> (string \<Rightarrow> json unmarshalled) \<Rightarrow> call_env \<Rightarrow> module_registry \<Rightarrow> (string, dash_widget list, ('s, 'l) server_world) unary_func" where
  "RegistryHandler_GetWidgets K unmarshal V reg ctx req w =
     (case enabledFeatures K unmarshal V (rq_Msg req) w of
        Inl err \<Rightarrow> (rpc_fail CodeInvalidArgument err, w)
      | Inr features \<Rightarrow>
          (Inr (map (\<lambda>i. i\<lparr>wi_Priority := int32 (wi_Priority i)\<rparr>) (sort_key wi_Priority (GetWidgets features reg))), w))"

definition RegistryHandler_GetSearchScopes ::
  "'s company_store \<Rightarrow> (string \<Rightarrow> json unmarshalled) \<Rightarrow> call_env \<Rightarrow> module_registry \<Rightarrow> (string, search_scope list, ('s, 'l) server_world) unary_func" where
  "RegistryHandler_GetSearchScopes K unmarshal V reg ctx req w =
     (case enabledFeatures K unmarshal V (rq_Msg req) w of
        Inl err \<Rightarrow> (rpc_fail CodeInvalidArgument err, w)
      | Inr features \<Rightarrow> (Inr (GetSearchScopes features reg), w))"

definition RegistryHandler_GetBadgeCounts :: "module_registry \<Rightarrow> (string, (string, int) gomap, 'w) unary_func" where
  "RegistryHandler_GetBadgeCounts reg ctx req w =
     (Inr (map (map_prod id int32) (GetBadgeCounts (rq_Msg req) (fst (ExtractClaims ctx)) reg)), w)"

section \<open>Webhooks\<close>

record webhook_data =
  wp_Id :: string
  wp_CompanyId :: string
  wp_Url :: string
  wp_Secret :: string
  wp_Events :: "string list"
  wp_Active :: bool
  wp_CreatedAt :: string

definition webhookToProto :: "call_env \<Rightarrow> webhook \<Rightarrow> webhook_data" where
  "webhookToProto V wh =
     \<lparr>wp_Id = wh_ID wh, wp_CompanyId = wh_CompanyID wh, wp_Url = wh_URL wh, wp_Secret = wh_Secret wh, wp_Events = wh_Events wh,
      wp_Active = wh_Active wh, wp_CreatedAt = cl_RFC3339 V (wh_CreatedAt wh)\<rparr>"

definition WebhookHandler_RegisterWebhook ::
  "'s webhook_store \<Rightarrow> call_env \<Rightarrow> string \<Rightarrow> (string \<times> string \<times> string list, webhook_data, ('s, 'l) server_world) unary_func" where
  "WebhookHandler_RegisterWebhook H V generated ctx req w =
     (case rq_Msg req of (company, url, events) \<Rightarrow>
        (case cl_Parse V company of
           Inl err \<Rightarrow> (rpc_fail CodeInvalidArgument err, w)
         | Inr companyID \<Rightarrow>
             (case WebhookService_Register H generated (cl_newid V) (cl_now V) companyID url [] events (sw_store w) of
                (Inl err, s) \<Rightarrow> (rpc_fail CodeInvalidArgument err, w\<lparr>sw_store := s\<rparr>)
              | (Inr wh, s) \<Rightarrow> (Inr (webhookToProto V wh), w\<lparr>sw_store := s\<rparr>))))"

definition WebhookHandler_ListWebhooks ::
  "'s webhook_store \<Rightarrow> call_env \<Rightarrow> (string, webhook_data list, ('s, 'l) server_world) unary_func" where
  "WebhookHandler_ListWebhooks H V ctx req w =
     (case cl_Parse V (rq_Msg req) of
        Inl err \<Rightarrow> (rpc_fail CodeInvalidArgument err, w)
      | Inr companyID \<Rightarrow>
          (case ws_ListWebhooksByCompany H companyID (sw_store w) of
             Inl err \<Rightarrow> (rpc_fail CodeInternal err, w)
           | Inr whs \<Rightarrow> (Inr (map (webhookToProto V) whs), w)))"

definition WebhookHandler_DeleteWebhook ::
  "'s webhook_store \<Rightarrow> call_env \<Rightarrow> (string, unit, ('s, 'l) server_world) unary_func" where
  "WebhookHandler_DeleteWebhook H V ctx req w =
     (case cl_Parse V (rq_Msg req) of
        Inl err \<Rightarrow> (rpc_fail CodeInvalidArgument err, w)
      | Inr wid \<Rightarrow>
          (case ws_DeleteWebhook H wid (sw_store w) of
             (Inl err, s) \<Rightarrow> (rpc_fail CodeNotFound err, w\<lparr>sw_store := s\<rparr>)
           | (Inr _, s) \<Rightarrow> (Inr (), w\<lparr>sw_store := s\<rparr>)))"

record delivery_response =
  dr_Id :: string
  dr_WebhookId :: string
  dr_EventType :: string
  dr_Status :: string
  dr_StatusCode :: int
  dr_Attempts :: int
  dr_CreatedAt :: string

text \<open>The querier is the store; limits and offsets are bounded before it is asked.\<close>

definition list_limit :: "int \<Rightarrow> int" where
  "list_limit limit = (if limit \<le> 0 then 50 else limit)"

definition list_offset :: "int \<Rightarrow> int" where
  "list_offset offset = (if offset < 0 then 0 else offset)"

definition WebhookHandler_ListDeliveries ::
  "(uuid \<Rightarrow> int \<Rightarrow> int \<Rightarrow> 's \<Rightarrow> webhook_delivery list result) \<Rightarrow> call_env \<Rightarrow>
   (string \<times> int \<times> int, delivery_response list, ('s, 'l) server_world) unary_func" where
  "WebhookHandler_ListDeliveries ListDeliveriesByWebhook V ctx req w =
     (case rq_Msg req of (webhook, limit, offset) \<Rightarrow>
        (case cl_Parse V webhook of
           Inl err \<Rightarrow> (rpc_fail CodeInvalidArgument err, w)
         | Inr webhookID \<Rightarrow>
             (case ListDeliveriesByWebhook webhookID (list_limit limit) (list_offset offset) (sw_store w) of
                Inl err \<Rightarrow> (rpc_fail CodeInternal err, w)
              | Inr ds \<Rightarrow>
                  (Inr (map (\<lambda>d. \<lparr>dr_Id = wd_ID d, dr_WebhookId = wd_WebhookID d, dr_EventType = wd_EventType d, dr_Status = wd_Status d,
                       dr_StatusCode = int32 (wd_StatusCode d), dr_Attempts = int32 (wd_Attempts d),
                       dr_CreatedAt = cl_RFC3339 V (wd_CreatedAt d)\<rparr>) ds), w))))"

section \<open>The audit trail\<close>

record list_audit_request =
  la_CompanyId :: string
  la_Limit :: int
  la_Offset :: int
  la_ActorId :: "string option"
  la_Action :: "string option"
  la_Resource :: "string option"

definition AuditHandler_ListAuditLogs ::
  "(uuid \<Rightarrow> int \<Rightarrow> int \<Rightarrow> uuid option \<Rightarrow> string option \<Rightarrow> string option \<Rightarrow> 's \<Rightarrow> ('e list \<times> nat) result) \<Rightarrow> call_env \<Rightarrow>
   (list_audit_request, 'e list \<times> int, ('s, 'l) server_world) unary_func" where
  "AuditHandler_ListAuditLogs QueryAuditLogs V ctx req w =
     (let msg = rq_Msg req
      in case cl_Parse V (la_CompanyId msg) of
           Inl err \<Rightarrow> (rpc_fail CodeInvalidArgument err, w)
         | Inr companyID \<Rightarrow>
             (case (case la_ActorId msg of None \<Rightarrow> Inr None | Some a \<Rightarrow> map_sum id Some (cl_Parse V a)) of
                Inl err \<Rightarrow> (rpc_fail CodeInvalidArgument err, w)
              | Inr actorID \<Rightarrow>
                  (case QueryAuditLogs companyID (min 100 (list_limit (la_Limit msg))) (list_offset (la_Offset msg)) actorID
                          (la_Action msg) (la_Resource msg) (sw_store w) of
                     Inl err \<Rightarrow> (rpc_fail CodeInternal err, w)
                   | Inr (entries, totalCount) \<Rightarrow> (Inr (entries, int32 (int totalCount)), w))))"

text \<open>Replayed break-glass events. The timestamp type of the message library comes with its own validity check.\<close>

definition breakGlassMaxAge :: duration where "breakGlassMaxAge = 30 * 24 * (60 * minute)"
definition breakGlassClockSkew :: duration where "breakGlassClockSkew = 5 * minute"
definition breakGlassScopeAdmin :: string where "breakGlassScopeAdmin = ''admin.recovery''"
definition breakGlassScopeService :: string where "breakGlassScopeService = ''service.recovery''"

record 't ingest_request =
  ig_OriginalJti :: string
  ig_OriginalIssuedAt :: "'t option"
  ig_Subject :: string
  ig_Tenant :: string
  ig_Scope :: string
  ig_Reason :: string
  ig_Operator :: string
  ig_ManifestDigestB64 :: string

record break_glass_event =
  bg_OriginalJTI :: uuid
  bg_OriginalIssuedAt :: go_time
  bg_Subject :: string
  bg_Tenant :: string
  bg_Scope :: string
  bg_Reason :: string
  bg_Operator :: string
  bg_ManifestDigestB64 :: string

definition check_break_glass ::
  "('t \<Rightarrow> go_error option) \<Rightarrow> ('t \<Rightarrow> go_time) \<Rightarrow> call_env \<Rightarrow> 't ingest_request \<Rightarrow> break_glass_event result" where
  "check_break_glass CheckValid AsTime V msg =
     (case cl_Parse V (ig_OriginalJti msg) of
        Inl err \<Rightarrow> Inl (ErrWrap ''original_jti must be a UUID: '' err [])
      | Inr jti \<Rightarrow>
          (case ig_OriginalIssuedAt msg of
             None \<Rightarrow> Inl (ErrMsg ''original_issued_at is required'')
           | Some ts \<Rightarrow>
               (case CheckValid ts of
                  Some err \<Rightarrow> Inl (ErrWrap ''original_issued_at invalid: '' err [])
                | None \<Rightarrow>
                    let issuedAt = AsTime ts
                    in if issuedAt > cl_now V + breakGlassClockSkew then Inl (ErrMsg ''original_issued_at is in the future'')
                       else if cl_now V - issuedAt > breakGlassMaxAge
                       then Inl (ErrMsg ''original_issued_at is older than 720h0m0s (suspicious replay)'')
                       else if ig_Scope msg \<noteq> breakGlassScopeAdmin \<and> ig_Scope msg \<noteq> breakGlassScopeService
                       then Inl (ErrMsg (''scope must be '' @ quoted breakGlassScopeAdmin @ '' or '' @ quoted breakGlassScopeService))
                       else if TrimSpace (ig_Subject msg) = [] then Inl (ErrMsg ''subject is required'')
                       else if TrimSpace (ig_Tenant msg) = [] then Inl (ErrMsg ''tenant is required'')
                       else Inr \<lparr>bg_OriginalJTI = jti, bg_OriginalIssuedAt = issuedAt, bg_Subject = ig_Subject msg,
                              bg_Tenant = ig_Tenant msg, bg_Scope = ig_Scope msg, bg_Reason = ig_Reason msg,
                              bg_Operator = ig_Operator msg, bg_ManifestDigestB64 = ig_ManifestDigestB64 msg\<rparr>)))"

definition AuditHandler_IngestBreakGlassEvent ::
  "('t \<Rightarrow> go_error option) \<Rightarrow> ('t \<Rightarrow> go_time) \<Rightarrow> (break_glass_event \<Rightarrow> 'w \<Rightarrow> (string \<times> bool) result \<times> 'w) option \<Rightarrow> call_env \<Rightarrow>
   ('t ingest_request, bool \<times> string, 'w) unary_func" where
  "AuditHandler_IngestBreakGlassEvent CheckValid AsTime ingester V ctx req w =
     (case check_break_glass CheckValid AsTime V (rq_Msg req) of
        Inl err \<Rightarrow> (rpc_fail CodeInvalidArgument err, w)
      | Inr ev \<Rightarrow>
          (case ingester of
             None \<Rightarrow> (rpc_fail CodeUnimplemented (ErrMsg ''break-glass ingest is not configured''), w)
           | Some IngestBreakGlass \<Rightarrow>
               (case IngestBreakGlass ev w of
                  (Inl err, w') \<Rightarrow> (rpc_fail CodeInternal (ErrWrap ''ingest break-glass event: '' err []), w')
                | (Inr (eventID, created), w') \<Rightarrow> (Inr (True, eventID), w'))))"

section \<open>The bridge\<close>

text \<open>An action is sent with the fields it is kept with; the map of adapters is visited in the order of its list.\<close>

definition BridgeHandler_ListAdapters ::
  "adapter_registry \<Rightarrow> (unit, (string \<times> string list \<times> action_schema list) list, 'w) unary_func" where
  "BridgeHandler_ListAdapters r ctx req w =
     (Inr (map (\<lambda>(prefix, a). (prefix, ba_EventTypes a, ba_ActionTypes a)) (AdapterRegistry_ListAll r)), w)"

definition BridgeHandler_DispatchAction :: "adapter_registry \<Rightarrow> (string, bool \<times> string, 'w) unary_func" where
  "BridgeHandler_DispatchAction r ctx req w =
     (case FindAdapterForAction (rq_Msg req) r of
        None \<Rightarrow> (rpc_fail CodeNotFound (ErrMsg (''no adapter supports action: '' @ rq_Msg req)), w)
      | Some _ \<Rightarrow> (Inr (True, ''Action dispatched''), w))"

definition BridgeHandler_ListActions :: "adapter_registry \<Rightarrow> (string, action_schema list, 'w) unary_func" where
  "BridgeHandler_ListActions r ctx req w =
     (Inr (concat (map (\<lambda>a. if rq_Msg req \<in> set (ba_EventTypes a) then ba_ActionTypes a else []) (gm_vals (AdapterRegistry_ListAll r)))), w)"

end
