(* ===== verification/Server_Properties.thy ===== *)
theory Server_Properties
  imports Connectapi Token_Properties Devstore
begin

text \<open>
  What the request path guarantees: which requests reach a handler and what is recorded of them, the isolation of
  tenants by the administrator chain, and what the permission check of the development server does not cover.
\<close>

section \<open>The gate of the server\<close>

text \<open>The chain of the package, outermost first: authentication, permissions, audit.\<close>

definition full_chain ::
  "jose_lib \<Rightarrow> jwt_manager \<Rightarrow> 's rbac_store \<Rightarrow> server_env \<Rightarrow> interceptor_config \<Rightarrow> ('q, 'r, ('s, 'l) server_world) unary_func \<Rightarrow>
   ('q, 'r, ('s, 'l) server_world) unary_func" where
  "full_chain L m R V cfg hdl =
     auth_WrapUnary L m V (ic_PublicProcedures cfg) (rbac_WrapUnary R V cfg (audit_WrapUnary V (ic_PublicProcedures cfg) hdl))"

definition full_stream_chain ::
  "jose_lib \<Rightarrow> jwt_manager \<Rightarrow> 's rbac_store \<Rightarrow> server_env \<Rightarrow> interceptor_config \<Rightarrow> ('q, ('s, 'l) server_world) streaming_func \<Rightarrow>
   ('q, ('s, 'l) server_world) streaming_func" where
  "full_stream_chain L m R V cfg hdl =
     auth_WrapStreamingHandler L m V (ic_PublicProcedures cfg)
       (rbac_WrapStreamingHandler R V cfg (audit_WrapStreamingHandler V (ic_PublicProcedures cfg) hdl))"

text \<open>A request carries claims: its header is a bearer scheme, one blank and a token that is valid now and has these claims.\<close>

definition carries :: "jose_lib \<Rightarrow> jwt_manager \<Rightarrow> server_env \<Rightarrow> 'q any_request \<Rightarrow> token_claims \<Rightarrow> bool" where
  "carries L m V req c \<longleftrightarrow>
     (\<exists>scheme tok. Header_Get (rq_Header req) ''Authorization'' = scheme @ '' '' @ tok \<and> CHR '' '' \<notin> set scheme \<and>
        EqualFold scheme ''bearer'' \<and> ValidateAccessToken L m (se_now V) tok = Inr c)"

text \<open>
  Claims grant a procedure: it needs no permission, or the enforcer answers yes for the user and the company the claims
  name; \<open>e\<close> is the enforcer afterwards.
\<close>

definition granted ::
  "'s rbac_store \<Rightarrow> server_env \<Rightarrow> interceptor_config \<Rightarrow> string \<Rightarrow> token_claims \<Rightarrow> 's \<Rightarrow> enforcer \<Rightarrow> enforcer \<Rightarrow> bool" where
  "granted R V cfg procedure c s e0 e \<longleftrightarrow>
     (case gm_get (ic_ProcedurePermissions cfg) procedure of
        None \<Rightarrow> e = e0
      | Some perm \<Rightarrow>
          (\<exists>u k. se_Parse V (tc_UserID c) = Inr u \<and> se_Parse V (tc_CompanyID c) = Inr k \<and>
             HasPermission (se_overrides V) R (se_now1 V) (se_now2 V) u k (sp_Feature perm @ '':'' @ sp_Action perm) s e0 = (Inr True, e)))"

text \<open>What the caller gets from an admitted request, and the world with the one event recorded after the handler.\<close>

definition recorded ::
  "server_env \<Rightarrow> token_claims \<Rightarrow> 'q any_request \<Rightarrow> rpc_error option \<Rightarrow> ('s, 'l) server_world \<Rightarrow> ('s, 'l) server_world" where
  "recorded V c req err w = w\<lparr>sw_logger := snd (Logger_Log (request_event V c (rq_Procedure req) (rq_Header req) err) (sw_logger w))\<rparr>"

abbreviation err_of :: "rpc_error + 'r \<Rightarrow> rpc_error option" where
  "err_of r \<equiv> (case r of Inl e \<Rightarrow> Some e | Inr _ \<Rightarrow> None)"

abbreviation gate_codes :: "rpc_code set" where
  "gate_codes \<equiv> {CodeUnauthenticated, CodePermissionDenied, CodeInternal}"

lemma bearer_token_iff:
  "bearer_token h = Some tok \<longleftrightarrow>
   (\<exists>scheme. Header_Get h ''Authorization'' = scheme @ '' '' @ tok \<and> CHR '' '' \<notin> set scheme \<and> EqualFold scheme ''bearer'')"
proof -
  let ?h = "Header_Get h ''Authorization''"
  have two: "(2::nat) = Suc (Suc 0)" by simp
  show ?thesis
  proof (cases "CHR '' '' \<in> set ?h")
    case True
    then obtain a b where ab: "?h = a @ CHR '' '' # b" "CHR '' '' \<notin> set a" by (meson split_list_first)
    have parts: "SplitN ?h CHR '' '' 2 = [a, b]" unfolding two ab(1) SplitN_sep [OF ab(2)] by simp
    have uniq: "scheme = a \<and> t = b" if "?h = scheme @ CHR '' '' # t" "CHR '' '' \<notin> set scheme" for scheme t
    proof -
      have first: "x = takeWhile (\<lambda>c. c \<noteq> CHR '' '') (x @ CHR '' '' # y)" if "CHR '' '' \<notin> set x" for x y :: string
        using that by (induction x) auto
      have "scheme = a" using first [OF that(2), of t] first [OF ab(2), of b] that(1) ab(1) by simp
      then show ?thesis using that(1) ab(1) by simp
    qed
    have "?h \<noteq> []" using ab by simp
    then have "bearer_token h = (if EqualFold a ''bearer'' then Some b else None)"
      using parts by (simp add: bearer_token_def Let_def)
    moreover have "(\<exists>scheme. ?h = scheme @ '' '' @ tok \<and> CHR '' '' \<notin> set scheme \<and> EqualFold scheme ''bearer'')
        \<longleftrightarrow> tok = b \<and> EqualFold a ''bearer''"
    proof
      assume "\<exists>scheme. ?h = scheme @ '' '' @ tok \<and> CHR '' '' \<notin> set scheme \<and> EqualFold scheme ''bearer''"
      then obtain scheme where s: "?h = scheme @ CHR '' '' # tok" "CHR '' '' \<notin> set scheme" "EqualFold scheme ''bearer''" by auto
      then show "tok = b \<and> EqualFold a ''bearer''" using uniq [OF s(1,2)] s(3) by blast
    qed (use ab in auto)
    ultimately show ?thesis by auto
  next
    case False
    then have "SplitN ?h CHR '' '' 2 = [?h]" unfolding two by simp
    then have "bearer_token h = None" by (simp add: bearer_token_def Let_def)
    then show ?thesis using False by auto
  qed
qed

lemma authenticate_iff:
  "authenticate_request L m V (rq_Header req) = Inr c \<longleftrightarrow> carries L m V req c"
  "authenticate_request L m V h = Inl e \<Longrightarrow> ce_Code e = CodeUnauthenticated"
proof -
  have "carries L m V req c \<longleftrightarrow> (\<exists>tok. bearer_token (rq_Header req) = Some tok \<and> ValidateAccessToken L m (se_now V) tok = Inr c)"
    by (auto simp only: carries_def bearer_token_iff)
  then show "authenticate_request L m V (rq_Header req) = Inr c \<longleftrightarrow> carries L m V req c"
    by (auto simp: authenticate_request_def split: option.splits sum.splits)
qed (auto simp: authenticate_request_def NewError_def split: option.splits sum.splits)

lemma carries_unique: "carries L m V req c \<Longrightarrow> carries L m V req c' \<Longrightarrow> c = c'"
  by (metis authenticate_iff(1) sum.inject(2))

lemma authorize_None_iff:
  "authorize R V perm ctx w = (None, w') \<longleftrightarrow>
   (\<exists>c u k e. cx_claims ctx = Some c \<and> se_Parse V (tc_UserID c) = Inr u \<and> se_Parse V (tc_CompanyID c) = Inr k \<and>
      HasPermission (se_overrides V) R (se_now1 V) (se_now2 V) u k (sp_Feature perm @ '':'' @ sp_Action perm) (sw_store w) (sw_enforcer w)
        = (Inr True, e) \<and> w' = w\<lparr>sw_enforcer := e\<rparr>)"
  by (auto simp: authorize_def server_ClaimsFromContext_def split: option.splits sum.splits prod.splits if_splits)

text \<open>Only the enforcer may have changed.\<close>

definition enforcer_only :: "('s, 'l) server_world \<Rightarrow> ('s, 'l) server_world \<Rightarrow> bool" where
  "enforcer_only w w' \<longleftrightarrow> (\<exists>e. w' = w\<lparr>sw_enforcer := e\<rparr>)"

lemma enforcer_only_intros: "enforcer_only w w" "enforcer_only w (w\<lparr>sw_enforcer := e\<rparr>)"
  by (auto simp: enforcer_only_def intro: exI [of _ "sw_enforcer w"])

lemma authorize_Some:
  "authorize R V perm ctx w = (Some err, w') \<Longrightarrow> ce_Code err \<in> gate_codes \<and> enforcer_only w w'"
  by (auto simp: authorize_def NewError_def enforcer_only_intros split: option.splits sum.splits prod.splits if_splits)

lemma audited_handler:
  assumes "\<not> gm_get_or False public (rq_Procedure req)" "cx_claims ctx = Some c"
  shows "audit_WrapUnary V public hdl ctx req w = (case hdl ctx req w of (r, w') \<Rightarrow> (r, recorded V c req (err_of r) w'))"
    and "audit_WrapStreamingHandler V public shdl ctx req w = (case shdl ctx req w of (r, w') \<Rightarrow> (r, recorded V c req r w'))"
  using assms
  by (auto simp: audit_WrapUnary_def audit_WrapStreamingHandler_def audit_request_def recorded_def server_ClaimsFromContext_def
      split: prod.splits sum.splits)

text \<open>The check of the two outer interceptors, for both kinds of calls.\<close>

definition gate ::
  "jose_lib \<Rightarrow> jwt_manager \<Rightarrow> 's rbac_store \<Rightarrow> server_env \<Rightarrow> interceptor_config \<Rightarrow> 'q any_request \<Rightarrow> ('s, 'l) server_world \<Rightarrow>
   (rpc_error + token_claims) \<times> ('s, 'l) server_world" where
  "gate L m R V cfg req w =
     (case authenticate_request L m V (rq_Header req) of
        Inl e \<Rightarrow> (Inl e, w)
      | Inr c \<Rightarrow>
          (case gm_get (ic_ProcedurePermissions cfg) (rq_Procedure req) of
             None \<Rightarrow> (Inr c, w)
           | Some perm \<Rightarrow>
               (case authorize R V perm (server_WithClaims context_Background c) w of
                  (Some e, w') \<Rightarrow> (Inl e, w') | (None, w') \<Rightarrow> (Inr c, w'))))"

lemma authorize_claims:
  "authorize R V perm (server_WithClaims ctx c) w = authorize R V perm (server_WithClaims context_Background c) w"
  by (simp add: authorize_def server_ClaimsFromContext_def server_WithClaims_def)

lemma chains_by_gate:
  assumes "\<not> gm_get_or False (ic_PublicProcedures cfg) (rq_Procedure req)"
  shows "full_chain L m R V cfg hdl ctx req w =
      (case gate L m R V cfg req w of
         (Inl e, w') \<Rightarrow> (Inl e, w')
       | (Inr c, w') \<Rightarrow> (case hdl (server_WithClaims ctx c) req w' of (r, w'') \<Rightarrow> (r, recorded V c req (err_of r) w'')))"
    and "full_stream_chain L m R V cfg shdl ctx req w =
      (case gate L m R V cfg req w of
         (Inl e, w') \<Rightarrow> (Some e, w')
       | (Inr c, w') \<Rightarrow> (case shdl (server_WithClaims ctx c) req w' of (r, w'') \<Rightarrow> (r, recorded V c req r w'')))"
proof -
  have claims: "cx_claims (server_WithClaims ctx c) = Some c" for c by (simp add: server_WithClaims_def)
  note audited = audited_handler [where public = "ic_PublicProcedures cfg" and req = req, OF assms claims]
  show "full_chain L m R V cfg hdl ctx req w =
      (case gate L m R V cfg req w of
         (Inl e, w') \<Rightarrow> (Inl e, w')
       | (Inr c, w') \<Rightarrow> (case hdl (server_WithClaims ctx c) req w' of (r, w'') \<Rightarrow> (r, recorded V c req (err_of r) w'')))"
    using assms
    by (auto simp: full_chain_def auth_WrapUnary_def rbac_WrapUnary_def gate_def audited(1) authorize_claims [of R V _ ctx]
        split: sum.splits option.splits prod.splits)
  show "full_stream_chain L m R V cfg shdl ctx req w =
      (case gate L m R V cfg req w of
         (Inl e, w') \<Rightarrow> (Some e, w')
       | (Inr c, w') \<Rightarrow> (case shdl (server_WithClaims ctx c) req w' of (r, w'') \<Rightarrow> (r, recorded V c req r w'')))"
    using assms
    by (auto simp: full_stream_chain_def auth_WrapStreamingHandler_def rbac_WrapStreamingHandler_def gate_def audited(2)
        authorize_claims [of R V _ ctx] split: sum.splits option.splits prod.splits)
qed

lemma gate_Inr_iff:
  "gate L m R V cfg req w = (Inr c, w') \<longleftrightarrow>
   carries L m V req c \<and> (\<exists>e. granted R V cfg (rq_Procedure req) c (sw_store w) (sw_enforcer w) e \<and> w' = w\<lparr>sw_enforcer := e\<rparr>)"
proof (cases "authenticate_request L m V (rq_Header req)")
  case (Inl err)
  then show ?thesis using authenticate_iff(1) [of L m V req c] by (auto simp: gate_def)
next
  case (Inr c0)
  then have c0: "carries L m V req c0" by (simp add: authenticate_iff)
  show ?thesis
  proof (cases "gm_get (ic_ProcedurePermissions cfg) (rq_Procedure req)")
    case None
    then show ?thesis using Inr c0 by (auto simp: gate_def granted_def dest: carries_unique)
  next
    case (Some perm)
    have "gate L m R V cfg req w = (Inr c, w') \<longleftrightarrow>
        c = c0 \<and> authorize R V perm (server_WithClaims context_Background c0) w = (None, w')"
      using Inr Some by (auto simp: gate_def split: prod.splits option.splits)
    then show ?thesis
      using c0 Some by (auto simp: authorize_None_iff granted_def server_WithClaims_def dest: carries_unique)
  qed
qed

lemma gate_Inl:
  assumes "gate L m R V cfg req w = (Inl err, w')"
  shows "ce_Code err \<in> gate_codes \<and> enforcer_only w w'"
proof (cases "authenticate_request L m V (rq_Header req)")
  case (Inl e)
  then show ?thesis using assms authenticate_iff(2) [OF Inl] by (simp add: gate_def enforcer_only_intros)
next
  case (Inr c)
  then show ?thesis using assms
    by (auto simp: gate_def split: option.splits prod.splits dest: authorize_Some)
qed


text \<open>A request of the owner of a company, a minute before its token expires, for a procedure with a permission.\<close>

definition demo_env :: server_env where
  "demo_env = \<lparr>se_now = 14 * minute, se_now1 = 14 * minute, se_now2 = 14 * minute, se_Parse = Inr, se_overrides = (\<lambda>_. None),
     se_ErrText = (\<lambda>_. [])\<rparr>"

definition demo_config :: interceptor_config where
  "demo_config = \<lparr>ic_PublicProcedures = [(''/crm.v1.Crm/Ping'', True)], ic_ProcedurePermissions = [(''/crm.v1.Crm/List'', perm_of ''crm'' ''view'')]\<rparr>"

definition demo_request :: "unit any_request" where
  "demo_request = \<lparr>rq_Procedure = ''/crm.v1.Crm/List'', rq_Header = [(''Authorization'', ''Bearer .key'')], rq_Msg = ()\<rparr>"

definition demo_world :: "(unit, unit) server_world" where
  "demo_world = \<lparr>sw_store = (), sw_enforcer = NewEnforcer None, sw_logger = NewLogger ()\<rparr>"

definition demo_handler :: "(unit, string \<times> string \<times> string, (unit, unit) server_world) unary_func" where
  "demo_handler ctx req w = (Inr (ExtractClaims ctx), w)"

lemma demo_carries: "carries demo_lib demo_manager demo_env demo_request demo_access"
proof -
  have "ValidateAccessToken demo_lib demo_manager (14 * minute) ''.key'' = Inr demo_access"
  proof -
    have j: "jose_ok demo_lib" by (simp add: demo_lib_def table_lib_ok)
    have r: "ring_ok demo_lib demo_manager"
      by (auto simp: ring_ok_def demo_manager_def demo_lib_def table_lib_pair gm_get_def intro!: exI [of _ "''key''"])
    have s: "sign_active demo_lib demo_manager (tc_Registered demo_access, claims_json demo_access) = Inr ''.key''" by code_simp
    have e: "14 * minute < NewNumericDate (0 + jf_AccessTokenExpiry (jm_config demo_manager))" by code_simp
    show ?thesis
      using access_token_window [OF j r s, of 0 "''j1''" "''alice''" "jf_AccessTokenExpiry (jm_config demo_manager)" demo_manager "14 * minute"] e
      by (simp add: demo_access_def)
  qed
  moreover have "EqualFold ''Bearer'' ''bearer''" by code_simp
  ultimately show ?thesis
    unfolding carries_def
    by (intro exI [of _ "''Bearer''"] exI [of _ "''.key''"])
       (simp add: demo_env_def demo_request_def Header_Get_def gm_get_or_def gm_get_def)
qed

lemma demo_granted:
  "\<exists>e. granted demo_rbac demo_env demo_config (rq_Procedure demo_request) demo_access (sw_store demo_world) (sw_enforcer demo_world) e"
proof -
  have "gm_get (ic_ProcedurePermissions demo_config) (rq_Procedure demo_request) = Some (perm_of ''crm'' ''view'')"
    by (simp add: demo_config_def demo_request_def gm_get_def)
  then show ?thesis
    by (simp add: granted_def demo_env_def demo_world_def HasPermission_def NewEnforcer_def Let_def load_permissions_def demo_rbac_def
        demo_membership_def gm_get_or_def)
qed


section \<open>Administrators and tenants\<close>

text \<open>The peer presents a certificate whose common name the resolver knows.\<close>

definition presents :: "(string \<Rightarrow> admin_identity result) \<Rightarrow> request_context \<Rightarrow> admin_identity \<Rightarrow> bool" where
  "presents resolve ctx a \<longleftrightarrow>
     (\<exists>s cn chain others. cx_tls ctx = Some s \<and> tl_VerifiedChains s = (cn # chain) # others \<and> cn \<noteq> [] \<and> resolve cn = Inr a)"

text \<open>
  Which tenant an administrator may act on: in a dedicated deployment the dedicated tenant or none, otherwise any for a
  super administrator and the own tenant for others.
\<close>

definition tenant_allowed :: "uuid \<Rightarrow> admin_identity \<Rightarrow> uuid result \<Rightarrow> bool" where
  "tenant_allowed dedicated a target \<longleftrightarrow>
     (if dedicated \<noteq> uuid_Nil then target = Inr uuid_Nil \<or> target = Inr dedicated
      else ai_IsSuperAdmin a \<or> (target = Inr (ai_TenantID a) \<and> ai_TenantID a \<noteq> uuid_Nil))"

definition dedicated_of :: "uuid list \<Rightarrow> uuid" where
  "dedicated_of ds = (if ds = [] then uuid_Nil else last ds)"

lemma config_of_dedicated: "ts_dedicatedTenant (tenant_scope_config (map WithDedicatedTenant ds)) = dedicated_of ds"
  by (cases ds rule: rev_cases) (simp_all add: tenant_scope_config_def dedicated_of_def WithDedicatedTenant_def)

lemma tenant_scope_cases:
  assumes "cx_admin ctx = Some a"
  shows "if tenant_allowed (dedicated_of ds) a (ex req)
         then TenantScopeInterceptor ex (map WithDedicatedTenant ds) hdl ctx req w = hdl ctx req w
         else \<exists>err. TenantScopeInterceptor ex (map WithDedicatedTenant ds) hdl ctx req w = (Inl err, w) \<and>
                ce_Code err \<in> {CodeInvalidArgument, CodePermissionDenied}"
  using assms
  by (auto simp: TenantScopeInterceptor_def Let_def config_of_dedicated AdminIdentityFromContext_def tenant_allowed_def HasTenantAccess_def
      NewError_def split: sum.splits)

lemma admin_context_cases:
  "(\<exists>a. presents resolve ctx a \<and> AdminContextInterceptor resolve hdl ctx req w = hdl (WithAdminIdentity ctx a) req w) \<or>
   ((\<nexists>a. presents resolve ctx a) \<and>
    (\<exists>err. AdminContextInterceptor resolve hdl ctx req w = (Inl err, w) \<and>
       ce_Code err \<in> {CodeInternal, CodeUnauthenticated, CodePermissionDenied}))"
  by (cases "cx_tls ctx"; (cases "tl_VerifiedChains (the (cx_tls ctx))"; cases "hd (tl_VerifiedChains (the (cx_tls ctx)))")?)
     (auto simp: AdminContextInterceptor_def TLSConnectionStateFromContext_def ExtractPeerCommonName_def presents_def NewError_def
      split: sum.splits)


text \<open>A tenant administrator asks for the own tenant and for another one.\<close>

definition demo_admin :: admin_identity where
  "demo_admin = \<lparr>ai_SubjectCN = ''admin-acme'', ai_TenantID = ''acme'', ai_IsSuperAdmin = False, ai_Roles = [''tenant_admin'']\<rparr>"

definition demo_tls_context :: request_context where
  "demo_tls_context = WithTLSConnectionState (Some \<lparr>tl_VerifiedChains = [[''admin-acme'']]\<rparr>) context_Background"

definition tenant_request :: "string \<Rightarrow> string any_request" where
  "tenant_request t = \<lparr>rq_Procedure = ''/a.B/C'', rq_Header = [], rq_Msg = t\<rparr>"

definition demo_admin_chain :: "string \<Rightarrow> (rpc_error + unit) \<times> nat" where
  "demo_admin_chain t =
     AdminContextInterceptor (\<lambda>cn. if cn = ''admin-acme'' then Inr demo_admin else Inl ErrUnknownAdmin)
       (TenantScopeInterceptor (\<lambda>r. Inr (rq_Msg r)) (map WithDedicatedTenant []) (\<lambda>_ _ w. (Inr (), Suc w)))
       demo_tls_context (tenant_request t) 0"

lemma demo_presents: "presents (\<lambda>cn. if cn = ''admin-acme'' then Inr demo_admin else Inl ErrUnknownAdmin) demo_tls_context a \<longleftrightarrow> a = demo_admin"
  by (auto simp: presents_def demo_tls_context_def WithTLSConnectionState_def context_Background_def)


text \<open>
  A dedicated deployment is not stricter for tenant administrators: one of another tenant acts on the dedicated tenant,
  which the shared deployment refuses.
\<close>

lemma dedicated_not_stricter:
  assumes "d \<noteq> uuid_Nil" "ai_TenantID a \<noteq> d" "\<not> ai_IsSuperAdmin a"
  shows "tenant_allowed (dedicated_of [d]) a (Inr d)" "\<not> tenant_allowed (dedicated_of []) a (Inr d)"
  using assms by (auto simp: tenant_allowed_def dedicated_of_def)

text \<open>
  The documented administrator chain ends with the audit interceptor, which records requests with session claims. An
  administrator request has none: nothing is ever recorded of it.
\<close>

lemma admin_chain_never_audited:
  assumes "cx_claims ctx = None"
  shows "AdminContextInterceptor resolve (TenantScopeInterceptor ex opts (audit_WrapUnary V public hdl)) ctx req w =
         AdminContextInterceptor resolve (TenantScopeInterceptor ex opts hdl) ctx req w"
proof -
  have "audit_WrapUnary V public hdl c req w = hdl c req w" if "cx_claims c = None" for c
    using that by (auto simp: audit_WrapUnary_def audit_request_def server_ClaimsFromContext_def split: sum.splits prod.splits)
  moreover have "cx_claims (WithAdminIdentity ctx a) = None" for a using assms by (simp add: WithAdminIdentity_def)
  ultimately show ?thesis
    by (auto simp: AdminContextInterceptor_def TenantScopeInterceptor_def Let_def split: sum.splits option.splits)
qed

section \<open>The company a permission is checked for\<close>

text \<open>
  The permission interceptor asks for the company of the session, the handlers act on the company of the message. Whoever may
  administer one company, such as the one created at sign-up, thereby gives any role but the owner's to anybody in any
  other company, and demotes its owner to a member.
\<close>

lemma role_request_parsed:
  "parse_role_request V \<lparr>ro_CompanyId = c, ro_UserId = u, ro_RoleId = r\<rparr> = Inr (c, u, r)"
  if "cl_Parse V c = Inr c" "cl_Parse V u = Inr u" "cl_Parse V r = Inr r"
  using that by (simp add: parse_role_request_def)

lemma foreign_company_admin:
  assumes "carries L m SV req claims" "granted R SV rbacConfig (rq_Procedure req) claims (sw_store w) (sw_enforcer w) e"
    and "R = dev_RBACStore nid" "rq_Procedure req = ''/platform.v1.RBACService/AssignRole''"
    and "rq_Msg req = \<lparr>ro_CompanyId = victim, ro_UserId = u, ro_RoleId = r\<rparr>" "tc_UserID claims \<noteq> []"
    and "cl_Parse V victim = Inr victim" "cl_Parse V u = Inr u" "cl_Parse V r = Inr r" "cl_Parse V (tc_UserID claims) = Inr me"
    and "r \<noteq> OwnerRoleID" "gm_get (ms_rbacRoles (sw_store w)) r = Some role"
  shows "\<exists>w'. dev_chain L m R SV (RBACHandler_AssignRole R V) ctx req w = (Inr (), w') \<and>
              RBACStore_GetUserRole victim u (sw_store w') = Inr role"
proof -
  have np: "\<not> gm_get_or False DefaultPublicProcedures (rq_Procedure req)"
    by (simp add: assms(4) DefaultPublicProcedures_def gm_get_or_def gm_get_def)
  have auth: "authenticate_request L m SV (rq_Header req) = Inr claims" using assms(1) by (simp add: authenticate_iff)
  have perm: "gm_get (ic_ProcedurePermissions rbacConfig) (rq_Procedure req) = Some (perm_of ''settings'' ''admin'')"
    by (simp add: assms(4) rbacConfig_def defaultProcedurePermissions_def gm_get_def)
  have np': "\<not> gm_get_or False (ic_PublicProcedures rbacConfig) (rq_Procedure req)" using np by (simp add: rbacConfig_def)
  have ok: "authorize R SV (perm_of ''settings'' ''admin'') (server_WithClaims ctx claims) w = (None, w\<lparr>sw_enforcer := e\<rparr>)"
    using assms(2) perm by (auto simp: authorize_None_iff granted_def server_WithClaims_def)
  have chain: "dev_chain L m R SV (RBACHandler_AssignRole R V) ctx req w =
      RBACHandler_AssignRole R V (server_WithClaims ctx claims) req (w\<lparr>sw_enforcer := e\<rparr>)"
    using np np' auth perm ok by (simp add: dev_chain_def auth_WrapUnary_def rbac_WrapUnary_def)
  have "fst (ExtractClaims (server_WithClaims ctx claims)) = tc_UserID claims"
    by (simp add: ExtractClaims_def server_WithClaims_def server_ClaimsFromContext_def)
  then show ?thesis
    unfolding chain using assms(3,5-12) role_request_parsed [of V victim u r]
    by (simp add: RBACHandler_AssignRole_def Let_def RbacService_AssignRole_def rbac_part_def with_rbac_part_def dev_RBACStore_def
        RBACStore_AssignRoleToUser_def RBACStore_GetUserRole_def)
qed

text \<open>Deleting a webhook names it alone: the administrator of any company deletes those of every other.\<close>

lemma foreign_webhook_deleted:
  assumes "cl_Parse V wid = Inr wid" "gm_get (ms_webhooks (sw_store w)) wid = Some wh" "rq_Msg req = wid"
  shows "\<exists>w'. WebhookHandler_DeleteWebhook dev_WebhookStore V ctx req w = (Inr (), w') \<and> gm_get (ms_webhooks (sw_store w')) wid = None"
  using assms by (simp add: WebhookHandler_DeleteWebhook_def dev_WebhookStore_def WebhookStore_DeleteWebhook_def)

text \<open>The procedures that start a single sign-on are not public: without a session they are refused.\<close>

lemma sign_on_needs_session:
  assumes "rq_Procedure req \<in> {''/platform.v1.AuthService/InitiateOIDC'', ''/platform.v1.AuthService/InitiateSAML'', ''/platform.v1.AuthService/InitiateSocialLogin''}"
    "\<And>c. \<not> carries L m V req c"
  shows "\<exists>err. dev_chain L m R V hdl ctx req w = (Inl err, w) \<and> ce_Code err = CodeUnauthenticated"
proof -
  have np: "\<not> gm_get_or False DefaultPublicProcedures (rq_Procedure req)"
    using assms(1) by (auto simp: DefaultPublicProcedures_def gm_get_or_def gm_get_def)
  obtain err where err: "authenticate_request L m V (rq_Header req) = Inl err"
    using assms(2) authenticate_iff(1) [of L m V req] by (cases "authenticate_request L m V (rq_Header req)") auto
  then show ?thesis using np authenticate_iff(2) [OF err] by (simp add: dev_chain_def auth_WrapUnary_def)
qed

end
