(* ===== verification/Spec2Isabelle.thy ===== *)
theory Spec2Isabelle
  imports Statemachine Jobs Scheduler Household Consent Access_Properties Company_Properties Webhook_Properties
    Livekit_Properties Issuer_Properties Experience_Properties Feature_Flags Rpauth_Properties Sso_Properties
    Entitlements_Properties Audit_Signature Audit_Pipeline_Properties Identity_Properties Server_Properties
begin

text \<open>
  A verification development for the Eden platform library, the Go code under \<^verbatim>\<open>src/platform\<close> and
  \<^verbatim>\<open>src/internal/aoid\<close>.

  \<^bold>\<open>The program.\<close> The library provides the backend services of a family of multi-tenant products: companies and
  their hierarchy, users and sessions, roles and permissions, households and consents, background jobs and a
  scheduler, webhooks, calls and meetings, an OpenID issuer, feature flags and the experience contract that a
  server and its app binaries share. Around them stand the session tokens with single sign-on and handoff codes, the
  RPC server with its interceptors and handlers, the identity contexts that services pass to each other with the key
  sets they verify them by, the clients for relying parties and entitlements, and the pipeline that signs, buffers and
  forwards audit events. A service holds no state of its own: it calls a store through a Go
  interface, reports to the audit logger, and is driven by request handlers or by goroutines. The in-memory
  backend of \<^verbatim>\<open>platform/devstore\<close> implements five of the store interfaces on one shared state; other packages
  bring their own in-memory store.

  \<^bold>\<open>How it is modelled.\<close> A struct is a record, an enumeration a datatype, an interface a record of operations
  over a state type, an in-memory store the record made of the operations on its state. A call that changes
  state returns its result and the new state; an error is a value, kept with its text and the error it wraps.
  Clock readings, fresh identifiers, random values, hashes, signatures and other code outside the repository
  are arguments. Machine integers are integers with the wrap-around of 64 bits written out where the code can
  reach it. A mutex makes each call atomic: the concurrency of the program is the order of the calls, and the
  properties about runs quantify over every order. What a client relies on is a locale over the interface;
  the client's lemmas are proved in it once, and each in-memory store is shown to be an instance.

  \<^bold>\<open>Theories and sources.\<close>
  \<^item> \<^verbatim>\<open>Go_Prelude\<close>, \<^verbatim>\<open>Go_Strings\<close>, \<^verbatim>\<open>Go_Encoding\<close>, \<^verbatim>\<open>Go_Bignum\<close>, \<^verbatim>\<open>Go_Jwt\<close>: errors, 64-bit arithmetic, maps, and the
    standard-library functions used: strings and number formats, JSON values, base64 and query strings, big integers, the
    registered claims of tokens. \<^verbatim>\<open>Expiring_Cache\<close>: the contract of caches whose entries run out, shared by the clients.
  \<^item> \<^verbatim>\<open>Statemachine\<close>: \<^verbatim>\<open>platform/statemachine\<close>; registration of transitions, \<^verbatim>\<open>Fire\<close> with guards, hooks and the audit
    sink. The log of a machine is the path it took; a refused event leaves no trace.
  \<^item> \<^verbatim>\<open>Jobs\<close>: \<^verbatim>\<open>platform/jobs\<close>; queue, memory store and worker. No two workers run a job at once, dequeuing serves
    the best ready job, a failing job ends after its retries.
  \<^item> \<^verbatim>\<open>Scheduler\<close>: \<^verbatim>\<open>platform/scheduler\<close>; cron parsing and matching on a proleptic calendar, due tasks, and the
    lease that replicas share. The parser's range loop is a partial function; parsing is shown to end for every
    expression.
  \<^item> \<^verbatim>\<open>Audit_Log\<close>: the logger of \<^verbatim>\<open>platform/audit\<close>, with its buffer, flush goroutine and shutdown, and the listing
    service. The stored rows are those of a prefix of the accepted events, in order and each once.
  \<^item> \<^verbatim>\<open>Household\<close>, \<^verbatim>\<open>Consent\<close>: \<^verbatim>\<open>platform/household\<close> and \<^verbatim>\<open>platform/consent\<close> on their stores; the rules on owners, members
    and parents of record, and the append-only ledger.
  \<^item> \<^verbatim>\<open>Rbac\<close>, \<^verbatim>\<open>Auth\<close>, \<^verbatim>\<open>Company\<close>, \<^verbatim>\<open>Webhook\<close>: the services of the packages with these names; \<^verbatim>\<open>Devstore\<close>: the shared
    in-memory backend behind them. \<^verbatim>\<open>Access_Properties\<close>, \<^verbatim>\<open>Session_Properties\<close>, \<^verbatim>\<open>Company_Properties\<close> and
    \<^verbatim>\<open>Webhook_Properties\<close> compose service and backend: roles and the enforcer's cache, sign-up and refresh tokens,
    the closure table of the hierarchy, pausing and retrying of deliveries.
  \<^item> \<^verbatim>\<open>Livekit\<close>: \<^verbatim>\<open>platform/livekit\<close>; calls, meetings, recordings, the ringing timer and the server's notifications.
    \<^verbatim>\<open>Livekit_Spec\<close> is an abstract machine of calls and meetings with its invariants; \<^verbatim>\<open>Livekit_Properties\<close> shows that
    every run of the service on its store is a run of that machine.
  \<^item> \<^verbatim>\<open>Issuer\<close>: \<^verbatim>\<open>internal/aoid/clients\<close> and \<^verbatim>\<open>internal/aoid/issuer\<close> on top of the authentication service; \<^verbatim>\<open>Issuer_Spec\<close>
    traces every stored code and session to the request it comes from, \<^verbatim>\<open>Issuer_Properties\<close> states what a token
    response implies about the past.
  \<^item> \<^verbatim>\<open>Experience\<close>, \<^verbatim>\<open>Experience_Service\<close>: \<^verbatim>\<open>platform/experience\<close>; the first holds scope projection, repositories, version
    negotiation, contract versions and the validators of graphs and presentation, the second tools, agents,
    the resolver, the store, the handlers and the dispatcher. \<^verbatim>\<open>Experience_Versions\<close> and \<^verbatim>\<open>Experience_Properties\<close> show
    the order on versions, isolation of tenants, what a resolved spec renders, and that the content hash is a
    cache key.
  \<^item> \<^verbatim>\<open>Feature_Flags\<close>: \<^verbatim>\<open>platform/feature-flags\<close>; flags, sources and client, and how a flag is decided.
  \<^item> \<^verbatim>\<open>Tokens\<close>, \<^verbatim>\<open>Handoff\<close>, \<^verbatim>\<open>Sso\<close>: \<^verbatim>\<open>jwt.go\<close>, \<^verbatim>\<open>mldsa.go\<close>, \<^verbatim>\<open>require.go\<close>, \<^verbatim>\<open>handoff.go\<close> and \<^verbatim>\<open>sso.go\<close> of \<^verbatim>\<open>platform/auth\<close>.
    \<^verbatim>\<open>Token_Properties\<close>, \<^verbatim>\<open>Handoff_Properties\<close> and \<^verbatim>\<open>Sso_Properties\<close> show the lifetime of tokens across key rotations,
    that a handoff code is spent once in every interleaving, and what a single sign-on implies about the flow it ends.
  \<^item> \<^verbatim>\<open>Server\<close>, \<^verbatim>\<open>Bridge\<close>, \<^verbatim>\<open>Connectapi\<close>: \<^verbatim>\<open>platform/server\<close>, \<^verbatim>\<open>platform/adminauth\<close>, \<^verbatim>\<open>platform/registry\<close>, \<^verbatim>\<open>platform/bridge\<close>
    and \<^verbatim>\<open>platform/connectapi\<close>; interceptors are functions on handlers, so that a chain is a composition.
    \<^verbatim>\<open>Server_Properties\<close> shows exactly which requests reach a handler, by session and by administrator certificate.
  \<^item> \<^verbatim>\<open>Rpauth\<close>, \<^verbatim>\<open>Entitlements\<close> with their \<^verbatim>\<open>_Properties\<close>: \<^verbatim>\<open>platform/rpauth\<close> and \<^verbatim>\<open>platform/entitlements\<close>; the caching
    clients, how long a revoked credential is still honoured, and that a gate answers by the service's recent word.
  \<^item> \<^verbatim>\<open>Jwk_Sets\<close>, \<^verbatim>\<open>Remote_Keys\<close>, \<^verbatim>\<open>Identity\<close> with \<^verbatim>\<open>Jwk_Properties\<close> and \<^verbatim>\<open>Identity_Properties\<close>: \<^verbatim>\<open>platform/auth/jwks\<close> and
    \<^verbatim>\<open>platform/identity\<close>; key sets and their refresh, minting and verification of identity contexts, assurance rules.
  \<^item> \<^verbatim>\<open>Audit_Signing\<close>, \<^verbatim>\<open>Audit_Canonical\<close>, \<^verbatim>\<open>Audit_Signature\<close>, \<^verbatim>\<open>Audit_Pipeline\<close>, \<^verbatim>\<open>Audit_Pipeline_Properties\<close>: the signed
    events of \<^verbatim>\<open>platform/audit\<close>; the canonical encoding determines the event, a verified event was signed, and an
    accepted event is not lost between buffer, re-signing and forwarding.

  \<^bold>\<open>What the lemmas show.\<close> For each component there are invariants kept by every operation, the behaviour of each
  operation with its errors, and for the services with a contract a refinement or a characterisation over all
  runs from the initial state. Each property is followed by a witness that applies it to a concrete run. Where
  the code departs from its documentation, or does not do what it means to, a lemma says so on a concrete
  input: guardians that were removed, links that outlive a household, a refresh token redeemed by another
  client, tools that share an adapter, overrides whose order does not matter, lengths that wrap, refresh tokens that pass
  as access tokens, a permission checked for one company and used in another, administrator requests that leave no
  audit event, events that are skipped and never forwarded.

  \<^bold>\<open>Bounds.\<close> Apart from the range loop above, every loop of the model is structural recursion or has a measure, so
  no definition needs fuel. Lists and strings are unbounded; where the code stores a length or a counter in
  fewer bits, the model truncates it as the code does and the property states the range it needs.

  \<^bold>\<open>Not modelled.\<close>
  \<^item> Stores on PostgreSQL and the generated query code: their behaviour is the database's. The contracts that the
    services rely on are the locales, so the lemmas apply to a database store that meets them.
  \<^item> Generated protocol-buffer and Connect code; the messages of the RPC handlers are records.
  \<^item> Cryptography, the JOSE library, X.509, SAML and XML signatures, key-management clients, HTTP clients of external
    services, logging, metrics, process start-up: the substance is in libraries or in I/O. Where a modelled component
    calls such a library, it is a parameter with its documented behaviour as a named hypothesis.
  \<^item> Floating-point code: the token bucket of \<^verbatim>\<open>platform/ratelimit\<close> and the distances of \<^verbatim>\<open>platform/risk\<close>.
  \<^item> Cancellation of a Go context, and the text escaping of the \<^verbatim>\<open>%q\<close> format. White space and letter case are those
    of ASCII.
  \<^item> Left for extension: social login, the federation hub, the relying party of \<^verbatim>\<open>platform/oidcrp\<close>, the replay store of
    \<^verbatim>\<open>platform/saml\<close>, the billing rail, the policy cache, server-side sessions and API keys.
\<close>

end
